(* ===== verification/Go_Prelude.thy ===== *)
theory Go_Prelude
  imports Main "HOL-Library.Sublist" "HOL-Library.Char_ord" "HOL-Library.List_Lexorder"
begin

text \<open>
  The prelude of the development: what the Go code uses of its language and standard
  library, as executable functions, with the lemmas the component theories share.

  \<^item> Go strings are byte strings: \<open>string\<close>, one \<open>char\<close> per byte.
  \<^item> \<open>strings.Split\<close>, \<open>strings.Join\<close>, \<open>strings.Fields\<close>, \<open>strings.TrimSpace\<close>,
    \<open>strings.ToLower\<close>, \<open>strings.ToUpper\<close>, \<open>strings.Index\<close> and the prefix and
    suffix tests. The case mappings and the white space are those of the ASCII range; a
    byte outside it is kept as it is.
  \<^item> \<open>strconv.ParseUint\<close>, \<open>strconv.ParseInt\<close>, \<open>strconv.Atoi\<close> in base 10 with
    their bit sizes, and decimal and hexadecimal printing.
  \<^item> Fallible operations return a sum, \<open>Inl\<close> for the error and \<open>Inr\<close> for the result;
    \<open>rbind\<close> is the early return \<open>if err != nil { return err }\<close>.
  \<^item> \<open>utf8_decode\<close> is the conversion \<open>[]rune(s)\<close>, \<open>utf8_encode\<close> is \<open>string(r)\<close>.
\<close>

named_theorems go_simps \<open>unfolding rules for the standard-library functions\<close>

type_synonym rune = nat

section \<open>Results\<close>

fun rbind :: "'e + 'a \<Rightarrow> ('a \<Rightarrow> 'e + 'b) \<Rightarrow> 'e + 'b" where
  "rbind (Inl e) f = Inl e"
| "rbind (Inr a) f = f a"

lemma rbind_cong [fundef_cong]:
  "x = y \<Longrightarrow> (\<And>a. y = Inr a \<Longrightarrow> f a = g a) \<Longrightarrow> rbind x f = rbind y g"
  by (cases y) auto

lemma rbind_Inr_iff: "rbind x f = Inr b \<longleftrightarrow> (\<exists>a. x = Inr a \<and> f a = Inr b)"
  by (cases x) auto

lemma rbind_Inl_iff:
  "rbind x f = Inl e \<longleftrightarrow> x = Inl e \<or> (\<exists>a. x = Inr a \<and> f a = Inl e)"
  by (cases x) auto

lemma rbind_assoc: "rbind (rbind x f) g = rbind x (\<lambda>a. rbind (f a) g)"
  by (cases x) auto

section \<open>Prefixes, suffixes, containment\<close>

definition strings_HasPrefix :: "string \<Rightarrow> string \<Rightarrow> bool" where
  "strings_HasPrefix s p = prefix p s"

definition strings_HasSuffix :: "string \<Rightarrow> string \<Rightarrow> bool" where
  "strings_HasSuffix s p = suffix p s"

definition strings_TrimPrefix :: "string \<Rightarrow> string \<Rightarrow> string" where
  "strings_TrimPrefix s p = (if prefix p s then drop (length p) s else s)"

definition strings_TrimSuffix :: "string \<Rightarrow> string \<Rightarrow> string" where
  "strings_TrimSuffix s p = (if suffix p s then take (length s - length p) s else s)"

definition strings_Contains :: "string \<Rightarrow> string \<Rightarrow> bool" where
  "strings_Contains s sub = sublist sub s"

text \<open>\<open>strings.Index(s, c)\<close> for a one-byte pattern; \<open>None\<close> is Go's \<open>-1\<close>.\<close>

definition strings_Index :: "string \<Rightarrow> char \<Rightarrow> nat option" where
  "strings_Index s c =
     (if c \<in> set s then Some (length (takeWhile (\<lambda>x. x \<noteq> c) s)) else None)"

declare strings_HasPrefix_def [go_simps] strings_HasSuffix_def [go_simps]
  strings_TrimPrefix_def [go_simps] strings_TrimSuffix_def [go_simps]

lemma strings_Contains_single [simp, go_simps]: "strings_Contains s [c] \<longleftrightarrow> c \<in> set s"
proof
  assume "strings_Contains s [c]"
  then show "c \<in> set s" by (auto simp: strings_Contains_def sublist_def)
next
  assume "c \<in> set s"
  then obtain xs ys where "s = xs @ c # ys" by (auto dest: split_list)
  then have "s = xs @ [c] @ ys" by simp
  then show "strings_Contains s [c]"
    by (simp only: strings_Contains_def sublist_appendI)
qed

lemma prefix_same_cases: "prefix p (p @ s)"
  by simp

lemma strings_TrimPrefix_append [simp]: "strings_TrimPrefix (p @ s) p = s"
  by (simp add: strings_TrimPrefix_def)

lemma strings_HasPrefix_append [simp]: "strings_HasPrefix (p @ s) p"
  by (simp add: strings_HasPrefix_def)

lemma strings_Index_append:
  assumes "c \<notin> set a"
  shows "strings_Index (a @ c # b) c = Some (length a)"
proof -
  have "takeWhile (\<lambda>x. x \<noteq> c) (a @ c # b) = a"
    using assms by (induction a) auto
  then show ?thesis by (simp add: strings_Index_def)
qed

lemma strings_Index_None: "strings_Index s c = None \<longleftrightarrow> c \<notin> set s"
  by (simp add: strings_Index_def)

lemma strings_Index_Some:
  "strings_Index s c = Some i \<Longrightarrow> i < length s \<and> s ! i = c \<and> c \<notin> set (take i s)"
proof -
  assume ix: "strings_Index s c = Some i"
  then have "c \<in> set s" by (auto simp: strings_Index_def split: if_splits)
  then obtain a b where s: "s = a @ c # b" and a: "c \<notin> set a"
    by (auto dest: split_list_first)
  then have "i = length a" using ix strings_Index_append [of c a b] by simp
  with s a show ?thesis by simp
qed

section \<open>Splitting and joining\<close>

fun strings_Split :: "string \<Rightarrow> char \<Rightarrow> string list" where
  "strings_Split [] c = [[]]"
| "strings_Split (x # xs) c =
     (if x = c then [] # strings_Split xs c
      else (case strings_Split xs c of [] \<Rightarrow> [[x]] | y # ys \<Rightarrow> (x # y) # ys))"

fun strings_Join :: "string list \<Rightarrow> string \<Rightarrow> string" where
  "strings_Join [] sep = []"
| "strings_Join [x] sep = x"
| "strings_Join (x # y # ys) sep = x @ sep @ strings_Join (y # ys) sep"

lemma strings_Split_neq_Nil [simp]: "strings_Split s c \<noteq> []"
  by (induction s) (auto split: list.splits)

lemma strings_Split_no_sep: "p \<in> set (strings_Split s c) \<Longrightarrow> c \<notin> set p"
  by (induction s arbitrary: p) (auto split: list.splits if_splits)

lemma strings_Split_single: "c \<notin> set s \<Longrightarrow> strings_Split s c = [s]"
  by (induction s) auto

lemma strings_Split_append:
  "c \<notin> set a \<Longrightarrow> strings_Split (a @ c # b) c = a # strings_Split b c"
  by (induction a) auto

lemma strings_Split_Join:
  "xs \<noteq> [] \<Longrightarrow> (\<forall>x \<in> set xs. c \<notin> set x) \<Longrightarrow> strings_Split (strings_Join xs [c]) c = xs"
proof (induction xs "[c]" rule: strings_Join.induct)
  case (3 x y ys)
  then show ?case by (simp add: strings_Split_append)
qed (auto simp: strings_Split_single)

lemma strings_Join_Split: "strings_Join (strings_Split s c) [c] = s"
proof (induction s)
  case (Cons a s)
  obtain y ys where y: "strings_Split s c = y # ys"
    using strings_Split_neq_Nil by (cases "strings_Split s c") auto
  then show ?case using Cons by (cases ys) auto
qed simp

section \<open>White space and letter case\<close>

definition is_space :: "char \<Rightarrow> bool" where
  "is_space c \<longleftrightarrow> (let n = (of_char c :: nat) in (9 \<le> n \<and> n \<le> 13) \<or> n = 32)"

definition strings_TrimSpace :: "string \<Rightarrow> string" where
  "strings_TrimSpace s = rev (dropWhile is_space (rev (dropWhile is_space s)))"

fun strings_Fields :: "string \<Rightarrow> string list" where
  "strings_Fields [] = []"
| "strings_Fields (x # xs) =
     (if is_space x then strings_Fields xs
      else (case xs of
              [] \<Rightarrow> [[x]]
            | y # _ \<Rightarrow>
                (if is_space y then [x] # strings_Fields xs
                 else (case strings_Fields xs of
                         [] \<Rightarrow> [[x]]
                       | f # fs \<Rightarrow> (x # f) # fs))))"

definition to_lower :: "char \<Rightarrow> char" where
  "to_lower c = (let n = (of_char c :: nat) in
     if 65 \<le> n \<and> n \<le> 90 then char_of (n + 32) else c)"

definition to_upper :: "char \<Rightarrow> char" where
  "to_upper c = (let n = (of_char c :: nat) in
     if 97 \<le> n \<and> n \<le> 122 then char_of (n - 32) else c)"

definition strings_ToLower :: "string \<Rightarrow> string" where
  "strings_ToLower s = map to_lower s"

definition strings_ToUpper :: "string \<Rightarrow> string" where
  "strings_ToUpper s = map to_upper s"

definition strings_EqualFold :: "string \<Rightarrow> string \<Rightarrow> bool" where
  "strings_EqualFold s t = (strings_ToLower s = strings_ToLower t)"

declare strings_ToLower_def [go_simps] strings_ToUpper_def [go_simps]
  strings_TrimSpace_def [go_simps] is_space_def [go_simps]
  to_lower_def [go_simps] to_upper_def [go_simps]

lemma dropWhile_id: "(xs = [] \<or> \<not> P (hd xs)) \<Longrightarrow> dropWhile P xs = xs"
  by (cases xs) auto

lemma hd_dropWhile_not: "dropWhile P xs \<noteq> [] \<Longrightarrow> \<not> P (hd (dropWhile P xs))"
  by (rule hd_dropWhile)

lemma strings_TrimSpace_id:
  "s = [] \<or> (\<not> is_space (hd s) \<and> \<not> is_space (last s)) \<Longrightarrow> strings_TrimSpace s = s"
  by (auto simp: strings_TrimSpace_def dropWhile_id hd_rev)

lemma strings_TrimSpace_no_space:
  "(\<forall>c \<in> set s. \<not> is_space c) \<Longrightarrow> strings_TrimSpace s = s"
  by (rule strings_TrimSpace_id) (cases s; auto)

lemma strings_TrimSpace_ends:
  "strings_TrimSpace s = t \<Longrightarrow> t \<noteq> [] \<Longrightarrow> \<not> is_space (hd t) \<and> \<not> is_space (last t)"
proof -
  assume t: "strings_TrimSpace s = t" and ne: "t \<noteq> []"
  let ?u = "dropWhile is_space s"
  have eq: "t = rev (dropWhile is_space (rev ?u))"
    using t by (simp add: strings_TrimSpace_def)
  then have d: "dropWhile is_space (rev ?u) \<noteq> []" using ne by auto
  then have l: "\<not> is_space (last t)"
    using eq hd_dropWhile by (metis last_rev)
  obtain zs where zs: "rev ?u = zs @ dropWhile is_space (rev ?u)"
    using takeWhile_dropWhile_id by metis
  then have "?u = t @ rev zs" using eq by (metis rev_append rev_rev_ident)
  then have "hd t = hd ?u" and "?u \<noteq> []" using ne by auto
  then have "\<not> is_space (hd t)" using hd_dropWhile by metis
  with l show ?thesis by simp
qed

lemma strings_TrimSpace_idem [simp]:
  "strings_TrimSpace (strings_TrimSpace s) = strings_TrimSpace s"
  using strings_TrimSpace_ends by (intro strings_TrimSpace_id) blast

lemma set_strings_TrimSpace: "set (strings_TrimSpace s) \<subseteq> set s"
  by (auto simp: strings_TrimSpace_def dest!: set_dropWhileD)

lemma to_lower_idem [simp]: "to_lower (to_lower c) = to_lower c"
  by (auto simp: to_lower_def Let_def)

lemma to_upper_idem [simp]: "to_upper (to_upper c) = to_upper c"
  by (auto simp: to_upper_def Let_def)

lemma strings_ToUpper_idem [simp]: "strings_ToUpper (strings_ToUpper s) = strings_ToUpper s"
  by (simp add: strings_ToUpper_def)

lemma strings_ToLower_idem [simp]: "strings_ToLower (strings_ToLower s) = strings_ToLower s"
  by (simp add: strings_ToLower_def)

lemma length_strings_ToLower [simp]: "length (strings_ToLower s) = length s"
  by (simp add: strings_ToLower_def)

section \<open>Decimal numbers\<close>

definition is_digit :: "char \<Rightarrow> bool" where
  "is_digit c \<longleftrightarrow> (let n = (of_char c :: nat) in 48 \<le> n \<and> n \<le> 57)"

definition digit_val :: "char \<Rightarrow> nat" where
  "digit_val c = of_char c - 48"

definition digit_char :: "nat \<Rightarrow> char" where
  "digit_char d = char_of (48 + d)"

definition dec_value :: "string \<Rightarrow> nat" where
  "dec_value s = foldl (\<lambda>n c. 10 * n + digit_val c) 0 s"

definition strconv_ParseUint :: "string \<Rightarrow> nat \<Rightarrow> nat option" where
  "strconv_ParseUint s bits =
     (if s = [] \<or> \<not> list_all is_digit s then None
      else if dec_value s < 2 ^ bits then Some (dec_value s) else None)"

declare is_digit_def [go_simps] digit_val_def [go_simps] dec_value_def [go_simps]
  strconv_ParseUint_def [go_simps] strings_Index_def [go_simps]

text \<open>\<open>strconv.ParseInt(s, 10, 64)\<close> and \<open>strconv.Atoi\<close>: an optional sign, then digits.\<close>

definition strconv_ParseInt64 :: "string \<Rightarrow> int option" where
  "strconv_ParseInt64 s =
     (case s of
        [] \<Rightarrow> None
      | c # cs \<Rightarrow>
          (let neg = (c = CHR ''-''); ds = (if c = CHR ''-'' \<or> c = CHR ''+'' then cs else s)
           in (case strconv_ParseUint ds 64 of
                 None \<Rightarrow> None
               | Some n \<Rightarrow>
                   (if neg then (if n \<le> 2 ^ 63 then Some (- int n) else None)
                    else (if n < 2 ^ 63 then Some (int n) else None)))))"

definition strconv_Atoi :: "string \<Rightarrow> int option" where
  "strconv_Atoi s = strconv_ParseInt64 s"

declare strconv_ParseInt64_def [go_simps] strconv_Atoi_def [go_simps]

fun strconv_Itoa :: "nat \<Rightarrow> string" where
  "strconv_Itoa n =
     (if n < 10 then [digit_char n] else strconv_Itoa (n div 10) @ [digit_char (n mod 10)])"

declare strconv_Itoa.simps [simp del]

definition hex_char :: "nat \<Rightarrow> char" where
  "hex_char d = (if d < 10 then char_of (48 + d) else char_of (87 + d))"

text \<open>The verb \<open>%x\<close> of an unsigned number: lower case, no leading zeros.\<close>

fun fmt_hex :: "nat \<Rightarrow> string" where
  "fmt_hex n = (if n < 16 then [hex_char n] else fmt_hex (n div 16) @ [hex_char (n mod 16)])"

declare fmt_hex.simps [simp del]

lemma of_char_digit_char: "d < 10 \<Longrightarrow> (of_char (digit_char d) :: nat) = 48 + d"
  by (simp add: digit_char_def)

lemma is_digit_digit_char [simp]: "d < 10 \<Longrightarrow> is_digit (digit_char d)"
  by (simp add: is_digit_def of_char_digit_char)

lemma digit_val_digit_char [simp]: "d < 10 \<Longrightarrow> digit_val (digit_char d) = d"
  by (simp add: digit_val_def of_char_digit_char)

lemma dec_value_snoc: "dec_value (s @ [c]) = 10 * dec_value s + digit_val c"
  by (simp add: dec_value_def)

lemma dec_value_Itoa [simp]: "dec_value (strconv_Itoa n) = n"
proof (induction n rule: strconv_Itoa.induct)
  case (1 n)
  show ?case
  proof (cases "n < 10")
    case True
    then show ?thesis by (subst strconv_Itoa.simps) (simp add: dec_value_def)
  next
    case False
    then have "dec_value (strconv_Itoa (n div 10)) = n div 10" using 1 by simp
    then show ?thesis using False by (subst strconv_Itoa.simps) (simp add: dec_value_snoc)
  qed
qed

lemma Itoa_digits: "list_all is_digit (strconv_Itoa n)"
proof (induction n rule: strconv_Itoa.induct)
  case (1 n)
  then show ?case
    by (cases "n < 10") (subst strconv_Itoa.simps, simp)+
qed

lemma Itoa_neq_Nil [simp]: "strconv_Itoa n \<noteq> []"
  by (subst strconv_Itoa.simps) simp

lemma ParseUint_Itoa: "n < 2 ^ bits \<Longrightarrow> strconv_ParseUint (strconv_Itoa n) bits = Some n"
  by (simp add: strconv_ParseUint_def Itoa_digits)

lemma ParseUint_bound: "strconv_ParseUint s bits = Some n \<Longrightarrow> n < 2 ^ bits"
  by (auto simp: strconv_ParseUint_def split: if_splits)

lemma Itoa_inj: "strconv_Itoa a = strconv_Itoa b \<Longrightarrow> a = b"
  by (metis dec_value_Itoa)

lemma is_digit_not_sign: "is_digit c \<Longrightarrow> c \<noteq> CHR ''-'' \<and> c \<noteq> CHR ''+''"
  by (auto simp: is_digit_def)

lemma ParseInt64_digits:
  assumes "s \<noteq> []" "list_all is_digit s"
  shows "strconv_ParseInt64 s = (if dec_value s < 2 ^ 63 then Some (int (dec_value s)) else None)"
proof -
  obtain c cs where s: "s = c # cs" using assms by (cases s) auto
  have c: "c \<noteq> CHR ''-''" "c \<noteq> CHR ''+''"
    using assms s is_digit_not_sign by (metis list.pred_inject(2))+
  have "strconv_ParseUint s 64 = (if dec_value s < 2 ^ 64 then Some (dec_value s) else None)"
    using assms by (simp add: strconv_ParseUint_def)
  then show ?thesis using s c by (simp add: strconv_ParseInt64_def)
qed

lemma ParseInt64_bounds: "strconv_ParseInt64 s = Some i \<Longrightarrow> - (2 ^ 63) \<le> i \<and> i < 2 ^ 63"
  by (auto simp: strconv_ParseInt64_def Let_def split: list.splits option.splits if_splits)

section \<open>UTF-8\<close>

text \<open>
  \<open>[]rune(s)\<close>: the code points of a byte string. An invalid sequence contributes the
  replacement rune 65533 for its first byte, and decoding goes on with the next byte.
\<close>

definition is_cont :: "char \<Rightarrow> bool" where
  "is_cont c \<longleftrightarrow> (let n = (of_char c :: nat) in 128 \<le> n \<and> n < 192)"

definition utf8_step :: "string \<Rightarrow> rune \<times> nat" where
  "utf8_step s =
     (case s of
        [] \<Rightarrow> (65533, 1)
      | a # as \<Rightarrow>
          (let n = (of_char a :: nat) in
           if n < 128 then (n, 1)
           else (case as of
              [] \<Rightarrow> (65533, 1)
            | b # bs \<Rightarrow>
                (let m = (of_char b :: nat) in
                 if 194 \<le> n \<and> n < 224 \<and> is_cont b then ((n - 192) * 64 + (m - 128), 2)
                 else (case bs of
                    [] \<Rightarrow> (65533, 1)
                  | c # cs \<Rightarrow>
                      (let k = (of_char c :: nat) in
                       if 224 \<le> n \<and> n < 240 \<and> is_cont b \<and> is_cont c
                          \<and> (n = 224 \<longrightarrow> 160 \<le> m) \<and> (n = 237 \<longrightarrow> m < 160)
                       then ((n - 224) * 4096 + (m - 128) * 64 + (k - 128), 3)
                       else (case cs of
                          [] \<Rightarrow> (65533, 1)
                        | d # _ \<Rightarrow>
                            (if 240 \<le> n \<and> n < 245 \<and> is_cont b \<and> is_cont c \<and> is_cont d
                                \<and> (n = 240 \<longrightarrow> 144 \<le> m) \<and> (n = 244 \<longrightarrow> m < 144)
                             then ((n - 240) * 262144 + (m - 128) * 4096 + (k - 128) * 64
                                     + (of_char d - 128), 4)
                             else (65533, 1)))))))))"

fun utf8_decode_fuel :: "nat \<Rightarrow> string \<Rightarrow> rune list" where
  "utf8_decode_fuel 0 s = []"
| "utf8_decode_fuel (Suc k) s =
     (if s = [] then []
      else (let (r, w) = utf8_step s in r # utf8_decode_fuel k (drop w s)))"

definition utf8_decode :: "string \<Rightarrow> rune list" where
  "utf8_decode s = utf8_decode_fuel (length s) s"

text \<open>\<open>string(r)\<close> and \<open>WriteRune\<close>; surrogates and values out of range encode 65533.\<close>

definition utf8_encode :: "rune \<Rightarrow> string" where
  "utf8_encode r =
     (if r < 128 then [char_of r]
      else if r < 2048 then [char_of (192 + r div 64), char_of (128 + r mod 64)]
      else (let q = (if 1114111 < r \<or> (55296 \<le> r \<and> r < 57344) then 65533 else r) in
        if q < 65536
        then [char_of (224 + q div 4096), char_of (128 + q div 64 mod 64), char_of (128 + q mod 64)]
        else [char_of (240 + q div 262144), char_of (128 + q div 4096 mod 64),
              char_of (128 + q div 64 mod 64), char_of (128 + q mod 64)]))"

definition is_ascii :: "string \<Rightarrow> bool" where
  "is_ascii s \<longleftrightarrow> list_all (\<lambda>c. (of_char c :: nat) < 128) s"

lemma utf8_decode_fuel_ascii:
  "is_ascii s \<Longrightarrow> length s \<le> k \<Longrightarrow> utf8_decode_fuel k s = map of_char s"
proof (induction s arbitrary: k)
  case Nil
  then show ?case by (cases k) auto
next
  case (Cons a s)
  then obtain k' where "k = Suc k'" by (cases k) auto
  with Cons show ?case by (simp add: is_ascii_def utf8_step_def)
qed

lemma utf8_decode_ascii: "is_ascii s \<Longrightarrow> utf8_decode s = map of_char s"
  by (simp add: utf8_decode_def utf8_decode_fuel_ascii)

lemma utf8_step_width: "1 \<le> snd (utf8_step s)"
  by (auto simp: utf8_step_def Let_def split: list.splits)

lemma utf8_encode_ascii: "r < 128 \<Longrightarrow> utf8_encode r = [char_of r]"
  by (simp add: utf8_encode_def)

lemma utf8_encode_of_char: "(of_char c :: nat) < 128 \<Longrightarrow> utf8_encode (of_char c) = [c]"
  by (simp add: utf8_encode_def)

lemma concat_encode_ascii: "is_ascii s \<Longrightarrow> concat (map (\<lambda>c. utf8_encode (of_char c)) s) = s"
  by (induction s) (auto simp: is_ascii_def utf8_encode_of_char)

end
