(* ===== verification/Policy_Lexer.thy ===== *)
theory Policy_Lexer
  imports Go_Prelude
begin

text \<open>
  The policy language, first stage: \<open>backend/internal/policy/lexer.go\<close>.

  The lexer works on the runes of the source text. Its state is the slice of runes from
  \<open>pos\<close> on, with the current line and column. \<open>unicode.IsLetter\<close> and
  \<open>unicode.IsDigit\<close> are written out for the runes below 256; above, the Unicode tables are
  the fields of the argument \<open>uni\<close>.
\<close>

section \<open>Runes\<close>

record unicode_tables =
  letter_above :: "rune \<Rightarrow> bool"
  digit_above :: "rune \<Rightarrow> bool"

definition unicode_IsLetter :: "unicode_tables \<Rightarrow> rune \<Rightarrow> bool" where
  "unicode_IsLetter uni r =
     (if r < 256 then (65 \<le> r \<and> r \<le> 90) \<or> (97 \<le> r \<and> r \<le> 122) \<or> r = 170 \<or> r = 181 \<or> r = 186
        \<or> (192 \<le> r \<and> r \<noteq> 215 \<and> r \<noteq> 247)
      else letter_above uni r)"

definition unicode_IsDigit :: "unicode_tables \<Rightarrow> rune \<Rightarrow> bool" where
  "unicode_IsDigit uni r = (if r < 256 then 48 \<le> r \<and> r \<le> 57 else digit_above uni r)"

definition unicode_IsSpace :: "rune \<Rightarrow> bool" where
  "unicode_IsSpace r \<longleftrightarrow> (9 \<le> r \<and> r \<le> 13) \<or> r = 32 \<or> r = 133 \<or> r = 160 \<or> r = 5760
     \<or> (8192 \<le> r \<and> r \<le> 8202) \<or> r = 8232 \<or> r = 8233 \<or> r = 8239 \<or> r = 8287 \<or> r = 12288"

definition ch :: "char \<Rightarrow> rune" where
  "ch c = of_char c"

section \<open>Tokens and the lexer state\<close>

datatype tokenKind = tkEOF | tkIdent | tkString | tkNumber | tkPunct | tkKeyword

record token =
  Kind :: tokenKind
  TValue :: string
  Line :: nat
  Col :: nat

definition policy_keywords :: "string list" where
  "policy_keywords = [''policy'', ''allow'', ''block'', ''log'', ''if'', ''and'', ''or'', ''not'', ''in'']"

record lexer =
  src :: "rune list"
  line :: nat
  col :: nat

definition newLexer :: "string \<Rightarrow> lexer" where
  "newLexer s = \<lparr>src = utf8_decode s, line = 1, col = 1\<rparr>"

definition lexer_peek :: "lexer \<Rightarrow> rune" where
  "lexer_peek l = (case src l of [] \<Rightarrow> 0 | r # _ \<Rightarrow> r)"

definition lexer_advance :: "lexer \<Rightarrow> rune \<times> lexer" where
  "lexer_advance l =
     (case src l of
        [] \<Rightarrow> (0, l)
      | r # rest \<Rightarrow>
          (r, if r = 10 then \<lparr>src = rest, line = line l + 1, col = 1\<rparr>
              else \<lparr>src = rest, line = line l, col = col l + 1\<rparr>))"

datatype lex_error =
    UnexpectedChar nat nat rune
  | TrailingBackslash nat nat
  | UnknownEscape nat rune
  | UnterminatedString nat nat

lemma advance_Cons:
  "src l = r # rest \<Longrightarrow> fst (lexer_advance l) = r \<and> src (snd (lexer_advance l)) = rest"
  by (simp add: lexer_advance_def)

lemma advance_shorter: "src l \<noteq> [] \<Longrightarrow> length (src (snd (lexer_advance l))) < length (src l)"
  by (cases "src l") (auto simp: lexer_advance_def)

section \<open>White space and comments\<close>

text \<open>The inner loop that runs to the end of a comment's line.\<close>

function skip_line :: "lexer \<Rightarrow> lexer" where
  "skip_line l =
     (if src l \<noteq> [] \<and> lexer_peek l \<noteq> 10 then skip_line (snd (lexer_advance l)) else l)"
  by pat_completeness auto
termination
  by (relation "measure (\<lambda>l. length (src l))") (auto simp: advance_shorter)

declare skip_line.simps [simp del]

lemma skip_line_le: "length (src (skip_line l)) \<le> length (src l)"
proof (induction l rule: skip_line.induct)
  case (1 l)
  then show ?case using advance_shorter [of l] by (subst skip_line.simps) auto
qed

lemma skip_line_shorter: "src l \<noteq> [] \<Longrightarrow> lexer_peek l \<noteq> 10 \<Longrightarrow> length (src (skip_line l)) < length (src l)"
  using skip_line_le [of "snd (lexer_advance l)"] advance_shorter [of l]
  by (subst skip_line.simps) simp

function skipWhitespaceAndComments :: "lexer \<Rightarrow> lexer" where
  "skipWhitespaceAndComments l =
     (if src l = [] then l
      else (let r = lexer_peek l in
            if unicode_IsSpace r then skipWhitespaceAndComments (snd (lexer_advance l))
            else if r = ch CHR ''#'' then skipWhitespaceAndComments (skip_line l)
            else if r = ch CHR ''/'' \<and> 1 < length (src l) \<and> src l ! 1 = ch CHR ''/''
            then skipWhitespaceAndComments (skip_line l)
            else l))"
  by pat_completeness auto
termination
  by (relation "measure (\<lambda>l. length (src l))")
    (auto simp: advance_shorter ch_def intro!: skip_line_shorter)

declare skipWhitespaceAndComments.simps [simp del]

lemma skipWhitespaceAndComments_le: "length (src (skipWhitespaceAndComments l)) \<le> length (src l)"
proof (induction l rule: skipWhitespaceAndComments.induct)
  case (1 l)
  then show ?case
    using advance_shorter [of l] skip_line_le [of l]
    by (subst skipWhitespaceAndComments.simps) (auto simp: Let_def)
qed

section \<open>The four token scanners\<close>

function lexString_loop :: "nat \<Rightarrow> nat \<Rightarrow> string \<Rightarrow> lexer \<Rightarrow> lex_error + token \<times> lexer" where
  "lexString_loop ln cl b l =
     (if src l = [] then Inl (UnterminatedString ln cl)
      else (let (r, l1) = lexer_advance l in
            if r = ch CHR ''\"'' then
              Inr (\<lparr>Kind = tkString, TValue = b, Line = ln, Col = cl\<rparr>, l1)
            else if r = 92 then
              (if src l1 = [] then Inl (TrailingBackslash ln cl)
               else (let (nxt, l2) = lexer_advance l1 in
                     if nxt = ch CHR ''\"'' \<or> nxt = 92 then lexString_loop ln cl (b @ utf8_encode nxt) l2
                     else if nxt = ch CHR ''n'' then lexString_loop ln cl (b @ [CHR 10]) l2
                     else if nxt = ch CHR ''t'' then lexString_loop ln cl (b @ [CHR 9]) l2
                     else Inl (UnknownEscape ln nxt)))
            else lexString_loop ln cl (b @ utf8_encode r) l1))"
  by pat_completeness auto
termination
proof (relation "measure (\<lambda>(ln, cl, b, l). length (src l))", goal_cases)
  case 1
  then show ?case by simp
next
  case (2 ln cl b l x r l1 y nxt l2)
  then have "length (src l2) < length (src l1)" "length (src l1) < length (src l)"
    using advance_shorter [of l] advance_shorter [of l1] by (metis snd_conv)+
  then show ?case by simp
next
  case (3 ln cl b l x r l1 y nxt l2)
  then have "length (src l2) < length (src l1)" "length (src l1) < length (src l)"
    using advance_shorter [of l] advance_shorter [of l1] by (metis snd_conv)+
  then show ?case by simp
next
  case (4 ln cl b l x r l1 y nxt l2)
  then have "length (src l2) < length (src l1)" "length (src l1) < length (src l)"
    using advance_shorter [of l] advance_shorter [of l1] by (metis snd_conv)+
  then show ?case by simp
next
  case (5 ln cl b l x r l1)
  then show ?case using advance_shorter [of l] by (metis in_measure case_prod_conv snd_conv)
qed

declare lexString_loop.simps [simp del]

definition lexString :: "nat \<Rightarrow> nat \<Rightarrow> lexer \<Rightarrow> lex_error + token \<times> lexer" where
  "lexString ln cl l = lexString_loop ln cl [] (snd (lexer_advance l))"

text \<open>The loop shared by \<open>lexIdent\<close> and \<open>lexNumber\<close>: runes as long as \<open>P\<close> holds.\<close>

function lex_run :: "(rune \<Rightarrow> bool) \<Rightarrow> string \<Rightarrow> lexer \<Rightarrow> string \<times> lexer" where
  "lex_run P b l =
     (if src l \<noteq> [] \<and> P (lexer_peek l)
      then (let (r, l1) = lexer_advance l in lex_run P (b @ utf8_encode r) l1)
      else (b, l))"
  by pat_completeness auto
termination
proof (relation "measure (\<lambda>(P, b, l). length (src l))", goal_cases)
  case (2 P b l x r l1)
  then show ?case using advance_shorter [of l] by (metis in_measure case_prod_conv snd_conv)
qed simp

declare lex_run.simps [simp del]

definition ident_rune :: "unicode_tables \<Rightarrow> rune \<Rightarrow> bool" where
  "ident_rune uni r \<longleftrightarrow> unicode_IsLetter uni r \<or> unicode_IsDigit uni r \<or> r = ch CHR ''_''"

definition lexIdent :: "unicode_tables \<Rightarrow> nat \<Rightarrow> nat \<Rightarrow> lexer \<Rightarrow> token \<times> lexer" where
  "lexIdent uni ln cl l =
     (let (val, l1) = lex_run (ident_rune uni) [] l in
      (\<lparr>Kind = (if val \<in> set policy_keywords then tkKeyword else tkIdent), TValue = val, Line = ln, Col = cl\<rparr>, l1))"

definition lexNumber :: "unicode_tables \<Rightarrow> nat \<Rightarrow> nat \<Rightarrow> lexer \<Rightarrow> token \<times> lexer" where
  "lexNumber uni ln cl l =
     (let (val, l1) = lex_run (unicode_IsDigit uni) [] l in
      (\<lparr>Kind = tkNumber, TValue = val, Line = ln, Col = cl\<rparr>, l1))"

definition isPunctStart :: "rune \<Rightarrow> bool" where
  "isPunctStart r \<longleftrightarrow> r \<in> set (map ch ''{}[](),=!<>'')"

definition lexPunct :: "nat \<Rightarrow> nat \<Rightarrow> lexer \<Rightarrow> token \<times> lexer" where
  "lexPunct ln cl l =
     (let (r, l1) = lexer_advance l;
          two = utf8_encode r @ utf8_encode (lexer_peek l1) in
      if src l1 \<noteq> [] \<and> two \<in> {''=='', ''!='', ''<='', ''>=''}
      then (\<lparr>Kind = tkPunct, TValue = two, Line = ln, Col = cl\<rparr>, snd (lexer_advance l1))
      else (\<lparr>Kind = tkPunct, TValue = utf8_encode r, Line = ln, Col = cl\<rparr>, l1))"

section \<open>The next token\<close>

definition lexer_next :: "unicode_tables \<Rightarrow> lexer \<Rightarrow> lex_error + token \<times> lexer" where
  "lexer_next uni l0 =
     (let l = skipWhitespaceAndComments l0 in
      if src l = [] then Inr (\<lparr>Kind = tkEOF, TValue = [], Line = line l, Col = col l\<rparr>, l)
      else (let r = lexer_peek l in
            if r = ch CHR ''\"'' then lexString (line l) (col l) l
            else if unicode_IsLetter uni r \<or> r = ch CHR ''_'' then Inr (lexIdent uni (line l) (col l) l)
            else if unicode_IsDigit uni r then Inr (lexNumber uni (line l) (col l) l)
            else if isPunctStart r then Inr (lexPunct (line l) (col l) l)
            else Inl (UnexpectedChar (line l) (col l) r)))"


section \<open>Progress\<close>

lemma lexString_loop_le:
  "lexString_loop ln cl b l = Inr (t, l') \<Longrightarrow> length (src l') \<le> length (src l) \<and> Kind t = tkString"
proof (induction ln cl b l rule: lexString_loop.induct)
  case (1 ln cl b l)
  obtain r l1 where a1: "lexer_advance l = (r, l1)" by (cases "lexer_advance l")
  obtain nxt l2 where a2: "lexer_advance l1 = (nxt, l2)" by (cases "lexer_advance l1")
  have ne: "src l \<noteq> []" using 1(5) by (subst (asm) lexString_loop.simps) (auto split: if_splits)
  have s1: "length (src l1) < length (src l)" using advance_shorter [OF ne] a1 by simp
  have s2: "src l1 \<noteq> [] \<Longrightarrow> length (src l2) < length (src l1)" using advance_shorter [of l1] a2 by simp
  note IH = 1(1-4) [OF ne a1 [symmetric] refl]
  show ?case
  proof (cases "r = ch CHR ''\"''")
    case True
    then show ?thesis using 1(5) ne a1 s1 by (subst (asm) lexString_loop.simps) auto
  next
    case q: False
    show ?thesis
    proof (cases "r = 92")
      case True
      have ne1: "src l1 \<noteq> []"
        using 1(5) ne a1 q True by (subst (asm) lexString_loop.simps) (auto split: if_splits)
      note IH2 = 1(1-3) [OF ne a1 [symmetric] refl q True ne1 a2 [symmetric] refl]
      show ?thesis
        using 1(5) IH2 ne ne1 a1 a2 q True s1 s2 [OF ne1]
        by (subst (asm) lexString_loop.simps) (auto split: if_splits)
    next
      case False
      then show ?thesis
        using 1(5) 1(4) [OF ne a1 [symmetric] refl q False] ne a1 q s1
        by (subst (asm) lexString_loop.simps) auto
    qed
  qed
qed

lemma lex_run_le: "length (src (snd (lex_run P b l))) \<le> length (src l)"
proof (induction P b l rule: lex_run.induct)
  case (1 P b l)
  obtain r l1 where a: "lexer_advance l = (r, l1)" by (cases "lexer_advance l")
  then show ?case using 1 [OF _ a [symmetric] refl] advance_shorter [of l]
    by (subst lex_run.simps) auto
qed

lemma lex_run_shorter:
  assumes "src l \<noteq> []" "P (lexer_peek l)"
  shows "length (src (snd (lex_run P b l))) < length (src l)"
proof -
  obtain r l1 where a: "lexer_advance l = (r, l1)" by (cases "lexer_advance l")
  have "lex_run P b l = lex_run P (b @ utf8_encode r) l1"
    using assms a by (subst lex_run.simps) simp
  then show ?thesis
    using lex_run_le [of P "b @ utf8_encode r" l1] advance_shorter [OF assms(1)] a by simp
qed

lemma lexPunct_shorter: "src l \<noteq> [] \<Longrightarrow> length (src (snd (lexPunct ln cl l))) < length (src l)"
  using advance_shorter [of l] advance_shorter [of "snd (lexer_advance l)"]
  by (cases "lexer_advance l") (auto simp: lexPunct_def Let_def)

lemma lexer_next_shorter:
  assumes "lexer_next uni l0 = Inr (t, l')" "Kind t \<noteq> tkEOF"
  shows "length (src l') < length (src l0)"
proof -
  let ?l = "skipWhitespaceAndComments l0" and ?r = "lexer_peek (skipWhitespaceAndComments l0)"
  have ne: "src ?l \<noteq> []" using assms by (auto simp: lexer_next_def Let_def)
  have "length (src l') < length (src ?l)"
  proof (cases "?r = ch CHR ''\"''")
    case True
    then have "lexString_loop (line ?l) (col ?l) [] (snd (lexer_advance ?l)) = Inr (t, l')"
      using assms(1) ne by (simp add: lexer_next_def Let_def lexString_def)
    then show ?thesis using lexString_loop_le advance_shorter [OF ne] by fastforce
  next
    case False
    then have "(t, l') = lexIdent uni (line ?l) (col ?l) ?l \<and> ident_rune uni ?r
      \<or> (t, l') = lexNumber uni (line ?l) (col ?l) ?l \<and> unicode_IsDigit uni ?r
      \<or> (t, l') = lexPunct (line ?l) (col ?l) ?l"
      using assms(1) ne by (auto simp: lexer_next_def Let_def ident_rune_def split: if_splits)
    then have "l' = snd (lexIdent uni (line ?l) (col ?l) ?l) \<and> ident_rune uni ?r
      \<or> l' = snd (lexNumber uni (line ?l) (col ?l) ?l) \<and> unicode_IsDigit uni ?r
      \<or> l' = snd (lexPunct (line ?l) (col ?l) ?l)" by (metis snd_conv)
    then show ?thesis
      using lex_run_shorter [OF ne, of "ident_rune uni" "[]"] lex_run_shorter [OF ne, of "unicode_IsDigit uni" "[]"]
        lexPunct_shorter [OF ne, of "line ?l" "col ?l"]
      by (auto simp: lexIdent_def lexNumber_def Let_def split_beta)
  qed
  then show ?thesis using skipWhitespaceAndComments_le [of l0] by simp
qed

text \<open>The loop of \<open>Parse\<close> that collects the tokens up to and including \<open>tkEOF\<close>.\<close>

function lex_all :: "unicode_tables \<Rightarrow> lexer \<Rightarrow> lex_error + token list" where
  "lex_all uni l =
     (case lexer_next uni l of
        Inl e \<Rightarrow> Inl e
      | Inr (t, l1) \<Rightarrow>
          (if Kind t = tkEOF then Inr [t] else rbind (lex_all uni l1) (\<lambda>ts. Inr (t # ts))))"
  by pat_completeness auto
termination
  by (relation "measure (\<lambda>(uni, l). length (src l))") (auto simp: lexer_next_shorter)

declare lex_all.simps [simp del]

section \<open>Texts of tokens\<close>

fun escape :: "string \<Rightarrow> string" where
  "escape [] = []"
| "escape (c # cs) = (if c = CHR ''\"'' \<or> of_char c = (92::nat) then [char_of (92::nat), c] else [c]) @ escape cs"

definition strip :: "token \<Rightarrow> tokenKind \<times> string" where
  "strip t = (Kind t, TValue t)"

fun tok_text :: "tokenKind \<times> string \<Rightarrow> string" where
  "tok_text (tkString, s) = ''\"'' @ escape s @ ''\"''"
| "tok_text (_, s) = s"

definition toks_text :: "(tokenKind \<times> string) list \<Rightarrow> string" where
  "toks_text ts = concat (map (\<lambda>t. '' '' @ tok_text t) ts)"

definition ident_char :: "char \<Rightarrow> bool" where
  "ident_char c \<longleftrightarrow> (let n = (of_char c :: nat) in
     (65 \<le> n \<and> n \<le> 90) \<or> (97 \<le> n \<and> n \<le> 122) \<or> (48 \<le> n \<and> n \<le> 57) \<or> n = 95)"

definition ident_text :: "string \<Rightarrow> bool" where
  "ident_text s \<longleftrightarrow> s \<noteq> [] \<and> list_all ident_char s \<and> \<not> is_digit (hd s)"

definition punct_texts :: "string list" where
  "punct_texts = [''{'', ''}'', ''['', '']'', ''('', '')'', '','', ''='', ''!'', ''<'', ''>'', ''=='', ''!='', ''<='', ''>='']"

fun wf_tok :: "tokenKind \<times> string \<Rightarrow> bool" where
  "wf_tok (tkEOF, s) = False"
| "wf_tok (tkIdent, s) = (ident_text s \<and> s \<notin> set policy_keywords)"
| "wf_tok (tkKeyword, s) = (s \<in> set policy_keywords)"
| "wf_tok (tkNumber, s) = (s \<noteq> [] \<and> list_all is_digit s)"
| "wf_tok (tkPunct, s) = (s \<in> set punct_texts)"
| "wf_tok (tkString, s) = is_ascii s"

lemma keyword_ident: "s \<in> set policy_keywords \<Longrightarrow> ident_text s"
  by (auto simp: policy_keywords_def ident_text_def ident_char_def is_digit_def)

lemma ch_inj: "ch c = ch d \<longleftrightarrow> c = d"
  by (simp only: ch_def of_char_eq_iff)

lemma utf8_encode_ch: "(of_char c :: nat) < 128 \<Longrightarrow> utf8_encode (ch c) = [c]"
  by (simp add: ch_def utf8_encode_of_char)

lemma lex_run_chars:
  "src l = map ch xs @ rest \<Longrightarrow> is_ascii xs \<Longrightarrow> (\<forall>x \<in> set xs. P (ch x)) \<Longrightarrow> (rest = [] \<or> \<not> P (hd rest)) \<Longrightarrow>
   fst (lex_run P b l) = b @ xs \<and> src (snd (lex_run P b l)) = rest"
proof (induction xs arbitrary: b l)
  case Nil
  then show ?case by (subst (1 2) lex_run.simps) (auto simp: lexer_peek_def split: list.splits)
next
  case (Cons x xs)
  obtain r l1 where a: "lexer_advance l = (r, l1)" by (cases "lexer_advance l")
  have s: "src l = ch x # map ch xs @ rest" using Cons.prems(1) by simp
  then have r: "r = ch x" "src l1 = map ch xs @ rest" using advance_Cons [OF s] a by auto
  have "utf8_encode r = [x]" using Cons.prems(2) by (simp add: r ch_def is_ascii_def utf8_encode_of_char)
  then have "lex_run P b l = lex_run P (b @ [x]) l1"
    using s a Cons.prems(3) by (subst lex_run.simps) (simp add: lexer_peek_def)
  then show ?case using Cons.IH [OF r(2), of "b @ [x]"] Cons.prems by (simp add: is_ascii_def)
qed

lemma advance_eq: "src l = r # rest \<Longrightarrow> \<exists>l1. lexer_advance l = (r, l1) \<and> src l1 = rest"
  by (cases "lexer_advance l") (use advance_Cons [of l r rest] in auto)

lemma lexString_chars:
  "src l = map ch (escape s) @ ch CHR ''\"'' # rest \<Longrightarrow> is_ascii s \<Longrightarrow>
   \<exists>l'. lexString_loop ln cl b l = Inr (\<lparr>Kind = tkString, TValue = b @ s, Line = ln, Col = cl\<rparr>, l')
        \<and> src l' = rest"
proof (induction s arbitrary: b l)
  case Nil
  then obtain l1 where "lexer_advance l = (ch CHR ''\"'', l1)" "src l1 = rest"
    using advance_eq [of l] by auto
  then show ?case using Nil by (subst lexString_loop.simps) auto
next
  case (Cons c s)
  have asc: "is_ascii s" and enc: "utf8_encode (ch c) = [c]"
    using Cons.prems(2) by (auto simp: is_ascii_def ch_def utf8_encode_of_char)
  show ?case
  proof (cases "c = CHR ''\"'' \<or> of_char c = (92::nat)")
    case True
    then obtain l1 where l1: "lexer_advance l = (92, l1)" "src l1 = ch c # map ch (escape s) @ ch CHR ''\"'' # rest"
      using advance_eq [of l] Cons.prems(1) by (auto simp: ch_def)
    then obtain l2 where l2: "lexer_advance l1 = (ch c, l2)" "src l2 = map ch (escape s) @ ch CHR ''\"'' # rest"
      using advance_eq by blast
    have "lexString_loop ln cl b l = lexString_loop ln cl (b @ [c]) l2"
      using Cons.prems(1) l1 l2 True enc
      by (subst lexString_loop.simps) (auto simp: ch_def)
    then show ?thesis using Cons.IH [OF l2(2) asc, of "b @ [c]"] by simp
  next
    case False
    then obtain l1 where l1: "lexer_advance l = (ch c, l1)" "src l1 = map ch (escape s) @ ch CHR ''\"'' # rest"
      using advance_eq [of l] Cons.prems(1) by auto
    have "ch c \<noteq> ch CHR ''\"''" "ch c \<noteq> 92" using False by (auto simp only: ch_inj) (simp add: ch_def)
    then have "lexString_loop ln cl b l = lexString_loop ln cl (b @ [c]) l1"
      using Cons.prems(1) l1 enc False by (subst lexString_loop.simps) simp
    then show ?thesis using Cons.IH [OF l1(2) asc, of "b @ [c]"] by simp
  qed
qed


lemma skip_white:
  assumes "src l = map ch ws @ r # rest" "set ws \<subseteq> {CHR '' '', CHR 10}"
    "\<not> unicode_IsSpace r" "r \<noteq> ch CHR ''#''" "r \<noteq> ch CHR ''/''"
  shows "src (skipWhitespaceAndComments l) = r # rest"
  using assms(1,2)
proof (induction ws arbitrary: l)
  case Nil
  then show ?case using assms(3-) by (subst skipWhitespaceAndComments.simps) (simp add: lexer_peek_def)
next
  case (Cons w ws)
  obtain l1 where l1: "lexer_advance l = (ch w, l1)" "src l1 = map ch ws @ r # rest"
    using advance_eq [of l "ch w"] Cons.prems(1) by auto
  have "unicode_IsSpace (ch w)" using Cons.prems(2) by (auto simp: unicode_IsSpace_def ch_def)
  then have "skipWhitespaceAndComments l = skipWhitespaceAndComments l1"
    using Cons.prems(1) l1 by (subst skipWhitespaceAndComments.simps) (simp add: lexer_peek_def)
  then show ?case using Cons.IH [OF l1(2)] Cons.prems(2) by simp
qed

lemma skip_white_end: "src l = map ch ws \<Longrightarrow> set ws \<subseteq> {CHR '' '', CHR 10} \<Longrightarrow> src (skipWhitespaceAndComments l) = []"
proof (induction ws arbitrary: l)
  case (Cons w ws)
  obtain l1 where l1: "lexer_advance l = (ch w, l1)" "src l1 = map ch ws"
    using advance_eq [of l "ch w"] Cons.prems(1) by auto
  have "unicode_IsSpace (ch w)" using Cons.prems(2) by (auto simp: unicode_IsSpace_def ch_def)
  then have "skipWhitespaceAndComments l = skipWhitespaceAndComments l1"
    using Cons.prems(1) l1 by (subst skipWhitespaceAndComments.simps) (simp add: lexer_peek_def)
  then show ?case using Cons.IH [OF l1(2)] Cons.prems(2) by simp
qed (subst skipWhitespaceAndComments.simps, simp)

definition ends_token :: "tokenKind \<Rightarrow> rune list \<Rightarrow> bool" where
  "ends_token k rest \<longleftrightarrow> rest = [] \<or>
     (if k = tkPunct then hd rest \<noteq> 61 else k = tkString \<or> hd rest \<in> {32, 10, 44, 93})"

lemma ident_char_rune: "ident_char c \<Longrightarrow> ident_rune uni (ch c) \<and> (of_char c :: nat) < 128"
  by (auto simp: ident_char_def ident_rune_def unicode_IsLetter_def unicode_IsDigit_def ch_def Let_def)

lemma next_ident:
  assumes "src l = map ch ws @ map ch s @ rest" "ident_text s" "ends_token tkIdent rest" "set ws \<subseteq> {CHR '' '', CHR 10}"
  shows "\<exists>t l'. lexer_next uni l = Inr (t, l') \<and> src l' = rest
     \<and> strip t = (if s \<in> set policy_keywords then tkKeyword else tkIdent, s)"
proof -
  obtain c cs where s: "s = c # cs" using assms(2) by (cases s) (auto simp: ident_text_def)
  have c: "ident_char c" "\<not> is_digit c" using assms(2) by (auto simp: s ident_text_def)
  let ?l = "skipWhitespaceAndComments l"
  have sk: "src ?l = map ch s @ rest"
    using assms(1,4) c by (simp add: s) (intro skip_white [of _ ws], auto simp: ident_char_def unicode_IsSpace_def ch_def Let_def)
  have asc: "is_ascii s" "\<forall>x \<in> set s. ident_rune uni (ch x)"
    using assms(2) ident_char_rune by (auto simp: ident_text_def is_ascii_def list_all_iff)
  have "rest = [] \<or> \<not> ident_rune uni (hd rest)"
    using assms(3) by (auto simp: ends_token_def ident_rune_def unicode_IsLetter_def unicode_IsDigit_def ch_def)
  note run = lex_run_chars [OF sk asc this, of "[]"]
  have q: "lexer_peek ?l \<noteq> ch CHR ''\"''" "unicode_IsLetter uni (lexer_peek ?l) \<or> lexer_peek ?l = ch CHR ''_''"
    using sk c by (auto simp: s lexer_peek_def ident_char_def is_digit_def ch_def Let_def unicode_IsLetter_def)
  have "src ?l \<noteq> []" using sk by (simp add: s)
  then have "lexer_next uni l = Inr (lexIdent uni (line ?l) (col ?l) ?l)"
    unfolding lexer_next_def Let_def using q by (simp only: if_False if_True)
  then show ?thesis using run by (auto simp: lexIdent_def Let_def split_beta strip_def)
qed

lemma next_number:
  assumes "src l = map ch ws @ map ch s @ rest" "s \<noteq> []" "list_all is_digit s" "ends_token tkNumber rest" "set ws \<subseteq> {CHR '' '', CHR 10}"
  shows "\<exists>t l'. lexer_next uni l = Inr (t, l') \<and> src l' = rest \<and> strip t = (tkNumber, s)"
proof -
  obtain c cs where s: "s = c # cs" using assms(2) by (cases s) auto
  have c: "is_digit c" using assms(3) by (auto simp: s)
  let ?l = "skipWhitespaceAndComments l"
  have sk: "src ?l = map ch s @ rest"
    using assms(1,5) c by (simp add: s) (intro skip_white [of _ ws], auto simp: is_digit_def unicode_IsSpace_def ch_def Let_def)
  have asc: "is_ascii s" "\<forall>x \<in> set s. unicode_IsDigit uni (ch x)"
    using assms(3) by (auto simp: is_ascii_def list_all_iff is_digit_def unicode_IsDigit_def ch_def Let_def)
  have "rest = [] \<or> \<not> unicode_IsDigit uni (hd rest)"
    using assms(4) by (auto simp: ends_token_def unicode_IsDigit_def)
  note run = lex_run_chars [OF sk asc this, of "[]"]
  have q: "lexer_peek ?l \<noteq> ch CHR ''\"''" "\<not> (unicode_IsLetter uni (lexer_peek ?l) \<or> lexer_peek ?l = ch CHR ''_'')"
    "unicode_IsDigit uni (lexer_peek ?l)"
    using sk c by (auto simp: s lexer_peek_def is_digit_def ch_def Let_def unicode_IsLetter_def unicode_IsDigit_def)
  have "src ?l \<noteq> []" using sk by (simp add: s)
  then have "lexer_next uni l = Inr (lexNumber uni (line ?l) (col ?l) ?l)"
    unfolding lexer_next_def Let_def using q by (simp only: if_False if_True)
  then show ?thesis using run by (auto simp: lexNumber_def Let_def split_beta strip_def)
qed

lemma next_string:
  assumes "src l = map ch ws @ map ch (''\"'' @ escape s @ ''\"'') @ rest" "is_ascii s" "set ws \<subseteq> {CHR '' '', CHR 10}"
  shows "\<exists>t l'. lexer_next uni l = Inr (t, l') \<and> src l' = rest \<and> strip t = (tkString, s)"
proof -
  let ?l = "skipWhitespaceAndComments l"
  have sk: "src ?l = ch CHR ''\"'' # map ch (escape s) @ ch CHR ''\"'' # rest"
    using assms(1,3) by (intro skip_white [of _ ws]) (auto simp: unicode_IsSpace_def ch_def)
  then obtain l1 where l1: "lexer_advance ?l = (ch CHR ''\"'', l1)" "src l1 = map ch (escape s) @ ch CHR ''\"'' # rest"
    using advance_eq by blast
  have "lexer_next uni l = lexString_loop (line ?l) (col ?l) [] l1"
    using sk l1 by (simp add: lexer_next_def Let_def lexer_peek_def lexString_def)
  then show ?thesis
    using lexString_chars [OF l1(2) assms(2), of "line ?l" "col ?l" "[]"] by (auto simp: strip_def)
qed

lemma next_punct:
  assumes "src l = map ch ws @ map ch s @ rest" "s \<in> set punct_texts" "ends_token tkPunct rest" "set ws \<subseteq> {CHR '' '', CHR 10}"
  shows "\<exists>t l'. lexer_next uni l = Inr (t, l') \<and> src l' = rest \<and> strip t = (tkPunct, s)"
proof -
  obtain c cs where s: "s = c # cs" using assms(2) by (cases s) (auto simp: punct_texts_def)
  have c: "c \<in> set ''{}[](),=!<>''" using assms(2) by (auto simp: s punct_texts_def)
  let ?l = "skipWhitespaceAndComments l"
  have sk: "src ?l = ch c # map ch cs @ rest"
    using assms(1,4) c by (simp add: s) (intro skip_white [of _ ws], auto simp: unicode_IsSpace_def ch_def)
  then obtain l1 where l1: "lexer_advance ?l = (ch c, l1)" "src l1 = map ch cs @ rest"
    using advance_eq by blast
  have q: "lexer_peek ?l \<noteq> ch CHR ''\"''" "\<not> (unicode_IsLetter uni (lexer_peek ?l) \<or> lexer_peek ?l = ch CHR ''_'')"
    "\<not> unicode_IsDigit uni (lexer_peek ?l)" "isPunctStart (lexer_peek ?l)"
    using sk c by (auto simp: lexer_peek_def ch_def unicode_IsLetter_def unicode_IsDigit_def isPunctStart_def)
  have "src ?l \<noteq> []" using sk by simp
  then have nx: "lexer_next uni l = Inr (lexPunct (line ?l) (col ?l) ?l)"
    unfolding lexer_next_def Let_def using q by (simp only: if_False if_True)
  have enc: "utf8_encode (ch c) = [c]" using c by (intro utf8_encode_ch) auto
  show ?thesis
  proof (cases cs)
    case Nil
    have e: "utf8_encode r \<noteq> [CHR ''='']" if "r \<noteq> 61" for r :: rune
      using that by (auto simp: utf8_encode_def Let_def of_char_of split: if_splits dest!: arg_cong [of _ _ "of_char :: char \<Rightarrow> nat"])
    have "\<not> (src l1 \<noteq> [] \<and> [c] @ utf8_encode (lexer_peek l1) \<in> {''=='', ''!='', ''<='', ''>=''})"
      using l1(2) assms(3) Nil e by (cases rest) (auto simp: ends_token_def lexer_peek_def)
    then have "lexPunct (line ?l) (col ?l) ?l
        = (\<lparr>Kind = tkPunct, TValue = [c], Line = line ?l, Col = col ?l\<rparr>, l1)"
      unfolding lexPunct_def l1(1) Let_def prod.case enc by (simp only: if_False)
    then show ?thesis using nx l1 Nil by (auto simp: strip_def s)
  next
    case (Cons d ds)
    then have d: "s = [c, d]" "d = CHR ''=''" "s \<in> {''=='', ''!='', ''<='', ''>=''}"
      using assms(2) by (auto simp: s punct_texts_def)
    then obtain l2 where "lexer_advance l1 = (ch d, l2)" "src l2 = rest"
      using advance_eq [of l1] l1(2) by (auto simp: s)
    moreover have "utf8_encode (lexer_peek l1) = [d]"
      using l1(2) d utf8_encode_ch [of d] by (simp add: s lexer_peek_def)
    ultimately show ?thesis using nx l1 enc d by (auto simp: lexPunct_def Let_def strip_def s)
  qed
qed

lemma next_token:
  assumes "src l = map ch (ws @ tok_text t) @ rest" "set ws \<subseteq> {CHR '' '', CHR 10}" "wf_tok t" "ends_token (fst t) rest"
  shows "\<exists>t' l'. lexer_next uni l = Inr (t', l') \<and> src l' = rest \<and> strip t' = t"
proof -
  obtain k s where t: "t = (k, s)" by (cases t)
  show ?thesis
  proof (cases k)
    case tkIdent
    then show ?thesis using assms next_ident [of l ws s rest uni] by (auto simp: t)
  next
    case tkKeyword
    then show ?thesis using assms next_ident [of l ws s rest uni] keyword_ident by (auto simp: t ends_token_def)
  next
    case tkNumber
    then show ?thesis using assms next_number [of l ws s rest uni] by (auto simp: t)
  next
    case tkPunct
    then show ?thesis using assms next_punct [of l ws s rest uni] by (auto simp: t)
  next
    case tkString
    then show ?thesis using assms next_string [of l ws s rest uni] by (auto simp: t)
  qed (use assms in \<open>simp add: t\<close>)
qed

text \<open>
  A text is a layout of tokens when it is their texts with blanks and line ends between them, and each text ends
  where the lexer sees it end.
\<close>

inductive layout :: "string \<Rightarrow> (tokenKind \<times> string) list \<Rightarrow> bool" where
  layout_end: "set ws \<subseteq> {CHR '' '', CHR 10} \<Longrightarrow> layout ws []"
| layout_tok: "set ws \<subseteq> {CHR '' '', CHR 10} \<Longrightarrow> wf_tok t \<Longrightarrow> ends_token (fst t) (map ch rest) \<Longrightarrow> layout rest ts \<Longrightarrow>
    layout (ws @ tok_text t @ rest) (t # ts)"

lemma lex_all_layout:
  "layout tx ts \<Longrightarrow> src l = map ch tx \<Longrightarrow>
   \<exists>toks. lex_all uni l = Inr toks \<and> map strip toks = ts @ [(tkEOF, [])]"
proof (induction tx ts arbitrary: l rule: layout.induct)
  case (layout_end ws)
  then have "src (skipWhitespaceAndComments l) = []" by (intro skip_white_end)
  then show ?case by (subst lex_all.simps) (simp add: lexer_next_def Let_def strip_def)
next
  case (layout_tok ws t rest ts)
  obtain t' l' where n: "lexer_next uni l = Inr (t', l')" "src l' = map ch rest" "strip t' = t"
    using next_token [of l ws t "map ch rest" uni] layout_tok by auto
  have "Kind t' \<noteq> tkEOF" using n(3) layout_tok(2) by (cases t) (auto simp: strip_def)
  moreover obtain toks where "lex_all uni l' = Inr toks" "map strip toks = ts @ [(tkEOF, [])]"
    using layout_tok.IH [OF n(2)] by auto
  ultimately show ?case using n by (subst lex_all.simps) auto
qed

lemma layout_toks: "list_all wf_tok ts \<Longrightarrow> layout (toks_text ts) ts"
proof (induction ts)
  case Nil
  show ?case using layout_end [of "[]"] by (simp add: toks_text_def)
next
  case (Cons t ts)
  have "ends_token (fst t) (map ch (toks_text ts))"
    by (cases ts) (auto simp: ends_token_def toks_text_def ch_def)
  then show ?case using Cons layout_tok [of "'' ''" t "toks_text ts" ts] by (simp add: toks_text_def)
qed

lemma lex_all_first:
  assumes "src l = map ch (ws @ tok_text t) @ rest" "set ws \<subseteq> {CHR '' '', CHR 10}" "wf_tok t" "ends_token (fst t) rest"
    "lex_all uni l = Inr toks"
  obtains t' toks' l' where "toks = t' # toks'" "strip t' = t" "src l' = rest" "lex_all uni l' = Inr toks'"
proof -
  obtain t' l' where n: "lexer_next uni l = Inr (t', l')" "src l' = rest" "strip t' = t"
    using next_token [OF assms(1-4)] by blast
  have "Kind t' \<noteq> tkEOF" using n(3) assms(3) by (cases t) (auto simp: strip_def)
  then have "rbind (lex_all uni l') (\<lambda>ts. Inr (t' # ts)) = Inr toks"
    using assms(5) n(1) by (subst (asm) lex_all.simps) simp
  then show ?thesis using that n by (auto simp: rbind_Inr_iff)
qed

lemma escape_ascii: "is_ascii s \<Longrightarrow> is_ascii (escape s)"
  by (induction s) (auto simp: is_ascii_def)

lemma tok_text_ascii: "wf_tok t \<Longrightarrow> is_ascii (tok_text t)"
proof -
  assume wf: "wf_tok t"
  have idt: "ident_text s \<Longrightarrow> is_ascii s" for s
    using ident_char_rune by (auto simp: ident_text_def is_ascii_def list_all_iff)
  obtain k s where t: "t = (k, s)" by (cases t)
  show ?thesis
  proof (cases k)
    case tkString
    then show ?thesis using wf escape_ascii [of s] by (simp add: t is_ascii_def)
  next
    case tkNumber
    then show ?thesis using wf by (auto simp: t is_ascii_def list_all_iff is_digit_def Let_def)
  next
    case tkPunct
    then show ?thesis using wf by (auto simp: t is_ascii_def punct_texts_def)
  next
    case tkKeyword
    then show ?thesis using wf idt keyword_ident by (simp add: t)
  next
    case tkIdent
    then show ?thesis using wf idt by (simp add: t)
  qed (use wf in \<open>simp add: t\<close>)
qed

lemma white_ascii: "set ws \<subseteq> {CHR '' '', CHR 10} \<Longrightarrow> is_ascii ws"
  by (auto simp: is_ascii_def list_all_iff dest!: subsetD)

lemma layout_ascii: "layout tx ts \<Longrightarrow> is_ascii tx"
proof (induction rule: layout.induct)
  case (layout_tok ws t rest ts)
  then show ?case using tok_text_ascii [of t] white_ascii [of ws] by (simp add: is_ascii_def)
qed (rule white_ascii)

lemma newLexer_ascii: "is_ascii s \<Longrightarrow> src (newLexer s) = map ch s"
  by (simp add: newLexer_def utf8_decode_ascii ch_def)

lemma lex_all_newLexer:
  "layout tx ts \<Longrightarrow> \<exists>toks. lex_all uni (newLexer tx) = Inr toks \<and> map strip toks = ts @ [(tkEOF, [])]"
  by (rule lex_all_layout) (simp_all add: newLexer_ascii layout_ascii)

section \<open>Properties\<close>

text \<open>
  Lexing inverts printing: for any list of well-formed tokens (identifiers, keywords,
  numbers, punctuation, ASCII strings, with quotes and backslashes escaped), the text that
  writes them out one after the other is tokenised without error into exactly these tokens
  followed by one end-of-input token.
\<close>

theorem lexer_roundtrip:
  assumes "list_all wf_tok ts"
  shows "\<exists>toks. lex_all uni (newLexer (toks_text ts)) = Inr toks
            \<and> map (\<lambda>t. (Kind t, TValue t)) toks = ts @ [(tkEOF, [])]"
  using lex_all_newLexer [OF layout_toks [OF assms], of uni] by (simp add: strip_def [abs_def])

theorem lexer_roundtrip_witness:
  "\<exists>toks. lex_all \<lparr>letter_above = \<lambda>_. False, digit_above = \<lambda>_. False\<rparr>
       (newLexer (toks_text [(tkKeyword, ''policy''), (tkString, ''a\"b''), (tkPunct, ''<='')])) = Inr toks
     \<and> map (\<lambda>t. (Kind t, TValue t)) toks
       = [(tkKeyword, ''policy''), (tkString, ''a\"b''), (tkPunct, ''<=''), (tkEOF, [])]"
  using lexer_roundtrip [of "[(tkKeyword, ''policy''), (tkString, ''a\"b''), (tkPunct, ''<='')]"]
  by (simp add: policy_keywords_def is_ascii_def punct_texts_def)

end
