(* ===== verification/Policy_Parser.thy ===== *)
theory Policy_Parser
  imports Policy_Lexer
begin

text \<open>
  The policy language, second stage: the syntax trees of \<open>backend/internal/policy/ast.go\<close>
  and the recursive descent parser of \<open>parser.go\<close>.

  The parser's state is the list of tokens from \<open>pos\<close> on. The mutually recursive
  expression parsers carry fuel, one unit per call; running out of it is the error
  \<open>OutOfFuel\<close>, which the code does not have and which is shown never to occur with the
  fuel \<open>expr_fuel\<close> that \<open>parseRule\<close> passes. SHA-256 with hexadecimal output is the argument
  \<open>sha256_hex\<close>.
\<close>

section \<open>Syntax trees\<close>

record Value =
  VStr :: string
  VNum :: int
  VIsNum :: bool
  VIsStr :: bool

datatype Expr =
    AndExpr Expr Expr
  | OrExpr Expr Expr
  | NotExpr Expr
  | CompareExpr string string Value
  | InExpr string bool "Value list"

datatype Action = ActionAllow | ActionBlock | ActionLog

record Rule =
  RAction :: Action
  RExpr :: Expr

record Policy =
  PName :: string
  PRules :: "Rule list"
  PVersion :: string
  PSource :: string
  PSourceBytes :: string

section \<open>Parser primitives\<close>

datatype parse_error =
    LexError lex_error
  | Expected nat nat string string
  | ExpectedRuleKeyword nat string
  | UnknownRuleKeyword nat string
  | ExpectedField nat nat string
  | ExpectedOp nat string
  | UnknownOp nat string
  | BadNumber nat string
  | ExpectedLiteral nat string
  | OutOfFuel

type_synonym tokens = "token list"

definition peek :: "tokens \<Rightarrow> token" where
  "peek toks = (case toks of [] \<Rightarrow> \<lparr>Kind = tkEOF, TValue = [], Line = 0, Col = 0\<rparr> | t # _ \<Rightarrow> t)"

definition advance :: "tokens \<Rightarrow> tokens" where
  "advance toks = tl toks"

definition at_tok :: "tokens \<Rightarrow> tokenKind \<Rightarrow> string \<Rightarrow> bool" where
  "at_tok toks k v \<longleftrightarrow> Kind (peek toks) = k \<and> TValue (peek toks) = v"

definition expect :: "tokenKind \<Rightarrow> string \<Rightarrow> tokens \<Rightarrow> parse_error + token \<times> tokens" where
  "expect kind value toks =
     (let t = peek toks in
      if Kind t \<noteq> kind \<or> (value \<noteq> [] \<and> TValue t \<noteq> value)
      then Inl (Expected (Line t) (Col t) value (TValue t))
      else Inr (t, advance toks))"

definition parseValue :: "tokens \<Rightarrow> parse_error + Value \<times> tokens" where
  "parseValue toks =
     (let t = peek toks; rest = advance toks in
      case Kind t of
        tkString \<Rightarrow> Inr (\<lparr>VStr = TValue t, VNum = 0, VIsNum = False, VIsStr = True\<rparr>, rest)
      | tkNumber \<Rightarrow>
          (case strconv_ParseInt64 (TValue t) of
             None \<Rightarrow> Inl (BadNumber (Line t) (TValue t))
           | Some n \<Rightarrow> Inr (\<lparr>VStr = [], VNum = n, VIsNum = True, VIsStr = False\<rparr>, rest))
      | _ \<Rightarrow> Inl (ExpectedLiteral (Line t) (TValue t)))"

lemma at_tok_neq_Nil: "at_tok toks k v \<Longrightarrow> k \<noteq> tkEOF \<Longrightarrow> toks \<noteq> []"
  by (auto simp: at_tok_def peek_def)

lemma advance_le: "length (advance toks) \<le> length toks"
  by (simp add: advance_def)

lemma advance_lt: "toks \<noteq> [] \<Longrightarrow> length (advance toks) < length toks"
  by (cases toks) (auto simp: advance_def)

lemma parseValue_shorter: "parseValue toks = Inr (v, rest) \<Longrightarrow> length rest < length toks"
  by (cases toks) (auto simp: parseValue_def Let_def peek_def advance_def split: tokenKind.splits option.splits)

lemma expect_shorter: "expect k v toks = Inr (t, rest) \<Longrightarrow> k \<noteq> tkEOF \<Longrightarrow> length rest < length toks"
  by (cases toks) (auto simp: expect_def Let_def peek_def advance_def split: if_splits)

function parseValues_loop :: "Value list \<Rightarrow> tokens \<Rightarrow> parse_error + Value list \<times> tokens" where
  "parseValues_loop out toks =
     (if at_tok toks tkPunct '']'' then Inr (out, advance toks)
      else (case parseValue toks of
              Inl e \<Rightarrow> Inl e
            | Inr (v, toks1) \<Rightarrow>
                (if at_tok toks1 tkPunct '','' then parseValues_loop (out @ [v]) (advance toks1)
                 else rbind (expect tkPunct '']'' toks1) (\<lambda>(_, toks2). Inr (out @ [v], toks2)))))"
  by pat_completeness auto
termination
proof (relation "measure (\<lambda>(out, toks). length toks)", goal_cases)
  case (2 out toks r v toks1)
  then have "length toks1 < length toks" by (auto intro: parseValue_shorter)
  then show ?case using advance_le [of toks1] by simp
qed simp

declare parseValues_loop.simps [simp del]

definition parseValueList :: "tokens \<Rightarrow> parse_error + Value list \<times> tokens" where
  "parseValueList toks = rbind (expect tkPunct ''['' toks) (\<lambda>(_, toks1). parseValues_loop [] toks1)"

section \<open>Expressions\<close>

text \<open>\<open>parseAtom\<close> after the field identifier.\<close>

definition parseField :: "string \<Rightarrow> tokens \<Rightarrow> parse_error + Expr \<times> tokens" where
  "parseField field toks =
     (if at_tok toks tkKeyword ''in'' then
        rbind (parseValueList (advance toks)) (\<lambda>(values, rest). Inr (InExpr field False values, rest))
      else if at_tok toks tkKeyword ''not'' \<and> at_tok (advance toks) tkKeyword ''in'' then
        rbind (parseValueList (advance (advance toks))) (\<lambda>(values, rest). Inr (InExpr field True values, rest))
      else
        (let opTok = peek toks; toks1 = advance toks in
         if Kind opTok \<noteq> tkPunct then Inl (ExpectedOp (Line opTok) (TValue opTok))
         else if TValue opTok \<notin> {''=='', ''!='', ''<'', ''>'', ''<='', ''>=''}
         then Inl (UnknownOp (Line opTok) (TValue opTok))
         else rbind (parseValue toks1) (\<lambda>(val, rest). Inr (CompareExpr field (TValue opTok) val, rest))))"

fun parseExprOr :: "nat \<Rightarrow> tokens \<Rightarrow> parse_error + Expr \<times> tokens"
  and parseOr_loop :: "nat \<Rightarrow> Expr \<Rightarrow> tokens \<Rightarrow> parse_error + Expr \<times> tokens"
  and parseExprAnd :: "nat \<Rightarrow> tokens \<Rightarrow> parse_error + Expr \<times> tokens"
  and parseAnd_loop :: "nat \<Rightarrow> Expr \<Rightarrow> tokens \<Rightarrow> parse_error + Expr \<times> tokens"
  and parseExprUnary :: "nat \<Rightarrow> tokens \<Rightarrow> parse_error + Expr \<times> tokens"
  and parseAtom :: "nat \<Rightarrow> tokens \<Rightarrow> parse_error + Expr \<times> tokens" where
  "parseExprOr 0 toks = Inl OutOfFuel"
| "parseExprOr (Suc n) toks =
     rbind (parseExprAnd n toks) (\<lambda>(left, rest). parseOr_loop n left rest)"
| "parseOr_loop 0 left toks = Inl OutOfFuel"
| "parseOr_loop (Suc n) left toks =
     (if at_tok toks tkKeyword ''or'' then
        rbind (parseExprAnd n (advance toks)) (\<lambda>(right, rest). parseOr_loop n (OrExpr left right) rest)
      else Inr (left, toks))"
| "parseExprAnd 0 toks = Inl OutOfFuel"
| "parseExprAnd (Suc n) toks =
     rbind (parseExprUnary n toks) (\<lambda>(left, rest). parseAnd_loop n left rest)"
| "parseAnd_loop 0 left toks = Inl OutOfFuel"
| "parseAnd_loop (Suc n) left toks =
     (if at_tok toks tkKeyword ''and'' then
        rbind (parseExprUnary n (advance toks)) (\<lambda>(right, rest). parseAnd_loop n (AndExpr left right) rest)
      else Inr (left, toks))"
| "parseExprUnary 0 toks = Inl OutOfFuel"
| "parseExprUnary (Suc n) toks =
     (if at_tok toks tkKeyword ''not'' then
        rbind (parseAtom n (advance toks)) (\<lambda>(inner, rest). Inr (NotExpr inner, rest))
      else parseAtom n toks)"
| "parseAtom 0 toks = Inl OutOfFuel"
| "parseAtom (Suc n) toks =
     (let t = peek toks in
      if at_tok toks tkPunct ''('' then
        rbind (parseExprOr n (advance toks)) (\<lambda>(inner, rest).
        rbind (expect tkPunct '')'' rest) (\<lambda>(_, rest'). Inr (inner, rest')))
      else if Kind t \<noteq> tkIdent then Inl (ExpectedField (Line t) (Col t) (TValue t))
      else parseField (TValue t) (advance toks))"

section \<open>Rules and policies\<close>

definition expr_fuel :: "tokens \<Rightarrow> nat" where
  "expr_fuel toks = 6 * length toks + 4"

definition parseRule :: "tokens \<Rightarrow> parse_error + Rule \<times> tokens" where
  "parseRule toks =
     (let t = peek toks; toks1 = advance toks in
      if Kind t \<noteq> tkKeyword then Inl (ExpectedRuleKeyword (Line t) (TValue t))
      else rbind
        (if TValue t = ''allow'' then Inr ActionAllow
         else if TValue t = ''block'' then Inr ActionBlock
         else if TValue t = ''log'' then Inr ActionLog
         else Inl (UnknownRuleKeyword (Line t) (TValue t)))
        (\<lambda>action. rbind (expect tkKeyword ''if'' toks1) (\<lambda>(_, toks2).
           rbind (parseExprOr (expr_fuel toks2) toks2) (\<lambda>(expr, rest).
             Inr (\<lparr>RAction = action, RExpr = expr\<rparr>, rest)))))"

definition versionOf :: "(string \<Rightarrow> string) \<Rightarrow> string \<Rightarrow> Rule list \<Rightarrow> string" where
  "versionOf sha256_hex name rules =
     take 16 (sha256_hex (''name='' @ name @ [CHR 10] @ ''rules='' @ strconv_Itoa (length rules)))"


section \<open>Progress of the parsers\<close>

lemma parseValues_loop_le: "parseValues_loop out toks = Inr (vs, rest) \<Longrightarrow> length rest \<le> length toks"
proof (induction out toks rule: parseValues_loop.induct)
  case (1 out toks)
  show ?case
  proof (cases "at_tok toks tkPunct '']''")
    case True
    then show ?thesis using 1(2) advance_le by (subst (asm) parseValues_loop.simps) auto
  next
    case False
    then obtain v toks1 where v: "parseValue toks = Inr (v, toks1)"
      using 1(2) by (subst (asm) parseValues_loop.simps) (auto split: sum.splits)
    show ?thesis
    proof (cases "at_tok toks1 tkPunct '',''")
      case True
      then have "parseValues_loop (out @ [v]) (advance toks1) = Inr (vs, rest)"
        using 1(2) False v by (subst (asm) parseValues_loop.simps) simp
      then have "length rest \<le> length (advance toks1)" by (rule 1(1) [OF False v refl True])
      then show ?thesis using parseValue_shorter [OF v] advance_le [of toks1] by simp
    next
      case no: False
      then obtain t where "expect tkPunct '']'' toks1 = Inr (t, rest)"
        using 1(2) False v by (subst (asm) parseValues_loop.simps) (auto simp: rbind_Inr_iff)
      then show ?thesis using parseValue_shorter [OF v] expect_shorter by fastforce
    qed
  qed
qed

lemma parseValueList_le: "parseValueList toks = Inr (vs, rest) \<Longrightarrow> length rest \<le> length toks"
  by (auto simp: parseValueList_def rbind_Inr_iff dest!: parseValues_loop_le expect_shorter)

lemma parseField_le: "parseField f toks = Inr (e, rest) \<Longrightarrow> length rest \<le> length toks"
  using advance_le [of toks] advance_le [of "advance toks"]
  by (auto simp: parseField_def rbind_Inr_iff Let_def split: if_splits
      dest!: parseValueList_le parseValue_shorter)

lemma ident_not_Nil: "Kind (peek toks) = tkIdent \<Longrightarrow> toks \<noteq> []"
  by (auto simp: peek_def)

lemma parse_expr_shorter:
  "parseExprOr n toks = Inr (e, rest) \<Longrightarrow> length rest < length toks"
  "parseOr_loop n l toks = Inr (e, rest) \<Longrightarrow> length rest \<le> length toks"
  "parseExprAnd n toks = Inr (e, rest) \<Longrightarrow> length rest < length toks"
  "parseAnd_loop n l toks = Inr (e, rest) \<Longrightarrow> length rest \<le> length toks"
  "parseExprUnary n toks = Inr (e, rest) \<Longrightarrow> length rest < length toks"
  "parseAtom n toks = Inr (e, rest) \<Longrightarrow> length rest < length toks"
proof (induction n toks and n l toks and n toks and n l toks and n toks and n toks
    arbitrary: e rest and e rest and e rest and e rest and e rest and e rest
    rule: parseExprOr_parseOr_loop_parseExprAnd_parseAnd_loop_parseExprUnary_parseAtom.induct)
  case (2 n toks)
  then show ?case by (fastforce simp: rbind_Inr_iff)
next
  case (4 n left toks)
  then show ?case using advance_le [of toks] by (fastforce simp: rbind_Inr_iff split: if_splits)
next
  case (6 n toks)
  then show ?case by (fastforce simp: rbind_Inr_iff)
next
  case (8 n left toks)
  then show ?case using advance_le [of toks] by (fastforce simp: rbind_Inr_iff split: if_splits)
next
  case (10 n toks)
  then show ?case using advance_le [of toks] by (fastforce simp: rbind_Inr_iff split: if_splits)
next
  case (12 n toks)
  show ?case
  proof (cases "at_tok toks tkPunct ''(''")
    case True
    then obtain inner r t where r: "parseExprOr n (advance toks) = Inr (inner, r)" "expect tkPunct '')'' r = Inr (t, rest)"
      using 12(2) by (auto simp: rbind_Inr_iff)
    then show ?thesis
      using 12(1) [OF refl True r(1)] expect_shorter [OF r(2)] advance_le [of toks] by simp
  next
    case False
    then have k: "Kind (peek toks) = tkIdent" and p: "parseField (TValue (peek toks)) (advance toks) = Inr (e, rest)"
      using 12(2) by (auto simp: Let_def split: if_splits)
    show ?thesis using parseField_le [OF p] advance_lt [OF ident_not_Nil [OF k]] by simp
  qed
qed auto

section \<open>Enough fuel\<close>

lemma parseValue_fuel: "parseValue toks \<noteq> Inl OutOfFuel"
  by (auto simp: parseValue_def Let_def split: tokenKind.splits option.splits)

lemma expect_fuel: "expect k v toks \<noteq> Inl OutOfFuel"
  by (auto simp: expect_def Let_def)

lemma parseValues_loop_fuel: "parseValues_loop out toks \<noteq> Inl OutOfFuel"
proof (induction out toks rule: parseValues_loop.induct)
  case (1 out toks)
  then show ?case
    using parseValue_fuel [of toks] expect_fuel
    by (subst parseValues_loop.simps) (auto simp: rbind_Inl_iff split: sum.splits)
qed

lemma parseField_fuel: "parseField f toks \<noteq> Inl OutOfFuel"
  using parseValues_loop_fuel parseValue_fuel expect_fuel
  by (auto simp: parseField_def parseValueList_def rbind_Inl_iff Let_def)

lemma parse_expr_fuel:
  "6 * length toks + 4 \<le> n \<Longrightarrow> parseExprOr n toks \<noteq> Inl OutOfFuel"
  "6 * length toks + 1 \<le> n \<Longrightarrow> parseOr_loop n l toks \<noteq> Inl OutOfFuel"
  "6 * length toks + 3 \<le> n \<Longrightarrow> parseExprAnd n toks \<noteq> Inl OutOfFuel"
  "6 * length toks + 1 \<le> n \<Longrightarrow> parseAnd_loop n l toks \<noteq> Inl OutOfFuel"
  "6 * length toks + 2 \<le> n \<Longrightarrow> parseExprUnary n toks \<noteq> Inl OutOfFuel"
  "6 * length toks + 1 \<le> n \<Longrightarrow> parseAtom n toks \<noteq> Inl OutOfFuel"
proof (induction n toks and n l toks and n toks and n l toks and n toks and n toks
    rule: parseExprOr_parseOr_loop_parseExprAnd_parseAnd_loop_parseExprUnary_parseAtom.induct)
  case (2 n toks)
  then have "parseExprAnd n toks \<noteq> Inl OutOfFuel" by simp
  moreover have "parseOr_loop n l rest \<noteq> Inl OutOfFuel" if a: "parseExprAnd n toks = Inr (l, rest)" for l rest
    using 2(2) [OF a refl] 2(3) parse_expr_shorter(3) [OF a] by simp
  ultimately show ?case by (auto simp: rbind_Inl_iff)
next
  case (4 n left toks)
  show ?case
  proof (cases "at_tok toks tkKeyword ''or''")
    case True
    then have s: "length (advance toks) < length toks" by (simp add: advance_lt at_tok_neq_Nil)
    then have "parseExprAnd n (advance toks) \<noteq> Inl OutOfFuel" using 4(1) [OF True] 4(3) by simp
    moreover have "parseOr_loop n (OrExpr left r) rest \<noteq> Inl OutOfFuel"
      if a: "parseExprAnd n (advance toks) = Inr (r, rest)" for r rest
      using 4(2) [OF True a refl] 4(3) parse_expr_shorter(3) [OF a] s by simp
    ultimately show ?thesis using True by (auto simp: rbind_Inl_iff)
  qed simp
next
  case (6 n toks)
  then have "parseExprUnary n toks \<noteq> Inl OutOfFuel" by simp
  moreover have "parseAnd_loop n l rest \<noteq> Inl OutOfFuel" if a: "parseExprUnary n toks = Inr (l, rest)" for l rest
    using 6(2) [OF a refl] 6(3) parse_expr_shorter(5) [OF a] by simp
  ultimately show ?case by (auto simp: rbind_Inl_iff)
next
  case (8 n left toks)
  show ?case
  proof (cases "at_tok toks tkKeyword ''and''")
    case True
    then have s: "length (advance toks) < length toks" by (simp add: advance_lt at_tok_neq_Nil)
    then have "parseExprUnary n (advance toks) \<noteq> Inl OutOfFuel" using 8(1) [OF True] 8(3) by simp
    moreover have "parseAnd_loop n (AndExpr left r) rest \<noteq> Inl OutOfFuel"
      if a: "parseExprUnary n (advance toks) = Inr (r, rest)" for r rest
      using 8(2) [OF True a refl] 8(3) parse_expr_shorter(5) [OF a] s by simp
    ultimately show ?thesis using True by (auto simp: rbind_Inl_iff)
  qed simp
next
  case (10 n toks)
  show ?case
  proof (cases "at_tok toks tkKeyword ''not''")
    case True
    then have "length (advance toks) < length toks" by (simp add: advance_lt at_tok_neq_Nil)
    then show ?thesis using 10(1) [OF True] 10(3) True by (auto simp: rbind_Inl_iff)
  qed (use 10 in simp)
next
  case (12 n toks)
  show ?case
  proof (cases "at_tok toks tkPunct ''(''")
    case True
    then have "length (advance toks) < length toks" by (simp add: advance_lt at_tok_neq_Nil)
    then have "parseExprOr n (advance toks) \<noteq> Inl OutOfFuel" using 12(1) [OF refl True] 12(2) by simp
    then show ?thesis using True expect_fuel by (auto simp: rbind_Inl_iff)
  qed (use parseField_fuel in \<open>simp add: Let_def\<close>)
qed simp_all


section \<open>Policies\<close>

lemma parseRule_shorter: "parseRule toks = Inr (r, rest) \<Longrightarrow> length rest < length toks"
proof -
  assume "parseRule toks = Inr (r, rest)"
  then obtain t toks2 e where x: "expect tkKeyword ''if'' (advance toks) = Inr (t, toks2)"
    "parseExprOr (expr_fuel toks2) toks2 = Inr (e, rest)"
    by (auto simp: parseRule_def Let_def rbind_Inr_iff split: if_splits)
  then show ?thesis using expect_shorter [OF x(1)] parse_expr_shorter(1) [OF x(2)] advance_le [of toks] by simp
qed

text \<open>The loop over the rules of one policy, up to and including the closing brace.\<close>

function parseRules_loop :: "Rule list \<Rightarrow> tokens \<Rightarrow> parse_error + Rule list \<times> tokens" where
  "parseRules_loop rules toks =
     (if Kind (peek toks) = tkEOF then Inr (rules, toks)
      else if at_tok toks tkPunct ''}'' then Inr (rules, advance toks)
      else (case parseRule toks of
              Inl e \<Rightarrow> Inl e
            | Inr (rule, rest) \<Rightarrow> parseRules_loop (rules @ [rule]) rest))"
  by pat_completeness auto
termination
  by (relation "measure (\<lambda>(rules, toks). length toks)") (auto simp: parseRule_shorter)

declare parseRules_loop.simps [simp del]

definition parsePolicy ::
  "(string \<Rightarrow> string) \<Rightarrow> string \<Rightarrow> tokens \<Rightarrow> parse_error + Policy \<times> tokens" where
  "parsePolicy sha256_hex srcBytes toks =
     rbind (expect tkKeyword ''policy'' toks) (\<lambda>(_, toks1).
     rbind (expect tkString [] toks1) (\<lambda>(name, toks2).
     rbind (expect tkPunct ''{'' toks2) (\<lambda>(_, toks3).
     rbind (parseRules_loop [] toks3) (\<lambda>(rules, rest).
       Inr (\<lparr>PName = TValue name, PRules = rules, PVersion = versionOf sha256_hex (TValue name) rules,
             PSource = [], PSourceBytes = srcBytes\<rparr>, rest)))))"

lemma parseRules_loop_le: "parseRules_loop rules toks = Inr (rs, rest) \<Longrightarrow> length rest \<le> length toks"
proof (induction rules toks rule: parseRules_loop.induct)
  case (1 rules toks)
  then show ?case
    using advance_le [of toks] parseRule_shorter [of toks]
    by (subst (asm) (2) parseRules_loop.simps) (fastforce split: if_splits sum.splits)
qed

lemma parsePolicy_shorter: "parsePolicy h b toks = Inr (p, rest) \<Longrightarrow> length rest < length toks"
  by (fastforce simp: parsePolicy_def rbind_Inr_iff dest!: parseRules_loop_le expect_shorter)

function parseAll :: "(string \<Rightarrow> string) \<Rightarrow> string \<Rightarrow> Policy list \<Rightarrow> tokens \<Rightarrow> parse_error + Policy list" where
  "parseAll sha256_hex srcBytes out toks =
     (if Kind (peek toks) = tkEOF then Inr out
      else (case parsePolicy sha256_hex srcBytes toks of
              Inl e \<Rightarrow> Inl e
            | Inr (pol, rest) \<Rightarrow> parseAll sha256_hex srcBytes (out @ [pol]) rest))"
  by pat_completeness auto
termination
  by (relation "measure (\<lambda>(h, b, out, toks). length toks)") (auto simp: parsePolicy_shorter)

declare parseAll.simps [simp del]

definition policy_Parse ::
  "unicode_tables \<Rightarrow> (string \<Rightarrow> string) \<Rightarrow> string \<Rightarrow> parse_error + Policy list" where
  "policy_Parse uni sha256_hex text =
     (case lex_all uni (newLexer text) of
        Inl e \<Rightarrow> Inl (LexError e)
      | Inr toks \<Rightarrow> parseAll sha256_hex text [] toks)"

lemma parseRule_fuel: "parseRule toks \<noteq> Inl OutOfFuel"
  using expect_fuel parse_expr_fuel(1)
  by (auto simp: parseRule_def Let_def rbind_Inl_iff expr_fuel_def split: if_splits)

lemma parseRules_loop_fuel: "parseRules_loop rules toks \<noteq> Inl OutOfFuel"
proof (induction rules toks rule: parseRules_loop.induct)
  case (1 rules toks)
  then show ?case
    using parseRule_fuel [of toks] by (subst parseRules_loop.simps) (auto split: sum.splits)
qed

lemma parseAll_fuel: "parseAll h b out toks \<noteq> Inl OutOfFuel"
proof (induction h b out toks rule: parseAll.induct)
  case (1 h b out toks)
  have "parsePolicy h b toks \<noteq> Inl OutOfFuel"
    using expect_fuel parseRules_loop_fuel by (auto simp: parsePolicy_def rbind_Inl_iff)
  with 1 show ?case by (subst parseAll.simps) (auto split: sum.splits)
qed

section \<open>Printing\<close>

type_synonym ptok = "tokenKind \<times> string"

definition print_value :: "Value \<Rightarrow> ptok" where
  "print_value v = (if VIsNum v then (tkNumber, strconv_Itoa (nat (VNum v))) else (tkString, VStr v))"

fun print_values :: "Value list \<Rightarrow> ptok list" where
  "print_values [] = [(tkPunct, '']'')]"
| "print_values [v] = [print_value v, (tkPunct, '']'')]"
| "print_values (v # vs) = print_value v # (tkPunct, '','') # print_values vs"

definition parens :: "bool \<Rightarrow> ptok list \<Rightarrow> ptok list" where
  "parens b ts = (if b then [(tkPunct, ''('')] @ ts @ [(tkPunct, '')'')] else ts)"

text \<open>
  The tokens of an expression at the levels 0 (\<open>or\<close>), 1 (\<open>and\<close>), 2 (\<open>not\<close>) and 3 (atom),
  with parentheses where the level asks for them.
\<close>

fun print_expr :: "nat \<Rightarrow> Expr \<Rightarrow> ptok list" where
  "print_expr k (OrExpr l r) =
     parens (0 < k) (print_expr 0 l @ [(tkKeyword, ''or'')] @ print_expr 1 r)"
| "print_expr k (AndExpr l r) =
     parens (1 < k) (print_expr 1 l @ [(tkKeyword, ''and'')] @ print_expr 2 r)"
| "print_expr k (NotExpr e) = parens (2 < k) ((tkKeyword, ''not'') # print_expr 3 e)"
| "print_expr k (CompareExpr f opr v) = [(tkIdent, f), (tkPunct, opr), print_value v]"
| "print_expr k (InExpr f neg vs) =
     (tkIdent, f) # (if neg then [(tkKeyword, ''not''), (tkKeyword, ''in'')] else [(tkKeyword, ''in'')])
     @ (tkPunct, ''['') # print_values vs"

definition wf_value :: "Value \<Rightarrow> bool" where
  "wf_value v \<longleftrightarrow> (if VIsNum v then \<not> VIsStr v \<and> VStr v = [] \<and> 0 \<le> VNum v \<and> VNum v < 2 ^ 63
                  else VIsStr v \<and> VNum v = 0 \<and> is_ascii (VStr v))"

definition wf_field :: "string \<Rightarrow> bool" where
  "wf_field f \<longleftrightarrow> ident_text f \<and> f \<notin> set policy_keywords"

fun wf_expr :: "Expr \<Rightarrow> bool" where
  "wf_expr (OrExpr l r) = (wf_expr l \<and> wf_expr r)"
| "wf_expr (AndExpr l r) = (wf_expr l \<and> wf_expr r)"
| "wf_expr (NotExpr e) = wf_expr e"
| "wf_expr (CompareExpr f opr v) =
     (wf_field f \<and> opr \<in> {''=='', ''!='', ''<'', ''>'', ''<='', ''>=''} \<and> wf_value v)"
| "wf_expr (InExpr f neg vs) = (wf_field f \<and> list_all wf_value vs)"

definition action_text :: "Action \<Rightarrow> string" where
  "action_text a = (case a of ActionAllow \<Rightarrow> ''allow'' | ActionBlock \<Rightarrow> ''block'' | ActionLog \<Rightarrow> ''log'')"

definition print_rule :: "Rule \<Rightarrow> ptok list" where
  "print_rule r = [(tkKeyword, action_text (RAction r)), (tkKeyword, ''if'')] @ print_expr 0 (RExpr r)"

definition print_policy :: "Policy \<Rightarrow> ptok list" where
  "print_policy p = [(tkKeyword, ''policy''), (tkString, PName p), (tkPunct, ''{'')]
     @ concat (map print_rule (PRules p)) @ [(tkPunct, ''}'')]"

definition wf_policy :: "Policy \<Rightarrow> bool" where
  "wf_policy p \<longleftrightarrow> is_ascii (PName p) \<and> (\<forall>r \<in> set (PRules p). wf_expr (RExpr r))"

section \<open>Parsing what was printed\<close>

lemma at_tok_strip: "at_tok (t # ts) k v \<longleftrightarrow> strip t = (k, v)"
  by (auto simp: at_tok_def peek_def strip_def)

lemma strip_iff: "strip t = (k, v) \<longleftrightarrow> Kind t = k \<and> TValue t = v"
  by (auto simp: strip_def)

lemma peek_Cons [simp]: "peek (t # ts) = t"
  by (simp add: peek_def)

lemma advance_Cons' [simp]: "advance (t # ts) = ts"
  by (simp add: advance_def)

lemma expect_strip: "strip t = (k, v) \<Longrightarrow> expect k v (t # ts) = Inr (t, ts)"
  by (auto simp: expect_def strip_iff)

lemma parseValue_print: "wf_value v \<Longrightarrow> strip t = print_value v \<Longrightarrow> parseValue (t # ts) = Inr (v, ts)"
proof -
  assume wf: "wf_value v" and t: "strip t = print_value v"
  show ?thesis
  proof (cases "VIsNum v")
    case True
    then have "strconv_ParseInt64 (strconv_Itoa (nat (VNum v))) = Some (VNum v)"
      using wf ParseInt64_digits [of "strconv_Itoa (nat (VNum v))"] Itoa_digits
      by (simp add: wf_value_def nat_less_iff)
    then show ?thesis
      using t wf True by (cases v) (auto simp: parseValue_def print_value_def strip_iff wf_value_def)
  next
    case False
    then show ?thesis
      using t wf by (cases v) (auto simp: parseValue_def print_value_def strip_iff wf_value_def)
  qed
qed

lemma print_value_not_punct: "print_value v \<noteq> (tkPunct, s)"
  by (simp add: print_value_def)

lemma parseValues_print:
  "list_all wf_value vs \<Longrightarrow> map strip ts = print_values vs \<Longrightarrow>
   parseValues_loop out (ts @ rest) = Inr (out @ vs, rest)"
proof (induction vs arbitrary: out ts rule: print_values.induct)
  case 1
  then show ?case by (subst parseValues_loop.simps) (auto simp: at_tok_strip map_eq_Cons_conv)
next
  case (2 v)
  then obtain t u where ts: "ts = [t, u]" "strip t = print_value v" "strip u = (tkPunct, '']'')"
    by (auto simp: map_eq_Cons_conv)
  then show ?case
    using 2 parseValue_print [of v t "u # rest"] expect_strip [OF ts(3)]
    by (subst parseValues_loop.simps) (simp add: at_tok_strip print_value_not_punct)
next
  case (3 v w vs)
  then obtain t u ts' where ts: "ts = t # u # ts'" "strip t = print_value v" "strip u = (tkPunct, '','')"
    "map strip ts' = print_values (w # vs)"
    by (auto simp: map_eq_Cons_conv)
  have "parseValues_loop (out @ [v]) (ts' @ rest) = Inr ((out @ [v]) @ w # vs, rest)"
    using 3 ts by simp
  then show ?case
    using 3 ts parseValue_print [of v t "u # ts' @ rest"]
    by (subst parseValues_loop.simps) (simp add: at_tok_strip print_value_not_punct)
qed


definition not_at :: "tokens \<Rightarrow> string \<Rightarrow> bool" where
  "not_at toks kw \<longleftrightarrow> \<not> at_tok toks tkKeyword kw"

definition rt3 :: "Expr \<Rightarrow> bool" where
  "rt3 e \<longleftrightarrow> (\<forall>ts rest n. map strip ts = print_expr 3 e \<longrightarrow> 6 * length (ts @ rest) + 1 \<le> n \<longrightarrow>
     parseAtom n (ts @ rest) = Inr (e, rest))"

definition rt2 :: "Expr \<Rightarrow> bool" where
  "rt2 e \<longleftrightarrow> (\<forall>ts rest n. map strip ts = print_expr 2 e \<longrightarrow> 6 * length (ts @ rest) + 2 \<le> n \<longrightarrow>
     parseExprUnary n (ts @ rest) = Inr (e, rest))"

definition rt1 :: "Expr \<Rightarrow> bool" where
  "rt1 e \<longleftrightarrow> (\<forall>ts rest n. map strip ts = print_expr 1 e \<longrightarrow> 6 * length (ts @ rest) + 3 \<le> n \<longrightarrow>
     (\<exists>m. 6 * length rest + 1 \<le> m \<and> parseExprAnd n (ts @ rest) = parseAnd_loop m e rest))"

definition rt0 :: "Expr \<Rightarrow> bool" where
  "rt0 e \<longleftrightarrow> (\<forall>ts rest n. map strip ts = print_expr 0 e \<longrightarrow> 6 * length (ts @ rest) + 4 \<le> n \<longrightarrow> not_at rest ''and'' \<longrightarrow>
     (\<exists>m. 6 * length rest + 1 \<le> m \<and> parseExprOr n (ts @ rest) = parseOr_loop m e rest))"

lemma fuel_Suc: "k + Suc j \<le> n \<Longrightarrow> \<exists>m. n = Suc m \<and> k + j \<le> (m::nat)"
  by (cases n) auto

lemma rt_up1:
  assumes "rt2 e" "print_expr 1 e = print_expr 2 e"
  shows "rt1 e"
  unfolding rt1_def
proof (intro allI impI)
  fix ts rest n
  assume ts: "map strip ts = print_expr 1 e" and n: "6 * length (ts @ rest) + 3 \<le> n"
  then obtain m where m: "n = Suc m" "6 * length (ts @ rest) + 2 \<le> m" by (cases n) auto
  have "parseExprUnary m (ts @ rest) = Inr (e, rest)"
    using assms ts m(2) unfolding rt2_def by metis
  then show "\<exists>m. 6 * length rest + 1 \<le> m \<and> parseExprAnd n (ts @ rest) = parseAnd_loop m e rest"
    using m by (intro exI [of _ m]) simp
qed

lemma and_loop_stop: "6 * length rest + 1 \<le> m \<Longrightarrow> not_at rest ''and'' \<Longrightarrow> parseAnd_loop m e rest = Inr (e, rest)"
  by (cases m) (auto simp: not_at_def)

lemma or_loop_stop: "6 * length rest + 1 \<le> m \<Longrightarrow> not_at rest ''or'' \<Longrightarrow> parseOr_loop m e rest = Inr (e, rest)"
  by (cases m) (auto simp: not_at_def)

lemma rt1_stop:
  assumes "rt1 e" "map strip ts = print_expr 1 e" "6 * length (ts @ rest) + 3 \<le> n" "not_at rest ''and''"
  shows "parseExprAnd n (ts @ rest) = Inr (e, rest)"
  using assms and_loop_stop unfolding rt1_def by metis

lemma rt_up0:
  assumes "rt1 e" "print_expr 0 e = print_expr 1 e"
  shows "rt0 e"
  unfolding rt0_def
proof (intro allI impI)
  fix ts rest n
  assume ts: "map strip ts = print_expr 0 e" and n: "6 * length (ts @ rest) + 4 \<le> n" and na: "not_at rest ''and''"
  then obtain m where m: "n = Suc m" "6 * length (ts @ rest) + 3 \<le> m" by (cases n) auto
  have "parseExprAnd m (ts @ rest) = Inr (e, rest)"
    using rt1_stop [OF assms(1) _ m(2) na] ts assms(2) by simp
  then show "\<exists>m. 6 * length rest + 1 \<le> m \<and> parseExprOr n (ts @ rest) = parseOr_loop m e rest"
    using m by (intro exI [of _ m]) simp
qed

lemma rt_parens:
  assumes "rt0 e" "print_expr 3 e = (tkPunct, ''('') # print_expr 0 e @ [(tkPunct, '')'')]"
  shows "rt3 e"
  unfolding rt3_def
proof (intro allI impI)
  fix ts rest n
  assume ts: "map strip ts = print_expr 3 e" and n: "6 * length (ts @ rest) + 1 \<le> n"
  obtain a us b where u: "ts = a # us @ [b]" "strip a = (tkPunct, ''('')" "map strip us = print_expr 0 e"
    "strip b = (tkPunct, '')'')"
    using ts assms(2) by (auto simp: map_eq_Cons_conv map_eq_append_conv)
  then obtain m where m: "n = Suc m" "6 * length (us @ b # rest) + 4 \<le> m" using n by (cases n) auto
  have na: "not_at (b # rest) ''and''" "not_at (b # rest) ''or''" using u(4) by (auto simp: not_at_def at_tok_strip)
  obtain m' where "6 * length (b # rest) + 1 \<le> m'" "parseExprOr m (us @ b # rest) = parseOr_loop m' e (b # rest)"
    using assms(1) u(3) m(2) na(1) unfolding rt0_def by metis
  then have "parseExprOr m (us @ b # rest) = Inr (e, b # rest)" using or_loop_stop na(2) by metis
  then show "parseAtom n (ts @ rest) = Inr (e, rest)"
    using m u expect_strip [OF u(4)] by (simp add: at_tok_strip)
qed

lemma rt_up2:
  assumes "rt3 e" "print_expr 2 e = print_expr 3 e" "fst (hd (print_expr 3 e)) \<noteq> tkKeyword" "print_expr 3 e \<noteq> []"
  shows "rt2 e"
  unfolding rt2_def
proof (intro allI impI)
  fix ts rest n
  assume ts: "map strip ts = print_expr 2 e" and n: "6 * length (ts @ rest) + 2 \<le> n"
  then obtain m where m: "n = Suc m" "6 * length (ts @ rest) + 1 \<le> m" by (cases n) auto
  have a: "parseAtom m (ts @ rest) = Inr (e, rest)"
    using assms(1,2) ts m(2) unfolding rt3_def by metis
  obtain t us where t: "ts = t # us" using ts assms(2,4) by (cases ts) auto
  have "Kind t \<noteq> tkKeyword"
    using ts assms(2,3) by (metis t fst_conv hd_map list.discI list.sel(1) list.simps(9) strip_def)
  then show "parseExprUnary n (ts @ rest) = Inr (e, rest)"
    using a m by (simp add: t at_tok_def)
qed

lemma rt_atom:
  assumes "\<And>ts rest. map strip ts = print_expr 3 e \<Longrightarrow>
    \<exists>t us. ts = t # us \<and> Kind t = tkIdent \<and> parseField (TValue t) (us @ rest) = Inr (e, rest)"
  shows "rt3 e"
  unfolding rt3_def
proof (intro allI impI)
  fix ts rest n
  assume ts: "map strip ts = print_expr 3 e" and n: "6 * length (ts @ rest) + 1 \<le> n"
  then show "parseAtom n (ts @ rest) = Inr (e, rest)"
    using assms [OF ts, of rest] by (cases n) (auto simp: at_tok_def)
qed

lemma rt_chain:
  assumes "rt3 e" "\<And>k. print_expr k e = print_expr 3 e" "fst (hd (print_expr 3 e)) \<noteq> tkKeyword" "print_expr 3 e \<noteq> []"
  shows "rt3 e \<and> rt2 e \<and> rt1 e \<and> rt0 e"
proof -
  have e: "print_expr 2 e = print_expr 3 e" "print_expr 1 e = print_expr 2 e" "print_expr 0 e = print_expr 1 e"
    using assms(2) by metis+
  have "rt2 e" by (rule rt_up2 [OF assms(1) e(1) assms(3,4)])
  moreover from this have "rt1 e" by (rule rt_up1 [OF _ e(2)])
  moreover from this have "rt0 e" by (rule rt_up0 [OF _ e(3)])
  ultimately show ?thesis using assms(1) by blast
qed

lemma rt_compare:
  assumes "wf_expr (CompareExpr f opr v)"
  shows "rt3 (CompareExpr f opr v)"
proof (rule rt_atom)
  fix ts rest
  assume "map strip ts = print_expr 3 (CompareExpr f opr v)"
  then obtain a b c where ts: "ts = [a, b, c]" "strip a = (tkIdent, f)" "strip b = (tkPunct, opr)" "strip c = print_value v"
    by (auto simp: map_eq_Cons_conv)
  have "parseField f ([b, c] @ rest) = Inr (CompareExpr f opr v, rest)"
    using assms ts parseValue_print [of v c rest]
    by (auto simp: parseField_def at_tok_strip strip_iff)
  then show "\<exists>t us. ts = t # us \<and> Kind t = tkIdent \<and> parseField (TValue t) (us @ rest) = Inr (CompareExpr f opr v, rest)"
    using ts by (auto simp: strip_iff)
qed

lemma rt_in:
  assumes "wf_expr (InExpr f neg vs)"
  shows "rt3 (InExpr f neg vs)"
proof (rule rt_atom)
  fix ts rest
  assume "map strip ts = print_expr 3 (InExpr f neg vs)"
  then obtain a us where ts: "ts = a # us" "strip a = (tkIdent, f)"
    and us: "map strip us = (if neg then [(tkKeyword, ''not''), (tkKeyword, ''in'')] else [(tkKeyword, ''in'')])
       @ (tkPunct, ''['') # print_values vs"
    by (auto simp: map_eq_Cons_conv)
  have list: "parseValueList (b # xs @ rest) = Inr (vs, rest)"
    if "strip b = (tkPunct, ''['')" "map strip xs = print_values vs" for b xs
    using that assms parseValues_print [of vs xs "[]" rest] expect_strip by (simp add: parseValueList_def)
  have "parseField f (us @ rest) = Inr (InExpr f neg vs, rest)"
    using us list by (auto simp: map_eq_Cons_conv parseField_def at_tok_strip split: if_splits)
  then show "\<exists>t us. ts = t # us \<and> Kind t = tkIdent \<and> parseField (TValue t) (us @ rest) = Inr (InExpr f neg vs, rest)"
    using ts by (auto simp: strip_iff)
qed

lemma rt_and:
  assumes "rt1 l" "rt2 r"
  shows "rt1 (AndExpr l r)"
  unfolding rt1_def
proof (intro allI impI)
  fix ts rest n
  assume ts: "map strip ts = print_expr 1 (AndExpr l r)" and n: "6 * length (ts @ rest) + 3 \<le> n"
  obtain us a vs where u: "ts = us @ a # vs" "map strip us = print_expr 1 l" "strip a = (tkKeyword, ''and'')"
    "map strip vs = print_expr 2 r"
    using ts by (auto simp: parens_def map_eq_Cons_conv map_eq_append_conv)
  have "6 * length (us @ (a # vs @ rest)) + 3 \<le> n" using n u(1) by simp
  then obtain m where m: "6 * length (a # vs @ rest) + 1 \<le> m"
    "parseExprAnd n (us @ (a # vs @ rest)) = parseAnd_loop m l (a # vs @ rest)"
    using assms(1) u(2) unfolding rt1_def by metis
  then obtain m' where m': "m = Suc m'" "6 * length (vs @ rest) + 2 \<le> m'" by (cases m) auto
  have "parseExprUnary m' (vs @ rest) = Inr (r, rest)"
    using assms(2) u(4) m'(2) unfolding rt2_def by metis
  then have "parseExprAnd n (ts @ rest) = parseAnd_loop m' (AndExpr l r) rest"
    using m(2) m'(1) u(1,3) by (simp add: at_tok_strip)
  moreover have "6 * length rest + 1 \<le> m'" using m'(2) by simp
  ultimately show "\<exists>m. 6 * length rest + 1 \<le> m \<and> parseExprAnd n (ts @ rest) = parseAnd_loop m (AndExpr l r) rest"
    by blast
qed

lemma rt_or:
  assumes "rt0 l" "rt1 r"
  shows "rt0 (OrExpr l r)"
  unfolding rt0_def
proof (intro allI impI)
  fix ts rest n
  assume ts: "map strip ts = print_expr 0 (OrExpr l r)" and n: "6 * length (ts @ rest) + 4 \<le> n"
    and na: "not_at rest ''and''"
  obtain us a vs where u: "ts = us @ a # vs" "map strip us = print_expr 0 l" "strip a = (tkKeyword, ''or'')"
    "map strip vs = print_expr 1 r"
    using ts by (auto simp: parens_def map_eq_Cons_conv map_eq_append_conv)
  have "6 * length (us @ (a # vs @ rest)) + 4 \<le> n" using n u(1) by simp
  moreover have "not_at (a # vs @ rest) ''and''" using u(3) by (simp add: not_at_def at_tok_strip)
  ultimately obtain m where m: "6 * length (a # vs @ rest) + 1 \<le> m"
    "parseExprOr n (us @ (a # vs @ rest)) = parseOr_loop m l (a # vs @ rest)"
    using assms(1) u(2) unfolding rt0_def by metis
  then obtain m' where m': "m = Suc m'" "6 * length (vs @ rest) + 3 \<le> m'" by (cases m) auto
  have "parseExprAnd m' (vs @ rest) = Inr (r, rest)"
    by (rule rt1_stop [OF assms(2) u(4) m'(2) na])
  then have "parseExprOr n (ts @ rest) = parseOr_loop m' (OrExpr l r) rest"
    using m(2) m'(1) u(1,3) by (simp add: at_tok_strip)
  moreover have "6 * length rest + 1 \<le> m'" using m'(2) by simp
  ultimately show "\<exists>m. 6 * length rest + 1 \<le> m \<and> parseExprOr n (ts @ rest) = parseOr_loop m (OrExpr l r) rest"
    by blast
qed

lemma rt_not:
  assumes "rt3 e"
  shows "rt2 (NotExpr e)"
  unfolding rt2_def
proof (intro allI impI)
  fix ts rest n
  assume ts: "map strip ts = print_expr 2 (NotExpr e)" and n: "6 * length (ts @ rest) + 2 \<le> n"
  obtain a us where u: "ts = a # us" "strip a = (tkKeyword, ''not'')" "map strip us = print_expr 3 e"
    using ts by (auto simp: parens_def map_eq_Cons_conv)
  then obtain m where m: "n = Suc m" "6 * length (us @ rest) + 1 \<le> m" using n by (cases n) auto
  have "parseAtom m (us @ rest) = Inr (e, rest)" using assms u(3) m(2) unfolding rt3_def by metis
  then show "parseExprUnary n (ts @ rest) = Inr (NotExpr e, rest)"
    using m(1) u by (simp add: at_tok_strip)
qed

lemma print_expr_roundtrip: "wf_expr e \<Longrightarrow> rt3 e \<and> rt2 e \<and> rt1 e \<and> rt0 e"
proof (induction e)
  case (AndExpr l r)
  then have 1: "rt1 (AndExpr l r)" by (intro rt_and) auto
  then have 0: "rt0 (AndExpr l r)" by (rule rt_up0) (simp add: parens_def)
  then have 3: "rt3 (AndExpr l r)" by (rule rt_parens) (simp add: parens_def)
  then have "rt2 (AndExpr l r)" by (rule rt_up2) (simp_all add: parens_def)
  with 0 1 3 show ?case by blast
next
  case (OrExpr l r)
  then have 0: "rt0 (OrExpr l r)" by (intro rt_or) auto
  then have 3: "rt3 (OrExpr l r)" by (rule rt_parens) (simp add: parens_def)
  then have 2: "rt2 (OrExpr l r)" by (rule rt_up2) (simp_all add: parens_def)
  then have "rt1 (OrExpr l r)" by (rule rt_up1) (simp add: parens_def)
  with 0 2 3 show ?case by blast
next
  case (NotExpr e)
  then have 2: "rt2 (NotExpr e)" by (intro rt_not) auto
  then have 1: "rt1 (NotExpr e)" by (rule rt_up1) (simp add: parens_def)
  then have 0: "rt0 (NotExpr e)" by (rule rt_up0) (simp add: parens_def)
  then have "rt3 (NotExpr e)" by (rule rt_parens) (simp add: parens_def)
  with 0 1 2 show ?case by blast
next
  case (CompareExpr f opr v)
  then show ?case by (intro rt_chain rt_compare) auto
next
  case (InExpr f neg vs)
  then show ?case by (intro rt_chain rt_in) auto
qed


lemma map_split:
  assumes "map f xs = ys @ zs"
  obtains us vs where "xs = us @ vs" "map f us = ys" "map f vs = zs"
  using assms by (auto simp: map_eq_append_conv)

lemma parseRule_print:
  assumes "map strip ts = print_rule r" "wf_expr (RExpr r)" "not_at rest ''and''" "not_at rest ''or''"
  shows "parseRule (ts @ rest) = Inr (r, rest)"
proof -
  obtain a b us where ts: "ts = a # b # us" "strip a = (tkKeyword, action_text (RAction r))"
    "strip b = (tkKeyword, ''if'')" "map strip us = print_expr 0 (RExpr r)"
    using assms(1) by (auto simp: print_rule_def map_eq_Cons_conv)
  have "rt0 (RExpr r)" using print_expr_roundtrip [OF assms(2)] by blast
  then obtain m where "6 * length rest + 1 \<le> m"
    "parseExprOr (expr_fuel (us @ rest)) (us @ rest) = parseOr_loop m (RExpr r) rest"
    using ts(4) assms(3) unfolding rt0_def expr_fuel_def by (metis order_refl)
  then have "parseExprOr (expr_fuel (us @ rest)) (us @ rest) = Inr (RExpr r, rest)"
    using or_loop_stop assms(4) by metis
  then show ?thesis
    using ts expect_strip [OF ts(3)]
    by (cases r; cases "RAction r") (auto simp: parseRule_def strip_iff action_text_def)
qed

lemma rules_head:
  assumes "map strip ts = concat (map print_rule rs) @ [(tkPunct, ''}'')]"
  shows "\<exists>t us. ts = t # us \<and> Kind t \<noteq> tkEOF \<and> TValue t \<noteq> ''and'' \<and> TValue t \<noteq> ''or''
    \<and> (rs = [] \<longleftrightarrow> strip t = (tkPunct, ''}''))"
proof (cases rs)
  case Nil
  then show ?thesis using assms by (auto simp: map_eq_Cons_conv strip_iff)
next
  case (Cons r rs')
  then show ?thesis
    using assms by (auto simp: print_rule_def map_eq_Cons_conv strip_iff action_text_def split: Action.splits)
qed

lemma parseRules_print:
  "map strip ts = concat (map print_rule rs) @ [(tkPunct, ''}'')] \<Longrightarrow> \<forall>r \<in> set rs. wf_expr (RExpr r) \<Longrightarrow>
   parseRules_loop acc (ts @ rest) = Inr (acc @ rs, rest)"
proof (induction rs arbitrary: ts acc)
  case Nil
  then show ?case
    by (subst parseRules_loop.simps) (auto simp: map_eq_Cons_conv at_tok_strip strip_iff)
next
  case (Cons r rs)
  obtain us vs where u: "ts = us @ vs" "map strip us = print_rule r"
    "map strip vs = concat (map print_rule rs) @ [(tkPunct, ''}'')]"
    using map_split [of strip ts "print_rule r"] Cons.prems(1) by auto
  have na: "not_at (vs @ rest) ''and''" "not_at (vs @ rest) ''or''"
    using rules_head [OF u(3)] by (auto simp: not_at_def at_tok_def)
  have p: "parseRule (ts @ rest) = Inr (r, vs @ rest)"
    using parseRule_print [OF u(2) _ na] Cons.prems(2) u(1) by simp
  have "parseRules_loop (acc @ [r]) (vs @ rest) = Inr ((acc @ [r]) @ rs, rest)"
    using Cons.IH [OF u(3)] Cons.prems(2) by simp
  then show ?case
    using p rules_head [OF Cons.prems(1)] by (subst parseRules_loop.simps) (auto simp: at_tok_strip)
qed

definition loaded :: "(string \<Rightarrow> string) \<Rightarrow> string \<Rightarrow> Policy \<Rightarrow> Policy" where
  "loaded h b p = p\<lparr>PVersion := versionOf h (PName p) (PRules p), PSource := [], PSourceBytes := b\<rparr>"

lemma parsePolicy_print:
  assumes "map strip ts = print_policy p" "wf_policy p"
  shows "parsePolicy h b (ts @ rest) = Inr (loaded h b p, rest)"
proof -
  obtain x y z us where ts: "ts = x # y # z # us" "strip x = (tkKeyword, ''policy'')" "strip y = (tkString, PName p)"
    "strip z = (tkPunct, ''{'')" "map strip us = concat (map print_rule (PRules p)) @ [(tkPunct, ''}'')]"
    using assms(1) by (auto simp: print_policy_def map_eq_Cons_conv)
  have "parseRules_loop [] (us @ rest) = Inr (PRules p, rest)"
    using parseRules_print [OF ts(5)] assms(2) by (simp add: wf_policy_def)
  moreover have "expect tkString [] (y # z # us @ rest) = Inr (y, z # us @ rest)"
    using ts(3) by (simp add: expect_def strip_iff)
  ultimately show ?thesis
    using ts expect_strip [OF ts(2)] expect_strip [OF ts(4)]
    by (simp add: parsePolicy_def strip_iff loaded_def)
qed

lemma parseAll_print:
  "map strip ts = concat (map print_policy pols) @ [(tkEOF, [])] \<Longrightarrow> \<forall>p \<in> set pols. wf_policy p \<Longrightarrow>
   parseAll h b out ts = Inr (out @ map (loaded h b) pols)"
proof (induction pols arbitrary: ts out)
  case Nil
  then show ?case by (subst parseAll.simps) (auto simp: map_eq_Cons_conv strip_iff)
next
  case (Cons p pols)
  obtain us vs where u: "ts = us @ vs" "map strip us = print_policy p"
    "map strip vs = concat (map print_policy pols) @ [(tkEOF, [])]"
    using map_split [of strip ts "print_policy p"] Cons.prems(1) by auto
  have k: "Kind (peek ts) = tkKeyword"
    using u(1,2) by (auto simp: print_policy_def map_eq_Cons_conv strip_iff)
  have "parsePolicy h b ts = Inr (loaded h b p, vs)"
    using parsePolicy_print [OF u(2)] Cons.prems(2) u(1) by simp
  then show ?case
    using k Cons.IH [OF u(3)] Cons.prems(2) by (subst parseAll.simps) simp
qed

lemma wf_tok_value: "wf_value v \<Longrightarrow> wf_tok (print_value v)"
  by (auto simp: print_value_def wf_value_def Itoa_digits split: if_splits)

lemma wf_tok_values: "list_all wf_value vs \<Longrightarrow> list_all wf_tok (print_values vs)"
  by (induction vs rule: print_values.induct) (auto simp: wf_tok_value punct_texts_def)

lemma wf_tok_expr: "wf_expr e \<Longrightarrow> list_all wf_tok (print_expr k e)"
  by (induction e arbitrary: k)
    (auto simp: parens_def punct_texts_def policy_keywords_def wf_tok_value wf_tok_values wf_field_def)

lemma wf_tok_policy: "wf_policy p \<Longrightarrow> list_all wf_tok (print_policy p)"
  by (auto simp: print_policy_def wf_policy_def list_all_iff print_rule_def policy_keywords_def punct_texts_def
      action_text_def split: Action.splits dest: wf_tok_expr [unfolded list_all_iff])

definition policy_text :: "Policy list \<Rightarrow> string" where
  "policy_text pols = toks_text (concat (map print_policy pols))"

lemma parse_layout:
  assumes "layout tx (concat (map print_policy pols))" "\<forall>p \<in> set pols. wf_policy p"
  shows "policy_Parse uni sha256_hex tx = Inr (map (loaded sha256_hex tx) pols)"
proof -
  obtain toks where "lex_all uni (newLexer tx) = Inr toks"
    "map strip toks = concat (map print_policy pols) @ [(tkEOF, [])]"
    using lex_all_newLexer [OF assms(1)] by blast
  then show ?thesis
    using parseAll_print [OF _ assms(2), of toks sha256_hex tx "[]"] by (simp add: policy_Parse_def)
qed

lemma parse_printed:
  assumes "\<forall>p \<in> set pols. wf_policy p"
  shows "policy_Parse uni sha256_hex (policy_text pols) = Inr (map (loaded sha256_hex (policy_text pols)) pols)"
proof (rule parse_layout [OF _ assms])
  have "list_all wf_tok (concat (map print_policy pols))"
    using assms wf_tok_policy by (auto simp: list_all_iff)
  then show "layout (policy_text pols) (concat (map print_policy pols))"
    unfolding policy_text_def by (rule layout_toks)
qed

section \<open>Properties\<close>

text \<open>
  C39. Parsing terminates with an answer: \<open>Parse\<close> never runs out of the fuel the model gives its
  recursion, so on every text it returns either policies or one of the code's own errors.
\<close>

theorem policy_Parse_total: "policy_Parse uni sha256_hex text \<noteq> Inl OutOfFuel"
  using parseAll_fuel by (auto simp: policy_Parse_def split: sum.splits)

text \<open>
  C8. Round trip of the policy language: printing a list of policies as text (any nesting of
  \<open>and\<close>, \<open>or\<close>, \<open>not\<close>, comparisons and lists, with parentheses where precedence and left
  association need them) and parsing the text gives back exactly these policies, with the
  version computed from name and rules, and the text as source.
\<close>

theorem policy_Parse_roundtrip:
  assumes "\<forall>p \<in> set pols. wf_policy p"
  shows "policy_Parse uni sha256_hex (policy_text pols)
    = Inr (map (\<lambda>p. p\<lparr>PVersion := versionOf sha256_hex (PName p) (PRules p),
                       PSource := [], PSourceBytes := policy_text pols\<rparr>) pols)"
  using parse_printed [OF assms] by (simp add: loaded_def)

theorem policy_Parse_roundtrip_witness:
  "\<exists>pol. policy_Parse \<lparr>letter_above = \<lambda>_. False, digit_above = \<lambda>_. False\<rparr> (\<lambda>s. s)
     (policy_text [\<lparr>PName = ''web'',
        PRules = [\<lparr>RAction = ActionAllow,
          RExpr = AndExpr (CompareExpr ''port'' ''=='' \<lparr>VStr = [], VNum = 443, VIsNum = True, VIsStr = False\<rparr>)
            (OrExpr (InExpr ''geo'' True [\<lparr>VStr = ''RU'', VNum = 0, VIsNum = False, VIsStr = True\<rparr>])
              (NotExpr (CompareExpr ''src_ip'' ''!='' \<lparr>VStr = ''10.0.0.1'', VNum = 0, VIsNum = False, VIsStr = True\<rparr>)))\<rparr>],
        PVersion = [], PSource = [], PSourceBytes = []\<rparr>]) = Inr [pol] \<and> PName pol = ''web''"
  by (subst policy_Parse_roundtrip)
    (auto simp: wf_policy_def wf_value_def wf_field_def ident_text_def ident_char_def is_digit_def is_ascii_def
      policy_keywords_def)

end
