(* ===== verification/Net_IP.thy ===== *)
theory Net_IP
  imports Go_Prelude "HOL-Library.Word"
begin

unbundle bit_operations_syntax

text \<open>
  The part of Go's package \<open>net\<close> the program is written on: \<open>net.IP\<close> as its byte
  slice (4 or 16 bytes, empty for \<open>nil\<close>), \<open>net.IPNet\<close> as a record, \<open>ParseIP\<close>,
  \<open>ParseCIDR\<close>, \<open>CIDRMask\<close>, \<open>To4\<close>, \<open>To16\<close>, \<open>Mask\<close>, \<open>Contains\<close> and the two
  \<open>String\<close> methods. An address written with a zone (\<open>%\<close>) is refused by both
  parsers, so zones do not occur in values.
\<close>

type_synonym byte = "8 word"
type_synonym ip = "byte list"

record IPNet =
  net_IP :: ip
  net_Mask :: "byte list"

section \<open>Parsing addresses\<close>

definition parse_octet :: "string \<Rightarrow> byte option" where
  "parse_octet s =
     (if s \<noteq> [] \<and> list_all is_digit s \<and> (1 < length s \<longrightarrow> hd s \<noteq> CHR ''0'')
         \<and> dec_value s \<le> 255
      then Some (of_nat (dec_value s)) else None)"

definition parse_ipv4 :: "string \<Rightarrow> ip option" where
  "parse_ipv4 s =
     (case map parse_octet (strings_Split s CHR ''.'') of
        [Some a, Some b, Some c, Some d] \<Rightarrow> Some [a, b, c, d]
      | _ \<Rightarrow> None)"

definition hex_digit :: "char \<Rightarrow> nat option" where
  "hex_digit c = (let n = (of_char c :: nat) in
     if 48 \<le> n \<and> n \<le> 57 then Some (n - 48)
     else if 97 \<le> n \<and> n \<le> 102 then Some (n - 87)
     else if 65 \<le> n \<and> n \<le> 70 then Some (n - 55) else None)"

definition hex_value :: "string \<Rightarrow> nat" where
  "hex_value s = foldl (\<lambda>n c. 16 * n + the (hex_digit c)) 0 s"

text \<open>
  The loop of \<open>netip.parseIPv6\<close>: one group of up to four hex digits per round, an
  embedded IPv4 address at the end, at most one ellipsis. The first argument counts the
  groups that still fit; at 0 the loop condition \<open>i < 16\<close> fails.
\<close>

fun parse_ipv6_loop ::
  "nat \<Rightarrow> byte list \<Rightarrow> nat option \<Rightarrow> string \<Rightarrow> (byte list \<times> nat option \<times> string) option" where
  "parse_ipv6_loop 0 acc ell s = Some (acc, ell, s)"
| "parse_ipv6_loop (Suc k) acc ell s =
     (let hx = takeWhile (\<lambda>c. hex_digit c \<noteq> None) s; rest = drop (length hx) s in
      if hx = [] \<or> 4 < length hx then None
      else if rest \<noteq> [] \<and> hd rest = CHR ''.'' then
        (if (ell = None \<and> length acc \<noteq> 12) \<or> 16 < length acc + 4 then None
         else (case parse_ipv4 s of None \<Rightarrow> None | Some v4 \<Rightarrow> Some (acc @ v4, ell, [])))
      else
        (let acc' = acc @ [of_nat (hex_value hx div 256), of_nat (hex_value hx mod 256)] in
         if rest = [] then Some (acc', ell, [])
         else if hd rest \<noteq> CHR '':'' \<or> length rest = 1 then None
         else (let s' = tl rest in
           if hd s' = CHR '':'' then
             (if ell \<noteq> None then None
              else if tl s' = [] then Some (acc', Some (length acc'), [])
              else parse_ipv6_loop k acc' (Some (length acc')) (tl s'))
           else parse_ipv6_loop k acc' ell s')))"

definition parse_ipv6 :: "string \<Rightarrow> ip option" where
  "parse_ipv6 s =
     (let lead = prefix ''::'' s; s1 = (if lead then drop 2 s else s) in
      if CHR ''%'' \<in> set s then None
      else if lead \<and> s1 = [] then Some (replicate 16 0)
      else (case parse_ipv6_loop 8 [] (if lead then Some 0 else None) s1 of
              None \<Rightarrow> None
            | Some (acc, ell, rest) \<Rightarrow>
                (if rest \<noteq> [] then None
                 else if length acc < 16 then
                   (case ell of
                      None \<Rightarrow> None
                    | Some e \<Rightarrow> Some (take e acc @ replicate (16 - length acc) 0 @ drop e acc))
                 else (if ell = None then Some acc else None))))"

definition v4_prefix :: "byte list" where
  "v4_prefix = replicate 10 0 @ [255, 255]"

datatype netip_addr = Addr4 ip | Addr6 ip

definition netip_ParseAddr :: "string \<Rightarrow> netip_addr option" where
  "netip_ParseAddr s =
     (case dropWhile (\<lambda>c. c \<notin> {CHR ''.'', CHR '':'', CHR ''%''}) s of
        [] \<Rightarrow> None
      | c # _ \<Rightarrow>
          (if c = CHR ''.'' then map_option Addr4 (parse_ipv4 s)
           else if c = CHR '':'' then map_option Addr6 (parse_ipv6 s)
           else None))"

definition net_ParseIP :: "string \<Rightarrow> ip option" where
  "net_ParseIP s =
     (case netip_ParseAddr s of
        None \<Rightarrow> None
      | Some (Addr4 a) \<Rightarrow> Some (v4_prefix @ a)
      | Some (Addr6 a) \<Rightarrow> Some a)"

section \<open>Addresses and masks\<close>

definition To4 :: "ip \<Rightarrow> ip option" where
  "To4 p = (if length p = 4 then Some p
            else if length p = 16 \<and> take 12 p = v4_prefix then Some (drop 12 p)
            else None)"

definition To16 :: "ip \<Rightarrow> ip option" where
  "To16 p = (if length p = 4 then Some (v4_prefix @ p)
             else if length p = 16 then Some p else None)"

definition mask_byte :: "nat \<Rightarrow> byte" where
  "mask_byte n = (if 8 \<le> n then 255 else NOT (drop_bit n 255))"

definition CIDRMask :: "nat \<Rightarrow> nat \<Rightarrow> byte list" where
  "CIDRMask ones bits =
     (if (bits \<noteq> 32 \<and> bits \<noteq> 128) \<or> bits < ones then []
      else map (\<lambda>i. mask_byte (ones - 8 * i)) [0..<bits div 8])"

definition ip_Mask :: "ip \<Rightarrow> byte list \<Rightarrow> ip" where
  "ip_Mask p m =
     (let m' = (if length m = 16 \<and> length p = 4 \<and> take 12 m = replicate 12 255
                then drop 12 m else m);
          p' = (if length m' = 4 \<and> length p = 16 \<and> take 12 p = v4_prefix then drop 12 p else p)
      in if length p' = length m' then map2 (\<lambda>a b. a AND b) p' m' else [])"

definition net_ParseCIDR :: "string \<Rightarrow> IPNet option" where
  "net_ParseCIDR s =
     (case strings_Index s CHR ''/'' of
        None \<Rightarrow> None
      | Some i \<Rightarrow>
          (let addr = take i s; mask = drop (Suc i) s in
           case netip_ParseAddr addr of
             None \<Rightarrow> None
           | Some a \<Rightarrow>
               (let bl = (case a of Addr4 _ \<Rightarrow> 32 | Addr6 _ \<Rightarrow> 128);
                    p = (case a of Addr4 x \<Rightarrow> v4_prefix @ x | Addr6 x \<Rightarrow> x) in
                if mask = [] \<or> \<not> list_all is_digit mask \<or> bl < dec_value mask then None
                else (let m = CIDRMask (dec_value mask) bl in
                      Some \<lparr>net_IP = ip_Mask p m, net_Mask = m\<rparr>))))"

section \<open>Network number, membership\<close>

definition networkNumberAndMask :: "IPNet \<Rightarrow> (ip \<times> byte list) option" where
  "networkNumberAndMask n =
     (case (case To4 (net_IP n) of Some p \<Rightarrow> Some p
            | None \<Rightarrow> if length (net_IP n) = 16 then Some (net_IP n) else None) of
        None \<Rightarrow> None
      | Some p \<Rightarrow>
          (let m = net_Mask n in
           if length m = 4 then (if length p = 4 then Some (p, m) else None)
           else if length m = 16 then Some (p, if length p = 4 then drop 12 m else m)
           else None))"

definition IPNet_Contains :: "IPNet \<Rightarrow> ip \<Rightarrow> bool" where
  "IPNet_Contains n p =
     (case networkNumberAndMask n of
        None \<Rightarrow> False
      | Some (nn, m) \<Rightarrow>
          (let q = (case To4 p of Some x \<Rightarrow> x | None \<Rightarrow> p) in
           length q = length nn
           \<and> list_all (\<lambda>((a, b), c). a AND c = b AND c) (zip (zip nn q) m)))"

section \<open>Printing\<close>

definition byte_dec :: "byte \<Rightarrow> string" where
  "byte_dec b = strconv_Itoa (unat b)"

definition dotted :: "ip \<Rightarrow> string" where
  "dotted p = strings_Join (map byte_dec p) ''.''"

fun groups16 :: "ip \<Rightarrow> nat list" where
  "groups16 (a # b # r) = (256 * unat a + unat b) # groups16 r"
| "groups16 _ = []"

text \<open>The longest run of at least two zero groups, the first one if there are several.\<close>

fun zero_run :: "nat list \<Rightarrow> nat" where
  "zero_run (0 # r) = Suc (zero_run r)"
| "zero_run _ = 0"

fun best_run :: "nat list \<Rightarrow> nat \<Rightarrow> nat \<times> nat" where
  "best_run [] i = (i, 0)"
| "best_run (g # r) i =
     (let (j, l) = best_run r (Suc i); z = zero_run (g # r) in
      if 2 \<le> z \<and> l \<le> z then (i, z) else (j, l))"

definition ipv6_string :: "ip \<Rightarrow> string" where
  "ipv6_string p =
     (let gs = groups16 p; (z, l) = best_run gs 0; hex = (\<lambda>xs. strings_Join (map fmt_hex xs) '':'') in
      if l = 0 then hex gs
      else hex (take z gs) @ ''::'' @ hex (drop (z + l) gs))"

definition ip_String :: "ip \<Rightarrow> string" where
  "ip_String p =
     (if p = [] then ''<nil>''
      else (case To4 p of
              Some q \<Rightarrow> dotted q
            | None \<Rightarrow> if length p = 16 then ipv6_string p
                      else ''?'' @ concat (map (\<lambda>b. [hex_char (unat b div 16), hex_char (unat b mod 16)]) p)))"

fun simpleMaskLength :: "byte list \<Rightarrow> nat option" where
  "simpleMaskLength [] = Some 0"
| "simpleMaskLength (b # bs) =
     (if b = 255 then map_option (\<lambda>n. 8 + n) (simpleMaskLength bs)
      else (case filter (\<lambda>n. mask_byte n = b) [0..<8] of
              [] \<Rightarrow> None
            | n # _ \<Rightarrow> if list_all (\<lambda>x. x = 0) bs then Some n else None))"

definition ipnet_String :: "IPNet \<Rightarrow> string" where
  "ipnet_String n =
     (case networkNumberAndMask n of
        None \<Rightarrow> ''<nil>''
      | Some (nn, m) \<Rightarrow>
          (case simpleMaskLength m of
             Some l \<Rightarrow> ip_String nn @ ''/'' @ strconv_Itoa l
           | None \<Rightarrow> ip_String nn @ ''/''
                 @ concat (map (\<lambda>b. [hex_char (unat b div 16), hex_char (unat b mod 16)]) m)))"

section \<open>Facts about addresses\<close>

lemma length_v4_prefix [simp]: "length v4_prefix = 12"
  by (simp add: v4_prefix_def)

lemma length_CIDRMask:
  "bits = 32 \<or> bits = 128 \<Longrightarrow> ones \<le> bits \<Longrightarrow> length (CIDRMask ones bits) = bits div 8"
  by (auto simp: CIDRMask_def)

lemma length_parse_ipv4: "parse_ipv4 s = Some p \<Longrightarrow> length p = 4"
  unfolding parse_ipv4_def by (auto split: list.split_asm option.split_asm)

lemma To4_mapped [simp]: "length p = 4 \<Longrightarrow> To4 (v4_prefix @ p) = Some p"
  by (simp add: To4_def)

lemma To4_length: "To4 p = Some q \<Longrightarrow> length q = 4"
  by (auto simp: To4_def split: if_splits)

lemma To4_four [simp]: "length p = 4 \<Longrightarrow> To4 p = Some p"
  by (simp add: To4_def)

definition ell_ok :: "nat option \<Rightarrow> nat \<Rightarrow> bool" where
  "ell_ok ell n = (case ell of None \<Rightarrow> True | Some e \<Rightarrow> e \<le> n)"

lemma ell_ok_simps [simp]: "ell_ok None n" "ell_ok (Some e) n \<longleftrightarrow> e \<le> n"
  by (simp_all add: ell_ok_def)

lemma ell_ok_mono: "ell_ok ell n \<Longrightarrow> n \<le> m \<Longrightarrow> ell_ok ell m"
  by (cases ell) auto

lemma parse_ipv6_loop_length:
  "parse_ipv6_loop k acc ell s = Some (acc', ell', s') \<Longrightarrow> length acc + 2 * k = 16 \<Longrightarrow>
   ell_ok ell (length acc) \<Longrightarrow> length acc' \<le> 16 \<and> ell_ok ell' (length acc')"
proof (induction k acc ell s rule: parse_ipv6_loop.induct)
  case (1 acc ell s)
  then show ?case by auto
next
  case (2 k acc ell s)
  let ?hx = "takeWhile (\<lambda>c. hex_digit c \<noteq> None) s"
  let ?rest = "drop (length ?hx) s"
  let ?acc = "acc @ [of_nat (hex_value ?hx div 256), of_nat (hex_value ?hx mod 256)]"
  note eq = 2(3) and len = 2(4) and ell = ell_ok_mono [OF 2(5)]
  have hx: "\<not> (?hx = [] \<or> 4 < length ?hx)"
    using eq by (simp add: Let_def split: if_split_asm)
  show ?case
  proof (cases "?rest \<noteq> [] \<and> hd ?rest = CHR ''.''")
    case True
    then show ?thesis
      using eq hx len ell [of "length acc + 4"]
      by (auto simp: Let_def length_parse_ipv4 split: if_split_asm option.split_asm)
  next
    case dot: False
    show ?thesis
    proof (cases "?rest = []")
      case True
      then show ?thesis
        using eq hx len ell [of "length acc + 2"] by (auto simp: Let_def split: if_split_asm)
    next
      case rest: False
      have ok: "\<not> (hd ?rest \<noteq> CHR '':'' \<or> length ?rest = 1)"
        using eq hx dot rest by (auto simp: Let_def split: if_split_asm)
      show ?thesis
      proof (cases "hd (tl ?rest) = CHR '':''")
        case True
        have ell': "ell = None" using eq hx dot rest ok True by (auto simp: Let_def split: if_split_asm)
        show ?thesis
        proof (cases "tl (tl ?rest) = []")
          case True
          then show ?thesis
            using eq hx dot rest ok ell' len \<open>hd (tl ?rest) = CHR '':''\<close>
            by (auto simp: Let_def split: if_split_asm)
        next
          case False
          have "parse_ipv6_loop k ?acc (Some (length ?acc)) (tl (tl ?rest)) = Some (acc', ell', s')"
            using eq hx dot rest ok ell' False \<open>hd (tl ?rest) = CHR '':''\<close>
            by (simp add: Let_def split: if_split_asm)
          from 2(1) [OF refl refl hx dot refl rest ok refl True _ False this] ell' len
          show ?thesis by simp
        qed
      next
        case False
        have "parse_ipv6_loop k ?acc ell (tl ?rest) = Some (acc', ell', s')"
          using eq hx dot rest ok False by (simp add: Let_def split: if_split_asm)
        from 2(2) [OF refl refl hx dot refl rest ok refl False this] len
        show ?thesis by (simp add: ell)
      qed
    qed
  qed
qed

lemma length_parse_ipv6: "parse_ipv6 s = Some p \<Longrightarrow> length p = 16"
proof -
  assume p: "parse_ipv6 s = Some p"
  let ?s1 = "if prefix ''::'' s then drop 2 s else s"
  let ?ell = "if prefix ''::'' s then Some 0 else None"
  show ?thesis
  proof (cases "parse_ipv6_loop 8 [] ?ell ?s1")
    case None
    with p show ?thesis
      by (auto simp: parse_ipv6_def Let_def split: if_splits option.splits)
  next
    case (Some r)
    obtain acc ell rest where r: "r = (acc, ell, rest)" by (cases r)
    have "length acc \<le> 16 \<and> ell_ok ell (length acc)"
      using parse_ipv6_loop_length [OF Some [unfolded r]] by (auto split: if_splits)
    with p Some r show ?thesis
      by (auto simp: parse_ipv6_def Let_def split: if_splits option.splits)
  qed
qed

lemma length_net_ParseIP: "net_ParseIP s = Some p \<Longrightarrow> length p = 16"
  by (auto simp: net_ParseIP_def netip_ParseAddr_def length_parse_ipv6
      dest!: length_parse_ipv4 split: option.splits netip_addr.splits list.splits if_splits)

lemma length_ip_Mask_le: "length (ip_Mask p m) \<le> length m"
  by (auto simp: ip_Mask_def Let_def)

end
