(* ===== verification/Cidr_Range.thy ===== *)
theory Cidr_Range
  imports Net_IP
begin

unbundle bit_operations_syntax

text \<open>
  Address ranges as CIDR blocks: \<open>rangeToCIDRs\<close> (IPv4, on \<open>uint32\<close>) and
  \<open>rangeToCIDRsV6\<close> (IPv6, on \<open>big.Int\<close>) of \<open>backend/internal/docker/labels.go\<close>.

  The two loops are written out at their own number types: 32-bit words that wrap around,
  with the test \<open>s == 0\<close> that stops after the last block, and unbounded integers with the
  test on the bit length. Both are shown to compute one reference splitting on natural
  numbers, \<open>cidr_split\<close>, whose blocks are aligned, inside the range, and cover exactly the
  addresses from the start to the end.
\<close>

section \<open>Conversions\<close>

text \<open>\<open>ipToUint32\<close> indexes \<open>ip.To4()\<close>; on a value that has no 4-byte form it panics.\<close>

definition ipToUint32 :: "ip \<Rightarrow> 32 word option" where
  "ipToUint32 p =
     (case To4 p of
        Some [a, b, c, d] \<Rightarrow>
          Some (push_bit 24 (ucast a) OR push_bit 16 (ucast b) OR push_bit 8 (ucast c) OR ucast d)
      | _ \<Rightarrow> None)"

definition uint32ToIP :: "32 word \<Rightarrow> ip" where
  "uint32ToIP n = [ucast (drop_bit 24 n), ucast (drop_bit 16 n), ucast (drop_bit 8 n), ucast n]"

text \<open>\<open>big.Int.SetBytes\<close> of a 16-byte address, and \<open>Bytes\<close> padded to 16 bytes.\<close>

definition ip6ToInt :: "ip \<Rightarrow> int" where
  "ip6ToInt p = foldl (\<lambda>n b. 256 * n + uint b) 0 p"

definition intToIP6 :: "int \<Rightarrow> ip" where
  "intToIP6 n = map (\<lambda>i. word_of_int (n div 256 ^ (15 - i))) [0..<16]"

section \<open>The reference splitting\<close>

fun split_bits :: "nat \<Rightarrow> nat \<Rightarrow> nat \<Rightarrow> nat \<Rightarrow> nat" where
  "split_bits W s e 0 = 0"
| "split_bits W s e (Suc b) =
     (if \<not> 2 ^ (W - Suc b) dvd s then Suc b
      else if e < s + 2 ^ (W - Suc b) - 1 then Suc b
      else split_bits W s e b)"

function cidr_split :: "nat \<Rightarrow> nat \<Rightarrow> nat \<Rightarrow> (nat \<times> nat) list" where
  "cidr_split W s e =
     (if s \<le> e then
        (let bits = split_bits W s e W + 1 in (s, bits) # cidr_split W (s + 2 ^ (W - bits)) e)
      else [])"
  by pat_completeness auto
termination
  by (relation "measure (\<lambda>(W, s, e). e + 1 - s)") (auto intro!: diff_less_mono2)

declare cidr_split.simps [simp del]

definition block_set :: "nat \<Rightarrow> nat \<times> nat \<Rightarrow> nat set" where
  "block_set W blk = {fst blk ..< fst blk + 2 ^ (W - snd blk)}"

definition good_block :: "nat \<Rightarrow> nat \<Rightarrow> nat \<Rightarrow> nat \<times> nat \<Rightarrow> bool" where
  "good_block W lo hi blk \<longleftrightarrow> 1 \<le> snd blk \<and> snd blk \<le> W \<and> 2 ^ (W - snd blk) dvd fst blk
     \<and> lo \<le> fst blk \<and> fst blk + 2 ^ (W - snd blk) \<le> Suc hi"

lemma split_bits_good:
  assumes "b \<le> W" "s \<le> e"
    and start: "b < W \<longrightarrow> 2 ^ (W - Suc b) dvd s \<and> s + 2 ^ (W - Suc b) \<le> Suc e" and "0 < W"
  shows "good_block W s e (s, split_bits W s e b + 1)"
  using assms
proof (induction b)
  case 0
  then show ?case by (simp add: good_block_def)
next
  case (Suc b)
  show ?case
  proof (cases "2 ^ (W - Suc b) dvd s \<and> s + 2 ^ (W - Suc b) - 1 \<le> e")
    case True
    then have "good_block W s e (s, split_bits W s e b + 1)"
      using Suc by (intro Suc.IH) auto
    with True show ?thesis by simp
  next
    case False
    then have "Suc b \<noteq> W" using Suc.prems by (auto simp: good_block_def)
    then show ?thesis using False Suc.prems by (auto simp: good_block_def)
  qed
qed

lemma cidr_split_good:
  "0 < W \<Longrightarrow> lo \<le> s \<Longrightarrow> blk \<in> set (cidr_split W s e) \<Longrightarrow> good_block W lo e blk"
proof (induction W s e rule: cidr_split.induct)
  case (1 W s e)
  have se: "s \<le> e" using 1(4) by (subst (asm) cidr_split.simps) (simp split: if_splits)
  let ?b = "split_bits W s e W + 1"
  have g: "good_block W s e (s, ?b)" using se 1(2) by (intro split_bits_good) auto
  have "blk = (s, ?b) \<or> blk \<in> set (cidr_split W (s + 2 ^ (W - ?b)) e)"
    using 1(4) se by (subst (asm) cidr_split.simps) (simp add: Let_def)
  then show ?case
  proof
    assume "blk = (s, ?b)"
    then show ?thesis using g 1(3) by (auto simp: good_block_def)
  next
    assume "blk \<in> set (cidr_split W (s + 2 ^ (W - ?b)) e)"
    with 1(1) [OF se refl 1(2)] 1(3) show ?thesis by simp
  qed
qed

lemma cidr_split_cover:
  "0 < W \<Longrightarrow> (\<Union>blk \<in> set (cidr_split W s e). block_set W blk) = {s..e}"
proof (induction W s e rule: cidr_split.induct)
  case (1 W s e)
  show ?case
  proof (cases "s \<le> e")
    case True
    let ?b = "split_bits W s e W + 1"
    have "good_block W s e (s, ?b)" using True 1(2) by (intro split_bits_good) auto
    then have le: "s + 2 ^ (W - ?b) \<le> Suc e" by (simp add: good_block_def)
    have "(\<Union>blk \<in> set (cidr_split W s e). block_set W blk)
        = {s..<s + 2 ^ (W - ?b)} \<union> {s + 2 ^ (W - ?b)..e}"
      using True 1(1) [OF True refl 1(2)]
      by (subst cidr_split.simps) (simp add: Let_def block_set_def)
    also have "\<dots> = {s..e}" using le by auto
    finally show ?thesis .
  next
    case False
    then show ?thesis by (subst cidr_split.simps) simp
  qed
qed

lemma cidr_split_apart:
  "0 < W \<Longrightarrow> sorted_wrt (\<lambda>a b. fst a + 2 ^ (W - snd a) \<le> fst b) (cidr_split W s e)"
proof (induction W s e rule: cidr_split.induct)
  case (1 W s e)
  show ?case
  proof (cases "s \<le> e")
    case True
    let ?b = "split_bits W s e W + 1"
    have "\<forall>blk \<in> set (cidr_split W (s + 2 ^ (W - ?b)) e). s + 2 ^ (W - ?b) \<le> fst blk"
      using cidr_split_good [OF 1(2) order_refl] by (auto simp: good_block_def)
    then show ?thesis using True 1(1) [OF True refl 1(2)] by (subst cidr_split.simps) (simp add: Let_def)
  next
    case False
    then show ?thesis by (subst cidr_split.simps) simp
  qed
qed

lemma cidr_split_unique:
  assumes "0 < W" "s \<le> x" "x \<le> e"
  shows "\<exists>!i. i < length (cidr_split W s e) \<and> x \<in> block_set W (cidr_split W s e ! i)"
proof -
  let ?bs = "cidr_split W s e"
  have "x \<in> (\<Union>blk \<in> set ?bs. block_set W blk)" using cidr_split_cover [OF assms(1)] assms(2,3) by simp
  then obtain i where i: "i < length ?bs" "x \<in> block_set W (?bs ! i)" by (auto simp: in_set_conv_nth)
  have apart: "x \<notin> block_set W (?bs ! n)" if "m < n" "n < length ?bs" "x \<in> block_set W (?bs ! m)" for m n
    using sorted_wrt_nth_less [OF cidr_split_apart [OF assms(1)] that(1,2)] that(3) by (auto simp: block_set_def)
  have "j = i" if "j < length ?bs" "x \<in> block_set W (?bs ! j)" for j
    using apart [of i j] apart [of j i] i that by (meson nat_neq_iff)
  then show ?thesis using i by blast
qed

section \<open>Words and powers of two\<close>

lemma and_not_mask_iff:
  fixes s :: "'a::len word"
  shows "s AND NOT (mask k) = s \<longleftrightarrow> 2 ^ k dvd unat s"
proof -
  have "s AND NOT (mask k) = s \<longleftrightarrow> s AND mask k = 0"
    by (auto simp: bit_eq_iff bit_simps)
  also have "\<dots> \<longleftrightarrow> take_bit k s = 0"
    by (simp add: take_bit_eq_mask)
  also have "\<dots> \<longleftrightarrow> unat (take_bit k s) = 0"
    by (simp add: unat_eq_0)
  also have "\<dots> \<longleftrightarrow> 2 ^ k dvd unat s"
    by (simp only: unsigned_take_bit_eq) (simp add: take_bit_eq_mod dvd_eq_mod_eq_0)
  finally show ?thesis .
qed

lemma and_not_exp_iff:
  fixes s :: "'a::len word"
  shows "s AND NOT (2 ^ k - 1) = s \<longleftrightarrow> 2 ^ k dvd unat s"
  using and_not_mask_iff [of s k] by (simp add: mask_eq_exp_minus_1)

lemma aligned_room:
  assumes "2 ^ k dvd (n::nat)" "n < 2 ^ W" "k \<le> W"
  shows "n + 2 ^ k \<le> 2 ^ W"
proof -
  obtain q where q: "n = 2 ^ k * q" using assms(1) by (auto elim: dvdE)
  have W: "(2::nat) ^ W = 2 ^ k * 2 ^ (W - k)" using assms(3) by (simp flip: power_add)
  then have "q < 2 ^ (W - k)" using assms(2) q by simp
  then have "2 ^ k * (q + 1) \<le> 2 ^ k * (2::nat) ^ (W - k)" by (intro mult_le_mono2) simp
  then show ?thesis using q W by (simp add: algebra_simps)
qed

lemma unat_add_exp:
  fixes s :: "32 word"
  assumes "2 ^ k dvd unat s" "k < 32"
  shows "unat (s + push_bit k 1) = (if unat s + 2 ^ k = 2 ^ 32 then 0 else unat s + 2 ^ k)"
    and "unat (s + push_bit k 1 - 1) = unat s + 2 ^ k - 1"
proof -
  have s: "unat s < 2 ^ 32" using unsigned_less [of s] by simp
  then have room: "unat s + 2 ^ k \<le> 2 ^ 32" 
    using aligned_room [of k "unat s" 32] assms by simp
  have p: "unat (push_bit k 1 :: 32 word) = 2 ^ k"
  proof -
    have "(2::nat) ^ k < 2 ^ 32" using assms(2) by (intro power_strict_increasing) simp_all
    then have "unat (of_nat (2 ^ k) :: 32 word) = 2 ^ k"
      by (simp only: unsigned_of_nat take_bit_eq_mod) simp
    then show ?thesis by simp
  qed
  then show eq: "unat (s + push_bit k 1) = (if unat s + 2 ^ k = 2 ^ 32 then 0 else unat s + 2 ^ k)"
    using room by (simp add: unat_word_ariths)
  show "unat (s + push_bit k 1 - 1) = unat s + 2 ^ k - 1"
  proof (cases "unat s + 2 ^ k = 2 ^ 32")
    case True
    then have "s + push_bit k 1 = 0" using eq by (simp add: unat_eq_0)
    then show ?thesis using True by (simp add: unsigned_minus_1_eq_mask mask_eq_exp_minus_1)
  next
    case False
    then have "unat (s + push_bit k 1) = unat s + 2 ^ k" using eq by simp
    moreover have "s + push_bit k 1 \<noteq> 0"
      using calculation by (metis add_eq_0_iff_both_eq_0 power_not_zero unsigned_0 zero_neq_numeral)
    ultimately show ?thesis by (simp add: unat_minus_one)
  qed
qed
section \<open>The loop on 32-bit words\<close>

text \<open>The inner loop \<open>for bits > 0\<close> of \<open>rangeToCIDRs\<close>; the code adds 1 to its result.\<close>

fun range_bits :: "32 word \<Rightarrow> 32 word \<Rightarrow> nat \<Rightarrow> nat" where
  "range_bits s e 0 = 0"
| "range_bits s e (Suc b) =
     (let bits = Suc b; mask = NOT (push_bit (32 - bits) 1 - 1) in
      if s AND mask \<noteq> s then bits
      else (let nxt = s + push_bit (32 - bits) 1 in
            if e < nxt - 1 then bits else range_bits s e b))"

lemma range_bits_split:
  "b \<le> 32 \<Longrightarrow> range_bits s e b = split_bits 32 (unat s) (unat e) b"
proof (induction b)
  case (Suc b)
  have k: "31 - b < 32" by simp
  show ?case
  proof (cases "2 ^ (31 - b) dvd unat s")
    case True
    then show ?thesis
      using Suc unat_add_exp(2) [OF True k]
      by (simp add: Let_def and_not_exp_iff word_less_nat_alt)
  next
    case False
    then show ?thesis by (simp add: Let_def and_not_exp_iff)
  qed
qed simp

lemma range_bits_good:
  "s \<le> e \<Longrightarrow> good_block 32 (unat s) (unat e) (unat s, range_bits s e 32 + 1)"
  using split_bits_good [of 32 32 "unat s" "unat e"] by (simp add: range_bits_split word_le_nat_alt)

text \<open>The outer loop \<open>for s <= e\<close>, left early when \<open>s += blockSize\<close> wraps to 0.\<close>

function range_loop :: "32 word \<Rightarrow> 32 word \<Rightarrow> IPNet list" where
  "range_loop s e =
     (if s \<le> e then
        (let bits = range_bits s e 32 + 1; s' = s + push_bit (32 - bits) 1 in
         \<lparr>net_IP = uint32ToIP s, net_Mask = CIDRMask bits 32\<rparr>
         # (if s' = 0 then [] else range_loop s' e))
      else [])"
  by pat_completeness auto

lemma range_step:
  assumes "s \<le> e"
  defines "s' \<equiv> s + push_bit (32 - (range_bits s e 32 + 1)) 1"
  shows "s' \<noteq> 0 \<Longrightarrow> unat s' = unat s + 2 ^ (32 - (range_bits s e 32 + 1))"
    and "s' = 0 \<Longrightarrow> unat s + 2 ^ (32 - (range_bits s e 32 + 1)) = 2 ^ 32"
proof -
  have g: "good_block 32 (unat s) (unat e) (unat s, range_bits s e 32 + 1)"
    by (rule range_bits_good) fact
  then have d: "2 ^ (32 - (range_bits s e 32 + 1)) dvd unat s" by (simp add: good_block_def)
  have k: "32 - (range_bits s e 32 + 1) < 32" by simp
  note eq = unat_add_exp(1) [OF d k, folded s'_def]
  show "s' \<noteq> 0 \<Longrightarrow> unat s' = unat s + 2 ^ (32 - (range_bits s e 32 + 1))"
    using eq by (metis unat_eq_0)
  show "s' = 0 \<Longrightarrow> unat s + 2 ^ (32 - (range_bits s e 32 + 1)) = 2 ^ 32"
    using eq by (metis (no_types) add_eq_0_iff_both_eq_0 power_not_zero unsigned_0 zero_neq_numeral)
qed

termination range_loop
proof (relation "measure (\<lambda>(s, e). 2 ^ 32 - unat s)", goal_cases)
  case (2 s e bits s')
  then have "unat s' = unat s + 2 ^ (32 - bits)" using range_step(1) [of s e] by simp
  then have "unat s < unat s'" by simp
  moreover have "unat s' < 2 ^ 32" using unsigned_less [of s'] by simp
  ultimately show ?case by simp
qed simp

declare range_loop.simps [simp del]

datatype range_error = RangeReversed ip ip | RangePanic

definition rangeToCIDRs :: "ip \<Rightarrow> ip \<Rightarrow> range_error + IPNet list" where
  "rangeToCIDRs start end =
     (case (ipToUint32 start, ipToUint32 end) of
        (Some s, Some e) \<Rightarrow>
          (if e < s then Inl (RangeReversed start end) else Inr (range_loop s e))
      | _ \<Rightarrow> Inl RangePanic)"

definition block_net32 :: "nat \<times> nat \<Rightarrow> IPNet" where
  "block_net32 blk = \<lparr>net_IP = uint32ToIP (of_nat (fst blk)), net_Mask = CIDRMask (snd blk) 32\<rparr>"

lemma range_loop_refines:
  "range_loop s e = map block_net32 (cidr_split 32 (unat s) (unat e))"
proof (induction s e rule: range_loop.induct)
  case (1 s e)
  show ?case
  proof (cases "s \<le> e")
    case True
    let ?bits = "range_bits s e 32 + 1"
    let ?s = "s + push_bit (32 - ?bits) 1"
    have le: "unat s \<le> unat e" using True by (simp add: word_le_nat_alt)
    have bits: "?bits = split_bits 32 (unat s) (unat e) 32 + 1" by (simp add: range_bits_split)
    have e: "unat e < 2 ^ 32" using unsigned_less [of e] by simp
    have tail: "(if ?s = 0 then [] else range_loop ?s e)
        = map block_net32 (cidr_split 32 (unat s + 2 ^ (32 - ?bits)) (unat e))"
    proof (cases "?s = 0")
      case z: True
      then have "unat e < unat s + 2 ^ (32 - ?bits)" using range_step(2) [OF True] e by simp
      then show ?thesis using z by (subst cidr_split.simps) simp
    next
      case False
      then show ?thesis using 1 [OF True refl refl False] range_step(1) [OF True False] by simp
    qed
    show ?thesis
      using le tail bits by (subst cidr_split.simps, subst range_loop.simps)
        (simp add: Let_def True block_net32_def split: if_splits)
  next
    case False
    then show ?thesis
      by (subst range_loop.simps, subst cidr_split.simps) (simp add: word_le_nat_alt)
  qed
qed

section \<open>The loop on big integers\<close>

fun range6_bits :: "int \<Rightarrow> int \<Rightarrow> nat \<Rightarrow> nat" where
  "range6_bits s e 0 = 0"
| "range6_bits s e (Suc b) =
     (let bits = Suc b; mask = NOT (push_bit (128 - bits) 1 - 1) in
      if s AND mask \<noteq> s then bits
      else if e < s + push_bit (128 - bits) 1 - 1 then bits
      else range6_bits s e b)"

function range6_loop :: "int \<Rightarrow> int \<Rightarrow> IPNet list" where
  "range6_loop s e =
     (if s \<le> e then
        (let bits = range6_bits s e 128 + 1; s' = s + push_bit (128 - bits) 1 in
         \<lparr>net_IP = intToIP6 s, net_Mask = CIDRMask bits 128\<rparr>
         # (if 2 ^ 128 \<le> s' then [] else range6_loop s' e))
      else [])"
  by pat_completeness auto
termination
  by (relation "measure (\<lambda>(s, e). nat (e + 1 - s))") (auto simp: Let_def push_bit_eq_mult)

declare range6_loop.simps [simp del]

text \<open>The callers pass the results of \<open>To16\<close>, so \<open>start.To16()\<close> is the value itself.\<close>

definition rangeToCIDRsV6 :: "ip \<Rightarrow> ip \<Rightarrow> range_error + IPNet list" where
  "rangeToCIDRsV6 start end =
     (let s = ip6ToInt start; e = ip6ToInt end in
      if e < s then Inl (RangeReversed start end) else Inr (range6_loop s e))"

section \<open>Blocks as networks\<close>

lemma length_uint32ToIP [simp]: "length (uint32ToIP n) = 4"
  by (simp add: uint32ToIP_def)

lemma ipToUint32_of_word [simp]: "ipToUint32 (uint32ToIP n) = Some n"
proof -
  have "push_bit 24 (ucast (ucast (drop_bit 24 n) :: byte)) OR push_bit 16 (ucast (ucast (drop_bit 16 n) :: byte))
      OR push_bit 8 (ucast (ucast (drop_bit 8 n) :: byte)) OR ucast (ucast n :: byte) = n"
  proof (rule bit_word_eqI)
    fix i assume "i < LENGTH(32)"
    then consider "i < 8" | "8 \<le> i \<and> i < 16" | "16 \<le> i \<and> i < 24" | "24 \<le> i \<and> i < 32" by fastforce
    then show "bit (push_bit 24 (ucast (ucast (drop_bit 24 n) :: byte)) OR push_bit 16 (ucast (ucast (drop_bit 16 n) :: byte))
      OR push_bit 8 (ucast (ucast (drop_bit 8 n) :: byte)) OR ucast (ucast n :: byte) :: 32 word) i = bit n i"
      by cases (auto simp: bit_simps)
  qed
  then show ?thesis by (simp add: ipToUint32_def uint32ToIP_def)
qed

lemma uint32ToIP_inj: "uint32ToIP m = uint32ToIP n \<longleftrightarrow> m = n"
  using ipToUint32_of_word [of m] ipToUint32_of_word [of n] by (metis option.inject)

lemma uint32ToIP_of_To4: "ipToUint32 p = Some n \<longleftrightarrow> To4 p = Some (uint32ToIP n)"
proof
  assume "ipToUint32 p = Some n"
  then obtain a b c d where p: "To4 p = Some [a, b, c, d]"
    and n: "n = push_bit 24 (ucast a) OR push_bit 16 (ucast b) OR push_bit 8 (ucast c) OR ucast d"
    by (auto simp: ipToUint32_def split: option.splits list.splits)
  have "uint32ToIP n = [a, b, c, d]"
    unfolding uint32ToIP_def n by (simp add: bit_eq_iff bit_simps) (auto dest: bit_imp_le_length)
  with p show "To4 p = Some (uint32ToIP n)" by simp
next
  assume *: "To4 p = Some (uint32ToIP n)"
  have "ipToUint32 p = ipToUint32 (uint32ToIP n)"
    unfolding ipToUint32_def using * by simp
  then show "ipToUint32 p = Some n" by simp
qed

lemma CIDRMask_word: "b \<le> 32 \<Longrightarrow> CIDRMask b 32 = uint32ToIP (NOT (mask (32 - b)))"
proof -
  have "\<forall>b \<in> set [0..<33]. CIDRMask b 32 = uint32ToIP (NOT (mask (32 - b)))"
    by (simp add: upt_rec CIDRMask_def mask_byte_def uint32ToIP_def mask_eq_exp_minus_1
        unsigned_minus_1_eq_mask)
  then show "b \<le> 32 \<Longrightarrow> CIDRMask b 32 = uint32ToIP (NOT (mask (32 - b)))" by simp
qed

lemma uint32ToIP_and:
  "uint32ToIP (a AND b) = map2 (\<lambda>x y. x AND y) (uint32ToIP a) (uint32ToIP b)"
  by (simp add: uint32ToIP_def) (auto simp: bit_eq_iff bit_simps)

lemma Contains_word:
  "ipToUint32 p = Some x \<Longrightarrow>
   IPNet_Contains \<lparr>net_IP = uint32ToIP s, net_Mask = uint32ToIP m\<rparr> p \<longleftrightarrow> s AND m = x AND m"
  unfolding uint32ToIP_of_To4
  by (simp add: IPNet_Contains_def networkNumberAndMask_def flip: uint32ToIP_inj)
    (simp add: uint32ToIP_and, simp add: uint32ToIP_def)

lemma and_not_mask_eq_iff:
  fixes s x :: "'a::len word"
  shows "s AND NOT (mask k) = x AND NOT (mask k) \<longleftrightarrow> unat s div 2 ^ k = unat x div 2 ^ k"
proof -
  have "s AND NOT (mask k) = x AND NOT (mask k) \<longleftrightarrow> drop_bit k s = drop_bit k x"
  proof
    assume eq: "s AND NOT (mask k) = x AND NOT (mask k)"
    show "drop_bit k s = drop_bit k x"
    proof (rule bit_word_eqI)
      fix i
      have "bit (s AND NOT (mask k)) (k + i) = bit (x AND NOT (mask k)) (k + i)" using eq by simp
      then show "bit (drop_bit k s) i = bit (drop_bit k x) i"
        using bit_imp_le_length [of s "k + i"] bit_imp_le_length [of x "k + i"]
        by (auto simp: bit_simps)
    qed
  next
    assume eq: "drop_bit k s = drop_bit k x"
    show "s AND NOT (mask k) = x AND NOT (mask k)"
    proof (rule bit_word_eqI)
      fix i
      have "bit (drop_bit k s) (i - k) = bit (drop_bit k x) (i - k)" using eq by simp
      then show "bit (s AND NOT (mask k)) i = bit (x AND NOT (mask k)) i"
        by (auto simp: bit_simps)
    qed
  qed
  also have "\<dots> \<longleftrightarrow> unat (drop_bit k s) = unat (drop_bit k x)" by (simp add: word_unat_eq_iff)
  finally show ?thesis 
    by (simp only: unsigned_drop_bit_eq) (simp add: drop_bit_eq_div take_bit_nat_eq_self)
qed

lemma div_block:
  assumes "2 ^ k dvd (s::nat)"
  shows "s div 2 ^ k = x div 2 ^ k \<longleftrightarrow> x \<in> {s..<s + 2 ^ k}"
proof -
  obtain q where q: "s = 2 ^ k * q" using assms by (auto elim: dvdE)
  have "q = x div 2 ^ k \<longleftrightarrow> 2 ^ k * q \<le> x \<and> x < 2 ^ k * Suc q"
    using div_nat_eqI [of "2 ^ k" q x] dividend_less_times_div [of "2 ^ k" x]
    by (auto simp: algebra_simps)
  then show ?thesis unfolding q by (simp add: algebra_simps)
qed
lemma block_net32_contains:
  assumes "good_block 32 lo hi blk" "hi < 2 ^ 32" "ipToUint32 p = Some x"
  shows "IPNet_Contains (block_net32 blk) p \<longleftrightarrow> unat x \<in> block_set 32 blk"
proof -
  obtain s b where blk: "blk = (s, b)" by (cases blk)
  have b: "b \<le> 32" and d: "2 ^ (32 - b) dvd s" and le: "s + 2 ^ (32 - b) \<le> Suc hi"
    using assms(1) by (simp_all add: good_block_def blk)
  have "(1::nat) \<le> 2 ^ (32 - b)" by simp
  then have "s < 2 ^ 32" using le assms(2) by linarith
  then have s: "unat (of_nat s :: 32 word) = s" by (simp only: unsigned_of_nat take_bit_eq_mod) simp
  show ?thesis
    by (simp add: block_net32_def blk CIDRMask_word b Contains_word [OF assms(3)]
        and_not_mask_eq_iff s div_block [OF d] block_set_def)
qed

lemma cidr_split_sizes:
  "0 < W \<Longrightarrow> sum_list (map (\<lambda>blk. 2 ^ (W - snd blk)) (cidr_split W s e)) = Suc e - s"
proof (induction W s e rule: cidr_split.induct)
  case (1 W s e)
  show ?case
  proof (cases "s \<le> e")
    case True
    let ?b = "split_bits W s e W + 1"
    have "good_block W s e (s, ?b)" using True 1(2) by (intro split_bits_good) auto
    then have le: "s + 2 ^ (W - ?b) \<le> Suc e" by (simp add: good_block_def)
    then show ?thesis
      using True 1(1) [OF True refl 1(2)] by (subst cidr_split.simps) (simp add: Let_def)
  next
    case False
    then show ?thesis by (subst cidr_split.simps) simp
  qed
qed

lemma range6_bits_split:
  "b \<le> 128 \<Longrightarrow> 0 \<le> s \<Longrightarrow> 0 \<le> e \<Longrightarrow> range6_bits s e b = split_bits 128 (nat s) (nat e) b"
proof (induction b)
  case (Suc b)
  have aln: "s AND NOT (2 ^ (127 - b) - 1) = s \<longleftrightarrow> 2 ^ (127 - b) dvd nat s"
  proof -
    have "s AND NOT (mask (127 - b)) = s \<longleftrightarrow> take_bit (127 - b) s = 0"
      by (auto simp: bit_eq_iff bit_simps)
    also have "\<dots> \<longleftrightarrow> 2 ^ (127 - b) dvd s" by (simp add: take_bit_eq_0_iff)
    also have "\<dots> \<longleftrightarrow> 2 ^ (127 - b) dvd nat s"
      using Suc.prems(2) by (metis int_dvd_int_iff int_nat_eq of_nat_numeral of_nat_power)
    finally show ?thesis by (simp add: mask_eq_exp_minus_1)
  qed
  have lt: "e < s + 2 ^ (127 - b) - 1 \<longleftrightarrow> nat e < nat s + 2 ^ (127 - b) - 1"
  proof -
    have "(1::nat) \<le> nat s + 2 ^ (127 - b)" by (simp add: Suc_le_eq)
    then have "int (nat s + 2 ^ (127 - b) - 1) = int (nat s + 2 ^ (127 - b)) - 1"
      by (simp only: of_nat_diff of_nat_1)
    then have "int (nat s + 2 ^ (127 - b) - 1) = s + 2 ^ (127 - b) - 1"
      using Suc.prems(2) by simp
    then show ?thesis using Suc.prems(3) by linarith
  qed
  show ?case using Suc aln lt by (simp add: Let_def)
qed simp

definition block_net128 :: "nat \<times> nat \<Rightarrow> IPNet" where
  "block_net128 blk = \<lparr>net_IP = intToIP6 (int (fst blk)), net_Mask = CIDRMask (snd blk) 128\<rparr>"

lemma range6_loop_refines:
  "0 \<le> s \<Longrightarrow> 0 \<le> e \<Longrightarrow> e < 2 ^ 128 \<Longrightarrow>
   range6_loop s e = map block_net128 (cidr_split 128 (nat s) (nat e))"
proof (induction s e rule: range6_loop.induct)
  case (1 s e)
  show ?case
  proof (cases "s \<le> e")
    case True
    let ?bits = "range6_bits s e 128 + 1"
    have bits: "range6_bits s e 128 = split_bits 128 (nat s) (nat e) 128"
      using 1 by (intro range6_bits_split) auto
    have nx: "nat (s + 2 ^ (128 - ?bits)) = nat s + 2 ^ (128 - ?bits)"
      using 1(2) by (simp add: nat_add_distrib nat_power_eq)
    have tail: "(if 2 ^ 128 \<le> s + 2 ^ (128 - ?bits) then [] else range6_loop (s + 2 ^ (128 - ?bits)) e)
        = map block_net128 (cidr_split 128 (nat s + 2 ^ (128 - ?bits)) (nat e))"
    proof (cases "2 ^ 128 \<le> s + 2 ^ (128 - ?bits)")
      case big: True
      then have "nat e < nat s + 2 ^ (128 - ?bits)"
        unfolding nx [symmetric] using 1(3,4) by (subst nat_less_eq_zless) linarith+
      then show ?thesis using big by (subst cidr_split.simps) simp
    next
      case False
      have "range6_loop (s + push_bit (128 - ?bits) 1) e
        = map block_net128 (cidr_split 128 (nat (s + push_bit (128 - ?bits) 1)) (nat e))"
        using 1(2,3,4) False by (intro 1(1) [OF True refl refl]) (auto simp: not_le)
      then show ?thesis using False nx by simp
    qed
    show ?thesis
      using True tail 1(2) by (subst cidr_split.simps, subst range6_loop.simps)
        (simp add: Let_def block_net128_def bits nat_le_iff split: if_splits)
  next
    case False
    then show ?thesis
      using 1(2,3) by (subst range6_loop.simps, subst cidr_split.simps) (simp add: nat_less_iff not_le)
  qed
qed

lemma ip6ToInt_append: "ip6ToInt (p @ [b]) = 256 * ip6ToInt p + uint b"
  by (simp add: ip6ToInt_def)

lemma ip6ToInt_bounds: "0 \<le> ip6ToInt p \<and> ip6ToInt p < 256 ^ length p"
proof (induction p rule: rev_induct)
  case Nil
  then show ?case by (simp add: ip6ToInt_def)
next
  case (snoc b p)
  have "uint b < 256" "0 \<le> uint b" using uint_lt2p [of b] by simp_all
  with snoc show ?case by (simp add: ip6ToInt_append)
qed

lemma range_nets_contains:
  assumes "ipToUint32 p = Some x" "i < length (range_loop lo hi)"
  shows "IPNet_Contains (range_loop lo hi ! i) p
    \<longleftrightarrow> unat x \<in> block_set 32 (cidr_split 32 (unat lo) (unat hi) ! i)"
proof -
  let ?blk = "cidr_split 32 (unat lo) (unat hi) ! i"
  have hi: "unat hi < 2 ^ 32" using unsigned_less [of hi] by simp
  have "?blk \<in> set (cidr_split 32 (unat lo) (unat hi))" using assms(2) by (simp add: range_loop_refines)
  then have g: "good_block 32 (unat lo) (unat hi) ?blk" by (intro cidr_split_good [OF _ order_refl]) simp_all
  show ?thesis using block_net32_contains [OF g hi assms(1)] assms(2) by (simp add: range_loop_refines)
qed

lemma range_nets_exact:
  assumes "ipToUint32 start = Some lo" "ipToUint32 stop = Some hi" "lo \<le> hi"
    and "ipToUint32 p = Some x"
  shows "\<exists>nets. rangeToCIDRs start stop = Inr nets
           \<and> ((\<exists>n \<in> set nets. IPNet_Contains n p) \<longleftrightarrow> lo \<le> x \<and> x \<le> hi)"
proof -
  let ?nets = "range_loop lo hi"
  have hi: "unat hi < 2 ^ 32" using unsigned_less [of hi] by simp
  have "(\<exists>n \<in> set ?nets. IPNet_Contains n p)
      \<longleftrightarrow> (\<exists>blk \<in> set (cidr_split 32 (unat lo) (unat hi)). unat x \<in> block_set 32 blk)"
    using block_net32_contains [OF cidr_split_good [OF _ order_refl] hi assms(4)]
    by (auto simp: range_loop_refines)
  also have "\<dots> \<longleftrightarrow> unat x \<in> {unat lo..unat hi}"
    using cidr_split_cover [of 32 "unat lo" "unat hi"] by auto
  finally show ?thesis
    using assms(1-3) by (simp add: rangeToCIDRs_def word_le_nat_alt not_less)
qed

lemma range_nets_aligned:
  assumes "n \<in> set (range_loop lo hi)"
  shows "\<exists>s bits. n = \<lparr>net_IP = uint32ToIP s, net_Mask = CIDRMask bits 32\<rparr> \<and> bits \<le> 32 \<and> 2 ^ (32 - bits) dvd unat s"
proof -
  obtain blk where b: "blk \<in> set (cidr_split 32 (unat lo) (unat hi))" "n = block_net32 blk"
    using assms by (auto simp: range_loop_refines)
  have g: "good_block 32 (unat lo) (unat hi) blk" by (rule cidr_split_good [OF _ order_refl b(1)]) simp
  then have "fst blk + 2 ^ (32 - snd blk) \<le> Suc (unat hi)" by (simp add: good_block_def)
  moreover have "(0::nat) < 2 ^ (32 - snd blk)" by simp
  ultimately have "fst blk \<le> unat hi" by linarith
  moreover have "unat hi < 2 ^ 32" using unsigned_less [of hi] by simp
  ultimately have "fst blk < 2 ^ 32" by linarith
  then have "unat (of_nat (fst blk) :: 32 word) = fst blk" by (simp add: unsigned_of_nat take_bit_eq_mod)
  then have "2 ^ (32 - snd blk) dvd unat (of_nat (fst blk) :: 32 word)" using g by (simp add: good_block_def)
  then show ?thesis using g b(2) by (intro exI [of _ "of_nat (fst blk)"] exI [of _ "snd blk"]) (simp add: block_net32_def good_block_def)
qed

section \<open>Properties\<close>

text \<open>
  C7. For an IPv4 range whose start is not after its end, \<open>rangeToCIDRs\<close> succeeds, and the
  networks it returns are aligned prefixes that split the range: every address of the range (4
  bytes, or 16 bytes with an IPv4 form) is contained in exactly one of them, counted by its place
  in the list, so none overlap and none is repeated, and no address outside the range is
  contained in any. The wrap-around of the 32-bit arithmetic at 255.255.255.255 is part of the
  model.
\<close>

theorem rangeToCIDRs_exact:
  assumes "ipToUint32 start = Some lo" "ipToUint32 stop = Some hi" "lo \<le> hi"
  shows "\<exists>nets. rangeToCIDRs start stop = Inr nets
    \<and> (\<forall>n \<in> set nets. \<exists>s bits. n = \<lparr>net_IP = uint32ToIP s, net_Mask = CIDRMask bits 32\<rparr> \<and> bits \<le> 32
          \<and> 2 ^ (32 - bits) dvd unat s)
    \<and> (\<forall>p x. ipToUint32 p = Some x \<longrightarrow>
         (if lo \<le> x \<and> x \<le> hi then \<exists>!i. i < length nets \<and> IPNet_Contains (nets ! i) p
          else \<forall>n \<in> set nets. \<not> IPNet_Contains n p))"
proof (intro exI [of _ "range_loop lo hi"] conjI allI impI ballI)
  let ?bs = "cidr_split 32 (unat lo) (unat hi)" and ?nets = "range_loop lo hi"
  show "rangeToCIDRs start stop = Inr ?nets" using assms by (simp add: rangeToCIDRs_def not_less)
  show "\<exists>s bits. n = \<lparr>net_IP = uint32ToIP s, net_Mask = CIDRMask bits 32\<rparr> \<and> bits \<le> 32 \<and> 2 ^ (32 - bits) dvd unat s"
    if "n \<in> set ?nets" for n by (rule range_nets_aligned [OF that])
  fix p x assume p: "ipToUint32 p = Some x"
  have l: "length ?nets = length ?bs" by (simp add: range_loop_refines)
  note c = range_nets_contains [OF p]
  show "if lo \<le> x \<and> x \<le> hi then \<exists>!i. i < length ?nets \<and> IPNet_Contains (?nets ! i) p
      else \<forall>n \<in> set ?nets. \<not> IPNet_Contains n p"
  proof (cases "lo \<le> x \<and> x \<le> hi")
    case True
    then have "\<exists>!i. i < length ?bs \<and> unat x \<in> block_set 32 (?bs ! i)"
      by (intro cidr_split_unique) (simp_all add: word_le_nat_alt)
    then have "\<exists>!i. i < length ?nets \<and> IPNet_Contains (?nets ! i) p" using c l by metis
    then show ?thesis using True by simp
  next
    case False
    then have "unat x \<notin> (\<Union>blk \<in> set ?bs. block_set 32 blk)"
      by (simp add: cidr_split_cover word_le_nat_alt)
    then have "\<forall>n \<in> set ?nets. \<not> IPNet_Contains n p" using c l by (metis UN_I in_set_conv_nth)
    then show ?thesis by (simp only: if_not_P [OF False])
  qed
qed

theorem rangeToCIDRs_exact_witness:
  "\<exists>nets. rangeToCIDRs [10, 0, 0, 5] [255, 255, 255, 255] = Inr nets
     \<and> (\<exists>n \<in> set nets. IPNet_Contains n [10, 0, 0, 5]) \<and> \<not> (\<exists>n \<in> set nets. IPNet_Contains n [10, 0, 0, 4])"
proof -
  have a: "ipToUint32 [10, 0, 0, 5] = Some 167772165" "ipToUint32 [255, 255, 255, 255] = Some 4294967295"
    "ipToUint32 [10, 0, 0, 4] = Some 167772164" by (simp_all add: ipToUint32_def)
  obtain nets where n: "rangeToCIDRs [10, 0, 0, 5] [255, 255, 255, 255] = Inr nets"
    and x: "\<forall>p x. ipToUint32 p = Some x \<longrightarrow> (if 167772165 \<le> x \<and> x \<le> 4294967295
      then \<exists>!i. i < length nets \<and> IPNet_Contains (nets ! i) p else \<forall>n \<in> set nets. \<not> IPNet_Contains n p)"
    using rangeToCIDRs_exact [OF a(1,2)] by auto
  have "\<exists>!i. i < length nets \<and> IPNet_Contains (nets ! i) [10, 0, 0, 5]" using x a(1) by fastforce
  then have "\<exists>n \<in> set nets. IPNet_Contains n [10, 0, 0, 5]" by (meson nth_mem)
  moreover have "\<forall>n \<in> set nets. \<not> IPNet_Contains n [10, 0, 0, 4]" using x a(3) by fastforce
  ultimately show ?thesis using n by blast
qed

text \<open>
  For an IPv6 range whose start is not after its end, \<open>rangeToCIDRsV6\<close> returns the
  networks of a list of address blocks that are each aligned to their size and inside the
  range, together cover exactly the range, and have sizes that add up to its length (so no
  address is covered twice).
\<close>

theorem rangeToCIDRsV6_blocks:
  assumes "length start = 16" "length stop = 16" "ip6ToInt start \<le> ip6ToInt stop"
  shows "\<exists>blks. rangeToCIDRsV6 start stop = Inr (map block_net128 blks)
    \<and> list_all (good_block 128 (nat (ip6ToInt start)) (nat (ip6ToInt stop))) blks
    \<and> (\<Union>blk \<in> set blks. block_set 128 blk) = {nat (ip6ToInt start)..nat (ip6ToInt stop)}
    \<and> sum_list (map (\<lambda>blk. 2 ^ (128 - snd blk)) blks)
        = Suc (nat (ip6ToInt stop)) - nat (ip6ToInt start)"
proof -
  let ?s = "ip6ToInt start" and ?e = "ip6ToInt stop"
  let ?blks = "cidr_split 128 (nat ?s) (nat ?e)"
  have "rangeToCIDRsV6 start stop = Inr (map block_net128 ?blks)"
    using assms ip6ToInt_bounds [of start] ip6ToInt_bounds [of stop]
    by (simp add: rangeToCIDRsV6_def range6_loop_refines)
  moreover have "list_all (good_block 128 (nat ?s) (nat ?e)) ?blks"
    using cidr_split_good [of 128 "nat ?s" "nat ?s"] by (simp add: list_all_iff)
  ultimately show ?thesis
    using cidr_split_cover [of 128 "nat ?s" "nat ?e"] cidr_split_sizes [of 128 "nat ?s" "nat ?e"]
    by (intro exI [of _ ?blks]) simp
qed

theorem rangeToCIDRsV6_blocks_witness:
  "\<exists>blks. rangeToCIDRsV6 (replicate 16 0) (replicate 15 0 @ [5]) = Inr (map block_net128 blks)
     \<and> (\<Union>blk \<in> set blks. block_set 128 blk) = {0..5}"
proof -
  have z: "ip6ToInt (replicate n 0) = 0" for n
    by (induction n) (simp_all add: ip6ToInt_def)
  then have "ip6ToInt (replicate 16 0) = 0" "ip6ToInt (replicate 15 0 @ [5]) = 5"
    by (simp_all only: ip6ToInt_append) simp_all
  then show ?thesis
    using rangeToCIDRsV6_blocks [of "replicate 16 0" "replicate 15 0 @ [5]"] by auto
qed

end
