(* ===== verification/Schedule_Window.thy ===== *)
theory Schedule_Window
  imports Go_Prelude
begin

text \<open>
  Time windows of rule sets: \<open>backend/internal/schedule/window.go\<close>.

  A \<open>Window\<close> holds the start and end minute of the day, the seven day flags and a time
  zone. The zone database behind \<open>time.LoadLocation\<close> and the calendar behind
  \<open>time.Time.In\<close> are not part of the program: \<open>LoadLocation\<close> and \<open>civil_in\<close> are
  arguments of the definitions that use them. A location is its name, and an instant is a
  count of seconds.

  Shown here: clock values stay inside the day, a day range \<open>a-b\<close> selects exactly the
  days met by counting on from \<open>a\<close> to \<open>b\<close> (so the loop of the code ends), a window
  and the window with swapped ends split every selected day between them, and the number
  of active minutes of a selected day.
\<close>

type_synonym location = string

record Window =
  StartMin :: int
  EndMin :: int
  Days :: "bool list"
  Loc :: location
  Raw :: string

datatype schedule_error =
    EmptySchedule
  | ExpectedRange string
  | ExpectedClock string
  | BadHour string
  | BadMinute string
  | UnknownTzOrDay string

text \<open>What \<open>at.In(loc)\<close> is asked for: \<open>Weekday()\<close>, \<open>Hour()\<close> and \<open>Minute()\<close>.\<close>

record civil =
  c_weekday :: nat
  c_hour :: nat
  c_minute :: nat

definition dayNames :: "string \<Rightarrow> nat option" where
  "dayNames = map_of
     [(''sun'', 0), (''mon'', 1), (''tue'', 2), (''wed'', 3), (''thu'', 4), (''fri'', 5),
      (''sat'', 6), (''sunday'', 0), (''monday'', 1), (''tuesday'', 2), (''wednesday'', 3),
      (''thursday'', 4), (''friday'', 5), (''saturday'', 6)]"

definition parseClock :: "string \<Rightarrow> schedule_error + int" where
  "parseClock s =
     (case strings_Split s CHR '':'' of
        [hs, ms] \<Rightarrow>
          (case strconv_Atoi hs of
             None \<Rightarrow> Inl (BadHour s)
           | Some h \<Rightarrow>
               (if h < 0 \<or> 23 < h then Inl (BadHour s)
                else (case strconv_Atoi ms of
                        None \<Rightarrow> Inl (BadMinute s)
                      | Some m \<Rightarrow>
                          (if m < 0 \<or> 59 < m then Inl (BadMinute s) else Inr (h * 60 + m)))))
      | _ \<Rightarrow> Inl (ExpectedClock s))"

definition allDays :: "bool \<Rightarrow> bool list" where
  "allDays v = replicate 7 v"

lemma less7_iff: "(n::nat) < 7 \<longleftrightarrow> n \<in> {0, 1, 2, 3, 4, 5, 6}"
  by auto

lemma day_distance_decreases:
  assumes "d < 7" "b < 7" "d \<noteq> b"
  shows "(b + 7 - Suc d mod 7) mod 7 < (b + 7 - d) mod (7::nat)"
  using assms by (auto simp: less7_iff)

text \<open>
  The loop \<open>for d := int(a); ; d = (d + 1) % 7\<close>, which sets a day and stops after
  \<open>b\<close>. What shrinks is the number of days from \<open>d\<close> on to \<open>b\<close>. Weekdays are
  below 7; the bounds in the guard only make the function total.
\<close>

function dayRange :: "nat \<Rightarrow> nat \<Rightarrow> bool list \<Rightarrow> bool list" where
  "dayRange d b dst =
     (let dst' = dst[d := True] in
      if d = b \<or> 7 \<le> d \<or> 7 \<le> b then dst' else dayRange ((d + 1) mod 7) b dst')"
  by pat_completeness auto
termination
  by (relation "measure (\<lambda>(d, b, dst). (b + 7 - d) mod 7)") (auto simp: day_distance_decreases)

declare dayRange.simps [simp del]

definition tryParseDays :: "string \<Rightarrow> bool list \<Rightarrow> bool list option" where
  "tryParseDays s dst =
     (let single =
        (if strings_Contains s '','' then
           (let segs = strings_Split s CHR '','' in
            if list_all (\<lambda>seg. dayNames (strings_TrimSpace seg) \<noteq> None) segs
            then Some (foldl (\<lambda>ds seg. ds[the (dayNames (strings_TrimSpace seg)) := True])
                        (allDays False) segs)
            else None)
         else (case dayNames s of
                 Some d \<Rightarrow> Some ((allDays False)[d := True])
               | None \<Rightarrow> None)) in
      if strings_Contains s ''-'' \<and> \<not> strings_Contains s '','' then
        (case strings_Index s CHR ''-'' of
           None \<Rightarrow> single
         | Some dash \<Rightarrow>
             (case (dayNames (take dash s), dayNames (drop (Suc dash) s)) of
                (Some a, Some b) \<Rightarrow> Some (dayRange a b (allDays False))
              | _ \<Rightarrow> single))
      else single)"

text \<open>The loop of \<open>Parse\<close> over the words after the clock range.\<close>

fun parseSpecs ::
  "(string \<Rightarrow> location option) \<Rightarrow> string list \<Rightarrow> Window \<Rightarrow> schedule_error + Window" where
  "parseSpecs LoadLocation [] w = Inr w"
| "parseSpecs LoadLocation (p # ps) w =
     (if strings_EqualFold p ''daily'' then parseSpecs LoadLocation ps (w\<lparr>Days := allDays True\<rparr>)
      else (case tryParseDays (strings_ToLower p) (Days w) of
              Some ds \<Rightarrow> parseSpecs LoadLocation ps (w\<lparr>Days := ds\<rparr>)
            | None \<Rightarrow>
                (case LoadLocation p of
                   None \<Rightarrow> Inl (UnknownTzOrDay p)
                 | Some loc \<Rightarrow> parseSpecs LoadLocation ps (w\<lparr>Loc := loc\<rparr>))))"

definition schedule_Parse ::
  "(string \<Rightarrow> location option) \<Rightarrow> string \<Rightarrow> schedule_error + Window" where
  "schedule_Parse LoadLocation raw =
     (case strings_Fields (strings_TrimSpace raw) of
        [] \<Rightarrow> Inl EmptySchedule
      | rng # specs \<Rightarrow>
          (case strings_Index rng CHR ''-'' of
             None \<Rightarrow> Inl (ExpectedRange rng)
           | Some dash \<Rightarrow>
               (if dash = 0 then Inl (ExpectedRange rng)
                else rbind (parseClock (take dash rng)) (\<lambda>start.
                     rbind (parseClock (drop (Suc dash) rng)) (\<lambda>end.
                       parseSpecs LoadLocation specs
                         \<lparr>StartMin = start, EndMin = end, Days = allDays True,
                          Loc = ''UTC'', Raw = raw\<rparr>)))))"

definition Active :: "(location \<Rightarrow> int \<Rightarrow> civil) \<Rightarrow> Window \<Rightarrow> int \<Rightarrow> bool" where
  "Active civil_in w at =
     (let t = civil_in (Loc w) at; mins = int (c_hour t) * 60 + int (c_minute t) in
      if \<not> Days w ! c_weekday t then False
      else if StartMin w = EndMin w then True
      else if StartMin w < EndMin w then StartMin w \<le> mins \<and> mins < EndMin w
      else StartMin w \<le> mins \<or> mins < EndMin w)"

section \<open>Windows are well formed\<close>

definition wf_window :: "Window \<Rightarrow> bool" where
  "wf_window w \<longleftrightarrow> 0 \<le> StartMin w \<and> StartMin w < 1440 \<and> 0 \<le> EndMin w \<and> EndMin w < 1440
     \<and> length (Days w) = 7"

definition wf_civil :: "civil \<Rightarrow> bool" where
  "wf_civil t \<longleftrightarrow> c_weekday t < 7 \<and> c_hour t < 24 \<and> c_minute t < 60"

lemma parseClock_bounds: "parseClock s = Inr m \<Longrightarrow> 0 \<le> m \<and> m < 1440"
  by (auto simp: parseClock_def split: list.splits option.splits if_splits)

lemma dayNames_lt: "dayNames s = Some d \<Longrightarrow> d < 7"
  by (auto simp: dayNames_def split: if_splits)

lemma length_dayRange [simp]: "length (dayRange d b dst) = length dst"
proof (induction d b dst rule: dayRange.induct)
  case (1 d b dst)
  then show ?case by (subst dayRange.simps) (auto simp: Let_def)
qed

lemma length_foldl_update [simp]:
  "length (foldl (\<lambda>ds x. ds[f x := True]) ds xs) = length ds"
  by (induction xs arbitrary: ds) auto

lemma length_allDays [simp]: "length (allDays v) = 7"
  by (simp add: allDays_def)

lemma tryParseDays_length: "tryParseDays s dst = Some ds \<Longrightarrow> length ds = 7"
  by (auto simp: tryParseDays_def Let_def split: if_splits option.splits)

lemma parseSpecs_wf: "parseSpecs L ps w = Inr w' \<Longrightarrow> wf_window w \<Longrightarrow> wf_window w'"
proof (induction L ps w rule: parseSpecs.induct)
  case (2 L p ps w)
  then show ?case
    by (auto simp: wf_window_def split: if_splits option.splits dest: tryParseDays_length)
qed simp

lemma schedule_Parse_wf_lemma: "schedule_Parse L raw = Inr w \<Longrightarrow> wf_window w"
  by (auto simp: schedule_Parse_def rbind_Inr_iff wf_window_def split: list.splits option.splits
      if_splits dest!: parseClock_bounds parseSpecs_wf)

section \<open>Day ranges\<close>

definition day_between :: "nat \<Rightarrow> nat \<Rightarrow> nat \<Rightarrow> bool" where
  "day_between a b x \<longleftrightarrow> (x + 7 - a) mod 7 \<le> (b + 7 - a) mod 7"

lemma day_distance: "a < 7 \<Longrightarrow> x < 7 \<Longrightarrow> (x + 7 - a) mod (7::nat) = (if a \<le> x then x - a else x + 7 - a)"
  by (simp add: mod_if)

lemma day_between_step:
  assumes "a < 7" "b < 7" "x < 7" "a \<noteq> b"
  shows "day_between a b x \<longleftrightarrow> x = a \<or> day_between ((a + 1) mod 7) b x"
proof -
  consider "a = 6" | "a < 6" using assms by linarith
  then show ?thesis
  proof cases
    case 1
    then have "day_between ((a + 1) mod 7) b x \<longleftrightarrow> x \<le> b"
      using assms by (simp add: day_between_def)
    moreover have "day_between a b x \<longleftrightarrow> (if x = 6 then 0 else x + 1) \<le> b + 1"
      using 1 assms by (simp add: day_between_def mod_if)
    ultimately show ?thesis using 1 assms by auto
  next
    case 2
    then have "day_between ((a + 1) mod 7) b x
        \<longleftrightarrow> (if a < x then x - Suc a else x + 6 - a) \<le> (if a < b then b - Suc a else b + 6 - a)"
      using assms day_distance [of "Suc a" x] day_distance [of "Suc a" b]
      by (simp add: day_between_def Suc_le_eq add.commute)
    moreover have "day_between a b x
        \<longleftrightarrow> (if a \<le> x then x - a else x + 7 - a) \<le> (if a \<le> b then b - a else b + 7 - a)"
      using assms by (simp add: day_between_def day_distance)
    ultimately show ?thesis
      using assms 2 by (cases "a < x"; cases "a < b"; cases "x = a") (simp_all, arith+)
  qed
qed

lemma day_between_same: "b < 7 \<Longrightarrow> x < 7 \<Longrightarrow> day_between b b x \<longleftrightarrow> x = b"
  by (auto simp: day_between_def day_distance)

lemma dayRange_nth:
  "d < 7 \<Longrightarrow> b < 7 \<Longrightarrow> x < 7 \<Longrightarrow> length dst = 7 \<Longrightarrow>
   dayRange d b dst ! x \<longleftrightarrow> dst ! x \<or> day_between d b x"
proof (induction d b dst rule: dayRange.induct)
  case (1 d b dst)
  show ?case
  proof (cases "d = b")
    case True
    then have "day_between d b x \<longleftrightarrow> x = d"
      using 1(2-4) by (simp add: day_between_same)
    then show ?thesis
      using True 1(2-5) by (subst dayRange.simps) (auto simp: Let_def nth_list_update)
  next
    case False
    have "dayRange ((d + 1) mod 7) b (dst[d := True]) ! x
        \<longleftrightarrow> dst[d := True] ! x \<or> day_between ((d + 1) mod 7) b x"
      using 1 False by auto
    then show ?thesis
      using False 1(2-5) day_between_step [of d b x]
      by (subst dayRange.simps) (auto simp: Let_def nth_list_update)
  qed
qed

section \<open>Active minutes\<close>

lemma clock_minutes: "m < 1440 \<Longrightarrow> int (m div 60) * 60 + int (m mod 60) = int m"
  by (metis div_mod_decomp of_nat_add of_nat_mult of_nat_numeral)

text \<open>
  A calendar in which instant \<open>m\<close> is minute \<open>m\<close> of weekday \<open>d\<close>, to count the
  active minutes of one day.
\<close>

definition day_clock :: "nat \<Rightarrow> location \<Rightarrow> int \<Rightarrow> civil" where
  "day_clock d loc at = \<lparr>c_weekday = d, c_hour = nat at div 60, c_minute = nat at mod 60\<rparr>"

definition active_minutes :: "nat \<Rightarrow> Window \<Rightarrow> nat set" where
  "active_minutes d w = {m. m < 1440 \<and> Active (day_clock d) w (int m)}"

lemma active_minutes_eq:
  assumes "wf_window w" "Days w ! d"
  shows "active_minutes d w =
    (if StartMin w = EndMin w then {0..<1440}
     else if StartMin w < EndMin w then {nat (StartMin w)..<nat (EndMin w)}
     else {0..<nat (EndMin w)} \<union> {nat (StartMin w)..<1440})"
  using assms
  by (auto simp: active_minutes_def Active_def day_clock_def clock_minutes Let_def wf_window_def
      split: if_splits)

section \<open>Properties\<close>

text \<open>Every schedule that \<open>schedule.Parse\<close> accepts is a well-formed window: both clock
  values lie within the day and the seven day flags are there.\<close>

theorem schedule_Parse_wf:
  assumes "schedule_Parse LoadLocation raw = Inr w"
  shows "0 \<le> StartMin w \<and> StartMin w < 1440 \<and> 0 \<le> EndMin w \<and> EndMin w < 1440
    \<and> length (Days w) = 7"
  using schedule_Parse_wf_lemma [OF assms] by (simp add: wf_window_def)

theorem schedule_Parse_wf_witness:
  "\<exists>w. schedule_Parse (\<lambda>_. None) ''22:00-06:30 fri-mon'' = Inr w
     \<and> StartMin w < 1440 \<and> EndMin w < 1440 \<and> length (Days w) = 7"
proof -
  have h: "schedule_Parse (\<lambda>_. None) ''22:00-06:30 fri-mon'' =
    Inr \<lparr>StartMin = 1320, EndMin = 390, Days = [True, True, False, False, False, True, True],
         Loc = ''UTC'', Raw = ''22:00-06:30 fri-mon''\<rparr>"
    by (simp add: schedule_Parse_def go_simps parseClock_def dayNames_def tryParseDays_def
        dayRange.simps allDays_def strings_EqualFold_def) (simp add: eval_nat_numeral)
  show ?thesis using h schedule_Parse_wf [OF h] by simp
qed

text \<open>A day range \<open>a-b\<close> of two known day names selects exactly the days from \<open>a\<close>
  on, counted cyclically, up to \<open>b\<close>; the counting loop of the code always ends.\<close>

theorem tryParseDays_range:
  assumes "dayNames a = Some i" "dayNames b = Some j" "CHR ''-'' \<notin> set a" "CHR '','' \<notin> set (a @ b)"
  shows "\<exists>ds. tryParseDays (a @ ''-'' @ b) dst = Some ds \<and> length ds = 7
    \<and> (\<forall>x < 7. ds ! x \<longleftrightarrow> (x + 7 - i) mod 7 \<le> (j + 7 - i) mod 7)"
proof -
  have ix: "strings_Index (a @ CHR ''-'' # b) CHR ''-'' = Some (length a)"
    using assms(3) by (rule strings_Index_append)
  have "tryParseDays (a @ ''-'' @ b) dst = Some (dayRange i j (allDays False))"
    using assms(4) ix by (simp add: tryParseDays_def Let_def assms(1,2))
  moreover have "dayRange i j (allDays False) ! x \<longleftrightarrow> day_between i j x" if "x < 7" for x
    using that dayNames_lt [OF assms(1)] dayNames_lt [OF assms(2)]
    by (simp add: dayRange_nth allDays_def)
  ultimately show ?thesis by (simp add: day_between_def)
qed

theorem tryParseDays_range_witness:
  "dayNames ''fri'' = Some 5 \<and> dayNames ''mon'' = Some 1
   \<and> (\<exists>ds. tryParseDays (''fri'' @ ''-'' @ ''mon'') [] = Some ds \<and> ds ! 0 \<and> \<not> ds ! 2)"
proof -
  have f: "dayNames ''fri'' = Some 5" and m: "dayNames ''mon'' = Some 1"
    by (simp_all add: dayNames_def)
  obtain ds where ds: "tryParseDays (''fri'' @ ''-'' @ ''mon'') [] = Some ds"
    "\<forall>x < 7. ds ! x \<longleftrightarrow> (x + 7 - 5) mod 7 \<le> (1 + 7 - 5) mod (7::nat)"
    using tryParseDays_range [OF f m, of "[]"] by auto
  have "ds ! 0" "\<not> ds ! 2" using ds(2) by simp_all
  with f m ds(1) show ?thesis by blast
qed

text \<open>On a selected day a window is active for exactly \<open>(end - start) mod 1440\<close> minutes
  (all 1440 when both clock values are equal), and a window and the window with its two
  clock values swapped never overlap on that day and together cover it.\<close>

theorem Active_day_split:
  assumes "wf_window w" "Days w ! d"
  shows "card (active_minutes d w) =
      (if StartMin w = EndMin w then 1440 else nat ((EndMin w - StartMin w) mod 1440))
    \<and> (StartMin w \<noteq> EndMin w \<longrightarrow>
         active_minutes d w \<inter> active_minutes d (w\<lparr>StartMin := EndMin w, EndMin := StartMin w\<rparr>) = {}
       \<and> active_minutes d w \<union> active_minutes d (w\<lparr>StartMin := EndMin w, EndMin := StartMin w\<rparr>)
           = {0..<1440})"
proof -
  let ?v = "w\<lparr>StartMin := EndMin w, EndMin := StartMin w\<rparr>"
  have v: "wf_window ?v" "Days ?v ! d" using assms by (auto simp: wf_window_def)
  note eqs = active_minutes_eq [OF assms] active_minutes_eq [OF v]
  have b: "0 \<le> StartMin w" "StartMin w < 1440" "0 \<le> EndMin w" "EndMin w < 1440"
    using assms(1) by (auto simp: wf_window_def)
  consider "StartMin w = EndMin w" | "StartMin w < EndMin w" | "EndMin w < StartMin w"
    by linarith
  then show ?thesis
  proof cases
    case 1
    then show ?thesis by (simp add: eqs)
  next
    case 2
    have "(EndMin w - StartMin w) mod 1440 = EndMin w - StartMin w" using 2 b by simp
    with 2 b show ?thesis by (auto simp: eqs)
  next
    case 3
    have "(EndMin w - StartMin w) mod 1440 = (EndMin w - StartMin w + 1440) mod 1440"
      by simp
    also have "\<dots> = EndMin w - StartMin w + 1440"
      using 3 b by (intro mod_pos_pos_trivial) auto
    finally have "(EndMin w - StartMin w) mod 1440 = EndMin w - StartMin w + 1440" .
    moreover have "card ({0..<nat (EndMin w)} \<union> {nat (StartMin w)..<1440})
        = nat (EndMin w) + (1440 - nat (StartMin w))"
      using 3 b by (subst card_Un_disjoint) auto
    moreover have "nat (EndMin w) + (1440 - nat (StartMin w)) = nat (EndMin w - StartMin w + 1440)"
      using 3 b by arith
    moreover have "nat (StartMin w) < 1440" "nat (EndMin w) < 1440" using b by arith+
    ultimately show ?thesis using 3 b by (auto simp: eqs)
  qed
qed

theorem Active_day_split_witness:
  "card (active_minutes 5 \<lparr>StartMin = 1320, EndMin = 360, Days = replicate 7 True, Loc = ''UTC'',
      Raw = []\<rparr>) = 480"
  using Active_day_split [of "\<lparr>StartMin = 1320, EndMin = 360, Days = replicate 7 True, Loc = ''UTC'',
      Raw = []\<rparr>" 5]
  by (simp add: wf_window_def)

end
