(* ===== verification/Docker_Labels.thy ===== *)
theory Docker_Labels
  imports Cidr_Range Schedule_Window "HOL-Library.AList" "HOL-Library.Multiset"
begin

text \<open>
  Container labels, \<open>backend/internal/docker/labels.go\<close>: the configuration types
  \<open>RateLimitConfig\<close>, \<open>FirewallRuleSet\<close>, \<open>ContainerConfig\<close> and the label parser.

  Go iterates over a map in an unspecified order. The label map is an association list with
  distinct keys whose order is the order of the iteration, and the order of the iteration
  over the collected rule sets is the argument \<open>iter\<close> (any rearrangement of its argument).
  The time zone database is the argument \<open>LoadLocation\<close>.
\<close>

section \<open>Data\<close>

record RateLimitConfig =
  Rate :: nat
  Burst :: nat

record FirewallRuleSet =
  rs_Name :: string
  rs_Ports :: "16 word list"
  rs_Allowlist :: "IPNet list"
  rs_Blocklist :: "IPNet list"
  rs_AllowlistNetworks :: "string list"
  rs_BlocklistNetworks :: "string list"
  rs_RateLimit :: "RateLimitConfig option"
  rs_Profile :: string
  rs_Log :: bool
  rs_LogPrefix :: string
  rs_Protocol :: string
  rs_GeoBlock :: "string list"
  rs_GeoAllow :: "string list"
  rs_Schedule :: "Window option"

record ContainerConfig =
  Enable :: bool
  DefaultPolicy :: string
  NoAutoAllowlist :: bool
  RuleSets :: "FirewallRuleSet list"

definition LabelEnable :: string where "LabelEnable = ''firefik.enable''"
definition LabelDefaultPolicy :: string where "LabelDefaultPolicy = ''firefik.defaultpolicy''"
definition LabelNoAutoAllowlist :: string where "LabelNoAutoAllowlist = ''firefik.no-auto-allowlist''"
definition firewallPrefix :: string where "firewallPrefix = ''firefik.firewall.''"
definition defaultRateBurst :: nat where "defaultRateBurst = 20"

text \<open>The zero value of the struct, with its name.\<close>

definition empty_ruleset :: "string \<Rightarrow> FirewallRuleSet" where
  "empty_ruleset name =
     \<lparr>rs_Name = name, rs_Ports = [], rs_Allowlist = [], rs_Blocklist = [],
      rs_AllowlistNetworks = [], rs_BlocklistNetworks = [], rs_RateLimit = None,
      rs_Profile = [], rs_Log = False, rs_LogPrefix = [], rs_Protocol = [],
      rs_GeoBlock = [], rs_GeoAllow = [], rs_Schedule = None\<rparr>"

datatype ip_error =
    InvalidCIDR string
  | InvalidIP string
  | InvalidRange string
  | RangeStart string
  | RangeSuffix string
  | RangeEnd string
  | RangeEndNot4 string
  | RangeErr range_error

datatype port_error = InvalidPort string | PortZero

datatype label_error =
    UnknownPolicy string
  | MissingParam string
  | EmptyName string
  | BadPorts string port_error
  | BadIPList string ip_error
  | BadRate string
  | BadBurst string
  | RateZero string
  | BurstZero string
  | BadSchedule string schedule_error

section \<open>Lists of ports and addresses\<close>

definition splitTrimmed :: "string \<Rightarrow> string list" where
  "splitTrimmed s = filter (\<lambda>t. t \<noteq> []) (map strings_TrimSpace (strings_Split s CHR '',''))"

fun parsePorts_loop :: "string list \<Rightarrow> 16 word list \<Rightarrow> port_error + 16 word list" where
  "parsePorts_loop [] ports = Inr ports"
| "parsePorts_loop (p # ps) ports =
     (case strconv_ParseUint p 16 of
        None \<Rightarrow> Inl (InvalidPort p)
      | Some n \<Rightarrow> if n = 0 then Inl PortZero else parsePorts_loop ps (ports @ [of_nat n]))"

definition parsePorts :: "string \<Rightarrow> port_error + 16 word list" where
  "parsePorts s = parsePorts_loop (splitTrimmed s) []"

definition isNetworkName :: "string \<Rightarrow> bool" where
  "isNetworkName entry \<longleftrightarrow> \<not> strings_Contains entry ''/'' \<and> \<not> strings_Contains entry ''-''
     \<and> net_ParseIP entry = None"

definition map_range_error :: "range_error + IPNet list \<Rightarrow> ip_error + IPNet list" where
  "map_range_error r = (case r of Inl e \<Rightarrow> Inl (RangeErr e) | Inr n \<Rightarrow> Inr n)"

definition parseRange :: "string \<Rightarrow> ip_error + IPNet list" where
  "parseRange entry =
     (case strings_Index entry CHR ''-'' of
        None \<Rightarrow> Inl (InvalidRange entry)
      | Some i \<Rightarrow>
          (let startStr = take i entry; endStr = drop (Suc i) entry in
           case net_ParseIP startStr of
             None \<Rightarrow> Inl (RangeStart startStr)
           | Some startIP \<Rightarrow>
               (case To4 startIP of
                  Some ip4 \<Rightarrow>
                    (if \<not> strings_Contains endStr ''.'' then
                       (case strconv_ParseUint endStr 8 of
                          None \<Rightarrow> Inl (RangeSuffix endStr)
                        | Some n \<Rightarrow> map_range_error (rangeToCIDRs ip4 (ip4[3 := of_nat n])))
                     else
                       (case net_ParseIP endStr of
                          None \<Rightarrow> Inl (RangeEnd endStr)
                        | Some parsed \<Rightarrow>
                            (case To4 parsed of
                               None \<Rightarrow> Inl (RangeEndNot4 endStr)
                             | Some endIP \<Rightarrow> map_range_error (rangeToCIDRs ip4 endIP))))
                | None \<Rightarrow>
                    (case net_ParseIP endStr of
                       None \<Rightarrow> Inl (RangeEnd endStr)
                     | Some parsed \<Rightarrow>
                         (case (To16 startIP, To16 parsed) of
                            (Some start6, Some end6) \<Rightarrow> map_range_error (rangeToCIDRsV6 start6 end6)
                          | _ \<Rightarrow> Inl (RangeEnd endStr))))))"

definition parseIPEntry :: "string \<Rightarrow> ip_error + IPNet list" where
  "parseIPEntry entry =
     (if strings_Contains entry ''/'' then
        (case net_ParseCIDR entry of
           None \<Rightarrow> Inl (InvalidCIDR entry)
         | Some ipNet \<Rightarrow> Inr [ipNet])
      else if strings_Contains entry ''-'' then parseRange entry
      else (case net_ParseIP entry of
              None \<Rightarrow> Inl (InvalidIP entry)
            | Some p \<Rightarrow>
                (case To4 p of
                   Some ip4 \<Rightarrow> Inr [\<lparr>net_IP = ip4, net_Mask = CIDRMask 32 32\<rparr>]
                 | None \<Rightarrow> Inr [\<lparr>net_IP = p, net_Mask = CIDRMask 128 128\<rparr>])))"

fun parseIPList_loop ::
  "string list \<Rightarrow> IPNet list \<Rightarrow> string list \<Rightarrow> ip_error + IPNet list \<times> string list" where
  "parseIPList_loop [] cidrs networks = Inr (cidrs, networks)"
| "parseIPList_loop (entry # es) cidrs networks =
     (if isNetworkName entry then parseIPList_loop es cidrs (networks @ [entry])
      else rbind (parseIPEntry entry) (\<lambda>parsed. parseIPList_loop es (cidrs @ parsed) networks))"

definition parseIPListWithNetworks :: "string \<Rightarrow> ip_error + IPNet list \<times> string list" where
  "parseIPListWithNetworks s = parseIPList_loop (splitTrimmed s) [] []"

section \<open>One rule set\<close>

type_synonym rawSet = "(string \<times> string) list"

definition raw_get :: "rawSet \<Rightarrow> string \<Rightarrow> string" where
  "raw_get raw k = (case map_of raw k of Some v \<Rightarrow> v | None \<Rightarrow> [])"

definition parse_ports_param ::
  "string \<Rightarrow> rawSet \<Rightarrow> FirewallRuleSet \<Rightarrow> FirewallRuleSet \<times> label_error list" where
  "parse_ports_param pre raw rs =
     (case map_of raw ''ports'' of
        None \<Rightarrow> (rs, [])
      | Some v \<Rightarrow> (case parsePorts v of
                     Inl err \<Rightarrow> (rs, [BadPorts (pre @ ''ports'') err])
                   | Inr ports \<Rightarrow> (rs\<lparr>rs_Ports := ports\<rparr>, [])))"

definition parse_allow_param ::
  "string \<Rightarrow> rawSet \<Rightarrow> FirewallRuleSet \<Rightarrow> FirewallRuleSet \<times> label_error list" where
  "parse_allow_param pre raw rs =
     (case map_of raw ''allowlist'' of
        None \<Rightarrow> (rs, [])
      | Some v \<Rightarrow> (case parseIPListWithNetworks v of
                     Inl err \<Rightarrow> (rs, [BadIPList (pre @ ''allowlist'') err])
                   | Inr (cidrs, networks) \<Rightarrow>
                       (rs\<lparr>rs_Allowlist := cidrs, rs_AllowlistNetworks := networks\<rparr>, [])))"

definition parse_block_param ::
  "string \<Rightarrow> rawSet \<Rightarrow> FirewallRuleSet \<Rightarrow> FirewallRuleSet \<times> label_error list" where
  "parse_block_param pre raw rs =
     (case map_of raw ''blocklist'' of
        None \<Rightarrow> (rs, [])
      | Some v \<Rightarrow> (case parseIPListWithNetworks v of
                     Inl err \<Rightarrow> (rs, [BadIPList (pre @ ''blocklist'') err])
                   | Inr (cidrs, networks) \<Rightarrow>
                       (rs\<lparr>rs_Blocklist := cidrs, rs_BlocklistNetworks := networks\<rparr>, [])))"

definition parse_rate_param ::
  "string \<Rightarrow> rawSet \<Rightarrow> FirewallRuleSet \<Rightarrow> FirewallRuleSet \<times> label_error list" where
  "parse_rate_param pre raw rs =
     (let rateStr = map_of raw ''ratelimit.rate''; burstStr = map_of raw ''ratelimit.burst'' in
      if rateStr = None \<and> burstStr = None then (rs, [])
      else
        (let rl0 = \<lparr>Rate = 0, Burst = defaultRateBurst\<rparr>;
             (rl1, e1) =
               (case rateStr of
                  None \<Rightarrow> (rl0, [])
                | Some v \<Rightarrow> (case strconv_ParseUint v 32 of
                               None \<Rightarrow> (rl0, [BadRate (pre @ ''ratelimit.rate'')])
                             | Some r \<Rightarrow> (rl0\<lparr>Rate := r\<rparr>, [])));
             (rl2, e2) =
               (case burstStr of
                  None \<Rightarrow> (rl1, [])
                | Some v \<Rightarrow> (case strconv_ParseUint v 32 of
                               None \<Rightarrow> (rl1, [BadBurst (pre @ ''ratelimit.burst'')])
                             | Some b \<Rightarrow> (rl1\<lparr>Burst := b\<rparr>, [])))
         in if Rate rl2 = 0 then (rs, e1 @ e2 @ [RateZero (pre @ ''ratelimit.rate'')])
            else (rs\<lparr>rs_RateLimit := Some rl2\<rparr>,
                  e1 @ e2 @ (if Burst rl2 = 0 then [BurstZero (pre @ ''ratelimit.burst'')] else []))))"

definition parse_log_geo ::
  "rawSet \<Rightarrow> FirewallRuleSet \<Rightarrow> FirewallRuleSet" where
  "parse_log_geo raw rs =
     rs\<lparr>rs_Log := (raw_get raw ''log'' = ''true''),
        rs_LogPrefix := raw_get raw ''log.prefix'',
        rs_GeoBlock := (case map_of raw ''geoblock'' of Some v \<Rightarrow> splitTrimmed v | None \<Rightarrow> rs_GeoBlock rs),
        rs_GeoAllow := (case map_of raw ''geoallow'' of Some v \<Rightarrow> splitTrimmed v | None \<Rightarrow> rs_GeoAllow rs)\<rparr>"

definition parse_schedule_param ::
  "(string \<Rightarrow> location option) \<Rightarrow> string \<Rightarrow> rawSet \<Rightarrow> FirewallRuleSet
   \<Rightarrow> FirewallRuleSet \<times> label_error list" where
  "parse_schedule_param LoadLocation pre raw rs =
     (case map_of raw ''schedule'' of
        None \<Rightarrow> (rs, [])
      | Some v \<Rightarrow> (case schedule_Parse LoadLocation v of
                     Inl err \<Rightarrow> (rs, [BadSchedule (pre @ ''schedule'') err])
                   | Inr w \<Rightarrow> (rs\<lparr>rs_Schedule := Some w\<rparr>, [])))"

definition parseRuleSet ::
  "(string \<Rightarrow> location option) \<Rightarrow> string \<Rightarrow> rawSet \<Rightarrow> FirewallRuleSet \<times> label_error list" where
  "parseRuleSet LoadLocation name raw =
     (let pre = firewallPrefix @ name @ ''.'';
          rs0 = (empty_ruleset name)
                  \<lparr>rs_Protocol := raw_get raw ''protocol'', rs_Profile := raw_get raw ''profile''\<rparr>;
          (rs1, e1) = parse_ports_param pre raw rs0;
          (rs2, e2) = parse_allow_param pre raw rs1;
          (rs3, e3) = parse_block_param pre raw rs2;
          (rs4, e4) = parse_rate_param pre raw rs3;
          (rs5, e5) = parse_schedule_param LoadLocation pre raw (parse_log_geo raw rs4)
      in (rs5, e1 @ e2 @ e3 @ e4 @ e5))"

section \<open>The label map\<close>

type_synonym rawSets = "(string \<times> rawSet) list"

definition put_param :: "string \<Rightarrow> string \<Rightarrow> string \<Rightarrow> rawSets \<Rightarrow> rawSets" where
  "put_param name param v sets =
     AList.update name
       (AList.update param v (case map_of sets name of Some raw \<Rightarrow> raw | None \<Rightarrow> [])) sets"

text \<open>The name and parameter of a key \<open>firefik.firewall.<name>.<param>\<close>.\<close>

datatype label_key = NotFirewall | KeyError label_error | RuleKey string string

definition split_label_key :: "string \<Rightarrow> label_key" where
  "split_label_key k =
     (if \<not> strings_HasPrefix k firewallPrefix then NotFirewall
      else (let rest = strings_TrimPrefix k firewallPrefix in
            case strings_Index rest CHR ''.'' of
              None \<Rightarrow> KeyError (MissingParam k)
            | Some dot \<Rightarrow> (if dot = 0 then KeyError (EmptyName k)
                           else RuleKey (take dot rest) (drop (Suc dot) rest))))"

fun collect_sets ::
  "(string \<times> string) list \<Rightarrow> rawSets \<Rightarrow> label_error list \<Rightarrow> rawSets \<times> label_error list" where
  "collect_sets [] sets errs = (sets, errs)"
| "collect_sets ((k, v) # labels) sets errs =
     (case split_label_key k of
        NotFirewall \<Rightarrow> collect_sets labels sets errs
      | KeyError e \<Rightarrow> collect_sets labels sets (errs @ [e])
      | RuleKey name param \<Rightarrow> collect_sets labels (put_param name param v sets) errs)"

fun parse_sets ::
  "(string \<Rightarrow> location option) \<Rightarrow> rawSets \<Rightarrow> FirewallRuleSet list \<Rightarrow> label_error list
   \<Rightarrow> FirewallRuleSet list \<times> label_error list" where
  "parse_sets LoadLocation [] rss errs = (rss, errs)"
| "parse_sets LoadLocation ((name, raw) # sets) rss errs =
     (let (rs, rsErrs) = parseRuleSet LoadLocation name raw in
      parse_sets LoadLocation sets (rss @ [rs]) (errs @ rsErrs))"

definition parse_default_policy :: "(string \<times> string) list \<Rightarrow> string \<times> label_error list" where
  "parse_default_policy labels =
     (case map_of labels LabelDefaultPolicy of
        None \<Rightarrow> ([], [])
      | Some p \<Rightarrow> (if strings_ToUpper p \<in> {''ACCEPT'', ''DROP'', ''RETURN''}
                   then (strings_ToUpper p, []) else ([], [UnknownPolicy p])))"

definition ParseLabels ::
  "(rawSets \<Rightarrow> rawSets) \<Rightarrow> (string \<Rightarrow> location option) \<Rightarrow> (string \<times> string) list
   \<Rightarrow> ContainerConfig \<times> label_error list" where
  "ParseLabels iter LoadLocation labels =
     (let (pol, e0) = parse_default_policy labels;
          (sets, e1) = collect_sets labels [] e0;
          (rss, e2) = parse_sets LoadLocation (iter sets) [] e1
      in (\<lparr>Enable = (raw_get labels LabelEnable = ''true''),
           DefaultPolicy = pol,
           NoAutoAllowlist = (raw_get labels LabelNoAutoAllowlist = ''true''),
           RuleSets = rss\<rparr>, e2))"

section \<open>Lists of ports and addresses, printed and parsed\<close>

lemma digit_not_special:
  "is_digit c \<Longrightarrow> c \<noteq> CHR '','' \<and> c \<noteq> CHR ''.'' \<and> c \<noteq> CHR ''-'' \<and> c \<noteq> CHR ''/''
     \<and> c \<noteq> CHR '':'' \<and> c \<noteq> CHR ''%'' \<and> \<not> is_space c"
  by (auto simp: is_digit_def is_space_def Let_def)

lemma Itoa_chars: "c \<in> set (strconv_Itoa n) \<Longrightarrow> is_digit c"
  using Itoa_digits [of n] by (simp add: list_all_iff)

lemma Itoa_TrimSpace: "strings_TrimSpace (strconv_Itoa n) = strconv_Itoa n"
  by (rule strings_TrimSpace_no_space) (auto simp: list_all_iff dest!: Itoa_chars digit_not_special)

lemma splitTrimmed_Join:
  assumes "\<And>x. x \<in> set xs \<Longrightarrow> CHR '','' \<notin> set x \<and> x \<noteq> [] \<and> strings_TrimSpace x = x"
  shows "splitTrimmed (strings_Join xs '','') = xs"
proof (cases "xs = []")
  case False
  have "map strings_TrimSpace xs = xs" using assms by (intro map_idI) blast
  moreover have "filter (\<lambda>t. t \<noteq> []) xs = xs" using assms by (simp add: filter_id_conv)
  ultimately show ?thesis
    using False assms by (simp add: splitTrimmed_def strings_Split_Join)
qed (simp add: splitTrimmed_def strings_TrimSpace_def)

lemma parsePorts_loop_print:
  "0 \<notin> set ports \<Longrightarrow>
   parsePorts_loop (map (\<lambda>p. strconv_Itoa (unat p)) ports) acc = Inr (acc @ ports)"
proof (induction ports arbitrary: acc)
  case (Cons p ports)
  have "unat p < 2 ^ 16" using unsigned_less [of p] by simp
  then show ?case using Cons by (auto simp: ParseUint_Itoa unat_eq_0)
qed simp

lemma parsePorts_loop_nz:
  "parsePorts_loop ps acc = Inr ports \<Longrightarrow> 0 \<notin> set acc \<Longrightarrow> 0 \<notin> set ports"
proof (induction ps acc rule: parsePorts_loop.induct)
  case (2 p ps acc)
  then obtain n where n: "strconv_ParseUint p 16 = Some n" "n \<noteq> 0"
    by (auto split: option.splits if_splits)
  then have "n < 2 ^ 16" by (auto dest: ParseUint_bound)
  then have "unat (of_nat n :: 16 word) = n" by (simp only: unsigned_of_nat take_bit_eq_mod) simp
  then have "(of_nat n :: 16 word) \<noteq> 0" using n(2) by (metis unsigned_0)
  with 2 n show ?case by auto
qed simp

lemma of_char_zero_char: "(of_char CHR ''0'' :: nat) = 48"
  by simp

lemma digit_char_nz: "0 < d \<Longrightarrow> d < 10 \<Longrightarrow> digit_char d \<noteq> CHR ''0''"
  using of_char_digit_char [of d] by (metis add_cancel_right_right of_char_zero_char less_numeral_extra(3))

lemma Itoa_lead: "0 < n \<Longrightarrow> hd (strconv_Itoa n) \<noteq> CHR ''0''"
proof (induction n rule: strconv_Itoa.induct)
  case (1 n)
  show ?case
  proof (cases "n < 10")
    case True
    then show ?thesis using 1(2) digit_char_nz by (simp add: strconv_Itoa.simps [of n])
  next
    case False
    then show ?thesis using 1(1) by (simp add: strconv_Itoa.simps [of n])
  qed
qed

lemma dotted_four: "length p = 4 \<Longrightarrow> \<exists>a b c d. p = [a, b, c, d]"
  by (auto simp: numeral_eq_Suc length_Suc_conv)

lemma parse_octet_byte [simp]: "parse_octet (byte_dec b) = Some b"
proof -
  have "unat b < 256" using unsigned_less [of b] by simp
  moreover have "1 < length (strconv_Itoa n) \<Longrightarrow> hd (strconv_Itoa n) \<noteq> CHR ''0''" for n
    using Itoa_lead [of n] by (auto simp: strconv_Itoa.simps [of n] split: if_splits)
  ultimately show ?thesis
    by (simp add: parse_octet_def byte_dec_def Itoa_digits)
qed

lemma parse_ipv4_dotted: "length p = 4 \<Longrightarrow> parse_ipv4 (dotted p) = Some p"
proof -
  assume "length p = 4"
  then obtain a b c d where p: "p = [a, b, c, d]" using dotted_four by blast
  have "strings_Split (dotted p) CHR ''.'' = map byte_dec p"
    unfolding dotted_def
    by (rule strings_Split_Join) (auto simp: p byte_dec_def dest!: Itoa_chars digit_not_special)
  then show ?thesis by (simp add: parse_ipv4_def p)
qed

lemma Join_chars: "c \<in> set (strings_Join xs sep) \<Longrightarrow> c \<in> set sep \<or> (\<exists>x \<in> set xs. c \<in> set x)"
  by (induction xs sep rule: strings_Join.induct) auto

lemma dotted_chars: "c \<in> set (dotted p) \<Longrightarrow> is_digit c \<or> c = CHR ''.''"
  by (auto simp: dotted_def byte_dec_def dest!: Join_chars Itoa_chars)

lemma net_ParseIP_dotted: "length p = 4 \<Longrightarrow> net_ParseIP (dotted p) = Some (v4_prefix @ p)"
proof -
  assume l: "length p = 4"
  then obtain a b c d where p: "p = [a, b, c, d]" using dotted_four by blast
  have "CHR ''.'' \<in> set (dotted p)" by (simp add: dotted_def p)
  then obtain x r where "dropWhile (\<lambda>c. c \<notin> {CHR ''.'', CHR '':'', CHR ''%''}) (dotted p) = x # r"
    by (cases "dropWhile (\<lambda>c. c \<notin> {CHR ''.'', CHR '':'', CHR ''%''}) (dotted p)")
      (auto simp: dropWhile_eq_Nil_conv)
  moreover from this have "x \<in> {CHR ''.'', CHR '':'', CHR ''%''}" "x \<in> set (dotted p)"
    by (metis (no_types, lifting) dropWhile_eq_Cons_conv, metis list.set_intros(1) set_dropWhileD)
  ultimately show ?thesis
    using parse_ipv4_dotted [OF l] dotted_chars [of x p]
    by (auto simp: net_ParseIP_def netip_ParseAddr_def is_digit_def)
qed

section \<open>Well-formed rule sets\<close>

definition wf_net :: "IPNet \<Rightarrow> bool" where
  "wf_net n \<longleftrightarrow> length (net_IP n) = length (net_Mask n) \<and> (length (net_Mask n) = 4 \<or> length (net_Mask n) = 16)"

definition wf_rate :: "RateLimitConfig \<Rightarrow> bool" where
  "wf_rate rl \<longleftrightarrow> 0 < Rate rl \<and> Rate rl < 2 ^ 32 \<and> Burst rl < 2 ^ 32"

definition wf_ruleset :: "FirewallRuleSet \<Rightarrow> bool" where
  "wf_ruleset rs \<longleftrightarrow> 0 \<notin> set (rs_Ports rs)
     \<and> list_all wf_net (rs_Allowlist rs) \<and> list_all wf_net (rs_Blocklist rs)
     \<and> list_all isNetworkName (rs_AllowlistNetworks rs) \<and> list_all isNetworkName (rs_BlocklistNetworks rs)
     \<and> pred_option wf_rate (rs_RateLimit rs) \<and> pred_option wf_window (rs_Schedule rs)"

lemma length_intToIP6 [simp]: "length (intToIP6 n) = 16"
  by (simp add: intToIP6_def)

lemma block_net32_wf: "good_block 32 lo hi blk \<Longrightarrow> wf_net (block_net32 blk)"
  by (simp add: wf_net_def block_net32_def good_block_def length_CIDRMask)

lemma block_net128_wf: "good_block 128 lo hi blk \<Longrightarrow> wf_net (block_net128 blk)"
  by (simp add: wf_net_def block_net128_def good_block_def length_CIDRMask)

lemma cidr_split_nets_wf:
  "list_all wf_net (map block_net32 (cidr_split 32 s e))"
  "list_all wf_net (map block_net128 (cidr_split 128 s e))"
  using block_net32_wf [OF cidr_split_good [of 32 s s _ e]]
    block_net128_wf [OF cidr_split_good [of 128 s s _ e]]
  by (auto simp: list_all_iff)

lemma rangeToCIDRs_wf: "rangeToCIDRs a b = Inr nets \<Longrightarrow> list_all wf_net nets"
  using cidr_split_nets_wf(1)
  by (auto simp: rangeToCIDRs_def range_loop_refines split: option.splits if_splits)

lemma rangeToCIDRsV6_wf:
  assumes "rangeToCIDRsV6 a b = Inr nets" "length a = 16" "length b = 16"
  shows "list_all wf_net nets"
proof -
  have "nets = map block_net128 (cidr_split 128 (nat (ip6ToInt a)) (nat (ip6ToInt b)))"
    using assms ip6ToInt_bounds [of a] ip6ToInt_bounds [of b]
    by (auto simp: rangeToCIDRsV6_def range6_loop_refines Let_def split: if_splits)
  then show ?thesis by (simp only: cidr_split_nets_wf)
qed

lemma length_To16: "To16 p = Some q \<Longrightarrow> length q = 16"
  by (auto simp: To16_def split: if_splits)

lemma parseRange_wf: "parseRange entry = Inr nets \<Longrightarrow> list_all wf_net nets"
  unfolding parseRange_def Let_def map_range_error_def
  by (auto dest: rangeToCIDRs_wf intro: rangeToCIDRsV6_wf length_To16
      split: option.splits if_splits sum.splits)

lemma net_ParseCIDR_wf: "net_ParseCIDR s = Some n \<Longrightarrow> wf_net n"
proof -
  assume "net_ParseCIDR s = Some n"
  then obtain addr a m where a: "netip_ParseAddr addr = Some a"
    and m: "m \<le> (case a of Addr4 _ \<Rightarrow> 32 | Addr6 _ \<Rightarrow> 128)"
    and n: "n = (let mk = CIDRMask m (case a of Addr4 _ \<Rightarrow> 32 | Addr6 _ \<Rightarrow> 128) in
              \<lparr>net_IP = ip_Mask (case a of Addr4 x \<Rightarrow> v4_prefix @ x | Addr6 x \<Rightarrow> x) mk, net_Mask = mk\<rparr>)"
    by (auto simp: net_ParseCIDR_def Let_def not_less split: option.splits if_splits)
  show ?thesis
  proof (cases a)
    case (Addr4 x)
    then have "length x = 4" using a
      by (auto simp: netip_ParseAddr_def dest: length_parse_ipv4 split: list.splits if_splits)
    then show ?thesis using n m Addr4
      by (simp add: Let_def wf_net_def ip_Mask_def length_CIDRMask)
  next
    case (Addr6 x)
    then have "length x = 16" using a
      by (auto simp: netip_ParseAddr_def dest: length_parse_ipv6 split: list.splits if_splits)
    then show ?thesis using n m Addr6
      by (simp add: Let_def wf_net_def ip_Mask_def length_CIDRMask)
  qed
qed

lemma parseIPEntry_wf: "parseIPEntry entry = Inr nets \<Longrightarrow> list_all wf_net nets"
  unfolding parseIPEntry_def
  by (auto dest: net_ParseCIDR_wf parseRange_wf length_net_ParseIP To4_length
      simp: wf_net_def length_CIDRMask split: option.splits if_splits)

lemma parseIPList_loop_wf:
  "parseIPList_loop es cidrs networks = Inr (cs, ns) \<Longrightarrow> list_all wf_net cidrs \<Longrightarrow>
   list_all isNetworkName networks \<Longrightarrow> list_all wf_net cs \<and> list_all isNetworkName ns"
proof (induction es cidrs networks rule: parseIPList_loop.induct)
  case (2 e es cidrs networks)
  show ?case
  proof (cases "isNetworkName e")
    case True
    then show ?thesis using 2(1) 2(3-5) by simp
  next
    case False
    then obtain nets where "parseIPEntry e = Inr nets" using 2(3) by (auto simp: rbind_Inr_iff)
    then show ?thesis using False 2(2) [OF False] 2(3-5) by (simp add: parseIPEntry_wf)
  qed
qed simp

lemma parseIPListWithNetworks_wf:
  "parseIPListWithNetworks s = Inr (cs, ns) \<Longrightarrow> list_all wf_net cs \<and> list_all isNetworkName ns"
  unfolding parseIPListWithNetworks_def by (rule parseIPList_loop_wf) auto

lemmas parse_param_defs = parse_ports_param_def parse_allow_param_def parse_block_param_def
  parse_schedule_param_def parse_log_geo_def

lemma parse_ports_param_wf: "wf_ruleset rs \<Longrightarrow> wf_ruleset (fst (parse_ports_param pre raw rs))"
  using parsePorts_loop_nz
  by (auto simp: parse_ports_param_def wf_ruleset_def parsePorts_def split: option.splits sum.splits)

lemma parse_allow_param_wf: "wf_ruleset rs \<Longrightarrow> wf_ruleset (fst (parse_allow_param pre raw rs))"
  by (auto simp: parse_allow_param_def wf_ruleset_def dest: parseIPListWithNetworks_wf
      split: option.splits sum.splits)

lemma parse_block_param_wf: "wf_ruleset rs \<Longrightarrow> wf_ruleset (fst (parse_block_param pre raw rs))"
  by (auto simp: parse_block_param_def wf_ruleset_def dest: parseIPListWithNetworks_wf
      split: option.splits sum.splits)

lemma parse_rate_param_wf: "wf_ruleset rs \<Longrightarrow> wf_ruleset (fst (parse_rate_param pre raw rs))"
  by (auto simp: parse_rate_param_def wf_ruleset_def wf_rate_def Let_def defaultRateBurst_def
      dest!: ParseUint_bound split: option.splits)

lemma parse_schedule_param_wf:
  "wf_ruleset rs \<Longrightarrow> wf_ruleset (fst (parse_schedule_param L pre raw rs))"
  by (auto simp: parse_schedule_param_def wf_ruleset_def dest: schedule_Parse_wf_lemma
      split: option.splits sum.splits)

lemma parse_log_geo_wf: "wf_ruleset rs \<Longrightarrow> wf_ruleset (parse_log_geo raw rs)"
  by (simp add: parse_log_geo_def wf_ruleset_def)

lemma parseRuleSet_wf: "wf_ruleset (fst (parseRuleSet L name raw))"
proof -
  have "wf_ruleset ((empty_ruleset name)
      \<lparr>rs_Protocol := raw_get raw ''protocol'', rs_Profile := raw_get raw ''profile''\<rparr>)"
    by (simp add: wf_ruleset_def empty_ruleset_def)
  then show ?thesis
    unfolding parseRuleSet_def Let_def split_beta
    by (simp only: fst_conv) (intro parse_schedule_param_wf parse_log_geo_wf parse_rate_param_wf
        parse_block_param_wf parse_allow_param_wf parse_ports_param_wf)
qed

lemma parseRuleSet_name: "rs_Name (fst (parseRuleSet L name raw)) = name"
proof -
  have "rs_Name (fst (parse_ports_param pre raw rs)) = rs_Name rs"
    "rs_Name (fst (parse_allow_param pre raw rs)) = rs_Name rs"
    "rs_Name (fst (parse_block_param pre raw rs)) = rs_Name rs"
    "rs_Name (fst (parse_rate_param pre raw rs)) = rs_Name rs"
    "rs_Name (parse_log_geo raw rs) = rs_Name rs"
    "rs_Name (fst (parse_schedule_param L pre raw rs)) = rs_Name rs" for pre rs
    by (auto simp: parse_param_defs parse_rate_param_def Let_def split_beta split: option.splits sum.splits)
  then show ?thesis unfolding parseRuleSet_def Let_def split_beta by (simp add: empty_ruleset_def)
qed

lemma parseRuleSet_cong:
  assumes eq: "map_of raw = map_of raw'"
  shows "parseRuleSet L name raw = parseRuleSet L name raw'"
  unfolding parseRuleSet_def parse_param_defs parse_rate_param_def raw_get_def eq by (rule refl)

section \<open>The label map and its iteration order\<close>

definition param_of :: "rawSets \<Rightarrow> string \<Rightarrow> string \<Rightarrow> string option" where
  "param_of sets name param = (case map_of sets name of None \<Rightarrow> None | Some raw \<Rightarrow> map_of raw param)"

definition sets_ok :: "rawSets \<Rightarrow> bool" where
  "sets_ok sets \<longleftrightarrow> distinct (map fst sets) \<and> (\<forall>(n, raw) \<in> set sets. raw \<noteq> [])"

lemma param_of_put:
  "param_of (put_param n p v sets) n' p' = (if n' = n \<and> p' = p then Some v else param_of sets n' p')"
  by (auto simp: param_of_def put_param_def update_conv split: option.splits)

lemma update_neq_Nil: "AList.update k v xs \<noteq> []"
  by (cases xs) auto

lemma set_update_subset: "x \<in> set (AList.update k v xs) \<Longrightarrow> x = (k, v) \<or> x \<in> set xs"
  by (induction xs) (auto split: if_splits)

lemma sets_ok_put: "sets_ok sets \<Longrightarrow> sets_ok (put_param n p v sets)"
  by (auto simp: sets_ok_def put_param_def distinct_update update_neq_Nil update_neq_Nil [symmetric] dest!: set_update_subset)

definition collect_step ::
  "rawSets \<times> label_error list \<Rightarrow> string \<times> string \<Rightarrow> rawSets \<times> label_error list" where
  "collect_step acc kv =
     (case split_label_key (fst kv) of
        NotFirewall \<Rightarrow> acc
      | KeyError e \<Rightarrow> (fst acc, snd acc @ [e])
      | RuleKey name param \<Rightarrow> (put_param name param (snd kv) (fst acc), snd acc))"

lemma collect_sets_foldl: "collect_sets labels sets errs = foldl collect_step (sets, errs) labels"
  by (induction labels sets errs rule: collect_sets.induct) (auto simp: collect_step_def split: label_key.splits)

lemma split_label_key_RuleKey:
  "split_label_key k = RuleKey n p \<longleftrightarrow>
   n \<noteq> [] \<and> CHR ''.'' \<notin> set n \<and> k = firewallPrefix @ n @ ''.'' @ p"
proof
  assume "split_label_key k = RuleKey n p"
  then obtain dot where pre: "strings_HasPrefix k firewallPrefix"
    and ix: "strings_Index (strings_TrimPrefix k firewallPrefix) CHR ''.'' = Some dot"
    and dot: "dot \<noteq> 0"
    and n: "n = take dot (strings_TrimPrefix k firewallPrefix)"
    and p: "p = drop (Suc dot) (strings_TrimPrefix k firewallPrefix)"
    by (auto simp: split_label_key_def Let_def split: if_splits option.splits)
  let ?r = "strings_TrimPrefix k firewallPrefix"
  have k: "k = firewallPrefix @ ?r"
    using pre by (auto simp: strings_HasPrefix_def strings_TrimPrefix_def prefix_def)
  have d: "dot < length ?r" "?r ! dot = CHR ''.''" "CHR ''.'' \<notin> set n"
    using strings_Index_Some [OF ix] by (auto simp: n)
  then have "?r = n @ ''.'' @ p" using id_take_nth_drop [OF d(1)] by (simp add: n p)
  moreover have "n \<noteq> []" using dot d(1) by (auto simp: n)
  ultimately show "n \<noteq> [] \<and> CHR ''.'' \<notin> set n \<and> k = firewallPrefix @ n @ ''.'' @ p"
    using k d(3) by metis
next
  assume a: "n \<noteq> [] \<and> CHR ''.'' \<notin> set n \<and> k = firewallPrefix @ n @ ''.'' @ p"
  then have "strings_Index (n @ ''.'' @ p) CHR ''.'' = Some (length n)"
    by (simp add: strings_Index_append)
  then show "split_label_key k = RuleKey n p" using a by (simp add: split_label_key_def)
qed

lemma collect_ok:
  "sets_ok sets \<Longrightarrow> sets_ok (fst (foldl collect_step (sets, errs) labels))"
  by (induction labels rule: rev_induct)
    (auto simp: collect_step_def sets_ok_put split: label_key.splits)

lemma collect_param_of:
  "distinct (map fst labels) \<Longrightarrow>
   param_of (fst (foldl collect_step ([], errs) labels)) n p = Some v \<longleftrightarrow>
     (\<exists>k. split_label_key k = RuleKey n p \<and> (k, v) \<in> set labels)"
proof (induction labels rule: rev_induct)
  case Nil
  then show ?case by (simp add: param_of_def)
next
  case (snoc kv labels)
  obtain k w where kv: "kv = (k, w)" by (cases kv)
  have fresh: "k \<notin> fst ` set labels" and d: "distinct (map fst labels)" using snoc.prems by (auto simp: kv)
  note IH = snoc.IH [OF d]
  show ?case
  proof (cases "split_label_key k")
    case (RuleKey n' p')
    have k_of: "split_label_key k' = RuleKey n' p' \<longleftrightarrow> k' = k" for k'
      using RuleKey by (auto simp: split_label_key_RuleKey)
    have eq: "param_of (fst (foldl collect_step ([], errs) (labels @ [kv]))) n p =
        (if n = n' \<and> p = p' then Some w else param_of (fst (foldl collect_step ([], errs) labels)) n p)"
      using RuleKey by (simp add: kv collect_step_def param_of_put)
    show ?thesis
    proof (cases "n = n' \<and> p = p'")
      case True
      have "(k, v) \<notin> set labels" using fresh by (auto simp: image_iff)
      then show ?thesis using True eq k_of by (auto simp: kv)
    next
      case False
      then have "split_label_key k \<noteq> RuleKey n p" using RuleKey by auto
      then show ?thesis using False eq IH by (auto simp: kv)
    qed
  qed (use IH in \<open>auto simp: kv collect_step_def\<close>)
qed

definition key_errors :: "string \<times> string \<Rightarrow> label_error list" where
  "key_errors kv = (case split_label_key (fst kv) of KeyError e \<Rightarrow> [e] | _ \<Rightarrow> [])"

lemma collect_errors:
  "snd (foldl collect_step (sets, errs) labels) = errs @ concat (map key_errors labels)"
  by (induction labels rule: rev_induct)
    (auto simp: collect_step_def key_errors_def split: label_key.splits)

text \<open>What a list of collected rule sets says, without the order of parameters.\<close>

definition sets_abs :: "rawSets \<Rightarrow> (string \<times> (string \<Rightarrow> string option)) list" where
  "sets_abs sets = map (\<lambda>(n, raw). (n, map_of raw)) sets"

lemma sets_abs_set:
  assumes "sets_ok sets"
  shows "set (sets_abs sets) = {(n, m). m = param_of sets n \<and> (\<exists>p v. m p = Some v)}"
proof -
  have "(n, m) \<in> set (sets_abs sets) \<longleftrightarrow> (\<exists>raw. map_of sets n = Some raw \<and> m = map_of raw)" for n m
    using assms by (force simp: sets_abs_def sets_ok_def)
  moreover have "map_of sets n = Some raw \<Longrightarrow> \<exists>p v. map_of raw p = Some v" for n raw
  proof -
    assume "map_of sets n = Some raw"
    then have "raw \<noteq> []" using assms by (auto simp: sets_ok_def dest: map_of_SomeD)
    then obtain p v r where "raw = (p, v) # r" by (metis list.exhaust prod.exhaust)
    then have "map_of raw p = Some v" by simp
    then show "\<exists>p v. map_of raw p = Some v" by blast
  qed
  ultimately show ?thesis
    by (auto simp: param_of_def fun_eq_iff split: option.splits) (metis option.distinct(1) option.exhaust)+
qed

lemma map_fst_sets_abs [simp]: "map fst (sets_abs sets) = map fst sets"
  by (simp add: sets_abs_def split_beta)

lemma sets_abs_distinct: "sets_ok sets \<Longrightarrow> distinct (sets_abs sets)"
  by (metis map_fst_sets_abs distinct_map sets_ok_def)

lemma sets_abs_unique:
  assumes "sets_ok a" "sets_ok b" "param_of a = param_of b"
  shows "mset (sets_abs a) = mset (sets_abs b)"
  using assms sets_abs_set [of a] sets_abs_set [of b] sets_abs_distinct
  by (simp add: set_eq_iff_mset_eq_distinct [symmetric])

definition parse_abs ::
  "(string \<Rightarrow> location option) \<Rightarrow> string \<times> (string \<Rightarrow> string option) \<Rightarrow> FirewallRuleSet \<times> label_error list" where
  "parse_abs L nm = (SOME r. \<exists>raw. map_of raw = snd nm \<and> r = parseRuleSet L (fst nm) raw)"

lemma parse_abs_eq: "parse_abs L (n, map_of raw) = parseRuleSet L n raw"
  unfolding parse_abs_def by (rule some_equality) (auto intro: parseRuleSet_cong)

lemma parse_sets_map:
  "parse_sets L sets rss errs =
     (rss @ map (\<lambda>nm. fst (parse_abs L nm)) (sets_abs sets),
      errs @ concat (map (\<lambda>nm. snd (parse_abs L nm)) (sets_abs sets)))"
  by (induction L sets rss errs rule: parse_sets.induct) (auto simp: sets_abs_def parse_abs_eq split_beta)

lemma mset_concat_map: "mset xs = mset ys \<Longrightarrow> mset (concat (map f xs)) = mset (concat (map f ys))"
  by (metis mset_concat mset_map sum_mset_sum_list map_map)

definition collected :: "(string \<times> string) list \<Rightarrow> rawSets" where
  "collected labels = fst (foldl collect_step ([], []) labels)"

lemma collected_errs: "fst (foldl collect_step ([], e) labels) = collected labels"
  unfolding collected_def
  by (induction labels rule: rev_induct) (auto simp: collect_step_def split: label_key.splits)

lemma collected_ok: "sets_ok (collected labels)"
  unfolding collected_def by (rule collect_ok) (simp add: sets_ok_def)

lemma ParseLabels_eq:
  "ParseLabels iter L labels =
      (\<lparr>Enable = (raw_get labels LabelEnable = ''true''),
        DefaultPolicy = fst (parse_default_policy labels),
        NoAutoAllowlist = (raw_get labels LabelNoAutoAllowlist = ''true''),
        RuleSets = map (\<lambda>nm. fst (parse_abs L nm)) (sets_abs (iter (collected labels)))\<rparr>,
       snd (parse_default_policy labels) @ concat (map key_errors labels)
       @ concat (map (\<lambda>nm. snd (parse_abs L nm)) (sets_abs (iter (collected labels)))))"
proof -
  obtain pol e0 where pol: "parse_default_policy labels = (pol, e0)" by (cases "parse_default_policy labels")
  have "collect_sets labels [] e0 = (collected labels, e0 @ concat (map key_errors labels))"
    using collected_errs [of e0 labels] collect_errors [of "[]" e0 labels]
    by (simp add: collect_sets_foldl prod_eq_iff)
  then show ?thesis by (simp add: ParseLabels_def pol parse_sets_map)
qed

lemma ParseLabels_abs:
  assumes "\<And>s. mset (iter s) = mset s"
  shows "mset (RuleSets (fst (ParseLabels iter L labels)))
      = image_mset (\<lambda>nm. fst (parse_abs L nm)) (mset (sets_abs (collected labels)))"
    and "mset (snd (ParseLabels iter L labels))
      = mset (snd (parse_default_policy labels)) + mset (concat (map key_errors labels))
        + mset (concat (map (\<lambda>nm. snd (parse_abs L nm)) (sets_abs (collected labels))))"
proof -
  have abs: "mset (sets_abs (iter S)) = mset (sets_abs S)" for S
    by (simp add: sets_abs_def assms(1))
  show "mset (RuleSets (fst (ParseLabels iter L labels)))
      = image_mset (\<lambda>nm. fst (parse_abs L nm)) (mset (sets_abs (collected labels)))"
    by (simp add: ParseLabels_eq abs)
  show "mset (snd (ParseLabels iter L labels))
      = mset (snd (parse_default_policy labels)) + mset (concat (map key_errors labels))
        + mset (concat (map (\<lambda>nm. snd (parse_abs L nm)) (sets_abs (collected labels))))"
    using mset_concat_map [OF abs] by (simp add: ParseLabels_eq)
qed

lemma map_of_mset_eq:
  assumes "distinct (map fst xs)" "mset xs = mset ys"
  shows "map_of xs = map_of ys"
proof -
  have "distinct (map fst ys)" using assms by (metis mset_map mset_eq_imp_distinct_iff)
  moreover have "set xs = set ys" using assms(2) by (rule mset_eq_setD)
  ultimately have "map_of xs k = Some v \<longleftrightarrow> map_of ys k = Some v" for k v
    using assms(1) by (simp add: map_of_eq_Some_iff)
  then show ?thesis by (intro ext) (metis not_Some_eq)
qed

section \<open>Properties\<close>

text \<open>
  Printing a list of non-zero ports as a comma-separated label value and parsing it with
  \<open>parsePorts\<close> gives the list back, whatever its length and order.
\<close>

theorem parsePorts_roundtrip:
  assumes "0 \<notin> set ports"
  shows "parsePorts (strings_Join (map (\<lambda>p. strconv_Itoa (unat p)) ports) '','') = Inr ports"
proof -
  let ?xs = "map (\<lambda>p. strconv_Itoa (unat p)) ports"
  have "splitTrimmed (strings_Join ?xs '','') = ?xs"
    by (rule splitTrimmed_Join) (auto simp: Itoa_TrimSpace dest!: Itoa_chars digit_not_special)
  then show ?thesis using parsePorts_loop_print [OF assms] by (simp add: parsePorts_def)
qed

theorem parsePorts_roundtrip_witness:
  "parsePorts (strings_Join (map (\<lambda>p::16 word. strconv_Itoa (unat p)) [443, 22, 65535]) '','') = Inr [443, 22, 65535]"
  using parsePorts_roundtrip [of "[443, 22, 65535]"] by simp

text \<open>
  An allowlist or blocklist entry that spells an IPv4 range in dotted notation,
  \<open>a.b.c.d-e.f.g.h\<close>, is accepted when the start is not after the end, and the networks
  \<open>parseIPEntry\<close> returns contain exactly the addresses of the range.
\<close>

theorem parseIPEntry_range:
  assumes "ipToUint32 a = Some lo" "ipToUint32 b = Some hi" "lo \<le> hi"
    and "length a = 4" "length b = 4" "ipToUint32 p = Some x"
  shows "\<exists>nets. parseIPEntry (dotted a @ ''-'' @ dotted b) = Inr nets
           \<and> ((\<exists>n \<in> set nets. IPNet_Contains n p) \<longleftrightarrow> lo \<le> x \<and> x \<le> hi)"
proof -
  have no: "CHR ''/'' \<notin> set (dotted q)" "CHR ''-'' \<notin> set (dotted q)" for q
    by (auto dest!: dotted_chars digit_not_special)
  have dot: "CHR ''.'' \<in> set (dotted b)" using dotted_four [OF assms(5)] by (auto simp: dotted_def)
  have "parseIPEntry (dotted a @ ''-'' @ dotted b) = map_range_error (rangeToCIDRs a b)"
    using no dot assms(4,5)
    by (simp add: parseIPEntry_def parseRange_def strings_Index_append net_ParseIP_dotted)
  then show ?thesis
    using range_nets_exact [OF assms(1-3,6)] by (auto simp: map_range_error_def)
qed

theorem parseIPEntry_range_witness:
  "\<exists>nets. parseIPEntry (dotted [10, 0, 0, 5] @ ''-'' @ dotted [10, 0, 1, 0]) = Inr nets
     \<and> ((\<exists>n \<in> set nets. IPNet_Contains n [10, 0, 0, 255]) \<longleftrightarrow> (True::bool))"
  using parseIPEntry_range [of "[10, 0, 0, 5]" 167772165 "[10, 0, 1, 0]" 167772416 "[10, 0, 0, 255]" 167772415]
  by (simp add: ipToUint32_def)

text \<open>
  C36. Whatever the labels, every rule set \<open>ParseLabels\<close> returns is well-formed: no port is 0,
  the networks have addresses and masks of the same length (4 or 16), the network names are
  entries that are not addresses, a rate limit has a positive rate and 32-bit values, and a
  schedule has clock times within a day and seven day flags.
\<close>

theorem ParseLabels_wf:
  assumes "\<And>s. mset (iter s) = mset s"
    and "rs \<in> set (RuleSets (fst (ParseLabels iter L labels)))"
  shows "wf_ruleset rs"
proof -
  have "rs \<in># mset (RuleSets (fst (ParseLabels iter L labels)))" using assms(2) by simp
  then obtain n raw where "rs = fst (parse_abs L (n, map_of raw))"
    unfolding ParseLabels_abs [OF assms(1)] by (auto simp: sets_abs_def)
  then show ?thesis by (simp add: parse_abs_eq parseRuleSet_wf)
qed

theorem ParseLabels_wf_witness:
  "wf_ruleset (fst (parseRuleSet (\<lambda>s. None) ''a'' [(''log'', ''true'')]))"
  by (rule ParseLabels_wf [of rev _ "\<lambda>s. None" "[(''firefik.firewall.a.log'', ''true'')]"])
    (simp_all add: ParseLabels_def parse_default_policy_def LabelDefaultPolicy_def split_label_key_def
      firewallPrefix_def strings_HasPrefix_def strings_TrimPrefix_def strings_Index_def put_param_def split_beta)

text \<open>
  The result of \<open>ParseLabels\<close> does not depend on the order in which Go iterates over the
  label map and over the collected rule sets, except for the order of the rule sets and of
  the errors: the flags and the default policy are equal, and the rule sets and the errors
  are the same up to rearrangement.
\<close>

theorem ParseLabels_order:
  assumes "distinct (map fst labels)" "mset labels' = mset labels"
    and "\<And>s. mset (iter s) = mset s" "\<And>s. mset (iter' s) = mset s"
  shows "let r = ParseLabels iter L labels; r' = ParseLabels iter' L labels' in
      Enable (fst r') = Enable (fst r) \<and> DefaultPolicy (fst r') = DefaultPolicy (fst r)
    \<and> NoAutoAllowlist (fst r') = NoAutoAllowlist (fst r)
    \<and> mset (RuleSets (fst r')) = mset (RuleSets (fst r)) \<and> mset (snd r') = mset (snd r)"
proof -
  let ?r = "ParseLabels iter L labels" and ?r' = "ParseLabels iter' L labels'"
  have d': "distinct (map fst labels')" using assms(1,2) by (metis mset_map mset_eq_imp_distinct_iff)
  have m: "map_of labels' = map_of labels" by (rule map_of_mset_eq [OF d' assms(2)])
  have pol: "parse_default_policy labels' = parse_default_policy labels"
    by (simp add: parse_default_policy_def m)
  have flags: "Enable (fst ?r') = Enable (fst ?r)" "DefaultPolicy (fst ?r') = DefaultPolicy (fst ?r)"
    "NoAutoAllowlist (fst ?r') = NoAutoAllowlist (fst ?r)"
    by (simp_all add: ParseLabels_eq raw_get_def m pol)
  let ?S = "collected labels" and ?S' = "collected labels'"
  have "param_of ?S' n p = Some v \<longleftrightarrow> param_of ?S n p = Some v" for n p v
    unfolding collected_def
    using collect_param_of [OF d'] collect_param_of [OF assms(1)] mset_eq_setD [OF assms(2)] by simp
  then have "param_of ?S' = param_of ?S" by (intro ext) (metis not_Some_eq)
  then have S: "mset (sets_abs ?S') = mset (sets_abs ?S)" by (intro sets_abs_unique collected_ok)
  show ?thesis
    unfolding Let_def flags ParseLabels_abs [OF assms(3)] ParseLabels_abs [OF assms(4)] S
    by (simp only: pol mset_concat_map [OF S, of "\<lambda>nm. snd (parse_abs L nm)"]
        mset_concat_map [OF assms(2), of key_errors] simp_thms)
qed

theorem ParseLabels_order_witness:
  "mset (RuleSets (fst (ParseLabels rev (\<lambda>_. None)
       [(''firefik.firewall.b.log'', ''true''), (''firefik.firewall.a.ports'', ''22'')])))
   = mset (RuleSets (fst (ParseLabels id (\<lambda>_. None)
       [(''firefik.firewall.a.ports'', ''22''), (''firefik.firewall.b.log'', ''true'')])))"
  using ParseLabels_order [of "[(''firefik.firewall.a.ports'', ''22''), (''firefik.firewall.b.log'', ''true'')]"
      "[(''firefik.firewall.b.log'', ''true''), (''firefik.firewall.a.ports'', ''22'')]" id rev "\<lambda>_. None"]
  by (simp add: Let_def)

text \<open>
  \<open>ParseLabels\<close> returns exactly one rule set per name that occurs in a label
  \<open>firefik.firewall.<name>.<param>\<close> (the name being the part before the first dot, not
  empty), and none for any other label.
\<close>

theorem ParseLabels_names:
  assumes "distinct (map fst labels)" "\<And>s. mset (iter s) = mset s"
  shows "distinct (map rs_Name (RuleSets (fst (ParseLabels iter L labels))))
    \<and> (name \<in> set (map rs_Name (RuleSets (fst (ParseLabels iter L labels))))
       \<longleftrightarrow> name \<noteq> [] \<and> CHR ''.'' \<notin> set name
           \<and> (\<exists>param. firewallPrefix @ name @ ''.'' @ param \<in> fst ` set labels))"
proof -
  let ?S = "collected labels"
  let ?rss = "RuleSets (fst (ParseLabels iter L labels))"
  note ok = collected_ok [of labels]
  have "image_mset rs_Name (mset ?rss) = image_mset (\<lambda>nm. rs_Name (fst (parse_abs L nm))) (mset (sets_abs ?S))"
    by (simp add: ParseLabels_abs [OF assms(2)] image_mset.compositionality comp_def)
  also have "\<dots> = image_mset fst (mset (sets_abs ?S))"
    by (rule image_mset_cong) (auto simp: sets_abs_def parse_abs_eq parseRuleSet_name)
  also have "\<dots> = mset (map fst ?S)" by (metis map_fst_sets_abs mset_map)
  finally have eq: "mset (map rs_Name ?rss) = mset (map fst ?S)" by simp
  then have "distinct (map rs_Name ?rss)" using ok by (metis mset_eq_imp_distinct_iff sets_ok_def)
  moreover have "name \<in> set (map rs_Name ?rss) \<longleftrightarrow> (\<exists>m. (name, m) \<in> set (sets_abs ?S))"
  proof -
    have "name \<in> set (map rs_Name ?rss) \<longleftrightarrow> name \<in> set (map fst (sets_abs ?S))"
      using mset_eq_setD [OF eq] by simp
    then show ?thesis by (auto simp only: set_map image_iff fst_conv) force
  qed
  moreover have "\<dots> \<longleftrightarrow> (\<exists>p v. param_of ?S name p = Some v)"
    unfolding sets_abs_set [OF ok] by simp
  moreover have "\<dots> \<longleftrightarrow> name \<noteq> [] \<and> CHR ''.'' \<notin> set name
      \<and> (\<exists>param. firewallPrefix @ name @ ''.'' @ param \<in> fst ` set labels)"
    unfolding collected_def collect_param_of [OF assms(1)] split_label_key_RuleKey by (force simp: image_iff)
  ultimately show ?thesis by simp
qed

theorem ParseLabels_names_witness:
  "''web'' \<in> set (map rs_Name (RuleSets (fst (ParseLabels rev (\<lambda>_. None)
     [(''firefik.firewall.web.ports'', ''80,443''), (''firefik.enable'', ''true'')]))))"
  using ParseLabels_names [of "[(''firefik.firewall.web.ports'', ''80,443''), (''firefik.enable'', ''true'')]"
      rev "\<lambda>_. None" "''web''"]
  by (simp add: firewallPrefix_def)

end
