(* ===== verification/Policy_Compile.thy ===== *)
theory Policy_Compile
  imports Policy_Parser Docker_Labels
begin

text \<open>
  The policy language, third stage: \<open>backend/internal/policy/compile.go\<close> translates a policy
  into firewall rule sets, one per term of a rule's disjunction, and \<open>loader.go\<close> reads the
  policies of a file or a directory. The file system is the argument \<open>fs\<close> of the loader.
\<close>

section \<open>Disjunctive normal form\<close>

fun flattenOr :: "Expr \<Rightarrow> Expr list" where
  "flattenOr (OrExpr l r) = flattenOr l @ flattenOr r"
| "flattenOr e = [e]"

fun flattenAnd :: "Expr \<Rightarrow> Expr list" where
  "flattenAnd (AndExpr l r) = flattenAnd l @ flattenAnd r"
| "flattenAnd e = [e]"

section \<open>Predicates\<close>

datatype compile_error =
    ProtoExpectsString
  | ProtoOnlyEq
  | PortExpectsInt
  | PortOnlyEq
  | SrcIPExpectsString
  | SrcNetExpectsString
  | GeoExpectsString
  | UnknownField string
  | PortListExpectsInts
  | GeoListExpectsStrings
  | InNotSupported string
  | UnsupportedNegated Expr
  | UnsupportedPredicate Expr
  | CompileBadCIDR string
  | PolicyError string compile_error

definition policy_parseCIDR :: "string \<Rightarrow> compile_error + IPNet" where
  "policy_parseCIDR s =
     (let s' = (if \<not> strings_Contains s ''/'' then
                  (case net_ParseIP s of
                     None \<Rightarrow> s
                   | Some p \<Rightarrow> (if To4 p \<noteq> None then s @ ''/32'' else s @ ''/128''))
                else s)
      in case net_ParseCIDR s' of None \<Rightarrow> Inl (CompileBadCIDR s') | Some n \<Rightarrow> Inr n)"

definition cidrAll4 :: IPNet where
  "cidrAll4 = the (net_ParseCIDR ''0.0.0.0/0'')"

definition cidrAll6 :: IPNet where
  "cidrAll6 = the (net_ParseCIDR ''::/0'')"

definition invertOp :: "string \<Rightarrow> string" where
  "invertOp opr =
     (if opr = ''=='' then ''!='' else if opr = ''!='' then ''==''
      else if opr = ''<'' then ''>='' else if opr = ''>'' then ''<=''
      else if opr = ''<='' then ''>'' else if opr = ''>='' then ''<'' else opr)"

text \<open>The list a comparison with an address goes to: the blocklist for \<open>!=\<close>, else the allowlist.\<close>

definition add_net :: "string \<Rightarrow> IPNet \<Rightarrow> FirewallRuleSet \<Rightarrow> FirewallRuleSet" where
  "add_net opr n rs =
     (if opr = ''!='' then rs\<lparr>rs_Blocklist := rs_Blocklist rs @ [n]\<rparr>
      else rs\<lparr>rs_Allowlist := rs_Allowlist rs @ [n]\<rparr>)"

definition applyCompare ::
  "FirewallRuleSet \<Rightarrow> string \<Rightarrow> string \<Rightarrow> Value \<Rightarrow> compile_error + FirewallRuleSet" where
  "applyCompare rs fld opr v =
     (let field = strings_ToLower fld in
      if field = ''proto'' \<or> field = ''protocol'' then
        (if \<not> VIsStr v then Inl ProtoExpectsString
         else if opr \<noteq> ''=='' then Inl ProtoOnlyEq
         else Inr (rs\<lparr>rs_Protocol := VStr v\<rparr>))
      else if field = ''port'' then
        (if \<not> VIsNum v then Inl PortExpectsInt
         else if opr \<noteq> ''=='' then Inl PortOnlyEq
         else Inr (rs\<lparr>rs_Ports := rs_Ports rs @ [word_of_int (VNum v)]\<rparr>))
      else if field = ''src_ip'' then
        (if \<not> VIsStr v then Inl SrcIPExpectsString
         else rbind (policy_parseCIDR (VStr v @ ''/32'')) (\<lambda>n. Inr (add_net opr n rs)))
      else if field = ''src_net'' then
        (if \<not> VIsStr v then Inl SrcNetExpectsString
         else rbind (policy_parseCIDR (VStr v)) (\<lambda>n. Inr (add_net opr n rs)))
      else if field = ''geo'' then
        (if \<not> VIsStr v then Inl GeoExpectsString
         else if opr = ''!='' then Inr (rs\<lparr>rs_GeoBlock := rs_GeoBlock rs @ [strings_ToUpper (VStr v)]\<rparr>)
         else Inr (rs\<lparr>rs_GeoAllow := rs_GeoAllow rs @ [strings_ToUpper (VStr v)]\<rparr>))
      else Inl (UnknownField fld))"

fun applyIn_ports :: "FirewallRuleSet \<Rightarrow> Value list \<Rightarrow> compile_error + FirewallRuleSet" where
  "applyIn_ports rs [] = Inr rs"
| "applyIn_ports rs (v # vs) =
     (if \<not> VIsNum v then Inl PortListExpectsInts
      else applyIn_ports (rs\<lparr>rs_Ports := rs_Ports rs @ [word_of_int (VNum v)]\<rparr>) vs)"

fun geo_codes :: "Value list \<Rightarrow> string list \<Rightarrow> compile_error + string list" where
  "geo_codes [] codes = Inr codes"
| "geo_codes (v # vs) codes =
     (if \<not> VIsStr v then Inl GeoListExpectsStrings
      else geo_codes vs (codes @ [strings_ToUpper (VStr v)]))"

definition applyIn ::
  "FirewallRuleSet \<Rightarrow> string \<Rightarrow> bool \<Rightarrow> Value list \<Rightarrow> compile_error + FirewallRuleSet" where
  "applyIn rs fld negate values =
     (let field = strings_ToLower fld in
      if field = ''port'' then applyIn_ports rs values
      else if field = ''geo'' then
        rbind (geo_codes values []) (\<lambda>codes.
          if negate then Inr (rs\<lparr>rs_GeoAllow := rs_GeoAllow rs @ codes\<rparr>)
          else Inr (rs\<lparr>rs_GeoBlock := rs_GeoBlock rs @ codes\<rparr>))
      else Inl (InNotSupported fld))"

definition applyPredicate :: "FirewallRuleSet \<Rightarrow> Expr \<Rightarrow> compile_error + FirewallRuleSet" where
  "applyPredicate rs pred =
     (case pred of
        CompareExpr f opr v \<Rightarrow> applyCompare rs f opr v
      | InExpr f neg vs \<Rightarrow> applyIn rs f neg vs
      | NotExpr inner \<Rightarrow>
          (case inner of
             CompareExpr f opr v \<Rightarrow> applyCompare rs f (invertOp opr) v
           | _ \<Rightarrow> Inl (UnsupportedNegated inner))
      | _ \<Rightarrow> Inl (UnsupportedPredicate pred))"

fun applyPredicates :: "FirewallRuleSet \<Rightarrow> Expr list \<Rightarrow> compile_error + FirewallRuleSet" where
  "applyPredicates rs [] = Inr rs"
| "applyPredicates rs (p # ps) = rbind (applyPredicate rs p) (\<lambda>rs'. applyPredicates rs' ps)"

section \<open>Rules and policies\<close>

definition term_ruleset :: "string \<Rightarrow> string \<Rightarrow> Action \<Rightarrow> nat \<Rightarrow> FirewallRuleSet" where
  "term_ruleset polName polVersion act i =
     (empty_ruleset (''pol:'' @ polName @ ''@'' @ polVersion @ ''#'' @ action_text act @ ''-'' @ strconv_Itoa i))
       \<lparr>rs_Protocol := ''tcp'', rs_Log := (act = ActionLog), rs_LogPrefix := polName @ ''@'' @ polVersion\<rparr>"

definition compileTerm ::
  "string \<Rightarrow> string \<Rightarrow> Action \<Rightarrow> nat \<Rightarrow> Expr \<Rightarrow> compile_error + FirewallRuleSet" where
  "compileTerm polName polVersion act i trm =
     rbind (applyPredicates (term_ruleset polName polVersion act i) (flattenAnd trm)) (\<lambda>rs.
       Inr (if act = ActionBlock
            then rs\<lparr>rs_Blocklist := rs_Blocklist rs @ [cidrAll4, cidrAll6]\<rparr> else rs))"

fun compileTerms ::
  "string \<Rightarrow> string \<Rightarrow> Action \<Rightarrow> nat \<Rightarrow> Expr list \<Rightarrow> compile_error + FirewallRuleSet list" where
  "compileTerms polName polVersion act i [] = Inr []"
| "compileTerms polName polVersion act i (t # ts) =
     rbind (compileTerm polName polVersion act i t) (\<lambda>rs.
     rbind (compileTerms polName polVersion act (Suc i) ts) (\<lambda>rss. Inr (rs # rss)))"

text \<open>\<open>compileRule\<close> also returns a list of warnings, which nothing is ever added to.\<close>

definition compileRule ::
  "string \<Rightarrow> string \<Rightarrow> Rule \<Rightarrow> compile_error + FirewallRuleSet list \<times> string list" where
  "compileRule polName polVersion r =
     rbind (compileTerms polName polVersion (RAction r) 0 (flattenOr (RExpr r))) (\<lambda>sets. Inr (sets, []))"

record Compiled =
  CPolicy :: Policy
  CRuleSets :: "FirewallRuleSet list"
  CWarnings :: "string list"

fun compile_loop :: "Policy \<Rightarrow> Compiled \<Rightarrow> Rule list \<Rightarrow> compile_error + Compiled" where
  "compile_loop pol out [] = Inr out"
| "compile_loop pol out (r # rs) =
     (case compileRule (PName pol) (PVersion pol) r of
        Inl e \<Rightarrow> Inl (PolicyError (PName pol) e)
      | Inr (sets, warns) \<Rightarrow>
          compile_loop pol (out\<lparr>CWarnings := CWarnings out @ warns, CRuleSets := CRuleSets out @ sets\<rparr>) rs)"

definition policy_Compile :: "Policy \<Rightarrow> compile_error + Compiled" where
  "policy_Compile pol =
     compile_loop pol \<lparr>CPolicy = pol, CRuleSets = [], CWarnings = []\<rparr> (PRules pol)"

section \<open>Loading files\<close>

datatype load_error =
    FSError string
  | ParseFailed string parse_error
  | DuplicateIn string string
  | DuplicateAcross string string

datatype stat_result = StatNotExist | StatError string | StatDir | StatFile

record file_system =
  fs_Stat :: "string \<Rightarrow> stat_result"
  fs_ReadDir :: "string \<Rightarrow> string + (string \<times> bool) list"
  fs_ReadFile :: "string \<Rightarrow> string + string"
  fs_Join :: "string \<Rightarrow> string \<Rightarrow> string"

definition filepath_Ext :: "string \<Rightarrow> string" where
  "filepath_Ext s =
     (let suf = takeWhile (\<lambda>c. c \<noteq> CHR ''.'' \<and> c \<noteq> CHR ''/'') (rev s) in
      case drop (length suf) (rev s) of
        c # _ \<Rightarrow> (if c = CHR ''.'' then CHR ''.'' # rev suf else [])
      | [] \<Rightarrow> [])"

type_synonym policy_map = "(string \<times> Policy) list"

fun index_policies :: "string \<Rightarrow> Policy list \<Rightarrow> policy_map \<Rightarrow> load_error + policy_map" where
  "index_policies path [] out = Inr out"
| "index_policies path (p # ps) out =
     (if map_of out (PName p) \<noteq> None then Inl (DuplicateIn (PName p) path)
      else index_policies path ps (out @ [(PName p, p\<lparr>PSource := path\<rparr>)]))"

definition LoadFile ::
  "unicode_tables \<Rightarrow> (string \<Rightarrow> string) \<Rightarrow> file_system \<Rightarrow> string \<Rightarrow> load_error + policy_map" where
  "LoadFile uni sha256_hex fs path =
     (case fs_ReadFile fs path of
        Inl e \<Rightarrow> Inl (FSError e)
      | Inr data \<Rightarrow>
          (case policy_Parse uni sha256_hex data of
             Inl e \<Rightarrow> Inl (ParseFailed path e)
           | Inr pols \<Rightarrow> index_policies path pols []))"

fun merge_policies :: "string \<Rightarrow> policy_map \<Rightarrow> policy_map \<Rightarrow> load_error + policy_map" where
  "merge_policies full [] out = Inr out"
| "merge_policies full ((name, pol) # ps) out =
     (if map_of out name \<noteq> None then Inl (DuplicateAcross name full)
      else merge_policies full ps (out @ [(name, pol\<lparr>PSource := full\<rparr>)]))"

fun loadDir_loop ::
  "unicode_tables \<Rightarrow> (string \<Rightarrow> string) \<Rightarrow> file_system \<Rightarrow> (policy_map \<Rightarrow> policy_map) \<Rightarrow> string
   \<Rightarrow> (string \<times> bool) list \<Rightarrow> policy_map \<Rightarrow> load_error + policy_map" where
  "loadDir_loop uni h fs iter path [] out = Inr out"
| "loadDir_loop uni h fs iter path ((name, isDir) # es) out =
     (if isDir \<or> filepath_Ext name \<noteq> ''.policy'' then loadDir_loop uni h fs iter path es out
      else rbind (LoadFile uni h fs (fs_Join fs path name)) (\<lambda>parsed.
           rbind (merge_policies (fs_Join fs path name) (iter parsed) out) (\<lambda>out'.
             loadDir_loop uni h fs iter path es out')))"

text \<open>The map the code returns is \<open>nil\<close> for an empty or missing path, here the empty list.\<close>

definition LoadDir ::
  "unicode_tables \<Rightarrow> (string \<Rightarrow> string) \<Rightarrow> file_system \<Rightarrow> (policy_map \<Rightarrow> policy_map) \<Rightarrow> string
   \<Rightarrow> load_error + policy_map" where
  "LoadDir uni sha256_hex fs iter path =
     (if path = [] then Inr []
      else (case fs_Stat fs path of
              StatNotExist \<Rightarrow> Inr []
            | StatError e \<Rightarrow> Inl (FSError e)
            | StatFile \<Rightarrow> LoadFile uni sha256_hex fs path
            | StatDir \<Rightarrow>
                (case fs_ReadDir fs path of
                   Inl e \<Rightarrow> Inl (FSError e)
                 | Inr entries \<Rightarrow> loadDir_loop uni sha256_hex fs iter path entries [])))"

section \<open>What a compiled term holds\<close>

fun eval_expr :: "(Expr \<Rightarrow> bool) \<Rightarrow> Expr \<Rightarrow> bool" where
  "eval_expr \<rho> (OrExpr l r) = (eval_expr \<rho> l \<or> eval_expr \<rho> r)"
| "eval_expr \<rho> (AndExpr l r) = (eval_expr \<rho> l \<and> eval_expr \<rho> r)"
| "eval_expr \<rho> (NotExpr e) = (\<not> eval_expr \<rho> e)"
| "eval_expr \<rho> e = \<rho> e"

fun literal :: "Expr \<Rightarrow> bool" where
  "literal (CompareExpr f opr v) = True"
| "literal (InExpr f neg vs) = True"
| "literal (NotExpr (CompareExpr f opr v)) = True"
| "literal _ = False"

lemma flattenAnd_eval: "eval_expr \<rho> e \<longleftrightarrow> (\<forall>p \<in> set (flattenAnd e). eval_expr \<rho> p)"
  by (induction e rule: flattenAnd.induct) auto

lemma flattenOr_eval: "eval_expr \<rho> e \<longleftrightarrow> (\<exists>t \<in> set (flattenOr e). eval_expr \<rho> t)"
  by (induction e rule: flattenOr.induct) auto

lemma applyPredicate_literal: "applyPredicate rs p = Inr rs' \<Longrightarrow> literal p"
  by (auto simp: applyPredicate_def split: Expr.splits)

lemma applyPredicates_literal: "applyPredicates rs ps = Inr rs' \<Longrightarrow> \<forall>p \<in> set ps. literal p"
  by (induction rs ps rule: applyPredicates.induct) (auto simp: rbind_Inr_iff dest: applyPredicate_literal)

lemma compileTerms_nth:
  "compileTerms n v a i ts = Inr rss \<Longrightarrow>
   length rss = length ts \<and> (\<forall>j < length ts. compileTerm n v a (i + j) (ts ! j) = Inr (rss ! j))"
proof (induction n v a i ts arbitrary: rss rule: compileTerms.induct)
  case (2 n v a i t ts)
  then obtain rs rss' where *: "compileTerm n v a i t = Inr rs" "compileTerms n v a (Suc i) ts = Inr rss'"
    "rss = rs # rss'" by (auto simp: rbind_Inr_iff)
  note IH = 2(1) [OF *(1,2)]
  show ?case
  proof (intro conjI allI impI)
    show "length rss = length (t # ts)" using IH *(3) by simp
    fix j assume "j < length (t # ts)"
    then show "compileTerm n v a (i + j) ((t # ts) ! j) = Inr (rss ! j)" using IH * by (cases j) auto
  qed
qed auto

lemma compileRule_sets:
  assumes "compileRule n v r = Inr (sets, warns)"
  shows "length sets = length (flattenOr (RExpr r))"
    "j < length sets \<Longrightarrow> compileTerm n v (RAction r) j (flattenOr (RExpr r) ! j) = Inr (sets ! j)"
  using assms compileTerms_nth [of n v "RAction r" 0 "flattenOr (RExpr r)"]
  by (auto simp: compileRule_def rbind_Inr_iff)

definition literal_compare :: "Expr \<Rightarrow> (string \<times> string \<times> Value) option" where
  "literal_compare p =
     (case p of
        CompareExpr f opr v \<Rightarrow> Some (strings_ToLower f, opr, v)
      | NotExpr (CompareExpr f opr v) \<Rightarrow> Some (strings_ToLower f, invertOp opr, v)
      | _ \<Rightarrow> None)"

text \<open>The ports, allowed networks and blocked networks one predicate contributes.\<close>

definition pred_ports :: "Expr \<Rightarrow> 16 word list" where
  "pred_ports p =
     (case literal_compare p of
        Some (f, opr, v) \<Rightarrow> (if f = ''port'' then [word_of_int (VNum v)] else [])
      | None \<Rightarrow> (case p of
                   InExpr f neg vs \<Rightarrow> (if strings_ToLower f = ''port'' then map (\<lambda>v. word_of_int (VNum v)) vs else [])
                 | _ \<Rightarrow> []))"

definition compare_net :: "string \<Rightarrow> Value \<Rightarrow> IPNet list" where
  "compare_net f v =
     (if f = ''src_ip'' then (case policy_parseCIDR (VStr v @ ''/32'') of Inr n \<Rightarrow> [n] | Inl _ \<Rightarrow> [])
      else if f = ''src_net'' then (case policy_parseCIDR (VStr v) of Inr n \<Rightarrow> [n] | Inl _ \<Rightarrow> [])
      else [])"

definition pred_allow :: "Expr \<Rightarrow> IPNet list" where
  "pred_allow p = (case literal_compare p of Some (f, opr, v) \<Rightarrow> if opr = ''!='' then [] else compare_net f v | None \<Rightarrow> [])"

definition pred_block :: "Expr \<Rightarrow> IPNet list" where
  "pred_block p = (case literal_compare p of Some (f, opr, v) \<Rightarrow> if opr = ''!='' then compare_net f v else [] | None \<Rightarrow> [])"

definition grows :: "16 word list \<Rightarrow> IPNet list \<Rightarrow> IPNet list \<Rightarrow> FirewallRuleSet \<Rightarrow> FirewallRuleSet \<Rightarrow> bool" where
  "grows ps al bl rs rs' \<longleftrightarrow> rs_Ports rs' = rs_Ports rs @ ps \<and> rs_Allowlist rs' = rs_Allowlist rs @ al
     \<and> rs_Blocklist rs' = rs_Blocklist rs @ bl \<and> rs_Name rs' = rs_Name rs \<and> rs_Log rs' = rs_Log rs"

lemma applyCompare_grows:
  assumes "applyCompare rs f opr v = Inr rs'"
  shows "grows (if strings_ToLower f = ''port'' then [word_of_int (VNum v)] else [])
    (if opr = ''!='' then [] else compare_net (strings_ToLower f) v)
    (if opr = ''!='' then compare_net (strings_ToLower f) v else []) rs rs'"
proof (cases "opr = ''!=''")
  case True
  then show ?thesis
    using assms by (auto simp: applyCompare_def Let_def grows_def compare_net_def add_net_def rbind_Inr_iff split: if_split_asm)
next
  case False
  then show ?thesis
    using assms by (auto simp: applyCompare_def Let_def grows_def compare_net_def add_net_def rbind_Inr_iff split: if_split_asm)
qed

lemma applyIn_ports_grows:
  "applyIn_ports rs vs = Inr rs' \<Longrightarrow> grows (map (\<lambda>v. word_of_int (VNum v)) vs) [] [] rs rs'"
  by (induction rs vs rule: applyIn_ports.induct) (auto simp: grows_def split: if_splits)

lemma applyIn_grows:
  "applyIn rs f neg vs = Inr rs' \<Longrightarrow>
   grows (if strings_ToLower f = ''port'' then map (\<lambda>v. word_of_int (VNum v)) vs else []) [] [] rs rs'"
proof -
  assume a: "applyIn rs f neg vs = Inr rs'"
  show ?thesis
  proof (cases "strings_ToLower f = ''port''")
    case True
    then show ?thesis using a applyIn_ports_grows by (simp add: applyIn_def)
  next
    case False
    then show ?thesis
      using a by (cases neg) (auto simp: applyIn_def Let_def rbind_Inr_iff grows_def split: if_split_asm)
  qed
qed

lemma applyPredicate_grows:
  "applyPredicate rs p = Inr rs' \<Longrightarrow> grows (pred_ports p) (pred_allow p) (pred_block p) rs rs'"
  by (auto simp: applyPredicate_def pred_ports_def pred_allow_def pred_block_def literal_compare_def
      split: Expr.splits dest!: applyCompare_grows applyIn_grows)

lemma applyPredicates_grows:
  "applyPredicates rs ps = Inr rs' \<Longrightarrow>
   grows (concat (map pred_ports ps)) (concat (map pred_allow ps)) (concat (map pred_block ps)) rs rs'"
proof (induction rs ps rule: applyPredicates.induct)
  case (2 rs p ps)
  then obtain rs1 where "applyPredicate rs p = Inr rs1" "applyPredicates rs1 ps = Inr rs'"
    by (auto simp: rbind_Inr_iff)
  then show ?case using 2(1) applyPredicate_grows by (fastforce simp: grows_def)
qed (simp add: grows_def)

lemma mask_byte_0 [simp]: "mask_byte 0 = 0"
  by (simp add: mask_byte_def)

lemma CIDRMask_0: "CIDRMask 0 32 = replicate 4 0" "CIDRMask 0 128 = replicate 16 0"
  by (simp_all add: CIDRMask_def map_replicate_const)

lemma cidrAll4_value: "cidrAll4 = \<lparr>net_IP = replicate 4 0, net_Mask = replicate 4 0\<rparr>"
proof -
  have "strings_Index ''0.0.0.0/0'' CHR ''/'' = Some 7" by (simp add: strings_Index_def)
  moreover have "netip_ParseAddr ''0.0.0.0'' = Some (Addr4 [0, 0, 0, 0])"
    by (simp add: netip_ParseAddr_def parse_ipv4_def parse_octet_def is_digit_def dec_value_def digit_val_def)
  moreover have "ip_Mask (v4_prefix @ [0, 0, 0, 0]) (replicate 4 0) = replicate 4 0"
    by (simp add: ip_Mask_def) (simp add: numeral_eq_Suc)
  ultimately show ?thesis
    by (simp add: cidrAll4_def net_ParseCIDR_def is_digit_def dec_value_def digit_val_def CIDRMask_0 Let_def)
qed

lemma cidrAll6_value: "cidrAll6 = \<lparr>net_IP = replicate 16 0, net_Mask = replicate 16 0\<rparr>"
proof -
  have "strings_Index ''::/0'' CHR ''/'' = Some 2" by (simp add: strings_Index_def)
  moreover have "netip_ParseAddr ''::'' = Some (Addr6 (replicate 16 0))"
    by (simp add: netip_ParseAddr_def parse_ipv6_def)
  moreover have "ip_Mask (replicate 16 0) (replicate 16 0) = replicate 16 0"
    by (simp add: ip_Mask_def zip_replicate)
  ultimately show ?thesis
    by (simp add: cidrAll6_def net_ParseCIDR_def is_digit_def dec_value_def digit_val_def CIDRMask_0 Let_def)
qed

lemma all_zip_zero: "list_all (\<lambda>((a, b), c). a AND c = b AND c) (zip zs (replicate n (0::byte)))"
  by (auto simp: list_all_iff dest!: set_zip_rightD)

lemma cidrAll_contains:
  assumes "length p = 4 \<or> length p = 16"
  shows "IPNet_Contains cidrAll4 p \<or> IPNet_Contains cidrAll6 p"
proof (cases "To4 p")
  case None
  have "replicate 12 (0::byte) = replicate 10 0 @ replicate 2 0" by (simp flip: replicate_add)
  also have "replicate 2 (0::byte) = [0, 0]" by (simp add: numeral_2_eq_2)
  finally have "take 12 (replicate 16 (0::byte)) \<noteq> v4_prefix" by (simp add: v4_prefix_def)
  then have "To4 (replicate 16 0) = None" by (simp add: To4_def)
  moreover have "length p = 16" using None assms by (auto simp: To4_def)
  ultimately have "IPNet_Contains cidrAll6 p"
    by (simp add: IPNet_Contains_def networkNumberAndMask_def cidrAll6_value None all_zip_zero Let_def)
  then show ?thesis ..
next
  case (Some q)
  then have "length q = 4" by (rule To4_length)
  then have "IPNet_Contains cidrAll4 p"
    by (simp add: IPNet_Contains_def networkNumberAndMask_def cidrAll4_value Some all_zip_zero Let_def)
  then show ?thesis ..
qed

section \<open>Loaded policies\<close>

definition named :: "policy_map \<Rightarrow> bool" where
  "named m \<longleftrightarrow> distinct (map fst m) \<and> (\<forall>(n, p) \<in> set m. PName p = n)"

lemma index_policies_named: "index_policies path ps out = Inr m \<Longrightarrow> named out \<Longrightarrow> named m"
  by (induction path ps out rule: index_policies.induct)
    (auto simp: named_def map_of_eq_None_iff split: if_split_asm)

lemma merge_policies_named:
  "merge_policies full ps out = Inr m \<Longrightarrow> named out \<Longrightarrow> \<forall>(n, p) \<in> set ps. PName p = n \<Longrightarrow> named m"
  by (induction full ps out rule: merge_policies.induct)
    (auto simp: named_def map_of_eq_None_iff split: if_split_asm)

lemma LoadFile_named: "LoadFile uni h fs path = Inr m \<Longrightarrow> named m"
  by (auto simp: LoadFile_def named_def split: sum.splits dest!: index_policies_named)

lemma loadDir_loop_named:
  "loadDir_loop uni h fs iter path es out = Inr m \<Longrightarrow> named out \<Longrightarrow> \<forall>m. set (iter m) = set m \<Longrightarrow> named m"
proof (induction uni h fs iter path es out rule: loadDir_loop.induct)
  case (2 uni h fs it path name isDir es out)
  show ?case
  proof (cases "isDir \<or> filepath_Ext name \<noteq> ''.policy''")
    case True
    then show ?thesis using 2 by simp
  next
    case False
    then obtain parsed out' where *: "LoadFile uni h fs (fs_Join fs path name) = Inr parsed"
      "merge_policies (fs_Join fs path name) (it parsed) out = Inr out'"
      "loadDir_loop uni h fs it path es out' = Inr m"
      using 2(3) by (auto simp: rbind_Inr_iff)
    have "named out'"
      using merge_policies_named [OF *(2) 2(4)] LoadFile_named [OF *(1)] 2(5) by (simp add: named_def)
    then show ?thesis using 2(2) [OF False *(1,2,3)] 2(5) by simp
  qed
qed simp

section \<open>Properties\<close>

text \<open>
  A rule that compiles is compiled in disjunctive normal form. There is one rule set per
  term of the disjunction, every conjunct of a term is a literal (a comparison, a negated
  comparison or a list test), and for every truth assignment to the atoms the rule's
  expression holds iff all the conjuncts of some term hold. The j-th rule set collects, in
  order, the ports, allowed networks and blocked networks of the literals of the j-th term;
  a block rule appends the two catch-all networks to the blocklist.
\<close>

theorem compileRule_dnf:
  assumes "compileRule polName polVersion r = Inr (sets, warns)"
  shows "length sets = length (flattenOr (RExpr r))
    \<and> (eval_expr \<rho> (RExpr r) \<longleftrightarrow> (\<exists>t \<in> set (flattenOr (RExpr r)). \<forall>p \<in> set (flattenAnd t). eval_expr \<rho> p))
    \<and> (\<forall>j < length sets. let ps = flattenAnd (flattenOr (RExpr r) ! j) in
         (\<forall>p \<in> set ps. literal p)
         \<and> rs_Ports (sets ! j) = concat (map pred_ports ps)
         \<and> rs_Allowlist (sets ! j) = concat (map pred_allow ps)
         \<and> rs_Blocklist (sets ! j) = concat (map pred_block ps)
             @ (if RAction r = ActionBlock then [cidrAll4, cidrAll6] else []))"
proof (intro conjI allI impI)
  show "length sets = length (flattenOr (RExpr r))" using compileRule_sets(1) [OF assms] .
  show "eval_expr \<rho> (RExpr r) \<longleftrightarrow> (\<exists>t \<in> set (flattenOr (RExpr r)). \<forall>p \<in> set (flattenAnd t). eval_expr \<rho> p)"
    using flattenOr_eval [of \<rho> "RExpr r"] flattenAnd_eval by blast
next
  fix j assume "j < length sets"
  then have "compileTerm polName polVersion (RAction r) j (flattenOr (RExpr r) ! j) = Inr (sets ! j)"
    by (rule compileRule_sets(2) [OF assms])
  then obtain rs where rs: "applyPredicates (term_ruleset polName polVersion (RAction r) j)
      (flattenAnd (flattenOr (RExpr r) ! j)) = Inr rs"
    "sets ! j = (if RAction r = ActionBlock then rs\<lparr>rs_Blocklist := rs_Blocklist rs @ [cidrAll4, cidrAll6]\<rparr> else rs)"
    by (auto simp: compileTerm_def rbind_Inr_iff)
  show "let ps = flattenAnd (flattenOr (RExpr r) ! j) in (\<forall>p \<in> set ps. literal p)
         \<and> rs_Ports (sets ! j) = concat (map pred_ports ps)
         \<and> rs_Allowlist (sets ! j) = concat (map pred_allow ps)
         \<and> rs_Blocklist (sets ! j) = concat (map pred_block ps)
             @ (if RAction r = ActionBlock then [cidrAll4, cidrAll6] else [])"
    using applyPredicates_literal [OF rs(1)] applyPredicates_grows [OF rs(1)]
    by (simp add: Let_def rs(2) grows_def term_ruleset_def empty_ruleset_def)
qed

theorem compileRule_dnf_witness:
  "\<exists>sets. compileRule ''p'' ''v'' \<lparr>RAction = ActionAllow,
      RExpr = OrExpr (CompareExpr ''port'' ''=='' \<lparr>VStr = [], VNum = 22, VIsNum = True, VIsStr = False\<rparr>)
                     (InExpr ''port'' False [\<lparr>VStr = [], VNum = 443, VIsNum = True, VIsStr = False\<rparr>])\<rparr>
     = Inr (sets, []) \<and> length sets = 2"
proof -
  let ?r = "\<lparr>RAction = ActionAllow,
      RExpr = OrExpr (CompareExpr ''port'' ''=='' \<lparr>VStr = [], VNum = 22, VIsNum = True, VIsStr = False\<rparr>)
                     (InExpr ''port'' False [\<lparr>VStr = [], VNum = 443, VIsNum = True, VIsStr = False\<rparr>])\<rparr>"
  obtain sets where s: "compileRule ''p'' ''v'' ?r = Inr (sets, [])"
    by (simp add: compileRule_def compileTerm_def applyPredicate_def applyCompare_def applyIn_def
        strings_ToLower_def to_lower_def)
  then show ?thesis using compileRule_dnf [OF s] by simp
qed

text \<open>
  A compiled block rule blocks every source address: whatever its conditions on addresses,
  each of its rule sets has a blocklist in which every IPv4 and every IPv6 address is
  contained.
\<close>

theorem compileRule_block_all:
  assumes "compileRule polName polVersion r = Inr (sets, warns)" "RAction r = ActionBlock"
    and "rs \<in> set sets" "length p = 4 \<or> length p = 16"
  shows "\<exists>n \<in> set (rs_Blocklist rs). IPNet_Contains n p"
proof -
  obtain j where j: "j < length sets" "rs = sets ! j" using assms(3) by (auto simp: in_set_conv_nth)
  have "compileTerm polName polVersion ActionBlock j (flattenOr (RExpr r) ! j) = Inr rs"
    using compileRule_sets(2) [OF assms(1) j(1)] j(2) assms(2) by simp
  then have "cidrAll4 \<in> set (rs_Blocklist rs) \<and> cidrAll6 \<in> set (rs_Blocklist rs)"
    by (auto simp: compileTerm_def rbind_Inr_iff)
  then show ?thesis using cidrAll_contains [OF assms(4)] by blast
qed

theorem compileRule_block_all_witness:
  "\<exists>rs. compileRule ''p'' ''v'' \<lparr>RAction = ActionBlock, RExpr = InExpr ''port'' False []\<rparr> = Inr ([rs], [])
     \<and> (\<exists>n \<in> set (rs_Blocklist rs). IPNet_Contains n [203, 0, 113, 9])"
proof -
  let ?r = "\<lparr>RAction = ActionBlock, RExpr = InExpr ''port'' False []\<rparr>"
  obtain rs where s: "compileRule ''p'' ''v'' ?r = Inr ([rs], [])"
    by (simp add: compileRule_def compileTerm_def applyPredicate_def applyIn_def strings_ToLower_def to_lower_def)
  then show ?thesis using compileRule_block_all [OF s, of rs "[203, 0, 113, 9]"] by simp
qed

text \<open>
  The policies \<open>LoadDir\<close> returns are indexed by their names without duplicates: a name
  defined twice, in one file or in two, is an error and not an overwrite. This holds for any
  order in which the policies of a file are visited.
\<close>

theorem LoadDir_unique:
  assumes "\<forall>m. set (iter m) = set m" "LoadDir uni sha256_hex fs iter path = Inr m"
  shows "distinct (map fst m) \<and> (\<forall>(n, p) \<in> set m. PName p = n)"
proof -
  have "named m"
    using assms(2) loadDir_loop_named [OF _ _ assms(1)] LoadFile_named
    by (auto simp: LoadDir_def named_def split: if_split_asm stat_result.splits sum.splits)
  then show ?thesis by (simp add: named_def)
qed

theorem LoadDir_unique_witness:
  "\<exists>m. LoadDir \<lparr>letter_above = \<lambda>_. False, digit_above = \<lambda>_. False\<rparr> (\<lambda>s. s)
     \<lparr>fs_Stat = \<lambda>_. StatDir, fs_ReadDir = \<lambda>_. Inr [(''a.policy'', False), (''notes.txt'', False)],
      fs_ReadFile = \<lambda>_. Inr (policy_text [\<lparr>PName = ''web'', PRules = [], PVersion = [], PSource = [], PSourceBytes = []\<rparr>]),
      fs_Join = \<lambda>d f. d @ ''/'' @ f\<rparr> rev ''pol'' = Inr m
     \<and> map fst m = [''web''] \<and> distinct (map fst m)"
proof -
  let ?uni = "\<lparr>letter_above = \<lambda>_. False, digit_above = \<lambda>_. False\<rparr>"
  let ?t = "policy_text [\<lparr>PName = ''web'', PRules = [], PVersion = [], PSource = [], PSourceBytes = []\<rparr>]"
  let ?fs = "\<lparr>fs_Stat = \<lambda>_. StatDir, fs_ReadDir = \<lambda>_. Inr [(''a.policy'', False), (''notes.txt'', False)],
      fs_ReadFile = \<lambda>_. Inr ?t, fs_Join = \<lambda>d f. d @ ''/'' @ f\<rparr>"
  obtain v where "policy_Parse ?uni (\<lambda>s. s) ?t
      = Inr [\<lparr>PName = ''web'', PRules = [], PVersion = v, PSource = [], PSourceBytes = ?t\<rparr>]"
    using parse_printed [of "[\<lparr>PName = ''web'', PRules = [], PVersion = [], PSource = [], PSourceBytes = []\<rparr>]" ?uni "\<lambda>s. s"]
    by (simp add: wf_policy_def is_ascii_def loaded_def)
  then obtain m where m: "LoadDir ?uni (\<lambda>s. s) ?fs rev ''pol'' = Inr m" "map fst m = [''web'']"
    by (simp add: LoadDir_def LoadFile_def filepath_Ext_def)
  then show ?thesis using LoadDir_unique [OF _ m(1)] by auto
qed

end
