(* ===== verification/Config_Rules.thy ===== *)
theory Config_Rules
  imports Go_Prelude Net_IP "HOL-Library.Char_ord" "HOL-Library.List_Lexorder" "HOL-Library.Multiset"
begin

text \<open>
  Configuration: the rules file (\<open>backend/internal/config/rules.go\<close>), rule templates
  (\<open>templates.go\<close>), chain suffixes for blue/green upgrades (\<open>bluegreen.go\<close>) and the
  readers of environment variables and paths (\<open>config.go\<close>).

  YAML decoding and SHA-256 are arguments (\<open>unmarshal\<close>, \<open>sha256_hex\<close>); reading a file
  is the argument \<open>readFile\<close>, with its result a \<open>read_result\<close>; the environment is a map
  \<open>env\<close>. Strings are ordered byte by byte, as \<open>sort.Strings\<close> orders them.
\<close>

section \<open>The rules file\<close>

record FileRuleSet =
  fr_Container :: string
  fr_Name :: string
  fr_Ports :: "16 word list"
  fr_Allowlist :: "string list"
  fr_Blocklist :: "string list"
  fr_DefaultPolicy :: string
  fr_Protocol :: string
  fr_Profile :: string

record FileHostRuleSet =
  fh_Name :: string
  fh_Protocol :: string
  fh_Ports :: "16 word list"
  fh_Allowlist :: "string list"
  fh_Blocklist :: "string list"
  fh_Log :: bool
  fh_LogPrefix :: string

record RulesFile =
  rf_Rules :: "FileRuleSet list"
  rf_HostRules :: "FileHostRuleSet list"
  rf_HostDefault :: string

datatype read_result = ReadNotExist | ReadError string | ReadData string

datatype config_error =
    ReadFailed string string
  | ParseFileFailed string string
  | YamlError string
  | TemplateNoName nat
  | DuplicateTemplate string
  | EmptySuffix
  | BadSuffix string

definition empty_rules_file :: RulesFile where
  "empty_rules_file = \<lparr>rf_Rules = [], rf_HostRules = [], rf_HostDefault = []\<rparr>"

definition LoadRulesFile ::
  "(string \<Rightarrow> read_result) \<Rightarrow> (string \<Rightarrow> string + RulesFile) \<Rightarrow> string \<Rightarrow> config_error + RulesFile" where
  "LoadRulesFile readFile unmarshal path =
     (if path = [] then Inr empty_rules_file
      else (case readFile path of
              ReadNotExist \<Rightarrow> Inr empty_rules_file
            | ReadError e \<Rightarrow> Inl (ReadFailed path e)
            | ReadData data \<Rightarrow>
                (if strings_TrimSpace data = [] then Inr empty_rules_file
                 else (case unmarshal data of
                         Inl e \<Rightarrow> Inl (ParseFileFailed path e)
                       | Inr rf \<Rightarrow> Inr rf))))"

text \<open>An entry without a prefix length gets \<open>/128\<close> if it has a colon and \<open>/32\<close> if not.\<close>

definition entry_cidr :: "string \<Rightarrow> string" where
  "entry_cidr e =
     (if strings_Contains e ''/'' then e
      else if strings_Contains e '':'' then e @ ''/128'' else e @ ''/32'')"

fun parseAllowlist_loop :: "string list \<Rightarrow> IPNet list \<Rightarrow> string list \<Rightarrow> IPNet list \<times> string list" where
  "parseAllowlist_loop [] nets errs = (nets, errs)"
| "parseAllowlist_loop (x # xs) nets errs =
     (let e = strings_TrimSpace x in
      if e = [] then parseAllowlist_loop xs nets errs
      else (case net_ParseCIDR (entry_cidr e) of
              None \<Rightarrow> parseAllowlist_loop xs nets (errs @ [entry_cidr e])
            | Some n \<Rightarrow> parseAllowlist_loop xs (nets @ [n]) errs))"

definition ParseFileAllowlist :: "string list \<Rightarrow> IPNet list \<times> string list" where
  "ParseFileAllowlist entries = parseAllowlist_loop entries [] []"

section \<open>Templates\<close>

record RuleTemplate =
  t_Name :: string
  t_Description :: string
  t_Ports :: "16 word list"
  t_Protocol :: string
  t_Allowlist :: "string list"
  t_Blocklist :: "string list"
  t_AllowlistNetworks :: "string list"
  t_BlocklistNetworks :: "string list"
  t_GeoBlock :: "string list"
  t_GeoAllow :: "string list"
  t_Ratelimit :: string
  t_Profile :: string
  t_Log :: bool
  t_LogPrefix :: string
  t_Version :: string

definition write_list :: "string \<Rightarrow> string list \<Rightarrow> string" where
  "write_list k vs = (if vs = [] then [] else k @ ''='' @ strings_Join (sort vs) '','' @ [CHR 10])"

definition write_ports :: "string \<Rightarrow> 16 word list \<Rightarrow> string" where
  "write_ports k vs =
     (if vs = [] then []
      else k @ ''='' @ strings_Join (map strconv_Itoa (sort (map unat vs))) '','' @ [CHR 10])"

definition canonical_text :: "RuleTemplate \<Rightarrow> string" where
  "canonical_text t =
     ''name='' @ t_Name t @ [CHR 10] @ ''proto='' @ t_Protocol t @ [CHR 10]
     @ ''profile='' @ t_Profile t @ [CHR 10] @ ''ratelimit='' @ t_Ratelimit t @ [CHR 10]
     @ ''log='' @ (if t_Log t then ''true'' else ''false'') @ [CHR 10]
     @ ''log_prefix='' @ t_LogPrefix t @ [CHR 10]
     @ write_ports ''ports'' (t_Ports t)
     @ write_list ''allow'' (t_Allowlist t) @ write_list ''block'' (t_Blocklist t)
     @ write_list ''allow_nets'' (t_AllowlistNetworks t) @ write_list ''block_nets'' (t_BlocklistNetworks t)
     @ write_list ''geoblock'' (t_GeoBlock t) @ write_list ''geoallow'' (t_GeoAllow t)"

definition canonicalVersion :: "(string \<Rightarrow> string) \<Rightarrow> RuleTemplate \<Rightarrow> string" where
  "canonicalVersion sha256_hex t = take 16 (sha256_hex (canonical_text t))"

fun parseTemplates_loop ::
  "(string \<Rightarrow> string) \<Rightarrow> nat \<Rightarrow> RuleTemplate list \<Rightarrow> (string \<rightharpoonup> RuleTemplate)
   \<Rightarrow> config_error + (string \<rightharpoonup> RuleTemplate)" where
  "parseTemplates_loop h i [] out = Inr out"
| "parseTemplates_loop h i (t # ts) out =
     (if t_Name t = [] then Inl (TemplateNoName i)
      else if out (t_Name t) \<noteq> None then Inl (DuplicateTemplate (t_Name t))
      else parseTemplates_loop h (Suc i) ts
             (out(t_Name t \<mapsto> t\<lparr>t_Version := canonicalVersion h t\<rparr>)))"

definition parseTemplateBytes ::
  "(string \<Rightarrow> string) \<Rightarrow> (string \<Rightarrow> string + RuleTemplate list) \<Rightarrow> string
   \<Rightarrow> config_error + (string \<rightharpoonup> RuleTemplate)" where
  "parseTemplateBytes sha256_hex unmarshal data =
     (case unmarshal data of
        Inl e \<Rightarrow> Inl (YamlError e)
      | Inr ts \<Rightarrow> parseTemplates_loop sha256_hex 0 ts Map.empty)"

definition LoadTemplates ::
  "(string \<Rightarrow> string) \<Rightarrow> (string \<Rightarrow> read_result) \<Rightarrow> (string \<Rightarrow> string + RuleTemplate list) \<Rightarrow> string
   \<Rightarrow> config_error + (string \<rightharpoonup> RuleTemplate)" where
  "LoadTemplates sha256_hex readFile unmarshal path =
     (if path = [] then Inr Map.empty
      else (case readFile path of
              ReadNotExist \<Rightarrow> Inr Map.empty
            | ReadError e \<Rightarrow> Inl (ReadFailed path e)
            | ReadData data \<Rightarrow> parseTemplateBytes sha256_hex unmarshal data))"

definition TemplateLabel :: string where "TemplateLabel = ''firefik.template''"

fun names_loop :: "string list \<Rightarrow> string list \<Rightarrow> string list" where
  "names_loop [] out = out"
| "names_loop (p # ps) out =
     (let name = strings_TrimSpace p in
      if name = [] \<or> name \<in> set out then names_loop ps out else names_loop ps (out @ [name]))"

definition ResolveTemplateNames :: "string \<Rightarrow> string list" where
  "ResolveTemplateNames v = (if v = [] then [] else names_loop (strings_Split v CHR '','') [])"

section \<open>Chain suffixes\<close>

fun legacy_loop :: "string \<Rightarrow> string \<Rightarrow> string list \<Rightarrow> string list \<Rightarrow> string list" where
  "legacy_loop base effective [] out = out"
| "legacy_loop base effective (suf # sufs) out =
     (let chain = (if suf \<noteq> [] then base @ ''-'' @ suf else base) in
      if chain = effective \<or> chain \<in> set out then legacy_loop base effective sufs out
      else legacy_loop base effective sufs (out @ [chain]))"

definition DeriveLegacyChains :: "string \<Rightarrow> string \<Rightarrow> string list \<Rightarrow> string list" where
  "DeriveLegacyChains base effective oldSuffixes = legacy_loop base effective oldSuffixes []"

definition suffix_char :: "char \<Rightarrow> bool" where
  "suffix_char c \<longleftrightarrow> (let n = (of_char c :: nat) in
     (65 \<le> n \<and> n \<le> 90) \<or> (97 \<le> n \<and> n \<le> 122) \<or> (48 \<le> n \<and> n \<le> 57) \<or> n = 95 \<or> n = 45)"

definition ValidateSuffix :: "string \<Rightarrow> config_error option" where
  "ValidateSuffix s =
     (if s = [] then Some EmptySuffix
      else if \<not> list_all suffix_char s then Some (BadSuffix s) else None)"

text \<open>A \<open>float64\<close> is its IEEE 754 bit pattern; \<open>strconv.ParseFloat\<close> is a parameter.\<close>

type_synonym float64 = "64 word"

record AuditRotationConfig =
  ar_MaxSizeMB :: int
  ar_MaxBackups :: int
  ar_MaxAgeDays :: int
  ar_Compress :: bool

record Config =
  c_ListenAddr :: string
  c_SocketMode :: "32 word"
  c_SocketGroup :: string
  c_LogLevel :: string
  c_ChainName :: string
  c_ParentChain :: string
  c_DefaultPolicy :: string
  c_AutoAllowlist :: bool
  c_ConfigFile :: string
  c_EnableIPv6 :: bool
  c_Backend :: string
  c_UseGeoIPDB :: bool
  c_GeoIPDBPath :: string
  c_GeoIPAutoUpdate :: bool
  c_GeoIPUpdateCron :: string
  c_GeoIPLicenseKey :: string
  c_GeoIPSource :: string
  c_GeoIPDownloadURL :: string
  c_Version :: string
  c_APIToken :: string
  c_MetricsToken :: string
  c_AllowedOrigins :: "string list"
  c_AllowedUIDs :: "int list"
  c_ClientCAFile :: string
  c_MaxBodyBytes :: int
  c_RateLimitRPS :: float64
  c_RateLimitBurst :: int
  c_RequestTimeoutMS :: int
  c_AuditSinkType :: string
  c_AuditSinkPath :: string
  c_AuditSinkEndpoint :: string
  c_AuditRotation :: AuditRotationConfig
  c_WebhookURL :: string
  c_WebhookEvents :: "string list"
  c_WebhookSecret :: string
  c_WebhookTimeoutMS :: int
  c_ChainSuffix :: string
  c_CleanupOldSuffixes :: "string list"
  c_EffectiveChain :: string
  c_DriftCheckInterval :: int
  c_StatefulAccept :: bool
  c_APITokenFile :: string
  c_WSMaxSubscribers :: int
  c_MetricsRateRPS :: float64
  c_MetricsRateBurst :: int
  c_MetricsListenAddr :: string
  c_MetricsTLSCert :: string
  c_MetricsTLSKey :: string
  c_MetricsAllowPrivate :: bool
  c_TemplatesFile :: string
  c_PoliciesDir :: string
  c_PoliciesReadOnly :: bool
  c_AutogenMode :: string
  c_AutogenMinSamples :: int
  c_AutogenDBPath :: string
  c_ScheduleInterval :: int
  c_ControlPlaneGRPC :: string
  c_ControlPlaneHTTP :: string
  c_ControlPlaneToken :: string
  c_ControlPlaneInsecure :: bool
  c_ControlPlaneCACert :: string
  c_ControlPlaneClientCert :: string
  c_ControlPlaneClientKey :: string
  c_ControlPlaneSnapshotS :: int
  c_ControlPlaneHeartbeatS :: int
  c_CertRenewBeforeS :: int
  c_CertRenewIntervalS :: int
  c_CertRenewTTLS :: int
  c_TemplateSyncIntervalS :: int
  c_TemplateCacheDir :: string

definition ValidateChainSuffix :: "Config \<Rightarrow> config_error option" where
  "ValidateChainSuffix c = (if c_ChainSuffix c = [] then None else ValidateSuffix (c_ChainSuffix c))"

definition EffectiveChainName :: "Config \<Rightarrow> string" where
  "EffectiveChainName c =
     (if c_ChainSuffix c = [] then c_ChainName c else c_ChainName c @ ''-'' @ c_ChainSuffix c)"

definition FinaliseForRuntime :: "Config \<Rightarrow> config_error + Config" where
  "FinaliseForRuntime c =
     (case ValidateChainSuffix c of
        Some e \<Rightarrow> Inl e
      | None \<Rightarrow> Inr (c\<lparr>c_EffectiveChain := EffectiveChainName c\<rparr>))"

section \<open>Paths and environment variables\<close>

text \<open>
  \<open>path.Clean\<close>: the elements of the path, with empty ones and \<open>.\<close> removed and each
  \<open>..\<close> taking away the element before it; at the root \<open>..\<close> is dropped.
\<close>

fun clean_elems :: "bool \<Rightarrow> string list \<Rightarrow> string list \<Rightarrow> string list" where
  "clean_elems rooted [] acc = rev acc"
| "clean_elems rooted (e # es) acc =
     (if e = [] \<or> e = ''.'' then clean_elems rooted es acc
      else if e = ''..'' then
        (case acc of
           a # as \<Rightarrow> (if a = ''..'' then clean_elems rooted es (e # acc) else clean_elems rooted es as)
         | [] \<Rightarrow> (if rooted then clean_elems rooted es [] else clean_elems rooted es [e]))
      else clean_elems rooted es (e # acc))"

definition path_Clean :: "string \<Rightarrow> string" where
  "path_Clean p =
     (if p = [] then ''.''
      else (let rooted = (hd p = CHR ''/''); es = clean_elems rooted (strings_Split p CHR ''/'') [] in
            if rooted then ''/'' @ strings_Join es ''/''
            else if es = [] then ''.'' else strings_Join es ''/''))"

definition SafePath :: "string \<Rightarrow> string" where
  "SafePath p =
     (if p = [] then []
      else (let cleaned = path_Clean p in
            if \<not> strings_HasPrefix cleaned ''/'' then []
            else if strings_Contains cleaned ''..'' then []
            else cleaned))"

type_synonym env = "string \<rightharpoonup> string"

definition os_Getenv :: "env \<Rightarrow> string \<Rightarrow> string" where
  "os_Getenv env key = (case env key of Some v \<Rightarrow> v | None \<Rightarrow> [])"

definition getEnv :: "env \<Rightarrow> string \<Rightarrow> string \<Rightarrow> string" where
  "getEnv env key dflt = (if os_Getenv env key \<noteq> [] then os_Getenv env key else dflt)"

definition getEnvBool :: "env \<Rightarrow> string \<Rightarrow> bool \<Rightarrow> bool" where
  "getEnvBool env key dflt =
     (let v = os_Getenv env key in
      if v \<in> {''true'', ''1'', ''yes''} then True
      else if v \<in> {''false'', ''0'', ''no''} then False else dflt)"

definition getEnvWithFile ::
  "(string \<Rightarrow> read_result) \<Rightarrow> env \<Rightarrow> string \<Rightarrow> string \<Rightarrow> string \<Rightarrow> string" where
  "getEnvWithFile readFile env envKey fileEnvKey dflt =
     (if os_Getenv env envKey \<noteq> [] then os_Getenv env envKey
      else if os_Getenv env fileEnvKey = [] then dflt
      else (case readFile (os_Getenv env fileEnvKey) of
              ReadData data \<Rightarrow> strings_TrimSpace data
            | _ \<Rightarrow> dflt))"

definition getEnvList :: "env \<Rightarrow> string \<Rightarrow> string list" where
  "getEnvList env key =
     (let raw = os_Getenv env key in
      if raw = [] then []
      else filter (\<lambda>t. t \<noteq> []) (map strings_TrimSpace (strings_Split raw CHR '','')))"

definition getEnvListWithDefault :: "env \<Rightarrow> string \<Rightarrow> string list \<Rightarrow> string list" where
  "getEnvListWithDefault env key dflt = (if env key = None then dflt else getEnvList env key)"

definition getEnvIntList :: "env \<Rightarrow> string \<Rightarrow> int list" where
  "getEnvIntList env key = List.map_filter strconv_Atoi (getEnvList env key)"

definition getEnvInt64 :: "env \<Rightarrow> string \<Rightarrow> int \<Rightarrow> int" where
  "getEnvInt64 env key dflt =
     (let raw = os_Getenv env key in
      if raw = [] then dflt else (case strconv_ParseInt64 raw of None \<Rightarrow> dflt | Some n \<Rightarrow> n))"

definition getEnvFloat :: "(string \<Rightarrow> float64 option) \<Rightarrow> env \<Rightarrow> string \<Rightarrow> float64 \<Rightarrow> float64" where
  "getEnvFloat parseFloat env key dflt =
     (let raw = os_Getenv env key in
      if raw = [] then dflt else (case parseFloat raw of None \<Rightarrow> dflt | Some n \<Rightarrow> n))"

text \<open>\<open>strconv.ParseUint(s, 8, 32)\<close>\<close>

definition strconv_ParseOctal32 :: "string \<Rightarrow> 32 word option" where
  "strconv_ParseOctal32 s =
     (if s = [] \<or> \<not> list_all (\<lambda>c. is_digit c \<and> digit_val c < 8) s then None
      else (let v = foldl (\<lambda>n c. n * 8 + digit_val c) 0 s in if v < 2 ^ 32 then Some (of_nat v) else None))"

definition getEnvFileMode :: "env \<Rightarrow> string \<Rightarrow> 32 word \<Rightarrow> 32 word" where
  "getEnvFileMode env key dflt =
     (let raw = os_Getenv env key in
      if raw = [] then dflt else (case strconv_ParseOctal32 raw of None \<Rightarrow> dflt | Some n \<Rightarrow> n))"

definition loadConfig :: "(string \<Rightarrow> float64 option) \<Rightarrow> (string \<Rightarrow> read_result) \<Rightarrow> env \<Rightarrow> Config" where
  "loadConfig parseFloat readFile env =
     \<lparr>c_ListenAddr = getEnv env ''FIREFIK_LISTEN_ADDR'' ''unix:///run/firefik/api.sock'',
      c_SocketMode = getEnvFileMode env ''FIREFIK_SOCKET_MODE'' 432,
      c_SocketGroup = getEnv env ''FIREFIK_SOCKET_GROUP'' [],
      c_LogLevel = getEnv env ''FIREFIK_LOG_LEVEL'' ''info'',
      c_ChainName = getEnv env ''FIREFIK_CHAIN'' ''FIREFIK'',
      c_ParentChain = getEnv env ''FIREFIK_PARENT_CHAIN'' ''DOCKER-USER'',
      c_DefaultPolicy = getEnv env ''FIREFIK_DEFAULT_POLICY'' ''RETURN'',
      c_AutoAllowlist = getEnvBool env ''FIREFIK_AUTO_ALLOWLIST'' True,
      c_ConfigFile = SafePath (getEnv env ''FIREFIK_CONFIG'' ''/etc/firefik/rules.conf''),
      c_EnableIPv6 = getEnvBool env ''FIREFIK_ENABLE_IPV6'' False,
      c_Backend = getEnv env ''FIREFIK_BACKEND'' ''auto'',
      c_UseGeoIPDB = getEnvBool env ''FIREFIK_USE_GEOIP_DB'' False,
      c_GeoIPDBPath = SafePath (getEnv env ''FIREFIK_GEOIP_DB_PATH'' ''/etc/firefik/GeoLite2-Country.mmdb''),
      c_GeoIPAutoUpdate = getEnvBool env ''FIREFIK_GEOIP_DB_AUTOUPDATE'' False,
      c_GeoIPUpdateCron = getEnv env ''FIREFIK_GEOIP_DB_CRON'' ''0 3 * * 3'',
      c_GeoIPLicenseKey = getEnvWithFile readFile env ''FIREFIK_GEOIP_LICENSE_KEY'' ''FIREFIK_GEOIP_LICENSE_KEY_FILE'' [],
      c_GeoIPSource = getEnv env ''FIREFIK_GEOIP_SOURCE'' ''p3terx'',
      c_GeoIPDownloadURL = getEnv env ''FIREFIK_GEOIP_DOWNLOAD_URL'' [],
      c_Version = [],
      c_APIToken = getEnvWithFile readFile env ''FIREFIK_API_TOKEN'' ''FIREFIK_API_TOKEN_FILE'' [],
      c_MetricsToken = getEnvWithFile readFile env ''FIREFIK_METRICS_TOKEN'' ''FIREFIK_METRICS_TOKEN_FILE'' [],
      c_AllowedOrigins = getEnvList env ''FIREFIK_ALLOWED_ORIGINS'',
      c_AllowedUIDs = getEnvIntList env ''FIREFIK_ALLOWED_UIDS'',
      c_ClientCAFile = SafePath (getEnv env ''FIREFIK_CLIENT_CA_FILE'' []),
      c_MaxBodyBytes = getEnvInt64 env ''FIREFIK_MAX_BODY_BYTES'' 1048576,
      c_RateLimitRPS = getEnvFloat parseFloat env ''FIREFIK_RATE_LIMIT_RPS'' 0x4024000000000000,
      c_RateLimitBurst = getEnvInt64 env ''FIREFIK_RATE_LIMIT_BURST'' 20,
      c_RequestTimeoutMS = getEnvInt64 env ''FIREFIK_REQUEST_TIMEOUT_MS'' 30000,
      c_AuditSinkType = getEnv env ''FIREFIK_AUDIT_SINK'' [],
      c_AuditSinkPath = getEnv env ''FIREFIK_AUDIT_SINK_PATH'' [],
      c_AuditSinkEndpoint = getEnv env ''FIREFIK_AUDIT_SINK_ENDPOINT'' [],
      c_AuditRotation = \<lparr>ar_MaxSizeMB = getEnvInt64 env ''FIREFIK_AUDIT_SINK_MAX_SIZE_MB'' 100, ar_MaxBackups = getEnvInt64 env ''FIREFIK_AUDIT_SINK_MAX_BACKUPS'' 5, ar_MaxAgeDays = getEnvInt64 env ''FIREFIK_AUDIT_SINK_MAX_AGE_DAYS'' 30, ar_Compress = getEnvBool env ''FIREFIK_AUDIT_SINK_COMPRESS'' True\<rparr>,
      c_WebhookURL = getEnv env ''FIREFIK_WEBHOOK_URL'' [],
      c_WebhookEvents = getEnvListWithDefault env ''FIREFIK_WEBHOOK_EVENTS'' [''rule_applied'', ''rule_apply_failed'', ''policy_changed'', ''proposal_approved'', ''cert_expiring''],
      c_WebhookSecret = getEnvWithFile readFile env ''FIREFIK_WEBHOOK_SECRET'' ''FIREFIK_WEBHOOK_SECRET_FILE'' [],
      c_WebhookTimeoutMS = getEnvInt64 env ''FIREFIK_WEBHOOK_TIMEOUT_MS'' 5000,
      c_ChainSuffix = getEnv env ''FIREFIK_CHAIN_SUFFIX'' [],
      c_CleanupOldSuffixes = getEnvList env ''FIREFIK_CLEANUP_OLD_SUFFIXES'',
      c_EffectiveChain = [],
      c_DriftCheckInterval = getEnvInt64 env ''FIREFIK_DRIFT_CHECK_INTERVAL'' 300,
      c_StatefulAccept = getEnvBool env ''FIREFIK_STATEFUL_ACCEPT'' True,
      c_APITokenFile = SafePath (os_Getenv env ''FIREFIK_API_TOKEN_FILE''),
      c_WSMaxSubscribers = getEnvInt64 env ''FIREFIK_WS_MAX_SUBSCRIBERS'' 20,
      c_MetricsRateRPS = getEnvFloat parseFloat env ''FIREFIK_METRICS_RATE_RPS'' 0x3ff0000000000000,
      c_MetricsRateBurst = getEnvInt64 env ''FIREFIK_METRICS_RATE_BURST'' 5,
      c_MetricsListenAddr = getEnv env ''FIREFIK_METRICS_LISTEN'' [],
      c_MetricsTLSCert = SafePath (getEnv env ''FIREFIK_METRICS_TLS_CERT'' []),
      c_MetricsTLSKey = SafePath (getEnv env ''FIREFIK_METRICS_TLS_KEY'' []),
      c_MetricsAllowPrivate = getEnvBool env ''FIREFIK_METRICS_ALLOW_PRIVATE'' False,
      c_TemplatesFile = SafePath (os_Getenv env ''FIREFIK_TEMPLATES_FILE''),
      c_PoliciesDir = SafePath (os_Getenv env ''FIREFIK_POLICIES_DIR''),
      c_PoliciesReadOnly = getEnvBool env ''FIREFIK_POLICIES_READONLY'' False,
      c_AutogenMode = strings_ToLower (getEnv env ''FIREFIK_AUTOGEN_MODE'' ''off''),
      c_AutogenMinSamples = getEnvInt64 env ''FIREFIK_AUTOGEN_MIN_SAMPLES'' 10,
      c_AutogenDBPath = SafePath (getEnv env ''FIREFIK_AUTOGEN_DB_PATH'' []),
      c_ScheduleInterval = getEnvInt64 env ''FIREFIK_SCHEDULE_INTERVAL'' 60,
      c_ControlPlaneGRPC = getEnv env ''FIREFIK_CONTROL_PLANE_GRPC'' [],
      c_ControlPlaneHTTP = getEnv env ''FIREFIK_CONTROL_PLANE_HTTP'' [],
      c_ControlPlaneToken = getEnvWithFile readFile env ''FIREFIK_CONTROL_PLANE_TOKEN'' ''FIREFIK_CONTROL_PLANE_TOKEN_FILE'' [],
      c_ControlPlaneInsecure = getEnvBool env ''FIREFIK_CONTROL_PLANE_INSECURE'' False,
      c_ControlPlaneCACert = SafePath (getEnv env ''FIREFIK_CONTROL_PLANE_CA_CERT'' []),
      c_ControlPlaneClientCert = SafePath (getEnv env ''FIREFIK_CONTROL_PLANE_CLIENT_CERT'' []),
      c_ControlPlaneClientKey = SafePath (getEnv env ''FIREFIK_CONTROL_PLANE_CLIENT_KEY'' []),
      c_ControlPlaneSnapshotS = getEnvInt64 env ''FIREFIK_CONTROL_PLANE_SNAPSHOT_INTERVAL'' 30,
      c_ControlPlaneHeartbeatS = getEnvInt64 env ''FIREFIK_CONTROL_PLANE_HEARTBEAT_INTERVAL'' 30,
      c_CertRenewBeforeS = getEnvInt64 env ''FIREFIK_CONTROL_PLANE_CERT_RENEW_BEFORE'' 259200,
      c_CertRenewIntervalS = getEnvInt64 env ''FIREFIK_CONTROL_PLANE_CERT_RENEW_INTERVAL'' 1800,
      c_CertRenewTTLS = getEnvInt64 env ''FIREFIK_CONTROL_PLANE_CERT_RENEW_TTL'' 2592000,
      c_TemplateSyncIntervalS = getEnvInt64 env ''FIREFIK_TEMPLATE_SYNC_INTERVAL'' 60,
      c_TemplateCacheDir = SafePath (getEnv env ''FIREFIK_TEMPLATE_CACHE_DIR'' ''/var/lib/firefik/templates'')\<rparr>"

section \<open>Facts\<close>

lemma legacy_loop_spec:
  "effective \<notin> set out \<Longrightarrow> distinct out \<Longrightarrow>
   distinct (legacy_loop base effective sufs out)
   \<and> set (legacy_loop base effective sufs out)
     = set out \<union> ({if s \<noteq> [] then base @ ''-'' @ s else base | s. s \<in> set sufs} - {effective})"
proof (induction base effective sufs out rule: legacy_loop.induct)
  case (2 base effective suf sufs out)
  let ?c = "if suf \<noteq> [] then base @ ''-'' @ suf else base"
  have u: "{if s \<noteq> [] then base @ ''-'' @ s else base | s. s \<in> set (suf # sufs)}
     = insert ?c {if s \<noteq> [] then base @ ''-'' @ s else base | s. s \<in> set sufs}" by auto
  show ?case
  proof (cases "?c = effective \<or> ?c \<in> set out")
    case True
    have "legacy_loop base effective (suf # sufs) out = legacy_loop base effective sufs out"
      unfolding legacy_loop.simps Let_def using True by (rule if_P)
    then show ?thesis using 2(1) [OF refl True 2(3,4)] True unfolding u by auto
  next
    case False
    have "legacy_loop base effective (suf # sufs) out = legacy_loop base effective sufs (out @ [?c])"
      unfolding legacy_loop.simps Let_def using False by (rule if_not_P)
    moreover have "effective \<notin> set (out @ [?c])" "distinct (out @ [?c])" using False 2(3,4) by auto
    ultimately show ?thesis using 2(2) [OF refl False] False unfolding u by auto
  qed
qed simp

lemma sort_mset_cong: "mset xs = mset ys \<Longrightarrow> sort xs = sort ys"
  by (rule properties_for_sort) simp_all

lemma write_list_cong: "mset xs = mset ys \<Longrightarrow> write_list k xs = write_list k ys"
  unfolding write_list_def using sort_mset_cong by (metis mset_zero_iff_right)

lemma write_ports_cong: "mset xs = mset ys \<Longrightarrow> write_ports k xs = write_ports k ys"
proof -
  assume eq: "mset xs = mset ys"
  then have "sort (map unat xs) = sort (map unat ys)" by (intro sort_mset_cong) simp
  moreover have "xs = [] \<longleftrightarrow> ys = []" using eq by auto
  ultimately show ?thesis by (simp add: write_ports_def)
qed

lemma names_loop_spec:
  "distinct out \<Longrightarrow> distinct (names_loop ps out)
   \<and> set (names_loop ps out) = set out \<union> ({strings_TrimSpace p | p. p \<in> set ps} - {[]})"
proof (induction ps out rule: names_loop.induct)
  case (2 p ps out)
  have u: "{strings_TrimSpace q | q. q \<in> set (p # ps)} = insert (strings_TrimSpace p) {strings_TrimSpace q | q. q \<in> set ps}"
    by auto
  show ?case
  proof (cases "strings_TrimSpace p = [] \<or> strings_TrimSpace p \<in> set out")
    case True
    have "names_loop (p # ps) out = names_loop ps out"
      unfolding names_loop.simps Let_def using True by (rule if_P)
    then show ?thesis using 2(1) [OF refl True 2(3)] True unfolding u by auto
  next
    case False
    have "names_loop (p # ps) out = names_loop ps (out @ [strings_TrimSpace p])"
      unfolding names_loop.simps Let_def using False by (rule if_not_P)
    then show ?thesis using 2(2) [OF refl False] 2(3) False unfolding u by auto
  qed
qed simp

lemma clean_elems_plain:
  "list_all (\<lambda>e. e \<noteq> [] \<and> e \<noteq> ''.'' \<and> e \<noteq> ''..'') es \<Longrightarrow> clean_elems r es acc = rev acc @ es"
  by (induction es arbitrary: acc) auto

definition plain_elem :: "string \<Rightarrow> bool" where
  "plain_elem e \<longleftrightarrow> e \<noteq> [] \<and> e \<noteq> ''.'' \<and> e \<noteq> ''..'' \<and> CHR ''/'' \<notin> set e"

lemma clean_elems_rooted:
  "r \<Longrightarrow> list_all plain_elem acc \<Longrightarrow> \<forall>e \<in> set es. CHR ''/'' \<notin> set e \<Longrightarrow> list_all plain_elem (clean_elems r es acc)"
proof (induction r es acc rule: clean_elems.induct)
  case (2 r e es acc)
  show ?case
  proof (cases "e = [] \<or> e = ''.''")
    case True
    then show ?thesis using 2(1) [OF True] 2(7-9) by simp
  next
    case False
    show ?thesis
    proof (cases "e = ''..''")
      case dots: True
      show ?thesis
      proof (cases acc)
        case Nil
        then show ?thesis using 2(2) [OF False dots Nil] 2(7-9) False dots by simp
      next
        case (Cons a as)
        then have "a \<noteq> ''..''" using 2(8) by (simp add: plain_elem_def)
        then show ?thesis using 2(5) [OF False dots Cons] 2(7-9) False dots Cons by simp
      qed
    next
      case plain: False
      then have "plain_elem e" using 2(9) False by (simp add: plain_elem_def)
      then have "list_all plain_elem (e # acc)" using 2(8) by simp
      then show ?thesis using 2(6) [OF False plain] 2(7,9) False plain by simp
    qed
  qed
qed simp

lemma path_Clean_rooted:
  assumes "p \<noteq> []" "hd p = CHR ''/''"
  obtains es where "path_Clean p = ''/'' @ strings_Join es ''/''" "list_all plain_elem es"
proof
  let ?es = "clean_elems True (strings_Split p CHR ''/'') []"
  show "path_Clean p = ''/'' @ strings_Join ?es ''/''" using assms by (simp add: path_Clean_def)
  show "list_all plain_elem ?es" by (rule clean_elems_rooted) (auto dest: strings_Split_no_sep)
qed

lemma path_Clean_fixed:
  assumes "list_all plain_elem es"
  shows "path_Clean (''/'' @ strings_Join es ''/'') = ''/'' @ strings_Join es ''/''"
    and "e \<in> set (strings_Split (''/'' @ strings_Join es ''/'') CHR ''/'') \<Longrightarrow> e \<noteq> ''.'' \<and> e \<noteq> ''..''"
proof -
  have split: "strings_Split (''/'' @ strings_Join es ''/'') CHR ''/'' = [] # (if es = [] then [[]] else es)"
  proof (cases "es = []")
    case False
    then have "strings_Split (strings_Join es ''/'') CHR ''/'' = es"
      using assms by (intro strings_Split_Join) (auto simp: plain_elem_def list_all_iff)
    then show ?thesis using False strings_Split_append [of "CHR ''/''" "[]" "strings_Join es ''/''"] by simp
  qed simp
  have "clean_elems True es [] = es"
    using assms clean_elems_plain [of es True "[]"] by (auto simp: plain_elem_def list_all_iff)
  then show "path_Clean (''/'' @ strings_Join es ''/'') = ''/'' @ strings_Join es ''/''"
    unfolding path_Clean_def Let_def split by (cases "es = []") simp_all
  show "e \<in> set (strings_Split (''/'' @ strings_Join es ''/'') CHR ''/'') \<Longrightarrow> e \<noteq> ''.'' \<and> e \<noteq> ''..''"
    unfolding split using assms by (auto simp: plain_elem_def list_all_iff split: if_splits)
qed

lemma path_Clean_relative:
  assumes "p \<noteq> []" "hd p \<noteq> CHR ''/''"
  shows "\<not> strings_HasPrefix (path_Clean p) ''/''"
proof -
  let ?es = "clean_elems False (strings_Split p CHR ''/'') []"
  have gen: "list_all (\<lambda>e. e \<noteq> [] \<and> CHR ''/'' \<notin> set e) (clean_elems False es acc)"
    if "list_all (\<lambda>e. e \<noteq> [] \<and> CHR ''/'' \<notin> set e) acc" "\<forall>e \<in> set es. CHR ''/'' \<notin> set e" for es acc
    using that by (induction "False" es acc rule: clean_elems.induct) (auto split: list.splits)
  have "list_all (\<lambda>e. e \<noteq> [] \<and> CHR ''/'' \<notin> set e) ?es"
    by (rule gen) (auto dest: strings_Split_no_sep)
  moreover have "list_all (\<lambda>e. e \<noteq> [] \<and> CHR ''/'' \<notin> set e) es \<Longrightarrow> es \<noteq> [] \<Longrightarrow>
      hd (strings_Join es ''/'') \<noteq> CHR ''/'' \<and> strings_Join es ''/'' \<noteq> []" for es
    by (cases es rule: strings_Join.cases [of "(es, ''/'')" for es, simplified])
      (auto simp: neq_Nil_conv)
  ultimately have "?es \<noteq> [] \<Longrightarrow> hd (strings_Join ?es ''/'') \<noteq> CHR ''/'' \<and> strings_Join ?es ''/'' \<noteq> []" by blast
  then show ?thesis
    using assms by (cases "strings_Join ?es ''/''")
      (auto simp: path_Clean_def strings_HasPrefix_def Let_def)
qed

lemma SafePath_ok:
  assumes "SafePath p \<noteq> []"
  shows "hd (SafePath p) = CHR ''/'' \<and> \<not> strings_Contains (SafePath p) ''..''
    \<and> (\<forall>e \<in> set (strings_Split (SafePath p) CHR ''/''). e \<noteq> ''.'' \<and> e \<noteq> ''..'')
    \<and> SafePath (SafePath p) = SafePath p"
proof -
  have p: "p \<noteq> []" "strings_HasPrefix (path_Clean p) ''/''" "\<not> strings_Contains (path_Clean p) ''..''"
    "SafePath p = path_Clean p"
    using assms by (auto simp: SafePath_def Let_def split: if_splits)
  then have "hd p = CHR ''/''" using path_Clean_relative by blast
  then obtain es where es: "path_Clean p = ''/'' @ strings_Join es ''/''" "list_all plain_elem es"
    using path_Clean_rooted [OF p(1)] by blast
  have "SafePath (path_Clean p) = path_Clean p"
    using p path_Clean_fixed(1) [OF es(2)] by (simp add: SafePath_def es(1))
  then show ?thesis
    using p path_Clean_fixed(2) [OF es(2)] by (simp add: es(1))
qed

section \<open>Properties\<close>

text \<open>
  A path \<open>SafePath\<close> accepts is absolute, has no \<open>.\<close> or \<open>..\<close> element and no \<open>..\<close>
  anywhere in it, and is a fixed point: sanitising it again changes nothing.
\<close>

theorem SafePath_safe:
  assumes "SafePath p \<noteq> []"
  shows "hd (SafePath p) = CHR ''/'' \<and> \<not> strings_Contains (SafePath p) ''..''
    \<and> (\<forall>e \<in> set (strings_Split (SafePath p) CHR ''/''). e \<noteq> ''.'' \<and> e \<noteq> ''..'')
    \<and> SafePath (SafePath p) = SafePath p"
  using SafePath_ok [OF assms] .


theorem SafePath_safe_witness:
  "SafePath ''/etc//firefik/../rules.conf'' = ''/etc/rules.conf''
   \<and> SafePath (SafePath ''/etc//firefik/../rules.conf'') = SafePath ''/etc//firefik/../rules.conf''"
proof -
  have eq: "SafePath ''/etc//firefik/../rules.conf'' = ''/etc/rules.conf''"
    by (simp add: SafePath_def path_Clean_def strings_HasPrefix_def strings_Contains_def sublist_Cons_right Let_def)
  then show ?thesis using SafePath_safe [of "''/etc//firefik/../rules.conf''"] by simp
qed

text \<open>
  Every file or directory path the configuration takes from the environment has been sanitised: it is empty
  or absolute, and free of parent elements, whatever the environment holds.
\<close>

theorem loadConfig_paths:
  "(\<lambda>f. f (loadConfig parseFloat readFile env)) `
     {c_ConfigFile, c_GeoIPDBPath, c_ClientCAFile, c_APITokenFile, c_MetricsTLSCert, c_MetricsTLSKey, c_TemplatesFile,
      c_PoliciesDir, c_AutogenDBPath, c_ControlPlaneCACert, c_ControlPlaneClientCert, c_ControlPlaneClientKey, c_TemplateCacheDir}
   \<subseteq> {p. p = [] \<or> (hd p = CHR ''/'' \<and> \<not> strings_Contains p ''..'')}"
proof -
  have "SafePath q \<in> {p. p = [] \<or> (hd p = CHR ''/'' \<and> \<not> strings_Contains p ''..'')}" for q
    using SafePath_ok [of q] by blast
  then show ?thesis unfolding image_insert image_empty insert_subset loadConfig_def Config.simps by (intro conjI empty_subsetI)
qed

text \<open>
  Blue/green cleanup never targets the running instance: the chains derived from the old
  suffixes are exactly the base chain with each suffix (the base itself for an empty one)
  other than the effective chain, each listed once.
\<close>

theorem DeriveLegacyChains_safe:
  "effective \<notin> set (DeriveLegacyChains base effective sufs)
   \<and> distinct (DeriveLegacyChains base effective sufs)
   \<and> set (DeriveLegacyChains base effective sufs)
     = {if s \<noteq> [] then base @ ''-'' @ s else base | s. s \<in> set sufs} - {effective}"
  using legacy_loop_spec [of effective "[]" base sufs] unfolding DeriveLegacyChains_def by simp

text \<open>
  The version of a template does not depend on the order in which its ports, networks,
  network names and country codes are written.
\<close>

theorem canonicalVersion_order:
  assumes "mset ports = mset (t_Ports t)" "mset al = mset (t_Allowlist t)" "mset bl = mset (t_Blocklist t)"
    and "mset aln = mset (t_AllowlistNetworks t)" "mset bln = mset (t_BlocklistNetworks t)"
    and "mset gb = mset (t_GeoBlock t)" "mset ga = mset (t_GeoAllow t)"
  shows "canonicalVersion sha256_hex (t\<lparr>t_Ports := ports, t_Allowlist := al, t_Blocklist := bl,
     t_AllowlistNetworks := aln, t_BlocklistNetworks := bln, t_GeoBlock := gb, t_GeoAllow := ga\<rparr>)
   = canonicalVersion sha256_hex t"
  by (simp add: canonicalVersion_def canonical_text_def write_ports_cong [OF assms(1)]
      write_list_cong [OF assms(2)] write_list_cong [OF assms(3)] write_list_cong [OF assms(4)]
      write_list_cong [OF assms(5)] write_list_cong [OF assms(6)] write_list_cong [OF assms(7)])

theorem canonicalVersion_order_witness:
  "canonicalVersion (\<lambda>s. s)
     \<lparr>t_Name = ''a'', t_Description = [], t_Ports = [443, 80], t_Protocol = [], t_Allowlist = [''b'', ''a''],
      t_Blocklist = [], t_AllowlistNetworks = [], t_BlocklistNetworks = [], t_GeoBlock = [], t_GeoAllow = [],
      t_Ratelimit = [], t_Profile = [], t_Log = False, t_LogPrefix = [], t_Version = []\<rparr>
   = canonicalVersion (\<lambda>s. s)
     \<lparr>t_Name = ''a'', t_Description = [], t_Ports = [80, 443], t_Protocol = [], t_Allowlist = [''a'', ''b''],
      t_Blocklist = [], t_AllowlistNetworks = [], t_BlocklistNetworks = [], t_GeoBlock = [], t_GeoAllow = [],
      t_Ratelimit = [], t_Profile = [], t_Log = False, t_LogPrefix = [], t_Version = []\<rparr>"
  using canonicalVersion_order [of "[443, 80]"
     "\<lparr>t_Name = ''a'', t_Description = [], t_Ports = [80, 443], t_Protocol = [], t_Allowlist = [''a'', ''b''],
      t_Blocklist = [], t_AllowlistNetworks = [], t_BlocklistNetworks = [], t_GeoBlock = [], t_GeoAllow = [],
      t_Ratelimit = [], t_Profile = [], t_Log = False, t_LogPrefix = [], t_Version = []\<rparr>"
      "[''b'', ''a'']" "[]" "[]" "[]" "[]" "[]" "\<lambda>s. s"]
  by simp

end
