(* ===== verification/Rules_Transform.thy ===== *)
theory Rules_Transform
  imports Policy_Compile Config_Rules
begin

text \<open>
  The transformations between a container's labels and the rule sets a backend applies
  (\<open>backend/internal/rules\<close>): merging the rules file, templates and policies
  (\<open>engine.go\<close>, \<open>templates.go\<close>), network names (\<open>engine.go\<close>), profiles
  (\<open>profiles.go\<close>), GeoIP lists (\<open>geoip_rules.go\<close>) and host rules (\<open>host_rules.go\<close>,
  \<open>engine_host.go\<close>), and the container description of \<open>docker/client.go\<close>.

  The GeoIP database is an optional function from country codes to networks or an error.
  A container's networks are an association list in the order of the iteration.
\<close>

section \<open>Containers\<close>

record NetworkEndpoint =
  ep_IP :: string
  ep_PrefixLen :: int

record ContainerInfo =
  ci_ID :: string
  ci_Name :: string
  ci_Status :: string
  ci_Labels :: "(string \<times> string) list"
  ci_Networks :: "(string \<times> NetworkEndpoint) list"

definition ContainerIDShortLen :: nat where "ContainerIDShortLen = 12"

definition shortID :: "string \<Rightarrow> string" where
  "shortID cid = (if ContainerIDShortLen < length cid then take ContainerIDShortLen cid else cid)"

definition matchContainerID :: "string \<Rightarrow> string \<Rightarrow> bool" where
  "matchContainerID containerID query \<longleftrightarrow> containerID = query
     \<or> (3 \<le> length query \<and> length query \<le> ContainerIDShortLen \<and> strings_HasPrefix containerID query)"

text \<open>
  What the Docker API returns for a container: the endpoint's address is \<open>None\<close> where
  \<open>IsValid\<close> is false, else its text; a \<open>nil\<close> endpoint, settings, state or config is \<open>None\<close>.
\<close>

record api_endpoint =
  ae_IPAddress :: "string option"
  ae_IPPrefixLen :: int

record api_inspect =
  ai_ID :: string
  ai_Name :: string
  ai_Status :: "string option"
  ai_Labels :: "(string \<times> string) list option"
  ai_Networks :: "(string \<times> api_endpoint option) list option"

record api_summary =
  as_ID :: string
  as_Names :: "string list"
  as_State :: string
  as_Labels :: "(string \<times> string) list"
  as_Networks :: "(string \<times> api_endpoint option) list option"

fun collect_endpoints :: "(string \<times> api_endpoint option) list \<Rightarrow> (string \<times> NetworkEndpoint) list" where
  "collect_endpoints [] = []"
| "collect_endpoints ((n, None) # es) = collect_endpoints es"
| "collect_endpoints ((n, Some ep) # es) =
     (case ae_IPAddress ep of
        None \<Rightarrow> collect_endpoints es
      | Some a \<Rightarrow> (n, \<lparr>ep_IP = a, ep_PrefixLen = ae_IPPrefixLen ep\<rparr>) # collect_endpoints es)"

definition inspectResponseToInfo :: "api_inspect \<Rightarrow> ContainerInfo" where
  "inspectResponseToInfo ins =
     \<lparr>ci_ID = (if ContainerIDShortLen < length (ai_ID ins) then take ContainerIDShortLen (ai_ID ins) else ai_ID ins),
      ci_Name = strings_TrimPrefix (ai_Name ins) ''/'',
      ci_Status = (case ai_Status ins of Some s \<Rightarrow> s | None \<Rightarrow> []),
      ci_Labels = (case ai_Labels ins of Some l \<Rightarrow> l | None \<Rightarrow> []),
      ci_Networks = (case ai_Networks ins of Some ns \<Rightarrow> collect_endpoints ns | None \<Rightarrow> [])\<rparr>"

definition summaryToInfo :: "api_summary \<Rightarrow> ContainerInfo" where
  "summaryToInfo ctr =
     \<lparr>ci_ID = (if ContainerIDShortLen < length (as_ID ctr) then take ContainerIDShortLen (as_ID ctr) else as_ID ctr),
      ci_Name = (case as_Names ctr of n # _ \<Rightarrow> strings_TrimPrefix n ''/'' | [] \<Rightarrow> []),
      ci_Status = as_State ctr,
      ci_Labels = as_Labels ctr,
      ci_Networks = (case as_Networks ctr of Some ns \<Rightarrow> collect_endpoints ns | None \<Rightarrow> [])\<rparr>"

section \<open>Merging the rules file\<close>

fun mergeFileRules_loop ::
  "string set \<Rightarrow> string \<Rightarrow> FileRuleSet list \<Rightarrow> ContainerConfig \<Rightarrow> ContainerConfig" where
  "mergeFileRules_loop existing cname [] cfg = cfg"
| "mergeFileRules_loop existing cname (fr # frs) cfg =
     (if fr_Container fr \<noteq> cname then mergeFileRules_loop existing cname frs cfg
      else
        (let cfg1 = cfg\<lparr>Enable := True\<rparr>;
             cfg2 = (if fr_DefaultPolicy fr \<noteq> [] \<and> DefaultPolicy cfg1 = []
                     then cfg1\<lparr>DefaultPolicy := fr_DefaultPolicy fr\<rparr> else cfg1)
         in if fr_Name fr \<in> existing then mergeFileRules_loop existing cname frs cfg2
            else mergeFileRules_loop existing cname frs
              (cfg2\<lparr>RuleSets := RuleSets cfg2 @
                 [(empty_ruleset (fr_Name fr))
                    \<lparr>rs_Ports := fr_Ports fr,
                     rs_Allowlist := fst (ParseFileAllowlist (fr_Allowlist fr)),
                     rs_Blocklist := fst (ParseFileAllowlist (fr_Blocklist fr)),
                     rs_Protocol := fr_Protocol fr, rs_Profile := fr_Profile fr\<rparr>]\<rparr>)))"

definition MergeFileRules :: "ContainerConfig \<Rightarrow> string \<Rightarrow> RulesFile \<Rightarrow> ContainerConfig" where
  "MergeFileRules cfg containerName rf =
     mergeFileRules_loop (set (map rs_Name (RuleSets cfg))) containerName (rf_Rules rf) cfg"

section \<open>Templates and policies\<close>

definition parseCIDRLenient :: "string \<Rightarrow> IPNet option" where
  "parseCIDRLenient s0 =
     (let s = strings_TrimSpace s0 in
      if s = [] then None
      else net_ParseCIDR
        (if \<not> strings_Contains s ''/'' then
           (case net_ParseIP s of
              None \<Rightarrow> s
            | Some p \<Rightarrow> (if To4 p \<noteq> None then s @ ''/32'' else s @ ''/128''))
         else s))"

definition parse_burst :: "string \<Rightarrow> nat" where
  "parse_burst rest =
     (if strings_HasPrefix rest ''burst='' then
        (case strconv_ParseUint (strings_TrimPrefix rest ''burst='') 32 of Some v \<Rightarrow> v | None \<Rightarrow> 0)
      else 0)"

definition parseRatelimitLenient :: "string \<Rightarrow> RateLimitConfig option" where
  "parseRatelimitLenient s0 =
     (let s = strings_TrimSpace s0 in
      if s = [] then None
      else
        (let (main, burst) =
               (case strings_Index s CHR '','' of
                  Some idx \<Rightarrow> (strings_TrimSpace (take idx s), parse_burst (strings_TrimSpace (drop (Suc idx) s)))
                | None \<Rightarrow> (s, 0))
         in case strconv_ParseUint (strings_TrimSuffix main ''/s'') 32 of
              None \<Rightarrow> None
            | Some n \<Rightarrow> Some \<lparr>Rate = n, Burst = (if burst = 0 then n * 2 else burst)\<rparr>))"

definition templateToRuleSet :: "RuleTemplate \<Rightarrow> FirewallRuleSet" where
  "templateToRuleSet t =
     (empty_ruleset (''tpl:'' @ t_Name t @ ''@'' @ t_Version t))
       \<lparr>rs_Ports := t_Ports t, rs_Protocol := t_Protocol t, rs_Profile := t_Profile t,
        rs_Log := t_Log t, rs_LogPrefix := t_LogPrefix t,
        rs_AllowlistNetworks := t_AllowlistNetworks t, rs_BlocklistNetworks := t_BlocklistNetworks t,
        rs_GeoBlock := t_GeoBlock t, rs_GeoAllow := t_GeoAllow t,
        rs_Allowlist := List.map_filter parseCIDRLenient (t_Allowlist t),
        rs_Blocklist := List.map_filter parseCIDRLenient (t_Blocklist t),
        rs_RateLimit := (if t_Ratelimit t \<noteq> [] then parseRatelimitLenient (t_Ratelimit t) else None)\<rparr>"

text \<open>The template map is \<open>nil\<close> or empty iff no name has a template; the code then returns early.\<close>

definition ApplyTemplates ::
  "ContainerConfig \<Rightarrow> (string \<times> string) list \<Rightarrow> (string \<rightharpoonup> RuleTemplate) \<Rightarrow> ContainerConfig" where
  "ApplyTemplates cfg labels templates =
     cfg\<lparr>RuleSets := RuleSets cfg
       @ map templateToRuleSet (List.map_filter templates (ResolveTemplateNames (raw_get labels TemplateLabel)))\<rparr>"

definition PolicyLabel :: string where "PolicyLabel = ''firefik.policy''"

definition splitCommaPolicy :: "string \<Rightarrow> string list" where
  "splitCommaPolicy s = names_loop (strings_Split s CHR '','') []"

fun applyPolicies_loop ::
  "(string \<rightharpoonup> Policy) \<Rightarrow> string list \<Rightarrow> ContainerConfig \<Rightarrow> ContainerConfig" where
  "applyPolicies_loop policies [] cfg = cfg"
| "applyPolicies_loop policies (name # names) cfg =
     (case policies name of
        None \<Rightarrow> applyPolicies_loop policies names cfg
      | Some p \<Rightarrow>
          (case policy_Compile p of
             Inl e \<Rightarrow> applyPolicies_loop policies names cfg
           | Inr compd \<Rightarrow>
               applyPolicies_loop policies names (cfg\<lparr>RuleSets := RuleSets cfg @ CRuleSets compd\<rparr>)))"

definition ApplyPolicies ::
  "ContainerConfig \<Rightarrow> (string \<times> string) list \<Rightarrow> (string \<rightharpoonup> Policy) \<Rightarrow> ContainerConfig" where
  "ApplyPolicies cfg labels policies =
     (if raw_get labels PolicyLabel = [] then cfg
      else applyPolicies_loop policies (splitCommaPolicy (raw_get labels PolicyLabel)) cfg)"

section \<open>Network names\<close>

definition endpoint_cidr :: "NetworkEndpoint \<Rightarrow> IPNet option" where
  "endpoint_cidr ep =
     (case net_ParseIP (ep_IP ep) of
        None \<Rightarrow> None
      | Some p \<Rightarrow>
          (case To4 p of
             Some ip4 \<Rightarrow>
               (let l = (if ep_PrefixLen ep \<le> 0 \<or> 32 < ep_PrefixLen ep then 24 else nat (ep_PrefixLen ep));
                    mask = CIDRMask l 32
                in Some \<lparr>net_IP = ip_Mask ip4 mask, net_Mask = mask\<rparr>)
           | None \<Rightarrow>
               (let l = (if ep_PrefixLen ep \<le> 0 \<or> 128 < ep_PrefixLen ep then 64 else nat (ep_PrefixLen ep));
                    mask = CIDRMask l 128
                in Some \<lparr>net_IP = ip_Mask p mask, net_Mask = mask\<rparr>)))"

definition containerNetworkCIDRs :: "(string \<times> NetworkEndpoint) list \<Rightarrow> IPNet list" where
  "containerNetworkCIDRs networks = List.map_filter (\<lambda>(n, ep). endpoint_cidr ep) networks"

definition network_cidrs :: "(string \<times> NetworkEndpoint) list \<Rightarrow> string \<Rightarrow> IPNet list" where
  "network_cidrs networks name =
     (case map_of networks name of
        None \<Rightarrow> []
      | Some ep \<Rightarrow> (case endpoint_cidr ep of None \<Rightarrow> [] | Some n \<Rightarrow> [n]))"

definition resolve_set :: "(string \<times> NetworkEndpoint) list \<Rightarrow> FirewallRuleSet \<Rightarrow> FirewallRuleSet" where
  "resolve_set networks rs =
     rs\<lparr>rs_Allowlist := rs_Allowlist rs @ concat (map (network_cidrs networks) (rs_AllowlistNetworks rs)),
        rs_Blocklist := rs_Blocklist rs @ concat (map (network_cidrs networks) (rs_BlocklistNetworks rs)),
        rs_AllowlistNetworks := [], rs_BlocklistNetworks := []\<rparr>"

definition resolveNetworkNames ::
  "FirewallRuleSet list \<Rightarrow> (string \<times> NetworkEndpoint) list \<Rightarrow> FirewallRuleSet list" where
  "resolveNetworkNames sets networks = map (resolve_set networks) sets"

section \<open>Profiles and GeoIP\<close>

definition private_nets :: "IPNet list" where
  "private_nets = map (\<lambda>s. the (net_ParseCIDR s))
     [''10.0.0.0/8'', ''172.16.0.0/12'', ''192.168.0.0/16'', ''fc00::/7'']"

definition applyProfile :: "FirewallRuleSet \<Rightarrow> FirewallRuleSet" where
  "applyProfile rs =
     (if rs_Profile rs = ''web'' then
        (let rs1 = (if rs_Ports rs = [] then rs\<lparr>rs_Ports := [80, 443]\<rparr> else rs) in
         if rs_Allowlist rs1 = [] then rs1\<lparr>rs_Allowlist := [cidrAll4, cidrAll6]\<rparr> else rs1)
      else if rs_Profile rs = ''internal'' then
        (if rs_Allowlist rs = [] then rs\<lparr>rs_Allowlist := private_nets\<rparr> else rs)
      else rs)"

datatype geo_error = GeoIPUnavailable | GeoBlockLookup "string list" string
  | GeoAllowLookup "string list" string | GeoAllowEmpty "string list"

type_synonym geo_db = "string list \<Rightarrow> string + IPNet list"

definition geo_block_step :: "geo_db \<Rightarrow> FirewallRuleSet \<Rightarrow> geo_error + FirewallRuleSet \<times> string list list" where
  "geo_block_step db rs =
     (if rs_GeoBlock rs = [] then Inr (rs, [])
      else (case db (rs_GeoBlock rs) of
              Inl e \<Rightarrow> Inl (GeoBlockLookup (rs_GeoBlock rs) e)
            | Inr cidrs \<Rightarrow> Inr (rs\<lparr>rs_Blocklist := cidrs @ rs_Blocklist rs\<rparr>,
                               if cidrs = [] then [rs_GeoBlock rs] else [])))"

definition geo_allow_step :: "geo_db \<Rightarrow> FirewallRuleSet \<Rightarrow> geo_error + FirewallRuleSet" where
  "geo_allow_step db rs =
     (if rs_GeoAllow rs = [] then Inr rs
      else (case db (rs_GeoAllow rs) of
              Inl e \<Rightarrow> Inl (GeoAllowLookup (rs_GeoAllow rs) e)
            | Inr cidrs \<Rightarrow> (if cidrs = [] then Inl (GeoAllowEmpty (rs_GeoAllow rs))
                            else Inr (rs\<lparr>rs_Allowlist := cidrs @ rs_Allowlist rs\<rparr>))))"

text \<open>The rule set and the warnings, or the fatal error of the result.\<close>

definition applyGeoIP ::
  "geo_db option \<Rightarrow> FirewallRuleSet \<Rightarrow> geo_error + FirewallRuleSet \<times> string list list" where
  "applyGeoIP db rs =
     (if rs_GeoBlock rs = [] \<and> rs_GeoAllow rs = [] then Inr (rs, [])
      else (case db of
              None \<Rightarrow> Inl GeoIPUnavailable
            | Some d \<Rightarrow>
                rbind (geo_block_step d rs) (\<lambda>(rs1, warns).
                rbind (geo_allow_step d rs1) (\<lambda>rs2. Inr (rs2, warns)))))"

fun applyGeoIP_all :: "geo_db option \<Rightarrow> FirewallRuleSet list \<Rightarrow> geo_error + FirewallRuleSet list" where
  "applyGeoIP_all db [] = Inr []"
| "applyGeoIP_all db (rs # rss) =
     rbind (applyGeoIP db rs) (\<lambda>(rs', _). rbind (applyGeoIP_all db rss) (\<lambda>rss'. Inr (rs' # rss')))"

section \<open>Host rules\<close>

record HostRule =
  hr_Name :: string
  hr_Protocol :: string
  hr_Ports :: "16 word list"
  hr_Allowlist :: "IPNet list"
  hr_Blocklist :: "IPNet list"
  hr_Log :: bool
  hr_LogPrefix :: string

definition protoNormalised :: "HostRule \<Rightarrow> string" where
  "protoNormalised r =
     (let p = strings_ToLower (strings_TrimSpace (hr_Protocol r)) in
      if p = [] \<or> p = ''any'' then [] else p)"

definition NormaliseHostDefault :: "string \<Rightarrow> string" where
  "NormaliseHostDefault s =
     (let v = strings_ToUpper (strings_TrimSpace s) in
      if v = ''ACCEPT'' \<or> v = ''DROP'' then v else ''ACCEPT'')"

text \<open>\<open>parseCIDRList\<close> of \<open>engine_host.go\<close>, which repeats \<open>ParseFileAllowlist\<close>.\<close>

fun parseCIDRList_loop :: "string list \<Rightarrow> IPNet list \<Rightarrow> string list \<Rightarrow> IPNet list \<times> string list" where
  "parseCIDRList_loop [] nets errs = (nets, errs)"
| "parseCIDRList_loop (x # xs) nets errs =
     (let e = strings_TrimSpace x in
      if e = [] then parseCIDRList_loop xs nets errs
      else (let e' = (if \<not> strings_Contains e ''/''
                      then (if strings_Contains e '':'' then e @ ''/128'' else e @ ''/32'') else e) in
            case net_ParseCIDR e' of
              None \<Rightarrow> parseCIDRList_loop xs nets (errs @ [e'])
            | Some n \<Rightarrow> parseCIDRList_loop xs (nets @ [n]) errs))"

definition parseCIDRList :: "string list \<Rightarrow> IPNet list \<times> string list" where
  "parseCIDRList entries = parseCIDRList_loop entries [] []"

datatype host_error = HostNoName | HostAllowlist string string | HostBlocklist string string

fun convertHostRules :: "FileHostRuleSet list \<Rightarrow> HostRule list \<times> host_error list" where
  "convertHostRules [] = ([], [])"
| "convertHostRules (fr # frs) =
     (let name = strings_TrimSpace (fh_Name fr); (out, errs) = convertHostRules frs in
      if name = [] then (out, HostNoName # errs)
      else
        (let (allowNets, allowErrs) = parseCIDRList (fh_Allowlist fr);
             (blockNets, blockErrs) = parseCIDRList (fh_Blocklist fr)
         in (\<lparr>hr_Name = name, hr_Protocol = strings_ToLower (strings_TrimSpace (fh_Protocol fr)),
              hr_Ports = fh_Ports fr, hr_Allowlist = allowNets, hr_Blocklist = blockNets,
              hr_Log = fh_Log fr, hr_LogPrefix = strings_TrimSpace (fh_LogPrefix fr)\<rparr> # out,
             map (HostAllowlist name) allowErrs @ map (HostBlocklist name) blockErrs @ errs)))"

section \<open>Facts\<close>

definition file_ruleset :: "FileRuleSet \<Rightarrow> FirewallRuleSet" where
  "file_ruleset fr =
     (empty_ruleset (fr_Name fr))
       \<lparr>rs_Ports := fr_Ports fr, rs_Allowlist := fst (ParseFileAllowlist (fr_Allowlist fr)),
        rs_Blocklist := fst (ParseFileAllowlist (fr_Blocklist fr)),
        rs_Protocol := fr_Protocol fr, rs_Profile := fr_Profile fr\<rparr>"

lemma mergeFileRules_loop_spec:
  "RuleSets (mergeFileRules_loop ex cname frs cfg)
     = RuleSets cfg @ map file_ruleset (filter (\<lambda>fr. fr_Container fr = cname \<and> fr_Name fr \<notin> ex) frs)
   \<and> (Enable (mergeFileRules_loop ex cname frs cfg) \<longleftrightarrow> Enable cfg \<or> (\<exists>fr \<in> set frs. fr_Container fr = cname))
   \<and> (DefaultPolicy cfg \<noteq> [] \<longrightarrow> DefaultPolicy (mergeFileRules_loop ex cname frs cfg) = DefaultPolicy cfg)
   \<and> NoAutoAllowlist (mergeFileRules_loop ex cname frs cfg) = NoAutoAllowlist cfg"
proof (induction frs arbitrary: cfg)
  case (Cons fr frs)
  show ?case
  proof (cases "fr_Container fr = cname")
    case True
    show ?thesis
      by (cases "fr_Name fr \<in> ex"; cases "fr_DefaultPolicy fr \<noteq> [] \<and> DefaultPolicy cfg = []")
        (simp_all add: True Cons.IH file_ruleset_def Let_def)
  qed (simp add: Cons.IH)
qed simp

lemma parseCIDRList_loop_eq: "parseCIDRList_loop xs nets errs = parseAllowlist_loop xs nets errs"
  by (induction xs arbitrary: nets errs) (auto simp: Let_def entry_cidr_def split: option.split)

lemma and_and_same: "(a AND m) AND m = (a::byte) AND m"
  by (simp add: bit_eq_iff bit_simps)

lemma masked_matches:
  "length p = length m \<Longrightarrow>
   list_all (\<lambda>((a, b), c). a AND c = b AND c) (zip (zip (map2 (\<lambda>a b. a AND b) p m) p) m)"
  by (induction p m rule: list_induct2) (simp_all add: and_and_same)

lemma endpoint_cidr_contains:
  assumes "net_ParseIP (ep_IP ep) = Some p" "To4 p = Some q"
  shows "\<exists>n. endpoint_cidr ep = Some n \<and> IPNet_Contains n p"
proof -
  define l where "l = (if ep_PrefixLen ep \<le> 0 \<or> 32 < ep_PrefixLen ep then 24 else nat (ep_PrefixLen ep))"
  have l: "l \<le> 32" by (auto simp: l_def)
  have q: "length q = 4" using assms(2) by (rule To4_length)
  have m: "length (CIDRMask l 32) = 4" using l by (simp add: length_CIDRMask)
  let ?n = "\<lparr>net_IP = ip_Mask q (CIDRMask l 32), net_Mask = CIDRMask l 32\<rparr>"
  have msk: "ip_Mask q (CIDRMask l 32) = map2 (\<lambda>a b. a AND b) q (CIDRMask l 32)"
    using q m by (simp add: ip_Mask_def)
  have "IPNet_Contains ?n p"
    using masked_matches [of q "CIDRMask l 32"] q m assms(2)
    by (simp add: IPNet_Contains_def networkNumberAndMask_def msk Let_def)
  moreover have "endpoint_cidr ep = Some ?n" using assms by (simp add: endpoint_cidr_def l_def Let_def)
  ultimately show ?thesis by blast
qed

lemma geo_allow_step_spec:
  "geo_allow_step d rs = Inr rs' \<Longrightarrow>
   (rs_GeoAllow rs \<noteq> [] \<longrightarrow> rs_Allowlist rs' \<noteq> []) \<and> rs_Blocklist rs' = rs_Blocklist rs"
  by (cases "rs_GeoAllow rs = []"; cases "d (rs_GeoAllow rs)")
    (auto simp: geo_allow_step_def split: if_split_asm)

lemma geo_block_step_spec:
  "geo_block_step d rs = Inr (rs', warns) \<Longrightarrow>
   rs_GeoAllow rs' = rs_GeoAllow rs \<and>
   (\<forall>nets. rs_GeoBlock rs \<noteq> [] \<and> d (rs_GeoBlock rs) = Inr nets \<longrightarrow> set nets \<subseteq> set (rs_Blocklist rs'))"
  by (cases "rs_GeoBlock rs = []"; cases "d (rs_GeoBlock rs)") (auto simp: geo_block_step_def)

section \<open>Properties\<close>

text \<open>
  Merging the rules file into a container's configuration keeps the label rule sets and
  appends, in file order, one rule set for each file entry of this container whose name no
  label rule set has; the container becomes enabled iff it was or the file names it; a
  default policy from the labels wins over the file's.
\<close>

theorem MergeFileRules_spec:
  "RuleSets (MergeFileRules cfg cname rf)
     = RuleSets cfg @ map file_ruleset
         (filter (\<lambda>fr. fr_Container fr = cname \<and> fr_Name fr \<notin> set (map rs_Name (RuleSets cfg))) (rf_Rules rf))
   \<and> (Enable (MergeFileRules cfg cname rf) \<longleftrightarrow> Enable cfg \<or> (\<exists>fr \<in> set (rf_Rules rf). fr_Container fr = cname))
   \<and> DefaultPolicy (MergeFileRules (cfg\<lparr>DefaultPolicy := c # cs\<rparr>) cname rf) = c # cs"
  unfolding MergeFileRules_def
  using mergeFileRules_loop_spec [of _ cname "rf_Rules rf" cfg]
    mergeFileRules_loop_spec [of _ cname "rf_Rules rf" "cfg\<lparr>DefaultPolicy := c # cs\<rparr>"]
  by simp

text \<open>
  GeoIP lists fail closed. When \<open>applyGeoIP\<close> succeeds, a rule set with allowed countries
  has at least one allowed network, so it never degenerates into a set without an
  allowlist; every network the database lists for the blocked countries is in the
  blocklist; and without a database it succeeds only for rule sets with no country at all.
\<close>

theorem applyGeoIP_fail_closed:
  assumes "applyGeoIP db rs = Inr (rs', warns)"
  shows "(rs_GeoAllow rs \<noteq> [] \<longrightarrow> rs_Allowlist rs' \<noteq> [])
    \<and> (\<forall>d nets. db = Some d \<and> rs_GeoBlock rs \<noteq> [] \<and> d (rs_GeoBlock rs) = Inr nets
         \<longrightarrow> set nets \<subseteq> set (rs_Blocklist rs'))
    \<and> (db = None \<longrightarrow> rs_GeoBlock rs = [] \<and> rs_GeoAllow rs = [])"
proof (cases "rs_GeoBlock rs = [] \<and> rs_GeoAllow rs = []")
  case False
  then obtain d rs1 where d: "db = Some d" "geo_block_step d rs = Inr (rs1, warns)" "geo_allow_step d rs1 = Inr rs'"
    using assms by (auto simp: applyGeoIP_def rbind_Inr_iff split: option.splits)
  show ?thesis
    using geo_block_step_spec [OF d(2)] geo_allow_step_spec [OF d(3)] d(1) by auto
qed simp

theorem applyGeoIP_fail_closed_witness:
  "rs_Allowlist ((empty_ruleset ''geo'')\<lparr>rs_GeoAllow := [''DE''], rs_Allowlist := [cidrAll4]\<rparr>) \<noteq> []"
  using applyGeoIP_fail_closed [of "Some (\<lambda>_. Inr [cidrAll4])" "(empty_ruleset ''geo'')\<lparr>rs_GeoAllow := [''DE'']\<rparr>"
      "(empty_ruleset ''geo'')\<lparr>rs_GeoAllow := [''DE''], rs_Allowlist := [cidrAll4]\<rparr>" "[]"]
  by (simp add: applyGeoIP_def geo_block_step_def geo_allow_step_def empty_ruleset_def)

text \<open>
  A container's automatic allowlist covers the container's own IPv4 addresses: for each
  network endpoint with an IPv4 address, whatever prefix length Docker reports, the networks
  of the container include one that contains the address.
\<close>

theorem containerNetworkCIDRs_own_address:
  assumes "(name, ep) \<in> set networks" "net_ParseIP (ep_IP ep) = Some p" "To4 p = Some q"
  shows "\<exists>n \<in> set (containerNetworkCIDRs networks). IPNet_Contains n p"
proof -
  obtain n where "endpoint_cidr ep = Some n" "IPNet_Contains n p"
    using endpoint_cidr_contains [OF assms(2,3)] by blast
  then show ?thesis using assms(1) by (force simp: containerNetworkCIDRs_def map_filter_def)
qed

theorem containerNetworkCIDRs_own_address_witness:
  "\<exists>n \<in> set (containerNetworkCIDRs [(''bridge'', \<lparr>ep_IP = dotted [172, 17, 0, 2], ep_PrefixLen = 99\<rparr>)]).
     IPNet_Contains n (v4_prefix @ [172, 17, 0, 2])"
  by (rule containerNetworkCIDRs_own_address [where name = "''bridge''" and q = "[172, 17, 0, 2]"
        and ep = "\<lparr>ep_IP = dotted [172, 17, 0, 2], ep_PrefixLen = 99\<rparr>"])
    (simp_all add: net_ParseIP_dotted)

end
