(* ===== verification/IPTables_Backend.thy ===== *)
theory IPTables_Backend
  imports Rules_Transform
begin

text \<open>
  The iptables backend, \<open>backend/internal/rules/iptables.go\<close> and \<open>iptables_host.go\<close>.

  The library go-iptables is a record of operations on a kernel state of any type \<open>'k\<close>, all
  of them on the table \<open>filter\<close>; an operation returns an optional error and the new state.
  A sequence of calls in the code is a sequence of state transformers here: \<open>must\<close> for a
  call whose error is returned, \<open>ignore\<close> for a call whose error is dropped.
\<close>

section \<open>The library\<close>

type_synonym args = "string list"

record 'k ipt =
  ipt_NewChain :: "string \<Rightarrow> 'k \<Rightarrow> string option \<times> 'k"
  ipt_ClearChain :: "string \<Rightarrow> 'k \<Rightarrow> string option \<times> 'k"
  ipt_DeleteChain :: "string \<Rightarrow> 'k \<Rightarrow> string option \<times> 'k"
  ipt_Append :: "string \<Rightarrow> args \<Rightarrow> 'k \<Rightarrow> string option \<times> 'k"
  ipt_AppendUnique :: "string \<Rightarrow> args \<Rightarrow> 'k \<Rightarrow> string option \<times> 'k"
  ipt_Insert :: "string \<Rightarrow> nat \<Rightarrow> args \<Rightarrow> 'k \<Rightarrow> string option \<times> 'k"
  ipt_Delete :: "string \<Rightarrow> args \<Rightarrow> 'k \<Rightarrow> string option \<times> 'k"
  ipt_Exists :: "string \<Rightarrow> args \<Rightarrow> 'k \<Rightarrow> string + bool"
  ipt_List :: "string \<Rightarrow> 'k \<Rightarrow> string + string list"
  ipt_ListChains :: "'k \<Rightarrow> string + string list"

datatype backend_error = BackendError string string | BackendErrors "backend_error list"

definition must :: "string \<Rightarrow> string option \<times> 'k \<Rightarrow> ('k \<Rightarrow> backend_error option \<times> 'k) \<Rightarrow> backend_error option \<times> 'k" where
  "must what r f = (case r of (Some e, k) \<Rightarrow> (Some (BackendError what e), k) | (None, k) \<Rightarrow> f k)"

definition ignore :: "string option \<times> 'k \<Rightarrow> 'k" where
  "ignore r = snd r"

section \<open>The backend\<close>

definition ParentChain :: string where "ParentChain = ''DOCKER-USER''"
definition iptablesMaxChainLen :: nat where "iptablesMaxChainLen = 28"
definition NflogGroup :: nat where "NflogGroup = 100"
definition LogPrefixMaxLen :: nat where "LogPrefixMaxLen = 63"

record IPTablesBackend =
  chainName :: string
  parentChain :: string
  stateful :: bool

definition SetStateful :: "bool \<Rightarrow> IPTablesBackend \<Rightarrow> IPTablesBackend" where
  "SetStateful v b = b\<lparr>stateful := v\<rparr>"

definition ctArgs :: args where
  "ctArgs = [''-m'', ''conntrack'', ''--ctstate'', ''ESTABLISHED,RELATED'', ''-j'', ''ACCEPT'']"

definition SetupChains :: "IPTablesBackend \<Rightarrow> 'k ipt \<Rightarrow> 'k \<Rightarrow> backend_error option \<times> 'k" where
  "SetupChains b ipt k =
     (let k1 = ignore (ipt_NewChain ipt (chainName b) k);
          conntrack = (\<lambda>k2.
            if stateful b then
              (case ipt_Exists ipt (chainName b) ctArgs k2 of
                 Inr False \<Rightarrow> must ''insert conntrack'' (ipt_Insert ipt (chainName b) 1 ctArgs k2) (\<lambda>k3. (None, k3))
               | _ \<Rightarrow> (None, k2))
            else (None, k2))
      in case ipt_Exists ipt (parentChain b) [''-j'', chainName b] k1 of
           Inl e \<Rightarrow> (Some (BackendError ''check jump rule'' e), k1)
         | Inr present \<Rightarrow>
             (if present then conntrack k1
              else must ''insert jump'' (ipt_Insert ipt (parentChain b) 1 [''-j'', chainName b] k1) conntrack))"

definition Cleanup :: "IPTablesBackend \<Rightarrow> 'k ipt \<Rightarrow> 'k \<Rightarrow> backend_error option \<times> 'k" where
  "Cleanup b ipt k =
     (let k1 = ignore (ipt_Delete ipt (parentChain b) [''-j'', chainName b] k);
          k2 = ignore (ipt_ClearChain ipt (chainName b) k1);
          k3 = ignore (ipt_DeleteChain ipt (chainName b) k2)
      in (None, k3))"

text \<open>\<open>hash/fnv\<close>, the 32-bit variant 1a.\<close>

definition fnv32a :: "string \<Rightarrow> 32 word" where
  "fnv32a s = foldl (\<lambda>h c. (h XOR of_nat (of_char c)) * 16777619) 2166136261 s"

definition truncate_str :: "nat \<Rightarrow> string \<Rightarrow> string" where
  "truncate_str n s = (if n < length s then take n s else s)"

definition containerChainName :: "IPTablesBackend \<Rightarrow> string \<Rightarrow> string" where
  "containerChainName b containerID =
     truncate_str iptablesMaxChainLen (chainName b @ ''-'' @ truncate_str ContainerIDShortLen containerID)"

definition ruleSetChainName :: "IPTablesBackend \<Rightarrow> string \<Rightarrow> string \<Rightarrow> string" where
  "ruleSetChainName b containerID setName =
     (let cid = truncate_str ContainerIDShortLen containerID;
          name0 = chainName b @ ''-'' @ cid @ ''-'' @ setName;
          name1 = (if iptablesMaxChainLen < length name0 then
                     (let suffix = fmt_hex (unat (fnv32a setName));
                          pre = chainName b @ ''-'' @ cid @ ''-'';
                          available = iptablesMaxChainLen - length pre - length suffix - 1
                      in pre @ truncate_str available setName @ ''-'' @ suffix)
                   else name0)
      in truncate_str iptablesMaxChainLen name1)"

section \<open>Rules of a rule set\<close>

definition any_source :: "string \<Rightarrow> bool" where
  "any_source srcs \<longleftrightarrow> srcs = [] \<or> srcs = ''0.0.0.0/0'' \<or> srcs = ''::/0''"

definition base_match :: "string \<Rightarrow> string \<Rightarrow> string \<Rightarrow> args" where
  "base_match proto port srcs =
     [''-p'', proto, ''--dport'', port] @ (if any_source srcs then [] else [''-s'', srcs])"

definition safe_prefix_char :: "char \<Rightarrow> bool" where
  "safe_prefix_char c \<longleftrightarrow> (let n = (of_char c :: nat) in
     (65 \<le> n \<and> n \<le> 90) \<or> (97 \<le> n \<and> n \<le> 122) \<or> (48 \<le> n \<and> n \<le> 57) \<or> n = 32 \<or> n = 95 \<or> n = 45)"

definition buildNflogRule :: "string \<Rightarrow> string \<Rightarrow> string \<Rightarrow> string \<Rightarrow> string \<Rightarrow> args" where
  "buildNflogRule proto port srcs logPrefix actionType =
     (let pre = (if logPrefix = [] then ''FIREFIK '' @ actionType else logPrefix) in
      base_match proto port srcs @
      [''-j'', ''NFLOG'', ''--nflog-group'', strconv_Itoa NflogGroup,
       ''--nflog-prefix'', truncate_str LogPrefixMaxLen (filter safe_prefix_char pre)])"

definition buildRule :: "string \<Rightarrow> string \<Rightarrow> string \<Rightarrow> string \<Rightarrow> args" where
  "buildRule proto port srcs action = base_match proto port srcs @ [''-j'', action]"

definition limit_name :: "string \<Rightarrow> string \<Rightarrow> string" where
  "limit_name name port =
     (let l = ''FF-'' @ name @ ''-'' @ port in
      if 15 < length l then ''FF-'' @ fmt_hex (unat (fnv32a (name @ ''-'' @ port))) else l)"

definition buildRateLimitRule :: "string \<Rightarrow> string \<Rightarrow> string \<Rightarrow> string \<Rightarrow> RateLimitConfig \<Rightarrow> args" where
  "buildRateLimitRule proto port srcs name rl =
     base_match proto port srcs @
     [''-m'', ''hashlimit'', ''--hashlimit-name'', limit_name name port, ''--hashlimit-mode'', ''srcip'',
      ''--hashlimit-upto'', strconv_Itoa (Rate rl) @ ''/sec'', ''--hashlimit-burst'', strconv_Itoa (Burst rl),
      ''-j'', ''ACCEPT'']"

text \<open>
  The \<open>AppendUnique\<close> calls of \<open>fillRuleSetChain\<close> in their order, each with a flag that
  says whether its error ends the function.
\<close>

type_synonym call = "bool \<times> args"

definition rs_proto :: "FirewallRuleSet \<Rightarrow> string" where
  "rs_proto rs = (if rs_Protocol rs = [] then ''tcp'' else rs_Protocol rs)"

definition effective_allowlist :: "FirewallRuleSet \<Rightarrow> IPNet list \<Rightarrow> IPNet list" where
  "effective_allowlist rs autoAllowlist = filter (\<lambda>n. net_IP n \<noteq> []) (rs_Allowlist rs) @ autoAllowlist"

definition log_call :: "FirewallRuleSet \<Rightarrow> string \<Rightarrow> string \<Rightarrow> string \<Rightarrow> call list" where
  "log_call rs portStr srcs action =
     (if rs_Log rs then [(False, buildNflogRule (rs_proto rs) portStr srcs (rs_LogPrefix rs) action)] else [])"

definition block_calls :: "FirewallRuleSet \<Rightarrow> string \<Rightarrow> IPNet \<Rightarrow> call list" where
  "block_calls rs portStr bl =
     (if net_IP bl = [] then []
      else log_call rs portStr (ipnet_String bl) ''DROP''
           @ [(True, buildRule (rs_proto rs) portStr (ipnet_String bl) ''DROP'')])"

definition allow_calls :: "FirewallRuleSet \<Rightarrow> string \<Rightarrow> IPNet \<Rightarrow> call list" where
  "allow_calls rs portStr al =
     (let srcs = ipnet_String al in
      case rs_RateLimit rs of
        Some rl \<Rightarrow> [(True, buildRateLimitRule (rs_proto rs) portStr srcs (rs_Name rs) rl),
                    (True, buildRule (rs_proto rs) portStr srcs ''DROP'')]
      | None \<Rightarrow> log_call rs portStr srcs ''ACCEPT'' @ [(True, buildRule (rs_proto rs) portStr srcs ''ACCEPT'')])"

definition port_calls :: "FirewallRuleSet \<Rightarrow> IPNet list \<Rightarrow> 16 word \<Rightarrow> call list" where
  "port_calls rs allowlist port =
     (let portStr = strconv_Itoa (unat port) in
      concat (map (block_calls rs portStr) (rs_Blocklist rs))
      @ concat (map (allow_calls rs portStr) allowlist)
      @ (if allowlist \<noteq> [] then
           log_call rs portStr [] ''DROP''
           @ [(True, [''-p'', rs_proto rs, ''--dport'', portStr, ''-j'', ''DROP''])]
         else []))"

definition ruleset_calls :: "FirewallRuleSet \<Rightarrow> IPNet list \<Rightarrow> call list" where
  "ruleset_calls rs autoAllowlist =
     concat (map (port_calls rs (effective_allowlist rs autoAllowlist)) (rs_Ports rs))
     @ [(False, [''-j'', ''RETURN''])]"

fun append_calls :: "'k ipt \<Rightarrow> string \<Rightarrow> call list \<Rightarrow> 'k \<Rightarrow> backend_error option \<times> 'k" where
  "append_calls ipt chain [] k = (None, k)"
| "append_calls ipt chain ((strict, a) # cs) k =
     (case ipt_AppendUnique ipt chain a k of
        (None, k1) \<Rightarrow> append_calls ipt chain cs k1
      | (Some e, k1) \<Rightarrow> (if strict then (Some (BackendError ''append rule'' e), k1) else append_calls ipt chain cs k1))"

definition fillRuleSetChain ::
  "'k ipt \<Rightarrow> string \<Rightarrow> FirewallRuleSet \<Rightarrow> IPNet list \<Rightarrow> 'k \<Rightarrow> backend_error option \<times> 'k" where
  "fillRuleSetChain ipt chain rs autoAllowlist k = append_calls ipt chain (ruleset_calls rs autoAllowlist) k"

section \<open>Applying and removing a container\<close>

fun append_jumps :: "'k ipt \<Rightarrow> string \<Rightarrow> string \<Rightarrow> ip list \<Rightarrow> 'k \<Rightarrow> backend_error option \<times> 'k" where
  "append_jumps ipt base main [] k = (None, k)"
| "append_jumps ipt base main (p # ps) k =
     must ''append jump rule'' (ipt_AppendUnique ipt base [''-d'', ip_String p, ''-j'', main] k)
       (append_jumps ipt base main ps)"

fun apply_sets ::
  "IPTablesBackend \<Rightarrow> 'k ipt \<Rightarrow> string \<Rightarrow> string \<Rightarrow> IPNet list \<Rightarrow> FirewallRuleSet list \<Rightarrow> 'k
   \<Rightarrow> backend_error option \<times> 'k" where
  "apply_sets b ipt containerID main auto [] k = (None, k)"
| "apply_sets b ipt containerID main auto (rs # rss) k =
     (let rsChain = ruleSetChainName b containerID (rs_Name rs);
          k1 = ignore (ipt_NewChain ipt rsChain k);
          k2 = ignore (ipt_ClearChain ipt rsChain k1)
      in case fillRuleSetChain ipt rsChain rs auto k2 of
           (Some e, k3) \<Rightarrow> (Some e, k3)
         | (None, k3) \<Rightarrow>
             must ''append jump to rule set chain'' (ipt_AppendUnique ipt main [''-j'', rsChain] k3)
               (apply_sets b ipt containerID main auto rss))"

definition prepare_main :: "'k ipt \<Rightarrow> string \<Rightarrow> 'k \<Rightarrow> 'k" where
  "prepare_main ipt main k =
     (case ipt_NewChain ipt main k of
        (None, k1) \<Rightarrow> k1
      | (Some _, k1) \<Rightarrow> ignore (ipt_ClearChain ipt main k1))"

definition ApplyContainerRules ::
  "IPTablesBackend \<Rightarrow> 'k ipt \<Rightarrow> string \<Rightarrow> ip list \<Rightarrow> FirewallRuleSet list \<Rightarrow> string \<Rightarrow> IPNet list
   \<Rightarrow> 'k \<Rightarrow> backend_error option \<times> 'k" where
  "ApplyContainerRules b ipt containerID containerIPs ruleSets defaultPolicy autoAllowlist k =
     (let main = containerChainName b containerID in
      case append_jumps ipt (chainName b) main containerIPs (prepare_main ipt main k) of
        (Some e, k2) \<Rightarrow> (Some e, k2)
      | (None, k2) \<Rightarrow>
          (case apply_sets b ipt containerID main autoAllowlist ruleSets k2 of
             (Some e, k3) \<Rightarrow> (Some e, k3)
           | (None, k3) \<Rightarrow>
               must ''append default policy'' (ipt_AppendUnique ipt main [''-j'', defaultPolicy] k3)
                 (\<lambda>k4. (None, k4))))"

fun ruleJumpsTo :: "string list \<Rightarrow> string \<Rightarrow> bool" where
  "ruleJumpsTo (a # b # parts) target = ((a = ''-j'' \<and> b = target) \<or> ruleJumpsTo (b # parts) target)"
| "ruleJumpsTo _ target = False"

definition jump_fields :: "IPTablesBackend \<Rightarrow> string \<Rightarrow> string \<Rightarrow> args option" where
  "jump_fields b main ln =
     (let parts = strings_Fields ln in
      if length parts < 3 \<or> parts ! 0 \<noteq> ''-A'' \<or> parts ! 1 \<noteq> chainName b then None
      else if ruleJumpsTo parts main then Some (drop 2 parts) else None)"

fun delete_jumps ::
  "IPTablesBackend \<Rightarrow> 'k ipt \<Rightarrow> string \<Rightarrow> string list \<Rightarrow> 'k \<Rightarrow> backend_error list \<times> 'k" where
  "delete_jumps b ipt main [] k = ([], k)"
| "delete_jumps b ipt main (ln # ls) k =
     (case jump_fields b main ln of
        None \<Rightarrow> delete_jumps b ipt main ls k
      | Some a \<Rightarrow>
          (let (e, k1) = ipt_Delete ipt (chainName b) a k; (errs, k2) = delete_jumps b ipt main ls k1 in
           ((case e of Some x \<Rightarrow> [BackendError ''delete jump rule'' x] | None \<Rightarrow> []) @ errs, k2)))"

fun delete_chains :: "'k ipt \<Rightarrow> string \<Rightarrow> string list \<Rightarrow> 'k \<Rightarrow> backend_error list \<times> 'k" where
  "delete_chains ipt main [] k = ([], k)"
| "delete_chains ipt main (chn # chs) k =
     (if chn \<noteq> main \<and> \<not> strings_HasPrefix chn (main @ ''-'') then delete_chains ipt main chs k
      else
        (let (e1, k1) = ipt_ClearChain ipt chn k; (e2, k2) = ipt_DeleteChain ipt chn k1;
             (errs, k3) = delete_chains ipt main chs k2 in
         ((case e1 of Some x \<Rightarrow> [BackendError ''clear chain'' x] | None \<Rightarrow> [])
          @ (case e2 of Some x \<Rightarrow> [BackendError ''delete chain'' x] | None \<Rightarrow> []) @ errs, k3)))"

definition RemoveContainerChains ::
  "IPTablesBackend \<Rightarrow> 'k ipt \<Rightarrow> string \<Rightarrow> 'k \<Rightarrow> backend_error option \<times> 'k" where
  "RemoveContainerChains b ipt containerID k =
     (let main = containerChainName b containerID;
          (e1, rules) = (case ipt_List ipt (chainName b) k of
                           Inl e \<Rightarrow> ([BackendError ''list rules'' e], []) | Inr rs \<Rightarrow> ([], rs));
          (e2, k1) = delete_jumps b ipt main rules k;
          (e3, chains) = (case ipt_ListChains ipt k1 of
                            Inl e \<Rightarrow> ([BackendError ''list chains'' e], []) | Inr cs \<Rightarrow> ([], cs));
          (e4, k2) = delete_chains ipt main chains k1;
          errs = e1 @ e2 @ e3 @ e4
      in (if errs \<noteq> [] then Some (BackendErrors errs) else None, k2))"

section \<open>Listing and health\<close>

definition chain_container_id :: "string \<Rightarrow> string \<Rightarrow> string option" where
  "chain_container_id pre chn =
     (if \<not> strings_HasPrefix chn pre then None
      else (let suffix = strings_TrimPrefix chn pre;
                cid = (case strings_Index suffix CHR ''-'' of Some i \<Rightarrow> take i suffix | None \<Rightarrow> suffix)
            in if cid = [] then None else Some cid))"

text \<open>The ids are collected in a set, so each is listed once; their order is not specified.\<close>

definition ListAppliedContainerIDs ::
  "IPTablesBackend \<Rightarrow> 'k ipt \<Rightarrow> 'k \<Rightarrow> backend_error + string list" where
  "ListAppliedContainerIDs b ipt k =
     (case ipt_ListChains ipt k of
        Inl e \<Rightarrow> Inl (BackendError ''list iptables chains'' e)
      | Inr chs \<Rightarrow> Inr (remdups (List.map_filter (chain_container_id (chainName b @ ''-'')) chs)))"

record HealthReport =
  hp_Backend :: string
  hp_ParentJumpPresent :: bool
  hp_BaseChainPresent :: bool
  hp_ContainerChainCount :: nat
  hp_Notes :: "string list"

definition Healthy :: "IPTablesBackend \<Rightarrow> 'k ipt \<Rightarrow> 'k \<Rightarrow> backend_error option \<times> HealthReport" where
  "Healthy b ipt k =
     (let report = \<lparr>hp_Backend = ''iptables'', hp_ParentJumpPresent = False, hp_BaseChainPresent = False,
                    hp_ContainerChainCount = 0, hp_Notes = []\<rparr> in
      case ipt_Exists ipt (parentChain b) [''-j'', chainName b] k of
        Inl e \<Rightarrow> (Some (BackendError ''check parent jump'' e), report)
      | Inr jumpOK \<Rightarrow>
          (let report1 = report\<lparr>hp_ParentJumpPresent := jumpOK,
                 hp_Notes := (if jumpOK then [] else [''parent chain has no jump''])\<rparr> in
           case ipt_ListChains ipt k of
             Inl e \<Rightarrow> (Some (BackendError ''list chains'' e), report1)
           | Inr chs \<Rightarrow>
               (let present = chainName b \<in> set chs;
                    count = length (filter (\<lambda>chn. chn \<noteq> chainName b \<and> strings_HasPrefix chn (chainName b @ ''-'')) chs)
                in (None, report1\<lparr>hp_BaseChainPresent := present, hp_ContainerChainCount := count,
                      hp_Notes := hp_Notes report1 @ (if present then [] else [''base chain absent''])\<rparr>))))"

section \<open>Host rules\<close>

definition hostChainName :: string where "hostChainName = ''FIREFIK_HOST''"
definition hostParentChain :: string where "hostParentChain = ''INPUT''"

definition isChainExistsError :: "string \<Rightarrow> bool" where
  "isChainExistsError e \<longleftrightarrow> strings_Contains e ''Chain already exists''"

definition joinPorts :: "16 word list \<Rightarrow> string" where
  "joinPorts ports = strings_Join (map (\<lambda>p. strconv_Itoa (unat p)) ports) '',''"

definition host_match :: "string \<Rightarrow> 16 word list \<Rightarrow> IPNet \<Rightarrow> args" where
  "host_match proto ports peer =
     (if net_IP peer \<noteq> [] then [''-s'', ipnet_String peer] else [])
     @ (if proto \<noteq> [] then
          [''-p'', proto] @ (if ports \<noteq> [] \<and> (proto = ''tcp'' \<or> proto = ''udp'')
                             then [''-m'', ''multiport'', ''--dports'', joinPorts ports] else [])
        else [])"

definition hostRule_args :: "string \<Rightarrow> 16 word list \<Rightarrow> IPNet \<Rightarrow> string \<Rightarrow> args" where
  "hostRule_args proto ports peer target = host_match proto ports peer @ [''-j'', target]"

definition hostNflog_args :: "string \<Rightarrow> 16 word list \<Rightarrow> IPNet \<Rightarrow> string \<Rightarrow> string \<Rightarrow> args" where
  "hostNflog_args proto ports peer logPrefix actionType =
     (let p0 = strings_TrimSpace logPrefix; p1 = (if p0 = [] then ''firefik-host-'' @ actionType else p0) in
      host_match proto ports peer
      @ [''-j'', ''NFLOG'', ''--nflog-group'', strconv_Itoa NflogGroup, ''--nflog-prefix'', truncate_str LogPrefixMaxLen p1])"

definition no_peer :: IPNet where "no_peer = \<lparr>net_IP = [], net_Mask = []\<rparr>"

definition host_peer_calls :: "HostRule \<Rightarrow> string \<Rightarrow> IPNet \<Rightarrow> args list" where
  "host_peer_calls r target peer =
     (let proto = protoNormalised r in
      (if hr_Log r then [hostNflog_args proto (hr_Ports r) peer (hr_LogPrefix r) target] else [])
      @ [hostRule_args proto (hr_Ports r) peer target])"

definition host_rule_calls :: "HostRule \<Rightarrow> args list" where
  "host_rule_calls r =
     concat (map (host_peer_calls r ''DROP'') (hr_Blocklist r))
     @ concat (map (host_peer_calls r ''ACCEPT'') (hr_Allowlist r))
     @ (if hr_Allowlist r = [] \<and> hr_Blocklist r = [] then host_peer_calls r ''ACCEPT'' no_peer else [])"

fun append_host :: "'k ipt \<Rightarrow> args list \<Rightarrow> 'k \<Rightarrow> backend_error option \<times> 'k" where
  "append_host ipt [] k = (None, k)"
| "append_host ipt (a # as) k = must ''append host rule'' (ipt_Append ipt hostChainName a k) (append_host ipt as)"

text \<open>\<open>ApplyHostRules\<close> once the chain exists: it is cleared, hooked into \<open>INPUT\<close> and filled.\<close>

definition apply_host_tail ::
  "IPTablesBackend \<Rightarrow> 'k ipt \<Rightarrow> HostRule list \<Rightarrow> string \<Rightarrow> 'k \<Rightarrow> backend_error option \<times> 'k" where
  "apply_host_tail b ipt rules defaultPolicy k =
     must ''clear host chain'' (ipt_ClearChain ipt hostChainName k) (\<lambda>k1.
       let fill = append_host ipt ((if stateful b then [ctArgs] else []) @ concat (map host_rule_calls rules)
                    @ [[''-j'', NormaliseHostDefault defaultPolicy]])
       in case ipt_Exists ipt hostParentChain [''-j'', hostChainName] k1 of
            Inl e \<Rightarrow> (Some (BackendError ''check INPUT jump'' e), k1)
          | Inr present \<Rightarrow>
              (if present then fill k1
               else must ''insert host jump'' (ipt_Insert ipt hostParentChain 1 [''-j'', hostChainName] k1) fill))"

definition ApplyHostRules ::
  "IPTablesBackend \<Rightarrow> 'k ipt \<Rightarrow> HostRule list \<Rightarrow> string \<Rightarrow> 'k \<Rightarrow> backend_error option \<times> 'k" where
  "ApplyHostRules b ipt rules defaultPolicy k =
     (let (e0, k1) = ipt_NewChain ipt hostChainName k in
      case e0 of
        Some e \<Rightarrow>
          (if \<not> isChainExistsError e then (Some (BackendError ''create host chain'' e), k1)
           else apply_host_tail b ipt rules defaultPolicy k1)
      | None \<Rightarrow> apply_host_tail b ipt rules defaultPolicy k1)"

definition RemoveHostChain :: "IPTablesBackend \<Rightarrow> 'k ipt \<Rightarrow> 'k \<Rightarrow> backend_error option \<times> 'k" where
  "RemoveHostChain b ipt k =
     (let k1 = ignore (ipt_Delete ipt hostParentChain [''-j'', hostChainName] k);
          k2 = ignore (ipt_ClearChain ipt hostChainName k1);
          k3 = ignore (ipt_DeleteChain ipt hostChainName k2)
      in (None, k3))"

end
