(* ===== verification/IPTables_Semantics.thy ===== *)
theory IPTables_Semantics
  imports IPTables_Backend
begin

text \<open>
  What the iptables backend does to a filter table, and what the table then does to a packet.

  The interface \<open>iptables_api\<close> states what the code relies on from go-iptables: how each
  operation changes the table, a map from chain names to rule lists. Rules are stored in a
  normal form \<open>norm\<close>, as the kernel prints them, and a rule may be refused (\<open>accepts\<close>).
  The interface is interpreted on an in-memory filter table, \<open>mem_ipt\<close>.
\<close>

section \<open>The interface\<close>

type_synonym table = "string \<Rightarrow> args list option"

fun remove_first :: "('a \<Rightarrow> bool) \<Rightarrow> 'a list \<Rightarrow> 'a list" where
  "remove_first P [] = []"
| "remove_first P (x # xs) = (if P x then xs else x # remove_first P xs)"

fun jump_target :: "args \<Rightarrow> string" where
  "jump_target (opt # v # r) = (if opt = ''-j'' then v else jump_target r)"
| "jump_target _ = []"

definition referenced :: "table \<Rightarrow> string \<Rightarrow> bool" where
  "referenced t c \<longleftrightarrow> (\<exists>d rs r. t d = Some rs \<and> r \<in> set rs \<and> jump_target r = c)"

definition has_rule :: "(args \<Rightarrow> args) \<Rightarrow> args list \<Rightarrow> args \<Rightarrow> bool" where
  "has_rule norm rs a \<longleftrightarrow> (\<exists>r \<in> set rs. norm r = norm a)"

definition add_unique :: "(args \<Rightarrow> args) \<Rightarrow> args list \<Rightarrow> args \<Rightarrow> args list" where
  "add_unique norm rs a = (if has_rule norm rs a then rs else rs @ [norm a])"

definition word_field :: "string \<Rightarrow> bool" where
  "word_field f \<longleftrightarrow> f \<noteq> [] \<and> \<not> list_ex is_space f"

locale iptables_api =
  fixes ipt :: "'k ipt"
    and tbl :: "'k \<Rightarrow> table"
    and norm :: "args \<Rightarrow> args"
    and accepts :: "'k \<Rightarrow> string \<Rightarrow> args \<Rightarrow> bool"
  assumes NewChain: "ipt_NewChain ipt c k = (e, k') \<Longrightarrow>
      (e = None \<longleftrightarrow> tbl k c = None) \<and> tbl k' = (if tbl k c = None then (tbl k)(c \<mapsto> []) else tbl k)"
    and ClearChain: "ipt_ClearChain ipt c k = (e, k') \<Longrightarrow> e = None \<and> tbl k' = (tbl k)(c \<mapsto> [])"
    and DeleteChain: "ipt_DeleteChain ipt c k = (e, k') \<Longrightarrow>
      (e = None \<longleftrightarrow> tbl k c = Some [] \<and> \<not> referenced (tbl k) c)
      \<and> tbl k' = (if e = None then (tbl k)(c := None) else tbl k)"
    and Append: "ipt_Append ipt c a k = (e, k') \<Longrightarrow>
      (e = None \<longleftrightarrow> tbl k c \<noteq> None \<and> accepts k c a)
      \<and> tbl k' = (if e = None then (tbl k)(c \<mapsto> the (tbl k c) @ [norm a]) else tbl k)"
    and AppendUnique: "ipt_AppendUnique ipt c a k = (e, k') \<Longrightarrow>
      (e = None \<longleftrightarrow> tbl k c \<noteq> None \<and> (has_rule norm (the (tbl k c)) a \<or> accepts k c a))
      \<and> tbl k' = (if e = None then (tbl k)(c \<mapsto> add_unique norm (the (tbl k c)) a) else tbl k)"
    and Insert: "ipt_Insert ipt c 1 a k = (e, k') \<Longrightarrow>
      (e = None \<longleftrightarrow> tbl k c \<noteq> None \<and> accepts k c a)
      \<and> tbl k' = (if e = None then (tbl k)(c \<mapsto> norm a # the (tbl k c)) else tbl k)"
    and Delete: "ipt_Delete ipt c a k = (e, k') \<Longrightarrow>
      (e = None \<longleftrightarrow> tbl k c \<noteq> None \<and> has_rule norm (the (tbl k c)) a)
      \<and> tbl k' = (if e = None then (tbl k)(c \<mapsto> remove_first (\<lambda>r. norm r = norm a) (the (tbl k c))) else tbl k)"
    and Exists: "ipt_Exists ipt c a k = Inr present \<Longrightarrow> tbl k c \<noteq> None \<and> (present \<longleftrightarrow> has_rule norm (the (tbl k c)) a)"
    and Exists_total: "tbl k c \<noteq> None \<Longrightarrow> \<exists>present. ipt_Exists ipt c a k = Inr present"
    and List: "ipt_List ipt c k = Inr lns \<Longrightarrow> \<exists>rs hs. tbl k c = Some rs
      \<and> list_all (\<lambda>h. hd (strings_Fields h) \<noteq> ''-A'') hs
      \<and> (list_all (list_all word_field) ([c] # rs) \<longrightarrow>
          (\<exists>ls. lns = hs @ ls \<and> map strings_Fields ls = map (\<lambda>r. ''-A'' # c # r) rs))"
    and ListChains: "ipt_ListChains ipt k = Inr cs \<Longrightarrow> set cs = dom (tbl k)"

section \<open>An in-memory filter table\<close>

type_synonym mem = "(string \<times> args list) list"

definition mem_put :: "string \<Rightarrow> args list \<Rightarrow> mem \<Rightarrow> mem" where
  "mem_put c rs t = AList.update c rs t"

definition mem_edit :: "string \<Rightarrow> (args list \<Rightarrow> args list option) \<Rightarrow> mem \<Rightarrow> string option \<times> mem" where
  "mem_edit c f t =
     (case map_of t c of
        None \<Rightarrow> (Some ''no chain by that name'', t)
      | Some rs \<Rightarrow> (case f rs of None \<Rightarrow> (Some ''bad rule'', t) | Some rs' \<Rightarrow> (None, mem_put c rs' t)))"

definition mem_referenced :: "mem \<Rightarrow> string \<Rightarrow> bool" where
  "mem_referenced t c \<longleftrightarrow>
     list_ex (\<lambda>d. case map_of t d of Some rs \<Rightarrow> list_ex (\<lambda>r. jump_target r = c) rs | None \<Rightarrow> False) (map fst t)"

definition mem_ipt :: "(args \<Rightarrow> args) \<Rightarrow> (mem \<Rightarrow> string \<Rightarrow> args \<Rightarrow> bool) \<Rightarrow> mem ipt" where
  "mem_ipt norm accepts =
     \<lparr>ipt_NewChain = (\<lambda>c t. if map_of t c = None then (None, mem_put c [] t) else (Some ''Chain already exists.'', t)),
      ipt_ClearChain = (\<lambda>c t. (None, mem_put c [] t)),
      ipt_DeleteChain = (\<lambda>c t. if map_of t c = Some [] \<and> \<not> mem_referenced t c
                               then (None, AList.delete c t) else (Some ''chain in use'', t)),
      ipt_Append = (\<lambda>c a t. mem_edit c (\<lambda>rs. if accepts t c a then Some (rs @ [norm a]) else None) t),
      ipt_AppendUnique = (\<lambda>c a t. mem_edit c (\<lambda>rs.
         if list_ex (\<lambda>r. norm r = norm a) rs then Some rs
         else if accepts t c a then Some (rs @ [norm a]) else None) t),
      ipt_Insert = (\<lambda>c n a t. mem_edit c (\<lambda>rs.
         if accepts t c a then Some (take (n - 1) rs @ [norm a] @ drop (n - 1) rs) else None) t),
      ipt_Delete = (\<lambda>c a t. mem_edit c (\<lambda>rs.
         if list_ex (\<lambda>r. norm r = norm a) rs then Some (remove_first (\<lambda>r. norm r = norm a) rs) else None) t),
      ipt_Exists = (\<lambda>c a t. case map_of t c of None \<Rightarrow> Inl ''no chain by that name''
                            | Some rs \<Rightarrow> Inr (list_ex (\<lambda>r. norm r = norm a) rs)),
      ipt_List = (\<lambda>c t. case map_of t c of None \<Rightarrow> Inl ''no chain by that name''
                        | Some rs \<Rightarrow> Inr ((''-N '' @ c) # map (\<lambda>r. strings_Join (''-A'' # c # r) '' '') rs)),
      ipt_ListChains = (\<lambda>t. Inr (map fst t))\<rparr>"

lemma Fields_word: "word_field w \<Longrightarrow> strings_Fields w = [w]"
proof (induction w)
  case (Cons x xs)
  then show ?case by (cases xs) (auto simp: word_field_def)
qed (simp add: word_field_def)

lemma Fields_word_space: "word_field w \<Longrightarrow> strings_Fields (w @ '' '' @ rest) = w # strings_Fields rest"
proof (induction w)
  case (Cons x xs)
  then show ?case by (cases xs) (auto simp: word_field_def is_space_def)
qed (simp add: word_field_def)

lemma Fields_Join: "list_all word_field xs \<Longrightarrow> strings_Fields (strings_Join xs '' '') = xs"
proof (induction xs "'' ''" rule: strings_Join.induct)
  case (3 x y ys)
  then show ?case using Fields_word_space [of x "strings_Join (y # ys) '' ''"] by simp
qed (simp_all add: Fields_word)

lemma mem_edit_spec:
  assumes "mem_edit c f t = (e, t')"
  shows "(e = None \<longleftrightarrow> map_of t c \<noteq> None \<and> f (the (map_of t c)) \<noteq> None)
    \<and> map_of t' = (if e = None then (map_of t)(c \<mapsto> the (f (the (map_of t c)))) else map_of t)"
  using assms by (auto simp: mem_edit_def mem_put_def update_conv split: option.splits)

lemma mem_referenced_iff: "mem_referenced t c \<longleftrightarrow> referenced (map_of t) c"
proof
  assume "mem_referenced t c"
  then show "referenced (map_of t) c"
    by (fastforce simp: mem_referenced_def referenced_def list_ex_iff split: option.splits)
next
  assume "referenced (map_of t) c"
  then obtain d rs r where d: "map_of t d = Some rs" "r \<in> set rs" "jump_target r = c"
    by (auto simp: referenced_def)
  then have "d \<in> set (map fst t)" by (force dest: map_of_SomeD)
  then show "mem_referenced t c"
    unfolding mem_referenced_def list_ex_iff using d by (intro bexI [of _ d]) auto
qed

lemma list_ex_has_rule: "list_ex (\<lambda>r. norm r = norm a) rs \<longleftrightarrow> has_rule norm rs a"
  by (simp add: list_ex_iff has_rule_def)

interpretation mem: iptables_api "mem_ipt norm accepts" map_of norm accepts
proof (unfold_locales, goal_cases)
  case (1 c k e k')
  then show ?case by (auto simp: mem_ipt_def mem_put_def update_conv split: if_splits)
next
  case (2 c k e k')
  then show ?case by (auto simp: mem_ipt_def mem_put_def update_conv)
next
  case (3 c k e k')
  then show ?case by (auto simp: mem_ipt_def mem_referenced_iff delete_conv split: if_splits)
next
  case (4 c a k e k')
  then have "mem_edit c (\<lambda>rs. if accepts k c a then Some (rs @ [norm a]) else None) k = (e, k')"
    by (simp add: mem_ipt_def)
  from mem_edit_spec [OF this] show ?case by (auto split: if_splits)
next
  case (5 c a k e k')
  then have "mem_edit c (\<lambda>rs. if has_rule norm rs a then Some rs
      else if accepts k c a then Some (rs @ [norm a]) else None) k = (e, k')"
    by (simp add: mem_ipt_def list_ex_has_rule)
  from mem_edit_spec [OF this] show ?case by (auto simp: add_unique_def split: if_splits)
next
  case (6 c a k e k')
  then have "mem_edit c (\<lambda>rs. if accepts k c a then Some (norm a # rs) else None) k = (e, k')"
    by (simp add: mem_ipt_def cong: if_cong)
  from mem_edit_spec [OF this] show ?case by (auto split: if_splits)
next
  case (7 c a k e k')
  then have "mem_edit c (\<lambda>rs. if has_rule norm rs a then Some (remove_first (\<lambda>r. norm r = norm a) rs) else None) k = (e, k')"
    by (simp add: mem_ipt_def list_ex_has_rule)
  from mem_edit_spec [OF this] show ?case by (auto split: if_splits)
next
  case (8 c a k present)
  then show ?case by (auto simp: mem_ipt_def list_ex_has_rule split: option.splits)
next
  case (9 k c a)
  then show ?case by (auto simp: mem_ipt_def)
next
  case (10 c k lns)
  then obtain rs where rs: "map_of k c = Some rs"
    "lns = (''-N '' @ c) # map (\<lambda>r. strings_Join (''-A'' # c # r) '' '') rs"
    by (auto simp: mem_ipt_def split: option.splits)
  have "word_field ''-A''" "word_field ''-N''" by (simp_all add: word_field_def is_space_def)
  then have "strings_Fields (''-N'' @ '' '' @ c) = ''-N'' # strings_Fields c" by (intro Fields_word_space)
  then have "hd (strings_Fields (''-N '' @ c)) \<noteq> ''-A''" by (simp only: append.simps) simp
  moreover have "map strings_Fields (map (\<lambda>r. strings_Join (''-A'' # c # r) '' '') rs) = map (\<lambda>r. ''-A'' # c # r) rs"
    if "list_all (list_all word_field) ([c] # rs)"
  proof -
    have "strings_Fields (strings_Join (''-A'' # c # r) '' '') = ''-A'' # c # r" if "r \<in> set rs" for r
      using that \<open>list_all (list_all word_field) ([c] # rs)\<close> \<open>word_field ''-A''\<close>
      by (intro Fields_Join) (simp add: list_all_iff)
    then show ?thesis unfolding map_map comp_def by (intro map_cong refl)
  qed
  ultimately show ?case using rs
    by (intro exI [of _ rs] exI [of _ "[''-N '' @ c]"]) auto
next
  case (11 k cs)
  then have "cs = map fst k" by (simp add: mem_ipt_def)
  then show ?case by (simp add: dom_map_of_conv_image_fst)
qed

section \<open>Packets through chains\<close>

datatype outcome = Accept | Drop | Return

text \<open>
  The verdict of a list of rules for a packet, given which rules match it (\<open>m\<close>) and what a
  user chain answers (\<open>ucall\<close>). \<open>None\<close> is running off the end of the list.
\<close>

fun run_rules :: "(args \<Rightarrow> bool) \<Rightarrow> (string \<Rightarrow> outcome option) \<Rightarrow> args list \<Rightarrow> outcome option" where
  "run_rules m ucall [] = None"
| "run_rules m ucall (r # rs) =
     (if \<not> m r then run_rules m ucall rs
      else (let t = jump_target r in
            if t = ''ACCEPT'' then Some Accept
            else if t = ''DROP'' then Some Drop
            else if t = ''RETURN'' then Some Return
            else if t = ''NFLOG'' then run_rules m ucall rs
            else (case ucall t of
                    Some Accept \<Rightarrow> Some Accept
                  | Some Drop \<Rightarrow> Some Drop
                  | _ \<Rightarrow> run_rules m ucall rs)))"

fun run_chain :: "nat \<Rightarrow> (args \<Rightarrow> bool) \<Rightarrow> table \<Rightarrow> string \<Rightarrow> outcome option" where
  "run_chain 0 m t c = None"
| "run_chain (Suc n) m t c =
     (case t c of None \<Rightarrow> None | Some rs \<Rightarrow> run_rules m (run_chain n m t) rs)"

lemma run_rules_append:
  "run_rules m u (xs @ ys) = (case run_rules m u xs of None \<Rightarrow> run_rules m u ys | Some v \<Rightarrow> Some v)"
  by (induction xs) (auto simp: Let_def split: option.splits outcome.splits)

lemma run_rules_single:
  "run_rules m u [a] = run_rules m u [b]" if "m a = m b" "jump_target a = jump_target b"
  using that by (simp add: Let_def)

lemma run_rules_again: "r \<in> set xs \<Longrightarrow> run_rules m u xs = None \<Longrightarrow> run_rules m u [r] = None"
  by (induction xs) (auto simp: Let_def split: if_splits option.splits outcome.splits)

lemma run_rules_nflog: "jump_target a = ''NFLOG'' \<Longrightarrow> run_rules m u [a] = None"
  by simp

text \<open>How a chain grows under a list of \<open>AppendUnique\<close> calls, some of them refused.\<close>

inductive built :: "(args \<Rightarrow> args) \<Rightarrow> args list \<Rightarrow> call list \<Rightarrow> args list \<Rightarrow> bool" for norm where
  built_Nil: "built norm rs [] rs"
| built_add: "built norm (add_unique norm rs a) cs rs' \<Longrightarrow> built norm rs ((s, a) # cs) rs'"
| built_skip: "built norm rs cs rs' \<Longrightarrow> built norm rs ((False, a) # cs) rs'"

inductive_cases built_NilE: "built norm rs [] rs'"
inductive_cases built_ConsE: "built norm rs (x # cs) rs'"

lemma built_append: "built norm rs (cs @ ds) rs' \<longleftrightarrow> (\<exists>rs1. built norm rs cs rs1 \<and> built norm rs1 ds rs')"
proof (induction cs arbitrary: rs)
  case Nil
  then show ?case by (auto intro: built_Nil elim: built_NilE)
next
  case (Cons c cs)
  then show ?case
    by (cases c) (auto elim!: built_ConsE intro: built.intros)
qed

locale rule_match =
  fixes norm :: "args \<Rightarrow> args" and m :: "args \<Rightarrow> bool"
  assumes match_norm: "norm a = norm b \<Longrightarrow> m a = m b"
    and norm_idem: "norm (norm a) = norm a"
    and target_norm: "jump_target (norm a) = jump_target a"
begin

lemma run_norm: "norm a = norm b \<Longrightarrow> run_rules m u [a] = run_rules m u [b]"
  by (rule run_rules_single) (use match_norm target_norm in metis)+

lemma run_add_unique: "run_rules m u (add_unique norm rs a) = run_rules m u (rs @ [a])"
proof (cases "has_rule norm rs a")
  case True
  then obtain r where r: "r \<in> set rs" "norm r = norm a" by (auto simp: has_rule_def)
  then have "run_rules m u rs = None \<Longrightarrow> run_rules m u [a] = None"
    using run_rules_again [OF r(1)] run_norm [OF r(2)] by metis
  then show ?thesis
    using True by (auto simp: add_unique_def run_rules_append simp del: run_rules.simps(2) split: option.splits)
next
  case False
  then show ?thesis
    using run_norm [of "norm a" a u]
    by (cases "run_rules m u rs")
      (simp_all add: add_unique_def run_rules_append norm_idem del: run_rules.simps(2))
qed

lemma built_run:
  "built norm rs cs rs' \<Longrightarrow> (\<And>a. (False, a) \<in> set cs \<Longrightarrow> jump_target a = ''NFLOG'') \<Longrightarrow>
   run_rules m u rs' = run_rules m u (rs @ map snd cs)"
proof (induction rule: built.induct)
  case (built_add rs a cs rs' s)
  then have "run_rules m u rs' = run_rules m u (add_unique norm rs a @ map snd cs)" by auto
  also have "\<dots> = run_rules m u ((rs @ [a]) @ map snd cs)"
    unfolding run_rules_append [of m u _ "map snd cs"] run_add_unique by simp
  finally show ?case by simp
next
  case (built_skip rs cs rs' a)
  then have "run_rules m u rs' = run_rules m u (rs @ map snd cs)" "run_rules m u [a] = None"
    by (auto intro: run_rules_nflog)
  then show ?case
    using run_rules_append [of m u "[a]" "map snd cs"]
    by (cases "run_rules m u rs") (simp_all add: run_rules_append [of m u rs] del: run_rules.simps(2))
qed simp

end

section \<open>What the backend leaves in the table\<close>

lemma must_None: "must w r f = (None, k') \<longleftrightarrow> (\<exists>k1. r = (None, k1) \<and> f k1 = (None, k'))"
  by (auto simp: must_def split: prod.splits option.splits)

lemma must_cases: "must w r f = (e, k') \<Longrightarrow> (\<exists>k1. r = (None, k1) \<and> f k1 = (e, k')) \<or> (\<exists>x. r = (Some x, k') \<and> e \<noteq> None)"
  by (auto simp: must_def split: prod.splits option.splits)

text \<open>
  Rule sets whose chain names collide share one chain, which each of them clears and refills:
  \<open>last_named\<close> is the set that ends up in a chain, and \<open>enforced_sets\<close> replaces each rule set by
  the one that is in its chain when all are applied.
\<close>

definition set_names :: "IPTablesBackend \<Rightarrow> string \<Rightarrow> FirewallRuleSet list \<Rightarrow> string list" where
  "set_names b cid rss = map (\<lambda>rs. ruleSetChainName b cid (rs_Name rs)) rss"

definition last_named :: "IPTablesBackend \<Rightarrow> string \<Rightarrow> FirewallRuleSet list \<Rightarrow> string \<Rightarrow> FirewallRuleSet" where
  "last_named b cid rss n = last (filter (\<lambda>rs. ruleSetChainName b cid (rs_Name rs) = n) rss)"

definition enforced_sets :: "IPTablesBackend \<Rightarrow> string \<Rightarrow> FirewallRuleSet list \<Rightarrow> FirewallRuleSet list" where
  "enforced_sets b cid rss = map (last_named b cid rss) (set_names b cid rss)"

lemma set_names_simps [simp]:
  "set_names b cid [] = []"
  "set_names b cid (rs # rss) = ruleSetChainName b cid (rs_Name rs) # set_names b cid rss"
  by (simp_all add: set_names_def)

lemma last_named_Cons:
  "n \<in> set (set_names b cid (rs # rss)) \<Longrightarrow>
   last_named b cid (rs # rss) n = (if n \<in> set (set_names b cid rss) then last_named b cid rss n else rs)"
  by (auto simp: last_named_def set_names_def filter_empty_conv image_iff)

lemma last_named_props:
  assumes "n \<in> set (set_names b cid rss)"
  shows "last_named b cid rss n \<in> set rss" "ruleSetChainName b cid (rs_Name (last_named b cid rss n)) = n"
proof -
  let ?f = "filter (\<lambda>rs. ruleSetChainName b cid (rs_Name rs) = n) rss"
  have "?f \<noteq> []" using assms by (auto simp: set_names_def filter_empty_conv)
  then have "last ?f \<in> set ?f" by (rule last_in_set)
  then show "last_named b cid rss n \<in> set rss" "ruleSetChainName b cid (rs_Name (last_named b cid rss n)) = n"
    by (simp_all add: last_named_def)
qed

lemma set_enforced_sets: "set (enforced_sets b cid rss) \<subseteq> set rss"
  by (auto simp: enforced_sets_def last_named_props)

lemma set_names_enforced: "set_names b cid (enforced_sets b cid rss) = set_names b cid rss"
  unfolding set_names_def [of b cid "enforced_sets b cid rss"]
  by (simp add: enforced_sets_def last_named_props cong: map_cong) 

lemma enforced_sets_distinct: "distinct (set_names b cid rss) \<Longrightarrow> enforced_sets b cid rss = rss"
proof (induction rss)
  case (Cons rs rss)
  have "map (last_named b cid (rs # rss)) (set_names b cid rss) = map (last_named b cid rss) (set_names b cid rss)"
    by (rule map_cong) (simp_all add: last_named_Cons)
  also have "\<dots> = rss" using Cons by (simp add: enforced_sets_def)
  finally show ?case using Cons.prems by (simp add: enforced_sets_def last_named_Cons)
qed (simp add: enforced_sets_def)

context iptables_api
begin

lemma AppendUnique_frame:
  assumes "ipt_AppendUnique ipt c a k = (e, k')"
  shows "d \<noteq> c \<Longrightarrow> tbl k' d = tbl k d" and "dom (tbl k') = dom (tbl k)"
  using AppendUnique [OF assms] by (auto split: if_splits)

lemma AppendUnique_ok:
  "ipt_AppendUnique ipt c a k = (None, k') \<Longrightarrow> \<exists>rs. tbl k c = Some rs \<and> tbl k' = (tbl k)(c \<mapsto> add_unique norm rs a)"
  using AppendUnique [of c a k None k'] by auto

lemma append_calls_frame:
  "append_calls ipt c cs k = (e, k') \<Longrightarrow> (\<forall>d. d \<noteq> c \<longrightarrow> tbl k' d = tbl k d) \<and> dom (tbl k') = dom (tbl k)"
proof (induction cs arbitrary: k)
  case (Cons x cs)
  obtain s a where x: "x = (s, a)" by (cases x)
  obtain e1 k1 where u: "ipt_AppendUnique ipt c a k = (e1, k1)" by (cases "ipt_AppendUnique ipt c a k")
  note f = AppendUnique_frame [OF u]
  show ?case
  proof (cases "e1 \<noteq> None \<and> s")
    case True
    then have "k' = k1" using Cons.prems u by (auto simp: x)
    then show ?thesis using f by auto
  next
    case False
    then have "append_calls ipt c cs k1 = (e, k')" using Cons.prems u by (auto simp: x split: option.splits)
    then show ?thesis using Cons.IH f by auto
  qed
qed simp

lemma append_calls_built:
  "append_calls ipt c cs k = (None, k') \<Longrightarrow> tbl k c = Some rs \<Longrightarrow>
   \<exists>rs'. built norm rs cs rs' \<and> tbl k' = (tbl k)(c \<mapsto> rs')"
proof (induction cs arbitrary: k rs)
  case Nil
  then show ?case by (intro exI [of _ rs]) (auto intro: built_Nil)
next
  case (Cons x cs)
  obtain s a where x: "x = (s, a)" by (cases x)
  obtain e1 k1 where u: "ipt_AppendUnique ipt c a k = (e1, k1)" by (cases "ipt_AppendUnique ipt c a k")
  show ?case
  proof (cases e1)
    case None
    then have t: "tbl k1 = (tbl k)(c \<mapsto> add_unique norm rs a)"
      using AppendUnique_ok [of c a k k1] u Cons.prems(2) by auto
    have "append_calls ipt c cs k1 = (None, k')" using Cons.prems(1) u None by (simp add: x)
    then obtain rs' where "built norm (add_unique norm rs a) cs rs'" "tbl k' = (tbl k1)(c \<mapsto> rs')"
      using Cons.IH [of k1 "add_unique norm rs a"] t by fastforce
    then show ?thesis using t unfolding x by (intro exI [of _ rs'] conjI built_add) simp_all
  next
    case (Some y)
    then have s: "\<not> s" "append_calls ipt c cs k1 = (None, k')" using Cons.prems(1) u by (auto simp: x split: if_splits)
    have t: "tbl k1 = tbl k" using AppendUnique [OF u] Some by simp
    from Cons.IH [OF s(2), of rs] t Cons.prems(2) s(1) show ?thesis
      by (auto simp: x intro: built_skip)
  qed
qed

lemma append_jumps_frame:
  "append_jumps ipt base main ps k = (e, k') \<Longrightarrow> (\<forall>d. d \<noteq> base \<longrightarrow> tbl k' d = tbl k d) \<and> dom (tbl k') = dom (tbl k)"
proof (induction ps arbitrary: k)
  case (Cons p ps)
  obtain e1 k1 where u: "ipt_AppendUnique ipt base [''-d'', ip_String p, ''-j'', main] k = (e1, k1)"
    by (cases "ipt_AppendUnique ipt base [''-d'', ip_String p, ''-j'', main] k")
  note f = AppendUnique_frame [OF u]
  show ?case
  proof (cases e1)
    case None
    then have "append_jumps ipt base main ps k1 = (e, k')" using Cons.prems u by (simp add: must_def)
    then show ?thesis using Cons.IH f by auto
  next
    case (Some x)
    then have "k' = k1" using Cons.prems u by (simp add: must_def)
    then show ?thesis using f by auto
  qed
qed simp

lemma append_jumps_built:
  "append_jumps ipt base main ps k = (None, k') \<Longrightarrow> tbl k base = Some rs \<Longrightarrow>
   \<exists>rs'. built norm rs (map (\<lambda>p. (True, [''-d'', ip_String p, ''-j'', main])) ps) rs' \<and> tbl k' = (tbl k)(base \<mapsto> rs')"
proof (induction ps arbitrary: k rs)
  case Nil
  then show ?case by (intro exI [of _ rs]) (auto intro: built_Nil)
next
  case (Cons p ps)
  then obtain k1 where u: "ipt_AppendUnique ipt base [''-d'', ip_String p, ''-j'', main] k = (None, k1)"
    "append_jumps ipt base main ps k1 = (None, k')" by (auto simp: must_None)
  then have t: "tbl k1 = (tbl k)(base \<mapsto> add_unique norm rs [''-d'', ip_String p, ''-j'', main])"
    using AppendUnique_ok [OF u(1)] Cons.prems(2) by auto
  then obtain rs' where "built norm (add_unique norm rs [''-d'', ip_String p, ''-j'', main])
      (map (\<lambda>p. (True, [''-d'', ip_String p, ''-j'', main])) ps) rs'" "tbl k' = (tbl k1)(base \<mapsto> rs')"
    using Cons.IH [OF u(2)] by fastforce
  then show ?case using t unfolding list.map by (intro exI [of _ rs'] conjI built_add) simp_all
qed

lemma fresh_chain:
  "tbl (ignore (ipt_ClearChain ipt c (ignore (ipt_NewChain ipt c k)))) = (tbl k)(c \<mapsto> [])"
proof -
  obtain e1 k1 where n: "ipt_NewChain ipt c k = (e1, k1)" by (cases "ipt_NewChain ipt c k")
  obtain e2 k2 where cl: "ipt_ClearChain ipt c k1 = (e2, k2)" by (cases "ipt_ClearChain ipt c k1")
  show ?thesis using NewChain [OF n] ClearChain [OF cl] n cl by (auto simp: ignore_def)
qed

lemma prepare_main_tbl: "tbl (prepare_main ipt main k) = (tbl k)(main \<mapsto> [])"
proof -
  obtain e1 k1 where n: "ipt_NewChain ipt main k = (e1, k1)" by (cases "ipt_NewChain ipt main k")
  obtain e2 k2 where cl: "ipt_ClearChain ipt main k1 = (e2, k2)" by (cases "ipt_ClearChain ipt main k1")
  show ?thesis using NewChain [OF n] ClearChain [OF cl] n cl
    by (cases e1) (auto simp: ignore_def prepare_main_def)
qed

lemma apply_sets_frame:
  "apply_sets b ipt cid main auto rss k = (e, k') \<Longrightarrow>
   (\<forall>d. d \<notin> insert main ((\<lambda>rs. ruleSetChainName b cid (rs_Name rs)) ` set rss) \<longrightarrow> tbl k' d = tbl k d)
   \<and> dom (tbl k) \<subseteq> dom (tbl k')
   \<and> dom (tbl k') \<subseteq> dom (tbl k) \<union> (\<lambda>rs. ruleSetChainName b cid (rs_Name rs)) ` set rss"
proof (induction rss arbitrary: k)
  case (Cons rs rss)
  let ?c = "ruleSetChainName b cid (rs_Name rs)"
  let ?k2 = "ignore (ipt_ClearChain ipt ?c (ignore (ipt_NewChain ipt ?c k)))"
  obtain e3 k3 where f: "append_calls ipt ?c (ruleset_calls rs auto) ?k2 = (e3, k3)"
    by (cases "append_calls ipt ?c (ruleset_calls rs auto) ?k2")
  note fr = append_calls_frame [OF f] fresh_chain [of ?c k]
  have d3: "dom (tbl k3) = insert ?c (dom (tbl k))" "\<forall>d. d \<noteq> ?c \<longrightarrow> tbl k3 d = tbl k d" using fr by auto
  show ?case
  proof (cases e3)
    case (Some x)
    then have "k' = k3" using Cons.prems f by (auto simp: Let_def fillRuleSetChain_def)
    then show ?thesis using d3 by auto
  next
    case None
    obtain e4 k4 where u: "ipt_AppendUnique ipt main [''-j'', ?c] k3 = (e4, k4)"
      by (cases "ipt_AppendUnique ipt main [''-j'', ?c] k3")
    note g = AppendUnique_frame [OF u]
    show ?thesis
    proof (cases e4)
      case (Some x)
      then have "k' = k4" using Cons.prems f u None by (auto simp: Let_def fillRuleSetChain_def must_def)
      then show ?thesis using d3 g by auto
    next
      case None': None
      then have "apply_sets b ipt cid main auto rss k4 = (e, k')"
        using Cons.prems f u None by (simp add: Let_def fillRuleSetChain_def must_def)
      from Cons.IH [OF this] show ?thesis using d3 g by auto
    qed
  qed
qed simp

lemma apply_sets_built:
  "apply_sets b ipt cid main auto rss k = (None, k') \<Longrightarrow>
   main \<notin> set (set_names b cid rss) \<Longrightarrow> tbl k main = Some ms \<Longrightarrow>
   (\<exists>ms'. built norm ms (map (\<lambda>n. (True, [''-j'', n])) (set_names b cid rss)) ms' \<and> tbl k' main = Some ms')
   \<and> (\<forall>n \<in> set (set_names b cid rss). \<exists>c. built norm [] (ruleset_calls (last_named b cid rss n) auto) c \<and> tbl k' n = Some c)"
proof (induction rss arbitrary: k ms)
  case Nil
  then show ?case by (auto intro: built_Nil)
next
  case (Cons rs rss)
  let ?c = "ruleSetChainName b cid (rs_Name rs)"
  let ?k2 = "ignore (ipt_ClearChain ipt ?c (ignore (ipt_NewChain ipt ?c k)))"
  obtain k3 k4 where f: "append_calls ipt ?c (ruleset_calls rs auto) ?k2 = (None, k3)"
    and u: "ipt_AppendUnique ipt main [''-j'', ?c] k3 = (None, k4)"
    and r: "apply_sets b ipt cid main auto rss k4 = (None, k')"
    using Cons.prems(1) by (auto simp: Let_def fillRuleSetChain_def must_None split: prod.splits option.splits)
  have ne: "?c \<noteq> main" "main \<notin> set (set_names b cid rss)" using Cons.prems(2) by auto
  obtain c where c: "built norm [] (ruleset_calls rs auto) c" "tbl k3 = (tbl ?k2)(?c \<mapsto> c)"
    using append_calls_built [OF f, of "[]"] fresh_chain [of ?c k] by auto
  have m3: "tbl k3 main = Some ms" using c(2) fresh_chain [of ?c k] ne Cons.prems(3) by simp
  have t4: "tbl k4 = (tbl k3)(main \<mapsto> add_unique norm ms [''-j'', ?c])" using AppendUnique_ok [OF u] m3 by auto
  then have "tbl k4 main = Some (add_unique norm ms [''-j'', ?c])" by simp
  note IH = Cons.IH [OF r ne(2) this]
  have "tbl k' ?c = Some c" if "?c \<notin> set (set_names b cid rss)"
    using apply_sets_frame [OF r] that t4 c(2) ne by (simp add: set_names_def)
  then show ?case using IH c(1) by (auto intro: built_add simp: last_named_Cons)
qed

lemma ApplyContainerRules_built:
  assumes "ApplyContainerRules b ipt cid ips rss pol auto k = (None, k')"
    and "chainName b \<noteq> containerChainName b cid" "chainName b \<notin> set (set_names b cid rss)"
      "containerChainName b cid \<notin> set (set_names b cid rss)"
  shows "\<exists>ms. tbl k' (containerChainName b cid) = Some ms
      \<and> built norm [] (map (\<lambda>n. (True, [''-j'', n])) (set_names b cid rss) @ [(True, [''-j'', pol])]) ms"
    and "n \<in> set (set_names b cid rss) \<Longrightarrow> \<exists>c. built norm [] (ruleset_calls (last_named b cid rss n) auto) c
      \<and> tbl k' n = Some c"
    and "tbl k (chainName b) = Some base0 \<Longrightarrow> \<exists>base. tbl k' (chainName b) = Some base
      \<and> built norm base0 (map (\<lambda>p. (True, [''-d'', ip_String p, ''-j'', containerChainName b cid])) ips) base"
proof -
  let ?main = "containerChainName b cid" and ?base = "chainName b"
  obtain k2 k3 where j: "append_jumps ipt ?base ?main ips (prepare_main ipt ?main k) = (None, k2)"
    and s: "apply_sets b ipt cid ?main auto rss k2 = (None, k3)"
    and u: "ipt_AppendUnique ipt ?main [''-j'', pol] k3 = (None, k')"
    using assms(1) by (auto simp: ApplyContainerRules_def Let_def must_None split: prod.splits option.splits)
  have m2: "tbl k2 ?main = Some []" using append_jumps_frame [OF j] assms(2) by (simp add: prepare_main_tbl)
  obtain ms where ms: "built norm [] (map (\<lambda>n. (True, [''-j'', n])) (set_names b cid rss)) ms"
    "tbl k3 ?main = Some ms" using apply_sets_built [OF s assms(4) m2] by auto
  have t': "tbl k' = (tbl k3)(?main \<mapsto> add_unique norm ms [''-j'', pol])" using AppendUnique_ok [OF u] ms(2) by auto
  have "built norm ms [(True, [''-j'', pol])] (add_unique norm ms [''-j'', pol])"
    by (intro built_add built_Nil)
  then show "\<exists>ms. tbl k' ?main = Some ms
      \<and> built norm [] (map (\<lambda>n. (True, [''-j'', n])) (set_names b cid rss) @ [(True, [''-j'', pol])]) ms"
    using ms(1) t' by (auto simp: built_append)
  show "n \<in> set (set_names b cid rss) \<Longrightarrow> \<exists>c. built norm [] (ruleset_calls (last_named b cid rss n) auto) c \<and> tbl k' n = Some c"
    using apply_sets_built [OF s assms(4) m2] t' assms(4) by auto
  show "\<exists>base. tbl k' ?base = Some base
      \<and> built norm base0 (map (\<lambda>p. (True, [''-d'', ip_String p, ''-j'', ?main])) ips) base"
    if "tbl k ?base = Some base0"
  proof -
    have "tbl (prepare_main ipt ?main k) ?base = Some base0" using that assms(2) by (simp add: prepare_main_tbl)
    then obtain base where "built norm base0 (map (\<lambda>p. (True, [''-d'', ip_String p, ''-j'', ?main])) ips) base"
      "tbl k2 ?base = Some base" using append_jumps_built [OF j] by auto
    moreover have "tbl k' ?base = tbl k2 ?base"
      using t' apply_sets_frame [OF s] assms(2,3) by (auto simp: set_names_def)
    ultimately show ?thesis by auto
  qed
qed

lemma ApplyContainerRules_frame:
  assumes "ApplyContainerRules b ipt cid ips rss pol auto k = (e, k')"
  defines "names \<equiv> insert (containerChainName b cid) ((\<lambda>rs. ruleSetChainName b cid (rs_Name rs)) ` set rss)"
  shows "d \<notin> insert (chainName b) names \<Longrightarrow> tbl k' d = tbl k d"
    and "dom (tbl k) \<union> {containerChainName b cid} \<subseteq> dom (tbl k')" and "dom (tbl k') \<subseteq> dom (tbl k) \<union> names"
proof -
  let ?main = "containerChainName b cid"
  obtain e2 k2 where j: "append_jumps ipt (chainName b) ?main ips (prepare_main ipt ?main k) = (e2, k2)"
    by (cases "append_jumps ipt (chainName b) ?main ips (prepare_main ipt ?main k)")
  obtain e3 k3 where s: "apply_sets b ipt cid ?main auto rss k2 = (e3, k3)"
    by (cases "apply_sets b ipt cid ?main auto rss k2")
  obtain e4 k4 where u: "ipt_AppendUnique ipt ?main [''-j'', pol] k3 = (e4, k4)"
    by (cases "ipt_AppendUnique ipt ?main [''-j'', pol] k3")
  note J = append_jumps_frame [OF j] prepare_main_tbl [of ?main k]
  note S = apply_sets_frame [OF s]
  note U = AppendUnique_frame [OF u]
  have k': "k' = k2 \<or> k' = k3 \<or> k' = k4"
    using assms(1) j s u by (auto simp: ApplyContainerRules_def Let_def must_def split: option.splits)
  have 2: "dom (tbl k2) = insert ?main (dom (tbl k))"
    "\<forall>d. d \<notin> insert (chainName b) names \<longrightarrow> tbl k2 d = tbl k d"
    using J by (auto simp: names_def)
  have 3: "dom (tbl k2) \<subseteq> dom (tbl k3)" "dom (tbl k3) \<subseteq> dom (tbl k2) \<union> names"
    "\<forall>d. d \<notin> insert (chainName b) names \<longrightarrow> tbl k3 d = tbl k2 d"
    using S by (auto simp: names_def)
  have 4: "dom (tbl k4) = dom (tbl k3)" "\<forall>d. d \<notin> insert (chainName b) names \<longrightarrow> tbl k4 d = tbl k3 d"
    using U by (auto simp: names_def)
  show "d \<notin> insert (chainName b) names \<Longrightarrow> tbl k' d = tbl k d" using k' 2(2) 3(3) 4(2) by auto
  show "dom (tbl k) \<union> {?main} \<subseteq> dom (tbl k')" using k' 2(1) 3(1) 4(1) by (elim disjE) blast+
  have mn: "?main \<in> names" by (simp add: names_def)
  have a2: "dom (tbl k2) \<subseteq> dom (tbl k) \<union> names"
    unfolding 2(1) using mn by (intro insert_subsetI UnI2 Un_upper1)
  have a3: "dom (tbl k3) \<subseteq> dom (tbl k) \<union> names"
    using 3(2) a2 by (meson Un_least Un_upper2 order_trans)
  have a4: "dom (tbl k4) \<subseteq> dom (tbl k) \<union> names" using 4(1) a3 by simp
  show "dom (tbl k') \<subseteq> dom (tbl k) \<union> names" using k' a2 a3 a4 by (elim disjE) simp_all
qed

end

definition owned :: "string \<Rightarrow> string \<Rightarrow> bool" where
  "owned main c \<longleftrightarrow> c = main \<or> strings_HasPrefix c (main @ ''-'')"

lemma delete_chains_step:
  "delete_chains ipt main (c # chs) k =
     (if \<not> owned main c then delete_chains ipt main chs k
      else
        (let (e1, k1) = ipt_ClearChain ipt c k; (e2, k2) = ipt_DeleteChain ipt c k1;
             (errs, k3) = delete_chains ipt main chs k2 in
         ((case e1 of Some x \<Rightarrow> [BackendError ''clear chain'' x] | None \<Rightarrow> [])
          @ (case e2 of Some x \<Rightarrow> [BackendError ''delete chain'' x] | None \<Rightarrow> []) @ errs, k3)))"
  by (simp add: owned_def)

declare delete_chains.simps(2) [simp del]

context iptables_api
begin

lemma delete_jumps_frame:
  "delete_jumps b ipt main lns k = (errs, k') \<Longrightarrow>
   (\<forall>d. d \<noteq> chainName b \<longrightarrow> tbl k' d = tbl k d) \<and> dom (tbl k') = dom (tbl k)"
proof (induction lns arbitrary: k errs)
  case (Cons l lns)
  show ?case
  proof (cases "jump_fields b main l")
    case None
    then show ?thesis using Cons by simp
  next
    case (Some a)
    obtain e k1 where d: "ipt_Delete ipt (chainName b) a k = (e, k1)" by (cases "ipt_Delete ipt (chainName b) a k")
    obtain es k2 where r: "delete_jumps b ipt main lns k1 = (es, k2)" by (cases "delete_jumps b ipt main lns k1")
    have "k' = k2" using Cons.prems Some d r by simp
    moreover have "(\<forall>c. c \<noteq> chainName b \<longrightarrow> tbl k1 c = tbl k c) \<and> dom (tbl k1) = dom (tbl k)"
      using Delete [OF d] by (auto split: if_splits)
    ultimately show ?thesis using Cons.IH [of k1 es] r by auto
  qed
qed simp

lemma delete_chains_frame:
  "delete_chains ipt main chs k = (errs, k') \<Longrightarrow>
   (\<forall>d. \<not> owned main d \<longrightarrow> tbl k' d = tbl k d) \<and> dom (tbl k') \<subseteq> dom (tbl k) \<union> set chs"
proof (induction chs arbitrary: k errs)
  case (Cons c chs)
  show ?case
  proof (cases "owned main c")
    case False
    then have "delete_chains ipt main chs k = (errs, k')" using Cons.prems by (simp add: delete_chains_step)
    from Cons.IH [OF this] show ?thesis by auto
  next
    case True
    obtain e1 k1 where c: "ipt_ClearChain ipt c k = (e1, k1)" by (cases "ipt_ClearChain ipt c k")
    obtain e2 k2 where d: "ipt_DeleteChain ipt c k1 = (e2, k2)" by (cases "ipt_DeleteChain ipt c k1")
    obtain es k3 where r: "delete_chains ipt main chs k2 = (es, k3)" by (cases "delete_chains ipt main chs k2")
    have "k' = k3" using Cons.prems True c d r by (simp add: delete_chains_step)
    moreover have "\<forall>x. x \<noteq> c \<longrightarrow> tbl k2 x = tbl k x" "dom (tbl k2) \<subseteq> insert c (dom (tbl k))"
      using ClearChain [OF c] DeleteChain [OF d] by (auto split: if_splits)
    ultimately show ?thesis using Cons.IH [of k2 es] r True by auto
  qed
qed simp

lemma delete_chains_gone:
  "delete_chains ipt main chs k = ([], k') \<Longrightarrow>
   (\<forall>c \<in> set chs. owned main c \<longrightarrow> tbl k' c = None) \<and> dom (tbl k') \<subseteq> dom (tbl k)"
proof (induction chs arbitrary: k)
  case (Cons c chs)
  show ?case
  proof (cases "owned main c")
    case False
    then have "delete_chains ipt main chs k = ([], k')" using Cons.prems by (simp add: delete_chains_step)
    from Cons.IH [OF this] False show ?thesis by auto
  next
    case True
    obtain e1 k1 where c: "ipt_ClearChain ipt c k = (e1, k1)" by (cases "ipt_ClearChain ipt c k")
    obtain e2 k2 where d: "ipt_DeleteChain ipt c k1 = (e2, k2)" by (cases "ipt_DeleteChain ipt c k1")
    obtain es k3 where r: "delete_chains ipt main chs k2 = (es, k3)" by (cases "delete_chains ipt main chs k2")
    have k: "k' = k3" "es = []" "e2 = None"
      using Cons.prems True c d r by (auto simp: delete_chains_step split: option.splits)
    then have t2: "tbl k2 = (tbl k)(c := None)" using ClearChain [OF c] DeleteChain [OF d] by auto
    have IH: "\<forall>x \<in> set chs. owned main x \<longrightarrow> tbl k' x = None" "dom (tbl k') \<subseteq> dom (tbl k2)"
      using Cons.IH r k by auto
    have "tbl k' c = None" using IH(2) t2 by (metis domIff fun_upd_same subsetD)
    moreover have "dom (tbl k') \<subseteq> dom (tbl k)" using IH(2) t2 by auto
    ultimately show ?thesis using IH(1) by auto
  qed
qed simp

lemma RemoveContainerChains_cases:
  assumes "RemoveContainerChains b ipt cid k = (e, k')"
  defines "main \<equiv> containerChainName b cid"
  obtains lns k1 e3 chs errs where "delete_jumps b ipt main lns k = (e3, k1)"
    "chs = [] \<or> ipt_ListChains ipt k1 = Inr chs" "delete_chains ipt main chs k1 = (errs, k')"
    "e = None \<longrightarrow> errs = [] \<and> ipt_ListChains ipt k1 = Inr chs"
    "e = None \<longrightarrow> e3 = [] \<and> ipt_List ipt (chainName b) k = Inr lns"
proof -
  let ?lns = "case ipt_List ipt (chainName b) k of Inl e \<Rightarrow> [] | Inr rs \<Rightarrow> rs"
  obtain e3 k1 where d: "delete_jumps b ipt main ?lns k = (e3, k1)" by (cases "delete_jumps b ipt main ?lns k")
  let ?chs = "case ipt_ListChains ipt k1 of Inl e \<Rightarrow> [] | Inr cs \<Rightarrow> cs"
  obtain errs k2 where c: "delete_chains ipt main ?chs k1 = (errs, k2)" by (cases "delete_chains ipt main ?chs k1")
  have k2: "k2 = k'" and en: "e = None \<longrightarrow> errs = [] \<and> ipt_ListChains ipt k1 = Inr ?chs"
    "e = None \<longrightarrow> e3 = [] \<and> ipt_List ipt (chainName b) k = Inr ?lns"
    using assms(1) d c unfolding RemoveContainerChains_def Let_def main_def
    by (auto split: sum.splits if_splits)
  have l: "?chs = [] \<or> ipt_ListChains ipt k1 = Inr ?chs" by (auto split: sum.splits)
  show thesis by (rule that [OF d l c [unfolded k2] en])
qed

lemma RemoveContainerChains_frame:
  assumes "RemoveContainerChains b ipt cid k = (e, k')"
  shows "d \<noteq> chainName b \<Longrightarrow> \<not> owned (containerChainName b cid) d \<Longrightarrow> tbl k' d = tbl k d"
    and "dom (tbl k') \<subseteq> dom (tbl k)"
proof -
  obtain lns k1 e3 chs errs where x: "delete_jumps b ipt (containerChainName b cid) lns k = (e3, k1)"
    "chs = [] \<or> ipt_ListChains ipt k1 = Inr chs" "delete_chains ipt (containerChainName b cid) chs k1 = (errs, k')"
    by (rule RemoveContainerChains_cases [OF assms])
  note J = delete_jumps_frame [OF x(1)] and C = delete_chains_frame [OF x(3)]
  show "d \<noteq> chainName b \<Longrightarrow> \<not> owned (containerChainName b cid) d \<Longrightarrow> tbl k' d = tbl k d" using J C by simp
  have "set chs \<subseteq> dom (tbl k1)" using x(2) ListChains by fastforce
  then show "dom (tbl k') \<subseteq> dom (tbl k)" using J C by (metis Un_absorb2 subset_trans)
qed

lemma RemoveContainerChains_gone:
  assumes "RemoveContainerChains b ipt cid k = (None, k')" "owned (containerChainName b cid) d"
  shows "tbl k' d = None"
proof -
  obtain lns k1 e3 chs errs where x: "delete_jumps b ipt (containerChainName b cid) lns k = (e3, k1)"
    "delete_chains ipt (containerChainName b cid) chs k1 = ([], k')" "ipt_ListChains ipt k1 = Inr chs"
    by (rule RemoveContainerChains_cases [OF assms(1)]) auto
  note C = delete_chains_gone [OF x(2)] ListChains [OF x(3)]
  show ?thesis using C assms(2) by (cases "d \<in> set chs") auto
qed

end

section \<open>Chain names\<close>

lemma length_truncate: "length (truncate_str n s) \<le> n"
  by (simp add: truncate_str_def)

lemma truncate_id: "length s \<le> n \<Longrightarrow> truncate_str n s = s"
  by (simp add: truncate_str_def)

lemma length_ruleSetChainName: "length (ruleSetChainName b cid n) \<le> iptablesMaxChainLen"
  by (simp add: ruleSetChainName_def Let_def length_truncate)

lemma truncate_append: "length p \<le> n \<Longrightarrow> \<exists>y. truncate_str n (p @ s) = p @ y"
  by (auto simp: truncate_str_def)

text \<open>The base chain leaves room for a dash, a short id and another dash.\<close>

definition short_base :: "IPTablesBackend \<Rightarrow> bool" where
  "short_base b \<longleftrightarrow> length (chainName b) \<le> 14"

lemma containerChainName_eq:
  "short_base b \<Longrightarrow> containerChainName b cid = chainName b @ ''-'' @ truncate_str 12 cid"
  using length_truncate [of 12 cid]
  by (simp add: containerChainName_def short_base_def iptablesMaxChainLen_def ContainerIDShortLen_def truncate_id)

lemma ruleSetChainName_prefix:
  assumes "short_base b"
  shows "\<exists>r. ruleSetChainName b cid n = containerChainName b cid @ ''-'' @ r"
proof -
  let ?p = "chainName b @ ''-'' @ truncate_str 12 cid @ ''-''"
  have l: "length ?p \<le> 28" using assms length_truncate [of 12 cid] by (simp add: short_base_def)
  have "\<exists>x. ruleSetChainName b cid n = truncate_str 28 (?p @ x)"
  proof (cases "28 < length (chainName b @ ''-'' @ truncate_str 12 cid @ ''-'' @ n)")
    case True
    then show ?thesis
      unfolding ruleSetChainName_def Let_def iptablesMaxChainLen_def ContainerIDShortLen_def
      by (simp only: if_True) (intro exI, rule refl)
  next
    case False
    then have "ruleSetChainName b cid n = truncate_str 28 (?p @ n)"
      unfolding ruleSetChainName_def Let_def iptablesMaxChainLen_def ContainerIDShortLen_def
      by (simp only: if_False append.assoc)
    then show ?thesis by blast
  qed
  then obtain x where "ruleSetChainName b cid n = truncate_str 28 (?p @ x)" ..
  moreover have "\<exists>y. truncate_str 28 (?p @ x) = ?p @ y"
    by (rule truncate_append [OF l])
  ultimately show ?thesis by (auto simp: containerChainName_eq [OF assms])
qed

definition valid_id :: "string \<Rightarrow> bool" where
  "valid_id cid \<longleftrightarrow> cid \<noteq> [] \<and> CHR ''-'' \<notin> set cid"

lemma chain_container_id_eq:
  assumes "valid_id cid"
  shows "chain_container_id (base @ ''-'') c = Some cid \<longleftrightarrow> owned (base @ ''-'' @ cid) c"
proof
  assume "chain_container_id (base @ ''-'') c = Some cid"
  then have id: "chain_container_id (base @ ''-'') c = Some cid" .
  then have "strings_HasPrefix c (base @ ''-'')" by (auto simp: chain_container_id_def split: if_splits)
  then obtain s where c: "c = (base @ ''-'') @ s" unfolding strings_HasPrefix_def prefix_def by blast
  have s: "cid = (case strings_Index s CHR ''-'' of Some i \<Rightarrow> take i s | None \<Rightarrow> s)"
    using id unfolding chain_container_id_def c strings_TrimPrefix_append Let_def
    by (auto split: if_splits option.splits)
  show "owned (base @ ''-'' @ cid) c"
  proof (cases "strings_Index s CHR ''-''")
    case None
    then show ?thesis using c s by (simp add: owned_def)
  next
    case (Some i)
    then have "i < length s" "s ! i = CHR ''-''" using strings_Index_Some by auto
    then have "s = cid @ ''-'' @ drop (Suc i) s" using s Some id_take_nth_drop [of i s] by simp
    then have "prefix (base @ ''-'' @ cid @ ''-'') c" unfolding c prefix_def by (metis append.assoc)
    then show ?thesis by (simp add: owned_def strings_HasPrefix_def)
  qed
next
  assume "owned (base @ ''-'' @ cid) c"
  then consider "c = base @ ''-'' @ cid" | r where "c = base @ ''-'' @ cid @ ''-'' @ r"
    by (auto simp: owned_def strings_HasPrefix_def prefix_def)
  then show "chain_container_id (base @ ''-'') c = Some cid"
  proof cases
    case 1
    then have "c = (base @ ''-'') @ cid" by simp
    moreover have "strings_Index cid CHR ''-'' = None" using assms by (simp add: valid_id_def strings_Index_None)
    ultimately show ?thesis using assms by (simp only: chain_container_id_def strings_HasPrefix_append strings_TrimPrefix_append) (simp add: valid_id_def)
  next
    case (2 r)
    then have "c = (base @ ''-'') @ (cid @ ''-'' @ r)" by simp
    moreover have "strings_Index (cid @ ''-'' @ r) CHR ''-'' = Some (length cid)"
      using assms strings_Index_append [of "CHR ''-''" cid r] by (simp add: valid_id_def)
    ultimately show ?thesis using assms by (simp only: chain_container_id_def strings_HasPrefix_append strings_TrimPrefix_append) (simp add: valid_id_def)
  qed
qed

end
