(* ===== verification/IPTables_Verdict.thy ===== *)
theory IPTables_Verdict
  imports IPTables_Semantics
begin

text \<open>
  The verdict the applied rules give a packet, against the policy the README describes for a
  rule set: blocklist first, then allowlist (through the rate limit, if there is one), then
  drop for the rule set's ports, else the next rule set and at last the default policy.

  \<open>arg_match\<close> says when a packet matches the arguments of a rule; the interface
  \<open>packet_match\<close> holds what the proof uses of it.
\<close>

section \<open>Packets and rules\<close>

record packet =
  p_proto :: string
  p_dport :: "16 word"
  p_src :: ip
  p_dst :: ip
  p_established :: bool
  p_under :: "string \<Rightarrow> bool"

text \<open>\<open>p_under\<close>: for each hashlimit table, whether the packet's source is still within its rate.\<close>

definition opt_match :: "packet \<Rightarrow> string \<Rightarrow> string \<Rightarrow> bool" where
  "opt_match p opt v =
     (if opt = ''-p'' then p_proto p = v
      else if opt = ''--dport'' then strconv_Itoa (unat (p_dport p)) = v
      else if opt = ''-s'' then
        (case net_ParseCIDR v of Some n \<Rightarrow> IPNet_Contains n (p_src p) | None \<Rightarrow> False)
      else if opt = ''-d'' then ip_String (p_dst p) = v
      else if opt = ''--ctstate'' then p_established p
      else if opt = ''--hashlimit-name'' then p_under p v
      else True)"

fun arg_match :: "packet \<Rightarrow> args \<Rightarrow> bool" where
  "arg_match p (opt # v # r) = (if opt = ''-j'' then True else opt_match p opt v \<and> arg_match p r)"
| "arg_match p _ = True"

section \<open>The intended verdict\<close>

definition src_in :: "packet \<Rightarrow> IPNet \<Rightarrow> bool" where
  "src_in p n \<longleftrightarrow> any_source (ipnet_String n) \<or> IPNet_Contains n (p_src p)"

definition set_verdict :: "packet \<Rightarrow> FirewallRuleSet \<Rightarrow> IPNet list \<Rightarrow> outcome option" where
  "set_verdict p rs auto =
     (let al = effective_allowlist rs auto in
      if p_proto p \<noteq> rs_proto rs \<or> p_dport p \<notin> set (rs_Ports rs) then None
      else if \<exists>n \<in> set (rs_Blocklist rs). net_IP n \<noteq> [] \<and> src_in p n then Some Drop
      else if \<exists>n \<in> set al. src_in p n then
        (if rs_RateLimit rs \<noteq> None \<and> \<not> p_under p (limit_name (rs_Name rs) (strconv_Itoa (unat (p_dport p))))
         then Some Drop else Some Accept)
      else if al \<noteq> [] then Some Drop
      else None)"

text \<open>The part of \<open>set_verdict\<close> for a packet of the rule set's protocol and ports.\<close>

definition match_verdict :: "packet \<Rightarrow> FirewallRuleSet \<Rightarrow> IPNet list \<Rightarrow> outcome option" where
  "match_verdict p rs auto =
     (let al = effective_allowlist rs auto in
      if \<exists>n \<in> set (rs_Blocklist rs). net_IP n \<noteq> [] \<and> src_in p n then Some Drop
      else if \<exists>n \<in> set al. src_in p n then
        (if rs_RateLimit rs \<noteq> None \<and> \<not> p_under p (limit_name (rs_Name rs) (strconv_Itoa (unat (p_dport p))))
         then Some Drop else Some Accept)
      else if al \<noteq> [] then Some Drop else None)"

lemma set_verdict_match:
  "set_verdict p rs auto =
     (if p_proto p = rs_proto rs \<and> p_dport p \<in> set (rs_Ports rs) then match_verdict p rs auto else None)"
  by (simp add: set_verdict_def match_verdict_def Let_def)

definition policy_verdict :: "string \<Rightarrow> outcome option" where
  "policy_verdict pol =
     (if pol = ''ACCEPT'' then Some Accept else if pol = ''DROP'' then Some Drop
      else if pol = ''RETURN'' then Some Return else None)"

fun container_verdict :: "packet \<Rightarrow> FirewallRuleSet list \<Rightarrow> IPNet list \<Rightarrow> string \<Rightarrow> outcome option" where
  "container_verdict p [] auto pol = policy_verdict pol"
| "container_verdict p (rs # rss) auto pol =
     (case set_verdict p rs auto of Some v \<Rightarrow> Some v | None \<Rightarrow> container_verdict p rss auto pol)"

section \<open>Verdicts of the generated rules\<close>

locale packet_match = rule_match norm m for norm :: "args \<Rightarrow> args" and m :: "args \<Rightarrow> bool" +
  fixes p :: packet and net_ok :: "IPNet \<Rightarrow> bool"
  assumes m_base: "m (base_match proto port srcs @ [''-j'', t]) \<longleftrightarrow> m (base_match proto port srcs)"
    and m_limit: "m (buildRateLimitRule proto port srcs name rl)
      \<longleftrightarrow> m (base_match proto port srcs) \<and> p_under p (limit_name name port)"
    and m_any: "m [''-j'', t]"
    and m_none: "any_source srcs \<Longrightarrow> m (base_match proto port srcs)
      \<longleftrightarrow> p_proto p = proto \<and> strconv_Itoa (unat (p_dport p)) = port"
    and m_net: "net_ok n \<Longrightarrow> \<not> any_source (ipnet_String n) \<Longrightarrow> m (base_match proto port (ipnet_String n))
      \<longleftrightarrow> p_proto p = proto \<and> strconv_Itoa (unat (p_dport p)) = port \<and> IPNet_Contains n (p_src p)"
begin

lemma base_match_iff:
  "net_ok n \<Longrightarrow> m (base_match proto port (ipnet_String n)) \<longleftrightarrow>
   p_proto p = proto \<and> strconv_Itoa (unat (p_dport p)) = port \<and> src_in p n"
  using m_none [of "ipnet_String n"] m_net [of n] by (cases "any_source (ipnet_String n)") (auto simp: src_in_def)

end

lemma jump_target_base [simp]: "jump_target (base_match proto port srcs @ r) = jump_target r"
  by (simp add: base_match_def)

lemma jump_target_build [simp]:
  "jump_target (buildRule proto port srcs act) = act"
  "jump_target (buildRateLimitRule proto port srcs name rl) = ''ACCEPT''"
  "jump_target (buildNflogRule proto port srcs lp act) = ''NFLOG''"
  by (simp_all add: buildRule_def buildRateLimitRule_def buildNflogRule_def Let_def)

lemma base_match_drop: "[''-p'', proto, ''--dport'', port, ''-j'', t] = buildRule proto port [] t"
  by (simp add: buildRule_def base_match_def any_source_def)

lemma run_log: "run_rules m u (map snd (log_call rs port srcs act) @ xs) = run_rules m u xs"
  by (simp add: log_call_def)

context packet_match
begin

lemma build_iff: "m (buildRule proto port srcs t) \<longleftrightarrow> m (base_match proto port srcs)"
  unfolding buildRule_def by (rule m_base)

lemma run_block:
  assumes "\<forall>n \<in> set bls. net_ok n"
  shows "run_rules m u (map snd (concat (map (block_calls rs port) bls)) @ xs) =
    (if p_proto p = rs_proto rs \<and> strconv_Itoa (unat (p_dport p)) = port
        \<and> (\<exists>n \<in> set bls. net_IP n \<noteq> [] \<and> src_in p n)
     then Some Drop else run_rules m u xs)"
  using assms
proof (induction bls)
  case (Cons b bls)
  show ?case
  proof (cases "net_IP b = []")
    case True
    then show ?thesis using Cons by (simp add: block_calls_def)
  next
    case False
    have "net_ok b" using Cons.prems by simp
    then show ?thesis using Cons False by (auto simp: block_calls_def run_log build_iff base_match_iff)
  qed
qed simp

lemma run_allow_one:
  assumes "net_ok a"
  shows "run_rules m u (map snd (allow_calls rs port a) @ xs) =
    (if p_proto p = rs_proto rs \<and> strconv_Itoa (unat (p_dport p)) = port \<and> src_in p a
     then (if rs_RateLimit rs \<noteq> None \<and> \<not> p_under p (limit_name (rs_Name rs) port) then Some Drop else Some Accept)
     else run_rules m u xs)"
proof (cases "rs_RateLimit rs")
  case None
  then show ?thesis
    using assms by (simp add: allow_calls_def Let_def run_log build_iff base_match_iff)
next
  case (Some rl)
  then show ?thesis
    using assms by (auto simp: allow_calls_def Let_def build_iff base_match_iff m_limit)
qed

lemma run_allow:
  assumes "\<forall>n \<in> set als. net_ok n"
  shows "run_rules m u (map snd (concat (map (allow_calls rs port) als)) @ xs) =
    (if p_proto p = rs_proto rs \<and> strconv_Itoa (unat (p_dport p)) = port \<and> (\<exists>n \<in> set als. src_in p n)
     then (if rs_RateLimit rs \<noteq> None \<and> \<not> p_under p (limit_name (rs_Name rs) port) then Some Drop else Some Accept)
     else run_rules m u xs)"
  using assms
proof (induction als)
  case (Cons a als)
  then show ?case by (auto simp: run_allow_one)
qed simp

lemma run_port:
  assumes "\<forall>n \<in> set (rs_Blocklist rs). net_ok n" "\<forall>n \<in> set al. net_ok n" "al = effective_allowlist rs auto"
  shows "run_rules m u (map snd (port_calls rs al port) @ xs) =
    (if p_proto p = rs_proto rs \<and> p_dport p = port
     then (case match_verdict p rs auto of Some v \<Rightarrow> Some v | None \<Rightarrow> run_rules m u xs)
     else run_rules m u xs)"
proof -
  have port: "strconv_Itoa (unat (p_dport p)) = strconv_Itoa (unat port) \<longleftrightarrow> p_dport p = port"
    using Itoa_inj by (auto simp: word_unat_eq_iff)
  have any: "m (buildRule proto po [] t) \<longleftrightarrow> p_proto p = proto \<and> strconv_Itoa (unat (p_dport p)) = po" for proto po t
    unfolding build_iff by (rule m_none) (simp add: any_source_def)
  show ?thesis
    unfolding port_calls_def Let_def map_append append.assoc run_block [OF assms(1)] run_allow [OF assms(2)] base_match_drop
    by (auto simp: run_log any port match_verdict_def assms(3) Let_def)
qed

lemma run_ports:
  assumes "\<forall>n \<in> set (rs_Blocklist rs). net_ok n" "\<forall>n \<in> set al. net_ok n" "al = effective_allowlist rs auto"
  shows "run_rules m u (map snd (concat (map (port_calls rs al) ports)) @ xs) =
    (case (if p_proto p = rs_proto rs \<and> p_dport p \<in> set ports then match_verdict p rs auto else None)
     of Some v \<Rightarrow> Some v | None \<Rightarrow> run_rules m u xs)"
proof (induction ports)
  case (Cons port ports)
  show ?case
    using Cons by (cases "match_verdict p rs auto")
      (auto simp: run_port [OF assms] split: if_splits)
qed simp

lemma run_ruleset:
  assumes "built norm [] (ruleset_calls rs auto) c"
    and "\<forall>n \<in> set (rs_Blocklist rs). net_ok n" "\<forall>n \<in> set (effective_allowlist rs auto). net_ok n"
  shows "run_rules m u c \<in> {set_verdict p rs auto, (if set_verdict p rs auto = None then Some Return else set_verdict p rs auto)}"
proof -
  let ?cs = "concat (map (port_calls rs (effective_allowlist rs auto)) (rs_Ports rs))"
  obtain c1 where c1: "built norm [] ?cs c1" "built norm c1 [(False, [''-j'', ''RETURN''])] c"
    using assms(1) by (auto simp: ruleset_calls_def built_append)
  have nf: "jump_target a = ''NFLOG''" if "(False, a) \<in> set ?cs" for a
    using that by (auto simp: port_calls_def block_calls_def allow_calls_def log_call_def Let_def
        split: if_splits option.splits)
  have "run_rules m u c1 = run_rules m u (map snd ?cs @ [])" using built_run [OF c1(1) nf] by simp
  then have r1: "run_rules m u c1 = set_verdict p rs auto"
    unfolding run_ports [OF assms(2,3) refl] by (auto simp: set_verdict_match split: option.splits)
  have "c = c1 \<or> c = add_unique norm c1 [''-j'', ''RETURN'']"
    using c1(2) by (auto elim!: built_ConsE built_NilE)
  then have "run_rules m u c = run_rules m u c1 \<or> run_rules m u c = run_rules m u (c1 @ [[''-j'', ''RETURN'']])"
    using run_add_unique by auto
  then show ?thesis using r1 m_any by (auto simp: run_rules_append split: option.splits)
qed

end

section \<open>Sources in CIDR text\<close>

lemma netip_ParseAddr_dotted: "length q = 4 \<Longrightarrow> netip_ParseAddr (dotted q) = Some (Addr4 q)"
proof -
  assume l: "length q = 4"
  then obtain a b c d where q: "q = [a, b, c, d]" using dotted_four by blast
  have "CHR ''.'' \<in> set (dotted q)" by (simp add: dotted_def q)
  then obtain x r where x: "dropWhile (\<lambda>c. c \<notin> {CHR ''.'', CHR '':'', CHR ''%''}) (dotted q) = x # r"
    by (cases "dropWhile (\<lambda>c. c \<notin> {CHR ''.'', CHR '':'', CHR ''%''}) (dotted q)")
      (auto simp: dropWhile_eq_Nil_conv)
  then have "x \<in> {CHR ''.'', CHR '':'', CHR ''%''}" "x \<in> set (dotted q)"
    by (metis (no_types, lifting) dropWhile_eq_Cons_conv, metis list.set_intros(1) set_dropWhileD)
  then show ?thesis
    using x parse_ipv4_dotted [OF l] dotted_chars [of x q]
    by (auto simp: netip_ParseAddr_def is_digit_def)
qed

lemma net_ParseCIDR_dotted:
  assumes "length q = 4" "l \<le> 32"
  shows "net_ParseCIDR (dotted q @ ''/'' @ strconv_Itoa l)
    = Some \<lparr>net_IP = ip_Mask (v4_prefix @ q) (CIDRMask l 32), net_Mask = CIDRMask l 32\<rparr>"
proof -
  have "CHR ''/'' \<notin> set (dotted q)" by (auto dest!: dotted_chars digit_not_special)
  then have "strings_Index (dotted q @ ''/'' @ strconv_Itoa l) CHR ''/'' = Some (length (dotted q))"
    using strings_Index_append [of "CHR ''/''" "dotted q" "strconv_Itoa l"] by simp
  then show ?thesis
    using assms netip_ParseAddr_dotted [OF assms(1)]
    by (simp add: net_ParseCIDR_def Itoa_digits Let_def)
qed

lemma simpleMaskLength_CIDRMask: "l \<le> 32 \<Longrightarrow> simpleMaskLength (CIDRMask l 32) = Some l"
proof -
  have "\<forall>l \<in> set [0..<33]. simpleMaskLength (CIDRMask l 32) = Some l"
    by (simp add: upt_rec CIDRMask_def mask_byte_def)
  then show "l \<le> 32 \<Longrightarrow> simpleMaskLength (CIDRMask l 32) = Some l" by simp
qed

definition v4net :: "IPNet \<Rightarrow> bool" where
  "v4net n \<longleftrightarrow> length (net_IP n) = 4 \<and> net_Mask n \<in> (\<lambda>l. CIDRMask l 32) ` {0..32}"

lemma ipnet_String_v4:
  assumes "length q = 4" "l \<le> 32"
  shows "ipnet_String \<lparr>net_IP = q, net_Mask = CIDRMask l 32\<rparr> = dotted q @ ''/'' @ strconv_Itoa l"
  using assms
  by (auto simp: ipnet_String_def networkNumberAndMask_def length_CIDRMask simpleMaskLength_CIDRMask ip_String_def)

lemma masked_eq:
  "length a = length m \<Longrightarrow> length b = length m \<Longrightarrow>
   list_all (\<lambda>((x, y), c). x AND c = y AND c) (zip (zip (map2 (\<lambda>x c. x AND c) a m) b) m)
   \<longleftrightarrow> list_all (\<lambda>((x, y), c). x AND c = y AND (c::byte)) (zip (zip a b) m)"
proof (induction a m arbitrary: b rule: list_induct2)
  case (Cons x xs c m)
  then show ?case by (cases b) (auto simp: and_and_same)
qed simp

lemma Contains_masked:
  assumes "length q = 4" "l \<le> 32"
  shows "IPNet_Contains \<lparr>net_IP = ip_Mask (v4_prefix @ q) (CIDRMask l 32), net_Mask = CIDRMask l 32\<rparr> s
    \<longleftrightarrow> IPNet_Contains \<lparr>net_IP = q, net_Mask = CIDRMask l 32\<rparr> s"
proof -
  have m: "length (CIDRMask l 32) = 4" using assms(2) by (simp add: length_CIDRMask)
  have ip: "ip_Mask (v4_prefix @ q) (CIDRMask l 32) = map2 (\<lambda>x c. x AND c) q (CIDRMask l 32)"
    using assms(1) m by (simp add: ip_Mask_def)
  show ?thesis
  proof (cases "To4 s")
    case None
    then show ?thesis
      using assms(1) m masked_eq [of q "CIDRMask l 32" s]
      by (auto simp: IPNet_Contains_def networkNumberAndMask_def ip Let_def)
  next
    case (Some x)
    then show ?thesis
      using assms(1) m masked_eq [of q "CIDRMask l 32" x] To4_length [OF Some]
      by (simp add: IPNet_Contains_def networkNumberAndMask_def ip Let_def)
  qed
qed

lemma source_match:
  assumes "v4net n"
  shows "opt_match p ''-s'' (ipnet_String n) \<longleftrightarrow> IPNet_Contains n (p_src p)"
proof -
  obtain l where l: "l \<le> 32" "net_Mask n = CIDRMask l 32" "length (net_IP n) = 4"
    using assms by (auto simp: v4net_def)
  then have n: "n = \<lparr>net_IP = net_IP n, net_Mask = CIDRMask l 32\<rparr>" by simp
  have "ipnet_String n = dotted (net_IP n) @ ''/'' @ strconv_Itoa l"
    by (subst n) (rule ipnet_String_v4 [OF l(3,1)])
  then show ?thesis
    using Contains_masked [OF l(3,1)] n by (simp add: opt_match_def net_ParseCIDR_dotted [OF l(3,1), simplified])
qed

section \<open>The matcher satisfies the interface\<close>

lemma arg_match_append_base:
  "arg_match p (base_match proto port srcs @ r) \<longleftrightarrow> arg_match p (base_match proto port srcs) \<and> arg_match p r"
  by (auto simp: base_match_def)

text \<open>
  The networks whose rules the IPv4 command takes: IPv4 networks, and the two networks that
  \<open>buildRule\<close> writes without a source (\<open>0.0.0.0/0\<close> and \<open>::/0\<close>).
\<close>

definition ipt_net :: "IPNet \<Rightarrow> bool" where
  "ipt_net n \<longleftrightarrow> any_source (ipnet_String n) \<or> v4net n"

lemma packet_match_args:
  assumes "rule_match norm (arg_match p)"
  shows "packet_match norm (arg_match p) p ipt_net"
proof (intro packet_match.intro assms packet_match_axioms.intro, goal_cases)
  case (1 proto port srcs t)
  then show ?case by (simp add: arg_match_append_base)
next
  case (2 proto port srcs name rl)
  then show ?case by (simp add: buildRateLimitRule_def arg_match_append_base opt_match_def)
next
  case (3 t)
  then show ?case by simp
next
  case (4 srcs proto port)
  then show ?case by (auto simp: base_match_def opt_match_def)
next
  case (5 n proto port)
  then show ?case
    using source_match [of n p] by (auto simp: ipt_net_def base_match_def opt_match_def [of p "''-p''"] opt_match_def [of p "''--dport''"])
qed

interpretation plain: packet_match "\<lambda>a. a" "arg_match p" p ipt_net
  by (rule packet_match_args) (unfold_locales, auto)

section \<open>The verdict of a container's chain\<close>

context packet_match
begin

lemma run_main:
  assumes "\<forall>rs \<in> set rss. \<exists>c. t (nm rs) = Some c \<and> built norm [] (ruleset_calls rs auto) c
      \<and> (\<forall>n \<in> set (rs_Blocklist rs). net_ok n) \<and> (\<forall>n \<in> set (effective_allowlist rs auto). net_ok n)
      \<and> nm rs \<notin> {''ACCEPT'', ''DROP'', ''RETURN'', ''NFLOG''}"
    and "policy_verdict pol \<noteq> None"
  shows "run_rules m (run_chain (Suc d) m t) (map (\<lambda>rs. [''-j'', nm rs]) rss @ [[''-j'', pol]])
    = container_verdict p rss auto pol"
  using assms(1)
proof (induction rss)
  case Nil
  then show ?case using assms(2) m_any by (auto simp: policy_verdict_def split: if_splits)
next
  case (Cons rs rss)
  obtain c where c: "t (nm rs) = Some c" "built norm [] (ruleset_calls rs auto) c"
    and ok: "\<forall>n \<in> set (rs_Blocklist rs). net_ok n" "\<forall>n \<in> set (effective_allowlist rs auto). net_ok n"
    and nm: "nm rs \<notin> {''ACCEPT'', ''DROP'', ''RETURN'', ''NFLOG''}"
    using Cons.prems by auto
  have call: "run_chain (Suc d) m t (nm rs) \<in> {set_verdict p rs auto,
      (if set_verdict p rs auto = None then Some Return else set_verdict p rs auto)}"
    using run_ruleset [OF c(2) ok, of "run_chain d m t"] by (simp add: c(1))
  have nr: "set_verdict p rs auto \<noteq> Some Return" by (auto simp: set_verdict_def Let_def)
  have "run_rules m (run_chain (Suc d) m t) ([''-j'', nm rs] # xs)
      = (case set_verdict p rs auto of Some v \<Rightarrow> Some v | None \<Rightarrow> run_rules m (run_chain (Suc d) m t) xs)" for xs
    using call nr nm m_any by (cases "set_verdict p rs auto") (auto simp del: run_chain.simps split: outcome.splits)
  then show ?case using Cons
    by (cases "set_verdict p rs auto") (simp_all del: run_chain.simps run_rules.simps(2))
qed

end

section \<open>Errors come from refused rules only\<close>

context iptables_api
begin

lemma AppendUnique_total:
  assumes "\<And>k c a. accepts k c a" "c \<in> dom (tbl k)"
  shows "\<exists>k'. ipt_AppendUnique ipt c a k = (None, k') \<and> dom (tbl k') = dom (tbl k)"
proof -
  obtain e k' where u: "ipt_AppendUnique ipt c a k = (e, k')" by (cases "ipt_AppendUnique ipt c a k")
  then show ?thesis using AppendUnique [OF u] AppendUnique_frame(2) [OF u] assms by auto
qed

lemma append_calls_total:
  assumes "\<And>k c a. accepts k c a"
  shows "c \<in> dom (tbl k) \<Longrightarrow> \<exists>k'. append_calls ipt c cs k = (None, k') \<and> dom (tbl k') = dom (tbl k)"
proof (induction cs arbitrary: k)
  case (Cons x cs)
  obtain s a where x: "x = (s, a)" by (cases x)
  obtain k1 where k1: "ipt_AppendUnique ipt c a k = (None, k1)" "dom (tbl k1) = dom (tbl k)"
    using AppendUnique_total [OF assms Cons.prems] by blast
  obtain k' where "append_calls ipt c cs k1 = (None, k')" "dom (tbl k') = dom (tbl k1)"
    using Cons.IH [of k1] Cons.prems k1(2) by auto
  then show ?case using k1 by (simp add: x)
qed simp

lemma append_jumps_total:
  assumes "\<And>k c a. accepts k c a"
  shows "base \<in> dom (tbl k) \<Longrightarrow> \<exists>k'. append_jumps ipt base main ps k = (None, k') \<and> dom (tbl k') = dom (tbl k)"
proof (induction ps arbitrary: k)
  case (Cons p ps)
  obtain k1 where k1: "ipt_AppendUnique ipt base [''-d'', ip_String p, ''-j'', main] k = (None, k1)" "dom (tbl k1) = dom (tbl k)"
    using AppendUnique_total [OF assms Cons.prems] by blast
  obtain k' where "append_jumps ipt base main ps k1 = (None, k')" "dom (tbl k') = dom (tbl k1)"
    using Cons.IH [of k1] Cons.prems k1(2) by auto
  then show ?case using k1 by (simp add: must_def)
qed simp

lemma apply_sets_total:
  assumes "\<And>k c a. accepts k c a"
  shows "main \<in> dom (tbl k) \<Longrightarrow> \<exists>k'. apply_sets b ipt cid main auto rss k = (None, k') \<and> dom (tbl k) \<subseteq> dom (tbl k')"
proof (induction rss arbitrary: k)
  case (Cons rs rss)
  let ?c = "ruleSetChainName b cid (rs_Name rs)"
  let ?k2 = "ignore (ipt_ClearChain ipt ?c (ignore (ipt_NewChain ipt ?c k)))"
  have d2: "dom (tbl ?k2) = insert ?c (dom (tbl k))" by (simp add: fresh_chain)
  then have "?c \<in> dom (tbl ?k2)" by simp
  then obtain k3 where k3: "append_calls ipt ?c (ruleset_calls rs auto) ?k2 = (None, k3)" "dom (tbl k3) = dom (tbl ?k2)"
    using append_calls_total [OF assms, of ?c ?k2 "ruleset_calls rs auto"] by blast
  then have "main \<in> dom (tbl k3)" using d2 Cons.prems by simp
  then obtain k4 where k4: "ipt_AppendUnique ipt main [''-j'', ?c] k3 = (None, k4)" "dom (tbl k4) = dom (tbl k3)"
    using AppendUnique_total [OF assms, of main k3] by blast
  obtain k' where "apply_sets b ipt cid main auto rss k4 = (None, k')" "dom (tbl k4) \<subseteq> dom (tbl k')"
    using Cons.IH [of k4] \<open>main \<in> dom (tbl k3)\<close> k4(2) by auto
  then show ?case using k3 k4 d2 by (auto simp: Let_def fillRuleSetChain_def must_def)
qed simp

lemma ApplyContainerRules_total:
  assumes "\<And>k c a. accepts k c a" "chainName b \<in> dom (tbl k)"
  shows "\<exists>k'. ApplyContainerRules b ipt cid ips rss pol auto k = (None, k')"
proof -
  let ?main = "containerChainName b cid"
  have "chainName b \<in> dom (tbl (prepare_main ipt ?main k))" using assms(2) by (simp add: prepare_main_tbl domIff)
  then obtain k2 where k2: "append_jumps ipt (chainName b) ?main ips (prepare_main ipt ?main k) = (None, k2)"
    "dom (tbl k2) = dom (tbl (prepare_main ipt ?main k))" using append_jumps_total [OF assms(1)] by blast
  then have "?main \<in> dom (tbl k2)" by (simp add: prepare_main_tbl)
  then obtain k3 where k3: "apply_sets b ipt cid ?main auto rss k2 = (None, k3)" "?main \<in> dom (tbl k3)"
    using apply_sets_total [OF assms(1)] by blast
  obtain k4 where "ipt_AppendUnique ipt ?main [''-j'', pol] k3 = (None, k4)"
    using AppendUnique_total [OF assms(1) k3(2)] by blast
  then show ?thesis using k2 k3 by (simp add: ApplyContainerRules_def Let_def must_def)
qed

end

lemma ruleSetChainName_not_builtin:
  "short_base b \<Longrightarrow> ruleSetChainName b cid n \<notin> {''ACCEPT'', ''DROP'', ''RETURN'', ''NFLOG''}"
proof -
  assume "short_base b"
  then obtain r where "ruleSetChainName b cid n = containerChainName b cid @ ''-'' @ r"
    using ruleSetChainName_prefix by blast
  then have "CHR ''-'' \<in> set (ruleSetChainName b cid n)" by simp
  then show ?thesis by auto
qed

lemma container_chains_apart:
  assumes "short_base b"
  shows "chainName b \<noteq> containerChainName b cid" "chainName b \<notin> set (set_names b cid rss)"
    "containerChainName b cid \<notin> set (set_names b cid rss)"
proof -
  have c: "containerChainName b cid = chainName b @ ''-'' @ truncate_str 12 cid"
    by (rule containerChainName_eq [OF assms])
  then show "chainName b \<noteq> containerChainName b cid" by simp
  have n: "\<exists>r. x = containerChainName b cid @ ''-'' @ r" if "x \<in> set (set_names b cid rss)" for x
    using that ruleSetChainName_prefix [OF assms, of cid] by (auto simp: set_names_def)
  show "chainName b \<notin> set (set_names b cid rss)" "containerChainName b cid \<notin> set (set_names b cid rss)"
    using n [of "chainName b"] n [of "containerChainName b cid"] by (auto simp: c)
qed

lemma ApplyContainerRules_run:
  assumes "ApplyContainerRules b (mem_ipt norm accepts) cid ips rss pol auto k = (None, k')"
    and "length (chainName b) \<le> 14" and "rule_match norm (arg_match p)"
    and "\<forall>rs \<in> set rss. \<forall>n \<in> set (rs_Blocklist rs) \<union> set (effective_allowlist rs auto). ipt_net n"
    and "pol \<in> {''ACCEPT'', ''DROP'', ''RETURN''}"
  shows "run_chain (Suc (Suc d)) (arg_match p) (map_of k') (containerChainName b cid)
    = container_verdict p (enforced_sets b cid rss) auto pol"
proof -
  let ?nm = "\<lambda>rs. ruleSetChainName b cid (rs_Name rs)" and ?rss = "enforced_sets b cid rss"
  have sb: "short_base b" using assms(2) by (simp add: short_base_def)
  note pm = packet_match_args [OF assms(3)]
  note ok = mem.ApplyContainerRules_built [OF assms(1) container_chains_apart [OF sb]]
  obtain ms where ms: "map_of k' (containerChainName b cid) = Some ms"
    "built norm [] (map (\<lambda>n. (True, [''-j'', n])) (set_names b cid rss) @ [(True, [''-j'', pol])]) ms" using ok(1) by blast
  have sets: "\<forall>rs \<in> set ?rss. \<exists>c. map_of k' (?nm rs) = Some c \<and> built norm [] (ruleset_calls rs auto) c
      \<and> (\<forall>n \<in> set (rs_Blocklist rs). ipt_net n) \<and> (\<forall>n \<in> set (effective_allowlist rs auto). ipt_net n)
      \<and> ?nm rs \<notin> {''ACCEPT'', ''DROP'', ''RETURN'', ''NFLOG''}"
  proof
    fix rs assume rs: "rs \<in> set ?rss"
    then obtain n where n: "n \<in> set (set_names b cid rss)" "rs = last_named b cid rss n" by (auto simp: enforced_sets_def)
    then obtain c where c: "built norm [] (ruleset_calls rs auto) c" "map_of k' n = Some c" using ok(2) by blast
    moreover have "?nm rs = n" using last_named_props(2) [OF n(1)] n(2) by simp
    moreover have "rs \<in> set rss" using rs set_enforced_sets by blast
    ultimately show "\<exists>c. map_of k' (?nm rs) = Some c \<and> built norm [] (ruleset_calls rs auto) c
      \<and> (\<forall>n \<in> set (rs_Blocklist rs). ipt_net n) \<and> (\<forall>n \<in> set (effective_allowlist rs auto). ipt_net n)
      \<and> ?nm rs \<notin> {''ACCEPT'', ''DROP'', ''RETURN'', ''NFLOG''}"
      using assms(4) ruleSetChainName_not_builtin [OF sb, of cid] by blast
  qed
  have "run_rules (arg_match p) u ms
      = run_rules (arg_match p) u (map (\<lambda>n. [''-j'', n]) (set_names b cid rss) @ [[''-j'', pol]])" for u
    using rule_match.built_run [OF assms(3) ms(2)] by (auto simp: comp_def)
  moreover have "map (\<lambda>n. [''-j'', n]) (set_names b cid rss) = map (\<lambda>rs. [''-j'', ?nm rs]) ?rss"
    using arg_cong [OF set_names_enforced [of b cid rss], of "map (\<lambda>n. [''-j'', n])"]
    by (simp add: set_names_def comp_def)
  moreover have "policy_verdict pol \<noteq> None" using assms(5) by (auto simp: policy_verdict_def)
  ultimately show ?thesis
    using packet_match.run_main [OF pm sets, of pol d] by (simp add: ms(1))
qed

lemma ruleSetChainName_short:
  assumes "length (chainName b) + length n \<le> 14"
  shows "ruleSetChainName b cid n = chainName b @ ''-'' @ truncate_str 12 cid @ ''-'' @ n"
proof -
  have "length (chainName b @ ''-'' @ truncate_str 12 cid @ ''-'' @ n) \<le> 28"
    using assms length_truncate [of 12 cid] by simp
  then show ?thesis
    by (simp add: ruleSetChainName_def Let_def iptablesMaxChainLen_def ContainerIDShortLen_def truncate_str_def)
qed

lemma short_names_enforced:
  assumes "distinct (map rs_Name rss)" "\<forall>rs \<in> set rss. length (chainName b) + length (rs_Name rs) \<le> 14"
  shows "enforced_sets b cid rss = rss"
proof (rule enforced_sets_distinct)
  have "inj_on (\<lambda>rs. ruleSetChainName b cid (rs_Name rs)) (set rss)"
    using assms by (auto simp: inj_on_def ruleSetChainName_short distinct_map)
  then show "distinct (set_names b cid rss)" using assms(1) by (simp add: set_names_def distinct_map)
qed

lemma ruleSetChainName_full:
  assumes "length (chainName b) = 14" "12 \<le> length cid"
  shows "ruleSetChainName b cid n = chainName b @ ''-'' @ take 12 cid @ ''-''"
proof -
  obtain x where "ruleSetChainName b cid n = containerChainName b cid @ ''-'' @ x"
    using ruleSetChainName_prefix [of b cid n] assms(1) by (auto simp: short_base_def)
  then have "ruleSetChainName b cid n = (chainName b @ ''-'' @ take 12 cid @ ''-'') @ x"
    using assms by (simp add: containerChainName_eq short_base_def truncate_str_def)
  moreover have "length (ruleSetChainName b cid n) \<le> 28"
    unfolding ruleSetChainName_def Let_def iptablesMaxChainLen_def by (rule length_truncate)
  ultimately show ?thesis using assms by simp
qed

lemma enforced_sets_full:
  assumes "length (chainName b) = 14" "12 \<le> length cid"
  shows "enforced_sets b cid rss = replicate (length rss) (last rss)"
proof (cases "rss = []")
  case False
  have "last_named b cid rss (chainName b @ ''-'' @ take 12 cid @ ''-'') = last rss"
    by (simp add: last_named_def ruleSetChainName_full [OF assms])
  then show ?thesis
    by (simp add: enforced_sets_def set_names_def ruleSetChainName_full [OF assms] map_replicate_const comp_def)
qed (simp add: enforced_sets_def)

lemma container_verdict_replicate:
  "container_verdict p (replicate (Suc n) rs) auto pol = container_verdict p [rs] auto pol"
  by (induction n) (auto split: option.splits)

section \<open>Properties\<close>

text \<open>
  C1. Correctness of the applied rules. When \<open>ApplyContainerRules\<close> succeeds, every packet that
  enters the container's chain gets exactly the verdict of the enforced rule sets: rule set by
  rule set in order, for a packet of the set's protocol and one of its ports, drop if its source is
  blocked, else accept if it is allowed (drop if over the rate limit), else drop if the set
  has any allowlist, else go on; after the last set the default policy decides. Rule sets
  whose truncated and hashed chain names collide share one chain that holds the rules of the
  last of them; the enforced sets are the given ones when the chain names are distinct, in
  particular when the set names are distinct and, with the base chain, at most 14 characters
  long; with a base chain of 14 characters only the last rule set is enforced. Rules the
  kernel already has are not repeated, refused log rules are skipped, and the rules may be
  stored in any normal form that keeps what they match and where they jump. Assumed: the networks
  are IPv4 networks or \<open>::/0\<close>, the base chain has at most 14 characters (beyond that the chain of a rule
  set is the main chain itself), and clearing a chain does not fail (the code ignores that error).
\<close>

theorem ApplyContainerRules_verdict:
  assumes "ApplyContainerRules b (mem_ipt norm accepts) cid ips rss pol auto k = (None, k')"
    and "length (chainName b) \<le> 14" and "rule_match norm (arg_match p)"
    and "\<forall>rs \<in> set rss. \<forall>n \<in> set (rs_Blocklist rs) \<union> set (effective_allowlist rs auto). ipt_net n"
    and "pol \<in> {''ACCEPT'', ''DROP'', ''RETURN''}"
  shows "run_chain (Suc (Suc d)) (arg_match p) (map_of k') (containerChainName b cid)
      = container_verdict p (enforced_sets b cid rss) auto pol
    \<and> (distinct (set_names b cid rss) \<longrightarrow> enforced_sets b cid rss = rss)
    \<and> (distinct (map rs_Name rss) \<and> (\<forall>rs \<in> set rss. length (chainName b) + length (rs_Name rs) \<le> 14)
        \<longrightarrow> enforced_sets b cid rss = rss)
    \<and> (length (chainName b) = 14 \<and> 12 \<le> length cid \<longrightarrow> enforced_sets b cid rss = replicate (length rss) (last rss))"
  using ApplyContainerRules_run [OF assms] enforced_sets_distinct short_names_enforced enforced_sets_full by blast

definition demo_backend :: IPTablesBackend where
  "demo_backend = \<lparr>chainName = ''FIREFIK'', parentChain = ''DOCKER-USER'', stateful = True\<rparr>"

theorem ApplyContainerRules_verdict_witness:
  "\<exists>k'. ApplyContainerRules demo_backend (mem_ipt (\<lambda>a. a) (\<lambda>_ _ _. True)) ''0123456789ab'' [[172, 17, 0, 2]]
       [(empty_ruleset ''web'')\<lparr>rs_Ports := [80], rs_Allowlist := [\<lparr>net_IP = [10, 0, 0, 0], net_Mask = CIDRMask 8 32\<rparr>]\<rparr>]
       ''RETURN'' [] [(''FIREFIK'', [])] = (None, k')
     \<and> run_chain 2 (arg_match \<lparr>p_proto = ''tcp'', p_dport = 80, p_src = [192, 0, 2, 1], p_dst = [172, 17, 0, 2],
           p_established = False, p_under = \<lambda>_. True\<rparr>) (map_of k') (containerChainName demo_backend ''0123456789ab'')
       = container_verdict \<lparr>p_proto = ''tcp'', p_dport = 80, p_src = [192, 0, 2, 1], p_dst = [172, 17, 0, 2],
           p_established = False, p_under = \<lambda>_. True\<rparr>
           [(empty_ruleset ''web'')\<lparr>rs_Ports := [80], rs_Allowlist := [\<lparr>net_IP = [10, 0, 0, 0], net_Mask = CIDRMask 8 32\<rparr>]\<rparr>] [] ''RETURN''"
proof -
  let ?rs = "(empty_ruleset ''web'')\<lparr>rs_Ports := [80], rs_Allowlist := [\<lparr>net_IP = [10, 0, 0, 0], net_Mask = CIDRMask 8 32\<rparr>]\<rparr>"
  let ?p = "\<lparr>p_proto = ''tcp'', p_dport = 80, p_src = [192, 0, 2, 1], p_dst = [172, 17, 0, 2],
           p_established = False, p_under = \<lambda>_. True\<rparr>"
  have "chainName demo_backend \<in> dom (map_of [(''FIREFIK'', [] :: string list list)])" by (simp add: demo_backend_def)
  then obtain k' where k': "ApplyContainerRules demo_backend (mem_ipt (\<lambda>a. a) (\<lambda>_ _ _. True)) ''0123456789ab'' [[172, 17, 0, 2]]
      [?rs] ''RETURN'' [] [(''FIREFIK'', [])] = (None, k')"
    using mem.ApplyContainerRules_total [where norm = "\<lambda>a. a" and accepts = "\<lambda>_ _ _. True"
        and b = demo_backend and k = "[(''FIREFIK'', [])]"] by blast
  have e: "enforced_sets demo_backend ''0123456789ab'' [?rs] = [?rs]"
    by (rule enforced_sets_distinct) simp
  have "rule_match (\<lambda>a. a) (arg_match ?p)" by unfold_locales auto
  from ApplyContainerRules_verdict [OF k' _ this, of 0] e k' show ?thesis
    by (auto simp: demo_backend_def effective_allowlist_def ipt_net_def v4net_def numeral_2_eq_2 empty_ruleset_def)
qed

text \<open>
  Rule sets lost to a long base chain. With a base chain of 14 characters (for example
  \<open>FIREFIK-canary\<close>, the base chain under \<open>FIREFIK_CHAIN_SUFFIX=canary\<close>) every rule set of a
  container is given the same chain name. A successful \<open>ApplyContainerRules\<close> then leaves the
  last rule set alone in force: the packet gets the verdict of the last set and the default
  policy, whatever the blocklists, allowlists and limits of the sets before it.
\<close>

theorem colliding_sets_lost:
  assumes "ApplyContainerRules b (mem_ipt norm accepts) cid ips rss pol auto k = (None, k')"
    and "length (chainName b) = 14" and "12 \<le> length cid" and "rss \<noteq> []" and "rule_match norm (arg_match p)"
    and "\<forall>rs \<in> set rss. \<forall>n \<in> set (rs_Blocklist rs) \<union> set (effective_allowlist rs auto). ipt_net n"
    and "pol \<in> {''ACCEPT'', ''DROP'', ''RETURN''}"
  shows "run_chain (Suc (Suc d)) (arg_match p) (map_of k') (containerChainName b cid)
    = container_verdict p [last rss] auto pol"
proof -
  obtain n where "length rss = Suc n" using assms(4) by (cases rss) auto
  then have "container_verdict p (enforced_sets b cid rss) auto pol = container_verdict p [last rss] auto pol"
    using enforced_sets_full [OF assms(2,3), of rss] container_verdict_replicate by simp
  then show ?thesis using ApplyContainerRules_run [OF assms(1) _ assms(5-7)] assms(2) by simp
qed

theorem colliding_sets_lost_witness:
  "\<exists>k'. ApplyContainerRules \<lparr>chainName = ''FIREFIK-canary'', parentChain = ''DOCKER-USER'', stateful = True\<rparr>
       (mem_ipt (\<lambda>a. a) (\<lambda>_ _ _. True)) ''0123456789ab'' [[172, 17, 0, 2]]
       [(empty_ruleset ''web'')\<lparr>rs_Ports := [80], rs_Blocklist := [\<lparr>net_IP = [192, 0, 2, 0], net_Mask = CIDRMask 24 32\<rparr>]\<rparr>,
        (empty_ruleset ''metrics'')\<lparr>rs_Ports := [9100], rs_Allowlist := [\<lparr>net_IP = [10, 0, 0, 0], net_Mask = CIDRMask 8 32\<rparr>]\<rparr>]
       ''ACCEPT'' [] [(''FIREFIK-canary'', [])] = (None, k')
     \<and> run_chain 2 (arg_match \<lparr>p_proto = ''tcp'', p_dport = 80, p_src = [192, 0, 2, 1], p_dst = [172, 17, 0, 2],
           p_established = False, p_under = \<lambda>_. True\<rparr>) (map_of k')
         (containerChainName \<lparr>chainName = ''FIREFIK-canary'', parentChain = ''DOCKER-USER'', stateful = True\<rparr> ''0123456789ab'')
       = Some Accept
     \<and> container_verdict \<lparr>p_proto = ''tcp'', p_dport = 80, p_src = [192, 0, 2, 1], p_dst = [172, 17, 0, 2],
           p_established = False, p_under = \<lambda>_. True\<rparr>
         [(empty_ruleset ''web'')\<lparr>rs_Ports := [80], rs_Blocklist := [\<lparr>net_IP = [192, 0, 2, 0], net_Mask = CIDRMask 24 32\<rparr>]\<rparr>,
          (empty_ruleset ''metrics'')\<lparr>rs_Ports := [9100], rs_Allowlist := [\<lparr>net_IP = [10, 0, 0, 0], net_Mask = CIDRMask 8 32\<rparr>]\<rparr>]
         [] ''ACCEPT'' = Some Drop"
proof -
  let ?b = "\<lparr>chainName = ''FIREFIK-canary'', parentChain = ''DOCKER-USER'', stateful = True\<rparr>"
  let ?w = "(empty_ruleset ''web'')\<lparr>rs_Ports := [80], rs_Blocklist := [\<lparr>net_IP = [192, 0, 2, 0], net_Mask = CIDRMask 24 32\<rparr>]\<rparr>"
  let ?m = "(empty_ruleset ''metrics'')\<lparr>rs_Ports := [9100], rs_Allowlist := [\<lparr>net_IP = [10, 0, 0, 0], net_Mask = CIDRMask 8 32\<rparr>]\<rparr>"
  let ?p = "\<lparr>p_proto = ''tcp'', p_dport = 80, p_src = [192, 0, 2, 1], p_dst = [172, 17, 0, 2],
           p_established = False, p_under = \<lambda>_. True\<rparr>"
  have "chainName ?b \<in> dom (map_of [(''FIREFIK-canary'', [] :: string list list)])" by simp
  then obtain k' where k': "ApplyContainerRules ?b (mem_ipt (\<lambda>a. a) (\<lambda>_ _ _. True)) ''0123456789ab'' [[172, 17, 0, 2]]
      [?w, ?m] ''ACCEPT'' [] [(''FIREFIK-canary'', [])] = (None, k')"
    using mem.ApplyContainerRules_total [where norm = "\<lambda>a. a" and accepts = "\<lambda>_ _ _. True"
        and b = ?b and k = "[(''FIREFIK-canary'', [])]"] by blast
  have "IPNet_Contains \<lparr>net_IP = [192, 0, 2, 0], net_Mask = CIDRMask 24 32\<rparr> (p_src ?p)"
    by (simp add: IPNet_Contains_def networkNumberAndMask_def CIDRMask_def To4_def upt_rec)
  then have v: "container_verdict ?p [?m] [] ''ACCEPT'' = Some Accept" "container_verdict ?p [?w, ?m] [] ''ACCEPT'' = Some Drop"
    by (simp_all add: set_verdict_def policy_verdict_def rs_proto_def empty_ruleset_def src_in_def)
  have "rule_match (\<lambda>a. a) (arg_match ?p)" by unfold_locales auto
  from colliding_sets_lost [OF k' _ _ _ this, of 0] v k' show ?thesis
    by (auto simp: effective_allowlist_def ipt_net_def v4net_def numeral_2_eq_2 empty_ruleset_def)
qed

text \<open>
  When \<open>RemoveContainerChains\<close> succeeds, no chain of the container is left (neither its main
  chain nor any rule set chain), whatever the order in which the chains are listed; and in
  every case, success or not, chains of other containers and of the system keep their rules.
\<close>

theorem RemoveContainerChains_clean:
  assumes "RemoveContainerChains b (mem_ipt norm accepts) cid k = (e, k')"
  shows "(e = None \<and> owned (containerChainName b cid) c \<longrightarrow> map_of k' c = None)
    \<and> (c \<noteq> chainName b \<and> \<not> owned (containerChainName b cid) c \<longrightarrow> map_of k' c = map_of k c)"
  using mem.RemoveContainerChains_gone [of b norm accepts cid k k' c]
    mem.RemoveContainerChains_frame(1) [OF assms, of c] assms by auto

theorem RemoveContainerChains_clean_witness:
  "map_of (snd (RemoveContainerChains demo_backend (mem_ipt (\<lambda>a. a) (\<lambda>_ _ _. True)) ''0123456789ab''
     [(''FIREFIK'', []), (''OTHER'', [[''-j'', ''DROP'']])])) ''OTHER'' = Some [[''-j'', ''DROP'']]"
proof -
  let ?r = "RemoveContainerChains demo_backend (mem_ipt (\<lambda>a. a) (\<lambda>_ _ _. True)) ''0123456789ab''
     [(''FIREFIK'', []), (''OTHER'', [[''-j'', ''DROP'']])]"
  have "?r = (fst ?r, snd ?r)" by simp
  from RemoveContainerChains_clean [OF this, of "''OTHER''"] show ?thesis
    by (simp add: demo_backend_def owned_def containerChainName_def truncate_str_def strings_HasPrefix_def
        iptablesMaxChainLen_def ContainerIDShortLen_def)
qed

end
