(* ===== verification/Rules_Engine.thy ===== *)
theory Rules_Engine
  imports IPTables_Verdict
begin

text \<open>
  The rule engine, \<open>backend/internal/rules/engine.go\<close> and \<open>engine_host.go\<close>: the state that
  \<open>Engine\<close> keeps, the operations on it, and the interface \<open>Backend\<close> (\<open>backend.go\<close>) through which
  it changes the kernel.

  Every method holds the engine's mutex while it changes the state, so a method is one
  transition. The two backends act on separate kernel tables (iptables and ip6tables), the
  fields \<open>e_kernel\<close> and \<open>e_kernel6\<close>. Go maps are association lists with one entry per key. What a
  call reads from outside the engine is the record \<open>world\<close>: the rules file, the Docker daemon,
  the clock, the time zones and the order in which Go ranges over a map. Metrics, traces and
  timeouts are left out; of the log only the error records are kept, because callers have
  no other way to see these failures.
\<close>

section \<open>The backend interface\<close>

record 'k Backend =
  be_SetupChains :: "'k \<Rightarrow> backend_error option \<times> 'k"
  be_Cleanup :: "'k \<Rightarrow> backend_error option \<times> 'k"
  be_ApplyContainerRules ::
    "string \<Rightarrow> string \<Rightarrow> ip list \<Rightarrow> FirewallRuleSet list \<Rightarrow> string \<Rightarrow> IPNet list \<Rightarrow> 'k \<Rightarrow> backend_error option \<times> 'k"
  be_RemoveContainerChains :: "string \<Rightarrow> 'k \<Rightarrow> backend_error option \<times> 'k"
  be_ApplyHostRules :: "HostRule list \<Rightarrow> string \<Rightarrow> 'k \<Rightarrow> backend_error option \<times> 'k"
  be_RemoveHostChain :: "'k \<Rightarrow> backend_error option \<times> 'k"
  be_ListAppliedContainerIDs :: "'k \<Rightarrow> backend_error + string list"
  be_Healthy :: "'k \<Rightarrow> backend_error option \<times> HealthReport"

definition iptables_Backend :: "IPTablesBackend \<Rightarrow> 'k ipt \<Rightarrow> 'k Backend" where
  "iptables_Backend b ipt =
     \<lparr>be_SetupChains = SetupChains b ipt,
      be_Cleanup = Cleanup b ipt,
      be_ApplyContainerRules = (\<lambda>cid cname. ApplyContainerRules b ipt cid),
      be_RemoveContainerChains = RemoveContainerChains b ipt,
      be_ApplyHostRules = ApplyHostRules b ipt,
      be_RemoveHostChain = RemoveHostChain b ipt,
      be_ListAppliedContainerIDs = ListAppliedContainerIDs b ipt,
      be_Healthy = Healthy b ipt\<rparr>"

section \<open>State\<close>

datatype audit_event =
    AuditReconcileStarted string
  | AuditRulesApplied string string "ip list" nat string string
  | AuditRulesRemoved string string
  | AuditDriftDetected string nat nat

datatype engine_error =
    RulesFileError config_error
  | ListContainersError string
  | InspectError string string
  | ContainerNotFound string
  | GeoIPFailClosed string geo_error
  | PreCleanupError string backend_error
  | ApplyError string string backend_error
  | RemoveError backend_error
  | RehydrateError backend_error
  | ListKernelError backend_error
  | HostApplyError string backend_error

datatype log_record =
    LogApplyFailed string engine_error
  | LogRemoveFailed string engine_error
  | LogHostFailed engine_error
  | LogRollbackFailed string backend_error

record 'k Engine =
  e_backend :: "'k Backend"
  e_ip6backend :: "'k Backend option"
  e_inetBackend :: bool
  e_geoDB :: "geo_db option"
  e_auditLog :: "audit_event list option"
  e_cfg :: Config
  e_applied :: "(string \<times> ContainerConfig) list"
  e_templates :: "string \<rightharpoonup> RuleTemplate"
  e_policies :: "string \<rightharpoonup> Policy"
  e_appliedHostRules :: "FileHostRuleSet list"
  e_appliedHostDef :: string
  e_containerIP :: "(string \<times> string) list"
  e_kernel :: 'k
  e_kernel6 :: 'k
  e_log :: "log_record list"

record world =
  w_readFile :: "string \<Rightarrow> read_result"
  w_unmarshal :: "string \<Rightarrow> string + RulesFile"
  w_iter :: "rawSets \<Rightarrow> rawSets"
  w_LoadLocation :: "string \<Rightarrow> location option"
  w_civil :: "location \<Rightarrow> int \<Rightarrow> civil"
  w_now :: int
  w_containers :: "string + ContainerInfo list"
  w_inspect :: "string \<Rightarrow> string + ContainerInfo option"
  w_range :: "string list \<Rightarrow> string list"

definition NewEngine :: "'k Backend \<Rightarrow> Config \<Rightarrow> 'k \<Rightarrow> 'k \<Rightarrow> 'k Engine" where
  "NewEngine backend cfg k k6 =
     \<lparr>e_backend = backend, e_ip6backend = None, e_inetBackend = False, e_geoDB = None, e_auditLog = None,
      e_cfg = cfg, e_applied = [], e_templates = Map.empty, e_policies = Map.empty,
      e_appliedHostRules = [], e_appliedHostDef = [], e_containerIP = [], e_kernel = k, e_kernel6 = k6, e_log = []\<rparr>"

definition SetPolicies :: "(string \<rightharpoonup> Policy) option \<Rightarrow> 'k Engine \<Rightarrow> 'k Engine" where
  "SetPolicies p e = e\<lparr>e_policies := (case p of None \<Rightarrow> Map.empty | Some m \<Rightarrow> m)\<rparr>"

definition SetTemplates :: "(string \<rightharpoonup> RuleTemplate) option \<Rightarrow> 'k Engine \<Rightarrow> 'k Engine" where
  "SetTemplates t e = e\<lparr>e_templates := (case t of None \<Rightarrow> Map.empty | Some m \<Rightarrow> m)\<rparr>"

definition SetIP6Backend :: "'k Backend option \<Rightarrow> 'k Engine \<Rightarrow> 'k Engine" where
  "SetIP6Backend b e = e\<lparr>e_ip6backend := b\<rparr>"

definition SetInetBackend :: "bool \<Rightarrow> 'k Engine \<Rightarrow> 'k Engine" where
  "SetInetBackend v e = e\<lparr>e_inetBackend := v\<rparr>"

definition SetGeoDB :: "geo_db option \<Rightarrow> 'k Engine \<Rightarrow> 'k Engine" where
  "SetGeoDB db e = e\<lparr>e_geoDB := db\<rparr>"

definition SetAuditLogger :: "audit_event list option \<Rightarrow> 'k Engine \<Rightarrow> 'k Engine" where
  "SetAuditLogger l e = e\<lparr>e_auditLog := l\<rparr>"

definition GetApplied :: "'k Engine \<Rightarrow> (string \<times> ContainerConfig) list" where
  "GetApplied e = e_applied e"

definition GetHostRules :: "'k Engine \<Rightarrow> FileHostRuleSet list \<times> string" where
  "GetHostRules e = (e_appliedHostRules e, e_appliedHostDef e)"

definition audit :: "audit_event \<Rightarrow> 'k Engine \<Rightarrow> 'k Engine" where
  "audit ev e = e\<lparr>e_auditLog := map_option (\<lambda>l. l @ [ev]) (e_auditLog e)\<rparr>"

definition log_error :: "log_record \<Rightarrow> 'k Engine \<Rightarrow> 'k Engine" where
  "log_error r e = e\<lparr>e_log := e_log e @ [r]\<rparr>"

section \<open>Addresses of containers\<close>

definition drop_ips :: "string \<Rightarrow> (string \<times> string) list \<Rightarrow> (string \<times> string) list" where
  "drop_ips sid m = filter (\<lambda>(ip, existing). existing \<noteq> sid) m"

definition setContainerIPs :: "string \<Rightarrow> ip list \<Rightarrow> 'k Engine \<Rightarrow> 'k Engine" where
  "setContainerIPs sid ips e =
     e\<lparr>e_containerIP := fold (\<lambda>p m. if p = [] then m else AList.update (ip_String p) sid m) ips
        (drop_ips sid (e_containerIP e))\<rparr>"

definition dropContainerIPs :: "string \<Rightarrow> 'k Engine \<Rightarrow> 'k Engine" where
  "dropContainerIPs sid e = e\<lparr>e_containerIP := drop_ips sid (e_containerIP e)\<rparr>"

definition ContainerIDByIP :: "'k Engine \<Rightarrow> string \<Rightarrow> string" where
  "ContainerIDByIP e ip =
     (if ip = [] then [] else (case map_of (e_containerIP e) ip of None \<Rightarrow> [] | Some sid \<Rightarrow> sid))"

section \<open>Rehydration and drift\<close>

fun adopt :: "string list \<Rightarrow> (string \<times> ContainerConfig) list \<Rightarrow> (string \<times> ContainerConfig) list" where
  "adopt [] m = m"
| "adopt (cid # cids) m =
     adopt cids (if map_of m cid = None
                 then AList.update cid \<lparr>Enable = False, DefaultPolicy = [], NoAutoAllowlist = False, RuleSets = []\<rparr> m
                 else m)"

definition Rehydrate :: "'k Engine \<Rightarrow> engine_error option \<times> 'k Engine" where
  "Rehydrate e =
     (case be_ListAppliedContainerIDs (e_backend e) (e_kernel e) of
        Inl err \<Rightarrow> (Some (RehydrateError err), e)
      | Inr ids \<Rightarrow>
          (let e1 = e\<lparr>e_applied := adopt ids (e_applied e)\<rparr> in
           case e_ip6backend e1 of
             None \<Rightarrow> (None, e1)
           | Some b6 \<Rightarrow>
               (case be_ListAppliedContainerIDs b6 (e_kernel6 e1) of
                  Inl _ \<Rightarrow> (None, e1)
                | Inr ip6ids \<Rightarrow> (None, e1\<lparr>e_applied := adopt ip6ids (e_applied e1)\<rparr>))))"

record DriftReport =
  OrphanIDs :: "string list"
  MissingIDs :: "string list"

definition HasDrift :: "DriftReport \<Rightarrow> bool" where
  "HasDrift r \<longleftrightarrow> 0 < length (OrphanIDs r) \<or> 0 < length (MissingIDs r)"

definition CheckDrift :: "'k Engine \<Rightarrow> engine_error + DriftReport" where
  "CheckDrift e =
     (case be_ListAppliedContainerIDs (e_backend e) (e_kernel e) of
        Inl err \<Rightarrow> Inl (ListKernelError err)
      | Inr kernelIDs \<Rightarrow>
          (let kernelSet = remdups kernelIDs; memSet = remdups (map fst (e_applied e)) in
           Inr \<lparr>OrphanIDs = filter (\<lambda>cid. cid \<notin> set memSet) kernelSet,
                MissingIDs = filter (\<lambda>cid. cid \<notin> set kernelSet) memSet\<rparr>))"

definition runDriftOnce :: "'k Engine \<Rightarrow> 'k Engine" where
  "runDriftOnce e =
     (case CheckDrift e of
        Inl _ \<Rightarrow> e
      | Inr rep \<Rightarrow>
          (if \<not> HasDrift rep then e
           else audit (AuditDriftDetected ''periodic'' (length (OrphanIDs rep)) (length (MissingIDs rep))) e))"

section \<open>Schedules\<close>

definition hasScheduledRules :: "'k Engine \<Rightarrow> bool" where
  "hasScheduledRules e \<longleftrightarrow> list_ex (\<lambda>(cid, cfg). list_ex (\<lambda>rs. rs_Schedule rs \<noteq> None) (RuleSets cfg)) (e_applied e)"

fun count_transitions :: "(Window \<Rightarrow> int \<Rightarrow> bool) \<Rightarrow> int \<Rightarrow> int \<Rightarrow> FirewallRuleSet list \<Rightarrow> nat \<times> nat \<Rightarrow> nat \<times> nat" where
  "count_transitions act prev nxt [] acc = acc"
| "count_transitions act prev nxt (rs # rss) (openNow, closeNow) =
     count_transitions act prev nxt rss
       (case rs_Schedule rs of
          None \<Rightarrow> (openNow, closeNow)
        | Some w \<Rightarrow>
            (let wasActive = act w prev; isActive = act w nxt in
             if \<not> wasActive \<and> isActive then (openNow + 1, closeNow)
             else if wasActive \<and> \<not> isActive then (openNow, closeNow + 1)
             else (openNow, closeNow)))"

definition scheduleTransitionCount :: "world \<Rightarrow> int \<Rightarrow> int \<Rightarrow> 'k Engine \<Rightarrow> nat \<times> nat" where
  "scheduleTransitionCount w prev nxt e =
     count_transitions (Active (w_civil w)) prev nxt
       (concat (map (\<lambda>(cid, cfg). RuleSets cfg) (e_applied e))) (0, 0)"

section \<open>Host rules\<close>

definition rememberHostRules :: "FileHostRuleSet list \<Rightarrow> string \<Rightarrow> 'k Engine \<Rightarrow> 'k Engine" where
  "rememberHostRules rules hdef e = e\<lparr>e_appliedHostRules := rules, e_appliedHostDef := hdef\<rparr>"

definition applyHostRules :: "RulesFile \<Rightarrow> 'k Engine \<Rightarrow> engine_error option \<times> 'k Engine" where
  "applyHostRules rf e =
     (if rf_HostRules rf = [] \<and> strings_TrimSpace (rf_HostDefault rf) = [] then
        (let e1 = e\<lparr>e_kernel := snd (be_RemoveHostChain (e_backend e) (e_kernel e))\<rparr>;
             e2 = (case e_ip6backend e1 of
                     None \<Rightarrow> e1
                   | Some b6 \<Rightarrow> e1\<lparr>e_kernel6 := snd (be_RemoveHostChain b6 (e_kernel6 e1))\<rparr>)
         in (None, rememberHostRules [] [] e2))
      else
        (let rules = fst (convertHostRules (rf_HostRules rf));
             defaultPolicy = NormaliseHostDefault (rf_HostDefault rf) in
         case be_ApplyHostRules (e_backend e) rules defaultPolicy (e_kernel e) of
           (Some err, k) \<Rightarrow> (Some (HostApplyError ''apply host rules'' err), e\<lparr>e_kernel := k\<rparr>)
         | (None, k) \<Rightarrow>
             (let e1 = e\<lparr>e_kernel := k\<rparr> in
              case e_ip6backend e1 of
                None \<Rightarrow> (None, rememberHostRules (rf_HostRules rf) defaultPolicy e1)
              | Some b6 \<Rightarrow>
                  (case be_ApplyHostRules b6 rules defaultPolicy (e_kernel6 e1) of
                     (Some err, k6) \<Rightarrow> (Some (HostApplyError ''apply host rules (ipv6)'' err), e1\<lparr>e_kernel6 := k6\<rparr>)
                   | (None, k6) \<Rightarrow> (None, rememberHostRules (rf_HostRules rf) defaultPolicy (e1\<lparr>e_kernel6 := k6\<rparr>))))))"

section \<open>Applying a container's rules\<close>

definition container_config ::
  "world \<Rightarrow> RulesFile \<Rightarrow> (string \<rightharpoonup> RuleTemplate) \<Rightarrow> (string \<rightharpoonup> Policy) \<Rightarrow> ContainerInfo \<Rightarrow> ContainerConfig" where
  "container_config w fileRules templates policies ctr =
     (let cfg = fst (ParseLabels (w_iter w) (w_LoadLocation w) (ci_Labels ctr));
          cfg1 = MergeFileRules cfg (ci_Name ctr) fileRules;
          cfg2 = ApplyTemplates cfg1 (ci_Labels ctr) templates
      in ApplyPolicies cfg2 (ci_Labels ctr) policies)"

fun split_ips :: "(string \<times> NetworkEndpoint) list \<Rightarrow> ip list \<times> ip list" where
  "split_ips [] = ([], [])"
| "split_ips ((n, ep) # eps) =
     (let (ip4s, ip6s) = split_ips eps in
      case net_ParseIP (ep_IP ep) of
        None \<Rightarrow> (ip4s, ip6s)
      | Some p \<Rightarrow> if To4 p \<noteq> None then (p # ip4s, ip6s) else (ip4s, p # ip6s))"

definition active_sets :: "world \<Rightarrow> FirewallRuleSet list \<Rightarrow> FirewallRuleSet list" where
  "active_sets w = filter (\<lambda>rs. case rs_Schedule rs of None \<Rightarrow> True | Some s \<Rightarrow> Active (w_civil w) s (w_now w))"

definition prepare_sets :: "world \<Rightarrow> geo_db option \<Rightarrow> ContainerInfo \<Rightarrow> FirewallRuleSet list \<Rightarrow> geo_error + FirewallRuleSet list" where
  "prepare_sets w db ctr sets =
     applyGeoIP_all db (map applyProfile (active_sets w (resolveNetworkNames sets (ci_Networks ctr))))"

definition ip6_cleanup :: "string \<Rightarrow> 'k Engine \<Rightarrow> 'k Engine" where
  "ip6_cleanup sid e =
     (case e_ip6backend e of
        None \<Rightarrow> e
      | Some b6 \<Rightarrow> e\<lparr>e_kernel6 := snd (be_RemoveContainerChains b6 sid (e_kernel6 e))\<rparr>)"

definition pre_cleanup :: "string \<Rightarrow> string \<Rightarrow> 'k Engine \<Rightarrow> engine_error option \<times> 'k Engine" where
  "pre_cleanup sid name e =
     (if map_of (e_applied e) sid = None then (None, e)
      else (case be_RemoveContainerChains (e_backend e) sid (e_kernel e) of
              (Some err, k) \<Rightarrow> (Some (PreCleanupError name err), e\<lparr>e_kernel := k\<rparr>)
            | (None, k) \<Rightarrow> (None, ip6_cleanup sid (e\<lparr>e_kernel := k\<rparr>))))"

definition install4 ::
  "string \<Rightarrow> ContainerInfo \<Rightarrow> ip list \<Rightarrow> FirewallRuleSet list \<Rightarrow> string \<Rightarrow> IPNet list \<Rightarrow> 'k Engine
   \<Rightarrow> engine_error option \<times> 'k Engine" where
  "install4 what ctr ips ruleSets policy auto e =
     (if ips = [] then (None, e)
      else (case be_ApplyContainerRules (e_backend e) (ci_ID ctr) (ci_Name ctr) ips ruleSets policy auto (e_kernel e) of
              (Some err, k) \<Rightarrow> (Some (ApplyError what (ci_Name ctr) err), e\<lparr>e_kernel := k\<rparr>)
            | (None, k) \<Rightarrow> (None, e\<lparr>e_kernel := k\<rparr>)))"

definition rollback4 :: "ContainerInfo \<Rightarrow> ip list \<Rightarrow> 'k Engine \<Rightarrow> 'k Engine" where
  "rollback4 ctr ip4s e =
     (if ip4s = [] then e
      else (case be_RemoveContainerChains (e_backend e) (ci_ID ctr) (e_kernel e) of
              (None, k) \<Rightarrow> e\<lparr>e_kernel := k\<rparr>
            | (Some err, k) \<Rightarrow> log_error (LogRollbackFailed (ci_Name ctr) err) (e\<lparr>e_kernel := k\<rparr>)))"

definition install6 ::
  "ContainerInfo \<Rightarrow> ip list \<Rightarrow> ip list \<Rightarrow> FirewallRuleSet list \<Rightarrow> string \<Rightarrow> IPNet list \<Rightarrow> 'k Engine
   \<Rightarrow> engine_error option \<times> 'k Engine" where
  "install6 ctr ip4s ip6s ruleSets policy auto e =
     (case e_ip6backend e of
        None \<Rightarrow> (None, e)
      | Some b6 \<Rightarrow>
          (if ip6s = [] then (None, e)
           else (case be_ApplyContainerRules b6 (ci_ID ctr) (ci_Name ctr) ip6s ruleSets policy auto (e_kernel6 e) of
                   (Some err, k6) \<Rightarrow>
                     (Some (ApplyError ''apply ipv6 rules'' (ci_Name ctr) err), rollback4 ctr ip4s (e\<lparr>e_kernel6 := k6\<rparr>))
                 | (None, k6) \<Rightarrow> (None, e\<lparr>e_kernel6 := k6\<rparr>))))"

definition install_rules ::
  "ContainerInfo \<Rightarrow> ip list \<Rightarrow> ip list \<Rightarrow> FirewallRuleSet list \<Rightarrow> string \<Rightarrow> IPNet list \<Rightarrow> 'k Engine
   \<Rightarrow> engine_error option \<times> 'k Engine" where
  "install_rules ctr ip4s ip6s ruleSets policy auto e =
     (if e_inetBackend e then install4 ''apply rules'' ctr (ip4s @ ip6s) ruleSets policy auto e
      else (case install4 ''apply ipv4 rules'' ctr ip4s ruleSets policy auto e of
              (Some err, e1) \<Rightarrow> (Some err, e1)
            | (None, e1) \<Rightarrow> install6 ctr ip4s ip6s ruleSets policy auto e1))"

definition auto_allowlist :: "'k Engine \<Rightarrow> ContainerConfig \<Rightarrow> ContainerInfo \<Rightarrow> IPNet list" where
  "auto_allowlist e cfg ctr =
     (if c_AutoAllowlist (e_cfg e) \<and> \<not> NoAutoAllowlist cfg then containerNetworkCIDRs (ci_Networks ctr) else [])"

definition effective_policy :: "'k Engine \<Rightarrow> ContainerConfig \<Rightarrow> string" where
  "effective_policy e cfg = (if DefaultPolicy cfg = [] then c_DefaultPolicy (e_cfg e) else DefaultPolicy cfg)"

definition record_applied ::
  "ContainerInfo \<Rightarrow> ContainerConfig \<Rightarrow> string \<Rightarrow> ip list \<Rightarrow> ip list \<Rightarrow> nat \<Rightarrow> string \<Rightarrow> 'k Engine \<Rightarrow> 'k Engine" where
  "record_applied ctr cfg policy ip4s ip6s n source e =
     (let sid = shortID (ci_ID ctr);
          e1 = e\<lparr>e_applied := AList.update sid (cfg\<lparr>DefaultPolicy := policy\<rparr>) (e_applied e)\<rparr>;
          e2 = setContainerIPs sid (ip4s @ ip6s) e1
      in audit (AuditRulesApplied (ci_ID ctr) (ci_Name ctr) ip4s n policy source) e2)"

definition applyContainerInner ::
  "world \<Rightarrow> ContainerInfo \<Rightarrow> ContainerConfig \<Rightarrow> string \<Rightarrow> 'k Engine \<Rightarrow> engine_error option \<times> 'k Engine" where
  "applyContainerInner w ctr cfg source e =
     (let (ip4s, ip6s) = split_ips (ci_Networks ctr) in
      if ip4s = [] \<and> ip6s = [] then (None, e)
      else
        (let auto = auto_allowlist e cfg ctr; policy = effective_policy e cfg in
         case prepare_sets w (e_geoDB e) ctr (RuleSets cfg) of
           Inl err \<Rightarrow> (Some (GeoIPFailClosed (ci_Name ctr) err), e)
         | Inr ruleSets \<Rightarrow>
             (case pre_cleanup (shortID (ci_ID ctr)) (ci_Name ctr) e of
                (Some err, e1) \<Rightarrow> (Some err, e1)
              | (None, e1) \<Rightarrow>
                  (case install_rules ctr ip4s ip6s ruleSets policy auto e1 of
                     (Some err, e2) \<Rightarrow> (Some err, e2)
                   | (None, e2) \<Rightarrow>
                       (None, record_applied ctr cfg policy ip4s ip6s (length ruleSets) source e2)))))"

definition ApplyContainer :: "world \<Rightarrow> string \<Rightarrow> string \<Rightarrow> 'k Engine \<Rightarrow> engine_error option \<times> 'k Engine" where
  "ApplyContainer w containerID source e =
     (case w_inspect w containerID of
        Inl err \<Rightarrow> (Some (InspectError containerID err), e)
      | Inr None \<Rightarrow> (Some (ContainerNotFound containerID), e)
      | Inr (Some ctr) \<Rightarrow>
          (case LoadRulesFile (w_readFile w) (w_unmarshal w) (c_ConfigFile (e_cfg e)) of
             Inl err \<Rightarrow> (Some (RulesFileError err), e)
           | Inr fileRules \<Rightarrow>
               (let cfg = container_config w fileRules (e_templates e) (e_policies e) ctr in
                if \<not> Enable cfg then (None, e) else applyContainerInner w ctr cfg source e)))"

section \<open>Removal and reconciliation\<close>

definition removeChains :: "string \<Rightarrow> string \<Rightarrow> 'k Engine \<Rightarrow> engine_error option \<times> 'k Engine" where
  "removeChains cid source e =
     (case be_RemoveContainerChains (e_backend e) cid (e_kernel e) of
        (Some err, k) \<Rightarrow> (Some (RemoveError err), e\<lparr>e_kernel := k\<rparr>)
      | (None, k) \<Rightarrow>
          (let e1 = ip6_cleanup cid (e\<lparr>e_kernel := k\<rparr>);
               e2 = e1\<lparr>e_applied := AList.delete cid (e_applied e1)\<rparr>
           in (None, audit (AuditRulesRemoved cid source) (dropContainerIPs cid e2))))"

definition RemoveContainer :: "string \<Rightarrow> string \<Rightarrow> 'k Engine \<Rightarrow> engine_error option \<times> 'k Engine" where
  "RemoveContainer containerID source e = removeChains (shortID containerID) source e"

fun reconcile_containers ::
  "world \<Rightarrow> RulesFile \<Rightarrow> (string \<rightharpoonup> RuleTemplate) \<Rightarrow> (string \<rightharpoonup> Policy) \<Rightarrow> string \<Rightarrow> ContainerInfo list \<Rightarrow> 'k Engine \<Rightarrow> 'k Engine" where
  "reconcile_containers w fr templates policies source [] e = e"
| "reconcile_containers w fr templates policies source (ctr # ctrs) e =
     (let cfg = container_config w fr templates policies ctr;
          e1 = (if Enable cfg then
                  (case applyContainerInner w ctr cfg source e of
                     (Some err, e') \<Rightarrow> log_error (LogApplyFailed (ci_Name ctr) err) e'
                   | (None, e') \<Rightarrow> e')
                else e)
      in reconcile_containers w fr templates policies source ctrs e1)"

fun remove_unseen :: "string \<Rightarrow> string set \<Rightarrow> string list \<Rightarrow> 'k Engine \<Rightarrow> 'k Engine" where
  "remove_unseen source seen [] e = e"
| "remove_unseen source seen (cid # cids) e =
     remove_unseen source seen cids
       (if cid \<in> seen then e
        else (case removeChains cid source e of
                (Some err, e') \<Rightarrow> log_error (LogRemoveFailed cid err) e'
              | (None, e') \<Rightarrow> e'))"

definition Reconcile :: "world \<Rightarrow> string \<Rightarrow> 'k Engine \<Rightarrow> engine_error option \<times> 'k Engine" where
  "Reconcile w source0 e =
     (let source = (if source0 = [] then ''config-reload'' else source0);
          e1 = audit (AuditReconcileStarted source) e in
      case LoadRulesFile (w_readFile w) (w_unmarshal w) (c_ConfigFile (e_cfg e1)) of
        Inl err \<Rightarrow> (Some (RulesFileError err), e1)
      | Inr fileRules \<Rightarrow>
          (let e2 = (case applyHostRules fileRules e1 of
                       (Some err, e') \<Rightarrow> log_error (LogHostFailed err) e' | (None, e') \<Rightarrow> e') in
           case w_containers w of
             Inl err \<Rightarrow> (Some (ListContainersError err), e2)
           | Inr containers \<Rightarrow>
               (let e3 = reconcile_containers w fileRules (e_templates e2) (e_policies e2) source containers e2;
                    seen = set (map (shortID \<circ> ci_ID) containers)
                in (None, remove_unseen source seen (w_range w (map fst (e_applied e3))) e3))))"

definition schedule_tick :: "world \<Rightarrow> int \<Rightarrow> int \<Rightarrow> 'k Engine \<Rightarrow> int \<times> 'k Engine" where
  "schedule_tick w lst now e =
     (if \<not> hasScheduledRules e then (now, e)
      else
        (let (openN, closeN) = scheduleTransitionCount w lst now e in
         if openN = 0 \<and> closeN = 0 then (now, e)
         else (now, snd (Reconcile w ''schedule'' e))))"

end
