(* ===== verification/Engine_Contract.thy ===== *)
theory Engine_Contract
  imports Rules_Engine
begin

text \<open>
  The contract between the engine and a backend (\<open>backend/internal/rules/backend.go\<close>), as a locale over
  the container ids a kernel state holds chains for; the iptables backend keeps it, for any
  library that behaves as documented, and so does its default configuration on the in-memory
  table. The rest states which parts of the engine each step leaves alone and in which ways
  \<open>applyContainerInner\<close> ends.
\<close>

section \<open>Host chains\<close>

lemma host_no_dash: "CHR ''-'' \<notin> set hostChainName" "CHR ''-'' \<notin> set hostParentChain"
  by (simp_all add: hostChainName_def hostParentChain_def)

lemma must_NoneD: "must what r f = (None, k') \<Longrightarrow> \<exists>k. r = (None, k) \<and> f k = (None, k')"
  by (cases r; cases "fst r") (auto simp: must_def)

lemma mustE:
  assumes "must what r f = (e, k')"
  obtains e1 where "r = (Some e1, k')" | k where "r = (None, k)" "f k = (e, k')"
  using assms by (cases r; cases "fst r") (auto simp: must_def)

definition host_chain_rules :: "IPTablesBackend \<Rightarrow> HostRule list \<Rightarrow> string \<Rightarrow> args list" where
  "host_chain_rules b rules pol = (if stateful b then [ctArgs] else [])
     @ concat (map host_rule_calls rules) @ [[''-j'', NormaliseHostDefault pol]]"

context iptables_api
begin

lemma append_host_frame:
  "append_host ipt as k = (e, k') \<Longrightarrow> d \<noteq> hostChainName \<Longrightarrow> tbl k' d = tbl k d"
proof (induction as arbitrary: k)
  case (Cons a as)
  obtain e1 k1 where a: "ipt_Append ipt hostChainName a k = (e1, k1)" by (cases "ipt_Append ipt hostChainName a k")
  have "tbl k1 d = tbl k d" using Append [OF a] Cons.prems(2) by simp
  moreover have "k' = k1 \<or> append_host ipt as k1 = (e, k')"
    using Cons.prems(1) a by (cases e1) (auto simp: must_def)
  ultimately show ?case using Cons.IH [of k1] Cons.prems(2) by auto
qed simp

lemma append_host_rules:
  "append_host ipt as k = (None, k') \<Longrightarrow> tbl k hostChainName = Some rs \<Longrightarrow>
   tbl k' hostChainName = Some (rs @ map norm as)"
proof (induction as arbitrary: k rs)
  case (Cons a as)
  obtain k1 where a: "ipt_Append ipt hostChainName a k = (None, k1)" "append_host ipt as k1 = (None, k')"
    using must_NoneD [OF Cons.prems(1) [unfolded append_host.simps]] by blast
  then have "tbl k1 hostChainName = Some (rs @ [norm a])" using Append [OF a(1)] Cons.prems(2) by simp
  from Cons.IH [OF a(2) this] show ?case by simp
qed simp

lemma apply_host_tail_frame:
  assumes "apply_host_tail b ipt rules pol k = (e, k')" "d \<noteq> hostChainName" "d \<noteq> hostParentChain"
  shows "tbl k' d = tbl k d"
proof -
  obtain k1 where c: "ipt_ClearChain ipt hostChainName k = (None, k1)"
    using ClearChain by (metis surj_pair)
  have 1: "tbl k1 d = tbl k d" using ClearChain [OF c] assms(2) by simp
  have A: "append_host ipt as k2 = (e, k') \<Longrightarrow> tbl k' d = tbl k2 d" for as k2
    using append_host_frame assms(2) by blast
  obtain ei ki where i: "ipt_Insert ipt hostParentChain 1 [''-j'', hostChainName] k1 = (ei, ki)"
    by (cases "ipt_Insert ipt hostParentChain 1 [''-j'', hostChainName] k1")
  have 2: "tbl ki d = tbl k1 d" using Insert [OF i] assms(3) by simp
  show ?thesis using assms(1) c i 1 2 A
    by (cases ei) (auto simp: apply_host_tail_def must_def Let_def split: sum.splits if_splits)
qed

lemma ApplyHostRules_frame:
  assumes "ApplyHostRules b ipt rules pol k = (e, k')" "d \<noteq> hostChainName" "d \<noteq> hostParentChain"
  shows "tbl k' d = tbl k d"
proof -
  obtain e0 k1 where n: "ipt_NewChain ipt hostChainName k = (e0, k1)" by (cases "ipt_NewChain ipt hostChainName k")
  have 1: "tbl k1 d = tbl k d" using NewChain [OF n] assms(2) by simp
  have "k' = k1 \<or> apply_host_tail b ipt rules pol k1 = (e, k')"
    using assms(1) n by (auto simp: ApplyHostRules_def split: option.splits if_splits)
  then show ?thesis using 1 apply_host_tail_frame [OF _ assms(2,3)] by auto
qed

lemma RemoveHostChain_frame:
  assumes "RemoveHostChain b ipt k = (e, k')" "d \<noteq> hostChainName" "d \<noteq> hostParentChain"
  shows "tbl k' d = tbl k d"
proof -
  obtain e1 k1 where 1: "ipt_Delete ipt hostParentChain [''-j'', hostChainName] k = (e1, k1)"
    by (cases "ipt_Delete ipt hostParentChain [''-j'', hostChainName] k")
  obtain e2 k2 where 2: "ipt_ClearChain ipt hostChainName k1 = (e2, k2)" by (cases "ipt_ClearChain ipt hostChainName k1")
  obtain e3 k3 where 3: "ipt_DeleteChain ipt hostChainName k2 = (e3, k3)" by (cases "ipt_DeleteChain ipt hostChainName k2")
  have "k' = k3" using assms(1) 1 2 3 by (simp add: RemoveHostChain_def ignore_def)
  then show ?thesis using Delete [OF 1] ClearChain [OF 2] DeleteChain [OF 3] assms(2,3) by simp
qed

lemma apply_host_tail_rules:
  assumes "apply_host_tail b ipt rules pol k = (None, k')"
  shows "tbl k' hostChainName = Some (map norm (host_chain_rules b rules pol))
    \<and> (\<exists>rs. tbl k' hostParentChain = Some rs \<and> (\<exists>r \<in> set rs. norm r = norm [''-j'', hostChainName] \<or> r = norm [''-j'', hostChainName]))"
proof -
  let ?j = "[''-j'', hostChainName]"
  have ne: "hostParentChain \<noteq> hostChainName" by (simp add: hostParentChain_def hostChainName_def)
  obtain k1 where c: "ipt_ClearChain ipt hostChainName k = (None, k1)"
    using ClearChain by (metis surj_pair)
  have 1: "tbl k1 hostChainName = Some []" using ClearChain [OF c] by simp
  obtain present where p: "ipt_Exists ipt hostParentChain ?j k1 = Inr present"
    using assms c by (cases "ipt_Exists ipt hostParentChain ?j k1") (auto simp: apply_host_tail_def must_def)
  have "\<exists>k2. append_host ipt (host_chain_rules b rules pol) k2 = (None, k') \<and> tbl k2 hostChainName = Some []
      \<and> (\<exists>rs. tbl k2 hostParentChain = Some rs \<and> (\<exists>r \<in> set rs. norm r = norm ?j \<or> r = norm ?j))"
  proof (cases present)
    case True
    then have "append_host ipt (host_chain_rules b rules pol) k1 = (None, k')"
      using assms c p by (simp add: apply_host_tail_def must_def host_chain_rules_def)
    then show ?thesis using 1 Exists [OF p] True by (intro exI [of _ k1]) (auto simp: has_rule_def)
  next
    case False
    then obtain k2 where k2: "ipt_Insert ipt hostParentChain 1 ?j k1 = (None, k2)"
      "append_host ipt (host_chain_rules b rules pol) k2 = (None, k')"
      using assms c p must_NoneD [of "''insert host jump''"]
      by (fastforce simp: apply_host_tail_def host_chain_rules_def must_def [of "''clear host chain''"])
    then show ?thesis using Insert [OF k2(1)] 1 ne by (intro exI [of _ k2]) auto
  qed
  then obtain k2 where k2: "append_host ipt (host_chain_rules b rules pol) k2 = (None, k')" "tbl k2 hostChainName = Some []"
    "\<exists>rs. tbl k2 hostParentChain = Some rs \<and> (\<exists>r \<in> set rs. norm r = norm ?j \<or> r = norm ?j)" by blast
  then show ?thesis using append_host_rules [OF k2(1,2)] append_host_frame [OF k2(1) ne] by simp
qed

lemma ApplyHostRules_rules:
  assumes "ApplyHostRules b ipt rules pol k = (None, k')"
  shows "tbl k' hostChainName = Some (map norm (host_chain_rules b rules pol))
    \<and> (\<exists>rs. tbl k' hostParentChain = Some rs \<and> (\<exists>r \<in> set rs. norm r = norm [''-j'', hostChainName] \<or> r = norm [''-j'', hostChainName]))"
  using assms apply_host_tail_rules by (auto simp: ApplyHostRules_def split: prod.splits option.splits if_splits)

end

section \<open>The contract of a backend\<close>

text \<open>
  What the engine relies on: the set of container ids a kernel state holds chains for, and how
  each operation changes it, on success and on failure.
\<close>

locale backend_contract =
  fixes be :: "'k Backend"
    and ids :: "'k \<Rightarrow> string set"
    and good :: "string \<Rightarrow> bool"
  assumes apply_ids: "good cid \<Longrightarrow> be_ApplyContainerRules be cid nm ips rss pol auto k = (err, k') \<Longrightarrow>
      ids k \<subseteq> ids k' \<and> ids k' \<subseteq> insert (shortID cid) (ids k)"
    and apply_ok: "good cid \<Longrightarrow> be_ApplyContainerRules be cid nm ips rss pol auto k = (None, k') \<Longrightarrow> shortID cid \<in> ids k'"
    and remove_ids: "good cid \<Longrightarrow> be_RemoveContainerChains be cid k = (err, k') \<Longrightarrow>
      ids k' \<subseteq> ids k \<and> ids k - {shortID cid} \<subseteq> ids k'"
    and remove_ok: "good cid \<Longrightarrow> be_RemoveContainerChains be cid k = (None, k') \<Longrightarrow> shortID cid \<notin> ids k'"
    and host_apply_ids: "be_ApplyHostRules be rules hpol k = (err, k') \<Longrightarrow> ids k' = ids k"
    and host_remove_ids: "be_RemoveHostChain be k = (err, k') \<Longrightarrow> ids k' = ids k"
    and list_ids: "be_ListAppliedContainerIDs be k = Inr xs \<Longrightarrow> set xs = ids k"
    and ids_good: "cid \<in> ids k \<Longrightarrow> good cid"
    and short_good: "good cid \<Longrightarrow> good (shortID cid)"

section \<open>The iptables backend keeps the contract\<close>

definition chain_ids :: "IPTablesBackend \<Rightarrow> table \<Rightarrow> string set" where
  "chain_ids b t = {cid. \<exists>c \<in> dom t. chain_container_id (chainName b @ ''-'') c = Some cid}"

lemma shortID_truncate: "shortID cid = truncate_str 12 cid"
  by (simp add: shortID_def truncate_str_def ContainerIDShortLen_def)

lemma valid_id_short: "valid_id cid \<Longrightarrow> valid_id (shortID cid)"
  by (auto simp: valid_id_def shortID_def ContainerIDShortLen_def dest: in_set_takeD)

lemma chain_container_id_valid: "chain_container_id pre c = Some cid \<Longrightarrow> valid_id cid"
proof -
  assume a: "chain_container_id pre c = Some cid"
  then have p: "strings_HasPrefix c pre" by (auto simp: chain_container_id_def split: if_splits)
  let ?s = "strings_TrimPrefix c pre"
  have c: "cid \<noteq> []" "cid = (case strings_Index ?s CHR ''-'' of Some i \<Rightarrow> take i ?s | None \<Rightarrow> ?s)"
    using a p by (auto simp: chain_container_id_def Let_def split: if_splits option.splits)
  show ?thesis
  proof (cases "strings_Index ?s CHR ''-''")
    case None
    then have "cid = ?s" using c(2) by simp
    moreover have "CHR ''-'' \<notin> set ?s" using None by (simp add: strings_Index_None)
    ultimately show ?thesis using c(1) by (simp add: valid_id_def)
  next
    case (Some i)
    then show ?thesis using c strings_Index_Some [OF Some] by (auto simp: valid_id_def)
  qed
qed

lemma chain_ids_cong:
  assumes "\<And>d cid. chain_container_id (chainName b @ ''-'') d = Some cid \<Longrightarrow> (d \<in> dom t') = (d \<in> dom t)"
  shows "chain_ids b t' = chain_ids b t"
  using assms unfolding chain_ids_def by blast

lemma chain_ids_grow:
  assumes "dom t \<subseteq> dom t'" "dom t' \<subseteq> dom t \<union> names"
    and "\<And>n. n \<in> names \<Longrightarrow> chain_container_id (chainName b @ ''-'') n = Some sid"
  shows "chain_ids b t \<subseteq> chain_ids b t' \<and> chain_ids b t' \<subseteq> insert sid (chain_ids b t)"
proof (intro conjI subsetI)
  fix x assume "x \<in> chain_ids b t'"
  then obtain c where c: "c \<in> dom t'" "chain_container_id (chainName b @ ''-'') c = Some x"
    unfolding chain_ids_def by blast
  show "x \<in> insert sid (chain_ids b t)"
  proof (cases "c \<in> names")
    case True
    then show ?thesis using assms(3) c(2) by simp
  next
    case False
    then have "c \<in> dom t" using c(1) assms(2) by blast
    then show ?thesis using c(2) unfolding chain_ids_def by blast
  qed
qed (use assms(1) in \<open>unfold chain_ids_def, blast\<close>)

lemma set_map_filter_iff: "x \<in> set (List.map_filter f xs) \<longleftrightarrow> (\<exists>y \<in> set xs. f y = Some x)"
  by (induction xs) (auto simp: map_filter_simps split: option.splits)

lemma no_dash_no_id: "CHR ''-'' \<notin> set d \<Longrightarrow> chain_container_id (base @ ''-'') d = None"
  by (auto simp: chain_container_id_def strings_HasPrefix_def prefix_def)

lemma chain_ids_host:
  assumes "\<And>d. d \<noteq> hostChainName \<Longrightarrow> d \<noteq> hostParentChain \<Longrightarrow> t' d = t d"
  shows "chain_ids b t' = chain_ids b t"
proof (rule chain_ids_cong)
  fix d cid assume "chain_container_id (chainName b @ ''-'') d = Some cid"
  then have "d \<noteq> hostChainName" "d \<noteq> hostParentChain" using no_dash_no_id host_no_dash by fastforce+
  then show "d \<in> dom t' \<longleftrightarrow> d \<in> dom t" using assms by (simp add: domIff)
qed

lemma base_no_id: "chain_container_id (base @ ''-'') base = None"
  by (auto simp: chain_container_id_def strings_HasPrefix_def dest: prefix_length_le)

lemma owned_id:
  "short_base b \<Longrightarrow> valid_id cid \<Longrightarrow>
   owned (containerChainName b cid) d \<longleftrightarrow> chain_container_id (chainName b @ ''-'') d = Some (shortID cid)"
  using chain_container_id_eq [OF valid_id_short, of cid "chainName b" d]
  by (simp add: containerChainName_eq shortID_truncate)

context iptables_api
begin

lemma iptables_contract:
  assumes b: "short_base b"
  shows "backend_contract (iptables_Backend b ipt) (\<lambda>k. chain_ids b (tbl k)) valid_id"
proof (unfold_locales, goal_cases)
  case (1 cid nm ips rss pol auto k err k')
  let ?names = "insert (containerChainName b cid) ((\<lambda>rs. ruleSetChainName b cid (rs_Name rs)) ` set rss)"
  have a: "ApplyContainerRules b ipt cid ips rss pol auto k = (err, k')" using 1(2) by (simp add: iptables_Backend_def)
  have d: "dom (tbl k) \<subseteq> dom (tbl k')" "dom (tbl k') \<subseteq> dom (tbl k) \<union> ?names"
    using ApplyContainerRules_frame(2,3) [OF a] by auto
  have "chain_container_id (chainName b @ ''-'') n = Some (shortID cid)" if "n \<in> ?names" for n
  proof -
    have "owned (containerChainName b cid) n"
      using that ruleSetChainName_prefix [OF b, of cid] by (fastforce simp: owned_def strings_HasPrefix_def prefix_def)
    then show ?thesis using owned_id [OF b 1(1)] by simp
  qed
  then show ?case by (rule chain_ids_grow [OF d])
next
  case (2 cid nm ips rss pol auto k k')
  have a: "ApplyContainerRules b ipt cid ips rss pol auto k = (None, k')" using 2(2) by (simp add: iptables_Backend_def)
  have "containerChainName b cid \<in> dom (tbl k')" using ApplyContainerRules_frame(2) [OF a] by blast
  moreover have "owned (containerChainName b cid) (containerChainName b cid)" by (simp add: owned_def)
  ultimately show ?case using owned_id [OF b 2(1)] unfolding chain_ids_def by blast
next
  case (3 cid k err k')
  have r: "RemoveContainerChains b ipt cid k = (err, k')" using 3(2) by (simp add: iptables_Backend_def)
  have "chain_ids b (tbl k') \<subseteq> chain_ids b (tbl k)"
    using RemoveContainerChains_frame(2) [OF r] unfolding chain_ids_def by blast
  moreover have "x \<in> chain_ids b (tbl k')" if x: "x \<in> chain_ids b (tbl k)" "x \<noteq> shortID cid" for x
  proof -
    obtain d where d: "d \<in> dom (tbl k)" "chain_container_id (chainName b @ ''-'') d = Some x"
      using x(1) unfolding chain_ids_def by blast
    then have "\<not> owned (containerChainName b cid) d" "d \<noteq> chainName b"
      using owned_id [OF b 3(1)] x(2) base_no_id [of "chainName b"] by auto
    then have "tbl k' d = tbl k d" using RemoveContainerChains_frame(1) [OF r] by blast
    then have "d \<in> dom (tbl k')" using d(1) by (simp add: domIff)
    then show ?thesis using d(2) unfolding chain_ids_def by blast
  qed
  ultimately show ?case by blast
next
  case (4 cid k k')
  have r: "RemoveContainerChains b ipt cid k = (None, k')" using 4(2) by (simp add: iptables_Backend_def)
  have "tbl k' d = None" if "chain_container_id (chainName b @ ''-'') d = Some (shortID cid)" for d
    using RemoveContainerChains_gone [OF r] owned_id [OF b 4(1), of d] that by simp
  then show ?case by (auto simp: chain_ids_def)
next
  case (5 rules hpol k err k')
  have h: "ApplyHostRules b ipt rules hpol k = (err, k')" using 5 by (simp add: iptables_Backend_def)
  show ?case using ApplyHostRules_frame [OF h] by (intro chain_ids_host)
next
  case (6 k err k')
  have h: "RemoveHostChain b ipt k = (err, k')" using 6 by (simp add: iptables_Backend_def)
  show ?case using RemoveHostChain_frame [OF h] by (intro chain_ids_host)
next
  case (7 k xs)
  then obtain chs where c: "ipt_ListChains ipt k = Inr chs"
    "xs = remdups (List.map_filter (chain_container_id (chainName b @ ''-'')) chs)"
    by (auto simp: iptables_Backend_def ListAppliedContainerIDs_def split: sum.splits)
  have "x \<in> set xs \<longleftrightarrow> (\<exists>c \<in> set chs. chain_container_id (chainName b @ ''-'') c = Some x)" for x
    unfolding c(2) set_remdups set_map_filter_iff by (rule refl)
  then show ?case using ListChains [OF c(1)] by (auto simp only: chain_ids_def)
next
  case (8 cid k)
  then show ?case by (auto simp: chain_ids_def dest: chain_container_id_valid)
next
  case (9 cid)
  then show ?case by (rule valid_id_short)
qed

end

text \<open>The backend as configured by default: base chain FIREFIK under DOCKER-USER.\<close>

interpretation ipt_default: backend_contract "iptables_Backend demo_backend (mem_ipt norm accepts)"
  "\<lambda>k. chain_ids demo_backend (map_of k)" valid_id
  by (rule mem.iptables_contract) (simp add: short_base_def demo_backend_def)


section \<open>What the operations keep\<close>

definition engine_conf where
  "engine_conf e = (e_backend e, e_ip6backend e, e_inetBackend e, e_geoDB e, e_cfg e, e_templates e, e_policies e)"

definition engine_books where
  "engine_books e = (e_applied e, e_containerIP e)"

lemmas engine_view_defs = engine_conf_def engine_books_def

lemma engine_conf_backend: "engine_conf e' = engine_conf e \<Longrightarrow> e_backend e' = e_backend e"
  by (simp add: engine_conf_def)

lemma ip6_cleanup_keeps:
  "engine_conf (ip6_cleanup sid e) = engine_conf e" "engine_books (ip6_cleanup sid e) = engine_books e"
  "e_kernel (ip6_cleanup sid e) = e_kernel e" "e_log (ip6_cleanup sid e) = e_log e"
  by (simp_all add: ip6_cleanup_def engine_view_defs split: option.split)

lemma pre_cleanup_keeps:
  assumes "pre_cleanup sid nm e = (err, e')"
  shows "engine_conf e' = engine_conf e \<and> engine_books e' = engine_books e \<and> e_log e' = e_log e"
  using assms ip6_cleanup_keeps [of sid "e\<lparr>e_kernel := k\<rparr>" for k]
  by (auto simp: pre_cleanup_def engine_view_defs split: if_splits prod.splits option.splits)

lemma install4_keeps:
  assumes "install4 what ctr ips rss pol auto e = (err, e')"
  shows "engine_conf e' = engine_conf e \<and> engine_books e' = engine_books e \<and> e_log e' = e_log e"
  using assms by (auto simp: install4_def engine_view_defs split: if_splits prod.splits option.splits)

lemma rollback4_keeps:
  "engine_conf (rollback4 ctr ips e) = engine_conf e \<and> engine_books (rollback4 ctr ips e) = engine_books e
   \<and> set (e_log e) \<subseteq> set (e_log (rollback4 ctr ips e))"
  by (auto simp: rollback4_def engine_view_defs log_error_def split: prod.splits option.splits)

lemma install6_keeps:
  assumes "install6 ctr ip4s ip6s rss pol auto e = (err, e')"
  shows "engine_conf e' = engine_conf e \<and> engine_books e' = engine_books e \<and> set (e_log e) \<subseteq> set (e_log e')"
  using assms rollback4_keeps [of ctr ip4s "e\<lparr>e_kernel6 := k\<rparr>" for k]
  by (auto simp: install6_def engine_view_defs split: if_splits prod.splits option.splits)

lemma install_rules_keeps:
  assumes "install_rules ctr ip4s ip6s rss pol auto e = (err, e')"
  shows "engine_conf e' = engine_conf e \<and> engine_books e' = engine_books e \<and> set (e_log e) \<subseteq> set (e_log e')"
proof (cases "e_inetBackend e")
  case True
  then show ?thesis using assms by (auto simp: install_rules_def dest!: install4_keeps)
next
  case False
  obtain err1 e1 where 1: "install4 ''apply ipv4 rules'' ctr ip4s rss pol auto e = (err1, e1)" by fastforce
  then show ?thesis using assms False install4_keeps [OF 1] install6_keeps [of ctr ip4s ip6s rss pol auto e1 err e']
    by (cases err1) (simp_all add: install_rules_def)
qed

lemma record_applied_view:
  "engine_conf (record_applied ctr cfg pol ip4s ip6s n sr e) = engine_conf e"
  "e_applied (record_applied ctr cfg pol ip4s ip6s n sr e)
    = AList.update (shortID (ci_ID ctr)) (cfg\<lparr>DefaultPolicy := pol\<rparr>) (e_applied e)"
  "e_kernel (record_applied ctr cfg pol ip4s ip6s n sr e) = e_kernel e"
  "e_log (record_applied ctr cfg pol ip4s ip6s n sr e) = e_log e"
  "e_containerIP (record_applied ctr cfg pol ip4s ip6s n sr e)
    = e_containerIP (setContainerIPs (shortID (ci_ID ctr)) (ip4s @ ip6s) e)"
  by (simp_all add: record_applied_def audit_def setContainerIPs_def Let_def engine_conf_def)

text \<open>The ways \<open>applyContainerInner\<close> ends: nothing to do, an error, or the rules recorded.\<close>

lemma applyContainerInner_cases:
  assumes "applyContainerInner w ctr cfg sr e = (err, e')" "split_ips (ci_Networks ctr) = (ip4s, ip6s)"
  obtains (skip) "ip4s = []" "ip6s = []" "err = None" "e' = e"
  | (geo) g where "prepare_sets w (e_geoDB e) ctr (RuleSets cfg) = Inl g" "err = Some (GeoIPFailClosed (ci_Name ctr) g)" "e' = e"
  | (clean) x where "pre_cleanup (shortID (ci_ID ctr)) (ci_Name ctr) e = (Some x, e')" "err = Some x"
  | (fail) rss e1 x where "pre_cleanup (shortID (ci_ID ctr)) (ci_Name ctr) e = (None, e1)"
      "install_rules ctr ip4s ip6s rss (effective_policy e cfg) (auto_allowlist e cfg ctr) e1 = (Some x, e')" "err = Some x"
  | (ok) rss e1 e2 where "\<not> (ip4s = [] \<and> ip6s = [])" "prepare_sets w (e_geoDB e) ctr (RuleSets cfg) = Inr rss"
      "pre_cleanup (shortID (ci_ID ctr)) (ci_Name ctr) e = (None, e1)"
      "install_rules ctr ip4s ip6s rss (effective_policy e cfg) (auto_allowlist e cfg ctr) e1 = (None, e2)"
      "err = None" "e' = record_applied ctr cfg (effective_policy e cfg) ip4s ip6s (length rss) sr e2"
proof (cases "ip4s = [] \<and> ip6s = []")
  case True
  then have "(err, e') = (None, e)"
    unfolding assms(1) [symmetric] applyContainerInner_def assms(2) Let_def by simp
  then show ?thesis using True by (intro skip) simp_all
next
  case F: False
  show ?thesis
  proof (cases "prepare_sets w (e_geoDB e) ctr (RuleSets cfg)")
    case (Inl g)
    then have "(err, e') = (Some (GeoIPFailClosed (ci_Name ctr) g), e)"
      unfolding assms(1) [symmetric] applyContainerInner_def assms(2) Let_def using F by simp
    then show ?thesis using Inl by (intro geo [of g]) simp_all
  next
    case (Inr rss)
    obtain x1 e1 where 1: "pre_cleanup (shortID (ci_ID ctr)) (ci_Name ctr) e = (x1, e1)" by fastforce
    obtain x2 e2 where 2: "install_rules ctr ip4s ip6s rss (effective_policy e cfg) (auto_allowlist e cfg ctr) e1 = (x2, e2)"
      by fastforce
    have r: "(err, e') = (case x1 of Some x \<Rightarrow> (Some x, e1) | None \<Rightarrow> (case x2 of Some x \<Rightarrow> (Some x, e2)
        | None \<Rightarrow> (None, record_applied ctr cfg (effective_policy e cfg) ip4s ip6s (length rss) sr e2)))"
      unfolding assms(1) [symmetric] applyContainerInner_def assms(2) Let_def
      using F Inr 1 2 by (auto split: option.split)
    show ?thesis
    proof (cases x1)
      case (Some x)
      then show ?thesis using r 1 by (intro clean [of x]) simp_all
    next
      case N: None
      show ?thesis
      proof (cases x2)
        case (Some x)
        then show ?thesis using r 1 2 N by (intro fail [of e1 rss x]) simp_all
      next
        case None
        then show ?thesis using r 1 2 N F Inr by (intro ok [of rss e1 e2]) simp_all
      qed
    qed
  qed
qed

lemma applyContainerInner_conf:
  assumes "applyContainerInner w ctr cfg sr e = (err, e')"
  shows "engine_conf e' = engine_conf e \<and> set (e_log e) \<subseteq> set (e_log e')"
proof -
  obtain ip4s ip6s where s: "split_ips (ci_Networks ctr) = (ip4s, ip6s)" by fastforce
  from assms s show ?thesis
  proof (cases rule: applyContainerInner_cases)
    case (clean x)
    then show ?thesis using pre_cleanup_keeps by (metis order_refl)
  next
    case (fail rss e1 x)
    then show ?thesis using pre_cleanup_keeps install_rules_keeps by metis
  next
    case (ok rss e1 e2)
    have "engine_conf e2 = engine_conf e \<and> set (e_log e) \<subseteq> set (e_log e2)"
      using pre_cleanup_keeps [OF ok(3)] install_rules_keeps [OF ok(4)] by simp
    then show ?thesis using ok(6) by (simp add: record_applied_view)
  qed simp_all
qed

lemma applyContainerInner_books:
  assumes "applyContainerInner w ctr cfg sr e = (err, e')"
  shows "engine_books e' = engine_books e
    \<or> (\<exists>c ips. e_applied e' = AList.update (shortID (ci_ID ctr)) c (e_applied e)
         \<and> e_containerIP e' = e_containerIP (setContainerIPs (shortID (ci_ID ctr)) ips e))"
proof -
  obtain ip4s ip6s where s: "split_ips (ci_Networks ctr) = (ip4s, ip6s)" by fastforce
  from assms s show ?thesis
  proof (cases rule: applyContainerInner_cases)
    case (clean x)
    then show ?thesis using pre_cleanup_keeps by metis
  next
    case (fail rss e1 x)
    then show ?thesis using pre_cleanup_keeps install_rules_keeps by metis
  next
    case (ok rss e1 e2)
    have "engine_books e2 = engine_books e"
      using pre_cleanup_keeps [OF ok(3)] install_rules_keeps [OF ok(4)] by simp
    then show ?thesis unfolding ok(6)
      by (intro disjI2 exI [of _ "ip4s @ ip6s"] exI) (simp add: record_applied_view engine_books_def setContainerIPs_def)
  qed simp_all
qed

end
