(* ===== verification/Engine_Properties.thy ===== *)
theory Engine_Properties
  imports Engine_Contract
begin

text \<open>
  What the engine guarantees over any backend that keeps the contract: how the container ids in the
  kernel and the engine's books follow each operation, the removal of stale chains at
  startup, the invariant of the books over all reachable states, drift detection and the
  schedule loop. The properties are stated for the iptables backend on the in-memory table.
\<close>

lemma shortID_short [simp]: "shortID (shortID cid) = shortID cid"
  by (simp add: shortID_def)

context backend_contract
begin

lemma pre_cleanup_ids:
  assumes "pre_cleanup (shortID cid) nm e = (err, e')" "e_backend e = be" "good cid"
  shows "ids (e_kernel e') \<subseteq> ids (e_kernel e) \<and> ids (e_kernel e) - {shortID cid} \<subseteq> ids (e_kernel e')"
proof (cases "map_of (e_applied e) (shortID cid)")
  case None
  then show ?thesis using assms(1) by (auto simp: pre_cleanup_def)
next
  case (Some c)
  obtain x k where r: "be_RemoveContainerChains be (shortID cid) (e_kernel e) = (x, k)" by fastforce
  have "e_kernel e' = k" using assms(1,2) Some r
    by (cases x) (auto simp: pre_cleanup_def ip6_cleanup_keeps(3))
  then show ?thesis using remove_ids [OF short_good [OF assms(3)] r] by simp
qed

lemma install4_ids:
  assumes "install4 what ctr ips rss pol auto e = (err, e')" "e_backend e = be" "good (ci_ID ctr)"
  shows "ids (e_kernel e) \<subseteq> ids (e_kernel e') \<and> ids (e_kernel e') \<subseteq> insert (shortID (ci_ID ctr)) (ids (e_kernel e))
    \<and> (err = None \<and> ips \<noteq> [] \<longrightarrow> shortID (ci_ID ctr) \<in> ids (e_kernel e'))"
proof (cases "ips = []")
  case True
  then show ?thesis using assms(1) by (auto simp: install4_def)
next
  case False
  obtain x k where a: "be_ApplyContainerRules be (ci_ID ctr) (ci_Name ctr) ips rss pol auto (e_kernel e) = (x, k)"
    by fastforce
  have e': "e_kernel e' = k" "err = None \<longleftrightarrow> x = None" using assms(1,2) False a
    by (cases x; auto simp: install4_def)+
  then show ?thesis using apply_ids [OF assms(3) a] apply_ok [OF assms(3), of "ci_Name ctr" ips rss pol auto "e_kernel e" k] a
    by simp
qed

lemma rollback4_ids:
  assumes "e_backend e = be" "good (ci_ID ctr)"
  shows "ids (e_kernel (rollback4 ctr ips e)) \<subseteq> ids (e_kernel e)
    \<and> ids (e_kernel e) - {shortID (ci_ID ctr)} \<subseteq> ids (e_kernel (rollback4 ctr ips e))"
proof (cases "ips = []")
  case True
  then show ?thesis by (auto simp: rollback4_def)
next
  case False
  obtain x k where r: "be_RemoveContainerChains be (ci_ID ctr) (e_kernel e) = (x, k)" by fastforce
  have "e_kernel (rollback4 ctr ips e) = k" using assms(1) False r
    by (cases x) (simp_all add: rollback4_def log_error_def)
  then show ?thesis using remove_ids [OF assms(2) r] by simp
qed

lemma install6_ids:
  assumes "install6 ctr ip4s ip6s rss pol auto e = (err, e')" "e_backend e = be" "good (ci_ID ctr)"
  shows "ids (e_kernel e') \<subseteq> ids (e_kernel e) \<and> ids (e_kernel e) - {shortID (ci_ID ctr)} \<subseteq> ids (e_kernel e')
    \<and> (err = None \<longrightarrow> e_kernel e' = e_kernel e)"
  using assms rollback4_ids [of "e\<lparr>e_kernel6 := k\<rparr>" ctr ip4s for k]
  by (auto simp: install6_def split: option.splits if_splits prod.splits)

lemma install_rules_ids:
  assumes "install_rules ctr ip4s ip6s rss pol auto e = (err, e')" "e_backend e = be" "good (ci_ID ctr)"
  shows "ids (e_kernel e) - {shortID (ci_ID ctr)} \<subseteq> ids (e_kernel e')
    \<and> ids (e_kernel e') \<subseteq> insert (shortID (ci_ID ctr)) (ids (e_kernel e))
    \<and> (err = None \<and> (ip4s \<noteq> [] \<or> e_inetBackend e \<and> ip6s \<noteq> []) \<longrightarrow> shortID (ci_ID ctr) \<in> ids (e_kernel e'))"
proof (cases "e_inetBackend e")
  case True
  then have i: "install4 ''apply rules'' ctr (ip4s @ ip6s) rss pol auto e = (err, e')"
    using assms(1) by (simp add: install_rules_def)
  from install4_ids [OF i assms(2,3)] show ?thesis by auto
next
  case False
  obtain x e1 where i: "install4 ''apply ipv4 rules'' ctr ip4s rss pol auto e = (x, e1)" by fastforce
  note I = install4_ids [OF i assms(2,3)]
  have b1: "e_backend e1 = be" using install4_keeps [OF i] assms(2) by (simp add: engine_conf_def)
  show ?thesis
  proof (cases x)
    case (Some y)
    then have "err = Some y" "e' = e1" using assms(1) False i by (simp_all add: install_rules_def)
    then show ?thesis using I by auto
  next
    case None
    then have j: "install6 ctr ip4s ip6s rss pol auto e1 = (err, e')" using assms(1) False i by (simp add: install_rules_def)
    from install6_ids [OF j b1 assms(3)] I None False show ?thesis by auto
  qed
qed

lemma applyContainerInner_ids:
  assumes "applyContainerInner w ctr cfg sr e = (err, e')" "e_backend e = be" "good (ci_ID ctr)"
    and "split_ips (ci_Networks ctr) = (ip4s, ip6s)"
  defines "sid \<equiv> shortID (ci_ID ctr)"
  shows "ids (e_kernel e) - {sid} \<subseteq> ids (e_kernel e')" "ids (e_kernel e') \<subseteq> insert sid (ids (e_kernel e))"
    and "err = None \<Longrightarrow> ip4s \<noteq> [] \<or> e_inetBackend e \<and> ip6s \<noteq> [] \<Longrightarrow> sid \<in> ids (e_kernel e')"
proof -
  have "ids (e_kernel e) - {sid} \<subseteq> ids (e_kernel e') \<and> ids (e_kernel e') \<subseteq> insert sid (ids (e_kernel e))
    \<and> (err = None \<and> (ip4s \<noteq> [] \<or> e_inetBackend e \<and> ip6s \<noteq> []) \<longrightarrow> sid \<in> ids (e_kernel e'))"
    using assms(1,4)
  proof (cases rule: applyContainerInner_cases)
    case (clean x)
    from pre_cleanup_ids [OF clean(1) assms(2,3)] clean(2) show ?thesis unfolding sid_def by auto
  next
    case (fail rss e1 x)
    have b1: "e_backend e1 = be" using pre_cleanup_keeps [OF fail(1)] assms(2) by (simp add: engine_conf_def)
    from pre_cleanup_ids [OF fail(1) assms(2,3)] install_rules_ids [OF fail(2) b1 assms(3)] fail(3)
    show ?thesis unfolding sid_def by auto
  next
    case (ok rss e1 e2)
    have b1: "e_backend e1 = be" "e_inetBackend e1 = e_inetBackend e"
      using pre_cleanup_keeps [OF ok(3)] assms(2) by (simp_all add: engine_conf_def)
    from pre_cleanup_ids [OF ok(3) assms(2,3)] install_rules_ids [OF ok(4) b1(1) assms(3)] ok(6)
    show ?thesis unfolding sid_def by (auto simp: record_applied_view b1(2))
  qed auto
  then show "ids (e_kernel e) - {sid} \<subseteq> ids (e_kernel e')" "ids (e_kernel e') \<subseteq> insert sid (ids (e_kernel e))"
    "err = None \<Longrightarrow> ip4s \<noteq> [] \<or> e_inetBackend e \<and> ip6s \<noteq> [] \<Longrightarrow> sid \<in> ids (e_kernel e')" by auto
qed

lemma removeChains_ids:
  assumes "removeChains cid sr e = (err, e')" "e_backend e = be" "good cid"
  shows "ids (e_kernel e') \<subseteq> ids (e_kernel e)" "ids (e_kernel e) - {shortID cid} \<subseteq> ids (e_kernel e')"
    and "err = None \<Longrightarrow> shortID cid \<notin> ids (e_kernel e')"
proof -
  obtain x k where r: "be_RemoveContainerChains be cid (e_kernel e) = (x, k)" by fastforce
  have e': "e_kernel e' = k" "err = None \<longleftrightarrow> x = None" using assms(1,2) r
    by (cases x; auto simp: removeChains_def audit_def dropContainerIPs_def ip6_cleanup_keeps(3) Let_def)+
  show "ids (e_kernel e') \<subseteq> ids (e_kernel e)" "ids (e_kernel e) - {shortID cid} \<subseteq> ids (e_kernel e')"
    using remove_ids [OF assms(3) r] e' by simp_all
  show "shortID cid \<notin> ids (e_kernel e')" if "err = None"
    using remove_ok [OF assms(3), of "e_kernel e" k] r e' that by simp
qed

end

section \<open>Removal and the books\<close>

definition applied_ids :: "'k Engine \<Rightarrow> string set" where
  "applied_ids e = fst ` set (e_applied e)"

lemma applied_ids_books: "engine_books e' = engine_books e \<Longrightarrow> applied_ids e' = applied_ids e"
  by (simp add: applied_ids_def engine_books_def)

lemma applied_ids_update: "e_applied e' = AList.update cid c (e_applied e) \<Longrightarrow> applied_ids e' = insert cid (applied_ids e)"
  by (simp add: applied_ids_def dom_update)

lemma applied_ids_delete: "e_applied e' = AList.delete cid (e_applied e) \<Longrightarrow> applied_ids e' = applied_ids e - {cid}"
proof -
  assume "e_applied e' = AList.delete cid (e_applied e)"
  then have "applied_ids e' = set (map fst (AList.delete cid (e_applied e)))" by (simp add: applied_ids_def)
  then show ?thesis unfolding delete_keys by (simp add: applied_ids_def)
qed

lemma removeChains_conf:
  assumes "removeChains cid sr e = (err, e')"
  shows "engine_conf e' = engine_conf e \<and> e_log e' = e_log e"
  using assms ip6_cleanup_keeps [of cid "e\<lparr>e_kernel := k\<rparr>" for k]
  by (auto simp: removeChains_def audit_def dropContainerIPs_def Let_def engine_conf_def split: prod.splits option.splits)

lemma removeChains_books:
  assumes "removeChains cid sr e = (err, e')"
  shows "e_applied e' = (if err = None then AList.delete cid (e_applied e) else e_applied e)
    \<and> e_containerIP e' = (if err = None then drop_ips cid (e_containerIP e) else e_containerIP e)"
  using assms ip6_cleanup_keeps [of cid "e\<lparr>e_kernel := k\<rparr>" for k]
  by (auto simp: removeChains_def audit_def dropContainerIPs_def Let_def engine_books_def split: prod.splits option.splits)

lemma log_error_view [simp]:
  "engine_conf (log_error r e) = engine_conf e" "engine_books (log_error r e) = engine_books e"
  "e_kernel (log_error r e) = e_kernel e" "e_applied (log_error r e) = e_applied e"
  "e_containerIP (log_error r e) = e_containerIP e" "set (e_log (log_error r e)) = insert r (set (e_log e))"
  by (simp_all add: log_error_def engine_view_defs)

lemma audit_view [simp]:
  "engine_conf (audit r e) = engine_conf e" "engine_books (audit r e) = engine_books e"
  "e_kernel (audit r e) = e_kernel e" "e_applied (audit r e) = e_applied e"
  "e_containerIP (audit r e) = e_containerIP e" "e_log (audit r e) = e_log e"
  by (simp_all add: audit_def engine_view_defs)

lemma applyHostRules_keeps:
  assumes "applyHostRules rf e = (err, e')"
  shows "engine_conf e' = engine_conf e \<and> engine_books e' = engine_books e \<and> e_log e' = e_log e"
  using assms
  by (auto simp: applyHostRules_def rememberHostRules_def engine_view_defs Let_def
      split: if_splits prod.splits option.splits)

context backend_contract
begin

lemma applyHostRules_ids:
  assumes "applyHostRules rf e = (err, e')" "e_backend e = be"
  shows "ids (e_kernel e') = ids (e_kernel e)"
proof (cases "rf_HostRules rf = [] \<and> strings_TrimSpace (rf_HostDefault rf) = []")
  case True
  obtain x k where r: "be_RemoveHostChain be (e_kernel e) = (x, k)" by fastforce
  have "e_kernel e' = k" using assms True r
    by (auto simp: applyHostRules_def rememberHostRules_def Let_def split: option.splits)
  then show ?thesis using host_remove_ids [OF r] by simp
next
  case False
  let ?rules = "fst (convertHostRules (rf_HostRules rf))" and ?d = "NormaliseHostDefault (rf_HostDefault rf)"
  obtain x k where r: "be_ApplyHostRules be ?rules ?d (e_kernel e) = (x, k)" by fastforce
  have "e_kernel e' = k"
    using assms r unfolding applyHostRules_def if_not_P [OF False] Let_def rememberHostRules_def
    by (auto split: option.splits prod.splits)
  then show ?thesis using host_apply_ids [OF r] by simp
qed

lemma reconcile_containers_spec:
  assumes "e_backend e = be" "\<forall>c \<in> set ctrs. good (ci_ID c)"
  defines "S \<equiv> (\<lambda>c. shortID (ci_ID c)) ` set ctrs"
  shows "engine_conf (reconcile_containers w fr tp po sr ctrs e) = engine_conf e
    \<and> ids (e_kernel (reconcile_containers w fr tp po sr ctrs e)) \<subseteq> ids (e_kernel e) \<union> S
    \<and> applied_ids e \<subseteq> applied_ids (reconcile_containers w fr tp po sr ctrs e)
    \<and> applied_ids (reconcile_containers w fr tp po sr ctrs e) \<subseteq> applied_ids e \<union> S"
  using assms(1,2) unfolding S_def
proof (induction ctrs arbitrary: e)
  case (Cons c ctrs)
  let ?cfg = "container_config w fr tp po c"
  obtain err e1 where a: "applyContainerInner w c ?cfg sr e = (err, e1)" by fastforce
  obtain ip4s ip6s where s: "split_ips (ci_Networks c) = (ip4s, ip6s)" by fastforce
  define e2 where "e2 = (if Enable ?cfg then (case err of Some x \<Rightarrow> log_error (LogApplyFailed (ci_Name c) x) e1 | None \<Rightarrow> e1) else e)"
  have r: "reconcile_containers w fr tp po sr (c # ctrs) e = reconcile_containers w fr tp po sr ctrs e2"
    by (simp add: e2_def a Let_def split: option.split)
  have 1: "engine_conf e2 = engine_conf e" using applyContainerInner_conf [OF a]
    by (simp add: e2_def split: option.split)
  have 2: "ids (e_kernel e2) \<subseteq> insert (shortID (ci_ID c)) (ids (e_kernel e))"
    using applyContainerInner_ids(2) [OF a Cons.prems(1) _ s] Cons.prems(2)
    by (auto simp: e2_def split: option.split)
  have 3: "applied_ids e \<subseteq> applied_ids e2
      \<and> applied_ids e2 \<subseteq> insert (shortID (ci_ID c)) (applied_ids e)"
  proof -
    have "applied_ids e1 = applied_ids e \<or> applied_ids e1 = insert (shortID (ci_ID c)) (applied_ids e)"
      using applyContainerInner_books [OF a] applied_ids_books applied_ids_update by blast
    moreover have "applied_ids e2 = applied_ids e1 \<or> applied_ids e2 = applied_ids e"
      by (simp add: e2_def applied_ids_def split: option.split)
    ultimately show ?thesis by auto
  qed
  have b: "e_backend e2 = be" using engine_conf_backend [OF 1] Cons.prems(1) by simp
  have g: "\<forall>c \<in> set ctrs. good (ci_ID c)" using Cons.prems(2) by simp
  define e3 where "e3 = reconcile_containers w fr tp po sr ctrs e2"
  note IH = Cons.IH [OF b g, folded e3_def]
  have U: "(\<lambda>c. shortID (ci_ID c)) ` set (c # ctrs) = insert (shortID (ci_ID c)) ((\<lambda>c. shortID (ci_ID c)) ` set ctrs)" by simp
  show ?case unfolding r e3_def [symmetric] U
  proof (intro conjI)
    show "engine_conf e3 = engine_conf e" using IH 1 by simp
    show "ids (e_kernel e3) \<subseteq> ids (e_kernel e) \<union> insert (shortID (ci_ID c)) ((\<lambda>c. shortID (ci_ID c)) ` set ctrs)"
      using IH 2 by blast
    show "applied_ids e \<subseteq> applied_ids e3" using IH 3 by blast
    show "applied_ids e3 \<subseteq> applied_ids e \<union> insert (shortID (ci_ID c)) ((\<lambda>c. shortID (ci_ID c)) ` set ctrs)"
      using IH 3 by blast
  qed
qed simp

lemma remove_unseen_spec:
  assumes "e_backend e = be" "\<forall>cid \<in> set cids. good cid"
  shows "ids (e_kernel (remove_unseen sr seen cids e)) \<subseteq> ids (e_kernel e)
    \<and> applied_ids (remove_unseen sr seen cids e) \<subseteq> applied_ids e
    \<and> set (e_log e) \<subseteq> set (e_log (remove_unseen sr seen cids e))
    \<and> (\<forall>cid \<in> set cids - seen. (\<exists>x. LogRemoveFailed cid x \<in> set (e_log (remove_unseen sr seen cids e)))
         \<or> (shortID cid \<notin> ids (e_kernel (remove_unseen sr seen cids e))
            \<and> cid \<notin> applied_ids (remove_unseen sr seen cids e)))"
  using assms
proof (induction cids arbitrary: e)
  case (Cons c cids)
  show ?case
  proof (cases "c \<in> seen")
    case True
    then show ?thesis using Cons.IH [OF Cons.prems(1)] Cons.prems(2) by auto
  next
    case False
    obtain err e1 where a: "removeChains c sr e = (err, e1)" by fastforce
    define e2 where "e2 = (case err of Some x \<Rightarrow> log_error (LogRemoveFailed c x) e1 | None \<Rightarrow> e1)"
    have r: "remove_unseen sr seen (c # cids) e = remove_unseen sr seen cids e2"
      using False by (simp add: e2_def a split: option.split)
    have g: "good c" using Cons.prems(2) by simp
    note I = removeChains_ids [OF a Cons.prems(1) g]
    note B = removeChains_books [OF a]
    have 1: "engine_conf e2 = engine_conf e" "set (e_log e) \<subseteq> set (e_log e2)"
      using removeChains_conf [OF a] by (auto simp: e2_def split: option.split)
    have 2: "ids (e_kernel e2) \<subseteq> ids (e_kernel e)" using I(1) by (simp add: e2_def split: option.split)
    have e2_ids: "applied_ids e2 = applied_ids e1" by (simp add: e2_def applied_ids_def split: option.split)
    have D: "applied_ids e1 = (if err = None then applied_ids e - {c} else applied_ids e)"
      using B applied_ids_delete [of e1 c e] by (auto simp: applied_ids_def)
    have 3: "applied_ids e2 \<subseteq> applied_ids e"
      using e2_ids D by (cases err) auto
    have 4: "(\<exists>x. LogRemoveFailed c x \<in> set (e_log e2))
        \<or> (shortID c \<notin> ids (e_kernel e2) \<and> c \<notin> applied_ids e2)"
      using e2_ids D I(3) by (cases err) (auto simp: e2_def)
    have b: "e_backend e2 = be" using engine_conf_backend [OF 1(1)] Cons.prems(1) by simp
    have gs: "\<forall>cid \<in> set cids. good cid" using Cons.prems(2) by simp
    define e3 where "e3 = remove_unseen sr seen cids e2"
    note IH = Cons.IH [OF b gs, folded e3_def]
    show ?thesis unfolding r e3_def [symmetric]
    proof (intro conjI ballI)
      show "ids (e_kernel e3) \<subseteq> ids (e_kernel e)" using IH 2 by blast
      show "applied_ids e3 \<subseteq> applied_ids e" using IH 3 by blast
      show "set (e_log e) \<subseteq> set (e_log e3)" using IH 1(2) by blast
      fix x assume x: "x \<in> set (c # cids) - seen"
      show "(\<exists>y. LogRemoveFailed x y \<in> set (e_log e3)) \<or> (shortID x \<notin> ids (e_kernel e3) \<and> x \<notin> applied_ids e3)"
      proof (cases "x \<in> set cids")
        case True
        then show ?thesis using IH x by blast
      next
        case False
        then have "x = c" using x by simp
        then show ?thesis using 4 IH by blast
      qed
    qed
  qed
qed simp

end

section \<open>Startup\<close>

lemma adopt_keys: "fst ` set (adopt cids m) = fst ` set m \<union> set cids"
proof (induction cids arbitrary: m)
  case (Cons c cids)
  show ?case
  proof (cases "map_of m c")
    case None
    then show ?thesis using Cons.IH by (simp add: dom_update)
  next
    case (Some v)
    then have "c \<in> fst ` set m" by (force dest: map_of_SomeD)
    then show ?thesis using Cons.IH Some by auto
  qed
qed simp

lemma adopt_adopt: "adopt ys (adopt xs m) = adopt (xs @ ys) m"
  by (induction xs arbitrary: m) simp_all

lemma adopt_distinct: "distinct (map fst m) \<Longrightarrow> distinct (map fst (adopt cids m))"
  by (induction cids arbitrary: m) (auto simp: distinct_update)

lemma Rehydrate_keeps:
  assumes "Rehydrate e = (err, e')"
  shows "engine_conf e' = engine_conf e \<and> e_kernel e' = e_kernel e \<and> e_containerIP e' = e_containerIP e \<and> e_log e' = e_log e"
  using assms by (auto simp: Rehydrate_def engine_conf_def Let_def split: sum.splits option.splits)

context backend_contract
begin

lemma Rehydrate_ids:
  assumes "Rehydrate e = (None, e')" "e_backend e = be" "e_applied e = []"
    and "\<forall>b6 k xs. e_ip6backend e = Some b6 \<and> be_ListAppliedContainerIDs b6 k = Inr xs \<longrightarrow> (\<forall>x \<in> set xs. good x)"
  shows "ids (e_kernel e) \<subseteq> applied_ids e' \<and> (\<forall>cid \<in> applied_ids e'. good cid)"
proof -
  obtain xs where xs: "be_ListAppliedContainerIDs be (e_kernel e) = Inr xs"
    using assms(1,2) by (cases "be_ListAppliedContainerIDs be (e_kernel e)") (auto simp: Rehydrate_def)
  note L = list_ids [OF xs]
  have "\<exists>ys. applied_ids e' = set xs \<union> set ys \<and> (\<forall>y \<in> set ys. good y)"
  proof (cases "e_ip6backend e")
    case None
    then have "e_applied e' = adopt xs []" using assms(1-3) xs by (auto simp: Rehydrate_def)
    then show ?thesis by (intro exI [of _ "[]"]) (simp add: applied_ids_def adopt_keys)
  next
    case (Some b6)
    show ?thesis
    proof (cases "be_ListAppliedContainerIDs b6 (e_kernel6 e)")
      case (Inl x)
      then have "e_applied e' = adopt xs []" using assms(1-3) xs Some by (auto simp: Rehydrate_def)
      then show ?thesis by (intro exI [of _ "[]"]) (simp add: applied_ids_def adopt_keys)
    next
      case (Inr ys)
      then have "e_applied e' = adopt ys (adopt xs [])" using assms(1-3) xs Some by (auto simp: Rehydrate_def Let_def)
      then show ?thesis using assms(4) Some Inr by (intro exI [of _ ys]) (simp add: applied_ids_def adopt_keys)
    qed
  qed
  then show ?thesis using L ids_good by blast
qed

lemma Reconcile_ids:
  assumes "Reconcile w sr e = (None, e')" "e_backend e = be" "w_containers w = Inr ctrs"
    and "\<forall>c \<in> set ctrs. good (ci_ID c)" "\<forall>cid \<in> applied_ids e. good cid" "\<forall>xs. set (w_range w xs) = set xs"
  defines "S \<equiv> (\<lambda>c. shortID (ci_ID c)) ` set ctrs"
  shows "ids (e_kernel e') \<subseteq> ids (e_kernel e) \<union> S"
    and "\<forall>cid \<in> applied_ids e - S. (\<exists>x. LogRemoveFailed cid x \<in> set (e_log e'))
           \<or> (shortID cid \<notin> ids (e_kernel e') \<and> cid \<notin> applied_ids e')"
    and "applied_ids e' \<subseteq> applied_ids e \<union> S"
proof -
  let ?sr = "if sr = [] then ''config-reload'' else sr"
  define e1 where "e1 = audit (AuditReconcileStarted ?sr) e"
  obtain fr where fr: "LoadRulesFile (w_readFile w) (w_unmarshal w) (c_ConfigFile (e_cfg e1)) = Inr fr"
    using assms(1) by (cases "LoadRulesFile (w_readFile w) (w_unmarshal w) (c_ConfigFile (e_cfg e1))")
      (auto simp: Reconcile_def e1_def Let_def)
  obtain x e2 where h: "applyHostRules fr e1 = (x, e2)" by fastforce
  define e3 where "e3 = (case x of Some err \<Rightarrow> log_error (LogHostFailed err) e2 | None \<Rightarrow> e2)"
  define e4 where "e4 = reconcile_containers w fr (e_templates e3) (e_policies e3) ?sr ctrs e3"
  have e': "e' = remove_unseen ?sr S (w_range w (map fst (e_applied e4))) e4"
    using assms(1,3) fr h unfolding Reconcile_def e1_def [symmetric] Let_def
    by (auto simp: e4_def e3_def S_def image_comp split: option.splits)
  have b1: "e_backend e1 = be" using assms(2) by (simp add: e1_def audit_def)
  have c3: "engine_conf e3 = engine_conf e" "applied_ids e3 = applied_ids e"
    using applyHostRules_keeps [OF h]
    by (auto simp: e3_def e1_def engine_books_def applied_ids_def split: option.split)
  have k3: "ids (e_kernel e3) = ids (e_kernel e)"
    using applyHostRules_ids [OF h b1] by (simp add: e3_def e1_def split: option.split)
  have b3: "e_backend e3 = be" using engine_conf_backend [OF c3(1)] assms(2) by simp
  note R = reconcile_containers_spec [OF b3 assms(4), of w fr "e_templates e3" "e_policies e3" ?sr, folded e4_def, folded S_def]
  have b4: "e_backend e4 = be" using R engine_conf_backend b3 by metis
  have keys: "set (w_range w (map fst (e_applied e4))) = applied_ids e4"
    using assms(6) by (simp add: applied_ids_def)
  have "\<forall>cid \<in> S. good cid" using assms(4) short_good by (auto simp: S_def)
  then have g4: "\<forall>cid \<in> set (w_range w (map fst (e_applied e4))). good cid"
    unfolding keys using R assms(5) c3(2) by blast
  note U = remove_unseen_spec [OF b4 g4, of ?sr S, folded e', unfolded keys]
  show "ids (e_kernel e') \<subseteq> ids (e_kernel e) \<union> S" using U R k3 by blast
  show "applied_ids e' \<subseteq> applied_ids e \<union> S" using U R c3(2) by blast
  show "\<forall>cid \<in> applied_ids e - S. (\<exists>x. LogRemoveFailed cid x \<in> set (e_log e'))
           \<or> (shortID cid \<notin> ids (e_kernel e') \<and> cid \<notin> applied_ids e')"
    using U R c3(2) by blast
qed

lemma startup_ids:
  assumes "Rehydrate e = (None, e1)" "Reconcile w sr e1 = (None, e2)" "e_backend e = be" "e_applied e = []"
    and "\<forall>b6 k xs. e_ip6backend e = Some b6 \<and> be_ListAppliedContainerIDs b6 k = Inr xs \<longrightarrow> (\<forall>x \<in> set xs. good x)"
    and "w_containers w = Inr ctrs" "\<forall>c \<in> set ctrs. good (ci_ID c)" "\<forall>xs. set (w_range w xs) = set xs"
    and "cid \<in> ids (e_kernel e2)" "shortID cid = cid"
  shows "cid \<in> (\<lambda>c. shortID (ci_ID c)) ` set ctrs \<or> (\<exists>x. LogRemoveFailed cid x \<in> set (e_log e2))"
proof -
  note H = Rehydrate_ids [OF assms(1,3,4,5)]
  have b1: "e_backend e1 = be" using engine_conf_backend Rehydrate_keeps [OF assms(1)] assms(3) by metis
  have "\<forall>cid \<in> applied_ids e1. good cid" using H by blast
  note R = Reconcile_ids [OF assms(2) b1 assms(6,7) this assms(8)]
  have "e_kernel e1 = e_kernel e" using Rehydrate_keeps [OF assms(1)] by simp
  then have c: "cid \<in> (\<lambda>c. shortID (ci_ID c)) ` set ctrs \<or> cid \<in> applied_ids e1 - (\<lambda>c. shortID (ci_ID c)) ` set ctrs"
    using R(1) H assms(9) by auto
  then show ?thesis using bspec [OF R(2), of cid] assms(9,10) by auto
qed

end

section \<open>The engine as a transition system\<close>

inductive engine_step :: "'k Engine \<Rightarrow> 'k Engine \<Rightarrow> bool" where
  step_rehydrate: "Rehydrate e = (err, e') \<Longrightarrow> engine_step e e'"
| step_reconcile: "Reconcile w sr e = (err, e') \<Longrightarrow> engine_step e e'"
| step_apply: "ApplyContainer w cid sr e = (err, e') \<Longrightarrow> engine_step e e'"
| step_remove: "RemoveContainer cid sr e = (err, e') \<Longrightarrow> engine_step e e'"
| step_policies: "engine_step e (SetPolicies p e)"
| step_templates: "engine_step e (SetTemplates t e)"
| step_ip6: "engine_step e (SetIP6Backend b e)"
| step_inet: "engine_step e (SetInetBackend v e)"
| step_geo: "engine_step e (SetGeoDB db e)"
| step_audit: "engine_step e (SetAuditLogger l e)"
| step_drift: "engine_step e (runDriftOnce e)"
| step_schedule: "schedule_tick w lst now e = (lst', e') \<Longrightarrow> engine_step e e'"
| step_kernel: "engine_step e (e\<lparr>e_kernel := k, e_kernel6 := k6\<rparr>)"

inductive engine_reachable :: "'k Engine \<Rightarrow> bool" where
  reach_new: "engine_reachable (NewEngine be cfg k k6)"
| reach_step: "engine_reachable e \<Longrightarrow> engine_step e e' \<Longrightarrow> engine_reachable e'"

definition books_ok :: "'k Engine \<Rightarrow> bool" where
  "books_ok e \<longleftrightarrow> distinct (map fst (e_applied e)) \<and> distinct (map fst (e_containerIP e))
     \<and> snd ` set (e_containerIP e) \<subseteq> applied_ids e"

lemma books_ok_cong: "engine_books e' = engine_books e \<Longrightarrow> books_ok e \<Longrightarrow> books_ok e'"
  by (simp add: books_ok_def engine_books_def applied_ids_def)

lemma values_update: "snd ` set (AList.update k v m) \<subseteq> insert v (snd ` set m)"
  by (induction m) (auto simp: insert_commute)

lemma values_drop: "snd ` set (drop_ips sid m) \<subseteq> snd ` set m - {sid}"
  by (auto simp: drop_ips_def)

lemma distinct_drop: "distinct (map fst m) \<Longrightarrow> distinct (map fst (drop_ips sid m))"
  unfolding drop_ips_def by (rule distinct_map_filter)

lemma fold_ips:
  defines "f \<equiv> \<lambda>sid p m. if p = [] then m else AList.update (ip_String p) sid m"
  shows "distinct (map fst m) \<Longrightarrow> distinct (map fst (fold (f sid) ips m))"
    and "snd ` set (fold (f sid) ips m) \<subseteq> insert sid (snd ` set m)"
    and "map_of (fold (f sid) ips m) a = (if \<exists>p \<in> set ips. p \<noteq> [] \<and> ip_String p = a then Some sid else map_of m a)"
proof -
  show "distinct (map fst m) \<Longrightarrow> distinct (map fst (fold (f sid) ips m))"
    by (induction ips arbitrary: m) (auto simp: f_def distinct_update)
  show "snd ` set (fold (f sid) ips m) \<subseteq> insert sid (snd ` set m)"
  proof (induction ips arbitrary: m)
    case (Cons p ips)
    have "snd ` set (f sid p m) \<subseteq> insert sid (snd ` set m)" using values_update [of "ip_String p" sid m] by (auto simp: f_def)
    then show ?case using Cons.IH [of "f sid p m"] unfolding fold.simps comp_def by blast
  qed auto
  show "map_of (fold (f sid) ips m) a = (if \<exists>p \<in> set ips. p \<noteq> [] \<and> ip_String p = a then Some sid else map_of m a)"
    by (induction ips arbitrary: m) (auto simp: f_def update_conv)
qed

lemma books_ok_apply:
  assumes "books_ok e" "e_applied e' = AList.update sid c (e_applied e)"
    and "e_containerIP e' = e_containerIP (setContainerIPs sid ips e)"
  shows "books_ok e'"
proof -
  let ?m = "drop_ips sid (e_containerIP e)"
  have "distinct (map fst (e_applied e'))" using assms(1,2) by (simp add: books_ok_def distinct_update)
  moreover have "distinct (map fst (e_containerIP e'))"
    using assms(1,3) fold_ips(1) [OF distinct_drop] by (simp add: books_ok_def setContainerIPs_def)
  moreover have "snd ` set (e_containerIP e') \<subseteq> applied_ids e'"
  proof -
    have "snd ` set (e_containerIP e') \<subseteq> insert sid (snd ` set ?m)"
      using assms(3) fold_ips(2) [of sid ips ?m] by (simp add: setContainerIPs_def)
    also have "\<dots> \<subseteq> insert sid (applied_ids e)"
      using values_drop [of sid "e_containerIP e"] assms(1) by (intro insert_mono) (auto simp only: books_ok_def)
    finally show ?thesis using applied_ids_update [OF assms(2)] by simp
  qed
  ultimately show ?thesis by (simp add: books_ok_def)
qed

lemma inner_books_ok:
  "applyContainerInner w ctr cfg sr e = (err, e') \<Longrightarrow> books_ok e \<Longrightarrow> books_ok e'"
  using applyContainerInner_books books_ok_cong books_ok_apply by blast

lemma remove_books_ok:
  assumes "removeChains cid sr e = (err, e')" "books_ok e"
  shows "books_ok e'"
proof (cases err)
  case None
  note B = removeChains_books [OF assms(1)]
  have a: "e_applied e' = AList.delete cid (e_applied e)" "e_containerIP e' = drop_ips cid (e_containerIP e)"
    using B None by simp_all
  have "snd ` set (e_containerIP e') \<subseteq> applied_ids e'"
    using values_drop [of cid "e_containerIP e"] assms(2) applied_ids_delete [OF a(1)]
    unfolding a(2) books_ok_def by blast
  then show ?thesis using assms(2) a distinct_drop by (auto simp: books_ok_def distinct_delete)
next
  case (Some x)
  then show ?thesis using removeChains_books [OF assms(1)] assms(2) by (simp add: books_ok_def applied_ids_def)
qed

lemma reconcile_containers_books_ok: "books_ok e \<Longrightarrow> books_ok (reconcile_containers w fr tp po sr ctrs e)"
proof (induction ctrs arbitrary: e)
  case (Cons c ctrs)
  obtain err e1 where a: "applyContainerInner w c (container_config w fr tp po c) sr e = (err, e1)" by fastforce
  have "books_ok (log_error r e1) = books_ok e1" for r by (simp add: books_ok_def applied_ids_def)
  then show ?case using Cons inner_books_ok [OF a Cons.prems] by (auto simp: a Let_def split: option.split)
qed simp

lemma remove_unseen_books_ok: "books_ok e \<Longrightarrow> books_ok (remove_unseen sr seen cids e)"
proof (induction cids arbitrary: e)
  case (Cons c cids)
  obtain err e1 where a: "removeChains c sr e = (err, e1)" by fastforce
  have "books_ok (log_error r e1) = books_ok e1" for r by (simp add: books_ok_def applied_ids_def)
  then show ?case using Cons remove_books_ok [OF a Cons.prems] by (auto simp: a split: option.split)
qed simp

lemma Reconcile_books_ok:
  assumes "Reconcile w sr e = (err, e')" "books_ok e"
  shows "books_ok e'"
proof -
  have h: "books_ok e2" if "applyHostRules fr (audit ev e) = (x, e2)" for fr ev x e2
    using books_ok_cong [of e2 "audit ev e"] applyHostRules_keeps [OF that] books_ok_cong [of "audit ev e" e] assms(2) by simp
  have "books_ok (log_error r e1) = books_ok e1" for r and e1 :: "'a Engine" by (simp add: books_ok_def applied_ids_def)
  then show ?thesis using assms h books_ok_cong [of "audit ev e" e for ev]
    by (auto simp: Reconcile_def Let_def intro!: remove_unseen_books_ok reconcile_containers_books_ok
        split: sum.splits prod.splits option.splits)
qed

lemma engine_step_books_ok: "engine_step e e' \<Longrightarrow> books_ok e \<Longrightarrow> books_ok e'"
proof (induction rule: engine_step.induct)
  case (step_rehydrate e err e')
  have "\<exists>cids. e_applied e' = adopt cids (e_applied e)"
    using step_rehydrate(1) by (auto simp: Rehydrate_def Let_def adopt_adopt intro: exI [of _ "[]"] split: sum.splits option.splits)
  then obtain cids where a: "e_applied e' = adopt cids (e_applied e)" ..
  then have "applied_ids e \<subseteq> applied_ids e'" by (auto simp only: applied_ids_def adopt_keys)
  then show ?case using step_rehydrate(2) Rehydrate_keeps [OF step_rehydrate(1)] a adopt_distinct
    by (auto simp only: books_ok_def)
next
  case (step_reconcile w sr e err e')
  then show ?case by (rule Reconcile_books_ok)
next
  case (step_apply w cid sr e err e')
  then show ?case
    using inner_books_ok by (auto simp: ApplyContainer_def Let_def split: sum.splits option.splits if_splits)
next
  case (step_remove cid sr e err e')
  then show ?case by (auto simp: RemoveContainer_def intro: remove_books_ok)
next
  case (step_drift e)
  then show ?case by (auto simp: runDriftOnce_def books_ok_cong split: sum.split)
next
  case (step_schedule w lst now e lst' e')
  obtain err e1 where r: "Reconcile w ''schedule'' e = (err, e1)" by fastforce
  then have "e' = e \<or> e' = e1"
    using step_schedule(1) by (auto simp: schedule_tick_def split: if_splits prod.splits)
  then show ?case using Reconcile_books_ok [OF r] step_schedule(2) by blast
qed (simp_all add: books_ok_def applied_ids_def SetPolicies_def SetTemplates_def SetIP6Backend_def SetInetBackend_def
      SetGeoDB_def SetAuditLogger_def)

lemma engine_reachable_books_ok: "engine_reachable e \<Longrightarrow> books_ok e"
proof (induction rule: engine_reachable.induct)
  case (reach_new be cfg k k6)
  then show ?case by (simp add: NewEngine_def books_ok_def)
next
  case (reach_step e e')
  then show ?case by (blast intro: engine_step_books_ok)
qed

section \<open>Schedules\<close>

lemma count_transitions_zero:
  "count_transitions act prev nxt rss (a, b) = (0, 0) \<longleftrightarrow>
   a = 0 \<and> b = 0 \<and> (\<forall>rs \<in> set rss. \<forall>win. rs_Schedule rs = Some win \<longrightarrow> act win prev = act win nxt)"
proof (induction rss arbitrary: a b)
  case (Cons rs rss)
  then show ?case by (cases "rs_Schedule rs") (auto simp: Let_def)
qed auto

section \<open>Properties\<close>

text \<open>
  C38. In every state the engine can reach, whatever the order of its operations and whatever other
  programs do to the kernel tables, the address index names only containers whose rules are
  recorded as applied, and no container or address is recorded twice.
\<close>

theorem engine_books_invariant:
  assumes "engine_reachable e"
  shows "distinct (map fst (e_applied e)) \<and> distinct (map fst (e_containerIP e))
    \<and> (ContainerIDByIP e a \<noteq> [] \<longrightarrow> ContainerIDByIP e a \<in> fst ` set (e_applied e))"
proof -
  have ok: "books_ok e" using engine_reachable_books_ok [OF assms] .
  have "ContainerIDByIP e a \<in> snd ` set (e_containerIP e)" if "ContainerIDByIP e a \<noteq> []"
  proof -
    obtain sid where "map_of (e_containerIP e) a = Some sid" "ContainerIDByIP e a = sid"
      using \<open>ContainerIDByIP e a \<noteq> []\<close> by (auto simp: ContainerIDByIP_def split: if_splits option.splits)
    then show ?thesis by (force dest: map_of_SomeD)
  qed
  then show ?thesis using ok unfolding books_ok_def applied_ids_def by blast
qed

definition demo_config :: Config where
  "demo_config = loadConfig (\<lambda>_. None) (\<lambda>_. ReadNotExist) (\<lambda>_. None)"

definition demo_kernel :: mem where
  "demo_kernel = [(''FIREFIK'', [])]"

definition demo_engine :: "mem Engine" where
  "demo_engine = NewEngine (iptables_Backend demo_backend (mem_ipt (\<lambda>a. a) (\<lambda>_ _ _. True))) demo_config demo_kernel []"

definition demo_container :: ContainerInfo where
  "demo_container = \<lparr>ci_ID = ''0123456789ab'', ci_Name = ''web'', ci_Status = ''running'', ci_Labels = [],
     ci_Networks = [(''bridge'', \<lparr>ep_IP = ''172.17.0.2'', ep_PrefixLen = 16\<rparr>)]\<rparr>"

definition demo_world :: world where
  "demo_world = \<lparr>w_readFile = (\<lambda>_. ReadNotExist), w_unmarshal = (\<lambda>_. Inl ''bad''), w_iter = (\<lambda>s. s),
     w_LoadLocation = (\<lambda>_. None), w_civil = (\<lambda>_ _. \<lparr>c_weekday = 0, c_hour = 0, c_minute = 0\<rparr>), w_now = 0,
     w_containers = Inr [], w_inspect = (\<lambda>_. Inr None), w_range = (\<lambda>xs. xs)\<rparr>"

theorem engine_books_invariant_witness:
  "engine_reachable (SetInetBackend True demo_engine)
   \<and> distinct (map fst (e_applied (SetInetBackend True demo_engine)))"
proof -
  have r: "engine_reachable (SetInetBackend True demo_engine)"
    unfolding demo_engine_def by (rule reach_step [OF reach_new step_inet])
  then show ?thesis using engine_books_invariant [OF r] by blast
qed

text \<open>
  Drift detection is exact: when the backend can be listed, the report names as orphans exactly the
  containers with chains in the kernel that the engine does not know, as missing exactly
  those the engine believes applied that have no chain, each once; and drift is reported if
  and only if the two sets differ.
\<close>

theorem CheckDrift_exact:
  assumes "e_backend e = iptables_Backend b (mem_ipt norm accepts)" "length (chainName b) \<le> 14"
    and "CheckDrift e = Inr rep"
  shows "set (OrphanIDs rep) = chain_ids b (map_of (e_kernel e)) - fst ` set (e_applied e)
    \<and> set (MissingIDs rep) = fst ` set (e_applied e) - chain_ids b (map_of (e_kernel e))
    \<and> distinct (OrphanIDs rep) \<and> distinct (MissingIDs rep)
    \<and> (HasDrift rep \<longleftrightarrow> chain_ids b (map_of (e_kernel e)) \<noteq> fst ` set (e_applied e))"
proof -
  have sb: "short_base b" using assms(2) by (simp add: short_base_def)
  obtain xs where xs: "be_ListAppliedContainerIDs (e_backend e) (e_kernel e) = Inr xs"
    using assms(3) by (cases "be_ListAppliedContainerIDs (e_backend e) (e_kernel e)") (simp_all add: CheckDrift_def)
  have L: "set xs = chain_ids b (map_of (e_kernel e))"
    using backend_contract.list_ids [OF mem.iptables_contract [OF sb]] xs assms(1) by metis
  have rep: "rep = \<lparr>OrphanIDs = filter (\<lambda>cid. cid \<notin> fst ` set (e_applied e)) (remdups xs),
      MissingIDs = filter (\<lambda>cid. cid \<notin> set xs) (remdups (map fst (e_applied e)))\<rparr>"
    using assms(3) xs by (simp add: CheckDrift_def Let_def)
  have "HasDrift rep \<longleftrightarrow> \<not> (set xs \<subseteq> fst ` set (e_applied e) \<and> fst ` set (e_applied e) \<subseteq> set xs)"
    unfolding HasDrift_def rep by (auto simp: filter_empty_conv image_iff subset_iff)
  then have "HasDrift rep \<longleftrightarrow> set xs \<noteq> fst ` set (e_applied e)" by blast
  moreover have "set (OrphanIDs rep) = set xs - fst ` set (e_applied e)" "set (MissingIDs rep) = fst ` set (e_applied e) - set xs"
    by (auto simp: rep)
  ultimately show ?thesis unfolding L [symmetric] by (simp add: rep)
qed

theorem CheckDrift_exact_witness:
  "\<exists>rep. CheckDrift demo_engine = Inr rep \<and> \<not> HasDrift rep"
proof -
  have b: "e_backend demo_engine = iptables_Backend demo_backend (mem_ipt (\<lambda>a. a) (\<lambda>_ _ _. True))"
    by (simp add: demo_engine_def NewEngine_def)
  obtain rep where r: "CheckDrift demo_engine = Inr rep"
    by (simp add: CheckDrift_def b iptables_Backend_def ListAppliedContainerIDs_def mem_ipt_def)
  have "chain_ids demo_backend (map_of (e_kernel demo_engine)) = fst ` set (e_applied demo_engine)"
    using base_no_id [of "''FIREFIK''"] by (auto simp: demo_engine_def NewEngine_def chain_ids_def demo_kernel_def demo_backend_def split: if_splits)
  then show ?thesis using CheckDrift_exact [OF b _ r] r by (simp add: demo_backend_def)
qed

text \<open>
  The schedule loop skips a reconciliation only when nothing would change: if a tick finds no
  transition, every rule set of every applied container is active at the new time exactly
  when it was active at the previous one.
\<close>

theorem scheduleTransitionCount_sound:
  assumes "scheduleTransitionCount w prev nxt e = (0, 0)" "(cid, cfg) \<in> set (e_applied e)"
  shows "active_sets (w\<lparr>w_now := nxt\<rparr>) (RuleSets cfg) = active_sets (w\<lparr>w_now := prev\<rparr>) (RuleSets cfg)"
proof -
  have "\<forall>rs \<in> set (RuleSets cfg). \<forall>win. rs_Schedule rs = Some win \<longrightarrow> Active (w_civil w) win prev = Active (w_civil w) win nxt"
    using assms unfolding scheduleTransitionCount_def count_transitions_zero by fastforce
  then show ?thesis unfolding active_sets_def by (intro filter_cong refl) (simp split: option.split)
qed

theorem scheduleTransitionCount_sound_witness:
  "scheduleTransitionCount demo_world 0 60 (demo_engine\<lparr>e_applied := [(''a'', \<lparr>Enable = True, DefaultPolicy = [],
      NoAutoAllowlist = False, RuleSets = [empty_ruleset ''x'']\<rparr>)]\<rparr>) = (0, 0)
   \<and> active_sets (demo_world\<lparr>w_now := 60\<rparr>) [empty_ruleset ''x''] = active_sets (demo_world\<lparr>w_now := 0\<rparr>) [empty_ruleset ''x'']"
proof -
  let ?e = "demo_engine\<lparr>e_applied := [(''a'', \<lparr>Enable = True, DefaultPolicy = [],
      NoAutoAllowlist = False, RuleSets = [empty_ruleset ''x'']\<rparr>)]\<rparr>"
  have z: "scheduleTransitionCount demo_world 0 60 ?e = (0, 0)"
    by (simp add: scheduleTransitionCount_def empty_ruleset_def)
  from scheduleTransitionCount_sound [OF z, of "''a''"] z show ?thesis by simp
qed

end
