(* ===== verification/Engine_Apply.thy ===== *)
theory Engine_Apply
  imports Engine_Properties
begin

text \<open>
  Properties of applying rules through the engine, from a container's configuration down to the verdict
  on packets: what success records, rollback of IPv4 when IPv6 fails, the GeoIP fail-closed rule,
  startup, and the host chain.
\<close>

section \<open>Applying a container\<close>

lemma split_ips_length: "split_ips eps = (ip4s, ip6s) \<Longrightarrow> \<forall>p \<in> set ip4s \<union> set ip6s. length p = 16"
proof (induction eps arbitrary: ip4s ip6s)
  case (Cons x eps)
  obtain n ep where x: "x = (n, ep)" by fastforce
  obtain a b where s: "split_ips eps = (a, b)" by fastforce
  show ?case using Cons.prems Cons.IH [OF s]
    by (auto simp: x s split: option.splits if_splits dest: length_net_ParseIP)
qed simp

lemma inner_None_view:
  assumes "applyContainerInner w ctr cfg sr e = (None, e')" "split_ips (ci_Networks ctr) = (ip4s, ip6s)" "ip4s @ ip6s \<noteq> []"
  shows "map_of (e_applied e') = (map_of (e_applied e))(shortID (ci_ID ctr) \<mapsto> cfg\<lparr>DefaultPolicy := effective_policy e cfg\<rparr>)
    \<and> (\<forall>p \<in> set (ip4s @ ip6s). map_of (e_containerIP e') (ip_String p) = Some (shortID (ci_ID ctr)))"
  using assms(1,2)
proof (cases rule: applyContainerInner_cases)
  case (ok rss e1 e2)
  have b2: "engine_books e2 = engine_books e"
    using pre_cleanup_keeps [OF ok(3)] install_rules_keeps [OF ok(4)] by simp
  have "\<forall>p \<in> set (ip4s @ ip6s). p \<noteq> []" using split_ips_length [OF assms(2)] by force
  then show ?thesis using b2 fold_ips(3) [of "shortID (ci_ID ctr)" "ip4s @ ip6s"]
    unfolding ok(6) by (auto simp: record_applied_view update_conv engine_books_def setContainerIPs_def)
qed (use assms(3) in auto)

context backend_contract
begin

lemma applyContainerInner_rollback:
  assumes "applyContainerInner w ctr cfg sr e = (Some (ApplyError ''apply ipv6 rules'' nm x), e')" "e_backend e = be"
    and "good (ci_ID ctr)" "split_ips (ci_Networks ctr) = (ip4s, ip6s)" "ip4s \<noteq> []"
  shows "shortID (ci_ID ctr) \<notin> ids (e_kernel e') \<or> (\<exists>y. LogRollbackFailed (ci_Name ctr) y \<in> set (e_log e'))"
  using assms(1,4)
proof (cases rule: applyContainerInner_cases)
  case (clean y)
  then show ?thesis by (auto simp: pre_cleanup_def split: if_splits prod.splits option.splits)
next
  case (fail rss e1 y)
  have b1: "e_backend e1 = be" using pre_cleanup_keeps [OF fail(1)] assms(2) by (simp add: engine_conf_def)
  let ?i4 = "\<lambda>what ips. install4 what ctr ips rss (effective_policy e cfg) (auto_allowlist e cfg ctr) e1"
  have y: "y = ApplyError ''apply ipv6 rules'' nm x" using fail(3) by simp
  have what: "fst (?i4 what ips) = Some y \<Longrightarrow> what = ''apply ipv6 rules''" for what ips
    using y by (auto simp: install4_def split: if_splits prod.splits option.splits)
  obtain r e2 where i: "?i4 ''apply ipv4 rules'' ip4s = (r, e2)" by fastforce
  have r: "\<not> e_inetBackend e1" "r = None"
    "install6 ctr ip4s ip6s rss (effective_policy e cfg) (auto_allowlist e cfg ctr) e2 = (Some y, e')"
    using fail(2) i what [of "''apply rules''" "ip4s @ ip6s"] what [of "''apply ipv4 rules''" ip4s]
    by (auto simp: install_rules_def split: if_splits option.splits)
  have b2: "e_backend e2 = be" using install4_keeps [OF i] b1 by (simp add: engine_conf_def)
  obtain k6 where e': "e' = rollback4 ctr ip4s (e2\<lparr>e_kernel6 := k6\<rparr>)"
    using r(3) by (auto simp: install6_def split: option.splits if_splits prod.splits)
  obtain z k where rm: "be_RemoveContainerChains be (ci_ID ctr) (e_kernel e2) = (z, k)" by fastforce
  show ?thesis
  proof (cases z)
    case None
    then have "e_kernel e' = k" using e' rm b2 assms(5) by (simp add: rollback4_def)
    then show ?thesis using remove_ok [OF assms(3), of "e_kernel e2" k] rm None by simp
  next
    case (Some v)
    then have "LogRollbackFailed (ci_Name ctr) v \<in> set (e_log e')" using e' rm b2 assms(5) by (simp add: rollback4_def)
    then show ?thesis by blast
  qed
qed (use assms(5) in auto)

end

section \<open>GeoIP\<close>

lemma resolve_set_geo:
  "rs_GeoBlock (resolve_set nets rs) = rs_GeoBlock rs" "rs_GeoAllow (resolve_set nets rs) = rs_GeoAllow rs"
  "rs_Schedule (resolve_set nets rs) = rs_Schedule rs"
  by (simp_all add: resolve_set_def)

lemma applyProfile_geo:
  "rs_GeoBlock (applyProfile rs) = rs_GeoBlock rs" "rs_GeoAllow (applyProfile rs) = rs_GeoAllow rs"
  by (simp_all add: applyProfile_def Let_def)

lemma applyGeoIP_all_None:
  "rs \<in> set rss \<Longrightarrow> rs_GeoBlock rs \<noteq> [] \<or> rs_GeoAllow rs \<noteq> [] \<Longrightarrow> \<exists>g. applyGeoIP_all None rss = Inl g"
proof (induction rss)
  case (Cons r rss)
  then show ?case
    by (cases "applyGeoIP None r") (auto simp: applyGeoIP_def split: if_splits)
qed simp

section \<open>Demonstration states\<close>

lemma demo_address: "net_ParseIP ''172.17.0.2'' = Some (v4_prefix @ [172, 17, 0, 2])"
proof -
  have "dotted [172, 17, 0, 2] = ''172.17.0.2''" by (simp add: dotted_def byte_dec_def strconv_Itoa.simps digit_char_def char_of_def bit_Suc_0_iff)
  then show ?thesis using net_ParseIP_dotted [of "[172, 17, 0, 2]"] by simp
qed

lemma demo_address6: "net_ParseIP ''::2'' = Some (replicate 15 0 @ [2])"
proof -
  have "parse_ipv6_loop 8 [] (Some 0) ''2'' = Some ([0, 2], Some 0, [])"
    using parse_ipv6_loop.simps(2) [of 7 "[]" "Some 0" "''2''"] by (simp add: hex_digit_def hex_value_def)
  moreover have "replicate 14 (0::byte) @ [0, 2] = replicate 15 0 @ [2]"
    using replicate_append_same [of 14 "0::byte"] replicate_Suc [of 14 "0::byte"] by simp
  ultimately show ?thesis by (simp add: net_ParseIP_def netip_ParseAddr_def parse_ipv6_def)
qed

lemma demo_v6: "To4 (replicate 15 0 @ [2]) = None"
proof -
  have "take 12 (replicate 15 (0::byte) @ [2]) = replicate 12 0" by simp
  moreover have "replicate 12 (0::byte) \<noteq> v4_prefix"
  proof
    assume "replicate 12 (0::byte) = v4_prefix"
    then have "last (replicate 12 (0::byte)) = last v4_prefix" by simp
    then show False by (simp add: v4_prefix_def)
  qed
  ultimately show ?thesis by (simp add: To4_def)
qed

lemma demo_split: "split_ips (ci_Networks demo_container) = ([v4_prefix @ [172, 17, 0, 2]], [])"
  by (simp add: demo_container_def demo_address)

lemma demo_prepare: "prepare_sets w db ctr [] = Inr []"
  by (simp add: prepare_sets_def active_sets_def resolveNetworkNames_def)

definition bare_config :: ContainerConfig where
  "bare_config = \<lparr>Enable = True, DefaultPolicy = [], NoAutoAllowlist = True, RuleSets = []\<rparr>"

lemma demo_backend_view [simp]:
  "e_backend demo_engine = iptables_Backend demo_backend (mem_ipt (\<lambda>a. a) (\<lambda>_ _ _. True))"
  "e_ip6backend demo_engine = None" "e_inetBackend demo_engine = False" "e_applied demo_engine = []"
  "e_kernel demo_engine = demo_kernel" "e_geoDB demo_engine = None"
  by (simp_all add: demo_engine_def NewEngine_def)

lemma demo_apply: "\<exists>e'. applyContainerInner demo_world demo_container bare_config ''api'' demo_engine = (None, e')"
proof -
  have k: "chainName demo_backend \<in> dom (map_of demo_kernel)" by (simp add: demo_backend_def demo_kernel_def)
  obtain k' where "ApplyContainerRules demo_backend (mem_ipt (\<lambda>a. a) (\<lambda>_ _ _. True)) (ci_ID demo_container)
      [v4_prefix @ [172, 17, 0, 2]] [] (effective_policy demo_engine bare_config)
      (auto_allowlist demo_engine bare_config demo_container) demo_kernel = (None, k')"
    using mem.ApplyContainerRules_total [where norm = "\<lambda>a. a" and accepts = "\<lambda>_ _ _. True", OF _ k] by blast
  then show ?thesis
    by (simp add: applyContainerInner_def demo_split demo_prepare pre_cleanup_def install_rules_def install4_def install6_def
        iptables_Backend_def [of demo_backend] bare_config_def)
qed

section \<open>Properties of applying\<close>

lemma containerChainName_shortID: "short_base b \<Longrightarrow> containerChainName b (shortID cid) = containerChainName b cid"
  by (simp add: containerChainName_eq shortID_truncate truncate_str_def)

lemma set_name_owned: "short_base b \<Longrightarrow> n \<in> set (set_names b cid rss) \<Longrightarrow> owned (containerChainName b cid) n"
  using ruleSetChainName_prefix [of b cid] by (fastforce simp: set_names_def owned_def strings_HasPrefix_def prefix_def)

lemma install_rules_kernel:
  assumes "install_rules ctr ip4s ip6s rss pol auto e = (None, e')"
  shows "e_kernel e' = e_kernel e \<or> (\<exists>ips. be_ApplyContainerRules (e_backend e) (ci_ID ctr) (ci_Name ctr) ips rss pol auto (e_kernel e) = (None, e_kernel e'))"
    and "ip4s = [] \<Longrightarrow> \<not> e_inetBackend e \<Longrightarrow> e_kernel e' = e_kernel e"
  using assms by (auto simp: install_rules_def install4_def install6_def split: option.splits if_splits prod.splits)

lemma applyContainerInner_frame:
  assumes "applyContainerInner w ctr cfg sr e = (None, e')"
    and "e_backend e = iptables_Backend b (mem_ipt norm accepts)" "short_base b"
    and "c \<noteq> chainName b" "\<not> owned (containerChainName b (ci_ID ctr)) c"
  shows "map_of (e_kernel e') c = map_of (e_kernel e) c"
proof -
  obtain ip4s ip6s where s: "split_ips (ci_Networks ctr) = (ip4s, ip6s)" by fastforce
  show ?thesis using assms(1) s
  proof (cases rule: applyContainerInner_cases)
    case (ok rss e1 e2)
    have b1: "e_backend e1 = iptables_Backend b (mem_ipt norm accepts)"
      using pre_cleanup_keeps [OF ok(3)] assms(2) by (simp add: engine_conf_def)
    have 1: "map_of (e_kernel e1) c = map_of (e_kernel e) c"
      using ok(3) assms(2,4,5) containerChainName_shortID [OF assms(3)]
        mem.RemoveContainerChains_frame(1) [of b norm accepts "shortID (ci_ID ctr)" "e_kernel e" _ _ c]
      by (auto simp: pre_cleanup_def iptables_Backend_def ip6_cleanup_keeps(3) split: if_splits prod.splits option.splits)
    have "c \<noteq> containerChainName b (ci_ID ctr)" "c \<notin> set (set_names b (ci_ID ctr) rss)"
      using assms(5) set_name_owned [OF assms(3)] by (auto simp: owned_def)
    then have 2: "map_of (e_kernel e2) c = map_of (e_kernel e1) c"
      using install_rules_kernel(1) [OF ok(4)] assms(4) b1
        mem.ApplyContainerRules_frame(1) [of b norm accepts "ci_ID ctr" _ rss _ _ "e_kernel e1" _ _ c]
      by (auto simp: iptables_Backend_def set_names_def)
    show ?thesis using 1 2 by (simp add: ok(6) record_applied_view)
  qed simp_all
qed



text \<open>
  If the IPv6 rules of a container cannot be applied, its IPv4 rules do not stay behind: the
  container has no chain left, or the failure of the rollback is logged.
\<close>

theorem applyContainerInner_ipv6_rollback:
  assumes "applyContainerInner w ctr cfg sr e = (Some (ApplyError ''apply ipv6 rules'' nm x), e')"
    and "e_backend e = iptables_Backend b (mem_ipt norm accepts)" "length (chainName b) \<le> 14"
    and "valid_id (ci_ID ctr)" "split_ips (ci_Networks ctr) = (ip4s, ip6s)" "ip4s \<noteq> []"
  shows "shortID (ci_ID ctr) \<notin> chain_ids b (map_of (e_kernel e')) \<or> (\<exists>y. LogRollbackFailed (ci_Name ctr) y \<in> set (e_log e'))"
proof -
  have sb: "short_base b" using assms(3) by (simp add: short_base_def)
  show ?thesis
    using backend_contract.applyContainerInner_rollback [OF mem.iptables_contract [OF sb] assms(1,2,4,5,6)] .
qed

definition dual_container :: ContainerInfo where
  "dual_container = demo_container\<lparr>ci_Networks :=
     [(''bridge'', \<lparr>ep_IP = ''172.17.0.2'', ep_PrefixLen = 16\<rparr>), (''v6'', \<lparr>ep_IP = ''::2'', ep_PrefixLen = 64\<rparr>)]\<rparr>"

definition dual_engine :: "mem Engine" where
  "dual_engine = SetIP6Backend (Some (iptables_Backend demo_backend (mem_ipt (\<lambda>a. a) (\<lambda>_ _ _. True)))) demo_engine"

theorem applyContainerInner_ipv6_rollback_witness:
  "\<exists>x e'. applyContainerInner demo_world dual_container bare_config ''api'' dual_engine
       = (Some (ApplyError ''apply ipv6 rules'' ''web'' x), e')
     \<and> (''0123456789ab'' \<notin> chain_ids demo_backend (map_of (e_kernel e'))
        \<or> (\<exists>y. LogRollbackFailed ''web'' y \<in> set (e_log e')))"
proof -
  let ?ipt = "mem_ipt (\<lambda>a. a) (\<lambda>_ _ _. True)" and ?v6 = "replicate 15 0 @ [2] :: ip"
  have sp: "split_ips (ci_Networks dual_container) = ([v4_prefix @ [172, 17, 0, 2]], [?v6])"
    using demo_v6 by (simp add: dual_container_def demo_address demo_address6)
  have c: "ci_ID dual_container = ''0123456789ab''" "ci_Name dual_container = ''web''"
    by (simp_all add: dual_container_def demo_container_def)
  have k: "chainName demo_backend \<in> dom (map_of demo_kernel)" by (simp add: demo_backend_def demo_kernel_def)
  let ?pol = "effective_policy dual_engine bare_config" and ?auto = "auto_allowlist dual_engine bare_config dual_container"
  obtain k' where k': "ApplyContainerRules demo_backend ?ipt (ci_ID dual_container) [v4_prefix @ [172, 17, 0, 2]] [] ?pol ?auto
      demo_kernel = (None, k')"
    using mem.ApplyContainerRules_total [where norm = "\<lambda>a. a" and accepts = "\<lambda>_ _ _. True", OF _ k] by blast
  have b6: "\<exists>x k6. ApplyContainerRules demo_backend ?ipt (ci_ID dual_container) [?v6] [] ?pol ?auto [] = (Some x, k6)"
    by (simp add: ApplyContainerRules_def c demo_backend_def containerChainName_def truncate_str_def iptablesMaxChainLen_def
        ContainerIDShortLen_def prepare_main_def mem_ipt_def mem_put_def mem_edit_def must_def)
  have "\<exists>x e'. applyContainerInner demo_world dual_container bare_config ''api'' dual_engine
       = (Some (ApplyError ''apply ipv6 rules'' ''web'' x), e')"
    using k' b6 by (auto simp: applyContainerInner_def sp demo_prepare pre_cleanup_def install_rules_def install4_def install6_def
        iptables_Backend_def [of demo_backend] bare_config_def dual_engine_def SetIP6Backend_def demo_engine_def NewEngine_def c)
  then obtain x e' where a: "applyContainerInner demo_world dual_container bare_config ''api'' dual_engine
       = (Some (ApplyError ''apply ipv6 rules'' ''web'' x), e')" by blast
  have v: "valid_id (ci_ID dual_container)" "e_backend dual_engine = iptables_Backend demo_backend ?ipt"
    "shortID (ci_ID dual_container) = ''0123456789ab''"
    by (simp_all add: c valid_id_def dual_engine_def SetIP6Backend_def shortID_def ContainerIDShortLen_def)
  then show ?thesis using a applyContainerInner_ipv6_rollback [OF a v(2) _ v(1) sp] c
    by (simp add: demo_backend_def)
qed

text \<open>
  GeoIP fails closed for the whole container: without a GeoIP database, a container with an active rule
  set that names countries gets an error, and the kernel, the books and the log stay as they
  were, so rules applied before remain in force.
\<close>

theorem applyContainerInner_geo_fail_closed:
  assumes "e_geoDB e = None" "rs \<in> set (RuleSets cfg)" "rs_GeoBlock rs \<noteq> [] \<or> rs_GeoAllow rs \<noteq> []"
    and "rs_Schedule rs = None" "split_ips (ci_Networks ctr) \<noteq> ([], [])"
  shows "\<exists>g. applyContainerInner w ctr cfg sr e = (Some (GeoIPFailClosed (ci_Name ctr) g), e)"
proof -
  let ?rs = "resolve_set (ci_Networks ctr) rs"
  have "applyProfile ?rs \<in> set (map applyProfile (active_sets w (resolveNetworkNames (RuleSets cfg) (ci_Networks ctr))))"
    using assms(2,4) by (simp add: active_sets_def resolveNetworkNames_def resolve_set_geo)
  moreover have "rs_GeoBlock (applyProfile ?rs) \<noteq> [] \<or> rs_GeoAllow (applyProfile ?rs) \<noteq> []"
    using assms(3) by (simp add: applyProfile_geo resolve_set_geo)
  ultimately obtain g where g: "prepare_sets w (e_geoDB e) ctr (RuleSets cfg) = Inl g"
    unfolding prepare_sets_def assms(1) using applyGeoIP_all_None by blast
  obtain ip4s ip6s where s: "split_ips (ci_Networks ctr) = (ip4s, ip6s)" by fastforce
  then show ?thesis using assms(5) g by (auto simp: applyContainerInner_def)
qed

theorem applyContainerInner_geo_fail_closed_witness:
  "\<exists>g. applyContainerInner demo_world demo_container
       \<lparr>Enable = True, DefaultPolicy = [], NoAutoAllowlist = False, RuleSets = [(empty_ruleset ''x'')\<lparr>rs_GeoBlock := [''RU'']\<rparr>]\<rparr>
       ''api'' demo_engine = (Some (GeoIPFailClosed ''web'' g), demo_engine)"
proof -
  let ?rs = "(empty_ruleset ''x'')\<lparr>rs_GeoBlock := [''RU'']\<rparr>"
  have "ci_Name demo_container = ''web''" by (simp add: demo_container_def)
  then show ?thesis
    using applyContainerInner_geo_fail_closed [of demo_engine ?rs "\<lparr>Enable = True, DefaultPolicy = [], NoAutoAllowlist = False, RuleSets = [?rs]\<rparr>"
        demo_container demo_world "''api''"] demo_split
    by (simp add: demo_engine_def NewEngine_def empty_ruleset_def)
qed

text \<open>
  C3. No stale chains after startup: once a fresh engine has rehydrated from the kernel and reconciled with
  Docker, every container id with a chain in the kernel belongs to a container Docker lists,
  unless the failure to remove it is logged.
\<close>

theorem startup_removes_stale:
  assumes "Rehydrate e = (None, e1)" "Reconcile w sr e1 = (None, e2)" "e_applied e = []"
    and "e_backend e = iptables_Backend b (mem_ipt norm accepts)" "length (chainName b) \<le> 14"
    and "e_ip6backend e = map_option (\<lambda>b6. iptables_Backend b6 ipt6) ob6"
    and "w_containers w = Inr ctrs" "\<forall>c \<in> set ctrs. valid_id (ci_ID c)" "\<forall>xs. set (w_range w xs) = set xs"
  shows "\<forall>cid \<in> chain_ids b (map_of (e_kernel e2)). length cid \<le> 12 \<longrightarrow>
    cid \<in> (\<lambda>c. shortID (ci_ID c)) ` set ctrs \<or> (\<exists>x. LogRemoveFailed cid x \<in> set (e_log e2))"
proof (intro ballI impI)
  fix cid assume c: "cid \<in> chain_ids b (map_of (e_kernel e2))" "length cid \<le> 12"
  have sb: "short_base b" using assms(5) by (simp add: short_base_def)
  have g: "\<forall>b6 k xs. e_ip6backend e = Some b6 \<and> be_ListAppliedContainerIDs b6 k = Inr xs \<longrightarrow> (\<forall>x \<in> set xs. valid_id x)"
    using assms(6)
    by (auto simp: iptables_Backend_def ListAppliedContainerIDs_def set_map_filter_iff
        split: sum.splits) (erule chain_container_id_valid)
  have s: "shortID cid = cid" using c(2) by (simp add: shortID_def ContainerIDShortLen_def)
  show "cid \<in> (\<lambda>c. shortID (ci_ID c)) ` set ctrs \<or> (\<exists>x. LogRemoveFailed cid x \<in> set (e_log e2))"
    using backend_contract.startup_ids [OF mem.iptables_contract [OF sb] assms(1,2,4,3) g assms(7,8,9) c(1) s] .
qed

theorem startup_removes_stale_witness:
  "\<exists>e1 e2. Rehydrate demo_engine = (None, e1) \<and> Reconcile demo_world ''startup'' e1 = (None, e2)
     \<and> (\<forall>cid \<in> chain_ids demo_backend (map_of (e_kernel e2)). length cid \<le> 12 \<longrightarrow> (\<exists>x. LogRemoveFailed cid x \<in> set (e_log e2)))"
proof -
  obtain e1 where 1: "Rehydrate demo_engine = (None, e1)"
    by (auto simp: Rehydrate_def iptables_Backend_def ListAppliedContainerIDs_def mem_ipt_def)
  have "\<exists>e2. Reconcile demo_world ''startup'' e1 = (None, e2)"
    by (simp add: Reconcile_def LoadRulesFile_def demo_world_def Let_def)
  then obtain e2 where 2: "Reconcile demo_world ''startup'' e1 = (None, e2)" ..
  have "length (chainName demo_backend) \<le> 14" "w_containers demo_world = Inr []" "\<forall>xs. set (w_range demo_world xs) = set xs"
    by (simp_all add: demo_backend_def demo_world_def)
  from startup_removes_stale [OF 1 2 _ demo_backend_view(1) this(1) _ this(2) _ this(3), of undefined None]
  show ?thesis using 1 2 by auto
qed

text \<open>
  C2. From configuration to packets: after the engine has applied a container with an IPv4 address
  through the iptables backend, the kernel
  gives every packet that enters the container's chain the verdict of the prepared rule sets
  (network names resolved, inactive schedules dropped, profiles and GeoIP expanded), the
  automatic allowlist and the effective default policy. As for the backend, the rule sets in
  force are the enforced ones: the last of those that share a chain name, all of them when
  the set names are distinct and short. Assumed: a base chain of at most 14 characters, and
  prepared networks that are IPv4 networks or \<open>::/0\<close>.
\<close>

theorem applyContainerInner_verdict:
  assumes "applyContainerInner w ctr cfg sr e = (None, e')"
    and "e_backend e = iptables_Backend b (mem_ipt norm accepts)" "\<not> e_inetBackend e"
    and "split_ips (ci_Networks ctr) = (ip4s, ip6s)" "ip4s \<noteq> []"
    and "prepare_sets w (e_geoDB e) ctr (RuleSets cfg) = Inr rss"
    and "length (chainName b) \<le> 14" "rule_match norm (arg_match p)"
    and "\<forall>rs \<in> set rss. \<forall>n \<in> set (rs_Blocklist rs) \<union> set (effective_allowlist rs (auto_allowlist e cfg ctr)). ipt_net n"
    and "effective_policy e cfg \<in> {''ACCEPT'', ''DROP'', ''RETURN''}"
  shows "run_chain (Suc (Suc d)) (arg_match p) (map_of (e_kernel e')) (containerChainName b (ci_ID ctr))
      = container_verdict p (enforced_sets b (ci_ID ctr) rss) (auto_allowlist e cfg ctr) (effective_policy e cfg)
    \<and> (distinct (set_names b (ci_ID ctr) rss) \<longrightarrow> enforced_sets b (ci_ID ctr) rss = rss)
    \<and> (distinct (map rs_Name rss) \<and> (\<forall>rs \<in> set rss. length (chainName b) + length (rs_Name rs) \<le> 14)
        \<longrightarrow> enforced_sets b (ci_ID ctr) rss = rss)"
  using assms(1,4)
proof (cases rule: applyContainerInner_cases)
  case (ok rss' e1 e2)
  have rss': "rss' = rss" using ok(2) assms(6) by simp
  have c1: "e_backend e1 = iptables_Backend b (mem_ipt norm accepts)" "\<not> e_inetBackend e1"
    using pre_cleanup_keeps [OF ok(3)] assms(2,3) by (simp_all add: engine_conf_def)
  obtain x e3 where i: "install4 ''apply ipv4 rules'' ctr ip4s rss (effective_policy e cfg) (auto_allowlist e cfg ctr) e1 = (x, e3)"
    by fastforce
  have x: "x = None" "install6 ctr ip4s ip6s rss (effective_policy e cfg) (auto_allowlist e cfg ctr) e3 = (None, e2)"
    using ok(4) i c1(2) rss' by (auto simp: install_rules_def split: option.splits)
  have "e_kernel e2 = e_kernel e3"
    using x(2) by (auto simp: install6_def split: option.splits if_splits prod.splits)
  moreover have "ApplyContainerRules b (mem_ipt norm accepts) (ci_ID ctr) ip4s rss (effective_policy e cfg)
      (auto_allowlist e cfg ctr) (e_kernel e1) = (None, e_kernel e3)"
    using i x(1) assms(5) c1(1) by (auto simp: install4_def iptables_Backend_def split: prod.splits option.splits)
  ultimately have "ApplyContainerRules b (mem_ipt norm accepts) (ci_ID ctr) ip4s rss (effective_policy e cfg)
      (auto_allowlist e cfg ctr) (e_kernel e1) = (None, e_kernel e')"
    using ok(6) by (simp add: record_applied_view)
  from ApplyContainerRules_run [OF this assms(7-10)] show ?thesis
    using enforced_sets_distinct short_names_enforced by blast
qed (use assms(5) in auto)

definition web_config :: ContainerConfig where
  "web_config = \<lparr>Enable = True, DefaultPolicy = ''DROP'', NoAutoAllowlist = False,
     RuleSets = [(empty_ruleset ''web'')\<lparr>rs_Ports := [80], rs_Blocklist := [\<lparr>net_IP = [172, 17, 0, 8], net_Mask = CIDRMask 32 32\<rparr>]\<rparr>]\<rparr>"

lemma web_auto:
  "auto_allowlist demo_engine web_config demo_container = [\<lparr>net_IP = [172, 17, 0, 0], net_Mask = CIDRMask 16 32\<rparr>]"
  by (simp add: auto_allowlist_def web_config_def demo_engine_def NewEngine_def demo_config_def loadConfig_def getEnvBool_def
      os_Getenv_def containerNetworkCIDRs_def map_filter_simps demo_container_def endpoint_cidr_def demo_address
      ip_Mask_def CIDRMask_def mask_byte_def upt_rec)

lemma web_apply:
  "prepare_sets demo_world None demo_container (RuleSets web_config) = Inr (RuleSets web_config)"
  "\<exists>e'. applyContainerInner demo_world demo_container web_config ''api'' demo_engine = (None, e')"
proof -
  show pr: "prepare_sets demo_world None demo_container (RuleSets web_config) = Inr (RuleSets web_config)"
    by (simp add: prepare_sets_def active_sets_def resolveNetworkNames_def resolve_set_def web_config_def empty_ruleset_def
        applyProfile_def applyGeoIP_def)
  have k: "chainName demo_backend \<in> dom (map_of demo_kernel)" by (simp add: demo_backend_def demo_kernel_def)
  obtain k' where "ApplyContainerRules demo_backend (mem_ipt (\<lambda>a. a) (\<lambda>_ _ _. True)) (ci_ID demo_container)
      [v4_prefix @ [172, 17, 0, 2]] (RuleSets web_config) (effective_policy demo_engine web_config)
      (auto_allowlist demo_engine web_config demo_container) demo_kernel = (None, k')"
    using mem.ApplyContainerRules_total [where norm = "\<lambda>a. a" and accepts = "\<lambda>_ _ _. True", OF _ k] by blast
  then show "\<exists>e'. applyContainerInner demo_world demo_container web_config ''api'' demo_engine = (None, e')"
    by (simp add: applyContainerInner_def demo_split pr pre_cleanup_def install_rules_def install4_def install6_def
        iptables_Backend_def [of demo_backend])
qed

theorem applyContainerInner_verdict_witness:
  "\<exists>e'. applyContainerInner demo_world demo_container web_config ''api'' demo_engine = (None, e')
     \<and> auto_allowlist demo_engine web_config demo_container = [\<lparr>net_IP = [172, 17, 0, 0], net_Mask = CIDRMask 16 32\<rparr>]
     \<and> run_chain (Suc (Suc 0)) (arg_match \<lparr>p_proto = ''tcp'', p_dport = 80, p_src = [172, 17, 0, 9], p_dst = [172, 17, 0, 2],
           p_established = False, p_under = \<lambda>_. True\<rparr>) (map_of (e_kernel e')) (containerChainName demo_backend ''0123456789ab'')
       = Some Accept"
proof -
  let ?p = "\<lparr>p_proto = ''tcp'', p_dport = 80, p_src = [172, 17, 0, 9], p_dst = [172, 17, 0, 2],
           p_established = False, p_under = \<lambda>_. True\<rparr>"
  obtain e' where e': "applyContainerInner demo_world demo_container web_config ''api'' demo_engine = (None, e')"
    using web_apply(2) ..
  have c: "ci_ID demo_container = ''0123456789ab''" by (simp add: demo_container_def)
  have pr: "prepare_sets demo_world (e_geoDB demo_engine) demo_container (RuleSets web_config) = Inr (RuleSets web_config)"
    by (simp add: web_apply(1))
  have rm: "rule_match (\<lambda>a. a) (arg_match ?p)" by unfold_locales auto
  have pol: "effective_policy demo_engine web_config = ''DROP''" by (simp add: effective_policy_def web_config_def)
  have v: "v4net \<lparr>net_IP = [172, 17, 0, 0], net_Mask = CIDRMask 16 32\<rparr>"
    "v4net \<lparr>net_IP = [172, 17, 0, 8], net_Mask = CIDRMask 32 32\<rparr>" by (auto simp: v4net_def)
  have nets: "\<forall>rs \<in> set (RuleSets web_config). \<forall>n \<in> set (rs_Blocklist rs) \<union>
      set (effective_allowlist rs (auto_allowlist demo_engine web_config demo_container)). ipt_net n"
    using v unfolding web_auto by (simp add: web_config_def empty_ruleset_def effective_allowlist_def ipt_net_def)
  have i: "IPNet_Contains \<lparr>net_IP = [172, 17, 0, 0], net_Mask = CIDRMask 16 32\<rparr> (p_src ?p)"
    "\<not> IPNet_Contains \<lparr>net_IP = [172, 17, 0, 8], net_Mask = CIDRMask 32 32\<rparr> (p_src ?p)"
    by (simp_all add: IPNet_Contains_def networkNumberAndMask_def CIDRMask_def mask_byte_def To4_def upt_rec)
  have "\<not> any_source (ipnet_String \<lparr>net_IP = [172, 17, 0, 8], net_Mask = CIDRMask 32 32\<rparr>)"
    using ipnet_String_v4 [of "[172, 17, 0, 8]" 32]
    by (simp add: any_source_def dotted_def byte_dec_def strconv_Itoa.simps digit_char_def char_of_def bit_Suc_0_iff)
  then have a: "container_verdict ?p (RuleSets web_config) (auto_allowlist demo_engine web_config demo_container) ''DROP'' = Some Accept"
    using i unfolding web_auto by (simp add: web_config_def empty_ruleset_def set_verdict_def rs_proto_def effective_allowlist_def src_in_def)
  have "enforced_sets demo_backend (ci_ID demo_container) (RuleSets web_config) = RuleSets web_config"
    by (rule enforced_sets_distinct) (simp add: web_config_def)
  then show ?thesis
    using e' applyContainerInner_verdict [OF e' demo_backend_view(1) _ demo_split _ pr _ rm nets, of 0] a
    by (simp add: pol web_auto demo_backend_def [symmetric] c del: run_chain.simps) (simp add: demo_backend_def)
qed

text \<open>
  When the host rules are applied, the host chain holds exactly the intended rules in order, with the
  established-connection rule first when the backend is stateful and the default policy last;
  \<open>INPUT\<close> jumps to it, and no other chain is changed.
\<close>

theorem ApplyHostRules_installs:
  assumes "ApplyHostRules b (mem_ipt norm accepts) rules pol k = (None, k')"
  shows "map_of k' hostChainName = Some (map norm ((if stateful b then [ctArgs] else [])
           @ concat (map host_rule_calls rules) @ [[''-j'', NormaliseHostDefault pol]]))
    \<and> (\<exists>rs r. map_of k' hostParentChain = Some rs \<and> r \<in> set rs
         \<and> (norm r = norm [''-j'', hostChainName] \<or> r = norm [''-j'', hostChainName]))
    \<and> (\<forall>d. d \<notin> {hostChainName, hostParentChain} \<longrightarrow> map_of k' d = map_of k d)"
  using mem.ApplyHostRules_rules [OF assms] mem.ApplyHostRules_frame [OF assms]
  unfolding host_chain_rules_def by blast

theorem ApplyHostRules_installs_witness:
  "\<exists>k'. ApplyHostRules demo_backend (mem_ipt (\<lambda>a. a) (\<lambda>_ _ _. True)) [] ''drop'' [(''INPUT'', []), (''OTHER'', [])] = (None, k')
     \<and> map_of k' ''FIREFIK_HOST'' = Some [ctArgs, [''-j'', ''DROP'']] \<and> map_of k' ''OTHER'' = Some []"
proof -
  let ?k = "[(''INPUT'', []), (''OTHER'', [])] :: mem"
  have "\<exists>k'. ApplyHostRules demo_backend (mem_ipt (\<lambda>a. a) (\<lambda>_ _ _. True)) [] ''drop'' ?k = (None, k')"
    by (simp add: ApplyHostRules_def apply_host_tail_def mem_ipt_def mem_put_def mem_edit_def must_def hostChainName_def
        hostParentChain_def demo_backend_def)
  then obtain k' where k': "ApplyHostRules demo_backend (mem_ipt (\<lambda>a. a) (\<lambda>_ _ _. True)) [] ''drop'' ?k = (None, k')" ..
  have n: "NormaliseHostDefault ''drop'' = ''DROP''"
    by (simp add: NormaliseHostDefault_def strings_ToUpper_def strings_TrimSpace_def to_upper_def is_space_def char_of_def bit_Suc_0_iff)
  from ApplyHostRules_installs [OF k'] k' n show ?thesis
    by (auto simp: demo_backend_def hostChainName_def hostParentChain_def)
qed

end
