(* ===== verification/NFTables_Backend.thy ===== *)
theory NFTables_Backend
  imports IPTables_Backend
begin

text \<open>
  The nftables backend, \<open>backend/internal/rules/nftables.go\<close> and \<open>nftables_host.go\<close>.

  The library google/nftables is a record of operations on a connection of any type \<open>'k\<close>: changes
  are queued and take effect together at \<open>nf_Flush\<close>, the list operations read the kernel at
  once. The backend itself remembers whether it has set up its table and forward chain
  (\<open>b.table\<close> and \<open>b.fwdChain\<close> are nil otherwise), so the operations that change this return the
  backend too.
\<close>

section \<open>Expressions and the library\<close>

datatype meta_key = MetaNFPROTO | MetaL4PROTO
datatype cmp_op = CmpOpEq | CmpOpNeq
datatype payload_base = NetworkHeader | TransportHeader
datatype verdict_kind = VerdictAccept | VerdictDrop | VerdictReturn | VerdictJump string

datatype nft_expr =
    ExMeta meta_key nat
  | ExCmp cmp_op nat "byte list"
  | ExPayload nat payload_base nat nat
  | ExBitwise nat nat nat "byte list" "byte list"
  | ExCtState nat
  | ExDynset nat string nat nat
  | ExCounter
  | ExLog nat string
  | ExVerdict verdict_kind

datatype chain_policy = ChainPolicyAccept | ChainPolicyDrop
datatype chain_hook = HookForward | HookInput

record nft_chain =
  nc_table :: "string option"
  nc_name :: string
  nc_policy :: "chain_policy option"

record nft_rule =
  nr_handle :: nat
  nr_exprs :: "nft_expr list"

text \<open>Chains, rules and sets are those of the table \<open>firefik\<close>, except in \<open>nf_ListChains\<close>, which lists
  the chains of every table of the family.\<close>

record 'k nft =
  nf_AddTable :: "'k \<Rightarrow> 'k"
  nf_DelTable :: "'k \<Rightarrow> 'k"
  nf_AddChain :: "string \<Rightarrow> (chain_hook \<times> chain_policy) option \<Rightarrow> 'k \<Rightarrow> 'k"
  nf_DelChain :: "string \<Rightarrow> 'k \<Rightarrow> 'k"
  nf_AddRule :: "string \<Rightarrow> nft_expr list \<Rightarrow> 'k \<Rightarrow> 'k"
  nf_InsertRule :: "string \<Rightarrow> nft_expr list \<Rightarrow> 'k \<Rightarrow> 'k"
  nf_DelRule :: "string \<Rightarrow> nat \<Rightarrow> 'k \<Rightarrow> string option \<times> 'k"
  nf_AddSet :: "string \<Rightarrow> 'k \<Rightarrow> string option \<times> 'k"
  nf_DelSet :: "string \<Rightarrow> 'k \<Rightarrow> 'k"
  nf_Flush :: "'k \<Rightarrow> string option \<times> 'k"
  nf_ListTables :: "'k \<Rightarrow> string + string list"
  nf_ListChains :: "'k \<Rightarrow> string + nft_chain list"
  nf_GetRules :: "string \<Rightarrow> 'k \<Rightarrow> string + nft_rule list"
  nf_GetSets :: "'k \<Rightarrow> string + string list"

section \<open>The backend\<close>

definition nftTableName :: string where "nftTableName = ''firefik''"
definition fwdChain :: string where "fwdChain = ''forward''"
definition nftHostChainName :: string where "nftHostChainName = ''firefik_host''"

record NFTablesBackend =
  nb_chainName :: string
  nb_stateful :: bool
  nb_table :: bool
  nb_fwd :: bool

text \<open>The constructor, given the error of \<open>nftables.New\<close> if it has one.\<close>

definition NewNFTablesBackend :: "string \<Rightarrow> string option \<Rightarrow> backend_error + NFTablesBackend" where
  "NewNFTablesBackend name err =
     (case err of Some e \<Rightarrow> Inl (BackendError ''nftables conn'' e)
      | None \<Rightarrow> Inr \<lparr>nb_chainName = name, nb_stateful = True, nb_table = False, nb_fwd = False\<rparr>)"

definition nft_SetStateful :: "bool \<Rightarrow> NFTablesBackend \<Rightarrow> NFTablesBackend" where
  "nft_SetStateful v b = b\<lparr>nb_stateful := v\<rparr>"

definition own_chain :: "nft_chain \<Rightarrow> bool" where
  "own_chain c \<longleftrightarrow> nc_table c = Some nftTableName"

definition nft_prefix :: "NFTablesBackend \<Rightarrow> string" where
  "nft_prefix b = strings_ToLower (nb_chainName b) @ ''-''"

definition nft_flush :: "string \<Rightarrow> 'k nft \<Rightarrow> 'k \<Rightarrow> backend_error option \<times> 'k" where
  "nft_flush what nf k = must what (nf_Flush nf k) (\<lambda>k1. (None, k1))"

definition hasCTStateAcceptExprs :: "nft_expr list \<Rightarrow> bool" where
  "hasCTStateAcceptExprs es \<longleftrightarrow> list_ex (\<lambda>e. case e of ExCtState r \<Rightarrow> True | _ \<Rightarrow> False) es
     \<and> list_ex (\<lambda>e. e = ExVerdict VerdictAccept) es"

definition binaryUint32 :: "32 word \<Rightarrow> byte list" where
  "binaryUint32 v = [ucast v, ucast (drop_bit 8 v), ucast (drop_bit 16 v), ucast (drop_bit 24 v)]"

definition CtStateBitESTABLISHED :: "32 word" where "CtStateBitESTABLISHED = 2"
definition CtStateBitRELATED :: "32 word" where "CtStateBitRELATED = 4"

definition ctStateEstablishedRelatedAcceptExprs :: "nft_expr list" where
  "ctStateEstablishedRelatedAcceptExprs =
     [ExCtState 1,
      ExBitwise 1 1 4 (binaryUint32 (or CtStateBitESTABLISHED CtStateBitRELATED)) (binaryUint32 0),
      ExCmp CmpOpNeq 1 (binaryUint32 0),
      ExVerdict VerdictAccept]"

definition ensureCTStateAccept :: "'k nft \<Rightarrow> 'k \<Rightarrow> backend_error option \<times> 'k" where
  "ensureCTStateAccept nf k =
     (let insert = nft_flush ''flush ct rule'' nf (nf_InsertRule nf fwdChain ctStateEstablishedRelatedAcceptExprs k) in
      case nf_GetRules nf fwdChain k of
        Inl _ \<Rightarrow> insert
      | Inr rules \<Rightarrow> (if list_ex (\<lambda>r. hasCTStateAcceptExprs (nr_exprs r)) rules then (None, k) else insert))"

definition nft_SetupChains ::
  "NFTablesBackend \<Rightarrow> 'k nft \<Rightarrow> 'k \<Rightarrow> backend_error option \<times> NFTablesBackend \<times> 'k" where
  "nft_SetupChains b nf k =
     (let b1 = b\<lparr>nb_table := True\<rparr>;
          ct = (\<lambda>b' k'. if nb_stateful b' then (let (e, k'') = ensureCTStateAccept nf k' in (e, b', k'')) else (None, b', k'))
      in case nft_flush ''flush after add table'' nf (nf_AddTable nf k) of
           (Some e, k1) \<Rightarrow> (Some e, b1, k1)
         | (None, k1) \<Rightarrow>
             (case nf_ListChains nf k1 of
                Inl e \<Rightarrow> (Some (BackendError ''list existing chains'' e), b1, k1)
              | Inr chs \<Rightarrow>
                  (let b2 = b1\<lparr>nb_fwd := True\<rparr> in
                   if list_ex (\<lambda>c. own_chain c \<and> nc_name c = fwdChain) chs then ct b2 k1
                   else (case nft_flush ''flush forward chain'' nf
                                (nf_AddChain nf fwdChain (Some (HookForward, ChainPolicyAccept)) k1) of
                           (Some e, k2) \<Rightarrow> (Some e, b2, k2)
                         | (None, k2) \<Rightarrow> ct b2 k2))))"

section \<open>Names\<close>

definition isShortDockerID :: "string \<Rightarrow> bool" where
  "isShortDockerID s \<longleftrightarrow> length s = ContainerIDShortLen
     \<and> list_all (\<lambda>c. let n = (of_char c :: nat) in (48 \<le> n \<and> n \<le> 57) \<or> (97 \<le> n \<and> n \<le> 102)) s"

definition parseInstanceChainName :: "string \<Rightarrow> string \<Rightarrow> (string \<times> bool) option" where
  "parseInstanceChainName name pre =
     (if \<not> strings_HasPrefix name pre then None
      else
        (let rest = strings_TrimPrefix name pre in
         if length rest < ContainerIDShortLen then None
         else
           (let cid = take ContainerIDShortLen rest; tail = drop ContainerIDShortLen rest in
            if \<not> isShortDockerID cid then None
            else if tail = [] then Some (cid, False)
            else if strings_HasPrefix tail ''-'' \<and> 1 < length tail then Some (cid, True)
            else None)))"

definition nftContainerChain :: "NFTablesBackend \<Rightarrow> string \<Rightarrow> string" where
  "nftContainerChain b containerID = truncate_str 30 (nft_prefix b @ truncate_str ContainerIDShortLen containerID)"

definition perSourceLimitSetName :: "string \<Rightarrow> string \<Rightarrow> string \<Rightarrow> string" where
  "perSourceLimitSetName containerID ruleSetName family =
     (let cid = truncate_str ContainerIDShortLen containerID;
          base = ''rl-'' @ cid @ ''-'' @ ruleSetName @ ''-'' @ family
      in if length base \<le> 30 then base
         else ''rl-'' @ cid @ ''-'' @ fmt_hex (unat (fnv32a ruleSetName)) @ ''-'' @ family)"

definition nftRuleSetChain :: "NFTablesBackend \<Rightarrow> string \<Rightarrow> string \<Rightarrow> string" where
  "nftRuleSetChain b containerID setName =
     (let pre = nft_prefix b @ truncate_str ContainerIDShortLen containerID @ ''-''; name = pre @ setName in
      if 30 < length name then
        (let suffix = fmt_hex (unat (fnv32a setName)); available = 30 - length pre - length suffix - 1
         in pre @ truncate_str available setName @ ''-'' @ suffix)
      else name)"

section \<open>Matches\<close>

definition NFPROTO_IPV4 :: byte where "NFPROTO_IPV4 = 2"
definition NFPROTO_IPV6 :: byte where "NFPROTO_IPV6 = 10"
definition IPPROTO_TCP :: byte where "IPPROTO_TCP = 6"
definition IPPROTO_UDP :: byte where "IPPROTO_UDP = 17"

definition to16 :: "ip \<Rightarrow> ip" where
  "to16 p = (case To16 p of Some q \<Rightarrow> q | None \<Rightarrow> [])"

definition dstIPMatchExprs :: "ip \<Rightarrow> nft_expr list" where
  "dstIPMatchExprs p =
     (case To4 p of
        Some ip4 \<Rightarrow>
          [ExMeta MetaNFPROTO 1, ExCmp CmpOpEq 1 [NFPROTO_IPV4],
           ExPayload 1 NetworkHeader 16 4, ExCmp CmpOpEq 1 ip4]
      | None \<Rightarrow>
          [ExMeta MetaNFPROTO 1, ExCmp CmpOpEq 1 [NFPROTO_IPV6],
           ExPayload 1 NetworkHeader 24 16, ExCmp CmpOpEq 1 (to16 p)])"

definition srcNetMatchExprs :: "IPNet \<Rightarrow> nft_expr list" where
  "srcNetMatchExprs n =
     (case To4 (net_IP n) of
        Some ip4 \<Rightarrow>
          (let mask = (if length (net_Mask n) = 16 then drop 12 (net_Mask n) else net_Mask n) in
           [ExMeta MetaNFPROTO 1, ExCmp CmpOpEq 1 [NFPROTO_IPV4],
            ExPayload 1 NetworkHeader 12 4, ExBitwise 1 1 4 mask [0, 0, 0, 0],
            ExCmp CmpOpEq 1 (ip_Mask ip4 (net_Mask n))])
      | None \<Rightarrow>
          (let mask = (if length (net_Mask n) = 4 then replicate 12 0 @ net_Mask n else net_Mask n) in
           [ExMeta MetaNFPROTO 1, ExCmp CmpOpEq 1 [NFPROTO_IPV6],
            ExPayload 1 NetworkHeader 8 16, ExBitwise 1 1 16 mask (replicate 16 0),
            ExCmp CmpOpEq 1 (ip_Mask (to16 (net_IP n)) (net_Mask n))]))"

definition nflogExpr :: "string \<Rightarrow> string \<Rightarrow> nft_expr" where
  "nflogExpr logPrefix actionType =
     (let p = (if logPrefix = [] then ''FIREFIK '' @ actionType else logPrefix)
      in ExLog NflogGroup (truncate_str LogPrefixMaxLen p))"

definition proto_num :: "string \<Rightarrow> byte" where
  "proto_num proto = (if strings_ToLower proto = ''udp'' then IPPROTO_UDP else IPPROTO_TCP)"

definition protoAnyPortExprs :: "string \<Rightarrow> nft_expr list" where
  "protoAnyPortExprs proto = [ExMeta MetaL4PROTO 1, ExCmp CmpOpEq 1 [proto_num proto]]"

definition port_bytes :: "16 word \<Rightarrow> byte list" where
  "port_bytes port = [ucast (drop_bit 8 port), ucast port]"

definition protoPortExprs :: "string \<Rightarrow> 16 word \<Rightarrow> nft_expr list" where
  "protoPortExprs proto port =
     [ExMeta MetaL4PROTO 1, ExCmp CmpOpEq 1 [proto_num proto],
      ExPayload 1 TransportHeader 2 2, ExCmp CmpOpEq 1 (port_bytes port)]"

section \<open>Container rules\<close>

text \<open>What a rule set's loop asks of the connection: a rule for its chain, or a rate limit set.\<close>

datatype nft_call = CallRule "nft_expr list" | CallSet string

definition verdict_exprs :: "FirewallRuleSet \<Rightarrow> string \<Rightarrow> verdict_kind \<Rightarrow> nft_expr list" where
  "verdict_exprs rs action v =
     (if rs_Log rs then [nflogExpr (rs_LogPrefix rs) action] else []) @ [ExCounter, ExVerdict v]"

definition limit_family :: "IPNet \<Rightarrow> string" where
  "limit_family n = (if To4 (net_IP n) \<noteq> None then ''v4'' else ''v6'')"

definition saddrPayload :: "IPNet \<Rightarrow> nft_expr" where
  "saddrPayload n =
     (if To4 (net_IP n) \<noteq> None then ExPayload 1 NetworkHeader 12 4 else ExPayload 1 NetworkHeader 8 16)"

definition addPerSourceLimitRules ::
  "string \<Rightarrow> FirewallRuleSet \<Rightarrow> RateLimitConfig \<Rightarrow> string \<Rightarrow> 16 word \<Rightarrow> IPNet \<Rightarrow> nft_call list" where
  "addPerSourceLimitRules containerID rs rl proto port al =
     (let setName = perSourceLimitSetName containerID (rs_Name rs) (limit_family al) in
      [CallSet setName,
       CallRule (srcNetMatchExprs al @ protoPortExprs proto port
         @ [saddrPayload al, ExDynset 1 setName (Rate rl) (Burst rl), ExCounter, ExVerdict VerdictAccept]),
       CallRule (srcNetMatchExprs al @ protoPortExprs proto port @ verdict_exprs rs ''DROP'' VerdictDrop)])"

definition nft_block_calls :: "FirewallRuleSet \<Rightarrow> string \<Rightarrow> 16 word \<Rightarrow> nft_call list" where
  "nft_block_calls rs proto port =
     map (\<lambda>bl. CallRule (srcNetMatchExprs bl @ protoPortExprs proto port @ verdict_exprs rs ''DROP'' VerdictDrop))
       (filter (\<lambda>bl. net_IP bl \<noteq> []) (rs_Blocklist rs))"

definition nft_allow_calls :: "string \<Rightarrow> FirewallRuleSet \<Rightarrow> string \<Rightarrow> 16 word \<Rightarrow> IPNet \<Rightarrow> nft_call list" where
  "nft_allow_calls containerID rs proto port al =
     (case rs_RateLimit rs of
        Some rl \<Rightarrow> addPerSourceLimitRules containerID rs rl proto port al
      | None \<Rightarrow> [CallRule (srcNetMatchExprs al @ protoPortExprs proto port @ verdict_exprs rs ''ACCEPT'' VerdictAccept)])"

definition nft_port_calls :: "string \<Rightarrow> FirewallRuleSet \<Rightarrow> IPNet list \<Rightarrow> 16 word \<Rightarrow> nft_call list" where
  "nft_port_calls containerID rs auto port =
     (let proto = rs_proto rs; allowlist = effective_allowlist rs auto in
      nft_block_calls rs proto port
      @ concat (map (nft_allow_calls containerID rs proto port) allowlist)
      @ (if allowlist \<noteq> [] then [CallRule (protoPortExprs proto port @ verdict_exprs rs ''DROP'' VerdictDrop)] else []))"

definition nft_ruleset_calls :: "string \<Rightarrow> FirewallRuleSet \<Rightarrow> IPNet list \<Rightarrow> nft_call list" where
  "nft_ruleset_calls containerID rs auto =
     concat (map (nft_port_calls containerID rs auto) (rs_Ports rs)) @ [CallRule [ExVerdict VerdictReturn]]"

fun nft_run_calls :: "'k nft \<Rightarrow> string \<Rightarrow> nft_call list \<Rightarrow> 'k \<Rightarrow> backend_error option \<times> 'k" where
  "nft_run_calls nf chn [] k = (None, k)"
| "nft_run_calls nf chn (CallRule es # cs) k = nft_run_calls nf chn cs (nf_AddRule nf chn es k)"
| "nft_run_calls nf chn (CallSet s # cs) k = must ''add per-source limit set'' (nf_AddSet nf s k) (nft_run_calls nf chn cs)"

fun nft_apply_sets ::
  "NFTablesBackend \<Rightarrow> 'k nft \<Rightarrow> string \<Rightarrow> string \<Rightarrow> IPNet list \<Rightarrow> FirewallRuleSet list \<Rightarrow> 'k \<Rightarrow> backend_error option \<times> 'k" where
  "nft_apply_sets b nf containerID main auto [] k = (None, k)"
| "nft_apply_sets b nf containerID main auto (rs # rss) k =
     (let chn = nftRuleSetChain b containerID (rs_Name rs); k1 = nf_AddChain nf chn None k in
      case nft_run_calls nf chn (nft_ruleset_calls containerID rs auto) k1 of
        (Some e, k2) \<Rightarrow> (Some e, k2)
      | (None, k2) \<Rightarrow> nft_apply_sets b nf containerID main auto rss (nf_AddRule nf main [ExVerdict (VerdictJump chn)] k2))"

definition nft_default_verdict :: "string \<Rightarrow> verdict_kind" where
  "nft_default_verdict defaultPolicy =
     (let p = strings_ToUpper defaultPolicy in
      if p = ''ACCEPT'' then VerdictAccept else if p = ''RETURN'' then VerdictReturn else VerdictDrop)"

definition jumps_to :: "(string \<Rightarrow> bool) \<Rightarrow> nft_rule \<Rightarrow> bool" where
  "jumps_to P r \<longleftrightarrow> list_ex (\<lambda>e. case e of ExVerdict (VerdictJump c) \<Rightarrow> P c | _ \<Rightarrow> False) (nr_exprs r)"

definition del_rules :: "'k nft \<Rightarrow> string \<Rightarrow> nft_rule list \<Rightarrow> 'k \<Rightarrow> 'k" where
  "del_rules nf chn rules k = fold (\<lambda>r k'. snd (nf_DelRule nf chn (nr_handle r) k')) rules k"

definition nft_RemoveContainerChains ::
  "NFTablesBackend \<Rightarrow> 'k nft \<Rightarrow> string \<Rightarrow> 'k \<Rightarrow> backend_error option \<times> 'k" where
  "nft_RemoveContainerChains b nf containerID k =
     (let main = nftContainerChain b containerID;
          k1 = (case nf_GetRules nf fwdChain k of
                  Inl _ \<Rightarrow> k
                | Inr rules \<Rightarrow> del_rules nf fwdChain (filter (jumps_to (\<lambda>c. c = main)) rules) k);
          k2 = (case nf_ListChains nf k1 of
                  Inl _ \<Rightarrow> k1
                | Inr chs \<Rightarrow> fold (nf_DelChain nf)
                    (map nc_name (filter (\<lambda>c. own_chain c \<and> (nc_name c = main \<or> strings_HasPrefix (nc_name c) (main @ ''-''))) chs)) k1);
          k3 = (case nf_GetSets nf k2 of
                  Inl _ \<Rightarrow> k2
                | Inr sets \<Rightarrow> fold (nf_DelSet nf)
                    (filter (\<lambda>s. strings_HasPrefix s (''rl-'' @ truncate_str ContainerIDShortLen containerID @ ''-'')) sets) k2)
      in nft_flush ''flush removal'' nf k3)"

definition nft_ApplyContainerRules ::
  "NFTablesBackend \<Rightarrow> 'k nft \<Rightarrow> string \<Rightarrow> ip list \<Rightarrow> FirewallRuleSet list \<Rightarrow> string \<Rightarrow> IPNet list
   \<Rightarrow> 'k \<Rightarrow> backend_error option \<times> 'k" where
  "nft_ApplyContainerRules b nf containerID containerIPs ruleSets defaultPolicy auto k =
     (case nft_RemoveContainerChains b nf containerID k of
        (Some e, k1) \<Rightarrow> (Some e, k1)
      | (None, k1) \<Rightarrow>
          (let main = nftContainerChain b containerID;
               k2 = nf_AddChain nf main None k1;
               k3 = fold (\<lambda>p. nf_AddRule nf fwdChain (dstIPMatchExprs p @ [ExVerdict (VerdictJump main)])) containerIPs k2
           in case nft_apply_sets b nf containerID main auto ruleSets k3 of
                (Some e, k4) \<Rightarrow> (Some e, k4)
              | (None, k4) \<Rightarrow>
                  nft_flush ''flush'' nf (nf_AddRule nf main [ExCounter, ExVerdict (nft_default_verdict defaultPolicy)] k4)))"

section \<open>Cleanup, listing and health\<close>

definition nft_Cleanup :: "NFTablesBackend \<Rightarrow> 'k nft \<Rightarrow> 'k \<Rightarrow> backend_error option \<times> NFTablesBackend \<times> 'k" where
  "nft_Cleanup b nf k =
     (if \<not> nb_table b then (None, b, k)
      else (case nf_ListChains nf k of
        Inl e \<Rightarrow> (Some (BackendError ''list nftables chains'' e), b, k)
      | Inr chs \<Rightarrow>
          (let names = map nc_name (filter (\<lambda>c. own_chain c \<and> nc_name c \<noteq> fwdChain) chs);
               parsed = map (\<lambda>n. (n, parseInstanceChainName n (nft_prefix b))) names;
               mine = map fst (filter (\<lambda>(n, r). r \<noteq> None) parsed);
               mineMain = map fst (filter (\<lambda>(n, r). case r of Some (cid, sub) \<Rightarrow> \<not> sub | None \<Rightarrow> False) parsed);
               mineSubs = map fst (filter (\<lambda>(n, r). case r of Some (cid, sub) \<Rightarrow> sub | None \<Rightarrow> False) parsed);
               myShortIDs = List.map_filter (\<lambda>(n, r). case r of Some (cid, sub) \<Rightarrow> if sub then None else Some cid | None \<Rightarrow> None) parsed;
               other = length (filter (\<lambda>(n, r). r = None) parsed);
               (e1, k1) = (if \<not> nb_fwd b then (None, k)
                           else (case nf_GetRules nf fwdChain k of
                                   Inl _ \<Rightarrow> (None, k)
                                 | Inr rules \<Rightarrow>
                                     (let hit = filter (jumps_to (\<lambda>c. c \<in> set mine)) rules in
                                      if hit = [] then (None, k)
                                      else nft_flush ''flush forward rule deletions'' nf (del_rules nf fwdChain hit k))))
           in case e1 of Some e \<Rightarrow> (Some e, b, k1)
           | None \<Rightarrow>
             (let k2 = fold (nf_DelChain nf) mineMain k1;
                  (e2, k3) = (if mineMain = [] then (None, k2) else nft_flush ''flush main chain deletions'' nf k2)
              in case e2 of Some e \<Rightarrow> (Some e, b, k3)
              | None \<Rightarrow>
                (let k4 = fold (nf_DelChain nf) mineSubs k3;
                     k5 = (case nf_GetSets nf k4 of
                             Inl _ \<Rightarrow> k4
                           | Inr sets \<Rightarrow> fold (nf_DelSet nf)
                               (filter (\<lambda>s. list_ex (\<lambda>cid. strings_HasPrefix s (''rl-'' @ cid @ ''-'')) myShortIDs) sets) k4);
                     (b1, k6) = (if other = 0 \<and> nb_fwd b
                                 then (b\<lparr>nb_fwd := False, nb_table := False\<rparr>, nf_DelTable nf (nf_DelChain nf fwdChain k5))
                                 else (b, k5));
                     (e3, k7) = nft_flush ''flush cleanup'' nf k6
                 in (e3, b1, k7))))))"

definition nft_ListAppliedContainerIDs :: "NFTablesBackend \<Rightarrow> 'k nft \<Rightarrow> 'k \<Rightarrow> backend_error + string list" where
  "nft_ListAppliedContainerIDs b nf k =
     (case nf_ListChains nf k of
        Inl e \<Rightarrow> Inl (BackendError ''list nftables chains'' e)
      | Inr chs \<Rightarrow> Inr (remdups (List.map_filter
          (\<lambda>c. map_option fst (parseInstanceChainName (nc_name c) (nft_prefix b))) (filter own_chain chs))))"

definition nft_Healthy :: "NFTablesBackend \<Rightarrow> 'k nft \<Rightarrow> 'k \<Rightarrow> backend_error option \<times> HealthReport" where
  "nft_Healthy b nf k =
     (let report = \<lparr>hp_Backend = ''nftables'', hp_ParentJumpPresent = False, hp_BaseChainPresent = False,
                    hp_ContainerChainCount = 0, hp_Notes = []\<rparr> in
      case nf_ListTables nf k of
        Inl e \<Rightarrow> (Some (BackendError ''list nftables tables'' e), report)
      | Inr tables \<Rightarrow>
          (if nftTableName \<notin> set tables then (None, report\<lparr>hp_Notes := [''firefik table absent '' @ [CHR 0xE2, CHR 0x80, CHR 0x94] @ '' traffic bypasses firefik'']\<rparr>)
           else (case nf_ListChains nf k of
             Inl e \<Rightarrow> (Some (BackendError ''list nftables chains'' e), report)
           | Inr chs \<Rightarrow>
               (let names = map nc_name (filter own_chain chs); present = fwdChain \<in> set names;
                    count = length (filter (\<lambda>n. n \<noteq> fwdChain \<and> strings_HasPrefix n (nft_prefix b)) names)
                in (None, report\<lparr>hp_BaseChainPresent := present, hp_ParentJumpPresent := present,
                      hp_ContainerChainCount := count,
                      hp_Notes := (if present then [] else [''base forward chain absent in firefik table''])\<rparr>)))))"

section \<open>Host rules\<close>

definition ensureHostChain :: "'k nft \<Rightarrow> string \<Rightarrow> 'k \<Rightarrow> backend_error option \<times> 'k" where
  "ensureHostChain nf defaultPolicy k =
     (case nf_ListChains nf k of
        Inl e \<Rightarrow> (Some (BackendError ''list chains'' e), k)
      | Inr chs \<Rightarrow>
          (let policy = (if NormaliseHostDefault defaultPolicy = ''DROP'' then ChainPolicyDrop else ChainPolicyAccept);
               create = (\<lambda>k'. nft_flush ''create host chain'' nf (nf_AddChain nf nftHostChainName (Some (HookInput, policy)) k'))
           in case filter (\<lambda>c. own_chain c \<and> nc_name c = nftHostChainName) chs of
                [] \<Rightarrow> create k
              | c # _ \<Rightarrow>
                  (if nc_policy c \<noteq> Some policy then
                     (case nft_flush ''delete stale host chain'' nf (nf_DelChain nf nftHostChainName k) of
                        (Some e, k1) \<Rightarrow> (Some e, k1) | (None, k1) \<Rightarrow> create k1)
                   else (None, k))))"

fun del_host_rules :: "'k nft \<Rightarrow> nft_rule list \<Rightarrow> 'k \<Rightarrow> backend_error option \<times> 'k" where
  "del_host_rules nf [] k = nft_flush ''flush host chain'' nf k"
| "del_host_rules nf (r # rs) k = must ''flush host chain'' (nf_DelRule nf nftHostChainName (nr_handle r) k) (del_host_rules nf rs)"

definition flushHostChainRules :: "'k nft \<Rightarrow> 'k \<Rightarrow> backend_error option \<times> 'k" where
  "flushHostChainRules nf k =
     (case nf_GetRules nf nftHostChainName k of
        Inl e \<Rightarrow> (Some (BackendError ''flush host chain'' e), k)
      | Inr rules \<Rightarrow> del_host_rules nf rules k)"

definition peer_exprs :: "IPNet \<Rightarrow> nft_expr list" where
  "peer_exprs peer = (if net_IP peer \<noteq> [] then srcNetMatchExprs peer else [])"

definition host_proto_matches :: "string \<Rightarrow> 16 word list \<Rightarrow> nft_expr list list" where
  "host_proto_matches proto ports =
     (if proto = ''tcp'' \<or> proto = ''udp'' then
        (if ports = [] then [protoAnyPortExprs proto] else map (protoPortExprs proto) ports)
      else [[]])"

definition addHostNflog :: "string \<Rightarrow> 16 word list \<Rightarrow> IPNet \<Rightarrow> string \<Rightarrow> string \<Rightarrow> nft_expr list list" where
  "addHostNflog proto ports peer logPrefix actionType =
     (let p0 = strings_TrimSpace logPrefix; p1 = (if p0 = [] then ''firefik-host-'' @ actionType else p0);
          pre = truncate_str LogPrefixMaxLen p1
      in map (\<lambda>m. peer_exprs peer @ m @ [nflogExpr pre actionType]) (host_proto_matches proto ports))"

definition addHostMatch :: "string \<Rightarrow> 16 word list \<Rightarrow> IPNet \<Rightarrow> verdict_kind \<Rightarrow> nft_expr list list" where
  "addHostMatch proto ports peer v =
     map (\<lambda>m. peer_exprs peer @ m @ [ExVerdict v]) (host_proto_matches proto ports)"

definition nft_host_peer :: "HostRule \<Rightarrow> string \<Rightarrow> verdict_kind \<Rightarrow> IPNet \<Rightarrow> nft_expr list list" where
  "nft_host_peer r action v peer =
     (let proto = strings_ToLower (strings_TrimSpace (hr_Protocol r)) in
      (if hr_Log r then addHostNflog proto (hr_Ports r) peer (hr_LogPrefix r) action else [])
      @ addHostMatch proto (hr_Ports r) peer v)"

definition nft_host_rule :: "HostRule \<Rightarrow> nft_expr list list" where
  "nft_host_rule r =
     concat (map (nft_host_peer r ''DROP'' VerdictDrop) (hr_Blocklist r))
     @ concat (map (nft_host_peer r ''ACCEPT'' VerdictAccept) (hr_Allowlist r))
     @ (if hr_Allowlist r = [] \<and> hr_Blocklist r = [] then nft_host_peer r ''ACCEPT'' VerdictAccept no_peer else [])"

definition nft_ApplyHostRules ::
  "NFTablesBackend \<Rightarrow> 'k nft \<Rightarrow> HostRule list \<Rightarrow> string \<Rightarrow> 'k \<Rightarrow> backend_error option \<times> NFTablesBackend \<times> 'k" where
  "nft_ApplyHostRules b nf rules defaultPolicy k =
     (let (e0, b1, k1) = (if nb_table b then (None, b, k) else nft_SetupChains b nf k) in
      case e0 of Some e \<Rightarrow> (Some e, b1, k1)
      | None \<Rightarrow>
          (case ensureHostChain nf defaultPolicy k1 of
             (Some e, k2) \<Rightarrow> (Some e, b1, k2)
           | (None, k2) \<Rightarrow>
               (case flushHostChainRules nf k2 of
                  (Some e, k3) \<Rightarrow> (Some e, b1, k3)
                | (None, k3) \<Rightarrow>
                    (let k4 = fold (nf_AddRule nf nftHostChainName)
                           ((if nb_stateful b1 then [ctStateEstablishedRelatedAcceptExprs] else [])
                            @ concat (map nft_host_rule rules)) k3;
                         (e5, k5) = nft_flush ''flush host rules'' nf k4
                     in (e5, b1, k5)))))"

definition nft_RemoveHostChain :: "NFTablesBackend \<Rightarrow> 'k nft \<Rightarrow> 'k \<Rightarrow> backend_error option \<times> 'k" where
  "nft_RemoveHostChain b nf k =
     (if \<not> nb_table b then (None, k)
      else (case nf_ListChains nf k of
              Inl e \<Rightarrow> (Some (BackendError ''list chains'' e), k)
            | Inr chs \<Rightarrow>
                (if list_ex (\<lambda>c. own_chain c \<and> nc_name c = nftHostChainName) chs
                 then nft_flush ''flush'' nf (nf_DelChain nf nftHostChainName k) else (None, k))))"

end
