(* ===== verification/NFTables_Semantics.thy ===== *)
theory NFTables_Semantics
  imports NFTables_Backend IPTables_Verdict
begin

text \<open>
  Semantics for the nftables backend: the transaction a flush executes, the interface of the library
  as a locale over it, the expression machine that decides whether a packet matches a rule,
  and the verdict of a chain.
\<close>

section \<open>Transactions\<close>

datatype nft_op =
    OpAddTable
  | OpDelTable
  | OpAddChain string "(chain_hook \<times> chain_policy) option"
  | OpDelChain string
  | OpAddRule string "nft_expr list"
  | OpInsertRule string "nft_expr list"
  | OpDelRule string nat
  | OpAddSet string
  | OpDelSet string

text \<open>The kernel's table \<open>firefik\<close>: its chains with their policy and rules, its sets, and the next handle.\<close>

record nft_kernel =
  nk_table :: bool
  nk_chains :: "(string \<times> chain_policy option \<times> nft_rule list) list"
  nk_sets :: "string list"
  nk_next :: nat

definition rule_jumps :: "string \<Rightarrow> nft_rule \<Rightarrow> bool" where
  "rule_jumps c r \<longleftrightarrow> ExVerdict (VerdictJump c) \<in> set (nr_exprs r)"

definition chain_busy :: "string \<Rightarrow> nft_kernel \<Rightarrow> bool" where
  "chain_busy c K \<longleftrightarrow> list_ex (\<lambda>(d, pol, rs). d \<noteq> c \<and> list_ex (rule_jumps c) rs) (nk_chains K)"

definition jump_targets_exist :: "nft_expr list \<Rightarrow> nft_kernel \<Rightarrow> bool" where
  "jump_targets_exist es K \<longleftrightarrow>
     list_all (\<lambda>e. case e of ExVerdict (VerdictJump c) \<Rightarrow> map_of (nk_chains K) c \<noteq> None | _ \<Rightarrow> True) es"

text \<open>The sets the \<open>Dynset\<close> expressions of a rule name; the kernel refuses a rule that names an unknown set and does not delete a set in use.\<close>

definition dyn_sets :: "nft_expr list \<Rightarrow> string set" where
  "dyn_sets es = {s. \<exists>r x y. ExDynset r s x y \<in> set es}"

definition set_refs_exist :: "nft_expr list \<Rightarrow> nft_kernel \<Rightarrow> bool" where
  "set_refs_exist es K \<longleftrightarrow> list_all (\<lambda>e. case e of ExDynset r s x y \<Rightarrow> s \<in> set (nk_sets K) | _ \<Rightarrow> True) es"

definition set_busy :: "string \<Rightarrow> nft_kernel \<Rightarrow> bool" where
  "set_busy s K \<longleftrightarrow> list_ex (\<lambda>(d, pol, rs). list_ex (\<lambda>r. list_ex
     (\<lambda>e. case e of ExDynset g n x y \<Rightarrow> n = s | _ \<Rightarrow> False) (nr_exprs r)) rs) (nk_chains K)"

lemma set_refs_dyn: "set_refs_exist es K \<longleftrightarrow> dyn_sets es \<subseteq> set (nk_sets K)"
  by (auto simp: set_refs_exist_def dyn_sets_def list_all_iff split: nft_expr.splits)

definition edit_rules :: "string \<Rightarrow> (nft_rule list \<Rightarrow> nft_rule list) \<Rightarrow> nft_kernel \<Rightarrow> nft_kernel option" where
  "edit_rules c f K =
     (case map_of (nk_chains K) c of
        None \<Rightarrow> None
      | Some (pol, rs) \<Rightarrow> Some (K\<lparr>nk_chains := AList.update c (pol, f rs) (nk_chains K), nk_next := nk_next K + 1\<rparr>))"

fun nft_exec :: "nft_op \<Rightarrow> nft_kernel \<Rightarrow> nft_kernel option" where
  "nft_exec OpAddTable K = Some (K\<lparr>nk_table := True\<rparr>)"
| "nft_exec OpDelTable K = (if nk_table K then Some (K\<lparr>nk_table := False, nk_chains := [], nk_sets := []\<rparr>) else None)"
| "nft_exec (OpAddChain c h) K =
     (if \<not> nk_table K then None
      else if map_of (nk_chains K) c \<noteq> None then Some K
      else Some (K\<lparr>nk_chains := nk_chains K @ [(c, map_option snd h, [])]\<rparr>))"
| "nft_exec (OpDelChain c) K =
     (if map_of (nk_chains K) c = None \<or> chain_busy c K then None
      else Some (K\<lparr>nk_chains := AList.delete c (nk_chains K)\<rparr>))"
| "nft_exec (OpAddRule c es) K =
     (if \<not> jump_targets_exist es K \<or> \<not> set_refs_exist es K then None
      else edit_rules c (\<lambda>rs. rs @ [\<lparr>nr_handle = nk_next K, nr_exprs = es\<rparr>]) K)"
| "nft_exec (OpInsertRule c es) K =
     (if \<not> jump_targets_exist es K \<or> \<not> set_refs_exist es K then None
      else edit_rules c (\<lambda>rs. \<lparr>nr_handle = nk_next K, nr_exprs = es\<rparr> # rs) K)"
| "nft_exec (OpDelRule c h) K =
     (case map_of (nk_chains K) c of
        None \<Rightarrow> None
      | Some (pol, rs) \<Rightarrow>
          (if list_ex (\<lambda>r. nr_handle r = h) rs
           then edit_rules c (filter (\<lambda>r. nr_handle r \<noteq> h)) K else None))"
| "nft_exec (OpAddSet s) K = (if nk_table K then Some (K\<lparr>nk_sets := List.insert s (nk_sets K)\<rparr>) else None)"
| "nft_exec (OpDelSet s) K = (if s \<in> set (nk_sets K) \<and> \<not> set_busy s K then Some (K\<lparr>nk_sets := removeAll s (nk_sets K)\<rparr>) else None)"

fun nft_exec_all :: "nft_op list \<Rightarrow> nft_kernel \<Rightarrow> nft_kernel option" where
  "nft_exec_all [] K = Some K"
| "nft_exec_all (op # ops) K = (case nft_exec op K of None \<Rightarrow> None | Some K' \<Rightarrow> nft_exec_all ops K')"

lemma nft_exec_all_append:
  "nft_exec_all (xs @ ys) K = (case nft_exec_all xs K of None \<Rightarrow> None | Some K' \<Rightarrow> nft_exec_all ys K')"
  by (induction xs arbitrary: K) (auto split: option.split)

section \<open>The library\<close>

text \<open>
  What the library documents: changes are queued; a flush executes the queue as one transaction and
  leaves the kernel as it was if any part fails; the list operations read the kernel.
\<close>

locale nft_api =
  fixes nf :: "'k nft"
    and kern :: "'k \<Rightarrow> nft_kernel"
    and queue :: "'k \<Rightarrow> nft_op list"
  assumes AddTable: "kern (nf_AddTable nf k) = kern k \<and> queue (nf_AddTable nf k) = queue k @ [OpAddTable]"
    and DelTable: "kern (nf_DelTable nf k) = kern k \<and> queue (nf_DelTable nf k) = queue k @ [OpDelTable]"
    and AddChain: "kern (nf_AddChain nf c hk k) = kern k \<and> queue (nf_AddChain nf c hk k) = queue k @ [OpAddChain c hk]"
    and DelChain: "kern (nf_DelChain nf c k) = kern k \<and> queue (nf_DelChain nf c k) = queue k @ [OpDelChain c]"
    and AddRule: "kern (nf_AddRule nf c es k) = kern k \<and> queue (nf_AddRule nf c es k) = queue k @ [OpAddRule c es]"
    and InsertRule: "kern (nf_InsertRule nf c es k) = kern k \<and> queue (nf_InsertRule nf c es k) = queue k @ [OpInsertRule c es]"
    and DelRule: "nf_DelRule nf c h k = (e, k') \<Longrightarrow>
      kern k' = kern k \<and> queue k' = (if e = None then queue k @ [OpDelRule c h] else queue k)"
    and AddSet: "nf_AddSet nf s k = (e, k') \<Longrightarrow>
      kern k' = kern k \<and> queue k' = (if e = None then queue k @ [OpAddSet s] else queue k)"
    and DelSet: "kern (nf_DelSet nf s k) = kern k \<and> queue (nf_DelSet nf s k) = queue k @ [OpDelSet s]"
    and Flush: "nf_Flush nf k = (e, k') \<Longrightarrow> queue k' = []
      \<and> (e = None \<longrightarrow> nft_exec_all (queue k) (kern k) = Some (kern k')) \<and> (e \<noteq> None \<longrightarrow> kern k' = kern k)"
    and ListChains: "nf_ListChains nf k = Inr cs \<Longrightarrow>
      {nc_name c | c. c \<in> set cs \<and> own_chain c} = fst ` set (nk_chains (kern k))"
    and GetRules: "nf_GetRules nf c k = Inr rs \<Longrightarrow> \<exists>pol. map_of (nk_chains (kern k)) c = Some (pol, rs)"
    and GetSets: "nf_GetSets nf k = Inr ss \<Longrightarrow> set ss = set (nk_sets (kern k))"

type_synonym nft_mem = "nft_kernel \<times> nft_op list"

definition mem_nft :: "nft_mem nft" where
  "mem_nft =
     \<lparr>nf_AddTable = (\<lambda>(K, q). (K, q @ [OpAddTable])),
      nf_DelTable = (\<lambda>(K, q). (K, q @ [OpDelTable])),
      nf_AddChain = (\<lambda>c h (K, q). (K, q @ [OpAddChain c h])),
      nf_DelChain = (\<lambda>c (K, q). (K, q @ [OpDelChain c])),
      nf_AddRule = (\<lambda>c es (K, q). (K, q @ [OpAddRule c es])),
      nf_InsertRule = (\<lambda>c es (K, q). (K, q @ [OpInsertRule c es])),
      nf_DelRule = (\<lambda>c h (K, q). (None, K, q @ [OpDelRule c h])),
      nf_AddSet = (\<lambda>s (K, q). (None, K, q @ [OpAddSet s])),
      nf_DelSet = (\<lambda>s (K, q). (K, q @ [OpDelSet s])),
      nf_Flush = (\<lambda>(K, q). case nft_exec_all q K of None \<Rightarrow> (Some ''transaction failed'', K, []) | Some K' \<Rightarrow> (None, K', [])),
      nf_ListTables = (\<lambda>(K, q). Inr (if nk_table K then [nftTableName] else [])),
      nf_ListChains = (\<lambda>(K, q). Inr (map (\<lambda>(c, pol, rs). \<lparr>nc_table = Some nftTableName, nc_name = c, nc_policy = pol\<rparr>) (nk_chains K))),
      nf_GetRules = (\<lambda>c (K, q). case map_of (nk_chains K) c of None \<Rightarrow> Inl ''no such chain'' | Some (pol, rs) \<Rightarrow> Inr rs),
      nf_GetSets = (\<lambda>(K, q). Inr (nk_sets K))\<rparr>"

interpretation mem_nft: nft_api mem_nft fst snd
proof (unfold_locales, goal_cases)
  case (10 k e k')
  then show ?case by (cases k) (auto simp: mem_nft_def split: option.splits)
next
  case (11 k cs)
  then show ?case by (cases k) (force simp: mem_nft_def own_chain_def)
next
  case (12 c k rs)
  then show ?case by (cases k) (auto simp: mem_nft_def split: option.splits prod.splits)
qed (auto simp: mem_nft_def split: prod.splits)

section \<open>Adding rules\<close>

definition exprs_of :: "nft_kernel \<Rightarrow> string \<Rightarrow> nft_expr list list option" where
  "exprs_of K c = map_option (\<lambda>(pol, rs). map nr_exprs rs) (map_of (nk_chains K) c)"

fun adds_only :: "nft_op \<Rightarrow> bool" where
  "adds_only (OpAddChain c h) = True"
| "adds_only (OpAddRule c es) = True"
| "adds_only (OpAddSet s) = True"
| "adds_only _ = False"

fun added_rules :: "string \<Rightarrow> nft_op list \<Rightarrow> nft_expr list list" where
  "added_rules c [] = []"
| "added_rules c (OpAddRule d es # ops) = (if d = c then es # added_rules c ops else added_rules c ops)"
| "added_rules c (_ # ops) = added_rules c ops"

lemma added_rules_append [simp]: "added_rules c (xs @ ys) = added_rules c xs @ added_rules c ys"
  by (induction c xs rule: added_rules.induct) auto

lemma added_rules_none: "c \<notin> {d. \<exists>es. OpAddRule d es \<in> set ops} \<Longrightarrow> added_rules c ops = []"
  by (induction c ops rule: added_rules.induct) auto

lemma exprs_of_update:
  "exprs_of (K\<lparr>nk_chains := AList.update c (pol, rs) (nk_chains K), nk_next := n\<rparr>) d
   = (if d = c then Some (map nr_exprs rs) else exprs_of K d)"
  by (simp add: exprs_of_def update_conv)

lemma nft_exec_add:
  assumes "nft_exec op K = Some K'" "adds_only op"
  shows "exprs_of K c = Some es \<Longrightarrow> exprs_of K' c = Some (es @ added_rules c [op])"
    and "exprs_of K c = None \<Longrightarrow> exprs_of K' c = (if \<exists>h. op = OpAddChain c h then Some [] else None)"
proof -
  have "(\<forall>es. exprs_of K c = Some es \<longrightarrow> exprs_of K' c = Some (es @ added_rules c [op]))
    \<and> (exprs_of K c = None \<longrightarrow> exprs_of K' c = (if \<exists>h. op = OpAddChain c h then Some [] else None))"
    using assms
  proof (cases op)
    case (OpAddRule d es)
    then obtain pol rs where d: "map_of (nk_chains K) d = Some (pol, rs)"
      "K' = K\<lparr>nk_chains := AList.update d (pol, rs @ [\<lparr>nr_handle = nk_next K, nr_exprs = es\<rparr>]) (nk_chains K), nk_next := nk_next K + 1\<rparr>"
      using assms(1) by (auto simp: edit_rules_def split: if_splits option.splits)
    have "exprs_of K d = Some (map nr_exprs rs)" by (simp add: exprs_of_def d(1))
    then show ?thesis unfolding d(2) exprs_of_update by (auto simp: OpAddRule)
  next
    case (OpAddChain d h)
    then show ?thesis using assms(1) by (auto simp: exprs_of_def map_add_def split: if_splits option.splits)
  next
    case (OpAddSet s)
    then show ?thesis using assms(1) by (auto simp: exprs_of_def split: if_splits)
  qed auto
  then show "exprs_of K c = Some es \<Longrightarrow> exprs_of K' c = Some (es @ added_rules c [op])"
    "exprs_of K c = None \<Longrightarrow> exprs_of K' c = (if \<exists>h. op = OpAddChain c h then Some [] else None)" by auto
qed

lemma nft_exec_all_add:
  assumes "nft_exec_all ops K = Some K'" "list_all adds_only ops" "exprs_of K c = Some es"
  shows "exprs_of K' c = Some (es @ added_rules c ops)"
  using assms
proof (induction ops arbitrary: K es)
  case (Cons op ops)
  obtain K1 where k: "nft_exec op K = Some K1" "nft_exec_all ops K1 = Some K'"
    using Cons.prems(1) by (auto split: option.splits)
  have "exprs_of K1 c = Some (es @ added_rules c [op])" using nft_exec_add(1) [OF k(1)] Cons.prems(2,3) by simp
  from Cons.IH [OF k(2) _ this] Cons.prems(2) show ?case using added_rules_append [of c "[op]" ops] by simp
qed simp

lemma nft_exec_all_new:
  assumes "nft_exec_all (pre @ OpAddChain c h # ops) K = Some K'" "list_all adds_only (pre @ ops)"
    and "exprs_of K c = None"
  shows "exprs_of K' c = Some (added_rules c (pre @ ops))"
  using assms
proof (induction pre arbitrary: K)
  case Nil
  then obtain K1 where k: "nft_exec (OpAddChain c h) K = Some K1" "nft_exec_all ops K1 = Some K'"
    by (auto split: option.splits)
  have "exprs_of K1 c = Some []" using nft_exec_add(2) [OF k(1) _ Nil.prems(3)] by simp
  from nft_exec_all_add [OF k(2) _ this] Nil.prems(2) show ?case by simp
next
  case (Cons op pre)
  obtain K1 where k: "nft_exec op K = Some K1" "nft_exec_all (pre @ OpAddChain c h # ops) K1 = Some K'"
    using Cons.prems(1) by (auto split: option.splits)
  show ?case
  proof (cases "exprs_of K1 c")
    case None
    have "added_rules c [op] = []"
    proof (cases op)
      case (OpAddRule d es)
      then show ?thesis using k(1) Cons.prems(3) by (auto simp: edit_rules_def exprs_of_def split: if_splits option.splits)
    qed auto
    then show ?thesis using Cons.IH [OF k(2) _ None] Cons.prems(2) added_rules_append [of c "[op]" "pre @ ops"] by simp
  next
    case (Some es)
    then have op: "\<exists>h. op = OpAddChain c h" "es = []"
      using nft_exec_add(2) [OF k(1) _ Cons.prems(3)] Cons.prems(2) by (auto split: if_splits)
    have "list_all adds_only (pre @ OpAddChain c h # ops)" using Cons.prems(2) by simp
    from nft_exec_all_add [OF k(2) this Some] op show ?thesis by auto
  qed
qed

end
