(* ===== verification/NFTables_Verdict.thy ===== *)
theory NFTables_Verdict
  imports NFTables_Semantics
begin

text \<open>
  The machine that runs a rule's expressions on a packet, the matches the backend generates, and the
  verdict of a rule set's chain.
\<close>

unbundle bit_operations_syntax

section \<open>Packets and the expression machine\<close>

record nft_packet =
  np_nfproto :: byte
  np_l4proto :: byte
  np_network :: "byte list"
  np_transport :: "byte list"
  np_ctstate :: "32 word"
  np_under :: "string \<Rightarrow> bool"

datatype expr_result = ExprBreak | ExprVerdict verdict_kind | ExprEnd

definition load_payload :: "nft_packet \<Rightarrow> payload_base \<Rightarrow> nat \<Rightarrow> nat \<Rightarrow> byte list option" where
  "load_payload p base off len =
     (let hdr = (case base of NetworkHeader \<Rightarrow> np_network p | TransportHeader \<Rightarrow> np_transport p) in
      if off + len \<le> length hdr then Some (take len (drop off hdr)) else None)"

fun run_exprs :: "nft_packet \<Rightarrow> (nat \<Rightarrow> byte list) \<Rightarrow> nft_expr list \<Rightarrow> expr_result" where
  "run_exprs p g [] = ExprEnd"
| "run_exprs p g (ExMeta MetaNFPROTO r # es) = run_exprs p (g(r := [np_nfproto p])) es"
| "run_exprs p g (ExMeta MetaL4PROTO r # es) = run_exprs p (g(r := [np_l4proto p])) es"
| "run_exprs p g (ExCmp CmpOpEq r d # es) = (if take (length d) (g r) = d then run_exprs p g es else ExprBreak)"
| "run_exprs p g (ExCmp CmpOpNeq r d # es) = (if take (length d) (g r) \<noteq> d then run_exprs p g es else ExprBreak)"
| "run_exprs p g (ExPayload r base off len # es) =
     (case load_payload p base off len of None \<Rightarrow> ExprBreak | Some d \<Rightarrow> run_exprs p (g(r := d)) es)"
| "run_exprs p g (ExBitwise s r len mk xr # es) =
     run_exprs p (g(r := map2 (XOR) (map2 (AND) (take len (g s)) mk) xr)) es"
| "run_exprs p g (ExCtState r # es) = run_exprs p (g(r := binaryUint32 (np_ctstate p))) es"
| "run_exprs p g (ExDynset r s rate burst # es) = (if np_under p s then run_exprs p g es else ExprBreak)"
| "run_exprs p g (ExCounter # es) = run_exprs p g es"
| "run_exprs p g (ExLog grp pre # es) = run_exprs p g es"
| "run_exprs p g (ExVerdict v # es) = ExprVerdict v"

fun run_nft :: "nft_packet \<Rightarrow> (string \<Rightarrow> outcome option) \<Rightarrow> nft_expr list list \<Rightarrow> outcome option" where
  "run_nft p ucall [] = None"
| "run_nft p ucall (es # rs) =
     (case run_exprs p (\<lambda>_. []) es of
        ExprVerdict VerdictAccept \<Rightarrow> Some Accept
      | ExprVerdict VerdictDrop \<Rightarrow> Some Drop
      | ExprVerdict VerdictReturn \<Rightarrow> Some Return
      | ExprVerdict (VerdictJump c) \<Rightarrow>
          (case ucall c of Some Accept \<Rightarrow> Some Accept | Some Drop \<Rightarrow> Some Drop | _ \<Rightarrow> run_nft p ucall rs)
      | _ \<Rightarrow> run_nft p ucall rs)"

fun run_nft_chain :: "nat \<Rightarrow> nft_packet \<Rightarrow> (string \<Rightarrow> nft_expr list list option) \<Rightarrow> string \<Rightarrow> outcome option" where
  "run_nft_chain 0 p t c = None"
| "run_nft_chain (Suc n) p t c = (case t c of None \<Rightarrow> None | Some rs \<Rightarrow> run_nft p (run_nft_chain n p t) rs)"

text \<open>A packet whose headers are complete: an IPv4 or IPv6 header and the first four bytes of TCP or UDP.\<close>

definition wf_nft_packet :: "nft_packet \<Rightarrow> bool" where
  "wf_nft_packet p \<longleftrightarrow> 4 \<le> length (np_transport p)
     \<and> (np_nfproto p = NFPROTO_IPV4 \<and> 20 \<le> length (np_network p)
        \<or> np_nfproto p = NFPROTO_IPV6 \<and> 40 \<le> length (np_network p))"

definition np_src :: "nft_packet \<Rightarrow> ip" where
  "np_src p = (if np_nfproto p = NFPROTO_IPV4 then take 4 (drop 12 (np_network p)) else take 16 (drop 8 (np_network p)))"

definition np_dport :: "nft_packet \<Rightarrow> 16 word" where
  "np_dport p = (push_bit 8 (ucast (np_transport p ! 2)) OR ucast (np_transport p ! 3))"

text \<open>The networks the label, file and policy parsers produce: IPv4 in four bytes, or proper IPv6.\<close>

definition nft_net :: "IPNet \<Rightarrow> bool" where
  "nft_net n \<longleftrightarrow> length (net_Mask n) = length (net_IP n)
     \<and> (length (net_IP n) = 4 \<or> length (net_IP n) = 16 \<and> To4 (net_IP n) = None)"

definition nft_src_in :: "nft_packet \<Rightarrow> IPNet \<Rightarrow> bool" where
  "nft_src_in p n \<longleftrightarrow> length (np_src p) = length (net_IP n)
     \<and> map2 (AND) (np_src p) (net_Mask n) = map2 (AND) (net_IP n) (net_Mask n)"

section \<open>What the generated expressions match\<close>

lemma port_bytes_eq: "port_bytes w = [a, b] \<longleftrightarrow> w = (push_bit 8 (ucast a) OR ucast b)"
  for w :: "16 word" and a b :: byte
proof
  assume "port_bytes w = [a, b]"
  then have "ucast (drop_bit 8 w) = a" "ucast w = b" by (simp_all add: port_bytes_def)
  then show "w = (push_bit 8 (ucast a) OR ucast b)"
    by (auto intro!: bit_word_eqI simp: bit_simps)
next
  assume w: "w = (push_bit 8 (ucast a) OR ucast b)"
  have nb: "\<not> bit b (8 + n)" for n by (rule impossible_bit) simp
  have "ucast (drop_bit 8 w) = a" "ucast w = b"
    unfolding w by (auto intro!: bit_word_eqI simp: bit_simps nb)
  then show "port_bytes w = [a, b]" by (simp add: port_bytes_def)
qed

lemma take_two: "4 \<le> length xs \<Longrightarrow> take 2 (drop 2 xs) = [xs ! 2, xs ! 3]"
  by (simp add: take_Suc_conv_app_nth numeral_2_eq_2 numeral_3_eq_3 flip: Cons_nth_drop_Suc)

lemma run_proto_port:
  assumes "wf_nft_packet p"
  shows "run_exprs p g (protoPortExprs proto port @ es)
    = (if np_l4proto p = proto_num proto \<and> np_dport p = port then run_exprs p (g(1 := port_bytes port)) es else ExprBreak)"
proof -
  have l: "4 \<le> length (np_transport p)" using assms by (simp add: wf_nft_packet_def)
  have "load_payload p TransportHeader 2 2 = Some [np_transport p ! 2, np_transport p ! 3]"
    using l take_two [OF l] by (simp add: load_payload_def Let_def)
  moreover have "[np_transport p ! 2, np_transport p ! 3] = port_bytes port \<longleftrightarrow> np_dport p = port"
    using port_bytes_eq [of port "np_transport p ! 2" "np_transport p ! 3"] by (auto simp: np_dport_def)
  moreover have "length (port_bytes port) = 2" by (simp add: port_bytes_def)
  ultimately show ?thesis by (auto simp: protoPortExprs_def)
qed

lemma xor_zeros: "length xs = n \<Longrightarrow> map2 (XOR) xs (replicate n (0::byte)) = xs"
  by (induction xs arbitrary: n) auto

lemma ip_Mask_same: "length x = length m \<Longrightarrow> length x = 4 \<or> length x = 16 \<Longrightarrow> ip_Mask x m = map2 (AND) x m"
  by (auto simp: ip_Mask_def)

lemma np_src_load:
  assumes "wf_nft_packet p"
  shows "np_nfproto p = NFPROTO_IPV4 \<Longrightarrow> load_payload p NetworkHeader 12 4 = Some (np_src p) \<and> length (np_src p) = 4"
    and "np_nfproto p = NFPROTO_IPV6 \<Longrightarrow> load_payload p NetworkHeader 8 16 = Some (np_src p) \<and> length (np_src p) = 16"
  using assms by (auto simp: wf_nft_packet_def load_payload_def np_src_def NFPROTO_IPV4_def NFPROTO_IPV6_def)

lemma run_src_net:
  assumes "wf_nft_packet p" "nft_net n"
  shows "\<exists>r. run_exprs p g (srcNetMatchExprs n @ es) = (if nft_src_in p n then run_exprs p (g(1 := r)) es else ExprBreak)"
proof (cases "length (net_IP n) = 4")
  case True
  have m: "length (net_Mask n) = 4" "To4 (net_IP n) = Some (net_IP n)" using assms(2) True by (auto simp: nft_net_def)
  show ?thesis
  proof (cases "np_nfproto p = NFPROTO_IPV4")
    case v4: True
    note S = np_src_load(1) [OF assms(1) v4]
    have "map2 (XOR) (map2 (AND) (np_src p) (net_Mask n)) [0, 0, 0, 0] = map2 (AND) (np_src p) (net_Mask n)"
      using xor_zeros [of "map2 (AND) (np_src p) (net_Mask n)" 4] S m(1) by (simp add: numeral_eq_Suc)
    then show ?thesis using v4 S True m
      by (intro exI [of _ "map2 (AND) (np_src p) (net_Mask n)"])
        (simp add: srcNetMatchExprs_def ip_Mask_same nft_src_in_def)
  next
    case False
    then have "length (np_src p) = 16" using assms(1) np_src_load(2) [OF assms(1)] by (auto simp: wf_nft_packet_def)
    then show ?thesis using False True m by (simp add: srcNetMatchExprs_def nft_src_in_def)
  qed
next
  case False
  then have n: "length (net_IP n) = 16" "length (net_Mask n) = 16" "To4 (net_IP n) = None" "to16 (net_IP n) = net_IP n"
    using assms(2) by (auto simp: nft_net_def to16_def To16_def)
  show ?thesis
  proof (cases "np_nfproto p = NFPROTO_IPV6")
    case v6: True
    note S = np_src_load(2) [OF assms(1) v6]
    have "map2 (XOR) (map2 (AND) (np_src p) (net_Mask n)) (replicate 16 0) = map2 (AND) (np_src p) (net_Mask n)"
      using xor_zeros [of "map2 (AND) (np_src p) (net_Mask n)" 16] S n(2) by simp
    then show ?thesis using v6 S n
      by (intro exI [of _ "map2 (AND) (np_src p) (net_Mask n)"])
        (simp add: srcNetMatchExprs_def ip_Mask_same nft_src_in_def)
  next
    case F: False
    then have "length (np_src p) = 4" using assms(1) np_src_load(1) [OF assms(1)] by (auto simp: wf_nft_packet_def)
    then show ?thesis using F n by (simp add: srcNetMatchExprs_def nft_src_in_def)
  qed
qed

definition port_match :: "nft_packet \<Rightarrow> string \<Rightarrow> 16 word \<Rightarrow> bool" where
  "port_match p proto port \<longleftrightarrow> np_l4proto p = proto_num proto \<and> np_dport p = port"

lemma run_verdict_exprs: "run_exprs p g (verdict_exprs rs a v) = ExprVerdict v"
  by (simp add: verdict_exprs_def nflogExpr_def Let_def)

lemma run_port_rule:
  assumes "wf_nft_packet p"
  shows "run_exprs p g (protoPortExprs proto port @ verdict_exprs rs a v) = (if port_match p proto port then ExprVerdict v else ExprBreak)"
  by (simp add: run_proto_port [OF assms] run_verdict_exprs port_match_def)

lemma run_net_rule:
  assumes "wf_nft_packet p" "nft_net n"
  shows "run_exprs p g (srcNetMatchExprs n @ protoPortExprs proto port @ verdict_exprs rs a v)
    = (if nft_src_in p n \<and> port_match p proto port then ExprVerdict v else ExprBreak)"
  using run_src_net [OF assms, of g "protoPortExprs proto port @ verdict_exprs rs a v"]
  by (auto simp: run_port_rule [OF assms(1)])

lemma nft_src_family:
  assumes "wf_nft_packet p" "nft_net n" "nft_src_in p n"
  shows "limit_family n = (if np_nfproto p = NFPROTO_IPV4 then ''v4'' else ''v6'')"
    and "\<exists>off len d. saddrPayload n = ExPayload 1 NetworkHeader off len \<and> load_payload p NetworkHeader off len = Some d"
proof -
  have "length (net_IP n) = (if np_nfproto p = NFPROTO_IPV4 then 4 else 16)"
    using assms np_src_load [OF assms(1)] by (auto simp: nft_src_in_def wf_nft_packet_def NFPROTO_IPV4_def NFPROTO_IPV6_def)
  then have t: "To4 (net_IP n) \<noteq> None \<longleftrightarrow> np_nfproto p = NFPROTO_IPV4"
    using assms(2) by (auto simp: nft_net_def split: if_splits)
  then show "limit_family n = (if np_nfproto p = NFPROTO_IPV4 then ''v4'' else ''v6'')" by (simp add: limit_family_def)
  show "\<exists>off len d. saddrPayload n = ExPayload 1 NetworkHeader off len \<and> load_payload p NetworkHeader off len = Some d"
    using t assms(1) np_src_load [OF assms(1)] by (auto simp: saddrPayload_def wf_nft_packet_def)
qed

lemma run_limit_rule:
  assumes "wf_nft_packet p" "nft_net n"
  shows "run_exprs p g (srcNetMatchExprs n @ protoPortExprs proto port @ [saddrPayload n, ExDynset 1 s rate burst, ExCounter, ExVerdict v])
    = (if nft_src_in p n \<and> port_match p proto port \<and> np_under p s then ExprVerdict v else ExprBreak)"
proof -
  let ?es = "[saddrPayload n, ExDynset 1 s rate burst, ExCounter, ExVerdict v]"
  obtain r where r: "run_exprs p g (srcNetMatchExprs n @ protoPortExprs proto port @ ?es)
      = (if nft_src_in p n then run_exprs p (g(1 := r)) (protoPortExprs proto port @ ?es) else ExprBreak)"
    using run_src_net [OF assms, of g "protoPortExprs proto port @ ?es"] by blast
  have "run_exprs p g' ?es = (if np_under p s then ExprVerdict v else ExprBreak)" if m: "nft_src_in p n" for g'
  proof -
    obtain off len d where "saddrPayload n = ExPayload 1 NetworkHeader off len" "load_payload p NetworkHeader off len = Some d"
      using nft_src_family(2) [OF assms m] by blast
    then show ?thesis by simp
  qed
  then show ?thesis unfolding r by (simp add: run_proto_port [OF assms(1)] port_match_def)
qed

section \<open>The verdict of a rule set\<close>

definition nft_match_verdict :: "nft_packet \<Rightarrow> string \<Rightarrow> FirewallRuleSet \<Rightarrow> IPNet list \<Rightarrow> outcome option" where
  "nft_match_verdict p cid rs auto =
     (let al = effective_allowlist rs auto;
          limit = perSourceLimitSetName cid (rs_Name rs) (if np_nfproto p = NFPROTO_IPV4 then ''v4'' else ''v6'') in
      if \<exists>n \<in> set (rs_Blocklist rs). net_IP n \<noteq> [] \<and> nft_src_in p n then Some Drop
      else if \<exists>n \<in> set al. nft_src_in p n then
        (if rs_RateLimit rs \<noteq> None \<and> \<not> np_under p limit then Some Drop else Some Accept)
      else if al \<noteq> [] then Some Drop else None)"

definition nft_set_verdict :: "nft_packet \<Rightarrow> string \<Rightarrow> FirewallRuleSet \<Rightarrow> IPNet list \<Rightarrow> outcome option" where
  "nft_set_verdict p cid rs auto =
     (if np_l4proto p = proto_num (rs_proto rs) \<and> np_dport p \<in> set (rs_Ports rs) then nft_match_verdict p cid rs auto else None)"

fun nft_verdict :: "nft_packet \<Rightarrow> string \<Rightarrow> FirewallRuleSet list \<Rightarrow> IPNet list \<Rightarrow> outcome \<Rightarrow> outcome" where
  "nft_verdict p cid [] auto dflt = dflt"
| "nft_verdict p cid (rs # rss) auto dflt =
     (case nft_set_verdict p cid rs auto of Some v \<Rightarrow> v | None \<Rightarrow> nft_verdict p cid rss auto dflt)"

fun call_rules :: "nft_call list \<Rightarrow> nft_expr list list" where
  "call_rules [] = []"
| "call_rules (CallRule es # cs) = es # call_rules cs"
| "call_rules (CallSet s # cs) = call_rules cs"

lemma call_rules_append [simp]: "call_rules (xs @ ys) = call_rules xs @ call_rules ys"
  by (induction xs rule: call_rules.induct) auto

lemma run_nft_append:
  "run_nft p u (xs @ ys) = (case run_nft p u xs of None \<Rightarrow> run_nft p u ys | Some v \<Rightarrow> Some v)"
  by (induction xs) (simp_all split: expr_result.split verdict_kind.split option.split outcome.split)

lemma run_nft_step:
  assumes "run_exprs p (\<lambda>_. []) es = (if m then ExprVerdict v else ExprBreak)"
  shows "v = VerdictAccept \<Longrightarrow> run_nft p u (es # rs) = (if m then Some Accept else run_nft p u rs)"
    and "v = VerdictDrop \<Longrightarrow> run_nft p u (es # rs) = (if m then Some Drop else run_nft p u rs)"
    and "v = VerdictReturn \<Longrightarrow> run_nft p u (es # rs) = (if m then Some Return else run_nft p u rs)"
  using assms by (cases m; simp)+

lemma run_nft_blocks:
  assumes "wf_nft_packet p" "\<forall>n \<in> set bls. nft_net n"
  shows "run_nft p u (call_rules (map (\<lambda>bl. CallRule (srcNetMatchExprs bl @ protoPortExprs proto port @ verdict_exprs rs a VerdictDrop)) bls))
    = (if port_match p proto port \<and> (\<exists>n \<in> set bls. nft_src_in p n) then Some Drop else None)"
  using assms(2)
proof (induction bls)
  case (Cons n bls)
  have n: "nft_net n" "\<forall>n \<in> set bls. nft_net n" using Cons.prems by auto
  have "run_nft p u (call_rules (map (\<lambda>bl. CallRule (srcNetMatchExprs bl @ protoPortExprs proto port @ verdict_exprs rs a VerdictDrop)) (n # bls)))
    = (if nft_src_in p n \<and> port_match p proto port then Some Drop
       else run_nft p u (call_rules (map (\<lambda>bl. CallRule (srcNetMatchExprs bl @ protoPortExprs proto port @ verdict_exprs rs a VerdictDrop)) bls)))"
    unfolding list.map call_rules.simps by (rule run_nft_step(2) [OF run_net_rule [OF assms(1) n(1)]]) (rule refl)
  also have "\<dots> = (if port_match p proto port \<and> (\<exists>m \<in> set (n # bls). nft_src_in p m) then Some Drop else None)"
    unfolding Cons.IH [OF n(2)] by (cases "port_match p proto port"; cases "nft_src_in p n") simp_all
  finally show ?case .
qed simp

lemma run_nft_allow:
  assumes "wf_nft_packet p" "nft_net n"
  shows "run_nft p u (call_rules (nft_allow_calls cid rs proto port n))
    = (if port_match p proto port \<and> nft_src_in p n then
         (if rs_RateLimit rs \<noteq> None \<and> \<not> np_under p (perSourceLimitSetName cid (rs_Name rs) (limit_family n)) then Some Drop else Some Accept)
       else None)"
  by (cases "rs_RateLimit rs") (simp_all add: nft_allow_calls_def addPerSourceLimitRules_def Let_def
      run_net_rule [OF assms] run_limit_rule [OF assms] del: One_nat_def)

lemma run_nft_allows:
  assumes "wf_nft_packet p" "\<forall>n \<in> set al. nft_net n"
  shows "run_nft p u (call_rules (concat (map (nft_allow_calls cid rs proto port) al)))
    = (if port_match p proto port \<and> (\<exists>n \<in> set al. nft_src_in p n) then
         (if rs_RateLimit rs \<noteq> None
             \<and> \<not> np_under p (perSourceLimitSetName cid (rs_Name rs) (if np_nfproto p = NFPROTO_IPV4 then ''v4'' else ''v6''))
          then Some Drop else Some Accept)
       else None)"
  using assms(2)
proof (induction al)
  case (Cons n al)
  then show ?case
    using nft_src_family(1) [OF assms(1), of n]
    by (auto simp: run_nft_append run_nft_allow [OF assms(1)] split: if_splits)
qed simp

lemma run_nft_port:
  assumes "wf_nft_packet p" "\<forall>n \<in> set (rs_Blocklist rs) \<union> set (effective_allowlist rs auto). net_IP n \<noteq> [] \<longrightarrow> nft_net n"
    and "\<forall>n \<in> set (effective_allowlist rs auto). nft_net n"
  shows "run_nft p u (call_rules (nft_port_calls cid rs auto port))
    = (if port_match p (rs_proto rs) port then nft_match_verdict p cid rs auto else None)"
proof -
  have b: "\<forall>n \<in> set (filter (\<lambda>bl. net_IP bl \<noteq> []) (rs_Blocklist rs)). nft_net n" using assms(2) by auto
  show ?thesis
    by (auto simp: nft_port_calls_def nft_block_calls_def Let_def run_nft_append run_nft_blocks [OF assms(1) b]
        run_nft_allows [OF assms(1,3)] run_port_rule [OF assms(1)] nft_match_verdict_def)
qed

lemma run_nft_ports:
  assumes "wf_nft_packet p" "\<forall>n \<in> set (rs_Blocklist rs) \<union> set (effective_allowlist rs auto). net_IP n \<noteq> [] \<longrightarrow> nft_net n"
    and "\<forall>n \<in> set (effective_allowlist rs auto). nft_net n"
  shows "run_nft p u (call_rules (concat (map (nft_port_calls cid rs auto) ports)))
    = (if np_l4proto p = proto_num (rs_proto rs) \<and> np_dport p \<in> set ports then nft_match_verdict p cid rs auto else None)"
proof (induction ports)
  case (Cons port ports)
  then show ?case
    by (simp add: run_nft_append run_nft_port [OF assms] port_match_def split: option.split)
qed simp

lemma nft_match_not_return: "nft_match_verdict p cid rs auto \<noteq> Some Return"
  by (simp add: nft_match_verdict_def Let_def)

lemma run_nft_ruleset:
  assumes "wf_nft_packet p" "\<forall>n \<in> set (rs_Blocklist rs) \<union> set (effective_allowlist rs auto). net_IP n \<noteq> [] \<longrightarrow> nft_net n"
    and "\<forall>n \<in> set (effective_allowlist rs auto). nft_net n"
  shows "run_nft p u (call_rules (nft_ruleset_calls cid rs auto))
    = Some (case nft_set_verdict p cid rs auto of Some v \<Rightarrow> v | None \<Rightarrow> Return)"
  by (simp add: nft_ruleset_calls_def run_nft_append run_nft_ports [OF assms] nft_set_verdict_def split: option.split)

end
