(* ===== verification/NFTables_Apply.thy ===== *)
theory NFTables_Apply
  imports NFTables_Verdict
begin

unbundle bit_operations_syntax

text \<open>
  What the operations of the nftables backend leave in the kernel, and that the rules they leave give
  every packet the intended verdict, the same as the iptables backend's.
\<close>

section \<open>What removal leaves\<close>

definition owned :: "string \<Rightarrow> string \<Rightarrow> bool" where
  "owned main c \<longleftrightarrow> c = main \<or> strings_HasPrefix c (main @ ''-'')"

fun removes_only :: "string \<Rightarrow> nft_op \<Rightarrow> bool" where
  "removes_only main (OpDelRule c h) = (c = fwdChain)"
| "removes_only main (OpDelChain c) = owned main c"
| "removes_only main (OpDelSet s) = True"
| "removes_only main _ = False"

lemma nft_exec_remove:
  assumes "nft_exec op K = Some K'" "removes_only main op"
  shows "map_of (nk_chains K) c = None \<Longrightarrow> map_of (nk_chains K') c = None"
    and "op = OpDelChain c \<Longrightarrow> map_of (nk_chains K') c = None"
    and "\<not> owned main c \<Longrightarrow> c \<noteq> fwdChain \<Longrightarrow> map_of (nk_chains K') c = map_of (nk_chains K) c"
  using assms by (cases op; auto simp: edit_rules_def update_conv delete_conv split: if_splits option.splits)+

lemma nft_exec_all_remove:
  assumes "nft_exec_all ops K = Some K'" "list_all (removes_only main) ops"
  shows "map_of (nk_chains K) c = None \<or> OpDelChain c \<in> set ops \<Longrightarrow> map_of (nk_chains K') c = None"
    and "\<not> owned main c \<Longrightarrow> c \<noteq> fwdChain \<Longrightarrow> map_of (nk_chains K') c = map_of (nk_chains K) c"
proof -
  have "(map_of (nk_chains K) c = None \<or> OpDelChain c \<in> set ops \<longrightarrow> map_of (nk_chains K') c = None)
    \<and> (\<not> owned main c \<and> c \<noteq> fwdChain \<longrightarrow> map_of (nk_chains K') c = map_of (nk_chains K) c)"
    using assms
  proof (induction ops arbitrary: K)
    case (Cons op ops)
    obtain K1 where k: "nft_exec op K = Some K1" "nft_exec_all ops K1 = Some K'"
      using Cons.prems(1) by (auto split: option.splits)
    have op: "removes_only main op" "list_all (removes_only main) ops" using Cons.prems(2) by auto
    show ?case using Cons.IH [OF k(2) op(2)] nft_exec_remove [OF k(1) op(1), of c] by auto
  qed simp
  then show "map_of (nk_chains K) c = None \<or> OpDelChain c \<in> set ops \<Longrightarrow> map_of (nk_chains K') c = None"
    "\<not> owned main c \<Longrightarrow> c \<noteq> fwdChain \<Longrightarrow> map_of (nk_chains K') c = map_of (nk_chains K) c" by auto
qed

text \<open>The rules of the forward chain after removal.\<close>

definition deleted_handles :: "nft_op list \<Rightarrow> nat set" where
  "deleted_handles ops = {h. OpDelRule fwdChain h \<in> set ops}"

lemma map_option_apsnd_True [simp]: "map_option (apsnd (filter (\<lambda>r. True))) x = x"
  by (cases x) (auto simp: apsnd_def)

lemma nft_exec_remove_fwd:
  assumes "nft_exec op K = Some K'" "removes_only main op" "\<not> owned main fwdChain"
  shows "map_of (nk_chains K') fwdChain
    = map_option (apsnd (filter (\<lambda>r. nr_handle r \<notin> deleted_handles [op]))) (map_of (nk_chains K) fwdChain)"
  using assms by (cases op) (auto simp: deleted_handles_def edit_rules_def update_conv delete_conv split: if_splits option.splits)

lemma nft_exec_all_remove_fwd:
  assumes "nft_exec_all ops K = Some K'" "list_all (removes_only main) ops" "\<not> owned main fwdChain"
  shows "map_of (nk_chains K') fwdChain
    = map_option (apsnd (filter (\<lambda>r. nr_handle r \<notin> deleted_handles ops))) (map_of (nk_chains K) fwdChain)"
  using assms(1,2)
proof (induction ops arbitrary: K)
  case Nil
  then show ?case by (cases "map_of (nk_chains K) fwdChain") (auto simp: deleted_handles_def)
next
  case (Cons op ops)
  obtain K1 where k: "nft_exec op K = Some K1" "nft_exec_all ops K1 = Some K'"
    using Cons.prems(1) by (auto split: option.splits)
  have op: "removes_only main op" "list_all (removes_only main) ops" using Cons.prems(2) by auto
  show ?case unfolding Cons.IH [OF k(2) op(2)] nft_exec_remove_fwd [OF k(1) op(1) assms(3)]
    by (cases "map_of (nk_chains K) fwdChain") (auto simp: deleted_handles_def intro!: filter_cong)
qed

lemma filter_handles:
  assumes "distinct (map nr_handle rs)" "H = nr_handle ` {r \<in> set rs. P r}"
  shows "filter (\<lambda>r. nr_handle r \<notin> H) rs = filter (\<lambda>r. \<not> P r) rs"
  using assms by (intro filter_cong) (auto simp: distinct_map inj_on_def)

context nft_api
begin

lemma flush_None:
  assumes "nft_flush w nf k = (None, k')"
  shows "queue k' = [] \<and> nft_exec_all (queue k) (kern k) = Some (kern k')"
  using assms Flush [of k] by (auto simp: nft_flush_def must_None split: prod.splits)

lemma fold_DelChain:
  "kern (fold (nf_DelChain nf) cs k) = kern k \<and> queue (fold (nf_DelChain nf) cs k) = queue k @ map OpDelChain cs"
  by (induction cs arbitrary: k) (simp_all add: DelChain)

lemma fold_DelSet:
  "kern (fold (nf_DelSet nf) ss k) = kern k \<and> queue (fold (nf_DelSet nf) ss k) = queue k @ map OpDelSet ss"
  by (induction ss arbitrary: k) (simp_all add: DelSet)

lemma fold_AddRule:
  "kern (fold (\<lambda>x. nf_AddRule nf c (f x)) xs k) = kern k
   \<and> queue (fold (\<lambda>x. nf_AddRule nf c (f x)) xs k) = queue k @ map (\<lambda>x. OpAddRule c (f x)) xs"
  by (induction xs arbitrary: k) (simp_all add: AddRule)

end

context nft_api
begin

lemma del_rules_handles:
  "\<exists>hs. kern (del_rules nf c rs k) = kern k \<and> queue (del_rules nf c rs k) = queue k @ map (OpDelRule c) hs
     \<and> set hs \<subseteq> nr_handle ` set rs"
proof (induction rs arbitrary: k)
  case (Cons r rs)
  obtain e k1 where d: "nf_DelRule nf c (nr_handle r) k = (e, k1)" by fastforce
  obtain hs where hs: "kern (del_rules nf c rs k1) = kern k1" "queue (del_rules nf c rs k1) = queue k1 @ map (OpDelRule c) hs"
    "set hs \<subseteq> nr_handle ` set rs" using Cons by blast
  have "del_rules nf c (r # rs) k = del_rules nf c rs k1" by (simp add: del_rules_def d)
  then show ?case using hs DelRule [OF d] by (intro exI [of _ "(if e = None then [nr_handle r] else []) @ hs"]) auto
qed (simp add: del_rules_def)

text \<open>
  The transaction of a removal. Errors of the reads are swallowed: rules, chains or sets that could
  not be read are not deleted.
\<close>

lemma RemoveContainerChains_transaction:
  assumes "nft_RemoveContainerChains b nf cid k = (None, k')" "queue k = []"
  obtains hs dc ds k1 where "queue k' = []" "kern k1 = kern k"
    and "nft_exec_all (map (OpDelRule fwdChain) hs @ map OpDelChain dc @ map OpDelSet ds) (kern k) = Some (kern k')"
    and "k1 = (case nf_GetRules nf fwdChain k of Inl _ \<Rightarrow> k
      | Inr rules \<Rightarrow> del_rules nf fwdChain (filter (jumps_to (\<lambda>c. c = nftContainerChain b cid)) rules) k)"
    and "queue k1 = map (OpDelRule fwdChain) hs"
    and "\<not> isl (nf_ListChains nf k1) \<longrightarrow> set dc = {c \<in> fst ` set (nk_chains (kern k)). owned (nftContainerChain b cid) c}"
    and "isl (nf_ListChains nf k1) \<longrightarrow> dc = []" and "list_all (owned (nftContainerChain b cid)) dc"
proof -
  let ?main = "nftContainerChain b cid"
  define k1 where "k1 = (case nf_GetRules nf fwdChain k of Inl _ \<Rightarrow> k
      | Inr rules \<Rightarrow> del_rules nf fwdChain (filter (jumps_to (\<lambda>c. c = ?main)) rules) k)"
  obtain hs where k1: "kern k1 = kern k" "queue k1 = map (OpDelRule fwdChain) hs"
    using del_rules_handles [of fwdChain _ k] assms(2)
    by (cases "nf_GetRules nf fwdChain k") (force simp: k1_def)+
  define dc where "dc = (case nf_ListChains nf k1 of Inl _ \<Rightarrow> []
      | Inr cs \<Rightarrow> map nc_name (filter (\<lambda>c. own_chain c \<and> (nc_name c = ?main \<or> strings_HasPrefix (nc_name c) (?main @ ''-''))) cs))"
  define k2 where "k2 = fold (nf_DelChain nf) dc k1"
  have k2: "kern k2 = kern k" "queue k2 = queue k1 @ map OpDelChain dc"
    using fold_DelChain [of dc k1] k1(1) by (auto simp: k2_def)
  have k2': "(case nf_ListChains nf k1 of Inl _ \<Rightarrow> k1 | Inr chs \<Rightarrow> fold (nf_DelChain nf)
      (map nc_name (filter (\<lambda>c. own_chain c \<and> (nc_name c = ?main \<or> strings_HasPrefix (nc_name c) (?main @ ''-''))) chs)) k1) = k2"
    by (simp add: k2_def dc_def split: sum.split)
  define ds where "ds = (case nf_GetSets nf k2 of Inl _ \<Rightarrow> []
      | Inr sets \<Rightarrow> filter (\<lambda>s. strings_HasPrefix s (''rl-'' @ truncate_str ContainerIDShortLen cid @ ''-'')) sets)"
  define k3 where "k3 = fold (nf_DelSet nf) ds k2"
  have k3: "kern k3 = kern k" "queue k3 = queue k2 @ map OpDelSet ds"
    using fold_DelSet [of ds k2] k2(1) by (auto simp: k3_def)
  have k3': "(case nf_GetSets nf k2 of Inl _ \<Rightarrow> k2 | Inr sets \<Rightarrow> fold (nf_DelSet nf)
      (filter (\<lambda>s. strings_HasPrefix s (''rl-'' @ truncate_str ContainerIDShortLen cid @ ''-'')) sets) k2) = k3"
    by (simp add: k3_def ds_def split: sum.split)
  have "nft_RemoveContainerChains b nf cid k = nft_flush ''flush removal'' nf k3"
    unfolding nft_RemoveContainerChains_def Let_def k1_def [symmetric] k2' k3' ..
  then have "nft_flush ''flush removal'' nf k3 = (None, k')" using assms(1) by simp
  from flush_None [OF this] have f: "queue k' = []"
    "nft_exec_all (map (OpDelRule fwdChain) hs @ map OpDelChain dc @ map OpDelSet ds) (kern k) = Some (kern k')"
    using k1 k2 k3 by auto
  have ok: "\<not> isl (nf_ListChains nf k1) \<longrightarrow> set dc = {c \<in> fst ` set (nk_chains (kern k)). owned ?main c}"
  proof
    assume "\<not> isl (nf_ListChains nf k1)"
    then obtain cs where cs: "nf_ListChains nf k1 = Inr cs" by (cases "nf_ListChains nf k1") auto
    show "set dc = {c \<in> fst ` set (nk_chains (kern k)). owned ?main c}"
      unfolding ListChains [OF cs, unfolded k1(1), symmetric] using cs by (auto simp: dc_def owned_def)
  qed
  have no: "isl (nf_ListChains nf k1) \<longrightarrow> dc = []" "list_all (owned ?main) dc"
    by (auto simp: dc_def owned_def list_all_iff split: sum.split)
  show thesis by (rule that [OF f(1) k1(1) f(2) k1_def k1(2) ok no])
qed

text \<open>
  A successful removal with a working chain listing leaves no chain of the container; when the
  listing fails, its chains keep their rules. Chains of others are never touched.
\<close>

lemma RemoveContainerChains_owned:
  assumes "nft_RemoveContainerChains b nf cid k = (None, k')" "queue k = []"
  shows "queue k' = []"
    and "\<not> owned (nftContainerChain b cid) c \<Longrightarrow> c \<noteq> fwdChain \<Longrightarrow> map_of (nk_chains (kern k')) c = map_of (nk_chains (kern k)) c"
    and "map_of (nk_chains (kern k)) c = None \<or> owned (nftContainerChain b cid) c \<and> (\<forall>k1. kern k1 = kern k \<longrightarrow> \<not> isl (nf_ListChains nf k1))
      \<Longrightarrow> map_of (nk_chains (kern k')) c = None"
    and "\<forall>k1. kern k1 = kern k \<longrightarrow> isl (nf_ListChains nf k1) \<Longrightarrow> c \<noteq> fwdChain \<Longrightarrow>
      map_of (nk_chains (kern k')) c = map_of (nk_chains (kern k)) c"
proof -
  let ?main = "nftContainerChain b cid"
  obtain hs dc ds k1 where t: "queue k' = []" "kern k1 = kern k"
    "nft_exec_all (map (OpDelRule fwdChain) hs @ map OpDelChain dc @ map OpDelSet ds) (kern k) = Some (kern k')"
    "\<not> isl (nf_ListChains nf k1) \<longrightarrow> set dc = {c \<in> fst ` set (nk_chains (kern k)). owned ?main c}"
    "isl (nf_ListChains nf k1) \<longrightarrow> dc = []" "list_all (owned ?main) dc"
    by (rule RemoveContainerChains_transaction [OF assms])
  let ?ops = "map (OpDelRule fwdChain) hs @ map OpDelChain dc @ map OpDelSet ds"
  have rm: "list_all (removes_only ?main) ?ops" using t(6) by (auto simp: list_all_iff)
  show "queue k' = []" by (rule t(1))
  show "map_of (nk_chains (kern k')) c = map_of (nk_chains (kern k)) c" if "\<not> owned ?main c" "c \<noteq> fwdChain"
    using nft_exec_all_remove(2) [OF t(3) rm that] .
  show "map_of (nk_chains (kern k')) c = None"
    if "map_of (nk_chains (kern k)) c = None \<or> owned ?main c \<and> (\<forall>k1. kern k1 = kern k \<longrightarrow> \<not> isl (nf_ListChains nf k1))"
  proof (rule nft_exec_all_remove(1) [OF t(3) rm])
    show "map_of (nk_chains (kern k)) c = None \<or> OpDelChain c \<in> set ?ops"
    proof (cases "map_of (nk_chains (kern k)) c = None")
      case False
      then have "\<not> isl (nf_ListChains nf k1)" "owned ?main c" using that t(2) by auto
      then show ?thesis using t(4) False by (auto simp: map_of_eq_None_iff)
    qed simp
  qed
  show "map_of (nk_chains (kern k')) c = map_of (nk_chains (kern k)) c"
    if l: "\<forall>k1. kern k1 = kern k \<longrightarrow> isl (nf_ListChains nf k1)" and c: "c \<noteq> fwdChain"
  proof -
    have "dc = []" using l t(2,5) by blast
    then have "list_all (removes_only (c @ ''x'')) ?ops" by (auto simp: list_all_iff)
    moreover have "\<not> owned (c @ ''x'') c" by (auto simp: owned_def strings_HasPrefix_def dest: prefix_length_le)
    ultimately show ?thesis using nft_exec_all_remove(2) [OF t(3) _ _ c] by blast
  qed
qed

end

text \<open>A connection whose reads of existing objects and whose encoding of rule deletions do not fail.\<close>

locale nft_reliable = nft_api +
  assumes ListChains_ok: "\<exists>cs. nf_ListChains nf k = Inr cs"
    and GetRules_ok: "map_of (nk_chains (kern k)) c = Some (pol, rs) \<Longrightarrow> nf_GetRules nf c k = Inr rs"
    and DelRule_ok: "fst (nf_DelRule nf c h k) = None"
begin

lemma del_rules_queue:
  "kern (del_rules nf c rs k) = kern k \<and> queue (del_rules nf c rs k) = queue k @ map (OpDelRule c \<circ> nr_handle) rs"
proof -
  have step: "kern (snd (nf_DelRule nf c h k)) = kern k \<and> queue (snd (nf_DelRule nf c h k)) = queue k @ [OpDelRule c h]" for h k
    using DelRule [of c h k] DelRule_ok [of c h k] by (cases "nf_DelRule nf c h k") (metis fst_conv snd_conv)
  show ?thesis unfolding del_rules_def by (induction rs arbitrary: k) (simp_all add: step)
qed

lemma RemoveContainerChains_chains:
  assumes "nft_RemoveContainerChains b nf cid k = (None, k')" "queue k = []"
  shows "owned (nftContainerChain b cid) c \<Longrightarrow> map_of (nk_chains (kern k')) c = None"
    and "\<not> owned (nftContainerChain b cid) c \<Longrightarrow> c \<noteq> fwdChain \<Longrightarrow>
      map_of (nk_chains (kern k')) c = map_of (nk_chains (kern k)) c"
    and "\<not> owned (nftContainerChain b cid) fwdChain \<Longrightarrow> map_of (nk_chains (kern k)) fwdChain = Some (pol, rs) \<Longrightarrow>
      distinct (map nr_handle rs) \<Longrightarrow>
      map_of (nk_chains (kern k')) fwdChain = Some (pol, filter (\<lambda>r. \<not> jumps_to (\<lambda>c. c = nftContainerChain b cid) r) rs)"
proof -
  let ?main = "nftContainerChain b cid"
  have l: "\<forall>k1. kern k1 = kern k \<longrightarrow> \<not> isl (nf_ListChains nf k1)" using ListChains_ok by (metis sum.disc(2))
  show "map_of (nk_chains (kern k')) c = None" if "owned ?main c"
    using RemoveContainerChains_owned(3) [OF assms, of c] l that by blast
  show "map_of (nk_chains (kern k')) c = map_of (nk_chains (kern k)) c" if "\<not> owned ?main c" "c \<noteq> fwdChain"
    using RemoveContainerChains_owned(2) [OF assms that] .
  show "map_of (nk_chains (kern k')) fwdChain = Some (pol, filter (\<lambda>r. \<not> jumps_to (\<lambda>c. c = ?main) r) rs)"
    if f: "\<not> owned ?main fwdChain" "map_of (nk_chains (kern k)) fwdChain = Some (pol, rs)" "distinct (map nr_handle rs)"
  proof -
    obtain hs dc ds k1 where t:
      "nft_exec_all (map (OpDelRule fwdChain) hs @ map OpDelChain dc @ map OpDelSet ds) (kern k) = Some (kern k')"
      "k1 = (case nf_GetRules nf fwdChain k of Inl _ \<Rightarrow> k | Inr rules \<Rightarrow> del_rules nf fwdChain (filter (jumps_to (\<lambda>c. c = ?main)) rules) k)"
      "queue k1 = map (OpDelRule fwdChain) hs" "list_all (owned ?main) dc"
      by (rule RemoveContainerChains_transaction [OF assms])
    have "queue k1 = map (OpDelRule fwdChain \<circ> nr_handle) (filter (jumps_to (\<lambda>c. c = ?main)) rs)"
      using t(2) GetRules_ok [OF f(2)] del_rules_queue assms(2) by simp
    then have "map (OpDelRule fwdChain) hs = map (OpDelRule fwdChain) (map nr_handle (filter (jumps_to (\<lambda>c. c = ?main)) rs))"
      by (simp add: t(3))
    then have h: "hs = map nr_handle (filter (jumps_to (\<lambda>c. c = ?main)) rs)" by (rule map_injective) (simp add: inj_def)
    let ?ops = "map (OpDelRule fwdChain) hs @ map OpDelChain dc @ map OpDelSet ds"
    have rm: "list_all (removes_only ?main) ?ops" using t(4) by (auto simp: list_all_iff)
    have "deleted_handles ?ops = nr_handle ` {r \<in> set rs. jumps_to (\<lambda>c. c = ?main) r}"
      by (auto simp: deleted_handles_def h)
    then show ?thesis using nft_exec_all_remove_fwd [OF t(1) rm f(1)] f(2) filter_handles [OF f(3)] by simp
  qed
qed

end

interpretation mem_nft: nft_reliable mem_nft fst snd
  by unfold_locales (auto simp: mem_nft_def split: prod.splits option.splits)

section \<open>What an application leaves\<close>

fun call_op :: "string \<Rightarrow> nft_call \<Rightarrow> nft_op" where
  "call_op chn (CallRule es) = OpAddRule chn es"
| "call_op chn (CallSet s) = OpAddSet s"

definition set_ops :: "NFTablesBackend \<Rightarrow> string \<Rightarrow> string \<Rightarrow> IPNet list \<Rightarrow> FirewallRuleSet \<Rightarrow> nft_op list" where
  "set_ops b cid main auto rs =
     (let chn = nftRuleSetChain b cid (rs_Name rs) in
      OpAddChain chn None # map (call_op chn) (nft_ruleset_calls cid rs auto) @ [OpAddRule main [ExVerdict (VerdictJump chn)]])"

definition forward_jump :: "string \<Rightarrow> ip \<Rightarrow> nft_expr list" where
  "forward_jump main p = dstIPMatchExprs p @ [ExVerdict (VerdictJump main)]"

definition default_exprs :: "string \<Rightarrow> nft_expr list" where
  "default_exprs dp = [ExCounter, ExVerdict (nft_default_verdict dp)]"

definition apply_ops ::
  "NFTablesBackend \<Rightarrow> string \<Rightarrow> ip list \<Rightarrow> FirewallRuleSet list \<Rightarrow> string \<Rightarrow> IPNet list \<Rightarrow> nft_op list" where
  "apply_ops b cid ips rss dp auto =
     (let main = nftContainerChain b cid in
      OpAddChain main None # map (\<lambda>p. OpAddRule fwdChain (forward_jump main p)) ips
      @ concat (map (set_ops b cid main auto) rss) @ [OpAddRule main (default_exprs dp)])"

lemma adds_only_call [simp]: "adds_only (call_op chn c)"
  by (cases c) auto

lemma adds_only_apply: "list_all adds_only (apply_ops b cid ips rss dp auto)"
  by (auto simp: apply_ops_def set_ops_def Let_def list_all_iff)

lemma added_rules_calls:
  "added_rules c (map (call_op chn) cs) = (if c = chn then call_rules cs else [])"
  by (induction cs rule: call_rules.induct) auto

lemma added_rules_forward:
  "added_rules c (map (\<lambda>p. OpAddRule d (f p)) ips) = (if c = d then map f ips else [])"
  by (induction ips) auto

lemma added_rules_set:
  "added_rules c (set_ops b cid main auto rs)
   = (if c = nftRuleSetChain b cid (rs_Name rs) then call_rules (nft_ruleset_calls cid rs auto) else [])
     @ (if c = main then [[ExVerdict (VerdictJump (nftRuleSetChain b cid (rs_Name rs)))]] else [])"
  by (simp add: set_ops_def Let_def added_rules_calls)

lemma added_rules_sets_other:
  "c \<noteq> main \<Longrightarrow> c \<notin> (\<lambda>rs. nftRuleSetChain b cid (rs_Name rs)) ` set rss \<Longrightarrow>
   added_rules c (concat (map (set_ops b cid main auto) rss)) = []"
  by (induction rss) (auto simp: added_rules_set)

lemma added_rules_sets_main:
  "main \<notin> (\<lambda>rs. nftRuleSetChain b cid (rs_Name rs)) ` set rss \<Longrightarrow>
   added_rules main (concat (map (set_ops b cid main auto) rss))
   = map (\<lambda>rs. [ExVerdict (VerdictJump (nftRuleSetChain b cid (rs_Name rs)))]) rss"
  by (induction rss) (auto simp: added_rules_set)

lemma added_rules_sets_own:
  "main \<noteq> n \<Longrightarrow> added_rules n (concat (map (set_ops b cid main auto) rss))
   = concat (map (\<lambda>rs. call_rules (nft_ruleset_calls cid rs auto)) (filter (\<lambda>rs. nftRuleSetChain b cid (rs_Name rs) = n) rss))"
  by (induction rss) (auto simp: added_rules_set)

text \<open>
  Rule sets whose chain names collide share one chain; its rules are added to, and those of the
  first set end with a return, so the first of them is the one in force.
\<close>

definition nft_set_names :: "NFTablesBackend \<Rightarrow> string \<Rightarrow> FirewallRuleSet list \<Rightarrow> string list" where
  "nft_set_names b cid rss = map (\<lambda>rs. nftRuleSetChain b cid (rs_Name rs)) rss"

definition first_named :: "NFTablesBackend \<Rightarrow> string \<Rightarrow> FirewallRuleSet list \<Rightarrow> string \<Rightarrow> FirewallRuleSet" where
  "first_named b cid rss n = hd (filter (\<lambda>rs. nftRuleSetChain b cid (rs_Name rs) = n) rss)"

definition nft_enforced_sets :: "NFTablesBackend \<Rightarrow> string \<Rightarrow> FirewallRuleSet list \<Rightarrow> FirewallRuleSet list" where
  "nft_enforced_sets b cid rss = map (first_named b cid rss) (nft_set_names b cid rss)"

lemma first_named_split:
  assumes "n \<in> set (nft_set_names b cid rss)"
  obtains more where "filter (\<lambda>rs. nftRuleSetChain b cid (rs_Name rs) = n) rss = first_named b cid rss n # more"
    and "first_named b cid rss n \<in> set rss" "nftRuleSetChain b cid (rs_Name (first_named b cid rss n)) = n"
proof -
  let ?f = "filter (\<lambda>rs. nftRuleSetChain b cid (rs_Name rs) = n) rss"
  have "?f \<noteq> []" using assms by (auto simp: nft_set_names_def filter_empty_conv)
  then have f: "?f = first_named b cid rss n # tl ?f" by (simp add: first_named_def)
  then have "first_named b cid rss n \<in> set ?f" using list.set_intros(1) by metis
  then show thesis by (intro that [OF f]) simp_all
qed

lemma nft_set_names_enforced: "nft_set_names b cid (nft_enforced_sets b cid rss) = nft_set_names b cid rss"
proof -
  have "map (\<lambda>n. nftRuleSetChain b cid (rs_Name (first_named b cid rss n))) (nft_set_names b cid rss) = nft_set_names b cid rss"
    by (rule map_idI) (metis first_named_split)
  moreover have "nft_set_names b cid (map f ns) = map (\<lambda>n. nftRuleSetChain b cid (rs_Name (f n))) ns" for f ns
    by (simp add: nft_set_names_def)
  ultimately show ?thesis by (metis nft_enforced_sets_def)
qed

lemma set_nft_enforced_sets: "set (nft_enforced_sets b cid rss) \<subseteq> set rss"
  by (auto simp: nft_enforced_sets_def elim: first_named_split)

lemma nft_enforced_sets_distinct: "distinct (nft_set_names b cid rss) \<Longrightarrow> nft_enforced_sets b cid rss = rss"
proof (induction rss)
  case (Cons rs rss)
  let ?nm = "\<lambda>rs. nftRuleSetChain b cid (rs_Name rs)"
  have "map (first_named b cid (rs # rss)) (nft_set_names b cid rss) = map (first_named b cid rss) (nft_set_names b cid rss)"
    using Cons.prems by (intro map_cong) (auto simp: first_named_def nft_set_names_def)
  also have "\<dots> = rss" using Cons by (simp add: nft_enforced_sets_def nft_set_names_def)
  finally show ?case by (simp add: nft_enforced_sets_def nft_set_names_def first_named_def)
qed (simp add: nft_enforced_sets_def nft_set_names_def)

text \<open>The chains of the container after its transaction.\<close>

lemma apply_ops_chains:
  assumes "nft_exec_all (apply_ops b cid ips rss dp auto) K = Some K'"
    and "fwdChain \<noteq> nftContainerChain b cid" "fwdChain \<notin> set (nft_set_names b cid rss)"
      "nftContainerChain b cid \<notin> set (nft_set_names b cid rss)"
    and "\<forall>c. owned (nftContainerChain b cid) c \<longrightarrow> exprs_of K c = None"
    and "\<forall>n \<in> set (nft_set_names b cid rss). owned (nftContainerChain b cid) n"
  shows "exprs_of K' (nftContainerChain b cid)
      = Some (map (\<lambda>n. [ExVerdict (VerdictJump n)]) (nft_set_names b cid rss) @ [default_exprs dp])"
    and "n \<in> set (nft_set_names b cid rss) \<Longrightarrow> exprs_of K' n = Some (concat (map (\<lambda>rs. call_rules (nft_ruleset_calls cid rs auto))
      (filter (\<lambda>rs. nftRuleSetChain b cid (rs_Name rs) = n) rss)))"
proof -
  let ?main = "nftContainerChain b cid" and ?nm = "\<lambda>rs. nftRuleSetChain b cid (rs_Name rs)"
  let ?jumps = "map (\<lambda>p. OpAddRule fwdChain (forward_jump ?main p)) ips"
  let ?rest = "?jumps @ concat (map (set_ops b cid ?main auto) rss) @ [OpAddRule ?main (default_exprs dp)]"
  have ops: "apply_ops b cid ips rss dp auto = OpAddChain ?main None # ?rest" by (simp add: apply_ops_def Let_def)
  have adds: "list_all adds_only ?rest" using adds_only_apply [of b cid ips rss dp auto] by (simp add: ops)
  have "exprs_of K' ?main = Some (added_rules ?main ([] @ ?rest))"
    by (rule nft_exec_all_new [where h = None]) (use assms(1) adds assms(5) in \<open>auto simp: ops owned_def\<close>)
  then show "exprs_of K' ?main = Some (map (\<lambda>n. [ExVerdict (VerdictJump n)]) (nft_set_names b cid rss) @ [default_exprs dp])"
    using assms(2,4) by (auto simp: added_rules_sets_main added_rules_forward nft_set_names_def comp_def)
  show "exprs_of K' n = Some (concat (map (\<lambda>rs. call_rules (nft_ruleset_calls cid rs auto)) (filter (\<lambda>rs. ?nm rs = n) rss)))"
    if n: "n \<in> set (nft_set_names b cid rss)"
  proof -
    have nm: "n \<noteq> fwdChain" "?main \<noteq> n" using assms(3,4) n by auto
    have "OpAddChain n None \<in> set (apply_ops b cid ips rss dp auto)"
      using n by (auto simp: ops set_ops_def Let_def nft_set_names_def)
    then obtain xs ys where xy: "apply_ops b cid ips rss dp auto = xs @ OpAddChain n None # ys" by (meson split_list)
    have "exprs_of K' n = Some (added_rules n (xs @ ys))"
      by (rule nft_exec_all_new [where h = None])
        (use assms(1) adds_only_apply [of b cid ips rss dp auto] assms(5,6) n in \<open>auto simp: xy\<close>)
    also have "added_rules n (xs @ ys) = added_rules n (apply_ops b cid ips rss dp auto)" by (simp add: xy)
    finally show ?thesis using added_rules_sets_own [OF nm(2)] nm by (simp add: ops added_rules_forward)
  qed
qed

context nft_api
begin

lemma nft_run_calls_queue:
  "nft_run_calls nf chn cs k = (None, k') \<Longrightarrow> kern k' = kern k \<and> queue k' = queue k @ map (call_op chn) cs"
proof (induction cs arbitrary: k)
  case (Cons c cs)
  show ?case
  proof (cases c)
    case (CallRule es)
    then show ?thesis using Cons by (auto simp: AddRule)
  next
    case (CallSet s)
    then obtain k1 where k1: "nf_AddSet nf s k = (None, k1)" "nft_run_calls nf chn cs k1 = (None, k')"
      using Cons.prems by (auto simp: must_None)
    show ?thesis using AddSet [OF k1(1)] Cons.IH [OF k1(2)] CallSet by simp
  qed
qed simp

lemma nft_apply_sets_queue:
  "nft_apply_sets b nf cid main auto rss k = (None, k') \<Longrightarrow>
   kern k' = kern k \<and> queue k' = queue k @ concat (map (set_ops b cid main auto) rss)"
proof (induction rss arbitrary: k)
  case (Cons rs rss)
  let ?chn = "nftRuleSetChain b cid (rs_Name rs)"
  obtain k2 where k2: "nft_run_calls nf ?chn (nft_ruleset_calls cid rs auto) (nf_AddChain nf ?chn None k) = (None, k2)"
    "nft_apply_sets b nf cid main auto rss (nf_AddRule nf main [ExVerdict (VerdictJump ?chn)] k2) = (None, k')"
    using Cons.prems by (auto simp: Let_def split: prod.splits option.splits)
  show ?case using nft_run_calls_queue [OF k2(1)] Cons.IH [OF k2(2)] by (simp add: AddChain AddRule set_ops_def Let_def)
qed simp

lemma ApplyContainerRules_transaction:
  assumes "nft_ApplyContainerRules b nf cid ips rss dp auto k = (None, k')"
  obtains k1 where "nft_RemoveContainerChains b nf cid k = (None, k1)"
    and "queue k1 = [] \<longrightarrow> queue k' = [] \<and> nft_exec_all (apply_ops b cid ips rss dp auto) (kern k1) = Some (kern k')"
proof -
  let ?main = "nftContainerChain b cid"
  obtain k1 k4 where k: "nft_RemoveContainerChains b nf cid k = (None, k1)"
    "nft_apply_sets b nf cid ?main auto rss
       (fold (\<lambda>p. nf_AddRule nf fwdChain (dstIPMatchExprs p @ [ExVerdict (VerdictJump ?main)])) ips (nf_AddChain nf ?main None k1)) = (None, k4)"
    "nft_flush ''flush'' nf (nf_AddRule nf ?main (default_exprs dp) k4) = (None, k')"
    using assms by (auto simp: nft_ApplyContainerRules_def default_exprs_def Let_def split: prod.splits option.splits)
  have "kern k4 = kern k1 \<and> queue k4 = queue k1 @ OpAddChain ?main None # map (\<lambda>p. OpAddRule fwdChain (forward_jump ?main p)) ips
      @ concat (map (set_ops b cid ?main auto) rss)"
    using nft_apply_sets_queue [OF k(2)] by (simp add: AddChain fold_AddRule forward_jump_def)
  then have "queue k1 = [] \<longrightarrow> queue k' = [] \<and> nft_exec_all (apply_ops b cid ips rss dp auto) (kern k1) = Some (kern k')"
    using flush_None [OF k(3)] by (auto simp: AddRule apply_ops_def Let_def simp del: nft_exec_all.simps)
  with k(1) show thesis by (rule that)
qed

end

section \<open>Chain names\<close>

lemma nftContainerChain_eq:
  assumes "length (nb_chainName b) \<le> 17"
  shows "nftContainerChain b cid = nft_prefix b @ truncate_str ContainerIDShortLen cid"
proof -
  have "length (nft_prefix b @ truncate_str ContainerIDShortLen cid) \<le> 30"
    using assms length_truncate [of ContainerIDShortLen cid]
    by (simp add: nft_prefix_def ContainerIDShortLen_def strings_ToLower_def)
  then show ?thesis unfolding nftContainerChain_def by (rule truncate_id)
qed

lemma owned_ruleset:
  assumes "length (nb_chainName b) \<le> 17"
  shows "owned (nftContainerChain b cid) (nftRuleSetChain b cid n)"
  by (auto simp: owned_def nftContainerChain_eq [OF assms] nftRuleSetChain_def Let_def strings_HasPrefix_def)

section \<open>The verdict of a container's chain\<close>

fun verdict_outcome :: "verdict_kind \<Rightarrow> outcome" where
  "verdict_outcome VerdictAccept = Accept"
| "verdict_outcome VerdictDrop = Drop"
| "verdict_outcome _ = Return"

definition nets_ok :: "IPNet list \<Rightarrow> FirewallRuleSet \<Rightarrow> bool" where
  "nets_ok auto rs \<longleftrightarrow> (\<forall>n \<in> set (rs_Blocklist rs) \<union> set (effective_allowlist rs auto). nft_net n)"

lemma run_nft_main:
  assumes "wf_nft_packet p" "\<forall>rs \<in> set rss. nets_ok auto rs \<and> (\<exists>more. t (nm rs) = Some (call_rules (nft_ruleset_calls cid rs auto) @ more))"
  shows "run_nft p (run_nft_chain (Suc d) p t) (map (\<lambda>rs. [ExVerdict (VerdictJump (nm rs))]) rss @ [default_exprs dp])
    = Some (nft_verdict p cid rss auto (verdict_outcome (nft_default_verdict dp)))"
  using assms(2)
proof (induction rss)
  case Nil
  then show ?case by (simp add: default_exprs_def nft_default_verdict_def Let_def)
next
  case (Cons rs rss)
  obtain more where n: "\<forall>n \<in> set (rs_Blocklist rs) \<union> set (effective_allowlist rs auto). net_IP n \<noteq> [] \<longrightarrow> nft_net n"
    "\<forall>n \<in> set (effective_allowlist rs auto). nft_net n" "t (nm rs) = Some (call_rules (nft_ruleset_calls cid rs auto) @ more)"
    using Cons.prems by (auto simp: nets_ok_def)
  have "nft_set_verdict p cid rs auto \<noteq> Some Return" by (simp add: nft_set_verdict_def nft_match_not_return)
  then show ?case
    using Cons run_nft_ruleset [OF assms(1) n(1,2), of "run_nft_chain d p t"] n(3)
    by (cases "nft_set_verdict p cid rs auto") (auto simp: run_nft_append split: outcome.splits)
qed

lemma nft_chains_apart:
  assumes "length (nb_chainName b) \<le> 17"
  shows "fwdChain \<noteq> nftContainerChain b cid" "fwdChain \<notin> set (nft_set_names b cid rss)"
    "nftContainerChain b cid \<notin> set (nft_set_names b cid rss)" "\<forall>n \<in> set (nft_set_names b cid rss). owned (nftContainerChain b cid) n"
proof -
  have m: "CHR ''-'' \<in> set (nftContainerChain b cid)" by (simp add: nftContainerChain_eq [OF assms] nft_prefix_def)
  have n: "strings_HasPrefix (nftRuleSetChain b cid x) (nftContainerChain b cid @ ''-'')" for x
    by (auto simp: nftContainerChain_eq [OF assms] nftRuleSetChain_def Let_def strings_HasPrefix_def)
  have f: "CHR ''-'' \<notin> set fwdChain" by (simp add: fwdChain_def)
  then show "fwdChain \<noteq> nftContainerChain b cid" using m by auto
  have g: "nftRuleSetChain b cid x \<noteq> fwdChain" for x
    using n [of x] m f by (metis set_mono_prefix strings_HasPrefix_def append_prefixD subsetD)
  have h: "nftRuleSetChain b cid x \<noteq> nftContainerChain b cid" for x
    using n [of x] by (metis strings_HasPrefix_def append_prefixD prefix_order.antisym prefix_order.order_refl self_append_conv not_Cons_self2)
  show "fwdChain \<notin> set (nft_set_names b cid rss)" using g by (metis (no_types, lifting) imageE list.set_map nft_set_names_def)
  show "nftContainerChain b cid \<notin> set (nft_set_names b cid rss)" using h by (metis (no_types, lifting) imageE list.set_map nft_set_names_def)
  show "\<forall>n \<in> set (nft_set_names b cid rss). owned (nftContainerChain b cid) n"
    using n by (auto simp: nft_set_names_def owned_def)
qed

lemma nft_short_names_enforced:
  assumes "distinct (map rs_Name rss)" "\<forall>rs \<in> set rss. length (nb_chainName b) + length (rs_Name rs) \<le> 16"
  shows "nft_enforced_sets b cid rss = rss"
proof (rule nft_enforced_sets_distinct)
  have "nftRuleSetChain b cid n = nft_prefix b @ truncate_str ContainerIDShortLen cid @ ''-'' @ n"
    if "length (nb_chainName b) + length n \<le> 16" for n
    using that length_truncate [of ContainerIDShortLen cid]
    by (simp add: nftRuleSetChain_def Let_def nft_prefix_def ContainerIDShortLen_def strings_ToLower_def)
  then have "inj_on (\<lambda>rs. nftRuleSetChain b cid (rs_Name rs)) (set rss)"
    using assms by (auto simp: inj_on_def distinct_map)
  then show "distinct (nft_set_names b cid rss)" using assms(1) by (simp add: nft_set_names_def distinct_map)
qed

lemma nft_ApplyContainerRules_run:
  assumes "nft_api nf kern queue" "queue k = []"
    and "nft_ApplyContainerRules b nf cid ips rss dp auto k = (None, k')"
    and "(\<forall>c. owned (nftContainerChain b cid) c \<longrightarrow> map_of (nk_chains (kern k)) c = None)
      \<or> (\<forall>k1. kern k1 = kern k \<longrightarrow> \<not> isl (nf_ListChains nf k1))"
    and "length (nb_chainName b) \<le> 17" "wf_nft_packet p" "\<forall>rs \<in> set rss. nets_ok auto rs"
  shows "run_nft_chain (Suc (Suc d)) p (exprs_of (kern k')) (nftContainerChain b cid)
    = Some (nft_verdict p cid (nft_enforced_sets b cid rss) auto (verdict_outcome (nft_default_verdict dp)))"
proof -
  let ?es = "nft_enforced_sets b cid rss" and ?nm = "\<lambda>rs. nftRuleSetChain b cid (rs_Name rs)"
  obtain k1 where k1: "nft_RemoveContainerChains b nf cid k = (None, k1)"
    "queue k1 = [] \<longrightarrow> queue k' = [] \<and> nft_exec_all (apply_ops b cid ips rss dp auto) (kern k1) = Some (kern k')"
    by (rule nft_api.ApplyContainerRules_transaction [OF assms(1,3)])
  note rm = nft_api.RemoveContainerChains_owned [OF assms(1) k1(1) assms(2)]
  have gone: "\<forall>c. owned (nftContainerChain b cid) c \<longrightarrow> exprs_of (kern k1) c = None"
    using rm(3) assms(4) by (auto simp: exprs_of_def)
  have ex: "nft_exec_all (apply_ops b cid ips rss dp auto) (kern k1) = Some (kern k')" using k1(2) rm(1) by simp
  note ch = apply_ops_chains [OF ex nft_chains_apart(1-3) [OF assms(5)] gone nft_chains_apart(4) [OF assms(5)]]
  have "\<forall>rs \<in> set ?es. nets_ok auto rs \<and> (\<exists>more. exprs_of (kern k') (?nm rs) = Some (call_rules (nft_ruleset_calls cid rs auto) @ more))"
  proof
    fix rs assume rs: "rs \<in> set ?es"
    then obtain n where n: "n \<in> set (nft_set_names b cid rss)" "rs = first_named b cid rss n" by (auto simp: nft_enforced_sets_def)
    from n(1) obtain more where f: "filter (\<lambda>rs. ?nm rs = n) rss = rs # more" "rs \<in> set rss" "?nm rs = n"
      unfolding n(2) by (rule first_named_split)
    then show "nets_ok auto rs \<and> (\<exists>more. exprs_of (kern k') (?nm rs) = Some (call_rules (nft_ruleset_calls cid rs auto) @ more))"
      using ch(2) [OF n(1)] assms(7) by simp
  qed
  note run = run_nft_main [where rss = ?es and nm = ?nm and t = "exprs_of (kern k')", OF assms(6) this]
  have "map (\<lambda>n. [ExVerdict (VerdictJump n)]) (nft_set_names b cid rss) = map (\<lambda>rs. [ExVerdict (VerdictJump (?nm rs))]) ?es"
    using arg_cong [OF nft_set_names_enforced [of b cid rss], of "map (\<lambda>n. [ExVerdict (VerdictJump n)])"]
    by (simp add: nft_set_names_def comp_def)
  then show ?thesis using run [of d dp] ch(1) by simp
qed

text \<open>
  When the pre-cleanup cannot list the chains, the rules a container had stay in front of the new
  ones.
\<close>

lemma nft_ApplyContainerRules_stale:
  assumes "nft_api nf kern queue" "queue k = []"
    and "nft_ApplyContainerRules b nf cid ips rss dp auto k = (None, k')"
    and "\<forall>k1. kern k1 = kern k \<longrightarrow> isl (nf_ListChains nf k1)"
    and "c \<noteq> fwdChain" "exprs_of (kern k) c = Some old"
  shows "\<exists>new. exprs_of (kern k') c = Some (old @ new)"
proof -
  obtain k1 where k1: "nft_RemoveContainerChains b nf cid k = (None, k1)"
    "queue k1 = [] \<longrightarrow> queue k' = [] \<and> nft_exec_all (apply_ops b cid ips rss dp auto) (kern k1) = Some (kern k')"
    by (rule nft_api.ApplyContainerRules_transaction [OF assms(1,3)])
  note rm = nft_api.RemoveContainerChains_owned [OF assms(1) k1(1) assms(2)]
  have "exprs_of (kern k1) c = Some old" using rm(4) [OF assms(4,5)] assms(6) by (simp add: exprs_of_def)
  then show ?thesis using nft_exec_all_add [OF _ adds_only_apply] k1(2) rm(1) by blast
qed

section \<open>Agreement with the iptables backend\<close>

text \<open>The same IPv4 packet as the two rule languages see it.\<close>

definition same_packet :: "packet \<Rightarrow> nft_packet \<Rightarrow> bool" where
  "same_packet q p \<longleftrightarrow> np_nfproto p = NFPROTO_IPV4 \<and> wf_nft_packet p \<and> p_src q = np_src p \<and> p_dport q = np_dport p
     \<and> p_proto q \<in> {''tcp'', ''udp''} \<and> np_l4proto p = proto_num (p_proto q)"

definition same_limits :: "packet \<Rightarrow> nft_packet \<Rightarrow> string \<Rightarrow> FirewallRuleSet \<Rightarrow> bool" where
  "same_limits q p cid rs \<longleftrightarrow> rs_RateLimit rs = None
     \<or> p_under q (limit_name (rs_Name rs) (strconv_Itoa (unat (p_dport q))))
       = np_under p (perSourceLimitSetName cid (rs_Name rs) ''v4'')"

lemma v4net_nft_net: "v4net n \<Longrightarrow> nft_net n"
  by (auto simp: v4net_def nft_net_def length_CIDRMask)

lemma any_source_v4net:
  assumes "l \<le> 32" "length (net_IP n) = 4" "net_Mask n = CIDRMask l 32" "any_source (ipnet_String n)"
  shows "l = 0"
proof -
  have n: "n = \<lparr>net_IP = net_IP n, net_Mask = CIDRMask l 32\<rparr>" using assms(3) by simp
  have e: "ipnet_String n = dotted (net_IP n) @ ''/'' @ strconv_Itoa l" by (subst n) (rule ipnet_String_v4 [OF assms(2,1)])
  have no: "c \<noteq> CHR ''/''" if "c \<in> set (dotted (net_IP n))" for c using that by (auto dest!: dotted_chars digit_not_special)
  have "dropWhile (\<lambda>c. c \<noteq> CHR ''/'') (ipnet_String n) = ''/'' @ strconv_Itoa l"
    unfolding e by (subst dropWhile_append2) (auto simp: no)
  moreover have "strconv_Itoa 0 = ''0''" by (simp add: strconv_Itoa.simps digit_char_def char_of_def bit_Suc_0_iff)
  moreover have "ipnet_String n = ''0.0.0.0/0'' \<or> ipnet_String n = ''::/0''" using assms(4) e by (simp add: any_source_def)
  then have "dropWhile (\<lambda>c. c \<noteq> CHR ''/'') (ipnet_String n) = ''/0''" by (elim disjE) simp_all
  ultimately have "strconv_Itoa l = strconv_Itoa 0" by simp
  then show ?thesis by (rule Itoa_inj)
qed

lemma masked_map2:
  "length a = length m \<Longrightarrow> length b = length m \<Longrightarrow>
   list_all (\<lambda>((x, y), c). x AND c = y AND c) (zip (zip a b) m) \<longleftrightarrow> map2 (AND) b m = map2 (AND) a (m :: byte list)"
proof (induction a m arbitrary: b rule: list_induct2)
  case (Cons x xs c m)
  then show ?case by (cases b) auto
qed simp

lemma same_src:
  assumes "same_packet q p" "v4net n"
  shows "src_in q n \<longleftrightarrow> nft_src_in p n"
proof -
  obtain l where l: "l \<le> 32" "net_Mask n = CIDRMask l 32" "length (net_IP n) = 4" using assms(2) by (auto simp: v4net_def)
  have p: "p_src q = np_src p" "length (np_src p) = 4"
    using assms(1) np_src_load(1) [of p] by (auto simp: same_packet_def)
  have "any_source (ipnet_String n) \<Longrightarrow> map2 (AND) (np_src p) (CIDRMask l 32) = map2 (AND) (net_IP n) (CIDRMask l 32)"
    using any_source_v4net [OF l(1,3,2)] l(3) p(2) by (auto simp: CIDRMask_def list_eq_iff_nth_eq)
  then show ?thesis
    using l p masked_map2 [of "net_IP n" "CIDRMask l 32" "np_src p"]
    by (auto simp: src_in_def nft_src_in_def IPNet_Contains_def networkNumberAndMask_def length_CIDRMask)
qed

lemma same_proto: "p \<in> {''tcp'', ''udp''} \<Longrightarrow> q \<in> {''tcp'', ''udp''} \<Longrightarrow> proto_num p = proto_num q \<longleftrightarrow> p = q"
  by (auto simp: proto_num_def strings_ToLower_def to_lower_def IPPROTO_UDP_def IPPROTO_TCP_def)

lemma same_set_verdict:
  assumes "same_packet q p" "rs_proto rs \<in> {''tcp'', ''udp''}" "same_limits q p cid rs"
    and "\<forall>n \<in> set (rs_Blocklist rs) \<union> set (effective_allowlist rs auto). v4net n"
  shows "nft_set_verdict p cid rs auto = set_verdict q rs auto"
proof -
  have b: "(\<exists>n \<in> set (rs_Blocklist rs). net_IP n \<noteq> [] \<and> nft_src_in p n) \<longleftrightarrow> (\<exists>n \<in> set (rs_Blocklist rs). net_IP n \<noteq> [] \<and> src_in q n)"
    and a: "(\<exists>n \<in> set (effective_allowlist rs auto). nft_src_in p n) \<longleftrightarrow> (\<exists>n \<in> set (effective_allowlist rs auto). src_in q n)"
    using same_src [OF assms(1)] assms(4) by blast+
  have m: "np_l4proto p = proto_num (rs_proto rs) \<longleftrightarrow> p_proto q = rs_proto rs" "np_dport p = p_dport q"
    "np_nfproto p = NFPROTO_IPV4"
    using assms(1) same_proto [OF _ assms(2), of "p_proto q"] unfolding same_packet_def by metis+
  show ?thesis using assms(3)
    unfolding nft_set_verdict_def set_verdict_match nft_match_verdict_def match_verdict_def same_limits_def Let_def a b m if_P [OF refl]
    by (cases "rs_RateLimit rs") auto
qed

lemma same_verdict:
  assumes "same_packet q p" "pol \<in> {''ACCEPT'', ''DROP'', ''RETURN''}"
    and "\<forall>rs \<in> set rss. rs_proto rs \<in> {''tcp'', ''udp''} \<and> same_limits q p cid rs
      \<and> (\<forall>n \<in> set (rs_Blocklist rs) \<union> set (effective_allowlist rs auto). v4net n)"
  shows "Some (nft_verdict p cid rss auto (verdict_outcome (nft_default_verdict pol))) = container_verdict q rss auto pol"
  using assms(3)
proof (induction rss)
  case Nil
  then show ?case using assms(2) by (auto simp: policy_verdict_def nft_default_verdict_def strings_ToUpper_def to_upper_def Let_def)
next
  case (Cons rs rss)
  then show ?case using same_set_verdict [OF assms(1), of rs cid auto] by (simp split: option.split)
qed

end
