(* ===== verification/NFTables_Properties.thy ===== *)
theory NFTables_Properties
  imports NFTables_Apply
begin

unbundle bit_operations_syntax

text \<open>
  Properties of the nftables backend: when its applications succeed, what they leave, that they
  agree with the iptables backend, and that its chain names can be read back.
\<close>

section \<open>Applications that succeed\<close>

definition jump_set :: "nft_expr list \<Rightarrow> string set" where
  "jump_set es = {c. ExVerdict (VerdictJump c) \<in> set es}"

fun ops_ok :: "string set \<Rightarrow> string set \<Rightarrow> nft_op list \<Rightarrow> bool" where
  "ops_ok D S [] = True"
| "ops_ok D S (OpAddChain c h # ops) = ops_ok (insert c D) S ops"
| "ops_ok D S (OpAddRule c es # ops) = (c \<in> D \<and> jump_set es \<subseteq> D \<and> dyn_sets es \<subseteq> S \<and> ops_ok D S ops)"
| "ops_ok D S (OpAddSet s # ops) = ops_ok D (insert s S) ops"
| "ops_ok D S _ = False"

lemma jump_targets_dom: "jump_targets_exist es K \<longleftrightarrow> jump_set es \<subseteq> dom (map_of (nk_chains K))"
  by (auto simp: jump_targets_exist_def jump_set_def list_all_iff split: nft_expr.splits verdict_kind.splits) 

lemma ops_ok_mono: "ops_ok D S ops \<Longrightarrow> S \<subseteq> S' \<Longrightarrow> ops_ok D S' ops"
proof (induction D S ops arbitrary: S' rule: ops_ok.induct)
  case (4 D S s ops)
  then show ?case using 4(1) [of "insert s S'"] by auto
qed auto

lemma nft_exec_all_total:
  assumes "ops_ok D S ops" "nk_table K" "dom (map_of (nk_chains K)) = D" "S \<subseteq> set (nk_sets K)"
  shows "\<exists>K'. nft_exec_all ops K = Some K'"
  using assms
proof (induction D S ops arbitrary: K rule: ops_ok.induct)
  case (2 D S c h ops)
  show ?case
  proof (cases "map_of (nk_chains K) c")
    case None
    let ?K = "K\<lparr>nk_chains := nk_chains K @ [(c, map_option snd h, [])]\<rparr>"
    have "dom (map_of (nk_chains ?K)) = insert c D" using 2(4) by auto
    then have "\<exists>K'. nft_exec_all ops ?K = Some K'" using 2 by simp
    then show ?thesis using 2(3) None by simp
  next
    case (Some x)
    then have "insert c D = D" using 2(4) by auto
    then show ?thesis using 2 Some by auto
  qed
next
  case (3 D S c es ops)
  obtain pol rs where c: "map_of (nk_chains K) c = Some (pol, rs)" using 3(2,4) by auto
  let ?K = "K\<lparr>nk_chains := AList.update c (pol, rs @ [\<lparr>nr_handle = nk_next K, nr_exprs = es\<rparr>]) (nk_chains K), nk_next := nk_next K + 1\<rparr>"
  have "dom (map_of (nk_chains ?K)) = D" using 3(4) c by (auto simp: update_conv split: if_splits)
  then have "\<exists>K'. nft_exec_all ops ?K = Some K'" using 3 by auto
  moreover have "set_refs_exist es K" using 3(2,5) by (auto simp: set_refs_dyn)
  ultimately show ?case using 3(2,4) c by (simp add: jump_targets_dom edit_rules_def)
next
  case (4 D S s ops)
  have "\<exists>K'. nft_exec_all ops (K\<lparr>nk_sets := List.insert s (nk_sets K)\<rparr>) = Some K'"
    using 4(2-5) by (intro 4(1)) auto
  then show ?case using 4(3) by simp
qed auto

lemma ops_ok_rules:
  "c \<in> D \<Longrightarrow> \<forall>es \<in> set ess. jump_set es \<subseteq> D \<and> dyn_sets es \<subseteq> S \<Longrightarrow> ops_ok D S (map (OpAddRule c) ess @ ops) = ops_ok D S ops"
  by (induction ess) auto

text \<open>Every set that a rule of the calls names is created by an earlier call.\<close>

fun calls_ok :: "string set \<Rightarrow> nft_call list \<Rightarrow> bool" where
  "calls_ok S [] = True"
| "calls_ok S (CallRule es # cs) = (dyn_sets es \<subseteq> S \<and> calls_ok S cs)"
| "calls_ok S (CallSet s # cs) = calls_ok (insert s S) cs"

lemma calls_ok_mono: "calls_ok S cs \<Longrightarrow> S \<subseteq> S' \<Longrightarrow> calls_ok S' cs"
proof (induction S cs arbitrary: S' rule: calls_ok.induct)
  case (3 S s cs)
  then show ?case using 3(1) [of "insert s S'"] by auto
qed auto

lemma calls_ok_append: "calls_ok S xs \<Longrightarrow> calls_ok S ys \<Longrightarrow> calls_ok S (xs @ ys)"
proof (induction S xs rule: calls_ok.induct)
  case (3 S s cs)
  then show ?case using calls_ok_mono [of S ys "insert s S"] by auto
qed auto

lemma calls_ok_concat: "\<forall>x \<in> set xs. calls_ok S (f x) \<Longrightarrow> calls_ok S (concat (map f xs))"
  by (induction xs) (auto intro: calls_ok_append)

lemma ops_ok_calls:
  "c \<in> D \<Longrightarrow> \<forall>es. CallRule es \<in> set cs \<longrightarrow> jump_set es \<subseteq> D \<Longrightarrow> calls_ok S cs \<Longrightarrow> ops_ok D S ops
   \<Longrightarrow> ops_ok D S (map (call_op c) cs @ ops)"
proof (induction S cs rule: calls_ok.induct)
  case (3 S s cs)
  then show ?case using ops_ok_mono [of D S ops "insert s S"] by auto
qed auto

lemma jump_set_append [simp]: "jump_set (xs @ ys) = jump_set xs \<union> jump_set ys"
  by (auto simp: jump_set_def)

lemma dyn_sets_append [simp]: "dyn_sets (xs @ ys) = dyn_sets xs \<union> dyn_sets ys"
  by (auto simp: dyn_sets_def)

lemma jump_set_parts [simp]:
  "jump_set (srcNetMatchExprs n) = {}" "jump_set (protoPortExprs proto port) = {}" "jump_set (dstIPMatchExprs q) = {}"
  "jump_set (verdict_exprs rs a VerdictDrop) = {}" "jump_set (verdict_exprs rs a VerdictAccept) = {}"
  "jump_set [saddrPayload n, ExDynset r t x y, ExCounter, ExVerdict VerdictAccept] = {}"
  "jump_set [ExVerdict VerdictReturn] = {}" "jump_set [ExVerdict (VerdictJump c)] = {c}" "jump_set (default_exprs dp) = {}"
  by (auto simp: jump_set_def srcNetMatchExprs_def protoPortExprs_def dstIPMatchExprs_def verdict_exprs_def nflogExpr_def
      saddrPayload_def default_exprs_def nft_default_verdict_def Let_def split: option.splits if_splits)

lemma dyn_sets_parts [simp]:
  "dyn_sets (srcNetMatchExprs n) = {}" "dyn_sets (protoPortExprs proto port) = {}" "dyn_sets (dstIPMatchExprs q) = {}"
  "dyn_sets (verdict_exprs rs a v) = {}" "dyn_sets [saddrPayload n, ExDynset r t x y, ExCounter, ExVerdict VerdictAccept] = {t}"
  "dyn_sets [ExVerdict v] = {}" "dyn_sets (default_exprs dp) = {}"
  by (auto simp: dyn_sets_def srcNetMatchExprs_def protoPortExprs_def dstIPMatchExprs_def verdict_exprs_def nflogExpr_def
      saddrPayload_def default_exprs_def Let_def split: option.splits if_splits)

lemma jump_set_calls: "CallRule es \<in> set (nft_ruleset_calls cid rs auto) \<Longrightarrow> jump_set es = {}"
  by (auto simp: nft_ruleset_calls_def nft_port_calls_def nft_block_calls_def nft_allow_calls_def addPerSourceLimitRules_def
      Let_def split: option.splits if_splits simp del: One_nat_def)

lemma calls_ok_ruleset: "calls_ok S (nft_ruleset_calls cid rs auto)"
proof -
  have "calls_ok S (nft_allow_calls cid rs proto port al)" for proto port al
    by (simp add: nft_allow_calls_def addPerSourceLimitRules_def Let_def split: option.split)
  moreover have "calls_ok S (map (\<lambda>bl. CallRule (srcNetMatchExprs bl @ protoPortExprs proto port @ verdict_exprs rs ''DROP'' VerdictDrop)) ns)"
    for ns proto port by (induction ns) simp_all
  ultimately have "calls_ok S (nft_port_calls cid rs auto port)" for port
    by (auto simp: nft_port_calls_def nft_block_calls_def Let_def intro!: calls_ok_append calls_ok_concat)
  then show ?thesis by (auto simp: nft_ruleset_calls_def intro!: calls_ok_append calls_ok_concat)
qed

lemma ops_ok_sets: "main \<in> D \<Longrightarrow> ops_ok D S (concat (map (set_ops b cid main auto) rss) @ [OpAddRule main (default_exprs dp)])"
proof (induction rss arbitrary: D)
  case (Cons rs rss)
  let ?chn = "nftRuleSetChain b cid (rs_Name rs)"
  have "ops_ok (insert ?chn D) S (map (call_op ?chn) (nft_ruleset_calls cid rs auto)
      @ OpAddRule main [ExVerdict (VerdictJump ?chn)] # concat (map (set_ops b cid main auto) rss) @ [OpAddRule main (default_exprs dp)])"
    using Cons by (intro ops_ok_calls calls_ok_ruleset) (auto dest: jump_set_calls)
  then show ?case by (simp add: set_ops_def [of b cid main auto rs] Let_def)
qed simp

lemma ops_ok_apply: "fwdChain \<in> D \<Longrightarrow> ops_ok D S (apply_ops b cid ips rss dp auto)"
  using ops_ok_rules [of fwdChain "insert (nftContainerChain b cid) D" "map (forward_jump (nftContainerChain b cid)) ips" S
      "concat (map (set_ops b cid (nftContainerChain b cid) auto) rss) @ [OpAddRule (nftContainerChain b cid) (default_exprs dp)]"]
    ops_ok_sets [of "nftContainerChain b cid" "insert (nftContainerChain b cid) D" S]
  by (simp add: apply_ops_def Let_def comp_def forward_jump_def)

lemma mem_run_calls: "\<exists>k'. nft_run_calls mem_nft chn cs k = (None, k')"
proof (induction cs arbitrary: k)
  case (Cons x cs)
  then show ?case by (cases x; cases k) (auto simp: mem_nft_def must_def)
qed simp

lemma mem_apply_sets: "\<exists>k'. nft_apply_sets b mem_nft cid main auto rss k = (None, k')"
proof (induction rss arbitrary: k)
  case (Cons rs rss)
  let ?chn = "nftRuleSetChain b cid (rs_Name rs)"
  obtain k1 where "nft_run_calls mem_nft ?chn (nft_ruleset_calls cid rs auto) (nf_AddChain mem_nft ?chn None k) = (None, k1)"
    using mem_run_calls by blast
  then show ?case using Cons [of "nf_AddRule mem_nft main [ExVerdict (VerdictJump ?chn)] k1"] by (simp add: Let_def)
qed simp

lemma mem_apply_succeeds:
  assumes "nft_RemoveContainerChains b mem_nft cid k = (None, k1)" "snd k1 = []"
    and "nk_table (fst k1)" "map_of (nk_chains (fst k1)) fwdChain \<noteq> None"
  shows "\<exists>k'. nft_ApplyContainerRules b mem_nft cid ips rss dp auto k = (None, k')"
proof -
  let ?main = "nftContainerChain b cid"
  let ?k3 = "fold (\<lambda>p. nf_AddRule mem_nft fwdChain (forward_jump ?main p)) ips (nf_AddChain mem_nft ?main None k1)"
  obtain k4 where k4: "nft_apply_sets b mem_nft cid ?main auto rss ?k3 = (None, k4)" using mem_apply_sets by blast
  have q: "fst k4 = fst k1" "snd (nf_AddRule mem_nft ?main (default_exprs dp) k4) = apply_ops b cid ips rss dp auto"
    "fst (nf_AddRule mem_nft ?main (default_exprs dp) k4) = fst k1"
    using mem_nft.nft_apply_sets_queue [OF k4] assms(2)
    by (auto simp: mem_nft.AddChain mem_nft.AddRule mem_nft.fold_AddRule apply_ops_def Let_def)
  obtain K' where "nft_exec_all (apply_ops b cid ips rss dp auto) (fst k1) = Some K'"
    using nft_exec_all_total [OF ops_ok_apply assms(3) refl empty_subsetI] assms(4) by blast
  then have "nft_flush ''flush'' mem_nft (nf_AddRule mem_nft ?main (default_exprs dp) k4) = (None, K', [])"
    using q(2,3) by (cases "nf_AddRule mem_nft ?main (default_exprs dp) k4") (simp add: nft_flush_def must_def mem_nft_def)
  then show ?thesis using assms(1) k4
    by (simp add: nft_ApplyContainerRules_def Let_def forward_jump_def default_exprs_def)
qed

section \<open>Properties\<close>

text \<open>
  C5. Correctness of the applied nftables rules. When \<open>ApplyContainerRules\<close> succeeds, every packet
  with complete headers that enters the container's chain gets the verdict of the enforced rule
  sets, in order: for a packet of the set's protocol and ports, drop if its source is blocked,
  else accept if it is allowed (drop if the limit set of the packet's family is exhausted), else
  drop if the set has any allowlist, else go on; after the last set the default policy decides.
  Of rule sets whose chain names collide the first is enforced; the enforced sets are the given
  ones when the chain names are distinct, in particular when the set names are distinct and, with
  the base chain, at most 16 characters long. The library queues and executes as documented, the
  connection's queue is empty at the start, the base chain has at most 17 characters and the
  networks are IPv4 or proper IPv6 networks. The pre-cleanup swallows errors of its reads: either the
  container had no chain before, or the listing of the chains does not fail (errors of the
  other reads, and of the rule deletions, are allowed).
\<close>

theorem nft_ApplyContainerRules_verdict:
  assumes "nft_api nf kern queue" "queue k = []"
    and "nft_ApplyContainerRules b nf cid ips rss dp auto k = (None, k')"
    and "(\<forall>c. owned (nftContainerChain b cid) c \<longrightarrow> map_of (nk_chains (kern k)) c = None)
      \<or> (\<forall>k1. kern k1 = kern k \<longrightarrow> \<not> isl (nf_ListChains nf k1))"
    and "length (nb_chainName b) \<le> 17" "wf_nft_packet p" "\<forall>rs \<in> set rss. nets_ok auto rs"
  shows "run_nft_chain (Suc (Suc d)) p (exprs_of (kern k')) (nftContainerChain b cid)
      = Some (nft_verdict p cid (nft_enforced_sets b cid rss) auto (verdict_outcome (nft_default_verdict dp)))
    \<and> (distinct (nft_set_names b cid rss) \<longrightarrow> nft_enforced_sets b cid rss = rss)
    \<and> (distinct (map rs_Name rss) \<and> (\<forall>rs \<in> set rss. length (nb_chainName b) + length (rs_Name rs) \<le> 16)
        \<longrightarrow> nft_enforced_sets b cid rss = rss)"
  using nft_ApplyContainerRules_run [OF assms] nft_enforced_sets_distinct nft_short_names_enforced by blast

definition demo_nft :: NFTablesBackend where
  "demo_nft = \<lparr>nb_chainName = ''FIREFIK'', nb_stateful = True, nb_table = True, nb_fwd = True\<rparr>"

definition demo_nft_kernel :: nft_mem where
  "demo_nft_kernel = (\<lparr>nk_table = True, nk_chains = [(''forward'', Some ChainPolicyAccept, [])], nk_sets = [], nk_next = 1\<rparr>, [])"

definition demo_set :: FirewallRuleSet where
  "demo_set = (empty_ruleset ''web'')\<lparr>rs_Ports := [80], rs_Allowlist := [\<lparr>net_IP = [10, 0, 0, 0], net_Mask = CIDRMask 8 32\<rparr>]\<rparr>"

lemma demo_main: "nftContainerChain demo_nft ''0123456789ab'' = ''firefik-0123456789ab''"
  by (simp add: nftContainerChain_eq nft_prefix_def demo_nft_def truncate_str_def ContainerIDShortLen_def
      strings_ToLower_def to_lower_def char_of_def bit_Suc_0_iff Let_def)

lemma demo_sub: "nftRuleSetChain demo_nft ''0123456789ab'' ''web'' = ''firefik-0123456789ab-web''"
  by (simp add: nftRuleSetChain_def nft_prefix_def demo_nft_def truncate_str_def ContainerIDShortLen_def
      strings_ToLower_def to_lower_def char_of_def bit_Suc_0_iff Let_def)

lemma demo_set_name [simp]: "rs_Name demo_set = ''web''"
  by (simp add: demo_set_def empty_ruleset_def)

lemma demo_remove:
  "nft_RemoveContainerChains demo_nft mem_nft ''0123456789ab'' demo_nft_kernel = (None, demo_nft_kernel)"
  unfolding nft_RemoveContainerChains_def demo_main
  by (simp add: Let_def nft_flush_def must_def mem_nft_def demo_nft_kernel_def fwdChain_def del_rules_def own_chain_def strings_HasPrefix_def)

lemma demo_nft_apply:
  "\<exists>k'. nft_ApplyContainerRules demo_nft mem_nft ''0123456789ab'' ips rss dp auto demo_nft_kernel = (None, k')"
  by (rule mem_apply_succeeds [OF demo_remove]) (simp_all add: demo_nft_kernel_def fwdChain_def)

lemma mem_nft_lists: "\<forall>k1. fst k1 = fst k \<longrightarrow> \<not> isl (nf_ListChains mem_nft k1)"
  by (auto simp: mem_nft_def)

definition demo_nft_packet :: nft_packet where
  "demo_nft_packet = \<lparr>np_nfproto = NFPROTO_IPV4, np_l4proto = IPPROTO_TCP,
     np_network = replicate 12 0 @ [192, 0, 2, 1] @ [172, 17, 0, 2], np_transport = [0, 0, 0, 80],
     np_ctstate = 0, np_under = \<lambda>_. True\<rparr>"

lemma demo_nft_facts:
  "nft_enforced_sets demo_nft ''0123456789ab'' [demo_set] = [demo_set]"
  "length (nb_chainName demo_nft) \<le> 17" "wf_nft_packet demo_nft_packet" "v4net \<lparr>net_IP = [10, 0, 0, 0], net_Mask = CIDRMask 8 32\<rparr>"
  "\<forall>rs \<in> set [demo_set]. nets_ok [] rs" "snd demo_nft_kernel = []"
proof -
  show v: "v4net \<lparr>net_IP = [10, 0, 0, 0], net_Mask = CIDRMask 8 32\<rparr>" by (auto simp: v4net_def)
  show "\<forall>rs \<in> set [demo_set]. nets_ok [] rs"
    using v4net_nft_net [OF v] by (simp add: nets_ok_def demo_set_def empty_ruleset_def effective_allowlist_def)
  show "length (nb_chainName demo_nft) \<le> 17" by (simp add: demo_nft_def)
  show "nft_enforced_sets demo_nft ''0123456789ab'' [demo_set] = [demo_set]"
    by (rule nft_enforced_sets_distinct) (simp add: nft_set_names_def)
qed (simp_all add: demo_main demo_sub fwdChain_def wf_nft_packet_def demo_nft_packet_def demo_nft_kernel_def)

theorem nft_ApplyContainerRules_verdict_witness:
  "\<exists>k'. nft_ApplyContainerRules demo_nft mem_nft ''0123456789ab'' [[172, 17, 0, 2]] [demo_set] ''RETURN'' [] demo_nft_kernel = (None, k')
     \<and> run_nft_chain 2 demo_nft_packet (exprs_of (fst k')) (nftContainerChain demo_nft ''0123456789ab'')
       = Some (nft_verdict demo_nft_packet ''0123456789ab'' [demo_set] [] (verdict_outcome (nft_default_verdict ''RETURN'')))"
proof -
  obtain k' where k': "nft_ApplyContainerRules demo_nft mem_nft ''0123456789ab'' [[172, 17, 0, 2]] [demo_set] ''RETURN'' []
      demo_nft_kernel = (None, k')" using demo_nft_apply by blast
  show ?thesis
    using nft_ApplyContainerRules_verdict [OF mem_nft.nft_api_axioms demo_nft_facts(6) k' disjI2 [OF mem_nft_lists] demo_nft_facts(2,3,5), of 0] k'
      demo_nft_facts(1) by (auto simp: numeral_2_eq_2)
qed

text \<open>
  C6. The two backends agree. After a successful \<open>ApplyContainerRules\<close> of the same rule sets,
  policy and automatic allowlist on the iptables and on the nftables backend, the chains of
  the container give every IPv4 TCP or UDP packet with complete headers the same verdict, under these
  conditions: the rule sets are for TCP or UDP, with IPv4 networks; where a rule set is rate limited, the two limiters are in
  the same state for the packet; no two rule sets share a chain name on either backend (for
  colliding names iptables enforces the last set and nftables the first); the base chains have at
  most 14 and 17 characters; and for nftables, the container had no chain before or its chains could be listed.
\<close>

theorem backends_agree:
  assumes "nft_api nf kern queue" "queue k = []"
    and "nft_ApplyContainerRules nb nf cid ips rss pol auto k = (None, k')"
    and "(\<forall>c. owned (nftContainerChain nb cid) c \<longrightarrow> map_of (nk_chains (kern k)) c = None)
      \<or> (\<forall>k1. kern k1 = kern k \<longrightarrow> \<not> isl (nf_ListChains nf k1))"
    and "length (nb_chainName nb) \<le> 17"
    and "ApplyContainerRules ib (mem_ipt norm accepts) cid ips rss pol auto t = (None, t')"
    and "length (chainName ib) \<le> 14" "rule_match norm (arg_match q)"
    and "distinct (nft_set_names nb cid rss)" "distinct (set_names ib cid rss)"
    and "same_packet q p" "pol \<in> {''ACCEPT'', ''DROP'', ''RETURN''}"
    and "\<forall>rs \<in> set rss. rs_proto rs \<in> {''tcp'', ''udp''} \<and> same_limits q p cid rs
      \<and> (\<forall>n \<in> set (rs_Blocklist rs) \<union> set (effective_allowlist rs auto). v4net n)"
  shows "run_nft_chain (Suc (Suc d)) p (exprs_of (kern k')) (nftContainerChain nb cid)
    = run_chain (Suc (Suc d)) (arg_match q) (map_of t') (containerChainName ib cid)"
proof -
  have p: "wf_nft_packet p" using assms(11) by (simp add: same_packet_def)
  have nets: "\<forall>rs \<in> set rss. nets_ok auto rs" using assms(13) v4net_nft_net unfolding nets_ok_def by blast
  have v4: "\<forall>rs \<in> set rss. \<forall>n \<in> set (rs_Blocklist rs) \<union> set (effective_allowlist rs auto). ipt_net n"
    using assms(13) unfolding ipt_net_def by blast
  show ?thesis
    unfolding nft_ApplyContainerRules_run [OF assms(1-5) p nets] ApplyContainerRules_run [OF assms(6-8) v4 assms(12)]
      nft_enforced_sets_distinct [OF assms(9)] enforced_sets_distinct [OF assms(10)]
    by (rule same_verdict [OF assms(11-13)])
qed

definition demo_packet :: packet where
  "demo_packet = \<lparr>p_proto = ''tcp'', p_dport = 80, p_src = [192, 0, 2, 1], p_dst = [172, 17, 0, 2],
     p_established = False, p_under = \<lambda>_. True\<rparr>"

theorem backends_agree_witness:
  "\<exists>k' t'. nft_ApplyContainerRules demo_nft mem_nft ''0123456789ab'' [[172, 17, 0, 2]] [demo_set] ''RETURN'' [] demo_nft_kernel = (None, k')
     \<and> ApplyContainerRules demo_backend (mem_ipt (\<lambda>a. a) (\<lambda>_ _ _. True)) ''0123456789ab'' [[172, 17, 0, 2]] [demo_set] ''RETURN'' []
         [(''FIREFIK'', [])] = (None, t')
     \<and> run_nft_chain 2 demo_nft_packet (exprs_of (fst k')) (nftContainerChain demo_nft ''0123456789ab'')
       = run_chain 2 (arg_match demo_packet) (map_of t') (containerChainName demo_backend ''0123456789ab'')"
proof -
  obtain k' where k': "nft_ApplyContainerRules demo_nft mem_nft ''0123456789ab'' [[172, 17, 0, 2]] [demo_set] ''RETURN'' []
      demo_nft_kernel = (None, k')" using demo_nft_apply by blast
  have "chainName demo_backend \<in> dom (map_of [(''FIREFIK'', [] :: string list list)])" by (simp add: demo_backend_def)
  then obtain t' where t': "ApplyContainerRules demo_backend (mem_ipt (\<lambda>a. a) (\<lambda>_ _ _. True)) ''0123456789ab'' [[172, 17, 0, 2]]
      [demo_set] ''RETURN'' [] [(''FIREFIK'', [])] = (None, t')"
    using mem.ApplyContainerRules_total [where norm = "\<lambda>a. a" and accepts = "\<lambda>_ _ _. True"
        and b = demo_backend and k = "[(''FIREFIK'', [])]"] by blast
  have d: "distinct (nft_set_names demo_nft ''0123456789ab'' [demo_set])" "distinct (set_names demo_backend ''0123456789ab'' [demo_set])"
    by (simp_all add: nft_set_names_def)
  have m: "rule_match (\<lambda>a. a) (arg_match demo_packet)" by unfold_locales auto
  have l: "length (chainName demo_backend) \<le> 14" by (simp add: demo_backend_def)
  have "push_bit 8 (ucast (0 :: byte)) OR ucast (80 :: byte) = (80 :: 16 word)" by simp
  then have s: "same_packet demo_packet demo_nft_packet"
    using demo_nft_facts(3) by (simp add: same_packet_def demo_packet_def demo_nft_packet_def np_src_def np_dport_def proto_num_def
        strings_ToLower_def to_lower_def)
  have n: "\<forall>rs \<in> set [demo_set]. rs_proto rs \<in> {''tcp'', ''udp''} \<and> same_limits demo_packet demo_nft_packet ''0123456789ab'' rs
      \<and> (\<forall>n \<in> set (rs_Blocklist rs) \<union> set (effective_allowlist rs []). v4net n)"
    using demo_nft_facts(4) by (simp add: demo_set_def empty_ruleset_def rs_proto_def same_limits_def effective_allowlist_def)
  show ?thesis
    using backends_agree [OF mem_nft.nft_api_axioms demo_nft_facts(6) k' disjI2 [OF mem_nft_lists] demo_nft_facts(2) t' l m d s _ n, of 0] k' t'
    by (auto simp: numeral_2_eq_2)
qed


definition deaf_nft :: "nft_mem nft" where
  "deaf_nft = mem_nft\<lparr>nf_ListChains := (\<lambda>_. Inl ''no buffer space available'')\<rparr>"

interpretation deaf_nft: nft_api deaf_nft fst snd
  using mem_nft.AddTable mem_nft.DelTable mem_nft.AddChain mem_nft.DelChain mem_nft.AddRule mem_nft.InsertRule mem_nft.DelRule
    mem_nft.AddSet mem_nft.DelSet mem_nft.Flush mem_nft.GetRules mem_nft.GetSets
  by unfold_locales (auto simp: deaf_nft_def)


text \<open>
  Removal is complete and touches nothing else. When the nftables backend's
  \<open>RemoveContainerChains\<close> succeeds, neither the container's chain nor any of its rule set chains
  is left, every other chain but the forward chain is as before, and the forward chain has
  lost exactly the rules that jump to the container's chain.
\<close>

theorem nft_RemoveContainerChains_clean:
  assumes "nft_reliable nf kern queue" "queue k = []"
    and "nft_RemoveContainerChains b nf cid k = (None, k')" "length (nb_chainName b) \<le> 17"
    and "map_of (nk_chains (kern k)) fwdChain = Some (pol, rs)" "distinct (map nr_handle rs)"
    and "\<not> owned (nftContainerChain b cid) fwdChain"
  shows "map_of (nk_chains (kern k')) (nftContainerChain b cid) = None
    \<and> map_of (nk_chains (kern k')) (nftRuleSetChain b cid n) = None
    \<and> (\<forall>c. \<not> owned (nftContainerChain b cid) c \<and> c \<noteq> fwdChain \<longrightarrow> map_of (nk_chains (kern k')) c = map_of (nk_chains (kern k)) c)
    \<and> map_of (nk_chains (kern k')) fwdChain = Some (pol, filter (\<lambda>r. \<not> jumps_to (\<lambda>c. c = nftContainerChain b cid) r) rs)"
proof -
  note rm = nft_reliable.RemoveContainerChains_chains [OF assms(1,3,2)]
  show ?thesis using rm(1,2) rm(3) [OF assms(7,5,6)] owned_ruleset [OF assms(4)] by (auto simp: owned_def [of _ "nftContainerChain b cid"])
qed

theorem nft_RemoveContainerChains_clean_witness:
  "map_of (nk_chains (fst demo_nft_kernel)) (nftContainerChain demo_nft ''0123456789ab'') = None
   \<and> map_of (nk_chains (fst demo_nft_kernel)) fwdChain = Some (Some ChainPolicyAccept, [])"
  using nft_RemoveContainerChains_clean [OF mem_nft.nft_reliable_axioms demo_nft_facts(6) demo_remove demo_nft_facts(2),
      of "Some ChainPolicyAccept" "[]"]
  by (simp add: demo_main demo_nft_kernel_def fwdChain_def owned_def strings_HasPrefix_def)

text \<open>
  C37. An application cannot get stuck half way. On a library that accepts every well-formed
  request, once the pre-cleanup of \<open>ApplyContainerRules\<close> has succeeded and the table and the forward
  chain exist, the application succeeds, for every container, rule sets and policy: every rule
  is added to a chain that exists by then, every jump goes to a chain that exists by then, and
  every limit names a set that exists by then.
\<close>

theorem nft_ApplyContainerRules_succeeds:
  assumes "nft_RemoveContainerChains b mem_nft cid (K, []) = (None, K1, [])"
    and "nk_table K1" "map_of (nk_chains K1) fwdChain \<noteq> None"
  shows "\<exists>k'. nft_ApplyContainerRules b mem_nft cid ips rss dp auto (K, []) = (None, k')"
  using mem_apply_succeeds [OF assms(1)] assms(2,3) by simp

theorem nft_ApplyContainerRules_succeeds_witness:
  "\<exists>k'. nft_ApplyContainerRules demo_nft mem_nft ''0123456789ab'' [[172, 17, 0, 2]] [demo_set, demo_set\<lparr>rs_RateLimit := Some \<lparr>Rate = 5, Burst = 10\<rparr>\<rparr>] ''drop'' [] demo_nft_kernel = (None, k')"
  using nft_ApplyContainerRules_succeeds [OF demo_remove [unfolded demo_nft_kernel_def]]
  by (simp add: demo_nft_kernel_def fwdChain_def)

text \<open>
  Chain names can be read back. For a container whose id starts with twelve hexadecimal
  digits, \<open>parseInstanceChainName\<close> recovers the short id from the container's chain and
  from each of its rule set chains, and tells the two apart; and whatever it recovers from a name,
  the name is the instance's prefix, that id and nothing or a dash with a further part. So the ids
  \<open>ListAppliedContainerIDs\<close> reports are those of this instance's chains only.
\<close>

theorem parseInstanceChainName_roundtrip:
  assumes "length (nb_chainName b) \<le> 17" "isShortDockerID (take ContainerIDShortLen cid)"
  shows "parseInstanceChainName (nftContainerChain b cid) (nft_prefix b) = Some (take ContainerIDShortLen cid, False)
    \<and> (n \<noteq> [] \<longrightarrow> parseInstanceChainName (nftRuleSetChain b cid n) (nft_prefix b) = Some (take ContainerIDShortLen cid, True))
    \<and> (parseInstanceChainName name (nft_prefix b) = Some (x, sub) \<longrightarrow> isShortDockerID x
        \<and> (\<exists>t. name = nft_prefix b @ x @ t \<and> (if sub then strings_HasPrefix t ''-'' \<and> 1 < length t else t = [])))"
proof (intro conjI impI)
  let ?id = "take ContainerIDShortLen cid"
  have id: "truncate_str ContainerIDShortLen cid = ?id" by (simp add: truncate_str_def)
  have l: "length ?id = ContainerIDShortLen" using assms(2) by (simp add: isShortDockerID_def)
  have eq: "parseInstanceChainName (nft_prefix b @ ?id @ t) (nft_prefix b)
      = (if t = [] then Some (?id, False) else if strings_HasPrefix t ''-'' \<and> 1 < length t then Some (?id, True) else None)" for t
    using assms(2) l by (auto simp: parseInstanceChainName_def Let_def strings_TrimPrefix_def strings_HasPrefix_def)
  show "parseInstanceChainName (nftContainerChain b cid) (nft_prefix b) = Some (?id, False)"
    unfolding nftContainerChain_eq [OF assms(1)] id using eq [of "[]"] by simp
  show "parseInstanceChainName (nftRuleSetChain b cid n) (nft_prefix b) = Some (?id, True)" if n: "n \<noteq> []"
  proof -
    have "\<exists>t. t \<noteq> [] \<and> nftRuleSetChain b cid n = nft_prefix b @ ?id @ ''-'' @ t"
      unfolding nftRuleSetChain_def Let_def id using n by (simp split: if_split)
    then obtain t where t: "t \<noteq> []" "nftRuleSetChain b cid n = nft_prefix b @ ?id @ ''-'' @ t" by blast
    then show ?thesis using eq [of "''-'' @ t"] by (cases t) (auto simp: strings_HasPrefix_def)
  qed
  assume p: "parseInstanceChainName name (nft_prefix b) = Some (x, sub)"
  obtain r where r: "name = nft_prefix b @ r"
    using p by (auto simp: parseInstanceChainName_def strings_HasPrefix_def prefix_def split: if_splits)
  from p have x: "x = take ContainerIDShortLen r" "isShortDockerID x"
    "if sub then strings_HasPrefix (drop ContainerIDShortLen r) ''-'' \<and> 1 < length (drop ContainerIDShortLen r)
     else drop ContainerIDShortLen r = []"
    unfolding r by (auto simp: parseInstanceChainName_def Let_def strings_TrimPrefix_def strings_HasPrefix_def split: if_splits)
  show "isShortDockerID x" by (rule x(2))
  show "\<exists>t. name = nft_prefix b @ x @ t \<and> (if sub then strings_HasPrefix t ''-'' \<and> 1 < length t else t = [])"
    using x(1,3) by (intro exI [of _ "drop ContainerIDShortLen r"]) (simp add: r)
qed

theorem parseInstanceChainName_roundtrip_witness:
  "parseInstanceChainName (nftContainerChain demo_nft ''0123456789ab'') (nft_prefix demo_nft) = Some (''0123456789ab'', False)
   \<and> parseInstanceChainName (nftRuleSetChain demo_nft ''0123456789ab'' ''web'') (nft_prefix demo_nft) = Some (''0123456789ab'', True)"
proof -
  have "isShortDockerID (take ContainerIDShortLen ''0123456789ab'')"
    by (simp add: isShortDockerID_def ContainerIDShortLen_def)
  from parseInstanceChainName_roundtrip [OF demo_nft_facts(2) this, of "''web''"] show ?thesis
    by (simp add: ContainerIDShortLen_def)
qed

end
