(* ===== verification/CP_Types.thy ===== *)
theory CP_Types
  imports Go_Prelude "HOL-Library.AList" "HOL-Library.Word"
begin

text \<open>
  The data of the control plane, \<open>backend/internal/controlplane/types.go\<close>, and the errors of its
  store.

  A \<open>time.Time\<close> is the number of nanoseconds since the zero time, so \<open>IsZero\<close> is the test for 0;
  a pointer to a time is an option. Values of \<open>map[string]any\<close> are JSON objects. Go maps are
  association lists with one entry per key; ranging over a map follows the list.
\<close>

type_synonym gotime = int
type_synonym duration = int

definition IsZero :: "gotime \<Rightarrow> bool" where
  "IsZero t \<longleftrightarrow> t = 0"

definition or_now :: "gotime \<Rightarrow> gotime \<Rightarrow> gotime" where
  "or_now now t = (if IsZero t then now else t)"

definition second :: duration where "second = 1000000000"

text \<open>An \<open>int64\<close> product.\<close>

definition mul_int64 :: "int \<Rightarrow> int \<Rightarrow> int" where
  "mul_int64 a b = sint (word_of_int (a * b) :: 64 word)"

datatype json =
    JNull
  | JBool bool
  | JNum string
  | JStr string
  | JArr "json list"
  | JObj "(string \<times> json) list"

type_synonym payload = "(string \<times> json) list"

record AgentIdentity =
  ai_InstanceID :: string
  ai_Hostname :: string
  ai_Version :: string
  ai_Backend :: string
  ai_Chain :: string
  ai_Labels :: "(string \<times> string) list"

record TrafficBucket =
  tb_Timestamp :: string
  tb_Accepted :: int
  tb_Dropped :: int

record ContainerState =
  cs_ID :: string
  cs_Name :: string
  cs_Status :: string
  cs_FirewallStatus :: string
  cs_DefaultPolicy :: string
  cs_Labels :: "(string \<times> string) list"
  cs_RuleSetCount :: int
  cs_Sources :: "string list"

record AgentSnapshot =
  as_Agent :: AgentIdentity
  as_Containers :: "ContainerState list"
  as_At :: gotime
  as_Traffic :: "TrafficBucket list"

record EnrollmentToken =
  et_Token :: string
  et_AgentID :: string
  et_TTLSeconds :: int
  et_ExpiresAt :: gotime
  et_IssuedBy :: string
  et_IssuedAt :: gotime
  et_ConsumedAt :: "gotime option"
  et_ConsumerIP :: string

record AgentToken =
  at_ID :: string
  at_Name :: string
  at_Description :: string
  at_IssuedBy :: string
  at_IssuedAt :: gotime
  at_LastUsedAt :: "gotime option"
  at_LastUsedIP :: string
  at_RevokedAt :: "gotime option"

record AgentTokenIssued =
  ati_AgentToken :: AgentToken
  ati_Token :: string

record AutogenProposal =
  ap_AgentID :: string
  ap_ContainerID :: string
  ap_Ports :: "32 word list"
  ap_Peers :: "string list"
  ap_ObservedFor :: string
  ap_Confidence :: string
  ap_UpdatedAt :: gotime

definition CommandApply :: string where "CommandApply = ''apply''"
definition CommandDisable :: string where "CommandDisable = ''disable''"
definition CommandReconcile :: string where "CommandReconcile = ''reconcile''"
definition CommandTokenRotate :: string where "CommandTokenRotate = ''token_rotate''"
definition CommandStatsCollect :: string where "CommandStatsCollect = ''stats_collect''"
definition CommandAutogenApprove :: string where "CommandAutogenApprove = ''autogen_approve''"
definition CommandAutogenReject :: string where "CommandAutogenReject = ''autogen_reject''"

record Command =
  cm_ID :: string
  cm_Kind :: string
  cm_ContainerID :: string
  cm_Payload :: payload
  cm_IssuedAt :: gotime

record CommandAck =
  ca_ID :: string
  ca_AgentID :: string
  ca_Success :: bool
  ca_Error :: string
  ca_CompletedAt :: gotime
  ca_ResultPayload :: payload

record PolicyTemplate =
  pt_Name :: string
  pt_Version :: int
  pt_Body :: string
  pt_Labels :: "(string \<times> string) list"
  pt_Publisher :: string
  pt_CreatedAt :: gotime
  pt_UpdatedAt :: gotime

text \<open>An \<open>ApprovalStatus\<close> is any string; these are the three the code names.\<close>

definition ApprovalPending :: string where "ApprovalPending = ''pending''"
definition ApprovalApproved :: string where "ApprovalApproved = ''approved''"
definition ApprovalRejected :: string where "ApprovalRejected = ''rejected''"

record PendingApproval =
  pa_ID :: string
  pa_PolicyName :: string
  pa_ProposedBody :: string
  pa_Requester :: string
  pa_RequesterFinger :: string
  pa_RequestedAt :: gotime
  pa_Approver :: string
  pa_ApproverFinger :: string
  pa_ApprovedAt :: "gotime option"
  pa_Status :: string
  pa_RejectionComment :: string

record PolicyVersion =
  pv_SHA :: string
  pv_Name :: string
  pv_DSL :: string
  pv_Author :: string
  pv_Comment :: string
  pv_CommittedAt :: gotime

record AgentRecord =
  ag_Identity :: AgentIdentity
  ag_FirstSeen :: gotime
  ag_LastSeen :: gotime
  ag_EventCount :: int
  ag_HasSnapshot :: bool

record AuditRecord =
  au_AgentID :: string
  au_Kind :: string
  au_Payload :: payload
  au_At :: gotime

datatype cp_error =
    CPError string
  | ErrTemplateNotFound
  | ErrApprovalNotFound
  | ErrSelfApprove
  | ErrApprovalNotPending
  | ErrAgentTokenUnknown
  | ErrAgentTokenRevoked
  | ErrNoRows
  | ErrDB string

definition no_identity :: AgentIdentity where
  "no_identity = \<lparr>ai_InstanceID = [], ai_Hostname = [], ai_Version = [], ai_Backend = [], ai_Chain = [], ai_Labels = []\<rparr>"

text \<open>\<open>sort.Slice\<close> with the newest first, and a limit on the result.\<close>

definition newest_first :: "('a \<Rightarrow> gotime) \<Rightarrow> 'a list \<Rightarrow> 'a list" where
  "newest_first f xs = sort_key (\<lambda>x. - f x) xs"

lemma set_newest_first [simp]: "set (newest_first f xs) = set xs"
  by (simp add: newest_first_def)

section \<open>Agent tokens\<close>

definition agentTokenPrefix :: string where "agentTokenPrefix = ''agt_''"

text \<open>The random bytes are an argument, \<open>None\<close> when reading them fails.\<close>

definition hex_digit :: "nat \<Rightarrow> char" where
  "hex_digit d = (if d < 10 then char_of (48 + d) else char_of (87 + d))"

definition hex_EncodeToString :: "8 word list \<Rightarrow> string" where
  "hex_EncodeToString bs = concat (map (\<lambda>b. [hex_digit (unat b div 16), hex_digit (unat b mod 16)]) bs)"

definition generateAgentTokenPlaintext :: "8 word list option \<Rightarrow> cp_error + string" where
  "generateAgentTokenPlaintext rnd =
     (case rnd of None \<Rightarrow> Inl (CPError ''read random'') | Some buf \<Rightarrow> Inr (agentTokenPrefix @ hex_EncodeToString buf))"

definition looksLikeAgentToken :: "string \<Rightarrow> bool" where
  "looksLikeAgentToken plaintext = strings_HasPrefix plaintext agentTokenPrefix"

definition new_agent_token :: "string \<Rightarrow> string \<Rightarrow> string \<Rightarrow> string \<Rightarrow> gotime \<Rightarrow> AgentToken" where
  "new_agent_token tid name description issuedBy now =
     \<lparr>at_ID = tid, at_Name = name, at_Description = strings_TrimSpace description,
      at_IssuedBy = strings_TrimSpace issuedBy, at_IssuedAt = now,
      at_LastUsedAt = None, at_LastUsedIP = [], at_RevokedAt = None\<rparr>"

text \<open>\<open>newApprovalID\<close>: the digest is the argument \<open>sha256\<close>, the nonce the argument \<open>nonce\<close>.\<close>

definition newApprovalID ::
  "(string \<Rightarrow> 8 word list) \<Rightarrow> string \<Rightarrow> string \<Rightarrow> string \<Rightarrow> string \<Rightarrow> string" where
  "newApprovalID sha256 nonce policyName body finger =
     hex_EncodeToString (take 16 (sha256 (policyName @ [CHR 0x00] @ body @ [CHR 0x00] @ finger @ [CHR 0x00] @ nonce)))"

section \<open>Approvals\<close>

text \<open>The checks both stores make of a new request, and the fields they fill in.\<close>

definition approval_request ::
  "(string \<Rightarrow> 8 word list) \<Rightarrow> string \<Rightarrow> gotime \<Rightarrow> PendingApproval \<Rightarrow> cp_error + PendingApproval" where
  "approval_request sha256 nonce now p =
     (if pa_PolicyName p = [] \<or> pa_ProposedBody p = [] then Inl (CPError ''policy_name and proposed_body required'')
      else if pa_Requester p = [] \<or> pa_RequesterFinger p = [] then Inl (CPError ''requester and requester_fingerprint required'')
      else Inr (p\<lparr>
        pa_ID := (if pa_ID p = [] then newApprovalID sha256 nonce (pa_PolicyName p) (pa_ProposedBody p) (pa_RequesterFinger p) else pa_ID p),
        pa_RequestedAt := or_now now (pa_RequestedAt p),
        pa_Status := (if pa_Status p = [] then ApprovalPending else pa_Status p)\<rparr>))"

text \<open>What approving or rejecting a request requires of it, and the request afterwards.\<close>

definition may_decide :: "string \<Rightarrow> PendingApproval \<Rightarrow> cp_error option" where
  "may_decide approverFinger p =
     (if pa_Status p \<noteq> ApprovalPending then Some ErrApprovalNotPending
      else if approverFinger = pa_RequesterFinger p then Some ErrSelfApprove else None)"

definition decided :: "string \<Rightarrow> string \<Rightarrow> string \<Rightarrow> string option \<Rightarrow> gotime \<Rightarrow> PendingApproval \<Rightarrow> PendingApproval" where
  "decided status approver approverFinger rejection now p =
     p\<lparr>pa_Approver := approver, pa_ApproverFinger := approverFinger, pa_ApprovedAt := Some now, pa_Status := status,
       pa_RejectionComment := (case rejection of None \<Rightarrow> pa_RejectionComment p | Some c \<Rightarrow> c)\<rparr>"

end
