(* ===== verification/CP_MemStore.thy ===== *)
theory CP_MemStore
  imports CP_Types
begin

text \<open>
  The in-memory store of the control plane: the type \<open>memStore\<close> of
  \<open>backend/internal/controlplane/store.go\<close> and its methods there and in \<open>store_agent_tokens.go\<close>.

  Every method holds the store's mutex, so it is one transition. The clock is the argument \<open>now\<close>,
  one instant per call; random bytes, fresh ids and SHA-256 are arguments too.
\<close>

record memAgentToken =
  mt_rec :: AgentToken
  mt_hash :: string

record memRenewRow =
  mr_agentID :: string
  mr_at :: gotime

record memStore =
  m_agents :: "(string \<times> AgentRecord) list"
  m_cmds :: "(string \<times> Command list) list"
  m_acks :: "(string \<times> CommandAck) list"
  m_policies :: "(string \<times> PolicyVersion) list"
  m_templates :: "(string \<times> PolicyTemplate) list"
  m_approvals :: "(string \<times> PendingApproval) list"
  m_snapshots :: "(string \<times> AgentSnapshot) list"
  m_enrollments :: "(string \<times> EnrollmentToken) list"
  m_renewals :: "(string \<times> memRenewRow) list"
  m_proposals :: "(string \<times> (string \<times> AutogenProposal) list) list"
  m_auditLog :: "AuditRecord list"
  m_agentTokens :: "(string \<times> memAgentToken) list"

definition NewMemoryStore :: memStore where
  "NewMemoryStore =
     \<lparr>m_agents = [], m_cmds = [], m_acks = [], m_policies = [], m_templates = [], m_approvals = [], m_snapshots = [],
      m_enrollments = [], m_renewals = [], m_proposals = [], m_auditLog = [], m_agentTokens = []\<rparr>"

section \<open>Agents, snapshots and the audit log\<close>

definition mem_UpsertAgent :: "gotime \<Rightarrow> AgentIdentity \<Rightarrow> memStore \<Rightarrow> memStore" where
  "mem_UpsertAgent now aid m =
     (let r = (case map_of (m_agents m) (ai_InstanceID aid) of
                   Some r \<Rightarrow> r
                 | None \<Rightarrow> \<lparr>ag_Identity = aid, ag_FirstSeen = now, ag_LastSeen = 0, ag_EventCount = 0, ag_HasSnapshot = False\<rparr>)
      in m\<lparr>m_agents := AList.update (ai_InstanceID aid) (r\<lparr>ag_Identity := aid, ag_LastSeen := now\<rparr>) (m_agents m)\<rparr>)"

definition mem_RecordSnapshot :: "gotime \<Rightarrow> AgentSnapshot \<Rightarrow> memStore \<Rightarrow> memStore" where
  "mem_RecordSnapshot now snap m =
     (let aid = ai_InstanceID (as_Agent snap);
          r = (case map_of (m_agents m) aid of
                   Some r \<Rightarrow> r
                 | None \<Rightarrow> \<lparr>ag_Identity = no_identity, ag_FirstSeen = 0, ag_LastSeen = 0, ag_EventCount = 0, ag_HasSnapshot = False\<rparr>)
      in m\<lparr>m_agents := AList.update aid (r\<lparr>ag_Identity := as_Agent snap, ag_FirstSeen := or_now now (ag_FirstSeen r),
               ag_LastSeen := now, ag_HasSnapshot := True\<rparr>) (m_agents m),
           m_snapshots := AList.update aid snap (m_snapshots m)\<rparr>)"

definition mem_LatestSnapshot :: "string \<Rightarrow> memStore \<Rightarrow> AgentSnapshot option" where
  "mem_LatestSnapshot agentID m = map_of (m_snapshots m) agentID"

definition mem_RecordAudit :: "gotime \<Rightarrow> string \<Rightarrow> string \<Rightarrow> payload \<Rightarrow> gotime \<Rightarrow> memStore \<Rightarrow> memStore" where
  "mem_RecordAudit now agentID kind pl at_time m =
     m\<lparr>m_agents := (case map_of (m_agents m) agentID of
           Some r \<Rightarrow> AList.update agentID (r\<lparr>ag_EventCount := ag_EventCount r + 1\<rparr>) (m_agents m)
         | None \<Rightarrow> m_agents m),
       m_auditLog := m_auditLog m @ [\<lparr>au_AgentID = agentID, au_Kind = kind, au_Payload = pl, au_At = or_now now at_time\<rparr>]\<rparr>"

definition mem_ListAuditEvents :: "string \<Rightarrow> int \<Rightarrow> memStore \<Rightarrow> AuditRecord list" where
  "mem_ListAuditEvents agentID limit m =
     (let n = (if limit \<le> 0 then 100 else nat limit) in
      take n (filter (\<lambda>r. agentID = [] \<or> au_AgentID r = agentID) (rev (m_auditLog m))))"

definition mem_GetAgent :: "string \<Rightarrow> memStore \<Rightarrow> AgentRecord option" where
  "mem_GetAgent agentID m = map_of (m_agents m) agentID"

definition mem_ListAgents :: "memStore \<Rightarrow> AgentRecord list" where
  "mem_ListAgents m = sort_key (\<lambda>r. ai_InstanceID (ag_Identity r)) (map snd (m_agents m))"

section \<open>Proposals\<close>

definition put_proposal :: "gotime \<Rightarrow> AutogenProposal \<Rightarrow> memStore \<Rightarrow> memStore" where
  "put_proposal now p m =
     (if ap_AgentID p = [] \<or> ap_ContainerID p = [] then m
      else
        (let bucket = (case map_of (m_proposals m) (ap_AgentID p) of Some b \<Rightarrow> b | None \<Rightarrow> []) in
         m\<lparr>m_proposals := AList.update (ap_AgentID p)
             (AList.update (ap_ContainerID p) (p\<lparr>ap_UpdatedAt := or_now now (ap_UpdatedAt p)\<rparr>) bucket) (m_proposals m)\<rparr>))"

definition mem_RecordProposals :: "gotime \<Rightarrow> AutogenProposal list \<Rightarrow> memStore \<Rightarrow> memStore" where
  "mem_RecordProposals now items m = fold (put_proposal now) items m"

definition mem_ListProposals :: "string \<Rightarrow> memStore \<Rightarrow> AutogenProposal list" where
  "mem_ListProposals agentID m =
     (if agentID \<noteq> [] then
        sort_key ap_ContainerID (map snd (case map_of (m_proposals m) agentID of Some b \<Rightarrow> b | None \<Rightarrow> []))
      else sort_key ap_AgentID (sort_key ap_ContainerID (concat (map (\<lambda>(a, b). map snd b) (m_proposals m)))))"

definition mem_DeleteProposal :: "string \<Rightarrow> string \<Rightarrow> memStore \<Rightarrow> memStore" where
  "mem_DeleteProposal agentID containerID m =
     (case map_of (m_proposals m) agentID of
        Some b \<Rightarrow> m\<lparr>m_proposals := AList.update agentID (AList.delete containerID b) (m_proposals m)\<rparr>
      | None \<Rightarrow> m)"

section \<open>Commands\<close>

definition mem_EnqueueCommand :: "string \<Rightarrow> Command \<Rightarrow> memStore \<Rightarrow> cp_error option \<times> memStore" where
  "mem_EnqueueCommand agentID cmd m =
     (if cm_ID cmd = [] then (Some (CPError ''command id required''), m)
      else (None, m\<lparr>m_cmds := AList.update agentID
             ((case map_of (m_cmds m) agentID of Some q \<Rightarrow> q | None \<Rightarrow> []) @ [cmd]) (m_cmds m)\<rparr>))"

definition mem_TakeCommands :: "string \<Rightarrow> memStore \<Rightarrow> Command list \<times> memStore" where
  "mem_TakeCommands agentID m =
     ((case map_of (m_cmds m) agentID of Some q \<Rightarrow> q | None \<Rightarrow> []), m\<lparr>m_cmds := AList.delete agentID (m_cmds m)\<rparr>)"

definition mem_RecordAck :: "CommandAck \<Rightarrow> memStore \<Rightarrow> cp_error option \<times> memStore" where
  "mem_RecordAck ack m =
     (if ca_ID ack = [] then (Some (CPError ''ack id required''), m)
      else (None, m\<lparr>m_acks := AList.update (ca_ID ack) ack (m_acks m)\<rparr>))"

text \<open>Retention: the in-memory store keeps everything.\<close>

definition mem_ExpireCommands :: "duration \<Rightarrow> memStore \<Rightarrow> int \<times> memStore" where
  "mem_ExpireCommands olderThan m = (0, m)"

definition mem_PruneAudit :: "duration \<Rightarrow> memStore \<Rightarrow> int \<times> memStore" where
  "mem_PruneAudit olderThan m = (0, m)"

definition mem_TrimSnapshots :: "int \<Rightarrow> memStore \<Rightarrow> int \<times> memStore" where
  "mem_TrimSnapshots keepPerAgent m = (0, m)"

section \<open>Policy versions\<close>

definition mem_SetPolicyVersion ::
  "(string \<Rightarrow> 8 word list) \<Rightarrow> gotime \<Rightarrow> string \<Rightarrow> string \<Rightarrow> string \<Rightarrow> string \<Rightarrow> memStore \<Rightarrow> PolicyVersion \<times> memStore" where
  "mem_SetPolicyVersion sha256 now name dsl author comment m =
     (let sha = hex_EncodeToString (sha256 dsl);
          pv = \<lparr>pv_SHA = sha, pv_Name = name, pv_DSL = dsl, pv_Author = author, pv_Comment = comment, pv_CommittedAt = now\<rparr>
      in (pv, m\<lparr>m_policies := AList.update sha pv (m_policies m)\<rparr>))"

definition better_version :: "string \<Rightarrow> PolicyVersion \<Rightarrow> PolicyVersion option \<Rightarrow> PolicyVersion option" where
  "better_version name pv best =
     (if pv_Name pv \<noteq> name then best
      else (case best of
              None \<Rightarrow> Some pv
            | Some b \<Rightarrow> if pv_SHA b = [] \<or> pv_CommittedAt b < pv_CommittedAt pv then Some pv else Some b))"

definition mem_GetPolicyVersion :: "string \<Rightarrow> memStore \<Rightarrow> cp_error + PolicyVersion" where
  "mem_GetPolicyVersion name m =
     (case fold (better_version name) (map snd (m_policies m)) None of
        Some b \<Rightarrow> if pv_SHA b = [] then Inl ErrNoRows else Inr b
      | None \<Rightarrow> Inl ErrNoRows)"

definition mem_ListPolicyVersions :: "string \<Rightarrow> int \<Rightarrow> memStore \<Rightarrow> PolicyVersion list" where
  "mem_ListPolicyVersions name limit m =
     (let out = newest_first pv_CommittedAt (filter (\<lambda>pv. name = [] \<or> pv_Name pv = name) (map snd (m_policies m))) in
      if 0 < limit then take (nat limit) out else out)"

section \<open>Templates\<close>

definition mem_PublishTemplate :: "gotime \<Rightarrow> PolicyTemplate \<Rightarrow> memStore \<Rightarrow> (cp_error + PolicyTemplate) \<times> memStore" where
  "mem_PublishTemplate now t m =
     (if pt_Name t = [] then (Inl (CPError ''template name required''), m)
      else
        (let t' = (case map_of (m_templates m) (pt_Name t) of
                     Some prev \<Rightarrow> t\<lparr>pt_Version := pt_Version prev + 1, pt_CreatedAt := pt_CreatedAt prev, pt_UpdatedAt := now\<rparr>
                   | None \<Rightarrow> t\<lparr>pt_Version := 1, pt_CreatedAt := now, pt_UpdatedAt := now\<rparr>)
         in (Inr t', m\<lparr>m_templates := AList.update (pt_Name t) t' (m_templates m)\<rparr>)))"

definition mem_GetTemplate :: "string \<Rightarrow> memStore \<Rightarrow> cp_error + PolicyTemplate" where
  "mem_GetTemplate name m = (case map_of (m_templates m) name of None \<Rightarrow> Inl ErrTemplateNotFound | Some t \<Rightarrow> Inr t)"

definition mem_ListTemplates :: "memStore \<Rightarrow> PolicyTemplate list" where
  "mem_ListTemplates m = sort_key pt_Name (map snd (m_templates m))"

section \<open>Approvals\<close>

definition mem_CreateApproval ::
  "(string \<Rightarrow> 8 word list) \<Rightarrow> string \<Rightarrow> gotime \<Rightarrow> PendingApproval \<Rightarrow> memStore \<Rightarrow> (cp_error + PendingApproval) \<times> memStore" where
  "mem_CreateApproval sha256 nonce now p m =
     (case approval_request sha256 nonce now p of
        Inl e \<Rightarrow> (Inl e, m)
      | Inr p' \<Rightarrow> (Inr p', m\<lparr>m_approvals := AList.update (pa_ID p') p' (m_approvals m)\<rparr>))"

definition mem_GetApproval :: "string \<Rightarrow> memStore \<Rightarrow> cp_error + PendingApproval" where
  "mem_GetApproval aid m = (case map_of (m_approvals m) aid of None \<Rightarrow> Inl ErrApprovalNotFound | Some p \<Rightarrow> Inr p)"

definition mem_ListApprovals :: "string \<Rightarrow> memStore \<Rightarrow> PendingApproval list" where
  "mem_ListApprovals status m =
     newest_first pa_RequestedAt (filter (\<lambda>p. status = [] \<or> pa_Status p = status) (map snd (m_approvals m)))"

definition mem_ApproveApproval ::
  "gotime \<Rightarrow> string \<Rightarrow> string \<Rightarrow> string \<Rightarrow> memStore \<Rightarrow> (cp_error + PendingApproval) \<times> memStore" where
  "mem_ApproveApproval now aid approver approverFinger m =
     (if approver = [] \<or> approverFinger = [] then (Inl (CPError ''approver and approver_fingerprint required''), m)
      else (case map_of (m_approvals m) aid of
              None \<Rightarrow> (Inl ErrApprovalNotFound, m)
            | Some p \<Rightarrow>
                (case may_decide approverFinger p of
                   Some e \<Rightarrow> (Inl e, m)
                 | None \<Rightarrow>
                     (let p' = decided ApprovalApproved approver approverFinger None now p
                      in (Inr p', m\<lparr>m_approvals := AList.update aid p' (m_approvals m)\<rparr>)))))"

definition mem_RejectApproval ::
  "gotime \<Rightarrow> string \<Rightarrow> string \<Rightarrow> string \<Rightarrow> string \<Rightarrow> memStore \<Rightarrow> (cp_error + PendingApproval) \<times> memStore" where
  "mem_RejectApproval now aid approver approverFinger comment m =
     (if approver = [] \<or> approverFinger = [] then (Inl (CPError ''approver and approver_fingerprint required''), m)
      else (case map_of (m_approvals m) aid of
              None \<Rightarrow> (Inl ErrApprovalNotFound, m)
            | Some p \<Rightarrow>
                (case may_decide approverFinger p of
                   Some e \<Rightarrow> (Inl e, m)
                 | None \<Rightarrow>
                     (let p' = decided ApprovalRejected approver approverFinger (Some comment) now p
                      in (Inr p', m\<lparr>m_approvals := AList.update aid p' (m_approvals m)\<rparr>)))))"

section \<open>Enrollment tokens\<close>

definition mem_CreateEnrollmentToken :: "EnrollmentToken \<Rightarrow> memStore \<Rightarrow> cp_error option \<times> memStore" where
  "mem_CreateEnrollmentToken t m =
     (if et_Token t = [] then (Some (CPError ''token required''), m)
      else (None, m\<lparr>m_enrollments := AList.update (et_Token t) t (m_enrollments m)\<rparr>))"

definition mem_ConsumeEnrollmentToken :: "gotime \<Rightarrow> string \<Rightarrow> string \<Rightarrow> memStore \<Rightarrow> (cp_error + EnrollmentToken) \<times> memStore" where
  "mem_ConsumeEnrollmentToken now token ip m =
     (case map_of (m_enrollments m) token of
        None \<Rightarrow> (Inl (CPError ''enrollment token not found''), m)
      | Some et \<Rightarrow>
          (if et_ConsumedAt et \<noteq> None then (Inl (CPError ''enrollment token already used''), m)
           else if et_ExpiresAt et < now then (Inl (CPError ''enrollment token expired''), m)
           else
             (let et' = et\<lparr>et_ConsumedAt := Some now, et_ConsumerIP := ip\<rparr>
              in (Inr et', m\<lparr>m_enrollments := AList.update token et' (m_enrollments m)\<rparr>))))"

definition mem_ListEnrollmentTokens :: "bool \<Rightarrow> memStore \<Rightarrow> EnrollmentToken list" where
  "mem_ListEnrollmentTokens includeUsed m =
     newest_first et_IssuedAt (filter (\<lambda>et. includeUsed \<or> et_ConsumedAt et = None) (map snd (m_enrollments m)))"

definition mem_RevokeEnrollmentToken :: "gotime \<Rightarrow> string \<Rightarrow> memStore \<Rightarrow> cp_error option \<times> memStore" where
  "mem_RevokeEnrollmentToken now token m =
     (case map_of (m_enrollments m) token of
        None \<Rightarrow> (Some (CPError ''enrollment token not found or already used''), m)
      | Some et \<Rightarrow>
          (if et_ConsumedAt et \<noteq> None then (Some (CPError ''enrollment token not found or already used''), m)
           else (None, m\<lparr>m_enrollments := AList.update token
                   (et\<lparr>et_ConsumedAt := Some now, et_ConsumerIP := ''revoked''\<rparr>) (m_enrollments m)\<rparr>)))"

section \<open>Certificate renewals\<close>

definition mem_RecordCertRenew :: "string \<Rightarrow> string \<Rightarrow> gotime \<Rightarrow> memStore \<Rightarrow> cp_error option \<times> memStore" where
  "mem_RecordCertRenew serial agentID at_time m =
     (if serial = [] then (Some (CPError ''empty serial''), m)
      else (None, m\<lparr>m_renewals := AList.update (strings_ToLower serial) \<lparr>mr_agentID = agentID, mr_at = at_time\<rparr> (m_renewals m)\<rparr>))"

definition mem_LastCertRenew :: "string \<Rightarrow> memStore \<Rightarrow> gotime option" where
  "mem_LastCertRenew serial m =
     (if serial = [] then None else map_option mr_at (map_of (m_renewals m) (strings_ToLower serial)))"

definition mem_PruneCertRenewHistory :: "string list \<Rightarrow> memStore \<Rightarrow> memStore" where
  "mem_PruneCertRenewHistory serials m =
     m\<lparr>m_renewals := fold (\<lambda>s. AList.delete (strings_ToLower s)) serials (m_renewals m)\<rparr>"

section \<open>Agent tokens\<close>

definition hashAgentToken :: "(string \<Rightarrow> 8 word list) \<Rightarrow> string \<Rightarrow> string" where
  "hashAgentToken sha256 plaintext = hex_EncodeToString (sha256 plaintext)"

definition mem_CreateAgentToken ::
  "(string \<Rightarrow> 8 word list) \<Rightarrow> 8 word list option \<Rightarrow> string \<Rightarrow> gotime \<Rightarrow> string \<Rightarrow> string \<Rightarrow> string
   \<Rightarrow> memStore \<Rightarrow> (cp_error + AgentTokenIssued) \<times> memStore" where
  "mem_CreateAgentToken sha256 rnd uuid now name0 description issuedBy m =
     (let name = strings_TrimSpace name0 in
      if name = [] then (Inl (CPError ''name required''), m)
      else (case generateAgentTokenPlaintext rnd of
              Inl e \<Rightarrow> (Inl e, m)
            | Inr plaintext \<Rightarrow>
                (let tok = new_agent_token uuid name description issuedBy now
                 in (Inr \<lparr>ati_AgentToken = tok, ati_Token = plaintext\<rparr>,
                     m\<lparr>m_agentTokens := AList.update uuid \<lparr>mt_rec = tok, mt_hash = hashAgentToken sha256 plaintext\<rparr> (m_agentTokens m)\<rparr>))))"

text \<open>\<open>sortAgentTokens\<close>: an exchange sort in place, the outer loop over i and the inner over j > i.\<close>

definition swap :: "nat \<Rightarrow> nat \<Rightarrow> 'a list \<Rightarrow> 'a list" where
  "swap i j xs = xs[i := xs ! j, j := xs ! i]"

fun exchange_inner :: "nat \<Rightarrow> nat list \<Rightarrow> AgentToken list \<Rightarrow> AgentToken list" where
  "exchange_inner i [] xs = xs"
| "exchange_inner i (j # js) xs =
     exchange_inner i js (if at_IssuedAt (xs ! i) < at_IssuedAt (xs ! j) then swap i j xs else xs)"

definition sortAgentTokens :: "AgentToken list \<Rightarrow> AgentToken list" where
  "sortAgentTokens xs = fold (\<lambda>i. exchange_inner i [Suc i..<length xs]) [0..<length xs] xs"

definition mem_ListAgentTokens :: "bool \<Rightarrow> memStore \<Rightarrow> AgentToken list" where
  "mem_ListAgentTokens includeRevoked m =
     sortAgentTokens (filter (\<lambda>t. includeRevoked \<or> at_RevokedAt t = None) (map (mt_rec \<circ> snd) (m_agentTokens m)))"

definition mem_GetAgentToken :: "string \<Rightarrow> memStore \<Rightarrow> AgentToken option" where
  "mem_GetAgentToken tid m = map_option mt_rec (map_of (m_agentTokens m) tid)"

definition mem_RevokeAgentToken :: "gotime \<Rightarrow> string \<Rightarrow> memStore \<Rightarrow> cp_error option \<times> memStore" where
  "mem_RevokeAgentToken now tid m =
     (case map_of (m_agentTokens m) tid of
        None \<Rightarrow> (Some ErrAgentTokenUnknown, m)
      | Some v \<Rightarrow>
          (if at_RevokedAt (mt_rec v) \<noteq> None then (Some ErrAgentTokenUnknown, m)
           else (None, m\<lparr>m_agentTokens := AList.update tid (v\<lparr>mt_rec := (mt_rec v)\<lparr>at_RevokedAt := Some now\<rparr>\<rparr>) (m_agentTokens m)\<rparr>)))"

fun find_token :: "string \<Rightarrow> (string \<times> memAgentToken) list \<Rightarrow> cp_error + AgentToken" where
  "find_token h [] = Inl ErrAgentTokenUnknown"
| "find_token h ((k, v) # r) =
     (if mt_hash v = h then (if at_RevokedAt (mt_rec v) \<noteq> None then Inl ErrAgentTokenRevoked else Inr (mt_rec v))
      else find_token h r)"

definition mem_ValidateAgentToken :: "(string \<Rightarrow> 8 word list) \<Rightarrow> string \<Rightarrow> memStore \<Rightarrow> cp_error + AgentToken" where
  "mem_ValidateAgentToken sha256 plaintext m =
     (if plaintext = [] then Inl ErrAgentTokenUnknown
      else find_token (hashAgentToken sha256 plaintext) (m_agentTokens m))"

definition mem_TouchAgentToken :: "gotime \<Rightarrow> string \<Rightarrow> string \<Rightarrow> memStore \<Rightarrow> cp_error option \<times> memStore" where
  "mem_TouchAgentToken now tid ip m =
     (case map_of (m_agentTokens m) tid of
        None \<Rightarrow> (Some ErrAgentTokenUnknown, m)
      | Some v \<Rightarrow>
          (None, m\<lparr>m_agentTokens := AList.update tid
             (v\<lparr>mt_rec := (mt_rec v)\<lparr>at_LastUsedAt := Some now, at_LastUsedIP := strings_TrimSpace ip\<rparr>\<rparr>) (m_agentTokens m)\<rparr>))"

end
