(* ===== verification/CP_SQLite.thy ===== *)
theory CP_SQLite
  imports CP_Types
begin

text \<open>
  The persistent store of the control plane: the type \<open>sqliteStore\<close> of
  \<open>backend/internal/controlplane/store.go\<close>, \<open>store_templates.go\<close> and \<open>store_agent_tokens.go\<close>, over the
  tables its migrations create (\<open>migrations/*.sql\<close>).

  A table is the list of its rows in insertion order, a row a record with the columns the
  statements name; a nullable column is an option and a column with JSON text holds the value it
  encodes. The statements of an operation are its list functions: an insert checks
  the primary key (and unique columns), \<open>ON CONFLICT\<close> updates the row in place, \<open>ORDER BY\<close> is a stable
  sort. The connection pool has one connection, so an operation is one transition.

  Any statement may fail for a reason outside the program. The argument \<open>flt\<close> of an operation
  gives, for its n-th statement, the driver's error if there is one; a statement that fails
  changes nothing.
\<close>

type_synonym faults = "nat \<Rightarrow> string option"

section \<open>Rows and tables\<close>

record agent_row =
  ar_id :: string
  ar_hostname :: string
  ar_version :: "string option"
  ar_backend :: "string option"
  ar_chain :: "string option"
  ar_labels :: "(string \<times> string) list"
  ar_first_seen :: gotime
  ar_last_seen :: gotime

record snapshot_row =
  sr_id :: nat
  sr_agent_id :: string
  sr_at :: gotime
  sr_payload :: AgentSnapshot

record audit_row =
  er_agent_id :: "string option"
  er_at :: gotime
  er_kind :: "string option"
  er_payload :: payload

record command_row =
  cr_id :: string
  cr_agent_id :: string
  cr_kind :: string
  cr_container_id :: "string option"
  cr_payload :: payload
  cr_issued_at :: gotime
  cr_delivered_at :: "gotime option"
  cr_acked_at :: "gotime option"
  cr_success :: "bool option"
  cr_error :: "string option"
  cr_expired :: bool

record policy_row =
  pr_sha :: string
  pr_name :: string
  pr_dsl :: string
  pr_author :: "string option"
  pr_comment :: "string option"
  pr_committed_at :: gotime

record template_row =
  tr_name :: string
  tr_version :: int
  tr_body :: string
  tr_labels :: "(string \<times> string) list"
  tr_publisher :: "string option"
  tr_created_at :: gotime
  tr_updated_at :: gotime

record approval_row =
  qr_id :: string
  qr_policy_name :: string
  qr_proposed_body :: string
  qr_requester :: string
  qr_requester_fingerprint :: string
  qr_requested_at :: gotime
  qr_approver :: "string option"
  qr_approver_fingerprint :: "string option"
  qr_approved_at :: "gotime option"
  qr_status :: string
  qr_rejection_comment :: "string option"

record enrollment_row =
  nr_token :: string
  nr_agent_id :: string
  nr_ttl_seconds :: int
  nr_expires_at :: gotime
  nr_issued_by :: string
  nr_issued_at :: gotime
  nr_consumed_at :: "gotime option"
  nr_consumer_ip :: "string option"

record renew_row =
  wr_serial :: string
  wr_agent_id :: string
  wr_last_renew_at :: gotime

record token_row =
  kr_id :: string
  kr_token_hash :: string
  kr_name :: string
  kr_description :: string
  kr_issued_by :: string
  kr_issued_at :: gotime
  kr_last_used_at :: "gotime option"
  kr_last_used_ip :: "string option"
  kr_revoked_at :: "gotime option"

record sqliteStore =
  d_schema :: "int list"
  d_agents :: "agent_row list"
  d_snapshots :: "snapshot_row list"
  d_next_snapshot :: nat
  d_audit :: "audit_row list"
  d_commands :: "command_row list"
  d_policies :: "policy_row list"
  d_templates :: "template_row list"
  d_approvals :: "approval_row list"
  d_enrollments :: "enrollment_row list"
  d_renewals :: "renew_row list"
  d_proposals :: "AutogenProposal list"
  d_tokens :: "token_row list"

definition empty_db :: sqliteStore where
  "empty_db = \<lparr>d_schema = [], d_agents = [], d_snapshots = [], d_next_snapshot = 1, d_audit = [], d_commands = [],
     d_policies = [], d_templates = [], d_approvals = [], d_enrollments = [], d_renewals = [], d_proposals = [], d_tokens = []\<rparr>"

definition nullIfEmpty :: "string \<Rightarrow> string option" where
  "nullIfEmpty s = (if s = [] then None else Some s)"

definition from_null :: "string option \<Rightarrow> string" where
  "from_null x = (case x of Some s \<Rightarrow> s | None \<Rightarrow> [])"

definition insert_row :: "('r \<Rightarrow> 'k) \<Rightarrow> 'r \<Rightarrow> 'r list \<Rightarrow> 'r list option" where
  "insert_row key r rows = (if key r \<in> key ` set rows then None else Some (rows @ [r]))"

definition upsert_row :: "('r \<Rightarrow> 'k) \<Rightarrow> ('r \<Rightarrow> 'r) \<Rightarrow> 'r \<Rightarrow> 'r list \<Rightarrow> 'r list" where
  "upsert_row key upd r rows =
     (if key r \<in> key ` set rows then map (\<lambda>x. if key x = key r then upd x else x) rows else rows @ [r])"

definition update_rows :: "('r \<Rightarrow> bool) \<Rightarrow> ('r \<Rightarrow> 'r) \<Rightarrow> 'r list \<Rightarrow> 'r list" where
  "update_rows P f rows = map (\<lambda>x. if P x then f x else x) rows"

definition constraint_error :: cp_error where
  "constraint_error = ErrDB ''constraint failed: UNIQUE constraint failed''"

section \<open>Migrations\<close>

definition currentVersion :: "faults \<Rightarrow> sqliteStore \<Rightarrow> cp_error + int" where
  "currentVersion flt s =
     (case flt 0 of Some e \<Rightarrow> Inl (ErrDB e)
      | None \<Rightarrow> (case flt 1 of Some e \<Rightarrow> Inl (ErrDB e) | None \<Rightarrow> Inr (fold max (d_schema s) 0)))"

definition migration_version :: "string \<Rightarrow> int option" where
  "migration_version entry =
     (let name = strings_TrimSuffix (drop (length ''migrations/'') entry) ''.sql'';
          digits = (case strings_Index name CHR ''_'' of Some i \<Rightarrow> if 0 < i then take i name else name | None \<Rightarrow> name)
      in strconv_Atoi digits)"

text \<open>The loop over the migration files, in the order of their names; a migration takes two statements.\<close>

fun migrate_loop :: "faults \<Rightarrow> nat \<Rightarrow> int \<Rightarrow> string list \<Rightarrow> sqliteStore \<Rightarrow> cp_error option \<times> sqliteStore" where
  "migrate_loop flt n current [] s = (None, s)"
| "migrate_loop flt n current (entry # entries) s =
     (case migration_version entry of
        None \<Rightarrow> (Some (CPError ''migration: bad version prefix''), s)
      | Some v \<Rightarrow>
          (if v \<le> current then migrate_loop flt n current entries s
           else (case flt n of
                   Some e \<Rightarrow> (Some (ErrDB e), s)
                 | None \<Rightarrow>
                     (case flt (Suc n) of
                        Some e \<Rightarrow> (Some (ErrDB e), s)
                      | None \<Rightarrow> migrate_loop flt (n + 2) current entries (s\<lparr>d_schema := d_schema s @ [v]\<rparr>)))))"

definition migrate :: "faults \<Rightarrow> string list \<Rightarrow> sqliteStore \<Rightarrow> cp_error option \<times> sqliteStore" where
  "migrate flt entries s =
     (case currentVersion flt s of
        Inl e \<Rightarrow> (Some e, s)
      | Inr current \<Rightarrow> migrate_loop flt 2 current (sort entries) s)"

section \<open>Agents, snapshots and the audit log\<close>

definition agent_to_row :: "gotime \<Rightarrow> AgentIdentity \<Rightarrow> agent_row" where
  "agent_to_row now aid =
     \<lparr>ar_id = ai_InstanceID aid, ar_hostname = ai_Hostname aid, ar_version = Some (ai_Version aid), ar_backend = Some (ai_Backend aid),
      ar_chain = Some (ai_Chain aid), ar_labels = ai_Labels aid, ar_first_seen = now, ar_last_seen = now\<rparr>"

definition sql_UpsertAgent :: "faults \<Rightarrow> gotime \<Rightarrow> AgentIdentity \<Rightarrow> sqliteStore \<Rightarrow> cp_error option \<times> sqliteStore" where
  "sql_UpsertAgent flt now aid s =
     (case flt 0 of Some e \<Rightarrow> (Some (ErrDB e), s)
      | None \<Rightarrow>
          (let r = agent_to_row now aid in
           (None, s\<lparr>d_agents := upsert_row ar_id
              (\<lambda>x. x\<lparr>ar_hostname := ar_hostname r, ar_version := ar_version r, ar_backend := ar_backend r,
                     ar_chain := ar_chain r, ar_labels := ar_labels r, ar_last_seen := ar_last_seen r\<rparr>) r (d_agents s)\<rparr>)))"

definition sql_RecordSnapshot :: "faults \<Rightarrow> gotime \<Rightarrow> AgentSnapshot \<Rightarrow> sqliteStore \<Rightarrow> cp_error option \<times> sqliteStore" where
  "sql_RecordSnapshot flt now snap s =
     (case sql_UpsertAgent flt now (as_Agent snap) s of
        (Some e, s1) \<Rightarrow> (Some e, s1)
      | (None, s1) \<Rightarrow>
          (case flt 1 of
             Some e \<Rightarrow> (Some (ErrDB e), s1)
           | None \<Rightarrow> (None, s1\<lparr>d_snapshots := d_snapshots s1 @ [\<lparr>sr_id = d_next_snapshot s1, sr_agent_id = ai_InstanceID (as_Agent snap),
                 sr_at = or_now now (as_At snap), sr_payload = snap\<rparr>], d_next_snapshot := Suc (d_next_snapshot s1)\<rparr>)))"

definition sql_RecordAudit ::
  "faults \<Rightarrow> gotime \<Rightarrow> string \<Rightarrow> string \<Rightarrow> payload \<Rightarrow> gotime \<Rightarrow> sqliteStore \<Rightarrow> cp_error option \<times> sqliteStore" where
  "sql_RecordAudit flt now agentID kind pl at_time s =
     (case flt 0 of Some e \<Rightarrow> (Some (ErrDB e), s)
      | None \<Rightarrow> (None, s\<lparr>d_audit := d_audit s @ [\<lparr>er_agent_id = nullIfEmpty agentID, er_at = or_now now at_time,
            er_kind = nullIfEmpty kind, er_payload = pl\<rparr>]\<rparr>))"

definition agent_record :: "sqliteStore \<Rightarrow> agent_row \<Rightarrow> AgentRecord" where
  "agent_record s r =
     \<lparr>ag_Identity = \<lparr>ai_InstanceID = ar_id r, ai_Hostname = ar_hostname r, ai_Version = from_null (ar_version r),
          ai_Backend = from_null (ar_backend r), ai_Chain = from_null (ar_chain r), ai_Labels = ar_labels r\<rparr>,
      ag_FirstSeen = ar_first_seen r, ag_LastSeen = ar_last_seen r,
      ag_EventCount = int (length (filter (\<lambda>e. er_agent_id e = Some (ar_id r)) (d_audit s))),
      ag_HasSnapshot = list_ex (\<lambda>p. sr_agent_id p = ar_id r) (d_snapshots s)\<rparr>"

definition sql_ListAgents :: "faults \<Rightarrow> sqliteStore \<Rightarrow> cp_error + AgentRecord list" where
  "sql_ListAgents flt s =
     (case flt 0 of Some e \<Rightarrow> Inl (ErrDB e) | None \<Rightarrow> Inr (map (agent_record s) (sort_key ar_id (d_agents s))))"

definition sql_GetAgent :: "faults \<Rightarrow> string \<Rightarrow> sqliteStore \<Rightarrow> cp_error + AgentRecord option" where
  "sql_GetAgent flt agentID s =
     (case flt 0 of Some e \<Rightarrow> Inl (ErrDB e)
      | None \<Rightarrow> Inr (map_option (agent_record s) (List.find (\<lambda>r. ar_id r = agentID) (d_agents s))))"

definition sql_LatestSnapshot :: "faults \<Rightarrow> string \<Rightarrow> sqliteStore \<Rightarrow> cp_error + AgentSnapshot option" where
  "sql_LatestSnapshot flt agentID s =
     (case flt 0 of Some e \<Rightarrow> Inl (ErrDB e)
      | None \<Rightarrow>
          (case newest_first sr_at (filter (\<lambda>r. sr_agent_id r = agentID) (d_snapshots s)) of
             [] \<Rightarrow> Inr None | r # _ \<Rightarrow> Inr (Some (sr_payload r))))"

definition sql_ListAuditEvents :: "faults \<Rightarrow> string \<Rightarrow> int \<Rightarrow> sqliteStore \<Rightarrow> cp_error + AuditRecord list" where
  "sql_ListAuditEvents flt agentID limit0 s =
     (let limit = (if limit0 \<le> 0 then 100 else nat limit0) in
      case flt 0 of Some e \<Rightarrow> Inl (ErrDB e)
      | None \<Rightarrow> Inr (map (\<lambda>r. \<lparr>au_AgentID = from_null (er_agent_id r), au_Kind = from_null (er_kind r), au_Payload = er_payload r, au_At = er_at r\<rparr>)
          (take limit (newest_first er_at (filter (\<lambda>r. agentID = [] \<or> er_agent_id r = Some agentID) (d_audit s))))))"

section \<open>Commands\<close>

definition command_to_row :: "gotime \<Rightarrow> string \<Rightarrow> Command \<Rightarrow> command_row" where
  "command_to_row now agentID cmd =
     \<lparr>cr_id = cm_ID cmd, cr_agent_id = agentID, cr_kind = cm_Kind cmd, cr_container_id = nullIfEmpty (cm_ContainerID cmd),
      cr_payload = cm_Payload cmd, cr_issued_at = or_now now (cm_IssuedAt cmd), cr_delivered_at = None, cr_acked_at = None,
      cr_success = None, cr_error = None, cr_expired = False\<rparr>"

definition sql_EnqueueCommand :: "faults \<Rightarrow> gotime \<Rightarrow> string \<Rightarrow> Command \<Rightarrow> sqliteStore \<Rightarrow> cp_error option \<times> sqliteStore" where
  "sql_EnqueueCommand flt now agentID cmd s =
     (if cm_ID cmd = [] then (Some (CPError ''command id required''), s)
      else (case flt 0 of Some e \<Rightarrow> (Some (ErrDB e), s)
        | None \<Rightarrow>
            (case insert_row cr_id (command_to_row now agentID cmd) (d_commands s) of
               None \<Rightarrow> (Some constraint_error, s)
             | Some rows \<Rightarrow> (None, s\<lparr>d_commands := rows\<rparr>))))"

definition row_command :: "command_row \<Rightarrow> Command" where
  "row_command r = \<lparr>cm_ID = cr_id r, cm_Kind = cr_kind r, cm_ContainerID = from_null (cr_container_id r),
     cm_Payload = cr_payload r, cm_IssuedAt = cr_issued_at r\<rparr>"

definition pending_row :: "string \<Rightarrow> command_row \<Rightarrow> bool" where
  "pending_row agentID r \<longleftrightarrow> cr_agent_id r = agentID \<and> cr_delivered_at r = None \<and> \<not> cr_expired r"

definition sql_TakeCommands ::
  "faults \<Rightarrow> gotime \<Rightarrow> string \<Rightarrow> sqliteStore \<Rightarrow> (Command list \<times> cp_error option) \<times> sqliteStore" where
  "sql_TakeCommands flt now agentID s =
     (case flt 0 of Some e \<Rightarrow> (([], Some (ErrDB e)), s)
      | None \<Rightarrow>
          (let claimed = sort_key cr_issued_at (filter (pending_row agentID) (d_commands s));
               out = map row_command claimed; ids = map cr_id claimed
           in if ids = [] then ((out, None), s)
              else (case flt 1 of Some e \<Rightarrow> ((out, Some (ErrDB e)), s)
                | None \<Rightarrow> ((out, None), s\<lparr>d_commands :=
                    update_rows (\<lambda>r. cr_id r \<in> set ids) (\<lambda>r. r\<lparr>cr_delivered_at := Some now\<rparr>) (d_commands s)\<rparr>))))"

definition sql_RecordAck :: "faults \<Rightarrow> gotime \<Rightarrow> CommandAck \<Rightarrow> sqliteStore \<Rightarrow> cp_error option \<times> sqliteStore" where
  "sql_RecordAck flt now ack s =
     (if ca_ID ack = [] then (Some (CPError ''ack id required''), s)
      else (case flt 0 of Some e \<Rightarrow> (Some (ErrDB e), s)
        | None \<Rightarrow> (None, s\<lparr>d_commands := update_rows (\<lambda>r. cr_id r = ca_ID ack)
            (\<lambda>r. r\<lparr>cr_acked_at := Some (or_now now (ca_CompletedAt ack)), cr_success := Some (ca_Success ack),
                   cr_error := Some (ca_Error ack)\<rparr>) (d_commands s)\<rparr>)))"

definition stale_row :: "gotime \<Rightarrow> command_row \<Rightarrow> bool" where
  "stale_row cutoff r \<longleftrightarrow> \<not> cr_expired r \<and> cr_acked_at r = None \<and> cr_issued_at r < cutoff"

definition sql_ExpireCommands :: "faults \<Rightarrow> gotime \<Rightarrow> duration \<Rightarrow> sqliteStore \<Rightarrow> (cp_error + nat) \<times> sqliteStore" where
  "sql_ExpireCommands flt now olderThan s =
     (if olderThan \<le> 0 then (Inr 0, s)
      else (case flt 0 of Some e \<Rightarrow> (Inl (ErrDB e), s)
        | None \<Rightarrow> (Inr (length (filter (stale_row (now - olderThan)) (d_commands s))),
            s\<lparr>d_commands := update_rows (stale_row (now - olderThan)) (\<lambda>r. r\<lparr>cr_expired := True\<rparr>) (d_commands s)\<rparr>)))"

section \<open>Retention\<close>

definition sql_PruneAudit :: "faults \<Rightarrow> gotime \<Rightarrow> duration \<Rightarrow> sqliteStore \<Rightarrow> (cp_error + nat) \<times> sqliteStore" where
  "sql_PruneAudit flt now olderThan s =
     (if olderThan \<le> 0 then (Inr 0, s)
      else (case flt 0 of Some e \<Rightarrow> (Inl (ErrDB e), s)
        | None \<Rightarrow> (Inr (length (filter (\<lambda>r. er_at r < now - olderThan) (d_audit s))),
            s\<lparr>d_audit := filter (\<lambda>r. \<not> er_at r < now - olderThan) (d_audit s)\<rparr>)))"

text \<open>The row numbers of \<open>PARTITION BY agent_id ORDER BY at DESC\<close>: a row is kept if it is among the first of its agent.\<close>

definition kept_snapshots :: "nat \<Rightarrow> snapshot_row list \<Rightarrow> string \<Rightarrow> nat list" where
  "kept_snapshots n rows agent = map sr_id (take n (newest_first sr_at (filter (\<lambda>r. sr_agent_id r = agent) rows)))"

definition sql_TrimSnapshots :: "faults \<Rightarrow> int \<Rightarrow> sqliteStore \<Rightarrow> (cp_error + nat) \<times> sqliteStore" where
  "sql_TrimSnapshots flt keepPerAgent s =
     (if keepPerAgent \<le> 0 then (Inr 0, s)
      else (case flt 0 of Some e \<Rightarrow> (Inl (ErrDB e), s)
        | None \<Rightarrow>
            (let kept = filter (\<lambda>r. sr_id r \<in> set (kept_snapshots (nat keepPerAgent) (d_snapshots s) (sr_agent_id r))) (d_snapshots s)
             in (Inr (length (d_snapshots s) - length kept), s\<lparr>d_snapshots := kept\<rparr>))))"

section \<open>Policy versions\<close>

definition sql_SetPolicyVersion ::
  "(string \<Rightarrow> 8 word list) \<Rightarrow> faults \<Rightarrow> gotime \<Rightarrow> string \<Rightarrow> string \<Rightarrow> string \<Rightarrow> string
   \<Rightarrow> sqliteStore \<Rightarrow> (cp_error + PolicyVersion) \<times> sqliteStore" where
  "sql_SetPolicyVersion sha256 flt now name dsl author comment s =
     (let sha = hex_EncodeToString (sha256 dsl) in
      case flt 0 of Some e \<Rightarrow> (Inl (ErrDB e), s)
      | None \<Rightarrow>
          (Inr \<lparr>pv_SHA = sha, pv_Name = name, pv_DSL = dsl, pv_Author = author, pv_Comment = comment, pv_CommittedAt = now\<rparr>,
           s\<lparr>d_policies := upsert_row pr_sha (\<lambda>x. x\<lparr>pr_committed_at := now\<rparr>)
              \<lparr>pr_sha = sha, pr_name = name, pr_dsl = dsl, pr_author = nullIfEmpty author, pr_comment = nullIfEmpty comment,
               pr_committed_at = now\<rparr> (d_policies s)\<rparr>))"

definition row_policy :: "policy_row \<Rightarrow> PolicyVersion" where
  "row_policy r = \<lparr>pv_SHA = pr_sha r, pv_Name = pr_name r, pv_DSL = pr_dsl r, pv_Author = from_null (pr_author r),
     pv_Comment = from_null (pr_comment r), pv_CommittedAt = pr_committed_at r\<rparr>"

definition sql_GetPolicyVersion :: "faults \<Rightarrow> string \<Rightarrow> sqliteStore \<Rightarrow> cp_error + PolicyVersion" where
  "sql_GetPolicyVersion flt name s =
     (case flt 0 of Some e \<Rightarrow> Inl (ErrDB e)
      | None \<Rightarrow>
          (case newest_first pr_committed_at (filter (\<lambda>r. pr_name r = name) (d_policies s)) of
             [] \<Rightarrow> Inl ErrNoRows | r # _ \<Rightarrow> Inr (row_policy r)))"

definition sql_ListPolicyVersions :: "faults \<Rightarrow> string \<Rightarrow> int \<Rightarrow> sqliteStore \<Rightarrow> cp_error + PolicyVersion list" where
  "sql_ListPolicyVersions flt name limit0 s =
     (let limit = (if limit0 \<le> 0 then 50 else nat limit0) in
      case flt 0 of Some e \<Rightarrow> Inl (ErrDB e)
      | None \<Rightarrow> Inr (map row_policy (take limit
          (newest_first pr_committed_at (filter (\<lambda>r. name = [] \<or> pr_name r = name) (d_policies s))))))"

section \<open>Templates\<close>

definition row_template :: "template_row \<Rightarrow> PolicyTemplate" where
  "row_template r = \<lparr>pt_Name = tr_name r, pt_Version = tr_version r, pt_Body = tr_body r, pt_Labels = tr_labels r,
     pt_Publisher = from_null (tr_publisher r), pt_CreatedAt = tr_created_at r, pt_UpdatedAt = tr_updated_at r\<rparr>"

definition sql_GetTemplate :: "faults \<Rightarrow> string \<Rightarrow> sqliteStore \<Rightarrow> cp_error + PolicyTemplate" where
  "sql_GetTemplate flt name s =
     (case flt 0 of Some e \<Rightarrow> Inl (ErrDB e)
      | None \<Rightarrow> (case List.find (\<lambda>r. tr_name r = name) (d_templates s) of None \<Rightarrow> Inl ErrTemplateNotFound | Some r \<Rightarrow> Inr (row_template r)))"

definition sql_PublishTemplate ::
  "faults \<Rightarrow> gotime \<Rightarrow> PolicyTemplate \<Rightarrow> sqliteStore \<Rightarrow> (cp_error + PolicyTemplate) \<times> sqliteStore" where
  "sql_PublishTemplate flt now t s =
     (if pt_Name t = [] then (Inl (CPError ''template name required''), s)
      else (case flt 0 of Some e \<Rightarrow> (Inl (ErrDB e), s)
        | None \<Rightarrow>
            (let r = \<lparr>tr_name = pt_Name t, tr_version = 1, tr_body = pt_Body t, tr_labels = pt_Labels t,
                      tr_publisher = nullIfEmpty (pt_Publisher t), tr_created_at = now, tr_updated_at = now\<rparr>;
                 s1 = s\<lparr>d_templates := upsert_row tr_name
                   (\<lambda>x. x\<lparr>tr_version := tr_version x + 1, tr_body := tr_body r, tr_labels := tr_labels r,
                          tr_publisher := tr_publisher r, tr_updated_at := tr_updated_at r\<rparr>) r (d_templates s)\<rparr>
             in (sql_GetTemplate (\<lambda>n. flt (Suc n)) (pt_Name t) s1, s1))))"

definition sql_ListTemplates :: "faults \<Rightarrow> sqliteStore \<Rightarrow> cp_error + PolicyTemplate list" where
  "sql_ListTemplates flt s =
     (case flt 0 of Some e \<Rightarrow> Inl (ErrDB e) | None \<Rightarrow> Inr (map row_template (sort_key tr_name (d_templates s))))"

section \<open>Approvals\<close>

definition approval_to_row :: "PendingApproval \<Rightarrow> approval_row" where
  "approval_to_row p =
     \<lparr>qr_id = pa_ID p, qr_policy_name = pa_PolicyName p, qr_proposed_body = pa_ProposedBody p, qr_requester = pa_Requester p,
      qr_requester_fingerprint = pa_RequesterFinger p, qr_requested_at = pa_RequestedAt p, qr_approver = None,
      qr_approver_fingerprint = None, qr_approved_at = None, qr_status = pa_Status p, qr_rejection_comment = None\<rparr>"

definition scanApproval :: "approval_row \<Rightarrow> PendingApproval" where
  "scanApproval r =
     \<lparr>pa_ID = qr_id r, pa_PolicyName = qr_policy_name r, pa_ProposedBody = qr_proposed_body r, pa_Requester = qr_requester r,
      pa_RequesterFinger = qr_requester_fingerprint r, pa_RequestedAt = qr_requested_at r, pa_Approver = from_null (qr_approver r),
      pa_ApproverFinger = from_null (qr_approver_fingerprint r), pa_ApprovedAt = qr_approved_at r, pa_Status = qr_status r,
      pa_RejectionComment = from_null (qr_rejection_comment r)\<rparr>"

definition sql_CreateApproval ::
  "(string \<Rightarrow> 8 word list) \<Rightarrow> string \<Rightarrow> faults \<Rightarrow> gotime \<Rightarrow> PendingApproval
   \<Rightarrow> sqliteStore \<Rightarrow> (cp_error + PendingApproval) \<times> sqliteStore" where
  "sql_CreateApproval sha256 nonce flt now p s =
     (case approval_request sha256 nonce now p of
        Inl e \<Rightarrow> (Inl e, s)
      | Inr p' \<Rightarrow>
          (case flt 0 of Some e \<Rightarrow> (Inl (ErrDB e), s)
           | None \<Rightarrow> (case insert_row qr_id (approval_to_row p') (d_approvals s) of
               None \<Rightarrow> (Inl constraint_error, s)
             | Some rows \<Rightarrow> (Inr p', s\<lparr>d_approvals := rows\<rparr>))))"

definition sql_GetApproval :: "faults \<Rightarrow> string \<Rightarrow> sqliteStore \<Rightarrow> cp_error + PendingApproval" where
  "sql_GetApproval flt aid s =
     (case flt 0 of Some e \<Rightarrow> Inl (ErrDB e)
      | None \<Rightarrow> (case List.find (\<lambda>r. qr_id r = aid) (d_approvals s) of None \<Rightarrow> Inl ErrApprovalNotFound | Some r \<Rightarrow> Inr (scanApproval r)))"

definition sql_ListApprovals :: "faults \<Rightarrow> string \<Rightarrow> sqliteStore \<Rightarrow> cp_error + PendingApproval list" where
  "sql_ListApprovals flt status s =
     (case flt 0 of Some e \<Rightarrow> Inl (ErrDB e)
      | None \<Rightarrow> Inr (map scanApproval (newest_first qr_requested_at
          (filter (\<lambda>r. status = [] \<or> qr_status r = status) (d_approvals s)))))"

text \<open>The guarded update of approving and rejecting: \<open>WHERE id = ? AND status = 'pending'\<close>.\<close>

definition decide_row :: "string \<Rightarrow> (approval_row \<Rightarrow> approval_row) \<Rightarrow> sqliteStore \<Rightarrow> nat \<times> sqliteStore" where
  "decide_row aid f s =
     (let hit = (\<lambda>r. qr_id r = aid \<and> qr_status r = ApprovalPending)
      in (length (filter hit (d_approvals s)), s\<lparr>d_approvals := update_rows hit f (d_approvals s)\<rparr>))"

definition sql_ApproveApproval ::
  "faults \<Rightarrow> gotime \<Rightarrow> string \<Rightarrow> string \<Rightarrow> string \<Rightarrow> sqliteStore \<Rightarrow> (cp_error + PendingApproval) \<times> sqliteStore" where
  "sql_ApproveApproval flt now aid approver approverFinger s =
     (if approver = [] \<or> approverFinger = [] then (Inl (CPError ''approver and approver_fingerprint required''), s)
      else (case sql_GetApproval flt aid s of
              Inl e \<Rightarrow> (Inl e, s)
            | Inr current \<Rightarrow>
                (case may_decide approverFinger current of
                   Some e \<Rightarrow> (Inl e, s)
                 | None \<Rightarrow>
                     (case flt 1 of Some e \<Rightarrow> (Inl (ErrDB e), s)
                      | None \<Rightarrow>
                          (let (affected, s1) = decide_row aid (\<lambda>r. r\<lparr>qr_approver := Some approver,
                                 qr_approver_fingerprint := Some approverFinger, qr_approved_at := Some now,
                                 qr_status := ApprovalApproved\<rparr>) s
                           in if affected = 0 then (Inl ErrApprovalNotPending, s1)
                              else (Inr (decided ApprovalApproved approver approverFinger None now current), s1))))))"

definition sql_RejectApproval ::
  "faults \<Rightarrow> gotime \<Rightarrow> string \<Rightarrow> string \<Rightarrow> string \<Rightarrow> string \<Rightarrow> sqliteStore \<Rightarrow> (cp_error + PendingApproval) \<times> sqliteStore" where
  "sql_RejectApproval flt now aid approver approverFinger comment s =
     (if approver = [] \<or> approverFinger = [] then (Inl (CPError ''approver and approver_fingerprint required''), s)
      else (case sql_GetApproval flt aid s of
              Inl e \<Rightarrow> (Inl e, s)
            | Inr current \<Rightarrow>
                (case may_decide approverFinger current of
                   Some e \<Rightarrow> (Inl e, s)
                 | None \<Rightarrow>
                     (case flt 1 of Some e \<Rightarrow> (Inl (ErrDB e), s)
                      | None \<Rightarrow>
                          (let (affected, s1) = decide_row aid (\<lambda>r. r\<lparr>qr_approver := Some approver,
                                 qr_approver_fingerprint := Some approverFinger, qr_approved_at := Some now,
                                 qr_status := ApprovalRejected, qr_rejection_comment := nullIfEmpty comment\<rparr>) s
                           in if affected = 0 then (Inl ErrApprovalNotPending, s1)
                              else (Inr (decided ApprovalRejected approver approverFinger (Some comment) now current), s1))))))"

section \<open>Enrollment tokens\<close>

definition enrollment_to_row :: "EnrollmentToken \<Rightarrow> enrollment_row" where
  "enrollment_to_row t =
     \<lparr>nr_token = et_Token t, nr_agent_id = et_AgentID t, nr_ttl_seconds = et_TTLSeconds t, nr_expires_at = et_ExpiresAt t,
      nr_issued_by = et_IssuedBy t, nr_issued_at = et_IssuedAt t, nr_consumed_at = None, nr_consumer_ip = None\<rparr>"

definition row_enrollment :: "enrollment_row \<Rightarrow> EnrollmentToken" where
  "row_enrollment r =
     \<lparr>et_Token = nr_token r, et_AgentID = nr_agent_id r, et_TTLSeconds = nr_ttl_seconds r, et_ExpiresAt = nr_expires_at r,
      et_IssuedBy = nr_issued_by r, et_IssuedAt = nr_issued_at r, et_ConsumedAt = nr_consumed_at r,
      et_ConsumerIP = from_null (nr_consumer_ip r)\<rparr>"

definition sql_CreateEnrollmentToken :: "faults \<Rightarrow> EnrollmentToken \<Rightarrow> sqliteStore \<Rightarrow> cp_error option \<times> sqliteStore" where
  "sql_CreateEnrollmentToken flt t s =
     (if et_Token t = [] then (Some (CPError ''token required''), s)
      else (case flt 0 of Some e \<Rightarrow> (Some (ErrDB e), s)
        | None \<Rightarrow> (case insert_row nr_token (enrollment_to_row t) (d_enrollments s) of
            None \<Rightarrow> (Some constraint_error, s)
          | Some rows \<Rightarrow> (None, s\<lparr>d_enrollments := rows\<rparr>))))"

text \<open>One transaction of a begin, a select, an update and a commit; it rolls back unless it commits. The row is
  scanned into a token whose own \<open>ConsumedAt\<close> and \<open>ConsumerIP\<close> stay unset until the end.\<close>

definition sql_ConsumeEnrollmentToken ::
  "faults \<Rightarrow> gotime \<Rightarrow> string \<Rightarrow> string \<Rightarrow> sqliteStore \<Rightarrow> (cp_error + EnrollmentToken) \<times> sqliteStore" where
  "sql_ConsumeEnrollmentToken flt now token ip s =
     (case flt 0 of Some e \<Rightarrow> (Inl (ErrDB e), s)
      | None \<Rightarrow> (case flt 1 of Some e \<Rightarrow> (Inl (ErrDB e), s)
      | None \<Rightarrow> (case List.find (\<lambda>r. nr_token r = token) (d_enrollments s) of
          None \<Rightarrow> (Inl (CPError ''enrollment token not found''), s)
        | Some r \<Rightarrow>
            (if nr_consumed_at r \<noteq> None then (Inl (CPError ''enrollment token already used''), s)
             else if nr_expires_at r < now then (Inl (CPError ''enrollment token expired''), s)
             else (case flt 2 of Some e \<Rightarrow> (Inl (ErrDB e), s)
               | None \<Rightarrow> (case flt 3 of Some e \<Rightarrow> (Inl (ErrDB e), s)
               | None \<Rightarrow>
                   (Inr ((row_enrollment r)\<lparr>et_ConsumedAt := Some now, et_ConsumerIP := ip\<rparr>),
                    s\<lparr>d_enrollments := update_rows (\<lambda>x. nr_token x = token)
                        (\<lambda>x. x\<lparr>nr_consumed_at := Some now, nr_consumer_ip := nullIfEmpty ip\<rparr>) (d_enrollments s)\<rparr>)))))))"

definition sql_ListEnrollmentTokens :: "faults \<Rightarrow> bool \<Rightarrow> sqliteStore \<Rightarrow> cp_error + EnrollmentToken list" where
  "sql_ListEnrollmentTokens flt includeUsed s =
     (case flt 0 of Some e \<Rightarrow> Inl (ErrDB e)
      | None \<Rightarrow> Inr (map row_enrollment (newest_first nr_issued_at
          (filter (\<lambda>r. includeUsed \<or> nr_consumed_at r = None) (d_enrollments s)))))"

definition sql_RevokeEnrollmentToken :: "faults \<Rightarrow> gotime \<Rightarrow> string \<Rightarrow> sqliteStore \<Rightarrow> cp_error option \<times> sqliteStore" where
  "sql_RevokeEnrollmentToken flt now token s =
     (case flt 0 of Some e \<Rightarrow> (Some (ErrDB e), s)
      | None \<Rightarrow>
          (let hit = (\<lambda>r. nr_token r = token \<and> nr_consumed_at r = None)
           in if filter hit (d_enrollments s) = [] then (Some (CPError ''enrollment token not found or already used''), s)
              else (None, s\<lparr>d_enrollments := update_rows hit
                     (\<lambda>r. r\<lparr>nr_consumed_at := Some now, nr_consumer_ip := Some ''revoked''\<rparr>) (d_enrollments s)\<rparr>)))"

section \<open>Certificate renewals\<close>

definition sql_RecordCertRenew :: "faults \<Rightarrow> string \<Rightarrow> string \<Rightarrow> gotime \<Rightarrow> sqliteStore \<Rightarrow> cp_error option \<times> sqliteStore" where
  "sql_RecordCertRenew flt serial agentID at_time s =
     (if serial = [] then (Some (CPError ''empty serial''), s)
      else (case flt 0 of Some e \<Rightarrow> (Some (ErrDB e), s)
        | None \<Rightarrow> (None, s\<lparr>d_renewals := upsert_row wr_serial (\<lambda>x. x\<lparr>wr_agent_id := agentID, wr_last_renew_at := at_time\<rparr>)
            \<lparr>wr_serial = strings_ToLower serial, wr_agent_id = agentID, wr_last_renew_at = at_time\<rparr> (d_renewals s)\<rparr>)))"

definition sql_LastCertRenew :: "faults \<Rightarrow> string \<Rightarrow> sqliteStore \<Rightarrow> cp_error + gotime option" where
  "sql_LastCertRenew flt serial s =
     (if serial = [] then Inr None
      else (case flt 0 of Some e \<Rightarrow> Inl (ErrDB e)
        | None \<Rightarrow> Inr (map_option wr_last_renew_at (List.find (\<lambda>r. wr_serial r = strings_ToLower serial) (d_renewals s)))))"

text \<open>A transaction of one delete per serial; the first error rolls all of them back.\<close>

definition sql_PruneCertRenewHistory :: "faults \<Rightarrow> string list \<Rightarrow> sqliteStore \<Rightarrow> cp_error option \<times> sqliteStore" where
  "sql_PruneCertRenewHistory flt serials s =
     (if serials = [] then (None, s)
      else (case List.find (\<lambda>n. flt n \<noteq> None) [0..<length serials + 3] of
              Some n \<Rightarrow> (Some (ErrDB (the (flt n))), s)
            | None \<Rightarrow> (None, s\<lparr>d_renewals := filter (\<lambda>r. wr_serial r \<notin> strings_ToLower ` set serials) (d_renewals s)\<rparr>)))"

section \<open>Proposals\<close>

definition proposal_key :: "AutogenProposal \<Rightarrow> string \<times> string" where
  "proposal_key p = (ap_AgentID p, ap_ContainerID p)"

definition upsert_proposal :: "gotime \<Rightarrow> AutogenProposal \<Rightarrow> AutogenProposal list \<Rightarrow> AutogenProposal list" where
  "upsert_proposal now p rows =
     (let r = p\<lparr>ap_UpdatedAt := or_now now (ap_UpdatedAt p)\<rparr> in upsert_row proposal_key (\<lambda>_. r) r rows)"

definition sql_RecordProposals :: "faults \<Rightarrow> gotime \<Rightarrow> AutogenProposal list \<Rightarrow> sqliteStore \<Rightarrow> cp_error option \<times> sqliteStore" where
  "sql_RecordProposals flt now items s =
     (if items = [] then (None, s)
      else (case List.find (\<lambda>n. flt n \<noteq> None) [0..<length items + 3] of
              Some n \<Rightarrow> (Some (ErrDB (the (flt n))), s)
            | None \<Rightarrow> (None, s\<lparr>d_proposals := fold (upsert_proposal now) items (d_proposals s)\<rparr>)))"

definition sql_ListProposals :: "faults \<Rightarrow> string \<Rightarrow> sqliteStore \<Rightarrow> cp_error + AutogenProposal list" where
  "sql_ListProposals flt agentID s =
     (case flt 0 of Some e \<Rightarrow> Inl (ErrDB e)
      | None \<Rightarrow> Inr (if agentID = [] then sort_key ap_AgentID (sort_key ap_ContainerID (d_proposals s))
                  else sort_key ap_ContainerID (filter (\<lambda>p. ap_AgentID p = agentID) (d_proposals s))))"

definition sql_DeleteProposal :: "faults \<Rightarrow> string \<Rightarrow> string \<Rightarrow> sqliteStore \<Rightarrow> cp_error option \<times> sqliteStore" where
  "sql_DeleteProposal flt agentID containerID s =
     (case flt 0 of Some e \<Rightarrow> (Some (ErrDB e), s)
      | None \<Rightarrow> (None, s\<lparr>d_proposals := filter (\<lambda>p. proposal_key p \<noteq> (agentID, containerID)) (d_proposals s)\<rparr>))"

section \<open>Agent tokens\<close>

definition scanAgentTokenRow :: "token_row \<Rightarrow> AgentToken" where
  "scanAgentTokenRow r =
     \<lparr>at_ID = kr_id r, at_Name = kr_name r, at_Description = kr_description r, at_IssuedBy = kr_issued_by r,
      at_IssuedAt = kr_issued_at r, at_LastUsedAt = kr_last_used_at r, at_LastUsedIP = from_null (kr_last_used_ip r),
      at_RevokedAt = kr_revoked_at r\<rparr>"

definition sql_CreateAgentToken ::
  "(string \<Rightarrow> 8 word list) \<Rightarrow> 8 word list option \<Rightarrow> string \<Rightarrow> faults \<Rightarrow> gotime \<Rightarrow> string \<Rightarrow> string \<Rightarrow> string
   \<Rightarrow> sqliteStore \<Rightarrow> (cp_error + AgentTokenIssued) \<times> sqliteStore" where
  "sql_CreateAgentToken sha256 rnd uuid flt now name0 description issuedBy s =
     (let name = strings_TrimSpace name0 in
      if name = [] then (Inl (CPError ''name required''), s)
      else (case generateAgentTokenPlaintext rnd of
              Inl e \<Rightarrow> (Inl e, s)
            | Inr plaintext \<Rightarrow>
                (case flt 0 of Some e \<Rightarrow> (Inl (ErrDB e), s)
                 | None \<Rightarrow>
                     (let r = \<lparr>kr_id = uuid, kr_token_hash = hex_EncodeToString (sha256 plaintext), kr_name = name,
                               kr_description = strings_TrimSpace description, kr_issued_by = strings_TrimSpace issuedBy,
                               kr_issued_at = now, kr_last_used_at = None, kr_last_used_ip = None, kr_revoked_at = None\<rparr>
                      in if kr_token_hash r \<in> kr_token_hash ` set (d_tokens s) then (Inl constraint_error, s)
                         else (case insert_row kr_id r (d_tokens s) of
                                 None \<Rightarrow> (Inl constraint_error, s)
                               | Some rows \<Rightarrow> (Inr \<lparr>ati_AgentToken = new_agent_token uuid name description issuedBy now,
                                                 ati_Token = plaintext\<rparr>, s\<lparr>d_tokens := rows\<rparr>))))))"

definition sql_ListAgentTokens :: "faults \<Rightarrow> bool \<Rightarrow> sqliteStore \<Rightarrow> cp_error + AgentToken list" where
  "sql_ListAgentTokens flt includeRevoked s =
     (case flt 0 of Some e \<Rightarrow> Inl (ErrDB e)
      | None \<Rightarrow> Inr (map scanAgentTokenRow (newest_first kr_issued_at
          (filter (\<lambda>r. includeRevoked \<or> kr_revoked_at r = None) (d_tokens s)))))"

definition sql_GetAgentToken :: "faults \<Rightarrow> string \<Rightarrow> sqliteStore \<Rightarrow> cp_error + AgentToken option" where
  "sql_GetAgentToken flt tid s =
     (case flt 0 of Some e \<Rightarrow> Inl (ErrDB e)
      | None \<Rightarrow> Inr (map_option scanAgentTokenRow (List.find (\<lambda>r. kr_id r = tid) (d_tokens s))))"

definition sql_RevokeAgentToken :: "faults \<Rightarrow> gotime \<Rightarrow> string \<Rightarrow> sqliteStore \<Rightarrow> cp_error option \<times> sqliteStore" where
  "sql_RevokeAgentToken flt now tid s =
     (case flt 0 of Some e \<Rightarrow> (Some (ErrDB e), s)
      | None \<Rightarrow>
          (let hit = (\<lambda>r. kr_id r = tid \<and> kr_revoked_at r = None)
           in if filter hit (d_tokens s) = [] then (Some ErrAgentTokenUnknown, s)
              else (None, s\<lparr>d_tokens := update_rows hit (\<lambda>r. r\<lparr>kr_revoked_at := Some now\<rparr>) (d_tokens s)\<rparr>)))"

definition sql_ValidateAgentToken :: "(string \<Rightarrow> 8 word list) \<Rightarrow> faults \<Rightarrow> string \<Rightarrow> sqliteStore \<Rightarrow> cp_error + AgentToken" where
  "sql_ValidateAgentToken sha256 flt plaintext s =
     (if plaintext = [] then Inl ErrAgentTokenUnknown
      else (case flt 0 of Some e \<Rightarrow> Inl (ErrDB e)
        | None \<Rightarrow> (case List.find (\<lambda>r. kr_token_hash r = hex_EncodeToString (sha256 plaintext)) (d_tokens s) of
            None \<Rightarrow> Inl ErrAgentTokenUnknown
          | Some r \<Rightarrow> if kr_revoked_at r \<noteq> None then Inl ErrAgentTokenRevoked else Inr (scanAgentTokenRow r))))"

definition sql_TouchAgentToken :: "faults \<Rightarrow> gotime \<Rightarrow> string \<Rightarrow> string \<Rightarrow> sqliteStore \<Rightarrow> cp_error option \<times> sqliteStore" where
  "sql_TouchAgentToken flt now tid ip s =
     (case flt 0 of Some e \<Rightarrow> (Some (ErrDB e), s)
      | None \<Rightarrow> (None, s\<lparr>d_tokens := update_rows (\<lambda>r. kr_id r = tid)
          (\<lambda>r. r\<lparr>kr_last_used_at := Some now, kr_last_used_ip := nullIfEmpty ip\<rparr>) (d_tokens s)\<rparr>))"

end
