(* ===== verification/SQL_Tables.thy ===== *)
theory SQL_Tables
  imports CP_SQLite
begin

text \<open>
  Facts about tables as lists of rows with a key: what looking a key up gives after an insert, an
  update and an upsert. The stores of the control plane and of the learned rules share them.
\<close>

section \<open>Lookup by key\<close>

lemma find_append: "List.find P (xs @ ys) = (case List.find P xs of None \<Rightarrow> List.find P ys | Some x \<Rightarrow> Some x)"
  by (induction xs) auto

lemma find_key_map:
  assumes "\<And>x. key (g x) = key x"
  shows "List.find (\<lambda>r. key r = k) (map g rows) = map_option g (List.find (\<lambda>r. key r = k) rows)"
  by (induction rows) (auto simp: assms)

lemma find_update_rows:
  assumes "\<And>x. key (f x) = key x"
  shows "List.find (\<lambda>r. key r = k) (update_rows P f rows)
    = map_option (\<lambda>x. if P x then f x else x) (List.find (\<lambda>r. key r = k) rows)"
  unfolding update_rows_def by (rule find_key_map) (simp add: assms)

lemma find_insert_row:
  assumes "insert_row key r rows = Some rows'"
  shows "List.find (\<lambda>x. key x = k) rows' = (if k = key r then Some r else List.find (\<lambda>x. key x = k) rows)"
proof -
  have "rows' = rows @ [r]" "key r \<notin> key ` set rows" using assms by (auto simp: insert_row_def split: if_splits)
  then have "List.find (\<lambda>x. key x = key r) rows = None" unfolding find_None_iff by (metis image_eqI)
  then show ?thesis using \<open>rows' = rows @ [r]\<close> by (auto simp: find_append split: option.split)
qed

lemma find_Some: "List.find P xs = Some x \<Longrightarrow> P x \<and> x \<in> set xs"
  by (induction xs) (auto split: if_splits)

lemma find_upsert_row:
  assumes "\<And>x. key (upd x) = key x"
  shows "List.find (\<lambda>x. key x = k) (upsert_row key upd r rows)
    = (if k = key r then Some (case List.find (\<lambda>x. key x = key r) rows of Some x \<Rightarrow> upd x | None \<Rightarrow> r)
       else List.find (\<lambda>x. key x = k) rows)"
proof (cases "key r \<in> key ` set rows")
  case True
  let ?g = "\<lambda>x. if key x = key r then upd x else x"
  have g: "key (?g x) = key x" for x using assms by simp
  obtain x where x: "List.find (\<lambda>x. key x = key r) rows = Some x"
    using True by (cases "List.find (\<lambda>x. key x = key r) rows") (auto simp: find_None_iff)
  have u: "upsert_row key upd r rows = map ?g rows" using True by (simp add: upsert_row_def)
  have f: "List.find (\<lambda>x. key x = k) (map ?g rows) = map_option ?g (List.find (\<lambda>x. key x = k) rows)"
    by (rule find_key_map) (rule g)
  show ?thesis
  proof (cases "k = key r")
    case True
    then show ?thesis unfolding u f using x find_Some [OF x] by simp
  next
    case False
    then have "?g y = y" if "List.find (\<lambda>x. key x = k) rows = Some y" for y using find_Some [OF that] by auto
    then show ?thesis using False unfolding u f by (cases "List.find (\<lambda>x. key x = k) rows") simp_all
  qed
next
  case False
  then have "List.find (\<lambda>x. key x = key r) rows = None" unfolding find_None_iff by (metis image_eqI)
  then show ?thesis using False by (auto simp: upsert_row_def find_append split: option.split)
qed

lemma keys_upsert_row: "(\<And>x. key (upd x) = key x) \<Longrightarrow> key ` set (upsert_row key upd r rows) = insert (key r) (key ` set rows)"
proof -
  assume k: "\<And>x. key (upd x) = key x"
  have "key ` set (map (\<lambda>x. if key x = key r then upd x else x) rows) = key ` set rows"
    unfolding set_map image_image by (rule image_cong) (auto simp: k)
  then show ?thesis by (auto simp: upsert_row_def simp del: set_map)
qed

lemma distinct_upsert_row:
  assumes "\<And>x. key (upd x) = key x" "distinct (map key rows)"
  shows "distinct (map key (upsert_row key upd r rows))"
proof -
  have "map key (map (\<lambda>x. if key x = key r then upd x else x) rows) = map key rows" using assms(1) by simp
  then show ?thesis using assms(2) by (simp add: upsert_row_def del: map_map)
qed

end
