(* ===== verification/CP_Store.thy ===== *)
theory CP_Store
  imports CP_MemStore SQL_Tables
begin

text \<open>
  The interface \<open>Store\<close> of \<open>backend/internal/controlplane/store.go\<close> as a record of operations, the
  two stores as instances of it, and the contracts its clients rely on: approvals are decided
  once and never by their requester, an enrollment token is consumed once.

  The database errors of the \<open>n\<close>-th operation on the persistent store are \<open>env n\<close>; its state
  carries the count of the operations so far.
\<close>

section \<open>The interface\<close>

record 's Store =
  st_UpsertAgent :: "gotime \<Rightarrow> AgentIdentity \<Rightarrow> 's \<Rightarrow> cp_error option \<times> 's"
  st_RecordSnapshot :: "gotime \<Rightarrow> AgentSnapshot \<Rightarrow> 's \<Rightarrow> cp_error option \<times> 's"
  st_RecordAudit :: "gotime \<Rightarrow> string \<Rightarrow> string \<Rightarrow> payload \<Rightarrow> gotime \<Rightarrow> 's \<Rightarrow> cp_error option \<times> 's"
  st_EnqueueCommand :: "gotime \<Rightarrow> string \<Rightarrow> Command \<Rightarrow> 's \<Rightarrow> cp_error option \<times> 's"
  st_TakeCommands :: "gotime \<Rightarrow> string \<Rightarrow> 's \<Rightarrow> (Command list \<times> cp_error option) \<times> 's"
  st_RecordAck :: "gotime \<Rightarrow> CommandAck \<Rightarrow> 's \<Rightarrow> cp_error option \<times> 's"
  st_ListAgents :: "'s \<Rightarrow> (cp_error + AgentRecord list) \<times> 's"
  st_RecordProposals :: "gotime \<Rightarrow> AutogenProposal list \<Rightarrow> 's \<Rightarrow> cp_error option \<times> 's"
  st_ExpireCommands :: "gotime \<Rightarrow> duration \<Rightarrow> 's \<Rightarrow> (cp_error + nat) \<times> 's"
  st_PruneAudit :: "gotime \<Rightarrow> duration \<Rightarrow> 's \<Rightarrow> (cp_error + nat) \<times> 's"
  st_TrimSnapshots :: "int \<Rightarrow> 's \<Rightarrow> (cp_error + nat) \<times> 's"
  st_PublishTemplate :: "gotime \<Rightarrow> PolicyTemplate \<Rightarrow> 's \<Rightarrow> (cp_error + PolicyTemplate) \<times> 's"
  st_GetTemplate :: "string \<Rightarrow> 's \<Rightarrow> (cp_error + PolicyTemplate) \<times> 's"
  st_ListTemplates :: "'s \<Rightarrow> (cp_error + PolicyTemplate list) \<times> 's"
  st_CreateApproval :: "string \<Rightarrow> gotime \<Rightarrow> PendingApproval \<Rightarrow> 's \<Rightarrow> (cp_error + PendingApproval) \<times> 's"
  st_GetApproval :: "string \<Rightarrow> 's \<Rightarrow> (cp_error + PendingApproval) \<times> 's"
  st_ListApprovals :: "string \<Rightarrow> 's \<Rightarrow> (cp_error + PendingApproval list) \<times> 's"
  st_ApproveApproval :: "gotime \<Rightarrow> string \<Rightarrow> string \<Rightarrow> string \<Rightarrow> 's \<Rightarrow> (cp_error + PendingApproval) \<times> 's"
  st_RejectApproval :: "gotime \<Rightarrow> string \<Rightarrow> string \<Rightarrow> string \<Rightarrow> string \<Rightarrow> 's \<Rightarrow> (cp_error + PendingApproval) \<times> 's"
  st_CreateEnrollmentToken :: "EnrollmentToken \<Rightarrow> 's \<Rightarrow> cp_error option \<times> 's"
  st_ConsumeEnrollmentToken :: "gotime \<Rightarrow> string \<Rightarrow> string \<Rightarrow> 's \<Rightarrow> (cp_error + EnrollmentToken) \<times> 's"
  st_ListEnrollmentTokens :: "bool \<Rightarrow> 's \<Rightarrow> (cp_error + EnrollmentToken list) \<times> 's"
  st_RevokeEnrollmentToken :: "gotime \<Rightarrow> string \<Rightarrow> 's \<Rightarrow> cp_error option \<times> 's"
  st_GetAgent :: "string \<Rightarrow> 's \<Rightarrow> (cp_error + AgentRecord option) \<times> 's"
  st_LatestSnapshot :: "string \<Rightarrow> 's \<Rightarrow> (cp_error + AgentSnapshot option) \<times> 's"
  st_ListAuditEvents :: "string \<Rightarrow> int \<Rightarrow> 's \<Rightarrow> (cp_error + AuditRecord list) \<times> 's"
  st_SetPolicyVersion :: "gotime \<Rightarrow> string \<Rightarrow> string \<Rightarrow> string \<Rightarrow> string \<Rightarrow> 's \<Rightarrow> (cp_error + PolicyVersion) \<times> 's"
  st_GetPolicyVersion :: "string \<Rightarrow> 's \<Rightarrow> (cp_error + PolicyVersion) \<times> 's"
  st_ListPolicyVersions :: "string \<Rightarrow> int \<Rightarrow> 's \<Rightarrow> (cp_error + PolicyVersion list) \<times> 's"
  st_ListProposals :: "string \<Rightarrow> 's \<Rightarrow> (cp_error + AutogenProposal list) \<times> 's"
  st_DeleteProposal :: "string \<Rightarrow> string \<Rightarrow> 's \<Rightarrow> cp_error option \<times> 's"
  st_CreateAgentToken :: "8 word list option \<Rightarrow> string \<Rightarrow> gotime \<Rightarrow> string \<Rightarrow> string \<Rightarrow> string \<Rightarrow> 's \<Rightarrow> (cp_error + AgentTokenIssued) \<times> 's"
  st_ListAgentTokens :: "bool \<Rightarrow> 's \<Rightarrow> (cp_error + AgentToken list) \<times> 's"
  st_RevokeAgentToken :: "gotime \<Rightarrow> string \<Rightarrow> 's \<Rightarrow> cp_error option \<times> 's"
  st_ValidateAgentToken :: "string \<Rightarrow> 's \<Rightarrow> (cp_error + AgentToken) \<times> 's"
  st_TouchAgentToken :: "gotime \<Rightarrow> string \<Rightarrow> string \<Rightarrow> 's \<Rightarrow> cp_error option \<times> 's"
  st_RecordCertRenew :: "string \<Rightarrow> string \<Rightarrow> gotime \<Rightarrow> 's \<Rightarrow> cp_error option \<times> 's"
  st_LastCertRenew :: "string \<Rightarrow> 's \<Rightarrow> (cp_error + gotime option) \<times> 's"
  st_PruneCertRenewHistory :: "string list \<Rightarrow> 's \<Rightarrow> cp_error option \<times> 's"

definition no_err :: "('s \<Rightarrow> 's) \<Rightarrow> 's \<Rightarrow> cp_error option \<times> 's" where
  "no_err f s = (None, f s)"

definition counted :: "(memStore \<Rightarrow> int \<times> memStore) \<Rightarrow> memStore \<Rightarrow> (cp_error + nat) \<times> memStore" where
  "counted f m = (let (n, m') = f m in (Inr (nat n), m'))"

definition mem_Store :: "(string \<Rightarrow> 8 word list) \<Rightarrow> memStore Store" where
  "mem_Store sha256 =
     \<lparr>st_UpsertAgent = (\<lambda>now aid. no_err (mem_UpsertAgent now aid)),
      st_RecordSnapshot = (\<lambda>now snap. no_err (mem_RecordSnapshot now snap)),
      st_RecordAudit = (\<lambda>now agentID kind pl at_time. no_err (mem_RecordAudit now agentID kind pl at_time)),
      st_EnqueueCommand = (\<lambda>now. mem_EnqueueCommand),
      st_TakeCommands = (\<lambda>now agentID m. let (cs, m') = mem_TakeCommands agentID m in ((cs, None), m')),
      st_RecordAck = (\<lambda>now. mem_RecordAck),
      st_ListAgents = (\<lambda>m. (Inr (mem_ListAgents m), m)),
      st_RecordProposals = (\<lambda>now items. no_err (mem_RecordProposals now items)),
      st_ExpireCommands = (\<lambda>now d. counted (mem_ExpireCommands d)),
      st_PruneAudit = (\<lambda>now d. counted (mem_PruneAudit d)),
      st_TrimSnapshots = (\<lambda>n. counted (mem_TrimSnapshots n)),
      st_PublishTemplate = mem_PublishTemplate,
      st_GetTemplate = (\<lambda>name m. (mem_GetTemplate name m, m)),
      st_ListTemplates = (\<lambda>m. (Inr (mem_ListTemplates m), m)),
      st_CreateApproval = mem_CreateApproval sha256,
      st_GetApproval = (\<lambda>aid m. (mem_GetApproval aid m, m)),
      st_ListApprovals = (\<lambda>status m. (Inr (mem_ListApprovals status m), m)),
      st_ApproveApproval = mem_ApproveApproval,
      st_RejectApproval = mem_RejectApproval,
      st_CreateEnrollmentToken = mem_CreateEnrollmentToken,
      st_ConsumeEnrollmentToken = mem_ConsumeEnrollmentToken,
      st_ListEnrollmentTokens = (\<lambda>used m. (Inr (mem_ListEnrollmentTokens used m), m)),
      st_RevokeEnrollmentToken = mem_RevokeEnrollmentToken,
      st_GetAgent = (\<lambda>aid m. (Inr (mem_GetAgent aid m), m)),
      st_LatestSnapshot = (\<lambda>aid m. (Inr (mem_LatestSnapshot aid m), m)),
      st_ListAuditEvents = (\<lambda>aid limit m. (Inr (mem_ListAuditEvents aid limit m), m)),
      st_SetPolicyVersion = (\<lambda>now name dsl author comment m. map_prod Inr id (mem_SetPolicyVersion sha256 now name dsl author comment m)),
      st_GetPolicyVersion = (\<lambda>name m. (mem_GetPolicyVersion name m, m)),
      st_ListPolicyVersions = (\<lambda>name limit m. (Inr (mem_ListPolicyVersions name limit m), m)),
      st_ListProposals = (\<lambda>aid m. (Inr (mem_ListProposals aid m), m)),
      st_DeleteProposal = (\<lambda>aid cid. no_err (mem_DeleteProposal aid cid)),
      st_CreateAgentToken = mem_CreateAgentToken sha256,
      st_ListAgentTokens = (\<lambda>revoked m. (Inr (mem_ListAgentTokens revoked m), m)),
      st_RevokeAgentToken = mem_RevokeAgentToken,
      st_ValidateAgentToken = (\<lambda>plain m. (mem_ValidateAgentToken sha256 plain m, m)),
      st_TouchAgentToken = mem_TouchAgentToken,
      st_RecordCertRenew = mem_RecordCertRenew,
      st_LastCertRenew = (\<lambda>serial m. (Inr (mem_LastCertRenew serial m), m)),
      st_PruneCertRenewHistory = (\<lambda>serials. no_err (mem_PruneCertRenewHistory serials))\<rparr>"

type_synonym sqlite_state = "nat \<times> sqliteStore"

definition faulty :: "(nat \<Rightarrow> faults) \<Rightarrow> (faults \<Rightarrow> sqliteStore \<Rightarrow> 'r \<times> sqliteStore) \<Rightarrow> sqlite_state \<Rightarrow> 'r \<times> sqlite_state" where
  "faulty env op ns = (let (r, s') = op (env (fst ns)) (snd ns) in (r, Suc (fst ns), s'))"

definition faulty_read :: "(nat \<Rightarrow> faults) \<Rightarrow> (faults \<Rightarrow> sqliteStore \<Rightarrow> 'r) \<Rightarrow> sqlite_state \<Rightarrow> 'r \<times> sqlite_state" where
  "faulty_read env op = faulty env (\<lambda>flt s. (op flt s, s))"

definition sqlite_Store :: "(string \<Rightarrow> 8 word list) \<Rightarrow> (nat \<Rightarrow> faults) \<Rightarrow> sqlite_state Store" where
  "sqlite_Store sha256 env =
     \<lparr>st_UpsertAgent = (\<lambda>now aid. faulty env (\<lambda>flt. sql_UpsertAgent flt now aid)),
      st_RecordSnapshot = (\<lambda>now snap. faulty env (\<lambda>flt. sql_RecordSnapshot flt now snap)),
      st_RecordAudit = (\<lambda>now agentID kind pl at_time. faulty env (\<lambda>flt. sql_RecordAudit flt now agentID kind pl at_time)),
      st_EnqueueCommand = (\<lambda>now agentID cmd. faulty env (\<lambda>flt. sql_EnqueueCommand flt now agentID cmd)),
      st_TakeCommands = (\<lambda>now agentID. faulty env (\<lambda>flt. sql_TakeCommands flt now agentID)),
      st_RecordAck = (\<lambda>now ack. faulty env (\<lambda>flt. sql_RecordAck flt now ack)),
      st_ListAgents = faulty_read env sql_ListAgents,
      st_RecordProposals = (\<lambda>now items. faulty env (\<lambda>flt. sql_RecordProposals flt now items)),
      st_ExpireCommands = (\<lambda>now d. faulty env (\<lambda>flt. sql_ExpireCommands flt now d)),
      st_PruneAudit = (\<lambda>now d. faulty env (\<lambda>flt. sql_PruneAudit flt now d)),
      st_TrimSnapshots = (\<lambda>n. faulty env (\<lambda>flt. sql_TrimSnapshots flt n)),
      st_PublishTemplate = (\<lambda>now t. faulty env (\<lambda>flt. sql_PublishTemplate flt now t)),
      st_GetTemplate = (\<lambda>name. faulty_read env (\<lambda>flt. sql_GetTemplate flt name)),
      st_ListTemplates = faulty_read env sql_ListTemplates,
      st_CreateApproval = (\<lambda>nonce now p. faulty env (\<lambda>flt. sql_CreateApproval sha256 nonce flt now p)),
      st_GetApproval = (\<lambda>aid. faulty_read env (\<lambda>flt. sql_GetApproval flt aid)),
      st_ListApprovals = (\<lambda>status. faulty_read env (\<lambda>flt. sql_ListApprovals flt status)),
      st_ApproveApproval = (\<lambda>now aid approver fp. faulty env (\<lambda>flt. sql_ApproveApproval flt now aid approver fp)),
      st_RejectApproval = (\<lambda>now aid approver fp comment. faulty env (\<lambda>flt. sql_RejectApproval flt now aid approver fp comment)),
      st_CreateEnrollmentToken = (\<lambda>t. faulty env (\<lambda>flt. sql_CreateEnrollmentToken flt t)),
      st_ConsumeEnrollmentToken = (\<lambda>now token ip. faulty env (\<lambda>flt. sql_ConsumeEnrollmentToken flt now token ip)),
      st_ListEnrollmentTokens = (\<lambda>used. faulty_read env (\<lambda>flt. sql_ListEnrollmentTokens flt used)),
      st_RevokeEnrollmentToken = (\<lambda>now token. faulty env (\<lambda>flt. sql_RevokeEnrollmentToken flt now token)),
      st_GetAgent = (\<lambda>aid. faulty_read env (\<lambda>flt. sql_GetAgent flt aid)),
      st_LatestSnapshot = (\<lambda>aid. faulty_read env (\<lambda>flt. sql_LatestSnapshot flt aid)),
      st_ListAuditEvents = (\<lambda>aid limit. faulty_read env (\<lambda>flt. sql_ListAuditEvents flt aid limit)),
      st_SetPolicyVersion = (\<lambda>now name dsl author comment. faulty env (\<lambda>flt. sql_SetPolicyVersion sha256 flt now name dsl author comment)),
      st_GetPolicyVersion = (\<lambda>name. faulty_read env (\<lambda>flt. sql_GetPolicyVersion flt name)),
      st_ListPolicyVersions = (\<lambda>name limit. faulty_read env (\<lambda>flt. sql_ListPolicyVersions flt name limit)),
      st_ListProposals = (\<lambda>aid. faulty_read env (\<lambda>flt. sql_ListProposals flt aid)),
      st_DeleteProposal = (\<lambda>aid cid. faulty env (\<lambda>flt. sql_DeleteProposal flt aid cid)),
      st_CreateAgentToken = (\<lambda>rnd uuid now name descr by_whom. faulty env (\<lambda>flt. sql_CreateAgentToken sha256 rnd uuid flt now name descr by_whom)),
      st_ListAgentTokens = (\<lambda>revoked. faulty_read env (\<lambda>flt. sql_ListAgentTokens flt revoked)),
      st_RevokeAgentToken = (\<lambda>now tid. faulty env (\<lambda>flt. sql_RevokeAgentToken flt now tid)),
      st_ValidateAgentToken = (\<lambda>plain. faulty_read env (\<lambda>flt. sql_ValidateAgentToken sha256 flt plain)),
      st_TouchAgentToken = (\<lambda>now tid ip. faulty env (\<lambda>flt. sql_TouchAgentToken flt now tid ip)),
      st_RecordCertRenew = (\<lambda>serial aid t. faulty env (\<lambda>flt. sql_RecordCertRenew flt serial aid t)),
      st_LastCertRenew = (\<lambda>serial. faulty_read env (\<lambda>flt. sql_LastCertRenew flt serial)),
      st_PruneCertRenewHistory = (\<lambda>serials. faulty env (\<lambda>flt. sql_PruneCertRenewHistory flt serials))\<rparr>"

section \<open>Contracts\<close>

text \<open>What both stores keep of a request they accept.\<close>

definition same_request :: "PendingApproval \<Rightarrow> PendingApproval \<Rightarrow> bool" where
  "same_request p q \<longleftrightarrow> pa_ID q = pa_ID p \<and> pa_PolicyName q = pa_PolicyName p \<and> pa_ProposedBody q = pa_ProposedBody p
     \<and> pa_Requester q = pa_Requester p \<and> pa_RequesterFinger q = pa_RequesterFinger p
     \<and> pa_RequestedAt q = pa_RequestedAt p \<and> pa_Status q = pa_Status p"

locale approval_store =
  fixes st :: "'s Store" and sha256 :: "string \<Rightarrow> 8 word list"
    and appr :: "'s \<Rightarrow> string \<Rightarrow> PendingApproval option"
  assumes create_ok: "st_CreateApproval st nonce now p s = (Inr p', s') \<Longrightarrow>
      approval_request sha256 nonce now p = Inr p' \<and> (\<exists>q. same_request p' q \<and> appr s' = (appr s)(pa_ID p' \<mapsto> q))"
    and create_err: "st_CreateApproval st nonce now p s = (Inl e, s') \<Longrightarrow> appr s' = appr s"
    and approve_ok: "st_ApproveApproval st now aid approver fp s = (Inr p', s') \<Longrightarrow>
      \<exists>p. appr s aid = Some p \<and> may_decide fp p = None \<and> fp \<noteq> [] \<and> approver \<noteq> []
        \<and> p' = decided ApprovalApproved approver fp None now p \<and> appr s' = (appr s)(aid \<mapsto> p')"
    and approve_err: "st_ApproveApproval st now aid approver fp s = (Inl e, s') \<Longrightarrow> appr s' = appr s"
    and reject_ok: "st_RejectApproval st now aid approver fp comment s = (Inr p', s') \<Longrightarrow>
      \<exists>p. appr s aid = Some p \<and> may_decide fp p = None \<and> fp \<noteq> [] \<and> approver \<noteq> []
        \<and> p' = decided ApprovalRejected approver fp (Some comment) now p \<and> appr s' = (appr s)(aid \<mapsto> p')"
    and reject_err: "st_RejectApproval st now aid approver fp comment s = (Inl e, s') \<Longrightarrow> appr s' = appr s"

locale enrollment_store =
  fixes st :: "'s Store" and tok :: "'s \<Rightarrow> string \<Rightarrow> EnrollmentToken option" and ok :: "'s \<Rightarrow> bool"
  assumes create_token: "ok s \<Longrightarrow> st_CreateEnrollmentToken st t s = (oe, s') \<Longrightarrow>
      ok s' \<and> (tok s' = tok s \<or> (\<exists>q. et_Token t \<noteq> [] \<and> tok s' = (tok s)(et_Token t \<mapsto> q)))"
    and consume_ok: "ok s \<Longrightarrow> st_ConsumeEnrollmentToken st now token ip s = (Inr et', s') \<Longrightarrow>
      ok s' \<and> (\<exists>et. tok s token = Some et \<and> et_ConsumedAt et = None \<and> now \<le> et_ExpiresAt et
        \<and> et' = et\<lparr>et_ConsumedAt := Some now, et_ConsumerIP := ip\<rparr> \<and> tok s' = (tok s)(token \<mapsto> et'))"
    and consume_err: "ok s \<Longrightarrow> st_ConsumeEnrollmentToken st now token ip s = (Inl e, s') \<Longrightarrow> ok s' \<and> tok s' = tok s"
    and revoke_ok: "ok s \<Longrightarrow> st_RevokeEnrollmentToken st now token s = (None, s') \<Longrightarrow>
      ok s' \<and> (\<exists>et. tok s token = Some et \<and> et_ConsumedAt et = None
        \<and> tok s' = (tok s)(token \<mapsto> et\<lparr>et_ConsumedAt := Some now, et_ConsumerIP := ''revoked''\<rparr>))"
    and revoke_err: "ok s \<Longrightarrow> st_RevokeEnrollmentToken st now token s = (Some e, s') \<Longrightarrow> ok s' \<and> tok s' = tok s"

section \<open>The in-memory store keeps the contracts\<close>

definition mem_appr :: "memStore \<Rightarrow> string \<Rightarrow> PendingApproval option" where
  "mem_appr m = map_of (m_approvals m)"

definition mem_tok :: "memStore \<Rightarrow> string \<Rightarrow> EnrollmentToken option" where
  "mem_tok m = map_of (m_enrollments m)"

interpretation mem_appr: approval_store "mem_Store sha256" sha256 mem_appr
  by unfold_locales
    (auto simp: mem_Store_def mem_CreateApproval_def mem_ApproveApproval_def mem_RejectApproval_def mem_appr_def same_request_def
      update_conv' Let_def split: sum.splits if_splits option.splits)

interpretation mem_tok: enrollment_store "mem_Store sha256" mem_tok "\<lambda>_. True"
  by unfold_locales
    (auto simp: mem_Store_def mem_CreateEnrollmentToken_def mem_ConsumeEnrollmentToken_def mem_RevokeEnrollmentToken_def mem_tok_def
      update_conv' Let_def split: sum.splits if_splits option.splits)

section \<open>The persistent store keeps the contracts\<close>

definition sql_appr :: "sqlite_state \<Rightarrow> string \<Rightarrow> PendingApproval option" where
  "sql_appr ns aid = map_option scanApproval (List.find (\<lambda>r. qr_id r = aid) (d_approvals (snd ns)))"

definition sql_tok :: "sqlite_state \<Rightarrow> string \<Rightarrow> EnrollmentToken option" where
  "sql_tok ns token = map_option row_enrollment (List.find (\<lambda>r. nr_token r = token) (d_enrollments (snd ns)))"

lemma from_nullIfEmpty [simp]: "from_null (nullIfEmpty s) = s" "from_null (Some s) = s" "from_null None = []"
  by (auto simp: from_null_def nullIfEmpty_def)

lemma decide_row_hit:
  assumes "List.find (\<lambda>r. qr_id r = aid) (d_approvals s) = Some r" "qr_status r = ApprovalPending"
  shows "fst (decide_row aid f s) \<noteq> 0"
proof -
  have "r \<in> set (filter (\<lambda>r. qr_id r = aid \<and> qr_status r = ApprovalPending) (d_approvals s))"
    using find_Some [OF assms(1)] assms(2) by simp
  then show ?thesis unfolding decide_row_def Let_def by (auto simp del: set_filter)
qed

lemma decide_row_appr:
  assumes "List.find (\<lambda>r. qr_id r = aid) (d_approvals s) = Some r" "qr_status r = ApprovalPending" "\<And>x. qr_id (f x) = qr_id x"
  shows "sql_appr (n, snd (decide_row aid f s)) = (sql_appr (m, s))(aid \<mapsto> scanApproval (f r))"
proof
  fix k
  show "sql_appr (n, snd (decide_row aid f s)) k = ((sql_appr (m, s))(aid \<mapsto> scanApproval (f r))) k"
  proof (cases "k = aid")
    case True
    then show ?thesis using assms(1,2)
      by (simp add: sql_appr_def decide_row_def Let_def find_update_rows [of qr_id, OF assms(3)] find_Some [OF assms(1)])
  next
    case False
    have "(if qr_id x = aid \<and> qr_status x = ApprovalPending then f x else x) = x" if "List.find (\<lambda>r. qr_id r = k) (d_approvals s) = Some x" for x
      using find_Some [OF that] False by auto
    then show ?thesis using False
      by (cases "List.find (\<lambda>r. qr_id r = k) (d_approvals s)")
        (simp_all add: sql_appr_def decide_row_def Let_def find_update_rows [of qr_id, OF assms(3)])
  qed
qed

lemma decided_scan:
  "scanApproval (r\<lparr>qr_approver := Some a, qr_approver_fingerprint := Some fp, qr_approved_at := Some now, qr_status := st\<rparr>)
   = decided st a fp None now (scanApproval r)"
  "scanApproval (r\<lparr>qr_approver := Some a, qr_approver_fingerprint := Some fp, qr_approved_at := Some now, qr_status := st,
     qr_rejection_comment := nullIfEmpty c\<rparr>) = decided st a fp (Some c) now (scanApproval r)"
  by (simp_all add: scanApproval_def decided_def)

lemma sql_GetApproval_Inr: "sql_GetApproval flt aid s = Inr p \<Longrightarrow>
  \<exists>r. List.find (\<lambda>r. qr_id r = aid) (d_approvals s) = Some r \<and> p = scanApproval r \<and> qr_status r = pa_Status p"
  by (auto simp: sql_GetApproval_def scanApproval_def split: option.splits)

lemma sql_approve_ok:
  assumes "sql_ApproveApproval flt now aid approver fp s = (Inr p', s')"
  shows "\<exists>p. sql_appr (n, s) aid = Some p \<and> may_decide fp p = None \<and> fp \<noteq> [] \<and> approver \<noteq> []
    \<and> p' = decided ApprovalApproved approver fp None now p \<and> sql_appr (n', s') = (sql_appr (n, s))(aid \<mapsto> p')"
proof -
  obtain p where p: "sql_GetApproval flt aid s = Inr p" "may_decide fp p = None" "approver \<noteq> []" "fp \<noteq> []"
    using assms by (auto simp: sql_ApproveApproval_def split: if_splits sum.splits option.splits)
  obtain r where r: "List.find (\<lambda>r. qr_id r = aid) (d_approvals s) = Some r" "p = scanApproval r" "qr_status r = pa_Status p"
    using sql_GetApproval_Inr [OF p(1)] by blast
  have pend: "qr_status r = ApprovalPending" using p(2) r(3) by (auto simp: may_decide_def split: if_splits)
  let ?f = "\<lambda>r. r\<lparr>qr_approver := Some approver, qr_approver_fingerprint := Some fp, qr_approved_at := Some now, qr_status := ApprovalApproved\<rparr>"
  have "p' = decided ApprovalApproved approver fp None now p" "s' = snd (decide_row aid ?f s)"
    using assms p decide_row_hit [OF r(1) pend, of ?f]
    by (auto simp: sql_ApproveApproval_def split: if_splits option.splits prod.splits)
  then show ?thesis using decide_row_appr [OF r(1) pend, of ?f n' n] p r
    by (auto simp: decided_scan sql_appr_def)
qed

lemma sql_reject_ok:
  assumes "sql_RejectApproval flt now aid approver fp comment s = (Inr p', s')"
  shows "\<exists>p. sql_appr (n, s) aid = Some p \<and> may_decide fp p = None \<and> fp \<noteq> [] \<and> approver \<noteq> []
    \<and> p' = decided ApprovalRejected approver fp (Some comment) now p \<and> sql_appr (n', s') = (sql_appr (n, s))(aid \<mapsto> p')"
proof -
  obtain p where p: "sql_GetApproval flt aid s = Inr p" "may_decide fp p = None" "approver \<noteq> []" "fp \<noteq> []"
    using assms by (auto simp: sql_RejectApproval_def split: if_splits sum.splits option.splits)
  obtain r where r: "List.find (\<lambda>r. qr_id r = aid) (d_approvals s) = Some r" "p = scanApproval r" "qr_status r = pa_Status p"
    using sql_GetApproval_Inr [OF p(1)] by blast
  have pend: "qr_status r = ApprovalPending" using p(2) r(3) by (auto simp: may_decide_def split: if_splits)
  let ?f = "\<lambda>r. r\<lparr>qr_approver := Some approver, qr_approver_fingerprint := Some fp, qr_approved_at := Some now,
      qr_status := ApprovalRejected, qr_rejection_comment := nullIfEmpty comment\<rparr>"
  have "p' = decided ApprovalRejected approver fp (Some comment) now p" "s' = snd (decide_row aid ?f s)"
    using assms p decide_row_hit [OF r(1) pend, of ?f]
    by (auto simp: sql_RejectApproval_def split: if_splits option.splits prod.splits)
  then show ?thesis using decide_row_appr [OF r(1) pend, of ?f n' n] p r
    by (auto simp: decided_scan sql_appr_def)
qed

lemma sql_decide_err:
  "sql_ApproveApproval flt now aid approver fp s = (Inl e, s') \<Longrightarrow> s' = s"
  "sql_RejectApproval flt now aid approver fp comment s = (Inl e, s') \<Longrightarrow> s' = s"
proof -
  have hit: "decide_row aid f s \<noteq> (0, t)" if "may_decide fp p = None" "sql_GetApproval flt aid s = Inr p" for p f t
    using sql_GetApproval_Inr [OF that(2)] that(1) decide_row_hit [of aid s _ f] by (auto simp: may_decide_def split: if_splits)
  show "s' = s" if "sql_ApproveApproval flt now aid approver fp s = (Inl e, s')"
  proof (cases "sql_GetApproval flt aid s")
    case (Inr p)
    then show ?thesis using that hit [OF _ Inr]
      by (cases "may_decide fp p") (simp_all add: sql_ApproveApproval_def split: if_splits option.splits prod.splits)
  qed (use that in \<open>auto simp: sql_ApproveApproval_def split: if_splits\<close>)
  show "s' = s" if "sql_RejectApproval flt now aid approver fp comment s = (Inl e, s')"
  proof (cases "sql_GetApproval flt aid s")
    case (Inr p)
    then show ?thesis using that hit [OF _ Inr]
      by (cases "may_decide fp p") (simp_all add: sql_RejectApproval_def split: if_splits option.splits prod.splits)
  qed (use that in \<open>auto simp: sql_RejectApproval_def split: if_splits\<close>)
qed

lemma faulty_cases: "faulty env op ns = (r, ns') \<longleftrightarrow> (\<exists>s'. op (env (fst ns)) (snd ns) = (r, s') \<and> ns' = (Suc (fst ns), s'))"
  by (auto simp: faulty_def split: prod.splits)

lemma sql_create_ok:
  assumes "sql_CreateApproval sha256 nonce flt now p s = (Inr p', s')"
  shows "approval_request sha256 nonce now p = Inr p' \<and> (\<exists>q. same_request p' q \<and> sql_appr (n', s') = (sql_appr (n, s))(pa_ID p' \<mapsto> q))"
proof -
  obtain rows where r: "approval_request sha256 nonce now p = Inr p'" "insert_row qr_id (approval_to_row p') (d_approvals s) = Some rows"
    "s' = s\<lparr>d_approvals := rows\<rparr>"
    using assms by (auto simp: sql_CreateApproval_def split: sum.splits option.splits)
  have "sql_appr (n', s') = (sql_appr (n, s))(pa_ID p' \<mapsto> scanApproval (approval_to_row p'))"
    using find_insert_row [OF r(2)] by (auto simp: sql_appr_def r(3) approval_to_row_def)
  moreover have "same_request p' (scanApproval (approval_to_row p'))"
    by (simp add: same_request_def scanApproval_def approval_to_row_def)
  ultimately show ?thesis using r(1) by blast
qed

lemma sql_create_err: "sql_CreateApproval sha256 nonce flt now p s = (Inl e, s') \<Longrightarrow> s' = s"
  by (auto simp: sql_CreateApproval_def split: sum.splits option.splits)

lemma sql_appr_count: "sql_appr (n, s) = sql_appr (m, s)"
  by (simp add: sql_appr_def fun_eq_iff)

interpretation sql_appr: approval_store "sqlite_Store sha256 env" sha256 sql_appr
proof (unfold_locales, goal_cases)
  case (1 nonce now p s p' s')
  then show ?case using sql_create_ok by (cases s) (fastforce simp: sqlite_Store_def faulty_cases)
next
  case (2 nonce now p s e s')
  then show ?case using sql_create_err by (cases s) (fastforce simp: sqlite_Store_def faulty_cases intro: sql_appr_count)
next
  case (3 now aid approver fp s p' s')
  then show ?case using sql_approve_ok by (cases s) (fastforce simp: sqlite_Store_def faulty_cases)
next
  case (4 now aid approver fp s e s')
  then show ?case using sql_decide_err(1) by (cases s) (fastforce simp: sqlite_Store_def faulty_cases intro: sql_appr_count)
next
  case (5 now aid approver fp comment s p' s')
  then show ?case using sql_reject_ok by (cases s) (fastforce simp: sqlite_Store_def faulty_cases)
next
  case (6 now aid approver fp comment s e s')
  then show ?case using sql_decide_err(2) by (cases s) (fastforce simp: sqlite_Store_def faulty_cases intro: sql_appr_count)
qed

lemma sql_tok_update:
  assumes "\<And>x. nr_token (f x) = nr_token x" "List.find (\<lambda>r. nr_token r = token) (d_enrollments s) = Some r" "P r"
    and "\<And>x. P x \<Longrightarrow> nr_token x = token"
  shows "sql_tok (n, s\<lparr>d_enrollments := update_rows P f (d_enrollments s)\<rparr>) = (sql_tok (m, s))(token \<mapsto> row_enrollment (f r))"
proof
  fix k
  show "sql_tok (n, s\<lparr>d_enrollments := update_rows P f (d_enrollments s)\<rparr>) k = ((sql_tok (m, s))(token \<mapsto> row_enrollment (f r))) k"
  proof (cases "k = token")
    case True
    then show ?thesis using assms(2,3) by (simp add: sql_tok_def find_update_rows [of nr_token, OF assms(1)])
  next
    case False
    then have "\<not> P x" if "List.find (\<lambda>r. nr_token r = k) (d_enrollments s) = Some x" for x
      using find_Some [OF that] assms(4) by auto
    then show ?thesis using False
      by (cases "List.find (\<lambda>r. nr_token r = k) (d_enrollments s)") (simp_all add: sql_tok_def find_update_rows [of nr_token, OF assms(1)])
  qed
qed

lemma sql_consume_ok:
  assumes "sql_ConsumeEnrollmentToken flt now token ip s = (Inr et', s')"
  shows "\<exists>et. sql_tok (n, s) token = Some et \<and> et_ConsumedAt et = None \<and> now \<le> et_ExpiresAt et
    \<and> et' = et\<lparr>et_ConsumedAt := Some now, et_ConsumerIP := ip\<rparr> \<and> sql_tok (n', s') = (sql_tok (n, s))(token \<mapsto> et')"
proof -
  let ?f = "\<lambda>x. x\<lparr>nr_consumed_at := Some now, nr_consumer_ip := nullIfEmpty ip\<rparr>"
  obtain r where r: "List.find (\<lambda>r. nr_token r = token) (d_enrollments s) = Some r" "nr_consumed_at r = None" "\<not> nr_expires_at r < now"
    "et' = (row_enrollment r)\<lparr>et_ConsumedAt := Some now, et_ConsumerIP := ip\<rparr>"
    "s' = s\<lparr>d_enrollments := update_rows (\<lambda>x. nr_token x = token) ?f (d_enrollments s)\<rparr>"
    using assms by (auto simp: sql_ConsumeEnrollmentToken_def split: option.splits if_splits)
  have "row_enrollment (?f r) = et'" by (simp add: row_enrollment_def r(4))
  then show ?thesis using sql_tok_update [of ?f token s r "\<lambda>x. nr_token x = token" n' n] r find_Some [OF r(1)]
    by (auto simp: sql_tok_def row_enrollment_def)
qed

lemma sql_consume_err: "sql_ConsumeEnrollmentToken flt now token ip s = (Inl e, s') \<Longrightarrow> s' = s"
  by (auto simp: sql_ConsumeEnrollmentToken_def split: option.splits if_splits)

lemma sql_revoke_ok:
  assumes "distinct (map nr_token (d_enrollments s))" "sql_RevokeEnrollmentToken flt now token s = (None, s')"
  shows "\<exists>et. sql_tok (n, s) token = Some et \<and> et_ConsumedAt et = None
    \<and> sql_tok (n', s') = (sql_tok (n, s))(token \<mapsto> et\<lparr>et_ConsumedAt := Some now, et_ConsumerIP := ''revoked''\<rparr>)"
proof -
  let ?hit = "\<lambda>r. nr_token r = token \<and> nr_consumed_at r = None"
  let ?f = "\<lambda>r. r\<lparr>nr_consumed_at := Some now, nr_consumer_ip := Some ''revoked''\<rparr>"
  have s': "filter ?hit (d_enrollments s) \<noteq> []" "s' = s\<lparr>d_enrollments := update_rows ?hit ?f (d_enrollments s)\<rparr>"
    using assms(2) by (auto simp: sql_RevokeEnrollmentToken_def Let_def split: option.splits if_splits)
  then obtain r where r: "r \<in> set (d_enrollments s)" "?hit r" by (auto simp: filter_empty_conv)
  then obtain q where q: "List.find (\<lambda>r. nr_token r = token) (d_enrollments s) = Some q"
    by (cases "List.find (\<lambda>r. nr_token r = token) (d_enrollments s)") (auto simp: find_None_iff)
  have "q = r" using find_Some [OF q] r assms(1) by (auto simp: distinct_map inj_on_def)
  then show ?thesis using sql_tok_update [of ?f token s q ?hit n' n] q r(2) s'(2)
    by (auto simp: sql_tok_def row_enrollment_def)
qed

definition token_keys :: "sqlite_state \<Rightarrow> bool" where
  "token_keys ns \<longleftrightarrow> distinct (map nr_token (d_enrollments (snd ns)))"

lemma keys_update_rows: "(\<And>x. key (f x) = key x) \<Longrightarrow> map key (update_rows P f rows) = map key rows"
  by (induction rows) (auto simp: update_rows_def)

lemma keys_insert_row: "insert_row key r rows = Some rows' \<Longrightarrow> distinct (map key rows) \<Longrightarrow> distinct (map key rows')"
  by (auto simp: insert_row_def split: if_splits)

lemma sql_tok_count: "sql_tok (n, s) = sql_tok (m, s)"
  by (simp add: sql_tok_def fun_eq_iff)

lemma sql_create_token:
  assumes "token_keys (n, s)" "sql_CreateEnrollmentToken flt t s = (oe, s')"
  shows "token_keys (n', s') \<and> (sql_tok (n', s') = sql_tok (n, s)
    \<or> (\<exists>q. et_Token t \<noteq> [] \<and> sql_tok (n', s') = (sql_tok (n, s))(et_Token t \<mapsto> q)))"
proof (cases "s' = s")
  case True
  then show ?thesis using assms(1) sql_tok_count by (auto simp: token_keys_def)
next
  case False
  then obtain rows where r: "et_Token t \<noteq> []" "insert_row nr_token (enrollment_to_row t) (d_enrollments s) = Some rows"
    "s' = s\<lparr>d_enrollments := rows\<rparr>"
    using assms(2) by (auto simp: sql_CreateEnrollmentToken_def split: option.splits if_splits)
  have "sql_tok (n', s') = (sql_tok (n, s))(et_Token t \<mapsto> row_enrollment (enrollment_to_row t))"
    using find_insert_row [OF r(2)] by (auto simp: sql_tok_def r(3) enrollment_to_row_def)
  then show ?thesis using r keys_insert_row [OF r(2)] assms(1) by (auto simp: token_keys_def)
qed

lemma sql_token_keys:
  assumes "token_keys (n, s)"
  shows "sql_ConsumeEnrollmentToken flt now token ip s = (r, s') \<Longrightarrow> token_keys (n', s')"
    and "sql_RevokeEnrollmentToken flt now token s = (e, s') \<Longrightarrow> token_keys (n', s')"
  using assms
  by (auto simp: token_keys_def sql_ConsumeEnrollmentToken_def sql_RevokeEnrollmentToken_def Let_def keys_update_rows
      split: option.splits if_splits)

interpretation sql_tok: enrollment_store "sqlite_Store sha256 env" sql_tok token_keys
proof (unfold_locales, goal_cases)
  case (1 s t oe s')
  obtain n s0 where s: "s = (n, s0)" by (cases s)
  obtain s1 where "sql_CreateEnrollmentToken (env n) t s0 = (oe, s1)" "s' = (Suc n, s1)"
    using 1(2) by (auto simp: s sqlite_Store_def faulty_cases)
  then show ?case using sql_create_token [OF 1(1) [unfolded s]] by (simp add: s)
next
  case (2 s now token ip et' s')
  obtain n s0 where s: "s = (n, s0)" by (cases s)
  obtain s1 where c: "sql_ConsumeEnrollmentToken (env n) now token ip s0 = (Inr et', s1)" and s': "s' = (Suc n, s1)"
    using 2(2) by (auto simp: s sqlite_Store_def faulty_cases)
  show ?case unfolding s s' using sql_consume_ok [OF c] sql_token_keys(1) [OF 2(1) [unfolded s] c] by simp
next
  case (3 s now token ip e s')
  obtain n s0 where s: "s = (n, s0)" by (cases s)
  obtain s1 where c: "sql_ConsumeEnrollmentToken (env n) now token ip s0 = (Inl e, s1)" and s': "s' = (Suc n, s1)"
    using 3(2) by (auto simp: s sqlite_Store_def faulty_cases)
  show ?case unfolding s s' using sql_consume_err [OF c] sql_token_keys(1) [OF 3(1) [unfolded s] c] sql_tok_count by simp
next
  case (4 s now token s')
  obtain n s0 where s: "s = (n, s0)" by (cases s)
  obtain s1 where c: "sql_RevokeEnrollmentToken (env n) now token s0 = (None, s1)" and s': "s' = (Suc n, s1)"
    using 4(2) by (auto simp: s sqlite_Store_def faulty_cases)
  show ?case unfolding s s' using sql_revoke_ok [OF _ c] sql_token_keys(2) [OF 4(1) [unfolded s] c] 4(1) by (simp add: s token_keys_def)
next
  case (5 s now token e s')
  obtain n s0 where s: "s = (n, s0)" by (cases s)
  obtain s1 where c: "sql_RevokeEnrollmentToken (env n) now token s0 = (Some e, s1)" and s': "s' = (Suc n, s1)"
    using 5(2) by (auto simp: s sqlite_Store_def faulty_cases)
  then have "s1 = s0" by (auto simp: sql_RevokeEnrollmentToken_def Let_def split: option.splits if_splits)
  then show ?case unfolding s s' using 5(1) sql_tok_count by (simp add: s token_keys_def)
qed

end
