(* ===== verification/CP_Workflows.thy ===== *)
theory CP_Workflows
  imports CP_Store
begin

text \<open>
  What the store guarantees over whole histories: sequences of requests by any callers, in any
  order, with database errors at any point. Proved once for every store that keeps the
  contracts, and so for the in-memory and the persistent one.
\<close>

section \<open>Approvals\<close>

datatype approval_op =
    ReqCreate string gotime PendingApproval
  | ReqApprove gotime string string string
  | ReqReject gotime string string string string

fun approval_step :: "'s Store \<Rightarrow> approval_op \<Rightarrow> 's \<Rightarrow> 's" where
  "approval_step st (ReqCreate nonce now p) s = snd (st_CreateApproval st nonce now p s)"
| "approval_step st (ReqApprove now aid approver fp) s = snd (st_ApproveApproval st now aid approver fp s)"
| "approval_step st (ReqReject now aid approver fp comment) s = snd (st_RejectApproval st now aid approver fp comment s)"

definition approval_run :: "'s Store \<Rightarrow> approval_op list \<Rightarrow> 's \<Rightarrow> 's" where
  "approval_run st ops s = fold (approval_step st) ops s"

definition four_eyes :: "(string \<Rightarrow> PendingApproval option) \<Rightarrow> bool" where
  "four_eyes A \<longleftrightarrow> (\<forall>aid p. A aid = Some p \<and> pa_Status p = ApprovalApproved \<longrightarrow>
     pa_ApproverFinger p \<noteq> pa_RequesterFinger p \<and> pa_ApproverFinger p \<noteq> [] \<and> pa_Approver p \<noteq> [] \<and> pa_ApprovedAt p \<noteq> None)"

fun asks :: "approval_op \<Rightarrow> bool" where
  "asks (ReqCreate nonce now p) = (pa_Status p \<noteq> ApprovalApproved)"
| "asks _ = True"

fun recreates :: "(string \<Rightarrow> 8 word list) \<Rightarrow> string \<Rightarrow> approval_op \<Rightarrow> bool" where
  "recreates sha256 aid (ReqCreate nonce now p) = (\<exists>p'. approval_request sha256 nonce now p = Inr p' \<and> pa_ID p' = aid)"
| "recreates sha256 aid _ = False"

lemma approval_status_distinct [simp]:
  "ApprovalPending \<noteq> ApprovalApproved" "ApprovalRejected \<noteq> ApprovalApproved" "ApprovalApproved \<noteq> ApprovalPending" "ApprovalRejected \<noteq> ApprovalPending"
  by (simp_all add: ApprovalPending_def ApprovalApproved_def ApprovalRejected_def)

lemma approval_request_status:
  "approval_request sha256 nonce now p = Inr p' \<Longrightarrow> pa_Status p \<noteq> ApprovalApproved \<Longrightarrow> pa_Status p' \<noteq> ApprovalApproved"
  by (auto simp: approval_request_def split: if_splits)

context approval_store
begin

lemma step_cases:
  assumes "appr (approval_step st op s) \<noteq> appr s"
  obtains (create) nonce now p p' q where "op = ReqCreate nonce now p" "approval_request sha256 nonce now p = Inr p'"
      "same_request p' q" "appr (approval_step st op s) = (appr s)(pa_ID p' \<mapsto> q)"
    | (decide) aid p status approver fp c now where "appr s aid = Some p" "may_decide fp p = None" "fp \<noteq> []" "approver \<noteq> []"
      "appr (approval_step st op s) = (appr s)(aid \<mapsto> decided status approver fp c now p)"
proof (cases op)
  case (ReqCreate nonce now p)
  then show thesis using assms create create_err [of nonce now p s] create_ok [of nonce now p s]
    by (cases "st_CreateApproval st nonce now p s"; cases "fst (st_CreateApproval st nonce now p s)") fastforce+
next
  case (ReqApprove now aid approver fp)
  then show thesis using assms decide approve_err [of now aid approver fp s] approve_ok [of now aid approver fp s]
    by (cases "st_ApproveApproval st now aid approver fp s"; cases "fst (st_ApproveApproval st now aid approver fp s)") fastforce+
next
  case (ReqReject now aid approver fp comment)
  then show thesis using assms decide reject_err [of now aid approver fp comment s] reject_ok [of now aid approver fp comment s]
    by (cases "st_RejectApproval st now aid approver fp comment s"; cases "fst (st_RejectApproval st now aid approver fp comment s)") fastforce+
qed

lemma step_four_eyes:
  assumes "four_eyes (appr s)" "asks op"
  shows "four_eyes (appr (approval_step st op s))"
proof (cases "appr (approval_step st op s) = appr s")
  case False
  then show ?thesis
  proof (cases rule: step_cases)
    case (create nonce now p p' q)
    then have "pa_Status q \<noteq> ApprovalApproved"
      using approval_request_status [OF create(2)] assms(2) by (simp add: same_request_def)
    then show ?thesis using assms(1) by (auto simp: four_eyes_def create(4))
  next
    case (decide aid p status approver fp c now)
    then have "fp \<noteq> pa_RequesterFinger p" by (auto simp: may_decide_def split: if_splits)
    then show ?thesis using assms(1) decide by (auto simp: four_eyes_def decided_def)
  qed
qed (simp add: assms(1))

lemma run_four_eyes: "four_eyes (appr s) \<Longrightarrow> \<forall>op \<in> set ops. asks op \<Longrightarrow> four_eyes (appr (approval_run st ops s))"
  unfolding approval_run_def by (induction ops arbitrary: s) (auto simp: step_four_eyes)

lemma step_final:
  assumes "appr s aid = Some p" "pa_Status p \<noteq> ApprovalPending" "\<not> recreates sha256 aid op"
  shows "appr (approval_step st op s) aid = Some p"
proof (cases "appr (approval_step st op s) = appr s")
  case False
  then show ?thesis
  proof (cases rule: step_cases)
    case (create nonce now p1 p' q)
    then show ?thesis using assms by auto
  next
    case (decide aid' p1 status approver fp c now)
    then have "aid' \<noteq> aid" using assms(1,2) by (auto simp: may_decide_def split: if_splits)
    then show ?thesis using assms(1) by (simp add: decide(5))
  qed
qed (simp add: assms(1))

lemma run_final:
  "appr s aid = Some p \<Longrightarrow> pa_Status p \<noteq> ApprovalPending \<Longrightarrow> \<forall>op \<in> set ops. \<not> recreates sha256 aid op \<Longrightarrow>
   appr (approval_run st ops s) aid = Some p"
  unfolding approval_run_def by (induction ops arbitrary: s) (auto simp: step_final)

end

section \<open>Enrollment tokens\<close>

datatype token_op = TokCreate EnrollmentToken | TokConsume gotime string string | TokRevoke gotime string

text \<open>A history, with the tokens whose consumption succeeded.\<close>

fun token_run :: "'s Store \<Rightarrow> token_op list \<Rightarrow> 's \<Rightarrow> string list \<times> 's" where
  "token_run st [] s = ([], s)"
| "token_run st (TokCreate t # ops) s = token_run st ops (snd (st_CreateEnrollmentToken st t s))"
| "token_run st (TokConsume now token ip # ops) s =
     (case st_ConsumeEnrollmentToken st now token ip s of
        (Inr et, s1) \<Rightarrow> apfst (Cons token) (token_run st ops s1)
      | (Inl e, s1) \<Rightarrow> token_run st ops s1)"
| "token_run st (TokRevoke now token # ops) s = token_run st ops (snd (st_RevokeEnrollmentToken st now token s))"

definition unused :: "(string \<Rightarrow> EnrollmentToken option) \<Rightarrow> string \<Rightarrow> bool" where
  "unused T token \<longleftrightarrow> (\<exists>et. T token = Some et \<and> et_ConsumedAt et = None)"

context enrollment_store
begin

lemma token_run_once:
  assumes "ok s" "\<forall>t. TokCreate t \<in> set ops \<longrightarrow> et_Token t \<noteq> token"
  shows "count_list (fst (token_run st ops s)) token \<le> (if unused (tok s) token then 1 else 0)"
  using assms
proof (induction ops arbitrary: s)
  case (Cons op ops)
  have IH: "count_list (fst (token_run st ops s1)) token \<le> (if unused (tok s1) token then 1 else 0)" if "ok s1" for s1
    using Cons.IH [OF that] Cons.prems(2) by simp
  show ?case
  proof (cases op)
    case (TokCreate t)
    obtain oe s1 where c: "st_CreateEnrollmentToken st t s = (oe, s1)" by (cases "st_CreateEnrollmentToken st t s")
    note t = create_token [OF Cons.prems(1) c]
    have "unused (tok s1) token = unused (tok s) token" using t Cons.prems(2) TokCreate by (auto simp: unused_def)
    then show ?thesis using IH [of s1] t by (simp add: TokCreate c)
  next
    case (TokRevoke now x)
    obtain oe s1 where c: "st_RevokeEnrollmentToken st now x s = (oe, s1)" by (cases "st_RevokeEnrollmentToken st now x s")
    have "ok s1 \<and> (unused (tok s1) token \<longrightarrow> unused (tok s) token)"
      using revoke_ok [OF Cons.prems(1), of now x s1] revoke_err [OF Cons.prems(1), of now x _ s1] c
      by (cases oe) (auto simp: unused_def split: if_splits)
    then show ?thesis using IH [of s1] by (auto simp: TokRevoke c split: if_splits)
  next
    case (TokConsume now x ip)
    obtain r s1 where c: "st_ConsumeEnrollmentToken st now x ip s = (r, s1)" by (cases "st_ConsumeEnrollmentToken st now x ip s")
    show ?thesis
    proof (cases r)
      case (Inl e)
      then show ?thesis using IH [of s1] consume_err [OF Cons.prems(1), of now x ip e s1] c by (simp add: TokConsume)
    next
      case (Inr et')
      have k: "ok s1" "unused (tok s) x" "\<not> unused (tok s1) x" "x \<noteq> token \<Longrightarrow> unused (tok s1) token = unused (tok s) token"
        using consume_ok [OF Cons.prems(1), of now x ip et' s1] c Inr by (auto simp: unused_def)
      then show ?thesis using IH [of s1] c Inr by (cases "x = token") (auto simp: TokConsume split: if_splits)
    qed
  qed
qed simp

end

section \<open>Properties\<close>

text \<open>
  C9. Four eyes. Starting from an empty store, after any history of requests, approvals and
  rejections by any callers, an approval that is marked approved was approved by a named
  operator whose fingerprint differs from the requester's, on both stores and with database
  errors at any point, provided no request is filed with the status approved already.
\<close>

theorem approvals_four_eyes:
  assumes "\<forall>op \<in> set ops. asks op"
  shows "four_eyes (mem_appr (approval_run (mem_Store sha256) ops NewMemoryStore))
    \<and> four_eyes (sql_appr (approval_run (sqlite_Store sha256 env) ops (0, empty_db)))"
proof -
  have "four_eyes (mem_appr NewMemoryStore)" "four_eyes (sql_appr (0, empty_db))"
    by (simp_all add: four_eyes_def mem_appr_def NewMemoryStore_def sql_appr_def empty_db_def)
  then show ?thesis using mem_appr.run_four_eyes sql_appr.run_four_eyes assms by blast
qed

definition demo_request :: PendingApproval where
  "demo_request = \<lparr>pa_ID = ''a1'', pa_PolicyName = ''web'', pa_ProposedBody = ''policy'', pa_Requester = ''ann'',
     pa_RequesterFinger = ''fp:1'', pa_RequestedAt = 0, pa_Approver = [], pa_ApproverFinger = [], pa_ApprovedAt = None,
     pa_Status = [], pa_RejectionComment = []\<rparr>"

theorem approvals_four_eyes_witness:
  "four_eyes (mem_appr (approval_run (mem_Store (\<lambda>_. [])) [ReqCreate [] 5 demo_request, ReqApprove 7 ''a1'' ''bob'' ''fp:2''] NewMemoryStore))
   \<and> mem_appr (approval_run (mem_Store (\<lambda>_. [])) [ReqCreate [] 5 demo_request, ReqApprove 7 ''a1'' ''bob'' ''fp:2''] NewMemoryStore) ''a1''
     = Some (demo_request\<lparr>pa_RequestedAt := 5, pa_Approver := ''bob'', pa_ApproverFinger := ''fp:2'', pa_ApprovedAt := Some 7,
         pa_Status := ApprovalApproved\<rparr>)"
proof -
  have "\<forall>op \<in> set [ReqCreate [] 5 demo_request, ReqApprove 7 ''a1'' ''bob'' ''fp:2'']. asks op"
    by (simp add: demo_request_def ApprovalApproved_def)
  from approvals_four_eyes [OF this, of "\<lambda>_. []"] show ?thesis
    by (simp add: approval_run_def mem_Store_def mem_CreateApproval_def approval_request_def demo_request_def or_now_def IsZero_def
        mem_ApproveApproval_def NewMemoryStore_def may_decide_def decided_def mem_appr_def Let_def)
qed

lemma sql_approvals_final:
  assumes "pa_Status p \<noteq> ApprovalPending" "sql_appr s aid = Some p"
  shows "sql_appr (approval_run (sqlite_Store sha256 env) ops s) aid = Some p"
proof -
  have step: "sql_appr (approval_step (sqlite_Store sha256 env) op s) aid = Some p" if "sql_appr s aid = Some p" for op s
  proof (cases "recreates sha256 aid op")
    case True
    then obtain nonce now q q' where q: "op = ReqCreate nonce now q" "approval_request sha256 nonce now q = Inr q'" "pa_ID q' = aid"
      by (cases op) auto
    obtain n s0 where s: "s = (n, s0)" by (cases s)
    have "qr_id (approval_to_row q') \<in> qr_id ` set (d_approvals s0)"
      using that find_Some [of "\<lambda>r. qr_id r = aid" "d_approvals s0"] by (auto simp: s sql_appr_def approval_to_row_def q(3))
    then have "snd (sql_CreateApproval sha256 nonce (env n) now q s0) = s0"
      by (simp add: sql_CreateApproval_def q(2) insert_row_def split: option.split)
    then show ?thesis using that
      by (cases "sql_CreateApproval sha256 nonce (env n) now q s0") (simp add: q(1) s sqlite_Store_def faulty_def sql_appr_def)
  qed (rule sql_appr.step_final [OF that assms(1)])
  show ?thesis using assms(2) unfolding approval_run_def by (induction ops arbitrary: s) (auto simp: step)
qed

text \<open>
  Decisions are final. Once an approval is no longer pending, no later approval or rejection
  changes it in any way: on the persistent store whatever else is requested, on the in-memory store
  unless a new request is filed under the same id.
\<close>

theorem approvals_final:
  assumes "pa_Status p \<noteq> ApprovalPending"
  shows "(mem_appr m aid = Some p \<and> (\<forall>op \<in> set ops. \<not> recreates sha256 aid op) \<longrightarrow>
      mem_appr (approval_run (mem_Store sha256) ops m) aid = Some p)
    \<and> (sql_appr s aid = Some p \<longrightarrow> sql_appr (approval_run (sqlite_Store sha256 env) ops s) aid = Some p)"
  using mem_appr.run_final sql_approvals_final assms by blast

theorem approvals_final_witness:
  "let p = demo_request\<lparr>pa_Status := ApprovalRejected\<rparr>; m = NewMemoryStore\<lparr>m_approvals := [(''a1'', p)]\<rparr>
   in mem_appr (approval_run (mem_Store (\<lambda>_. [])) [ReqApprove 9 ''a1'' ''bob'' ''fp:2''] m) ''a1'' = Some p"
proof -
  let ?p = "demo_request\<lparr>pa_Status := ApprovalRejected\<rparr>"
  let ?m = "NewMemoryStore\<lparr>m_approvals := [(''a1'', ?p)]\<rparr>"
  have "pa_Status ?p \<noteq> ApprovalPending" by simp
  from approvals_final [OF this, of ?m "''a1''" "[ReqApprove 9 ''a1'' ''bob'' ''fp:2'']"] show ?thesis
    by (simp add: mem_appr_def)
qed

text \<open>
  An enrollment token is good for one enrollment. In any history without a second token of the same
  text, at most one consumption of a token succeeds, and none if the token is unknown, consumed
  or revoked at the start, on both stores and with database errors at any point.
\<close>

theorem enrollment_token_once:
  assumes "\<forall>t. TokCreate t \<in> set ops \<longrightarrow> et_Token t \<noteq> token"
  shows "count_list (fst (token_run (mem_Store sha256) ops m)) token \<le> (if unused (mem_tok m) token then 1 else 0)
    \<and> (token_keys s \<longrightarrow> count_list (fst (token_run (sqlite_Store sha256 env) ops s)) token \<le> (if unused (sql_tok s) token then 1 else 0))"
  using mem_tok.token_run_once [OF TrueI assms] sql_tok.token_run_once [OF _ assms] by blast

definition demo_token :: EnrollmentToken where
  "demo_token = \<lparr>et_Token = ''t1'', et_AgentID = ''agent-1'', et_TTLSeconds = 900, et_ExpiresAt = 1000, et_IssuedBy = ''ann'',
     et_IssuedAt = 100, et_ConsumedAt = None, et_ConsumerIP = []\<rparr>"

theorem enrollment_token_once_witness:
  "let ops = [TokConsume 200 ''t1'' ''10.0.0.1'', TokConsume 300 ''t1'' ''10.0.0.2'']; m = NewMemoryStore\<lparr>m_enrollments := [(''t1'', demo_token)]\<rparr>
   in fst (token_run (mem_Store (\<lambda>_. [])) ops m) = [''t1'']
     \<and> count_list (fst (token_run (mem_Store (\<lambda>_. [])) ops m)) ''t1'' \<le> (if unused (mem_tok m) ''t1'' then 1 else 0)"
  using enrollment_token_once [of "[TokConsume 200 ''t1'' ''10.0.0.1'', TokConsume 300 ''t1'' ''10.0.0.2'']" "''t1''" "\<lambda>_. []"
      "NewMemoryStore\<lparr>m_enrollments := [(''t1'', demo_token)]\<rparr>"]
  by (simp add: Let_def mem_Store_def mem_ConsumeEnrollmentToken_def demo_token_def NewMemoryStore_def)

end
