(* ===== verification/CP_Hub.thy ===== *)
theory CP_Hub
  imports CP_Types
begin

text \<open>
  The log hub of the control plane, \<open>backend/internal/controlplane/log_hub.go\<close>: log lines from the agents are
  fanned out to subscribers of one agent or of all agents.

  A subscription is its id and agent; its channel is the list of the lines it has not received
  yet, held by the hub under the id. A send on a full channel does not block, it
  drops the line and counts it.
\<close>

record LogLine =
  ll_Agent :: AgentIdentity
  ll_At :: gotime
  ll_Level :: string
  ll_Source :: string
  ll_Line :: string
  ll_Fields :: "(string \<times> string) list"

definition logSubBuffer :: nat where "logSubBuffer = 256"

record LogSubscription =
  ls_id :: "64 word"
  ls_agentID :: string

type_synonym channels = "(64 word \<times> LogLine list) list"

record LogHub =
  lh_nextID :: "64 word"
  lh_byID :: "(string \<times> channels) list"
  lh_allCh :: channels
  lh_dropped :: "64 word"

definition NewLogHub :: LogHub where
  "NewLogHub = \<lparr>lh_nextID = 0, lh_byID = [], lh_allCh = [], lh_dropped = 0\<rparr>"

definition agent_channels :: "string \<Rightarrow> LogHub \<Rightarrow> channels" where
  "agent_channels a h = (case map_of (lh_byID h) a of Some cs \<Rightarrow> cs | None \<Rightarrow> [])"

definition Subscribe :: "string \<Rightarrow> LogHub \<Rightarrow> LogSubscription \<times> LogHub" where
  "Subscribe agentID h =
     (let n = lh_nextID h + 1; h1 = h\<lparr>lh_nextID := n\<rparr>
      in (\<lparr>ls_id = n, ls_agentID = agentID\<rparr>,
          if agentID = [] then h1\<lparr>lh_allCh := AList.update n [] (lh_allCh h)\<rparr>
          else h1\<lparr>lh_byID := AList.update agentID (AList.update n [] (agent_channels agentID h)) (lh_byID h)\<rparr>))"

definition unsubscribe :: "LogSubscription \<Rightarrow> LogHub \<Rightarrow> LogHub" where
  "unsubscribe sub h =
     (if ls_agentID sub = [] then h\<lparr>lh_allCh := AList.delete (ls_id sub) (lh_allCh h)\<rparr>
      else (case map_of (lh_byID h) (ls_agentID sub) of
              None \<Rightarrow> h
            | Some cs \<Rightarrow>
                (let rest = AList.delete (ls_id sub) cs
                 in h\<lparr>lh_byID := (if rest = [] then AList.delete (ls_agentID sub) (lh_byID h)
                                 else AList.update (ls_agentID sub) rest (lh_byID h))\<rparr>)))"

definition offer :: "LogLine \<Rightarrow> LogLine list \<Rightarrow> LogLine list" where
  "offer line ch = (if length ch < logSubBuffer then ch @ [line] else ch)"

definition full_channels :: "channels \<Rightarrow> nat" where
  "full_channels cs = length (filter (\<lambda>(i, ch). \<not> length ch < logSubBuffer) cs)"

definition offer_all :: "LogLine \<Rightarrow> channels \<Rightarrow> channels" where
  "offer_all line cs = map (\<lambda>(i, ch). (i, offer line ch)) cs"

definition Publish :: "LogLine \<Rightarrow> LogHub \<Rightarrow> LogHub" where
  "Publish line h =
     (let a = ai_InstanceID (ll_Agent line); cs = agent_channels a h
      in h\<lparr>lh_allCh := offer_all line (lh_allCh h),
           lh_byID := (if map_of (lh_byID h) a = None then lh_byID h else AList.update a (offer_all line cs) (lh_byID h)),
           lh_dropped := lh_dropped h + of_nat (full_channels (lh_allCh h) + full_channels cs)\<rparr>)"

definition channel_of :: "LogSubscription \<Rightarrow> LogHub \<Rightarrow> LogLine list option" where
  "channel_of sub h =
     (if ls_agentID sub = [] then map_of (lh_allCh h) (ls_id sub) else map_of (agent_channels (ls_agentID sub) h) (ls_id sub))"

text \<open>A subscriber receives the oldest line of its channel.\<close>

definition receive :: "LogSubscription \<Rightarrow> LogHub \<Rightarrow> LogLine option \<times> LogHub" where
  "receive sub h =
     (case channel_of sub h of
        Some (l # ls) \<Rightarrow>
          (Some l, if ls_agentID sub = [] then h\<lparr>lh_allCh := AList.update (ls_id sub) ls (lh_allCh h)\<rparr>
                   else h\<lparr>lh_byID := AList.update (ls_agentID sub)
                            (AList.update (ls_id sub) ls (agent_channels (ls_agentID sub) h)) (lh_byID h)\<rparr>)
      | _ \<Rightarrow> (None, h))"

section \<open>Histories\<close>

datatype hub_op = HubSubscribe string | HubUnsubscribe LogSubscription | HubPublish LogLine | HubReceive LogSubscription

fun hub_step :: "hub_op \<Rightarrow> LogHub \<Rightarrow> LogHub" where
  "hub_step (HubSubscribe a) h = snd (Subscribe a h)"
| "hub_step (HubUnsubscribe sub) h = unsubscribe sub h"
| "hub_step (HubPublish line) h = Publish line h"
| "hub_step (HubReceive sub) h = snd (receive sub h)"

definition hub_run :: "hub_op list \<Rightarrow> LogHub \<Rightarrow> LogHub" where
  "hub_run ops h = fold hub_step ops h"

definition of_agent :: "string \<Rightarrow> LogLine \<Rightarrow> bool" where
  "of_agent a line \<longleftrightarrow> ai_InstanceID (ll_Agent line) = a"

definition chans_ok :: "(LogLine \<Rightarrow> bool) \<Rightarrow> channels \<Rightarrow> bool" where
  "chans_ok P cs \<longleftrightarrow> (\<forall>i ch. map_of cs i = Some ch \<longrightarrow> length ch \<le> logSubBuffer \<and> list_all P ch)"

definition hub_ok :: "LogHub \<Rightarrow> bool" where
  "hub_ok h \<longleftrightarrow> chans_ok (\<lambda>_. True) (lh_allCh h)
     \<and> (\<forall>a cs. map_of (lh_byID h) a = Some cs \<longrightarrow> cs \<noteq> [] \<and> chans_ok (of_agent a) cs)"

lemma chans_ok_Nil [simp]: "chans_ok P []"
  by (simp add: chans_ok_def)

lemma chans_ok_update:
  "chans_ok P cs \<Longrightarrow> length ch \<le> logSubBuffer \<Longrightarrow> list_all P ch \<Longrightarrow> chans_ok P (AList.update i ch cs)"
  by (auto simp: chans_ok_def update_conv' split: if_splits)

lemma chans_ok_delete: "chans_ok P cs \<Longrightarrow> chans_ok P (AList.delete i cs)"
  by (auto simp: chans_ok_def delete_conv' split: if_splits)

lemma chans_ok_offer: "chans_ok P cs \<Longrightarrow> P line \<Longrightarrow> chans_ok P (offer_all line cs)"
  by (auto simp: chans_ok_def offer_all_def offer_def map_of_map split: if_splits)

lemma agent_channels_ok: "hub_ok h \<Longrightarrow> chans_ok (of_agent a) (agent_channels a h)"
  by (auto simp: hub_ok_def agent_channels_def split: option.split)

lemma offer_all_Nil [simp]: "offer_all line cs = [] \<longleftrightarrow> cs = []"
  by (simp add: offer_all_def)

lemma Subscribe_ok: "hub_ok h \<Longrightarrow> hub_ok (snd (Subscribe a h))"
  using agent_channels_ok [of h a]
  by (auto simp: Subscribe_def Let_def hub_ok_def update_conv' chans_ok_update split: if_splits)

lemma unsubscribe_ok: "hub_ok h \<Longrightarrow> hub_ok (unsubscribe sub h)"
  by (auto simp: unsubscribe_def Let_def hub_ok_def update_conv' delete_conv' chans_ok_delete split: option.splits if_splits)

lemma Publish_ok: "hub_ok h \<Longrightarrow> hub_ok (Publish line h)"
  using agent_channels_ok [of h "ai_InstanceID (ll_Agent line)"]
  by (auto simp: Publish_def Let_def hub_ok_def update_conv' chans_ok_offer of_agent_def agent_channels_def split: if_splits option.splits)

lemma channel_of_ok:
  "hub_ok h \<Longrightarrow> channel_of sub h = Some ch \<Longrightarrow>
   length ch \<le> logSubBuffer \<and> (ls_agentID sub \<noteq> [] \<longrightarrow> list_all (of_agent (ls_agentID sub)) ch)"
  using agent_channels_ok [of h "ls_agentID sub"]
  by (auto simp: channel_of_def hub_ok_def chans_ok_def split: if_splits)

lemma receive_ok:
  assumes "hub_ok h"
  shows "hub_ok (snd (receive sub h))"
proof (cases "channel_of sub h")
  case (Some ch)
  note c = channel_of_ok [OF assms Some]
  show ?thesis
  proof (cases ch)
    case (Cons l ls)
    then show ?thesis using assms c agent_channels_ok [OF assms, of "ls_agentID sub"]
      by (auto simp: receive_def Some hub_ok_def update_conv' chans_ok_update list.pred_True split: if_splits)
  qed (simp add: receive_def Some assms)
qed (simp add: receive_def assms)

lemma hub_step_ok: "hub_ok h \<Longrightarrow> hub_ok (hub_step op h)"
  by (cases op) (simp_all add: Subscribe_ok unsubscribe_ok Publish_ok receive_ok)

lemma hub_run_ok: "hub_ok h \<Longrightarrow> hub_ok (hub_run ops h)"
  unfolding hub_run_def by (induction ops arbitrary: h) (auto simp: hub_step_ok)

section \<open>Properties\<close>

text \<open>
  The hub's memory is bounded and its streams are separate. In every history of
  subscriptions, publications and receptions, the channel of a subscriber never holds more than 256
  lines, and a subscription to one agent holds lines of that agent only.
\<close>

theorem log_hub_bounded:
  assumes "channel_of sub (hub_run ops NewLogHub) = Some ch"
  shows "length ch \<le> 256 \<and> (ls_agentID sub \<noteq> [] \<longrightarrow> (\<forall>line \<in> set ch. ai_InstanceID (ll_Agent line) = ls_agentID sub))"
proof -
  have "hub_ok NewLogHub" by (simp add: NewLogHub_def hub_ok_def)
  from channel_of_ok [OF hub_run_ok [OF this] assms] show ?thesis
    by (auto simp: logSubBuffer_def of_agent_def list_all_iff)
qed

definition demo_line :: LogLine where
  "demo_line = \<lparr>ll_Agent = no_identity\<lparr>ai_InstanceID := ''agent-1''\<rparr>, ll_At = 5, ll_Level = ''info'', ll_Source = [], ll_Line = ''hello'', ll_Fields = []\<rparr>"

theorem log_hub_bounded_witness:
  "channel_of \<lparr>ls_id = 1, ls_agentID = ''agent-1''\<rparr> (hub_run [HubSubscribe ''agent-1'', HubSubscribe ''agent-2'', HubPublish demo_line] NewLogHub)
     = Some [demo_line] \<and> length [demo_line] \<le> 256"
proof -
  have c: "channel_of \<lparr>ls_id = 1, ls_agentID = ''agent-1''\<rparr> (hub_run [HubSubscribe ''agent-1'', HubSubscribe ''agent-2'', HubPublish demo_line] NewLogHub)
     = Some [demo_line]"
    by (simp add: hub_run_def NewLogHub_def Subscribe_def Publish_def channel_of_def agent_channels_def Let_def demo_line_def no_identity_def
        offer_all_def offer_def logSubBuffer_def)
  from log_hub_bounded [OF this] c show ?thesis by simp
qed

text \<open>
  Publishing loses nothing silently. A line published is appended to the channel of a subscriber that
  listens to its agent and has room, leaves every other channel as it was, and is counted
  in \<open>Dropped\<close> once for every listening subscriber without room.
\<close>

theorem log_hub_Publish:
  "lh_dropped (Publish line h) = lh_dropped h
      + of_nat (full_channels (lh_allCh h) + full_channels (agent_channels (ai_InstanceID (ll_Agent line)) h))
   \<and> channel_of sub (Publish line h) =
      (if ls_agentID sub = [] \<or> ls_agentID sub = ai_InstanceID (ll_Agent line) then map_option (offer line) (channel_of sub h)
       else channel_of sub h)"
  by (auto simp: Publish_def Let_def channel_of_def agent_channels_def offer_all_def map_of_map update_conv' split: option.splits)

end
