(* ===== verification/CP_Registry.thy ===== *)
theory CP_Registry
  imports CP_Store CP_Hub
begin

text \<open>
  The registry of the control plane, \<open>backend/internal/controlplane/server.go\<close>, and the events an agent's stream
  brings it, \<open>grpc_server.go\<close>.

  The registry keeps the agents, the queued commands and the acknowledgements in memory and mirrors
  them to the store; an error of the store is logged and otherwise ignored, so the model drops it.
  Messages of the generated protobuf code are records of the fields the code reads, with an option
  for a field that may be nil.
\<close>

section \<open>The registry\<close>

record agentEntry =
  en_Identity :: AgentIdentity
  en_LastSeen :: gotime
  en_Snapshot :: "AgentSnapshot option"
  en_Events :: int

record 's Registry =
  rg_agents :: "(string \<times> agentEntry) list"
  rg_commands :: "(string \<times> Command list) list"
  rg_acks :: "(string \<times> CommandAck) list"
  rg_waiters :: "(string \<times> nat) list"
  rg_inbox :: "(nat \<times> CommandAck) list"
  rg_nextWaiter :: nat
  rg_store :: "('s Store \<times> 's) option"
  rg_logHub :: LogHub

text \<open>A call of the store whose error is only logged.\<close>

definition mirror :: "('s Store \<Rightarrow> 's \<Rightarrow> 'r \<times> 's) \<Rightarrow> 's Registry \<Rightarrow> 's Registry" where
  "mirror op r = (case rg_store r of None \<Rightarrow> r | Some (st, s) \<Rightarrow> r\<lparr>rg_store := Some (st, snd (op st s))\<rparr>)"

definition hydrate :: "'s Registry \<Rightarrow> 's Registry" where
  "hydrate r =
     (case rg_store r of
        None \<Rightarrow> r
      | Some (st, s) \<Rightarrow>
          (case st_ListAgents st s of
             (Inl e, s1) \<Rightarrow> r\<lparr>rg_store := Some (st, s1)\<rparr>
           | (Inr recs, s1) \<Rightarrow>
               r\<lparr>rg_store := Some (st, s1),
                 rg_agents := fold (\<lambda>rec. AList.update (ai_InstanceID (ag_Identity rec))
                    \<lparr>en_Identity = ag_Identity rec, en_LastSeen = ag_LastSeen rec, en_Snapshot = None, en_Events = ag_EventCount rec\<rparr>)
                    recs (rg_agents r)\<rparr>))"

definition NewRegistryWithStore :: "('s Store \<times> 's) option \<Rightarrow> 's Registry" where
  "NewRegistryWithStore store =
     hydrate \<lparr>rg_agents = [], rg_commands = [], rg_acks = [], rg_waiters = [], rg_inbox = [], rg_nextWaiter = 0,
              rg_store = store, rg_logHub = NewLogHub\<rparr>"

definition NewRegistry :: "(string \<Rightarrow> 8 word list) \<Rightarrow> memStore Registry" where
  "NewRegistry sha256 = NewRegistryWithStore (Some (mem_Store sha256, NewMemoryStore))"

definition PublishLog :: "LogLine \<Rightarrow> 's Registry \<Rightarrow> 's Registry" where
  "PublishLog line r = r\<lparr>rg_logHub := Publish line (rg_logHub r)\<rparr>"

definition upsertAgent :: "gotime \<Rightarrow> AgentIdentity \<Rightarrow> 's Registry \<Rightarrow> 's Registry" where
  "upsertAgent now aid r =
     (let e = (case map_of (rg_agents r) (ai_InstanceID aid) of
                 None \<Rightarrow> \<lparr>en_Identity = aid, en_LastSeen = now, en_Snapshot = None, en_Events = 0\<rparr>
               | Some e \<Rightarrow> e\<lparr>en_Identity := aid, en_LastSeen := now\<rparr>)
      in mirror (\<lambda>st. st_UpsertAgent st now aid) (r\<lparr>rg_agents := AList.update (ai_InstanceID aid) e (rg_agents r)\<rparr>))"

definition Agents :: "'s Registry \<Rightarrow> agentEntry list" where
  "Agents r = sort_key (\<lambda>e. ai_InstanceID (en_Identity e)) (map snd (rg_agents r))"

definition queue_of :: "string \<Rightarrow> 's Registry \<Rightarrow> Command list" where
  "queue_of agentID r = (case map_of (rg_commands r) agentID of Some q \<Rightarrow> q | None \<Rightarrow> [])"

definition Enqueue :: "gotime \<Rightarrow> string \<Rightarrow> Command \<Rightarrow> 's Registry \<Rightarrow> 's Registry" where
  "Enqueue now agentID cmd r =
     mirror (\<lambda>st. st_EnqueueCommand st now agentID cmd)
       (r\<lparr>rg_commands := AList.update agentID (queue_of agentID r @ [cmd]) (rg_commands r)\<rparr>)"

definition takeCommands :: "gotime \<Rightarrow> string \<Rightarrow> 's Registry \<Rightarrow> Command list \<times> 's Registry" where
  "takeCommands now agentID r =
     (queue_of agentID r,
      mirror (\<lambda>st. st_TakeCommands st now agentID) (r\<lparr>rg_commands := AList.delete agentID (rg_commands r)\<rparr>))"

text \<open>An acknowledgement is handed to the waiter registered for its command, whose channel has room for one.\<close>

definition recordAck :: "gotime \<Rightarrow> CommandAck \<Rightarrow> 's Registry \<Rightarrow> 's Registry" where
  "recordAck now a r =
     (let r1 = r\<lparr>rg_acks := AList.update (ca_ID a) a (rg_acks r), rg_waiters := AList.delete (ca_ID a) (rg_waiters r)\<rparr>;
          r2 = (case map_of (rg_waiters r) (ca_ID a) of
                  None \<Rightarrow> r1
                | Some w \<Rightarrow> if map_of (rg_inbox r1) w = None then r1\<lparr>rg_inbox := AList.update w a (rg_inbox r1)\<rparr> else r1)
      in mirror (\<lambda>st. st_RecordAck st now a) r2)"

text \<open>\<open>WaitForAck\<close>: the start either has the acknowledgement already or registers a waiter; the end, when the
  channel, the timer or the context is ready, takes what the channel holds and drops the registration of the command.\<close>

definition wait_start :: "string \<Rightarrow> 's Registry \<Rightarrow> (CommandAck + nat) \<times> 's Registry" where
  "wait_start commandID r =
     (case map_of (rg_acks r) commandID of
        Some a \<Rightarrow> (Inl a, r)
      | None \<Rightarrow> (let w = rg_nextWaiter r in
          (Inr w, r\<lparr>rg_nextWaiter := Suc w, rg_waiters := AList.update commandID w (rg_waiters r)\<rparr>)))"

definition wait_end :: "string \<Rightarrow> nat \<Rightarrow> 's Registry \<Rightarrow> CommandAck option \<times> 's Registry" where
  "wait_end commandID w r =
     (map_of (rg_inbox r) w,
      r\<lparr>rg_waiters := AList.delete commandID (rg_waiters r), rg_inbox := AList.delete w (rg_inbox r)\<rparr>)"

definition reg_RecordSnapshot :: "gotime \<Rightarrow> AgentSnapshot \<Rightarrow> 's Registry \<Rightarrow> 's Registry" where
  "reg_RecordSnapshot now snap = mirror (\<lambda>st. st_RecordSnapshot st now snap)"

definition reg_RecordProposals :: "gotime \<Rightarrow> AutogenProposal list \<Rightarrow> 's Registry \<Rightarrow> 's Registry" where
  "reg_RecordProposals now items r = (if items = [] then r else mirror (\<lambda>st. st_RecordProposals st now items) r)"

definition RecordAuditEvent :: "gotime \<Rightarrow> AgentIdentity \<Rightarrow> payload \<Rightarrow> 's Registry \<Rightarrow> 's Registry" where
  "RecordAuditEvent now agent event =
     mirror (\<lambda>st. st_RecordAudit st now (ai_InstanceID agent)
       (case map_of event ''action'' of Some (JStr v) \<Rightarrow> v | _ \<Rightarrow> []) event now)"

text \<open>One tick of \<open>RunRetentionLoop\<close>.\<close>

definition retention_tick :: "gotime \<Rightarrow> duration \<Rightarrow> duration \<Rightarrow> int \<Rightarrow> 's Registry \<Rightarrow> 's Registry" where
  "retention_tick now cmdTTL auditTTL snapshotsPerAgent r =
     mirror (\<lambda>st. st_TrimSnapshots st snapshotsPerAgent)
       (mirror (\<lambda>st. st_PruneAudit st now auditTTL)
         (mirror (\<lambda>st. st_ExpireCommands st now cmdTTL) r))"

section \<open>The agent's stream\<close>

record pb_snapshot =
  ps_Agent :: "AgentIdentity option"
  ps_Containers :: "ContainerState list"
  ps_At :: "gotime option"
  ps_Traffic :: "TrafficBucket list"

record pb_audit =
  pu_Agent :: "AgentIdentity option"
  pu_Event :: "payload option"

record pb_log =
  pl_Agent :: "AgentIdentity option"
  pl_At :: "gotime option"
  pl_Level :: string
  pl_Source :: string
  pl_Line :: string
  pl_Fields :: "(string \<times> string) list"

record pb_proposal =
  pp_ContainerId :: string
  pp_Ports :: "32 word list"
  pp_Peers :: "string list"
  pp_ObservedFor :: string
  pp_Confidence :: string

record pb_proposals =
  pq_Agent :: "AgentIdentity option"
  pq_At :: "gotime option"
  pq_Proposals :: "pb_proposal option list"

datatype agent_event =
    EventSnapshot "pb_snapshot option"
  | EventAudit "pb_audit option"
  | EventHeartbeat "AgentIdentity option option"
  | EventLog "pb_log option"
  | EventAutogenProposals "pb_proposals option"
  | EventUnset

definition toNativeIdentity :: "AgentIdentity option \<Rightarrow> AgentIdentity" where
  "toNativeIdentity x = (case x of None \<Rightarrow> no_identity | Some i \<Rightarrow> i)"

definition as_time :: "gotime option \<Rightarrow> gotime" where
  "as_time t = (case t of None \<Rightarrow> 0 | Some v \<Rightarrow> v)"

definition toNativeSnapshot :: "pb_snapshot \<Rightarrow> AgentSnapshot" where
  "toNativeSnapshot k = \<lparr>as_Agent = toNativeIdentity (ps_Agent k), as_Containers = ps_Containers k, as_At = as_time (ps_At k), as_Traffic = ps_Traffic k\<rparr>"

definition toNativeLogLine :: "pb_log \<Rightarrow> LogLine" where
  "toNativeLogLine k = \<lparr>ll_Agent = toNativeIdentity (pl_Agent k), ll_At = as_time (pl_At k), ll_Level = pl_Level k, ll_Source = pl_Source k,
     ll_Line = pl_Line k, ll_Fields = pl_Fields k\<rparr>"

definition toNativeAutogenProposals :: "gotime \<Rightarrow> pb_proposals \<Rightarrow> AutogenProposal list" where
  "toNativeAutogenProposals now k =
     (case pq_Agent k of
        None \<Rightarrow> []
      | Some agent \<Rightarrow>
          (let at_time = (case pq_At k of None \<Rightarrow> now | Some t \<Rightarrow> t) in
           map (\<lambda>p. \<lparr>ap_AgentID = ai_InstanceID agent, ap_ContainerID = pp_ContainerId p, ap_Ports = pp_Ports p, ap_Peers = pp_Peers p,
                     ap_ObservedFor = pp_ObservedFor p, ap_Confidence = pp_Confidence p, ap_UpdatedAt = at_time\<rparr>)
             (List.map_filter id (pq_Proposals k))))"

definition edit_entry :: "string \<Rightarrow> (agentEntry \<Rightarrow> agentEntry) \<Rightarrow> 's Registry \<Rightarrow> 's Registry" where
  "edit_entry a f r =
     (case map_of (rg_agents r) a of None \<Rightarrow> r | Some e \<Rightarrow> r\<lparr>rg_agents := AList.update a (f e) (rg_agents r)\<rparr>)"

fun handleEvent :: "gotime \<Rightarrow> agent_event \<Rightarrow> 's Registry \<Rightarrow> 's Registry" where
  "handleEvent now (EventSnapshot (Some k)) r =
     (if ps_Agent k = None then r
      else
        (let snap = toNativeSnapshot k in
         reg_RecordSnapshot now snap
           (edit_entry (ai_InstanceID (as_Agent snap)) (\<lambda>e. e\<lparr>en_Snapshot := Some snap\<rparr>) (upsertAgent now (as_Agent snap) r))))"
| "handleEvent now (EventAudit (Some k)) r =
     (case pu_Agent k of
        None \<Rightarrow> r
      | Some agent \<Rightarrow>
          RecordAuditEvent now agent (case pu_Event k of None \<Rightarrow> [] | Some ev \<Rightarrow> ev)
            (edit_entry (ai_InstanceID agent) (\<lambda>e. e\<lparr>en_Events := en_Events e + 1\<rparr>) (upsertAgent now agent r)))"
| "handleEvent now (EventHeartbeat (Some (Some agent))) r = upsertAgent now agent r"
| "handleEvent now (EventLog (Some k)) r =
     (case pl_Agent k of None \<Rightarrow> r | Some agent \<Rightarrow> PublishLog (toNativeLogLine k) (upsertAgent now agent r))"
| "handleEvent now (EventAutogenProposals (Some k)) r =
     (case pq_Agent k of
        None \<Rightarrow> r
      | Some agent \<Rightarrow> reg_RecordProposals now (toNativeAutogenProposals now k) (upsertAgent now agent r))"
| "handleEvent now _ r = r"

fun agentIDFromEvent :: "agent_event \<Rightarrow> string \<times> bool" where
  "agentIDFromEvent (EventSnapshot (Some k)) = (case ps_Agent k of Some a \<Rightarrow> (ai_InstanceID a, ai_InstanceID a \<noteq> []) | None \<Rightarrow> ([], False))"
| "agentIDFromEvent (EventAudit (Some k)) = (case pu_Agent k of Some a \<Rightarrow> (ai_InstanceID a, ai_InstanceID a \<noteq> []) | None \<Rightarrow> ([], False))"
| "agentIDFromEvent (EventHeartbeat (Some (Some a))) = (ai_InstanceID a, ai_InstanceID a \<noteq> [])"
| "agentIDFromEvent (EventLog (Some k)) = (case pl_Agent k of Some a \<Rightarrow> (ai_InstanceID a, ai_InstanceID a \<noteq> []) | None \<Rightarrow> ([], False))"
| "agentIDFromEvent _ = ([], False)"

text \<open>What a request's context carries: the bearer token, and whether an interceptor has validated it.\<close>

record rpc_context =
  rc_bearer :: "string option"
  rc_validated :: bool

definition authorise :: "string \<Rightarrow> rpc_context \<Rightarrow> bool" where
  "authorise token ctx \<longleftrightarrow> rc_validated ctx \<or> token = [] \<or> rc_bearer ctx = Some token"

datatype rpc_error =
    Unauthenticated
  | InvalidArgument string
  | FailedPrecondition string
  | RpcNotFound string
  | RpcInternal cp_error

definition grpc_Register :: "string \<Rightarrow> rpc_context \<Rightarrow> gotime \<Rightarrow> AgentIdentity option \<Rightarrow> 's Registry \<Rightarrow> rpc_error option \<times> 's Registry" where
  "grpc_Register token ctx now ident r =
     (if \<not> authorise token ctx then (Some Unauthenticated, r)
      else if ai_InstanceID (toNativeIdentity ident) = [] then (Some (InvalidArgument ''identity.instance_id required''), r)
      else (None, upsertAgent now (toNativeIdentity ident) r))"

definition grpc_Ack :: "string \<Rightarrow> rpc_context \<Rightarrow> gotime \<Rightarrow> CommandAck option \<Rightarrow> 's Registry \<Rightarrow> rpc_error option \<times> 's Registry" where
  "grpc_Ack token ctx now ack r =
     (if \<not> authorise token ctx then (Some Unauthenticated, r)
      else (case ack of
              None \<Rightarrow> (Some (InvalidArgument ''id required''), r)
            | Some a \<Rightarrow> if ca_ID a = [] then (Some (InvalidArgument ''id required''), r) else (None, recordAck now a r)))"

text \<open>The opening of a stream: the agent whose commands the stream will carry, and the first event handled.\<close>

definition stream_open :: "string \<Rightarrow> rpc_context \<Rightarrow> gotime \<Rightarrow> agent_event \<Rightarrow> 's Registry \<Rightarrow> (rpc_error + string) \<times> 's Registry" where
  "stream_open token ctx now first r =
     (if \<not> authorise token ctx then (Inl Unauthenticated, r)
      else
        (let (aid, ok) = agentIDFromEvent first in
         if \<not> ok then (Inl (InvalidArgument ''first stream event must include agent.identity''), r)
         else (Inr aid, handleEvent now first r)))"

end
