(* ===== verification/CP_Delivery.thy ===== *)
theory CP_Delivery
  imports CP_Registry
begin

text \<open>
  Delivery of commands to the agents, and what a restart of the control plane keeps: the properties of
  the registry over its store.
\<close>

section \<open>Histories of the registry\<close>

datatype registry_op =
    RegEnqueue gotime string Command
  | RegTake gotime string
  | RegEvent gotime agent_event
  | RegAck gotime CommandAck
  | RegRetention gotime duration duration int

text \<open>A history, with the commands handed to the streams: the agent and what it took.\<close>

fun registry_run :: "registry_op list \<Rightarrow> 's Registry \<Rightarrow> (string \<times> Command list) list \<times> 's Registry" where
  "registry_run [] r = ([], r)"
| "registry_run (RegEnqueue now a c # ops) r = registry_run ops (Enqueue now a c r)"
| "registry_run (RegTake now a # ops) r = (let (cs, r1) = takeCommands now a r in apfst (Cons (a, cs)) (registry_run ops r1))"
| "registry_run (RegEvent now ev # ops) r = registry_run ops (handleEvent now ev r)"
| "registry_run (RegAck now ack # ops) r = registry_run ops (recordAck now ack r)"
| "registry_run (RegRetention now c u n # ops) r = registry_run ops (retention_tick now c u n r)"

fun enqueued_for :: "string \<Rightarrow> registry_op list \<Rightarrow> Command list" where
  "enqueued_for a [] = []"
| "enqueued_for a (RegEnqueue now b c # ops) = (if b = a then c # enqueued_for a ops else enqueued_for a ops)"
| "enqueued_for a (_ # ops) = enqueued_for a ops"

definition taken_by :: "string \<Rightarrow> (string \<times> Command list) list \<Rightarrow> Command list" where
  "taken_by a log = concat (map snd (filter (\<lambda>(b, cs). b = a) log))"

lemma mirror_keeps [simp]:
  "rg_commands (mirror op r) = rg_commands r" "rg_agents (mirror op r) = rg_agents r" "rg_acks (mirror op r) = rg_acks r"
  "rg_waiters (mirror op r) = rg_waiters r" "rg_inbox (mirror op r) = rg_inbox r"
  by (auto simp: mirror_def split: option.split prod.split)

lemma queue_of_mirror [simp]: "queue_of a (mirror op r) = queue_of a r"
  by (simp add: queue_of_def)

lemma commands_event [simp]: "rg_commands (handleEvent now ev r) = rg_commands r"
  by (induction now ev r rule: handleEvent.induct)
    (auto simp: upsertAgent_def edit_entry_def reg_RecordSnapshot_def RecordAuditEvent_def PublishLog_def reg_RecordProposals_def
      Let_def split: option.split)

lemma commands_other [simp]:
  "rg_commands (recordAck now ack r) = rg_commands r" "rg_commands (retention_tick now c u n r) = rg_commands r"
  by (auto simp: recordAck_def retention_tick_def Let_def split: option.split)

lemma queue_of_Enqueue: "queue_of a (Enqueue now b c r) = (if b = a then queue_of a r @ [c] else queue_of a r)"
  by (simp add: Enqueue_def queue_of_def update_conv')

lemma queue_of_take: "queue_of a (snd (takeCommands now b r)) = (if b = a then [] else queue_of a r)"
  by (simp add: takeCommands_def queue_of_def delete_conv')

lemma taken_by_Cons: "taken_by a ((b, cs) # log) = (if b = a then cs @ taken_by a log else taken_by a log)"
  by (simp add: taken_by_def)

lemma run_delivery:
  "taken_by a (fst (registry_run ops r)) @ queue_of a (snd (registry_run ops r)) = queue_of a r @ enqueued_for a ops"
proof (induction ops r rule: registry_run.induct)
  case (2 now b c ops r)
  then show ?case by (simp add: queue_of_Enqueue)
next
  case (3 now b ops r)
  obtain cs r1 where t: "takeCommands now b r = (cs, r1)" by (cases "takeCommands now b r")
  have "cs = queue_of b r" "queue_of a r1 = (if b = a then [] else queue_of a r)"
    using t queue_of_take [of a now b r] by (auto simp: takeCommands_def)
  then show ?case using 3 [OF t [symmetric]] by (auto simp: t taken_by_Cons)
qed (simp_all add: taken_by_def queue_of_def)

section \<open>Properties\<close>

text \<open>
  C15. While the control plane runs, every command is delivered exactly once and in order. In any
  history, whatever the store does with its mirror, the commands an agent's stream has taken,
  followed by those still queued for it, are exactly those queued at the start followed by
  those enqueued for it since, in the order they were enqueued.
\<close>

theorem registry_delivers_once:
  "taken_by a (fst (registry_run ops r)) @ queue_of a (snd (registry_run ops r)) = queue_of a r @ enqueued_for a ops"
  by (rule run_delivery)

section \<open>Restarts\<close>

definition no_faults :: "nat \<Rightarrow> faults" where
  "no_faults n k = None"

definition sqlite_registry :: "(string \<Rightarrow> 8 word list) \<Rightarrow> sqlite_state \<Rightarrow> sqlite_state Registry" where
  "sqlite_registry sha256 s = NewRegistryWithStore (Some (sqlite_Store sha256 no_faults, s))"

lemma hydrate_keeps [simp]: "rg_commands (hydrate r) = rg_commands r"
  by (auto simp: hydrate_def split: option.split prod.split sum.split)

definition store_of :: "'s Registry \<Rightarrow> 's" where
  "store_of r = snd (the (rg_store r))"

lemma sqlite_registry_store:
  "rg_store (sqlite_registry sha256 (n, s)) = Some (sqlite_Store sha256 no_faults, Suc n, s)"
  by (simp add: sqlite_registry_def NewRegistryWithStore_def hydrate_def sqlite_Store_def faulty_read_def faulty_def sql_ListAgents_def no_faults_def)

text \<open>
  C17. Commands queued before a restart are lost. After the control plane restarts on its persistent
  store, the first poll of an agent's stream takes nothing, although the store has
  commands pending for it, and marks all of them delivered, so that no later poll takes them either:
  the registry hands out its own, empty, queue and drops what the store returns.
\<close>

theorem restart_drops_commands:
  assumes "r = sqlite_registry sha256 (n, s)"
  shows "fst (takeCommands now a r) = []
    \<and> (\<forall>row \<in> set (d_commands (snd (store_of (snd (takeCommands now a r))))). \<not> pending_row a row)"
proof -
  let ?claimed = "sort_key cr_issued_at (filter (pending_row a) (d_commands s))"
  have q: "queue_of a r = []" by (simp add: assms sqlite_registry_def NewRegistryWithStore_def queue_of_def)
  have "store_of (snd (takeCommands now a r)) = snd (st_TakeCommands (sqlite_Store sha256 no_faults) now a (Suc n, s))"
    by (simp add: takeCommands_def mirror_def assms sqlite_registry_store store_of_def)
  then have st: "snd (store_of (snd (takeCommands now a r))) = snd (sql_TakeCommands (no_faults (Suc n)) now a s)"
    by (simp add: sqlite_Store_def faulty_def split: prod.split)
  have "\<not> pending_row a row" if "row \<in> set (d_commands (snd (sql_TakeCommands (no_faults (Suc n)) now a s)))" for row
  proof (cases "filter (pending_row a) (d_commands s) = []")
    case True
    then have "row \<in> set (d_commands s)" using that by (simp add: sql_TakeCommands_def no_faults_def Let_def)
    then show ?thesis using True by (auto simp: filter_empty_conv)
  next
    case False
    then have "?claimed \<noteq> []" by (metis set_empty set_sort)
    then have "row \<in> set (update_rows (\<lambda>r. cr_id r \<in> cr_id ` set ?claimed) (\<lambda>r. r\<lparr>cr_delivered_at := Some now\<rparr>) (d_commands s))"
      using that by (simp add: sql_TakeCommands_def no_faults_def Let_def)
    then obtain x where x: "x \<in> set (d_commands s)"
      "row = (if cr_id x \<in> cr_id ` set ?claimed then x\<lparr>cr_delivered_at := Some now\<rparr> else x)"
      by (auto simp: update_rows_def)
    then show ?thesis by (cases "pending_row a x") (auto simp: pending_row_def)
  qed
  then show ?thesis using q st by (simp add: takeCommands_def)
qed

definition demo_cmd :: Command where
  "demo_cmd = \<lparr>cm_ID = ''c1'', cm_Kind = ''reconcile'', cm_ContainerID = [], cm_Payload = [], cm_IssuedAt = 50\<rparr>"

theorem restart_drops_commands_witness:
  "let s = (0, snd (sql_EnqueueCommand (\<lambda>_. None) 60 ''agent-1'' demo_cmd empty_db)); r = sqlite_registry (\<lambda>_. []) s
   in fst (fst (sql_TakeCommands (\<lambda>_. None) 70 ''agent-1'' (snd s))) = [demo_cmd] \<and> fst (takeCommands 70 ''agent-1'' r) = []"
proof -
  let ?s = "snd (sql_EnqueueCommand (\<lambda>_. None) 60 ''agent-1'' demo_cmd empty_db)"
  have "fst (fst (sql_TakeCommands (\<lambda>_. None) 70 ''agent-1'' ?s)) = [demo_cmd]"
    by (simp add: sql_EnqueueCommand_def sql_TakeCommands_def demo_cmd_def empty_db_def insert_row_def command_to_row_def pending_row_def
        row_command_def or_now_def IsZero_def nullIfEmpty_def from_null_def Let_def)
  then show ?thesis using restart_drops_commands [OF refl, of 70 "''agent-1''" "\<lambda>_. []" 0 ?s] by (simp add: Let_def)
qed

end
