(* ===== verification/CP_Recovery.thy ===== *)
theory CP_Recovery imports CP_Delivery begin

text \<open>
  The registry of the control plane mirrors every change of its agents to the store
  (src/backend/internal/controlplane/server.go, grpc_server.go). This theory shows that on a
  SQLite store the mirror is exact: \<open>in_step\<close> relates the agents in memory with the rows of
  the tables agents and audit_events, every event handler keeps the relation, and a
  registry hydrated from the store (a restart) has the same view.
\<close>

section \<open>Recovery of the agents\<close>

definition reg_view :: "'s Registry \<Rightarrow> string \<Rightarrow> (AgentIdentity \<times> int) option" where
  "reg_view r a = map_option (\<lambda>e. (en_Identity e, en_Events e)) (map_of (rg_agents r) a)"

definition db_view :: "sqliteStore \<Rightarrow> string \<Rightarrow> (AgentIdentity \<times> int) option" where
  "db_view s a = map_option (\<lambda>row. (ag_Identity (agent_record s row), ag_EventCount (agent_record s row)))
     (List.find (\<lambda>row. ar_id row = a) (d_agents s))"

definition db_agents_ok :: "sqliteStore \<Rightarrow> bool" where
  "db_agents_ok s \<longleftrightarrow> distinct (map ar_id (d_agents s)) \<and> (\<forall>e \<in> set (d_audit s). \<forall>a. er_agent_id e = Some a \<longrightarrow> a \<in> ar_id ` set (d_agents s))"

text \<open>The registry and its fault-free persistent store agree on every agent with an id.\<close>

definition in_step :: "(string \<Rightarrow> 8 word list) \<Rightarrow> sqlite_state Registry \<Rightarrow> bool" where
  "in_step sha256 r \<longleftrightarrow> (\<exists>n s. rg_store r = Some (sqlite_Store sha256 no_faults, n, s) \<and> db_agents_ok s
     \<and> (\<forall>a. a \<noteq> [] \<longrightarrow> reg_view r a = db_view s a))"

definition sql_upsert :: "gotime \<Rightarrow> AgentIdentity \<Rightarrow> sqliteStore \<Rightarrow> sqliteStore" where
  "sql_upsert now aid s = snd (sql_UpsertAgent (\<lambda>_. None) now aid s)"

lemma find_agent_None: "db_agents_ok s \<Longrightarrow> List.find (\<lambda>row. ar_id row = a) (d_agents s) = None \<Longrightarrow>
  filter (\<lambda>e. er_agent_id e = Some a) (d_audit s) = []"
  by (force simp: db_agents_ok_def find_None_iff filter_empty_conv)

lemma agent_to_row_fields [simp]:
  "ar_id (agent_to_row now aid) = ai_InstanceID aid" "ar_hostname (agent_to_row now aid) = ai_Hostname aid"
  "ar_version (agent_to_row now aid) = Some (ai_Version aid)" "ar_backend (agent_to_row now aid) = Some (ai_Backend aid)"
  "ar_chain (agent_to_row now aid) = Some (ai_Chain aid)" "ar_labels (agent_to_row now aid) = ai_Labels aid"
  by (simp_all add: agent_to_row_def)

lemma upsert_view:
  assumes "db_agents_ok s"
  shows "db_view (sql_upsert now aid s)
    = (db_view s)(ai_InstanceID aid \<mapsto> (aid, case db_view s (ai_InstanceID aid) of Some (i, n) \<Rightarrow> n | None \<Rightarrow> 0))"
    and "db_agents_ok (sql_upsert now aid s)"
proof -
  let ?r = "agent_to_row now aid"
  let ?upd = "\<lambda>x. x\<lparr>ar_hostname := ar_hostname ?r, ar_version := ar_version ?r, ar_backend := ar_backend ?r,
                     ar_chain := ar_chain ?r, ar_labels := ar_labels ?r, ar_last_seen := ar_last_seen ?r\<rparr>"
  have s': "sql_upsert now aid s = s\<lparr>d_agents := upsert_row ar_id ?upd ?r (d_agents s)\<rparr>"
    by (simp add: sql_upsert_def sql_UpsertAgent_def Let_def)
  have k: "ar_id (?upd x) = ar_id x" for x by simp
  note f = find_upsert_row [of ar_id ?upd, OF k, where r = ?r and rows = "d_agents s", unfolded agent_to_row_fields(1)]
  define rows where "rows = upsert_row ar_id ?upd ?r (d_agents s)"
  note f' = f [folded rows_def] and s'' = s' [folded rows_def]
  show "db_view (sql_upsert now aid s)
    = (db_view s)(ai_InstanceID aid \<mapsto> (aid, case db_view s (ai_InstanceID aid) of Some (i, n) \<Rightarrow> n | None \<Rightarrow> 0))"
  proof
    fix a
    show "db_view (sql_upsert now aid s) a
      = ((db_view s)(ai_InstanceID aid \<mapsto> (aid, case db_view s (ai_InstanceID aid) of Some (i, n) \<Rightarrow> n | None \<Rightarrow> 0))) a"
    proof (cases "List.find (\<lambda>x. ar_id x = ai_InstanceID aid) (d_agents s)")
      case None
      then show ?thesis using find_agent_None [OF assms None]
        by (simp add: db_view_def s'' f' agent_record_def)
    next
      case (Some x)
      then show ?thesis using find_Some [OF Some] by (simp add: db_view_def s'' f' agent_record_def)
    qed
  qed
  show "db_agents_ok (sql_upsert now aid s)"
    using assms keys_upsert_row [of ar_id ?upd, OF k, of ?r] distinct_upsert_row [of ar_id ?upd, OF k, of "d_agents s" ?r]
    by (auto simp: db_agents_ok_def s')
qed

lemma no_faults_eq: "no_faults n = (\<lambda>_. None)"
  by (simp add: no_faults_def fun_eq_iff)

lemma store_upsert: "snd (st_UpsertAgent (sqlite_Store sha256 no_faults) now aid (n, s)) = (Suc n, sql_upsert now aid s)"
  by (simp add: sqlite_Store_def faulty_def sql_upsert_def no_faults_eq split: prod.split)

lemma in_step_upsert:
  assumes "in_step sha256 r"
  shows "in_step sha256 (upsertAgent now aid r)"
proof -
  obtain n s where r: "rg_store r = Some (sqlite_Store sha256 no_faults, n, s)" "db_agents_ok s" "\<forall>a. a \<noteq> [] \<longrightarrow> reg_view r a = db_view s a"
    using assms by (auto simp: in_step_def)
  have "rg_store (upsertAgent now aid r) = Some (sqlite_Store sha256 no_faults, Suc n, sql_upsert now aid s)"
    by (simp add: upsertAgent_def mirror_def r(1) store_upsert Let_def)
  moreover have "reg_view (upsertAgent now aid r) a
      = ((reg_view r)(ai_InstanceID aid \<mapsto> (aid, case reg_view r (ai_InstanceID aid) of Some (i, n) \<Rightarrow> n | None \<Rightarrow> 0))) a" for a
    by (auto simp: upsertAgent_def reg_view_def update_conv' Let_def split: option.split)
  ultimately show ?thesis unfolding in_step_def using upsert_view [OF r(2), of now aid] r(3) by auto
qed

lemma in_step_edit:
  assumes "in_step sha256 r" "\<And>e. en_Identity (f e) = en_Identity e \<and> en_Events (f e) = en_Events e"
  shows "in_step sha256 (edit_entry a f r)"
proof -
  have "reg_view (edit_entry a f r) = reg_view r"
    using assms(2) by (auto simp: reg_view_def edit_entry_def update_conv' fun_eq_iff split: option.split)
  moreover have "rg_store (edit_entry a f r) = rg_store r" by (simp add: edit_entry_def split: option.split)
  ultimately show ?thesis using assms(1) by (simp add: in_step_def)
qed


lemma in_step_store:
  assumes "in_step sha256 r"
    and "\<And>n s. db_agents_ok s \<Longrightarrow> rg_store r = Some (sqlite_Store sha256 no_faults, n, s) \<Longrightarrow> (\<And>a. a \<noteq> [] \<Longrightarrow> reg_view r a = db_view s a) \<Longrightarrow>
      \<exists>s'. snd (op (sqlite_Store sha256 no_faults) (n, s)) = (Suc n, s') \<and> db_agents_ok s' \<and> (\<forall>a. a \<noteq> [] \<longrightarrow> db_view s' a = db_view s a)"
  shows "in_step sha256 (mirror op r)"
proof -
  obtain n s where r: "rg_store r = Some (sqlite_Store sha256 no_faults, n, s)" "db_agents_ok s" "\<forall>a. a \<noteq> [] \<longrightarrow> reg_view r a = db_view s a"
    using assms(1) by (auto simp: in_step_def)
  then obtain s' where s': "snd (op (sqlite_Store sha256 no_faults) (n, s)) = (Suc n, s')" "db_agents_ok s'"
    "\<forall>a. a \<noteq> [] \<longrightarrow> db_view s' a = db_view s a"
    using assms(2) by blast
  have "rg_store (mirror op r) = Some (sqlite_Store sha256 no_faults, Suc n, s')" by (simp add: mirror_def r(1) s'(1))
  moreover have "reg_view (mirror op r) = reg_view r" by (simp add: reg_view_def fun_eq_iff)
  ultimately show ?thesis using s' r(3) by (auto simp: in_step_def)
qed

lemma db_view_cong: "d_agents s' = d_agents s \<Longrightarrow> d_audit s' = d_audit s \<Longrightarrow> db_view s' = db_view s"
  by (simp add: db_view_def agent_record_def fun_eq_iff)

lemma db_ok_cong: "d_agents s' = d_agents s \<Longrightarrow> d_audit s' = d_audit s \<Longrightarrow> db_agents_ok s' = db_agents_ok s"
  by (simp add: db_agents_ok_def)

lemma in_step_snapshot:
  assumes "in_step sha256 r" "reg_view r (ai_InstanceID (as_Agent snap)) = Some (as_Agent snap, k)"
  shows "in_step sha256 (reg_RecordSnapshot now snap r)"
  unfolding reg_RecordSnapshot_def
proof (rule in_step_store [OF assms(1)])
  fix n s
  assume s: "db_agents_ok s" "rg_store r = Some (sqlite_Store sha256 no_faults, n, s)" "\<And>a. a \<noteq> [] \<Longrightarrow> reg_view r a = db_view s a"
  let ?s1 = "sql_upsert now (as_Agent snap) s"
  obtain s' where s': "snd (st_RecordSnapshot (sqlite_Store sha256 no_faults) now snap (n, s)) = (Suc n, s')"
    "d_agents s' = d_agents ?s1" "d_audit s' = d_audit ?s1"
    by (auto simp: sqlite_Store_def faulty_def sql_RecordSnapshot_def sql_upsert_def no_faults_eq sql_UpsertAgent_def Let_def)
  have "db_view ?s1 a = db_view s a" if "a \<noteq> []" for a
    using upsert_view(1) [OF s(1), of now "as_Agent snap"] assms(2) s(3) [OF that] by auto
  then show "\<exists>s'. snd (st_RecordSnapshot (sqlite_Store sha256 no_faults) now snap (n, s)) = (Suc n, s') \<and> db_agents_ok s'
      \<and> (\<forall>a. a \<noteq> [] \<longrightarrow> db_view s' a = db_view s a)"
    using s' upsert_view(2) [OF s(1)] db_ok_cong [OF s'(2,3)] db_view_cong [OF s'(2,3)] by auto
qed

lemma store_audit:
  "snd (st_RecordAudit (sqlite_Store sha256 no_faults) now a kind pl t (n, s))
   = (Suc n, s\<lparr>d_audit := d_audit s @ [\<lparr>er_agent_id = nullIfEmpty a, er_at = or_now now t, er_kind = nullIfEmpty kind, er_payload = pl\<rparr>]\<rparr>)"
  by (simp add: sqlite_Store_def faulty_def sql_RecordAudit_def no_faults_eq)

lemma edit_entry_store [simp]: "rg_store (edit_entry a f r) = rg_store r"
  by (simp add: edit_entry_def split: option.split)

lemma in_step_audit:
  assumes "in_step sha256 r" "ai_InstanceID agent \<noteq> []" "reg_view r (ai_InstanceID agent) \<noteq> None"
  shows "in_step sha256 (RecordAuditEvent now agent ev (edit_entry (ai_InstanceID agent) (\<lambda>e. e\<lparr>en_Events := en_Events e + 1\<rparr>) r))"
proof -
  let ?a = "ai_InstanceID agent"
  let ?r = "edit_entry ?a (\<lambda>e. e\<lparr>en_Events := en_Events e + 1\<rparr>) r"
  obtain n s where r: "rg_store r = Some (sqlite_Store sha256 no_faults, n, s)" "db_agents_ok s" "\<forall>a. a \<noteq> [] \<longrightarrow> reg_view r a = db_view s a"
    using assms(1) by (auto simp: in_step_def)
  obtain i k where k: "reg_view r ?a = Some (i, k)" using assms(3) by auto
  obtain row where row: "List.find (\<lambda>row. ar_id row = ?a) (d_agents s) = Some row"
    using k r(3) assms(2) by (auto simp: db_view_def)
  obtain e where e: "er_agent_id e = Some ?a"
    "rg_store (RecordAuditEvent now agent ev ?r) = Some (sqlite_Store sha256 no_faults, Suc n, s\<lparr>d_audit := d_audit s @ [e]\<rparr>)"
    using assms(2) by (intro that [OF _ _]) (auto simp: RecordAuditEvent_def mirror_def r(1) store_audit nullIfEmpty_def)
  let ?s = "s\<lparr>d_audit := d_audit s @ [e]\<rparr>"
  have "db_view ?s a = (if a = ?a then Some (i, k + 1) else db_view s a)" if "a \<noteq> []" for a
  proof (cases "List.find (\<lambda>row. ar_id row = a) (d_agents s)")
    case (Some x)
    then show ?thesis using find_Some [OF Some] k r(3) that e(1) by (auto simp: db_view_def agent_record_def)
  qed (use row in \<open>auto simp: db_view_def\<close>)
  moreover have "reg_view (RecordAuditEvent now agent ev ?r) a = (if a = ?a then Some (i, k + 1) else reg_view r a)" for a
    using k by (auto simp: reg_view_def RecordAuditEvent_def edit_entry_def update_conv' split: option.splits)
  moreover have "db_agents_ok ?s" using r(2) e(1) find_Some [OF row] by (auto simp: db_agents_ok_def intro: image_eqI [of _ ar_id row])
  ultimately show ?thesis using e(2) r(3) by (auto simp: in_step_def)
qed

lemma reg_view_upsert: "\<exists>k. reg_view (upsertAgent now aid r) (ai_InstanceID aid) = Some (aid, k)"
  by (auto simp: upsertAgent_def reg_view_def update_conv' Let_def split: option.split)

lemma reg_view_edit: "(\<And>e. en_Identity (f e) = en_Identity e \<and> en_Events (f e) = en_Events e) \<Longrightarrow> reg_view (edit_entry a f r) = reg_view r"
  by (auto simp: reg_view_def edit_entry_def update_conv' fun_eq_iff split: option.split)

lemma find_False [simp]: "List.find (\<lambda>_. False) xs = None"
  by (induction xs) auto

fun event_named :: "agent_event \<Rightarrow> bool" where
  "event_named (EventAudit (Some k)) = (case pu_Agent k of Some agent \<Rightarrow> ai_InstanceID agent \<noteq> [] | None \<Rightarrow> True)"
| "event_named _ = True"

lemma in_step_event: "in_step sha256 r \<Longrightarrow> event_named ev \<Longrightarrow> in_step sha256 (handleEvent now ev r)"
proof (induction now ev r rule: handleEvent.induct)
  case (1 now k r)
  let ?snap = "toNativeSnapshot k"
  let ?r = "edit_entry (ai_InstanceID (as_Agent ?snap)) (\<lambda>e. e\<lparr>en_Snapshot := Some ?snap\<rparr>) (upsertAgent now (as_Agent ?snap) r)"
  have "in_step sha256 ?r" by (rule in_step_edit) (auto simp: in_step_upsert 1)
  moreover have "reg_view ?r = reg_view (upsertAgent now (as_Agent ?snap) r)" by (rule reg_view_edit) simp
  then obtain i where "reg_view ?r (ai_InstanceID (as_Agent ?snap)) = Some (as_Agent ?snap, i)"
    using reg_view_upsert [of now "as_Agent ?snap" r] by auto
  ultimately show ?case using in_step_snapshot [of sha256 ?r ?snap] 1 by (simp add: Let_def)
next
  case (2 now k r)
  show ?case
  proof (cases "pu_Agent k")
    case (Some agent)
    show ?thesis using in_step_audit [OF in_step_upsert [OF 2(1)], of agent now agent] reg_view_upsert [of now agent r] 2(2) Some by auto
  qed (simp add: 2)
next
  case (4 now k r)
  have "in_step sha256 (PublishLog l (upsertAgent now agent r))" for l agent
    using in_step_upsert [OF 4(1), of now agent] by (simp add: PublishLog_def in_step_def reg_view_def)
  then show ?case using 4 by (cases "pl_Agent k") simp_all
next
  case (5 now k r)
  show ?case
  proof (cases "pq_Agent k")
    case (Some agent)
    have "in_step sha256 (mirror (\<lambda>st. st_RecordProposals st now items) (upsertAgent now agent r))" for items
    proof (rule in_step_store [OF in_step_upsert [OF 5(1)]])
      fix n s assume "db_agents_ok s"
      moreover obtain s' where "snd (st_RecordProposals (sqlite_Store sha256 no_faults) now items (n, s)) = (Suc n, s')"
        "d_agents s' = d_agents s" "d_audit s' = d_audit s"
        by (cases "items = []") (auto simp: sqlite_Store_def faulty_def sql_RecordProposals_def no_faults_eq)
      ultimately show "\<exists>s'. snd (st_RecordProposals (sqlite_Store sha256 no_faults) now items (n, s)) = (Suc n, s') \<and> db_agents_ok s'
          \<and> (\<forall>a. a \<noteq> [] \<longrightarrow> db_view s' a = db_view s a)" using db_ok_cong db_view_cong by metis
    qed
    then show ?thesis using in_step_upsert [OF 5(1)] Some by (simp add: reg_RecordProposals_def)
  qed (simp add: 5)
qed (simp_all add: in_step_upsert)

lemma map_of_fold_update:
  assumes "distinct (map k recs)"
  shows "map_of (fold (\<lambda>x. AList.update (k x) (v x)) recs al) a
    = (case List.find (\<lambda>x. k x = a) recs of Some x \<Rightarrow> Some (v x) | None \<Rightarrow> map_of al a)"
  using assms
proof (induction recs arbitrary: al)
  case (Cons x recs)
  have "k x \<notin> k ` set recs" using Cons.prems by simp
  then have "List.find (\<lambda>y. k y = k x) recs = None" unfolding find_None_iff by (metis image_eqI)
  then show ?case using Cons by (auto simp: update_conv' split: option.split)
qed simp

lemma find_perm:
  assumes "distinct (map k xs)" "set ys = set xs" "distinct (map k ys)"
  shows "List.find (\<lambda>x. k x = a) ys = List.find (\<lambda>x. k x = a) xs"
proof (cases "List.find (\<lambda>x. k x = a) xs")
  case None
  then have "List.find (\<lambda>x. k x = a) ys = None" unfolding find_None_iff assms(2) .
  then show ?thesis using None by simp
next
  case (Some x)
  note x = find_Some [OF Some]
  then obtain y where y: "List.find (\<lambda>x. k x = a) ys = Some y"
    using assms(2) by (cases "List.find (\<lambda>x. k x = a) ys") (auto simp: find_None_iff)
  then show ?thesis using x find_Some [OF y] assms(1,2) Some by (auto simp: distinct_map inj_on_def)
qed

lemma restart_view:
  assumes "distinct (map ar_id (d_agents s))"
  shows "reg_view (sqlite_registry sha256 (n, s)) a = db_view s a"
proof -
  let ?rows = "sort_key ar_id (d_agents s)"
  let ?v = "\<lambda>rec. \<lparr>en_Identity = ag_Identity rec, en_LastSeen = ag_LastSeen rec, en_Snapshot = None, en_Events = ag_EventCount rec\<rparr>"
  have "distinct (map ar_id ?rows)" using assms by (simp add: distinct_map)
  moreover have k: "ai_InstanceID (ag_Identity (agent_record s row)) = ar_id row" for row by (simp add: agent_record_def)
  ultimately have d: "distinct (map (\<lambda>rec. ai_InstanceID (ag_Identity rec)) (map (agent_record s) ?rows))" by (simp add: comp_def)
  have "List.find (\<lambda>rec. ai_InstanceID (ag_Identity rec) = a) (map (agent_record s) rows)
      = map_option (agent_record s) (List.find (\<lambda>row. ar_id row = a) rows)" for rows
    by (induction rows) (simp_all add: k)
  moreover have "List.find (\<lambda>row. ar_id row = a) ?rows = List.find (\<lambda>row. ar_id row = a) (d_agents s)"
    using assms by (intro find_perm) (auto simp: distinct_map)
  ultimately show ?thesis
    using map_of_fold_update [OF d, where v = ?v and al = "[]"]
    by (cases "List.find (\<lambda>row. ar_id row = a) (d_agents s)")
      (simp_all add: reg_view_def db_view_def sqlite_registry_def NewRegistryWithStore_def hydrate_def sqlite_Store_def faulty_read_def faulty_def
        sql_ListAgents_def no_faults_def)
qed

definition event_run :: "(gotime \<times> agent_event) list \<Rightarrow> 's Registry \<Rightarrow> 's Registry" where
  "event_run evs r = fold (\<lambda>(now, ev). handleEvent now ev) evs r"

lemma in_step_run: "in_step sha256 r \<Longrightarrow> \<forall>(now, ev) \<in> set evs. event_named ev \<Longrightarrow> in_step sha256 (event_run evs r)"
  unfolding event_run_def by (induction evs arbitrary: r) (auto simp: in_step_event)

text \<open>
  C16. A restart loses no agent. After any sequence of events from the agents on a control plane
  with a working persistent store, a control plane restarted on that store knows the
  same agents, each with the same identity and the same number of audit events.
\<close>

theorem restart_restores_agents:
  assumes "\<forall>(now, ev) \<in> set evs. event_named ev" "r = event_run evs (sqlite_registry sha256 (0, empty_db))" "a \<noteq> []"
  shows "reg_view (sqlite_registry sha256 (store_of r)) a = reg_view r a"
proof -
  have "in_step sha256 (sqlite_registry sha256 (0, empty_db))"
    unfolding in_step_def sqlite_registry_store
    using restart_view [of empty_db] by (auto simp: db_agents_ok_def empty_db_def)
  then have "in_step sha256 r" using in_step_run assms(1,2) by blast
  then obtain n s where "rg_store r = Some (sqlite_Store sha256 no_faults, n, s)" "db_agents_ok s" "reg_view r a = db_view s a"
    using assms(3) by (auto simp: in_step_def)
  then show ?thesis using restart_view [of s sha256 n a] by (simp add: store_of_def db_agents_ok_def)
qed

theorem restart_restores_agents_witness:
  "let agent = no_identity\<lparr>ai_InstanceID := ''agent-1''\<rparr>;
       r = event_run [(5, EventAudit (Some \<lparr>pu_Agent = Some agent, pu_Event = None\<rparr>))] (sqlite_registry (\<lambda>_. []) (0, empty_db))
   in reg_view r ''agent-1'' = Some (agent, 1) \<and> reg_view (sqlite_registry (\<lambda>_. []) (store_of r)) ''agent-1'' = Some (agent, 1)"
proof -
  let ?agent = "no_identity\<lparr>ai_InstanceID := ''agent-1''\<rparr>"
  let ?r = "event_run [(5, EventAudit (Some \<lparr>pu_Agent = Some ?agent, pu_Event = None\<rparr>))] (sqlite_registry (\<lambda>_. []) (0, empty_db))"
  have "reg_view ?r ''agent-1'' = Some (?agent, 1)"
    by (simp add: event_run_def upsertAgent_def RecordAuditEvent_def edit_entry_def reg_view_def update_conv' sqlite_registry_def
        NewRegistryWithStore_def hydrate_def sqlite_Store_def faulty_read_def faulty_def sql_ListAgents_def empty_db_def no_faults_def)
  then show ?thesis
    using restart_restores_agents [of "[(5, EventAudit (Some \<lparr>pu_Agent = Some ?agent, pu_Event = None\<rparr>))]" ?r "\<lambda>_. []" "''agent-1''"]
    by (simp add: Let_def)
qed

end
