(* ===== verification/CP_Session.thy ===== *)
theory CP_Session
  imports CP_Types
begin

text \<open>
  The sessions of the operator panel, \<open>backend/internal/controlplane/session.go\<close>.

  Times are nanoseconds; the clock is the argument \<open>now\<close> of an operation and the random bytes of
  a new session id the argument \<open>rnd\<close>, \<open>None\<close> when reading them fails. The mutex makes every
  operation atomic, so a history of the store is a list of operations.
\<close>

section \<open>The store\<close>

record Session =
  se_ID :: string
  se_Username :: string
  se_IssuedAt :: gotime
  se_ExpiresAt :: gotime
  se_LastSeen :: gotime

datatype session_error = ErrSessionUnknown | ErrSessionExpired | ErrRandom

record SessionStore =
  ss_sessions :: "(string \<times> Session) list"
  ss_ttl :: duration
  ss_idle :: duration

definition hour :: duration where "hour = 3600 * 1000000000"

definition defaultSessionTTL :: duration where "defaultSessionTTL = 24 * hour"
definition defaultSessionIdle :: duration where "defaultSessionIdle = 4 * hour"

definition NewSessionStore :: SessionStore where
  "NewSessionStore = \<lparr>ss_sessions = [], ss_ttl = defaultSessionTTL, ss_idle = defaultSessionIdle\<rparr>"

definition WithTTL :: "duration \<Rightarrow> duration \<Rightarrow> SessionStore \<Rightarrow> SessionStore" where
  "WithTTL ttl idle s =
     (let s1 = (if 0 < ttl then s\<lparr>ss_ttl := ttl\<rparr> else s)
      in if 0 < idle then s1\<lparr>ss_idle := idle\<rparr> else s1)"

definition newSessionID :: "8 word list option \<Rightarrow> session_error + string" where
  "newSessionID rnd = (case rnd of None \<Rightarrow> Inl ErrRandom | Some buf \<Rightarrow> Inr (hex_EncodeToString buf))"

definition sess_Create :: "gotime \<Rightarrow> 8 word list option \<Rightarrow> string \<Rightarrow> SessionStore \<Rightarrow> (session_error + Session) \<times> SessionStore" where
  "sess_Create now rnd username s =
     (case newSessionID rnd of
        Inl e \<Rightarrow> (Inl e, s)
      | Inr sid \<Rightarrow>
          (let sess = \<lparr>se_ID = sid, se_Username = username, se_IssuedAt = now, se_ExpiresAt = now + ss_ttl s, se_LastSeen = now\<rparr>
           in (Inr sess, s\<lparr>ss_sessions := AList.update sid sess (ss_sessions s)\<rparr>)))"

definition sess_Touch :: "gotime \<Rightarrow> string \<Rightarrow> SessionStore \<Rightarrow> (session_error + Session) \<times> SessionStore" where
  "sess_Touch now sid s =
     (case map_of (ss_sessions s) sid of
        None \<Rightarrow> (Inl ErrSessionUnknown, s)
      | Some sess \<Rightarrow>
          if se_ExpiresAt sess < now then (Inl ErrSessionExpired, s\<lparr>ss_sessions := AList.delete sid (ss_sessions s)\<rparr>)
          else if 0 < ss_idle s \<and> ss_idle s < now - se_LastSeen sess
          then (Inl ErrSessionExpired, s\<lparr>ss_sessions := AList.delete sid (ss_sessions s)\<rparr>)
          else (let sess1 = sess\<lparr>se_LastSeen := now\<rparr>
                in (Inr sess1, s\<lparr>ss_sessions := AList.update sid sess1 (ss_sessions s)\<rparr>)))"

definition sess_Revoke :: "string \<Rightarrow> SessionStore \<Rightarrow> SessionStore" where
  "sess_Revoke sid s = s\<lparr>ss_sessions := AList.delete sid (ss_sessions s)\<rparr>"

definition sess_stale :: "gotime \<Rightarrow> SessionStore \<Rightarrow> Session \<Rightarrow> bool" where
  "sess_stale now s sess \<longleftrightarrow> se_ExpiresAt sess < now \<or> (0 < ss_idle s \<and> ss_idle s < now - se_LastSeen sess)"

definition Sweep :: "gotime \<Rightarrow> SessionStore \<Rightarrow> nat \<times> SessionStore" where
  "Sweep now s =
     (length (filter (\<lambda>(k, sess). sess_stale now s sess) (ss_sessions s)),
      s\<lparr>ss_sessions := filter (\<lambda>(k, sess). \<not> sess_stale now s sess) (ss_sessions s)\<rparr>)"

section \<open>Histories\<close>

datatype session_op =
    SessCreate gotime "8 word list option" string
  | SessTouch gotime string
  | SessRevoke string
  | SessSweep gotime

fun session_step :: "session_op \<Rightarrow> SessionStore \<Rightarrow> SessionStore" where
  "session_step (SessCreate now rnd user) s = snd (sess_Create now rnd user s)"
| "session_step (SessTouch now sid) s = snd (sess_Touch now sid s)"
| "session_step (SessRevoke sid) s = sess_Revoke sid s"
| "session_step (SessSweep now) s = snd (Sweep now s)"

definition session_run :: "session_op list \<Rightarrow> SessionStore \<Rightarrow> SessionStore" where
  "session_run ops s = fold session_step ops s"

lemma session_run_snoc [simp]: "session_run (ops @ [op]) s = session_step op (session_run ops s)"
  by (simp add: session_run_def)

lemma session_step_config [simp]:
  "ss_ttl (session_step op s) = ss_ttl s" "ss_idle (session_step op s) = ss_idle s"
  by (cases op; simp add: sess_Create_def newSessionID_def sess_Touch_def sess_Revoke_def Sweep_def Let_def split: option.split sum.split)+

lemma session_run_config [simp]:
  "ss_ttl (session_run ops s) = ss_ttl s" "ss_idle (session_run ops s) = ss_idle s"
  by (induction ops rule: rev_induct) (simp_all add: session_run_def)

text \<open>A session is backed by a history: it was created there, not revoked since, expires a ttl after its
  creation and was last seen at its creation or at a later touch.\<close>

definition backed :: "duration \<Rightarrow> session_op list \<Rightarrow> string \<Rightarrow> Session \<Rightarrow> bool" where
  "backed ttl ops sid sess \<longleftrightarrow>
     (\<exists>before now0 buf after. ops = before @ SessCreate now0 (Some buf) (se_Username sess) # after
        \<and> sid = hex_EncodeToString buf \<and> SessRevoke sid \<notin> set after
        \<and> se_ExpiresAt sess = now0 + ttl
        \<and> (se_LastSeen sess = now0 \<or> SessTouch (se_LastSeen sess) sid \<in> set after))"

lemma backed_snoc: "backed ttl ops sid sess \<Longrightarrow> op \<noteq> SessRevoke sid \<Longrightarrow> backed ttl (ops @ [op]) sid sess"
proof -
  assume b: "backed ttl ops sid sess" "op \<noteq> SessRevoke sid"
  then obtain before now0 buf "after" where h: "ops = before @ SessCreate now0 (Some buf) (se_Username sess) # after"
    "sid = hex_EncodeToString buf" "SessRevoke sid \<notin> set after" "se_ExpiresAt sess = now0 + ttl"
    "se_LastSeen sess = now0 \<or> SessTouch (se_LastSeen sess) sid \<in> set after"
    unfolding backed_def by auto
  show ?thesis unfolding backed_def
    by (rule exI [of _ before], rule exI [of _ now0], rule exI [of _ buf], rule exI [of _ "after @ [op]"]) (use h b(2) in auto)
qed

lemma backed_touch: "backed ttl ops sid sess \<Longrightarrow> backed ttl (ops @ [SessTouch now sid]) sid (sess\<lparr>se_LastSeen := now\<rparr>)"
proof -
  assume "backed ttl ops sid sess"
  then obtain before now0 buf "after" where h: "ops = before @ SessCreate now0 (Some buf) (se_Username sess) # after"
    "sid = hex_EncodeToString buf" "SessRevoke sid \<notin> set after" "se_ExpiresAt sess = now0 + ttl"
    unfolding backed_def by auto
  show ?thesis unfolding backed_def
    by (rule exI [of _ before], rule exI [of _ now0], rule exI [of _ buf], rule exI [of _ "after @ [SessTouch now sid]"]) (use h in auto)
qed

lemma backed_create:
  "backed ttl (ops @ [SessCreate now (Some buf) user]) (hex_EncodeToString buf)
     \<lparr>se_ID = i, se_Username = user, se_IssuedAt = now, se_ExpiresAt = now + ttl, se_LastSeen = now\<rparr>"
  unfolding backed_def
  by (rule exI [of _ ops], rule exI [of _ now], rule exI [of _ buf], rule exI [of _ "[]"]) simp

lemma map_of_filter_Some: "distinct (map fst xs) \<Longrightarrow> map_of (filter P xs) k = Some v \<Longrightarrow> map_of xs k = Some v"
  by (induction xs) (auto split: if_splits dest: map_of_SomeD intro: rev_image_eqI)

lemma session_step_keys: "distinct (map fst (ss_sessions s)) \<Longrightarrow> distinct (map fst (ss_sessions (session_step op s)))"
  by (cases op)
    (auto simp: sess_Create_def newSessionID_def sess_Touch_def sess_Revoke_def Sweep_def Let_def distinct_update distinct_delete
      intro: distinct_map_filter split: option.split sum.split)

lemma session_run_keys: "ss_sessions s0 = [] \<Longrightarrow> distinct (map fst (ss_sessions (session_run ops s0)))"
  by (induction ops rule: rev_induct) (simp_all add: session_step_keys session_run_def)

lemma session_step_backed:
  assumes "\<And>sid sess. map_of (ss_sessions s) sid = Some sess \<Longrightarrow> backed (ss_ttl s) ops sid sess"
    and "distinct (map fst (ss_sessions s))" and "map_of (ss_sessions (session_step op s)) sid = Some sess"
  shows "backed (ss_ttl s) (ops @ [op]) sid sess"
proof (cases op)
  case (SessCreate now rnd user)
  then show ?thesis using assms(1,3) backed_create [of "ss_ttl s" ops now] backed_snoc [of "ss_ttl s" ops sid sess op]
    by (cases rnd) (auto simp: sess_Create_def newSessionID_def Let_def update_conv' split: if_splits)
next
  case (SessTouch now sid')
  then show ?thesis using assms(1,3) backed_touch [of "ss_ttl s" ops sid' _ now] backed_snoc [of "ss_ttl s" ops sid sess op]
    by (auto simp: sess_Touch_def Let_def update_conv' delete_conv' split: option.splits if_splits)
next
  case (SessRevoke sid')
  then show ?thesis using assms(1,3) backed_snoc [of "ss_ttl s" ops sid sess op]
    by (auto simp: sess_Revoke_def delete_conv' split: if_splits)
next
  case (SessSweep now)
  then show ?thesis using assms backed_snoc [of "ss_ttl s" ops sid sess op] map_of_filter_Some [OF assms(2)]
    by (auto simp: Sweep_def)
qed

lemma session_run_backed:
  assumes "ss_sessions s0 = []"
  shows "map_of (ss_sessions (session_run ops s0)) sid = Some sess \<Longrightarrow> backed (ss_ttl s0) ops sid sess"
proof (induction ops arbitrary: sid sess rule: rev_induct)
  case Nil
  then show ?case using assms by (simp add: session_run_def)
next
  case (snoc op ops)
  show ?case
    by (rule session_step_backed [of "session_run ops s0", simplified])
      (use snoc session_run_keys [OF assms] in auto)
qed

section \<open>Properties\<close>

text \<open>
  C11. The life of a session. Whatever logins, requests, logouts and sweeps came before, a request is
  accepted for a session id only if a login made that id for the user it is accepted as, no logout
  revoked it since, the time to live since the login has not passed, and at most the idle time has
  passed since the login or since the last request made with it.
\<close>

theorem session_Touch_valid:
  assumes "ss_sessions s0 = []" "0 < ss_idle s0" "sess_Touch now sid (session_run ops s0) = (Inr sess, s1)"
  shows "\<exists>before now0 buf after seen. ops = before @ SessCreate now0 (Some buf) (se_Username sess) # after
    \<and> sid = hex_EncodeToString buf \<and> SessRevoke sid \<notin> set after \<and> now \<le> now0 + ss_ttl s0
    \<and> now - seen \<le> ss_idle s0 \<and> (seen = now0 \<or> SessTouch seen sid \<in> set after)"
proof -
  obtain old where old: "map_of (ss_sessions (session_run ops s0)) sid = Some old" "now \<le> se_ExpiresAt old"
    "now - se_LastSeen old \<le> ss_idle s0" "se_Username sess = se_Username old"
    using assms by (auto simp: sess_Touch_def Let_def split: option.splits if_splits)
  from session_run_backed [OF assms(1) old(1)] show ?thesis
    unfolding backed_def using old(2-4) by metis
qed

theorem session_Touch_valid_witness:
  "let s0 = NewSessionStore; s = session_run [SessCreate 10 (Some [171]) ''ann''] s0
   in \<exists>sess s1. sess_Touch 20 ''ab'' s = (Inr sess, s1) \<and> se_Username sess = ''ann''
      \<and> (\<exists>before now0 buf after. [SessCreate 10 (Some [171]) ''ann''] = before @ SessCreate now0 (Some buf) ''ann'' # after
           \<and> ''ab'' = hex_EncodeToString buf \<and> 20 \<le> now0 + defaultSessionTTL)"
proof -
  let ?s = "session_run [SessCreate 10 (Some [171]) ''ann''] NewSessionStore"
  have hex: "hex_EncodeToString [171] = ''ab''"
    by (simp add: hex_EncodeToString_def hex_digit_def char_of_def bit_iff_odd)
  obtain sess s1 where t: "sess_Touch 20 ''ab'' ?s = (Inr sess, s1)" "se_Username sess = ''ann''"
    by (simp add: session_run_def sess_Create_def newSessionID_def hex sess_Touch_def NewSessionStore_def defaultSessionTTL_def
        defaultSessionIdle_def hour_def Let_def)
  show ?thesis
    using session_Touch_valid [of NewSessionStore 20 "''ab''" "[SessCreate 10 (Some [171]) ''ann'']" sess s1] t
    by (fastforce simp: NewSessionStore_def defaultSessionIdle_def hour_def Let_def)
qed

end
