(* ===== verification/CP_Http.thy ===== *)
theory CP_Http
  imports CP_Registry CP_Session
begin

text \<open>
  The HTTP server of the control plane: requests, the identity of the caller, authentication and the
  handlers for templates, approvals, enrollment tokens, agent tokens and agents
  (\<open>server.go\<close>, \<open>handlers_auth.go\<close>, \<open>http_handlers.go\<close>, \<open>handlers_enroll.go\<close>, \<open>handlers_agent_tokens.go\<close>,
  \<open>handlers_fleet.go\<close> of \<open>backend/internal/controlplane\<close>).

  A request has its headers under their canonical names and its query parameters decoded. What
  \<open>encoding/json\<close> makes of a body is a parameter, the record \<open>decoders\<close>; the digest and the password
  check are parameters too. A handler runs at one instant and reads its random bytes from its
  environment. A response is the status with the error text or the value written as JSON; a call on
  a missing store is the panic that net/http recovers from.
\<close>

section \<open>Requests and responses\<close>

record http_request =
  hr_Method :: string
  hr_Path :: string
  hr_Query :: "(string \<times> string) list"
  hr_Header :: "(string \<times> string) list"
  hr_Cookies :: "(string \<times> string) list"
  hr_RemoteAddr :: string
  hr_TLS :: bool
  hr_ContentLength :: int
  hr_Body :: string

record http_cookie =
  ck_Name :: string
  ck_Value :: string
  ck_Secure :: bool
  ck_Expires :: "gotime option"
  ck_MaxAge :: int

datatype 'v http_response =
    HttpError nat string
  | HttpJSON nat 'v
  | HttpStatus nat
  | HttpCookie http_cookie "'v http_response"
  | HttpStream string
  | HttpPanic

fun status_code :: "'v http_response \<Rightarrow> nat option" where
  "status_code (HttpError c e) = Some c"
| "status_code (HttpJSON c v) = Some c"
| "status_code (HttpStatus c) = Some c"
| "status_code (HttpCookie k r) = status_code r"
| "status_code (HttpStream a) = Some 101"
| "status_code HttpPanic = None"

definition assoc_get :: "string \<Rightarrow> (string \<times> string) list \<Rightarrow> string" where
  "assoc_get k al = (case map_of al k of Some v \<Rightarrow> v | None \<Rightarrow> [])"

definition header_Get :: "http_request \<Rightarrow> string \<Rightarrow> string" where
  "header_Get r k = assoc_get k (hr_Header r)"

definition query_Get :: "http_request \<Rightarrow> string \<Rightarrow> string" where
  "query_Get r k = assoc_get k (hr_Query r)"

text \<open>The environment of one request: the clock, the readings of the random source (\<open>None\<close> for a failed
  one) and the identifiers the uuid package makes.\<close>

record http_env =
  he_now :: gotime
  he_rand :: "nat \<Rightarrow> 8 word list option"
  he_uuid :: string

text \<open>\<open>_, _ = rand.Read(b[:])\<close> leaves the buffer of zeros when it fails.\<close>

definition rand_hex :: "http_env \<Rightarrow> nat \<Rightarrow> nat \<Rightarrow> string" where
  "rand_hex env i n = hex_EncodeToString (case he_rand env i of Some bs \<Rightarrow> bs | None \<Rightarrow> replicate n 0)"

section \<open>The caller\<close>

definition bearerFingerprint :: "(string \<Rightarrow> 8 word list) \<Rightarrow> string \<Rightarrow> string" where
  "bearerFingerprint sha256 token =
     (if token = [] then ''anonymous'' else ''fp:'' @ hex_EncodeToString (take 8 (sha256 token)))"

definition callerFingerprint :: "(string \<Rightarrow> 8 word list) \<Rightarrow> http_request \<Rightarrow> string" where
  "callerFingerprint sha256 r =
     bearerFingerprint sha256 (strings_TrimSpace (strings_TrimPrefix (header_Get r ''Authorization'') ''Bearer ''))"

text \<open>\<open>net.SplitHostPort\<close>, as far as the host is concerned.\<close>

definition last_index :: "char \<Rightarrow> string \<Rightarrow> nat option" where
  "last_index c s = (case strings_Index (rev s) c of None \<Rightarrow> None | Some i \<Rightarrow> Some (length s - 1 - i))"

definition SplitHostPort :: "string \<Rightarrow> string option" where
  "SplitHostPort s =
     (case last_index CHR '':'' s of
        None \<Rightarrow> None
      | Some i \<Rightarrow>
          if hd s = CHR ''['' then
            (case strings_Index s CHR '']'' of
               None \<Rightarrow> None
             | Some e \<Rightarrow>
                 if e + 1 \<noteq> i \<or> CHR ''['' \<in> set (drop 1 s) \<or> CHR '']'' \<in> set (drop (e + 1) s) then None
                 else Some (drop 1 (take e s)))
          else if CHR '':'' \<in> set (take i s) \<or> CHR ''['' \<in> set s \<or> CHR '']'' \<in> set s then None
          else Some (take i s))"

definition requestClientIP :: "http_request \<Rightarrow> string" where
  "requestClientIP r =
     (let v = strings_TrimSpace (header_Get r ''X-Real-Ip''); fwd = header_Get r ''X-Forwarded-For''
      in if v \<noteq> [] then v
         else if fwd \<noteq> [] then
           (case strings_Index fwd CHR '','' of Some i \<Rightarrow> strings_TrimSpace (take i fwd) | None \<Rightarrow> strings_TrimSpace fwd)
         else if hr_RemoteAddr r = [] then []
         else (case SplitHostPort (hr_RemoteAddr r) of None \<Rightarrow> hr_RemoteAddr r | Some host \<Rightarrow> host))"

definition operatorFingerprint :: "(string \<Rightarrow> 8 word list) \<Rightarrow> http_request \<Rightarrow> string" where
  "operatorFingerprint sha256 r =
     (case filter (\<lambda>v. v \<noteq> []) (map (\<lambda>h. strings_TrimSpace (header_Get r h))
             [''X-Auth-Subject'', ''X-Forwarded-User'', ''X-Auth-Request-User'', ''X-Forwarded-Email'']) of
        v # _ \<Rightarrow> v
      | [] \<Rightarrow>
          (let base = callerFingerprint sha256 r; ip = requestClientIP r
           in if ip \<noteq> [] then base @ ''@'' @ ip else base))"

section \<open>The server\<close>

record loginRequest =
  lr_Username :: string
  lr_Password :: string

record createEnrollmentTokenRequest =
  cr_AgentID :: string
  cr_TTLSeconds :: int

record createAgentTokenRequest =
  tr_Name :: string
  tr_Description :: string

record commandRequest =
  qr_Action :: string
  qr_ContainerID :: string

record approvalBody =
  ab_Approver :: string
  ab_Comment :: string

text \<open>What decoding a body gives: the error text, or the value. \<open>dj_approvalBody\<close> gives the fields a failed
  decoding has filled in, since its error is ignored.\<close>

record decoders =
  dj_login :: "string \<Rightarrow> string + loginRequest"
  dj_template :: "string \<Rightarrow> string + PolicyTemplate"
  dj_approval :: "string \<Rightarrow> string + PendingApproval"
  dj_approvalBody :: "string \<Rightarrow> approvalBody"
  dj_enrollment :: "string \<Rightarrow> string + createEnrollmentTokenRequest"
  dj_agentToken :: "string \<Rightarrow> string + createAgentTokenRequest"
  dj_command :: "string \<Rightarrow> string + commandRequest"

record 's HTTPServer =
  hs_Registry :: "'s Registry"
  hs_Token :: string
  hs_OperatorToken :: string
  hs_Audit :: "(string \<times> (string \<times> string) list) list option"
  hs_Authenticator :: "(string \<Rightarrow> string \<Rightarrow> string option) option"
  hs_Sessions :: "SessionStore option"

type_synonym ('s, 'v) handler = "http_env \<Rightarrow> http_request \<Rightarrow> 's HTTPServer \<Rightarrow> 'v http_response \<times> 's HTTPServer"

definition emit :: "string \<Rightarrow> (string \<times> string) list \<Rightarrow> 's HTTPServer \<Rightarrow> 's HTTPServer" where
  "emit action metadata srv = srv\<lparr>hs_Audit := map_option (\<lambda>es. es @ [(action, metadata)]) (hs_Audit srv)\<rparr>"

text \<open>A call on \<open>s.Registry.store\<close>; without a store it is a nil dereference.\<close>

definition call_store ::
  "('s Store \<Rightarrow> 's \<Rightarrow> 'r \<times> 's) \<Rightarrow> 's HTTPServer \<Rightarrow> ('r \<Rightarrow> 's HTTPServer \<Rightarrow> 'v http_response \<times> 's HTTPServer) \<Rightarrow> 'v http_response \<times> 's HTTPServer" where
  "call_store op srv k =
     (case rg_store (hs_Registry srv) of
        None \<Rightarrow> (HttpPanic, srv)
      | Some (st, s) \<Rightarrow>
          (let (x, s1) = op st s
           in k x (srv\<lparr>hs_Registry := (hs_Registry srv)\<lparr>rg_store := Some (st, s1)\<rparr>\<rparr>)))"

definition recordAndEmit :: "gotime \<Rightarrow> string \<Rightarrow> string \<Rightarrow> (string \<times> string) list \<Rightarrow> 's HTTPServer \<Rightarrow> 's HTTPServer" where
  "recordAndEmit now action refID metadata srv =
     emit action metadata
       (srv\<lparr>hs_Registry := mirror (\<lambda>st. st_RecordAudit st now [] action
              (fold (\<lambda>(k, v). AList.update k (JStr v)) metadata [(''ref_id'', JStr refID)]) now) (hs_Registry srv)\<rparr>)"

definition cp_error_text :: "cp_error \<Rightarrow> string" where
  "cp_error_text e =
     (case e of CPError m \<Rightarrow> m
      | ErrTemplateNotFound \<Rightarrow> ''template not found''
      | ErrApprovalNotFound \<Rightarrow> ''approval not found''
      | ErrSelfApprove \<Rightarrow> ''requester cannot approve their own request''
      | ErrApprovalNotPending \<Rightarrow> ''approval is not pending''
      | ErrAgentTokenUnknown \<Rightarrow> ''agent token unknown''
      | ErrAgentTokenRevoked \<Rightarrow> ''agent token revoked''
      | ErrNoRows \<Rightarrow> ''sql: no rows in result set''
      | ErrDB m \<Rightarrow> m)"

definition method_not_allowed :: "'v http_response" where
  "method_not_allowed = HttpError 405 ''method not allowed''"

definition operatorBearer :: "'s HTTPServer \<Rightarrow> string" where
  "operatorBearer srv = (if hs_OperatorToken srv \<noteq> [] then hs_OperatorToken srv else hs_Token srv)"

definition sessionCookieName :: string where "sessionCookieName = ''firefik_session''"

definition sessionFromRequest :: "gotime \<Rightarrow> http_request \<Rightarrow> 's HTTPServer \<Rightarrow> Session option \<times> 's HTTPServer" where
  "sessionFromRequest now r srv =
     (case hs_Sessions srv of
        None \<Rightarrow> (None, srv)
      | Some ss \<Rightarrow>
          (case map_of (hr_Cookies r) sessionCookieName of
             None \<Rightarrow> (None, srv)
           | Some c \<Rightarrow>
               if c = [] then (None, srv)
               else (case sess_Touch now c ss of
                       (Inl e, ss1) \<Rightarrow> (None, srv\<lparr>hs_Sessions := Some ss1\<rparr>)
                     | (Inr sess, ss1) \<Rightarrow> (Some sess, srv\<lparr>hs_Sessions := Some ss1\<rparr>))))"

definition matchesBearer :: "'s HTTPServer \<Rightarrow> http_request \<Rightarrow> bool" where
  "matchesBearer srv r \<longleftrightarrow> operatorBearer srv \<noteq> [] \<and> header_Get r ''Authorization'' = ''Bearer '' @ operatorBearer srv"

definition requireBearer :: "('s, 'v) handler \<Rightarrow> ('s, 'v) handler" where
  "requireBearer next_handler env r srv =
     (let expected = operatorBearer srv in
      if expected \<noteq> [] \<and> header_Get r ''Authorization'' = ''Bearer '' @ expected then next_handler env r srv
      else (case sessionFromRequest (he_now env) r srv of
              (Some sess, srv1) \<Rightarrow> next_handler env r srv1
            | (None, srv1) \<Rightarrow>
                if expected = [] \<and> hs_Authenticator srv1 = None then next_handler env r srv1
                else (HttpError 401 ''unauthorized'', srv1)))"

definition attribute :: "(string \<Rightarrow> 8 word list) \<Rightarrow> gotime \<Rightarrow> http_request \<Rightarrow> 's HTTPServer \<Rightarrow> string \<times> 's HTTPServer" where
  "attribute sha256 now r srv =
     (case sessionFromRequest now r srv of
        (Some sess, srv1) \<Rightarrow>
          if se_Username sess \<noteq> [] then
            (let ip = requestClientIP r in (if ip \<noteq> [] then se_Username sess @ ''@'' @ ip else se_Username sess, srv1))
          else (operatorFingerprint sha256 r, srv1)
      | (None, srv1) \<Rightarrow> (operatorFingerprint sha256 r, srv1))"

section \<open>Login\<close>

text \<open>\<open>SingleUserAuthenticator\<close>, the bcrypt comparison a parameter.\<close>

definition SingleUserAuthenticator :: "(string \<Rightarrow> string \<Rightarrow> bool) \<Rightarrow> string \<Rightarrow> string \<Rightarrow> string \<Rightarrow> string \<Rightarrow> string option" where
  "SingleUserAuthenticator bcrypt_matches user hash username password =
     (if user = [] \<or> hash = [] then None
      else if strings_TrimSpace username \<noteq> user then None
      else if \<not> bcrypt_matches hash password then None else Some user)"

datatype auth_reply = LoginReply string gotime | WhoamiReply string string

definition handleLogin :: "decoders \<Rightarrow> ('s, auth_reply) handler" where
  "handleLogin dec env r srv =
     (if hr_Method r \<noteq> ''POST'' then (method_not_allowed, srv)
      else (case (hs_Authenticator srv, hs_Sessions srv) of
              (Some authenticate, Some ss) \<Rightarrow>
                (case dj_login dec (hr_Body r) of
                   Inl e \<Rightarrow> (HttpError 400 (''invalid json: '' @ e), srv)
                 | Inr req \<Rightarrow>
                     (case authenticate (lr_Username req) (lr_Password req) of
                        None \<Rightarrow> (HttpError 401 ''unauthorized'',
                          emit ''panel_login_failed'' [(''username'', lr_Username req), (''client_ip'', requestClientIP r)] srv)
                      | Some username \<Rightarrow>
                          (case sess_Create (he_now env) (he_rand env 0) username ss of
                             (Inl e, ss1) \<Rightarrow> (HttpError 500 ''random'', srv\<lparr>hs_Sessions := Some ss1\<rparr>)
                           | (Inr sess, ss1) \<Rightarrow>
                               (HttpCookie \<lparr>ck_Name = sessionCookieName, ck_Value = se_ID sess, ck_Secure = hr_TLS r,
                                            ck_Expires = Some (se_ExpiresAt sess), ck_MaxAge = 0\<rparr>
                                  (HttpJSON 200 (LoginReply username (se_ExpiresAt sess))),
                                emit ''panel_login_succeeded'' [(''username'', username), (''client_ip'', requestClientIP r)]
                                  (srv\<lparr>hs_Sessions := Some ss1\<rparr>)))))
            | _ \<Rightarrow> (HttpError 503 ''panel auth not configured'', srv)))"

definition handleLogout :: "('s, auth_reply) handler" where
  "handleLogout env r srv =
     (if hr_Method r \<noteq> ''POST'' then (method_not_allowed, srv)
      else
        (HttpCookie \<lparr>ck_Name = sessionCookieName, ck_Value = [], ck_Secure = hr_TLS r, ck_Expires = None, ck_MaxAge = -1\<rparr> (HttpStatus 204),
         case (hs_Sessions srv, map_of (hr_Cookies r) sessionCookieName) of
           (Some ss, Some c) \<Rightarrow> srv\<lparr>hs_Sessions := Some (sess_Revoke c ss)\<rparr>
         | _ \<Rightarrow> srv))"

definition handleWhoami :: "('s, auth_reply) handler" where
  "handleWhoami env r srv =
     (if hr_Method r \<noteq> ''GET'' then (method_not_allowed, srv)
      else (case sessionFromRequest (he_now env) r srv of
              (Some sess, srv1) \<Rightarrow> (HttpJSON 200 (WhoamiReply (se_Username sess) ''session''), srv1)
            | (None, srv1) \<Rightarrow>
                if matchesBearer srv1 r then (HttpJSON 200 (WhoamiReply [] ''bearer''), srv1)
                else if hs_Authenticator srv1 = None \<and> operatorBearer srv1 = [] then (HttpJSON 200 (WhoamiReply [] ''none''), srv1)
                else (HttpError 401 ''unauthorized'', srv1)))"

end
