(* ===== verification/CP_Handlers.thy ===== *)
theory CP_Handlers
  imports CP_Http
begin

text \<open>
  The handlers of the control plane's HTTP server for templates and approvals (\<open>http_handlers.go\<close>),
  enrollment tokens (\<open>handlers_enroll.go\<close>), agent tokens (\<open>handlers_agent_tokens.go\<close>) and agents
  (\<open>handlers_fleet.go\<close>), and what they promise: a caller cannot approve its own request, an enrollment
  token lives at most a day.
\<close>

section \<open>Replies\<close>

record agentDTO =
  ad_Identity :: AgentIdentity
  ad_FirstSeen :: gotime
  ad_LastSeen :: gotime
  ad_EventCount :: int
  ad_HasSnapshot :: bool
  ad_Status :: string

record commandResponse =
  cx_ID :: string
  cx_AgentID :: string
  cx_Action :: string

datatype cp_reply =
    RTemplates "PolicyTemplate list"
  | RTemplate PolicyTemplate
  | RApprovals "PendingApproval list"
  | RApproval PendingApproval
  | REnrollment EnrollmentToken
  | REnrollments "EnrollmentToken list"
  | RAgentToken AgentTokenIssued
  | RAgentTokens "AgentToken list"
  | RAgents "agentDTO list"
  | RAgentDetail agentDTO "AgentSnapshot option"
  | RCommand commandResponse
  | RPayload payload

definition SplitN2 :: "string \<Rightarrow> string \<times> string" where
  "SplitN2 s = (case strings_Index s CHR ''/'' of None \<Rightarrow> (s, []) | Some i \<Rightarrow> (take i s, drop (Suc i) s))"

section \<open>Templates\<close>

definition handleTemplates :: "(string \<Rightarrow> 8 word list) \<Rightarrow> decoders \<Rightarrow> ('s, cp_reply) handler" where
  "handleTemplates sha256 dec env r srv =
     (if hr_Method r = ''GET'' then
        call_store (\<lambda>st. st_ListTemplates st) srv (\<lambda>x srv1.
          (case x of Inl e \<Rightarrow> HttpError 500 (cp_error_text e) | Inr ts \<Rightarrow> HttpJSON 200 (RTemplates ts), srv1))
      else if hr_Method r = ''POST'' then
        (case dj_template dec (hr_Body r) of
           Inl e \<Rightarrow> (HttpError 400 ''invalid json'', srv)
         | Inr t \<Rightarrow>
             if pt_Name t = [] then (HttpError 400 ''name required'', srv)
             else call_store (\<lambda>st. st_PublishTemplate st (he_now env) (t\<lparr>pt_Publisher := callerFingerprint sha256 r\<rparr>)) srv (\<lambda>x srv1.
               (case x of Inl e \<Rightarrow> HttpError 500 (cp_error_text e) | Inr out \<Rightarrow> HttpJSON 200 (RTemplate out), srv1)))
      else (method_not_allowed, srv))"

definition handleTemplate :: "('s, cp_reply) handler" where
  "handleTemplate env r srv =
     (let name = strings_TrimPrefix (hr_Path r) ''/v1/templates/'' in
      if name = [] then (HttpError 400 ''name required'', srv)
      else if hr_Method r \<noteq> ''GET'' then (method_not_allowed, srv)
      else call_store (\<lambda>st. st_GetTemplate st name) srv (\<lambda>x srv1.
        (case x of
           Inl e \<Rightarrow> if e = ErrTemplateNotFound then HttpError 404 ''not found'' else HttpError 500 (cp_error_text e)
         | Inr t \<Rightarrow> HttpJSON 200 (RTemplate t), srv1)))"

section \<open>Approvals\<close>

definition handleApprovals :: "(string \<Rightarrow> 8 word list) \<Rightarrow> decoders \<Rightarrow> string \<Rightarrow> ('s, cp_reply) handler" where
  "handleApprovals sha256 dec nonce env r srv =
     (if hr_Method r = ''GET'' then
        call_store (\<lambda>st. st_ListApprovals st (query_Get r ''status'')) srv (\<lambda>x srv1.
          (case x of Inl e \<Rightarrow> HttpError 500 (cp_error_text e) | Inr ps \<Rightarrow> HttpJSON 200 (RApprovals ps), srv1))
      else if hr_Method r = ''POST'' then
        (case dj_approval dec (hr_Body r) of
           Inl e \<Rightarrow> (HttpError 400 ''invalid json'', srv)
         | Inr p \<Rightarrow>
             call_store (\<lambda>st. st_CreateApproval st nonce (he_now env)
                 (p\<lparr>pa_RequesterFinger := callerFingerprint sha256 r,
                    pa_Requester := (if pa_Requester p = [] then ''operator'' else pa_Requester p)\<rparr>)) srv (\<lambda>x srv1.
               case x of
                 Inl e \<Rightarrow> (HttpError 400 (cp_error_text e), srv1)
               | Inr out \<Rightarrow> (HttpJSON 200 (RApproval out),
                   recordAndEmit (he_now env) ''policy_approval_requested'' (pa_ID out)
                     [(''approval_id'', pa_ID out), (''policy_name'', pa_PolicyName out), (''requester'', pa_Requester out),
                      (''requester_fp'', pa_RequesterFinger out)] srv1)))
      else (method_not_allowed, srv))"

definition writeApprovalError :: "cp_error \<Rightarrow> 'v http_response" where
  "writeApprovalError e =
     (case e of
        ErrApprovalNotFound \<Rightarrow> HttpError 404 ''not found''
      | ErrSelfApprove \<Rightarrow> HttpError 403 ''self-approve forbidden''
      | ErrApprovalNotPending \<Rightarrow> HttpError 409 ''not pending''
      | _ \<Rightarrow> HttpError 500 (cp_error_text e))"

definition approval_meta :: "PendingApproval \<Rightarrow> (string \<times> string) list" where
  "approval_meta out = [(''approval_id'', pa_ID out), (''policy_name'', pa_PolicyName out), (''approver'', pa_Approver out),
     (''approver_fp'', pa_ApproverFinger out)]"

definition handleApproval :: "(string \<Rightarrow> 8 word list) \<Rightarrow> decoders \<Rightarrow> ('s, cp_reply) handler" where
  "handleApproval sha256 dec env r srv =
     (let rest = strings_TrimPrefix (hr_Path r) ''/v1/approvals/''; (aid, action) = SplitN2 rest;
          body = dj_approvalBody dec (hr_Body r);
          approver = (if ab_Approver body = [] then ''operator'' else ab_Approver body)
      in if rest = [] then (HttpError 400 ''id required'', srv)
         else if hr_Method r = ''GET'' \<and> action = [] then
           call_store (\<lambda>st. st_GetApproval st aid) srv (\<lambda>x srv1.
             (case x of
                Inl e \<Rightarrow> if e = ErrApprovalNotFound then HttpError 404 ''not found'' else HttpError 500 (cp_error_text e)
              | Inr p \<Rightarrow> HttpJSON 200 (RApproval p), srv1))
         else if hr_Method r = ''POST'' \<and> action = ''approve'' then
           call_store (\<lambda>st. st_ApproveApproval st (he_now env) aid approver (callerFingerprint sha256 r)) srv (\<lambda>x srv1.
             case x of
               Inl e \<Rightarrow> (writeApprovalError e, srv1)
             | Inr out \<Rightarrow> (HttpJSON 200 (RApproval out),
                 recordAndEmit (he_now env) ''policy_approval_approved'' (pa_ID out) (approval_meta out) srv1))
         else if hr_Method r = ''POST'' \<and> action = ''reject'' then
           call_store (\<lambda>st. st_RejectApproval st (he_now env) aid approver (callerFingerprint sha256 r) (ab_Comment body)) srv (\<lambda>x srv1.
             case x of
               Inl e \<Rightarrow> (writeApprovalError e, srv1)
             | Inr out \<Rightarrow> (HttpJSON 200 (RApproval out),
                 recordAndEmit (he_now env) ''policy_approval_rejected'' (pa_ID out)
                   (approval_meta out @ [(''comment'', pa_RejectionComment out)]) srv1))
         else (method_not_allowed, srv))"

section \<open>Enrollment tokens\<close>

definition validInstanceID :: "string \<Rightarrow> bool" where
  "validInstanceID aid \<longleftrightarrow> 3 \<le> length aid \<and> length aid \<le> 63 \<and>
     (\<forall>c \<in> set (utf8_decode aid). (97 \<le> c \<and> c \<le> 122) \<or> (48 \<le> c \<and> c \<le> 57) \<or> c = 45)"

definition defaultTokenTTL :: duration where "defaultTokenTTL = 15 * 60 * second"
definition maxTokenTTL :: duration where "maxTokenTTL = 24 * 3600 * second"

definition newEnrollmentTokenID :: "http_env \<Rightarrow> string" where
  "newEnrollmentTokenID env = rand_hex env 0 24"

definition enrollment_ttl :: "int \<Rightarrow> duration option" where
  "enrollment_ttl ttlSeconds =
     (let ttl = mul_int64 ttlSeconds second; ttl1 = (if ttl \<le> 0 then defaultTokenTTL else ttl)
      in if maxTokenTTL < ttl1 then None else Some ttl1)"

definition createEnrollmentToken :: "(string \<Rightarrow> 8 word list) \<Rightarrow> decoders \<Rightarrow> (gotime \<Rightarrow> string) \<Rightarrow> ('s, cp_reply) handler" where
  "createEnrollmentToken sha256 dec rfc3339 env r srv =
     (case dj_enrollment dec (hr_Body r) of
        Inl e \<Rightarrow> (HttpError 400 (''invalid json: '' @ e), srv)
      | Inr req \<Rightarrow>
          if \<not> validInstanceID (cr_AgentID req) then (HttpError 400 ''agent_id must match [a-z0-9-]{3,63}'', srv)
          else (case enrollment_ttl (cr_TTLSeconds req) of
                  None \<Rightarrow> (HttpError 400 ''ttl_seconds exceeds maximum'', srv)
                | Some ttl \<Rightarrow>
                    (let now = he_now env;
                         et = \<lparr>et_Token = newEnrollmentTokenID env, et_AgentID = cr_AgentID req, et_TTLSeconds = ttl div second,
                               et_ExpiresAt = now + ttl, et_IssuedBy = operatorFingerprint sha256 r, et_IssuedAt = now,
                               et_ConsumedAt = None, et_ConsumerIP = []\<rparr>
                     in call_store (\<lambda>st. st_CreateEnrollmentToken st et) srv (\<lambda>x srv1.
                          case x of
                            Some e \<Rightarrow> (HttpError 500 (cp_error_text e), srv1)
                          | None \<Rightarrow> (HttpJSON 201 (REnrollment et),
                              emit ''enrollment_token_created''
                                [(''agent_id'', cr_AgentID req), (''token'', take 8 (et_Token et) @ [CHR 0xE2, CHR 0x80, CHR 0xA6]),
                                 (''expires_at'', rfc3339 (et_ExpiresAt et))] srv1)))))"

definition listEnrollmentTokens :: "('s, cp_reply) handler" where
  "listEnrollmentTokens env r srv =
     call_store (\<lambda>st. st_ListEnrollmentTokens st (query_Get r ''include_used'' = ''1'')) srv (\<lambda>x srv1.
       (case x of Inl e \<Rightarrow> HttpError 500 (cp_error_text e) | Inr ts \<Rightarrow> HttpJSON 200 (REnrollments ts), srv1))"

definition handleEnrollmentTokens :: "(string \<Rightarrow> 8 word list) \<Rightarrow> decoders \<Rightarrow> (gotime \<Rightarrow> string) \<Rightarrow> ('s, cp_reply) handler" where
  "handleEnrollmentTokens sha256 dec rfc3339 env r srv =
     (if hr_Method r = ''POST'' then createEnrollmentToken sha256 dec rfc3339 env r srv
      else if hr_Method r = ''GET'' then listEnrollmentTokens env r srv
      else (method_not_allowed, srv))"

section \<open>Agent tokens\<close>

definition createAgentToken :: "(string \<Rightarrow> 8 word list) \<Rightarrow> decoders \<Rightarrow> ('s, cp_reply) handler" where
  "createAgentToken sha256 dec env r srv =
     (case dj_agentToken dec (hr_Body r) of
        Inl e \<Rightarrow> (HttpError 400 (''invalid json: '' @ e), srv)
      | Inr req \<Rightarrow>
          (let name = strings_TrimSpace (tr_Name req) in
           if name = [] then (HttpError 400 ''name is required'', srv)
           else
             (let (by_whom, srv0) = attribute sha256 (he_now env) r srv in
              call_store (\<lambda>st. st_CreateAgentToken st (he_rand env 0) (he_uuid env) (he_now env) name (tr_Description req) by_whom) srv0 (\<lambda>x srv1.
                case x of
                  Inl e \<Rightarrow> (HttpError 500 (cp_error_text e), srv1)
                | Inr issued \<Rightarrow> (HttpJSON 201 (RAgentToken issued),
                    emit ''agent_token_created'' [(''id'', at_ID (ati_AgentToken issued)), (''name'', at_Name (ati_AgentToken issued))] srv1)))))"

definition listAgentTokens :: "('s, cp_reply) handler" where
  "listAgentTokens env r srv =
     call_store (\<lambda>st. st_ListAgentTokens st (query_Get r ''include_revoked'' = ''1'')) srv (\<lambda>x srv1.
       (case x of Inl e \<Rightarrow> HttpError 500 (cp_error_text e) | Inr ts \<Rightarrow> HttpJSON 200 (RAgentTokens ts), srv1))"

definition handleAgentTokens :: "(string \<Rightarrow> 8 word list) \<Rightarrow> decoders \<Rightarrow> ('s, cp_reply) handler" where
  "handleAgentTokens sha256 dec env r srv =
     (if hr_Method r = ''POST'' then createAgentToken sha256 dec env r srv
      else if hr_Method r = ''GET'' then listAgentTokens env r srv
      else (method_not_allowed, srv))"

definition handleAgentTokenItem :: "('s, cp_reply) handler" where
  "handleAgentTokenItem env r srv =
     (let tid = strings_TrimPrefix (hr_Path r) ''/v1/agent-tokens/'' in
      if tid = [] \<or> CHR ''/'' \<in> set tid then (HttpError 400 ''invalid token id'', srv)
      else if hr_Method r = ''DELETE'' then
        call_store (\<lambda>st. st_RevokeAgentToken st (he_now env) tid) srv (\<lambda>x srv1.
          case x of
            Some e \<Rightarrow> (if e = ErrAgentTokenUnknown then HttpError 404 ''not found'' else HttpError 500 (cp_error_text e), srv1)
          | None \<Rightarrow> (HttpStatus 204, emit ''agent_token_revoked'' [(''id'', tid)] srv1))
      else (method_not_allowed, srv))"

section \<open>Agents\<close>

definition staleThreshold :: duration where "staleThreshold = 90 * second"
definition deadThreshold :: duration where "deadThreshold = 5 * 60 * second"

definition agentStatus :: "gotime \<Rightarrow> gotime \<Rightarrow> string" where
  "agentStatus lastSeen now =
     (if IsZero lastSeen then ''unknown''
      else (let since = now - lastSeen
            in if since < staleThreshold then ''healthy'' else if since < deadThreshold then ''stale'' else ''dead''))"

definition RuleSetsLabelKey :: string where "RuleSetsLabelKey = ''firefik.internal.rule_sets''"
definition HostRulesLabelKey :: string where "HostRulesLabelKey = ''firefik.internal.host_rules''"

definition stripInternalLabels :: "(string \<times> string) list \<Rightarrow> (string \<times> string) list" where
  "stripInternalLabels labels =
     (if map_of labels RuleSetsLabelKey = None \<and> map_of labels HostRulesLabelKey = None then labels
      else filter (\<lambda>(k, v). \<not> (k = RuleSetsLabelKey \<or> k = HostRulesLabelKey)) labels)"

definition toAgentDTO :: "gotime \<Rightarrow> AgentRecord \<Rightarrow> agentDTO" where
  "toAgentDTO now rec =
     \<lparr>ad_Identity = (ag_Identity rec)\<lparr>ai_Labels := stripInternalLabels (ai_Labels (ag_Identity rec))\<rparr>,
      ad_FirstSeen = ag_FirstSeen rec, ad_LastSeen = ag_LastSeen rec, ad_EventCount = ag_EventCount rec,
      ad_HasSnapshot = ag_HasSnapshot rec, ad_Status = agentStatus (ag_LastSeen rec) now\<rparr>"

definition handleAgents :: "('s, cp_reply) handler" where
  "handleAgents env r srv =
     (if hr_Method r \<noteq> ''GET'' then (method_not_allowed, srv)
      else call_store (\<lambda>st. st_ListAgents st) srv (\<lambda>x srv1.
        (case x of Inl e \<Rightarrow> HttpError 500 (cp_error_text e)
         | Inr recs \<Rightarrow> HttpJSON 200 (RAgents (map (toAgentDTO (he_now env)) recs)), srv1)))"

definition parseCommandAction :: "string \<Rightarrow> string + string" where
  "parseCommandAction action =
     (let a = strings_ToLower action in
      if a = ''apply'' then Inr CommandApply
      else if a = ''disable'' then Inr CommandDisable
      else if a = ''reconcile'' then Inr CommandReconcile
      else if a = ''token_rotate'' \<or> a = ''token-rotate'' then Inr CommandTokenRotate
      else Inl (''unsupported action: '' @ action @ '' (allowed: apply, disable, reconcile, token_rotate)''))"

definition newCommandID :: "http_env \<Rightarrow> nat \<Rightarrow> string" where
  "newCommandID env i = rand_hex env i 12"

definition agentIDFromPath :: "string \<Rightarrow> string \<times> string" where
  "agentIDFromPath path =
     (let rest = strings_TrimPrefix path ''/v1/agents/''
      in if rest = path \<or> rest = [] then ([], []) else SplitN2 rest)"

definition dispatchCommand :: "decoders \<Rightarrow> string \<Rightarrow> ('s, cp_reply) handler" where
  "dispatchCommand dec agentID env r srv =
     (case dj_command dec (hr_Body r) of
        Inl e \<Rightarrow> (HttpError 400 (''invalid json: '' @ e), srv)
      | Inr req \<Rightarrow>
          (case parseCommandAction (qr_Action req) of
             Inl e \<Rightarrow> (HttpError 400 e, srv)
           | Inr kind \<Rightarrow>
               if (kind = CommandApply \<or> kind = CommandDisable) \<and> qr_ContainerID req = []
               then (HttpError 400 (''container_id required for '' @ qr_Action req), srv)
               else
                 (let cmd = \<lparr>cm_ID = newCommandID env 0, cm_Kind = kind, cm_ContainerID = qr_ContainerID req, cm_Payload = [],
                             cm_IssuedAt = he_now env\<rparr>
                  in (HttpJSON 202 (RCommand \<lparr>cx_ID = cm_ID cmd, cx_AgentID = agentID, cx_Action = kind\<rparr>),
                      emit ''agent_command'' [(''agent_id'', agentID), (''command_id'', cm_ID cmd), (''action'', kind),
                          (''container_id'', qr_ContainerID req)]
                        (srv\<lparr>hs_Registry := Enqueue (he_now env) agentID cmd (hs_Registry srv)\<rparr>)))))"

text \<open>\<open>WaitForAck\<close>: what the rest of the server does while the handler waits is the parameter \<open>others\<close>.\<close>

definition WaitForAck :: "('s Registry \<Rightarrow> 's Registry) \<Rightarrow> string \<Rightarrow> 's Registry \<Rightarrow> CommandAck option \<times> 's Registry" where
  "WaitForAck others commandID r =
     (case wait_start commandID r of
        (Inl a, r1) \<Rightarrow> (Some a, r1)
      | (Inr w, r1) \<Rightarrow> wait_end commandID w (others r1))"

definition handleAgentStatsPull :: "('s Registry \<Rightarrow> 's Registry) \<Rightarrow> string \<Rightarrow> ('s, cp_reply) handler" where
  "handleAgentStatsPull others agentID env r srv =
     (if hr_Method r \<noteq> ''GET'' then (method_not_allowed, srv)
      else
        (let cmd = \<lparr>cm_ID = newCommandID env 0, cm_Kind = CommandStatsCollect, cm_ContainerID = [], cm_Payload = [], cm_IssuedAt = he_now env\<rparr>;
             (ack, reg) = WaitForAck others (cm_ID cmd) (Enqueue (he_now env) agentID cmd (hs_Registry srv));
             srv1 = srv\<lparr>hs_Registry := reg\<rparr>
         in (case ack of
               None \<Rightarrow> HttpError 504 ''timeout waiting for agent ack''
             | Some a \<Rightarrow>
                 if \<not> ca_Success a then HttpError 502 (if ca_Error a = [] then ''agent reported failure'' else ca_Error a)
                 else HttpJSON 200 (RPayload (ca_ResultPayload a)), srv1)))"

definition handleAgent :: "decoders \<Rightarrow> ('s Registry \<Rightarrow> 's Registry) \<Rightarrow> ('s, cp_reply) handler" where
  "handleAgent dec others env r srv =
     (let (aid, sub) = agentIDFromPath (hr_Path r) in
      if aid = [] then (HttpError 400 ''agent id required'', srv)
      else call_store (\<lambda>st. st_GetAgent st aid) srv (\<lambda>x srv1.
        case x of
          Inl e \<Rightarrow> (HttpError 500 (cp_error_text e), srv1)
        | Inr None \<Rightarrow> (HttpError 404 ''agent not found'', srv1)
        | Inr (Some rec) \<Rightarrow>
            if sub = [] \<and> hr_Method r = ''GET'' then (HttpJSON 200 (RAgentDetail (toAgentDTO (he_now env) rec) None), srv1)
            else if sub = ''snapshot'' \<and> hr_Method r = ''GET'' then
              call_store (\<lambda>st. st_LatestSnapshot st aid) srv1 (\<lambda>y srv2.
                (case y of Inl e \<Rightarrow> HttpError 500 (cp_error_text e)
                 | Inr snap \<Rightarrow> HttpJSON 200 (RAgentDetail (toAgentDTO (he_now env) rec) snap), srv2))
            else if sub = ''stats'' \<and> hr_Method r = ''GET'' then handleAgentStatsPull others aid env r srv1
            else if sub = ''commands'' \<and> hr_Method r = ''POST'' then dispatchCommand dec aid env r srv1
            else if sub = ''logs'' \<and> hr_Method r = ''GET'' then (HttpStream aid, srv1)
            else (HttpError 405 ''method or subresource not allowed'', srv1)))"

end
