(* ===== verification/CP_Panel.thy ===== *)
theory CP_Panel
  imports CP_Handlers Policy_Compile
begin

text \<open>
  The operator panel of the control plane, \<open>backend/internal/controlplane/handlers_panel.go\<close>: the view of
  the fleet over all agents, policies, autogenerated proposals and commands to containers.

  Decoding of JSON and the formatting of times and of parse errors are parameters, the record
  \<open>panel_lib\<close>; the policy language is the model of \<open>Policy_Parser\<close> and \<open>Policy_Compile\<close>.
\<close>

section \<open>Fleet statistics\<close>

record fleetStats =
  fs_Total :: int
  fs_Healthy :: int
  fs_Stale :: int
  fs_Dead :: int
  fs_Unknown :: int
  fs_Containers :: int
  fs_Running :: int
  fs_Enabled :: int
  fs_Traffic :: "(string \<times> int \<times> int) list"

text \<open>The loop over the agents, asking the store for the latest snapshot of each; an error counts as none.\<close>

fun latest_snapshots :: "'s Store \<Rightarrow> AgentRecord list \<Rightarrow> 's \<Rightarrow> (AgentRecord \<times> AgentSnapshot option) list \<times> 's" where
  "latest_snapshots st [] s = ([], s)"
| "latest_snapshots st (rec # recs) s =
     (let (x, s1) = st_LatestSnapshot st (ai_InstanceID (ag_Identity rec)) s;
          (rest, s2) = latest_snapshots st recs s1
      in ((rec, case x of Inl e \<Rightarrow> None | Inr snap \<Rightarrow> snap) # rest, s2))"

definition list_fleet :: "'s Store \<Rightarrow> 's \<Rightarrow> (cp_error + (AgentRecord \<times> AgentSnapshot option) list) \<times> 's" where
  "list_fleet st s =
     (case st_ListAgents st s of
        (Inl e, s1) \<Rightarrow> (Inl e, s1)
      | (Inr recs, s1) \<Rightarrow> (let (xs, s2) = latest_snapshots st recs s1 in (Inr xs, s2)))"

definition int64 :: "int \<Rightarrow> int" where
  "int64 x = sint (word_of_int x :: 64 word)"

definition add_traffic :: "TrafficBucket \<Rightarrow> (string \<times> int \<times> int) list \<Rightarrow> (string \<times> int \<times> int) list" where
  "add_traffic b traffic =
     (let (a, d) = (case map_of traffic (tb_Timestamp b) of Some c \<Rightarrow> c | None \<Rightarrow> (0, 0))
      in AList.update (tb_Timestamp b) (int64 (a + tb_Accepted b), int64 (d + tb_Dropped b)) traffic)"

definition count_agent :: "string \<Rightarrow> fleetStats \<Rightarrow> fleetStats" where
  "count_agent status resp =
     (let r = resp\<lparr>fs_Total := fs_Total resp + 1\<rparr>
      in if status = ''healthy'' then r\<lparr>fs_Healthy := fs_Healthy r + 1\<rparr>
         else if status = ''stale'' then r\<lparr>fs_Stale := fs_Stale r + 1\<rparr>
         else if status = ''dead'' then r\<lparr>fs_Dead := fs_Dead r + 1\<rparr>
         else r\<lparr>fs_Unknown := fs_Unknown r + 1\<rparr>)"

definition count_container :: "ContainerState \<Rightarrow> fleetStats \<Rightarrow> fleetStats" where
  "count_container c resp =
     resp\<lparr>fs_Containers := fs_Containers resp + 1,
          fs_Running := fs_Running resp + (if strings_EqualFold (cs_Status c) ''running'' then 1 else 0),
          fs_Enabled := fs_Enabled resp + (if cs_FirewallStatus c = ''active'' then 1 else 0)\<rparr>"

definition stats_step :: "gotime \<Rightarrow> AgentRecord \<times> AgentSnapshot option \<Rightarrow> fleetStats \<Rightarrow> fleetStats" where
  "stats_step now x resp =
     (let r = count_agent (agentStatus (ag_LastSeen (fst x)) now) resp
      in case snd x of
           None \<Rightarrow> r
         | Some snap \<Rightarrow>
             (let r1 = fold count_container (as_Containers snap) r
              in r1\<lparr>fs_Traffic := fold add_traffic (as_Traffic snap) (fs_Traffic r1)\<rparr>))"

definition no_stats :: fleetStats where
  "no_stats = \<lparr>fs_Total = 0, fs_Healthy = 0, fs_Stale = 0, fs_Dead = 0, fs_Unknown = 0, fs_Containers = 0, fs_Running = 0,
     fs_Enabled = 0, fs_Traffic = []\<rparr>"

definition fleet_stats :: "gotime \<Rightarrow> (AgentRecord \<times> AgentSnapshot option) list \<Rightarrow> fleetStats" where
  "fleet_stats now xs =
     (let resp = fold (stats_step now) xs no_stats in resp\<lparr>fs_Traffic := sort_key fst (fs_Traffic resp)\<rparr>)"

section \<open>Containers and rules of the fleet\<close>

record HostRuleDTO =
  ho_Name :: string
  ho_Protocol :: string
  ho_Ports :: "16 word list"
  ho_Allowlist :: "string list"
  ho_Blocklist :: "string list"
  ho_Log :: bool
  ho_LogPrefix :: string

record HostRulesPayload =
  hp_Default :: string
  hp_Rules :: "HostRuleDTO list"

record policySaveRequest =
  pw_DSL :: string
  pw_Comment :: string
  pw_Author :: string

record policySimulateRequest =
  py_ContainerID :: string
  py_DSL :: string
  py_Labels :: "(string \<times> string) list"

record autogenActionRequest =
  xa_AgentID :: string
  xa_Mode :: string
  xa_Reason :: string

record bulkAction =
  ba_ID :: string
  ba_Action :: string
  ba_AgentID :: string

record panel_lib =
  xl_uni :: unicode_tables
  xl_sha256 :: "string \<Rightarrow> 8 word list"
  xl_parse_error :: "parse_error \<Rightarrow> string"
  xl_RFC3339Nano :: "gotime \<Rightarrow> string"
  xl_rule_sets :: "string \<Rightarrow> json list option"
  xl_host_rules :: "string \<Rightarrow> HostRulesPayload option"
  xl_save :: "string \<Rightarrow> string + policySaveRequest"
  xl_validate :: "string \<Rightarrow> string + string"
  xl_simulate :: "string \<Rightarrow> string + policySimulateRequest"
  xl_autogen :: "string \<Rightarrow> string + autogenActionRequest"
  xl_action :: "string \<Rightarrow> string"
  xl_bulk :: "string \<Rightarrow> string + bulkAction list"

definition normaliseFirewallStatus :: "string \<Rightarrow> string" where
  "normaliseFirewallStatus s = (if s = [] then ''disabled'' else s)"

definition normaliseDefaultPolicy :: "string \<Rightarrow> string" where
  "normaliseDefaultPolicy s =
     (let u = strings_ToUpper (strings_TrimSpace s)
      in if u = ''DROP'' then ''DROP'' else if u = ''ACCEPT'' then ''ACCEPT'' else ''RETURN'')"

definition fill_list :: "string \<Rightarrow> (string \<times> json) list \<Rightarrow> (string \<times> json) list" where
  "fill_list k m = (case map_of m k of None \<Rightarrow> AList.update k (JArr []) m | Some v \<Rightarrow> if v = JNull then AList.update k (JArr []) m else m)"

definition sanitizeRuleSets :: "json list \<Rightarrow> json list" where
  "sanitizeRuleSets rs =
     map (\<lambda>x. case x of JObj m \<Rightarrow> JObj (fill_list ''blocklist'' (fill_list ''allowlist'' (fill_list ''ports'' m))) | _ \<Rightarrow> x) rs"

definition decodeRuleSetsFromLabels :: "panel_lib \<Rightarrow> (string \<times> string) list \<Rightarrow> json list" where
  "decodeRuleSetsFromLabels lib labels =
     (case map_of labels RuleSetsLabelKey of
        None \<Rightarrow> []
      | Some raw \<Rightarrow> if raw = [] then [] else (case xl_rule_sets lib raw of None \<Rightarrow> [] | Some out \<Rightarrow> out))"

definition decodeHostRulesFromLabels :: "panel_lib \<Rightarrow> (string \<times> string) list \<Rightarrow> HostRulesPayload option" where
  "decodeHostRulesFromLabels lib labels =
     (case map_of labels HostRulesLabelKey of
        None \<Rightarrow> None
      | Some raw \<Rightarrow>
          if raw = [] then None
          else (case xl_host_rules lib raw of
                  None \<Rightarrow> None
                | Some p \<Rightarrow> if hp_Rules p = [] \<and> strings_TrimSpace (hp_Default p) = [] then None else Some p))"

record fleetContainerDTO =
  fc_AgentID :: string
  fc_AgentHostname :: string
  fc_ID :: string
  fc_Name :: string
  fc_Status :: string
  fc_Enabled :: bool
  fc_FirewallStatus :: string
  fc_DefaultPolicy :: string
  fc_Labels :: "(string \<times> string) list"
  fc_RuleSets :: "json list"
  fc_RuleSetCount :: int
  fc_Sources :: "string list"

definition fleet_container :: "panel_lib \<Rightarrow> AgentRecord \<Rightarrow> ContainerState \<Rightarrow> fleetContainerDTO" where
  "fleet_container lib rec c =
     (let fw = normaliseFirewallStatus (cs_FirewallStatus c) in
      \<lparr>fc_AgentID = ai_InstanceID (ag_Identity rec), fc_AgentHostname = ai_Hostname (ag_Identity rec), fc_ID = cs_ID c,
       fc_Name = cs_Name c, fc_Status = cs_Status c, fc_Enabled = (fw = ''active''), fc_FirewallStatus = fw,
       fc_DefaultPolicy = normaliseDefaultPolicy (cs_DefaultPolicy c), fc_Labels = stripInternalLabels (cs_Labels c),
       fc_RuleSets = sanitizeRuleSets (decodeRuleSetsFromLabels lib (cs_Labels c)), fc_RuleSetCount = cs_RuleSetCount c,
       fc_Sources = cs_Sources c\<rparr>)"

definition fleet_containers :: "panel_lib \<Rightarrow> (AgentRecord \<times> AgentSnapshot option) list \<Rightarrow> fleetContainerDTO list" where
  "fleet_containers lib xs =
     sort_key fc_AgentID (sort_key fc_Name
       (concat (map (\<lambda>(rec, snap). case snap of None \<Rightarrow> [] | Some sn \<Rightarrow> map (fleet_container lib rec) (as_Containers sn)) xs)))"

record fleetRuleDTO =
  fr_AgentID :: string
  fr_AgentHostname :: string
  fr_ContainerID :: string
  fr_ContainerName :: string
  fr_Status :: string
  fr_DefaultPolicy :: string
  fr_RuleSets :: "json list"
  fr_RuleSetCount :: int

definition container_rules :: "panel_lib \<Rightarrow> AgentRecord \<Rightarrow> ContainerState \<Rightarrow> fleetRuleDTO" where
  "container_rules lib rec c =
     \<lparr>fr_AgentID = ai_InstanceID (ag_Identity rec), fr_AgentHostname = ai_Hostname (ag_Identity rec), fr_ContainerID = cs_ID c,
      fr_ContainerName = cs_Name c, fr_Status = cs_Status c, fr_DefaultPolicy = normaliseDefaultPolicy (cs_DefaultPolicy c),
      fr_RuleSets = sanitizeRuleSets (decodeRuleSetsFromLabels lib (cs_Labels c)), fr_RuleSetCount = cs_RuleSetCount c\<rparr>"

definition host_rule_json :: "HostRuleDTO \<Rightarrow> json" where
  "host_rule_json hr =
     JObj [(''name'', JStr (ho_Name hr)), (''protocol'', JStr (ho_Protocol hr)),
           (''ports'', JArr (map (\<lambda>p. JNum (strconv_Itoa (unat p))) (ho_Ports hr))),
           (''allowlist'', JArr (map JStr (ho_Allowlist hr))), (''blocklist'', JArr (map JStr (ho_Blocklist hr))),
           (''log'', JBool (ho_Log hr)), (''logPrefix'', JStr (ho_LogPrefix hr))]"

definition host_rules :: "AgentRecord \<Rightarrow> HostRulesPayload \<Rightarrow> fleetRuleDTO" where
  "host_rules rec p =
     (let d = strings_ToUpper (strings_TrimSpace (hp_Default p)) in
      \<lparr>fr_AgentID = ai_InstanceID (ag_Identity rec), fr_AgentHostname = ai_Hostname (ag_Identity rec), fr_ContainerID = ''(host)'',
       fr_ContainerName = ''host firewall'', fr_Status = ''host'', fr_DefaultPolicy = (if d = [] then ''ACCEPT'' else d),
       fr_RuleSets = map host_rule_json (hp_Rules p), fr_RuleSetCount = int (length (hp_Rules p))\<rparr>)"

definition agent_rules :: "panel_lib \<Rightarrow> AgentRecord \<Rightarrow> AgentSnapshot \<Rightarrow> fleetRuleDTO list" where
  "agent_rules lib rec snap =
     map (container_rules lib rec) (filter (\<lambda>c. \<not> (cs_RuleSetCount c = 0 \<and> cs_FirewallStatus c \<noteq> ''active'')) (as_Containers snap))
     @ (case decodeHostRulesFromLabels lib (ai_Labels (as_Agent snap)) of None \<Rightarrow> [] | Some p \<Rightarrow> [host_rules rec p])"

definition fleet_rules :: "panel_lib \<Rightarrow> (AgentRecord \<times> AgentSnapshot option) list \<Rightarrow> fleetRuleDTO list" where
  "fleet_rules lib xs =
     sort_key fr_AgentID (sort_key fr_ContainerName
       (concat (map (\<lambda>(rec, snap). case snap of None \<Rightarrow> [] | Some sn \<Rightarrow> agent_rules lib rec sn) xs)))"

section \<open>Audit history\<close>

definition defaultAuditHistoryLimit :: int where "defaultAuditHistoryLimit = 100"
definition maxAuditHistoryLimit :: int where "maxAuditHistoryLimit = 1000"

definition history_limit :: "string \<Rightarrow> int" where
  "history_limit v =
     (if v = [] then defaultAuditHistoryLimit
      else (case strconv_Atoi v of
              Some n \<Rightarrow> if 0 < n then min n maxAuditHistoryLimit else defaultAuditHistoryLimit
            | None \<Rightarrow> defaultAuditHistoryLimit))"

record auditEventDTO =
  ae_AgentID :: string
  ae_AgentHostname :: string
  ae_Action :: string
  ae_Source :: string
  ae_ContainerID :: string
  ae_ContainerName :: string
  ae_Metadata :: "(string \<times> string) list"
  ae_Timestamp :: string

definition nonEmptyOr :: "string \<Rightarrow> string \<Rightarrow> string" where
  "nonEmptyOr s fallback = (if s = [] then fallback else s)"

definition str_field :: "payload \<Rightarrow> string \<Rightarrow> string" where
  "str_field p k = (case map_of p k of Some (JStr v) \<Rightarrow> v | _ \<Rightarrow> [])"

definition string_fields :: "payload \<Rightarrow> (string \<times> string) list" where
  "string_fields p =
     List.map_filter (\<lambda>(k, v). if k \<in> {''container_id'', ''container_name'', ''source'', ''action''} then None
                               else (case v of JStr s \<Rightarrow> Some (k, s) | _ \<Rightarrow> None)) p"

definition audit_entry :: "panel_lib \<Rightarrow> (string \<times> string) list \<Rightarrow> AuditRecord \<Rightarrow> auditEventDTO" where
  "audit_entry lib hosts ev =
     \<lparr>ae_AgentID = au_AgentID ev, ae_AgentHostname = assoc_get (au_AgentID ev) hosts, ae_Action = nonEmptyOr (au_Kind ev) ''unknown'',
      ae_Source = nonEmptyOr (str_field (au_Payload ev) ''source'') ''control-plane'',
      ae_ContainerID = str_field (au_Payload ev) ''container_id'', ae_ContainerName = str_field (au_Payload ev) ''container_name'',
      ae_Metadata = string_fields (au_Payload ev), ae_Timestamp = xl_RFC3339Nano lib (au_At ev)\<rparr>"

definition hostnamesByAgent :: "'s Store \<Rightarrow> 's \<Rightarrow> (string \<times> string) list \<times> 's" where
  "hostnamesByAgent st s =
     (case st_ListAgents st s of
        (Inl e, s1) \<Rightarrow> ([], s1)
      | (Inr recs, s1) \<Rightarrow> (fold (\<lambda>rec. AList.update (ai_InstanceID (ag_Identity rec)) (ai_Hostname (ag_Identity rec))) recs [], s1))"

end
