(* ===== verification/CP_PanelHandlers.thy ===== *)
theory CP_PanelHandlers
  imports CP_Panel
begin

text \<open>
  The handlers of the operator panel, \<open>backend/internal/controlplane/handlers_panel.go\<close>: they read the
  fleet from the store, check and save policies, and send commands to agents, waiting for the
  acknowledgement. What the rest of the server does during a wait is the parameter \<open>others\<close>, indexed by the
  wait in a request that waits several times.
\<close>

section \<open>Policies\<close>

record ruleSetView =
  rv_Name :: string
  rv_Ports :: "16 word list"
  rv_Allowlist :: "string list"
  rv_Blocklist :: "string list"
  rv_Protocol :: string
  rv_Profile :: string
  rv_Log :: bool
  rv_LogPrefix :: string
  rv_GeoBlock :: "string list"
  rv_GeoAllow :: "string list"

definition cidrsToStrings :: "IPNet list \<Rightarrow> string list" where
  "cidrsToStrings ns = map ipnet_String ns"

definition rule_set_view :: "FirewallRuleSet \<Rightarrow> ruleSetView" where
  "rule_set_view rs =
     \<lparr>rv_Name = rs_Name rs, rv_Ports = rs_Ports rs, rv_Allowlist = cidrsToStrings (rs_Allowlist rs),
      rv_Blocklist = cidrsToStrings (rs_Blocklist rs), rv_Protocol = rs_Protocol rs, rv_Profile = rs_Profile rs, rv_Log = rs_Log rs,
      rv_LogPrefix = rs_LogPrefix rs, rv_GeoBlock = rs_GeoBlock rs, rv_GeoAllow = rs_GeoAllow rs\<rparr>"

fun renderPolicyViews :: "Policy list \<Rightarrow> ruleSetView list \<Rightarrow> string list \<Rightarrow> ruleSetView list \<times> string list \<times> compile_error option" where
  "renderPolicyViews [] views warnings = (views, warnings, None)"
| "renderPolicyViews (pol # pols) views warnings =
     (case policy_Compile pol of
        Inl e \<Rightarrow> ([], warnings, Some e)
      | Inr compiled \<Rightarrow>
          renderPolicyViews pols (views @ map rule_set_view (CRuleSets compiled)) (warnings @ CWarnings compiled))"

definition panel_Parse :: "panel_lib \<Rightarrow> string \<Rightarrow> parse_error + Policy list" where
  "panel_Parse lib = policy_Parse (xl_uni lib) (\<lambda>s. hex_EncodeToString (xl_sha256 lib s))"

definition evaluatePolicyRules :: "panel_lib \<Rightarrow> string \<Rightarrow> ruleSetView list" where
  "evaluatePolicyRules lib dsl =
     (if strings_TrimSpace dsl = [] then []
      else (case panel_Parse lib dsl of Inl e \<Rightarrow> [] | Inr parsed \<Rightarrow> fst (renderPolicyViews parsed [] [])))"

definition countRulesInDSL :: "panel_lib \<Rightarrow> string \<Rightarrow> nat" where
  "countRulesInDSL lib dsl =
     sum_list (map (\<lambda>v. length (rv_Ports v) + length (rv_Allowlist v) + length (rv_Blocklist v)) (evaluatePolicyRules lib dsl))"

definition shortSHA :: "string \<Rightarrow> string" where
  "shortSHA sha = (if 12 < length sha then take 12 sha else sha)"

record policySummaryDTO =
  py_Version :: PolicyVersion
  py_Short :: string
  py_Rules :: nat

definition policy_summary :: "panel_lib \<Rightarrow> PolicyVersion \<Rightarrow> policySummaryDTO" where
  "policy_summary lib v = \<lparr>py_Version = v, py_Short = shortSHA (pv_SHA v), py_Rules = countRulesInDSL lib (pv_DSL v)\<rparr>"

record policySimulateResponse =
  pz_Policy :: string
  pz_Container :: string
  pz_DefaultPolicy :: string
  pz_RuleSets :: "ruleSetView list"
  pz_Warnings :: "string list"
  pz_Errors :: "string list"
  pz_LabelsSeen :: "(string \<times> string) list"

record actionResult =
  ax_ID :: string
  ax_Action :: string
  ax_Status :: string
  ax_Error :: string

record bulkSummary =
  bs_Total :: nat
  bs_Applied :: nat
  bs_Disabled :: nat
  bs_Failed :: nat

datatype panel_reply =
    PStats fleetStats
  | PContainers "fleetContainerDTO list"
  | PRules "fleetRuleDTO list"
  | PAudit "auditEventDTO list"
  | PPolicies "policySummaryDTO list"
  | PPolicy PolicyVersion string "ruleSetView list"
  | PSaved policySummaryDTO
  | PValidate bool "string list"
  | PSimulate policySimulateResponse
  | PProposals "(string \<times> AutogenProposal) list"
  | PAutogen payload
  | PAction string string
  | PBulk "actionResult list" bulkSummary

definition latest_versions :: "PolicyVersion list \<Rightarrow> (string \<times> PolicyVersion) list" where
  "latest_versions vs =
     fold (\<lambda>v latest. case map_of latest (pv_Name v) of
             None \<Rightarrow> AList.update (pv_Name v) v latest
           | Some cur \<Rightarrow> if pv_CommittedAt cur < pv_CommittedAt v then AList.update (pv_Name v) v latest else latest) vs []"

definition handlePoliciesIndex :: "panel_lib \<Rightarrow> ('s, panel_reply) handler" where
  "handlePoliciesIndex lib env r srv =
     (if hr_Method r \<noteq> ''GET'' then (method_not_allowed, srv)
      else call_store (\<lambda>st. st_ListPolicyVersions st [] 0) srv (\<lambda>x srv1.
        (case x of
           Inl e \<Rightarrow> HttpError 500 (cp_error_text e)
         | Inr vs \<Rightarrow> HttpJSON 200 (PPolicies (map (policy_summary lib) (sort_key pv_Name (map snd (latest_versions vs))))), srv1)))"

definition handlePolicyGet :: "panel_lib \<Rightarrow> string \<Rightarrow> ('s, panel_reply) handler" where
  "handlePolicyGet lib name env r srv =
     call_store (\<lambda>st. st_GetPolicyVersion st name) srv (\<lambda>x srv1.
       (case x of
          Inl e \<Rightarrow> HttpError 404 ''policy not found''
        | Inr v \<Rightarrow> HttpJSON 200 (PPolicy v (shortSHA (pv_SHA v)) (evaluatePolicyRules lib (pv_DSL v))), srv1))"

definition handlePolicySave :: "panel_lib \<Rightarrow> string \<Rightarrow> ('s, panel_reply) handler" where
  "handlePolicySave lib name env r srv =
     (case xl_save lib (hr_Body r) of
        Inl e \<Rightarrow> (HttpError 400 (''invalid json: '' @ e), srv)
      | Inr req \<Rightarrow>
          if strings_TrimSpace (pw_DSL req) = [] then (HttpError 400 ''dsl required'', srv)
          else (case panel_Parse lib (pw_DSL req) of
                  Inl e \<Rightarrow> (HttpError 400 (''policy parse: '' @ xl_parse_error lib e), srv)
                | Inr _ \<Rightarrow>
                    call_store (\<lambda>st. st_SetPolicyVersion st (he_now env) name (pw_DSL req)
                        (if pw_Author req = [] then ''panel'' else pw_Author req) (pw_Comment req)) srv (\<lambda>x srv1.
                      (case x of
                         Inl e \<Rightarrow> HttpError 500 (cp_error_text e)
                       | Inr v \<Rightarrow> HttpJSON 200 (PSaved (policy_summary lib v)), srv1))))"

definition handlePolicyValidate :: "panel_lib \<Rightarrow> ('s, panel_reply) handler" where
  "handlePolicyValidate lib env r srv =
     (case xl_validate lib (hr_Body r) of
        Inl e \<Rightarrow> (HttpError 400 (''invalid json: '' @ e), srv)
      | Inr dsl \<Rightarrow>
          if strings_TrimSpace dsl = [] then (HttpJSON 200 (PValidate False [''empty dsl'']), srv)
          else (case panel_Parse lib dsl of
                  Inl e \<Rightarrow> (HttpJSON 200 (PValidate False [xl_parse_error lib e]), srv)
                | Inr _ \<Rightarrow> (HttpJSON 200 (PValidate True []), srv)))"

definition simulate_reply :: "panel_lib \<Rightarrow> string \<Rightarrow> policySimulateRequest \<Rightarrow> string \<Rightarrow> policySimulateResponse" where
  "simulate_reply lib name req dsl =
     (let resp = \<lparr>pz_Policy = name, pz_Container = py_ContainerID req, pz_DefaultPolicy = [], pz_RuleSets = [], pz_Warnings = [],
                  pz_Errors = [], pz_LabelsSeen = py_Labels req\<rparr>
      in case panel_Parse lib dsl of
           Inl e \<Rightarrow> resp\<lparr>pz_Errors := [xl_parse_error lib e]\<rparr>
         | Inr parsed \<Rightarrow>
             (let (views, warns, err) = renderPolicyViews parsed [] []
              in resp\<lparr>pz_RuleSets := views, pz_Warnings := warns, pz_DefaultPolicy := ''DROP''\<rparr>))"

definition handlePolicySimulate :: "panel_lib \<Rightarrow> string \<Rightarrow> ('s, panel_reply) handler" where
  "handlePolicySimulate lib name env r srv =
     (case xl_simulate lib (hr_Body r) of
        Inl e \<Rightarrow> (HttpError 400 (''invalid json: '' @ e), srv)
      | Inr req \<Rightarrow>
          if strings_TrimSpace (py_DSL req) = [] then
            call_store (\<lambda>st. st_GetPolicyVersion st name) srv (\<lambda>x srv1.
              (case x of
                 Inl e \<Rightarrow> HttpError 404 ''policy not found''
               | Inr v \<Rightarrow> HttpJSON 200 (PSimulate (simulate_reply lib name req (pv_DSL v))), srv1))
          else (HttpJSON 200 (PSimulate (simulate_reply lib name req (py_DSL req))), srv))"

definition handlePolicy :: "panel_lib \<Rightarrow> ('s, panel_reply) handler" where
  "handlePolicy lib env r srv =
     (let rest = strings_TrimPrefix (hr_Path r) ''/v1/policies/''; (name, sub) = SplitN2 rest
      in if rest = hr_Path r \<or> rest = [] then (HttpError 400 ''policy name required'', srv)
         else if rest = ''validate'' \<and> hr_Method r = ''POST'' then handlePolicyValidate lib env r srv
         else if sub = ''validate'' \<and> hr_Method r = ''POST'' then handlePolicyValidate lib env r srv
         else if sub = ''simulate'' \<and> hr_Method r = ''POST'' then handlePolicySimulate lib name env r srv
         else if sub = [] \<and> hr_Method r = ''GET'' then handlePolicyGet lib name env r srv
         else if sub = [] \<and> hr_Method r = ''PUT'' then handlePolicySave lib name env r srv
         else (HttpError 405 ''method or subresource not allowed'', srv))"

section \<open>The fleet\<close>

definition fleet_view :: "((AgentRecord \<times> AgentSnapshot option) list \<Rightarrow> panel_reply) \<Rightarrow> ('s, panel_reply) handler" where
  "fleet_view render env r srv =
     (if hr_Method r \<noteq> ''GET'' then (method_not_allowed, srv)
      else call_store list_fleet srv (\<lambda>x srv1.
        (case x of Inl e \<Rightarrow> HttpError 500 (cp_error_text e) | Inr xs \<Rightarrow> HttpJSON 200 (render xs), srv1)))"

definition handleFleetStats :: "('s, panel_reply) handler" where
  "handleFleetStats env = fleet_view (\<lambda>xs. PStats (fleet_stats (he_now env) xs)) env"

definition handleFleetContainers :: "panel_lib \<Rightarrow> ('s, panel_reply) handler" where
  "handleFleetContainers lib = fleet_view (\<lambda>xs. PContainers (fleet_containers lib xs))"

definition handleFleetRules :: "panel_lib \<Rightarrow> ('s, panel_reply) handler" where
  "handleFleetRules lib = fleet_view (\<lambda>xs. PRules (fleet_rules lib xs))"

definition handleFleetAuditHistory :: "panel_lib \<Rightarrow> ('s, panel_reply) handler" where
  "handleFleetAuditHistory lib env r srv =
     (if hr_Method r \<noteq> ''GET'' then (method_not_allowed, srv)
      else call_store (\<lambda>st. st_ListAuditEvents st (strings_TrimSpace (query_Get r ''agent_id'')) (history_limit (query_Get r ''limit''))) srv (\<lambda>x srv1.
        case x of
          Inl e \<Rightarrow> (HttpError 500 (cp_error_text e), srv1)
        | Inr events \<Rightarrow> call_store hostnamesByAgent srv1 (\<lambda>hosts srv2. (HttpJSON 200 (PAudit (map (audit_entry lib hosts) events)), srv2))))"

definition handleAutogenProposals :: "('s, panel_reply) handler" where
  "handleAutogenProposals env r srv =
     (if hr_Method r \<noteq> ''GET'' then (method_not_allowed, srv)
      else call_store (\<lambda>st. st_ListProposals st []) srv (\<lambda>x srv1.
        case x of
          Inl e \<Rightarrow> (HttpError 500 (cp_error_text e), srv1)
        | Inr items \<Rightarrow> call_store hostnamesByAgent srv1 (\<lambda>hosts srv2.
            (HttpJSON 200 (PProposals (map (\<lambda>p. (assoc_get (ap_AgentID p) hosts, p)) items)), srv2))))"

section \<open>Commands to agents\<close>

definition resolveProposalAgent :: "string \<Rightarrow> 's Store \<Rightarrow> 's \<Rightarrow> string \<times> 's" where
  "resolveProposalAgent containerID st s =
     (case st_ListProposals st [] s of
        (Inl e, s1) \<Rightarrow> ([], s1)
      | (Inr items, s1) \<Rightarrow>
          (case List.find (\<lambda>p. ap_ContainerID p = containerID \<or> strings_HasPrefix (ap_ContainerID p) containerID) items of
             None \<Rightarrow> ([], s1) | Some p \<Rightarrow> (ap_AgentID p, s1)))"

definition send_and_wait :: "('s Registry \<Rightarrow> 's Registry) \<Rightarrow> gotime \<Rightarrow> string \<Rightarrow> Command \<Rightarrow> 's HTTPServer \<Rightarrow> CommandAck option \<times> 's HTTPServer" where
  "send_and_wait others now agentID cmd srv =
     (let (ack, reg) = WaitForAck others (cm_ID cmd) (Enqueue now agentID cmd (hs_Registry srv))
      in (ack, srv\<lparr>hs_Registry := reg\<rparr>))"

definition autogen_command :: "http_env \<Rightarrow> string \<Rightarrow> string \<Rightarrow> autogenActionRequest \<Rightarrow> Command option" where
  "autogen_command env containerID action req =
     (let cmd = \<lparr>cm_ID = newCommandID env 0, cm_Kind = [], cm_ContainerID = containerID, cm_Payload = [(''container_id'', JStr containerID)],
                 cm_IssuedAt = he_now env\<rparr>
      in if action = ''approve'' then
           Some (cmd\<lparr>cm_Kind := CommandAutogenApprove,
                     cm_Payload := cm_Payload cmd @ [(''mode'', JStr (if xa_Mode req = [] then ''labels'' else xa_Mode req))]\<rparr>)
         else if action = ''reject'' then
           Some (cmd\<lparr>cm_Kind := CommandAutogenReject, cm_Payload := cm_Payload cmd @ [(''reason'', JStr (xa_Reason req))]\<rparr>)
         else None)"

definition autogen_send :: "('s Registry \<Rightarrow> 's Registry) \<Rightarrow> string \<Rightarrow> string \<Rightarrow> string \<Rightarrow> Command \<Rightarrow> ('s, panel_reply) handler" where
  "autogen_send others agentID containerID action cmd env r srv =
     (let (ack, srv1) = send_and_wait others (he_now env) agentID cmd srv
      in case ack of
           None \<Rightarrow> (HttpJSON 504 (PAutogen [(''id'', JStr (cm_ID cmd)), (''error'', JStr ''timeout waiting for agent ack'')]), srv1)
         | Some a \<Rightarrow>
             if \<not> ca_Success a then (HttpJSON 502 (PAutogen [(''id'', JStr (cm_ID cmd)), (''error'', JStr (ca_Error a))]), srv1)
             else call_store (\<lambda>st. st_DeleteProposal st agentID containerID) srv1 (\<lambda>x srv2.
               (HttpJSON 200 (PAutogen (fold (\<lambda>(k, v). AList.update k v) (ca_ResultPayload a)
                  [(''id'', JStr (cm_ID cmd)), (''agent'', JStr agentID), (''action'', JStr action), (''success'', JBool True)])), srv2)))"

definition handleAutogenAction :: "panel_lib \<Rightarrow> ('s Registry \<Rightarrow> 's Registry) \<Rightarrow> ('s, panel_reply) handler" where
  "handleAutogenAction lib others env r srv =
     (let rest = strings_TrimPrefix (hr_Path r) ''/v1/autogen/proposals/''
      in case (if rest = hr_Path r \<or> rest = [] then [] else strings_Split rest CHR ''/'') of
           [containerID, action] \<Rightarrow>
             if hr_Method r \<noteq> ''POST'' then (method_not_allowed, srv)
             else (case xl_autogen lib (hr_Body r) of
                     Inl e \<Rightarrow> (HttpError 400 (''invalid json: '' @ e), srv)
                   | Inr req \<Rightarrow>
                       (let go = (\<lambda>agentID srv1.
                              if agentID = [] then (HttpError 400 ''agent_id required (no proposal found for this container)'', srv1)
                              else (case autogen_command env containerID action req of
                                      None \<Rightarrow> (HttpError 400 (''unsupported action: '' @ action), srv1)
                                    | Some cmd \<Rightarrow> autogen_send others agentID containerID action cmd env r srv1))
                        in if xa_AgentID req = [] then call_store (resolveProposalAgent containerID) srv go else go (xa_AgentID req) srv))
         | _ \<Rightarrow> (HttpError 400 ''container id and action required'', srv))"

text \<open>\<open>resolveContainerAgent\<close>: the first agent whose latest snapshot has a container with the id or a prefix of it.\<close>

fun resolve_loop :: "string \<Rightarrow> 's Store \<Rightarrow> AgentRecord list \<Rightarrow> 's \<Rightarrow> string \<times> 's" where
  "resolve_loop containerID st [] s = ([], s)"
| "resolve_loop containerID st (rec # recs) s =
     (let (x, s1) = st_LatestSnapshot st (ai_InstanceID (ag_Identity rec)) s
      in case x of
           Inr (Some snap) \<Rightarrow>
             if list_ex (\<lambda>c. cs_ID c = containerID \<or> strings_HasPrefix (cs_ID c) containerID) (as_Containers snap)
             then (ai_InstanceID (ag_Identity rec), s1) else resolve_loop containerID st recs s1
         | _ \<Rightarrow> resolve_loop containerID st recs s1)"

definition resolveContainerAgent :: "string \<Rightarrow> 's Store \<Rightarrow> 's \<Rightarrow> string \<times> 's" where
  "resolveContainerAgent containerID st s =
     (case st_ListAgents st s of (Inl e, s1) \<Rightarrow> ([], s1) | (Inr recs, s1) \<Rightarrow> resolve_loop containerID st recs s1)"

definition containerCommandKind :: "string \<Rightarrow> string + string" where
  "containerCommandKind action =
     (if action = ''apply'' then Inr CommandApply
      else if action = ''disable'' then Inr CommandDisable
      else Inl (''unsupported action: '' @ action))"

definition runContainerCommand :: "('s Registry \<Rightarrow> 's Registry) \<Rightarrow> http_env \<Rightarrow> nat \<Rightarrow> string \<Rightarrow> string \<Rightarrow> string \<Rightarrow> 's HTTPServer \<Rightarrow> string option \<times> 's HTTPServer" where
  "runContainerCommand others env i agentID containerID kind srv =
     (let cmd = \<lparr>cm_ID = newCommandID env i, cm_Kind = kind, cm_ContainerID = containerID, cm_Payload = [], cm_IssuedAt = he_now env\<rparr>;
          (ack, srv1) = send_and_wait others (he_now env) agentID cmd srv
      in (case ack of
            None \<Rightarrow> Some ''timeout waiting for agent ack''
          | Some a \<Rightarrow> if ca_Success a then None
                      else Some (if ca_Error a \<noteq> [] then ca_Error a else ''agent reported failure''), srv1))"

text \<open>The agent of an action: the one named, or else the owner of the container; \<open>None\<close> is the nil dereference
  without a store.\<close>

definition action_agent :: "string \<Rightarrow> string \<Rightarrow> 's HTTPServer \<Rightarrow> string option \<times> 's HTTPServer" where
  "action_agent agent_id containerID srv =
     (if agent_id \<noteq> [] then (Some agent_id, srv)
      else (case rg_store (hs_Registry srv) of
              None \<Rightarrow> (None, srv)
            | Some (st, s) \<Rightarrow>
                (let (a, s1) = resolveContainerAgent containerID st s
                 in (Some a, srv\<lparr>hs_Registry := (hs_Registry srv)\<lparr>rg_store := Some (st, s1)\<rparr>\<rparr>))))"

definition bulk_one :: "(nat \<Rightarrow> 's Registry \<Rightarrow> 's Registry) \<Rightarrow> http_env \<Rightarrow> nat \<Rightarrow> bulkAction \<Rightarrow> 's HTTPServer \<Rightarrow> (actionResult \<times> bool) option \<times> 's HTTPServer" where
  "bulk_one others env i a srv =
     (let res = \<lparr>ax_ID = ba_ID a, ax_Action = ba_Action a, ax_Status = ''error'', ax_Error = []\<rparr>;
          (agent, srv1) = action_agent (ba_AgentID a) (ba_ID a) srv
      in case agent of
           None \<Rightarrow> (None, srv1)
         | Some agentID \<Rightarrow>
             if agentID = [] then (Some (res\<lparr>ax_Error := ''agent not found''\<rparr>, False), srv1)
             else (case containerCommandKind (ba_Action a) of
                     Inl e \<Rightarrow> (Some (res\<lparr>ax_Error := e\<rparr>, False), srv1)
                   | Inr kind \<Rightarrow>
                       (let (err, srv2) = runContainerCommand (others i) env i agentID (ba_ID a) kind srv1
                        in (Some (case err of Some e \<Rightarrow> (res\<lparr>ax_Error := e\<rparr>, False) | None \<Rightarrow> (res\<lparr>ax_Status := ''ok''\<rparr>, True)), srv2))))"

definition tally :: "bulkAction \<Rightarrow> bool \<Rightarrow> bulkSummary \<Rightarrow> bulkSummary" where
  "tally a ok sm =
     (if \<not> ok then sm\<lparr>bs_Failed := bs_Failed sm + 1\<rparr>
      else if ba_Action a = ''apply'' then sm\<lparr>bs_Applied := bs_Applied sm + 1\<rparr>
      else sm\<lparr>bs_Disabled := bs_Disabled sm + 1\<rparr>)"

fun bulk_loop :: "(nat \<Rightarrow> 's Registry \<Rightarrow> 's Registry) \<Rightarrow> http_env \<Rightarrow> nat \<Rightarrow> bulkAction list \<Rightarrow> actionResult list \<Rightarrow> bulkSummary
    \<Rightarrow> 's HTTPServer \<Rightarrow> (actionResult list \<times> bulkSummary) option \<times> 's HTTPServer" where
  "bulk_loop others env i [] results sm srv = (Some (results, sm\<lparr>bs_Total := length results\<rparr>), srv)"
| "bulk_loop others env i (a # as) results sm srv =
     (let (x, srv1) = bulk_one others env i a srv
      in case x of
           None \<Rightarrow> (None, srv1)
         | Some (res, ok) \<Rightarrow> bulk_loop others env (Suc i) as (results @ [res]) (tally a ok sm) srv1)"

definition handleFleetContainerBulk :: "panel_lib \<Rightarrow> (nat \<Rightarrow> 's Registry \<Rightarrow> 's Registry) \<Rightarrow> ('s, panel_reply) handler" where
  "handleFleetContainerBulk lib others env r srv =
     (if hr_Method r \<noteq> ''POST'' then (method_not_allowed, srv)
      else (case xl_bulk lib (hr_Body r) of
              Inl e \<Rightarrow> (HttpError 400 (''invalid json: '' @ e), srv)
            | Inr actions \<Rightarrow>
                (let (x, srv1) = bulk_loop others env 0 actions [] \<lparr>bs_Total = 0, bs_Applied = 0, bs_Disabled = 0, bs_Failed = 0\<rparr> srv
                 in (case x of None \<Rightarrow> HttpPanic | Some (results, sm) \<Rightarrow> HttpJSON 200 (PBulk results sm), srv1))))"

definition handleFleetContainerAction :: "panel_lib \<Rightarrow> (nat \<Rightarrow> 's Registry \<Rightarrow> 's Registry) \<Rightarrow> ('s, panel_reply) handler" where
  "handleFleetContainerAction lib others env r srv =
     (let rest = strings_TrimPrefix (hr_Path r) ''/v1/containers/''; parts = strings_Split rest CHR ''/''
      in if rest = hr_Path r \<or> rest = [] then (HttpError 400 ''container id required'', srv)
         else if parts = [''bulk''] then handleFleetContainerBulk lib others env r srv
         else (case parts of
                 [containerID, action] \<Rightarrow>
                   if hr_Method r \<noteq> ''POST'' then (method_not_allowed, srv)
                   else
                     (let agent_id = (if 0 < hr_ContentLength r then xl_action lib (hr_Body r) else []);
                          (agent, srv1) = action_agent agent_id containerID srv
                      in case agent of
                           None \<Rightarrow> (HttpPanic, srv1)
                         | Some agentID \<Rightarrow>
                             if agentID = [] then (HttpError 400 ''agent_id required (no agent owns this container)'', srv1)
                             else (case containerCommandKind action of
                                     Inl e \<Rightarrow> (HttpError 400 e, srv1)
                                   | Inr kind \<Rightarrow>
                                       (let (err, srv2) = runContainerCommand (others 0) env 0 agentID containerID kind srv1
                                        in (case err of Some e \<Rightarrow> HttpError 502 e | None \<Rightarrow> HttpJSON 200 (PAction containerID action), srv2))))
               | _ \<Rightarrow> (HttpError 400 ''container id and action required'', srv)))"

end
