(* ===== verification/CP_Server.thy ===== *)
theory CP_Server
  imports CP_PanelHandlers CP_Store
begin

text \<open>
  The routes of the control plane's HTTP server (\<open>Handler\<close> in \<open>backend/internal/controlplane/server.go\<close>) and
  what holds of every request: only an authenticated one changes anything.

  Paths are clean, as they are after the redirect of net/http. The enrollment handler of the
  command is a parameter; the websocket of a log stream is left to the response \<open>HttpStream\<close>.
\<close>

section \<open>Routing\<close>

datatype route =
    RtHealthz | RtEnroll | RtTemplates | RtTemplate | RtApprovals | RtApproval | RtAgents | RtAgent | RtEnrollmentTokens
  | RtStats | RtContainers | RtContainerAction | RtRules | RtAuditHistory | RtPolicies | RtPolicy | RtProposals | RtAutogenAction
  | RtAgentTokens | RtAgentTokenItem | RtLogs | RtLogin | RtLogout | RtWhoami

definition pattern_matches :: "string \<Rightarrow> string \<Rightarrow> bool" where
  "pattern_matches p path \<longleftrightarrow> path = p \<or> (last p = CHR ''/'' \<and> strings_HasPrefix path p)"

definition mux_lookup :: "(string \<times> 'h) list \<Rightarrow> string \<Rightarrow> 'h option" where
  "mux_lookup routes path =
     (case filter (\<lambda>(p, h). pattern_matches p path) routes of
        [] \<Rightarrow> None
      | m # ms \<Rightarrow> Some (snd (fold (\<lambda>x best. if length (fst best) < length (fst x) then x else best) ms m)))"

definition store_routes :: "(string \<times> route) list" where
  "store_routes =
     [(''/v1/templates'', RtTemplates), (''/v1/templates/'', RtTemplate), (''/v1/approvals'', RtApprovals), (''/v1/approvals/'', RtApproval),
      (''/v1/agents'', RtAgents), (''/v1/agents/'', RtAgent), (''/v1/enrollment-tokens'', RtEnrollmentTokens), (''/v1/stats'', RtStats),
      (''/v1/containers'', RtContainers), (''/v1/containers/'', RtContainerAction), (''/v1/rules'', RtRules),
      (''/v1/audit/history'', RtAuditHistory), (''/v1/policies'', RtPolicies), (''/v1/policies/'', RtPolicy),
      (''/v1/autogen/proposals'', RtProposals), (''/v1/autogen/proposals/'', RtAutogenAction), (''/v1/agent-tokens'', RtAgentTokens),
      (''/v1/agent-tokens/'', RtAgentTokenItem), (''/v1/logs'', RtLogs)]"

definition server_routes :: "bool \<Rightarrow> 's HTTPServer \<Rightarrow> (string \<times> route) list" where
  "server_routes has_enroll srv =
     [(''/healthz'', RtHealthz)] @ (if has_enroll then [(''/v1/enroll'', RtEnroll)] else [])
     @ (if rg_store (hs_Registry srv) \<noteq> None then store_routes else [])
     @ (if hs_Authenticator srv \<noteq> None \<and> hs_Sessions srv \<noteq> None then [(''/v1/login'', RtLogin), (''/v1/logout'', RtLogout)] else [])
     @ [(''/v1/whoami'', RtWhoami)]"

datatype server_reply = SText string | SAuth auth_reply | SReply cp_reply | SPanel panel_reply

record 's server_lib =
  sl_decoders :: decoders
  sl_panel :: panel_lib
  sl_rfc3339 :: "gotime \<Rightarrow> string"
  sl_enroll :: "('s, server_reply) handler option"

definition lifted :: "('v \<Rightarrow> server_reply) \<Rightarrow> ('s, 'v) handler \<Rightarrow> ('s, server_reply) handler" where
  "lifted f h env r srv = map_prod (map_http_response f) id (h env r srv)"

definition handleFleetLogsWS :: "('s, server_reply) handler" where
  "handleFleetLogsWS env r srv =
     (if hr_Method r \<noteq> ''GET'' then (method_not_allowed, srv) else (HttpStream (query_Get r ''agent_id''), srv))"

fun route_handler :: "'s server_lib \<Rightarrow> string \<Rightarrow> (nat \<Rightarrow> 's Registry \<Rightarrow> 's Registry) \<Rightarrow> route \<Rightarrow> ('s, server_reply) handler" where
  "route_handler lib nonce others RtTemplates = lifted SReply (handleTemplates (xl_sha256 (sl_panel lib)) (sl_decoders lib))"
| "route_handler lib nonce others RtTemplate = lifted SReply handleTemplate"
| "route_handler lib nonce others RtApprovals = lifted SReply (handleApprovals (xl_sha256 (sl_panel lib)) (sl_decoders lib) nonce)"
| "route_handler lib nonce others RtApproval = lifted SReply (handleApproval (xl_sha256 (sl_panel lib)) (sl_decoders lib))"
| "route_handler lib nonce others RtAgents = lifted SReply handleAgents"
| "route_handler lib nonce others RtAgent = lifted SReply (handleAgent (sl_decoders lib) (others 0))"
| "route_handler lib nonce others RtEnrollmentTokens =
     lifted SReply (handleEnrollmentTokens (xl_sha256 (sl_panel lib)) (sl_decoders lib) (sl_rfc3339 lib))"
| "route_handler lib nonce others RtStats = lifted SPanel handleFleetStats"
| "route_handler lib nonce others RtContainers = lifted SPanel (handleFleetContainers (sl_panel lib))"
| "route_handler lib nonce others RtContainerAction = lifted SPanel (handleFleetContainerAction (sl_panel lib) others)"
| "route_handler lib nonce others RtRules = lifted SPanel (handleFleetRules (sl_panel lib))"
| "route_handler lib nonce others RtAuditHistory = lifted SPanel (handleFleetAuditHistory (sl_panel lib))"
| "route_handler lib nonce others RtPolicies = lifted SPanel (handlePoliciesIndex (sl_panel lib))"
| "route_handler lib nonce others RtPolicy = lifted SPanel (handlePolicy (sl_panel lib))"
| "route_handler lib nonce others RtProposals = lifted SPanel handleAutogenProposals"
| "route_handler lib nonce others RtAutogenAction = lifted SPanel (handleAutogenAction (sl_panel lib) (others 0))"
| "route_handler lib nonce others RtAgentTokens = lifted SReply (handleAgentTokens (xl_sha256 (sl_panel lib)) (sl_decoders lib))"
| "route_handler lib nonce others RtAgentTokenItem = lifted SReply handleAgentTokenItem"
| "route_handler lib nonce others RtLogs = handleFleetLogsWS"
| "route_handler lib nonce others RtLogin = lifted SAuth (handleLogin (sl_decoders lib))"
| "route_handler lib nonce others RtLogout = lifted SAuth handleLogout"
| "route_handler lib nonce others RtWhoami = lifted SAuth handleWhoami"
| "route_handler lib nonce others RtHealthz = (\<lambda>env r srv. (HttpJSON 200 (SText ''ok''), srv))"
| "route_handler lib nonce others RtEnroll =
     (\<lambda>env r srv. case sl_enroll lib of None \<Rightarrow> (HttpError 404 ''404 page not found'', srv) | Some h \<Rightarrow> h env r srv)"

definition public_routes :: "route list" where
  "public_routes = [RtHealthz, RtEnroll, RtLogin, RtLogout, RtWhoami]"

definition Handler :: "'s server_lib \<Rightarrow> string \<Rightarrow> (nat \<Rightarrow> 's Registry \<Rightarrow> 's Registry) \<Rightarrow> ('s, server_reply) handler" where
  "Handler lib nonce others env r srv =
     (case mux_lookup (server_routes (sl_enroll lib \<noteq> None) srv) (hr_Path r) of
        None \<Rightarrow> (HttpError 404 ''404 page not found'', srv)
      | Some rt \<Rightarrow>
          if rt \<in> set public_routes then route_handler lib nonce others rt env r srv
          else requireBearer (route_handler lib nonce others rt) env r srv)"

section \<open>Authentication\<close>

lemma sessionFromRequest_keeps:
  "hs_Registry (snd (sessionFromRequest now r srv)) = hs_Registry srv"
  "hs_Authenticator (snd (sessionFromRequest now r srv)) = hs_Authenticator srv"
  by (simp_all add: sessionFromRequest_def split: option.split prod.split sum.split)

lemma sessionFromRequest_Some:
  assumes "fst (sessionFromRequest now r srv) = Some sess"
  shows "\<exists>ss c. hs_Sessions srv = Some ss \<and> map_of (hr_Cookies r) sessionCookieName = Some c \<and> fst (sess_Touch now c ss) = Inr sess"
proof -
  obtain ss where ss: "hs_Sessions srv = Some ss" using assms by (cases "hs_Sessions srv") (simp_all add: sessionFromRequest_def)
  obtain c where c: "map_of (hr_Cookies r) sessionCookieName = Some c"
    using assms ss by (cases "map_of (hr_Cookies r) sessionCookieName") (simp_all add: sessionFromRequest_def)
  show ?thesis using assms ss c by (auto simp: sessionFromRequest_def split: if_splits prod.splits sum.splits)
qed

lemma requireBearer_refuses:
  assumes "\<not> matchesBearer srv r" "fst (sessionFromRequest (he_now env) r srv) = None"
    "operatorBearer srv \<noteq> [] \<or> hs_Authenticator srv \<noteq> None"
  shows "requireBearer h env r srv = (HttpError 401 ''unauthorized'', snd (sessionFromRequest (he_now env) r srv))"
  using assms sessionFromRequest_keeps(2) [of "he_now env" r srv]
  by (cases "sessionFromRequest (he_now env) r srv") (auto simp: requireBearer_def matchesBearer_def Let_def)

lemma emit_registry [simp]: "hs_Registry (emit a m srv) = hs_Registry srv"
  by (simp add: emit_def)

lemma public_keeps_registry:
  assumes "rt \<in> set public_routes" "rt \<noteq> RtEnroll"
  shows "hs_Registry (snd (route_handler lib nonce others rt env r srv)) = hs_Registry srv"
proof -
  have "hs_Registry (snd (handleLogin dec env r srv)) = hs_Registry srv" for dec
    by (auto simp: handleLogin_def split: option.split sum.split prod.split)
  moreover have "hs_Registry (snd (handleLogout env r srv)) = hs_Registry srv"
    by (auto simp: handleLogout_def split: option.split)
  moreover have "hs_Registry (snd (handleWhoami env r srv)) = hs_Registry srv"
    using sessionFromRequest_keeps(1) [of "he_now env" r srv] by (auto simp: handleWhoami_def split: option.split prod.split)
  ultimately show ?thesis using assms by (auto simp: public_routes_def lifted_def)
qed

text \<open>
  C10. Only an authenticated caller changes the control plane. When an operator token or a panel login is
  configured, a request that changes the registry or its store either is an enrollment, or carries
  the operator's bearer token, or carries the cookie of a session that is alive.
\<close>

theorem Handler_authenticated:
  assumes "Handler lib nonce others env r srv = (resp, srv')" "hs_Registry srv' \<noteq> hs_Registry srv"
    "operatorBearer srv \<noteq> [] \<or> hs_Authenticator srv \<noteq> None"
    "mux_lookup (server_routes (sl_enroll lib \<noteq> None) srv) (hr_Path r) \<noteq> Some RtEnroll"
  shows "matchesBearer srv r \<or> (\<exists>ss c sess. hs_Sessions srv = Some ss \<and> map_of (hr_Cookies r) sessionCookieName = Some c
      \<and> fst (sess_Touch (he_now env) c ss) = Inr sess)"
proof (rule ccontr)
  assume no: "\<not> ?thesis"
  then have none: "fst (sessionFromRequest (he_now env) r srv) = None"
    using sessionFromRequest_Some [of "he_now env" r srv] by (cases "fst (sessionFromRequest (he_now env) r srv)") auto
  show False
  proof (cases "mux_lookup (server_routes (sl_enroll lib \<noteq> None) srv) (hr_Path r)")
    case None
    then show ?thesis using assms(1,2) by (simp add: Handler_def)
  next
    case (Some rt)
    show ?thesis
    proof (cases "rt \<in> set public_routes")
      case True
      then show ?thesis using assms Some public_keeps_registry [of rt lib nonce others env r srv] by (auto simp: Handler_def)
    next
      case False
      then have "Handler lib nonce others env r srv = (HttpError 401 ''unauthorized'', snd (sessionFromRequest (he_now env) r srv))"
        using Some no requireBearer_refuses [OF _ none assms(3)] by (simp add: Handler_def)
      then show ?thesis using assms(1,2) sessionFromRequest_keeps(1) [of "he_now env" r srv] by auto
    qed
  qed
qed

section \<open>A request\<close>

definition demo_template :: PolicyTemplate where
  "demo_template = \<lparr>pt_Name = ''web'', pt_Version = 0, pt_Body = ''b'', pt_Labels = [], pt_Publisher = [], pt_CreatedAt = 0, pt_UpdatedAt = 0\<rparr>"

definition demo_decoders :: decoders where
  "demo_decoders = \<lparr>dj_login = (\<lambda>_. Inl []), dj_template = (\<lambda>_. Inr demo_template), dj_approval = (\<lambda>_. Inl []),
     dj_approvalBody = (\<lambda>_. \<lparr>ab_Approver = [], ab_Comment = []\<rparr>), dj_enrollment = (\<lambda>_. Inr \<lparr>cr_AgentID = ''web-1'', cr_TTLSeconds = 60\<rparr>),
     dj_agentToken = (\<lambda>_. Inl []), dj_command = (\<lambda>_. Inl [])\<rparr>"

definition demo_env :: http_env where
  "demo_env = \<lparr>he_now = 5, he_rand = (\<lambda>_. None), he_uuid = ''u''\<rparr>"

definition demo_server :: "memStore HTTPServer" where
  "demo_server = \<lparr>hs_Registry = NewRegistry (\<lambda>_. []), hs_Token = [], hs_OperatorToken = ''tok'', hs_Audit = None,
     hs_Authenticator = None, hs_Sessions = None\<rparr>"

definition demo_post :: "string \<Rightarrow> http_request" where
  "demo_post path = \<lparr>hr_Method = ''POST'', hr_Path = path, hr_Query = [], hr_Header = [(''Authorization'', ''Bearer tok'')], hr_Cookies = [],
     hr_RemoteAddr = [], hr_TLS = False, hr_ContentLength = 0, hr_Body = []\<rparr>"

definition demo_panel_lib :: panel_lib where
  "demo_panel_lib = \<lparr>xl_uni = \<lparr>letter_above = (\<lambda>_. False), digit_above = (\<lambda>_. False)\<rparr>, xl_sha256 = (\<lambda>_. []), xl_parse_error = (\<lambda>_. []), xl_RFC3339Nano = (\<lambda>_. []),
     xl_rule_sets = (\<lambda>_. None), xl_host_rules = (\<lambda>_. None), xl_save = (\<lambda>_. Inl []), xl_validate = (\<lambda>_. Inl []),
     xl_simulate = (\<lambda>_. Inl []), xl_autogen = (\<lambda>_. Inl []), xl_action = (\<lambda>_. []), xl_bulk = (\<lambda>_. Inl [])\<rparr>"

definition demo_lib :: "memStore server_lib" where
  "demo_lib = \<lparr>sl_decoders = demo_decoders, sl_panel = demo_panel_lib, sl_rfc3339 = (\<lambda>_. []), sl_enroll = None\<rparr>"

lemma demo_route: "mux_lookup (server_routes False demo_server) ''/v1/templates'' = Some RtTemplates"
  by (simp add: mux_lookup_def server_routes_def store_routes_def pattern_matches_def strings_HasPrefix_def demo_server_def
      NewRegistry_def NewRegistryWithStore_def hydrate_def mem_Store_def NewMemoryStore_def)

theorem Handler_authenticated_witness:
  "matchesBearer demo_server (demo_post ''/v1/templates'')
   \<and> hs_Registry (snd (Handler demo_lib [] (\<lambda>_. id) demo_env (demo_post ''/v1/templates'') demo_server)) \<noteq> hs_Registry demo_server"
proof -
  let ?r = "demo_post ''/v1/templates''"
  have 1: "hs_Registry (snd (Handler demo_lib [] (\<lambda>_. id) demo_env ?r demo_server)) \<noteq> hs_Registry demo_server"
    using demo_route
    by (simp add: Handler_def demo_lib_def demo_post_def public_routes_def requireBearer_def operatorBearer_def header_Get_def assoc_get_def
        lifted_def handleTemplates_def call_store_def demo_server_def NewRegistry_def NewRegistryWithStore_def hydrate_def mem_Store_def
        NewMemoryStore_def demo_decoders_def demo_template_def mem_PublishTemplate_def Let_def)
  have "matchesBearer demo_server ?r"
    using Handler_authenticated [OF surjective_pairing, of demo_lib "[]" "\<lambda>_. id" demo_env ?r demo_server] 1 demo_route
    by (simp add: demo_server_def operatorBearer_def demo_post_def demo_lib_def)
  then show ?thesis using 1 by simp
qed

end
