(* ===== verification/CP_Operators.thy ===== *)
theory CP_Operators
  imports CP_Server CP_Workflows
begin

text \<open>
  What the operators' requests promise, over the handlers of \<open>CP_Handlers\<close> and \<open>CP_PanelHandlers\<close> and the two
  stores: no caller decides its own request, an enrollment token lives at most a day, the figures
  of the panel add up, and only policies that parse are saved and served.
\<close>

section \<open>Approvals over HTTP\<close>

lemma callerFingerprint_neq_Nil: "callerFingerprint sha256 r \<noteq> []"
  by (simp add: callerFingerprint_def bearerFingerprint_def)

lemma SplitN2_append: "CHR ''/'' \<notin> set a \<Longrightarrow> SplitN2 (a @ CHR ''/'' # b) = (a, b)"
  by (simp add: SplitN2_def strings_Index_append)

lemma handleApproval_approve:
  assumes "hr_Method r = ''POST''" "hr_Path r = ''/v1/approvals/'' @ aid @ ''/approve''" "CHR ''/'' \<notin> set aid"
    "rg_store (hs_Registry srv) = Some (st, s)"
    "\<And>now approver. approver \<noteq> [] \<Longrightarrow> st_ApproveApproval st now aid approver (callerFingerprint sha256 r) s = (Inl e, s')"
  shows "handleApproval sha256 dec env r srv
    = (writeApprovalError e, srv\<lparr>hs_Registry := (hs_Registry srv)\<lparr>rg_store := Some (st, s')\<rparr>\<rparr>)"
proof -
  have p: "strings_TrimPrefix (''/v1/approvals/'' @ aid @ ''/approve'') ''/v1/approvals/'' = aid @ ''/approve''"
    by (rule strings_TrimPrefix_append)
  have q: "SplitN2 (aid @ ''/approve'') = (aid, ''approve'')" using SplitN2_append [OF assms(3), of "''approve''"] by simp
  show ?thesis unfolding handleApproval_def assms(2) p Let_def q
    using assms(1,4,5) by (simp add: call_store_def Let_def)
qed

text \<open>
  No caller approves its own request. When the pending request was filed with the bearer token
  the caller uses now, the request to approve it is answered 403 and no approval changes, on
  the memory store and on a SQLite store whose lookup works.
\<close>

theorem self_approval_forbidden:
  assumes "hr_Method r = ''POST''" "hr_Path r = ''/v1/approvals/'' @ aid @ ''/approve''" "CHR ''/'' \<notin> set aid"
    "pa_Status p = ApprovalPending" "pa_RequesterFinger p = callerFingerprint sha256 r"
  shows "(rg_store (hs_Registry srv) = Some (mem_Store sha256, m) \<and> mem_appr m aid = Some p \<longrightarrow>
      handleApproval sha256 dec env r srv = (HttpError 403 ''self-approve forbidden'', srv))
    \<and> (rg_store (hs_Registry srv2) = Some (sqlite_Store sha256 flts, n, s) \<and> sql_appr (n, s) aid = Some p \<and> flts n 0 = None \<longrightarrow>
      handleApproval sha256 dec env r srv2 = (HttpError 403 ''self-approve forbidden'',
        srv2\<lparr>hs_Registry := (hs_Registry srv2)\<lparr>rg_store := Some (sqlite_Store sha256 flts, Suc n, s)\<rparr>\<rparr>))"
proof (intro conjI impI; elim conjE)
  assume m: "rg_store (hs_Registry srv) = Some (mem_Store sha256, m)" "mem_appr m aid = Some p"
  show "handleApproval sha256 dec env r srv = (HttpError 403 ''self-approve forbidden'', srv)"
    using handleApproval_approve [OF assms(1-3) m(1), of sha256 ErrSelfApprove m] m assms(4,5) callerFingerprint_neq_Nil [of sha256 r]
    by (simp add: mem_Store_def mem_ApproveApproval_def mem_appr_def may_decide_def writeApprovalError_def)
next
  assume s: "rg_store (hs_Registry srv2) = Some (sqlite_Store sha256 flts, n, s)" "sql_appr (n, s) aid = Some p" "flts n 0 = None"
  obtain row where row: "List.find (\<lambda>r. qr_id r = aid) (d_approvals s) = Some row" "scanApproval row = p"
    using s(2) by (auto simp: sql_appr_def)
  show "handleApproval sha256 dec env r srv2 = (HttpError 403 ''self-approve forbidden'',
        srv2\<lparr>hs_Registry := (hs_Registry srv2)\<lparr>rg_store := Some (sqlite_Store sha256 flts, Suc n, s)\<rparr>\<rparr>)"
    using handleApproval_approve [OF assms(1-3) s(1), of sha256 ErrSelfApprove "(Suc n, s)"] s row assms(4,5) callerFingerprint_neq_Nil [of sha256 r]
    by (simp add: sqlite_Store_def faulty_def sql_ApproveApproval_def sql_GetApproval_def may_decide_def writeApprovalError_def)
qed

definition demo_pending :: PendingApproval where
  "demo_pending = \<lparr>pa_ID = ''a1'', pa_PolicyName = ''web'', pa_ProposedBody = ''policy'', pa_Requester = ''ann'', pa_RequesterFinger = ''fp:'',
     pa_RequestedAt = 3, pa_Approver = [], pa_ApproverFinger = [], pa_ApprovedAt = None, pa_Status = ApprovalPending, pa_RejectionComment = []\<rparr>"

theorem self_approval_forbidden_witness:
  "let m = NewMemoryStore\<lparr>m_approvals := [(''a1'', demo_pending)]\<rparr>;
       srv = demo_server\<lparr>hs_Registry := (hs_Registry demo_server)\<lparr>rg_store := Some (mem_Store (\<lambda>_. []), m)\<rparr>\<rparr>
   in handleApproval (\<lambda>_. []) demo_decoders demo_env (demo_post ''/v1/approvals/a1/approve'') srv
      = (HttpError 403 ''self-approve forbidden'', srv)"
proof -
  let ?r = "demo_post ''/v1/approvals/a1/approve''"
  let ?m = "NewMemoryStore\<lparr>m_approvals := [(''a1'', demo_pending)]\<rparr>"
  let ?srv = "demo_server\<lparr>hs_Registry := (hs_Registry demo_server)\<lparr>rg_store := Some (mem_Store (\<lambda>_. []), ?m)\<rparr>\<rparr>"
  have h: "hr_Method ?r = ''POST''" "hr_Path ?r = ''/v1/approvals/'' @ ''a1'' @ ''/approve''" "CHR ''/'' \<notin> set ''a1''"
    "pa_Status demo_pending = ApprovalPending" "pa_RequesterFinger demo_pending = callerFingerprint (\<lambda>_. []) ?r"
    by (simp_all add: demo_post_def demo_pending_def callerFingerprint_def header_Get_def assoc_get_def bearerFingerprint_def
        hex_EncodeToString_def strings_TrimPrefix_def strings_HasPrefix_def strings_TrimSpace_def is_space_def)
  have "rg_store (hs_Registry ?srv) = Some (mem_Store (\<lambda>_. []), ?m)" "mem_appr ?m ''a1'' = Some demo_pending"
    by (simp_all add: mem_appr_def)
  then show ?thesis
    using self_approval_forbidden [OF h, of ?srv ?m] by (simp add: Let_def)
qed

text \<open>The request as the handler files it, with the id the store gives it.\<close>

definition filed_request :: "(string \<Rightarrow> 8 word list) \<Rightarrow> string \<Rightarrow> gotime \<Rightarrow> http_request \<Rightarrow> PendingApproval \<Rightarrow> PendingApproval" where
  "filed_request sha256 nonce now r p =
     (let fp = callerFingerprint sha256 r in
      p\<lparr>pa_RequesterFinger := fp, pa_Requester := (if pa_Requester p = [] then ''operator'' else pa_Requester p),
        pa_ID := (if pa_ID p = [] then newApprovalID sha256 nonce (pa_PolicyName p) (pa_ProposedBody p) fp else pa_ID p),
        pa_RequestedAt := or_now now (pa_RequestedAt p), pa_Status := (if pa_Status p = [] then ApprovalPending else pa_Status p)\<rparr>)"

lemma handleApprovals_files:
  assumes "hr_Method r = ''POST''" "dj_approval dec (hr_Body r) = Inr p" "pa_PolicyName p \<noteq> []" "pa_ProposedBody p \<noteq> []"
    and "rg_store (hs_Registry srv) = Some (st, s)"
    and "\<And>q. approval_request sha256 nonce (he_now env) q = Inr (filed_request sha256 nonce (he_now env) r p) \<Longrightarrow>
      st_CreateApproval st nonce (he_now env) q s = (Inr (filed_request sha256 nonce (he_now env) r p), s1)"
    and "\<And>now aid kind pl at. appr (snd (st_RecordAudit st now aid kind pl at s1)) = appr s1"
  shows "\<exists>srv' s'. handleApprovals sha256 dec nonce env r srv = (HttpJSON 200 (RApproval (filed_request sha256 nonce (he_now env) r p)), srv')
    \<and> rg_store (hs_Registry srv') = Some (st, s') \<and> appr s' = appr s1"
proof -
  let ?q = "p\<lparr>pa_RequesterFinger := callerFingerprint sha256 r, pa_Requester := (if pa_Requester p = [] then ''operator'' else pa_Requester p)\<rparr>"
  have "approval_request sha256 nonce (he_now env) ?q = Inr (filed_request sha256 nonce (he_now env) r p)"
    using assms(3,4) callerFingerprint_neq_Nil [of sha256 r] by (simp add: approval_request_def filed_request_def Let_def)
  from assms(6) [OF this] show ?thesis
    using assms(1,2,5,7) by (simp add: handleApprovals_def call_store_def recordAndEmit_def emit_def mirror_def)
qed

text \<open>
  C12. A request filed as approved is approved by nobody. The handler passes the status of the body on
  to the store, which keeps any status that is not empty: on both stores a POST of a request with the status
  approved, a policy name and a body is answered with an approved request and stored as approved under its id
  (the one of the body, or a new one), with the caller as requester. The in-memory store keeps
  the approver the body names; the persistent store, which is told the database works and does not hold
  the id yet, stores no approver at all. No later approval or rejection changes it (in memory:
  unless a request is filed under the same id again).
\<close>

theorem approval_status_bypass:
  assumes "hr_Method r = ''POST''" "dj_approval dec (hr_Body r) = Inr p" "pa_Status p = ApprovalApproved"
    "pa_PolicyName p \<noteq> []" "pa_ProposedBody p \<noteq> []"
    and "rg_store (hs_Registry srv) = Some (mem_Store sha256, m)"
    and "rg_store (hs_Registry srq) = Some (sqlite_Store sha256 flt, ns)" "flt (fst ns) 0 = None"
    and "sql_appr ns (pa_ID (filed_request sha256 nonce (he_now env) r p)) = None"
  defines "out \<equiv> filed_request sha256 nonce (he_now env) r p"
  shows "(\<exists>srv' m'. handleApprovals sha256 dec nonce env r srv = (HttpJSON 200 (RApproval out), srv')
      \<and> rg_store (hs_Registry srv') = Some (mem_Store sha256, m')
      \<and> (\<forall>ops. (\<forall>op \<in> set ops. \<not> recreates sha256 (pa_ID out) op) \<longrightarrow>
           mem_appr (approval_run (mem_Store sha256) ops m') (pa_ID out) = Some out))
    \<and> (\<exists>srq' ns'. handleApprovals sha256 dec nonce env r srq = (HttpJSON 200 (RApproval out), srq')
      \<and> rg_store (hs_Registry srq') = Some (sqlite_Store sha256 flt, ns')
      \<and> (\<forall>ops. \<exists>q. sql_appr (approval_run (sqlite_Store sha256 flt) ops ns') (pa_ID out) = Some q
           \<and> same_request out q \<and> pa_Approver q = [] \<and> pa_ApproverFinger q = []))
    \<and> pa_Status out = ApprovalApproved \<and> pa_RequesterFinger out = callerFingerprint sha256 r \<and> pa_Approver out = pa_Approver p"
proof -
  have o: "pa_Status out = ApprovalApproved" "pa_RequesterFinger out = callerFingerprint sha256 r" "pa_Approver out = pa_Approver p"
    using assms(3) by (simp_all add: out_def filed_request_def Let_def ApprovalApproved_def)
  have np: "ApprovalApproved \<noteq> ApprovalPending" by (simp add: ApprovalApproved_def ApprovalPending_def)
  obtain srv' m' where 1: "handleApprovals sha256 dec nonce env r srv = (HttpJSON 200 (RApproval out), srv')"
    "rg_store (hs_Registry srv') = Some (mem_Store sha256, m')" "mem_appr m' = (mem_appr m)(pa_ID out \<mapsto> out)"
    using handleApprovals_files [OF assms(1,2,4,5,6), of sha256 nonce env "m\<lparr>m_approvals := AList.update (pa_ID out) out (m_approvals m)\<rparr>" mem_appr]
    by (auto simp: out_def mem_Store_def mem_CreateApproval_def no_err_def mem_RecordAudit_def mem_appr_def update_conv' Let_def)
  have m: "mem_appr (approval_run (mem_Store sha256) ops m') (pa_ID out) = Some out"
    if "\<forall>op \<in> set ops. \<not> recreates sha256 (pa_ID out) op" for ops
    using mem_appr.run_final [OF _ _ that] 1(3) o(1) np by simp
  obtain n db where ns: "ns = (n, db)" by (cases ns)
  have new: "qr_id (approval_to_row out) \<notin> qr_id ` set (d_approvals db)"
    using assms(9) by (auto simp: ns sql_appr_def approval_to_row_def find_None_iff out_def)
  let ?db = "db\<lparr>d_approvals := d_approvals db @ [approval_to_row out]\<rparr>"
  have c: "st_CreateApproval (sqlite_Store sha256 flt) nonce (he_now env) q ns = (Inr out, Suc n, ?db)"
    if "approval_request sha256 nonce (he_now env) q = Inr out" for q
    using that assms(8) new by (simp add: ns sqlite_Store_def faulty_def sql_CreateApproval_def insert_row_def)
  have sql_audit: "sql_appr (snd (st_RecordAudit (sqlite_Store sha256 flt) now aid kind pl at x)) = sql_appr x" for now aid kind pl at x
    by (cases x) (simp add: sqlite_Store_def faulty_def sql_RecordAudit_def sql_appr_def fun_eq_iff split: option.split)
  obtain srq' ns' where 2: "handleApprovals sha256 dec nonce env r srq = (HttpJSON 200 (RApproval out), srq')"
    "rg_store (hs_Registry srq') = Some (sqlite_Store sha256 flt, ns')" "sql_appr ns' = sql_appr (Suc n, ?db)"
    using handleApprovals_files [OF assms(1,2,4,5,7), of sha256 nonce env "(Suc n, ?db)" sql_appr, folded out_def, OF c sql_audit] by blast
  have f: "sql_appr ns' (pa_ID out) = Some (scanApproval (approval_to_row out))"
    using find_insert_row [of qr_id "approval_to_row out" "d_approvals db" "d_approvals db @ [approval_to_row out]"] new
    by (simp add: 2(3) sql_appr_def insert_row_def approval_to_row_def)
  have q: "same_request out (scanApproval (approval_to_row out))" "pa_Approver (scanApproval (approval_to_row out)) = []"
    "pa_ApproverFinger (scanApproval (approval_to_row out)) = []"
    by (simp_all add: same_request_def scanApproval_def approval_to_row_def)
  have "pa_Status (scanApproval (approval_to_row out)) \<noteq> ApprovalPending"
    using o(1) np by (simp add: scanApproval_def approval_to_row_def)
  from sql_approvals_final [OF this f] show ?thesis using 1(1,2) 2(1,2) m o q by blast
qed

theorem approval_status_bypass_witness:
  "\<exists>out srv'. handleApprovals (\<lambda>_. []) (demo_decoders\<lparr>dj_approval := (\<lambda>_. Inr (demo_pending\<lparr>pa_Status := ApprovalApproved\<rparr>))\<rparr>) [] demo_env
      (demo_post ''/v1/approvals'') demo_server = (HttpJSON 200 (RApproval out), srv') \<and> pa_Status out = ApprovalApproved \<and> pa_Approver out = []"
proof -
  let ?p = "demo_pending\<lparr>pa_Status := ApprovalApproved\<rparr>" and ?r = "demo_post ''/v1/approvals''"
  let ?out = "filed_request (\<lambda>_. []) [] (he_now demo_env) ?r ?p"
  have s: "rg_store (hs_Registry demo_server) = Some (mem_Store (\<lambda>_. []), NewMemoryStore)"
    by (simp add: demo_server_def NewRegistry_def NewRegistryWithStore_def hydrate_def mem_Store_def)
  have h: "hr_Method ?r = ''POST''" "dj_approval (demo_decoders\<lparr>dj_approval := (\<lambda>_. Inr ?p)\<rparr>) (hr_Body ?r) = Inr ?p"
    "pa_Status ?p = ApprovalApproved" "pa_PolicyName ?p \<noteq> []" "pa_ProposedBody ?p \<noteq> []" "pa_Approver ?p = []"
    by (simp_all add: demo_post_def demo_pending_def)
  let ?reg = "NewRegistryWithStore (Some (sqlite_Store (\<lambda>_. []) (\<lambda>_ _. None), (0, empty_db)))\<lparr>rg_store := Some (sqlite_Store (\<lambda>_. []) (\<lambda>_ _. None), (0, empty_db))\<rparr>"
  let ?sq = "\<lparr>hs_Registry = ?reg, hs_Token = [], hs_OperatorToken = [], hs_Audit = None, hs_Authenticator = None, hs_Sessions = None\<rparr>"
  have "rg_store (hs_Registry ?sq) = Some (sqlite_Store (\<lambda>_. []) (\<lambda>_ _. None), (0, empty_db))"
    "sql_appr (0, empty_db) (pa_ID ?out) = None" by (simp_all add: sql_appr_def empty_db_def)
  from approval_status_bypass [OF h(1-5) s this(1) _ this(2)] h(6) show ?thesis by auto
qed

section \<open>Enrollment tokens\<close>

text \<open>
  The life of an enrollment token. Whatever the 64-bit number of seconds asked for, even where its
  product with a second wraps around, a token that is issued expires after its issue and at
  most 24 hours later, for an agent id of the permitted form, and is not consumed yet.
\<close>

theorem enrollment_ttl_bounds:
  assumes "fst (createEnrollmentToken sha256 dec rfc env r srv) = HttpJSON 201 (REnrollment et)"
  shows "et_IssuedAt et < et_ExpiresAt et \<and> et_ExpiresAt et - et_IssuedAt et \<le> 24 * hour
    \<and> et_TTLSeconds et \<le> 24 * 3600 \<and> validInstanceID (et_AgentID et) \<and> et_ConsumedAt et = None"
  using assms
  by (auto simp: createEnrollmentToken_def enrollment_ttl_def call_store_def Let_def maxTokenTTL_def defaultTokenTTL_def second_def hour_def
      split: sum.splits if_splits option.splits prod.splits)

theorem enrollment_ttl_bounds_witness:
  "\<exists>et. fst (createEnrollmentToken (\<lambda>_. []) demo_decoders (\<lambda>_. []) demo_env (demo_post ''/v1/enrollment-tokens'') demo_server)
      = HttpJSON 201 (REnrollment et) \<and> et_ExpiresAt et - et_IssuedAt et \<le> 24 * hour"
proof -
  have v: "validInstanceID ''web-1''"
    by (simp add: validInstanceID_def utf8_decode_ascii is_ascii_def)
  have t: "enrollment_ttl 60 = Some (60 * second)"
    by (simp add: enrollment_ttl_def mul_int64_def second_def defaultTokenTTL_def maxTokenTTL_def Let_def)
  obtain et where "fst (createEnrollmentToken (\<lambda>_. []) demo_decoders (\<lambda>_. []) demo_env (demo_post ''/v1/enrollment-tokens'') demo_server)
      = HttpJSON 201 (REnrollment et)"
    using v t by (simp add: createEnrollmentToken_def demo_decoders_def Let_def call_store_def demo_server_def NewRegistry_def
        NewRegistryWithStore_def hydrate_def mem_Store_def mem_CreateEnrollmentToken_def newEnrollmentTokenID_def rand_hex_def
        hex_EncodeToString_def demo_env_def)
  then show ?thesis using enrollment_ttl_bounds by blast
qed

end
