(* ===== verification/CP_Dashboard.thy ===== *)
theory CP_Dashboard
  imports CP_Operators
begin

text \<open>
  The figures and the policies of the operator panel: the statistics of the fleet are exact, the summary of
  a bulk request adds up, and through a contract on the store's policy operations, only
  policies that parse are ever served.
\<close>

section \<open>Statistics\<close>

definition traffic_of :: "(AgentRecord \<times> AgentSnapshot option) list \<Rightarrow> TrafficBucket list" where
  "traffic_of xs = concat (map (\<lambda>x. case snd x of None \<Rightarrow> [] | Some sn \<Rightarrow> as_Traffic sn) xs)"

definition containers_of :: "(AgentRecord \<times> AgentSnapshot option) list \<Rightarrow> ContainerState list" where
  "containers_of xs = concat (map (\<lambda>x. case snd x of None \<Rightarrow> [] | Some sn \<Rightarrow> as_Containers sn) xs)"

definition count_status :: "gotime \<Rightarrow> string \<Rightarrow> (AgentRecord \<times> AgentSnapshot option) list \<Rightarrow> int" where
  "count_status now st xs = int (length (filter (\<lambda>x. agentStatus (ag_LastSeen (fst x)) now = st) xs))"

definition bucket_sum :: "(TrafficBucket \<Rightarrow> int) \<Rightarrow> string \<Rightarrow> TrafficBucket list \<Rightarrow> int" where
  "bucket_sum f ts bs = sum_list (map f (filter (\<lambda>b. tb_Timestamp b = ts) bs))"

lemma int64_add [simp]: "int64 (int64 x + y) = int64 (x + y)"
  by (simp add: int64_def)

lemma count_containers:
  "fs_Containers (fold count_container cs r) = fs_Containers r + int (length cs)"
  "fs_Running (fold count_container cs r) = fs_Running r + int (length (filter (\<lambda>c. strings_EqualFold (cs_Status c) ''running'') cs))"
  "fs_Enabled (fold count_container cs r) = fs_Enabled r + int (length (filter (\<lambda>c. cs_FirewallStatus c = ''active'') cs))"
  "fs_Total (fold count_container cs r) = fs_Total r" "fs_Healthy (fold count_container cs r) = fs_Healthy r"
  "fs_Stale (fold count_container cs r) = fs_Stale r" "fs_Dead (fold count_container cs r) = fs_Dead r"
  "fs_Unknown (fold count_container cs r) = fs_Unknown r" "fs_Traffic (fold count_container cs r) = fs_Traffic r"
  by (induction cs arbitrary: r) (simp_all add: count_container_def)

lemma status_cases: "agentStatus t now \<in> {''healthy'', ''stale'', ''dead'', ''unknown''}"
  by (simp add: agentStatus_def Let_def)

lemma count_agent_fields [simp]:
  "fs_Total (count_agent st r) = fs_Total r + 1"
  "fs_Healthy (count_agent st r) = fs_Healthy r + (if st = ''healthy'' then 1 else 0)"
  "fs_Stale (count_agent st r) = fs_Stale r + (if st = ''stale'' then 1 else 0)"
  "fs_Dead (count_agent st r) = fs_Dead r + (if st = ''dead'' then 1 else 0)"
  "fs_Unknown (count_agent st r) = fs_Unknown r + (if st \<in> {''healthy'', ''stale'', ''dead''} then 0 else 1)"
  "fs_Containers (count_agent st r) = fs_Containers r" "fs_Running (count_agent st r) = fs_Running r"
  "fs_Enabled (count_agent st r) = fs_Enabled r" "fs_Traffic (count_agent st r) = fs_Traffic r"
  by (simp_all add: count_agent_def Let_def)

lemma stats_step_fields:
  fixes x resp now
  defines "cs \<equiv> (case snd x of None \<Rightarrow> [] | Some sn \<Rightarrow> as_Containers sn)"
    and "bs \<equiv> (case snd x of None \<Rightarrow> [] | Some sn \<Rightarrow> as_Traffic sn)" and "st \<equiv> agentStatus (ag_LastSeen (fst x)) now"
  shows "fs_Total (stats_step now x resp) = fs_Total resp + 1"
    "fs_Healthy (stats_step now x resp) = fs_Healthy resp + (if st = ''healthy'' then 1 else 0)"
    "fs_Stale (stats_step now x resp) = fs_Stale resp + (if st = ''stale'' then 1 else 0)"
    "fs_Dead (stats_step now x resp) = fs_Dead resp + (if st = ''dead'' then 1 else 0)"
    "fs_Unknown (stats_step now x resp) = fs_Unknown resp + (if st = ''unknown'' then 1 else 0)"
    "fs_Containers (stats_step now x resp) = fs_Containers resp + int (length cs)"
    "fs_Enabled (stats_step now x resp) = fs_Enabled resp + int (length (filter (\<lambda>c. cs_FirewallStatus c = ''active'') cs))"
    "fs_Traffic (stats_step now x resp) = fold add_traffic bs (fs_Traffic resp)"
  using status_cases [of "ag_LastSeen (fst x)" now]
  by (auto simp: stats_step_def Let_def cs_def bs_def st_def count_containers split: option.split)

lemma fold_stats:
  "fs_Total (fold (stats_step now) xs r) = fs_Total r + int (length xs)"
  "fs_Healthy (fold (stats_step now) xs r) = fs_Healthy r + count_status now ''healthy'' xs"
  "fs_Stale (fold (stats_step now) xs r) = fs_Stale r + count_status now ''stale'' xs"
  "fs_Dead (fold (stats_step now) xs r) = fs_Dead r + count_status now ''dead'' xs"
  "fs_Unknown (fold (stats_step now) xs r) = fs_Unknown r + count_status now ''unknown'' xs"
  "fs_Containers (fold (stats_step now) xs r) = fs_Containers r + int (length (containers_of xs))"
  "fs_Enabled (fold (stats_step now) xs r) = fs_Enabled r + int (length (filter (\<lambda>c. cs_FirewallStatus c = ''active'') (containers_of xs)))"
  "fs_Traffic (fold (stats_step now) xs r) = fold add_traffic (traffic_of xs) (fs_Traffic r)"
  by (induction xs arbitrary: r) (simp_all add: stats_step_fields count_status_def containers_of_def traffic_of_def)

lemma map_of_add_one:
  "map_of (add_traffic b tr) ts =
     (if ts = tb_Timestamp b
      then Some (case map_of tr ts of None \<Rightarrow> (int64 (tb_Accepted b), int64 (tb_Dropped b))
             | Some (a, d) \<Rightarrow> (int64 (a + tb_Accepted b), int64 (d + tb_Dropped b)))
      else map_of tr ts)"
  by (auto simp: add_traffic_def update_conv' split: option.split prod.split)

lemma bucket_sum_Cons [simp]:
  "bucket_sum f ts [] = 0" "bucket_sum f ts (b # bs) = (if tb_Timestamp b = ts then f b else 0) + bucket_sum f ts bs"
  by (simp_all add: bucket_sum_def)

lemma map_of_add_traffic:
  "map_of (fold add_traffic bs tr) ts =
     (if ts \<in> tb_Timestamp ` set bs
      then Some (case map_of tr ts of
             None \<Rightarrow> (int64 (bucket_sum tb_Accepted ts bs), int64 (bucket_sum tb_Dropped ts bs))
           | Some (a, d) \<Rightarrow> (int64 (a + bucket_sum tb_Accepted ts bs), int64 (d + bucket_sum tb_Dropped ts bs)))
      else map_of tr ts)"
proof (induction bs arbitrary: tr)
  case (Cons b bs)
  have z: "bucket_sum f ts bs = 0" if "ts \<notin> tb_Timestamp ` set bs" for f
  proof -
    have "filter (\<lambda>b. tb_Timestamp b = ts) bs = []" using that unfolding filter_empty_conv by (metis image_eqI)
    then show ?thesis by (simp add: bucket_sum_def)
  qed
  show ?case
    using z by (auto simp: Cons.IH map_of_add_one add.assoc split: option.split)
qed simp

lemma distinct_add_traffic: "distinct (map fst tr) \<Longrightarrow> distinct (map fst (fold add_traffic bs tr))"
  by (induction bs arbitrary: tr) (simp_all add: add_traffic_def distinct_update split: prod.split)

text \<open>
  The statistics of the fleet are exact: every agent is counted once and under its status at that moment, the
  four classes add up to the total, the containers are those of the latest snapshots, and the
  traffic of every time stamp, in order, is the 64-bit sum over all agents.
\<close>

theorem fleet_stats_exact:
  "fs_Total (fleet_stats now xs) = int (length xs)
   \<and> fs_Healthy (fleet_stats now xs) = count_status now ''healthy'' xs
   \<and> fs_Total (fleet_stats now xs) = fs_Healthy (fleet_stats now xs) + fs_Stale (fleet_stats now xs)
       + fs_Dead (fleet_stats now xs) + fs_Unknown (fleet_stats now xs)
   \<and> fs_Containers (fleet_stats now xs) = int (length (containers_of xs))
   \<and> fs_Enabled (fleet_stats now xs) \<le> fs_Containers (fleet_stats now xs)
   \<and> sorted (map fst (fs_Traffic (fleet_stats now xs))) \<and> distinct (map fst (fs_Traffic (fleet_stats now xs)))
   \<and> map_of (fs_Traffic (fleet_stats now xs)) = (\<lambda>ts. if ts \<in> tb_Timestamp ` set (traffic_of xs)
       then Some (int64 (bucket_sum tb_Accepted ts (traffic_of xs)), int64 (bucket_sum tb_Dropped ts (traffic_of xs))) else None)"
proof -
  let ?tr = "fold add_traffic (traffic_of xs) []"
  have d: "distinct (map fst ?tr)" by (rule distinct_add_traffic) simp
  have tr: "fs_Traffic (fleet_stats now xs) = sort_key fst ?tr" by (simp add: fleet_stats_def Let_def fold_stats no_stats_def)
  have s: "sorted (map fst (sort_key fst ?tr))" "distinct (map fst (sort_key fst ?tr))"
    using d by (simp_all add: distinct_map)
  have m: "map_of (sort_key fst ?tr) = map_of ?tr"
    using d by (intro map_of_inject_set [THEN iffD2]) (auto simp: distinct_map)
  have sum: "count_status now ''healthy'' xs + count_status now ''stale'' xs + count_status now ''dead'' xs + count_status now ''unknown'' xs = int (length xs)"
  proof (induction xs)
    case (Cons x xs)
    then show ?case using status_cases [of "ag_LastSeen (fst x)" now] by (auto simp: count_status_def)
  qed (simp add: count_status_def)
  have le: "length (filter P cs) \<le> length cs" for P :: "ContainerState \<Rightarrow> bool" and cs by (rule length_filter_le)
  show ?thesis
    using s m sum le by (simp add: tr fleet_stats_def Let_def fold_stats no_stats_def map_of_add_traffic fun_eq_iff)
qed

section \<open>Bulk actions\<close>

lemma bulk_one_result:
  "bulk_one others env i a srv = (Some (res, ok), srv') \<Longrightarrow> ax_ID res = ba_ID a \<and> (ax_Status res = ''ok'' \<longleftrightarrow> ok)"
  by (auto simp: bulk_one_def Let_def split: prod.splits option.splits if_splits sum.splits)

lemma tally_fields:
  "bs_Applied (tally a ok sm) + bs_Disabled (tally a ok sm) + bs_Failed (tally a ok sm)
   = Suc (bs_Applied sm + bs_Disabled sm + bs_Failed sm)"
  "bs_Failed (tally a ok sm) = bs_Failed sm + (if ok then 0 else 1)"
  by (simp_all add: tally_def)

lemma bulk_loop_result:
  assumes "bulk_loop others env i as results sm srv = (Some (results', sm'), srv')"
  shows "\<exists>rs. results' = results @ rs \<and> map ax_ID rs = map ba_ID as \<and> bs_Total sm' = length results'
    \<and> bs_Applied sm' + bs_Disabled sm' + bs_Failed sm' = bs_Applied sm + bs_Disabled sm + bs_Failed sm + length as
    \<and> bs_Failed sm' = bs_Failed sm + length (filter (\<lambda>x. ax_Status x \<noteq> ''ok'') rs)"
  using assms
proof (induction as arbitrary: i results sm srv)
  case (Cons a as)
  obtain res ok srv1 where one: "bulk_one others env i a srv = (Some (res, ok), srv1)"
    using Cons.prems by (auto split: prod.splits option.splits)
  from Cons.IH [of "Suc i" "results @ [res]" "tally a ok sm" srv1] Cons.prems one
  obtain rs where rs: "results' = results @ res # rs" "map ax_ID rs = map ba_ID as" "bs_Total sm' = length results'"
    "bs_Applied sm' + bs_Disabled sm' + bs_Failed sm'
      = bs_Applied (tally a ok sm) + bs_Disabled (tally a ok sm) + bs_Failed (tally a ok sm) + length as"
    "bs_Failed sm' = bs_Failed (tally a ok sm) + length (filter (\<lambda>x. ax_Status x \<noteq> ''ok'') rs)"
    by auto
  have "results' = results @ (res # rs) \<and> map ax_ID (res # rs) = map ba_ID (a # as) \<and> bs_Total sm' = length results'"
    using rs(1-3) bulk_one_result [OF one] by simp
  moreover have "bs_Applied sm' + bs_Disabled sm' + bs_Failed sm' = bs_Applied sm + bs_Disabled sm + bs_Failed sm + length (a # as)"
    using rs(4) tally_fields(1) [of a ok sm] by simp
  moreover have "bs_Failed sm' = bs_Failed sm + length (filter (\<lambda>x. ax_Status x \<noteq> ''ok'') (res # rs))"
    using rs(5) tally_fields(2) [of a ok sm] bulk_one_result [OF one] by simp
  ultimately show ?case by blast
qed auto

text \<open>
  A bulk request answers every action, in order, with its own result, and its summary adds up: the applied,
  the disabled and the failed ones are all there are, and the failed ones are those with an error.
\<close>

theorem bulk_summary:
  assumes "fst (handleFleetContainerBulk lib others env r srv) = HttpJSON 200 (PBulk results sm)"
  shows "\<exists>actions. xl_bulk lib (hr_Body r) = Inr actions \<and> map ax_ID results = map ba_ID actions \<and> bs_Total sm = length actions
    \<and> bs_Applied sm + bs_Disabled sm + bs_Failed sm = bs_Total sm
    \<and> bs_Failed sm = length (filter (\<lambda>x. ax_Status x \<noteq> ''ok'') results)"
proof -
  obtain actions where a: "xl_bulk lib (hr_Body r) = Inr actions"
    using assms by (cases "xl_bulk lib (hr_Body r)") (auto simp: handleFleetContainerBulk_def method_not_allowed_def split: if_splits)
  let ?s0 = "\<lparr>bs_Total = 0, bs_Applied = 0, bs_Disabled = 0, bs_Failed = 0\<rparr>"
  obtain srv' where "bulk_loop others env 0 actions [] ?s0 srv = (Some (results, sm), srv')"
    using assms a by (auto simp: handleFleetContainerBulk_def method_not_allowed_def Let_def split: if_splits prod.splits option.splits)
  from bulk_loop_result [OF this] show ?thesis using a length_map [of ax_ID results] by (auto dest: map_eq_imp_length_eq)
qed

theorem bulk_summary_witness:
  "\<exists>results sm. fst (handleFleetContainerBulk (demo_panel_lib\<lparr>xl_bulk := (\<lambda>_. Inr [\<lparr>ba_ID = ''c1'', ba_Action = ''apply'', ba_AgentID = []\<rparr>])\<rparr>)
      (\<lambda>_. id) demo_env (demo_post ''/v1/containers/bulk'') demo_server) = HttpJSON 200 (PBulk results sm)
    \<and> bs_Total sm = 1 \<and> bs_Failed sm = length (filter (\<lambda>x. ax_Status x \<noteq> ''ok'') results)"
proof -
  let ?lib = "demo_panel_lib\<lparr>xl_bulk := (\<lambda>_. Inr [\<lparr>ba_ID = ''c1'', ba_Action = ''apply'', ba_AgentID = []\<rparr>])\<rparr>"
  obtain results sm where h: "fst (handleFleetContainerBulk ?lib (\<lambda>_. id) demo_env (demo_post ''/v1/containers/bulk'') demo_server)
      = HttpJSON 200 (PBulk results sm)"
    by (simp add: handleFleetContainerBulk_def demo_post_def bulk_one_def action_agent_def demo_server_def NewRegistry_def
        NewRegistryWithStore_def hydrate_def mem_Store_def resolveContainerAgent_def mem_ListAgents_def NewMemoryStore_def Let_def)
  from bulk_summary [OF h] h show ?thesis by auto
qed

section \<open>Policies\<close>

text \<open>What the panel relies on: saving adds at most the text saved, and looking up changes nothing and gives a text saved.\<close>

locale policy_store =
  fixes st :: "'s Store" and dsls :: "'s \<Rightarrow> string set"
  assumes set_dsls: "dsls (snd (st_SetPolicyVersion st now name dsl author comment s)) \<subseteq> insert dsl (dsls s)"
    and get_dsls: "dsls (snd (st_GetPolicyVersion st name s)) = dsls s"
    and get_saved: "fst (st_GetPolicyVersion st name s) = Inr v \<Longrightarrow> pv_DSL v \<in> dsls s"
begin

definition parses :: "panel_lib \<Rightarrow> 's HTTPServer \<Rightarrow> bool" where
  "parses lib srv \<longleftrightarrow> (\<exists>s. rg_store (hs_Registry srv) = Some (st, s) \<and> (\<forall>d \<in> dsls s. \<exists>ps. panel_Parse lib d = Inr ps))"

lemma save_parses:
  assumes "parses lib srv"
  shows "parses lib (snd (handlePolicySave lib name env r srv))"
proof (cases "xl_save lib (hr_Body r)")
  case (Inr req)
  obtain s where s: "rg_store (hs_Registry srv) = Some (st, s)" "\<forall>d \<in> dsls s. \<exists>ps. panel_Parse lib d = Inr ps"
    using assms by (auto simp: parses_def)
  show ?thesis
  proof (cases "strings_TrimSpace (pw_DSL req) = [] \<or> (\<exists>e. panel_Parse lib (pw_DSL req) = Inl e)")
    case True
    then show ?thesis using assms Inr by (auto simp: handlePolicySave_def)
  next
    case False
    then obtain ps where ps: "panel_Parse lib (pw_DSL req) = Inr ps" by (cases "panel_Parse lib (pw_DSL req)") auto
    let ?author = "if pw_Author req = [] then ''panel'' else pw_Author req"
    obtain x s' where x: "st_SetPolicyVersion st (he_now env) name (pw_DSL req) ?author (pw_Comment req) s = (x, s')"
      by (cases "st_SetPolicyVersion st (he_now env) name (pw_DSL req) ?author (pw_Comment req) s")
    have "rg_store (hs_Registry (snd (handlePolicySave lib name env r srv))) = Some (st, s')"
      using False Inr ps s(1) x by (simp add: handlePolicySave_def call_store_def)
    moreover have "dsls s' \<subseteq> insert (pw_DSL req) (dsls s)"
      using set_dsls [of "he_now env" name "pw_DSL req" ?author "pw_Comment req" s] x by simp
    ultimately show ?thesis using s(2) ps by (auto simp: parses_def)
  qed
qed (simp add: handlePolicySave_def assms)

lemma get_parses:
  assumes "parses lib srv"
  shows "parses lib (snd (handlePolicyGet lib name env r srv))" "parses lib (snd (handlePolicySimulate lib name env r srv))"
proof -
  obtain s where s: "rg_store (hs_Registry srv) = Some (st, s)" "\<forall>d \<in> dsls s. \<exists>ps. panel_Parse lib d = Inr ps"
    using assms by (auto simp: parses_def)
  let ?s = "snd (st_GetPolicyVersion st name s)"
  have "rg_store (hs_Registry (snd (handlePolicyGet lib name env r srv))) = Some (st, ?s)"
    using s(1) by (simp add: handlePolicyGet_def call_store_def Let_def split: prod.split)
  then show "parses lib (snd (handlePolicyGet lib name env r srv))" using s(2) get_dsls by (auto simp: parses_def)
  have "rg_store (hs_Registry (snd (handlePolicySimulate lib name env r srv))) \<in> {Some (st, s), Some (st, ?s)}"
    using s(1) by (simp add: handlePolicySimulate_def call_store_def Let_def split: prod.split sum.split)
  then show "parses lib (snd (handlePolicySimulate lib name env r srv))" using s(2) get_dsls by (auto simp: parses_def)
qed

lemma policy_request_parses: "parses lib srv \<Longrightarrow> parses lib (snd (handlePolicy lib env r srv))"
  by (simp add: handlePolicy_def handlePolicyValidate_def Let_def save_parses get_parses split: prod.split sum.split)

lemma policy_run_parses: "parses lib srv \<Longrightarrow> parses lib (fold (\<lambda>(env, r) srv. snd (handlePolicy lib env r srv)) reqs srv)"
  by (induction reqs arbitrary: srv) (auto simp: policy_request_parses)

lemma served_parses:
  assumes "parses lib srv" "fst (handlePolicyGet lib name env r srv) = HttpJSON 200 (PPolicy v sha views)"
  shows "\<exists>ps. panel_Parse lib (pv_DSL v) = Inr ps"
proof -
  obtain s where s: "rg_store (hs_Registry srv) = Some (st, s)" "\<forall>d \<in> dsls s. \<exists>ps. panel_Parse lib d = Inr ps"
    using assms(1) by (auto simp: parses_def)
  have "fst (st_GetPolicyVersion st name s) = Inr v"
    using assms(2) s(1) by (simp add: handlePolicyGet_def call_store_def Let_def split: prod.splits sum.splits)
  then show ?thesis using get_saved s(2) by auto
qed

end

definition mem_dsls :: "memStore \<Rightarrow> string set" where
  "mem_dsls m = (\<lambda>(k, v). pv_DSL v) ` set (m_policies m)"

definition sql_dsls :: "sqlite_state \<Rightarrow> string set" where
  "sql_dsls ns = pr_dsl ` set (d_policies (snd ns))"

lemma better_version_mem: "fold (better_version name) vs best = Some b \<Longrightarrow> b \<in> set vs \<or> best = Some b"
  by (induction vs arbitrary: best) (force simp: better_version_def split: if_splits option.splits)+

lemma set_update_mem: "set (AList.update k v al) \<subseteq> insert (k, v) (set al)"
  by (induction al) auto

interpretation mem_pol: policy_store "mem_Store sha256" mem_dsls
proof unfold_locales
  show "mem_dsls (snd (st_SetPolicyVersion (mem_Store sha256) now name dsl author comment s)) \<subseteq> insert dsl (mem_dsls s)"
    for now name dsl author comment s
  proof -
    let ?pv = "\<lparr>pv_SHA = hex_EncodeToString (sha256 dsl), pv_Name = name, pv_DSL = dsl, pv_Author = author, pv_Comment = comment,
                pv_CommittedAt = now\<rparr>"
    have "snd (st_SetPolicyVersion (mem_Store sha256) now name dsl author comment s)
        = s\<lparr>m_policies := AList.update (hex_EncodeToString (sha256 dsl)) ?pv (m_policies s)\<rparr>"
      by (simp add: mem_Store_def mem_SetPolicyVersion_def Let_def)
    then show ?thesis using set_update_mem [of "hex_EncodeToString (sha256 dsl)" ?pv "m_policies s"] by (fastforce simp: mem_dsls_def)
  qed
  show "mem_dsls (snd (st_GetPolicyVersion (mem_Store sha256) name s)) = mem_dsls s" for name s
    by (simp add: mem_Store_def)
  show "pv_DSL v \<in> mem_dsls s" if "fst (st_GetPolicyVersion (mem_Store sha256) name s) = Inr v" for name s v
  proof -
    have "fold (better_version name) (map snd (m_policies s)) None = Some v"
      using that by (simp add: mem_Store_def mem_GetPolicyVersion_def split: option.splits if_splits)
    from better_version_mem [OF this] show ?thesis by (force simp: mem_dsls_def)
  qed
qed

interpretation sql_pol: policy_store "sqlite_Store sha256 flts" sql_dsls
proof unfold_locales
  show "sql_dsls (snd (st_SetPolicyVersion (sqlite_Store sha256 flts) now name dsl author comment s)) \<subseteq> insert dsl (sql_dsls s)"
    for now name dsl author comment s
    by (auto simp: sqlite_Store_def faulty_def sql_SetPolicyVersion_def sql_dsls_def upsert_row_def Let_def split: prod.split option.split)
  show "sql_dsls (snd (st_GetPolicyVersion (sqlite_Store sha256 flts) name s)) = sql_dsls s" for name s
    by (simp add: sqlite_Store_def faulty_read_def faulty_def sql_dsls_def Let_def split: prod.split)
  show "pv_DSL v \<in> sql_dsls s" if get: "fst (st_GetPolicyVersion (sqlite_Store sha256 flts) name s) = Inr v" for name s v
  proof -
    let ?rows = "newest_first pr_committed_at (filter (\<lambda>r. pr_name r = name) (d_policies (snd s)))"
    obtain row rest where "?rows = row # rest" "v = row_policy row"
      using get by (auto simp: sqlite_Store_def faulty_read_def faulty_def sql_GetPolicyVersion_def split: option.splits list.splits)
    then have "row \<in> set ?rows" "v = row_policy row" by simp_all
    then show ?thesis by (auto simp: sql_dsls_def row_policy_def)
  qed
qed

definition policy_run :: "panel_lib \<Rightarrow> (http_env \<times> http_request) list \<Rightarrow> 's HTTPServer \<Rightarrow> 's HTTPServer" where
  "policy_run lib reqs srv = fold (\<lambda>(env, r) srv. snd (handlePolicy lib env r srv)) reqs srv"

text \<open>
  C13. The panel serves only policies that parse: starting from an empty memory store, or an empty SQLite
  store with any pattern of database errors, after any history of requests on policies, a policy
  that a GET answers with has a text the policy parser accepts.
\<close>

theorem served_policies_parse:
  assumes "rg_store (hs_Registry srv) = Some (mem_Store sha256, NewMemoryStore)"
    and "rg_store (hs_Registry srv2) = Some (sqlite_Store sha256 flts, 0, empty_db)"
    and "fst (handlePolicyGet lib name env r (policy_run lib reqs srv)) = HttpJSON 200 (PPolicy v sha views)
      \<or> fst (handlePolicyGet lib name env r (policy_run lib reqs srv2)) = HttpJSON 200 (PPolicy v sha views)"
  shows "\<exists>ps. panel_Parse lib (pv_DSL v) = Inr ps"
proof -
  have "mem_pol.parses sha256 lib srv" "sql_pol.parses sha256 flts lib srv2"
    using assms(1,2) by (simp_all add: mem_pol.parses_def sql_pol.parses_def mem_dsls_def sql_dsls_def NewMemoryStore_def empty_db_def)
  then have "mem_pol.parses sha256 lib (policy_run lib reqs srv)" "sql_pol.parses sha256 flts lib (policy_run lib reqs srv2)"
    unfolding policy_run_def by (simp_all add: mem_pol.policy_run_parses sql_pol.policy_run_parses)
  then show ?thesis using assms(3) mem_pol.served_parses sql_pol.served_parses by blast
qed

definition demo_dsl :: string where
  "demo_dsl = policy_text [\<lparr>PName = ''web'', PRules = [], PVersion = [], PSource = [], PSourceBytes = []\<rparr>]"

definition demo_policy_lib :: panel_lib where
  "demo_policy_lib = demo_panel_lib\<lparr>xl_save := (\<lambda>_. Inr \<lparr>pw_DSL = demo_dsl, pw_Comment = [], pw_Author = []\<rparr>)\<rparr>"

lemma demo_dsl_parses: "\<exists>ps. panel_Parse lib demo_dsl = Inr ps"
  unfolding demo_dsl_def panel_Parse_def
  by (subst parse_printed) (auto simp: wf_policy_def ident_text_def ident_char_def is_digit_def is_ascii_def policy_keywords_def)

lemma demo_dsl_text: "strings_TrimSpace demo_dsl \<noteq> []"
  by (simp add: demo_dsl_def policy_text_def print_policy_def toks_text_def strings_TrimSpace_def is_space_def)

definition demo_sqlite :: "sqlite_state HTTPServer" where
  "demo_sqlite = \<lparr>hs_Registry = NewRegistryWithStore None\<lparr>rg_store := Some (sqlite_Store (\<lambda>_. []) (\<lambda>_ _. None), 0, empty_db)\<rparr>,
     hs_Token = [], hs_OperatorToken = ''tok'', hs_Audit = None, hs_Authenticator = None, hs_Sessions = None\<rparr>"

theorem served_policies_parse_witness:
  "\<exists>v sha views ps. fst (handlePolicyGet demo_policy_lib ''web'' demo_env (demo_post [])
      (policy_run demo_policy_lib [(demo_env, (demo_post ''/v1/policies/web'')\<lparr>hr_Method := ''PUT''\<rparr>)] demo_sqlite))
      = HttpJSON 200 (PPolicy v sha views) \<and> pv_DSL v = demo_dsl \<and> panel_Parse demo_policy_lib (pv_DSL v) = Inr ps"
proof -
  let ?reqs = "[(demo_env, (demo_post ''/v1/policies/web'')\<lparr>hr_Method := ''PUT''\<rparr>)]"
  obtain ps where ps: "panel_Parse demo_policy_lib demo_dsl = Inr ps" using demo_dsl_parses by blast
  have m: "rg_store (hs_Registry demo_server) = Some (mem_Store (\<lambda>_. []), NewMemoryStore)"
    by (simp add: demo_server_def NewRegistry_def NewRegistryWithStore_def hydrate_def mem_Store_def)
  have s: "rg_store (hs_Registry demo_sqlite) = Some (sqlite_Store (\<lambda>_. []) (\<lambda>_ _. None), 0, empty_db)"
    by (simp add: demo_sqlite_def)
  have save: "xl_save demo_policy_lib b = Inr \<lparr>pw_DSL = demo_dsl, pw_Comment = [], pw_Author = []\<rparr>" for b
    by (simp add: demo_policy_lib_def)
  obtain srv n where run: "policy_run demo_policy_lib ?reqs demo_sqlite = srv"
    "rg_store (hs_Registry srv) = Some (sqlite_Store (\<lambda>_. []) (\<lambda>_ _. None), n,
       empty_db\<lparr>d_policies := [\<lparr>pr_sha = [], pr_name = ''web'', pr_dsl = demo_dsl, pr_author = Some ''panel'', pr_comment = None, pr_committed_at = 5\<rparr>]\<rparr>)"
    using ps demo_dsl_text s
    by (simp add: policy_run_def handlePolicy_def demo_post_def strings_TrimPrefix_def strings_HasPrefix_def SplitN2_def strings_Index_def
        handlePolicySave_def save call_store_def demo_env_def sqlite_Store_def faulty_def sql_SetPolicyVersion_def hex_EncodeToString_def
        upsert_row_def empty_db_def nullIfEmpty_def Let_def)
  obtain v sha views where get: "fst (handlePolicyGet demo_policy_lib ''web'' demo_env (demo_post []) srv) = HttpJSON 200 (PPolicy v sha views)"
    "pv_DSL v = demo_dsl"
    using run(2) by (simp add: handlePolicyGet_def call_store_def sqlite_Store_def faulty_read_def faulty_def sql_GetPolicyVersion_def
        newest_first_def row_policy_def empty_db_def)
  show ?thesis
    using served_policies_parse [OF m s, of demo_policy_lib "''web''" demo_env "demo_post []" ?reqs v sha views] get run(1) by auto
qed

end
