(* ===== verification/Autogen_Store.thy ===== *)
theory Autogen_Store
  imports CP_SQLite
begin

text \<open>
  Learning of rules from observed flows: the stores of observations and proposals,
  \<open>backend/internal/autogen/store.go\<close>, with the data of \<open>observer.go\<close>.

  A map is an association list. The persistent store is a pair of tables in the order of insertion; a
  failing statement is the argument \<open>flt\<close>, as in \<open>CP_SQLite\<close>, whose table operations are reused.
\<close>

section \<open>Observations\<close>

record PortObservation =
  po_Protocol :: string
  po_Port :: "16 word"
  po_Count :: int
  po_FirstAt :: gotime
  po_LastAt :: gotime

record PeerObservation =
  pe_IP :: string
  pe_Count :: int
  pe_FirstAt :: gotime
  pe_LastAt :: gotime

record ContainerObservation =
  co_Ports :: "(string \<times> PortObservation) list"
  co_Peers :: "(string \<times> PeerObservation) list"
  co_Updated :: gotime

record Flow =
  fl_ContainerID :: string
  fl_Protocol :: string
  fl_Port :: "16 word"
  fl_PeerIP :: string
  fl_At :: gotime

text \<open>The digits of a port, least significant first in the loop.\<close>

function port_digits :: "16 word \<Rightarrow> string" where
  "port_digits p = (if p = 0 then [] else port_digits (p div 10) @ [char_of (48 + unat (p mod 10))])"
  by auto
termination
proof (relation "measure unat")
  show "(p div 10, p) \<in> measure unat" if "p \<noteq> 0" for p :: "16 word"
  proof -
    have "0 < unat p" using that by (simp add: unat_gt_0)
    then show ?thesis by (simp add: unat_div)
  qed
qed simp

declare port_digits.simps [simp del]

definition portKey :: "16 word \<Rightarrow> string" where
  "portKey p = (let digits = port_digits p in if digits = [] then ''0'' else digits)"

definition port_key :: "string \<Rightarrow> 16 word \<Rightarrow> string" where
  "port_key proto p = proto @ ''/'' @ portKey p"

definition no_observation :: ContainerObservation where
  "no_observation = \<lparr>co_Ports = [], co_Peers = [], co_Updated = 0\<rparr>"

definition observe_port :: "Flow \<Rightarrow> ContainerObservation \<Rightarrow> ContainerObservation" where
  "observe_port f co =
     (if 0 < fl_Port f then
        (let key = port_key (fl_Protocol f) (fl_Port f);
             p = (case map_of (co_Ports co) key of
                    None \<Rightarrow> \<lparr>po_Protocol = fl_Protocol f, po_Port = fl_Port f, po_Count = 0, po_FirstAt = fl_At f, po_LastAt = 0\<rparr>
                  | Some p \<Rightarrow> p)
         in co\<lparr>co_Ports := AList.update key (p\<lparr>po_Count := po_Count p + 1, po_LastAt := fl_At f\<rparr>) (co_Ports co)\<rparr>)
      else co)"

definition observe_peer :: "Flow \<Rightarrow> ContainerObservation \<Rightarrow> ContainerObservation" where
  "observe_peer f co =
     (if fl_PeerIP f \<noteq> [] then
        (let p = (case map_of (co_Peers co) (fl_PeerIP f) of
                    None \<Rightarrow> \<lparr>pe_IP = fl_PeerIP f, pe_Count = 0, pe_FirstAt = fl_At f, pe_LastAt = 0\<rparr>
                  | Some p \<Rightarrow> p)
         in co\<lparr>co_Peers := AList.update (fl_PeerIP f) (p\<lparr>pe_Count := pe_Count p + 1, pe_LastAt := fl_At f\<rparr>) (co_Peers co)\<rparr>)
      else co)"

definition observe_flow :: "Flow \<Rightarrow> ContainerObservation \<Rightarrow> ContainerObservation" where
  "observe_flow f co = observe_peer f (observe_port f (co\<lparr>co_Updated := fl_At f\<rparr>))"

section \<open>Proposals\<close>

definition StatusPending :: string where "StatusPending = ''pending''"
definition StatusApproved :: string where "StatusApproved = ''approved''"
definition StatusRejected :: string where "StatusRejected = ''rejected''"
definition StatusExpired :: string where "StatusExpired = ''expired''"

record Proposal =
  pr_ContainerID :: string
  pr_Ports :: "16 word list"
  pr_Peers :: "string list"
  pr_ObservedFor :: string
  pr_Confidence :: string

record ProposalRecord =
  rc_ContainerID :: string
  rc_Ports :: "16 word list"
  rc_Peers :: "string list"
  rc_Confidence :: string
  rc_ObservedFor :: string
  rc_GeneratedAt :: gotime
  rc_Status :: string
  rc_DecidedAt :: gotime
  rc_DecidedBy :: string
  rc_Reason :: string

definition fresh_record :: "gotime \<Rightarrow> Proposal \<Rightarrow> ProposalRecord" where
  "fresh_record now p =
     \<lparr>rc_ContainerID = pr_ContainerID p, rc_Ports = pr_Ports p, rc_Peers = pr_Peers p, rc_Confidence = pr_Confidence p,
      rc_ObservedFor = pr_ObservedFor p, rc_GeneratedAt = now, rc_Status = StatusPending, rc_DecidedAt = 0, rc_DecidedBy = [],
      rc_Reason = []\<rparr>"

section \<open>The store in memory\<close>

record autogenMem =
  ma_obs :: "(string \<times> ContainerObservation) list"
  ma_proposals :: "(string \<times> ProposalRecord) list"

definition autogen_NewMemoryStore :: autogenMem where
  "autogen_NewMemoryStore = \<lparr>ma_obs = [], ma_proposals = []\<rparr>"

definition ma_Observe :: "gotime \<Rightarrow> Flow \<Rightarrow> autogenMem \<Rightarrow> string option \<times> autogenMem" where
  "ma_Observe now f m =
     (if fl_ContainerID f = [] then (Some ''container_id required'', m)
      else
        (let f1 = f\<lparr>fl_At := or_now now (fl_At f)\<rparr>;
             co = (case map_of (ma_obs m) (fl_ContainerID f) of None \<Rightarrow> no_observation | Some co \<Rightarrow> co)
         in (None, m\<lparr>ma_obs := AList.update (fl_ContainerID f) (observe_flow f1 co) (ma_obs m)\<rparr>)))"

definition ma_SnapshotByContainer :: "string \<Rightarrow> autogenMem \<Rightarrow> ContainerObservation" where
  "ma_SnapshotByContainer cid m = (case map_of (ma_obs m) cid of None \<Rightarrow> no_observation | Some co \<Rightarrow> co)"

definition ma_Snapshot :: "autogenMem \<Rightarrow> (string \<times> ContainerObservation) list" where
  "ma_Snapshot m = ma_obs m"

definition ma_UpsertProposal :: "gotime \<Rightarrow> Proposal \<Rightarrow> autogenMem \<Rightarrow> autogenMem" where
  "ma_UpsertProposal now p m =
     (let rec = fresh_record now p;
          rec1 = (case map_of (ma_proposals m) (pr_ContainerID p) of
                    Some old \<Rightarrow>
                      if rc_Status old \<noteq> [] then
                        rec\<lparr>rc_Status := rc_Status old, rc_DecidedAt := rc_DecidedAt old, rc_DecidedBy := rc_DecidedBy old, rc_Reason := rc_Reason old\<rparr>
                      else rec
                  | None \<Rightarrow> rec)
      in m\<lparr>ma_proposals := AList.update (pr_ContainerID p) rec1 (ma_proposals m)\<rparr>)"

definition ma_ListProposals :: "string list \<Rightarrow> autogenMem \<Rightarrow> ProposalRecord list" where
  "ma_ListProposals statuses m =
     newest_first rc_GeneratedAt (filter (\<lambda>rec. statuses = [] \<or> rc_Status rec \<in> set statuses) (map snd (ma_proposals m)))"

definition ma_MarkProposal :: "gotime \<Rightarrow> string \<Rightarrow> string \<Rightarrow> string \<Rightarrow> string \<Rightarrow> autogenMem \<Rightarrow> string option \<times> autogenMem" where
  "ma_MarkProposal now cid status decidedBy reason m =
     (case map_of (ma_proposals m) cid of
        None \<Rightarrow> (Some ''proposal not found'', m)
      | Some rec \<Rightarrow>
          (None, m\<lparr>ma_proposals := AList.update cid
             (rec\<lparr>rc_Status := status, rc_DecidedAt := now, rc_DecidedBy := decidedBy, rc_Reason := reason\<rparr>) (ma_proposals m)\<rparr>))"

definition ma_PruneObservations :: "duration \<Rightarrow> autogenMem \<Rightarrow> nat \<times> autogenMem" where
  "ma_PruneObservations olderThan m = (0, m)"

section \<open>The persistent store\<close>

record obs_row =
  br_container_id :: string
  br_proto :: string
  br_port :: int
  br_peer_ip :: string
  br_count :: int
  br_first_at :: gotime
  br_last_at :: gotime

record prop_row =
  or_container_id :: string
  or_ports :: "16 word list"
  or_peers :: "string list"
  or_confidence :: string
  or_observed_for :: "string option"
  or_generated_at :: gotime
  or_status :: string
  or_decided_at :: "gotime option"
  or_decided_by :: "string option"
  or_reason :: "string option"

record autogenDB =
  da_schema :: "int list"
  da_observations :: "obs_row list"
  da_proposals :: "prop_row list"

definition autogen_empty_db :: autogenDB where
  "autogen_empty_db = \<lparr>da_schema = [], da_observations = [], da_proposals = []\<rparr>"

fun da_migrate_loop :: "faults \<Rightarrow> nat \<Rightarrow> int \<Rightarrow> string list \<Rightarrow> autogenDB \<Rightarrow> string option \<times> autogenDB" where
  "da_migrate_loop flt n current [] s = (None, s)"
| "da_migrate_loop flt n current (entry # entries) s =
     (case migration_version entry of
        None \<Rightarrow> (Some ''autogen migration: bad version'', s)
      | Some v \<Rightarrow>
          if v \<le> current then da_migrate_loop flt n current entries s
          else (case flt n of
                  Some e \<Rightarrow> (Some e, s)
                | None \<Rightarrow>
                    (case flt (Suc n) of
                       Some e \<Rightarrow> (Some e, s)
                     | None \<Rightarrow> da_migrate_loop flt (n + 2) current entries (s\<lparr>da_schema := da_schema s @ [v]\<rparr>))))"

definition da_migrate :: "faults \<Rightarrow> string list \<Rightarrow> autogenDB \<Rightarrow> string option \<times> autogenDB" where
  "da_migrate flt entries s =
     (case flt 0 of Some e \<Rightarrow> (Some e, s)
      | None \<Rightarrow> (case flt 1 of Some e \<Rightarrow> (Some e, s)
          | None \<Rightarrow> da_migrate_loop flt 2 (fold max (da_schema s) 0) (sort entries) s))"

definition obs_key :: "obs_row \<Rightarrow> string \<times> string \<times> int \<times> string" where
  "obs_key r = (br_container_id r, br_proto r, br_port r, br_peer_ip r)"

definition da_Observe :: "faults \<Rightarrow> gotime \<Rightarrow> Flow \<Rightarrow> autogenDB \<Rightarrow> string option \<times> autogenDB" where
  "da_Observe flt now f s =
     (if fl_ContainerID f = [] then (Some ''container_id required'', s)
      else (case flt 0 of
              Some e \<Rightarrow> (Some e, s)
            | None \<Rightarrow>
                (let t = or_now now (fl_At f)
                 in (None, s\<lparr>da_observations := upsert_row obs_key (\<lambda>x. x\<lparr>br_count := br_count x + 1, br_last_at := t\<rparr>)
                      \<lparr>br_container_id = fl_ContainerID f, br_proto = fl_Protocol f, br_port = uint (fl_Port f), br_peer_ip = fl_PeerIP f,
                       br_count = 1, br_first_at = t, br_last_at = t\<rparr> (da_observations s)\<rparr>))))"

definition row_port_key :: "obs_row \<Rightarrow> string" where
  "row_port_key r = port_key (br_proto r) (word_of_int (br_port r))"

definition row_port :: "obs_row \<Rightarrow> PortObservation" where
  "row_port r = \<lparr>po_Protocol = br_proto r, po_Port = word_of_int (br_port r), po_Count = br_count r, po_FirstAt = br_first_at r, po_LastAt = br_last_at r\<rparr>"

definition row_peer :: "obs_row \<Rightarrow> PeerObservation" where
  "row_peer r = \<lparr>pe_IP = br_peer_ip r, pe_Count = br_count r, pe_FirstAt = br_first_at r, pe_LastAt = br_last_at r\<rparr>"

definition merge_port :: "obs_row \<Rightarrow> PortObservation \<Rightarrow> PortObservation" where
  "merge_port r p = p\<lparr>po_Count := po_Count p + br_count r, po_LastAt := max (po_LastAt p) (br_last_at r),
     po_FirstAt := (if br_first_at r < po_FirstAt p \<or> IsZero (po_FirstAt p) then br_first_at r else po_FirstAt p)\<rparr>"

definition merge_peer :: "obs_row \<Rightarrow> PeerObservation \<Rightarrow> PeerObservation" where
  "merge_peer r p = p\<lparr>pe_Count := pe_Count p + br_count r, pe_LastAt := max (pe_LastAt p) (br_last_at r),
     pe_FirstAt := (if br_first_at r < pe_FirstAt p \<or> IsZero (pe_FirstAt p) then br_first_at r else pe_FirstAt p)\<rparr>"

definition merge_row :: "obs_row \<Rightarrow> ContainerObservation \<Rightarrow> ContainerObservation" where
  "merge_row r co =
     \<lparr>co_Ports = AList.update (row_port_key r)
        (case map_of (co_Ports co) (row_port_key r) of Some p \<Rightarrow> merge_port r p | None \<Rightarrow> row_port r) (co_Ports co),
      co_Peers = (if br_peer_ip r = [] then co_Peers co
        else AList.update (br_peer_ip r) (case map_of (co_Peers co) (br_peer_ip r) of Some p \<Rightarrow> merge_peer r p | None \<Rightarrow> row_peer r) (co_Peers co)),
      co_Updated = max (co_Updated co) (br_last_at r)\<rparr>"

definition da_SnapshotByContainer :: "faults \<Rightarrow> string \<Rightarrow> autogenDB \<Rightarrow> string + ContainerObservation" where
  "da_SnapshotByContainer flt cid s =
     (case flt 0 of Some e \<Rightarrow> Inl e
      | None \<Rightarrow> Inr (fold merge_row (filter (\<lambda>r. br_container_id r = cid) (da_observations s)) no_observation))"

text \<open>\<open>Snapshot\<close> writes the entry of each row over the one before.\<close>

definition put_row :: "obs_row \<Rightarrow> ContainerObservation \<Rightarrow> ContainerObservation" where
  "put_row r co =
     \<lparr>co_Ports = AList.update (row_port_key r) (row_port r) (co_Ports co),
      co_Peers = (if br_peer_ip r = [] then co_Peers co else AList.update (br_peer_ip r) (row_peer r) (co_Peers co)),
      co_Updated = max (co_Updated co) (br_last_at r)\<rparr>"

definition da_Snapshot :: "faults \<Rightarrow> autogenDB \<Rightarrow> string + (string \<times> ContainerObservation) list" where
  "da_Snapshot flt s =
     (case flt 0 of Some e \<Rightarrow> Inl e
      | None \<Rightarrow> Inr (fold (\<lambda>r out. AList.update (br_container_id r)
            (put_row r (case map_of out (br_container_id r) of Some co \<Rightarrow> co | None \<Rightarrow> no_observation)) out) (da_observations s) []))"

definition da_UpsertProposal :: "faults \<Rightarrow> gotime \<Rightarrow> Proposal \<Rightarrow> autogenDB \<Rightarrow> string option \<times> autogenDB" where
  "da_UpsertProposal flt now p s =
     (case flt 0 of Some e \<Rightarrow> (Some e, s)
      | None \<Rightarrow> (None, s\<lparr>da_proposals := upsert_row or_container_id
          (\<lambda>x. x\<lparr>or_ports := pr_Ports p, or_peers := pr_Peers p, or_confidence := pr_Confidence p, or_observed_for := Some (pr_ObservedFor p),
                 or_generated_at := now\<rparr>)
          \<lparr>or_container_id = pr_ContainerID p, or_ports = pr_Ports p, or_peers = pr_Peers p, or_confidence = pr_Confidence p,
           or_observed_for = Some (pr_ObservedFor p), or_generated_at = now, or_status = StatusPending, or_decided_at = None,
           or_decided_by = None, or_reason = None\<rparr> (da_proposals s)\<rparr>))"

definition row_proposal :: "prop_row \<Rightarrow> ProposalRecord" where
  "row_proposal r =
     \<lparr>rc_ContainerID = or_container_id r, rc_Ports = or_ports r, rc_Peers = or_peers r, rc_Confidence = or_confidence r,
      rc_ObservedFor = from_null (or_observed_for r), rc_GeneratedAt = or_generated_at r, rc_Status = or_status r,
      rc_DecidedAt = (case or_decided_at r of Some t \<Rightarrow> t | None \<Rightarrow> 0), rc_DecidedBy = from_null (or_decided_by r),
      rc_Reason = from_null (or_reason r)\<rparr>"

definition da_ListProposals :: "faults \<Rightarrow> string list \<Rightarrow> autogenDB \<Rightarrow> string + ProposalRecord list" where
  "da_ListProposals flt statuses s =
     (case flt 0 of Some e \<Rightarrow> Inl e
      | None \<Rightarrow> Inr (map row_proposal (newest_first or_generated_at
          (filter (\<lambda>r. statuses = [] \<or> or_status r \<in> set statuses) (da_proposals s)))))"

definition da_MarkProposal :: "faults \<Rightarrow> gotime \<Rightarrow> string \<Rightarrow> string \<Rightarrow> string \<Rightarrow> string \<Rightarrow> autogenDB \<Rightarrow> string option \<times> autogenDB" where
  "da_MarkProposal flt now cid status decidedBy reason s =
     (if cid = [] then (Some ''container_id required'', s)
      else (case flt 0 of Some e \<Rightarrow> (Some e, s)
        | None \<Rightarrow> (None, s\<lparr>da_proposals := update_rows (\<lambda>r. or_container_id r = cid)
            (\<lambda>r. r\<lparr>or_status := status, or_decided_at := Some now, or_decided_by := Some decidedBy, or_reason := Some reason\<rparr>)
            (da_proposals s)\<rparr>)))"

definition da_PruneObservations :: "faults \<Rightarrow> gotime \<Rightarrow> duration \<Rightarrow> autogenDB \<Rightarrow> (string + nat) \<times> autogenDB" where
  "da_PruneObservations flt now olderThan s =
     (if olderThan \<le> 0 then (Inr 0, s)
      else (case flt 0 of Some e \<Rightarrow> (Inl e, s)
        | None \<Rightarrow>
            (let stale = (\<lambda>r. br_last_at r < now - olderThan)
             in (Inr (length (filter stale (da_observations s))), s\<lparr>da_observations := filter (\<lambda>r. \<not> stale r) (da_observations s)\<rparr>))))"

end
