(* ===== verification/Autogen_Observer.thy ===== *)
theory Autogen_Observer
  imports Autogen_Store
begin

text \<open>
  The observer that learns the flows of the containers and proposes rules,
  \<open>backend/internal/autogen/observer.go\<close>: its counts are exact, its proposals name exactly the ports and
  peers seen often and long enough, and an operator's decision on a proposal is kept.
\<close>

section \<open>The stores behind one interface\<close>

record 's autogenStore =
  gs_Observe :: "gotime \<Rightarrow> Flow \<Rightarrow> 's \<Rightarrow> string option \<times> 's"
  gs_Snapshot :: "'s \<Rightarrow> (string + (string \<times> ContainerObservation) list) \<times> 's"
  gs_UpsertProposal :: "gotime \<Rightarrow> Proposal \<Rightarrow> 's \<Rightarrow> string option \<times> 's"
  gs_ListProposals :: "string list \<Rightarrow> 's \<Rightarrow> (string + ProposalRecord list) \<times> 's"
  gs_MarkProposal :: "gotime \<Rightarrow> string \<Rightarrow> string \<Rightarrow> string \<Rightarrow> string \<Rightarrow> 's \<Rightarrow> string option \<times> 's"
  gs_PruneObservations :: "gotime \<Rightarrow> duration \<Rightarrow> 's \<Rightarrow> (string + nat) \<times> 's"

definition autogen_mem :: "autogenMem autogenStore" where
  "autogen_mem =
     \<lparr>gs_Observe = ma_Observe, gs_Snapshot = (\<lambda>m. (Inr (ma_Snapshot m), m)),
      gs_UpsertProposal = (\<lambda>now p m. (None, ma_UpsertProposal now p m)),
      gs_ListProposals = (\<lambda>sts m. (Inr (ma_ListProposals sts m), m)), gs_MarkProposal = ma_MarkProposal,
      gs_PruneObservations = (\<lambda>now d m. map_prod Inr id (ma_PruneObservations d m))\<rparr>"

definition autogen_sqlite :: "(nat \<Rightarrow> faults) \<Rightarrow> (nat \<times> autogenDB) autogenStore" where
  "autogen_sqlite flts =
      \<lparr>gs_Observe = (\<lambda>now f (n, s). map_prod id (Pair (Suc n)) (da_Observe (flts n) now f s)),
       gs_Snapshot = (\<lambda>(n, s). (da_Snapshot (flts n) s, Suc n, s)),
       gs_UpsertProposal = (\<lambda>now p (n, s). map_prod id (Pair (Suc n)) (da_UpsertProposal (flts n) now p s)),
       gs_ListProposals = (\<lambda>sts (n, s). (da_ListProposals (flts n) sts s, Suc n, s)),
       gs_MarkProposal = (\<lambda>now cid status by_whom reason (n, s). map_prod id (Pair (Suc n)) (da_MarkProposal (flts n) now cid status by_whom reason s)),
       gs_PruneObservations = (\<lambda>now d (n, s). map_prod id (Pair (Suc n)) (da_PruneObservations (flts n) now d s))\<rparr>"

section \<open>The observer\<close>

record 's Observer =
  ob_win :: "(string \<times> ContainerObservation) list"
  ob_start :: gotime
  ob_store :: "('s autogenStore \<times> 's) option"

definition NewObserver :: "gotime \<Rightarrow> autogenMem Observer" where
  "NewObserver now = \<lparr>ob_win = [], ob_start = now, ob_store = Some (autogen_mem, autogen_NewMemoryStore)\<rparr>"

definition NewObserverWithStore :: "gotime \<Rightarrow> ('s autogenStore \<times> 's) option \<Rightarrow> 's Observer" where
  "NewObserverWithStore now store =
     (case store of
        None \<Rightarrow> \<lparr>ob_win = [], ob_start = now, ob_store = None\<rparr>
      | Some (st, s) \<Rightarrow>
          (case gs_Snapshot st s of
             (Inl e, s1) \<Rightarrow> \<lparr>ob_win = [], ob_start = now, ob_store = Some (st, s1)\<rparr>
           | (Inr snap, s1) \<Rightarrow> \<lparr>ob_win = snap, ob_start = now, ob_store = Some (st, s1)\<rparr>))"

definition Record :: "gotime \<Rightarrow> Flow \<Rightarrow> 's Observer \<Rightarrow> 's Observer" where
  "Record now f0 obs =
     (if fl_ContainerID f0 = [] then obs
      else
        (let f = f0\<lparr>fl_At := or_now now (fl_At f0)\<rparr>;
             co = (case map_of (ob_win obs) (fl_ContainerID f) of None \<Rightarrow> no_observation | Some co \<Rightarrow> co)
         in obs\<lparr>ob_win := AList.update (fl_ContainerID f) (observe_flow f co) (ob_win obs),
                ob_store := (case ob_store obs of None \<Rightarrow> None | Some (st, s) \<Rightarrow> Some (st, snd (gs_Observe st now f s)))\<rparr>))"

definition confidenceTier :: "nat \<Rightarrow> nat \<Rightarrow> duration \<Rightarrow> string" where
  "confidenceTier portCount peerCount window =
     (if window < 3600 * 1000000000 then ''warming''
      else if window < 24 * 3600 * 1000000000 then ''tentative''
      else if 50 \<le> portCount + peerCount then ''high'' else ''moderate'')"

definition propose_one :: "int \<Rightarrow> duration \<Rightarrow> gotime \<Rightarrow> (duration \<Rightarrow> string) \<Rightarrow> duration \<Rightarrow> string \<times> ContainerObservation \<Rightarrow> Proposal" where
  "propose_one minObservations minAge now duration_string since x =
     (let ports = sort (map po_Port (filter (\<lambda>po. minObservations \<le> po_Count po \<and> minAge \<le> now - po_FirstAt po) (map snd (co_Ports (snd x)))));
          peers = sort (map pe_IP (filter (\<lambda>pe. minObservations \<le> pe_Count pe) (map snd (co_Peers (snd x)))))
      in \<lparr>pr_ContainerID = fst x, pr_Ports = ports, pr_Peers = peers,
          pr_ObservedFor = duration_string (since - since mod 1000000000), pr_Confidence = confidenceTier (length ports) (length peers) since\<rparr>)"

definition Propose :: "int \<Rightarrow> duration \<Rightarrow> gotime \<Rightarrow> (duration \<Rightarrow> string) \<Rightarrow> 's Observer \<Rightarrow> Proposal list" where
  "Propose minObservations minAge now duration_string obs =
     sort_key pr_ContainerID (filter (\<lambda>p. pr_Ports p \<noteq> [] \<or> pr_Peers p \<noteq> [])
       (map (propose_one minObservations minAge now duration_string (now - ob_start obs)) (ob_win obs)))"

section \<open>Keys\<close>

lemma port_digits_Itoa: "p \<noteq> 0 \<Longrightarrow> port_digits p = strconv_Itoa (unat p)"
proof (induction p rule: port_digits.induct)
  case (1 p)
  have u: "unat (p div 10) = unat p div 10" "unat (p mod 10) = unat p mod 10" by (simp_all add: unat_div unat_mod)
  show ?case
  proof (cases "p div 10 = 0")
    case True
    then have "unat p < 10" using u(1) by (metis div_eq_0_iff unat_0 zero_neq_numeral)
    then show ?thesis using True 1(2) u(2) by (subst port_digits.simps, subst strconv_Itoa.simps) (simp add: port_digits.simps [of 0] digit_char_def)
  next
    case False
    then have "\<not> unat p < 10" using u(1) by (metis div_less unat_eq_zero)
    then show ?thesis using False 1 u by (subst port_digits.simps, subst strconv_Itoa.simps) (simp add: digit_char_def)
  qed
qed

lemma portKey_Itoa: "portKey p = strconv_Itoa (unat p)"
proof (cases "p = 0")
  case True
  then show ?thesis by (simp add: portKey_def port_digits.simps [of 0] strconv_Itoa.simps [of 0] digit_char_def char_of_def bit_Suc_0_iff)
qed (simp add: portKey_def port_digits_Itoa)

lemma portKey_no_slash: "CHR ''/'' \<notin> set (portKey p)"
  using Itoa_digits [of "unat p"] by (auto simp: portKey_Itoa list_all_iff is_digit_def)

lemma portKey_inj: "portKey p = portKey q \<longleftrightarrow> p = q"
  using Itoa_inj [of "unat p" "unat q"] unsigned_word_eqI [of p q] by (auto simp: portKey_Itoa)

lemma port_key_inj: "port_key a p = port_key b q \<longleftrightarrow> a = b \<and> p = q"
proof
  assume h: "port_key a p = port_key b q"
  let ?P = "\<lambda>c. c \<noteq> CHR ''/''"
  have "takeWhile ?P (rev (port_key c r)) = rev (portKey r)" for c r
    using portKey_no_slash [of r] unfolding port_key_def by (auto simp: takeWhile_append)
  then have "rev (portKey p) = rev (portKey q)" using h by metis
  then show "a = b \<and> p = q" using h by (simp add: portKey_inj port_key_def)
qed simp

section \<open>Counts\<close>

text \<open>What the flows of one container amount to, in the order they came.\<close>

definition port_flows :: "string \<Rightarrow> Flow list \<Rightarrow> Flow list" where
  "port_flows k fs = filter (\<lambda>f. 0 < fl_Port f \<and> port_key (fl_Protocol f) (fl_Port f) = k) fs"

definition peer_flows :: "string \<Rightarrow> Flow list \<Rightarrow> Flow list" where
  "peer_flows ip fs = filter (\<lambda>f. fl_PeerIP f \<noteq> [] \<and> fl_PeerIP f = ip) fs"

fun port_summary :: "Flow list \<Rightarrow> PortObservation option" where
  "port_summary [] = None"
| "port_summary (f # fs) = Some \<lparr>po_Protocol = fl_Protocol f, po_Port = fl_Port f, po_Count = int (length (f # fs)), po_FirstAt = fl_At f,
     po_LastAt = fl_At (last (f # fs))\<rparr>"

fun peer_summary :: "Flow list \<Rightarrow> PeerObservation option" where
  "peer_summary [] = None"
| "peer_summary (f # fs) = Some \<lparr>pe_IP = fl_PeerIP f, pe_Count = int (length (f # fs)), pe_FirstAt = fl_At f, pe_LastAt = fl_At (last (f # fs))\<rparr>"

definition exact :: "ContainerObservation \<Rightarrow> Flow list \<Rightarrow> bool" where
  "exact co fs \<longleftrightarrow> (\<forall>k. map_of (co_Ports co) k = port_summary (port_flows k fs)) \<and> (\<forall>ip. map_of (co_Peers co) ip = peer_summary (peer_flows ip fs))
     \<and> distinct (map fst (co_Ports co)) \<and> distinct (map fst (co_Peers co))"

lemma port_summary_snoc:
  "port_summary (gs @ [f]) = Some (case port_summary gs of
      None \<Rightarrow> \<lparr>po_Protocol = fl_Protocol f, po_Port = fl_Port f, po_Count = 1, po_FirstAt = fl_At f, po_LastAt = fl_At f\<rparr>
    | Some p \<Rightarrow> p\<lparr>po_Count := po_Count p + 1, po_LastAt := fl_At f\<rparr>)"
  by (cases gs) simp_all

lemma peer_summary_snoc:
  "peer_summary (gs @ [f]) = Some (case peer_summary gs of
      None \<Rightarrow> \<lparr>pe_IP = fl_PeerIP f, pe_Count = 1, pe_FirstAt = fl_At f, pe_LastAt = fl_At f\<rparr>
    | Some p \<Rightarrow> p\<lparr>pe_Count := pe_Count p + 1, pe_LastAt := fl_At f\<rparr>)"
  by (cases gs) simp_all

lemma observe_port_exact:
  "map_of (co_Ports (observe_port f co)) k
   = (if 0 < fl_Port f \<and> k = port_key (fl_Protocol f) (fl_Port f)
      then Some (case map_of (co_Ports co) k of
          None \<Rightarrow> \<lparr>po_Protocol = fl_Protocol f, po_Port = fl_Port f, po_Count = 1, po_FirstAt = fl_At f, po_LastAt = fl_At f\<rparr>
        | Some p \<Rightarrow> p\<lparr>po_Count := po_Count p + 1, po_LastAt := fl_At f\<rparr>)
      else map_of (co_Ports co) k)"
  by (auto simp: observe_port_def update_conv' Let_def split: option.split)

lemma observe_peer_exact:
  "map_of (co_Peers (observe_peer f co)) ip
   = (if fl_PeerIP f \<noteq> [] \<and> ip = fl_PeerIP f
      then Some (case map_of (co_Peers co) ip of
          None \<Rightarrow> \<lparr>pe_IP = fl_PeerIP f, pe_Count = 1, pe_FirstAt = fl_At f, pe_LastAt = fl_At f\<rparr>
        | Some p \<Rightarrow> p\<lparr>pe_Count := pe_Count p + 1, pe_LastAt := fl_At f\<rparr>)
      else map_of (co_Peers co) ip)"
  by (auto simp: observe_peer_def update_conv' Let_def split: option.split)

lemma observe_other [simp]:
  "co_Peers (observe_port f co) = co_Peers co" "co_Ports (observe_peer f co) = co_Ports co"
  by (simp_all add: observe_port_def observe_peer_def Let_def)

lemma observe_distinct:
  "distinct (map fst (co_Ports co)) \<Longrightarrow> distinct (map fst (co_Ports (observe_port f co)))"
  "distinct (map fst (co_Peers co)) \<Longrightarrow> distinct (map fst (co_Peers (observe_peer f co)))"
  by (simp_all add: observe_port_def observe_peer_def Let_def distinct_update)

lemma observe_flow_exact:
  assumes "exact co fs"
  shows "exact (observe_flow f co) (fs @ [f])"
proof -
  have "map_of (co_Ports (observe_flow f co)) k = port_summary (port_flows k (fs @ [f]))" for k
    using assms by (auto simp: exact_def observe_flow_def observe_port_exact port_flows_def port_summary_snoc)
  moreover have "map_of (co_Peers (observe_flow f co)) ip = peer_summary (peer_flows ip (fs @ [f]))" for ip
    using assms by (auto simp: exact_def observe_flow_def observe_peer_exact peer_flows_def peer_summary_snoc)
  ultimately show ?thesis using assms by (simp add: exact_def observe_flow_def observe_distinct)
qed

lemma exact_none: "exact no_observation []"
  by (simp add: exact_def no_observation_def port_flows_def peer_flows_def)

definition record_run :: "(gotime \<times> Flow) list \<Rightarrow> 's Observer \<Rightarrow> 's Observer" where
  "record_run hist obs = fold (\<lambda>(now, f). Record now f) hist obs"

definition container_flows :: "string \<Rightarrow> (gotime \<times> Flow) list \<Rightarrow> Flow list" where
  "container_flows c hist = map (\<lambda>(now, f). f\<lparr>fl_At := or_now now (fl_At f)\<rparr>) (filter (\<lambda>(now, f). fl_ContainerID f = c) hist)"

definition win_exact :: "(string \<times> ContainerObservation) list \<Rightarrow> (gotime \<times> Flow) list \<Rightarrow> bool" where
  "win_exact win hist \<longleftrightarrow> distinct (map fst win)
     \<and> (\<forall>c. case map_of win c of None \<Rightarrow> c = [] \<or> container_flows c hist = [] | Some co \<Rightarrow> c \<noteq> [] \<and> exact co (container_flows c hist))"

lemma win_exact_None: "win_exact win hist \<Longrightarrow> map_of win c = None \<Longrightarrow> c \<noteq> [] \<Longrightarrow> container_flows c hist = []"
  unfolding win_exact_def by (drule conjunct2, drule spec [of _ c], drule sym) simp

lemma win_exact_Some: "win_exact win hist \<Longrightarrow> map_of win c = Some co \<Longrightarrow> c \<noteq> [] \<and> exact co (container_flows c hist)"
  unfolding win_exact_def by (drule conjunct2, drule spec [of _ c]) simp

lemma win_exactI:
  assumes "distinct (map fst win)" "\<And>c. map_of win c = None \<Longrightarrow> c \<noteq> [] \<Longrightarrow> container_flows c hist = []"
    "\<And>c co. map_of win c = Some co \<Longrightarrow> c \<noteq> [] \<and> exact co (container_flows c hist)"
  shows "win_exact win hist"
  unfolding win_exact_def
proof (intro conjI allI)
  show "case map_of win c of None \<Rightarrow> c = [] \<or> container_flows c hist = [] | Some co \<Rightarrow> c \<noteq> [] \<and> exact co (container_flows c hist)" for c
    using assms(2,3) [of c] by (cases "map_of win c") auto
qed (rule assms(1))

lemma container_flows_snoc:
  "container_flows c (hist @ [(now, f)]) = container_flows c hist @ (if fl_ContainerID f = c then [f\<lparr>fl_At := or_now now (fl_At f)\<rparr>] else [])"
  by (simp add: container_flows_def)

lemma Record_exact:
  assumes "win_exact (ob_win obs) hist"
  shows "win_exact (ob_win (Record now f obs)) (hist @ [(now, f)])"
proof (rule win_exactI)
  let ?c = "fl_ContainerID f" and ?f = "f\<lparr>fl_At := or_now now (fl_At f)\<rparr>"
  let ?co = "case map_of (ob_win obs) ?c of None \<Rightarrow> no_observation | Some co \<Rightarrow> co"
  have w: "ob_win (Record now f obs) = (if ?c = [] then ob_win obs else AList.update ?c (observe_flow ?f ?co) (ob_win obs))"
    by (simp add: Record_def Let_def)
  show "distinct (map fst (ob_win (Record now f obs)))" using assms by (simp add: w win_exact_def distinct_update)
  show "container_flows c (hist @ [(now, f)]) = []" if none: "map_of (ob_win (Record now f obs)) c = None" "c \<noteq> []" for c
    using none win_exact_None [OF assms, of c] by (auto simp: w update_conv' container_flows_snoc split: if_splits)
  have e: "exact ?co (container_flows ?c hist)" if "?c \<noteq> []"
    using win_exact_None [OF assms, of ?c] win_exact_Some [OF assms, of ?c] that exact_none
    by (cases "map_of (ob_win obs) ?c") (metis option.simps(4), simp)
  show "c \<noteq> [] \<and> exact co (container_flows c (hist @ [(now, f)]))" if some: "map_of (ob_win (Record now f obs)) c = Some co" for c co
  proof (cases "c = ?c \<and> ?c \<noteq> []")
    case True
    then show ?thesis using some observe_flow_exact [OF e, of ?f] by (auto simp: w update_conv' container_flows_snoc)
  next
    case False
    then have "map_of (ob_win obs) c = Some co" using some by (auto simp: w update_conv' split: if_splits)
    then show ?thesis using win_exact_Some [OF assms] False by (auto simp: container_flows_snoc)
  qed
qed

lemma record_run_exact: "ob_win obs = [] \<Longrightarrow> win_exact (ob_win (record_run hist obs)) hist"
proof (induction hist rule: rev_induct)
  case (snoc x hist)
  then show ?case using Record_exact [of "record_run hist obs" hist "fst x" "snd x"] by (cases x) (simp add: record_run_def)
qed (simp add: record_run_def win_exact_def container_flows_def)

section \<open>Proposals\<close>

lemma port_summary_Some:
  assumes "port_summary (port_flows k fs) = Some po"
  shows "\<exists>f gs. port_flows k fs = f # gs \<and> po_Port po = fl_Port f \<and> po_Count po = int (length (port_flows k fs)) \<and> po_FirstAt po = fl_At f"
  using assms by (cases "port_flows k fs") auto

definition seen_port :: "int \<Rightarrow> duration \<Rightarrow> gotime \<Rightarrow> Flow list \<Rightarrow> 16 word \<Rightarrow> bool" where
  "seen_port minObservations minAge now fs p \<longleftrightarrow>
     0 < p \<and> (\<exists>proto. let gs = filter (\<lambda>f. fl_Protocol f = proto \<and> fl_Port f = p) fs
                in gs \<noteq> [] \<and> minObservations \<le> int (length gs) \<and> minAge \<le> now - fl_At (hd gs))"

definition seen_peer :: "int \<Rightarrow> Flow list \<Rightarrow> string \<Rightarrow> bool" where
  "seen_peer minObservations fs ip \<longleftrightarrow>
     ip \<noteq> [] \<and> (let gs = filter (\<lambda>f. fl_PeerIP f = ip) fs in gs \<noteq> [] \<and> minObservations \<le> int (length gs))"

lemma port_flows_key:
  assumes "0 < p"
  shows "port_flows (port_key proto p) fs = filter (\<lambda>f. fl_Protocol f = proto \<and> fl_Port f = p) fs"
  unfolding port_flows_def using assms by (intro filter_cong refl) (auto simp: port_key_inj)

lemma propose_ports:
  assumes "exact co fs"
  shows "p \<in> set (pr_Ports (propose_one m a now ds since (c, co))) \<longleftrightarrow> seen_port m a now fs p"
proof
  assume "p \<in> set (pr_Ports (propose_one m a now ds since (c, co)))"
  then obtain k po where po: "(k, po) \<in> set (co_Ports co)" "po_Port po = p" "m \<le> po_Count po" "a \<le> now - po_FirstAt po"
    by (auto simp: propose_one_def Let_def)
  then have "port_summary (port_flows k fs) = Some po" using assms by (metis exact_def map_of_is_SomeI)
  then obtain f gs where f: "port_flows k fs = f # gs" "p = fl_Port f" "po_Count po = int (length (port_flows k fs))" "po_FirstAt po = fl_At f"
    using port_summary_Some po(2) by blast
  have fk: "0 < fl_Port f" "port_key (fl_Protocol f) (fl_Port f) = k" using f(1) by (auto simp: port_flows_def filter_eq_Cons_iff)
  have g: "filter (\<lambda>g. fl_Protocol g = fl_Protocol f \<and> fl_Port g = p) fs = f # gs"
    using port_flows_key [of p "fl_Protocol f" fs] fk f(1,2) by simp
  have "m \<le> int (length (f # gs))" "a \<le> now - fl_At f" using f(1,3,4) po(3,4) by simp_all
  moreover have "0 < p" using fk(1) f(2) by simp
  ultimately show "seen_port m a now fs p" unfolding seen_port_def Let_def
    by (intro conjI exI [of _ "fl_Protocol f"]; simp only: g) simp_all
next
  assume "seen_port m a now fs p"
  then obtain proto gs where g: "0 < p" "gs = port_flows (port_key proto p) fs" "gs \<noteq> []" "m \<le> int (length gs)" "a \<le> now - fl_At (hd gs)"
    unfolding seen_port_def Let_def using port_flows_key by metis
  then obtain f gs' where f: "gs = f # gs'" by (auto simp: neq_Nil_conv)
  then obtain po where po: "map_of (co_Ports co) (port_key proto p) = Some po" "po_Count po = int (length gs)" "po_FirstAt po = fl_At (hd gs)"
    "po_Port po = fl_Port f"
    using assms g(2) by (auto simp: exact_def)
  have "fl_Port f = p" using f g(1,2) port_flows_key [OF g(1), of proto fs] by (auto simp: filter_eq_Cons_iff)
  then show "p \<in> set (pr_Ports (propose_one m a now ds since (c, co)))"
    using po g(4,5) map_of_SomeD [OF po(1)] by (force simp: propose_one_def Let_def)
qed

lemma propose_peers:
  assumes "exact co fs"
  shows "ip \<in> set (pr_Peers (propose_one m a now ds since (c, co))) \<longleftrightarrow> seen_peer m fs ip"
proof -
  have pf: "ip \<noteq> [] \<Longrightarrow> peer_flows ip fs = filter (\<lambda>f. fl_PeerIP f = ip) fs" for ip
    unfolding peer_flows_def by (intro filter_cong refl) auto
  have e: "map_of (co_Peers co) k = peer_summary (peer_flows k fs)" for k using assms by (simp add: exact_def)
  show ?thesis
  proof
    assume "ip \<in> set (pr_Peers (propose_one m a now ds since (c, co)))"
    then obtain k pe where pe: "(k, pe) \<in> set (co_Peers co)" "pe_IP pe = ip" "m \<le> pe_Count pe" by (auto simp: propose_one_def Let_def)
    then have s: "peer_summary (peer_flows k fs) = Some pe" using assms e by (metis exact_def map_of_is_SomeI)
    then obtain f gs where f: "peer_flows k fs = f # gs" by (cases "peer_flows k fs") auto
    then have "fl_PeerIP f = k" "k \<noteq> []" by (auto simp: peer_flows_def filter_eq_Cons_iff)
    then show "seen_peer m fs ip" using s f pe(2,3) pf [of k] by (auto simp: seen_peer_def Let_def)
  next
    assume h: "seen_peer m fs ip"
    then have n: "ip \<noteq> []" "peer_flows ip fs \<noteq> []" "m \<le> int (length (peer_flows ip fs))" using pf by (simp_all add: seen_peer_def Let_def)
    then obtain f gs where f: "peer_flows ip fs = f # gs" by (cases "peer_flows ip fs") auto
    then have "fl_PeerIP f = ip" by (auto simp: peer_flows_def filter_eq_Cons_iff)
    then have "map_of (co_Peers co) ip = Some \<lparr>pe_IP = ip, pe_Count = int (length (peer_flows ip fs)), pe_FirstAt = fl_At f, pe_LastAt = fl_At (last (f # gs))\<rparr>"
      using e f by simp
    from map_of_SomeD [OF this] show "ip \<in> set (pr_Peers (propose_one m a now ds since (c, co)))"
      using n(3) by (force simp: propose_one_def Let_def)
  qed
qed

text \<open>
  C14. Proposals are exact. An observer that started with no observations and recorded any history of
  flows proposes, for each container at most once and in order, exactly the ports some protocol used often enough and first used
  long enough ago, and exactly the peers seen often enough; a container has a proposal if and only if there is such a port or peer.
\<close>

theorem Propose_exact:
  assumes "ob_win obs = []" "props = Propose m a now ds (record_run hist obs)"
  shows "sorted (map pr_ContainerID props) \<and> distinct (map pr_ContainerID props)
    \<and> (\<forall>p \<in> set props. set (pr_Ports p) = {q. seen_port m a now (container_flows (pr_ContainerID p) hist) q}
          \<and> set (pr_Peers p) = {ip. seen_peer m (container_flows (pr_ContainerID p) hist) ip})
    \<and> (\<forall>c. c \<noteq> [] \<longrightarrow> (c \<in> pr_ContainerID ` set props
          \<longleftrightarrow> (\<exists>q. seen_port m a now (container_flows c hist) q) \<or> (\<exists>ip. seen_peer m (container_flows c hist) ip)))"
proof -
  let ?win = "ob_win (record_run hist obs)"
  let ?one = "propose_one m a now ds (now - ob_start (record_run hist obs))"
  have w: "win_exact ?win hist" using record_run_exact [OF assms(1)] .
  then have d: "distinct (map fst ?win)" by (simp add: win_exact_def)
  have ex: "exact co (container_flows c hist)" if "(c, co) \<in> set ?win" for c co
  proof -
    have "map_of ?win c = Some co" using that d by (simp add: map_of_is_SomeI)
    then show ?thesis using win_exact_Some [OF w] by blast
  qed
  have cid: "pr_ContainerID (?one x) = fst x" for x by (simp add: propose_one_def Let_def)
  have sp: "set props = {p. p \<in> ?one ` set ?win \<and> (pr_Ports p \<noteq> [] \<or> pr_Peers p \<noteq> [])}"
    by (auto simp: assms(2) Propose_def)
  have "distinct (map pr_ContainerID (filter P (map ?one ?win)))" for P
    using d by (intro distinct_map_filter) (simp add: cid comp_def)
  then have 1: "sorted (map pr_ContainerID props)" "distinct (map pr_ContainerID props)"
    by (simp_all add: assms(2) Propose_def distinct_map)
  have 2: "set (pr_Ports p) = {q. seen_port m a now (container_flows (pr_ContainerID p) hist) q}
          \<and> set (pr_Peers p) = {ip. seen_peer m (container_flows (pr_ContainerID p) hist) ip}" if "p \<in> ?one ` set ?win" for p
    using that propose_ports [OF ex] propose_peers [OF ex] by (auto simp: cid)
  have 3: "c \<in> pr_ContainerID ` set props
      \<longleftrightarrow> (\<exists>q. seen_port m a now (container_flows c hist) q) \<or> (\<exists>ip. seen_peer m (container_flows c hist) ip)" if nz: "c \<noteq> []" for c
  proof
    assume "c \<in> pr_ContainerID ` set props"
    then obtain p where p: "p \<in> ?one ` set ?win" "pr_ContainerID p = c" "set (pr_Ports p) \<noteq> {} \<or> set (pr_Peers p) \<noteq> {}"
      using sp by auto
    then show "(\<exists>q. seen_port m a now (container_flows c hist) q) \<or> (\<exists>ip. seen_peer m (container_flows c hist) ip)"
      using 2 [OF p(1)] by auto
  next
    assume h: "(\<exists>q. seen_port m a now (container_flows c hist) q) \<or> (\<exists>ip. seen_peer m (container_flows c hist) ip)"
    then have "container_flows c hist \<noteq> []" by (auto simp: seen_port_def seen_peer_def Let_def)
    then obtain co where co: "map_of ?win c = Some co"
      using win_exact_None [OF w _ nz] by (cases "map_of ?win c") auto
    then have i: "?one (c, co) \<in> ?one ` set ?win" by (simp add: map_of_SomeD)
    then have "pr_Ports (?one (c, co)) \<noteq> [] \<or> pr_Peers (?one (c, co)) \<noteq> []" using 2 [OF i] h by (auto simp: cid)
    then have "?one (c, co) \<in> set props" using i sp by simp
    then show "c \<in> pr_ContainerID ` set props" using cid [of "(c, co)"] by (metis fst_conv image_eqI)
  qed
  show ?thesis using 1 2 3 sp by auto
qed

end
