(* ===== verification/Autogen_Decisions.thy ===== *)
theory Autogen_Decisions
  imports Autogen_Observer SQL_Tables
begin

text \<open>
  Decisions on proposals and the restart of the observer (\<open>backend/internal/autogen/store.go\<close>): an operator's
  decision survives every later proposal for the container, and what a snapshot of the
  persistent store gives after a restart.
\<close>

section \<open>Decisions\<close>

text \<open>What the observer relies on: a new proposal for a container leaves the decision made on an earlier one.\<close>

locale decision_store =
  fixes upsert :: "gotime \<Rightarrow> Proposal \<Rightarrow> 's \<Rightarrow> 's" and mark :: "gotime \<Rightarrow> string \<Rightarrow> string \<Rightarrow> string \<Rightarrow> string \<Rightarrow> 's \<Rightarrow> 's"
    and decision :: "'s \<Rightarrow> string \<Rightarrow> (string \<times> gotime \<times> string \<times> string) option"
  assumes upsert_keeps: "decision s cid = Some (status, d) \<Longrightarrow> status \<noteq> [] \<Longrightarrow> decision (upsert now p s) cid = Some (status, d)"
    and upsert_new: "decision s (pr_ContainerID p) = None \<Longrightarrow> decision (upsert now p s) (pr_ContainerID p) = Some (StatusPending, 0, [], [])"
    and mark_decides: "decision s cid \<noteq> None \<Longrightarrow> cid \<noteq> [] \<Longrightarrow> decision (mark now cid status by_whom reason s) cid = Some (status, now, by_whom, reason)"
begin

lemma upserts_keep:
  "decision s cid = Some (status, d) \<Longrightarrow> status \<noteq> [] \<Longrightarrow> decision (fold (\<lambda>(now, p). upsert now p) ps s) cid = Some (status, d)"
  by (induction ps arbitrary: s) (auto simp: upsert_keeps)

lemma marked_kept:
  assumes "decision s cid \<noteq> None" "cid \<noteq> []" "status \<noteq> []"
  shows "decision (fold (\<lambda>(now, p). upsert now p) ps (mark now cid status by_whom reason s)) cid = Some (status, now, by_whom, reason)"
  using upserts_keep mark_decides assms by blast

end

definition ma_decision :: "autogenMem \<Rightarrow> string \<Rightarrow> (string \<times> gotime \<times> string \<times> string) option" where
  "ma_decision m cid = map_option (\<lambda>r. (rc_Status r, rc_DecidedAt r, rc_DecidedBy r, rc_Reason r)) (map_of (ma_proposals m) cid)"

definition da_decision :: "autogenDB \<Rightarrow> string \<Rightarrow> (string \<times> gotime \<times> string \<times> string) option" where
  "da_decision s cid = map_option (\<lambda>r. (rc_Status (row_proposal r), rc_DecidedAt (row_proposal r), rc_DecidedBy (row_proposal r), rc_Reason (row_proposal r)))
     (List.find (\<lambda>r. or_container_id r = cid) (da_proposals s))"

interpretation mem_dec: decision_store ma_UpsertProposal "\<lambda>now cid status by_whom reason m. snd (ma_MarkProposal now cid status by_whom reason m)" ma_decision
  by unfold_locales
    (auto simp: ma_decision_def ma_UpsertProposal_def ma_MarkProposal_def fresh_record_def update_conv' Let_def split: option.splits if_splits)

definition ok_upsert :: "gotime \<Rightarrow> Proposal \<Rightarrow> autogenDB \<Rightarrow> autogenDB" where
  "ok_upsert now p s = snd (da_UpsertProposal (\<lambda>_. None) now p s)"

definition ok_mark :: "gotime \<Rightarrow> string \<Rightarrow> string \<Rightarrow> string \<Rightarrow> string \<Rightarrow> autogenDB \<Rightarrow> autogenDB" where
  "ok_mark now cid status by_whom reason s = snd (da_MarkProposal (\<lambda>_. None) now cid status by_whom reason s)"

lemma find_upsert_proposal:
  "List.find (\<lambda>r. or_container_id r = cid) (da_proposals (ok_upsert now p s))
   = (if cid = pr_ContainerID p then
        Some (case List.find (\<lambda>r. or_container_id r = cid) (da_proposals s) of
            None \<Rightarrow> \<lparr>or_container_id = pr_ContainerID p, or_ports = pr_Ports p, or_peers = pr_Peers p, or_confidence = pr_Confidence p,
              or_observed_for = Some (pr_ObservedFor p), or_generated_at = now, or_status = StatusPending, or_decided_at = None,
              or_decided_by = None, or_reason = None\<rparr>
          | Some x \<Rightarrow> x\<lparr>or_ports := pr_Ports p, or_peers := pr_Peers p, or_confidence := pr_Confidence p,
              or_observed_for := Some (pr_ObservedFor p), or_generated_at := now\<rparr>)
      else List.find (\<lambda>r. or_container_id r = cid) (da_proposals s))"
proof -
  let ?upd = "\<lambda>x :: prop_row. x\<lparr>or_ports := pr_Ports p, or_peers := pr_Peers p, or_confidence := pr_Confidence p,
     or_observed_for := Some (pr_ObservedFor p), or_generated_at := now\<rparr>"
  let ?new = "\<lparr>or_container_id = pr_ContainerID p, or_ports = pr_Ports p, or_peers = pr_Peers p, or_confidence = pr_Confidence p,
     or_observed_for = Some (pr_ObservedFor p), or_generated_at = now, or_status = StatusPending, or_decided_at = None,
     or_decided_by = None, or_reason = None\<rparr>"
  have "da_proposals (ok_upsert now p s) = upsert_row or_container_id ?upd ?new (da_proposals s)"
    by (simp add: ok_upsert_def da_UpsertProposal_def)
  then show ?thesis
    using find_upsert_row [of or_container_id ?upd, where r = ?new and rows = "da_proposals s" and k = cid] by (simp split: option.split)
qed

interpretation sql_dec: decision_store ok_upsert ok_mark da_decision
proof unfold_locales
  fix s cid status d now p
  show "da_decision s cid = Some (status, d) \<Longrightarrow> status \<noteq> [] \<Longrightarrow> da_decision (ok_upsert now p s) cid = Some (status, d)"
    by (auto simp: da_decision_def find_upsert_proposal row_proposal_def)
  show "da_decision s (pr_ContainerID p) = None \<Longrightarrow> da_decision (ok_upsert now p s) (pr_ContainerID p) = Some (StatusPending, 0, [], [])"
    by (simp add: da_decision_def find_upsert_proposal row_proposal_def from_null_def)
  fix by_whom reason
  assume d: "da_decision s cid \<noteq> None" "cid \<noteq> []"
  then obtain r where r: "List.find (\<lambda>r. or_container_id r = cid) (da_proposals s) = Some r" by (auto simp: da_decision_def)
  have "List.find (\<lambda>r. or_container_id r = cid) (da_proposals (ok_mark now cid status by_whom reason s))
      = Some (r\<lparr>or_status := status, or_decided_at := Some now, or_decided_by := Some by_whom, or_reason := Some reason\<rparr>)"
    using r d(2) find_Some [OF r] by (simp add: ok_mark_def da_MarkProposal_def find_update_rows)
  then show "da_decision (ok_mark now cid status by_whom reason s) cid = Some (status, now, by_whom, reason)"
    by (simp add: da_decision_def row_proposal_def from_null_def)
qed

text \<open>
  A decision stays. Once an operator has approved or rejected the proposal for a container, no
  later proposal changes the status, the time, the operator or the reason, on either store.
\<close>

theorem proposal_decision_kept:
  assumes "cid \<noteq> []" "status \<noteq> []" "ma_decision m cid \<noteq> None" "da_decision s cid \<noteq> None"
  shows "ma_decision (fold (\<lambda>(now, p). ma_UpsertProposal now p) ps (snd (ma_MarkProposal now cid status by_whom reason m))) cid
      = Some (status, now, by_whom, reason)
    \<and> da_decision (fold (\<lambda>(now, p). ok_upsert now p) ps (ok_mark now cid status by_whom reason s)) cid
      = Some (status, now, by_whom, reason)"
  using mem_dec.marked_kept [OF assms(3,1,2)] sql_dec.marked_kept [OF assms(4,1,2)] by blast

definition demo_proposal :: Proposal where
  "demo_proposal = \<lparr>pr_ContainerID = ''c1'', pr_Ports = [443], pr_Peers = [], pr_ObservedFor = [], pr_Confidence = ''warming''\<rparr>"

theorem proposal_decision_kept_witness:
  "let m = ma_UpsertProposal 5 demo_proposal autogen_NewMemoryStore; s = ok_upsert 5 demo_proposal autogen_empty_db
   in ma_decision (fold (\<lambda>(now, p). ma_UpsertProposal now p) [(9, demo_proposal)] (snd (ma_MarkProposal 7 ''c1'' StatusRejected ''ann'' [] m))) ''c1''
        = Some (StatusRejected, 7, ''ann'', [])
    \<and> da_decision (fold (\<lambda>(now, p). ok_upsert now p) [(9, demo_proposal)] (ok_mark 7 ''c1'' StatusRejected ''ann'' [] s)) ''c1''
        = Some (StatusRejected, 7, ''ann'', [])"
proof -
  have m: "ma_decision (ma_UpsertProposal 5 demo_proposal autogen_NewMemoryStore) ''c1'' \<noteq> None"
    by (simp add: ma_decision_def ma_UpsertProposal_def demo_proposal_def autogen_NewMemoryStore_def Let_def)
  have s: "da_decision (ok_upsert 5 demo_proposal autogen_empty_db) ''c1'' \<noteq> None"
    by (simp add: da_decision_def find_upsert_proposal demo_proposal_def)
  have "''c1'' \<noteq> []" "StatusRejected \<noteq> []" by (simp_all add: StatusRejected_def)
  from proposal_decision_kept [OF this m s, of "[(9, demo_proposal)]" 7 "''ann''" "[]"] show ?thesis unfolding Let_def .
qed

section \<open>Restart\<close>

definition ok_observe :: "gotime \<Rightarrow> Flow \<Rightarrow> autogenDB \<Rightarrow> autogenDB" where
  "ok_observe now f s = snd (da_Observe (\<lambda>_. None) now f s)"

text \<open>
  A restart loses counts. When two peers have each used a port of a container once, the observation
  of that container has the port twice, but the snapshot of the whole store, from which an observer
  starts again, has it once: each row replaces the one before instead of adding to it.
\<close>

theorem Snapshot_undercounts:
  assumes "cid \<noteq> []" "peer1 \<noteq> []" "peer2 \<noteq> []" "peer1 \<noteq> peer2" "0 < port" "t1 \<noteq> 0" "t2 \<noteq> 0"
    and s: "s = ok_observe now \<lparr>fl_ContainerID = cid, fl_Protocol = proto, fl_Port = port, fl_PeerIP = peer2, fl_At = t2\<rparr>
      (ok_observe now \<lparr>fl_ContainerID = cid, fl_Protocol = proto, fl_Port = port, fl_PeerIP = peer1, fl_At = t1\<rparr> autogen_empty_db)"
  shows "\<exists>co p win q. da_SnapshotByContainer (\<lambda>_. None) cid s = Inr co \<and> map_of (co_Ports co) (port_key proto port) = Some p \<and> po_Count p = 2
    \<and> ob_win (NewObserverWithStore now (Some (autogen_sqlite (\<lambda>_ _. None), 0, s))) = [(cid, win)]
    \<and> map_of (co_Ports win) (port_key proto port) = Some q \<and> po_Count q = 1"
proof -
  let ?r = "\<lambda>peer t. \<lparr>br_container_id = cid, br_proto = proto, br_port = uint port, br_peer_ip = peer, br_count = 1, br_first_at = t, br_last_at = t\<rparr>"
  have rows: "da_observations s = [?r peer1 t1, ?r peer2 t2]"
    using assms(1-4,6,7)
    by (simp add: s ok_observe_def da_Observe_def autogen_empty_db_def upsert_row_def obs_key_def or_now_def IsZero_def Let_def)
  have k: "row_port_key (?r peer t) = port_key proto port" for peer t by (simp add: row_port_key_def)
  show ?thesis
    using assms(2-4) unfolding NewObserverWithStore_def autogen_sqlite_def da_Snapshot_def da_SnapshotByContainer_def
    by (simp add: rows merge_row_def put_row_def k no_observation_def row_port_def merge_port_def)
qed

theorem Snapshot_undercounts_witness:
  "let s = ok_observe 1 \<lparr>fl_ContainerID = ''c1'', fl_Protocol = ''tcp'', fl_Port = 443, fl_PeerIP = ''10.0.0.2'', fl_At = 9\<rparr>
      (ok_observe 1 \<lparr>fl_ContainerID = ''c1'', fl_Protocol = ''tcp'', fl_Port = 443, fl_PeerIP = ''10.0.0.1'', fl_At = 8\<rparr> autogen_empty_db)
   in \<exists>win q. ob_win (NewObserverWithStore 1 (Some (autogen_sqlite (\<lambda>_ _. None), 0, s))) = [(''c1'', win)]
      \<and> map_of (co_Ports win) (port_key ''tcp'' 443) = Some q \<and> po_Count q = 1"
  using Snapshot_undercounts [of "''c1''" "''10.0.0.1''" "''10.0.0.2''" 443 8 9 _ 1 "''tcp''"] by (fastforce simp: Let_def)

section \<open>A proposal\<close>

definition demo_flow :: "gotime \<Rightarrow> Flow" where
  "demo_flow t = \<lparr>fl_ContainerID = ''c1'', fl_Protocol = ''tcp'', fl_Port = 443, fl_PeerIP = [], fl_At = t\<rparr>"

theorem Propose_exact_witness:
  "let props = Propose 2 10 100 (\<lambda>_. []) (record_run [(0, demo_flow 5), (0, demo_flow 95)] (NewObserver 1))
   in \<exists>p \<in> set props. pr_ContainerID p = ''c1'' \<and> set (pr_Ports p) = {443}"
proof -
  let ?hist = "[(0, demo_flow 5), (0, demo_flow 95)]"
  let ?props = "Propose 2 10 100 (\<lambda>_. []) (record_run ?hist (NewObserver 1))"
  have fs: "container_flows ''c1'' ?hist = [demo_flow 5, demo_flow 95]"
    by (simp add: container_flows_def demo_flow_def or_now_def IsZero_def)
  have seen: "seen_port 2 10 100 [demo_flow 5, demo_flow 95] q \<longleftrightarrow> q = 443" for q
    by (auto simp: seen_port_def demo_flow_def Let_def)
  have "ob_win (NewObserver 1) = []" by (simp add: NewObserver_def)
  from Propose_exact [OF this refl, of 2 10 100 "\<lambda>_. []" ?hist]
  have "''c1'' \<in> pr_ContainerID ` set ?props" "\<forall>p \<in> set ?props. set (pr_Ports p) = {q. seen_port 2 10 100 (container_flows (pr_ContainerID p) ?hist) q}"
    using seen fs by auto
  then show ?thesis using seen fs by (auto simp: Let_def)
qed

end
