(* ===== verification/Autogen_Snippets.thy ===== *)
theory Autogen_Snippets
  imports Autogen_Observer Policy_Compile
begin

text \<open>
  The texts an approved proposal is turned into: container labels or a policy. The agent has two sets of
  functions for it, \<open>proposalToLabels\<close> and \<open>proposalToPolicyDSL\<close> in \<open>backend/internal/api/autogen.go\<close> for its own API, and
  \<open>autogenLabelsSnippet\<close> and \<open>autogenPolicySnippet\<close> in \<open>backend/internal/agentdispatch/dispatcher.go\<close> for
  commands of the control plane. The lemmas confront both policy texts with the parser of \<open>Policy_Parser\<close>.

  \<open>strconv_Quote\<close> is the verb \<open>%q\<close>; which runes beyond Latin-1 are printable is the argument \<open>hi\<close>.
\<close>

section \<open>Quoted strings\<close>

definition strconv_IsPrint :: "(rune \<Rightarrow> bool) \<Rightarrow> rune \<Rightarrow> bool" where
  "strconv_IsPrint hi r = (if r < 256 then (32 \<le> r \<and> r < 127) \<or> (161 \<le> r \<and> r \<noteq> 173) else hi r)"

definition hex_digit :: "nat \<Rightarrow> char" where
  "hex_digit d = (if d < 10 then char_of (48 + d) else char_of (87 + d))"

fun hex_pad :: "nat \<Rightarrow> nat \<Rightarrow> string" where
  "hex_pad 0 r = []"
| "hex_pad (Suc n) r = hex_pad n (r div 16) @ [hex_digit (r mod 16)]"

definition quote_rune :: "(rune \<Rightarrow> bool) \<Rightarrow> rune \<Rightarrow> string \<Rightarrow> string" where
  "quote_rune hi r bytes =
     (if r = 34 \<or> r = 92 then CHR 92 # bytes
      else if strconv_IsPrint hi r then bytes
      else CHR 92 #
        (if r = 7 then ''a'' else if r = 8 then ''b'' else if r = 12 then ''f'' else if r = 10 then ''n''
         else if r = 13 then ''r'' else if r = 9 then ''t'' else if r = 11 then ''v''
         else if r < 32 \<or> r = 127 then CHR ''x'' # hex_pad 2 r
         else if r < 65536 then CHR ''u'' # hex_pad 4 r
         else CHR ''U'' # hex_pad 8 r))"

fun quote_body :: "(rune \<Rightarrow> bool) \<Rightarrow> nat \<Rightarrow> string \<Rightarrow> string" where
  "quote_body hi 0 s = []"
| "quote_body hi (Suc k) s =
     (if s = [] then []
      else (let (r, w) = utf8_step s in
            (if w = 1 \<and> r = 65533 then CHR 92 # CHR ''x'' # hex_pad 2 (of_char (hd s)) else quote_rune hi r (take w s))
            @ quote_body hi k (drop w s)))"

definition strconv_Quote :: "(rune \<Rightarrow> bool) \<Rightarrow> string \<Rightarrow> string" where
  "strconv_Quote hi s = ''\"'' @ quote_body hi (length s) s @ ''\"''"

text \<open>Strings that \<open>%q\<close> writes as they are.\<close>

definition plain :: "string \<Rightarrow> bool" where
  "plain s \<longleftrightarrow> list_all (\<lambda>c. 32 \<le> (of_char c :: nat) \<and> of_char c < (127 :: nat) \<and> of_char c \<notin> {34, 92 :: nat}) s"

lemma quote_body_plain: "plain s \<Longrightarrow> length s \<le> k \<Longrightarrow> quote_body hi k s = s"
proof (induction s arbitrary: k)
  case Nil
  then show ?case by (cases k) auto
next
  case (Cons c s)
  then obtain m where "k = Suc m" "length s \<le> m" by (cases k) auto
  then show ?case using Cons by (simp add: plain_def utf8_step_def Let_def quote_rune_def strconv_IsPrint_def)
qed

lemma Quote_plain: "plain s \<Longrightarrow> strconv_Quote hi s = ''\"'' @ s @ ''\"''"
  by (simp add: strconv_Quote_def quote_body_plain)

lemma escape_plain: "plain s \<Longrightarrow> escape s = s"
  by (induction s) (auto simp: plain_def)

lemma plain_ascii: "plain s \<Longrightarrow> is_ascii s"
  by (auto simp: plain_def is_ascii_def list_all_iff)

section \<open>The texts\<close>

definition port_texts :: "16 word list \<Rightarrow> string list" where
  "port_texts ports = map (\<lambda>p. strconv_Itoa (unat p)) ports"

definition autogenLabelsSnippet :: "(rune \<Rightarrow> bool) \<Rightarrow> Proposal \<Rightarrow> string" where
  "autogenLabelsSnippet hi p =
     ''labels:'' @ [CHR 10]
     @ ''  firefik.enable: \"true\"'' @ [CHR 10]
     @ (if pr_Ports p \<noteq> [] then ''  firefik.firewall.auto.ports: '' @ strconv_Quote hi (strings_Join (port_texts (pr_Ports p)) '','') @ [CHR 10] else [])
     @ (if pr_Peers p \<noteq> [] then ''  firefik.firewall.auto.allowlist: '' @ strconv_Quote hi (strings_Join (pr_Peers p) '','') @ [CHR 10] else [])
     @ ''  firefik.defaultpolicy: \"DROP\"'' @ [CHR 10]"

definition autogenPolicySnippet :: "(rune \<Rightarrow> bool) \<Rightarrow> Proposal \<Rightarrow> string" where
  "autogenPolicySnippet hi p =
     ''policy '' @ strconv_Quote hi (pr_ContainerID p) @ '' {'' @ [CHR 10]
     @ ''  default deny'' @ [CHR 10]
     @ concat (map (\<lambda>t. ''  allow tcp dport '' @ t @ [CHR 10]) (port_texts (pr_Ports p)))
     @ concat (map (\<lambda>peer. ''  allow from '' @ peer @ [CHR 10]) (pr_Peers p))
     @ ''}'' @ [CHR 10]"

definition proposalToLabels :: "(rune \<Rightarrow> bool) \<Rightarrow> Proposal \<Rightarrow> string" where
  "proposalToLabels hi p =
     ''labels:'' @ [CHR 10]
     @ ''  firefik.enable: \"true\"'' @ [CHR 10]
     @ (if pr_Ports p \<noteq> [] then ''  firefik.firewall.auto.ports: '' @ strconv_Quote hi (strings_Join (port_texts (pr_Ports p)) '','') @ [CHR 10] else [])
     @ (if pr_Peers p \<noteq> [] then ''  firefik.firewall.auto.allowlist: '' @ strconv_Quote hi (strings_Join (pr_Peers p) '','') @ [CHR 10] else [])
     @ ''  firefik.defaultpolicy: \"DROP\"'' @ [CHR 10]"

definition api_shortID :: "string \<Rightarrow> string" where
  "api_shortID cid = (if 12 < length cid then take 12 cid else cid)"

definition proposalToPolicyDSL :: "(rune \<Rightarrow> bool) \<Rightarrow> Proposal \<Rightarrow> string" where
  "proposalToPolicyDSL hi p =
     ''policy \"autogen-'' @ api_shortID (pr_ContainerID p) @ ''\" {'' @ [CHR 10]
     @ (if pr_Ports p \<noteq> [] then ''  allow if port in ['' @ strings_Join (port_texts (pr_Ports p)) '', '' @ '']'' @ [CHR 10] else [])
     @ concat (map (\<lambda>peer. ''  allow if src_ip == '' @ strconv_Quote hi peer @ [CHR 10]) (pr_Peers p))
     @ ''}'' @ [CHR 10]"

section \<open>The policy text of the agent's own API\<close>

lemma layout_white: "layout tx ts \<Longrightarrow> set ws \<subseteq> {CHR '' '', CHR 10} \<Longrightarrow> layout (ws @ tx) ts"
proof (induction rule: layout.induct)
  case (layout_end ws')
  then show ?case by (intro layout.layout_end) auto
next
  case (layout_tok ws' t rest ts)
  then show ?case using layout.layout_tok [of "ws @ ws'" t rest ts] by auto
qed

lemma layout_blank: "layout tx ts \<Longrightarrow> layout (CHR '' '' # tx) ts" "layout tx ts \<Longrightarrow> layout (CHR 10 # tx) ts"
  using layout_white [of tx ts "'' ''"] layout_white [of tx ts "[CHR 10]"] by simp_all

lemma layout_word:
  "layout rest ts \<Longrightarrow> wf_tok t \<Longrightarrow> ends_token (fst t) (map ch rest) \<Longrightarrow> layout (tok_text t @ rest) (t # ts)"
  using layout.layout_tok [of "[]"] by simp

definition num_value :: "16 word \<Rightarrow> Value" where
  "num_value p = \<lparr>VStr = [], VNum = int (unat p), VIsNum = True, VIsStr = False\<rparr>"

definition str_value :: "string \<Rightarrow> Value" where
  "str_value s = \<lparr>VStr = s, VNum = 0, VIsNum = False, VIsStr = True\<rparr>"

definition proposal_policy :: "Proposal \<Rightarrow> Policy" where
  "proposal_policy p =
     \<lparr>PName = ''autogen-'' @ api_shortID (pr_ContainerID p),
      PRules = (if pr_Ports p \<noteq> [] then [\<lparr>RAction = ActionAllow, RExpr = InExpr ''port'' False (map num_value (pr_Ports p))\<rparr>] else [])
        @ map (\<lambda>peer. \<lparr>RAction = ActionAllow, RExpr = CompareExpr ''src_ip'' ''=='' (str_value peer)\<rparr>) (pr_Peers p),
      PVersion = [], PSource = [], PSourceBytes = []\<rparr>"

lemma ends_space [simp]: "ends_token k (ch CHR '' '' # s)" "ends_token k (ch CHR 10 # s)"
  by (simp_all add: ends_token_def ch_def)

lemma wf_number: "wf_tok (tkNumber, strconv_Itoa n)"
  by (simp add: Itoa_digits)

lemma print_num [simp]: "print_value (num_value p) = (tkNumber, strconv_Itoa (unat p))"
  by (simp add: print_value_def num_value_def)

lemma ports_head:
  assumes "ports \<noteq> []"
  obtains c cs where "strings_Join (port_texts ports) sep @ r = c # cs" "is_digit c"
proof -
  obtain p ps where ps: "ports = p # ps" using assms by (cases ports) auto
  obtain c cs where c: "strconv_Itoa (unat p) = c # cs" by (cases "strconv_Itoa (unat p)") auto
  have "is_digit c" using Itoa_digits [of "unat p"] by (simp add: c)
  moreover have "\<exists>cs'. strings_Join (port_texts ports) sep @ r = c # cs'"
    by (cases ps) (auto simp: ps port_texts_def c)
  ultimately show ?thesis using that by blast
qed

lemma layout_ports:
  "ports \<noteq> [] \<Longrightarrow> layout (CHR 10 # rest) ts \<Longrightarrow>
   layout (strings_Join (port_texts ports) '', '' @ '']'' @ CHR 10 # rest) (print_values (map num_value ports) @ ts)"
proof (induction ports rule: induct_list012)
  case (2 p)
  have "layout (tok_text (tkPunct, '']'') @ CHR 10 # rest) ((tkPunct, '']'') # ts)"
    using 2 by (intro layout_word) (auto simp: punct_texts_def)
  from layout_word [OF this wf_number] show ?case
    by (simp add: port_texts_def ends_token_def ch_def)
next
  case (3 p q ports)
  have "layout ('' '' @ strings_Join (port_texts (q # ports)) '', '' @ '']'' @ CHR 10 # rest) (print_values (map num_value (q # ports)) @ ts)"
    using layout_blank(1) [OF 3(2)] 3(4) by simp
  from layout_word [OF this, of "(tkPunct, '','')"]
  have "layout ('', '' @ strings_Join (port_texts (q # ports)) '', '' @ '']'' @ CHR 10 # rest)
      ((tkPunct, '','') # print_values (map num_value (q # ports)) @ ts)"
    by (simp add: punct_texts_def ends_token_def ch_def)
  from layout_word [OF this wf_number] show ?case
    by (simp add: port_texts_def ends_token_def ch_def)
qed simp

lemma layout_words:
  "layout rest ts \<Longrightarrow> list_all wf_tok ts0 \<Longrightarrow> layout (concat (map (\<lambda>t. tok_text t @ '' '') ts0) @ rest) (ts0 @ ts)"
proof (induction ts0)
  case (Cons t ts0)
  then have "layout ('' '' @ concat (map (\<lambda>t. tok_text t @ '' '') ts0) @ rest) (ts0 @ ts)"
    using layout_blank(1) by simp
  from layout_word [OF this, of t] Cons.prems(2) show ?case by simp
qed simp

lemma layout_string:
  assumes "layout rest ts" "plain s"
  shows "layout (''\"'' @ s @ ''\"'' @ rest) ((tkString, s) # ts)"
  using layout_word [OF assms(1), of "(tkString, s)"] assms(2)
  by (simp add: escape_plain plain_ascii ends_token_def)

abbreviation allow_words :: "(tokenKind \<times> string) list" where
  "allow_words \<equiv> [(tkKeyword, ''allow''), (tkKeyword, ''if'')]"

lemma wf_allow: "list_all wf_tok (allow_words @ [(tkIdent, ''port''), (tkKeyword, ''in'')])"
  "list_all wf_tok (allow_words @ [(tkIdent, ''src_ip''), (tkPunct, ''=='')])"
  by (auto simp: policy_keywords_def ident_text_def ident_char_def is_digit_def punct_texts_def)

lemma layout_ports_line:
  assumes "ports \<noteq> []" "layout rest ts"
  shows "layout (''  allow if port in ['' @ strings_Join (port_texts ports) '', '' @ '']'' @ CHR 10 # rest)
    (print_rule \<lparr>RAction = ActionAllow, RExpr = InExpr ''port'' False (map num_value ports)\<rparr> @ ts)"
proof -
  let ?tl = "strings_Join (port_texts ports) '', '' @ '']'' @ CHR 10 # rest"
  note nl = layout_blank(2) [OF assms(2)]
  from layout_ports [OF assms(1) nl]
  have l: "layout ?tl (print_values (map num_value ports) @ ts)" .
  obtain c cs where c: "?tl = c # cs" "is_digit c"
    by (rule ports_head [OF assms(1), of "'', ''" "'']'' @ CHR 10 # rest"])
  have "ends_token (fst (tkPunct, ''['')) (map ch ?tl)" unfolding c(1) using c(2) by (auto simp: ends_token_def ch_def is_digit_def Let_def)
  from layout_word [OF l _ this]
  have "layout (''['' @ ?tl) ((tkPunct, ''['') # print_values (map num_value ports) @ ts)"
    by (simp add: punct_texts_def)
  from layout_white [OF layout_words [OF this wf_allow(1)], of "''  ''"] show ?thesis
    by (simp add: print_rule_def action_text_def)
qed

lemma layout_peer_line:
  assumes "layout rest ts" "plain peer"
  shows "layout (''  allow if src_ip == '' @ strconv_Quote hi peer @ CHR 10 # rest)
    (print_rule \<lparr>RAction = ActionAllow, RExpr = CompareExpr ''src_ip'' ''=='' (str_value peer)\<rparr> @ ts)"
proof -
  note nl = layout_blank(2) [OF assms(1)]
  from layout_white [OF layout_words [OF layout_string [OF nl assms(2)] wf_allow(2)], of "''  ''"] show ?thesis
    by (simp add: print_rule_def action_text_def print_value_def str_value_def Quote_plain [OF assms(2)])
qed

lemma layout_peer_lines:
  "layout rest ts \<Longrightarrow> list_all plain peers \<Longrightarrow>
   layout (concat (map (\<lambda>peer. ''  allow if src_ip == '' @ strconv_Quote hi peer @ [CHR 10]) peers) @ rest)
    (concat (map (\<lambda>peer. print_rule \<lparr>RAction = ActionAllow, RExpr = CompareExpr ''src_ip'' ''=='' (str_value peer)\<rparr>) peers) @ ts)"
proof (induction peers)
  case (Cons peer peers)
  then show ?case using layout_peer_line [of "concat (map (\<lambda>peer. ''  allow if src_ip == '' @ strconv_Quote hi peer @ [CHR 10]) peers) @ rest"]
    by simp
qed simp

lemma proposal_layout:
  assumes "plain (pr_ContainerID p)" "list_all plain (pr_Peers p)"
  shows "layout (proposalToPolicyDSL hi p) (print_policy (proposal_policy p))"
proof -
  have e: "layout (''}'' @ [CHR 10]) [(tkPunct, ''}'')]"
    using layout_word [OF layout_end [of "[CHR 10]"], of "(tkPunct, ''}'')"] by (simp add: punct_texts_def)
  note peers = layout_peer_lines [OF e assms(2), of hi]
  let ?rs = "concat (map (\<lambda>peer. print_rule \<lparr>RAction = ActionAllow, RExpr = CompareExpr ''src_ip'' ''=='' (str_value peer)\<rparr>) (pr_Peers p))
    @ [(tkPunct, ''}'')]"
  have body: "layout
      ((if pr_Ports p \<noteq> [] then ''  allow if port in ['' @ strings_Join (port_texts (pr_Ports p)) '', '' @ '']'' @ [CHR 10] else [])
       @ concat (map (\<lambda>peer. ''  allow if src_ip == '' @ strconv_Quote hi peer @ [CHR 10]) (pr_Peers p)) @ ''}'' @ [CHR 10])
      ((if pr_Ports p \<noteq> [] then print_rule \<lparr>RAction = ActionAllow, RExpr = InExpr ''port'' False (map num_value (pr_Ports p))\<rparr> else []) @ ?rs)"
    (is "layout ?b ?bs") using peers layout_ports_line [OF _ peers, of "pr_Ports p"] by simp
  have n: "plain (''autogen-'' @ api_shortID (pr_ContainerID p))"
    using assms(1) by (auto simp: plain_def api_shortID_def list_all_iff dest: in_set_takeD)
  have "layout (''{'' @ CHR 10 # ?b) ((tkPunct, ''{'') # ?bs)"
    using layout_word [OF layout_blank(2) [OF body], of "(tkPunct, ''{'')"] by (simp add: punct_texts_def)
  from layout_string [OF layout_blank(1) [OF this] n]
  have "layout (''\"autogen-'' @ api_shortID (pr_ContainerID p) @ ''\" {'' @ CHR 10 # ?b)
      ((tkString, ''autogen-'' @ api_shortID (pr_ContainerID p)) # (tkPunct, ''{'') # ?bs)" by simp
  from layout_words [OF this, of "[(tkKeyword, ''policy'')]"]
  have l: "layout (''policy '' @ ''\"autogen-'' @ api_shortID (pr_ContainerID p) @ ''\" {'' @ CHR 10 # ?b)
      ((tkKeyword, ''policy'') # (tkString, ''autogen-'' @ api_shortID (pr_ContainerID p)) # (tkPunct, ''{'') # ?bs)"
    by (simp add: policy_keywords_def)
  have t: "proposalToPolicyDSL hi p = ''policy '' @ ''\"autogen-'' @ api_shortID (pr_ContainerID p) @ ''\" {'' @ CHR 10 # ?b"
    by (simp only: proposalToPolicyDSL_def append_assoc append_Cons append_Nil)
  have ts: "print_policy (proposal_policy p)
      = (tkKeyword, ''policy'') # (tkString, ''autogen-'' @ api_shortID (pr_ContainerID p)) # (tkPunct, ''{'') # ?bs"
    by (cases "pr_Ports p = []") (simp_all add: print_policy_def proposal_policy_def comp_def)
  show ?thesis unfolding t ts by (rule l)
qed

lemma port_small: "uint (p :: 16 word) < 9223372036854775808"
proof -
  have "uint p < 2 ^ 16" using uint_lt2p [of p] by simp
  then show ?thesis by simp
qed

lemma proposal_parses:
  assumes "plain (pr_ContainerID p)" "list_all plain (pr_Peers p)"
  shows "policy_Parse uni sha256_hex (proposalToPolicyDSL hi p) = Inr [loaded sha256_hex (proposalToPolicyDSL hi p) (proposal_policy p)]"
proof -
  have "is_ascii (pr_ContainerID p)" "\<forall>peer \<in> set (pr_Peers p). is_ascii peer"
    using assms plain_ascii by (auto simp: list_all_iff)
  then have "wf_policy (proposal_policy p)"
    by (auto simp: wf_policy_def proposal_policy_def wf_value_def num_value_def str_value_def wf_field_def ident_text_def
        ident_char_def is_digit_def is_ascii_def policy_keywords_def api_shortID_def list_all_iff port_small dest!: in_set_takeD)
  then show ?thesis using parse_layout [of "proposalToPolicyDSL hi p" "[proposal_policy p]"] proposal_layout [OF assms] by simp
qed

section \<open>The policy text of the control plane's commands\<close>

lemma snippet_tokens:
  assumes "plain (pr_ContainerID p)" "is_ascii (autogenPolicySnippet hi p)"
    and "lex_all uni (newLexer (autogenPolicySnippet hi p)) = Inr toks"
  obtains a b c d toks' where "toks = a # b # c # d # toks'" "strip a = (tkKeyword, ''policy'')"
    "strip b = (tkString, pr_ContainerID p)" "strip c = (tkPunct, ''{'')" "strip d = (tkIdent, ''default'')"
proof -
  define rest where "rest = '' deny'' @ [CHR 10] @ concat (map (\<lambda>t. ''  allow tcp dport '' @ t @ [CHR 10]) (port_texts (pr_Ports p)))
     @ concat (map (\<lambda>peer. ''  allow from '' @ peer @ [CHR 10]) (pr_Peers p)) @ ''}'' @ [CHR 10]"
  have w: "wf_tok (tkKeyword, ''policy'')" "wf_tok (tkString, pr_ContainerID p)" "wf_tok (tkPunct, ''{'')" "wf_tok (tkIdent, ''default'')"
    using plain_ascii [OF assms(1)]
    by (auto simp: policy_keywords_def punct_texts_def ident_text_def ident_char_def is_digit_def)
  have "autogenPolicySnippet hi p
      = ([] @ tok_text (tkKeyword, ''policy'')) @ '' '' @ tok_text (tkString, pr_ContainerID p) @ '' {'' @ [CHR 10] @ ''  default'' @ rest"
    by (simp add: autogenPolicySnippet_def Quote_plain [OF assms(1)] rest_def escape_plain [OF assms(1)])
  then have "src (newLexer (autogenPolicySnippet hi p)) = map ch ([] @ tok_text (tkKeyword, ''policy''))
      @ map ch ('' '' @ tok_text (tkString, pr_ContainerID p) @ '' {'' @ [CHR 10] @ ''  default'' @ rest)"
    using newLexer_ascii [OF assms(2)] by (simp only: map_append)
  then obtain a toks1 l1 where a: "toks = a # toks1" "strip a = (tkKeyword, ''policy'')"
    "src l1 = map ch ('' '' @ tok_text (tkString, pr_ContainerID p)) @ map ch ('' {'' @ [CHR 10] @ ''  default'' @ rest)"
    "lex_all uni l1 = Inr toks1"
    by (rule lex_all_first [OF _ _ w(1) _ assms(3)]) simp_all
  obtain b toks2 l2 where b: "toks1 = b # toks2" "strip b = (tkString, pr_ContainerID p)"
    "src l2 = map ch ('' '' @ tok_text (tkPunct, ''{'')) @ map ch ([CHR 10] @ ''  default'' @ rest)" "lex_all uni l2 = Inr toks2"
    by (rule lex_all_first [OF a(3) _ w(2) _ a(4)]) simp_all
  obtain c toks3 l3 where c: "toks2 = c # toks3" "strip c = (tkPunct, ''{'')"
    "src l3 = map ch (([CHR 10] @ ''  '') @ tok_text (tkIdent, ''default'')) @ map ch rest" "lex_all uni l3 = Inr toks3"
    by (rule lex_all_first [OF b(3) _ w(3) _ b(4)]) simp_all
  obtain d toks4 l4 where "toks3 = d # toks4" "strip d = (tkIdent, ''default'')"
    by (rule lex_all_first [OF c(3) _ w(4) _ c(4)]) (simp_all add: rest_def)
  with a b c that show ?thesis by blast
qed

lemma parse_not_rule:
  assumes "strip a = (tkKeyword, ''policy'')" "strip b = (tkString, name)" "strip c = (tkPunct, ''{'')" "strip d = (tkIdent, x)"
  shows "parseAll h bs out (a # b # c # d # toks) = Inl (ExpectedRuleKeyword (Line d) x)"
proof -
  have "parseRules_loop [] (d # toks) = Inl (ExpectedRuleKeyword (Line d) x)"
    using assms(4) by (subst parseRules_loop.simps) (simp add: at_tok_strip strip_iff parseRule_def)
  moreover have "expect tkString [] (b # c # d # toks) = Inr (b, c # d # toks)"
    using assms(2) by (simp add: expect_def strip_iff)
  ultimately have "parsePolicy h bs (a # b # c # d # toks) = Inl (ExpectedRuleKeyword (Line d) x)"
    using expect_strip [OF assms(1)] expect_strip [OF assms(3)] by (simp add: parsePolicy_def)
  then show ?thesis using assms(1) by (subst parseAll.simps) (simp add: strip_iff)
qed

section \<open>Properties\<close>

text \<open>
  An approved proposal becomes a policy: for a container id and peers of printable characters without quotes and
  backslashes, the text the API returns in policy mode parses to one policy named after the container, which allows
  exactly the proposed ports and the proposed peers.
\<close>

theorem proposalToPolicyDSL_parses:
  assumes "plain (pr_ContainerID p)" "list_all plain (pr_Peers p)"
  shows "\<exists>pol. policy_Parse uni sha256_hex (proposalToPolicyDSL hi p) = Inr [pol]
    \<and> PName pol = ''autogen-'' @ api_shortID (pr_ContainerID p)
    \<and> PRules pol
      = (if pr_Ports p \<noteq> [] then [\<lparr>RAction = ActionAllow, RExpr = InExpr ''port'' False (map num_value (pr_Ports p))\<rparr>] else [])
        @ map (\<lambda>peer. \<lparr>RAction = ActionAllow, RExpr = CompareExpr ''src_ip'' ''=='' (str_value peer)\<rparr>) (pr_Peers p)"
  using proposal_parses [OF assms, of uni sha256_hex hi] by (simp add: loaded_def proposal_policy_def)

theorem proposalToPolicyDSL_parses_witness:
  "\<exists>pol. policy_Parse \<lparr>letter_above = \<lambda>_. False, digit_above = \<lambda>_. False\<rparr> (\<lambda>s. s)
      (proposalToPolicyDSL (\<lambda>_. False) \<lparr>pr_ContainerID = ''0123456789abcdef'', pr_Ports = [80, 443], pr_Peers = [''10.0.0.5''],
        pr_ObservedFor = [], pr_Confidence = []\<rparr>) = Inr [pol]
    \<and> PName pol = ''autogen-0123456789ab'' \<and> length (PRules pol) = 2"
  using proposalToPolicyDSL_parses [of "\<lparr>pr_ContainerID = ''0123456789abcdef'', pr_Ports = [80, 443], pr_Peers = [''10.0.0.5''],
      pr_ObservedFor = [], pr_Confidence = []\<rparr>" "\<lparr>letter_above = \<lambda>_. False, digit_above = \<lambda>_. False\<rparr>" "\<lambda>s. s" "\<lambda>_. False"]
  by (force simp: plain_def api_shortID_def simp del: proposalToPolicyDSL_def)

text \<open>
  The policy text an approval through the control plane returns is never a policy: whatever the ports and the peers, the parser
  rejects it, at the latest at the word \<open>default\<close>, which begins no rule.
\<close>

theorem autogenPolicySnippet_rejected:
  assumes "plain (pr_ContainerID p)" "list_all is_ascii (pr_Peers p)"
  shows "\<exists>e. policy_Parse uni sha256_hex (autogenPolicySnippet hi p) = Inl e"
proof (cases "lex_all uni (newLexer (autogenPolicySnippet hi p))")
  case (Inl e)
  then show ?thesis by (simp add: policy_Parse_def)
next
  case (Inr toks)
  have "is_ascii t" if "t \<in> set (port_texts ports)" for t ports
    using that by (auto simp: port_texts_def is_ascii_def list_all_iff is_digit_def Let_def dest!: Itoa_chars)
  then have asc: "is_ascii (autogenPolicySnippet hi p)"
    using assms plain_ascii [OF assms(1)]
    by (auto simp: autogenPolicySnippet_def Quote_plain is_ascii_def list_all_iff)
  obtain a b c d toks' where "toks = a # b # c # d # toks'" "strip a = (tkKeyword, ''policy'')"
    "strip b = (tkString, pr_ContainerID p)" "strip c = (tkPunct, ''{'')" "strip d = (tkIdent, ''default'')"
    by (rule snippet_tokens [OF assms(1) asc Inr])
  then show ?thesis using parse_not_rule Inr by (simp add: policy_Parse_def)
qed

theorem autogenPolicySnippet_rejected_witness:
  "\<exists>e. policy_Parse \<lparr>letter_above = \<lambda>_. False, digit_above = \<lambda>_. False\<rparr> (\<lambda>s. s)
     (autogenPolicySnippet (\<lambda>_. False) \<lparr>pr_ContainerID = ''0123456789ab'', pr_Ports = [80], pr_Peers = [''10.0.0.5''],
        pr_ObservedFor = [], pr_Confidence = []\<rparr>) = Inl e"
  by (rule autogenPolicySnippet_rejected) (simp_all add: plain_def is_ascii_def)

end
