(* ===== verification/Agent_Dispatch.thy ===== *)
theory Agent_Dispatch
  imports Autogen_Snippets Rules_Engine
begin

text \<open>
  The agent's side of the control plane's commands, \<open>backend/internal/agentdispatch/dispatcher.go\<close>: a command
  is carried out on the engine or the observer and answered with an acknowledgement.

  The engine, the observer and the audit log are the state. What Docker, the file system and
  the clock answer is the \<open>world\<close> of \<open>Rules_Engine\<close> and the record \<open>dispatch_env\<close>, which also holds the texts of the
  engine's errors and the formatting of durations and times. A JSON object is its list of fields.
\<close>

section \<open>The dispatcher\<close>

datatype agent_audit =
    AuditAutogenApproved string string "16 word list" "string list" string string
  | AuditAutogenRejected string string string string
  | AuditPolicyUpdated string string string string
  | AuditTokenRotated string

record ('k, 's) Deps =
  dp_Engine :: "'k Engine"
  dp_Docker :: bool
  dp_Config :: "Config option"
  dp_Traffic :: "(nat \<Rightarrow> TrafficBucket list) option"
  dp_Observer :: "'s Observer option"
  dp_Audit :: "agent_audit list option"

record dispatch_env =
  de_world :: world
  de_now :: gotime
  de_engine_text :: "engine_error \<Rightarrow> string"
  de_duration :: "duration \<Rightarrow> string"
  de_RFC3339 :: "gotime \<Rightarrow> string"
  de_itoa :: "int \<Rightarrow> string"
  de_print :: "rune \<Rightarrow> bool"

definition proposalLookupMinAge :: duration where
  "proposalLookupMinAge = 15 * 60 * 1000000000"

definition min_samples :: "Config option \<Rightarrow> int" where
  "min_samples cfg = (case cfg of None \<Rightarrow> 0 | Some c \<Rightarrow> c_AutogenMinSamples c)"

definition jnat :: "nat \<Rightarrow> json" where
  "jnat n = JNum (strconv_Itoa n)"

section \<open>Statistics\<close>

definition stats_config :: "world \<Rightarrow> RulesFile \<Rightarrow> ContainerInfo \<Rightarrow> ContainerConfig" where
  "stats_config w fileRules ctr =
     MergeFileRules (fst (ParseLabels (w_iter w) (w_LoadLocation w) (ci_Labels ctr))) (ci_Name ctr) fileRules"

fun count_stats :: "world \<Rightarrow> RulesFile \<Rightarrow> ContainerInfo list \<Rightarrow> nat \<times> nat \<times> nat \<Rightarrow> nat \<times> nat \<times> nat" where
  "count_stats w fr [] acc = acc"
| "count_stats w fr (ctr # ctrs) (tot, running, enabled) =
     count_stats w fr ctrs
       (Suc tot, if ci_Status ctr = ''running'' then Suc running else running,
        if Enable (stats_config w fr ctr) then Suc enabled else enabled)"

definition collectStats :: "dispatch_env \<Rightarrow> ('k, 's) Deps \<Rightarrow> string + payload" where
  "collectStats env d =
     (let w = de_world env in
      if \<not> dp_Docker d then Inl ''docker client unavailable''
      else (case w_containers w of
              Inl e \<Rightarrow> Inl (''list containers: '' @ e)
            | Inr containers \<Rightarrow>
                (let fileRules = (case dp_Config d of
                       None \<Rightarrow> empty_rules_file
                     | Some c \<Rightarrow> (case LoadRulesFile (w_readFile w) (w_unmarshal w) (c_ConfigFile c) of
                                    Inl _ \<Rightarrow> empty_rules_file | Inr fr \<Rightarrow> fr));
                     (tot, running, enabled) = count_stats w fileRules containers (0, 0, 0)
                 in Inr ([(''containers'', JObj [(''total'', jnat tot), (''running'', jnat running), (''enabled'', jnat enabled)])]
                   @ (case dp_Traffic d of
                        None \<Rightarrow> []
                      | Some lst \<Rightarrow> [(''traffic'', JArr (map (\<lambda>b. JObj
                            [(''ts'', JStr (tb_Timestamp b)), (''accepted'', JNum (de_itoa env (tb_Accepted b))),
                             (''dropped'', JNum (de_itoa env (tb_Dropped b)))]) (lst 60)))])
                   @ [(''rules_active_containers'', jnat (length (GetApplied (dp_Engine d)))),
                      (''at'', JStr (de_RFC3339 env (de_now env)))]))))"

section \<open>Proposals\<close>

definition payload_string :: "payload \<Rightarrow> string \<Rightarrow> string" where
  "payload_string pl k = (case map_of pl k of Some (JStr s) \<Rightarrow> s | _ \<Rightarrow> [])"

definition proposal_for :: "string \<Rightarrow> string \<Rightarrow> bool" where
  "proposal_for containerID cid \<longleftrightarrow> cid = containerID \<or> strings_HasPrefix cid containerID"

definition record_proposal :: "ProposalRecord \<Rightarrow> Proposal" where
  "record_proposal rec =
     \<lparr>pr_ContainerID = rc_ContainerID rec, pr_Ports = rc_Ports rec, pr_Peers = rc_Peers rec, pr_ObservedFor = [],
      pr_Confidence = rc_Confidence rec\<rparr>"

definition stored_proposal :: "string \<Rightarrow> 's Observer \<Rightarrow> Proposal option \<times> 's Observer" where
  "stored_proposal containerID obs =
     (case ob_store obs of
        None \<Rightarrow> (None, obs)
      | Some (st, s) \<Rightarrow>
          (case gs_ListProposals st [StatusPending] s of
             (Inl _, s1) \<Rightarrow> (None, obs\<lparr>ob_store := Some (st, s1)\<rparr>)
           | (Inr recs, s1) \<Rightarrow>
               (map_option record_proposal (find (\<lambda>rec. proposal_for containerID (rc_ContainerID rec)) recs),
                obs\<lparr>ob_store := Some (st, s1)\<rparr>)))"

definition findProposal :: "dispatch_env \<Rightarrow> Config option \<Rightarrow> string \<Rightarrow> 's Observer \<Rightarrow> Proposal option \<times> 's Observer" where
  "findProposal env cfg containerID obs =
     (case find (\<lambda>p. proposal_for containerID (pr_ContainerID p))
             (Propose (min_samples cfg) proposalLookupMinAge (de_now env) (de_duration env) obs) of
        Some p \<Rightarrow> (Some p, obs)
      | None \<Rightarrow> stored_proposal containerID obs)"

definition mark_proposal ::
  "gotime \<Rightarrow> string \<Rightarrow> string \<Rightarrow> string \<Rightarrow> string \<Rightarrow> 's Observer \<Rightarrow> string option \<times> 's Observer" where
  "mark_proposal now cid status by_whom reason obs =
     (case ob_store obs of
        None \<Rightarrow> (None, obs)
      | Some (st, s) \<Rightarrow>
          (case gs_MarkProposal st now cid status by_whom reason s of
             (e, s1) \<Rightarrow> (e, obs\<lparr>ob_store := Some (st, s1)\<rparr>)))"

definition autogenApprove ::
  "dispatch_env \<Rightarrow> Config option \<Rightarrow> Command \<Rightarrow> 's Observer \<Rightarrow> (string + payload \<times> agent_audit) \<times> 's Observer" where
  "autogenApprove env cfg cmd obs =
     (let containerID = cm_ContainerID cmd in
      if containerID = [] then (Inl ''container_id required'', obs)
      else
        (let mode0 = payload_string (cm_Payload cmd) ''mode''; mode = (if mode0 = [] then ''labels'' else mode0) in
         if mode \<noteq> ''labels'' \<and> mode \<noteq> ''policy''
         then (Inl (''invalid mode '' @ strconv_Quote (de_print env) mode @ '' (expected labels or policy)''), obs)
         else
           (case findProposal env cfg containerID obs of
              (None, obs1) \<Rightarrow> (Inl ''no pending proposal for this container'', obs1)
            | (Some target, obs1) \<Rightarrow>
                (let snippet = (if mode = ''policy'' then autogenPolicySnippet (de_print env) target
                                else autogenLabelsSnippet (de_print env) target) in
                 case mark_proposal (de_now env) (pr_ContainerID target) StatusApproved ''control-plane'' [] obs1 of
                   (Some e, obs2) \<Rightarrow> (Inl (''mark approved: '' @ e), obs2)
                 | (None, obs2) \<Rightarrow>
                     (Inr ([(''mode'', JStr mode), (''snippet'', JStr snippet), (''container_id'', JStr (pr_ContainerID target)),
                            (''ports'', JArr (map (\<lambda>p. jnat (unat p)) (pr_Ports target))),
                            (''peers'', JArr (map JStr (pr_Peers target)))],
                           AuditAutogenApproved (pr_ContainerID target) [] (pr_Ports target) (pr_Peers target) mode ''control-plane''),
                      obs2)))))"

definition autogenReject ::
  "dispatch_env \<Rightarrow> Command \<Rightarrow> 's Observer \<Rightarrow> (string + payload \<times> agent_audit) \<times> 's Observer" where
  "autogenReject env cmd obs =
     (let containerID = cm_ContainerID cmd; reason = payload_string (cm_Payload cmd) ''reason'' in
      if containerID = [] then (Inl ''container_id required'', obs)
      else
        (case mark_proposal (de_now env) containerID StatusRejected ''control-plane'' reason obs of
           (Some e, obs1) \<Rightarrow> (Inl (''mark rejected: '' @ e), obs1)
         | (None, obs1) \<Rightarrow>
             (Inr ([(''container_id'', JStr containerID), (''reason'', JStr reason)],
                   AuditAutogenRejected containerID [] reason ''control-plane''), obs1)))"

text \<open>The common frame of the two: the observer may be absent, and a success is audited.\<close>

definition with_observer ::
  "('s Observer \<Rightarrow> (string + payload \<times> agent_audit) \<times> 's Observer) \<Rightarrow> ('k, 's) Deps \<Rightarrow> (string + payload) \<times> ('k, 's) Deps" where
  "with_observer act d =
     (case dp_Observer d of
        None \<Rightarrow> (Inl ''autogen disabled on agent'', d)
      | Some obs \<Rightarrow>
          (case act obs of
             (Inl e, obs1) \<Rightarrow> (Inl e, d\<lparr>dp_Observer := Some obs1\<rparr>)
           | (Inr (pl, ev), obs1) \<Rightarrow>
               (Inr pl, d\<lparr>dp_Observer := Some obs1, dp_Audit := map_option (\<lambda>l. l @ [ev]) (dp_Audit d)\<rparr>)))"

section \<open>Dispatch\<close>

definition on_engine ::
  "dispatch_env \<Rightarrow> ('k Engine \<Rightarrow> engine_error option \<times> 'k Engine) \<Rightarrow> ('k, 's) Deps \<Rightarrow> (string + payload) \<times> ('k, 's) Deps" where
  "on_engine env act d =
     (case act (dp_Engine d) of
        (Some e, eng) \<Rightarrow> (Inl (de_engine_text env e), d\<lparr>dp_Engine := eng\<rparr>)
      | (None, eng) \<Rightarrow> (Inr [], d\<lparr>dp_Engine := eng\<rparr>))"

definition run_command :: "dispatch_env \<Rightarrow> Command \<Rightarrow> ('k, 's) Deps \<Rightarrow> (string + payload) \<times> ('k, 's) Deps" where
  "run_command env cmd d =
     (if cm_Kind cmd = CommandApply then
        (if cm_ContainerID cmd = [] then (Inl ''apply requires container_id'', d)
         else on_engine env (ApplyContainer (de_world env) (cm_ContainerID cmd) ''api'') d)
      else if cm_Kind cmd = CommandDisable then
        (if cm_ContainerID cmd = [] then (Inl ''disable requires container_id'', d)
         else on_engine env (RemoveContainer (cm_ContainerID cmd) ''api'') d)
      else if cm_Kind cmd = CommandReconcile then on_engine env (Reconcile (de_world env) ''config-reload'') d
      else if cm_Kind cmd = CommandTokenRotate then
        (Inl ''token-rotate is operator-driven via FIREFIK_API_TOKEN_FILE, not control-plane commands'', d)
      else if cm_Kind cmd = CommandStatsCollect then (collectStats env d, d)
      else if cm_Kind cmd = CommandAutogenApprove then with_observer (autogenApprove env (dp_Config d) cmd) d
      else if cm_Kind cmd = CommandAutogenReject then with_observer (autogenReject env cmd) d
      else (Inl (''unknown command kind '' @ strconv_Quote (de_print env) (cm_Kind cmd)), d))"

definition Dispatch :: "dispatch_env \<Rightarrow> Command \<Rightarrow> ('k, 's) Deps \<Rightarrow> CommandAck \<times> ('k, 's) Deps" where
  "Dispatch env cmd d =
     (let ack = \<lparr>ca_ID = cm_ID cmd, ca_AgentID = [], ca_Success = False, ca_Error = [], ca_CompletedAt = 0, ca_ResultPayload = []\<rparr> in
      case run_command env cmd d of
        (Inl e, d1) \<Rightarrow> (ack\<lparr>ca_Error := e\<rparr>, d1)
      | (Inr pl, d1) \<Rightarrow> (ack\<lparr>ca_Success := True, ca_ResultPayload := pl\<rparr>, d1))"

section \<open>Reporting proposals\<close>

definition Proposals :: "dispatch_env \<Rightarrow> Config option \<Rightarrow> 's Observer option \<Rightarrow> AutogenProposal list" where
  "Proposals env cfg obs =
     (case obs of
        None \<Rightarrow> []
      | Some observer \<Rightarrow>
          map (\<lambda>p. \<lparr>ap_AgentID = [], ap_ContainerID = pr_ContainerID p, ap_Ports = map ucast (pr_Ports p), ap_Peers = pr_Peers p,
                    ap_ObservedFor = pr_ObservedFor p, ap_Confidence = pr_Confidence p, ap_UpdatedAt = 0\<rparr>)
            (Propose (min_samples cfg) proposalLookupMinAge (de_now env) (de_duration env) observer))"

section \<open>Decisions on proposals nobody has listed\<close>

definition mem_empty :: "autogenMem Observer \<Rightarrow> bool" where
  "mem_empty obs \<longleftrightarrow> (\<exists>m. ob_store obs = Some (autogen_mem, m) \<and> ma_proposals m = [])"

definition sql_empty :: "(nat \<Rightarrow> faults) \<Rightarrow> (nat \<times> autogenDB) Observer \<Rightarrow> bool" where
  "sql_empty flts obs \<longleftrightarrow> (\<exists>n s. ob_store obs = Some (autogen_sqlite flts, n, s) \<and> da_proposals s = [])"

lemma Observe_proposals: "ma_proposals (snd (ma_Observe now f m)) = ma_proposals m"
  "da_proposals (snd (da_Observe flt now f s)) = da_proposals s"
  by (auto simp: ma_Observe_def da_Observe_def Let_def split: option.splits)

lemma Record_empty: "mem_empty obs \<Longrightarrow> mem_empty (Record now f obs)" "sql_empty flts obs2 \<Longrightarrow> sql_empty flts (Record now f obs2)"
  by (auto simp: mem_empty_def sql_empty_def Record_def Let_def autogen_mem_def autogen_sqlite_def Observe_proposals)

lemma history_empty: "mem_empty obs \<Longrightarrow> mem_empty (fold (\<lambda>(t, f). Record t f) flows obs)"
  "sql_empty flts obs2 \<Longrightarrow> sql_empty flts (fold (\<lambda>(t, f). Record t f) flows obs2)"
  by (induction flows arbitrary: obs obs2) (auto simp: Record_empty)

lemma start_empty: "mem_empty (NewObserver t0)"
  "da_proposals s = [] \<Longrightarrow> sql_empty flts (NewObserverWithStore t0 (Some (autogen_sqlite flts, n, s)))"
  by (auto simp: mem_empty_def sql_empty_def NewObserver_def NewObserverWithStore_def autogen_NewMemoryStore_def autogen_sqlite_def
      split: sum.splits)

lemma mark_empty:
  "mem_empty obs \<Longrightarrow> \<exists>e. mark_proposal now cid status by_whom reason obs = (Some e, obs)"
  "sql_empty flts obs2 \<Longrightarrow> sql_empty flts (snd (mark_proposal now cid status by_whom reason obs2))"
proof -
  assume "mem_empty obs"
  then show "\<exists>e. mark_proposal now cid status by_whom reason obs = (Some e, obs)"
    by (auto simp: mem_empty_def mark_proposal_def autogen_mem_def ma_MarkProposal_def)
next
  assume "sql_empty flts obs2"
  then show "sql_empty flts (snd (mark_proposal now cid status by_whom reason obs2))"
    by (auto simp: sql_empty_def mark_proposal_def autogen_sqlite_def da_MarkProposal_def update_rows_def split: option.splits)
qed

lemma find_empty: "mem_empty obs \<Longrightarrow> mem_empty (snd (findProposal env cfg cid obs))"
  "sql_empty flts obs2 \<Longrightarrow> sql_empty flts (snd (findProposal env cfg cid obs2))"
  by (auto simp: mem_empty_def sql_empty_def findProposal_def stored_proposal_def autogen_mem_def autogen_sqlite_def
      split: option.splits sum.splits)

lemma approve_empty:
  "mem_empty obs \<Longrightarrow> \<exists>e obs'. autogenApprove env cfg cmd obs = (Inl e, obs')"
  "sql_empty flts obs2 \<Longrightarrow> sql_empty flts (snd (autogenApprove env cfg cmd obs2))"
proof -
  assume m: "mem_empty obs"
  show "\<exists>e obs'. autogenApprove env cfg cmd obs = (Inl e, obs')"
    using mark_empty(1) [OF find_empty(1) [OF m, of env cfg "cm_ContainerID cmd"], of "de_now env" _ StatusApproved "''control-plane''" "[]"]
    by (auto simp: autogenApprove_def Let_def split: prod.splits option.splits) (metis option.distinct(1) prod.inject)+
next
  assume m: "sql_empty flts obs2"
  show "sql_empty flts (snd (autogenApprove env cfg cmd obs2))"
    using m find_empty(2) [OF m, of env cfg "cm_ContainerID cmd"]
      mark_empty(2) [OF find_empty(2) [OF m, of env cfg "cm_ContainerID cmd"], of "de_now env" _ StatusApproved "''control-plane''" "[]"]
    by (auto simp: autogenApprove_def Let_def split: prod.splits option.splits) (metis snd_conv)+
qed

lemma reject_empty:
  "mem_empty obs \<Longrightarrow> \<exists>e obs'. autogenReject env cmd obs = (Inl e, obs')"
  "sql_empty flts obs2 \<Longrightarrow> sql_empty flts (snd (autogenReject env cmd obs2))"
proof -
  assume m: "mem_empty obs"
  show "\<exists>e obs'. autogenReject env cmd obs = (Inl e, obs')"
    using mark_empty(1) [OF m, of "de_now env" "cm_ContainerID cmd" StatusRejected "''control-plane''" "payload_string (cm_Payload cmd) ''reason''"]
    by (auto simp: autogenReject_def Let_def)
next
  assume m: "sql_empty flts obs2"
  show "sql_empty flts (snd (autogenReject env cmd obs2))"
    using m mark_empty(2) [OF m, of "de_now env" "cm_ContainerID cmd" StatusRejected "''control-plane''" "payload_string (cm_Payload cmd) ''reason''"]
    by (auto simp: autogenReject_def Let_def split: prod.splits option.splits)
qed

end
