(* ===== verification/Agent_Traffic.thy ===== *)
theory Agent_Traffic
  imports CP_Types
begin

text \<open>
  The counters of the agent's API: the ring of traffic counts per minute (\<open>TrafficStore\<close> in
  \<open>backend/internal/api/handlers_stats.go\<close>) and the count of log subscribers per address (\<open>wsCounter\<close> in
  \<open>middleware.go\<close>). The ring implements a plain list of minutes of which the newest 1440 are remembered.

  A time stamp is the text of the current minute, an argument. Counts are unbounded integers: a 64-bit
  counter of packets does not overflow within a minute.
\<close>

section \<open>The ring of traffic counts\<close>

record TrafficStore =
  ts_buckets :: "TrafficBucket list"
  ts_head :: nat

definition no_traffic :: "string \<Rightarrow> TrafficBucket" where
  "no_traffic now = \<lparr>tb_Timestamp = now, tb_Accepted = 0, tb_Dropped = 0\<rparr>"

definition NewTrafficStore :: TrafficStore where
  "NewTrafficStore = \<lparr>ts_buckets = replicate 1440 (no_traffic []), ts_head = 0\<rparr>"

definition count_action :: "string \<Rightarrow> TrafficBucket \<Rightarrow> TrafficBucket" where
  "count_action action b =
     (if action = ''ACCEPT'' then b\<lparr>tb_Accepted := tb_Accepted b + 1\<rparr>
      else if action = ''DROP'' then b\<lparr>tb_Dropped := tb_Dropped b + 1\<rparr> else b)"

definition RecordAction :: "string \<Rightarrow> string \<Rightarrow> TrafficStore \<Rightarrow> TrafficStore" where
  "RecordAction now action s =
     (let s1 = (if tb_Timestamp (ts_buckets s ! ts_head s) \<noteq> now then
                  (let h = (ts_head s + 1) mod length (ts_buckets s)
                   in \<lparr>ts_buckets = (ts_buckets s)[h := no_traffic now], ts_head = h\<rparr>)
                else s);
          h = ts_head s1
      in s1\<lparr>ts_buckets := (ts_buckets s1)[h := count_action action (ts_buckets s1 ! h)]\<rparr>)"

definition traffic_Last :: "nat \<Rightarrow> TrafficStore \<Rightarrow> TrafficBucket list" where
  "traffic_Last n s =
     (let len = length (ts_buckets s); m = (if len < n then len else n)
      in filter (\<lambda>b. tb_Timestamp b \<noteq> [])
           (map (\<lambda>i. ts_buckets s ! ((ts_head s + len - i) mod len)) (rev [0..<m])))"

section \<open>The list it implements\<close>

definition minute_record :: "string \<Rightarrow> string \<Rightarrow> TrafficBucket list \<Rightarrow> TrafficBucket list" where
  "minute_record now action l =
     (if l \<noteq> [] \<and> tb_Timestamp (last l) = now then butlast l @ [count_action action (last l)]
      else l @ [count_action action (no_traffic now)])"

definition newest :: "nat \<Rightarrow> 'a list \<Rightarrow> 'a list" where
  "newest n l = drop (length l - n) l"

text \<open>\<open>slot s i\<close> is the bucket \<open>i\<close> minutes before the current one.\<close>

definition slot :: "TrafficStore \<Rightarrow> nat \<Rightarrow> TrafficBucket" where
  "slot s i = ts_buckets s ! ((ts_head s + length (ts_buckets s) - i) mod length (ts_buckets s))"

definition ring_of :: "TrafficStore \<Rightarrow> TrafficBucket list \<Rightarrow> bool" where
  "ring_of s l \<longleftrightarrow> length (ts_buckets s) = 1440 \<and> ts_head s < 1440 \<and> (\<forall>b \<in> set l. tb_Timestamp b \<noteq> [])
     \<and> (\<forall>i < 1440. slot s i = (if i < length l then l ! (length l - 1 - i) else no_traffic []))"

lemma count_action_stamp [simp]: "tb_Timestamp (count_action a b) = tb_Timestamp b"
  by (simp add: count_action_def)

lemma ring_new: "ring_of NewTrafficStore []"
  by (simp add: ring_of_def slot_def NewTrafficStore_def)

lemma slot_0: "ts_head s < length (ts_buckets s) \<Longrightarrow> slot s 0 = ts_buckets s ! ts_head s"
  by (simp add: slot_def)

lemma slot_bump:
  assumes "length (ts_buckets s) = 1440" "ts_head s < 1440" "i < 1440"
  shows "slot (s\<lparr>ts_buckets := (ts_buckets s)[ts_head s := b]\<rparr>) i = (if i = 0 then b else slot s i)"
proof -
  have "(ts_head s + 1440 - i) mod 1440 \<noteq> ts_head s" if "i \<noteq> 0"
    using that assms(2,3) by (cases "i \<le> ts_head s") (auto simp: mod_if)
  then show ?thesis using assms by (auto simp: slot_def nth_list_update)
qed

lemma slot_advance:
  assumes "length (ts_buckets s) = 1440" "ts_head s < 1440" "i < 1440"
  shows "slot \<lparr>ts_buckets = (ts_buckets s)[(ts_head s + 1) mod 1440 := b], ts_head = (ts_head s + 1) mod 1440\<rparr> i
    = (if i = 0 then b else slot s (i - 1))"
proof (cases "i = 0")
  case True
  then show ?thesis using assms by (simp add: slot_def)
next
  case False
  have "((ts_head s + 1) mod 1440 + 1440 - i) mod 1440 = (ts_head s + 1440 - (i - 1)) mod 1440"
    "((ts_head s + 1) mod 1440 + 1440 - i) mod 1440 \<noteq> (ts_head s + 1) mod 1440"
    using False assms(2,3) by (cases "ts_head s = 1439"; cases "i \<le> ts_head s + 1"; auto simp: mod_if)+
  then show ?thesis using False assms by (simp add: slot_def)
qed

lemma ring_step:
  assumes "ring_of s l" "now \<noteq> []"
  shows "ring_of (RecordAction now action s) (minute_record now action l)"
proof -
  have len: "length (ts_buckets s) = 1440" "ts_head s < 1440" and st: "\<forall>b \<in> set l. tb_Timestamp b \<noteq> []"
    and sl: "\<And>i. i < 1440 \<Longrightarrow> slot s i = (if i < length l then l ! (length l - 1 - i) else no_traffic [])"
    using assms(1) by (auto simp: ring_of_def)
  have hd: "ts_buckets s ! ts_head s = (if l = [] then no_traffic [] else last l)"
    using sl [of 0] slot_0 [of s] len by (simp add: last_conv_nth)
  show ?thesis
  proof (cases "tb_Timestamp (ts_buckets s ! ts_head s) = now")
    case True
    then have l: "l \<noteq> []" "tb_Timestamp (last l) = now" using hd assms(2) by (auto simp: no_traffic_def split: if_splits)
    have r: "RecordAction now action s = s\<lparr>ts_buckets := (ts_buckets s)[ts_head s := count_action action (last l)]\<rparr>"
      using True hd l by (simp add: RecordAction_def)
    have "(butlast l @ [count_action action (last l)]) ! (length l - 1 - i) = (if i = 0 then count_action action (last l) else l ! (length l - 1 - i))"
      if "i < length l" for i using that l(1) by (auto simp: nth_append nth_butlast)
    then show ?thesis
      using l len st sl unfolding r ring_of_def
      by (auto simp: slot_bump minute_record_def dest: in_set_butlastD)
  next
    case False
    define s1 where "s1 = \<lparr>ts_buckets = (ts_buckets s)[(ts_head s + 1) mod 1440 := no_traffic now], ts_head = (ts_head s + 1) mod 1440\<rparr>"
    have n: "minute_record now action l = l @ [count_action action (no_traffic now)]"
      using False hd by (auto simp: minute_record_def split: if_splits)
    have l1: "length (ts_buckets s1) = 1440" "ts_head s1 < 1440" "ts_buckets s1 ! ts_head s1 = no_traffic now"
      using len by (simp_all add: s1_def)
    have r: "RecordAction now action s = s1\<lparr>ts_buckets := (ts_buckets s1)[ts_head s1 := count_action action (no_traffic now)]\<rparr>"
      unfolding RecordAction_def Let_def using False len(1) l1(3) by (simp add: s1_def [symmetric] del: One_nat_def add_Suc_right)
    have adv: "slot (RecordAction now action s) i = (if i = 0 then count_action action (no_traffic now) else slot s (i - 1))" if "i < 1440" for i
      unfolding r slot_bump [OF l1(1,2) that] slot_advance [OF len that, of "no_traffic now", folded s1_def] by (simp split: if_split)
    have "slot (RecordAction now action s) i
        = (if i < length (minute_record now action l) then minute_record now action l ! (length (minute_record now action l) - 1 - i)
           else no_traffic [])" if "i < 1440" for i
      using adv [OF that] sl [of "i - 1"] that by (cases i) (auto simp: n nth_append)
    moreover have "length (ts_buckets (RecordAction now action s)) = 1440" "ts_head (RecordAction now action s) < 1440"
      using l1 by (simp_all add: r)
    moreover have "\<forall>b \<in> set (minute_record now action l). tb_Timestamp b \<noteq> []"
      using st assms(2) by (simp add: n no_traffic_def)
    ultimately show ?thesis unfolding ring_of_def by blast
  qed
qed

lemma ring_history:
  "ring_of s l \<Longrightarrow> \<forall>(now, action) \<in> set ops. now \<noteq> [] \<Longrightarrow>
   ring_of (fold (\<lambda>(now, action). RecordAction now action) ops s) (fold (\<lambda>(now, action). minute_record now action) ops l)"
  by (induction ops arbitrary: s l) (auto simp: ring_step)

lemma map_newest: "k \<le> length l \<Longrightarrow> map (\<lambda>i. l ! (length l - 1 - i)) (rev [0..<k]) = newest k l"
  by (rule nth_equalityI) (auto simp: newest_def rev_nth intro!: arg_cong [of _ _ "(!) l"])

lemma Last_newest:
  assumes "ring_of s l"
  shows "traffic_Last n s = newest (min n 1440) l"
proof -
  have len: "length (ts_buckets s) = 1440" and st: "\<forall>b \<in> set l. tb_Timestamp b \<noteq> []"
    and sl: "\<And>i. i < 1440 \<Longrightarrow> slot s i = (if i < length l then l ! (length l - 1 - i) else no_traffic [])"
    using assms by (auto simp: ring_of_def)
  let ?m = "min n 1440" and ?k = "min (min n 1440) (length l)"
  have "traffic_Last n s = filter (\<lambda>b. tb_Timestamp b \<noteq> []) (map (slot s) (rev [0..<?m]))"
    using len by (simp add: traffic_Last_def slot_def [abs_def] Let_def min_def)
  also have "rev [0..<?m] = rev [?k..<?m] @ rev [0..<?k]"
  proof -
    have "[0..<?m] = [0..<?k] @ [?k..<?m]" using upt_add_eq_append [of 0 ?k "?m - ?k"] le_add_diff_inverse [of ?k ?m] by (simp only: le0 min.cobounded1)
    from arg_cong [OF this, of rev] show ?thesis unfolding rev_append .
  qed
  also have "filter (\<lambda>b. tb_Timestamp b \<noteq> []) (map (slot s) (rev [?k..<?m] @ rev [0..<?k])) = map (slot s) (rev [0..<?k])"
  proof -
    have "filter (\<lambda>b. tb_Timestamp b \<noteq> []) (map (slot s) (rev [?k..<?m])) = []"
    proof -
      have "tb_Timestamp (slot s i) = []" if "?k \<le> i" "i < ?m" for i using sl [of i] that by (auto simp: no_traffic_def min_def split: if_splits)
      then show ?thesis by (auto simp: filter_empty_conv)
    qed
    moreover have "filter (\<lambda>b. tb_Timestamp b \<noteq> []) (map (slot s) (rev [0..<?k])) = map (slot s) (rev [0..<?k])"
      using sl st by (auto intro!: filter_True)
    ultimately show ?thesis by simp
  qed
  also have "\<dots> = map (\<lambda>i. l ! (length l - 1 - i)) (rev [0..<?k])"
    using sl by (auto intro!: map_cong)
  also have "\<dots> = newest ?k l" by (rule map_newest) simp
  also have "\<dots> = newest ?m l" by (simp add: newest_def min_def)
  finally show ?thesis .
qed

section \<open>Subscribers per address\<close>

record wsCounter =
  wc_max :: int
  wc_byIP :: "(string \<times> int) list"

definition newWSCounter :: "int \<Rightarrow> wsCounter" where
  "newWSCounter mx = \<lparr>wc_max = mx, wc_byIP = []\<rparr>"

definition ws_count :: "string \<Rightarrow> wsCounter \<Rightarrow> int" where
  "ws_count key wc = (case map_of (wc_byIP wc) key of None \<Rightarrow> 0 | Some n \<Rightarrow> n)"

definition ws_admit :: "string \<Rightarrow> wsCounter \<Rightarrow> bool \<times> wsCounter" where
  "ws_admit key wc =
     (if wc_max wc \<le> 0 then (True, wc)
      else if wc_max wc \<le> ws_count key wc then (False, wc)
      else (True, wc\<lparr>wc_byIP := AList.update key (ws_count key wc + 1) (wc_byIP wc)\<rparr>))"

definition ws_release :: "string \<Rightarrow> wsCounter \<Rightarrow> wsCounter" where
  "ws_release key wc =
     (if wc_max wc \<le> 0 then wc
      else if 0 < ws_count key wc then
        (let n = ws_count key wc - 1; m = AList.update key n (wc_byIP wc)
         in wc\<lparr>wc_byIP := (if n = 0 then AList.delete key m else m)\<rparr>)
      else wc)"

text \<open>The connections open at a moment, one entry per admitted and not yet released connection.\<close>

inductive ws_open :: "wsCounter \<Rightarrow> string list \<Rightarrow> bool" where
  ws_start: "ws_open (newWSCounter mx) []"
| ws_admitted: "ws_open wc conns \<Longrightarrow> ws_admit key wc = (True, wc') \<Longrightarrow> ws_open wc' (key # conns)"
| ws_refused: "ws_open wc conns \<Longrightarrow> ws_admit key wc = (False, wc') \<Longrightarrow> ws_open wc' conns"
| ws_closed: "ws_open wc conns \<Longrightarrow> key \<in> set conns \<Longrightarrow> ws_open (ws_release key wc) (remove1 key conns)"

lemma ws_count_update: "ws_count k (wc\<lparr>wc_byIP := AList.update key n (wc_byIP wc)\<rparr>) = (if k = key then n else ws_count k wc)"
  by (simp add: ws_count_def update_conv')

lemma ws_count_delete: "ws_count k (wc\<lparr>wc_byIP := AList.delete key (wc_byIP wc)\<rparr>) = (if k = key then 0 else ws_count k wc)"
  by (simp add: ws_count_def delete_conv')

lemma ws_release_count: "0 < wc_max wc \<Longrightarrow> 0 < ws_count key wc \<Longrightarrow>
   ws_count k (ws_release key wc) = (if k = key then ws_count key wc - 1 else ws_count k wc)"
  by (auto simp: ws_release_def Let_def ws_count_def update_conv' delete_conv' split: option.splits if_splits)

lemma ws_counts:
  "ws_open wc conns \<Longrightarrow> 0 < wc_max wc \<Longrightarrow> ws_count key wc = int (count_list conns key) \<and> ws_count key wc \<le> wc_max wc"
proof (induction arbitrary: key rule: ws_open.induct)
  case (ws_start mx)
  then show ?case by (simp add: newWSCounter_def ws_count_def)
next
  case (ws_admitted wc conns k wc')
  then have m: "0 < wc_max wc" by (auto simp: ws_admit_def split: if_splits)
  then show ?case using ws_admitted.IH [OF m, of key] ws_admitted.IH [OF m, of k] ws_admitted.hyps(2)
    by (auto simp: ws_admit_def ws_count_update split: if_splits)
next
  case (ws_refused wc conns k wc')
  then have "wc' = wc" by (auto simp: ws_admit_def split: if_splits)
  then show ?case using ws_refused.IH [of key] ws_refused.prems by metis
next
  case (ws_closed wc conns k)
  have m: "0 < wc_max wc" using ws_closed.prems by (auto simp: ws_release_def Let_def split: if_splits)
  have "0 < count_list conns k" using ws_closed.hyps(2) by (simp add: count_list_0_iff neq0_conv [symmetric])
  then have p: "0 < ws_count k wc" using ws_closed.IH [OF m, of k] by simp
  have "count_list (remove1 k conns) key = (if key = k then count_list conns k - 1 else count_list conns key)"
    using ws_closed.hyps(2) by (induction conns) auto
  moreover have "wc_max (ws_release k wc) = wc_max wc" by (simp add: ws_release_def Let_def)
  ultimately show ?case
    using ws_release_count [OF m p, of key] ws_closed.IH [OF m, of key] ws_closed.IH [OF m, of k] p by auto
qed

section \<open>Properties\<close>

text \<open>
  The traffic ring is a bounded history: after any sequence of counted packets, \<open>Last\<close> returns, oldest first, the newest
  \<open>n\<close> (at most 1440) minutes of the unbounded list that keeps one entry per run of equal time stamps.
\<close>

theorem traffic_ring_refines:
  assumes "\<forall>(now, action) \<in> set ops. now \<noteq> []"
  shows "traffic_Last n (fold (\<lambda>(now, action). RecordAction now action) ops NewTrafficStore)
    = newest (min n 1440) (fold (\<lambda>(now, action). minute_record now action) ops [])"
  using Last_newest [OF ring_history [OF ring_new assms]] .

theorem traffic_ring_refines_witness:
  "traffic_Last 60 (fold (\<lambda>(now, action). RecordAction now action)
      [(''10:00'', ''ACCEPT''), (''10:00'', ''DROP''), (''10:01'', ''ACCEPT'')] NewTrafficStore)
   = [\<lparr>tb_Timestamp = ''10:00'', tb_Accepted = 1, tb_Dropped = 1\<rparr>, \<lparr>tb_Timestamp = ''10:01'', tb_Accepted = 1, tb_Dropped = 0\<rparr>]"
  by (subst traffic_ring_refines) (simp_all add: newest_def minute_record_def no_traffic_def count_action_def)

text \<open>
  No address has more log connections than the limit: in every state reached by admitting and releasing connections, the
  counter of an address is the number of its open connections and at most the limit, when there is one.
\<close>

theorem ws_connections_bounded:
  assumes "ws_open wc conns" "0 < wc_max wc"
  shows "ws_count key wc = int (count_list conns key) \<and> int (count_list conns key) \<le> wc_max wc"
  using ws_counts [OF assms, of key] by simp

theorem ws_connections_bounded_witness:
  "int (count_list [''10.0.0.1''] ''10.0.0.1'') \<le> 1"
proof -
  have "ws_open (snd (ws_admit ''10.0.0.1'' (newWSCounter 1))) [''10.0.0.1'']"
    by (rule ws_admitted [OF ws_start [of 1]]) (simp add: ws_admit_def newWSCounter_def ws_count_def)
  from ws_connections_bounded [OF this, of "''10.0.0.1''"] show ?thesis
    by (simp add: ws_admit_def newWSCounter_def ws_count_def)
qed

end
