(* ===== verification/Agent_API.thy ===== *)
theory Agent_API
  imports Agent_Dispatch Agent_Traffic
begin

text \<open>
  The handlers of the agent's own HTTP interface, \<open>backend/internal/api\<close>: \<open>handlers_containers.go\<close>,
  \<open>handlers_bulk.go\<close>, \<open>handlers_stats.go\<close> and \<open>autogen.go\<close>. They resolve containers, call the engine of
  \<open>Rules_Engine\<close> and decide on learned proposals.

  A handler maps its decoded arguments and the state of the server to a response and the new state. Decoding and
  validating the JSON body is gin's, so the decoded body or the decoding error is an argument. The record
  \<open>dispatch_env\<close> holds the world and the formatting functions.
\<close>

section \<open>Responses\<close>

record RateLimitDTO =
  xl_Rate :: nat
  xl_Burst :: nat

record FirewallRuleSetDTO =
  rd_Name :: string
  rd_Ports :: "16 word list"
  rd_Allowlist :: "string list"
  rd_Blocklist :: "string list"
  rd_Profile :: string
  rd_Protocol :: string
  rd_Log :: bool
  rd_LogPrefix :: string
  rd_RateLimit :: "RateLimitDTO option"
  rd_GeoBlock :: "string list"
  rd_GeoAllow :: "string list"

record ContainerDTO =
  cd_ID :: string
  cd_Name :: string
  cd_Status :: string
  cd_Enabled :: bool
  cd_FirewallStatus :: string
  cd_DefaultPolicy :: string
  cd_Labels :: "(string \<times> string) list"
  cd_RuleSets :: "FirewallRuleSetDTO list"

record RuleEntry =
  re_ContainerID :: string
  re_ContainerName :: string
  re_Status :: string
  re_DefaultPolicy :: string
  re_RuleSets :: "FirewallRuleSetDTO list"

record BulkAction =
  ba_ID :: string
  ba_Action :: string

record BulkResultItem =
  bi_ID :: string
  bi_Action :: string
  bi_Status :: string
  bi_Error :: string

record BulkSummary =
  bs_Total :: nat
  bs_Applied :: nat
  bs_Disabled :: nat
  bs_Failed :: nat

record autogenProposalDTO =
  ad_ContainerID :: string
  ad_Ports :: "16 word list"
  ad_Peers :: "string list"
  ad_ObservedFor :: string
  ad_Confidence :: string
  ad_Status :: string
  ad_DecidedBy :: string
  ad_DecidedAt :: string
  ad_Reason :: string

record PolicySummary =
  py_Name :: string
  py_Version :: string
  py_Source :: string
  py_Rules :: nat

record PolicyDetail =
  pd_Name :: string
  pd_Version :: string
  pd_Source :: string
  pd_DSL :: string
  pd_RuleSets :: "FirewallRuleSetDTO list"

record PolicySimulateResponse =
  px_Policy :: string
  px_Container :: string
  px_RuleSets :: "FirewallRuleSetDTO list"
  px_Warnings :: "string list"
  px_Errors :: "string list"
  px_LabelsSeen :: "(string \<times> string) list option"
  px_DefaultPolicy :: string

datatype api_value =
    VStatus string
  | VHealth string string string
  | VProfiles "(string \<times> string) list"
  | VOpenAPI string
  | VContainers "ContainerDTO list"
  | VContainer ContainerDTO
  | VRules "RuleEntry list"
  | VBulk "BulkResultItem list" BulkSummary
  | VStats nat nat nat "TrafficBucket list"
  | VProposals "Proposal list"
  | VRecords "autogenProposalDTO list"
  | VApproved string string string "16 word list" "string list"
  | VPolicies "PolicySummary list"
  | VValidated bool "string list" "string list"
  | VDetail PolicyDetail
  | VSimulated PolicySimulateResponse
  | VWritten PolicySummary

text \<open>
  An error carries its code, its message and its details. \<open>ApiPanic\<close> is a nil dereference, which the server's
  recovery turns into an empty response with status 500.
\<close>

datatype api_response =
    ApiJSON nat api_value
  | ApiError nat string string string
  | ApiNoContent
  | ApiPanic

record ('k, 's) api_server =
  sv_cfg :: Config
  sv_engine :: "'k Engine"
  sv_traffic :: TrafficStore
  sv_autogen :: "'s Observer option"
  sv_audit :: "agent_audit list option"
  sv_policies :: "(string \<times> Policy) list"

type_synonym ('k, 's) api_handler = "dispatch_env \<Rightarrow> ('k, 's) api_server \<Rightarrow> api_response \<times> ('k, 's) api_server"

section \<open>Views of rule sets and containers\<close>

definition net_texts :: "IPNet list \<Rightarrow> string list" where
  "net_texts nets = map ipnet_String (filter (\<lambda>n. net_IP n \<noteq> []) nets)"

definition RuleSetToDTO :: "FirewallRuleSet \<Rightarrow> FirewallRuleSetDTO" where
  "RuleSetToDTO rs =
     \<lparr>rd_Name = rs_Name rs, rd_Ports = rs_Ports rs, rd_Allowlist = net_texts (rs_Allowlist rs), rd_Blocklist = net_texts (rs_Blocklist rs),
      rd_Profile = rs_Profile rs, rd_Protocol = (if rs_Protocol rs = [] then ''tcp'' else rs_Protocol rs), rd_Log = rs_Log rs,
      rd_LogPrefix = rs_LogPrefix rs,
      rd_RateLimit = map_option (\<lambda>rl. \<lparr>xl_Rate = Rate rl, xl_Burst = Burst rl\<rparr>) (rs_RateLimit rs),
      rd_GeoBlock = rs_GeoBlock rs, rd_GeoAllow = rs_GeoAllow rs\<rparr>"

definition shown_policy :: "ContainerConfig \<Rightarrow> string" where
  "shown_policy cfg = (if DefaultPolicy cfg = [] then ''RETURN'' else DefaultPolicy cfg)"

definition containerToDTO :: "ContainerInfo \<Rightarrow> ContainerConfig \<Rightarrow> bool \<Rightarrow> ContainerDTO" where
  "containerToDTO ctr cfg isApplied =
     \<lparr>cd_ID = ci_ID ctr, cd_Name = ci_Name ctr, cd_Status = ci_Status ctr, cd_Enabled = Enable cfg,
      cd_FirewallStatus = (if \<not> Enable cfg then ''disabled'' else if isApplied then ''active'' else ''inactive''),
      cd_DefaultPolicy = shown_policy cfg, cd_Labels = ci_Labels ctr, cd_RuleSets = map RuleSetToDTO (RuleSets cfg)\<rparr>"

definition file_rules :: "world \<Rightarrow> Config \<Rightarrow> RulesFile" where
  "file_rules w cfg =
     (case LoadRulesFile (w_readFile w) (w_unmarshal w) (c_ConfigFile cfg) of Inl _ \<Rightarrow> empty_rules_file | Inr fr \<Rightarrow> fr)"

definition container_view :: "world \<Rightarrow> ('k, 's) api_server \<Rightarrow> ContainerInfo \<Rightarrow> ContainerDTO" where
  "container_view w srv ctr =
     containerToDTO ctr (stats_config w (file_rules w (sv_cfg srv)) ctr)
       (map_of (GetApplied (sv_engine srv)) (shortID (ci_ID ctr)) \<noteq> None)"

section \<open>Containers\<close>

definition isValidContainerID :: "string \<Rightarrow> bool" where
  "isValidContainerID cid \<longleftrightarrow> 12 \<le> length cid \<and> length cid \<le> 64 \<and> list_all (\<lambda>c. c \<in> set ''0123456789abcdef'') cid"

definition matches_id :: "string \<Rightarrow> ContainerInfo \<Rightarrow> bool" where
  "matches_id cid ctr \<longleftrightarrow> ci_ID ctr = cid \<or> (length cid < 64 \<and> strings_HasPrefix (ci_ID ctr) cid)"

definition resolveContainerSilent :: "world \<Rightarrow> string \<Rightarrow> ContainerInfo option" where
  "resolveContainerSilent w cid =
     (if \<not> isValidContainerID cid then None
      else (case w_containers w of
              Inl _ \<Rightarrow> None
            | Inr ctrs \<Rightarrow> (case filter (matches_id cid) ctrs of [ctr] \<Rightarrow> Some ctr | _ \<Rightarrow> None)))"

definition resolveContainer :: "world \<Rightarrow> string \<Rightarrow> api_response + ContainerInfo" where
  "resolveContainer w cid =
     (if \<not> isValidContainerID cid then Inl (ApiError 400 ''invalid_id'' ''invalid container id'' ''expected 12-64 hex chars'')
      else (case w_containers w of
              Inl _ \<Rightarrow> Inl (ApiError 500 ''docker_unavailable'' ''failed to list containers'' [])
            | Inr ctrs \<Rightarrow>
                (case filter (matches_id cid) ctrs of
                   [] \<Rightarrow> Inl (ApiError 404 ''container_not_found'' ''container not found'' [])
                 | [ctr] \<Rightarrow> Inr ctr
                 | matches \<Rightarrow> Inl (ApiError 409 ''ambiguous_container_prefix'' ''container prefix matches multiple containers''
                     (strings_Join (map ci_Name matches) '','')))))"

definition handleGetContainers :: "('k, 's) api_handler" where
  "handleGetContainers env srv =
     (case w_containers (de_world env) of
        Inl _ \<Rightarrow> (ApiError 500 ''docker_unavailable'' ''failed to list containers'' [], srv)
      | Inr ctrs \<Rightarrow> (ApiJSON 200 (VContainers (map (container_view (de_world env) srv) ctrs)), srv))"

definition handleGetContainer :: "string \<Rightarrow> ('k, 's) api_handler" where
  "handleGetContainer cid env srv =
     (case resolveContainer (de_world env) cid of
        Inl resp \<Rightarrow> (resp, srv)
      | Inr ctr \<Rightarrow> (ApiJSON 200 (VContainer (container_view (de_world env) srv ctr)), srv))"

definition rule_entry :: "ContainerInfo list \<Rightarrow> string \<times> ContainerConfig \<Rightarrow> RuleEntry" where
  "rule_entry ctrs x =
     (let infos = rev (map (\<lambda>ctr. (shortID (ci_ID ctr), ctr)) ctrs);
          field = (\<lambda>f. case map_of infos (fst x) of None \<Rightarrow> [] | Some ctr \<Rightarrow> f ctr)
      in \<lparr>re_ContainerID = fst x, re_ContainerName = field ci_Name, re_Status = field ci_Status,
          re_DefaultPolicy = shown_policy (snd x), re_RuleSets = map RuleSetToDTO (RuleSets (snd x))\<rparr>)"

definition handleGetRules :: "('k, 's) api_handler" where
  "handleGetRules env srv =
     (case w_containers (de_world env) of
        Inl _ \<Rightarrow> (ApiError 500 ''docker_unavailable'' ''failed to list containers'' [], srv)
      | Inr ctrs \<Rightarrow> (ApiJSON 200 (VRules (map (rule_entry ctrs) (GetApplied (sv_engine srv)))), srv))"

definition handleApplyContainer :: "string \<Rightarrow> ('k, 's) api_handler" where
  "handleApplyContainer cid env srv =
     (case resolveContainer (de_world env) cid of
        Inl resp \<Rightarrow> (resp, srv)
      | Inr ctr \<Rightarrow>
          (case ApplyContainer (de_world env) (ci_ID ctr) ''api'' (sv_engine srv) of
             (Some _, e) \<Rightarrow> (ApiError 500 ''apply_failed'' ''failed to apply rules'' [], srv\<lparr>sv_engine := e\<rparr>)
           | (None, e) \<Rightarrow> (ApiJSON 200 (VStatus ''applied''), srv\<lparr>sv_engine := e\<rparr>)))"

definition handleDisableContainer :: "string \<Rightarrow> ('k, 's) api_handler" where
  "handleDisableContainer cid env srv =
     (if \<not> isValidContainerID cid then (ApiError 400 ''invalid_id'' ''invalid container id'' ''expected 12-64 hex chars'', srv)
      else (case RemoveContainer cid ''api'' (sv_engine srv) of
              (Some _, e) \<Rightarrow> (ApiError 500 ''disable_failed'' ''failed to disable container rules'' [], srv\<lparr>sv_engine := e\<rparr>)
            | (None, e) \<Rightarrow> (ApiJSON 200 (VStatus ''disabled''), srv\<lparr>sv_engine := e\<rparr>)))"

section \<open>Bulk actions\<close>

definition bulkMaxActions :: nat where "bulkMaxActions = 100"

text \<open>One entry: the error, empty for a success, and the engine.\<close>

definition api_bulk_one :: "dispatch_env \<Rightarrow> BulkAction \<Rightarrow> 'k Engine \<Rightarrow> string option \<times> 'k Engine" where
  "api_bulk_one env a e =
     (if ba_Action a = ''apply'' then
        (case resolveContainerSilent (de_world env) (ba_ID a) of
           None \<Rightarrow> (Some ''container not resolved'', e)
         | Some ctr \<Rightarrow> map_prod (map_option (de_engine_text env)) id (ApplyContainer (de_world env) (ci_ID ctr) ''api'' e))
      else if ba_Action a = ''disable'' then
        (if \<not> isValidContainerID (ba_ID a) then (Some ''invalid container id'', e)
         else map_prod (map_option (de_engine_text env)) id (RemoveContainer (ba_ID a) ''api'' e))
      else (Some ''unknown action'', e))"

definition bulk_count :: "BulkAction \<Rightarrow> string option \<Rightarrow> BulkSummary \<Rightarrow> BulkSummary" where
  "bulk_count a err sm =
     (if err \<noteq> None then sm\<lparr>bs_Failed := Suc (bs_Failed sm)\<rparr>
      else if ba_Action a = ''apply'' then sm\<lparr>bs_Applied := Suc (bs_Applied sm)\<rparr>
      else sm\<lparr>bs_Disabled := Suc (bs_Disabled sm)\<rparr>)"

fun api_bulk_loop ::
  "dispatch_env \<Rightarrow> BulkAction list \<Rightarrow> BulkResultItem list \<Rightarrow> BulkSummary \<Rightarrow> 'k Engine \<Rightarrow> BulkResultItem list \<times> BulkSummary \<times> 'k Engine" where
  "api_bulk_loop env [] results sm e = (results, sm, e)"
| "api_bulk_loop env (a # as) results sm e =
     (let (err, e1) = api_bulk_one env a e;
          item = \<lparr>bi_ID = ba_ID a, bi_Action = ba_Action a, bi_Status = (if err = None then ''ok'' else ''error''),
                  bi_Error = (case err of None \<Rightarrow> [] | Some t \<Rightarrow> t)\<rparr>
      in api_bulk_loop env as (results @ [item]) (bulk_count a err sm) e1)"

definition handleBulkContainers :: "string + BulkAction list \<Rightarrow> ('k, 's) api_handler" where
  "handleBulkContainers body env srv =
     (case body of
        Inl e \<Rightarrow> (ApiError 400 ''invalid_body'' ''invalid bulk request'' e, srv)
      | Inr actions \<Rightarrow>
          (if bulkMaxActions < length actions
           then (ApiError 400 ''invalid_body'' ''too many actions in one bulk request'' ''max is 100'', srv)
           else
             (let (results, sm, e) = api_bulk_loop env actions [] \<lparr>bs_Total = 0, bs_Applied = 0, bs_Disabled = 0, bs_Failed = 0\<rparr> (sv_engine srv)
              in (ApiJSON 200 (VBulk results (sm\<lparr>bs_Total := length actions\<rparr>)), srv\<lparr>sv_engine := e\<rparr>))))"

section \<open>Statistics\<close>

definition handleGetStats :: "('k, 's) api_handler" where
  "handleGetStats env srv =
     (let w = de_world env in
      case w_containers w of
        Inl _ \<Rightarrow> (ApiError 500 ''docker_unavailable'' ''failed to list containers'' [], srv)
      | Inr ctrs \<Rightarrow>
          (let (tot, running, enabled) = count_stats w (file_rules w (sv_cfg srv)) ctrs (0, 0, 0)
           in (ApiJSON 200 (VStats tot running enabled (traffic_Last 60 (sv_traffic srv))), srv)))"

section \<open>Learned proposals\<close>

definition upsert_all :: "gotime \<Rightarrow> Proposal list \<Rightarrow> 's Observer \<Rightarrow> 's Observer" where
  "upsert_all now proposals obs =
     (case ob_store obs of
        None \<Rightarrow> obs
      | Some (st, s) \<Rightarrow> obs\<lparr>ob_store := Some (st, fold (\<lambda>p s. snd (gs_UpsertProposal st now p s)) proposals s)\<rparr>)"

definition decided_text :: "(gotime \<Rightarrow> string) \<Rightarrow> ProposalRecord \<Rightarrow> string" where
  "decided_text fmt rec = (if IsZero (rc_DecidedAt rec) then [] else fmt (rc_DecidedAt rec))"

definition live_dto :: "(gotime \<Rightarrow> string) \<Rightarrow> ProposalRecord list \<Rightarrow> Proposal \<Rightarrow> autogenProposalDTO" where
  "live_dto fmt recs p =
     (let dto = \<lparr>ad_ContainerID = pr_ContainerID p, ad_Ports = pr_Ports p, ad_Peers = pr_Peers p, ad_ObservedFor = pr_ObservedFor p,
                 ad_Confidence = pr_Confidence p, ad_Status = StatusPending, ad_DecidedBy = [], ad_DecidedAt = [], ad_Reason = []\<rparr>
      in case map_of (rev (map (\<lambda>rec. (rc_ContainerID rec, rec)) recs)) (pr_ContainerID p) of
           None \<Rightarrow> dto
         | Some rec \<Rightarrow> dto\<lparr>ad_Status := rc_Status rec, ad_DecidedBy := rc_DecidedBy rec, ad_DecidedAt := decided_text fmt rec,
                             ad_Reason := rc_Reason rec\<rparr>)"

definition stored_dto :: "(gotime \<Rightarrow> string) \<Rightarrow> ProposalRecord \<Rightarrow> autogenProposalDTO" where
  "stored_dto fmt rec =
     \<lparr>ad_ContainerID = rc_ContainerID rec, ad_Ports = rc_Ports rec, ad_Peers = rc_Peers rec, ad_ObservedFor = rc_ObservedFor rec,
      ad_Confidence = rc_Confidence rec, ad_Status = rc_Status rec, ad_DecidedBy = rc_DecidedBy rec,
      ad_DecidedAt = decided_text fmt rec, ad_Reason = rc_Reason rec\<rparr>"

definition recordsToDTO :: "(gotime \<Rightarrow> string) \<Rightarrow> Proposal list \<Rightarrow> ProposalRecord list \<Rightarrow> autogenProposalDTO list" where
  "recordsToDTO fmt live recs =
     sort_key ad_ContainerID (map (live_dto fmt recs) live
       @ map (stored_dto fmt) (filter (\<lambda>rec. rc_ContainerID rec \<notin> set (map pr_ContainerID live)) recs))"

definition api_proposals :: "dispatch_env \<Rightarrow> ('k, 's) api_server \<Rightarrow> 's Observer \<Rightarrow> Proposal list" where
  "api_proposals env srv obs =
     Propose (c_AutogenMinSamples (sv_cfg srv)) proposalLookupMinAge (de_now env) (de_duration env) obs"

definition handleGetAutogenProposals :: "('k, 's) api_handler" where
  "handleGetAutogenProposals env srv =
     (case sv_autogen srv of
        None \<Rightarrow> (ApiJSON 200 (VProposals []), srv)
      | Some obs \<Rightarrow>
          (let proposals = api_proposals env srv obs; obs1 = upsert_all (de_now env) proposals obs in
           case ob_store obs1 of
             None \<Rightarrow> (ApiJSON 200 (VProposals proposals), srv\<lparr>sv_autogen := Some obs1\<rparr>)
           | Some (st, s) \<Rightarrow>
               (case gs_ListProposals st [] s of
                  (Inl _, s1) \<Rightarrow> (ApiJSON 200 (VProposals proposals), srv\<lparr>sv_autogen := Some (obs1\<lparr>ob_store := Some (st, s1)\<rparr>)\<rparr>)
                | (Inr recs, s1) \<Rightarrow>
                    (ApiJSON 200 (VRecords (recordsToDTO (de_RFC3339 env) proposals recs)),
                     srv\<lparr>sv_autogen := Some (obs1\<lparr>ob_store := Some (st, s1)\<rparr>)\<rparr>))))"

definition api_audit :: "agent_audit \<Rightarrow> ('k, 's) api_server \<Rightarrow> ('k, 's) api_server" where
  "api_audit ev srv = srv\<lparr>sv_audit := map_option (\<lambda>l. l @ [ev]) (sv_audit srv)\<rparr>"

text \<open>The mode of the body; a body that does not decode counts as an empty one.\<close>

definition handleApproveAutogen :: "string \<Rightarrow> string \<Rightarrow> ('k, 's) api_handler" where
  "handleApproveAutogen containerID mode0 env srv =
     (case sv_autogen srv of
        None \<Rightarrow> (ApiError 400 ''autogen_disabled'' ''FIREFIK_AUTOGEN_MODE=observe required'' [], srv)
      | Some obs \<Rightarrow>
          (if containerID = [] then (ApiError 400 ''invalid_id'' ''container id required'' [], srv)
           else
             (let mode = (if mode0 = [] then ''labels'' else mode0) in
              if mode \<noteq> ''labels'' \<and> mode \<noteq> ''policy'' then (ApiError 400 ''invalid_mode'' ''mode must be labels or policy'' [], srv)
              else
                (case (case find (\<lambda>p. proposal_for containerID (pr_ContainerID p)) (api_proposals env srv obs) of
                         Some p \<Rightarrow> (Some p, obs) | None \<Rightarrow> stored_proposal containerID obs) of
                   (None, obs1) \<Rightarrow>
                     (ApiError 404 ''proposal_not_found'' ''no pending proposal for this container'' [], srv\<lparr>sv_autogen := Some obs1\<rparr>)
                 | (Some target, obs1) \<Rightarrow>
                     (let snippet = (if mode = ''policy'' then proposalToPolicyDSL (de_print env) target
                                     else proposalToLabels (de_print env) target) in
                      case mark_proposal (de_now env) (pr_ContainerID target) StatusApproved ''api'' [] obs1 of
                        (Some _, obs2) \<Rightarrow>
                          (ApiError 500 ''autogen_mark_failed'' ''failed to record approval'' [], srv\<lparr>sv_autogen := Some obs2\<rparr>)
                      | (None, obs2) \<Rightarrow>
                          (ApiJSON 200 (VApproved mode snippet (pr_ContainerID target) (pr_Ports target) (pr_Peers target)),
                           api_audit (AuditAutogenApproved (pr_ContainerID target) [] (pr_Ports target) (pr_Peers target) mode ''api'')
                             (srv\<lparr>sv_autogen := Some obs2\<rparr>)))))))"

definition handleRejectAutogen :: "string \<Rightarrow> string \<Rightarrow> ('k, 's) api_handler" where
  "handleRejectAutogen containerID reason env srv =
     (case sv_autogen srv of
        None \<Rightarrow> (ApiError 400 ''autogen_disabled'' ''FIREFIK_AUTOGEN_MODE=observe required'' [], srv)
      | Some obs \<Rightarrow>
          (if containerID = [] then (ApiError 400 ''invalid_id'' ''container id required'' [], srv)
           else
             (case mark_proposal (de_now env) containerID StatusRejected ''api'' reason obs of
                (Some _, obs1) \<Rightarrow> (ApiError 500 ''autogen_mark_failed'' ''failed to record rejection'' [], srv\<lparr>sv_autogen := Some obs1\<rparr>)
              | (None, obs1) \<Rightarrow>
                  (ApiNoContent, api_audit (AuditAutogenRejected containerID [] reason ''api'') (srv\<lparr>sv_autogen := Some obs1\<rparr>)))))"

end
