(* ===== verification/Agent_Policies.thy ===== *)
theory Agent_Policies
  imports Agent_API
begin

text \<open>
  The policies of the agent's API, \<open>backend/internal/api/policies.go\<close>: the store of policies by name and the
  handlers that list, validate, show, simulate and write them. A written policy is passed on to the engine.

  The texts of parse and compile errors, SHA-256 and the Unicode tables are the record \<open>policy_lib\<close>.
\<close>

section \<open>The store\<close>

record policy_lib =
  pq_uni :: unicode_tables
  pq_sha256 :: "string \<Rightarrow> string"
  pq_parse_text :: "parse_error \<Rightarrow> string"
  pq_compile_text :: "compile_error \<Rightarrow> string"

abbreviation lib_Parse :: "policy_lib \<Rightarrow> string \<Rightarrow> parse_error + Policy list" where
  "lib_Parse lib \<equiv> policy_Parse (pq_uni lib) (pq_sha256 lib)"

definition ps_Set :: "(string \<times> Policy) list \<Rightarrow> ('k, 's) api_server \<Rightarrow> ('k, 's) api_server" where
  "ps_Set policies srv = srv\<lparr>sv_policies := policies\<rparr>"

definition ps_Upsert :: "Policy \<Rightarrow> (string \<times> Policy) list \<Rightarrow> (string \<times> Policy) list" where
  "ps_Upsert p policies = AList.update (PName p) p policies"

definition ps_Snapshot :: "(string \<times> Policy) list \<Rightarrow> (string \<rightharpoonup> Policy)" where
  "ps_Snapshot policies = map_of policies"

definition policy_summary :: "Policy \<Rightarrow> PolicySummary" where
  "policy_summary p = \<lparr>py_Name = PName p, py_Version = PVersion p, py_Source = PSource p, py_Rules = length (PRules p)\<rparr>"

definition ps_List :: "(string \<times> Policy) list \<Rightarrow> PolicySummary list" where
  "ps_List policies = sort_key py_Name (map (policy_summary \<circ> snd) policies)"

definition handleGetPolicies :: "('k, 's) api_handler" where
  "handleGetPolicies env srv = (ApiJSON 200 (VPolicies (ps_List (sv_policies srv))), srv)"

section \<open>Validation and display\<close>

fun validate_loop :: "policy_lib \<Rightarrow> Policy list \<Rightarrow> bool \<times> string list \<times> string list \<Rightarrow> bool \<times> string list \<times> string list" where
  "validate_loop lib [] acc = acc"
| "validate_loop lib (p # ps) (ok, errs, warns) =
     validate_loop lib ps
       (case policy_Compile p of
          Inl e \<Rightarrow> (False, errs @ [pq_compile_text lib e], warns)
        | Inr compiled \<Rightarrow> (ok, errs, warns @ CWarnings compiled))"

definition handleValidatePolicy :: "policy_lib \<Rightarrow> string + string \<Rightarrow> ('k, 's) api_handler" where
  "handleValidatePolicy lib body env srv =
     (case body of
        Inl e \<Rightarrow> (ApiError 400 ''invalid_body'' e [], srv)
      | Inr dsl \<Rightarrow>
          (case lib_Parse lib dsl of
             Inl e \<Rightarrow> (ApiJSON 200 (VValidated False [pq_parse_text lib e] []), srv)
           | Inr pols \<Rightarrow> (let (ok, errs, warns) = validate_loop lib pols (True, [], []) in (ApiJSON 200 (VValidated ok errs warns), srv))))"

definition handleGetPolicy :: "string \<Rightarrow> ('k, 's) api_handler" where
  "handleGetPolicy name env srv =
     (case map_of (sv_policies srv) name of
        None \<Rightarrow> (ApiError 404 ''policy_not_found'' (''policy '' @ name @ '' not found'') [], srv)
      | Some p \<Rightarrow>
          (case policy_Compile p of
             Inl _ \<Rightarrow> (ApiError 500 ''policy_compile_failed'' ''failed to compile policy'' [], srv)
           | Inr compiled \<Rightarrow>
               (ApiJSON 200 (VDetail \<lparr>pd_Name = PName p, pd_Version = PVersion p, pd_Source = PSource p, pd_DSL = PSourceBytes p,
                  pd_RuleSets = map RuleSetToDTO (CRuleSets compiled)\<rparr>), srv)))"

section \<open>Simulation\<close>

record policySimulateRequest =
  qs_ContainerID :: string
  qs_Labels :: "(string \<times> string) list option"
  qs_DSL :: string

definition simulated :: "string \<Rightarrow> PolicySimulateResponse" where
  "simulated name = \<lparr>px_Policy = name, px_Container = [], px_RuleSets = [], px_Warnings = [], px_Errors = [], px_LabelsSeen = None,
     px_DefaultPolicy = []\<rparr>"

text \<open>The policy to simulate: an answer, or a policy (absent when the text holds none) and the name shown.\<close>

definition simulate_target :: "policy_lib \<Rightarrow> string \<Rightarrow> policySimulateRequest \<Rightarrow> ('k, 's) api_server
    \<Rightarrow> api_response + Policy option \<times> string" where
  "simulate_target lib name req srv =
     (if strings_TrimSpace (qs_DSL req) \<noteq> [] then
        (case lib_Parse lib (qs_DSL req) of
           Inl e \<Rightarrow> Inl (ApiJSON 200 (VSimulated ((simulated name)\<lparr>px_Errors := [pq_parse_text lib e]\<rparr>)))
         | Inr pols \<Rightarrow>
             (case find (\<lambda>p. PName p = name \<or> name = []) pols of
                Some p \<Rightarrow> Inr (Some p, name)
              | None \<Rightarrow> (case pols of [] \<Rightarrow> Inr (None, name) | p # _ \<Rightarrow> Inr (Some p, PName p))))
      else (case map_of (sv_policies srv) name of
              None \<Rightarrow> Inl (ApiError 404 ''policy_not_found'' (''policy '' @ name @ '' not found'') [])
            | Some p \<Rightarrow> Inr (Some p, name)))"

definition simulate_on :: "world \<Rightarrow> Policy \<Rightarrow> (string \<times> string) list option \<Rightarrow> ContainerInfo \<Rightarrow> PolicySimulateResponse \<Rightarrow> PolicySimulateResponse" where
  "simulate_on w pol labels0 ctr resp =
     (let labels1 = (case labels0 of Some l \<Rightarrow> l | None \<Rightarrow> ci_Labels ctr);
          cfg = fst (ParseLabels (w_iter w) (w_LoadLocation w) (ci_Labels ctr));
          labels = (if raw_get labels1 PolicyLabel = [] then AList.update PolicyLabel (PName pol) labels1 else labels1);
          cfg1 = ApplyPolicies cfg labels [PName pol \<mapsto> pol]
      in resp\<lparr>px_Container := ci_ID ctr, px_RuleSets := map RuleSetToDTO (RuleSets cfg1), px_DefaultPolicy := DefaultPolicy cfg1,
              px_LabelsSeen := Some labels\<rparr>)"

definition handleSimulatePolicy :: "policy_lib \<Rightarrow> string \<Rightarrow> policySimulateRequest \<Rightarrow> ('k, 's) api_handler" where
  "handleSimulatePolicy lib name req env srv =
     (case simulate_target lib name req srv of
        Inl resp \<Rightarrow> (resp, srv)
      | Inr (None, _) \<Rightarrow> (ApiPanic, srv)
      | Inr (Some pol, shown) \<Rightarrow>
          (case policy_Compile pol of
             Inl e \<Rightarrow> (ApiJSON 200 (VSimulated ((simulated shown)\<lparr>px_Errors := [pq_compile_text lib e]\<rparr>)), srv)
           | Inr compiled \<Rightarrow>
               (let resp = (simulated shown)\<lparr>px_Warnings := CWarnings compiled\<rparr> in
                case (if qs_ContainerID req = [] then None else resolveContainerSilent (de_world env) (qs_ContainerID req)) of
                  Some ctr \<Rightarrow> (ApiJSON 200 (VSimulated (simulate_on (de_world env) pol (qs_Labels req) ctr resp)), srv)
                | None \<Rightarrow> (ApiJSON 200 (VSimulated (resp\<lparr>px_RuleSets := map RuleSetToDTO (CRuleSets compiled), px_LabelsSeen := qs_Labels req\<rparr>)), srv))))"

section \<open>Writing\<close>

definition policyNameRe :: "string \<Rightarrow> bool" where
  "policyNameRe s \<longleftrightarrow> 1 \<le> length s \<and> length s \<le> 64
     \<and> list_all (\<lambda>c. (CHR ''A'' \<le> c \<and> c \<le> CHR ''Z'') \<or> (CHR ''a'' \<le> c \<and> c \<le> CHR ''z'') \<or> is_digit c \<or> c \<in> set ''_.-'') s"

definition choose_policy :: "string \<Rightarrow> Policy list \<Rightarrow> Policy option" where
  "choose_policy name pols =
     (case find (\<lambda>p. PName p = name) pols of Some p \<Rightarrow> Some p | None \<Rightarrow> (case pols of [p] \<Rightarrow> Some p | _ \<Rightarrow> None))"

definition handleWritePolicy :: "policy_lib \<Rightarrow> string \<Rightarrow> string + string \<times> string \<Rightarrow> ('k, 's) api_handler" where
  "handleWritePolicy lib name body env srv =
     (if c_PoliciesReadOnly (sv_cfg srv)
      then (ApiError 403 ''policies_readonly'' ''policy write rejected: FIREFIK_POLICIES_READONLY=true (GitOps mode)'' [], srv)
      else if \<not> policyNameRe name then (ApiError 400 ''invalid_name'' ''policy name must match ^[A-Za-z0-9_.-]{1,64}$'' [], srv)
      else (case body of
              Inl e \<Rightarrow> (ApiError 400 ''invalid_body'' e [], srv)
            | Inr (dsl, commentary) \<Rightarrow>
                (case lib_Parse lib dsl of
                   Inl e \<Rightarrow> (ApiError 400 ''policy_parse_failed'' ''DSL parse failed'' (pq_parse_text lib e), srv)
                 | Inr pols \<Rightarrow>
                     (case choose_policy name pols of
                        None \<Rightarrow> (ApiError 400 ''policy_name_mismatch'' (''DSL does not contain policy \"'' @ name @ ''\"'') [], srv)
                      | Some chosen0 \<Rightarrow>
                          (case policy_Compile chosen0 of
                             Inl e \<Rightarrow> (ApiError 400 ''policy_compile_failed'' ''policy compile failed'' (pq_compile_text lib e), srv)
                           | Inr _ \<Rightarrow>
                               (let chosen = chosen0\<lparr>PSource := ''api''\<rparr>;
                                    policies = ps_Upsert chosen (sv_policies srv);
                                    e1 = SetPolicies (Some (ps_Snapshot policies)) (sv_engine srv);
                                    e2 = snd (Reconcile (de_world env) ''api'' e1)
                                in (ApiJSON 200 (VWritten (policy_summary chosen)),
                                    api_audit (AuditPolicyUpdated (PName chosen) (PVersion chosen) commentary ''api'')
                                      (srv\<lparr>sv_policies := policies, sv_engine := e2\<rparr>))))))))"

section \<open>What is written can be read\<close>

lemma compile_loop_source:
  "rel_sum (=) (\<lambda>c c'. CRuleSets c' = CRuleSets c \<and> CWarnings c' = CWarnings c)
     (compile_loop pol out rs) (compile_loop (pol\<lparr>PSource := so\<rparr>) out' rs)"
  if "CRuleSets out' = CRuleSets out" "CWarnings out' = CWarnings out"
  using that by (induction rs arbitrary: out out') (auto split: sum.splits)

lemma Compile_source:
  assumes "policy_Compile p = Inr c"
  shows "\<exists>c'. policy_Compile (p\<lparr>PSource := so\<rparr>) = Inr c' \<and> CRuleSets c' = CRuleSets c"
  using compile_loop_source [of "\<lparr>CPolicy = p\<lparr>PSource := so\<rparr>, CRuleSets = [], CWarnings = []\<rparr>" "\<lparr>CPolicy = p, CRuleSets = [], CWarnings = []\<rparr>" p "PRules p" so] assms
  by (auto simp: policy_Compile_def elim: rel_sum.cases)

lemma write_cases:
  assumes "handleWritePolicy lib name body env srv = (resp, srv')"
  obtains (refused) "srv' = srv" "\<And>s. resp \<noteq> ApiJSON 200 (VWritten s)"
  | (written) dsl cmt pols chosen c where "body = Inr (dsl, cmt)" "lib_Parse lib dsl = Inr pols" "chosen \<in> set pols"
      "policy_Compile chosen = Inr c" "resp = ApiJSON 200 (VWritten (policy_summary (chosen\<lparr>PSource := ''api''\<rparr>)))"
      "sv_policies srv' = AList.update (PName chosen) (chosen\<lparr>PSource := ''api''\<rparr>) (sv_policies srv)"
      "\<not> c_PoliciesReadOnly (sv_cfg srv)"
proof -
  have in_pols: "chosen \<in> set pols" if "choose_policy name pols = Some chosen" for pols chosen
    using that by (auto simp: choose_policy_def find_Some_iff split: option.splits list.splits)
  show ?thesis
    using assms that in_pols
    by (auto simp: handleWritePolicy_def Let_def api_audit_def ps_Upsert_def split: if_splits sum.splits option.splits prod.splits) blast+
qed

lemma parseAll_source:
  "parseAll h b out toks = Inr pols \<Longrightarrow> \<forall>p \<in> set out. PSourceBytes p = b \<Longrightarrow> \<forall>p \<in> set pols. PSourceBytes p = b"
proof (induction h b out toks rule: parseAll.induct)
  case (1 h b out toks)
  show ?case
  proof (cases "Kind (peek toks) = tkEOF")
    case True
    then show ?thesis using 1(2,3) by (subst (asm) parseAll.simps) simp
  next
    case False
    have "(case parsePolicy h b toks of Inl e \<Rightarrow> Inl e | Inr (pol, rest) \<Rightarrow> parseAll h b (out @ [pol]) rest) = Inr pols"
      using 1(2) False parseAll.simps [of h b out toks] by simp
    then obtain pol rest where p: "parsePolicy h b toks = Inr (pol, rest)" "parseAll h b (out @ [pol]) rest = Inr pols"
      by (cases "parsePolicy h b toks") auto
    have "PSourceBytes pol = b" using p(1) by (auto simp: parsePolicy_def rbind_Inr_iff)
    then have "\<forall>p \<in> set (out @ [pol]). PSourceBytes p = b" using 1(3) by simp
    then show ?thesis by (rule 1(1) [OF False p(1) refl p(2)])
  qed
qed

lemma Parse_source:
  assumes "lib_Parse lib dsl = Inr pols" "p \<in> set pols"
  shows "PSourceBytes p = dsl"
proof -
  obtain toks where "parseAll (pq_sha256 lib) dsl [] toks = Inr pols"
    using assms(1) by (auto simp: policy_Parse_def split: sum.splits)
  from parseAll_source [OF this] assms(2) show ?thesis by simp
qed

definition policies_compile :: "(string \<times> Policy) list \<Rightarrow> bool" where
  "policies_compile ps \<longleftrightarrow> (\<forall>name p. map_of ps name = Some p \<longrightarrow> (\<exists>c. policy_Compile p = Inr c))"

lemma write_compiles:
  assumes "policies_compile (sv_policies srv)"
  shows "policies_compile (sv_policies (snd (handleWritePolicy lib name body env srv)))"
proof -
  obtain resp srv' where w: "handleWritePolicy lib name body env srv = (resp, srv')" by fastforce
  from w show ?thesis
  proof (cases rule: write_cases)
    case refused
    then show ?thesis using assms w by simp
  next
    case (written dsl cmt pols chosen c)
    then show ?thesis
      using assms w Compile_source [of chosen c "''api''"] by (auto simp: policies_compile_def update_conv')
  qed
qed

section \<open>Properties\<close>

text \<open>
  What was written can be read: after a successful write, the policy is served under the name the answer gives, with the
  text of the request, the version of the answer, and rule sets that compile.
\<close>

theorem agent_policy_roundtrip:
  assumes "handleWritePolicy lib name body env srv = (ApiJSON 200 (VWritten sm), srv')"
  shows "\<exists>dsl cmt d. body = Inr (dsl, cmt) \<and> handleGetPolicy (py_Name sm) env' srv' = (ApiJSON 200 (VDetail d), srv')
    \<and> pd_DSL d = dsl \<and> pd_Name d = py_Name sm \<and> pd_Version d = py_Version sm \<and> pd_Source d = ''api''"
  using assms
proof (cases rule: write_cases)
  case (written dsl cmt pols chosen c)
  then show ?thesis
    using Compile_source [OF written(4), of "''api''"] Parse_source [OF written(2,3)]
    by (auto simp: handleGetPolicy_def policy_summary_def update_conv')
qed blast

text \<open>
  No history of writes, accepted or refused, makes the agent serve a policy that does not compile: reading any name gives the policy
  or 404.
\<close>

theorem agent_policies_served:
  assumes "sv_policies srv = []"
  shows "\<exists>d. fst (handleGetPolicy name env (fold (\<lambda>(lib, n, body, env) s. snd (handleWritePolicy lib n body env s)) reqs srv))
    \<in> {ApiJSON 200 (VDetail d), ApiError 404 ''policy_not_found'' (''policy '' @ name @ '' not found'') []}"
proof -
  have "policies_compile (sv_policies (fold (\<lambda>(lib, n, body, env) s. snd (handleWritePolicy lib n body env s)) reqs srv))"
    if "policies_compile (sv_policies srv)" for srv :: "('k, 's) api_server"
    using that by (induction reqs arbitrary: srv) (auto simp: write_compiles)
  then have "policies_compile (sv_policies (fold (\<lambda>(lib, n, body, env) s. snd (handleWritePolicy lib n body env s)) reqs srv))"
    using assms by (metis (no_types) map_of.simps(1) option.distinct(1) policies_compile_def)
  then show ?thesis
    by (cases "map_of (sv_policies (fold (\<lambda>(lib, n, body, env) s. snd (handleWritePolicy lib n body env s)) reqs srv)) name")
      (fastforce simp: policies_compile_def handleGetPolicy_def)+
qed

end
