(* ===== verification/Agent_Security.thy ===== *)
theory Agent_Security
  imports Agent_Policies
begin

text \<open>
  What guards the agent's API: \<open>backend/internal/api/middleware.go\<close>, \<open>peercred_linux.go\<close>, the checks at startup and the
  routes of \<open>server.go\<close>, and the reload of the token file in \<open>backend/cmd/firefik/main.go\<close>.

  The rate limiter of \<open>golang.org/x/time/rate\<close> is a new bucket and a function that takes from a bucket; the host of a
  URL is the argument \<open>url_Host\<close>, \<open>None\<close> where parsing fails. Left out of the routes are the reads of the templates and of the audit
  history (\<open>Audit_Log\<close>), the proxy to the control plane, the log stream and the metrics. A request is the value the router has matched, so
  its path parameters and its decoded body are arguments of its constructor.
\<close>

section \<open>Requests and routes\<close>

datatype api_call =
    CHealth
  | CLive
  | CReady
  | COpenAPIJSON
  | COpenAPIYAML
  | CGetContainers
  | CGetContainer string
  | CApply string
  | CDisable string
  | CBulk "string + BulkAction list"
  | CGetRules
  | CGetProfiles
  | CGetStats
  | CGetPolicies
  | CValidate "string + string"
  | CGetPolicy string
  | CWritePolicy string "string + string \<times> string"
  | CSimulate string policySimulateRequest
  | CGetProposals
  | CApprove string string
  | CReject string string

text \<open>
  The routes as they are registered: on the engine itself, or on the group \<open>/api\<close> with its middleware. A request is served by the
  first route with its method and path.
\<close>

datatype route_group = Root | AuthedAPI

definition registerRoutes :: "(route_group \<times> string \<times> string) list" where
  "registerRoutes =
     [(Root, ''GET'', ''/health''), (Root, ''GET'', ''/live''), (Root, ''GET'', ''/ready''),
      (Root, ''GET'', ''/api/v1/openapi.json''), (Root, ''GET'', ''/api/v1/openapi.yaml''),
      (AuthedAPI, ''GET'', ''/api/containers''), (AuthedAPI, ''GET'', ''/api/containers/:id''),
      (AuthedAPI, ''POST'', ''/api/containers/:id/apply''), (AuthedAPI, ''POST'', ''/api/containers/:id/disable''),
      (AuthedAPI, ''POST'', ''/api/containers/bulk''),
      (AuthedAPI, ''GET'', ''/api/rules''), (AuthedAPI, ''GET'', ''/api/rules/profiles''), (AuthedAPI, ''GET'', ''/api/stats''),
      (AuthedAPI, ''GET'', ''/api/policies''), (AuthedAPI, ''POST'', ''/api/policies/validate''), (AuthedAPI, ''GET'', ''/api/policies/:name''),
      (AuthedAPI, ''PUT'', ''/api/policies/:name''), (AuthedAPI, ''POST'', ''/api/policies/:name/simulate''),
      (AuthedAPI, ''GET'', ''/api/autogen/proposals''), (AuthedAPI, ''POST'', ''/api/autogen/proposals/:id/approve''),
      (AuthedAPI, ''POST'', ''/api/autogen/proposals/:id/reject'')]"

definition call_route :: "api_call \<Rightarrow> string \<times> string" where
  "call_route c = (case c of
      CHealth \<Rightarrow> (''GET'', ''/health'') | CLive \<Rightarrow> (''GET'', ''/live'') | CReady \<Rightarrow> (''GET'', ''/ready'')
    | COpenAPIJSON \<Rightarrow> (''GET'', ''/api/v1/openapi.json'') | COpenAPIYAML \<Rightarrow> (''GET'', ''/api/v1/openapi.yaml'')
    | CGetContainers \<Rightarrow> (''GET'', ''/api/containers'') | CGetContainer _ \<Rightarrow> (''GET'', ''/api/containers/:id'')
    | CApply _ \<Rightarrow> (''POST'', ''/api/containers/:id/apply'') | CDisable _ \<Rightarrow> (''POST'', ''/api/containers/:id/disable'')
    | CBulk _ \<Rightarrow> (''POST'', ''/api/containers/bulk'') | CGetRules \<Rightarrow> (''GET'', ''/api/rules'')
    | CGetProfiles \<Rightarrow> (''GET'', ''/api/rules/profiles'') | CGetStats \<Rightarrow> (''GET'', ''/api/stats'')
    | CGetPolicies \<Rightarrow> (''GET'', ''/api/policies'') | CValidate _ \<Rightarrow> (''POST'', ''/api/policies/validate'')
    | CGetPolicy _ \<Rightarrow> (''GET'', ''/api/policies/:name'') | CWritePolicy _ _ \<Rightarrow> (''PUT'', ''/api/policies/:name'')
    | CSimulate _ _ \<Rightarrow> (''POST'', ''/api/policies/:name/simulate'') | CGetProposals \<Rightarrow> (''GET'', ''/api/autogen/proposals'')
    | CApprove _ _ \<Rightarrow> (''POST'', ''/api/autogen/proposals/:id/approve'') | CReject _ _ \<Rightarrow> (''POST'', ''/api/autogen/proposals/:id/reject''))"

definition call_method :: "api_call \<Rightarrow> string" where
  "call_method c = fst (call_route c)"

definition call_group :: "api_call \<Rightarrow> route_group option" where
  "call_group c = map_option fst (find (\<lambda>(_, m, path). (m, path) = call_route c) registerRoutes)"

definition handleHealth :: "('k, 's) api_handler" where
  "handleHealth env srv = (ApiJSON 200 (VHealth ''ok'' (c_Version (sv_cfg srv)) []), srv)"

definition handleReady :: "('k, 's) api_handler" where
  "handleReady env srv =
     (case w_containers (de_world env) of
        Inl err \<Rightarrow> (ApiJSON 503 (VHealth ''not ready'' [] err), srv)
      | Inr _ \<Rightarrow> (ApiJSON 200 (VHealth ''ready'' [] []), srv))"

definition handleGetProfiles :: "('k, 's) api_handler" where
  "handleGetProfiles env srv =
     (ApiJSON 200 (VProfiles [(''web'', ''Allow HTTP/HTTPS from everywhere''), (''internal'', ''Allow traffic from RFC1918 only''),
        (''custom'', ''No preset rules'')]), srv)"

text \<open>The two API documents are files the build embeds; the response names which one is sent.\<close>

definition handleOpenAPI :: "string \<Rightarrow> ('k, 's) api_handler" where
  "handleOpenAPI format env srv = (ApiJSON 200 (VOpenAPI format), srv)"

definition serve_call :: "policy_lib \<Rightarrow> api_call \<Rightarrow> ('k, 's) api_handler" where
  "serve_call lib c = (case c of
      CHealth \<Rightarrow> handleHealth
    | CLive \<Rightarrow> handleHealth
    | CReady \<Rightarrow> handleReady
    | COpenAPIJSON \<Rightarrow> handleOpenAPI ''json''
    | COpenAPIYAML \<Rightarrow> handleOpenAPI ''yaml''
    | CGetContainers \<Rightarrow> handleGetContainers
    | CGetContainer cid \<Rightarrow> handleGetContainer cid
    | CApply cid \<Rightarrow> handleApplyContainer cid
    | CDisable cid \<Rightarrow> handleDisableContainer cid
    | CBulk body \<Rightarrow> handleBulkContainers body
    | CGetRules \<Rightarrow> handleGetRules
    | CGetProfiles \<Rightarrow> handleGetProfiles
    | CGetStats \<Rightarrow> handleGetStats
    | CGetPolicies \<Rightarrow> handleGetPolicies
    | CValidate body \<Rightarrow> handleValidatePolicy lib body
    | CGetPolicy name \<Rightarrow> handleGetPolicy name
    | CWritePolicy name body \<Rightarrow> handleWritePolicy lib name body
    | CSimulate name req \<Rightarrow> handleSimulatePolicy lib name req
    | CGetProposals \<Rightarrow> handleGetAutogenProposals
    | CApprove cid mode \<Rightarrow> handleApproveAutogen cid mode
    | CReject cid reason \<Rightarrow> handleRejectAutogen cid reason)"

record api_http =
  ah_Header :: "string \<Rightarrow> string"
  ah_Host :: string
  ah_ClientIP :: string
  ah_PeerUID :: "int option"

section \<open>Middleware\<close>

definition tp_authorized :: "string \<Rightarrow> string \<Rightarrow> string option" where
  "tp_authorized expected header =
     (if expected = [] then None
      else if \<not> strings_HasPrefix header ''Bearer '' then Some ''missing bearer token''
      else if strings_TrimSpace (drop 7 header) \<noteq> expected then Some ''invalid bearer token''
      else None)"

definition authBearerDynamic :: "string \<Rightarrow> api_http \<Rightarrow> api_response option" where
  "authBearerDynamic expected h =
     (case tp_authorized expected (ah_Header h ''Authorization'') of
        None \<Rightarrow> None | Some e \<Rightarrow> Some (ApiError 401 e [] []))"

definition safe_method :: "string \<Rightarrow> bool" where
  "safe_method m \<longleftrightarrow> m \<in> {''GET'', ''HEAD'', ''OPTIONS''}"

definition allowed_origin :: "string list \<Rightarrow> string \<Rightarrow> bool" where
  "allowed_origin allowedOrigins v \<longleftrightarrow> strings_ToLower v \<in> set (map strings_ToLower allowedOrigins)"

definition csrfOriginGuard :: "(string \<Rightarrow> string option) \<Rightarrow> string list \<Rightarrow> string \<Rightarrow> api_http \<Rightarrow> api_response option" where
  "csrfOriginGuard url_Host allowedOrigins meth h =
     (let origin = ah_Header h ''Origin''; ref = ah_Header h ''Referer'';
          same = (\<lambda>u. case url_Host u of None \<Rightarrow> False | Some host \<Rightarrow> strings_EqualFold host (ah_Host h));
          blocked = Some (ApiError 403 ''cross-origin request blocked'' [] []) in
      if safe_method meth then None
      else if origin = [] then
        (if ref = [] \<or> same ref \<or> allowed_origin allowedOrigins ref then None else blocked)
      else if url_Host origin = None then Some (ApiError 403 ''invalid Origin'' [] [])
      else if same origin \<or> allowed_origin allowedOrigins origin then None else blocked)"

definition peerCredAllow :: "int list \<Rightarrow> string \<Rightarrow> api_http \<Rightarrow> api_response option" where
  "peerCredAllow allowed listenAddr h =
     (if allowed = [] \<or> \<not> strings_HasPrefix listenAddr ''unix://'' then None
      else (case ah_PeerUID h of
              None \<Rightarrow> None
            | Some uid \<Rightarrow> if uid \<in> set allowed then None else Some (ApiError 403 ''peer uid not allowed'' [] [])))"

section \<open>The rate limiter\<close>

record 'l rate_lib =
  lim_new :: 'l
  lim_Allow :: "gotime \<Rightarrow> 'l \<Rightarrow> bool \<times> 'l"

type_synonym 'l rateLimiter = "(string \<times> 'l \<times> gotime) list"

definition rl_allow :: "'l rate_lib \<Rightarrow> gotime \<Rightarrow> string \<Rightarrow> 'l rateLimiter \<Rightarrow> bool \<times> 'l rateLimiter" where
  "rl_allow rlib now key buckets =
     (let lim = (case map_of buckets key of None \<Rightarrow> lim_new rlib | Some (l, _) \<Rightarrow> l);
          (ok, lim1) = lim_Allow rlib now lim
      in (ok, filter (\<lambda>(_, _, seen). \<not> 10 * 60 * 1000000000 < now - seen) (AList.update key (lim1, now) buckets)))"

definition rl_middleware :: "'l rate_lib \<Rightarrow> gotime \<Rightarrow> string \<Rightarrow> api_http \<Rightarrow> 'l rateLimiter option \<Rightarrow> api_response option \<times> 'l rateLimiter option" where
  "rl_middleware rlib now meth h rl =
     (case rl of
        None \<Rightarrow> (None, None)
      | Some buckets \<Rightarrow>
          (if safe_method meth then (None, Some buckets)
           else
             (let auth = ah_Header h ''Authorization''; key = (if auth = [] then ah_ClientIP h else auth);
                  (ok, buckets1) = rl_allow rlib now key buckets
              in (if ok then None else Some (ApiError 429 ''rate limit exceeded'' [] []), Some buckets1))))"

section \<open>The server\<close>

record ('k, 's, 'l) agent_http =
  ag_server :: "('k, 's) api_server"
  ag_apiToken :: string
  ag_metricsToken :: string
  ag_limiter :: "'l rateLimiter option"

definition agent_NewServer :: "('k, 's) api_server \<Rightarrow> bool \<Rightarrow> ('k, 's, 'l) agent_http" where
  "agent_NewServer srv limited =
     \<lparr>ag_server = srv, ag_apiToken = c_APIToken (sv_cfg srv),
      ag_metricsToken = (if c_MetricsToken (sv_cfg srv) = [] then c_APIToken (sv_cfg srv) else c_MetricsToken (sv_cfg srv)),
      ag_limiter = (if limited then Some [] else None)\<rparr>"

definition authedAPI_group ::
  "'l rate_lib \<Rightarrow> (string \<Rightarrow> string option) \<Rightarrow> gotime \<Rightarrow> string \<Rightarrow> api_http \<Rightarrow> ('k, 's, 'l) agent_http
   \<Rightarrow> api_response option \<times> 'l rateLimiter option" where
  "authedAPI_group rlib url_Host now meth h a =
     (case authBearerDynamic (ag_apiToken a) h of
        Some resp \<Rightarrow> (Some resp, ag_limiter a)
      | None \<Rightarrow>
          (case csrfOriginGuard url_Host (c_AllowedOrigins (sv_cfg (ag_server a))) meth h of
             Some resp \<Rightarrow> (Some resp, ag_limiter a)
           | None \<Rightarrow> rl_middleware rlib now meth h (ag_limiter a)))"

definition serve_api ::
  "'l rate_lib \<Rightarrow> (string \<Rightarrow> string option) \<Rightarrow> policy_lib \<Rightarrow> dispatch_env \<Rightarrow> api_http \<Rightarrow> api_call
   \<Rightarrow> ('k, 's, 'l) agent_http \<Rightarrow> api_response \<times> ('k, 's, 'l) agent_http" where
  "serve_api rlib url_Host lib env h c a =
     (let cfg = sv_cfg (ag_server a) in
      case peerCredAllow (c_AllowedUIDs cfg) (c_ListenAddr cfg) h of
        Some resp \<Rightarrow> (resp, a)
      | None \<Rightarrow>
          (case call_group c of
             None \<Rightarrow> (ApiError 404 ''404 page not found'' [] [], a)
           | Some g \<Rightarrow>
               (case (case g of Root \<Rightarrow> (None, ag_limiter a)
                       | AuthedAPI \<Rightarrow> authedAPI_group rlib url_Host (de_now env) (call_method c) h a) of
                  (Some resp, rl) \<Rightarrow> (resp, a\<lparr>ag_limiter := rl\<rparr>)
                | (None, rl) \<Rightarrow>
                    (case serve_call lib c env (ag_server a) of
                       (resp, srv) \<Rightarrow> (resp, a\<lparr>ag_server := srv, ag_limiter := rl\<rparr>)))))"

text \<open>
  The callback on a change of the token file: the text of the file, or a read error. \<open>sha256_hex\<close> is the digest in
  hexadecimal digits.
\<close>

definition Fingerprint :: "(string \<Rightarrow> string) \<Rightarrow> string \<Rightarrow> string" where
  "Fingerprint sha256_hex t = (if t = [] then [] else take 16 (sha256_hex t))"

definition reload_token :: "(string \<Rightarrow> string) \<Rightarrow> string + string \<Rightarrow> ('k, 's, 'l) agent_http \<Rightarrow> ('k, 's, 'l) agent_http" where
  "reload_token sha256_hex data a =
     (case data of
        Inl _ \<Rightarrow> a
      | Inr text0 \<Rightarrow>
          (let newToken = strings_TrimSpace text0 in
           if newToken = [] then a
           else if newToken = ag_apiToken a then a
           else a\<lparr>ag_apiToken := newToken, ag_metricsToken := newToken,
                  ag_server := api_audit (AuditTokenRotated (Fingerprint sha256_hex newToken)) (ag_server a)\<rparr>))"

section \<open>Checks at startup\<close>

definition last_colon :: "string \<Rightarrow> nat option" where
  "last_colon s = (case filter (\<lambda>i. s ! i = CHR '':'') [0..<length s] of [] \<Rightarrow> None | is \<Rightarrow> Some (last is))"

definition net_SplitHostPort :: "string \<Rightarrow> (string \<times> string) option" where
  "net_SplitHostPort hp =
     (case last_colon hp of
        None \<Rightarrow> None
      | Some i \<Rightarrow>
          (let part =
             (if hd hp = CHR ''['' then
                (case strings_Index hp CHR '']'' of
                   None \<Rightarrow> None
                 | Some e \<Rightarrow> if Suc e = i then Some (take (e - 1) (tl hp), 1, Suc e) else None)
              else if CHR '':'' \<in> set (take i hp) then None else Some (take i hp, 0, 0))
           in case part of
                None \<Rightarrow> None
              | Some (host, j, k) \<Rightarrow>
                  (if CHR ''['' \<in> set (drop j hp) \<or> CHR '']'' \<in> set (drop k hp) then None
                   else Some (host, drop (Suc i) hp))))"

definition hostport_host :: "string \<Rightarrow> string" where
  "hostport_host hp = (case net_SplitHostPort hp of None \<Rightarrow> hp | Some (host, _) \<Rightarrow> host)"

definition IsLoopback :: "ip \<Rightarrow> bool" where
  "IsLoopback p = (case To4 p of Some p4 \<Rightarrow> p4 ! 0 = 127 | None \<Rightarrow> p = replicate 15 0 @ [1])"

definition isLoopbackHostPort :: "string \<Rightarrow> bool" where
  "isLoopbackHostPort hp =
     (let host = hostport_host hp in
      if host = [] then False
      else if host = ''localhost'' then True
      else (case net_ParseIP host of None \<Rightarrow> False | Some p \<Rightarrow> IsLoopback p))"

definition privateRanges :: "(string \<times> IPNet) list" where
  "privateRanges = map (\<lambda>s. (s, case net_ParseCIDR s of Some n \<Rightarrow> n | None \<Rightarrow> \<lparr>net_IP = [], net_Mask = []\<rparr>))
     [''10.0.0.0/8'', ''172.16.0.0/12'', ''192.168.0.0/16'', ''fc00::/7'']"

definition matchPrivateRange :: "string \<Rightarrow> string option" where
  "matchPrivateRange hp =
     (let host = hostport_host hp in
      if host = [] then None
      else (case net_ParseIP host of
              None \<Rightarrow> None
            | Some p \<Rightarrow> map_option fst (find (\<lambda>(_, n). IPNet_Contains n p) privateRanges)))"

definition validateMetricsListener :: "Config \<Rightarrow> string \<Rightarrow> bool" where
  "validateMetricsListener cfg metricsToken =
     (let addr = c_MetricsListenAddr cfg in
      if strings_HasPrefix addr ''unix://'' then True
      else
        (let hostport = strings_TrimPrefix addr ''tcp://'' in
         if metricsToken = [] then False
         else if isLoopbackHostPort hostport then True
         else if c_MetricsTLSCert cfg \<noteq> [] \<and> c_MetricsTLSKey cfg \<noteq> [] then True
         else c_MetricsAllowPrivate cfg \<and> matchPrivateRange hostport \<noteq> None))"

definition validateSecurityConfig :: "Config \<Rightarrow> string \<Rightarrow> bool" where
  "validateSecurityConfig cfg metricsToken =
     (if \<not> strings_HasPrefix (c_ListenAddr cfg) ''unix://'' \<and> c_APIToken cfg = [] then False
      else if c_MetricsListenAddr cfg = [] then True
      else validateMetricsListener cfg metricsToken)"

section \<open>The running agent\<close>

inductive agent_running :: "Config \<Rightarrow> ('k, 's, 'l) agent_http \<Rightarrow> bool" where
  run_start: "validateSecurityConfig (sv_cfg srv) (ag_metricsToken (agent_NewServer srv limited :: ('k, 's, 'l) agent_http)) \<Longrightarrow>
    agent_running (sv_cfg srv) (agent_NewServer srv limited)"
| run_request: "agent_running cfg a \<Longrightarrow> serve_api rlib url_Host lib env h c a = (resp, a') \<Longrightarrow> agent_running cfg a'"
| run_reload: "agent_running cfg a \<Longrightarrow> agent_running cfg (reload_token sha256_hex data a)"

inductive_cases agent_runningE: "agent_running cfg a"

lemma call_group_cases:
  "call_group c = Some (if c \<in> {CHealth, CLive, CReady, COpenAPIJSON, COpenAPIYAML} then Root else AuthedAPI)"
  by (cases c) (simp_all add: call_group_def call_route_def registerRoutes_def)

lemma root_routes_read: "call_group c = Some Root \<Longrightarrow> snd (serve_call lib c env srv) = srv"
  by (auto simp: call_group_cases serve_call_def handleHealth_def handleReady_def handleOpenAPI_def split: if_splits sum.split)

lemma serve_api_cases:
  assumes "serve_api rlib url_Host lib env h c a = (resp, a')"
  obtains (same) "ag_server a' = ag_server a" "ag_apiToken a' = ag_apiToken a"
  | (passed) "authBearerDynamic (ag_apiToken a) h = None"
      "csrfOriginGuard url_Host (c_AllowedOrigins (sv_cfg (ag_server a))) (call_method c) h = None"
      "ag_apiToken a' = ag_apiToken a"
proof -
  let ?cfg = "sv_cfg (ag_server a)"
  obtain g where g: "call_group c = Some g" using call_group_cases by blast
  obtain stop rl where rl: "(case g of Root \<Rightarrow> (None, ag_limiter a)
      | AuthedAPI \<Rightarrow> authedAPI_group rlib url_Host (de_now env) (call_method c) h a) = (stop, rl)" by fastforce
  obtain r srv where sc: "serve_call lib c env (ag_server a) = (r, srv)" by fastforce
  have a': "a' \<in> {a, a\<lparr>ag_limiter := rl\<rparr>} \<or> (stop = None \<and> a' = a\<lparr>ag_server := srv, ag_limiter := rl\<rparr>)"
    using assms g rl sc by (auto simp: serve_api_def Let_def split: option.splits)
  show ?thesis
  proof (cases "stop = None \<and> g = AuthedAPI")
    case True
    then have "authBearerDynamic (ag_apiToken a) h = None" "csrfOriginGuard url_Host (c_AllowedOrigins ?cfg) (call_method c) h = None"
      using rl by (auto simp: authedAPI_group_def split: option.splits)
    then show ?thesis using a' by (intro passed) auto
  next
    case False
    then have "stop = None \<Longrightarrow> srv = ag_server a" using g root_routes_read [of c lib env "ag_server a"] sc by (cases g) auto
    then show ?thesis using a' by (intro same) auto
  qed
qed

lemma running_token: "agent_running cfg a \<Longrightarrow> \<not> strings_HasPrefix (c_ListenAddr cfg) ''unix://'' \<Longrightarrow> ag_apiToken a \<noteq> []"
proof (induction rule: agent_running.induct)
  case (run_start srv limited)
  then show ?case by (auto simp: agent_NewServer_def validateSecurityConfig_def split: if_splits)
next
  case (run_request cfg a rlib url_Host lib env h c resp a')
  from run_request(2) run_request.IH [OF run_request.prems] show ?case by (cases rule: serve_api_cases) simp_all
next
  case (run_reload cfg a sha256_hex data)
  then show ?case by (auto simp: reload_token_def Let_def split: sum.splits)
qed

section \<open>Properties\<close>

text \<open>
  C40. An agent listening on TCP is guarded at every moment of its life: whatever requests it has served and however often its
  token file was rewritten, emptied or unreadable, a request that changes the engine, the policies, the proposals or the audit trail
  carries the current, non-empty token. If it is not a read, it passed the origin check: with an \<open>Origin\<close> header, that origin
  parses and has the host of the request or is an allowed origin; without one, the \<open>Referer\<close> has that host or is allowed, or
  there is no \<open>Referer\<close> either.
\<close>

theorem agent_api_guarded:
  assumes "agent_running cfg a" "\<not> strings_HasPrefix (c_ListenAddr cfg) ''unix://''"
    and "serve_api rlib url_Host lib env h c a = (resp, a')" "ag_server a' \<noteq> ag_server a"
  shows "ag_apiToken a \<noteq> [] \<and> strings_HasPrefix (ah_Header h ''Authorization'') ''Bearer ''
    \<and> strings_TrimSpace (drop 7 (ah_Header h ''Authorization'')) = ag_apiToken a
    \<and> (call_method c = ''GET''
      \<or> (let origin = (if ah_Header h ''Origin'' = [] then ah_Header h ''Referer'' else ah_Header h ''Origin'') in
          origin = []
          \<or> (\<exists>host. url_Host origin = Some host \<and> strings_EqualFold host (ah_Host h))
          \<or> (allowed_origin (c_AllowedOrigins (sv_cfg (ag_server a))) origin \<and> (ah_Header h ''Origin'' = [] \<or> url_Host origin \<noteq> None))))"
  using assms(3)
proof (cases rule: serve_api_cases)
  case same
  then show ?thesis using assms(4) by simp
next
  case passed
  have t: "ag_apiToken a \<noteq> []" using running_token [OF assms(1,2)] .
  have "safe_method (call_method c) \<longleftrightarrow> call_method c = ''GET''"
    by (auto simp: safe_method_def call_method_def call_route_def split: api_call.splits)
  then show ?thesis using passed(1,2) t
    by (auto simp: authBearerDynamic_def tp_authorized_def csrfOriginGuard_def Let_def split: option.splits if_splits)
qed

end
