(* ===== verification/Agent_Properties.thy ===== *)
theory Agent_Properties
  imports Agent_Security Engine_Properties
begin

text \<open>
  Properties of the agent across its components: commands of the control plane act on the engine within its
  invariant, decisions on learned proposals, and what an approved proposal amounts to once its policy is
  parsed, compiled and given to the iptables backend.
\<close>

section \<open>Approved policies in the firewall\<close>

definition inert :: "FirewallRuleSet \<Rightarrow> bool" where
  "inert rs \<longleftrightarrow> rs_Ports rs = [] \<or> (rs_Allowlist rs = [] \<and> rs_Blocklist rs = [])"

lemma inert_calls: "inert rs \<Longrightarrow> ruleset_calls rs [] = [(False, [''-j'', ''RETURN''])]"
  by (auto simp: inert_def ruleset_calls_def port_calls_def effective_allowlist_def Let_def)

lemma applyIn_ports_lists:
  "applyIn_ports rs vs = Inr rs' \<Longrightarrow> rs_Allowlist rs' = rs_Allowlist rs \<and> rs_Blocklist rs' = rs_Blocklist rs"
  by (induction rs vs rule: applyIn_ports.induct) (auto split: if_splits)

definition learned_expr :: "Expr \<Rightarrow> bool" where
  "learned_expr e \<longleftrightarrow> (\<exists>vs. e = InExpr ''port'' False vs) \<or> (\<exists>v. e = CompareExpr ''src_ip'' ''=='' v)"

lemma learned_inert:
  assumes "learned_expr e" "compileTerm n v ActionAllow i e = Inr rs"
  shows "inert rs"
proof -
  have f: "flattenAnd e = [e]" using assms(1) by (auto simp: learned_expr_def)
  have l: "strings_ToLower ''port'' = ''port''" "strings_ToLower ''src_ip'' = ''src_ip''"
    by (simp_all add: strings_ToLower_def to_lower_def)
  have b: "rs_Ports (term_ruleset n v ActionAllow i) = []" "rs_Allowlist (term_ruleset n v ActionAllow i) = []"
    "rs_Blocklist (term_ruleset n v ActionAllow i) = []" by (simp_all add: term_ruleset_def empty_ruleset_def)
  have a: "applyPredicate (term_ruleset n v ActionAllow i) e = Inr rs"
    using assms(2) by (auto simp: compileTerm_def f rbind_Inr_iff)
  from assms(1) show ?thesis
  proof (unfold learned_expr_def, elim disjE exE)
    fix vs assume "e = InExpr ''port'' False vs"
    then show ?thesis using a applyIn_ports_lists b by (fastforce simp: applyPredicate_def applyIn_def l inert_def)
  next
    fix x assume "e = CompareExpr ''src_ip'' ''=='' x"
    then show ?thesis using a b
      by (auto simp: applyPredicate_def applyCompare_def l inert_def add_net_def rbind_Inr_iff split: if_splits)
  qed
qed

lemma learned_rules_inert:
  "compile_loop pol out rs = Inr c \<Longrightarrow> \<forall>r \<in> set rs. RAction r = ActionAllow \<and> learned_expr (RExpr r) \<Longrightarrow>
   \<forall>s \<in> set (CRuleSets out). inert s \<Longrightarrow> \<forall>s \<in> set (CRuleSets c). inert s"
proof (induction pol out rs rule: compile_loop.induct)
  case (2 pol out r rs)
  obtain sets warns where cr: "compileRule (PName pol) (PVersion pol) r = Inr (sets, warns)"
    "compile_loop pol (out\<lparr>CWarnings := CWarnings out @ warns, CRuleSets := CRuleSets out @ sets\<rparr>) rs = Inr c"
    using 2(2) by (auto split: sum.splits)
  have l: "RAction r = ActionAllow" "learned_expr (RExpr r)" using 2(3) by auto
  have fo: "flattenOr (RExpr r) = [RExpr r]" using l(2) by (auto simp: learned_expr_def)
  then obtain s where "sets = [s]" "compileTerm (PName pol) (PVersion pol) ActionAllow 0 (RExpr r) = Inr s"
    using cr(1) l(1) by (auto simp: compileRule_def rbind_Inr_iff)
  then have "\<forall>s \<in> set sets. inert s" using learned_inert [OF l(2)] by auto
  then show ?case using 2(1) [OF cr(1) refl cr(2)] 2(3,4) by auto
qed simp

section \<open>Commands and the engine\<close>

lemma Dispatch_engine:
  "dp_Engine (snd (Dispatch env cmd d)) = dp_Engine d \<or> engine_step (dp_Engine d) (dp_Engine (snd (Dispatch env cmd d)))"
proof -
  have s: "dp_Engine (snd (Dispatch env cmd d)) = dp_Engine (snd (run_command env cmd d))"
    by (auto simp: Dispatch_def Let_def split: prod.splits sum.splits)
  have e: "dp_Engine (snd (on_engine env act d)) = snd (act (dp_Engine d))" for act
    by (auto simp: on_engine_def split: prod.splits option.splits)
  have o: "dp_Engine (snd (with_observer act d)) = dp_Engine d" for act
    by (auto simp: with_observer_def split: prod.splits option.splits sum.splits)
  have st: "engine_step g (snd (ApplyContainer w cid sr g))" "engine_step g (snd (RemoveContainer cid sr g))" "engine_step g (snd (Reconcile w sr g))"
    for w cid sr and g :: "'a Engine"
    by (rule step_apply [OF surjective_pairing] step_remove [OF surjective_pairing] step_reconcile [OF surjective_pairing])+
  show ?thesis unfolding s run_command_def by (auto simp: e o st)
qed

lemma commands_reachable:
  "engine_reachable (dp_Engine d) \<Longrightarrow> engine_reachable (dp_Engine (fold (\<lambda>(env, cmd) d. snd (Dispatch env cmd d)) cmds d))"
proof (induction cmds arbitrary: d)
  case (Cons x cmds)
  obtain env cmd where x: "x = (env, cmd)" by (cases x)
  have "engine_reachable (dp_Engine (snd (Dispatch env cmd d)))"
    using Dispatch_engine [of env cmd d] Cons.prems reach_step by auto
  from Cons.IH [OF this] show ?case by (simp add: x)
qed simp

definition demo_dispatch :: dispatch_env where
  "demo_dispatch = \<lparr>de_world = demo_world, de_now = 1, de_engine_text = (\<lambda>_. ''failed''), de_duration = (\<lambda>_. ''1s''), de_RFC3339 = (\<lambda>_. ''now''),
     de_itoa = (\<lambda>_. ''0''), de_print = (\<lambda>_. False)\<rparr>"

definition demo_command :: "string \<Rightarrow> Command" where
  "demo_command kind = \<lparr>cm_ID = ''c1'', cm_Kind = kind, cm_ContainerID = ''0123456789ab'', cm_Payload = [], cm_IssuedAt = 1\<rparr>"

definition demo_deps :: "'s Observer \<Rightarrow> ((string \<times> args list) list, 's) Deps" where
  "demo_deps obs = \<lparr>dp_Engine = demo_engine, dp_Docker = True, dp_Config = None, dp_Traffic = None, dp_Observer = Some obs, dp_Audit = None\<rparr>"

section \<open>Properties\<close>

text \<open>
  Whatever commands the control plane sends, in any order and with any answers of Docker and the file system, the books of
  the agent's engine stay consistent: no container or address is recorded twice, and an address belongs to a container
  whose rules are recorded as applied.
\<close>

theorem commands_keep_books:
  assumes "engine_reachable (dp_Engine d)"
  shows "let e = dp_Engine (fold (\<lambda>(env, cmd) d. snd (Dispatch env cmd d)) cmds d)
    in distinct (map fst (e_applied e)) \<and> distinct (map fst (e_containerIP e)) \<and> snd ` set (e_containerIP e) \<subseteq> fst ` set (e_applied e)"
  using engine_reachable_books_ok [OF commands_reachable [OF assms, of cmds]] by (simp add: books_ok_def applied_ids_def Let_def)

theorem commands_keep_books_witness:
  "distinct (map fst (e_applied (dp_Engine (snd (Dispatch demo_dispatch (demo_command CommandReconcile) (demo_deps (NewObserver 0)))))))"
proof -
  have "engine_reachable (dp_Engine (demo_deps (NewObserver 0)))"
    unfolding demo_deps_def demo_engine_def by (simp add: reach_new)
  from commands_keep_books [OF this, of "[(demo_dispatch, demo_command CommandReconcile)]"] show ?thesis by (simp add: Let_def)
qed

text \<open>
  An approval in policy mode changes nothing: every rule set the approved policy compiles to gives, without an automatic allowlist, the
  single rule that returns from its chain. A rule on ports has no sources and a rule on a source has no ports, and the backend
  emits a rule only for a port with a source.
\<close>

theorem approved_policy_inert:
  assumes "plain (pr_ContainerID p)" "list_all plain (pr_Peers p)"
    and "policy_Parse uni sha256_hex (proposalToPolicyDSL hi p) = Inr pols" "pol \<in> set pols" "policy_Compile pol = Inr c"
  shows "\<forall>rs \<in> set (CRuleSets c). ruleset_calls rs [] = [(False, [''-j'', ''RETURN''])]"
proof -
  have "pol = loaded sha256_hex (proposalToPolicyDSL hi p) (proposal_policy p)"
    using proposal_parses [OF assms(1,2), of uni sha256_hex hi] assms(3,4) by simp
  then have "\<forall>r \<in> set (PRules pol). RAction r = ActionAllow \<and> learned_expr (RExpr r)"
    by (auto simp: loaded_def proposal_policy_def learned_expr_def)
  then have "\<forall>s \<in> set (CRuleSets c). inert s"
    using learned_rules_inert [of pol "\<lparr>CPolicy = pol, CRuleSets = [], CWarnings = []\<rparr>" "PRules pol" c] assms(5)
    by (simp add: policy_Compile_def)
  then show ?thesis using inert_calls by blast
qed

theorem approved_policy_inert_witness:
  "\<exists>pol c. policy_Parse \<lparr>letter_above = \<lambda>_. False, digit_above = \<lambda>_. False\<rparr> (\<lambda>s. s)
      (proposalToPolicyDSL (\<lambda>_. False) \<lparr>pr_ContainerID = ''0123456789ab'', pr_Ports = [80], pr_Peers = [], pr_ObservedFor = [], pr_Confidence = []\<rparr>)
        = Inr [pol]
    \<and> policy_Compile pol = Inr c \<and> list_all (\<lambda>rs. ruleset_calls rs [] = [(False, [''-j'', ''RETURN''])]) (CRuleSets c)"
proof -
  let ?p = "\<lparr>pr_ContainerID = ''0123456789ab'', pr_Ports = [80], pr_Peers = [], pr_ObservedFor = [], pr_Confidence = []\<rparr>"
  let ?pol = "loaded (\<lambda>s. s) (proposalToPolicyDSL (\<lambda>_. False) ?p) (proposal_policy ?p)"
  have pl: "plain (pr_ContainerID ?p)" "list_all plain (pr_Peers ?p)" by (simp_all add: plain_def)
  note pa = proposal_parses [OF pl, of "\<lparr>letter_above = \<lambda>_. False, digit_above = \<lambda>_. False\<rparr>" "\<lambda>s. s" "\<lambda>_. False"]
  have "\<exists>c. policy_Compile ?pol = Inr c"
    by (simp add: policy_Compile_def loaded_def proposal_policy_def compileRule_def compileTerm_def applyPredicate_def applyIn_def num_value_def
        strings_ToLower_def to_lower_def Let_def)
  then obtain c where c: "policy_Compile ?pol = Inr c" ..
  have "?pol \<in> set [?pol]" by simp
  from approved_policy_inert [OF pl pa this c] pa c show ?thesis unfolding list_all_iff by blast
qed

text \<open>
  Remote decisions on what the agent has learned are not recorded unless somebody has listed the proposals through the agent's own API:
  after any flows, with the store in memory every approval and rejection sent by the control plane fails, and with the database
  the table of proposals stays empty, whatever the acknowledgement says.
\<close>

theorem remote_decisions_unrecorded:
  assumes "cm_Kind cmd \<in> {CommandAutogenApprove, CommandAutogenReject}"
    and "dp_Observer dm = Some (fold (\<lambda>(t, f). Record t f) flows (NewObserver t0))"
    and "dp_Observer ds = Some (fold (\<lambda>(t, f). Record t f) flows (NewObserverWithStore t0 (Some (autogen_sqlite flts, n, s))))"
    and "da_proposals s = []"
  shows "\<not> ca_Success (fst (Dispatch env cmd dm))
    \<and> (\<exists>obs n' s'. dp_Observer (snd (Dispatch env cmd ds)) = Some obs \<and> ob_store obs = Some (autogen_sqlite flts, n', s') \<and> da_proposals s' = [])"
proof -
  have k: "CommandAutogenApprove = ''autogen_approve''" "CommandAutogenReject = ''autogen_reject''"
    by (simp_all add: CommandAutogenApprove_def CommandAutogenReject_def)
  have run: "run_command env cmd d = with_observer (if cm_Kind cmd = CommandAutogenApprove then autogenApprove env (dp_Config d) cmd else autogenReject env cmd) d" for d
    using assms(1) by (auto simp: run_command_def CommandApply_def CommandDisable_def CommandReconcile_def CommandTokenRotate_def
        CommandStatsCollect_def k)
  have m: "mem_empty (fold (\<lambda>(t, f). Record t f) flows (NewObserver t0))" by (rule history_empty(1) [OF start_empty(1)])
  then have "\<exists>e obs'. (if cm_Kind cmd = CommandAutogenApprove then autogenApprove env (dp_Config dm) cmd else autogenReject env cmd)
      (fold (\<lambda>(t, f). Record t f) flows (NewObserver t0)) = (Inl e, obs')"
    using approve_empty(1) reject_empty(1) by simp
  then have 1: "\<not> ca_Success (fst (Dispatch env cmd dm))"
    using assms(2) by (auto simp: Dispatch_def Let_def run with_observer_def)
  let ?obs = "fold (\<lambda>(t, f). Record t f) flows (NewObserverWithStore t0 (Some (autogen_sqlite flts, n, s)))"
  obtain r obs' where a: "(if cm_Kind cmd = CommandAutogenApprove then autogenApprove env (dp_Config ds) cmd else autogenReject env cmd) ?obs = (r, obs')"
    by fastforce
  have o: "sql_empty flts ?obs" by (rule history_empty(2) [OF start_empty(2) [OF assms(4)]])
  have "sql_empty flts obs'"
    using a approve_empty(2) [OF o, of env "dp_Config ds" cmd] reject_empty(2) [OF o, of env cmd] by (auto split: if_splits)
  moreover have "dp_Observer (snd (Dispatch env cmd ds)) = Some obs'"
    using assms(3) a by (cases r) (auto simp: Dispatch_def Let_def run with_observer_def split: prod.splits)
  ultimately show ?thesis using 1 by (auto simp: sql_empty_def)
qed

theorem remote_decisions_unrecorded_witness:
  "\<not> ca_Success (fst (Dispatch demo_dispatch (demo_command CommandAutogenApprove) (demo_deps (NewObserver 0))))"
  using remote_decisions_unrecorded [of "demo_command CommandAutogenApprove" "demo_deps (NewObserver 0)" "[]" 0
      "demo_deps (NewObserverWithStore 0 (Some (autogen_sqlite (\<lambda>_ _. None), 0, \<lparr>da_schema = [], da_observations = [], da_proposals = []\<rparr>)))"
      "\<lambda>_ _. None" 0 "\<lparr>da_schema = [], da_observations = [], da_proposals = []\<rparr>" demo_dispatch]
  by (simp add: demo_command_def demo_deps_def)

definition demo_http_config :: Config where
  "demo_http_config = demo_config\<lparr>c_ListenAddr := ''127.0.0.1:8080'', c_APIToken := ''t'', c_MetricsListenAddr := [], c_AllowedUIDs := []\<rparr>"

definition demo_api :: "((string \<times> args list) list, unit) api_server" where
  "demo_api = \<lparr>sv_cfg = demo_http_config, sv_engine = demo_engine, sv_traffic = NewTrafficStore,
     sv_autogen = Some \<lparr>ob_win = [], ob_start = 0, ob_store = None\<rparr>, sv_audit = Some [], sv_policies = []\<rparr>"

definition demo_request :: api_http where
  "demo_request = \<lparr>ah_Header = (\<lambda>h. if h = ''Authorization'' then ''Bearer t'' else []), ah_Host = ''host'', ah_ClientIP = ''10.0.0.1'', ah_PeerUID = None\<rparr>"

theorem agent_api_guarded_witness:
  "\<exists>resp a'. serve_api \<lparr>lim_new = (), lim_Allow = \<lambda>_ _. (True, ())\<rparr> (\<lambda>_. None) \<lparr>pq_uni = \<lparr>letter_above = \<lambda>_. False, digit_above = \<lambda>_. False\<rparr>,
        pq_sha256 = \<lambda>s. s, pq_parse_text = \<lambda>_. [], pq_compile_text = \<lambda>_. []\<rparr> demo_dispatch demo_request (CReject ''0123456789ab'' [])
        (agent_NewServer demo_api False) = (resp, a')
     \<and> ag_server a' \<noteq> ag_server (agent_NewServer demo_api False :: (mem, unit, unit) agent_http)
     \<and> strings_TrimSpace (drop 7 (ah_Header demo_request ''Authorization'')) = ag_apiToken (agent_NewServer demo_api False :: (mem, unit, unit) agent_http)"
proof -
  let ?a = "agent_NewServer demo_api False :: (mem, unit, unit) agent_http"
  let ?serve = "serve_api \<lparr>lim_new = (), lim_Allow = \<lambda>_ _. (True, ())\<rparr> (\<lambda>_. None) \<lparr>pq_uni = \<lparr>letter_above = \<lambda>_. False, digit_above = \<lambda>_. False\<rparr>,
        pq_sha256 = \<lambda>s. s, pq_parse_text = \<lambda>_. [], pq_compile_text = \<lambda>_. []\<rparr> demo_dispatch demo_request (CReject ''0123456789ab'' []) ?a"
  have cfg: "sv_cfg demo_api = demo_http_config" "c_AllowedUIDs demo_http_config = []" "c_APIToken demo_http_config = ''t''"
    "c_ListenAddr demo_http_config = ''127.0.0.1:8080''" "c_MetricsListenAddr demo_http_config = []"
    by (simp_all add: demo_api_def demo_http_config_def)
  have ts: "strings_TrimSpace ''t'' = ''t''" by (simp add: strings_TrimSpace_no_space is_space_def)
  have srv: "ag_server ?a = demo_api" "ag_apiToken ?a = ''t''" "ag_limiter ?a = None" by (simp_all add: agent_NewServer_def cfg)
  have call: "serve_call \<lparr>pq_uni = \<lparr>letter_above = \<lambda>_. False, digit_above = \<lambda>_. False\<rparr>,
        pq_sha256 = \<lambda>s. s, pq_parse_text = \<lambda>_. [], pq_compile_text = \<lambda>_. []\<rparr> (CReject ''0123456789ab'' []) demo_dispatch demo_api
      = (ApiNoContent, api_audit (AuditAutogenRejected ''0123456789ab'' [] [] ''api'') demo_api)"
    by (simp add: serve_call_def handleRejectAutogen_def mark_proposal_def demo_api_def)
  have r: "?serve = (ApiNoContent, ?a\<lparr>ag_server := api_audit (AuditAutogenRejected ''0123456789ab'' [] [] ''api'') demo_api, ag_limiter := None\<rparr>)"
    by (simp add: serve_api_def Let_def srv cfg peerCredAllow_def call_group_cases authedAPI_group_def authBearerDynamic_def tp_authorized_def
        demo_request_def strings_HasPrefix_def ts csrfOriginGuard_def rl_middleware_def call)
  have "sv_audit (api_audit (AuditAutogenRejected ''0123456789ab'' [] [] ''api'') demo_api) \<noteq> sv_audit demo_api"
    by (simp add: api_audit_def demo_api_def)
  then have ne: "ag_server (snd ?serve) \<noteq> ag_server ?a" unfolding r srv by auto
  have "agent_running demo_http_config ?a"
    using run_start [of demo_api False] by (simp add: cfg validateSecurityConfig_def)
  moreover have "\<not> strings_HasPrefix (c_ListenAddr demo_http_config) ''unix://''" by (simp add: cfg strings_HasPrefix_def)
  moreover obtain resp a' where sp: "?serve = (resp, a')" by fastforce
  moreover have "ag_server a' \<noteq> ag_server ?a" using ne sp by simp
  ultimately show ?thesis using agent_api_guarded [of demo_http_config ?a] by metis
qed

end
