(* ===== verification/Log_Stream.thy ===== *)
theory Log_Stream
  imports Go_Prelude "HOL-Library.AList" "HOL-Library.Sublist"
begin

text \<open>
  The log hub of the agent, \<open>backend/internal/logstream/hub.go\<close>: log lines are handed to every subscribed client through
  bounded channels, and what a slow client misses is counted and reported to it.

  A channel is the list of the values in it. The clients are numbered in the order of their creation. Each arm of the
  \<open>select\<close> in \<open>Run\<close> is an operation; which arm is taken is not determined, so a run is any sequence of operations. The
  control messages are values instead of their JSON texts. Counters do not overflow.
\<close>

section \<open>Clients\<close>

datatype frame = Line_msg string | Control_msg string nat

record ls_Client =
  cl_send :: "frame list"
  cl_drop :: nat
  cl_closed :: bool

definition sendBuffer :: nat where "sendBuffer = 64"

definition new_client :: ls_Client where
  "new_client = \<lparr>cl_send = [], cl_drop = 0, cl_closed = False\<rparr>"

text \<open>The body of the loop over the clients for one line.\<close>

definition report_drops :: "ls_Client \<Rightarrow> ls_Client" where
  "report_drops c =
     (if 0 < cl_drop c then
        (if length (cl_send c) < sendBuffer
         then c\<lparr>cl_send := cl_send c @ [Control_msg ''dropped'' (cl_drop c)], cl_drop := 0\<rparr>
         else c)
      else c)"

definition deliver :: "string \<Rightarrow> ls_Client \<Rightarrow> ls_Client" where
  "deliver m c0 =
     (let c = report_drops c0 in
      if length (cl_send c) < sendBuffer then c\<lparr>cl_send := cl_send c @ [Line_msg m]\<rparr>
      else c\<lparr>cl_drop := cl_drop c + 1\<rparr>)"

section \<open>The hub\<close>

record ls_Hub =
  lh_clients :: "nat list"
  lh_state :: "ls_Client list"
  lh_broadcast :: "string list"
  lh_register :: "nat list"
  lh_unregister :: "nat list"

definition NewHub :: ls_Hub where
  "NewHub = \<lparr>lh_clients = [], lh_state = [], lh_broadcast = [], lh_register = [], lh_unregister = []\<rparr>"

definition add_client :: "nat \<Rightarrow> ls_Hub \<Rightarrow> ls_Hub" where
  "add_client c h = h\<lparr>lh_clients := List.insert c (lh_clients h)\<rparr>"

definition drop_client :: "nat \<Rightarrow> ls_Hub \<Rightarrow> ls_Hub" where
  "drop_client c h =
     (if c \<in> set (lh_clients h)
      then h\<lparr>lh_clients := removeAll c (lh_clients h), lh_state := (lh_state h)[c := (lh_state h ! c)\<lparr>cl_closed := True\<rparr>]\<rparr>
      else h)"

definition run_register :: "ls_Hub \<Rightarrow> ls_Hub" where
  "run_register h = (case lh_register h of [] \<Rightarrow> h | c # cs \<Rightarrow> add_client c (h\<lparr>lh_register := cs\<rparr>))"

definition run_unregister :: "ls_Hub \<Rightarrow> ls_Hub" where
  "run_unregister h = (case lh_unregister h of [] \<Rightarrow> h | c # cs \<Rightarrow> drop_client c (h\<lparr>lh_unregister := cs\<rparr>))"

definition run_broadcast :: "ls_Hub \<Rightarrow> ls_Hub" where
  "run_broadcast h =
     (case lh_broadcast h of
        [] \<Rightarrow> h
      | m # ms \<Rightarrow> h\<lparr>lh_broadcast := ms,
          lh_state := map (\<lambda>i. if i \<in> set (lh_clients h) then deliver m (lh_state h ! i) else lh_state h ! i) [0..<length (lh_state h)]\<rparr>)"

definition say_goodbye :: "ls_Client \<Rightarrow> ls_Client" where
  "say_goodbye c =
     (if length (cl_send c) < sendBuffer then c\<lparr>cl_send := cl_send c @ [Control_msg ''server_shutdown'' 0], cl_closed := True\<rparr>
      else c\<lparr>cl_closed := True\<rparr>)"

definition sendShutdown :: "ls_Hub \<Rightarrow> ls_Hub" where
  "sendShutdown h = h\<lparr>lh_clients := [],
     lh_state := map (\<lambda>i. if i \<in> set (lh_clients h) then say_goodbye (lh_state h ! i) else lh_state h ! i) [0..<length (lh_state h)]\<rparr>"

definition Broadcast :: "string \<Rightarrow> ls_Hub \<Rightarrow> ls_Hub" where
  "Broadcast m h = (if length (lh_broadcast h) < 256 then h\<lparr>lh_broadcast := lh_broadcast h @ [m]\<rparr> else h)"

definition ls_Subscribe :: "ls_Hub \<Rightarrow> nat \<times> ls_Hub" where
  "ls_Subscribe h =
     (let c = length (lh_state h); h1 = h\<lparr>lh_state := lh_state h @ [new_client]\<rparr>
      in (c, if length (lh_register h1) < 16 then h1\<lparr>lh_register := lh_register h1 @ [c]\<rparr> else add_client c h1))"

definition ls_Unsubscribe :: "nat \<Rightarrow> ls_Hub \<Rightarrow> ls_Hub" where
  "ls_Unsubscribe c h =
     (if length (lh_unregister h) < 16 then h\<lparr>lh_unregister := lh_unregister h @ [c]\<rparr> else drop_client c h)"

text \<open>A client takes the next frame out of its channel.\<close>

definition take_frame :: "nat \<Rightarrow> ls_Hub \<Rightarrow> frame option \<times> ls_Hub" where
  "take_frame c h =
     (case cl_send (lh_state h ! c) of
        [] \<Rightarrow> (None, h)
      | f # fs \<Rightarrow> (Some f, h\<lparr>lh_state := (lh_state h)[c := (lh_state h ! c)\<lparr>cl_send := fs\<rparr>]\<rparr>))"

section \<open>Runs\<close>

inductive hub_step :: "ls_Hub \<Rightarrow> ls_Hub \<Rightarrow> bool" where
  hs_register: "hub_step h (run_register h)"
| hs_unregister: "hub_step h (run_unregister h)"
| hs_broadcast: "hub_step h (run_broadcast h)"
| hs_send: "hub_step h (Broadcast m h)"
| hs_subscribe: "hub_step h (snd (ls_Subscribe h))"
| hs_unsubscribe: "c < length (lh_state h) \<Longrightarrow> hub_step h (ls_Unsubscribe c h)"
| hs_take: "c < length (lh_state h) \<Longrightarrow> hub_step h (snd (take_frame c h))"
| hs_shutdown: "hub_step h (sendShutdown h)"

inductive hub_reachable :: "ls_Hub \<Rightarrow> bool" where
  hr_new: "hub_reachable NewHub"
| hr_step: "hub_reachable h \<Longrightarrow> hub_step h h' \<Longrightarrow> hub_reachable h'"

definition hub_ok :: "ls_Hub \<Rightarrow> bool" where
  "hub_ok h \<longleftrightarrow> distinct (lh_clients h) \<and> (\<forall>c \<in> set (lh_clients h). c < length (lh_state h) \<and> \<not> cl_closed (lh_state h ! c))
     \<and> set (lh_register h) \<subseteq> {..<length (lh_state h)} \<and> distinct (lh_register h)
     \<and> (\<forall>c \<in> set (lh_register h). \<not> cl_closed (lh_state h ! c) \<and> c \<notin> set (lh_clients h))
     \<and> set (lh_unregister h) \<subseteq> {..<length (lh_state h)}
     \<and> (\<forall>c < length (lh_state h). length (cl_send (lh_state h ! c)) \<le> sendBuffer)
     \<and> length (lh_broadcast h) \<le> 256 \<and> length (lh_register h) \<le> 16 \<and> length (lh_unregister h) \<le> 16"

lemma deliver_view: "cl_closed (deliver m c) = cl_closed c" "length (cl_send c) \<le> sendBuffer \<Longrightarrow> length (cl_send (deliver m c)) \<le> sendBuffer"
  by (auto simp: deliver_def report_drops_def Let_def)

lemma goodbye_view: "length (cl_send c) \<le> sendBuffer \<Longrightarrow> length (cl_send (say_goodbye c)) \<le> sendBuffer"
  by (auto simp: say_goodbye_def)

lemma ok_add:
  assumes "hub_ok h" "lh_register h = c # cs"
  shows "hub_ok (add_client c (h\<lparr>lh_register := cs\<rparr>))"
  using assms by (auto simp: hub_ok_def add_client_def List.insert_def)

lemma ok_drop: "hub_ok h \<Longrightarrow> hub_ok (drop_client c h)"
  by (auto simp: hub_ok_def drop_client_def nth_list_update distinct_removeAll)

lemma ok_register: "hub_ok h \<Longrightarrow> hub_ok (run_register h)"
  using ok_add by (auto simp: run_register_def split: list.splits)

lemma ok_unregister: "hub_ok h \<Longrightarrow> hub_ok (run_unregister h)"
proof -
  assume ok: "hub_ok h"
  have "hub_ok (h\<lparr>lh_unregister := cs\<rparr>)" if "lh_unregister h = c # cs" for c cs using ok that by (auto simp: hub_ok_def)
  then show ?thesis using ok ok_drop by (auto simp: run_unregister_def split: list.splits)
qed

lemma ok_broadcast: "hub_ok h \<Longrightarrow> hub_ok (run_broadcast h)"
  by (auto simp: hub_ok_def run_broadcast_def deliver_view split: list.splits)

lemma ok_shutdown: "hub_ok h \<Longrightarrow> hub_ok (sendShutdown h)"
  by (auto simp: hub_ok_def sendShutdown_def goodbye_view)

lemma ok_send: "hub_ok h \<Longrightarrow> hub_ok (Broadcast m h)"
  by (auto simp: hub_ok_def Broadcast_def)

lemma ok_subscribe: "hub_ok h \<Longrightarrow> hub_ok (snd (ls_Subscribe h))"
proof -
  assume ok: "hub_ok h"
  let ?c = "length (lh_state h)" and ?h1 = "h\<lparr>lh_state := lh_state h @ [new_client]\<rparr>"
  have o1: "hub_ok ?h1" using ok by (auto simp: hub_ok_def nth_append new_client_def)
  have n: "?c \<notin> set (lh_clients h)" "?c \<notin> set (lh_register h)" using ok by (auto simp: hub_ok_def)
  have "hub_ok (?h1\<lparr>lh_register := lh_register h @ [?c]\<rparr>)" if "length (lh_register h) < 16"
    using o1 n that by (auto simp: hub_ok_def new_client_def)
  moreover have "hub_ok (add_client ?c ?h1)" using o1 n by (auto simp: hub_ok_def add_client_def new_client_def)
  ultimately show ?thesis by (simp add: ls_Subscribe_def Let_def)
qed

lemma ok_unsubscribe: "hub_ok h \<Longrightarrow> c < length (lh_state h) \<Longrightarrow> hub_ok (ls_Unsubscribe c h)"
proof -
  assume ok: "hub_ok h" "c < length (lh_state h)"
  then have "hub_ok (h\<lparr>lh_unregister := lh_unregister h @ [c]\<rparr>)" if "length (lh_unregister h) < 16" using that by (auto simp: hub_ok_def)
  then show ?thesis using ok_drop [OF ok(1)] by (simp add: ls_Unsubscribe_def)
qed

lemma ok_take: "hub_ok h \<Longrightarrow> c < length (lh_state h) \<Longrightarrow> hub_ok (snd (take_frame c h))"
  by (auto simp: hub_ok_def take_frame_def nth_list_update split: list.splits)

lemma reachable_ok: "hub_reachable h \<Longrightarrow> hub_ok h"
proof (induction rule: hub_reachable.induct)
  case hr_new
  show ?case by (simp add: hub_ok_def NewHub_def)
next
  case (hr_step h h')
  from hr_step(2) show ?case
    by cases (simp_all add: hr_step.IH ok_register ok_unregister ok_broadcast ok_send ok_subscribe ok_unsubscribe ok_take ok_shutdown)
qed

section \<open>One client\<close>

datatype client_event = Deliver_line string | Take_frame

fun client_run :: "client_event list \<Rightarrow> frame list \<times> ls_Client \<Rightarrow> frame list \<times> ls_Client" where
  "client_run [] x = x"
| "client_run (Deliver_line m # evs) (taken, c) = client_run evs (taken, deliver m c)"
| "client_run (Take_frame # evs) (taken, c) =
     client_run evs (case cl_send c of [] \<Rightarrow> (taken, c) | f # fs \<Rightarrow> (taken @ [f], c\<lparr>cl_send := fs\<rparr>))"

fun frame_lines :: "frame list \<Rightarrow> string list" where
  "frame_lines [] = []"
| "frame_lines (Line_msg m # fs) = m # frame_lines fs"
| "frame_lines (Control_msg e n # fs) = frame_lines fs"

fun frame_drops :: "frame list \<Rightarrow> nat" where
  "frame_drops [] = 0"
| "frame_drops (Line_msg m # fs) = frame_drops fs"
| "frame_drops (Control_msg e n # fs) = n + frame_drops fs"

definition sent_lines :: "client_event list \<Rightarrow> string list" where
  "sent_lines evs = concat (map (\<lambda>e. case e of Deliver_line m \<Rightarrow> [m] | Take_frame \<Rightarrow> []) evs)"

lemma frame_append: "frame_lines (a @ b) = frame_lines a @ frame_lines b" "frame_drops (a @ b) = frame_drops a + frame_drops b"
  by (induction a rule: frame_lines.induct) auto

definition accounted :: "string list \<Rightarrow> frame list \<times> ls_Client \<Rightarrow> bool" where
  "accounted ms x \<longleftrightarrow> (let fs = fst x @ cl_send (snd x) in
     length (frame_lines fs) + frame_drops fs + cl_drop (snd x) = length ms \<and> subseq (frame_lines fs) ms
     \<and> length (cl_send (snd x)) \<le> sendBuffer)"

lemma subseq_snoc: "subseq xs ys \<Longrightarrow> subseq xs (ys @ [y])" "subseq xs ys \<Longrightarrow> subseq (xs @ [y]) (ys @ [y])"
  using list_emb_append_mono [of "(=)" xs ys "[]" "[y]"] list_emb_append_mono [of "(=)" xs ys "[y]" "[y]"] by simp_all

lemma accounted_deliver: "accounted ms (taken, c) \<Longrightarrow> accounted (ms @ [m]) (taken, deliver m c)"
  by (auto simp: accounted_def deliver_def report_drops_def Let_def frame_append
      intro: subseq_snoc subseq_snoc(2) [of "_ @ _", simplified])

lemma accounted_take:
  "accounted ms (taken, c) \<Longrightarrow> cl_send c = f # fs \<Longrightarrow> accounted ms (taken @ [f], c\<lparr>cl_send := fs\<rparr>)"
  by (auto simp: accounted_def Let_def)

lemma accounted_run:
  "accounted ms (taken, c) \<Longrightarrow> accounted (ms @ sent_lines evs) (client_run evs (taken, c))"
proof (induction evs arbitrary: ms taken c)
  case (Cons ev evs)
  show ?case
  proof (cases ev)
    case (Deliver_line m)
    then show ?thesis using Cons.IH [OF accounted_deliver [OF Cons.prems]] by (simp add: sent_lines_def)
  next
    case Take_frame
    then show ?thesis using Cons.IH [OF Cons.prems] Cons.IH [OF accounted_take [OF Cons.prems]]
      by (auto simp: sent_lines_def split: list.splits)
  qed
qed (simp add: sent_lines_def)

section \<open>Properties\<close>

text \<open>
  The log hub never sends on a closed channel and never closes a channel twice, which would end the program: in every
  state it can reach by any order of subscriptions, unsubscriptions, lines, reads and a shutdown, the clients it serves are
  distinct and open; and no channel holds more than its capacity.
\<close>

theorem log_stream_safe:
  assumes "hub_reachable h"
  shows "distinct (lh_clients h) \<and> (\<forall>c \<in> set (lh_clients h). c < length (lh_state h) \<and> \<not> cl_closed (lh_state h ! c))
    \<and> (\<forall>c < length (lh_state h). length (cl_send (lh_state h ! c)) \<le> 64) \<and> length (lh_broadcast h) \<le> 256"
  using reachable_ok [OF assms] by (simp add: hub_ok_def sendBuffer_def)

theorem log_stream_safe_witness:
  "hub_reachable (run_register (snd (ls_Subscribe NewHub)))
   \<and> 0 \<in> set (lh_clients (run_register (snd (ls_Subscribe NewHub))))
   \<and> \<not> cl_closed (lh_state (run_register (snd (ls_Subscribe NewHub))) ! 0)"
proof -
  have "hub_reachable (run_register (snd (ls_Subscribe NewHub)))"
    by (rule hr_step [OF hr_step [OF hr_new hs_subscribe] hs_register])
  moreover have "0 \<in> set (lh_clients (run_register (snd (ls_Subscribe NewHub))))"
    by (simp add: ls_Subscribe_def NewHub_def run_register_def add_client_def Let_def)
  ultimately show ?thesis using log_stream_safe by blast
qed

text \<open>
  A slow client is told what it missed: over any sequence of lines delivered to it and frames it takes, the lines it got or will
  get, the counts of the drop reports it got or will get, and the drops not yet reported add up to the lines that were sent, and
  its lines are in the order they were sent.
\<close>

theorem client_accounting:
  "client_run evs ([], new_client) = (taken, c) \<Longrightarrow>
   length (frame_lines (taken @ cl_send c)) + frame_drops (taken @ cl_send c) + cl_drop c = length (sent_lines evs)
   \<and> subseq (frame_lines (taken @ cl_send c)) (sent_lines evs)"
  using accounted_run [of "[]" "[]" new_client evs] by (simp add: accounted_def new_client_def Let_def)

theorem client_accounting_witness:
  "subseq (frame_lines ([Line_msg ''a''] @ cl_send (snd (client_run [Deliver_line ''a'', Take_frame, Deliver_line ''b''] ([], new_client)))))
     [''a'', ''b'']"
proof -
  have "client_run [Deliver_line ''a'', Take_frame, Deliver_line ''b''] ([], new_client)
      = ([Line_msg ''a''], snd (client_run [Deliver_line ''a'', Take_frame, Deliver_line ''b''] ([], new_client)))"
    by (simp add: deliver_def report_drops_def new_client_def sendBuffer_def Let_def)
  from client_accounting [OF this] show ?thesis by (simp add: sent_lines_def)
qed

text \<open>
  A client can outlive its connection: when \<open>Run\<close> takes the unsubscription before the subscription that was queued first, the client
  stays registered with an open channel, and no request is left that would remove it.
\<close>

theorem unsubscribed_client_stays:
  "let (c, h1) = ls_Subscribe NewHub; h2 = run_register (run_unregister (ls_Unsubscribe c h1))
   in hub_reachable h2 \<and> c \<in> set (lh_clients h2) \<and> \<not> cl_closed (lh_state h2 ! c) \<and> lh_register h2 = [] \<and> lh_unregister h2 = []"
proof -
  have s: "ls_Subscribe NewHub = (0, NewHub\<lparr>lh_state := [new_client], lh_register := [0]\<rparr>)"
    by (simp add: ls_Subscribe_def NewHub_def)
  have "hub_reachable (run_register (run_unregister (ls_Unsubscribe 0 (snd (ls_Subscribe NewHub)))))"
    by (rule hr_step [OF hr_step [OF hr_step [OF hr_step [OF hr_new hs_subscribe] hs_unsubscribe] hs_unregister] hs_register])
      (simp add: s)
  then show ?thesis
    unfolding s by (simp add: run_register_def run_unregister_def ls_Unsubscribe_def drop_client_def add_client_def NewHub_def new_client_def)
qed

end
