(* ===== verification/CP_Templates.thy ===== *)
theory CP_Templates
  imports CP_Registry
begin

text \<open>
  Distribution of policy templates: the calls of the control plane's gRPC server (\<open>grpc_templates.go\<close>) and the agent's
  copy with its cache on disk (\<open>template_sync.go\<close>), both in \<open>backend/internal/controlplane\<close>.

  The cache directory is an association list from file names to entries. The record \<open>disk_env\<close> holds JSON encoding
  and decoding and says which file operations fail; a failed write may leave a part of the file.
\<close>

section \<open>Messages\<close>

record pb_PolicyTemplate =
  pbt_Name :: string
  pbt_Version :: int
  pbt_Body :: string
  pbt_Labels :: "(string \<times> string) list"
  pbt_Publisher :: string
  pbt_CreatedAt :: "gotime option"
  pbt_UpdatedAt :: "gotime option"

definition stamp :: "gotime \<Rightarrow> gotime option" where
  "stamp t = (if IsZero t then None else Some t)"

definition from_stamp :: "gotime option \<Rightarrow> gotime" where
  "from_stamp x = (case x of None \<Rightarrow> 0 | Some t \<Rightarrow> t)"

definition toPBTemplate :: "PolicyTemplate \<Rightarrow> pb_PolicyTemplate" where
  "toPBTemplate t =
     \<lparr>pbt_Name = pt_Name t, pbt_Version = pt_Version t, pbt_Body = pt_Body t, pbt_Labels = pt_Labels t, pbt_Publisher = pt_Publisher t,
      pbt_CreatedAt = stamp (pt_CreatedAt t), pbt_UpdatedAt = stamp (pt_UpdatedAt t)\<rparr>"

definition fromPBTemplate :: "pb_PolicyTemplate \<Rightarrow> PolicyTemplate" where
  "fromPBTemplate t =
     \<lparr>pt_Name = pbt_Name t, pt_Version = pbt_Version t, pt_Body = pbt_Body t, pt_Labels = pbt_Labels t, pt_Publisher = pbt_Publisher t,
      pt_CreatedAt = from_stamp (pbt_CreatedAt t), pt_UpdatedAt = from_stamp (pbt_UpdatedAt t)\<rparr>"

lemma fromPB_toPB [simp]: "fromPBTemplate (toPBTemplate t) = t"
  by (simp add: fromPBTemplate_def toPBTemplate_def stamp_def from_stamp_def IsZero_def)

section \<open>The gRPC server\<close>

definition rpc_store ::
  "string \<Rightarrow> rpc_context \<Rightarrow> rpc_error option \<Rightarrow> ('s Store \<Rightarrow> 's \<Rightarrow> (cp_error + 'a) \<times> 's) \<Rightarrow> (cp_error \<Rightarrow> rpc_error) \<Rightarrow> 's Registry
   \<Rightarrow> (rpc_error + 'a) \<times> 's Registry" where
  "rpc_store token ctx bad op err r =
     (if \<not> authorise token ctx then (Inl Unauthenticated, r)
      else (case bad of
              Some e \<Rightarrow> (Inl e, r)
            | None \<Rightarrow>
                (case rg_store r of
                   None \<Rightarrow> (Inl (FailedPrecondition ''store unavailable''), r)
                 | Some (st, s) \<Rightarrow>
                     (case op st s of
                        (Inl e, s1) \<Rightarrow> (Inl (err e), r\<lparr>rg_store := Some (st, s1)\<rparr>)
                      | (Inr x, s1) \<Rightarrow> (Inr x, r\<lparr>rg_store := Some (st, s1)\<rparr>)))))"

definition grpc_ListTemplates :: "string \<Rightarrow> rpc_context \<Rightarrow> 's Registry \<Rightarrow> (rpc_error + pb_PolicyTemplate list) \<times> 's Registry" where
  "grpc_ListTemplates token ctx r =
     map_prod (map_sum id (map toPBTemplate)) id (rpc_store token ctx None (\<lambda>st. st_ListTemplates st) RpcInternal r)"

definition grpc_GetTemplate :: "string \<Rightarrow> rpc_context \<Rightarrow> string \<Rightarrow> 's Registry \<Rightarrow> (rpc_error + pb_PolicyTemplate) \<times> 's Registry" where
  "grpc_GetTemplate token ctx name r =
     map_prod (map_sum id toPBTemplate) id
       (rpc_store token ctx (if name = [] then Some (InvalidArgument ''name required'') else None) (\<lambda>st. st_GetTemplate st name)
         (\<lambda>e. if e = ErrTemplateNotFound then RpcNotFound ''template not found'' else RpcInternal e) r)"

definition grpc_PublishTemplate ::
  "string \<Rightarrow> rpc_context \<Rightarrow> gotime \<Rightarrow> pb_PolicyTemplate option \<Rightarrow> 's Registry \<Rightarrow> (rpc_error + pb_PolicyTemplate) \<times> 's Registry" where
  "grpc_PublishTemplate token ctx now req r =
     (let bad = Some (InvalidArgument ''template.name required'') in
      case req of
        None \<Rightarrow> (Inl (if authorise token ctx then InvalidArgument ''template.name required'' else Unauthenticated), r)
      | Some t \<Rightarrow>
          map_prod (map_sum id toPBTemplate) id
            (rpc_store token ctx (if pbt_Name t = [] then bad else None) (\<lambda>st. st_PublishTemplate st now (fromPBTemplate t)) RpcInternal r))"

section \<open>The cache on disk\<close>

datatype dir_entry = EDir | EFile string

type_synonym disk = "(string \<times> dir_entry) list"

datatype write_result = Write_ok | Write_failed "string option"

record disk_env =
  io_encode :: "PolicyTemplate \<Rightarrow> string option"
  io_decode :: "string \<Rightarrow> PolicyTemplate option"
  io_write :: "string \<Rightarrow> write_result"
  io_rename_fails :: "string \<Rightarrow> bool"
  io_remove_fails :: "string \<Rightarrow> bool"
  io_readdir_fails :: bool
  io_read_fails :: "string \<Rightarrow> bool"

definition safe_char :: "char \<Rightarrow> bool" where
  "safe_char c \<longleftrightarrow> (CHR ''a'' \<le> c \<and> c \<le> CHR ''z'') \<or> (CHR ''A'' \<le> c \<and> c \<le> CHR ''Z'') \<or> (CHR ''0'' \<le> c \<and> c \<le> CHR ''9'') \<or> c \<in> {CHR ''-'', CHR ''_''}"

definition sanitiseTemplateName :: "string \<Rightarrow> string" where
  "sanitiseTemplateName name =
     (let out = map (\<lambda>c. if safe_char c then c else CHR ''_'') name in if out = [] then ''_'' else out)"

definition file_name :: "string \<Rightarrow> string" where
  "file_name name = sanitiseTemplateName name @ ''.json''"

definition os_Remove :: "disk_env \<Rightarrow> string \<Rightarrow> disk \<Rightarrow> disk" where
  "os_Remove env f d = (if io_remove_fails env f then d else AList.delete f d)"

definition save_one :: "disk_env \<Rightarrow> string \<times> PolicyTemplate \<Rightarrow> disk \<Rightarrow> disk" where
  "save_one env x d =
     (let fp = file_name (fst x); tmp = fp @ ''.part'' in
      case io_encode env (snd x) of
        None \<Rightarrow> d
      | Some body \<Rightarrow>
          (case io_write env tmp of
             Write_failed left \<Rightarrow> (case left of None \<Rightarrow> d | Some b \<Rightarrow> AList.update tmp (EFile b) d)
           | Write_ok \<Rightarrow>
               (if io_rename_fails env fp \<or> map_of d fp = Some EDir then os_Remove env tmp (AList.update tmp (EFile body) d)
                else AList.update fp (EFile body) (AList.delete tmp d))))"

definition stale_entry :: "string set \<Rightarrow> string \<times> dir_entry \<Rightarrow> bool" where
  "stale_entry keep x \<longleftrightarrow> snd x \<noteq> EDir \<and>
     (strings_HasSuffix (fst x) ''.part'' \<or> (strings_HasSuffix (fst x) ''.json'' \<and> fst x \<notin> keep))"

definition saveToDisk :: "disk_env \<Rightarrow> (string \<times> PolicyTemplate) list \<Rightarrow> disk \<Rightarrow> disk" where
  "saveToDisk env set0 d =
     (let keep = set (map (file_name \<circ> fst) set0); d1 = fold (save_one env) set0 d in
      if io_readdir_fails env then d1
      else fold (\<lambda>x d. if stale_entry keep x then os_Remove env (fst x) d else d) (sort_key fst d1) d1)"

definition load_entry :: "disk_env \<Rightarrow> string \<times> dir_entry \<Rightarrow> (string \<times> PolicyTemplate) option" where
  "load_entry env x =
     (case snd x of
        EDir \<Rightarrow> None
      | EFile body \<Rightarrow>
          (if \<not> strings_HasSuffix (fst x) ''.json'' \<or> io_read_fails env (fst x) then None
           else (case io_decode env body of
                   None \<Rightarrow> None
                 | Some t \<Rightarrow> if pt_Name t = [] then None else Some (pt_Name t, t))))"

definition loadFromDisk :: "disk_env \<Rightarrow> disk \<Rightarrow> (string \<times> PolicyTemplate) list option" where
  "loadFromDisk env d =
     (if io_readdir_fails env then None
      else Some (fold (\<lambda>(n, t). AList.update n t) (List.map_filter (load_entry env) (sort_key fst d)) []))"

section \<open>The syncer\<close>

record TemplateSyncer =
  ty_templates :: "(string \<times> PolicyTemplate) list"
  ty_cache :: "disk option"

definition start_sync :: "disk_env \<Rightarrow> disk option \<Rightarrow> TemplateSyncer" where
  "start_sync env cache =
     \<lparr>ty_templates = (case cache of None \<Rightarrow> [] | Some d \<Rightarrow> (case loadFromDisk env d of None \<Rightarrow> [] | Some l \<Rightarrow> l)), ty_cache = cache\<rparr>"

definition pulled :: "pb_PolicyTemplate list \<Rightarrow> (string \<times> PolicyTemplate) list" where
  "pulled resp = fold (\<lambda>p m. let nat = fromPBTemplate p in AList.update (pt_Name nat) nat m) resp []"

text \<open>One pull; the answer is \<open>None\<close> when dialling or the call fails.\<close>

definition pullOnce :: "disk_env \<Rightarrow> pb_PolicyTemplate list option \<Rightarrow> TemplateSyncer \<Rightarrow> TemplateSyncer" where
  "pullOnce env resp ty =
     (case resp of
        None \<Rightarrow> ty
      | Some ts \<Rightarrow> \<lparr>ty_templates = pulled ts, ty_cache = map_option (saveToDisk env (pulled ts)) (ty_cache ty)\<rparr>)"

definition ty_Get :: "string \<Rightarrow> TemplateSyncer \<Rightarrow> PolicyTemplate option" where
  "ty_Get name ty = map_of (ty_templates ty) name"

definition ty_Snapshot :: "TemplateSyncer \<Rightarrow> PolicyTemplate list" where
  "ty_Snapshot ty = map snd (ty_templates ty)"

section \<open>A cache without failures\<close>

definition reliable :: "disk_env \<Rightarrow> PolicyTemplate set \<Rightarrow> bool" where
  "reliable env ts \<longleftrightarrow> (\<forall>t \<in> ts. \<exists>b. io_encode env t = Some b \<and> io_decode env b = Some t)
     \<and> (\<forall>f. io_write env f = Write_ok \<and> \<not> io_rename_fails env f \<and> \<not> io_remove_fails env f \<and> \<not> io_read_fails env f) \<and> \<not> io_readdir_fails env"

definition body_of :: "disk_env \<Rightarrow> PolicyTemplate \<Rightarrow> string" where
  "body_of env t = (case io_encode env t of Some b \<Rightarrow> b | None \<Rightarrow> [])"

lemma json_not_part: "f @ ''.json'' \<noteq> g @ ''.part''" "\<not> suffix ''.part'' (f @ ''.json'')"
  by (auto simp: suffix_def)

lemma save_one_reliable:
  assumes "reliable env ts" "t \<in> ts" "map_of d (file_name n) \<noteq> Some EDir"
  shows "map_of (save_one env (n, t) d) f
    = (if f = file_name n then Some (EFile (body_of env t)) else if f = file_name n @ ''.part'' then None else map_of d f)"
proof -
  obtain b where b: "io_encode env t = Some b" using assms(1,2) by (auto simp: reliable_def)
  have "save_one env (n, t) d = AList.update (file_name n) (EFile b) (AList.delete (file_name n @ ''.part'') d)"
    using assms b by (simp add: save_one_def Let_def reliable_def)
  then show ?thesis using b by (auto simp: update_conv' delete_conv' body_of_def)
qed

lemma save_all_reliable:
  assumes "reliable env ts" "snd ` set l \<subseteq> ts" "distinct (map (file_name \<circ> fst) l)" "\<forall>x \<in> set l. map_of d (file_name (fst x)) \<noteq> Some EDir"
  shows "map_of (fold (save_one env) l d) f
    = (case map_of (map (\<lambda>(n, t). (file_name n, EFile (body_of env t))) l) f of
         Some e \<Rightarrow> Some e
       | None \<Rightarrow> if f \<in> (\<lambda>x. file_name (fst x) @ ''.part'') ` set l then None else map_of d f)"
  using assms(2-4)
proof (induction l arbitrary: d)
  case (Cons x l)
  obtain n t where x: "x = (n, t)" by (cases x)
  have s: "map_of (save_one env (n, t) d) g
      = (if g = file_name n then Some (EFile (body_of env t)) else if g = file_name n @ ''.part'' then None else map_of d g)" for g
    using save_one_reliable [OF assms(1), of t d n g] Cons.prems by (simp add: x)
  have np: "file_name m \<noteq> file_name k @ ''.part''" for m k using json_not_part(1) [of _ "file_name k"] by (metis file_name_def)
  have "\<forall>y \<in> set l. map_of (save_one env x d) (file_name (fst y)) \<noteq> Some EDir"
    using Cons.prems(3) np by (auto simp: x s)
  from Cons.IH [OF _ _ this] Cons.prems(1,2)
  have ih: "map_of (fold (save_one env) (x # l) d) f
      = (case map_of (map (\<lambda>(n, t). (file_name n, EFile (body_of env t))) l) f of
           Some e \<Rightarrow> Some e
         | None \<Rightarrow> if f \<in> (\<lambda>x. file_name (fst x) @ ''.part'') ` set l then None else map_of (save_one env x d) f)" by simp
  show ?case
  proof (cases "f = file_name n")
    case True
    then have "map_of (map (\<lambda>(n, t). (file_name n, EFile (body_of env t))) l) f = None"
      using Cons.prems(2) by (force simp: x map_of_eq_None_iff)
    then show ?thesis using ih True np by (auto simp: x s)
  next
    case False
    then show ?thesis using ih by (auto simp: x s split: option.splits)
  qed
qed simp

lemma save_distinct: "distinct (map fst d) \<Longrightarrow> distinct (map fst (save_one env x d))"
  by (auto simp: save_one_def Let_def os_Remove_def distinct_update distinct_delete split: option.splits write_result.splits)

lemma saves_distinct: "distinct (map fst d) \<Longrightarrow> distinct (map fst (fold (save_one env) l d))"
  by (induction l arbitrary: d) (auto simp: save_distinct)

lemma prune_map:
  assumes "\<forall>f. \<not> io_remove_fails env f"
  shows "map_of (fold (\<lambda>x d. if P x then os_Remove env (fst x) d else d) xs d) f
    = (if \<exists>x \<in> set xs. fst x = f \<and> P x then None else map_of d f)"
  using assms by (induction xs arbitrary: d) (auto simp: os_Remove_def delete_conv')

lemma prune_distinct: "distinct (map fst d) \<Longrightarrow> distinct (map fst (fold (\<lambda>x d. if P x then os_Remove env (fst x) d else d) xs d))"
  by (induction xs arbitrary: d) (auto simp: os_Remove_def distinct_delete)

lemma fold_update_notin: "n \<notin> fst ` set xs \<Longrightarrow> map_of (fold (\<lambda>(n, t). AList.update n t) xs m) n = map_of m n"
  by (induction xs arbitrary: m) (auto simp: update_conv')

lemma fold_update_in:
  "(n, t) \<in> set xs \<Longrightarrow> \<forall>t'. (n, t') \<in> set xs \<longrightarrow> t' = t \<Longrightarrow> map_of (fold (\<lambda>(n, t). AList.update n t) xs m) n = Some t"
proof (induction xs arbitrary: m)
  case (Cons x xs)
  show ?case
  proof (cases "n \<in> fst ` set xs")
    case True
    then obtain t' where "(n, t') \<in> set xs" by auto
    then have "(n, t) \<in> set xs" using Cons.prems(2) by auto
    moreover have "\<forall>t'. (n, t') \<in> set xs \<longrightarrow> t' = t" using Cons.prems(2) by simp
    ultimately have "map_of (fold (\<lambda>(n, t). AList.update n t) xs ((\<lambda>(n, t). AList.update n t) x m)) n = Some t"
      by (rule Cons.IH)
    then show ?thesis by simp
  next
    case False
    then have "x = (n, t)" using Cons.prems(1) by force
    then show ?thesis using fold_update_notin [OF False] by (simp add: update_conv')
  qed
qed simp

lemma load_entry_Some:
  "load_entry env (f, e) = Some (n, t) \<Longrightarrow> \<exists>b. e = EFile b \<and> suffix ''.json'' f \<and> io_decode env b = Some t \<and> n = pt_Name t"
  by (cases e) (auto simp: load_entry_def strings_HasSuffix_def split: if_splits option.splits)

lemma load_map:
  assumes "distinct (map fst d)" "\<not> io_readdir_fails env"
    and "\<And>n t. (\<exists>f. map_of d f \<noteq> None \<and> load_entry env (f, the (map_of d f)) = Some (n, t)) \<longleftrightarrow> map_of m n = Some t"
  shows "\<exists>l. loadFromDisk env d = Some l \<and> map_of l = map_of m"
proof -
  let ?xs = "List.map_filter (load_entry env) (sort_key fst d)"
  have "(f, e) \<in> set d \<longleftrightarrow> map_of d f = Some e" for f e using assms(1) by simp
  then have mem: "(n, t) \<in> set ?xs \<longleftrightarrow> map_of m n = Some t" for n t
    unfolding assms(3) [symmetric] by (auto simp: List.map_filter_def image_iff) (metis option.sel)+
  have "map_of (fold (\<lambda>(n, t). AList.update n t) ?xs []) n = map_of m n" for n
  proof (cases "map_of m n")
    case None
    then have "n \<notin> fst ` set ?xs" using mem by auto
    then show ?thesis using fold_update_notin [of n ?xs "[]"] None by simp
  next
    case (Some t)
    have "\<forall>t'. (n, t') \<in> set ?xs \<longrightarrow> t' = t" unfolding mem Some by simp
    then have "map_of (fold (\<lambda>(n, t). AList.update n t) ?xs []) n = Some t" using mem Some by (intro fold_update_in) (simp_all only:)
    then show ?thesis using Some by metis
  qed
  then have e: "map_of (fold (\<lambda>(n, t). AList.update n t) ?xs []) = map_of m" by (rule ext)
  have "loadFromDisk env d = Some (fold (\<lambda>(n, t). AList.update n t) ?xs [])" by (simp only: loadFromDisk_def assms(2) if_False)
  with e show ?thesis by blast
qed

lemma saved_files:
  assumes "reliable env (snd ` set l)" "distinct (map (file_name \<circ> fst) l)" "\<forall>x \<in> set l. map_of d (file_name (fst x)) \<noteq> Some EDir"
    and "distinct (map fst d)"
  shows "distinct (map fst (saveToDisk env l d))"
    and "suffix ''.json'' f \<Longrightarrow> map_of (saveToDisk env l d) f = Some (EFile b) \<longleftrightarrow> (\<exists>n t. (n, t) \<in> set l \<and> f = file_name n \<and> b = body_of env t)"
proof -
  let ?d1 = "fold (save_one env) l d" and ?keep = "set (map (file_name \<circ> fst) l)"
  have s: "saveToDisk env l d = fold (\<lambda>x d. if stale_entry ?keep x then os_Remove env (fst x) d else d) (sort_key fst ?d1) ?d1"
    using assms(1) by (simp add: saveToDisk_def reliable_def Let_def)
  have d1: "distinct (map fst ?d1)" using saves_distinct [OF assms(4)] .
  then show "distinct (map fst (saveToDisk env l d))" unfolding s by (rule prune_distinct)
  assume j: "suffix ''.json'' f"
  then have np: "\<not> suffix ''.part'' f" by (auto simp: suffix_def)
  have m1: "map_of ?d1 f = (case map_of (map (\<lambda>(n, t). (file_name n, EFile (body_of env t))) l) f of
      Some e \<Rightarrow> Some e | None \<Rightarrow> if f \<in> (\<lambda>x. file_name (fst x) @ ''.part'') ` set l then None else map_of d f)"
    by (rule save_all_reliable [OF assms(1) subset_refl assms(2,3)])
  have dk: "distinct (map fst (map (\<lambda>(n, t). (file_name n, EFile (body_of env t))) l))"
    using assms(2) by (simp add: comp_def case_prod_beta)
  have k: "map_of (map (\<lambda>(n, t). (file_name n, EFile (body_of env t))) l) f = Some e
      \<longleftrightarrow> (\<exists>n t. (n, t) \<in> set l \<and> f = file_name n \<and> e = EFile (body_of env t))" for e
    using map_of_eq_Some_iff [OF dk, of f e] by auto
  have p: "map_of (saveToDisk env l d) f = (if \<exists>x \<in> set ?d1. fst x = f \<and> stale_entry ?keep x then None else map_of ?d1 f)"
    unfolding s using prune_map [of env "stale_entry ?keep" "sort_key fst ?d1" ?d1 f] assms(1) by (simp add: reliable_def)
  show "map_of (saveToDisk env l d) f = Some (EFile b) \<longleftrightarrow> (\<exists>n t. (n, t) \<in> set l \<and> f = file_name n \<and> b = body_of env t)"
  proof (cases "f \<in> ?keep")
    case True
    then obtain n t where nt: "(n, t) \<in> set l" "f = file_name n" by auto
    then have "map_of (map (\<lambda>(n, t). (file_name n, EFile (body_of env t))) l) f = Some (EFile (body_of env t))"
      unfolding k by blast
    then have "map_of ?d1 f = Some (EFile (body_of env t))" unfolding m1 by simp
    moreover have "\<not> (\<exists>x \<in> set ?d1. fst x = f \<and> stale_entry ?keep x)"
      using True np by (auto simp: stale_entry_def strings_HasSuffix_def)
    moreover have same: "t' = t" if "(n', t') \<in> set l" "f = file_name n'" for n' t'
      using inj_onD [of "file_name \<circ> fst" "set l" "(n', t')" "(n, t)"] assms(2) that nt by (simp add: distinct_map)
    ultimately have "map_of (saveToDisk env l d) f = Some (EFile (body_of env t))" unfolding p by (simp only: if_False)
    then have "map_of (saveToDisk env l d) f = Some (EFile b) \<longleftrightarrow> b = body_of env t" by (metis dir_entry.inject option.inject)
    moreover have "(\<exists>n t. (n, t) \<in> set l \<and> f = file_name n \<and> b = body_of env t) \<longleftrightarrow> b = body_of env t" using same nt by blast
    ultimately show ?thesis by (rule trans [OF _ sym])
  next
    case False
    then have "\<not> (\<exists>n t. (n, t) \<in> set l \<and> f = file_name n)" by force
    moreover have "map_of (saveToDisk env l d) f \<noteq> Some (EFile b)"
    proof
      assume a: "map_of (saveToDisk env l d) f = Some (EFile b)"
      then have "map_of ?d1 f = Some (EFile b)" "\<not> (\<exists>x \<in> set ?d1. fst x = f \<and> stale_entry ?keep x)" using p by (auto split: if_splits)
      moreover have "(f, EFile b) \<in> set ?d1" using calculation(1) by (rule map_of_SomeD)
      ultimately show False using j False by (auto simp: stale_entry_def strings_HasSuffix_def)
    qed
    ultimately show ?thesis by blast
  qed
qed

lemma pulled_facts:
  "distinct (map fst (pulled resp))" "(n, t) \<in> set (pulled resp) \<Longrightarrow> pt_Name t = n \<and> t \<in> fromPBTemplate ` set resp"
proof -
  let ?f = "\<lambda>p m. let nat = fromPBTemplate p in AList.update (pt_Name nat) nat m"
  have step: "(\<forall>x \<in> set (fold ?f resp m). x \<in> set m \<or> (fst x = pt_Name (snd x) \<and> snd x \<in> fromPBTemplate ` set resp))
      \<and> (distinct (map fst m) \<longrightarrow> distinct (map fst (fold ?f resp m)))" for m
  proof (induction resp arbitrary: m)
    case (Cons p resp)
    have "x \<in> set m \<or> x = (pt_Name (fromPBTemplate p), fromPBTemplate p)"
      if "x \<in> set (AList.update (pt_Name (fromPBTemplate p)) (fromPBTemplate p) m)" for x
      using that by (induction m) (auto split: if_splits)
    then show ?case using Cons [of "?f p m"] by (fastforce simp: Let_def distinct_update)
  qed simp
  show "distinct (map fst (pulled resp))" using step [of "[]"] by (simp add: pulled_def)
  show "(n, t) \<in> set (pulled resp) \<Longrightarrow> pt_Name t = n \<and> t \<in> fromPBTemplate ` set resp"
    using step [of "[]"] by (fastforce simp: pulled_def)
qed

lemma cache_roundtrip:
  assumes "reliable env (fromPBTemplate ` set resp)" "\<forall>t \<in> set resp. pbt_Name t \<noteq> []" "inj_on sanitiseTemplateName (pbt_Name ` set resp)"
    and "distinct (map fst d)" "\<forall>t \<in> set resp. map_of d (file_name (pbt_Name t)) \<noteq> Some EDir"
  shows "\<exists>l. loadFromDisk env (saveToDisk env (pulled resp) d) = Some l \<and> map_of l = map_of (pulled resp)"
proof -
  let ?l = "pulled resp"
  have nm: "n \<in> pbt_Name ` set resp" if "(n, t) \<in> set ?l" for n t
    using pulled_facts(2) [OF that] by (auto simp: fromPBTemplate_def)
  have r: "reliable env (snd ` set ?l)" using assms(1) pulled_facts(2) by (fastforce simp: reliable_def)
  have "inj_on sanitiseTemplateName (fst ` set ?l)" using assms(3) nm by (auto intro: inj_on_subset)
  then have dn: "distinct (map (file_name \<circ> fst) ?l)"
    using pulled_facts(1) [of resp] by (auto simp: distinct_map file_name_def inj_on_def)
  have nd: "\<forall>x \<in> set ?l. map_of d (file_name (fst x)) \<noteq> Some EDir" using assms(5) nm by fastforce
  note sf = saved_files [OF r dn nd assms(4)]
  have dec: "io_decode env (body_of env t) = Some t" if "(n, t) \<in> set ?l" for n t
    using r that by (force simp: reliable_def body_of_def)
  have rd: "\<not> io_read_fails env f" "\<not> io_readdir_fails env" for f using r by (auto simp: reliable_def)
  show ?thesis
  proof (rule load_map [OF sf(1) rd(2)])
    fix n t
    let ?d = "saveToDisk env ?l d"
    show "(\<exists>f. map_of ?d f \<noteq> None \<and> load_entry env (f, the (map_of ?d f)) = Some (n, t)) \<longleftrightarrow> map_of ?l n = Some t"
    proof
      assume "\<exists>f. map_of ?d f \<noteq> None \<and> load_entry env (f, the (map_of ?d f)) = Some (n, t)"
      then obtain f e where fe: "map_of ?d f = Some e" "load_entry env (f, e) = Some (n, t)" by fastforce
      then obtain b where f: "map_of ?d f = Some (EFile b)" "suffix ''.json'' f" "io_decode env b = Some t" "n = pt_Name t"
        using load_entry_Some [OF fe(2)] by auto
      then obtain n' t' where "(n', t') \<in> set ?l" "b = body_of env t'" using sf(2) [OF f(2), of b] by blast
      then show "map_of ?l n = Some t" using dec f pulled_facts by (metis map_of_is_SomeI option.inject)
    next
      assume m: "map_of ?l n = Some t"
      then have nt: "(n, t) \<in> set ?l" by (rule map_of_SomeD)
      have js: "suffix ''.json'' (file_name n)" unfolding file_name_def by (rule suffixI) (rule refl)
      have "map_of ?d (file_name n) = Some (EFile (body_of env t))" using sf(2) [OF js] nt by blast
      moreover have "pt_Name t = n" "n \<noteq> []" using pulled_facts(2) [OF nt] nm [OF nt] assms(2) by auto
      ultimately show "\<exists>f. map_of ?d f \<noteq> None \<and> load_entry env (f, the (map_of ?d f)) = Some (n, t)"
        using dec [OF nt] rd by (intro exI [of _ "file_name n"]) (simp add: load_entry_def strings_HasSuffix_def js)
    qed
  qed
qed

section \<open>Properties\<close>

text \<open>
  A restarted agent has its templates: after a pull, when no file operation fails and the names differ also in their file names,
  an agent that restarts without reaching the control plane serves from its cache exactly the templates of the last pull; templates
  withdrawn since an earlier pull are gone, whatever the directory held before.
\<close>

theorem template_cache_roundtrip:
  assumes "reliable env (fromPBTemplate ` set resp)" "\<forall>t \<in> set resp. pbt_Name t \<noteq> []" "inj_on sanitiseTemplateName (pbt_Name ` set resp)"
    and "distinct (map fst d)" "\<forall>t \<in> set resp. map_of d (file_name (pbt_Name t)) \<noteq> Some EDir"
  shows "ty_Get name (start_sync env (ty_cache (pullOnce env (Some resp) (start_sync env (Some d)))))
    = ty_Get name (pullOnce env (Some resp) (start_sync env (Some d)))"
  using cache_roundtrip [OF assms] by (auto simp: pullOnce_def start_sync_def ty_Get_def)

theorem template_cache_roundtrip_witness:
  "ty_Get ''web'' (start_sync \<lparr>io_encode = \<lambda>t. Some (pt_Body t),
        io_decode = \<lambda>b. Some \<lparr>pt_Name = ''web'', pt_Version = 1, pt_Body = b, pt_Labels = [], pt_Publisher = [], pt_CreatedAt = 0, pt_UpdatedAt = 0\<rparr>,
        io_write = \<lambda>_. Write_ok, io_rename_fails = \<lambda>_. False, io_remove_fails = \<lambda>_. False, io_readdir_fails = False, io_read_fails = \<lambda>_. False\<rparr>
      (ty_cache (pullOnce \<lparr>io_encode = \<lambda>t. Some (pt_Body t),
        io_decode = \<lambda>b. Some \<lparr>pt_Name = ''web'', pt_Version = 1, pt_Body = b, pt_Labels = [], pt_Publisher = [], pt_CreatedAt = 0, pt_UpdatedAt = 0\<rparr>,
        io_write = \<lambda>_. Write_ok, io_rename_fails = \<lambda>_. False, io_remove_fails = \<lambda>_. False, io_readdir_fails = False, io_read_fails = \<lambda>_. False\<rparr>
        (Some [\<lparr>pbt_Name = ''web'', pbt_Version = 1, pbt_Body = ''x'', pbt_Labels = [], pbt_Publisher = [], pbt_CreatedAt = None, pbt_UpdatedAt = None\<rparr>])
        (start_sync \<lparr>io_encode = \<lambda>t. Some (pt_Body t),
        io_decode = \<lambda>b. Some \<lparr>pt_Name = ''web'', pt_Version = 1, pt_Body = b, pt_Labels = [], pt_Publisher = [], pt_CreatedAt = 0, pt_UpdatedAt = 0\<rparr>,
        io_write = \<lambda>_. Write_ok, io_rename_fails = \<lambda>_. False, io_remove_fails = \<lambda>_. False, io_readdir_fails = False, io_read_fails = \<lambda>_. False\<rparr>
          (Some []))))) =
   Some \<lparr>pt_Name = ''web'', pt_Version = 1, pt_Body = ''x'', pt_Labels = [], pt_Publisher = [], pt_CreatedAt = 0, pt_UpdatedAt = 0\<rparr>"
  by (subst template_cache_roundtrip)
    (simp_all add: reliable_def fromPBTemplate_def from_stamp_def pullOnce_def pulled_def ty_Get_def)

end
