(* ===== verification/CP_Certs.thy ===== *)
theory CP_Certs
  imports CP_Registry Net_IP
begin

text \<open>
  Certificates of the agents: the certificate authority (\<open>backend/internal/controlplane/mca/mca.go\<close>), its renewal call
  (\<open>grpc_renew.go\<close>, \<open>mca_adapter.go\<close>), the enrollment handler and the bearer check of \<open>backend/cmd/firefik-server/main.go\<close> and
  the revocation command of \<open>minica.go\<close>.

  \<open>crypto/x509\<close>, \<open>crypto/ecdsa\<close>, \<open>encoding/pem\<close> and the random source are the record \<open>x509_lib\<close>; a parsed certificate is
  the record of the fields the code reads. Messages of wrapped errors are left out.
\<close>

section \<open>The library\<close>

record 'pub x509_cert =
  xc_Serial :: nat
  xc_URIs :: "string option list"
  xc_DNSNames :: "string list"
  xc_IPAddresses :: "ip list"
  xc_NotAfter :: gotime
  xc_PublicKey :: 'pub

record 'pub cert_template =
  ct_Serial :: nat
  ct_CommonName :: string
  ct_NotBefore :: gotime
  ct_NotAfter :: gotime
  ct_ClientAuth :: bool
  ct_URIs :: "string list"
  ct_DNSNames :: "string list"
  ct_IPAddresses :: "ip list"
  ct_PublicKey :: 'pub

text \<open>
  \<open>lx_generate\<close> is a new key with its encoding, \<open>lx_serial\<close> a random number, \<open>lx_create\<close> signs a template with the issuing key,
  \<open>lx_parse\<close> and \<open>lx_parse_csr\<close> parse certificates and requests, \<open>lx_spki\<close> encodes a public key.
\<close>

record 'pub x509_lib =
  lx_generate :: "('pub \<times> string) option"
  lx_serial :: "nat option"
  lx_create :: "'pub cert_template \<Rightarrow> string option"
  lx_parse :: "string \<Rightarrow> 'pub x509_cert option"
  lx_parse_csr :: "string \<Rightarrow> ('pub \<times> bool) option"
  lx_spki :: "'pub \<Rightarrow> string option"
  lx_encode :: "string \<Rightarrow> string \<Rightarrow> string"
  lx_decode :: "string \<Rightarrow> string option"

fun big_Text16 :: "nat \<Rightarrow> string" where
  "big_Text16 n = (if n < 16 then [CP_Types.hex_digit n] else big_Text16 (n div 16) @ [CP_Types.hex_digit (n mod 16)])"

declare big_Text16.simps [simp del]

text \<open>\<open>url.URL.String\<close> for a URL with a scheme, a host and an absolute path.\<close>

definition unreserved :: "char \<Rightarrow> bool" where
  "unreserved c \<longleftrightarrow> (CHR ''a'' \<le> c \<and> c \<le> CHR ''z'') \<or> (CHR ''A'' \<le> c \<and> c \<le> CHR ''Z'') \<or> (CHR ''0'' \<le> c \<and> c \<le> CHR ''9'')
     \<or> c \<in> set ''-_.~''"

definition upper_hex :: "nat \<Rightarrow> char" where
  "upper_hex d = (if d < 10 then char_of (48 + d) else char_of (55 + d))"

definition url_escape :: "string \<Rightarrow> string \<Rightarrow> string" where
  "url_escape allowed s =
     concat (map (\<lambda>c. if unreserved c \<or> c \<in> set allowed then [c]
                      else [CHR ''%'', upper_hex (of_char c div 16), upper_hex (of_char c mod 16)]) s)"

definition host_chars :: string where "host_chars = ''!$&()*+,;=:[]<>'' @ [CHR 0x22, CHR 0x27]"
definition path_chars :: string where "path_chars = ''$&+,/:;=@''"

definition spiffe_String :: "string \<Rightarrow> string \<Rightarrow> string" where
  "spiffe_String host path = ''spiffe://'' @ url_escape host_chars host @ url_escape path_chars path"

section \<open>The certificate authority\<close>

record RevokedEntry =
  rv_Serial :: string
  rv_Reason :: string
  rv_RevokedAt :: gotime

record CA =
  mc_TrustDomain :: string
  mc_root :: string
  mc_issuing :: string
  mc_revoked :: "(string \<times> RevokedEntry) list"

text \<open>\<open>Time.Unix\<close>: seconds since 1970, with the zero time in the year 1.\<close>

definition time_Unix :: "gotime \<Rightarrow> int" where "time_Unix t = t div second - 62135596800"

definition hour :: duration where "hour = 3600 * second"
definition defaultAgentTTL :: duration where "defaultAgentTTL = 720 * hour"
definition maxAgentTTL :: duration where "maxAgentTTL = 90 * 24 * hour"
definition spiffePathPrefix :: string where "spiffePathPrefix = ''/agent/''"

text \<open>The file of revoked serials, encoded as JSON; \<open>None\<close> where it does not exist.\<close>

record revoked_json =
  rj_encode :: "RevokedEntry list \<Rightarrow> string"
  rj_decode :: "string \<Rightarrow> RevokedEntry list option"

definition loadRevoked :: "revoked_json \<Rightarrow> string option \<Rightarrow> (string \<times> RevokedEntry) list option" where
  "loadRevoked js file =
     (case file of
        None \<Rightarrow> Some []
      | Some data \<Rightarrow> map_option (\<lambda>es. fold (\<lambda>e. AList.update (strings_ToLower (rv_Serial e)) e) es []) (rj_decode js data))"

text \<open>Whether writing the temporary file and renaming it succeed is the argument \<open>saved\<close>.\<close>

definition saveRevokedLocked :: "revoked_json \<Rightarrow> bool \<Rightarrow> (string \<times> RevokedEntry) list \<Rightarrow> string option \<Rightarrow> bool \<times> string option" where
  "saveRevokedLocked js saved revoked file =
     (if saved then (True, Some (rj_encode js (map snd revoked))) else (False, file))"

definition Revoke :: "revoked_json \<Rightarrow> bool \<Rightarrow> gotime \<Rightarrow> string \<Rightarrow> string \<Rightarrow> CA \<times> string option \<Rightarrow> bool \<times> CA \<times> string option" where
  "Revoke js saved now serial reason st =
     (case st of (c, file) \<Rightarrow>
        if serial = [] then (False, c, file)
        else
          (let key = strings_ToLower serial;
               revoked = AList.update key \<lparr>rv_Serial = key, rv_Reason = reason, rv_RevokedAt = now\<rparr> (mc_revoked c);
               (ok, file1) = saveRevokedLocked js saved revoked file
           in (ok, c\<lparr>mc_revoked := revoked\<rparr>, file1)))"

definition IsRevoked :: "CA \<Rightarrow> string \<Rightarrow> bool" where
  "IsRevoked c serial \<longleftrightarrow> map_of (mc_revoked c) (strings_ToLower serial) \<noteq> None"

text \<open>\<open>Open\<close> of a state directory whose certificates and keys can be read.\<close>

definition ca_Open :: "revoked_json \<Rightarrow> string \<Rightarrow> string \<Rightarrow> string \<Rightarrow> string option \<Rightarrow> CA option" where
  "ca_Open js domain root issuing file =
     map_option (\<lambda>m. \<lparr>mc_TrustDomain = domain, mc_root = root, mc_issuing = issuing, mc_revoked = m\<rparr>) (loadRevoked js file)"

text \<open>The command \<open>mini-ca revoke\<close>: a process of its own that opens the directory and changes the file.\<close>

definition miniCARevoke :: "revoked_json \<Rightarrow> bool \<Rightarrow> gotime \<Rightarrow> string \<Rightarrow> string \<Rightarrow> string \<Rightarrow> string \<Rightarrow> string \<Rightarrow> string option \<Rightarrow> bool \<times> string option" where
  "miniCARevoke js saved now domain root issuing serial reason file =
     (if serial = [] then (False, file)
      else (case ca_Open js domain root issuing file of
              None \<Rightarrow> (False, file)
            | Some c \<Rightarrow> (case Revoke js saved now serial reason (c, file) of (ok, _, file1) \<Rightarrow> (ok, file1))))"

definition domain_host :: "string \<Rightarrow> string" where
  "domain_host domain = strings_TrimSuffix (strings_TrimPrefix domain ''spiffe://'') ''/''"

definition spiffeURI :: "CA \<Rightarrow> string \<Rightarrow> string option" where
  "spiffeURI c agentID =
     (let host = domain_host (mc_TrustDomain c) in
      if host = [] then None else Some (spiffe_String host (spiffePathPrefix @ agentID)))"

definition RootPEM :: "'pub x509_lib \<Rightarrow> CA \<Rightarrow> string" where
  "RootPEM lib c = lx_encode lib ''CERTIFICATE'' (mc_root c)"

definition TrustBundlePEM :: "'pub x509_lib \<Rightarrow> CA \<Rightarrow> string" where
  "TrustBundlePEM lib c = RootPEM lib c @ lx_encode lib ''CERTIFICATE'' (mc_issuing c)"

record IssueResult =
  ir_CertPEM :: string
  ir_BundlePEM :: string
  ir_KeyPEM :: string
  ir_SerialHex :: string
  ir_NotAfter :: gotime
  ir_SPIFFEURI :: string

definition agent_ttl :: "duration \<Rightarrow> duration" where
  "agent_ttl ttl = (let ttl1 = (if ttl = 0 then defaultAgentTTL else ttl) in if maxAgentTTL < ttl1 then maxAgentTTL else ttl1)"

definition sign_cert :: "'pub x509_lib \<Rightarrow> 'pub cert_template \<Rightarrow> (string \<times> 'pub x509_cert) option" where
  "sign_cert lib t =
     (case lx_create lib t of None \<Rightarrow> None | Some der \<Rightarrow> map_option (\<lambda>cert. (der, cert)) (lx_parse lib der))"

definition agent_template :: "gotime \<Rightarrow> string \<Rightarrow> duration \<Rightarrow> string \<Rightarrow> nat \<Rightarrow> 'pub \<Rightarrow> 'pub cert_template" where
  "agent_template now agentID ttl uri serial pub =
     \<lparr>ct_Serial = serial, ct_CommonName = agentID, ct_NotBefore = now - hour, ct_NotAfter = now + ttl, ct_ClientAuth = True,
      ct_URIs = [uri], ct_DNSNames = [agentID], ct_IPAddresses = [], ct_PublicKey = pub\<rparr>"

text \<open>The public key of a request, or a new key, with its encoding.\<close>

definition issue_key :: "'pub x509_lib \<Rightarrow> 'pub option \<Rightarrow> ('pub \<times> string) option" where
  "issue_key lib pub = (case pub of Some k \<Rightarrow> Some (k, []) | None \<Rightarrow> lx_generate lib)"

definition ca_Issue :: "'pub x509_lib \<Rightarrow> gotime \<Rightarrow> CA \<Rightarrow> string \<Rightarrow> duration \<Rightarrow> 'pub option \<Rightarrow> string + IssueResult" where
  "ca_Issue lib now c agentID ttl0 pub0 =
     (if agentID = [] then Inl ''agent-id required''
      else
        (case issue_key lib pub0 of
           None \<Rightarrow> Inl ''agent key''
         | Some (pub, keyPEM) \<Rightarrow>
             (case spiffeURI c agentID of
                None \<Rightarrow> Inl ''empty trust domain''
              | Some uri \<Rightarrow>
                  (case lx_serial lib of
                     None \<Rightarrow> Inl ''serial''
                   | Some serial \<Rightarrow>
                       (case sign_cert lib (agent_template now agentID (agent_ttl ttl0) uri serial pub) of
                          None \<Rightarrow> Inl ''sign agent''
                        | Some (der, cert) \<Rightarrow>
                            Inr \<lparr>ir_CertPEM = lx_encode lib ''CERTIFICATE'' der, ir_BundlePEM = TrustBundlePEM lib c, ir_KeyPEM = keyPEM,
                                 ir_SerialHex = big_Text16 (xc_Serial cert), ir_NotAfter = xc_NotAfter cert, ir_SPIFFEURI = uri\<rparr>)))))"

definition ca_IssueFromCSR :: "'pub x509_lib \<Rightarrow> gotime \<Rightarrow> CA \<Rightarrow> string \<Rightarrow> string \<Rightarrow> duration \<Rightarrow> string + IssueResult" where
  "ca_IssueFromCSR lib now c csrPEM agentID ttl =
     (if agentID = [] then Inl ''agent-id required''
      else
        (case lx_decode lib csrPEM of
           None \<Rightarrow> Inl ''no PEM block in CSR''
         | Some bytes \<Rightarrow>
             (case lx_parse_csr lib bytes of
                None \<Rightarrow> Inl ''parse CSR''
              | Some (pub, sig_ok) \<Rightarrow>
                  (if \<not> sig_ok then Inl ''CSR signature''
                   else map_sum id (\<lambda>res. res\<lparr>ir_KeyPEM := []\<rparr>) (ca_Issue lib now c agentID ttl (Some pub))))))"

text \<open>The certificate of the control plane itself; the parse of a given URI is the argument \<open>url_Parse\<close>.\<close>

definition server_uris :: "(string \<Rightarrow> string option) \<Rightarrow> CA \<Rightarrow> string \<Rightarrow> string list option" where
  "server_uris url_Parse c uri =
     (if uri \<noteq> [] then map_option (\<lambda>u. [u]) (url_Parse uri)
      else if domain_host (mc_TrustDomain c) \<noteq> [] then Some [spiffe_String (domain_host (mc_TrustDomain c)) ''/controlplane'']
      else Some [])"

definition server_ttl :: "duration \<Rightarrow> duration" where
  "server_ttl ttl =
     (let ttl1 = (if ttl = 0 then 365 * 24 * hour else ttl) in if 5 * 365 * 24 * hour < ttl1 then 5 * 365 * 24 * hour else ttl1)"

definition IssueServerCert ::
  "'pub x509_lib \<Rightarrow> (string \<Rightarrow> string option) \<Rightarrow> gotime \<Rightarrow> CA \<Rightarrow> string list \<Rightarrow> string list \<Rightarrow> string \<Rightarrow> duration \<Rightarrow> string + IssueResult" where
  "IssueServerCert lib url_Parse now c dns ips uri ttl0 =
     (if dns = [] \<and> ips = [] then Inl ''server cert needs at least one DNS or IP SAN''
      else
        (case (lx_generate lib, lx_serial lib, server_uris url_Parse c uri) of
           (Some (pub, keyPEM), Some serial, Some uris) \<Rightarrow>
             (case sign_cert lib \<lparr>ct_Serial = serial, ct_CommonName = ''firefik control plane'', ct_NotBefore = now - hour,
                 ct_NotAfter = now + server_ttl ttl0, ct_ClientAuth = False, ct_URIs = uris, ct_DNSNames = dns,
                 ct_IPAddresses = List.map_filter net_ParseIP ips, ct_PublicKey = pub\<rparr> of
                None \<Rightarrow> Inl ''sign server cert''
              | Some (der, cert) \<Rightarrow>
                  Inr \<lparr>ir_CertPEM = lx_encode lib ''CERTIFICATE'' der, ir_BundlePEM = TrustBundlePEM lib c, ir_KeyPEM = keyPEM,
                       ir_SerialHex = big_Text16 (xc_Serial cert), ir_NotAfter = xc_NotAfter cert, ir_SPIFFEURI = []\<rparr>)
         | (None, _, _) \<Rightarrow> Inl ''server key''
         | (_, None, _) \<Rightarrow> Inl ''serial''
         | _ \<Rightarrow> Inl ''server SAN URI''))"

end
