(* ===== verification/CP_Renew.thy ===== *)
theory CP_Renew
  imports CP_Certs
begin

text \<open>
  Who gets a certificate: the renewal call of the control plane (\<open>backend/internal/controlplane/grpc_renew.go\<close>), enrollment and the
  bearer check (\<open>backend/cmd/firefik-server/main.go\<close>), over the certificate authority of \<open>CP_Certs\<close> and the store.

  Texts of durations and times are the arguments \<open>dur_text\<close> and \<open>time_text\<close>; metrics and the log are left out.
\<close>

section \<open>Renewal\<close>

datatype renew_error =
    RnFailedPrecondition string
  | RnUnauthenticated string
  | RnPermissionDenied string
  | RnResourceExhausted string
  | RnInvalidArgument string
  | RnInternal string

record RenewCertRequest =
  rq_AgentId :: string
  rq_TtlSeconds :: int
  rq_CsrPem :: string

record RenewCertResponse =
  rp_CertPem :: string
  rp_KeyPem :: string
  rp_BundlePem :: string
  rp_Serial :: string
  rp_ExpiresUnix :: int

record 's GRPCServer =
  gv_CA :: "CA option"
  gv_TrustDomain :: string
  gv_RenewWindow :: duration
  gv_MinRenewInterval :: duration
  gv_Registry :: "'s Registry option"
  gv_Audit :: "(string \<times> (string \<times> string) list) list option"

record renew_env =
  ne_now :: gotime
  ne_dur_text :: "duration \<Rightarrow> string"
  ne_time_text :: "gotime \<Rightarrow> string"

definition defaultRenewWindow :: duration where "defaultRenewWindow = 24 * hour"
definition defaultMinRenewInterval :: duration where "defaultMinRenewInterval = 300 * second"

definition spiffeVerifier :: "string \<Rightarrow> 'pub x509_cert \<Rightarrow> bool" where
  "spiffeVerifier trustDomain cert \<longleftrightarrow>
     list_ex (\<lambda>u. case u of None \<Rightarrow> False | Some s \<Rightarrow> strings_HasPrefix s (''spiffe://'' @ domain_host trustDomain @ ''/'')) (xc_URIs cert)"

fun after_marker :: "string \<Rightarrow> string \<Rightarrow> string option" where
  "after_marker m [] = (if m = [] then Some [] else None)"
| "after_marker m (c # cs) = (if prefix m (c # cs) then Some (drop (length m) (c # cs)) else after_marker m cs)"

fun agent_id_in :: "string option list \<Rightarrow> string" where
  "agent_id_in [] = []"
| "agent_id_in (None # us) = agent_id_in us"
| "agent_id_in (Some s # us) = (case after_marker ''/agent/'' s of Some aid \<Rightarrow> aid | None \<Rightarrow> agent_id_in us)"

definition agentIDFromCert :: "'pub x509_cert \<Rightarrow> string" where
  "agentIDFromCert cert = agent_id_in (xc_URIs cert)"

definition csrPubKeyMatchesPeer :: "'pub x509_lib \<Rightarrow> string \<Rightarrow> 'pub x509_cert \<Rightarrow> bool" where
  "csrPubKeyMatchesPeer lib csrPEM peer =
     (case lx_decode lib csrPEM of
        None \<Rightarrow> False
      | Some bytes \<Rightarrow>
          (case lx_parse_csr lib bytes of
             None \<Rightarrow> False
           | Some (pub, _) \<Rightarrow> lx_spki lib pub \<noteq> None \<and> lx_spki lib pub = lx_spki lib (xc_PublicKey peer)))"

definition boolStr :: "bool \<Rightarrow> string" where
  "boolStr b = (if b then ''true'' else ''false'')"

definition emitAudit :: "string \<Rightarrow> (string \<times> string) list \<Rightarrow> 's GRPCServer \<Rightarrow> 's GRPCServer" where
  "emitAudit action meta s = s\<lparr>gv_Audit := map_option (\<lambda>l. l @ [(action, meta)]) (gv_Audit s)\<rparr>"

text \<open>The checks of the peer: an error, or the agent's id.\<close>

definition renew_peer :: "'s GRPCServer \<Rightarrow> string + 'pub x509_cert \<Rightarrow> RenewCertRequest \<Rightarrow> renew_error + string \<times> 'pub x509_cert" where
  "renew_peer s peer req =
     (case peer of
        Inl e \<Rightarrow> Inl (RnUnauthenticated e)
      | Inr cert \<Rightarrow>
          (if gv_TrustDomain s \<noteq> [] \<and> \<not> spiffeVerifier (gv_TrustDomain s) cert
           then Inl (RnPermissionDenied (''peer has no SPIFFE SAN under spiffe://'' @ domain_host (gv_TrustDomain s) @ ''/''))
           else if agentIDFromCert cert = [] then Inl (RnPermissionDenied ''peer cert lacks SPIFFE agent SAN'')
           else if rq_AgentId req \<noteq> [] \<and> rq_AgentId req \<noteq> agentIDFromCert cert
           then Inl (RnPermissionDenied ''agent_id does not match peer certificate'')
           else Inr (agentIDFromCert cert, cert)))"

definition renew_window :: "'s GRPCServer \<Rightarrow> duration" where
  "renew_window s = (if gv_RenewWindow s \<le> 0 then defaultRenewWindow else gv_RenewWindow s)"

definition min_renew_interval :: "'s GRPCServer \<Rightarrow> duration" where
  "min_renew_interval s = (let m = (if gv_MinRenewInterval s < 0 then 0 else gv_MinRenewInterval s) in if m = 0 then defaultMinRenewInterval else m)"

definition with_store :: "('s Store \<Rightarrow> 's \<Rightarrow> 'r \<times> 's) \<Rightarrow> 's GRPCServer \<Rightarrow> 'r option \<times> 's GRPCServer" where
  "with_store op s =
     (case gv_Registry s of
        None \<Rightarrow> (None, s)
      | Some r \<Rightarrow>
          (case rg_store r of
             None \<Rightarrow> (None, s)
           | Some (st, x) \<Rightarrow> (case op st x of (res, x1) \<Rightarrow> (Some res, s\<lparr>gv_Registry := Some (r\<lparr>rg_store := Some (st, x1)\<rparr>)\<rparr>))))"

definition renew_too_soon :: "gotime \<Rightarrow> duration \<Rightarrow> (cp_error + gotime option) option \<Rightarrow> bool" where
  "renew_too_soon now minInterval res =
     (case res of Some (Inr (Some lastAt)) \<Rightarrow> now - lastAt < minInterval | _ \<Rightarrow> False)"

definition issue_renewal :: "'pub x509_lib \<Rightarrow> gotime \<Rightarrow> CA \<Rightarrow> string \<Rightarrow> 'pub x509_cert \<Rightarrow> RenewCertRequest \<Rightarrow> renew_error + IssueResult" where
  "issue_renewal lib now c agentID peer req =
     (let ttl = mul_int64 (rq_TtlSeconds req) second;
          issued = (if rq_CsrPem req \<noteq> [] then ca_IssueFromCSR lib now c (rq_CsrPem req) agentID ttl else ca_Issue lib now c agentID ttl None)
      in if rq_CsrPem req \<noteq> [] \<and> \<not> csrPubKeyMatchesPeer lib (rq_CsrPem req) peer
         then Inl (RnInvalidArgument ''CSR public key must match the peer cert public key'')
         else (case issued of Inl _ \<Rightarrow> Inl (RnInternal ''issue failed'') | Inr res \<Rightarrow> Inr res))"

definition renewed_meta :: "renew_env \<Rightarrow> string \<Rightarrow> string \<Rightarrow> IssueResult \<Rightarrow> bool \<Rightarrow> (string \<times> string) list" where
  "renewed_meta env agentID peerSerial res csrMode =
     [(''agent_id'', agentID), (''serial_old'', peerSerial), (''serial_new'', ir_SerialHex res), (''expires_at'', ne_time_text env (ir_NotAfter res)),
      (''csr_mode'', boolStr csrMode), (''transport'', ''grpc'')]"

definition RenewCert ::
  "'pub x509_lib \<Rightarrow> renew_env \<Rightarrow> string + 'pub x509_cert \<Rightarrow> RenewCertRequest \<Rightarrow> 's GRPCServer \<Rightarrow> (renew_error + RenewCertResponse) \<times> 's GRPCServer" where
  "RenewCert lib env peer req s =
     (case gv_CA s of
        None \<Rightarrow> (Inl (RnFailedPrecondition ''renew disabled: no CA configured''), s)
      | Some c \<Rightarrow>
          (case renew_peer s peer req of
             Inl e \<Rightarrow> (Inl e, s)
           | Inr (agentID, cert) \<Rightarrow>
               (let now = ne_now env; peerSerial = strings_ToLower (big_Text16 (xc_Serial cert)); remaining = xc_NotAfter cert - now in
                if IsRevoked c peerSerial then
                  (Inl (RnPermissionDenied ''client certificate is revoked''),
                   emitAudit ''cert_renew_rejected''
                     [(''agent_id'', agentID), (''serial'', peerSerial), (''reason'', ''revoked''), (''transport'', ''grpc'')] s)
                else if renew_window s < remaining then
                  (Inl (RnFailedPrecondition (''certificate valid for '' @ ne_dur_text env remaining @ ''; renew window is '' @ ne_dur_text env (renew_window s))), s)
                else
                  (case with_store (\<lambda>st. st_LastCertRenew st peerSerial) s of (res, s1) \<Rightarrow>
                     if renew_too_soon now (min_renew_interval s) res then
                       (Inl (RnResourceExhausted (''renew too frequent for this serial; wait '' @ ne_dur_text env (min_renew_interval s))), s1)
                     else
                       (case issue_renewal lib now c agentID cert req of
                          Inl e \<Rightarrow> (Inl e, s1)
                        | Inr res \<Rightarrow>
                            (case with_store (\<lambda>st. st_RecordCertRenew st peerSerial agentID now) s1 of (_, s2) \<Rightarrow>
                               (Inr \<lparr>rp_CertPem = ir_CertPEM res, rp_KeyPem = ir_KeyPEM res, rp_BundlePem = ir_BundlePEM res,
                                     rp_Serial = ir_SerialHex res, rp_ExpiresUnix = time_Unix (ir_NotAfter res)\<rparr>,
                                emitAudit ''cert_renewed'' (renewed_meta env agentID peerSerial res (rq_CsrPem req \<noteq> [])) s2)))))))"

section \<open>Enrollment\<close>

record EnrollRequest =
  eq_AgentID :: string
  eq_TTLSeconds :: int
  eq_EnrollmentToken :: string

record EnrollResponse =
  er_CertPEM :: string
  er_KeyPEM :: string
  er_BundlePEM :: string
  er_Serial :: string
  er_SPIFFEURI :: string
  er_NotAfterUnix :: int

datatype enroll_reply = EnrollError nat string | EnrollOK EnrollResponse

text \<open>The authentication of an enrollment: an answer that ends it, or nothing, and the store.\<close>

definition enroll_auth ::
  "string \<Rightarrow> gotime \<Rightarrow> string \<Rightarrow> string \<Rightarrow> (cp_error \<Rightarrow> string) \<Rightarrow> EnrollRequest \<Rightarrow> ('s Store \<times> 's) option \<Rightarrow> enroll_reply option \<times> ('s Store \<times> 's) option" where
  "enroll_auth token now authorization ipText err_text req store =
     (case store of
        Some (st, s) \<Rightarrow>
          (if eq_EnrollmentToken req \<noteq> [] then
             (case st_ConsumeEnrollmentToken st now (eq_EnrollmentToken req) ipText s of
                (Inl e, s1) \<Rightarrow> (Some (EnrollError 401 (err_text e)), Some (st, s1))
              | (Inr et, s1) \<Rightarrow>
                  (if et_AgentID et \<noteq> eq_AgentID req then (Some (EnrollError 403 ''agent_id does not match enrollment token''), Some (st, s1))
                   else (None, Some (st, s1))))
           else if token \<noteq> [] \<and> authorization \<noteq> ''Bearer '' @ token then (Some (EnrollError 401 ''unauthorized''), store)
           else (None, store))
      | None \<Rightarrow> (if token \<noteq> [] \<and> authorization \<noteq> ''Bearer '' @ token then (Some (EnrollError 401 ''unauthorized''), store) else (None, store)))"

definition enroll_response :: "IssueResult \<Rightarrow> EnrollResponse" where
  "enroll_response res = \<lparr>er_CertPEM = ir_CertPEM res, er_KeyPEM = ir_KeyPEM res, er_BundlePEM = ir_BundlePEM res, er_Serial = ir_SerialHex res,
     er_SPIFFEURI = ir_SPIFFEURI res, er_NotAfterUnix = time_Unix (ir_NotAfter res)\<rparr>"

text \<open>A body that does not decode is its error.\<close>

definition enroll_handler ::
  "'pub x509_lib \<Rightarrow> CA \<Rightarrow> string \<Rightarrow> gotime \<Rightarrow> string \<Rightarrow> string \<Rightarrow> string \<Rightarrow> (cp_error \<Rightarrow> string) \<Rightarrow> string + EnrollRequest \<Rightarrow> ('s Store \<times> 's) option
   \<Rightarrow> enroll_reply \<times> ('s Store \<times> 's) option" where
  "enroll_handler lib c token now meth authorization ipText err_text body store =
     (if meth \<noteq> ''POST'' then (EnrollError 405 ''method not allowed'', store)
      else
        (case body of
           Inl e \<Rightarrow> (EnrollError 400 (''decode: '' @ e), store)
         | Inr req \<Rightarrow>
             (if eq_AgentID req = [] then (EnrollError 400 ''agent_id required'', store)
              else
                (case enroll_auth token now authorization ipText err_text req store of
                   (Some reply, store1) \<Rightarrow> (reply, store1)
                 | (None, store1) \<Rightarrow>
                     (case ca_Issue lib now c (eq_AgentID req) (mul_int64 (eq_TTLSeconds req) second) None of
                        Inl _ \<Rightarrow> (EnrollError 500 ''issue failed'', store1)
                      | Inr res \<Rightarrow> (EnrollOK (enroll_response res), store1))))))"

definition clientIP :: "(string \<Rightarrow> string option) \<Rightarrow> string \<Rightarrow> string \<Rightarrow> string" where
  "clientIP split_host fwd remote =
     (if fwd \<noteq> [] then (case strings_Index fwd CHR '','' of Some i \<Rightarrow> take i fwd | None \<Rightarrow> fwd)
      else (case split_host remote of None \<Rightarrow> remote | Some host \<Rightarrow> host))"

section \<open>The bearer check of the gRPC interceptors\<close>

text \<open>\<open>md\<close> is the list of authorization values, \<open>None\<close> without metadata.\<close>

definition authenticateBearer ::
  "gotime \<Rightarrow> string \<Rightarrow> string \<Rightarrow> string list option \<Rightarrow> ('s Store \<times> 's) option \<Rightarrow> (rpc_error + string) \<times> ('s Store \<times> 's) option" where
  "authenticateBearer now peerIP legacyToken md store =
     (let anonymous = (legacyToken = [] \<and> store = None) in
      case md of
        None \<Rightarrow> (if anonymous then Inr [] else Inl Unauthenticated, store)
      | Some [] \<Rightarrow> (if anonymous then Inr [] else Inl Unauthenticated, store)
      | Some (header # _) \<Rightarrow>
          (if length header \<le> 7 \<or> take 7 header \<noteq> ''Bearer '' then (Inl Unauthenticated, store)
           else
             (let plaintext = drop 7 header in
              if legacyToken \<noteq> [] \<and> plaintext = legacyToken then (Inr plaintext, store)
              else
                (case store of
                   None \<Rightarrow> (if anonymous then Inr plaintext else Inl Unauthenticated, store)
                 | Some (st, s) \<Rightarrow>
                     (case st_ValidateAgentToken st plaintext s of
                        (Inr tok, s1) \<Rightarrow> (Inr plaintext, Some (st, snd (st_TouchAgentToken st now (at_ID tok) peerIP s1)))
                      | (Inl e, s1) \<Rightarrow>
                          (if e \<noteq> ErrAgentTokenUnknown \<and> e \<noteq> ErrAgentTokenRevoked
                           then (Inl (RpcInternal (CPError ''agent token validation error'')), Some (st, s1))
                           else (Inl Unauthenticated, Some (st, s1))))))))"

end
