(* ===== verification/CP_Identity.thy ===== *)
theory CP_Identity
  imports CP_Renew
begin

text \<open>
  What the certificates of the control plane promise: which requests get one, for which agent and for how long, that an agent keeps
  its identity over renewals, how often it may renew, and when a revocation takes effect.
\<close>

section \<open>The documented behaviour of the library\<close>

text \<open>
  A signed certificate parses to the fields of its template (times are cut to seconds), and the PEM encoding can be read
  back. These are hypotheses of the theorems that look into an issued certificate.
\<close>

definition issued_as :: "'pub cert_template \<Rightarrow> 'pub x509_cert \<Rightarrow> bool" where
  "issued_as t cert \<longleftrightarrow> xc_Serial cert = ct_Serial t \<and> xc_URIs cert = map Some (ct_URIs t) \<and> xc_DNSNames cert = ct_DNSNames t
     \<and> xc_IPAddresses cert = ct_IPAddresses t \<and> ct_NotAfter t - second < xc_NotAfter cert \<and> xc_NotAfter cert \<le> ct_NotAfter t
     \<and> xc_PublicKey cert = ct_PublicKey t"

definition x509_faithful :: "'pub x509_lib \<Rightarrow> bool" where
  "x509_faithful lib \<longleftrightarrow> (\<forall>t der. lx_create lib t = Some der \<longrightarrow> (\<exists>cert. lx_parse lib der = Some cert \<and> issued_as t cert))
     \<and> (\<forall>ty b. lx_decode lib (lx_encode lib ty b) = Some b)"

definition read_cert :: "'pub x509_lib \<Rightarrow> string \<Rightarrow> 'pub x509_cert option" where
  "read_cert lib pem = Option.bind (lx_decode lib pem) (lx_parse lib)"

lemma sign_cert_read:
  assumes "x509_faithful lib" "sign_cert lib t = Some (der, cert)"
  shows "read_cert lib (lx_encode lib ty der) = Some cert" "issued_as t cert"
proof -
  have c: "lx_create lib t = Some der" "lx_parse lib der = Some cert" using assms(2) by (auto simp: sign_cert_def split: option.splits)
  then obtain cert' where "lx_parse lib der = Some cert'" "issued_as t cert'" using assms(1) unfolding x509_faithful_def by blast
  then show "issued_as t cert" using c(2) by simp
  show "read_cert lib (lx_encode lib ty der) = Some cert" using assms(1) c(2) by (simp add: read_cert_def x509_faithful_def)
qed

section \<open>Serial numbers and names\<close>

lemma hex_digit_lower: "d < 16 \<Longrightarrow> to_lower (CP_Types.hex_digit d) = CP_Types.hex_digit d"
  by (auto simp: to_lower_def CP_Types.hex_digit_def Let_def)

lemma Text16_lower [simp]: "strings_ToLower (big_Text16 n) = big_Text16 n"
proof (induction n rule: big_Text16.induct)
  case (1 n)
  then show ?case by (subst (1 2) big_Text16.simps) (auto simp: strings_ToLower_def hex_digit_lower)
qed

lemma Text16_nonempty [simp]: "big_Text16 n \<noteq> []"
  by (subst big_Text16.simps) auto

lemma url_escape_plain: "list_all (\<lambda>c. unreserved c \<or> c \<in> set allowed) s \<Longrightarrow> url_escape allowed s = s"
  by (induction s) (auto simp: url_escape_def)

lemma upper_hex_not_slash: "d < 16 \<Longrightarrow> upper_hex d \<noteq> CHR ''/''"
proof
  assume d: "d < 16" and "upper_hex d = CHR ''/''"
  then have "(of_char (upper_hex d) :: nat) = 47" by simp
  with d show False by (auto simp: upper_hex_def take_bit_nat_eq_self split: if_splits)
qed

lemma escape_host_no_slash: "CHR ''/'' \<notin> set (url_escape host_chars s)"
proof -
  have u: "\<not> unreserved CHR ''/''" "CHR ''/'' \<notin> set host_chars"
    by (simp_all add: unreserved_def host_chars_def less_eq_char_def)
  have h: "upper_hex (of_char c div 16) \<noteq> CHR ''/''" "upper_hex (of_char c mod 16) \<noteq> CHR ''/''" for c
    using less_mult_imp_div_less [of "of_char c" 16 16] by (auto intro!: upper_hex_not_slash)
  show ?thesis
    by (induction s) (use u h [symmetric] in \<open>auto simp: url_escape_def\<close>)
qed

lemma after_marker_skip: "CHR ''/'' \<notin> set p \<Longrightarrow> after_marker (CHR ''/'' # m) (p @ s) = after_marker (CHR ''/'' # m) s"
  by (induction p) auto

lemma after_marker_agent:
  assumes "CHR ''/'' \<notin> set h" "h \<noteq> ''agent''"
  shows "after_marker ''/agent/'' (''spiffe://'' @ h @ ''/agent/'' @ aid) = Some aid"
proof -
  have "\<not> prefix ''/agent/'' (CHR ''/'' # h @ ''/agent/'' @ aid)"
  proof
    assume "prefix ''/agent/'' (CHR ''/'' # h @ ''/agent/'' @ aid)"
    then obtain z where z: "h @ ''/agent/'' @ aid = ''agent'' @ CHR ''/'' # z" by (auto simp: prefix_def)
    have "takeWhile (\<lambda>c. c \<noteq> CHR ''/'') (h @ CHR ''/'' # y) = h" for y using assms(1) by (auto simp: takeWhile_append)
    then have "takeWhile (\<lambda>c. c \<noteq> CHR ''/'') (h @ ''/agent/'' @ aid) = h" by simp
    moreover have "takeWhile (\<lambda>c. c \<noteq> CHR ''/'') (''agent'' @ CHR ''/'' # z) = ''agent''" by simp
    ultimately show False using z assms(2) by simp
  qed
  then have "after_marker ''/agent/'' (CHR ''/'' # h @ ''/agent/'' @ aid) = after_marker ''/agent/'' (h @ ''/agent/'' @ aid)" by simp
  also have "\<dots> = after_marker ''/agent/'' (''/agent/'' @ aid)" by (rule after_marker_skip [OF assms(1)])
  also have "\<dots> = Some aid" by simp
  finally have "after_marker ''/agent/'' (CHR ''/'' # h @ ''/agent/'' @ aid) = Some aid" .
  then show ?thesis using after_marker_skip [of "''spiffe:''" "''agent/''" "''//'' @ h @ ''/agent/'' @ aid"] by simp
qed

definition plain_id :: "string \<Rightarrow> bool" where
  "plain_id aid \<longleftrightarrow> list_all (\<lambda>c. unreserved c \<or> c \<in> set path_chars) aid"

lemma spiffe_agent:
  assumes "plain_id aid" "url_escape host_chars host \<noteq> ''agent''" "xc_URIs cert = [Some (spiffe_String host (spiffePathPrefix @ aid))]"
  shows "agentIDFromCert cert = aid"
proof -
  have "list_all (\<lambda>c. unreserved c \<or> c \<in> set path_chars) (spiffePathPrefix @ aid)"
    using assms(1) by (simp add: plain_id_def spiffePathPrefix_def unreserved_def path_chars_def less_eq_char_def)
  then have "spiffe_String host (spiffePathPrefix @ aid) = ''spiffe://'' @ url_escape host_chars host @ ''/agent/'' @ aid"
    by (simp add: spiffe_String_def url_escape_plain spiffePathPrefix_def)
  then show ?thesis
    using after_marker_agent [OF escape_host_no_slash assms(2), of aid] assms(3) by (simp add: agentIDFromCert_def)
qed

section \<open>Issued certificates\<close>

lemma agent_ttl_bound: "agent_ttl ttl \<le> maxAgentTTL"
  by (simp add: agent_ttl_def Let_def defaultAgentTTL_def maxAgentTTL_def hour_def second_def)

lemma Issue_cert:
  assumes "x509_faithful lib" "ca_Issue lib now c aid ttl pub = Inr res"
  obtains new serial k kp where "read_cert lib (ir_CertPEM res) = Some new" "issue_key lib pub = Some (k, kp)"
    "issued_as (agent_template now aid (agent_ttl ttl) (spiffe_String (domain_host (mc_TrustDomain c)) (spiffePathPrefix @ aid)) serial k) new"
    "ir_KeyPEM res = kp"
proof -
  from assms(2) obtain k kp uri serial der cert where
    k: "issue_key lib pub = Some (k, kp)" and u: "spiffeURI c aid = Some uri"
    and sg: "sign_cert lib (agent_template now aid (agent_ttl ttl) uri serial k) = Some (der, cert)"
    and r: "ir_CertPEM res = lx_encode lib ''CERTIFICATE'' der" "ir_KeyPEM res = kp"
    by (auto simp: ca_Issue_def split: if_splits option.splits prod.splits)
  have "uri = spiffe_String (domain_host (mc_TrustDomain c)) (spiffePathPrefix @ aid)"
    using u by (auto simp: spiffeURI_def Let_def split: if_splits)
  then show ?thesis using that [OF _ k _ r(2)] sign_cert_read [OF assms(1) sg] r(1) by metis
qed

text \<open>What an issued certificate says, for an agent, an issuing time and, where given, a public key.\<close>

definition names_agent :: "CA \<Rightarrow> string \<Rightarrow> gotime \<Rightarrow> 'pub x509_cert \<Rightarrow> bool" where
  "names_agent c aid now cert \<longleftrightarrow> xc_URIs cert = [Some (spiffe_String (domain_host (mc_TrustDomain c)) (spiffePathPrefix @ aid))]
     \<and> xc_NotAfter cert \<le> now + maxAgentTTL"

lemma issued_names:
  assumes "issued_as (agent_template now aid (agent_ttl ttl) (spiffe_String (domain_host (mc_TrustDomain c)) (spiffePathPrefix @ aid)) serial k) new"
  shows "names_agent c aid now new" "xc_PublicKey new = k"
  using assms agent_ttl_bound [of ttl] by (auto simp: issued_as_def agent_template_def names_agent_def)

lemma issue_renewal_cert:
  assumes "x509_faithful lib" "issue_renewal lib now c aid peer req = Inr res"
  obtains new where "read_cert lib (ir_CertPEM res) = Some new" "names_agent c aid now new"
    "rq_CsrPem req = [] \<or> lx_spki lib (xc_PublicKey new) = lx_spki lib (xc_PublicKey peer) \<and> ir_KeyPEM res = []"
proof (cases "rq_CsrPem req = []")
  case True
  then have "ca_Issue lib now c aid (mul_int64 (rq_TtlSeconds req) second) None = Inr res"
    using assms(2) by (auto simp: issue_renewal_def Let_def split: sum.splits)
  from Issue_cert [OF assms(1) this] show ?thesis using that issued_names True by metis
next
  case False
  have m: "csrPubKeyMatchesPeer lib (rq_CsrPem req) peer"
    and i: "ca_IssueFromCSR lib now c (rq_CsrPem req) aid (mul_int64 (rq_TtlSeconds req) second) = Inr res"
    using assms(2) False by (auto simp: issue_renewal_def Let_def split: sum.splits if_splits)
  from i obtain bytes pub res0 where b: "lx_decode lib (rq_CsrPem req) = Some bytes" "lx_parse_csr lib bytes = Some (pub, True)"
    and isu: "ca_Issue lib now c aid (mul_int64 (rq_TtlSeconds req) second) (Some pub) = Inr res0" and r: "res = res0\<lparr>ir_KeyPEM := []\<rparr>"
    by (auto simp: ca_IssueFromCSR_def map_sum_def split: if_splits option.splits prod.splits sum.splits)
  have sp: "lx_spki lib pub = lx_spki lib (xc_PublicKey peer)" using m b by (auto simp: csrPubKeyMatchesPeer_def)
  obtain new serial k kp where n: "read_cert lib (ir_CertPEM res0) = Some new" and k: "issue_key lib (Some pub) = Some (k, kp)"
    and a: "issued_as (agent_template now aid (agent_ttl (mul_int64 (rq_TtlSeconds req) second))
      (spiffe_String (domain_host (mc_TrustDomain c)) (spiffePathPrefix @ aid)) serial k) new"
    by (rule Issue_cert [OF assms(1) isu])
  show ?thesis using that [of new] n k issued_names [OF a] sp r by (simp add: issue_key_def)
qed

section \<open>Renewals\<close>

lemma with_store_CA [simp]: "gv_CA (snd (with_store op s)) = gv_CA s" "gv_MinRenewInterval (snd (with_store op s)) = gv_MinRenewInterval s"
  "gv_RenewWindow (snd (with_store op s)) = gv_RenewWindow s" "gv_TrustDomain (snd (with_store op s)) = gv_TrustDomain s"
  by (auto simp: with_store_def split: option.splits prod.splits)

lemma RenewCert_Inr:
  assumes "RenewCert lib env peer req s = (Inr resp, s')"
  obtains c cert res where "gv_CA s = Some c" "peer = Inr cert" "renew_peer s peer req = Inr (agentIDFromCert cert, cert)"
    "\<not> IsRevoked c (big_Text16 (xc_Serial cert))" "xc_NotAfter cert - ne_now env \<le> renew_window s"
    "\<not> renew_too_soon (ne_now env) (min_renew_interval s) (fst (with_store (\<lambda>st. st_LastCertRenew st (big_Text16 (xc_Serial cert))) s))"
    "issue_renewal lib (ne_now env) c (agentIDFromCert cert) cert req = Inr res"
    "resp = \<lparr>rp_CertPem = ir_CertPEM res, rp_KeyPem = ir_KeyPEM res, rp_BundlePem = ir_BundlePEM res, rp_Serial = ir_SerialHex res,
       rp_ExpiresUnix = time_Unix (ir_NotAfter res)\<rparr>"
    "s' = emitAudit ''cert_renewed'' (renewed_meta env (agentIDFromCert cert) (big_Text16 (xc_Serial cert)) res (rq_CsrPem req \<noteq> []))
       (snd (with_store (\<lambda>st. st_RecordCertRenew st (big_Text16 (xc_Serial cert)) (agentIDFromCert cert) (ne_now env))
         (snd (with_store (\<lambda>st. st_LastCertRenew st (big_Text16 (xc_Serial cert))) s))))"
proof -
  from assms obtain c where c: "gv_CA s = Some c" by (auto simp: RenewCert_def split: option.splits)
  with assms obtain aid cert where p: "renew_peer s peer req = Inr (aid, cert)"
    by (auto simp: RenewCert_def split: sum.splits prod.splits)
  have a: "peer = Inr cert" "aid = agentIDFromCert cert" using p by (auto simp: renew_peer_def split: sum.splits if_splits)
  show ?thesis
    using assms c p that [OF c a(1)] unfolding a(2)
    by (auto simp: RenewCert_def Let_def split: if_splits prod.splits sum.splits)
qed

lemma RenewCert_new:
  assumes "x509_faithful lib" "RenewCert lib env (Inr cert) req s = (Inr resp, s')" "gv_CA s = Some c"
  obtains new where "read_cert lib (rp_CertPem resp) = Some new" "names_agent c (agentIDFromCert cert) (ne_now env) new"
    "rq_CsrPem req = [] \<or> lx_spki lib (xc_PublicKey new) = lx_spki lib (xc_PublicKey cert) \<and> rp_KeyPem resp = []"
  using assms(2)
proof (cases rule: RenewCert_Inr)
  case (1 c' cert' res)
  have e: "c' = c" "cert' = cert" using 1(1,2) assms(3) by simp_all
  obtain new where "read_cert lib (ir_CertPEM res) = Some new" "names_agent c (agentIDFromCert cert) (ne_now env) new"
    "rq_CsrPem req = [] \<or> lx_spki lib (xc_PublicKey new) = lx_spki lib (xc_PublicKey cert) \<and> ir_KeyPEM res = []"
    by (rule issue_renewal_cert [OF assms(1) 1(7) [unfolded e]])
  then show ?thesis using that [of new] by (simp add: 1(8))
qed

section \<open>Properties\<close>

text \<open>
  C23. A renewal is for the agent of the certificate presented and nobody else. When it succeeds, the peer showed a certificate that
  is not revoked, lies under the trust domain, names an agent, the one of the request where the request names one, and ends
  within the renewal window. The new certificate names that agent, ends at most 90 days from now whatever
  64-bit lifetime was asked for, and with a signing request it is for the key of the peer and no private key is returned.
\<close>

theorem RenewCert_sound:
  assumes "x509_faithful lib" "RenewCert lib env peer req s = (Inr resp, s')"
  shows "\<exists>c cert new. gv_CA s = Some c \<and> peer = Inr cert \<and> (gv_TrustDomain s = [] \<or> spiffeVerifier (gv_TrustDomain s) cert)
    \<and> agentIDFromCert cert \<noteq> [] \<and> (rq_AgentId req = [] \<or> rq_AgentId req = agentIDFromCert cert)
    \<and> \<not> IsRevoked c (big_Text16 (xc_Serial cert)) \<and> xc_NotAfter cert \<le> ne_now env + renew_window s
    \<and> read_cert lib (rp_CertPem resp) = Some new
    \<and> xc_URIs new = [Some (spiffe_String (domain_host (mc_TrustDomain c)) (spiffePathPrefix @ agentIDFromCert cert))]
    \<and> xc_NotAfter new \<le> ne_now env + 90 * 24 * hour
    \<and> (rq_CsrPem req = [] \<or> lx_spki lib (xc_PublicKey new) = lx_spki lib (xc_PublicKey cert) \<and> rp_KeyPem resp = [])"
  using assms(2)
proof (cases rule: RenewCert_Inr)
  case (1 c cert res)
  obtain new where n: "read_cert lib (rp_CertPem resp) = Some new" "names_agent c (agentIDFromCert cert) (ne_now env) new"
    "rq_CsrPem req = [] \<or> lx_spki lib (xc_PublicKey new) = lx_spki lib (xc_PublicKey cert) \<and> rp_KeyPem resp = []"
    by (rule RenewCert_new [OF assms(1) assms(2) [unfolded 1(2)] 1(1)])
  have "(gv_TrustDomain s = [] \<or> spiffeVerifier (gv_TrustDomain s) cert) \<and> agentIDFromCert cert \<noteq> []
      \<and> (rq_AgentId req = [] \<or> rq_AgentId req = agentIDFromCert cert)"
    using 1(2,3) by (auto simp: renew_peer_def split: if_splits)
  then show ?thesis using 1(1,2,4,5) n by (auto simp: names_agent_def maxAgentTTL_def)
qed

text \<open>An instance of the library that signs one template, and a certificate presented to it.\<close>

definition demo_CA :: CA where
  "demo_CA = \<lparr>mc_TrustDomain = ''fire'', mc_root = ''r'', mc_issuing = ''i'', mc_revoked = []\<rparr>"

definition demo_x509 :: "gotime \<Rightarrow> nat x509_lib" where
  "demo_x509 now = \<lparr>lx_generate = Some (7, ''key''), lx_serial = Some 255,
     lx_create = (\<lambda>t. if t = agent_template now ''a1'' defaultAgentTTL ''spiffe://fire/agent/a1'' 255 7 then Some ''der'' else None),
     lx_parse = (\<lambda>_. Some \<lparr>xc_Serial = 255, xc_URIs = [Some ''spiffe://fire/agent/a1''], xc_DNSNames = [''a1''], xc_IPAddresses = [],
       xc_NotAfter = now + defaultAgentTTL, xc_PublicKey = 7\<rparr>),
     lx_parse_csr = (\<lambda>_. None), lx_spki = (\<lambda>_. None), lx_encode = (\<lambda>_ b. b), lx_decode = Some\<rparr>"

definition demo_cert :: "nat x509_cert" where
  "demo_cert = \<lparr>xc_Serial = 18, xc_URIs = [Some ''spiffe://fire/agent/a1''], xc_DNSNames = [''a1''], xc_IPAddresses = [], xc_NotAfter = 60, xc_PublicKey = 7\<rparr>"

definition demo_grpc :: "memStore GRPCServer" where
  "demo_grpc = \<lparr>gv_CA = Some demo_CA, gv_TrustDomain = ''fire'', gv_RenewWindow = 0, gv_MinRenewInterval = 0,
     gv_Registry = Some (NewRegistry (\<lambda>_. [])), gv_Audit = Some []\<rparr>"

definition demo_renew_env :: "gotime \<Rightarrow> renew_env" where
  "demo_renew_env now = \<lparr>ne_now = now, ne_dur_text = (\<lambda>_. []), ne_time_text = (\<lambda>_. [])\<rparr>"

definition demo_renew_request :: RenewCertRequest where
  "demo_renew_request = \<lparr>rq_AgentId = ''a1'', rq_TtlSeconds = 0, rq_CsrPem = []\<rparr>"

lemma demo_faithful: "x509_faithful (demo_x509 now)"
  by (auto simp: x509_faithful_def demo_x509_def issued_as_def agent_template_def second_def)

lemma demo_uri: "spiffeURI demo_CA ''a1'' = Some ''spiffe://fire/agent/a1''"
  by (simp add: spiffeURI_def demo_CA_def domain_host_def strings_TrimPrefix_def strings_TrimSuffix_def suffix_def Let_def spiffe_String_def
      url_escape_def unreserved_def less_eq_char_def spiffePathPrefix_def path_chars_def)

lemma demo_id: "agentIDFromCert demo_cert = ''a1''"
  by (simp add: agentIDFromCert_def demo_cert_def)

lemma demo_issue: "issue_renewal (demo_x509 now) now demo_CA ''a1'' demo_cert demo_renew_request
    = Inr \<lparr>ir_CertPEM = ''der'', ir_BundlePEM = ''ri'', ir_KeyPEM = ''key'', ir_SerialHex = big_Text16 255, ir_NotAfter = now + defaultAgentTTL,
           ir_SPIFFEURI = ''spiffe://fire/agent/a1''\<rparr>"
proof -
  have lib: "lx_generate (demo_x509 now) = Some (7, ''key'')" "lx_serial (demo_x509 now) = Some 255" "TrustBundlePEM (demo_x509 now) demo_CA = ''ri''"
    "lx_encode (demo_x509 now) ty b = b" for ty b
    by (simp_all add: demo_x509_def TrustBundlePEM_def RootPEM_def demo_CA_def)
  have sg: "sign_cert (demo_x509 now) (agent_template now ''a1'' defaultAgentTTL ''spiffe://fire/agent/a1'' 255 7)
    = Some (''der'', \<lparr>xc_Serial = 255, xc_URIs = [Some ''spiffe://fire/agent/a1''], xc_DNSNames = [''a1''], xc_IPAddresses = [],
       xc_NotAfter = now + defaultAgentTTL, xc_PublicKey = 7\<rparr>)" by (simp add: sign_cert_def demo_x509_def)
  have ttl: "agent_ttl (mul_int64 0 second) = defaultAgentTTL"
    by (simp add: mul_int64_def agent_ttl_def defaultAgentTTL_def maxAgentTTL_def hour_def second_def)
  show ?thesis
    by (simp add: issue_renewal_def Let_def demo_renew_request_def ca_Issue_def demo_uri issue_key_def lib ttl sg)
qed

lemma demo_renewal:
  assumes "gv_CA s = Some demo_CA" "gv_TrustDomain s = ''fire''" "gv_RenewWindow s = 0" "0 \<le> now"
    and "\<not> renew_too_soon now (min_renew_interval s) (fst (with_store (\<lambda>st. st_LastCertRenew st (big_Text16 (xc_Serial demo_cert))) s))"
  shows "\<exists>resp s'. RenewCert (demo_x509 now) (demo_renew_env now) (Inr demo_cert) demo_renew_request s = (Inr resp, s')"
proof -
  have t: "spiffeVerifier ''fire'' demo_cert"
    by (simp add: spiffeVerifier_def demo_cert_def strings_HasPrefix_def domain_host_def strings_TrimPrefix_def strings_TrimSuffix_def suffix_def)
  have p: "renew_peer s (Inr demo_cert) demo_renew_request = Inr (''a1'', demo_cert)"
    by (simp add: renew_peer_def demo_id assms(2) t demo_renew_request_def)
  have c: "\<not> IsRevoked demo_CA x" for x by (simp add: IsRevoked_def demo_CA_def)
  have w: "\<not> renew_window s < xc_NotAfter demo_cert - now"
    using assms(3,4) by (simp add: demo_cert_def renew_window_def defaultRenewWindow_def hour_def second_def)
  have n: "ne_now (demo_renew_env now) = now" by (simp add: demo_renew_env_def)
  show ?thesis using assms(5)
    by (cases "with_store (\<lambda>st. st_LastCertRenew st (big_Text16 (xc_Serial demo_cert))) s")
      (simp add: RenewCert_def assms(1) c p Let_def w n demo_issue split: prod.splits)
qed

lemma demo_registry: "rg_store (NewRegistry sha256) = Some (mem_Store sha256, NewMemoryStore)"
  by (simp add: NewRegistry_def NewRegistryWithStore_def hydrate_def mem_Store_def)

lemma demo_first: "\<exists>resp s'. RenewCert (demo_x509 0) (demo_renew_env 0) (Inr demo_cert) demo_renew_request demo_grpc = (Inr resp, s')"
proof -
  have "fst (with_store (\<lambda>st. st_LastCertRenew st serial) demo_grpc) = Some (Inr None)" for serial
    by (simp add: with_store_def demo_grpc_def demo_registry mem_Store_def mem_LastCertRenew_def NewMemoryStore_def)
  then show ?thesis by (intro demo_renewal) (simp_all add: demo_grpc_def renew_too_soon_def)
qed

theorem RenewCert_sound_witness:
  "\<exists>resp s' new. RenewCert (demo_x509 0) (demo_renew_env 0) (Inr demo_cert) demo_renew_request demo_grpc = (Inr resp, s')
    \<and> read_cert (demo_x509 0) (rp_CertPem resp) = Some new \<and> xc_NotAfter new \<le> ne_now (demo_renew_env 0) + 90 * 24 * hour"
  using demo_first RenewCert_sound [OF demo_faithful] by blast

section \<open>Identity over renewals\<close>

text \<open>An agent that renews with the certificate it has and goes on with the one it gets.\<close>

fun renew_chain :: "('pub x509_lib \<times> renew_env \<times> RenewCertRequest) list \<Rightarrow> 'pub x509_cert \<times> 's GRPCServer \<Rightarrow> 'pub x509_cert \<times> 's GRPCServer" where
  "renew_chain [] x = x"
| "renew_chain ((lib, env, req) # ops) (cert, s) =
     renew_chain ops
       (case RenewCert lib env (Inr cert) req s of
          (Inl _, s1) \<Rightarrow> (cert, s1)
        | (Inr resp, s1) \<Rightarrow> (case read_cert lib (rp_CertPem resp) of None \<Rightarrow> (cert, s1) | Some new \<Rightarrow> (new, s1)))"

lemma emitAudit_view [simp]: "gv_CA (emitAudit a m s) = gv_CA s" "gv_MinRenewInterval (emitAudit a m s) = gv_MinRenewInterval s"
  "gv_Registry (emitAudit a m s) = gv_Registry s" "gv_TrustDomain (emitAudit a m s) = gv_TrustDomain s" "gv_RenewWindow (emitAudit a m s) = gv_RenewWindow s"
  by (simp_all add: emitAudit_def)

lemma RenewCert_state:
  obtains (same) "gv_Registry (snd (RenewCert lib env peer req s)) = gv_Registry s"
      "gv_CA (snd (RenewCert lib env peer req s)) = gv_CA s" "gv_MinRenewInterval (snd (RenewCert lib env peer req s)) = gv_MinRenewInterval s"
  | (asked) serial where "gv_Registry (snd (RenewCert lib env peer req s)) = gv_Registry (snd (with_store (\<lambda>st. st_LastCertRenew st serial) s))"
      "gv_CA (snd (RenewCert lib env peer req s)) = gv_CA s" "gv_MinRenewInterval (snd (RenewCert lib env peer req s)) = gv_MinRenewInterval s"
  | (recorded) serial aid where "serial \<noteq> []" "gv_Registry (snd (RenewCert lib env peer req s))
        = gv_Registry (snd (with_store (\<lambda>st. st_RecordCertRenew st serial aid (ne_now env)) (snd (with_store (\<lambda>st. st_LastCertRenew st serial) s))))"
      "gv_CA (snd (RenewCert lib env peer req s)) = gv_CA s" "gv_MinRenewInterval (snd (RenewCert lib env peer req s)) = gv_MinRenewInterval s"
proof (cases "RenewCert lib env peer req s")
  case (Pair out s')
  show ?thesis
  proof (cases out)
    case (Inr resp)
    with Pair have "RenewCert lib env peer req s = (Inr resp, s')" by simp
    then show ?thesis
    proof (cases rule: RenewCert_Inr)
      case (1 c cert res)
      show ?thesis by (rule recorded [OF Text16_nonempty [of "xc_Serial cert"], of "agentIDFromCert cert"]) (simp_all add: Pair 1(9))
    qed
  next
    case (Inl e)
    have "s' = s \<or> (\<exists>a m. s' = emitAudit a m s) \<or> (\<exists>serial. s' = snd (with_store (\<lambda>st. st_LastCertRenew st serial) s))"
    proof (cases "gv_CA s")
      case (Some c)
      show ?thesis
      proof (cases "renew_peer s peer req")
        case (Inr x)
        obtain aid cert where x: "x = (aid, cert)" by (cases x)
        obtain res s1 where w: "with_store (\<lambda>st. st_LastCertRenew st (big_Text16 (xc_Serial cert))) s = (res, s1)" by fastforce
        have "s' = s \<or> (\<exists>a m. s' = emitAudit a m s) \<or> s' = s1"
          using Pair \<open>out = Inl e\<close> Some Inr
          by (simp add: x w RenewCert_def Let_def split: if_splits sum.splits prod.splits) (metis | simp)+
        then show ?thesis using w by (metis snd_conv)
      qed (use Pair Some in \<open>simp add: RenewCert_def\<close>)
    qed (use Pair in \<open>simp add: RenewCert_def\<close>)
    then show ?thesis using Pair same asked by auto
  qed
qed

lemma RenewCert_CA [simp]: "gv_CA (snd (RenewCert lib env peer req s)) = gv_CA s"
  by (cases rule: RenewCert_state [of lib env peer req s]) simp_all

text \<open>
  C24. An agent keeps its identity over any number of renewals, successful or not, as long as its name needs no escaping in a
  URL and the trust domain is not the word that separates domain and name: its certificate always names the agent it was enrolled as.
\<close>

theorem renewal_keeps_identity:
  assumes "list_all (\<lambda>(lib, env, req). x509_faithful lib) ops" "gv_CA s = Some c" "plain_id (agentIDFromCert cert)"
    and "url_escape host_chars (domain_host (mc_TrustDomain c)) \<noteq> ''agent''"
  shows "agentIDFromCert (fst (renew_chain ops (cert, s))) = agentIDFromCert cert"
  using assms(1-3)
proof (induction ops arbitrary: cert s)
  case (Cons op ops)
  obtain lib env req where op: "op = (lib, env, req)" by (cases op)
  obtain out s1 where r: "RenewCert lib env (Inr cert) req s = (out, s1)" by fastforce
  have c1: "gv_CA s1 = Some c" using RenewCert_CA [of lib env "Inr cert" req s] r Cons.prems(2) by simp
  let ?next = "case out of Inl _ \<Rightarrow> (cert, s1)
    | Inr resp \<Rightarrow> (case read_cert lib (rp_CertPem resp) of None \<Rightarrow> (cert, s1) | Some new \<Rightarrow> (new, s1))"
  have "snd ?next = s1 \<and> agentIDFromCert (fst ?next) = agentIDFromCert cert"
  proof (cases out)
    case (Inr resp)
    have f: "x509_faithful lib" using Cons.prems(1) op by simp
    obtain new where n: "read_cert lib (rp_CertPem resp) = Some new" "names_agent c (agentIDFromCert cert) (ne_now env) new"
      by (rule RenewCert_new [OF f r [unfolded Inr] Cons.prems(2)])
    have "xc_URIs new = [Some (spiffe_String (domain_host (mc_TrustDomain c)) (spiffePathPrefix @ agentIDFromCert cert))]"
      using n(2) by (simp add: names_agent_def)
    from spiffe_agent [OF Cons.prems(3) assms(4) this] show ?thesis using n(1) Inr by simp
  qed simp
  then obtain cert1 where nx: "?next = (cert1, s1)" "agentIDFromCert cert1 = agentIDFromCert cert" by (metis prod.collapse)
  have "renew_chain (op # ops) (cert, s) = renew_chain ops (cert1, s1)"
    using nx(1) r op by (cases out) simp_all
  then show ?case using Cons.IH [of s1 cert1] Cons.prems c1 nx(2) by simp
qed simp

theorem renewal_keeps_identity_witness:
  "agentIDFromCert (fst (renew_chain [(demo_x509 0, demo_renew_env 0, demo_renew_request)] (demo_cert, demo_grpc))) = ''a1''"
proof -
  have f: "list_all (\<lambda>(lib, env, req). x509_faithful lib) [(demo_x509 0, demo_renew_env 0, demo_renew_request)]"
    by (simp add: demo_faithful)
  have c: "gv_CA demo_grpc = Some demo_CA" by (simp add: demo_grpc_def)
  have p: "plain_id (agentIDFromCert demo_cert)" by (simp add: demo_id plain_id_def unreserved_def less_eq_char_def)
  have h: "url_escape host_chars (domain_host (mc_TrustDomain demo_CA)) \<noteq> ''agent''"
    by (simp add: demo_CA_def domain_host_def strings_TrimPrefix_def strings_TrimSuffix_def suffix_def url_escape_def unreserved_def less_eq_char_def)
  from renewal_keeps_identity [OF f c p h] show ?thesis by (simp only: demo_id)
qed

section \<open>The rate of renewals\<close>

definition renewed_since :: "(string \<Rightarrow> 8 word list) \<Rightarrow> string \<Rightarrow> gotime \<Rightarrow> duration \<Rightarrow> memStore GRPCServer \<Rightarrow> bool" where
  "renewed_since sha256 serial t iv s \<longleftrightarrow> gv_MinRenewInterval s = iv \<and>
     (\<exists>r m l. gv_Registry s = Some r \<and> rg_store r = Some (mem_Store sha256, m) \<and> mem_LastCertRenew serial m = Some l \<and> t \<le> l)"

lemma with_mem_last:
  assumes "gv_Registry s = Some r" "rg_store r = Some (mem_Store sha256, m)"
  shows "with_store (\<lambda>st. st_LastCertRenew st serial) s = (Some (Inr (mem_LastCertRenew serial m)), s\<lparr>gv_Registry := Some r\<rparr>)"
  using assms by (cases r) (simp add: with_store_def mem_Store_def)

lemma with_mem_record:
  assumes "gv_Registry s = Some r" "rg_store r = Some (mem_Store sha256, m)" "serial \<noteq> []"
  shows "gv_Registry (snd (with_store (\<lambda>st. st_RecordCertRenew st serial aid t) s))
    = Some (r\<lparr>rg_store := Some (mem_Store sha256, m\<lparr>m_renewals := AList.update (strings_ToLower serial) \<lparr>mr_agentID = aid, mr_at = t\<rparr> (m_renewals m)\<rparr>)\<rparr>)"
  using assms by (simp add: with_store_def mem_Store_def mem_RecordCertRenew_def)

lemma renewed_since_step:
  assumes "renewed_since sha256 serial t iv s" "t \<le> ne_now env"
  shows "renewed_since sha256 serial t iv (snd (RenewCert lib env peer req s))"
proof -
  from assms(1) obtain r m l where s: "gv_MinRenewInterval s = iv" "gv_Registry s = Some r" "rg_store r = Some (mem_Store sha256, m)"
    "mem_LastCertRenew serial m = Some l" "t \<le> l" by (auto simp: renewed_since_def)
  show ?thesis
  proof (cases rule: RenewCert_state [of lib env peer req s])
    case same
    then show ?thesis using s by (auto simp: renewed_since_def)
  next
    case (asked serial')
    then show ?thesis using s by (auto simp: renewed_since_def with_mem_last [OF s(2,3)])
  next
    case (recorded serial' aid)
    let ?m = "m\<lparr>m_renewals := AList.update (strings_ToLower serial') \<lparr>mr_agentID = aid, mr_at = ne_now env\<rparr> (m_renewals m)\<rparr>"
    have "\<exists>l. mem_LastCertRenew serial ?m = Some l \<and> t \<le> l"
      using s(4,5) assms(2) by (auto simp: mem_LastCertRenew_def update_conv' split: if_splits)
    moreover have "gv_Registry (snd (RenewCert lib env peer req s)) = Some (r\<lparr>rg_store := Some (mem_Store sha256, ?m)\<rparr>)"
      using recorded(2) with_mem_record [of "s\<lparr>gv_Registry := Some r\<rparr>" r sha256 m serial'] s recorded(1)
      by (simp add: with_mem_last [OF s(2,3)])
    ultimately show ?thesis using s(1) recorded(4) by (auto simp: renewed_since_def)
  qed
qed

definition renew_run :: "('pub x509_lib \<times> renew_env \<times> (string + 'pub x509_cert) \<times> RenewCertRequest) list \<Rightarrow> 's GRPCServer \<Rightarrow> 's GRPCServer" where
  "renew_run ops s = fold (\<lambda>(lib, env, peer, req) s. snd (RenewCert lib env peer req s)) ops s"

lemma renewed_since_run:
  "renewed_since sha256 serial t iv s \<Longrightarrow> list_all (\<lambda>(lib, env, peer, req). t \<le> ne_now env) ops \<Longrightarrow> renewed_since sha256 serial t iv (renew_run ops s)"
  by (induction ops arbitrary: s) (auto simp: renew_run_def renewed_since_step)

text \<open>
  Renewals of one certificate are spaced when calls do not overlap: with the store in memory, after a renewal and any further calls for
  any certificates, one after the other at later times, the next renewal that succeeds for the same serial number is at least the configured interval later, five
  minutes where none is configured.
\<close>

theorem renewals_spaced:
  assumes "RenewCert lib env (Inr cert) req s = (Inr resp, s1)"
    and "gv_Registry s = Some r" "rg_store r = Some (mem_Store sha256, m)"
    and "list_all (\<lambda>(lib, env', peer, req). ne_now env \<le> ne_now env') ops"
    and "RenewCert lib' env' (Inr cert') req' (renew_run ops s1) = (Inr resp', s2)" "xc_Serial cert' = xc_Serial cert"
  shows "ne_now env + (if gv_MinRenewInterval s \<le> 0 then 300 * second else gv_MinRenewInterval s) \<le> ne_now env'"
proof -
  let ?n = "big_Text16 (xc_Serial cert)"
  have "renewed_since sha256 ?n (ne_now env) (gv_MinRenewInterval s) s1"
    using assms(1)
  proof (cases rule: RenewCert_Inr)
    case (1 c cert0 res)
    have e: "cert0 = cert" using 1(2) by simp
    have "gv_Registry s1 = Some (r\<lparr>rg_store := Some (mem_Store sha256,
        m\<lparr>m_renewals := AList.update ?n \<lparr>mr_agentID = agentIDFromCert cert, mr_at = ne_now env\<rparr> (m_renewals m)\<rparr>)\<rparr>)"
      using with_mem_record [of "s\<lparr>gv_Registry := Some r\<rparr>" r sha256 m ?n "agentIDFromCert cert" "ne_now env"] assms(2,3)
      by (simp add: 1(9) e with_mem_last [OF assms(2,3)])
    moreover have "gv_MinRenewInterval s1 = gv_MinRenewInterval s" by (simp add: 1(9))
    ultimately show ?thesis by (simp add: renewed_since_def mem_LastCertRenew_def update_conv')
  qed
  from renewed_since_run [OF this assms(4)] obtain r' m' l where
    v: "gv_MinRenewInterval (renew_run ops s1) = gv_MinRenewInterval s" "gv_Registry (renew_run ops s1) = Some r'"
      "rg_store r' = Some (mem_Store sha256, m')" "mem_LastCertRenew ?n m' = Some l" "ne_now env \<le> l" by (auto simp: renewed_since_def)
  from assms(5) have "\<not> renew_too_soon (ne_now env') (min_renew_interval (renew_run ops s1)) (Some (Inr (Some l)))"
  proof (cases rule: RenewCert_Inr)
    case (1 c cert0 res)
    then show ?thesis using assms(6) v(4) by (auto simp: with_mem_last [OF v(2,3)])
  qed
  then show ?thesis using v(1,5)
    by (auto simp: renew_too_soon_def min_renew_interval_def defaultMinRenewInterval_def Let_def split: if_splits)
qed

theorem renewals_spaced_witness:
  "\<exists>resp s1 resp' s2. RenewCert (demo_x509 0) (demo_renew_env 0) (Inr demo_cert) demo_renew_request demo_grpc = (Inr resp, s1)
    \<and> RenewCert (demo_x509 (300 * second)) (demo_renew_env (300 * second)) (Inr demo_cert) demo_renew_request s1 = (Inr resp', s2)
    \<and> 300 * second \<le> ne_now (demo_renew_env (300 * second))"
proof -
  obtain resp s1 where 1: "RenewCert (demo_x509 0) (demo_renew_env 0) (Inr demo_cert) demo_renew_request demo_grpc = (Inr resp, s1)"
    using demo_first by blast
  let ?r = "NewRegistry (\<lambda>_. [])" and ?n = "big_Text16 (xc_Serial demo_cert)"
  have g: "gv_Registry demo_grpc = Some ?r" "gv_CA demo_grpc = Some demo_CA" "gv_TrustDomain demo_grpc = ''fire''" "gv_RenewWindow demo_grpc = 0"
    "gv_MinRenewInterval demo_grpc = 0" by (simp_all add: demo_grpc_def)
  from 1 obtain m1 where s1: "gv_CA s1 = Some demo_CA" "gv_TrustDomain s1 = ''fire''" "gv_RenewWindow s1 = 0" "gv_MinRenewInterval s1 = 0"
    "gv_Registry s1 = Some (?r\<lparr>rg_store := Some (mem_Store (\<lambda>_. []), m1)\<rparr>)" "mem_LastCertRenew ?n m1 = Some 0"
  proof (cases rule: RenewCert_Inr)
    case (1 c cert res)
    have e: "cert = demo_cert" using 1(2) by simp
    let ?m = "NewMemoryStore\<lparr>m_renewals := AList.update (strings_ToLower ?n) \<lparr>mr_agentID = agentIDFromCert demo_cert, mr_at = 0\<rparr> (m_renewals NewMemoryStore)\<rparr>"
    have w: "snd (with_store (\<lambda>st. st_LastCertRenew st ?n) demo_grpc) = demo_grpc\<lparr>gv_Registry := Some ?r\<rparr>"
      by (simp only: with_mem_last [OF g(1) demo_registry] snd_conv)
    have n: "ne_now (demo_renew_env 0) = 0" by (simp add: demo_renew_env_def)
    have "gv_Registry s1 = Some (?r\<lparr>rg_store := Some (mem_Store (\<lambda>_. []), ?m)\<rparr>)"
      unfolding 1(9) e w n emitAudit_view by (rule with_mem_record [OF _ demo_registry Text16_nonempty]) simp
    moreover have "gv_CA s1 = Some demo_CA" "gv_TrustDomain s1 = ''fire''" "gv_RenewWindow s1 = 0" "gv_MinRenewInterval s1 = 0"
      by (simp_all only: 1(9) emitAudit_view with_store_CA g)
    moreover have "mem_LastCertRenew ?n ?m = Some 0" by (simp add: mem_LastCertRenew_def update_conv')
    ultimately show ?thesis using that by blast
  qed
  have "fst (with_store (\<lambda>st. st_LastCertRenew st ?n) s1) = Some (Inr (Some 0))"
    using with_mem_last [OF s1(5), of "\<lambda>_. []" m1 ?n] s1(6) by simp
  then obtain resp' s2 where 2: "RenewCert (demo_x509 (300 * second)) (demo_renew_env (300 * second)) (Inr demo_cert) demo_renew_request s1 = (Inr resp', s2)"
    using demo_renewal [OF s1(1-3), of "300 * second"] s1(4)
    by (auto simp: renew_too_soon_def min_renew_interval_def defaultMinRenewInterval_def second_def)
  have "RenewCert (demo_x509 (300 * second)) (demo_renew_env (300 * second)) (Inr demo_cert) demo_renew_request
      (renew_run ([] :: (nat x509_lib \<times> _) list) s1) = (Inr resp', s2)" using 2 by (simp add: renew_run_def)
  from renewals_spaced [OF 1 g(1) demo_registry _ this] have "300 * second \<le> ne_now (demo_renew_env (300 * second))"
    by (simp add: g(5) demo_renew_env_def)
  then show ?thesis using 1 2 by blast
qed

section \<open>Revocation\<close>

definition file_keys :: "(string \<times> RevokedEntry) list \<Rightarrow> bool" where
  "file_keys m \<longleftrightarrow> (\<forall>(k, e) \<in> set m. k = strings_ToLower (rv_Serial e))"

lemma file_keys_update: "file_keys m \<Longrightarrow> file_keys (AList.update (strings_ToLower (rv_Serial e)) e m)"
  by (induction m) (auto simp: file_keys_def)

lemma dom_map_update: "dom (map_of (AList.update k v m)) = insert k (dom (map_of m))"
  by (auto simp: update_conv' split: if_splits)

lemma load_fold:
  "file_keys m \<Longrightarrow> file_keys (fold (\<lambda>e. AList.update (strings_ToLower (rv_Serial e)) e) es m)
    \<and> dom (map_of (fold (\<lambda>e. AList.update (strings_ToLower (rv_Serial e)) e) es m)) = dom (map_of m) \<union> (strings_ToLower \<circ> rv_Serial) ` set es"
proof (induction es arbitrary: m)
  case (Cons e es)
  have "file_keys (AList.update (strings_ToLower (rv_Serial e)) e m)"
    by (rule file_keys_update [OF Cons.prems])
  from Cons.IH [OF this] show ?case by (simp add: dom_map_update)
qed simp

lemma load_keys: "loadRevoked js file = Some m \<Longrightarrow> file_keys m"
  using load_fold [of "[]"] by (auto simp: loadRevoked_def file_keys_def split: option.splits)

definition revoked_in :: "revoked_json \<Rightarrow> string \<Rightarrow> string option \<Rightarrow> bool" where
  "revoked_in js key file \<longleftrightarrow> (\<exists>m. loadRevoked js file = Some m \<and> key \<in> dom (map_of m))"

definition cli_run :: "revoked_json \<Rightarrow> string \<Rightarrow> string \<Rightarrow> string \<Rightarrow> (bool \<times> gotime \<times> string \<times> string) list \<Rightarrow> string option \<Rightarrow> string option" where
  "cli_run js domain root issuing ops file =
     fold (\<lambda>(saved, now, serial, reason) f. snd (miniCARevoke js saved now domain root issuing serial reason f)) ops file"

lemma miniCARevoke_keys:
  assumes "\<And>es. rj_decode js (rj_encode js es) = Some es" "miniCARevoke js saved now domain root issuing serial reason file = (ok, file')"
  shows "revoked_in js key file \<Longrightarrow> revoked_in js key file'" "ok \<Longrightarrow> revoked_in js (strings_ToLower serial) file'"
proof -
  have "(ok \<longrightarrow> serial \<noteq> []) \<and> (file' = file \<and> \<not> ok \<or> ok \<and> (\<exists>m. loadRevoked js file = Some m \<and>
      file' = Some (rj_encode js (map snd (AList.update (strings_ToLower serial) \<lparr>rv_Serial = strings_ToLower serial, rv_Reason = reason, rv_RevokedAt = now\<rparr> m)))))"
    using assms(2) by (auto simp: miniCARevoke_def ca_Open_def Revoke_def saveRevokedLocked_def Let_def split: if_splits option.splits prod.splits)
  then consider (same) "file' = file" "\<not> ok" | (saved) m where "ok" "loadRevoked js file = Some m"
      "file' = Some (rj_encode js (map snd (AList.update (strings_ToLower serial) \<lparr>rv_Serial = strings_ToLower serial, rv_Reason = reason, rv_RevokedAt = now\<rparr> m)))"
    by blast
  then have "(revoked_in js key file \<longrightarrow> revoked_in js key file') \<and> (ok \<longrightarrow> revoked_in js (strings_ToLower serial) file')"
  proof cases
    case (saved m)
    let ?m = "AList.update (strings_ToLower serial) \<lparr>rv_Serial = strings_ToLower serial, rv_Reason = reason, rv_RevokedAt = now\<rparr> m"
    have "file_keys ?m"
      using file_keys_update [OF load_keys [OF saved(2)], of "\<lparr>rv_Serial = strings_ToLower serial, rv_Reason = reason, rv_RevokedAt = now\<rparr>"] by simp
    then have k: "(strings_ToLower \<circ> rv_Serial) ` snd ` set ?m = dom (map_of ?m)"
      unfolding dom_map_of_conv_image_fst by (force simp: file_keys_def)
    have "loadRevoked js file' = Some (fold (\<lambda>e. AList.update (strings_ToLower (rv_Serial e)) e) (map snd ?m) [])"
      by (simp add: loadRevoked_def saved(3) assms(1))
    moreover have "dom (map_of (fold (\<lambda>e. AList.update (strings_ToLower (rv_Serial e)) e) (map snd ?m) [])) = dom (map_of ?m)"
      using load_fold [of "[]" "map snd ?m"] k by (simp add: file_keys_def)
    moreover have "dom (map_of ?m) = insert (strings_ToLower serial) (dom (map_of m))" by (rule dom_map_update)
    ultimately show ?thesis using saved(2) by (auto simp: revoked_in_def)
  qed simp
  then show "revoked_in js key file \<Longrightarrow> revoked_in js key file'" "ok \<Longrightarrow> revoked_in js (strings_ToLower serial) file'" by blast+
qed

lemma cli_run_keys:
  assumes "\<And>es. rj_decode js (rj_encode js es) = Some es" "revoked_in js key f0"
  shows "revoked_in js key (cli_run js domain root issuing ops f0)"
  using assms(2)
proof (induction ops arbitrary: f0)
  case (Cons op ops)
  obtain sv now serial reason where op: "op = (sv, now, serial, reason)" by (cases op)
  obtain ok f where f: "miniCARevoke js sv now domain root issuing serial reason f0 = (ok, f)" by fastforce
  have "revoked_in js key f" by (rule miniCARevoke_keys(1) [OF assms(1) f Cons.prems])
  then show ?case using Cons.IH [of f] by (simp add: cli_run_def op f)
qed (simp add: cli_run_def)

lemma renew_peer_CA: "renew_peer (s\<lparr>gv_CA := x\<rparr>) peer req = renew_peer s peer req"
  by (cases peer) (simp_all add: renew_peer_def)

lemma revoked_denied:
  assumes "gv_CA s = Some c" "IsRevoked c (big_Text16 (xc_Serial cert))" "renew_peer s (Inr cert) req = Inr (aid, cert)"
  shows "fst (RenewCert lib env (Inr cert) req s) = Inl (RnPermissionDenied ''client certificate is revoked'')"
  using assms by (simp add: RenewCert_def Let_def)

text \<open>A request that passes every check is granted.\<close>

lemma RenewCert_granted:
  assumes "gv_CA s = Some c" "renew_peer s (Inr cert) req = Inr (aid, cert)" "\<not> IsRevoked c (big_Text16 (xc_Serial cert))"
    and "xc_NotAfter cert - ne_now env \<le> renew_window s"
    and "\<not> renew_too_soon (ne_now env) (min_renew_interval s) (fst (with_store (\<lambda>st. st_LastCertRenew st (big_Text16 (xc_Serial cert))) s))"
    and "issue_renewal lib (ne_now env) c aid cert req = Inr res"
  shows "\<exists>resp s'. RenewCert lib env (Inr cert) req s = (Inr resp, s') \<and> rp_CertPem resp = ir_CertPEM res"
  using assms by (cases "with_store (\<lambda>st. st_LastCertRenew st (big_Text16 (xc_Serial cert))) s")
    (auto simp: RenewCert_def Let_def split: prod.splits)

lemma opened_not_revoked:
  "ca_Open js domain root issuing file = Some c \<Longrightarrow> \<not> revoked_in js key file \<Longrightarrow> strings_ToLower key = key \<Longrightarrow> \<not> IsRevoked c key"
  by (auto simp: ca_Open_def revoked_in_def IsRevoked_def split: option.splits)

text \<open>
  C28. A revocation takes effect when the control plane is restarted, and not before. The command that revokes writes the file of
  revoked serials, which the server reads only at its start. Take a server started before the revocation, and a request that
  passes its other checks and that the CA can issue. After the command has succeeded, that server still grants the request; a server
  started on the file as it is then, or as any later commands leave it, successful or not, refuses it as revoked.
\<close>

theorem revocation_at_restart:
  assumes "\<And>es. rj_decode js (rj_encode js es) = Some es"
    and "miniCARevoke js True now domain root issuing serial reason file = (True, file1)"
    and "strings_ToLower serial = big_Text16 (xc_Serial cert)" "\<not> revoked_in js (strings_ToLower serial) file"
    and "ca_Open js domain root issuing file = Some c" "gv_CA s = Some c"
    and "renew_peer s (Inr cert) req = Inr (aid, cert)" "xc_NotAfter cert - ne_now env \<le> renew_window s"
    and "\<not> renew_too_soon (ne_now env) (min_renew_interval s) (fst (with_store (\<lambda>st. st_LastCertRenew st (big_Text16 (xc_Serial cert))) s))"
    and "issue_renewal lib (ne_now env) c aid cert req = Inr res"
  shows "(\<exists>resp s'. RenewCert lib env (Inr cert) req s = (Inr resp, s') \<and> rp_CertPem resp = ir_CertPEM res)
    \<and> (\<exists>c'. ca_Open js domain root issuing (cli_run js domain root issuing ops file1) = Some c'
        \<and> fst (RenewCert lib env (Inr cert) req (s\<lparr>gv_CA := Some c'\<rparr>)) = Inl (RnPermissionDenied ''client certificate is revoked''))"
proof
  have "\<not> IsRevoked c (big_Text16 (xc_Serial cert))"
    using opened_not_revoked [OF assms(5)] assms(3,4) by simp
  from RenewCert_granted [OF assms(6,7) this assms(8-10)]
  show "\<exists>resp s'. RenewCert lib env (Inr cert) req s = (Inr resp, s') \<and> rp_CertPem resp = ir_CertPEM res" .
  have "revoked_in js (strings_ToLower serial) file1" using miniCARevoke_keys(2) [OF assms(1,2)] by simp
  from cli_run_keys [OF assms(1) this, of domain root issuing ops] obtain m where m: "loadRevoked js (cli_run js domain root issuing ops file1) = Some m"
    "strings_ToLower serial \<in> dom (map_of m)" by (auto simp: revoked_in_def)
  let ?c = "\<lparr>mc_TrustDomain = domain, mc_root = root, mc_issuing = issuing, mc_revoked = m\<rparr>"
  have "ca_Open js domain root issuing (cli_run js domain root issuing ops file1) = Some ?c" using m(1) by (simp add: ca_Open_def)
  moreover have "IsRevoked ?c (big_Text16 (xc_Serial cert))" using m(2) assms(3) by (auto simp: IsRevoked_def)
  moreover have "renew_peer (s\<lparr>gv_CA := Some ?c\<rparr>) (Inr cert) req = Inr (aid, cert)" using assms(7) by (simp add: renew_peer_CA)
  ultimately show "\<exists>c'. ca_Open js domain root issuing (cli_run js domain root issuing ops file1) = Some c'
      \<and> fst (RenewCert lib env (Inr cert) req (s\<lparr>gv_CA := Some c'\<rparr>)) = Inl (RnPermissionDenied ''client certificate is revoked'')"
    using revoked_denied [of "s\<lparr>gv_CA := Some ?c\<rparr>" ?c cert req aid lib env] by auto
qed

text \<open>A format of the file that can be read back: lengths in unary before the texts.\<close>

definition put_nat :: "nat \<Rightarrow> string" where "put_nat n = replicate n CHR ''1'' @ ''0''"

definition get_nat :: "string \<Rightarrow> nat \<times> string" where
  "get_nat s = (length (takeWhile (\<lambda>c. c = CHR ''1'') s), tl (dropWhile (\<lambda>c. c = CHR ''1'') s))"

definition put_entry :: "RevokedEntry \<Rightarrow> string" where
  "put_entry e = put_nat (length (rv_Serial e)) @ rv_Serial e @ put_nat (length (rv_Reason e)) @ rv_Reason e
     @ put_nat (nat (rv_RevokedAt e)) @ put_nat (nat (- rv_RevokedAt e))"

definition get_entry :: "string \<Rightarrow> RevokedEntry \<times> string" where
  "get_entry s =
     (let (a, s1) = get_nat s; (b, s2) = get_nat (drop a s1); (p, s3) = get_nat (drop b s2); (q, s4) = get_nat s3
      in (\<lparr>rv_Serial = take a s1, rv_Reason = take b s2, rv_RevokedAt = int p - int q\<rparr>, s4))"

fun get_entries :: "nat \<Rightarrow> string \<Rightarrow> RevokedEntry list" where
  "get_entries 0 s = []"
| "get_entries (Suc n) s = (case get_entry s of (e, s1) \<Rightarrow> e # get_entries n s1)"

definition demo_json :: revoked_json where
  "demo_json = \<lparr>rj_encode = (\<lambda>es. put_nat (length es) @ concat (map put_entry es)),
     rj_decode = (\<lambda>s. case get_nat s of (n, s1) \<Rightarrow> Some (get_entries n s1))\<rparr>"

lemma get_put_nat: "get_nat (put_nat n @ r) = (n, r)"
  by (induction n) (auto simp: get_nat_def put_nat_def)

lemma get_put_entry: "get_entry (put_entry e @ r) = (e, r)"
  by (simp add: get_entry_def put_entry_def get_put_nat Let_def)

lemma demo_json_reads: "rj_decode demo_json (rj_encode demo_json es) = Some es"
proof -
  have "get_entries (length es) (concat (map put_entry es)) = es" by (induction es) (simp_all add: get_put_entry)
  then show ?thesis by (simp add: demo_json_def get_put_nat)
qed

theorem revocation_at_restart_witness:
  "\<exists>resp s' file c. RenewCert (demo_x509 0) (demo_renew_env 0) (Inr demo_cert) demo_renew_request demo_grpc = (Inr resp, s')
    \<and> miniCARevoke demo_json True 0 ''fire'' ''r'' ''i'' ''12'' [] None = (True, file) \<and> ca_Open demo_json ''fire'' ''r'' ''i'' file = Some c
    \<and> fst (RenewCert (demo_x509 0) (demo_renew_env 0) (Inr demo_cert) demo_renew_request (demo_grpc\<lparr>gv_CA := Some c\<rparr>))
        = Inl (RnPermissionDenied ''client certificate is revoked'')"
proof -
  obtain resp s' where 1: "RenewCert (demo_x509 0) (demo_renew_env 0) (Inr demo_cert) demo_renew_request demo_grpc = (Inr resp, s')"
    using demo_first by blast
  obtain f1 where f: "miniCARevoke demo_json True 0 ''fire'' ''r'' ''i'' ''12'' [] None = (True, f1)"
    by (simp add: miniCARevoke_def ca_Open_def loadRevoked_def Revoke_def saveRevokedLocked_def Let_def)
  have n: "strings_ToLower ''12'' = big_Text16 (xc_Serial demo_cert)"
    by (simp add: demo_cert_def strings_ToLower_def to_lower_def big_Text16.simps CP_Types.hex_digit_def char_of_def bit_Suc_0_iff)
  have o: "gv_CA demo_grpc = ca_Open demo_json ''fire'' ''r'' ''i'' None"
    by (simp add: demo_grpc_def ca_Open_def loadRevoked_def demo_CA_def)
  have v: "\<not> revoked_in demo_json (strings_ToLower ''12'') None" by (simp add: revoked_in_def loadRevoked_def)
  from 1 show ?thesis
  proof (cases rule: RenewCert_Inr)
    case g: (1 c cert res)
    have e: "cert = demo_cert" "gv_CA demo_grpc = Some c" using g(1,2) by simp_all
    have p: "renew_peer demo_grpc (Inr demo_cert) demo_renew_request = Inr (agentIDFromCert demo_cert, demo_cert)" using g(2,3) e by simp
    from revocation_at_restart [OF demo_json_reads f n v o [symmetric, unfolded e(2)] e(2) p g(5,6,7) [unfolded e(1)], of "[]"] 1 f
    show ?thesis unfolding cli_run_def by auto
  qed
qed

end
