(* ===== verification/CP_Enroll.thy ===== *)
theory CP_Enroll
  imports CP_Identity CP_Workflows
begin

text \<open>
  Enrollment over histories of requests, for every store that keeps the contract of enrollment tokens.
\<close>

text \<open>The requests of a history, and the tokens and agents of those that were given a certificate.\<close>

fun enroll_run ::
  "CA \<Rightarrow> string \<Rightarrow> (cp_error \<Rightarrow> string) \<Rightarrow> 's Store \<Rightarrow> ('pub x509_lib \<times> gotime \<times> string \<times> string \<times> EnrollRequest) list \<Rightarrow> 's
   \<Rightarrow> (string \<times> string) list" where
  "enroll_run c token err st [] s = []"
| "enroll_run c token err st ((lib, now, auth, ipText, req) # ops) s =
     (case enroll_handler lib c token now ''POST'' auth ipText err (Inr req) (Some (st, s)) of
        (reply, store) \<Rightarrow>
          (case reply of EnrollOK _ \<Rightarrow> [(eq_EnrollmentToken req, eq_AgentID req)] | EnrollError _ _ \<Rightarrow> [])
            @ enroll_run c token err st ops (case store of Some (_, s1) \<Rightarrow> s1 | None \<Rightarrow> s))"

context enrollment_store
begin

lemma enroll_step:
  assumes "ok s" "enroll_handler lib c token now ''POST'' auth ipText err (Inr req) (Some (st, s)) = (reply, store)"
  obtains s1 where "store = Some (st, s1)" "ok s1" "\<And>t. unused (tok s1) t \<Longrightarrow> unused (tok s) t"
    "\<And>t et. tok s1 t = Some et \<Longrightarrow> \<exists>et0. tok s t = Some et0 \<and> et_AgentID et0 = et_AgentID et"
    "\<And>resp. reply = EnrollOK resp \<Longrightarrow> eq_EnrollmentToken req \<noteq> [] \<Longrightarrow> unused (tok s) (eq_EnrollmentToken req)
       \<and> \<not> unused (tok s1) (eq_EnrollmentToken req) \<and> (\<exists>et. tok s (eq_EnrollmentToken req) = Some et \<and> et_AgentID et = eq_AgentID req)"
proof (cases "eq_AgentID req = [] \<or> eq_EnrollmentToken req = []")
  case True
  then have "store = Some (st, s)" "eq_EnrollmentToken req = [] \<or> (\<forall>resp. reply \<noteq> EnrollOK resp)"
    using assms(2) by (auto simp: enroll_handler_def enroll_auth_def split: if_splits sum.splits)
  then show ?thesis using that [of s] assms(1) by auto
next
  case False
  let ?t = "eq_EnrollmentToken req"
  obtain r s1 where c: "st_ConsumeEnrollmentToken st now ?t ipText s = (r, s1)" by fastforce
  have st: "store = Some (st, s1)"
    using assms(2) False c by (auto simp: enroll_handler_def enroll_auth_def split: if_splits sum.splits)
  show ?thesis
  proof (cases r)
    case (Inl e)
    have "\<forall>resp. reply \<noteq> EnrollOK resp" using assms(2) False c Inl by (auto simp: enroll_handler_def enroll_auth_def)
    then show ?thesis using that [OF st] consume_err [OF assms(1), of now ?t ipText e s1] c Inl by auto
  next
    case (Inr et')
    from consume_ok [OF assms(1), of now ?t ipText et' s1] c Inr obtain et where
      e: "ok s1" "tok s ?t = Some et" "et_ConsumedAt et = None" "et' = et\<lparr>et_ConsumedAt := Some now, et_ConsumerIP := ipText\<rparr>"
      "tok s1 = (tok s)(?t \<mapsto> et')" by auto
    have g: "et_AgentID et = eq_AgentID req" if "reply = EnrollOK resp" for resp
      using assms(2) False c Inr that e(4) by (auto simp: enroll_handler_def enroll_auth_def split: if_splits)
    show ?thesis
    proof (rule that [OF st e(1)])
      show "unused (tok s) t" if "unused (tok s1) t" for t using that e by (auto simp: unused_def split: if_splits)
      show "\<exists>et0. tok s t = Some et0 \<and> et_AgentID et0 = et_AgentID x" if "tok s1 t = Some x" for t x using that e by (auto split: if_splits)
      show "unused (tok s) ?t \<and> \<not> unused (tok s1) ?t \<and> (\<exists>et. tok s ?t = Some et \<and> et_AgentID et = eq_AgentID req)"
        if "reply = EnrollOK resp" for resp using e g [OF that] by (auto simp: unused_def)
    qed
  qed
qed

lemma enroll_run_once:
  assumes "ok s" "t \<noteq> []"
  shows "length (filter (\<lambda>x. fst x = t) (enroll_run c token err st ops s)) \<le> (if unused (tok s) t then 1 else 0)
    \<and> (\<forall>aid. (t, aid) \<in> set (enroll_run c token err st ops s) \<longrightarrow> (\<exists>et. tok s t = Some et \<and> et_AgentID et = aid))"
  using assms(1)
proof (induction ops arbitrary: s)
  case (Cons op ops)
  obtain lib now auth ipText req where op: "op = (lib, now, auth, ipText, req)" by (cases op)
  obtain reply store where h: "enroll_handler lib c token now ''POST'' auth ipText err (Inr req) (Some (st, s)) = (reply, store)" by fastforce
  from Cons.prems h show ?case
  proof (cases rule: enroll_step)
    case (1 s1)
    note IH = Cons.IH [OF 1(2)]
    have run: "enroll_run c token err st (op # ops) s
        = (case reply of EnrollOK _ \<Rightarrow> [(eq_EnrollmentToken req, eq_AgentID req)] | EnrollError _ _ \<Rightarrow> []) @ enroll_run c token err st ops s1"
      by (simp add: op h 1(1))
    have later: "\<exists>et. tok s t = Some et \<and> et_AgentID et = aid" if "(t, aid) \<in> set (enroll_run c token err st ops s1)" for aid
      using IH 1(4) that by metis
    show ?thesis
    proof (cases "(\<exists>resp. reply = EnrollOK resp) \<and> eq_EnrollmentToken req = t")
      case True
      then have "unused (tok s) t" "\<not> unused (tok s1) t" "\<exists>et. tok s t = Some et \<and> et_AgentID et = eq_AgentID req"
        using 1(5) assms(2) by auto
      then show ?thesis using True IH later unfolding run by auto
    next
      case False
      then show ?thesis using IH later 1(3) [of t] unfolding run by (cases reply) (auto split: if_splits)
    qed
  qed
qed simp

end

text \<open>
  C26. An enrollment token is worth one certificate, for the agent it was issued to: in any history of enrollment requests on either
  store, with database errors at any point, at most one request with the token is given a certificate, none if it
  was used before, and that request named the agent of the token.
\<close>

theorem enrollment_once:
  assumes "t \<noteq> []"
  shows "length (filter (\<lambda>x. fst x = t) (enroll_run c token err (mem_Store sha256) ops m)) \<le> (if unused (mem_tok m) t then 1 else 0)
    \<and> (\<forall>aid. (t, aid) \<in> set (enroll_run c token err (mem_Store sha256) ops m) \<longrightarrow> (\<exists>et. mem_tok m t = Some et \<and> et_AgentID et = aid))
    \<and> (token_keys s \<longrightarrow>
        length (filter (\<lambda>x. fst x = t) (enroll_run c token err (sqlite_Store sha256 env) ops s)) \<le> (if unused (sql_tok s) t then 1 else 0)
        \<and> (\<forall>aid. (t, aid) \<in> set (enroll_run c token err (sqlite_Store sha256 env) ops s) \<longrightarrow> (\<exists>et. sql_tok s t = Some et \<and> et_AgentID et = aid)))"
  using mem_tok.enroll_run_once [OF TrueI assms] sql_tok.enroll_run_once [OF _ assms] by blast

definition a1_token :: EnrollmentToken where
  "a1_token = demo_token\<lparr>et_AgentID := ''a1''\<rparr>"

definition a1_requests :: "(nat x509_lib \<times> gotime \<times> string \<times> string \<times> EnrollRequest) list" where
  "a1_requests =
     [(demo_x509 200, 200, [], ''10.0.0.1'', \<lparr>eq_AgentID = ''a1'', eq_TTLSeconds = 0, eq_EnrollmentToken = ''t1''\<rparr>),
      (demo_x509 300, 300, [], ''10.0.0.2'', \<lparr>eq_AgentID = ''a1'', eq_TTLSeconds = 0, eq_EnrollmentToken = ''t1''\<rparr>)]"

lemma a1_issue: "\<exists>res. ca_Issue (demo_x509 now) now demo_CA ''a1'' (mul_int64 0 second) None = Inr res"
  using demo_issue [of now] by (auto simp: issue_renewal_def demo_renew_request_def Let_def split: sum.splits)

lemma a1_first:
  "\<exists>rest. enroll_run demo_CA [] (\<lambda>_. []) (mem_Store (\<lambda>_. [])) a1_requests (NewMemoryStore\<lparr>m_enrollments := [(''t1'', a1_token)]\<rparr>) = (''t1'', ''a1'') # rest"
proof -
  obtain res where "ca_Issue (demo_x509 200) 200 demo_CA ''a1'' (mul_int64 0 second) None = Inr res" using a1_issue by blast
  moreover have "st_ConsumeEnrollmentToken (mem_Store (\<lambda>_. [])) = mem_ConsumeEnrollmentToken" by (simp add: mem_Store_def)
  moreover obtain m where "mem_ConsumeEnrollmentToken 200 ''t1'' ''10.0.0.1'' (NewMemoryStore\<lparr>m_enrollments := [(''t1'', a1_token)]\<rparr>)
      = (Inr (a1_token\<lparr>et_ConsumedAt := Some 200, et_ConsumerIP := ''10.0.0.1''\<rparr>), m)"
    by (simp add: mem_ConsumeEnrollmentToken_def a1_token_def demo_token_def Let_def)
  ultimately obtain resp store where "enroll_handler (demo_x509 200) demo_CA [] 200 ''POST'' [] ''10.0.0.1'' (\<lambda>_. [])
      (Inr \<lparr>eq_AgentID = ''a1'', eq_TTLSeconds = 0, eq_EnrollmentToken = ''t1''\<rparr>)
      (Some (mem_Store (\<lambda>_. []), NewMemoryStore\<lparr>m_enrollments := [(''t1'', a1_token)]\<rparr>)) = (EnrollOK resp, store)"
    by (simp add: enroll_handler_def enroll_auth_def a1_token_def)
  then show ?thesis unfolding a1_requests_def by simp
qed

theorem enrollment_once_witness:
  "filter (\<lambda>x. fst x = ''t1'') (enroll_run demo_CA [] (\<lambda>_. []) (mem_Store (\<lambda>_. [])) a1_requests
     (NewMemoryStore\<lparr>m_enrollments := [(''t1'', a1_token)]\<rparr>)) = [(''t1'', ''a1'')]"
proof -
  obtain rest where r: "enroll_run demo_CA [] (\<lambda>_. []) (mem_Store (\<lambda>_. [])) a1_requests (NewMemoryStore\<lparr>m_enrollments := [(''t1'', a1_token)]\<rparr>)
    = (''t1'', ''a1'') # rest" using a1_first by blast
  have "length (filter (\<lambda>x. fst x = ''t1'') (enroll_run demo_CA [] (\<lambda>_. []) (mem_Store (\<lambda>_. [])) a1_requests
     (NewMemoryStore\<lparr>m_enrollments := [(''t1'', a1_token)]\<rparr>))) \<le> 1"
    using conjunct1 [OF enrollment_once [of "''t1''" demo_CA "[]" "\<lambda>_. []" "\<lambda>_. []" a1_requests
        "NewMemoryStore\<lparr>m_enrollments := [(''t1'', a1_token)]\<rparr>"]]
    by (simp add: mem_tok_def unused_def a1_token_def demo_token_def)
  then show ?thesis unfolding r by simp
qed

end
