(* ===== verification/Cert_Files.thy ===== *)
theory Cert_Files
  imports CP_Identity
begin

text \<open>
  Certificates on disk: the agent's renewal loop (\<open>backend/internal/controlplane/cert_renewer.go\<close>), the loader of key pairs
  (\<open>keypair_loader.go\<close>), and the manager of the control plane's own certificate (\<open>backend/cmd/firefik-server/server_cert.go\<close>).

  Files are a map from paths to contents. A write of a file says at which call it fails, and whether removing the temporary file works.
\<close>

section \<open>Atomic writes\<close>

type_synonym files = "string \<rightharpoonup> string"

datatype write_fault = WfNone | WfOpen | WfWrite string | WfSync | WfClose | WfRename

definition os_Remove_tmp :: "bool \<Rightarrow> string \<Rightarrow> files \<Rightarrow> files" where
  "os_Remove_tmp removable tmp fs = (if removable then fs(tmp := None) else fs)"

definition writeFileAtomic :: "write_fault \<Rightarrow> bool \<Rightarrow> string \<Rightarrow> string \<Rightarrow> files \<Rightarrow> bool \<times> files" where
  "writeFileAtomic flt removable path data fs =
     (let tmp = path @ ''.tmp'' in
      if path = [] then (False, fs)
      else (case flt of
              WfNone \<Rightarrow> (True, fs(path \<mapsto> data, tmp := None))
            | WfOpen \<Rightarrow> (False, fs)
            | WfWrite part \<Rightarrow> (False, os_Remove_tmp removable tmp (fs(tmp \<mapsto> part)))
            | _ \<Rightarrow> (False, os_Remove_tmp removable tmp (fs(tmp \<mapsto> data)))))"

text \<open>The copy in the server's command, which does not check the path and leaves the temporary file when the renaming fails.\<close>

definition server_writeFileAtomic :: "write_fault \<Rightarrow> bool \<Rightarrow> string \<Rightarrow> string \<Rightarrow> files \<Rightarrow> bool \<times> files" where
  "server_writeFileAtomic flt removable path data fs =
     (let tmp = path @ ''.tmp'' in
      case flt of
        WfNone \<Rightarrow> (True, fs(path \<mapsto> data, tmp := None))
      | WfOpen \<Rightarrow> (False, fs)
      | WfWrite part \<Rightarrow> (False, os_Remove_tmp removable tmp (fs(tmp \<mapsto> part)))
      | WfRename \<Rightarrow> (False, fs(tmp \<mapsto> data))
      | _ \<Rightarrow> (False, os_Remove_tmp removable tmp (fs(tmp \<mapsto> data))))"

lemma atomic_write:
  assumes "writeFileAtomic flt removable path data fs = (ok, fs')" "p \<noteq> path @ ''.tmp''"
  shows "fs' p = (if ok \<and> p = path then Some data else fs p)"
  using assms by (auto simp: writeFileAtomic_def os_Remove_tmp_def Let_def split: write_fault.splits if_splits)

lemma server_atomic_write:
  assumes "server_writeFileAtomic flt removable path data fs = (ok, fs')" "p \<noteq> path @ ''.tmp''"
  shows "fs' p = (if ok \<and> p = path then Some data else fs p)"
  using assms by (auto simp: server_writeFileAtomic_def os_Remove_tmp_def Let_def split: write_fault.splits if_splits)

section \<open>The renewal loop\<close>

record CertRenewer =
  cr_AgentId :: string
  cr_CertPath :: string
  cr_KeyPath :: string
  cr_BundlePath :: string
  cr_RenewBefore :: duration
  cr_TTLs :: int

text \<open>\<open>tk_csr\<close> builds a signing request for an agent from the text of its key; \<open>tk_call\<close> is the call of the control plane.\<close>

record 'pub tick_env =
  tk_lib :: "'pub x509_lib"
  tk_now :: gotime
  tk_csr :: "string \<Rightarrow> string \<Rightarrow> string option"
  tk_call :: "RenewCertRequest \<Rightarrow> RenewCertResponse option"
  tk_cert_fault :: write_fault
  tk_bundle_fault :: write_fault
  tk_removable :: bool

datatype tick_result = TickLoadFailed | TickFresh | TickCSRFailed | TickCallFailed | TickEmpty | TickWriteFailed | TickRotated

definition loadAgentCert :: "'pub x509_lib \<Rightarrow> string \<Rightarrow> files \<Rightarrow> 'pub x509_cert option" where
  "loadAgentCert lib path fs = Option.bind (fs path) (read_cert lib)"

definition buildCSR :: "(string \<Rightarrow> string \<Rightarrow> string option) \<Rightarrow> string \<Rightarrow> string \<Rightarrow> files \<Rightarrow> string option" where
  "buildCSR csr keyPath agentID fs = Option.bind (fs keyPath) (csr agentID)"

definition update_bundle :: "write_fault \<Rightarrow> bool \<Rightarrow> string \<Rightarrow> string \<Rightarrow> files \<Rightarrow> files" where
  "update_bundle flt removable path pem fs =
     (if path \<noteq> [] \<and> pem \<noteq> [] \<and> (case fs path of None \<Rightarrow> [] | Some old \<Rightarrow> old) \<noteq> pem
      then snd (writeFileAtomic flt removable path pem fs) else fs)"

definition tick :: "'pub tick_env \<Rightarrow> CertRenewer \<Rightarrow> files \<Rightarrow> tick_result \<times> files" where
  "tick env r fs =
     (case loadAgentCert (tk_lib env) (cr_CertPath r) fs of
        None \<Rightarrow> (TickLoadFailed, fs)
      | Some cert \<Rightarrow>
          (if cr_RenewBefore r < xc_NotAfter cert - tk_now env then (TickFresh, fs)
           else
             (case buildCSR (tk_csr env) (cr_KeyPath r) (cr_AgentId r) fs of
                None \<Rightarrow> (TickCSRFailed, fs)
              | Some csr \<Rightarrow>
                  (case tk_call env \<lparr>rq_AgentId = cr_AgentId r, rq_TtlSeconds = cr_TTLs r, rq_CsrPem = csr\<rparr> of
                     None \<Rightarrow> (TickCallFailed, fs)
                   | Some resp \<Rightarrow>
                       (if rp_CertPem resp = [] then (TickEmpty, fs)
                        else
                          (case writeFileAtomic (tk_cert_fault env) (tk_removable env) (cr_CertPath r) (rp_CertPem resp) fs of
                             (False, fs1) \<Rightarrow> (TickWriteFailed, fs1)
                           | (True, fs1) \<Rightarrow>
                               (TickRotated, update_bundle (tk_bundle_fault env) (tk_removable env) (cr_BundlePath r) (rp_BundlePem resp) fs1)))))))"

section \<open>The loader of key pairs\<close>

record 'pair KeypairLoader =
  kl_cached :: "'pair option"
  kl_certMtime :: gotime
  kl_keyMtime :: gotime

definition newKeyPairLoader :: "'pair KeypairLoader" where
  "newKeyPairLoader = \<lparr>kl_cached = None, kl_certMtime = 0, kl_keyMtime = 0\<rparr>"

text \<open>The modification times, \<open>None\<close> where the file cannot be examined, and the pair on disk if it loads.\<close>

definition kp_load :: "gotime option \<Rightarrow> gotime option \<Rightarrow> 'pair option \<Rightarrow> 'pair KeypairLoader \<Rightarrow> 'pair option \<times> 'pair KeypairLoader" where
  "kp_load certInfo keyInfo pair l =
     (if kl_cached l \<noteq> None \<and> certInfo = Some (kl_certMtime l) \<and> keyInfo = Some (kl_keyMtime l) then (kl_cached l, l)
      else (case pair of
              None \<Rightarrow> (kl_cached l, l)
            | Some p \<Rightarrow>
                (Some p, \<lparr>kl_cached = Some p, kl_certMtime = (case certInfo of Some t \<Rightarrow> t | None \<Rightarrow> kl_certMtime l),
                          kl_keyMtime = (case keyInfo of Some t \<Rightarrow> t | None \<Rightarrow> kl_keyMtime l)\<rparr>)))"

section \<open>The control plane's own certificate\<close>

record serverCertManager =
  sm_CA :: "CA option"
  sm_CertPath :: string
  sm_KeyPath :: string
  sm_DNSNames :: "string list"
  sm_IPAddresses :: "string list"
  sm_TTL :: duration
  sm_RenewBefore :: duration

text \<open>\<open>sx_verify\<close> is the verification of a certificate against the authority's pool, \<open>sx_mkdir\<close> whether the directory can be made.\<close>

record 'pub server_env =
  sx_lib :: "'pub x509_lib"
  sx_now :: gotime
  sx_verify :: "CA \<Rightarrow> 'pub x509_cert \<Rightarrow> bool"
  sx_mkdir :: bool
  sx_cert_fault :: write_fault
  sx_key_fault :: write_fault
  sx_removable :: bool

definition ip_Equal :: "ip \<Rightarrow> ip \<Rightarrow> bool" where
  "ip_Equal a b \<longleftrightarrow> a = b \<or> (\<exists>x. To4 a = Some x \<and> To4 b = Some x)"

definition certHasAllSANs :: "'pub x509_cert \<Rightarrow> string list \<Rightarrow> string list \<Rightarrow> bool" where
  "certHasAllSANs cert dns ips \<longleftrightarrow> list_all (\<lambda>n. n \<in> set (xc_DNSNames cert)) dns
     \<and> list_all (\<lambda>s. case net_ParseIP s of None \<Rightarrow> True | Some parsed \<Rightarrow> list_ex (\<lambda>c. ip_Equal c parsed) (xc_IPAddresses cert)) ips"

definition shouldReissue :: "'pub server_env \<Rightarrow> serverCertManager \<Rightarrow> files \<Rightarrow> string" where
  "shouldReissue env m fs =
     (case loadAgentCert (sx_lib env) (sm_CertPath m) fs of
        None \<Rightarrow> ''missing''
      | Some cert \<Rightarrow>
          (if \<not> certHasAllSANs cert (sm_DNSNames m) (sm_IPAddresses m) then ''san_mismatch''
           else if (case sm_CA m of None \<Rightarrow> False | Some c \<Rightarrow> \<not> sx_verify env c cert) then ''issuer_rotated''
           else if 0 < sm_RenewBefore m \<and> xc_NotAfter cert - sx_now env < sm_RenewBefore m then ''near_expiry''
           else []))"

definition sc_issue :: "'pub server_env \<Rightarrow> serverCertManager \<Rightarrow> files \<Rightarrow> bool \<times> files" where
  "sc_issue env m fs =
     (case sm_CA m of
        None \<Rightarrow> (False, fs)
      | Some c \<Rightarrow>
          (case IssueServerCert (sx_lib env) (\<lambda>_. None) (sx_now env) c (sm_DNSNames m) (sm_IPAddresses m) [] (sm_TTL m) of
             Inl _ \<Rightarrow> (False, fs)
           | Inr res \<Rightarrow>
               (if \<not> sx_mkdir env then (False, fs)
                else (case server_writeFileAtomic (sx_cert_fault env) (sx_removable env) (sm_CertPath m) (ir_CertPEM res) fs of
                        (False, fs1) \<Rightarrow> (False, fs1)
                      | (True, fs1) \<Rightarrow> server_writeFileAtomic (sx_key_fault env) (sx_removable env) (sm_KeyPath m) (ir_KeyPEM res) fs1))))"

definition ensureAtStartup :: "'pub server_env \<Rightarrow> serverCertManager \<Rightarrow> files \<Rightarrow> bool \<times> files" where
  "ensureAtStartup env m fs =
     (if sm_CertPath m = [] \<or> sm_KeyPath m = [] then (False, fs)
      else if shouldReissue env m fs = [] then (True, fs)
      else sc_issue env m fs)"

text \<open>One tick of \<open>runDaily\<close>.\<close>

definition daily_tick :: "'pub server_env \<Rightarrow> serverCertManager \<Rightarrow> files \<Rightarrow> files" where
  "daily_tick env m fs = (if shouldReissue env m fs = [] then fs else snd (sc_issue env m fs))"

section \<open>Properties\<close>

text \<open>The paths of a renewer name different files, also with the suffix of the temporary files.\<close>

definition paths_apart :: "CertRenewer \<Rightarrow> bool" where
  "paths_apart r \<longleftrightarrow> distinct [cr_CertPath r, cr_KeyPath r, cr_BundlePath r, cr_CertPath r @ ''.tmp'', cr_BundlePath r @ ''.tmp'']"

lemma update_bundle_other:
  assumes "p \<noteq> path" "p \<noteq> path @ ''.tmp''"
  shows "update_bundle flt removable path pem fs p = fs p"
proof (cases "writeFileAtomic flt removable path pem fs")
  case (Pair ok fs')
  then show ?thesis using atomic_write [OF Pair assms(2)] assms(1) by (auto simp: update_bundle_def)
qed

lemma tick_cases:
  assumes "tick env r fs = (res, fs')" "paths_apart r"
  obtains (kept) "fs' (cr_CertPath r) = fs (cr_CertPath r)" "fs' (cr_KeyPath r) = fs (cr_KeyPath r)" "res \<noteq> TickRotated"
  | (rotated) csr resp where "res = TickRotated" "buildCSR (tk_csr env) (cr_KeyPath r) (cr_AgentId r) fs = Some csr"
      "tk_call env \<lparr>rq_AgentId = cr_AgentId r, rq_TtlSeconds = cr_TTLs r, rq_CsrPem = csr\<rparr> = Some resp"
      "fs' (cr_CertPath r) = Some (rp_CertPem resp)" "fs' (cr_KeyPath r) = fs (cr_KeyPath r)"
proof -
  have d: "cr_CertPath r \<noteq> cr_BundlePath r" "cr_CertPath r \<noteq> cr_BundlePath r @ ''.tmp''" "cr_KeyPath r \<noteq> cr_BundlePath r"
    "cr_KeyPath r \<noteq> cr_BundlePath r @ ''.tmp''" "cr_CertPath r \<noteq> cr_CertPath r @ ''.tmp''" "cr_KeyPath r \<noteq> cr_CertPath r @ ''.tmp''"
    "cr_KeyPath r \<noteq> cr_CertPath r"
    using assms(2) by (auto simp: paths_apart_def)
  show ?thesis
  proof (cases "fs' = fs \<and> res \<noteq> TickRotated")
    case True
    then show ?thesis using kept by simp
  next
    case False
    then obtain csr resp ok fs1 where
      c: "buildCSR (tk_csr env) (cr_KeyPath r) (cr_AgentId r) fs = Some csr"
        "tk_call env \<lparr>rq_AgentId = cr_AgentId r, rq_TtlSeconds = cr_TTLs r, rq_CsrPem = csr\<rparr> = Some resp"
      and w: "writeFileAtomic (tk_cert_fault env) (tk_removable env) (cr_CertPath r) (rp_CertPem resp) fs = (ok, fs1)"
      and f: "(res, fs') = (if ok then (TickRotated, update_bundle (tk_bundle_fault env) (tk_removable env) (cr_BundlePath r) (rp_BundlePem resp) fs1) else (TickWriteFailed, fs1))"
      using assms(1) by (auto simp: tick_def split: option.splits if_splits prod.splits bool.splits)
    note a = atomic_write [OF w d(5)] atomic_write [OF w d(6)]
    show ?thesis
    proof (cases ok)
      case True
      then show ?thesis using rotated [OF _ c] f a d by (simp add: update_bundle_other)
    next
      case False
      then show ?thesis using kept f a d by simp
    qed
  qed
qed

text \<open>
  C27. Renewal leaves the agent with a working pair. For one tick of the renewal loop against the control plane, with a failure at any
  call: the private key is never touched, the certificate on disk is the old one or, after a rotation, completely the new one, and the new
  one is for the same public key and names the same agent.
\<close>

theorem tick_keeps_pair:
  assumes "x509_faithful lib" "tk_lib env = lib" "paths_apart r" "loadAgentCert lib (cr_CertPath r) fs = Some cert"
    and "tk_call env = (\<lambda>req. case fst (RenewCert lib renv (Inr cert) req s) of Inr resp \<Rightarrow> Some resp | Inl _ \<Rightarrow> None)"
    and "\<And>aid k. tk_csr env aid k \<noteq> Some []" "gv_CA s = Some c" "tick env r fs = (res, fs')"
  shows "fs' (cr_KeyPath r) = fs (cr_KeyPath r)
    \<and> (if res = TickRotated
       then (\<exists>new. loadAgentCert lib (cr_CertPath r) fs' = Some new \<and> lx_spki lib (xc_PublicKey new) = lx_spki lib (xc_PublicKey cert)
         \<and> names_agent c (agentIDFromCert cert) (ne_now renv) new)
       else fs' (cr_CertPath r) = fs (cr_CertPath r))"
  using assms(8,3)
proof (cases rule: tick_cases)
  case (rotated csr resp)
  let ?req = "\<lparr>rq_AgentId = cr_AgentId r, rq_TtlSeconds = cr_TTLs r, rq_CsrPem = csr\<rparr>"
  obtain s' where "RenewCert lib renv (Inr cert) ?req s = (Inr resp, s')"
    using rotated(3) assms(5) by (cases "RenewCert lib renv (Inr cert) ?req s") (auto split: sum.splits)
  then obtain new where n: "read_cert lib (rp_CertPem resp) = Some new" "names_agent c (agentIDFromCert cert) (ne_now renv) new"
    "rq_CsrPem ?req = [] \<or> lx_spki lib (xc_PublicKey new) = lx_spki lib (xc_PublicKey cert) \<and> rp_KeyPem resp = []"
    by (rule RenewCert_new [OF assms(1) _ assms(7)])
  have "csr \<noteq> []" using rotated(2) assms(6) by (auto simp: buildCSR_def bind_eq_Some_conv)
  then show ?thesis using rotated n by (simp add: loadAgentCert_def)
qed simp

text \<open>A renewal by a signing request: the certificate on disk has the authority's key, and the request is for the same key.\<close>

definition demo_csr_lib :: "nat x509_lib" where
  "demo_csr_lib = (demo_x509 0)\<lparr>lx_parse := (\<lambda>d. if d = ''old'' then Some demo_cert else lx_parse (demo_x509 0) d),
     lx_parse_csr := (\<lambda>_. Some (7, True)), lx_spki := (\<lambda>_. Some ''k'')\<rparr>"

definition demo_renewer :: CertRenewer where
  "demo_renewer = \<lparr>cr_AgentId = ''a1'', cr_CertPath = ''c'', cr_KeyPath = ''k'', cr_BundlePath = ''b'', cr_RenewBefore = 100, cr_TTLs = 0\<rparr>"

definition demo_tick_env :: "nat tick_env" where
  "demo_tick_env = \<lparr>tk_lib = demo_csr_lib, tk_now = 0, tk_csr = (\<lambda>aid k. Some ''csr''),
     tk_call = (\<lambda>req. case fst (RenewCert demo_csr_lib (demo_renew_env 0) (Inr demo_cert) req demo_grpc) of Inr resp \<Rightarrow> Some resp | Inl _ \<Rightarrow> None),
     tk_cert_fault = WfNone, tk_bundle_fault = WfOpen, tk_removable = True\<rparr>"

definition demo_disk :: files where
  "demo_disk = [''c'' \<mapsto> ''old'', ''k'' \<mapsto> ''key'']"

lemma demo_csr_faithful: "x509_faithful demo_csr_lib"
  by (auto simp: x509_faithful_def demo_csr_lib_def demo_x509_def issued_as_def agent_template_def second_def)

lemma demo_csr_renewal:
  assumes "req = \<lparr>rq_AgentId = ''a1'', rq_TtlSeconds = 0, rq_CsrPem = ''csr''\<rparr>"
  shows "\<exists>resp s'. RenewCert demo_csr_lib (demo_renew_env 0) (Inr demo_cert) req demo_grpc = (Inr resp, s') \<and> rp_CertPem resp = ''der''"
proof -
  have lib: "lx_serial demo_csr_lib = Some 255" "TrustBundlePEM demo_csr_lib demo_CA = ''ri''" "lx_encode demo_csr_lib ty b = b"
    "lx_decode demo_csr_lib = Some" "lx_parse_csr demo_csr_lib x = Some (7, True)" "lx_spki demo_csr_lib y = Some ''k''" for ty b x y
    by (simp_all add: demo_csr_lib_def demo_x509_def TrustBundlePEM_def RootPEM_def demo_CA_def)
  have sg: "sign_cert demo_csr_lib (agent_template 0 ''a1'' defaultAgentTTL ''spiffe://fire/agent/a1'' 255 7)
    = Some (''der'', \<lparr>xc_Serial = 255, xc_URIs = [Some ''spiffe://fire/agent/a1''], xc_DNSNames = [''a1''], xc_IPAddresses = [],
       xc_NotAfter = 0 + defaultAgentTTL, xc_PublicKey = 7\<rparr>)" by (simp add: sign_cert_def demo_csr_lib_def demo_x509_def)
  have ttl: "agent_ttl (mul_int64 0 second) = defaultAgentTTL"
    by (simp add: mul_int64_def agent_ttl_def defaultAgentTTL_def maxAgentTTL_def hour_def second_def)
  have i: "\<exists>res. issue_renewal demo_csr_lib 0 demo_CA ''a1'' demo_cert req = Inr res \<and> ir_CertPEM res = ''der''"
    by (simp add: issue_renewal_def Let_def assms csrPubKeyMatchesPeer_def ca_IssueFromCSR_def ca_Issue_def demo_uri issue_key_def lib ttl sg)
  have t: "spiffeVerifier ''fire'' demo_cert"
    by (simp add: spiffeVerifier_def demo_cert_def strings_HasPrefix_def domain_host_def strings_TrimPrefix_def strings_TrimSuffix_def suffix_def)
  have p: "renew_peer demo_grpc (Inr demo_cert) req = Inr (''a1'', demo_cert)"
    by (simp add: renew_peer_def demo_id demo_grpc_def t assms)
  have c: "\<not> IsRevoked demo_CA x" for x by (simp add: IsRevoked_def demo_CA_def)
  have w: "\<not> renew_window demo_grpc < xc_NotAfter demo_cert" "ne_now (demo_renew_env 0) = 0" "gv_CA demo_grpc = Some demo_CA"
    by (simp_all add: demo_cert_def renew_window_def demo_grpc_def defaultRenewWindow_def hour_def second_def demo_renew_env_def)
  have l: "\<not> renew_too_soon 0 iv (fst (with_store (\<lambda>st. st_LastCertRenew st serial) demo_grpc))" for iv serial
    by (simp add: with_store_def demo_grpc_def demo_registry mem_Store_def mem_LastCertRenew_def NewMemoryStore_def renew_too_soon_def)
  show ?thesis using i l [of _ "big_Text16 (xc_Serial demo_cert)"]
    by (cases "with_store (\<lambda>st. st_LastCertRenew st (big_Text16 (xc_Serial demo_cert))) demo_grpc")
      (auto simp: RenewCert_def c p Let_def w split: prod.splits)
qed

theorem tick_keeps_pair_witness:
  "\<exists>new fs'. tick demo_tick_env demo_renewer demo_disk = (TickRotated, fs') \<and> fs' ''k'' = Some ''key''
    \<and> loadAgentCert demo_csr_lib ''c'' fs' = Some new \<and> names_agent demo_CA ''a1'' 0 new"
proof -
  obtain resp where r: "tk_call demo_tick_env \<lparr>rq_AgentId = ''a1'', rq_TtlSeconds = 0, rq_CsrPem = ''csr''\<rparr> = Some resp" "rp_CertPem resp = ''der''"
    using demo_csr_renewal [OF refl] by (auto simp: demo_tick_env_def)
  have l: "loadAgentCert demo_csr_lib (cr_CertPath demo_renewer) demo_disk = Some demo_cert"
    by (simp add: loadAgentCert_def read_cert_def demo_disk_def demo_renewer_def demo_csr_lib_def demo_x509_def)
  have "\<exists>fs'. tick demo_tick_env demo_renewer demo_disk = (TickRotated, fs')"
    using l r by (simp add: tick_def demo_tick_env_def demo_renewer_def demo_cert_def buildCSR_def demo_disk_def writeFileAtomic_def)
  then obtain fs' where t: "tick demo_tick_env demo_renewer demo_disk = (TickRotated, fs')" by blast
  have a: "tk_lib demo_tick_env = demo_csr_lib" "paths_apart demo_renewer" "\<And>aid k. tk_csr demo_tick_env aid k \<noteq> Some []" "gv_CA demo_grpc = Some demo_CA"
    "tk_call demo_tick_env = (\<lambda>req. case fst (RenewCert demo_csr_lib (demo_renew_env 0) (Inr demo_cert) req demo_grpc) of Inr resp \<Rightarrow> Some resp | Inl _ \<Rightarrow> None)"
    by (simp_all add: demo_tick_env_def paths_apart_def demo_renewer_def demo_grpc_def)
  from tick_keeps_pair [OF demo_csr_faithful a(1,2) l a(5,3,4) t] t show ?thesis
    by (auto simp: demo_renewer_def demo_disk_def demo_id demo_renew_env_def)
qed

text \<open>The results of a sequence of loads.\<close>

fun kp_run :: "(gotime option \<times> gotime option \<times> 'pair option) list \<Rightarrow> 'pair KeypairLoader \<Rightarrow> 'pair option list" where
  "kp_run [] l = []"
| "kp_run ((c, k, pair) # ops) l = (case kp_load c k pair l of (res, l1) \<Rightarrow> res # kp_run ops l1)"

lemma kp_load_cached: "kp_load c k pair l = (res, l1) \<Longrightarrow> kl_cached l = Some p \<Longrightarrow> \<exists>q. res = Some q \<and> kl_cached l1 = Some q \<and> (q = p \<or> pair = Some q)"
  by (cases l; cases pair; auto simp: kp_load_def split: if_splits)

lemma kp_run_cached: "kl_cached l = Some p \<Longrightarrow> set (kp_run ops l) \<subseteq> Some ` ({p} \<union> {q. \<exists>c k. (c, k, Some q) \<in> set ops})"
proof (induction ops arbitrary: l p)
  case (Cons op ops)
  obtain c k pair where op: "op = (c, k, pair)" by (cases op)
  obtain res l1 where r: "kp_load c k pair l = (res, l1)" by fastforce
  from kp_load_cached [OF r Cons.prems] obtain q where q: "res = Some q" "kl_cached l1 = Some q" "q = p \<or> pair = Some q" by blast
  have "set (kp_run ops l1) \<subseteq> Some ` ({q} \<union> {q. \<exists>c k. (c, k, Some q) \<in> set ops})" by (rule Cons.IH [OF q(2)])
  then show ?case using q by (auto simp: op r)
qed simp

text \<open>
  The connection never loses its certificate: once a pair of certificate and key has loaded, every later handshake gets a pair, whatever
  becomes of the files, and only pairs that were on disk and loaded.
\<close>

theorem loader_available:
  assumes "kp_load c k pair l = (Some p, l1)"
  shows "set (kp_run ops l1) \<subseteq> Some ` ({p} \<union> {q. \<exists>c k. (c, k, Some q) \<in> set ops})"
proof -
  have "kl_cached l1 = Some p" using assms by (auto simp: kp_load_def split: if_splits option.splits)
  then show ?thesis by (rule kp_run_cached)
qed

theorem loader_available_witness:
  "set (kp_run [(None, None, None), (Some 2, Some 2, Some ''new'')] (snd (kp_load (Some 1) (Some 1) (Some ''old'') newKeyPairLoader)))
   \<subseteq> Some ` ({''old''} \<union> {q. \<exists>c k. (c, k, Some q) \<in> set [(None, None, None), (Some (2 :: gotime), Some (2 :: gotime), Some ''new'')]})"
  by (rule loader_available [of "Some 1" "Some 1" "Some ''old''" newKeyPairLoader]) (simp add: kp_load_def newKeyPairLoader_def)

lemma IssueServerCert_issued:
  assumes "x509_faithful lib" "IssueServerCert lib up now c dns ips [] ttl = Inr res"
  obtains cert t der where "read_cert lib (ir_CertPEM res) = Some cert" "sign_cert lib t = Some (der, cert)" "xc_DNSNames cert = dns"
    "xc_IPAddresses cert = List.map_filter net_ParseIP ips" "now + server_ttl ttl - second < xc_NotAfter cert"
proof -
  from assms(2) obtain serial pub uris der cert t where
    t: "t = \<lparr>ct_Serial = serial, ct_CommonName = ''firefik control plane'', ct_NotBefore = now - hour, ct_NotAfter = now + server_ttl ttl,
        ct_ClientAuth = False, ct_URIs = uris, ct_DNSNames = dns, ct_IPAddresses = List.map_filter net_ParseIP ips, ct_PublicKey = pub\<rparr>"
    and sg: "sign_cert lib t = Some (der, cert)" and r: "ir_CertPEM res = lx_encode lib ''CERTIFICATE'' der"
    by (auto simp: IssueServerCert_def split: if_splits option.splits prod.splits)
  show ?thesis
    using that [OF _ sg] sign_cert_read [OF assms(1) sg] r t by (auto simp: issued_as_def)
qed

lemma issued_has_SANs:
  assumes "xc_DNSNames cert = dns" "xc_IPAddresses cert = List.map_filter net_ParseIP ips"
  shows "certHasAllSANs cert dns ips"
  using assms by (force simp: certHasAllSANs_def list_all_iff list_ex_iff ip_Equal_def map_filter_def split: option.splits)

text \<open>A manager whose certificates outlive its renewal period, with an authority that verifies what it signs.\<close>

definition settled :: "'pub server_env \<Rightarrow> serverCertManager \<Rightarrow> CA \<Rightarrow> bool" where
  "settled env m c \<longleftrightarrow> x509_faithful (sx_lib env) \<and> sm_CA m = Some c \<and> sm_RenewBefore m + second \<le> server_ttl (sm_TTL m)
     \<and> (\<forall>t der cert. sign_cert (sx_lib env) t = Some (der, cert) \<longrightarrow> sx_verify env c cert)
     \<and> sm_CertPath m \<noteq> sm_KeyPath m \<and> sm_CertPath m \<noteq> sm_KeyPath m @ ''.tmp'' \<and> sm_KeyPath m \<noteq> sm_CertPath m @ ''.tmp''"

lemma new_cert_accepted:
  assumes "settled env m c" "IssueServerCert (sx_lib env) up (sx_now env) c (sm_DNSNames m) (sm_IPAddresses m) [] (sm_TTL m) = Inr res"
    and "fs (sm_CertPath m) = Some (ir_CertPEM res)"
  shows "shouldReissue env m fs = []"
proof -
  have f: "x509_faithful (sx_lib env)" using assms(1) by (simp add: settled_def)
  obtain cert t der where i: "read_cert (sx_lib env) (ir_CertPEM res) = Some cert" "sign_cert (sx_lib env) t = Some (der, cert)"
    "xc_DNSNames cert = sm_DNSNames m" "xc_IPAddresses cert = List.map_filter net_ParseIP (sm_IPAddresses m)"
    "sx_now env + server_ttl (sm_TTL m) - second < xc_NotAfter cert"
    by (rule IssueServerCert_issued [OF f assms(2)])
  have "certHasAllSANs cert (sm_DNSNames m) (sm_IPAddresses m)" by (rule issued_has_SANs [OF i(3,4)])
  moreover have "sx_verify env c cert" "\<not> xc_NotAfter cert - sx_now env < sm_RenewBefore m" "sm_CA m = Some c"
    using assms(1) i(2,5) by (auto simp: settled_def)
  ultimately show ?thesis using i(1) assms(3) by (simp add: shouldReissue_def loadAgentCert_def)
qed

lemma sc_issue_cases:
  assumes "settled env m c" "sc_issue env m fs = (ok, fs')"
  obtains (kept) "\<not> ok" "fs' (sm_CertPath m) = fs (sm_CertPath m)"
  | (written) res where "IssueServerCert (sx_lib env) (\<lambda>_. None) (sx_now env) c (sm_DNSNames m) (sm_IPAddresses m) [] (sm_TTL m) = Inr res"
      "fs' (sm_CertPath m) = Some (ir_CertPEM res)" "fs' (sm_KeyPath m) = (if ok then Some (ir_KeyPEM res) else fs (sm_KeyPath m))"
proof -
  have a: "sm_CA m = Some c" "sm_CertPath m \<noteq> sm_KeyPath m" "sm_CertPath m \<noteq> sm_KeyPath m @ ''.tmp''" "sm_KeyPath m \<noteq> sm_CertPath m @ ''.tmp''"
    "sm_CertPath m \<noteq> sm_CertPath m @ ''.tmp''" "sm_KeyPath m \<noteq> sm_KeyPath m @ ''.tmp''"
    using assms(1) by (auto simp: settled_def)
  show ?thesis
  proof (cases "fs' = fs \<and> \<not> ok")
    case False
    then obtain res ok1 fs1 where i: "IssueServerCert (sx_lib env) (\<lambda>_. None) (sx_now env) c (sm_DNSNames m) (sm_IPAddresses m) [] (sm_TTL m) = Inr res"
      and w: "server_writeFileAtomic (sx_cert_fault env) (sx_removable env) (sm_CertPath m) (ir_CertPEM res) fs = (ok1, fs1)"
      and k: "(ok, fs') = (if ok1 then server_writeFileAtomic (sx_key_fault env) (sx_removable env) (sm_KeyPath m) (ir_KeyPEM res) fs1 else (False, fs1))"
      using assms(2) a(1) by (auto simp: sc_issue_def split: sum.splits if_splits prod.splits bool.splits)
    note c1 = server_atomic_write [OF w a(5)] server_atomic_write [OF w a(4)]
    show ?thesis
    proof (cases ok1)
      case True
      then have k': "server_writeFileAtomic (sx_key_fault env) (sx_removable env) (sm_KeyPath m) (ir_KeyPEM res) fs1 = (ok, fs')" using k by simp
      show ?thesis
        using written [OF i] server_atomic_write [OF k' a(3)] server_atomic_write [OF k' a(6)] c1 a True by simp
    next
      case False
      then show ?thesis using kept k c1 by simp
    qed
  qed (use kept in simp)
qed

text \<open>
  A server certificate that was issued is not issued again: after a successful start the manager finds nothing to do, so the daily check
  and another start change nothing. But the certificate is written before the key and only the certificate is examined: when writing the key
  fails, the start fails with the new certificate beside the old key, and from then on every start succeeds and keeps
  the pair that does not match.
\<close>

theorem server_cert_settles:
  assumes "settled env m c" "ensureAtStartup env m fs = (ok, fs')"
  shows "(ok \<longrightarrow> ensureAtStartup env m fs' = (True, fs') \<and> daily_tick env m fs' = fs')
    \<and> (\<not> ok \<longrightarrow> fs' (sm_CertPath m) \<noteq> fs (sm_CertPath m) \<longrightarrow>
        fs' (sm_KeyPath m) = fs (sm_KeyPath m) \<and> ensureAtStartup env m fs' = (True, fs'))"
proof (cases "sm_CertPath m = [] \<or> sm_KeyPath m = [] \<or> shouldReissue env m fs = []")
  case True
  then show ?thesis using assms(2) by (auto simp: ensureAtStartup_def daily_tick_def)
next
  case False
  then have "sc_issue env m fs = (ok, fs')" using assms(2) by (simp add: ensureAtStartup_def)
  from assms(1) this show ?thesis
  proof (cases rule: sc_issue_cases)
    case (written res)
    have "shouldReissue env m fs' = []" by (rule new_cert_accepted [of env m c "\<lambda>_. None" res fs', OF assms(1) written(1,2)])
    then show ?thesis using False written(3) by (auto simp: ensureAtStartup_def daily_tick_def)
  qed simp
qed

text \<open>A library that signs one template for the host \<open>h\<close>, and a disk on which the key cannot be written.\<close>

definition demo_server_cert :: "nat x509_cert" where
  "demo_server_cert = \<lparr>xc_Serial = 255, xc_URIs = [Some ''spiffe://fire/controlplane''], xc_DNSNames = [''h''], xc_IPAddresses = [],
     xc_NotAfter = server_ttl 0, xc_PublicKey = 7\<rparr>"

definition demo_server_env :: "nat server_env" where
  "demo_server_env = \<lparr>sx_lib = (demo_x509 0)\<lparr>lx_parse := (\<lambda>_. Some demo_server_cert),
       lx_create := (\<lambda>t. if t = \<lparr>ct_Serial = 255, ct_CommonName = ''firefik control plane'', ct_NotBefore = 0 - hour, ct_NotAfter = 0 + server_ttl 0,
         ct_ClientAuth = False, ct_URIs = [''spiffe://fire/controlplane''], ct_DNSNames = [''h''], ct_IPAddresses = [], ct_PublicKey = 7\<rparr>
         then Some ''der'' else None)\<rparr>,
     sx_now = 0, sx_verify = (\<lambda>_ _. True), sx_mkdir = True, sx_cert_fault = WfNone, sx_key_fault = WfRename, sx_removable = True\<rparr>"

definition demo_manager :: serverCertManager where
  "demo_manager = \<lparr>sm_CA = Some demo_CA, sm_CertPath = ''c'', sm_KeyPath = ''k'', sm_DNSNames = [''h''], sm_IPAddresses = [], sm_TTL = 0, sm_RenewBefore = 0\<rparr>"

theorem server_cert_settles_witness:
  "\<exists>fs'. ensureAtStartup demo_server_env demo_manager [''k'' \<mapsto> ''old''] = (False, fs') \<and> fs' ''c'' = Some ''der'' \<and> fs' ''k'' = Some ''old''
    \<and> ensureAtStartup demo_server_env demo_manager fs' = (True, fs')"
proof -
  let ?fs = "[''k'' \<mapsto> ''old''] :: files"
  have f: "settled demo_server_env demo_manager demo_CA"
    by (auto simp: settled_def demo_server_env_def demo_manager_def x509_faithful_def demo_x509_def demo_server_cert_def issued_as_def second_def
        server_ttl_def hour_def split: if_splits)
  have "\<exists>fs'. ensureAtStartup demo_server_env demo_manager ?fs = (False, fs') \<and> fs' ''c'' = Some ''der''"
    by (simp add: ensureAtStartup_def shouldReissue_def loadAgentCert_def demo_manager_def sc_issue_def IssueServerCert_def demo_server_env_def demo_x509_def
        server_uris_def demo_CA_def domain_host_def strings_TrimPrefix_def strings_TrimSuffix_def suffix_def spiffe_String_def url_escape_def unreserved_def
        less_eq_char_def path_chars_def host_chars_def map_filter_def sign_cert_def server_writeFileAtomic_def Let_def)
  then obtain fs' where t: "ensureAtStartup demo_server_env demo_manager ?fs = (False, fs')" "fs' ''c'' = Some ''der''" by blast
  from server_cert_settles [OF f t(1)] t show ?thesis by (auto simp: demo_manager_def)
qed

end
