(* ===== verification/Audit_Log.thy ===== *)
theory Audit_Log
  imports Agent_Traffic Agent_Dispatch CP_Types
begin

text \<open>
  The audit log of the agent (\<open>backend/internal/audit/\<close>): the events its logger builds (\<open>log.go\<close>), the sinks they go to
  (\<open>sink.go\<close>, \<open>history.go\<close>, \<open>sink_remote.go\<close>, \<open>webhook_sink.go\<close>, \<open>sink_otel.go\<close>), the fan-out of the control plane
  (\<open>controlplane/audit_fanout.go\<close>) and how the sinks are chosen (\<open>cmd/firefik/main.go\<close>).

  What the outside answers is part of a sink: a writer holds the outcomes of its coming writes, a webhook the
  replies of its endpoint. The encoding of an event as JSON, HMAC and the formatting of times are the record \<open>sink_env\<close>.
\<close>

section \<open>Events\<close>

record Event =
  ev_Timestamp :: gotime
  ev_Action :: string
  ev_Source :: string
  ev_ContainerID :: string
  ev_ContainerName :: string
  ev_ContainerIPs :: "string list"
  ev_RuleSets :: nat
  ev_DefaultPolicy :: string
  ev_Metadata :: "(string \<times> string) list"

definition zero_event :: Event where
  "zero_event = \<lparr>ev_Timestamp = 0, ev_Action = [], ev_Source = [], ev_ContainerID = [], ev_ContainerName = [], ev_ContainerIPs = [],
     ev_RuleSets = 0, ev_DefaultPolicy = [], ev_Metadata = []\<rparr>"

definition SourceAPI :: string where "SourceAPI = ''api''"
definition SourceStartup :: string where "SourceStartup = ''startup''"
definition SourceManual :: string where "SourceManual = ''manual''"
definition SourceDrift :: string where "SourceDrift = ''drift''"
definition SourceControlPlane :: string where "SourceControlPlane = ''control-plane''"

definition audit_shortID :: "string \<Rightarrow> string" where
  "audit_shortID cid = (if 12 < length cid then take 12 cid else cid)"

section \<open>The ring of recent events\<close>

record HistoryBuffer =
  hb_cap :: nat
  hb_ring :: "Event list"
  hb_head :: nat
  hb_filled :: bool

definition NewHistoryBuffer :: "int \<Rightarrow> HistoryBuffer" where
  "NewHistoryBuffer sz =
     (let n = (if sz \<le> 0 then 500 else nat sz)
      in \<lparr>hb_cap = n, hb_ring = replicate n zero_event, hb_head = 0, hb_filled = False\<rparr>)"

definition history_Write :: "Event \<Rightarrow> HistoryBuffer \<Rightarrow> HistoryBuffer" where
  "history_Write ev h =
     (let next = (hb_head h + 1) mod hb_cap h
      in h\<lparr>hb_ring := (hb_ring h)[hb_head h := ev], hb_head := next, hb_filled := (hb_filled h \<or> next = 0)\<rparr>)"

definition history_Snapshot :: "HistoryBuffer \<Rightarrow> Event list" where
  "history_Snapshot h =
     (if \<not> hb_filled h then take (hb_head h) (hb_ring h)
      else drop (hb_head h) (hb_ring h) @ take (hb_head h) (hb_ring h))"

text \<open>The query of the agent's API; \<open>parse\<close> is \<open>time.Parse\<close> of RFC 3339.\<close>

definition handleGetAuditHistory :: "(string \<Rightarrow> gotime option) \<Rightarrow> HistoryBuffer option \<Rightarrow> string \<Rightarrow> string \<Rightarrow> string + Event list" where
  "handleGetAuditHistory parse history since limit =
     (case history of
        None \<Rightarrow> Inr []
      | Some h \<Rightarrow>
          (let events = history_Snapshot h in
           if since \<noteq> [] \<and> parse since = None then Inl ''invalid 'since' query parameter''
           else
             (let recent = (case parse since of Some t \<Rightarrow> if since \<noteq> [] then filter (\<lambda>ev. t < ev_Timestamp ev) events else events | None \<Rightarrow> events)
              in Inr (case strconv_Atoi limit of
                        Some n \<Rightarrow> if 0 < n \<and> n < int (length recent) then drop (length recent - nat n) recent else recent
                      | None \<Rightarrow> recent))))"

section \<open>Files\<close>

record writer =
  wr_out :: string
  wr_faults :: "(nat \<times> string) option list"
  wr_close_error :: "string option"

text \<open>A fault \<open>(n, e)\<close> is a write that fails with \<open>e\<close> after \<open>n\<close> bytes.\<close>

definition writer_Write :: "string \<Rightarrow> writer \<Rightarrow> string option \<times> writer" where
  "writer_Write data w =
     (case wr_faults w of
        Some (n, e) # fs \<Rightarrow> (Some e, w\<lparr>wr_out := wr_out w @ take n data, wr_faults := fs\<rparr>)
      | fs \<Rightarrow> (None, w\<lparr>wr_out := wr_out w @ data, wr_faults := tl fs\<rparr>))"

record sink_env =
  sk_now :: gotime
  sk_marshal :: "Event \<Rightarrow> string option"
  sk_RFC3339 :: "gotime \<Rightarrow> string"
  sk_unix_text :: "gotime \<Rightarrow> string"
  sk_hmac :: "string \<Rightarrow> string \<Rightarrow> string"

abbreviation newline :: char where "newline \<equiv> CHR 0x0A"
abbreviation backslash :: char where "backslash \<equiv> CHR 0x5C"

definition json_Write :: "sink_env \<Rightarrow> Event \<Rightarrow> writer \<Rightarrow> string option \<times> writer" where
  "json_Write env ev w =
     (case sk_marshal env ev of None \<Rightarrow> (Some ''json: unsupported value'', w) | Some body \<Rightarrow> writer_Write (body @ [newline]) w)"

definition replace_char :: "char \<Rightarrow> string \<Rightarrow> string \<Rightarrow> string" where
  "replace_char c new s = concat (map (\<lambda>x. if x = c then new else [x]) s)"

definition cefEscapeHeader :: "string \<Rightarrow> string" where
  "cefEscapeHeader s = replace_char CHR ''|'' [backslash, CHR ''|''] (replace_char backslash [backslash, backslash] s)"

definition cefEscapeExtension :: "string \<Rightarrow> string" where
  "cefEscapeExtension s =
     replace_char newline [backslash, CHR ''n'']
       (replace_char CHR ''='' [backslash, CHR ''=''] (replace_char backslash [backslash, backslash] s))"

definition cef_kv :: "string \<Rightarrow> string \<Rightarrow> string" where
  "cef_kv k v = (if v = [] then [] else k @ ''='' @ cefEscapeExtension v)"

definition appendKV :: "(string \<times> string) list \<Rightarrow> string list" where
  "appendKV kvs = filter (\<lambda>e. e \<noteq> []) (map (\<lambda>(k, v). cef_kv k v) kvs)"

record cefSink =
  cef_w :: writer
  cef_vendor :: string
  cef_product :: string
  cef_version :: string

definition cef_severity :: "string \<Rightarrow> nat" where
  "cef_severity action = (if action = ''remove'' then 5 else if action = ''reconcile'' then 2 else 3)"

definition cef_fields :: "sink_env \<Rightarrow> Event \<Rightarrow> (string \<times> string) list" where
  "cef_fields env ev =
     [(''src'', strings_Join (ev_ContainerIPs ev) '',''),
      (''cs1'', ev_Source ev), (''cs1Label'', ''Source''),
      (''cs2'', ev_ContainerID ev), (''cs2Label'', ''ContainerID''),
      (''cs3'', ev_ContainerName ev), (''cs3Label'', ''ContainerName''),
      (''cs4'', ev_DefaultPolicy ev), (''cs4Label'', ''DefaultPolicy''),
      (''cn1'', strconv_Itoa (ev_RuleSets ev)), (''cn1Label'', ''RuleSetCount''),
      (''rt'', sk_RFC3339 env (ev_Timestamp ev))]"

definition cef_line :: "sink_env \<Rightarrow> cefSink \<Rightarrow> Event \<Rightarrow> string" where
  "cef_line env s ev =
     ''CEF:0|'' @ cefEscapeHeader (cef_vendor s) @ ''|'' @ cefEscapeHeader (cef_product s) @ ''|'' @ cefEscapeHeader (cef_version s) @ ''|''
       @ cefEscapeHeader (ev_Action ev) @ ''|'' @ cefEscapeHeader (ev_Action ev) @ ''|'' @ strconv_Itoa (cef_severity (ev_Action ev)) @ ''|''
       @ strings_Join (appendKV (cef_fields env ev)) '' '' @ [newline]"

definition cef_Write :: "sink_env \<Rightarrow> Event \<Rightarrow> cefSink \<Rightarrow> string option \<times> cefSink" where
  "cef_Write env ev s = (case writer_Write (cef_line env s ev) (cef_w s) of (err, w) \<Rightarrow> (err, s\<lparr>cef_w := w\<rparr>))"

section \<open>The remote sink\<close>

text \<open>\<open>rs_busy\<close> is the event being sent with the number of failed attempts, \<open>rs_stopped\<close> says that the sender has returned,
  \<open>rs_panicked\<close> that a closed channel was used.\<close>

record remoteSink =
  rs_cap :: nat
  rs_ch :: "Event list"
  rs_dropped :: nat
  rs_busy :: "(Event \<times> nat) option"
  rs_cancelled :: bool
  rs_closed :: bool
  rs_stopped :: bool
  rs_panicked :: bool

definition remote_buffer :: "int \<Rightarrow> nat" where
  "remote_buffer sz = (if sz \<le> 0 then 1000 else nat sz)"

definition NewRemoteSink :: "string \<Rightarrow> int \<Rightarrow> string + remoteSink" where
  "NewRemoteSink endpoint sz =
     (if endpoint = [] then Inl ''remote audit sink: endpoint is required''
      else Inr \<lparr>rs_cap = remote_buffer sz, rs_ch = [], rs_dropped = 0, rs_busy = None, rs_cancelled = False, rs_closed = False,
                rs_stopped = False, rs_panicked = False\<rparr>)"

definition remote_Write :: "Event \<Rightarrow> remoteSink \<Rightarrow> remoteSink" where
  "remote_Write ev s =
     (if rs_closed s then s\<lparr>rs_panicked := True\<rparr>
      else if length (rs_ch s) < rs_cap s then s\<lparr>rs_ch := rs_ch s @ [ev]\<rparr>
      else s\<lparr>rs_dropped := rs_dropped s + 1\<rparr>)"

definition remote_Close :: "remoteSink \<Rightarrow> remoteSink" where
  "remote_Close s = (if rs_closed s then s\<lparr>rs_panicked := True\<rparr> else s\<lparr>rs_cancelled := True, rs_closed := True\<rparr>)"

definition remote_take :: "(Event \<Rightarrow> string option) \<Rightarrow> remoteSink \<Rightarrow> remoteSink option" where
  "remote_take marshal s =
     (if rs_stopped s \<or> rs_busy s \<noteq> None then None
      else (case rs_ch s of
              [] \<Rightarrow> None
            | ev # rest \<Rightarrow> Some (s\<lparr>rs_ch := rest, rs_busy := (case marshal ev of None \<Rightarrow> None | Some _ \<Rightarrow> Some (ev, 0))\<rparr>)))"

text \<open>After a failed post the sender waits, and goes on to the next of three attempts or gives up.\<close>

definition remote_failed :: "Event \<Rightarrow> nat \<Rightarrow> remoteSink \<Rightarrow> remoteSink" where
  "remote_failed ev attempt s =
     (if attempt + 1 < 3 then s\<lparr>rs_busy := Some (ev, attempt + 1)\<rparr> else s\<lparr>rs_busy := None, rs_dropped := rs_dropped s + 1\<rparr>)"

section \<open>The webhook\<close>

datatype http_reply = NoRequest | NoReply | Status nat

record webhook_post =
  wp_event :: string
  wp_timestamp :: string
  wp_signature :: "string option"
  wp_body :: string

record WebhookSink =
  wh_url :: string
  wh_events :: "string list"
  wh_secret :: string
  wh_replies :: "http_reply list"
  wh_posts :: "webhook_post list"
  wh_statuses :: "string list"

definition NewWebhookSink :: "http_reply list \<Rightarrow> string \<Rightarrow> string list \<Rightarrow> string \<Rightarrow> string + WebhookSink" where
  "NewWebhookSink replies url events secret =
     (if url = [] then Inl ''webhook sink: url is required''
      else Inr \<lparr>wh_url = url, wh_events = filter (\<lambda>t. t \<noteq> []) (map strings_TrimSpace events), wh_secret = secret,
                wh_replies = replies, wh_posts = [], wh_statuses = []\<rparr>)"

definition signed_text :: "string \<Rightarrow> string \<Rightarrow> string \<Rightarrow> string" where
  "signed_text action ts body = action @ [newline] @ ts @ [newline] @ body"

definition webhook_status :: "http_reply \<Rightarrow> string \<times> bool" where
  "webhook_status reply =
     (case reply of
        NoRequest \<Rightarrow> (''error'', False)
      | NoReply \<Rightarrow> (''error'', True)
      | Status n \<Rightarrow> if 500 \<le> n then (''5xx'', True) else if 400 \<le> n then (''4xx'', False)
                   else if 200 \<le> n \<and> n < 300 then (''2xx'', False) else (''other'', False))"

definition webhook_postOnce :: "sink_env \<Rightarrow> string \<Rightarrow> string \<Rightarrow> WebhookSink \<Rightarrow> (string \<times> bool) \<times> WebhookSink" where
  "webhook_postOnce env action body s =
     (let ts = sk_unix_text env (sk_now env);
          post = \<lparr>wp_event = action, wp_timestamp = ts,
                  wp_signature = (if wh_secret s \<noteq> [] then Some (''sha256='' @ sk_hmac env (wh_secret s) (signed_text action ts body)) else None),
                  wp_body = body\<rparr>;
          reply = (case wh_replies s of [] \<Rightarrow> NoReply | r # _ \<Rightarrow> r)
      in (webhook_status reply,
          s\<lparr>wh_replies := tl (wh_replies s), wh_posts := (if reply = NoRequest then wh_posts s else wh_posts s @ [post])\<rparr>))"

definition webhook_send :: "sink_env \<Rightarrow> string \<Rightarrow> string \<Rightarrow> WebhookSink \<Rightarrow> WebhookSink" where
  "webhook_send env action body s =
     (case webhook_postOnce env action body s of ((status, retry), s1) \<Rightarrow>
        (let s2 = s1\<lparr>wh_statuses := wh_statuses s1 @ [status]\<rparr> in
         if \<not> retry then s2
         else (case webhook_postOnce env action body s2 of ((status', _), s3) \<Rightarrow> s3\<lparr>wh_statuses := wh_statuses s3 @ [status']\<rparr>)))"

definition webhook_Write :: "sink_env \<Rightarrow> Event \<Rightarrow> WebhookSink \<Rightarrow> string option \<times> WebhookSink" where
  "webhook_Write env ev s =
     (if wh_events s \<noteq> [] \<and> ev_Action ev \<notin> set (wh_events s) then (None, s)
      else (case sk_marshal env ev of
              None \<Rightarrow> (Some ''json: unsupported value'', s)
            | Some body \<Rightarrow> (None, webhook_send env (ev_Action ev) body s)))"

section \<open>Records of OpenTelemetry\<close>

datatype otel_severity = SeverityInfo | SeverityWarn | SeverityError

record otel_record =
  or_timestamp :: gotime
  or_severity :: otel_severity
  or_severityText :: string
  or_body :: string
  or_attributes :: "(string \<times> string) list"

definition severityForAction :: "string \<Rightarrow> otel_severity" where
  "severityForAction action =
     (if action = ''rule_apply_failed'' then SeverityError
      else if action \<in> set [''rule_drift_detected'', ''policy_approval_rejected''] then SeverityWarn else SeverityInfo)"

definition severityTextForAction :: "string \<Rightarrow> string" where
  "severityTextForAction action =
     (if action = ''rule_apply_failed'' then ''ERROR''
      else if action \<in> set [''rule_drift_detected'', ''policy_approval_rejected''] then ''WARN'' else ''INFO'')"

definition otel_Write :: "sink_env \<Rightarrow> Event \<Rightarrow> otel_record list \<Rightarrow> string option \<times> otel_record list" where
  "otel_Write env ev recs =
     (case sk_marshal env ev of
        None \<Rightarrow> (Some ''json: unsupported value'', recs)
      | Some body \<Rightarrow>
          (None, recs @ [\<lparr>or_timestamp = (if ev_Timestamp ev = 0 then sk_now env else ev_Timestamp ev),
             or_severity = severityForAction (ev_Action ev), or_severityText = severityTextForAction (ev_Action ev), or_body = body,
             or_attributes =
               [(''audit.action'', ev_Action ev), (''audit.source'', ev_Source ev), (''audit.container_id'', ev_ContainerID ev),
                (''audit.container_name'', ev_ContainerName ev)]
               @ (if ev_DefaultPolicy ev \<noteq> [] then [(''audit.default_policy'', ev_DefaultPolicy ev)] else [])
               @ (if 0 < ev_RuleSets ev then [(''audit.rule_sets'', strconv_Itoa (ev_RuleSets ev))] else [])
               @ map (\<lambda>(k, v). (''audit.metadata.'' @ k, v)) (ev_Metadata ev)\<rparr>]))"

section \<open>Sinks\<close>

datatype sink =
    JsonSink writer
  | CefSink cefSink
  | RemoteSink remoteSink
  | HistorySink HistoryBuffer
  | HookSink WebhookSink
  | OTelSink "otel_record list"
  | MultiSink "string list option" "sink list"

text \<open>A list of sinks writes to each of them, reports the errors to its log, if it has one, and succeeds.\<close>

fun sink_Write :: "sink_env \<Rightarrow> Event \<Rightarrow> sink \<Rightarrow> string option \<times> sink" and
  write_all :: "sink_env \<Rightarrow> Event \<Rightarrow> sink list \<Rightarrow> string list \<times> sink list" where
  "sink_Write env ev (JsonSink w) = apsnd JsonSink (json_Write env ev w)"
| "sink_Write env ev (CefSink s) = apsnd CefSink (cef_Write env ev s)"
| "sink_Write env ev (RemoteSink s) = (None, RemoteSink (remote_Write ev s))"
| "sink_Write env ev (HistorySink h) = (None, HistorySink (history_Write ev h))"
| "sink_Write env ev (HookSink s) = apsnd HookSink (webhook_Write env ev s)"
| "sink_Write env ev (OTelSink recs) = apsnd OTelSink (otel_Write env ev recs)"
| "sink_Write env ev (MultiSink log ss) =
     (case write_all env ev ss of (errs, ss1) \<Rightarrow> (None, MultiSink (map_option (\<lambda>l. l @ errs) log) ss1))"
| "write_all env ev [] = ([], [])"
| "write_all env ev (s # ss) =
     (case sink_Write env ev s of (err, s1) \<Rightarrow>
        (case write_all env ev ss of (errs, ss1) \<Rightarrow> ((case err of None \<Rightarrow> errs | Some e \<Rightarrow> e # errs), s1 # ss1)))"

fun sink_Close :: "sink \<Rightarrow> string option \<times> sink" and
  close_all :: "sink list \<Rightarrow> string list \<times> sink list" where
  "sink_Close (JsonSink w) = (wr_close_error w, JsonSink w)"
| "sink_Close (CefSink s) = (wr_close_error (cef_w s), CefSink s)"
| "sink_Close (RemoteSink s) = (None, RemoteSink (remote_Close s))"
| "sink_Close (HistorySink h) = (None, HistorySink h)"
| "sink_Close (HookSink s) = (None, HookSink s)"
| "sink_Close (OTelSink recs) = (None, OTelSink recs)"
| "sink_Close (MultiSink log ss) =
     (case close_all ss of (errs, ss1) \<Rightarrow>
        (if errs \<noteq> [] then Some (''close: '' @ strings_Join errs ''; '') else None, MultiSink log ss1))"
| "close_all [] = ([], [])"
| "close_all (s # ss) =
     (case sink_Close s of (err, s1) \<Rightarrow>
        (case close_all ss of (errs, ss1) \<Rightarrow> ((case err of None \<Rightarrow> errs | Some e \<Rightarrow> e # errs), s1 # ss1)))"

section \<open>The logger\<close>

record Logger =
  lg_warned :: "string list"
  lg_sink :: "sink option"

definition audit_emit :: "sink_env \<Rightarrow> Event \<Rightarrow> Logger \<Rightarrow> Logger" where
  "audit_emit env ev l =
     (case lg_sink l of
        None \<Rightarrow> l
      | Some s \<Rightarrow>
          (case sink_Write env ev s of (err, s1) \<Rightarrow>
             l\<lparr>lg_sink := Some s1, lg_warned := (case err of None \<Rightarrow> lg_warned l | Some e \<Rightarrow> lg_warned l @ [e])\<rparr>))"

definition event :: "gotime \<Rightarrow> string \<Rightarrow> string \<Rightarrow> Event" where
  "event now action source = zero_event\<lparr>ev_Timestamp := now, ev_Action := action, ev_Source := source\<rparr>"

definition RulesApplied :: "sink_env \<Rightarrow> string \<Rightarrow> string \<Rightarrow> ip list \<Rightarrow> nat \<Rightarrow> string \<Rightarrow> string \<Rightarrow> Logger \<Rightarrow> Logger" where
  "RulesApplied env containerID containerName ips ruleSetCount defaultPolicy source =
     audit_emit env ((event (sk_now env) ''apply'' source)\<lparr>ev_ContainerID := containerID, ev_ContainerName := containerName,
       ev_ContainerIPs := map ip_String ips, ev_RuleSets := ruleSetCount, ev_DefaultPolicy := defaultPolicy\<rparr>)"

definition RulesRemoved :: "sink_env \<Rightarrow> string \<Rightarrow> string \<Rightarrow> Logger \<Rightarrow> Logger" where
  "RulesRemoved env containerID source = audit_emit env ((event (sk_now env) ''remove'' source)\<lparr>ev_ContainerID := containerID\<rparr>)"

definition LegacyCleanup :: "sink_env \<Rightarrow> string \<Rightarrow> string \<Rightarrow> nat \<Rightarrow> string \<Rightarrow> Logger \<Rightarrow> Logger" where
  "LegacyCleanup env chain suf removed err =
     audit_emit env ((event (sk_now env) ''cleanup_legacy'' SourceStartup)\<lparr>ev_RuleSets := removed,
       ev_Metadata := [(''chain'', chain), (''suffix'', suf)] @ (if err \<noteq> [] then [(''error'', err)] else [])\<rparr>)"

definition TokenRotated :: "sink_env \<Rightarrow> string \<Rightarrow> Logger \<Rightarrow> Logger" where
  "TokenRotated env fingerprint = audit_emit env ((event (sk_now env) ''token_rotated'' SourceManual)\<lparr>ev_Metadata := [(''fingerprint'', fingerprint)]\<rparr>)"

definition DriftDetected :: "sink_env \<Rightarrow> string \<Rightarrow> (string \<times> nat) list \<Rightarrow> Logger \<Rightarrow> Logger" where
  "DriftDetected env driftType counts =
     audit_emit env ((event (sk_now env) ''drift_detected'' SourceDrift)\<lparr>
       ev_Metadata := fold (\<lambda>(k, v). AList.update k (strconv_Itoa v)) counts [(''drift_type'', driftType)]\<rparr>)"

definition PolicyUpdated :: "sink_env \<Rightarrow> string \<Rightarrow> string \<Rightarrow> string \<Rightarrow> string \<Rightarrow> Logger \<Rightarrow> Logger" where
  "PolicyUpdated env name version commentary source =
     audit_emit env ((event (sk_now env) ''policy_updated'' source)\<lparr>
       ev_Metadata := [(''policy'', name), (''version'', version), (''source'', source)] @ (if commentary \<noteq> [] then [(''comment'', commentary)] else [])\<rparr>)"

definition AutogenApproved :: "sink_env \<Rightarrow> string \<Rightarrow> string \<Rightarrow> 16 word list \<Rightarrow> string list \<Rightarrow> string \<Rightarrow> string \<Rightarrow> Logger \<Rightarrow> Logger" where
  "AutogenApproved env containerID containerName ports peers mode author =
     audit_emit env ((event (sk_now env) ''autogen_approved'' SourceAPI)\<lparr>ev_ContainerID := audit_shortID containerID, ev_ContainerName := containerName,
       ev_Metadata := [(''ports'', strings_Join (map (\<lambda>p. strconv_Itoa (unat p)) ports) '',''), (''peers'', strings_Join peers '',''),
         (''mode'', mode), (''author'', author)]\<rparr>)"

definition AutogenRejected :: "sink_env \<Rightarrow> string \<Rightarrow> string \<Rightarrow> string \<Rightarrow> string \<Rightarrow> Logger \<Rightarrow> Logger" where
  "AutogenRejected env containerID containerName reason author =
     audit_emit env ((event (sk_now env) ''autogen_rejected'' SourceAPI)\<lparr>ev_ContainerID := audit_shortID containerID, ev_ContainerName := containerName,
       ev_Metadata := [(''reason'', reason), (''author'', author)]\<rparr>)"

definition ReconcileStarted :: "sink_env \<Rightarrow> string \<Rightarrow> Logger \<Rightarrow> Logger" where
  "ReconcileStarted env source = audit_emit env (event (sk_now env) ''reconcile'' source)"

text \<open>The fan-out of the control plane; \<open>None\<close> is a nil fan-out.\<close>

record SinkFanOut =
  fo_Sinks :: "sink list"
  fo_warned :: "string list"

definition fanout_Emit :: "sink_env \<Rightarrow> string \<Rightarrow> (string \<times> string) list \<Rightarrow> SinkFanOut option \<Rightarrow> SinkFanOut option" where
  "fanout_Emit env action metadata fo =
     map_option (\<lambda>f.
       if fo_Sinks f = [] then f
       else (case write_all env ((event (sk_now env) action SourceControlPlane)\<lparr>ev_Metadata := metadata\<rparr>) (fo_Sinks f) of
               (errs, ss) \<Rightarrow> f\<lparr>fo_Sinks := ss, fo_warned := fo_warned f @ errs\<rparr>)) fo"

section \<open>The choice of the sinks\<close>

text \<open>\<open>bu_stdout\<close> is the standard output, \<open>bu_rotating\<close> a rotating file of lumberjack, \<open>bu_open\<close> the opening of a plain file,
  \<open>bu_replies\<close> what the endpoint of the webhook is going to answer.\<close>

record build_env =
  bu_stdout :: writer
  bu_rotating :: "string \<Rightarrow> writer"
  bu_open :: "string \<Rightarrow> writer option"
  bu_replies :: "http_reply list"
  bu_otel :: bool

record sink_config =
  sc_AuditSinkType :: string
  sc_AuditSinkPath :: string
  sc_AuditSinkEndpoint :: string
  sc_MaxSizeMB :: int
  sc_WebhookURL :: string
  sc_WebhookEvents :: "string list"
  sc_WebhookSecret :: string

definition openFileSink :: "build_env \<Rightarrow> string \<Rightarrow> int \<Rightarrow> string + writer" where
  "openFileSink b path maxSizeMB =
     (if path = [] \<or> path = ''-'' then Inr (bu_stdout b)
      else if 0 < maxSizeMB then Inr (bu_rotating b path)
      else (case bu_open b path of None \<Rightarrow> Inl (''open audit file '' @ path) | Some w \<Rightarrow> Inr w))"

definition NewJSONFileSink :: "build_env \<Rightarrow> string \<Rightarrow> int \<Rightarrow> string + sink" where
  "NewJSONFileSink b path rot = map_sum id JsonSink (openFileSink b path rot)"

definition NewCEFFileSink :: "build_env \<Rightarrow> string \<Rightarrow> string \<Rightarrow> int \<Rightarrow> string + sink" where
  "NewCEFFileSink b path version rot =
     map_sum id (\<lambda>w. CefSink \<lparr>cef_w = w, cef_vendor = ''xsergos'', cef_product = ''Firefik'', cef_version = (if version = [] then ''dev'' else version)\<rparr>)
       (openFileSink b path rot)"

definition buildSingleSink :: "build_env \<Rightarrow> string \<Rightarrow> string \<Rightarrow> string \<Rightarrow> int \<Rightarrow> string \<Rightarrow> HistoryBuffer option \<Rightarrow> string + sink option" where
  "buildSingleSink b kind path version rot endpoint history =
     (if kind \<in> set [[], ''none''] then Inr None
      else if kind \<in> set [''json-file'', ''json''] then map_sum id Some (NewJSONFileSink b path rot)
      else if kind \<in> set [''cef-file'', ''cef''] then map_sum id Some (NewCEFFileSink b path version rot)
      else if kind \<in> set [''remote'', ''grpc'', ''http-ndjson'']
      then (if endpoint = [] then Inl (''audit sink '' @ kind @ '' requires FIREFIK_AUDIT_SINK_ENDPOINT'')
            else map_sum id (\<lambda>s. Some (RemoteSink s)) (NewRemoteSink endpoint 0))
      else if kind = ''history''
      then (case history of None \<Rightarrow> Inl ''history sink requires an in-memory ring buffer'' | Some h \<Rightarrow> Inr (Some (HistorySink h)))
      else Inl (''unknown audit sink type '' @ kind))"

definition splitAndTrim :: "string \<Rightarrow> string list" where
  "splitAndTrim raw = (if raw = [] then [] else map strings_TrimSpace (strings_Split raw CHR '',''))"

fun build_each :: "(string \<Rightarrow> string \<Rightarrow> string + sink option) \<Rightarrow> (string \<times> string) list \<Rightarrow> string + sink list" where
  "build_each mk [] = Inr []"
| "build_each mk ((t, p) # rest) =
     (case mk t p of
        Inl e \<Rightarrow> Inl (''audit sink '' @ t @ '': '' @ e)
      | Inr s \<Rightarrow> map_sum id (\<lambda>ss. (case s of None \<Rightarrow> ss | Some x \<Rightarrow> x # ss)) (build_each mk rest))"

definition buildConfiguredSinks :: "build_env \<Rightarrow> sink_config \<Rightarrow> string \<Rightarrow> HistoryBuffer option \<Rightarrow> string + sink list" where
  "buildConfiguredSinks b cfg version history =
     (let types = splitAndTrim (sc_AuditSinkType cfg); paths = splitAndTrim (sc_AuditSinkPath cfg);
          mk = (\<lambda>t p. buildSingleSink b t p version (sc_MaxSizeMB cfg) (sc_AuditSinkEndpoint cfg) history) in
      if sc_AuditSinkType cfg = [] \<or> sc_AuditSinkType cfg = ''none'' then Inr []
      else if length types = 1 then map_sum id (\<lambda>s. (case s of None \<Rightarrow> [] | Some x \<Rightarrow> [x])) (mk (hd types) (sc_AuditSinkPath cfg))
      else if paths = [] then Inl ''FIREFIK_AUDIT_SINK lists several sinks but FIREFIK_AUDIT_SINK_PATH is empty''
      else if length types \<noteq> length paths then Inl ''FIREFIK_AUDIT_SINK and FIREFIK_AUDIT_SINK_PATH must have matching length''
      else build_each mk (zip types paths))"

definition buildWebhookSink :: "build_env \<Rightarrow> sink_config \<Rightarrow> sink option" where
  "buildWebhookSink b cfg =
     (if sc_WebhookURL cfg = [] then None
      else (case NewWebhookSink (bu_replies b) (sc_WebhookURL cfg) (sc_WebhookEvents cfg) (sc_WebhookSecret cfg) of
              Inl _ \<Rightarrow> None | Inr s \<Rightarrow> Some (HookSink s)))"

definition buildAuditSink :: "build_env \<Rightarrow> sink_config \<Rightarrow> string \<Rightarrow> HistoryBuffer option \<Rightarrow> string + sink option" where
  "buildAuditSink b cfg version history =
     map_sum id
       (\<lambda>sinks0.
          (let sinks = sinks0 @ (case buildWebhookSink b cfg of None \<Rightarrow> [] | Some s \<Rightarrow> [s]) @ (if bu_otel b then [OTelSink []] else []) in
           case sinks of [] \<Rightarrow> None | [s] \<Rightarrow> Some s | _ \<Rightarrow> Some (MultiSink (Some []) sinks)))
       (buildConfiguredSinks b cfg version history)"

text \<open>The events the webhook gets where the configuration names none.\<close>

definition default_webhook_events :: "string list" where
  "default_webhook_events = [''rule_applied'', ''rule_apply_failed'', ''policy_changed'', ''proposal_approved'', ''cert_expiring'']"

definition parseEventList :: "string \<Rightarrow> string list" where
  "parseEventList v =
     (if v = [] then [''policy_approval_requested'', ''policy_approval_approved'', ''policy_approval_rejected'']
      else filter (\<lambda>t. t \<noteq> []) (map strings_TrimSpace (strings_Split v CHR '','')))"

section \<open>What the engine and the agent report\<close>

datatype audit_call = EngineCall audit_event | AgentCall agent_audit | CleanupCall string string nat string

fun log_call :: "sink_env \<Rightarrow> audit_call \<Rightarrow> Logger \<Rightarrow> Logger" where
  "log_call env (EngineCall (AuditReconcileStarted source)) = ReconcileStarted env source"
| "log_call env (EngineCall (AuditRulesApplied cid name ips n policy source)) = RulesApplied env cid name ips n policy source"
| "log_call env (EngineCall (AuditRulesRemoved cid source)) = RulesRemoved env cid source"
| "log_call env (EngineCall (AuditDriftDetected t orphans missing)) = DriftDetected env t [(''orphan'', orphans), (''missing'', missing)]"
| "log_call env (AgentCall (AuditAutogenApproved cid name ports peers mode author)) = AutogenApproved env cid name ports peers mode author"
| "log_call env (AgentCall (AuditAutogenRejected cid name reason author)) = AutogenRejected env cid name reason author"
| "log_call env (AgentCall (AuditPolicyUpdated name version commentary source)) = PolicyUpdated env name version commentary source"
| "log_call env (AgentCall (AuditTokenRotated fingerprint)) = TokenRotated env fingerprint"
| "log_call env (CleanupCall chain suf removed err) = LegacyCleanup env chain suf removed err"

end
