(* ===== verification/Audit_Trail.thy ===== *)
theory Audit_Trail
  imports Audit_Log "HOL-Library.Sublist"
begin

text \<open>
  Properties of the audit log: the history the agent serves, the files a collector reads back, the accounting of the remote sink, and
  what the webhook posts.
\<close>

section \<open>Every sink gets every event\<close>

lemma log_call_emit: "\<exists>ev. \<forall>l. log_call env c l = audit_emit env ev l"
  by (cases c; (rename_tac e, case_tac e)?)
    (auto simp: ReconcileStarted_def RulesApplied_def RulesRemoved_def DriftDetected_def AutogenApproved_def AutogenRejected_def
      PolicyUpdated_def TokenRotated_def LegacyCleanup_def)

text \<open>The event a call reports: what it leaves in a buffer of one event.\<close>

definition call_event :: "sink_env \<Rightarrow> audit_call \<Rightarrow> Event" where
  "call_event env c =
     (case lg_sink (log_call env c \<lparr>lg_warned = [], lg_sink = Some (HistorySink (NewHistoryBuffer 1))\<rparr>) of
        Some (HistorySink h) \<Rightarrow> hd (history_Snapshot h)
      | _ \<Rightarrow> zero_event)"

lemma log_call_event: "log_call env c l = audit_emit env (call_event env c) l"
proof -
  obtain ev where e: "\<And>l. log_call env c l = audit_emit env ev l" using log_call_emit by blast
  have "call_event env c = ev"
    by (simp add: call_event_def e audit_emit_def NewHistoryBuffer_def history_Write_def history_Snapshot_def)
  then show ?thesis by (simp add: e)
qed

lemma write_all_nth:
  "write_all env ev ss = (errs, ss1) \<Longrightarrow> length ss1 = length ss \<and> (\<forall>i < length ss. ss1 ! i = snd (sink_Write env ev (ss ! i)))"
  by (induction ss arbitrary: errs ss1) (auto simp: nth_Cons split: prod.splits nat.splits)

definition run_calls :: "(sink_env \<times> audit_call) list \<Rightarrow> Logger \<Rightarrow> Logger" where
  "run_calls calls l = fold (\<lambda>(env, c). log_call env c) calls l"

definition reported :: "(sink_env \<times> audit_call) list \<Rightarrow> Event list" where
  "reported calls = map (\<lambda>(env, c). call_event env c) calls"

lemma run_calls_simps [simp]: "run_calls [] l = l" "run_calls ((env, c) # calls) l = run_calls calls (log_call env c l)"
  by (simp_all add: run_calls_def)

lemma reported_simps [simp]: "reported [] = []" "reported ((env, c) # calls) = call_event env c # reported calls"
  by (simp_all add: reported_def)

text \<open>A sink of a list sees the same events as it would alone, whatever the others do.\<close>

fun sink_run :: "(sink_env \<times> audit_call) list \<Rightarrow> sink \<Rightarrow> sink" where
  "sink_run [] s = s"
| "sink_run ((env, c) # calls) s = sink_run calls (snd (sink_Write env (call_event env c) s))"

lemma run_calls_multi:
  assumes "lg_sink l = Some (MultiSink log ss)" "i < length ss"
  shows "\<exists>log' ss'. lg_sink (run_calls calls l) = Some (MultiSink log' ss') \<and> i < length ss' \<and> ss' ! i = sink_run calls (ss ! i)"
  using assms
proof (induction calls arbitrary: l log ss)
  case (Cons op calls)
  obtain env c where op: "op = (env, c)" by (cases op)
  obtain errs ss1 where w: "write_all env (call_event env c) ss = (errs, ss1)" by fastforce
  have "lg_sink (log_call env c l) = Some (MultiSink (map_option (\<lambda>l. l @ errs) log) ss1)"
    by (simp add: log_call_event audit_emit_def Cons.prems(1) w)
  from Cons.IH [OF this] write_all_nth [OF w] Cons.prems(2) show ?case by (simp add: op)
qed auto

lemma run_calls_single:
  "lg_sink l = Some s \<Longrightarrow> lg_sink (run_calls calls l) = Some (sink_run calls s)"
  by (induction calls arbitrary: l s) (auto simp: log_call_event audit_emit_def split: prod.splits)

section \<open>The history\<close>

definition history_ok :: "nat \<Rightarrow> HistoryBuffer \<Rightarrow> Event list \<Rightarrow> bool" where
  "history_ok n h evs \<longleftrightarrow> 0 < n \<and> hb_cap h = n \<and> length (hb_ring h) = n \<and> hb_head h < n
     \<and> (hb_filled h \<longleftrightarrow> n \<le> length evs) \<and> (\<not> hb_filled h \<longrightarrow> hb_head h = length evs) \<and> history_Snapshot h = newest n evs"

lemma history_new: "history_ok (if sz \<le> 0 then 500 else nat sz) (NewHistoryBuffer sz) []"
  by (simp add: history_ok_def NewHistoryBuffer_def history_Snapshot_def newest_def Let_def)

lemma newest_snoc: "0 < n \<Longrightarrow> newest n (evs @ [ev]) = (if n \<le> length evs then tl (newest n evs) else newest n evs) @ [ev]"
  by (auto simp: newest_def Suc_diff_le drop_Suc tl_drop)

lemma take_update_snoc: "i < length xs \<Longrightarrow> take (Suc i) (xs[i := x]) = take i xs @ [x]"
  by (simp add: take_Suc_conv_app_nth)

lemma history_step:
  assumes "history_ok n h evs"
  shows "history_ok n (history_Write ev h) (evs @ [ev])"
proof -
  let ?h = "hb_head h" and ?r = "hb_ring h"
  have a: "0 < n" "hb_cap h = n" "length ?r = n" "?h < n" "hb_filled h \<longleftrightarrow> n \<le> length evs" "\<not> hb_filled h \<Longrightarrow> ?h = length evs"
    "history_Snapshot h = newest n evs" using assms by (auto simp: history_ok_def)
  have t: "take (Suc ?h) (?r[?h := ev]) = take ?h ?r @ [ev]" by (rule take_update_snoc) (simp add: a)
  have s: "history_Snapshot (history_Write ev h) = (if hb_filled h then tl (history_Snapshot h) else history_Snapshot h) @ [ev]"
  proof (cases "Suc ?h = n")
    case True
    then have "?r[?h := ev] = take ?h ?r @ [ev]" using t a(3) by simp
    moreover have "drop ?h ?r = [?r ! ?h]" using True a(3) by (metis Cons_nth_drop_Suc a(4) drop_all order_refl)
    ultimately show ?thesis using True a by (simp add: history_Snapshot_def history_Write_def)
  next
    case False
    then have m: "Suc ?h mod n = Suc ?h" using a(4) by simp
    have "drop ?h ?r = ?r ! ?h # drop (Suc ?h) ?r" using a(3,4) by (simp add: Cons_nth_drop_Suc)
    then show ?thesis using a(2,3,4) m t by (simp add: history_Snapshot_def history_Write_def Let_def)
  qed
  have "hb_filled (history_Write ev h) \<longleftrightarrow> n \<le> length (evs @ [ev])" "hb_head (history_Write ev h) < n"
    "\<not> hb_filled (history_Write ev h) \<Longrightarrow> hb_head (history_Write ev h) = length (evs @ [ev])"
    using a by (cases "Suc ?h = n"; auto simp: history_Write_def Let_def)+
  then show ?thesis using a s newest_snoc [OF a(1), of evs ev] by (simp add: history_ok_def history_Write_def Let_def)
qed

lemma history_run: "history_ok n h evs \<Longrightarrow> \<exists>h'. sink_run calls (HistorySink h) = HistorySink h' \<and> history_ok n h' (evs @ reported calls)"
proof (induction calls arbitrary: h evs)
  case (Cons op calls)
  obtain env c where op: "op = (env, c)" by (cases op)
  from Cons.IH [OF history_step [OF Cons.prems, of "call_event env c"]] show ?case by (simp add: op)
qed simp

text \<open>
  C21. The history the agent serves. With a history buffer anywhere among the sinks, and whatever the other sinks do or fail to do, a query of
  the history after any sequence of reports of the engine, the commands and the API answers with the newest 500 events in order, restricted to those after the time asked for and
  to the number asked for.
\<close>

theorem audit_history_served:
  assumes "lg_sink l = Some (MultiSink log ss)" "i < length ss" "ss ! i = HistorySink (NewHistoryBuffer 500)"
    and "since \<noteq> [] \<Longrightarrow> parse since = Some t" "strconv_Atoi limit = Some (int n)" "0 < n"
  shows "\<exists>log' ss' h. lg_sink (run_calls calls l) = Some (MultiSink log' ss') \<and> ss' ! i = HistorySink h
    \<and> handleGetAuditHistory parse (Some h) since limit
        = Inr (newest n (filter (\<lambda>ev. since \<noteq> [] \<longrightarrow> t < ev_Timestamp ev) (newest 500 (reported calls))))"
proof -
  obtain log' ss' where m: "lg_sink (run_calls calls l) = Some (MultiSink log' ss')" "ss' ! i = sink_run calls (ss ! i)"
    using run_calls_multi [OF assms(1,2)] by blast
  have "history_ok 500 (NewHistoryBuffer 500) []" using history_new [of 500] by simp
  from history_run [OF this] obtain h where h: "sink_run calls (HistorySink (NewHistoryBuffer 500)) = HistorySink h" "history_ok 500 h (reported calls)"
    by auto
  have "history_Snapshot h = newest 500 (reported calls)" using h(2) by (simp add: history_ok_def)
  then have "handleGetAuditHistory parse (Some h) since limit
      = Inr (newest n (filter (\<lambda>ev. since \<noteq> [] \<longrightarrow> t < ev_Timestamp ev) (newest 500 (reported calls))))"
    using assms(4-6) by (cases "since = []") (auto simp: handleGetAuditHistory_def newest_def Let_def split: option.splits)
  then show ?thesis using m h(1) assms(3) by auto
qed

definition demo_sink_env :: "gotime \<Rightarrow> sink_env" where
  "demo_sink_env now = \<lparr>sk_now = now, sk_marshal = (\<lambda>_. Some ''{}''), sk_RFC3339 = (\<lambda>_. ''1970-01-01T00:00:00Z''), sk_unix_text = (\<lambda>_. ''0''),
     sk_hmac = (\<lambda>_ _. ''00'')\<rparr>"

definition broken_writer :: writer where
  "broken_writer = \<lparr>wr_out = [], wr_faults = [Some (2, ''disk full''), Some (0, ''disk full'')], wr_close_error = None\<rparr>"

theorem audit_history_served_witness:
  "\<exists>h. handleGetAuditHistory (\<lambda>_. None) (Some h) [] ''1''
     = Inr [call_event (demo_sink_env 2) (EngineCall (AuditRulesRemoved ''c1'' ''event''))]"
proof -
  let ?calls = "[(demo_sink_env 1, EngineCall (AuditReconcileStarted ''startup'')), (demo_sink_env 2, EngineCall (AuditRulesRemoved ''c1'' ''event''))]"
  have n: "strconv_Atoi ''1'' = Some (int 1)" by (simp add: go_simps strconv_Atoi_def strconv_ParseInt64_def)
  from audit_history_served [where l = "\<lparr>lg_warned = [], lg_sink = Some (MultiSink None [JsonSink broken_writer, HistorySink (NewHistoryBuffer 500)])\<rparr>"
      and i = 1 and calls = ?calls and since = "[]" and parse = "\<lambda>_. None" and limit = "''1''" and n = 1]
  show ?thesis using n by (auto simp: newest_def)
qed

section \<open>What a collector reads from a CEF file\<close>

text \<open>The reader: fields separated by unescaped bars, then keys and values around unescaped equal signs, a key starting after the
  last space before it.\<close>

definition on_hd :: "string \<Rightarrow> string list \<Rightarrow> string list" where
  "on_hd p r = (p @ hd r) # tl r"

fun esc_split :: "char \<Rightarrow> string \<Rightarrow> string list" where
  "esc_split c [] = [[]]"
| "esc_split c [x] = (if x = c then [[], []] else [[x]])"
| "esc_split c (x # y # ys) =
     (if x = backslash then on_hd [x, y] (esc_split c ys) else if x = c then [] # esc_split c (y # ys) else on_hd [x] (esc_split c (y # ys)))"

fun unescape :: "string \<Rightarrow> string" where
  "unescape [] = []"
| "unescape [x] = [x]"
| "unescape (x # y # ys) =
     (if x = backslash then (if y = CHR ''n'' then newline else y) # unescape ys else x # unescape (y # ys))"

definition after_space :: "string \<Rightarrow> string" where
  "after_space s = rev (takeWhile (\<lambda>x. x \<noteq> CHR '' '') (rev s))"

definition before_space :: "string \<Rightarrow> string" where
  "before_space s = rev (tl (dropWhile (\<lambda>x. x \<noteq> CHR '' '') (rev s)))"

fun pair_up :: "string \<Rightarrow> string list \<Rightarrow> (string \<times> string) list" where
  "pair_up k [] = []"
| "pair_up k [v] = [(k, unescape v)]"
| "pair_up k (s # t # ss) = (k, unescape (before_space s)) # pair_up (after_space s) (t # ss)"

definition read_ext :: "string \<Rightarrow> (string \<times> string) list" where
  "read_ext s = pair_up (hd (esc_split CHR ''='' s)) (tl (esc_split CHR ''='' s))"

definition read_cef :: "string \<Rightarrow> string list \<times> (string \<times> string) list" where
  "read_cef s = (let ps = esc_split CHR ''|'' s in (map unescape (take 7 ps), read_ext (strings_Join (drop 7 ps) ''|'')))"

definition read_cef_file :: "string \<Rightarrow> (string list \<times> (string \<times> string) list) list" where
  "read_cef_file s = map read_cef (butlast (strings_Split s newline))"

definition head_char :: "char \<Rightarrow> string" where
  "head_char x = (if x \<in> set [backslash, CHR ''|''] then [backslash, x] else [x])"

definition ext_char :: "char \<Rightarrow> string" where
  "ext_char x = (if x = newline then [backslash, CHR ''n''] else if x \<in> set [backslash, CHR ''=''] then [backslash, x] else [x])"

lemma header_chars: "cefEscapeHeader s = concat (map head_char s)"
  by (induction s) (auto simp: cefEscapeHeader_def replace_char_def head_char_def)

lemma extension_chars: "cefEscapeExtension s = concat (map ext_char s)"
  by (induction s) (auto simp: cefEscapeExtension_def replace_char_def ext_char_def)

lemma esc_split_neq_Nil [simp]: "esc_split c s \<noteq> []"
  by (induction c s rule: esc_split.induct) (auto simp: on_hd_def)

lemma on_hd_join: "r \<noteq> [] \<Longrightarrow> strings_Join (on_hd p r) sep = p @ strings_Join r sep"
  by (cases r; cases "tl r") (auto simp: on_hd_def)

lemma esc_join: "strings_Join (esc_split c s) [c] = s"
proof (induction c s rule: esc_split.induct)
  case (3 c x y ys)
  have "strings_Join ([] # esc_split c (y # ys)) [c] = c # strings_Join (esc_split c (y # ys)) [c]"
    by (cases "esc_split c (y # ys)") auto
  then show ?case using 3 by (auto simp: on_hd_join)
qed auto

lemma esc_split_plain: "x \<noteq> backslash \<Longrightarrow> x \<noteq> c \<Longrightarrow> esc_split c (x # r) = on_hd [x] (esc_split c r)"
  by (cases r) (auto simp: on_hd_def)

lemma esc_split_sep: "c \<noteq> backslash \<Longrightarrow> esc_split c (c # r) = [] # esc_split c r"
  by (cases r) auto

lemma unescape_plain: "x \<noteq> backslash \<Longrightarrow> unescape (x # r) = x # unescape r"
  by (cases r) auto

text \<open>An encoding that escapes the separator: each character is kept, or comes as a pair with a backslash.\<close>

definition escapes :: "char \<Rightarrow> (char \<Rightarrow> string) \<Rightarrow> bool" where
  "escapes c enc \<longleftrightarrow> c \<noteq> backslash \<and> (\<forall>x. (\<exists>y. enc x = [backslash, y]) \<or> enc x = [x] \<and> x \<noteq> backslash \<and> x \<noteq> c)"

lemma escapes_head: "escapes CHR ''|'' head_char" and escapes_ext: "escapes CHR ''='' ext_char"
  by (auto simp: escapes_def head_char_def ext_char_def)

lemma esc_split_enc:
  assumes "escapes c enc"
  shows "esc_split c (concat (map enc s) @ r) = on_hd (concat (map enc s)) (esc_split c r)"
proof (induction s)
  case (Cons x s)
  from assms consider y where "enc x = [backslash, y]" | "enc x = [x]" "x \<noteq> backslash" "x \<noteq> c" by (auto simp: escapes_def)
  then show ?case using Cons by cases (simp_all add: esc_split_plain on_hd_def)
qed (simp add: on_hd_def)

lemma esc_split_field: "escapes c enc \<Longrightarrow> esc_split c (concat (map enc s) @ c # r) = concat (map enc s) # esc_split c r"
  by (subst esc_split_enc, assumption) (simp add: on_hd_def esc_split_sep escapes_def)

lemma esc_split_last: "escapes c enc \<Longrightarrow> esc_split c (concat (map enc s)) = [concat (map enc s)]"
  using esc_split_enc [of c enc s "[]"] by (simp add: on_hd_def)

lemma unescape_head: "unescape (concat (map head_char s)) = s"
  by (induction s) (auto simp: head_char_def unescape_plain)

lemma unescape_ext: "unescape (concat (map ext_char s)) = s"
  by (induction s) (auto simp: ext_char_def unescape_plain)

lemma last_space: "CHR '' '' \<notin> set k \<Longrightarrow> after_space (v @ CHR '' '' # k) = k" "CHR '' '' \<notin> set k \<Longrightarrow> before_space (v @ CHR '' '' # k) = v"
proof -
  assume k: "CHR '' '' \<notin> set k"
  have "takeWhile (\<lambda>x. x \<noteq> CHR '' '') (rev k @ CHR '' '' # rev v) = rev k"
    using k by (subst takeWhile_append2) auto
  moreover have "dropWhile (\<lambda>x. x \<noteq> CHR '' '') (rev k @ CHR '' '' # rev v) = CHR '' '' # rev v"
    using k by (subst dropWhile_append2) auto
  ultimately show "after_space (v @ CHR '' '' # k) = k" "before_space (v @ CHR '' '' # k) = v" by (simp_all add: after_space_def before_space_def)
qed

definition plain_key :: "string \<Rightarrow> bool" where
  "plain_key k \<longleftrightarrow> list_all (\<lambda>x. x \<notin> set [backslash, CHR ''='', newline, CHR '' '']) k"

lemma plain_key_ext: "plain_key k \<Longrightarrow> concat (map ext_char k) = k"
  by (induction k) (auto simp: plain_key_def ext_char_def)

definition ext_text :: "(string \<times> string) list \<Rightarrow> string" where
  "ext_text kvs = strings_Join (map (\<lambda>(k, v). k @ ''='' @ cefEscapeExtension v) kvs) '' ''"

lemma read_ext_text:
  assumes "list_all (\<lambda>(k, v). plain_key k) kvs" "kvs \<noteq> []"
  shows "read_ext (ext_text kvs) = kvs"
proof -
  have "esc_split CHR ''='' (ext_text ((k, v) # kvs)) = k # esc_split CHR ''='' (concat (map ext_char v) @ (if kvs = [] then [] else '' '' @ ext_text kvs))"
    if "plain_key k" for k v kvs
  proof -
    have "ext_text ((k, v) # kvs) = concat (map ext_char k) @ CHR ''='' # concat (map ext_char v) @ (if kvs = [] then [] else '' '' @ ext_text kvs)"
      using that by (cases kvs) (auto simp: ext_text_def plain_key_ext extension_chars)
    then show ?thesis using esc_split_field [OF escapes_ext] plain_key_ext [OF that] by metis
  qed
  note first = this
  have pairs: "pair_up k (esc_split CHR ''='' (concat (map ext_char v) @ (if kvs = [] then [] else '' '' @ ext_text kvs))) = (k, v) # kvs"
    if "list_all (\<lambda>(k, v). plain_key k) kvs" for k v kvs using that
  proof (induction kvs arbitrary: k v)
    case Nil
    then show ?case using esc_split_last [OF escapes_ext] by (simp add: unescape_ext)
  next
    case (Cons kv kvs)
    obtain k' v' where kv: "kv = (k', v')" by (cases kv)
    have p: "plain_key k'" "CHR '' '' \<notin> set k'" using Cons.prems by (auto simp: kv plain_key_def list_all_iff)
    let ?rest = "esc_split CHR ''='' (concat (map ext_char v') @ (if kvs = [] then [] else '' '' @ ext_text kvs))"
    have "esc_split CHR ''='' (concat (map ext_char v) @ '' '' @ ext_text (kv # kvs)) = (concat (map ext_char v) @ '' '' @ k') # ?rest"
      using esc_split_enc [OF escapes_ext, of v "'' '' @ ext_text (kv # kvs)"] first [OF p(1), of v' kvs]
      by (simp add: kv on_hd_def esc_split_plain)
    moreover obtain t ts where "?rest = t # ts" by (cases ?rest) auto
    ultimately show ?case using Cons.IH [of k' v'] Cons.prems last_space [OF p(2), of "concat (map ext_char v)"]
      by (simp add: kv unescape_ext)
  qed
  obtain k v rest where kvs: "kvs = (k, v) # rest" using assms(2) by (cases kvs) auto
  then show ?thesis using first [of k v rest] pairs [of rest k v] assms(1) by (simp add: read_ext_def)
qed

definition shown_fields :: "sink_env \<Rightarrow> Event \<Rightarrow> (string \<times> string) list" where
  "shown_fields env ev = filter (\<lambda>(k, v). v \<noteq> []) (cef_fields env ev)"

lemma appendKV_text: "strings_Join (appendKV kvs) '' '' = ext_text (filter (\<lambda>(k, v). v \<noteq> []) kvs)"
proof -
  have "appendKV kvs = map (\<lambda>(k, v). k @ ''='' @ cefEscapeExtension v) (filter (\<lambda>(k, v). v \<noteq> []) kvs)"
    by (induction kvs) (auto simp: appendKV_def cef_kv_def)
  then show ?thesis by (simp add: ext_text_def)
qed

lemma shown_keys: "list_all (\<lambda>(k, v). plain_key k) (shown_fields env ev)" "shown_fields env ev \<noteq> []"
proof -
  have "list_all (\<lambda>(k, v). plain_key k) (cef_fields env ev)" by (simp add: cef_fields_def plain_key_def)
  then show "list_all (\<lambda>(k, v). plain_key k) (shown_fields env ev)" by (auto simp: shown_fields_def list_all_iff)
  have "(''cs1Label'', ''Source'') \<in> set (shown_fields env ev)" by (simp add: shown_fields_def cef_fields_def)
  then show "shown_fields env ev \<noteq> []" by auto
qed

definition cef_header :: "cefSink \<Rightarrow> string \<Rightarrow> string list" where
  "cef_header s action = [''CEF:0'', cef_vendor s, cef_product s, cef_version s, action, action, strconv_Itoa (cef_severity action)]"

lemma cef_line_fields:
  "cef_line env s ev = concat (map (\<lambda>f. cefEscapeHeader f @ ''|'') (cef_header s (ev_Action ev))) @ ext_text (shown_fields env ev) @ [newline]"
proof -
  have "cefEscapeHeader ''CEF:0'' = ''CEF:0''" by (simp add: header_chars head_char_def)
  moreover have "cefEscapeHeader (strconv_Itoa (cef_severity a)) = strconv_Itoa (cef_severity a)" for a
    by (simp add: header_chars head_char_def cef_severity_def strconv_Itoa.simps digit_char_def char_of_def bit_Suc_0_iff)
  ultimately show ?thesis by (simp add: cef_line_def cef_header_def appendKV_text shown_fields_def)
qed

lemma esc_split_header:
  "esc_split CHR ''|'' (concat (map (\<lambda>f. cefEscapeHeader f @ ''|'') fs) @ r) = map cefEscapeHeader fs @ esc_split CHR ''|'' r"
  by (induction fs) (simp_all add: header_chars esc_split_field [OF escapes_head])

lemma read_cef_line:
  "read_cef (concat (map (\<lambda>f. cefEscapeHeader f @ ''|'') (cef_header s a)) @ ext_text (shown_fields env ev)) = (cef_header s a, shown_fields env ev)"
proof -
  let ?e = "esc_split CHR ''|'' (ext_text (shown_fields env ev))"
  have "take 7 (map cefEscapeHeader (cef_header s a) @ ?e) = map cefEscapeHeader (cef_header s a)"
    "drop 7 (map cefEscapeHeader (cef_header s a) @ ?e) = ?e"
    by (simp_all add: cef_header_def)
  moreover have "map unescape (map cefEscapeHeader fs) = fs" for fs by (induction fs) (simp_all add: header_chars unescape_head)
  ultimately show ?thesis
    unfolding read_cef_def esc_split_header Let_def by (simp only: esc_join read_ext_text [OF shown_keys])
qed

lemma ext_no_newline: "newline \<notin> set (cefEscapeExtension v)"
  by (induction v) (auto simp: extension_chars ext_char_def)

lemma ext_text_no_newline: "list_all (\<lambda>(k, v). plain_key k) kvs \<Longrightarrow> newline \<notin> set (ext_text kvs)"
proof -
  have j: "newline \<notin> set (strings_Join xs '' '')" if "list_all (\<lambda>x. newline \<notin> set x) xs" for xs
    using that by (induction xs "'' ''" rule: strings_Join.induct) auto
  assume "list_all (\<lambda>(k, v). plain_key k) kvs"
  then show ?thesis unfolding ext_text_def by (intro j) (auto simp: list_all_iff plain_key_def ext_no_newline)
qed

definition audit_actions :: "string list" where
  "audit_actions = [''apply'', ''remove'', ''reconcile'', ''drift_detected'', ''cleanup_legacy'', ''token_rotated'', ''policy_updated'',
     ''autogen_approved'', ''autogen_rejected'']"

lemma call_action: "ev_Action (call_event env c) \<in> set audit_actions"
  by (cases c; (rename_tac e, case_tac e)?)
    (auto simp: call_event_def audit_actions_def ReconcileStarted_def RulesApplied_def RulesRemoved_def DriftDetected_def AutogenApproved_def
      AutogenRejected_def PolicyUpdated_def TokenRotated_def LegacyCleanup_def audit_emit_def NewHistoryBuffer_def history_Write_def
      history_Snapshot_def event_def)

lemma action_no_newline: "a \<in> set audit_actions \<Longrightarrow> newline \<notin> set a"
  by (auto simp: audit_actions_def)

lemma cef_line_one:
  assumes "newline \<notin> set (cef_vendor s @ cef_product s @ cef_version s @ ev_Action ev)"
  shows "\<exists>text'. cef_line env s ev = text' @ [newline] \<and> newline \<notin> set text' \<and> read_cef text' = (cef_header s (ev_Action ev), shown_fields env ev)"
proof -
  have "newline \<notin> set (cefEscapeHeader f)" if "f \<in> set (cef_header s (ev_Action ev))" for f
  proof -
    have "newline \<notin> set f" using that assms
      by (auto simp: cef_header_def cef_severity_def strconv_Itoa.simps digit_char_def char_of_def bit_Suc_0_iff split: if_splits)
    then show ?thesis by (auto simp: header_chars head_char_def)
  qed
  then have "newline \<notin> set (concat (map (\<lambda>f. cefEscapeHeader f @ ''|'') (cef_header s (ev_Action ev))) @ ext_text (shown_fields env ev))"
    using ext_text_no_newline [OF shown_keys(1)] by auto
  then show ?thesis using read_cef_line cef_line_fields by (metis append_assoc)
qed

lemma split_lines: "newline \<notin> set t \<Longrightarrow> read_cef_file (t @ newline # r) = read_cef t # read_cef_file r"
  by (simp add: read_cef_file_def strings_Split_append)

lemma read_cef_file_snoc:
  "newline \<notin> set t \<Longrightarrow> out = [] \<or> last out = newline \<Longrightarrow> read_cef_file (out @ t @ [newline]) = read_cef_file out @ [read_cef t]"
proof (induction "length out" arbitrary: out rule: less_induct)
  case less
  show ?case
  proof (cases "out = []")
    case True
    then show ?thesis using less.prems(1) split_lines [of t "[]"] by (simp add: read_cef_file_def)
  next
    case False
    then have "newline \<in> set out" using less.prems(2) last_in_set by fastforce
    then obtain a b where o: "out = a @ newline # b" and a: "newline \<notin> set a" by (auto dest: split_list_first)
    have "b = [] \<or> last b = newline" using less.prems(2) False by (auto simp: o split: if_splits)
    from less.hyps [OF _ less.prems(1) this] show ?thesis by (simp add: o split_lines [OF a])
  qed
qed

definition cef_entry :: "cefSink \<Rightarrow> sink_env \<times> audit_call \<Rightarrow> string list \<times> (string \<times> string) list" where
  "cef_entry s op = (case op of (env, c) \<Rightarrow> (cef_header s (ev_Action (call_event env c)), shown_fields env (call_event env c)))"

lemma cef_run:
  assumes "newline \<notin> set (cef_vendor s @ cef_product s @ cef_version s)" "wr_faults (cef_w s) = []"
    and "wr_out (cef_w s) = [] \<or> last (wr_out (cef_w s)) = newline"
  shows "\<exists>s'. sink_run calls (CefSink s) = CefSink s' \<and> read_cef_file (wr_out (cef_w s')) = read_cef_file (wr_out (cef_w s)) @ map (cef_entry s) calls"
  using assms
proof (induction calls arbitrary: s)
  case (Cons op calls)
  obtain env c where op: "op = (env, c)" by (cases op)
  let ?ev = "call_event env c"
  obtain t where t: "cef_line env s ?ev = t @ [newline]" "newline \<notin> set t" "read_cef t = (cef_header s (ev_Action ?ev), shown_fields env ?ev)"
    using cef_line_one [of s ?ev env] Cons.prems(1) action_no_newline [OF call_action] by auto
  let ?s = "s\<lparr>cef_w := (cef_w s)\<lparr>wr_out := wr_out (cef_w s) @ t @ [newline]\<rparr>\<rparr>"
  have w: "snd (sink_Write env ?ev (CefSink s)) = CefSink ?s"
    using Cons.prems(2) t(1) by (simp add: cef_Write_def writer_Write_def)
  have e: "cef_entry ?s = cef_entry s" by (rule ext) (simp add: cef_entry_def cef_header_def split: prod.splits)
  from Cons.IH [of ?s] Cons.prems obtain s' where
    "sink_run calls (CefSink ?s) = CefSink s'" "read_cef_file (wr_out (cef_w s')) = read_cef_file (wr_out (cef_w ?s)) @ map (cef_entry ?s) calls"
    by auto
  then show ?case using w e read_cef_file_snoc [OF t(2) Cons.prems(3)] t(3) by (simp add: op cef_entry_def)
qed simp

text \<open>
  C22. Nothing can be forged in the CEF file. Whatever names, ids, policies and error texts the events carry, with bars, equal signs, backslashes and line breaks
  in them, a collector that reads the file gets one entry for each report, in order, with the header of the event and exactly its
  non-empty fields.
\<close>

theorem cef_file_roundtrip:
  assumes "NewCEFFileSink b path version rot = Inr (CefSink s)" "newline \<notin> set version" "wr_out (cef_w s) = []" "wr_faults (cef_w s) = []"
    and "lg_sink l = Some (CefSink s)"
  shows "\<exists>s'. lg_sink (run_calls calls l) = Some (CefSink s') \<and> read_cef_file (wr_out (cef_w s'))
    = map (\<lambda>(env, c). (let ev = call_event env c in
        ([''CEF:0'', ''xsergos'', ''Firefik'', if version = [] then ''dev'' else version, ev_Action ev, ev_Action ev, strconv_Itoa (cef_severity (ev_Action ev))],
         filter (\<lambda>(k, v). v \<noteq> []) (cef_fields env ev)))) calls"
proof -
  have s: "cef_vendor s = ''xsergos''" "cef_product s = ''Firefik''" "cef_version s = (if version = [] then ''dev'' else version)"
    using assms(1) by (auto simp: NewCEFFileSink_def openFileSink_def split: if_splits option.splits)
  have n: "newline \<notin> set (cef_vendor s @ cef_product s @ cef_version s)" using assms(2) by (simp add: s)
  obtain s' where r: "sink_run calls (CefSink s) = CefSink s'" "read_cef_file (wr_out (cef_w s')) = read_cef_file [] @ map (cef_entry s) calls"
    using cef_run [OF n assms(4)] assms(3) by auto
  have "read_cef_file [] = []" by (simp add: read_cef_file_def)
  then show ?thesis using run_calls_single [OF assms(5), of calls] r
    by (simp add: cef_entry_def [abs_def] cef_header_def shown_fields_def s Let_def)
qed

definition empty_writer :: writer where
  "empty_writer = \<lparr>wr_out = [], wr_faults = [], wr_close_error = None\<rparr>"

definition demo_build :: build_env where
  "demo_build = \<lparr>bu_stdout = empty_writer, bu_rotating = (\<lambda>_. empty_writer), bu_open = (\<lambda>_. None), bu_replies = [], bu_otel = False\<rparr>"

theorem cef_file_roundtrip_witness:
  "\<exists>s' :: cefSink. map fst (read_cef_file (wr_out (cef_w s'))) = [[''CEF:0'', ''xsergos'', ''Firefik'', ''dev'', ''reconcile'', ''reconcile'', strconv_Itoa 2]]"
proof -
  let ?s = "\<lparr>cef_w = empty_writer, cef_vendor = ''xsergos'', cef_product = ''Firefik'', cef_version = ''dev''\<rparr>"
  let ?c = "EngineCall (AuditReconcileStarted ''startup|cs1=x'')"
  have b: "NewCEFFileSink demo_build [] [] 0 = Inr (CefSink ?s)" by (simp add: NewCEFFileSink_def openFileSink_def demo_build_def)
  have a: "ev_Action (call_event (demo_sink_env 1) ?c) = ''reconcile''"
    by (simp add: call_event_def ReconcileStarted_def audit_emit_def NewHistoryBuffer_def history_Write_def history_Snapshot_def event_def)
  from cef_file_roundtrip [OF b, of "\<lparr>lg_warned = [], lg_sink = Some (CefSink ?s)\<rparr>" "[(demo_sink_env 1, ?c)]"]
  have "\<exists>s' :: cefSink. read_cef_file (wr_out (cef_w s')) =
      [([''CEF:0'', ''xsergos'', ''Firefik'', ''dev'', ''reconcile'', ''reconcile'', strconv_Itoa 2],
        filter (\<lambda>(k, v). v \<noteq> []) (cef_fields (demo_sink_env 1) (call_event (demo_sink_env 1) ?c)))]"
    by (auto simp: a empty_writer_def cef_severity_def)
  then obtain s' :: cefSink where "read_cef_file (wr_out (cef_w s')) =
      [([''CEF:0'', ''xsergos'', ''Firefik'', ''dev'', ''reconcile'', ''reconcile'', strconv_Itoa 2],
        filter (\<lambda>(k, v). v \<noteq> []) (cef_fields (demo_sink_env 1) (call_event (demo_sink_env 1) ?c)))]" by blast
  then show ?thesis by (intro exI [of _ s']) simp
qed

section \<open>The webhook with its default events\<close>

fun quiet :: "sink \<Rightarrow> bool" where
  "quiet (HookSink w) \<longleftrightarrow> wh_events w = default_webhook_events \<and> wh_posts w = []"
| "quiet (MultiSink log ss) \<longleftrightarrow> list_all quiet ss"
| "quiet _ \<longleftrightarrow> True"

fun posts :: "sink \<Rightarrow> webhook_post list" where
  "posts (HookSink w) = wh_posts w"
| "posts (MultiSink log ss) = concat (map posts ss)"
| "posts _ = []"

lemma quiet_posts: "quiet s \<Longrightarrow> posts s = []"
  by (induction s rule: quiet.induct) (auto simp: list_all_iff)

lemma default_events_unused: "a \<in> set audit_actions \<Longrightarrow> a \<notin> set default_webhook_events"
  by (auto simp: audit_actions_def default_webhook_events_def)

lemma quiet_write:
  "ev_Action ev \<in> set audit_actions \<Longrightarrow> quiet s \<Longrightarrow> quiet (snd (sink_Write env ev s))"
  "ev_Action ev \<in> set audit_actions \<Longrightarrow> list_all quiet ss \<Longrightarrow> list_all quiet (snd (write_all env ev ss))"
proof (induction env ev s and env ev ss rule: sink_Write_write_all.induct)
  case (5 env ev s)
  have "default_webhook_events \<noteq> []" by (simp add: default_webhook_events_def)
  then show ?case using 5 default_events_unused by (simp add: webhook_Write_def)
qed (auto split: prod.splits)

lemma quiet_run: "quiet s \<Longrightarrow> quiet (sink_run calls s)"
  by (induction calls arbitrary: s) (auto simp: quiet_write call_action)

lemma map_sum_Inr: "map_sum id f x = Inr y \<longleftrightarrow> (\<exists>z. x = Inr z \<and> y = f z)"
  by (cases x) auto

lemma if_elim: "(if c then x else y) = z \<Longrightarrow> (x = z \<Longrightarrow> P) \<Longrightarrow> (y = z \<Longrightarrow> P) \<Longrightarrow> P"
  by (cases c) auto

lemma build_single_quiet: "buildSingleSink b kind path version rot endpoint history = Inr (Some s) \<Longrightarrow> quiet s"
  unfolding buildSingleSink_def
  by (elim if_elim) (auto simp: NewJSONFileSink_def NewCEFFileSink_def map_sum_Inr split: option.splits)

lemma build_each_quiet:
  "(\<And>t p s. mk t p = Inr (Some s) \<Longrightarrow> quiet s) \<Longrightarrow> build_each mk tps = Inr ss \<Longrightarrow> list_all quiet ss"
  by (induction mk tps arbitrary: ss rule: build_each.induct) (auto simp: map_sum_Inr split: sum.splits option.splits)

lemma build_configured_quiet: "buildConfiguredSinks b cfg version history = Inr ss \<Longrightarrow> list_all quiet ss"
  by (auto simp: buildConfiguredSinks_def map_sum_Inr Let_def split: if_splits option.splits
      intro: build_single_quiet elim!: build_each_quiet [rotated])

lemma build_webhook_quiet:
  assumes "sc_WebhookEvents cfg = default_webhook_events" "buildWebhookSink b cfg = Some s"
  shows "quiet s"
proof -
  have "filter (\<lambda>t. t \<noteq> []) (map strings_TrimSpace default_webhook_events) = default_webhook_events"
    by (simp add: default_webhook_events_def strings_TrimSpace_def is_space_def)
  then show ?thesis using assms by (auto simp: buildWebhookSink_def NewWebhookSink_def split: if_splits sum.splits)
qed

lemma picked:
  "(case sinks of [] \<Rightarrow> None | [s] \<Rightarrow> Some s | _ \<Rightarrow> Some (MultiSink (Some []) sinks)) = Some s \<Longrightarrow> s \<in> set sinks \<or> s = MultiSink (Some []) sinks"
  by (cases sinks; cases "tl sinks") auto

text \<open>
  The webhook of an agent is silent by default. With the events the configuration falls back to, no report of the engine, the commands or
  the API is ever posted: none of the names in the list is the action of an event the agent logs.
\<close>

theorem default_webhook_silent:
  assumes "sc_WebhookEvents cfg = default_webhook_events" "buildAuditSink b cfg version history = Inr (Some s)" "lg_sink l = Some s"
  shows "\<exists>s'. lg_sink (run_calls calls l) = Some s' \<and> posts s' = []"
proof -
  let ?all = "\<lambda>ss. ss @ (case buildWebhookSink b cfg of None \<Rightarrow> [] | Some s \<Rightarrow> [s]) @ (if bu_otel b then [OTelSink []] else [])"
  obtain ss where c: "buildConfiguredSinks b cfg version history = Inr ss"
    and s: "(case ?all ss of [] \<Rightarrow> None | [s] \<Rightarrow> Some s | _ \<Rightarrow> Some (MultiSink (Some []) (?all ss))) = Some s"
    using assms(2) unfolding buildAuditSink_def map_sum_Inr Let_def by (elim exE conjE) simp
  have "list_all quiet (?all ss)"
    using build_configured_quiet [OF c] build_webhook_quiet [OF assms(1)] by (auto split: option.splits)
  then have "quiet s" using picked [OF s] by (auto simp: list_all_iff)
  then have "posts (sink_run calls s) = []" by (simp add: quiet_posts quiet_run)
  then show ?thesis using run_calls_single [OF assms(3)] by simp
qed

theorem default_webhook_silent_witness:
  "\<exists>s'. lg_sink (run_calls [(demo_sink_env 1, EngineCall (AuditRulesApplied ''c1'' ''web'' [] 1 ''DROP'' ''event''))]
      \<lparr>lg_warned = [], lg_sink = Some (HookSink \<lparr>wh_url = ''u'', wh_events = default_webhook_events, wh_secret = [], wh_replies = [],
         wh_posts = [], wh_statuses = []\<rparr>)\<rparr>) = Some s' \<and> posts s' = []"
proof -
  let ?cfg = "\<lparr>sc_AuditSinkType = [], sc_AuditSinkPath = [], sc_AuditSinkEndpoint = [], sc_MaxSizeMB = 100, sc_WebhookURL = ''u'',
    sc_WebhookEvents = default_webhook_events, sc_WebhookSecret = []\<rparr>"
  have "filter (\<lambda>t. t \<noteq> []) (map strings_TrimSpace default_webhook_events) = default_webhook_events"
    by (simp add: default_webhook_events_def strings_TrimSpace_def is_space_def)
  then have "buildAuditSink demo_build ?cfg [] None = Inr (Some (HookSink \<lparr>wh_url = ''u'', wh_events = default_webhook_events, wh_secret = [],
      wh_replies = [], wh_posts = [], wh_statuses = []\<rparr>))"
    by (simp add: buildAuditSink_def buildConfiguredSinks_def buildWebhookSink_def NewWebhookSink_def demo_build_def Let_def)
  then show ?thesis by (intro default_webhook_silent) simp_all
qed

section \<open>The remote sink\<close>

text \<open>A run of the remote sink: its writers, its sender and its endpoint. What was written, what the endpoint accepted, and how many events were
  given up without being counted are recorded beside the sink.\<close>

record remote_run =
  rr_sink :: remoteSink
  rr_written :: "Event list"
  rr_sent :: "Event list"
  rr_lost :: nat

inductive remote_step :: "(Event \<Rightarrow> string option) \<Rightarrow> remote_run \<Rightarrow> remote_run \<Rightarrow> bool" for marshal where
  rs_write: "\<not> rs_closed (rr_sink r) \<Longrightarrow> remote_step marshal r (r\<lparr>rr_sink := remote_Write ev (rr_sink r), rr_written := rr_written r @ [ev]\<rparr>)"
| rs_panic: "rs_closed (rr_sink r) \<Longrightarrow> remote_step marshal r (r\<lparr>rr_sink := remote_Write ev (rr_sink r)\<rparr>)"
| rs_take: "remote_take marshal (rr_sink r) = Some s \<Longrightarrow>
    remote_step marshal r (r\<lparr>rr_sink := s, rr_lost := rr_lost r + (if rs_busy s = None then 1 else 0)\<rparr>)"
| rs_posted: "rs_busy (rr_sink r) = Some (ev, n) \<Longrightarrow>
    remote_step marshal r (r\<lparr>rr_sink := (rr_sink r)\<lparr>rs_busy := None\<rparr>, rr_sent := rr_sent r @ [ev]\<rparr>)"
| rs_failed: "rs_busy (rr_sink r) = Some (ev, n) \<Longrightarrow> remote_step marshal r (r\<lparr>rr_sink := remote_failed ev n (rr_sink r)\<rparr>)"
| rs_abandoned: "rs_busy (rr_sink r) = Some (ev, n) \<Longrightarrow> rs_cancelled (rr_sink r) \<Longrightarrow>
    remote_step marshal r (r\<lparr>rr_sink := (rr_sink r)\<lparr>rs_busy := None\<rparr>, rr_lost := rr_lost r + 1\<rparr>)"
| rs_close: "remote_step marshal r (r\<lparr>rr_sink := remote_Close (rr_sink r)\<rparr>)"
| rs_stop: "rs_busy (rr_sink r) = None \<Longrightarrow> rs_cancelled (rr_sink r) \<or> rs_closed (rr_sink r) \<and> rs_ch (rr_sink r) = [] \<Longrightarrow>
    remote_step marshal r (r\<lparr>rr_sink := (rr_sink r)\<lparr>rs_stopped := True\<rparr>\<rparr>)"

definition busy_events :: "remoteSink \<Rightarrow> Event list" where
  "busy_events s = (case rs_busy s of None \<Rightarrow> [] | Some (ev, _) \<Rightarrow> [ev])"

definition remote_accounts :: "nat \<Rightarrow> remote_run \<Rightarrow> bool" where
  "remote_accounts cap r \<longleftrightarrow> (let s = rr_sink r in
     length (rr_written r) = length (rr_sent r) + rs_dropped s + length (busy_events s @ rs_ch s) + rr_lost r
     \<and> subseq (rr_sent r @ busy_events s @ rs_ch s) (rr_written r)
     \<and> rs_cap s = cap \<and> length (rs_ch s) \<le> cap \<and> (\<forall>ev n. rs_busy s = Some (ev, n) \<longrightarrow> n < 3)
     \<and> (rs_closed s \<longleftrightarrow> rs_cancelled s) \<and> (\<not> rs_cancelled s \<longrightarrow> rr_lost r = 0 \<and> \<not> rs_stopped s))"

lemma subseq_snoc_right: "subseq xs ws \<Longrightarrow> subseq (xs @ [w]) (ws @ [w])" and subseq_more: "subseq xs ws \<Longrightarrow> subseq xs (ws @ [w])"
  by (auto intro: list_emb_append_mono list_emb_append2 simp: subseq_append_iff)

lemma subseq_drop_mid: "subseq (xs @ y # zs) ws \<Longrightarrow> subseq (xs @ zs) ws"
  by (rule subseq_order.trans [of _ "xs @ y # zs"]) (simp_all add: subseq_append' list_emb_Cons)

lemma remote_step_accounts:
  assumes "remote_step marshal r r'" "remote_accounts cap r" "\<And>ev. marshal ev \<noteq> None"
  shows "remote_accounts cap r'"
  using assms(1)
proof cases
  case (rs_write ev)
  have "subseq (rr_sent r @ busy_events (rr_sink r) @ rs_ch (rr_sink r)) (rr_written r)" using assms(2) by (simp add: remote_accounts_def Let_def)
  from subseq_snoc_right [OF this] subseq_more [OF this] show ?thesis
    using rs_write assms(2) by (auto simp: remote_accounts_def Let_def remote_Write_def busy_events_def)
next
  case (rs_take s)
  have b: "rs_busy (rr_sink r) = None" using rs_take(2) by (rule_tac ccontr) (simp add: remote_take_def)
  obtain ev rest where e: "rs_ch (rr_sink r) = ev # rest" using rs_take(2) by (cases "rs_ch (rr_sink r)") (auto simp: remote_take_def split: if_splits)
  have "s = (rr_sink r)\<lparr>rs_ch := rest, rs_busy := Some (ev, 0)\<rparr>"
    using rs_take(2) b e assms(3) [of ev] by (auto simp: remote_take_def split: if_splits)
  then show ?thesis using assms(2) rs_take(1) b e by (simp add: remote_accounts_def Let_def busy_events_def)
next
  case (rs_failed ev n)
  then show ?thesis using assms(2)
    by (auto simp: remote_accounts_def Let_def remote_failed_def busy_events_def intro: subseq_drop_mid)
next
  case (rs_abandoned ev n)
  then show ?thesis using assms(2) by (auto simp: remote_accounts_def Let_def busy_events_def intro: subseq_drop_mid)
qed (use assms(2) in \<open>auto simp: remote_accounts_def Let_def remote_Write_def remote_Close_def busy_events_def\<close>)

definition fresh_run :: "remoteSink \<Rightarrow> remote_run" where
  "fresh_run s = \<lparr>rr_sink = s, rr_written = [], rr_sent = [], rr_lost = 0\<rparr>"

lemma fresh_accounts: "NewRemoteSink endpoint sz = Inr s \<Longrightarrow> remote_accounts (remote_buffer sz) (fresh_run s)"
  by (auto simp: NewRemoteSink_def remote_accounts_def fresh_run_def busy_events_def split: if_splits)

text \<open>
  The remote sink accounts for its events. In every reachable state of the writers and the sender, the events written are those the endpoint has accepted,
  those counted as dropped, those waiting, and those lost; what is accepted or waiting is in the order written, without duplicates; an event is tried at
  most three times, the buffer keeps its bound, and nothing is lost uncounted before \<open>Close\<close>.
\<close>

theorem remote_sink_accounts:
  assumes "NewRemoteSink endpoint sz = Inr s" "\<And>ev. marshal ev \<noteq> None" "(remote_step marshal)\<^sup>*\<^sup>* (fresh_run s) r"
  shows "length (rr_written r) = length (rr_sent r) + rs_dropped (rr_sink r) + length (busy_events (rr_sink r) @ rs_ch (rr_sink r)) + rr_lost r
    \<and> subseq (rr_sent r @ busy_events (rr_sink r) @ rs_ch (rr_sink r)) (rr_written r)
    \<and> length (rs_ch (rr_sink r)) \<le> remote_buffer sz \<and> (\<forall>ev n. rs_busy (rr_sink r) = Some (ev, n) \<longrightarrow> n < 3)
    \<and> (rs_closed (rr_sink r) \<or> rr_lost r = 0)"
proof -
  from assms(3) have "remote_accounts (remote_buffer sz) r"
  proof induction
    case (step r r')
    from step(2,3) assms(2) show ?case by (rule remote_step_accounts)
  qed (rule fresh_accounts [OF assms(1)])
  then show ?thesis by (auto simp: remote_accounts_def Let_def)
qed

text \<open>Closing the sink right after a write: the sender may return with the event still waiting, which is not counted as dropped.\<close>

lemma remote_close_forgets:
  assumes "NewRemoteSink endpoint sz = Inr s"
  shows "\<exists>r. (remote_step marshal)\<^sup>*\<^sup>* (fresh_run s) r \<and> rs_stopped (rr_sink r) \<and> rr_written r = [ev] \<and> rr_sent r = [] \<and> rs_dropped (rr_sink r) = 0"
proof -
  have s: "s = \<lparr>rs_cap = remote_buffer sz, rs_ch = [], rs_dropped = 0, rs_busy = None, rs_cancelled = False, rs_closed = False,
      rs_stopped = False, rs_panicked = False\<rparr>" "0 < remote_buffer sz"
    using assms by (auto simp: NewRemoteSink_def remote_buffer_def split: if_splits)
  let ?r1 = "(fresh_run s)\<lparr>rr_sink := remote_Write ev s, rr_written := [ev]\<rparr>"
  let ?r2 = "?r1\<lparr>rr_sink := remote_Close (remote_Write ev s)\<rparr>"
  let ?r3 = "?r2\<lparr>rr_sink := (remote_Close (remote_Write ev s))\<lparr>rs_stopped := True\<rparr>\<rparr>"
  have "remote_step marshal (fresh_run s) ?r1"
    using rs_write [of "fresh_run s" marshal ev] s by (simp add: fresh_run_def)
  moreover have "remote_step marshal ?r1 ?r2" using rs_close [of marshal ?r1] by simp
  moreover have "remote_step marshal ?r2 ?r3" using rs_stop [of ?r2 marshal] s by (simp add: remote_Close_def remote_Write_def)
  ultimately have "(remote_step marshal)\<^sup>*\<^sup>* (fresh_run s) ?r3" by (meson converse_rtranclp_into_rtranclp rtranclp.rtrancl_refl)
  then show ?thesis using s by (intro exI [of _ ?r3]) (simp add: fresh_run_def remote_Close_def remote_Write_def)
qed

theorem remote_sink_accounts_witness:
  "\<exists>s r. NewRemoteSink ''u'' 0 = Inr s \<and> (remote_step (\<lambda>_. Some []))\<^sup>*\<^sup>* (fresh_run s) r \<and> rs_stopped (rr_sink r)
    \<and> length (busy_events (rr_sink r) @ rs_ch (rr_sink r)) + rr_lost r = 1"
proof -
  obtain s where s: "NewRemoteSink ''u'' 0 = Inr s" by (simp add: NewRemoteSink_def)
  obtain r where r: "(remote_step (\<lambda>_. Some []))\<^sup>*\<^sup>* (fresh_run s) r" "rs_stopped (rr_sink r)" "rr_written r = [zero_event]" "rr_sent r = []"
    "rs_dropped (rr_sink r) = 0" using remote_close_forgets [OF s] by blast
  from remote_sink_accounts [OF s _ r(1)] r s show ?thesis by auto
qed

end
