(* ===== verification/Agent_Stream.thy ===== *)
theory Agent_Stream
  imports CP_Registry CP_Panel Agent_API Log_Stream
begin

text \<open>
  The agent's side of the stream to the control plane: the client (\<open>backend/internal/controlplane/grpc_client.go\<close>), the loop that feeds it
  (\<open>agent_loop.go\<close>), the conversions at both ends (\<open>grpc_server.go\<close>), and what \<open>backend/cmd/firefik\<close> connects to it: the snapshots, the
  log lines, the observed flows and the events of Docker.

  A message is a record of the fields the code reads. \<open>structpb\<close>, the conversion of a map to a protobuf value, is the record of that name: it takes
  arrays only as \<open>[]any\<close>, so it is given separately for values decoded from JSON, whose arrays have that type, and for
  the results of the dispatcher, whose arrays are of the types \<open>[]uint16\<close>, \<open>[]string\<close> and \<open>[]map[string]any\<close>.
\<close>

section \<open>Messages\<close>

datatype pb_kind =
    KIND_UNSPECIFIED | KIND_APPLY | KIND_DISABLE | KIND_RECONCILE | KIND_TOKEN_ROTATE | KIND_STATS_COLLECT | KIND_AUTOGEN_APPROVE | KIND_AUTOGEN_REJECT

record pb_command =
  pc_Id :: string
  pc_Kind :: pb_kind
  pc_ContainerId :: string
  pc_IssuedAt :: "gotime option"
  pc_Payload :: "payload option"

record pb_ack =
  pk_Id :: string
  pk_AgentId :: string
  pk_Success :: bool
  pk_Error :: string
  pk_CompletedAt :: "gotime option"
  pk_ResultPayload :: "payload option"

record structpb =
  sb_json :: "payload \<Rightarrow> payload option"
  sb_typed :: "payload \<Rightarrow> payload option"

definition pbKindFromString :: "string \<Rightarrow> pb_kind" where
  "pbKindFromString s =
     (if s = CommandApply then KIND_APPLY
      else if s = CommandDisable then KIND_DISABLE
      else if s = CommandReconcile then KIND_RECONCILE
      else if s = CommandTokenRotate then KIND_TOKEN_ROTATE
      else if s = CommandStatsCollect then KIND_STATS_COLLECT
      else if s = CommandAutogenApprove then KIND_AUTOGEN_APPROVE
      else if s = CommandAutogenReject then KIND_AUTOGEN_REJECT
      else KIND_UNSPECIFIED)"

definition commandKindFromPB :: "pb_kind \<Rightarrow> string" where
  "commandKindFromPB k =
     (case k of
        KIND_APPLY \<Rightarrow> CommandApply
      | KIND_DISABLE \<Rightarrow> CommandDisable
      | KIND_RECONCILE \<Rightarrow> CommandReconcile
      | KIND_TOKEN_ROTATE \<Rightarrow> CommandTokenRotate
      | KIND_STATS_COLLECT \<Rightarrow> CommandStatsCollect
      | KIND_AUTOGEN_APPROVE \<Rightarrow> CommandAutogenApprove
      | KIND_AUTOGEN_REJECT \<Rightarrow> CommandAutogenReject
      | KIND_UNSPECIFIED \<Rightarrow> [])"

definition toPBCommand :: "structpb \<Rightarrow> Command \<Rightarrow> pb_command" where
  "toPBCommand sp c =
     \<lparr>pc_Id = cm_ID c, pc_Kind = pbKindFromString (cm_Kind c), pc_ContainerId = cm_ContainerID c, pc_IssuedAt = Some (cm_IssuedAt c),
      pc_Payload = (if cm_Payload c = [] then None else sb_json sp (cm_Payload c))\<rparr>"

definition toNativeCommand :: "pb_command \<Rightarrow> Command" where
  "toNativeCommand k =
     \<lparr>cm_ID = pc_Id k, cm_Kind = commandKindFromPB (pc_Kind k), cm_ContainerID = pc_ContainerId k,
      cm_Payload = (case pc_Payload k of None \<Rightarrow> [] | Some p \<Rightarrow> p), cm_IssuedAt = as_time (pc_IssuedAt k)\<rparr>"

definition toPBAck :: "structpb \<Rightarrow> CommandAck \<Rightarrow> pb_ack" where
  "toPBAck sp a =
     \<lparr>pk_Id = ca_ID a, pk_AgentId = ca_AgentID a, pk_Success = ca_Success a, pk_Error = ca_Error a, pk_CompletedAt = Some (ca_CompletedAt a),
      pk_ResultPayload = (if ca_ResultPayload a = [] then None else sb_typed sp (ca_ResultPayload a))\<rparr>"

definition toNativeAck :: "pb_ack \<Rightarrow> CommandAck" where
  "toNativeAck k =
     \<lparr>ca_ID = pk_Id k, ca_AgentID = pk_AgentId k, ca_Success = pk_Success k, ca_Error = pk_Error k, ca_CompletedAt = as_time (pk_CompletedAt k),
      ca_ResultPayload = (case pk_ResultPayload k of None \<Rightarrow> [] | Some p \<Rightarrow> p)\<rparr>"

definition int32 :: "int \<Rightarrow> int" where
  "int32 n = sint (word_of_int n :: 32 word)"

definition toPBSnapshot :: "AgentSnapshot \<Rightarrow> pb_snapshot" where
  "toPBSnapshot s =
     \<lparr>ps_Agent = Some (as_Agent s), ps_Containers = map (\<lambda>c. c\<lparr>cs_RuleSetCount := int32 (cs_RuleSetCount c)\<rparr>) (as_Containers s),
      ps_At = Some (as_At s), ps_Traffic = as_Traffic s\<rparr>"

section \<open>The client\<close>

text \<open>The stream is up or down; a message is sent on it or \<open>None\<close> is \<open>ErrStreamDown\<close>.\<close>

definition merge_labels :: "(string \<times> string) list \<Rightarrow> (string \<times> string) list \<Rightarrow> (string \<times> string) list" where
  "merge_labels own given = (if given = [] then own else if own = [] then given else fold (\<lambda>(k, v). AList.update k v) given own)"

definition SendSnapshot :: "gotime \<Rightarrow> AgentIdentity \<Rightarrow> bool \<Rightarrow> AgentSnapshot \<Rightarrow> agent_event option" where
  "SendSnapshot now ident up snap =
     (if \<not> up then None
      else Some (EventSnapshot (Some (toPBSnapshot
        (snap\<lparr>as_Agent := ident\<lparr>AgentIdentity.ai_Labels := merge_labels (AgentIdentity.ai_Labels ident) (AgentIdentity.ai_Labels (as_Agent snap))\<rparr>, as_At := or_now now (as_At snap)\<rparr>)))))"

definition SendAudit :: "structpb \<Rightarrow> AgentIdentity \<Rightarrow> bool \<Rightarrow> payload \<Rightarrow> agent_event option" where
  "SendAudit sp ident up event =
     (if \<not> up then None
      else map_option (\<lambda>p. EventAudit (Some \<lparr>pu_Agent = Some ident, pu_Event = Some p\<rparr>)) (sb_json sp event))"

definition SendLog :: "gotime \<Rightarrow> AgentIdentity \<Rightarrow> bool \<Rightarrow> LogLine \<Rightarrow> agent_event option" where
  "SendLog now ident up l =
     (if \<not> up then None
      else Some (EventLog (Some \<lparr>pl_Agent = Some ident, pl_At = Some (or_now now (ll_At l)), pl_Level = ll_Level l, pl_Source = ll_Source l,
        pl_Line = ll_Line l, pl_Fields = ll_Fields l\<rparr>)))"

definition SendHeartbeat :: "AgentIdentity \<Rightarrow> bool \<Rightarrow> agent_event option" where
  "SendHeartbeat ident up = (if up then Some (EventHeartbeat (Some (Some ident))) else None)"

definition SendAutogenProposals :: "gotime \<Rightarrow> AgentIdentity \<Rightarrow> bool \<Rightarrow> AutogenProposal list \<Rightarrow> agent_event option" where
  "SendAutogenProposals now ident up items =
     (if items = [] \<or> \<not> up then None
      else Some (EventAutogenProposals (Some \<lparr>pq_Agent = Some ident, pq_At = Some now,
        pq_Proposals = map (\<lambda>p. Some \<lparr>pp_ContainerId = ap_ContainerID p, pp_Ports = ap_Ports p, pp_Peers = ap_Peers p,
          pp_ObservedFor = ap_ObservedFor p, pp_Confidence = ap_Confidence p\<rparr>) items\<rparr>)))"

definition withAuth :: "string \<Rightarrow> rpc_context" where
  "withAuth token = \<lparr>rc_bearer = (if token = [] then None else Some token), rc_validated = False\<rparr>"

text \<open>The opening of a connection as both ends see it: registration, then a stream whose first event is a heartbeat.\<close>

definition connect :: "string \<Rightarrow> string \<Rightarrow> AgentIdentity \<Rightarrow> gotime \<Rightarrow> 's Registry \<Rightarrow> (rpc_error + string) \<times> 's Registry" where
  "connect serverToken token ident now r =
     (case grpc_Register serverToken (withAuth token) now (Some ident) r of
        (Some e, r1) \<Rightarrow> (Inl e, r1)
      | (None, r1) \<Rightarrow> stream_open serverToken (withAuth token) now (EventHeartbeat (Some (Some ident))) r1)"

text \<open>The body of the receiving loop: a command is dispatched and its acknowledgement completed.\<close>

definition complete_ack :: "gotime \<Rightarrow> AgentIdentity \<Rightarrow> CommandAck \<Rightarrow> CommandAck" where
  "complete_ack now ident ack =
     ack\<lparr>ca_CompletedAt := or_now now (ca_CompletedAt ack), ca_AgentID := (if ca_AgentID ack = [] then ai_InstanceID ident else ca_AgentID ack)\<rparr>"

definition recv_command ::
  "structpb \<Rightarrow> dispatch_env \<Rightarrow> AgentIdentity \<Rightarrow> gotime \<Rightarrow> pb_command \<Rightarrow> ('k, 'o) Deps \<Rightarrow> pb_ack \<times> ('k, 'o) Deps" where
  "recv_command sp env ident now k d =
     (case Dispatch env (toNativeCommand k) d of (ack, d1) \<Rightarrow> (toPBAck sp (complete_ack now ident ack), d1))"

text \<open>Reconnecting. A random offset of at most a fifth is added to each delay.\<close>

definition backoffMin :: duration where "backoffMin = 250 * 1000000"
definition backoffMax :: duration where "backoffMax = 30 * second"

definition nextBackoff :: "duration \<Rightarrow> duration" where
  "nextBackoff d = (if backoffMax < d * 2 then backoffMax else d * 2)"

definition jitter :: "int \<Rightarrow> duration \<Rightarrow> duration" where
  "jitter offset d = (let out = d + offset in if out < backoffMin then backoffMin else out)"

text \<open>\<open>Run\<close>: the delays between connections, for the outcomes of \<open>runOnce\<close>, which are an error or a stream the server has ended, and the random offsets.\<close>

fun reconnect_run :: "(bool \<times> int) list \<Rightarrow> duration \<Rightarrow> duration list" where
  "reconnect_run [] b = []"
| "reconnect_run ((ended, offset) # os) b =
     (if ended then 0 # reconnect_run os backoffMin else jitter offset b # reconnect_run os (nextBackoff b))"

section \<open>The agent's loop\<close>

record AgentLoopConfig =
  lc_GRPCEndpoint :: string
  lc_Token :: string
  lc_SnapshotInterval :: duration
  lc_HeartbeatInterval :: duration

definition NewAgentLoop :: "AgentLoopConfig \<Rightarrow> AgentLoopConfig" where
  "NewAgentLoop cfg =
     cfg\<lparr>lc_SnapshotInterval := (if lc_SnapshotInterval cfg = 0 then 30 * second else lc_SnapshotInterval cfg),
         lc_HeartbeatInterval := (if lc_HeartbeatInterval cfg = 0 then 30 * second else lc_HeartbeatInterval cfg)\<rparr>"

definition opt_list :: "'a option \<Rightarrow> 'a list" where
  "opt_list x = (case x of None \<Rightarrow> [] | Some v \<Rightarrow> [v])"

definition snapshot_tick :: "gotime \<Rightarrow> AgentIdentity \<Rightarrow> bool \<Rightarrow> string + AgentSnapshot \<Rightarrow> AutogenProposal list \<Rightarrow> agent_event list" where
  "snapshot_tick now ident up snap items =
     (case snap of Inl _ \<Rightarrow> [] | Inr s \<Rightarrow> opt_list (SendSnapshot now ident up s)) @ opt_list (SendAutogenProposals now ident up items)"

definition heartbeat_tick :: "AgentIdentity \<Rightarrow> bool \<Rightarrow> agent_event list" where
  "heartbeat_tick ident up = opt_list (SendHeartbeat ident up)"

definition log_forward :: "gotime \<Rightarrow> AgentIdentity \<Rightarrow> bool \<Rightarrow> LogLine \<Rightarrow> agent_event list" where
  "log_forward now ident up l = opt_list (SendLog now ident up l)"

section \<open>Snapshots\<close>

record snapshot_json =
  sj_ruleSets :: "FirewallRuleSetDTO list \<Rightarrow> string option"
  sj_hostRules :: "HostRulesPayload \<Rightarrow> string option"

definition copyLabelsWithRuleSets :: "(string \<times> string) list \<Rightarrow> string \<Rightarrow> (string \<times> string) list" where
  "copyLabelsWithRuleSets labels body = AList.update RuleSetsLabelKey body labels"

definition deriveSources :: "string \<Rightarrow> (string \<times> string) list \<Rightarrow> string list" where
  "deriveSources status labels =
     (if status \<noteq> ''active'' then []
      else if list_ex (\<lambda>(k, v). strings_HasPrefix k ''firefik.'') labels then [''label''] else [''config''])"

definition host_labels :: "snapshot_json \<Rightarrow> 'k Engine \<Rightarrow> (string \<times> string) list \<Rightarrow> (string \<times> string) list" where
  "host_labels js e labels =
     (case GetHostRules e of (rs, def) \<Rightarrow>
        (if rs = [] \<and> def = [] then labels
         else (case sj_hostRules js \<lparr>hp_Default = def, hp_Rules = map (\<lambda>h. \<lparr>ho_Name = fh_Name h, ho_Protocol = fh_Protocol h, ho_Ports = fh_Ports h,
                      ho_Allowlist = fh_Allowlist h, ho_Blocklist = fh_Blocklist h, ho_Log = fh_Log h, ho_LogPrefix = fh_LogPrefix h\<rparr>) rs\<rparr> of
                 None \<Rightarrow> labels
               | Some body \<Rightarrow> AList.update HostRulesLabelKey body labels)))"

definition container_state :: "snapshot_json \<Rightarrow> (string \<times> ContainerConfig) list \<Rightarrow> ContainerInfo \<Rightarrow> ContainerState" where
  "container_state js applied ctr =
     (let st = (case map_of applied (shortID (ci_ID ctr)) of
                  None \<Rightarrow> (''disabled'', [], 0, ci_Labels ctr)
                | Some cfg \<Rightarrow> (''active'', DefaultPolicy cfg, int (length (RuleSets cfg)),
                    if RuleSets cfg = [] then ci_Labels ctr
                    else (case sj_ruleSets js (map RuleSetToDTO (RuleSets cfg)) of
                            None \<Rightarrow> ci_Labels ctr
                          | Some body \<Rightarrow> copyLabelsWithRuleSets (ci_Labels ctr) body)))
      in case st of (status, policy, n, labels) \<Rightarrow>
           \<lparr>cs_ID = ci_ID ctr, cs_Name = ci_Name ctr, cs_Status = ci_Status ctr, cs_FirewallStatus = status, cs_DefaultPolicy = policy,
            cs_Labels = labels, cs_RuleSetCount = n, cs_Sources = deriveSources status (ci_Labels ctr)\<rparr>)"

definition engine_Snapshot :: "snapshot_json \<Rightarrow> world \<Rightarrow> gotime \<Rightarrow> 'k Engine \<Rightarrow> TrafficStore option \<Rightarrow> AgentIdentity \<Rightarrow> string + AgentSnapshot" where
  "engine_Snapshot js w now e traffic ident =
     (case w_containers w of
        Inl err \<Rightarrow> Inl err
      | Inr containers \<Rightarrow>
          Inr \<lparr>as_Agent = ident\<lparr>AgentIdentity.ai_Labels := host_labels js e (AgentIdentity.ai_Labels ident)\<rparr>,
               as_Containers = map (container_state js (GetApplied e)) containers, as_At = now,
               as_Traffic = (case traffic of None \<Rightarrow> [] | Some t \<Rightarrow> traffic_Last 60 t)\<rparr>)"

section \<open>The reader of logged packets\<close>

text \<open>What gopacket finds in a packet: the addresses and the protocol of an IPv4 or IPv6 header, the destination port of TCP or UDP.\<close>

record packet_layers =
  ly_IPv4 :: "(ip \<times> ip \<times> string) option"
  ly_IPv6 :: "(ip \<times> ip \<times> string) option"
  ly_TCP :: "16 word option"
  ly_UDP :: "16 word option"

record LogEntry =
  le_Timestamp :: string
  le_Raw :: string
  le_Action :: string
  le_SrcIP :: string
  le_DstIP :: string
  le_DstPort :: nat
  le_Proto :: string

definition decodePacket :: "(bool \<Rightarrow> 8 word list \<Rightarrow> packet_layers) \<Rightarrow> 8 word list \<Rightarrow> LogEntry \<Rightarrow> LogEntry" where
  "decodePacket gopacket payload entry =
     (let pk = gopacket (drop_bit 4 (hd payload) = 6) payload;
          e1 = (case ly_IPv4 pk of
                  Some (s, d, proto) \<Rightarrow> entry\<lparr>le_SrcIP := ip_String s, le_DstIP := ip_String d, le_Proto := proto\<rparr>
                | None \<Rightarrow>
                    (case ly_IPv6 pk of
                       Some (s, d, proto) \<Rightarrow> entry\<lparr>le_SrcIP := ip_String s, le_DstIP := ip_String d, le_Proto := proto\<rparr>
                     | None \<Rightarrow> entry))
      in case ly_TCP pk of
           Some p \<Rightarrow> e1\<lparr>le_DstPort := unat p\<rparr>
         | None \<Rightarrow> (case ly_UDP pk of Some p \<Rightarrow> e1\<lparr>le_DstPort := unat p\<rparr> | None \<Rightarrow> e1))"

definition buildLogEntry :: "(bool \<Rightarrow> 8 word list \<Rightarrow> packet_layers) \<Rightarrow> string \<Rightarrow> 8 word list \<Rightarrow> string \<Rightarrow> LogEntry option" where
  "buildLogEntry gopacket pre payload timestamp =
     (if \<not> strings_Contains pre ''FIREFIK'' then None
      else
        (let entry = \<lparr>le_Timestamp = timestamp, le_Raw = pre,
               le_Action = (if strings_Contains pre ''FIREFIK DROP'' then ''DROP''
                            else if strings_Contains pre ''FIREFIK ACCEPT'' then ''ACCEPT'' else []),
               le_SrcIP = [], le_DstIP = [], le_DstPort = 0, le_Proto = []\<rparr>
         in Some (if payload \<noteq> [] then decodePacket gopacket payload entry else entry)))"

text \<open>A flow is attributed to the container with the destination address, else to the one with the source address.\<close>

definition on_flow :: "gotime \<Rightarrow> 'k Engine \<Rightarrow> LogEntry \<Rightarrow> 's Observer \<Rightarrow> 's Observer" where
  "on_flow now e ev obs =
     (let srcCID = ContainerIDByIP e (le_SrcIP ev); dstCID = ContainerIDByIP e (le_DstIP ev) in
      if dstCID \<noteq> []
      then Record now \<lparr>fl_ContainerID = dstCID, fl_Protocol = strings_ToLower (le_Proto ev), fl_Port = of_nat (le_DstPort ev), fl_PeerIP = le_SrcIP ev, fl_At = 0\<rparr> obs
      else if srcCID \<noteq> []
      then Record now \<lparr>fl_ContainerID = srcCID, fl_Protocol = strings_ToLower (le_Proto ev), fl_Port = of_nat (le_DstPort ev), fl_PeerIP = le_DstIP ev, fl_At = 0\<rparr> obs
      else obs)"

record 's reader_state =
  rd_hub :: ls_Hub
  rd_traffic :: TrafficStore
  rd_observer :: "'s Observer option"

record reader_env =
  rv_now :: gotime
  rv_minute :: string
  rv_timestamp :: string
  rv_gopacket :: "bool \<Rightarrow> 8 word list \<Rightarrow> packet_layers"
  rv_marshal :: "LogEntry \<Rightarrow> string option"

definition nflog_hook :: "reader_env \<Rightarrow> 'k Engine \<Rightarrow> string option \<Rightarrow> 8 word list option \<Rightarrow> 's reader_state \<Rightarrow> 's reader_state" where
  "nflog_hook env e pre payload s =
     (case buildLogEntry (rv_gopacket env) (case pre of None \<Rightarrow> [] | Some x \<Rightarrow> x) (case payload of None \<Rightarrow> [] | Some x \<Rightarrow> x) (rv_timestamp env) of
        None \<Rightarrow> s
      | Some entry \<Rightarrow>
          (case rv_marshal env entry of
             None \<Rightarrow> s
           | Some b \<Rightarrow>
               s\<lparr>rd_hub := Broadcast b (rd_hub s),
                 rd_traffic := (if le_Action entry \<noteq> [] then RecordAction (rv_minute env) (le_Action entry) (rd_traffic s) else rd_traffic s),
                 rd_observer := (if le_SrcIP entry \<noteq> [] \<or> le_DstIP entry \<noteq> [] then map_option (on_flow (rv_now env) e entry) (rd_observer s)
                                 else rd_observer s)\<rparr>))"

section \<open>The bridge of log lines\<close>

definition stringifyMap :: "(string \<Rightarrow> string) \<Rightarrow> payload \<Rightarrow> (string \<times> string) list" where
  "stringifyMap number m =
     List.map_filter (\<lambda>(k, v). case v of
         JStr t \<Rightarrow> Some (k, t)
       | JNum n \<Rightarrow> Some (k, number n)
       | JBool b \<Rightarrow> Some (k, if b then ''true'' else ''false'')
       | _ \<Rightarrow> None) m"

text \<open>One line of \<open>Pump\<close>; the channel to the forwarder has room for 256 lines, and a line that does not fit is dropped.\<close>

definition pump_line :: "(string \<Rightarrow> payload option) \<Rightarrow> (string \<Rightarrow> string) \<Rightarrow> string \<Rightarrow> LogLine list \<Rightarrow> LogLine list" where
  "pump_line unmarshal number msg out =
     (let l = \<lparr>ll_Agent = no_identity, ll_At = 0, ll_Level = [], ll_Source = ''nflog'', ll_Line = msg,
               ll_Fields = (case unmarshal msg of None \<Rightarrow> [] | Some m \<Rightarrow> stringifyMap number m)\<rparr>
      in if length out < 256 then out @ [l] else out)"

section \<open>Events of Docker\<close>

definition docker_event :: "world \<Rightarrow> string \<Rightarrow> string \<Rightarrow> 'k Engine \<Rightarrow> engine_error option \<times> 'k Engine" where
  "docker_event w action cid e =
     (if action = ''start'' then ApplyContainer w cid ''event'' e
      else if action \<in> set [''stop'', ''die'', ''destroy''] then RemoveContainer cid ''event'' e
      else if action = ''rename'' then ApplyContainer w cid ''event'' e
      else (None, e))"

section \<open>Removal of the chains of earlier deployments\<close>

text \<open>The backend of a chain is the argument \<open>mk\<close>; the reports are those of \<open>LegacyCleanup\<close>: chain, suffix, number of containers, error.\<close>

definition cleanup_one :: "(string \<Rightarrow> string + 'k Backend) \<Rightarrow> (backend_error \<Rightarrow> string) \<Rightarrow> string \<Rightarrow> string \<Rightarrow> 'k
    \<Rightarrow> (string \<times> string \<times> nat \<times> string) \<times> 'k" where
  "cleanup_one mk errText legacy suf k =
     (case mk legacy of
        Inl e \<Rightarrow> ((legacy, suf, 0, ''init: '' @ e), k)
      | Inr b \<Rightarrow>
          (let removed = (case be_ListAppliedContainerIDs b k of Inl _ \<Rightarrow> 0 | Inr ids \<Rightarrow> length ids) in
           case be_Cleanup b k of
             (Some e, k1) \<Rightarrow> ((legacy, suf, removed, errText e), k1)
           | (None, k1) \<Rightarrow> ((legacy, suf, removed, []), k1)))"

fun cleanup_loop :: "(string \<Rightarrow> string + 'k Backend) \<Rightarrow> (backend_error \<Rightarrow> string) \<Rightarrow> string list \<Rightarrow> nat \<Rightarrow> string list \<Rightarrow> 'k
    \<Rightarrow> (string \<times> string \<times> nat \<times> string) list \<times> 'k" where
  "cleanup_loop mk errText sufs i [] k = ([], k)"
| "cleanup_loop mk errText sufs i (legacy # rest) k =
     (case cleanup_one mk errText legacy (if i < length sufs then sufs ! i else []) k of (rep, k1) \<Rightarrow>
        (case cleanup_loop mk errText sufs (Suc i) rest k1 of (reps, k2) \<Rightarrow> (rep # reps, k2)))"

definition cleanupOldSuffixes :: "(string \<Rightarrow> string + 'k Backend) \<Rightarrow> (backend_error \<Rightarrow> string) \<Rightarrow> string \<Rightarrow> string \<Rightarrow> string list \<Rightarrow> 'k
    \<Rightarrow> (string \<times> string \<times> nat \<times> string) list \<times> 'k" where
  "cleanupOldSuffixes mk errText base effective sufs k =
     (if sufs = [] then ([], k) else cleanup_loop mk errText sufs 0 (DeriveLegacyChains base effective sufs) k)"

end
