(* ===== verification/Fleet_Link.thy ===== *)
theory Fleet_Link
  imports Agent_Stream Engine_Properties
begin

text \<open>
  Properties of the link between an agent and its control plane: commands and their acknowledgements, snapshots, the delays between connections, and which
  logged packets are seen.
\<close>

section \<open>Commands\<close>

definition command_kinds :: "string list" where
  "command_kinds = [CommandApply, CommandDisable, CommandReconcile, CommandTokenRotate, CommandStatsCollect, CommandAutogenApprove, CommandAutogenReject]"

lemmas command_names = CommandApply_def CommandDisable_def CommandReconcile_def CommandTokenRotate_def CommandStatsCollect_def
  CommandAutogenApprove_def CommandAutogenReject_def

text \<open>A command with an id, of a known kind, whose payload protobuf can carry.\<close>

definition sendable :: "structpb \<Rightarrow> Command \<Rightarrow> bool" where
  "sendable sp c \<longleftrightarrow> cm_ID c \<noteq> [] \<and> cm_Kind c \<in> set command_kinds \<and> (cm_Payload c = [] \<or> sb_json sp (cm_Payload c) = Some (cm_Payload c))"

lemma kind_roundtrip: "k \<in> set command_kinds \<Longrightarrow> commandKindFromPB (pbKindFromString k) = k"
  by (auto simp: command_kinds_def commandKindFromPB_def pbKindFromString_def command_names)

lemma command_roundtrip: "sendable sp c \<Longrightarrow> toNativeCommand (toPBCommand sp c) = c"
  by (auto simp: sendable_def toNativeCommand_def toPBCommand_def kind_roundtrip as_time_def)

lemma mirror_view [simp]: "rg_acks (mirror op r) = rg_acks r" "rg_commands (mirror op r) = rg_commands r" "rg_agents (mirror op r) = rg_agents r"
  by (simp_all add: mirror_def split: option.splits prod.splits)

lemma recordAck_view [simp]: "rg_acks (recordAck now a r) = AList.update (ca_ID a) a (rg_acks r)" "rg_commands (recordAck now a r) = rg_commands r"
  by (simp_all add: recordAck_def Let_def split: option.splits)

text \<open>
  One poll of the stream and what can go wrong on the way: the server's loop ends at the first
  command whose \<open>Send\<close> fails; the client receives some of the messages that were sent, in order;
  it skips them without a dispatcher; and each acknowledgement arrives or is lost, which the client
  only logs.
\<close>

record link_faults =
  lf_send :: "nat \<Rightarrow> bool"
  lf_received :: nat
  lf_ack :: "nat \<Rightarrow> bool"

fun send_loop :: "structpb \<Rightarrow> (nat \<Rightarrow> bool) \<Rightarrow> nat \<Rightarrow> Command list \<Rightarrow> pb_command list" where
  "send_loop sp ok i [] = []"
| "send_loop sp ok i (c # cs) = (if ok i then toPBCommand sp c # send_loop sp ok (Suc i) cs else [])"

fun recv_loop ::
  "structpb \<Rightarrow> dispatch_env \<Rightarrow> bool \<Rightarrow> AgentIdentity \<Rightarrow> string \<Rightarrow> string \<Rightarrow> gotime \<Rightarrow> (nat \<Rightarrow> bool) \<Rightarrow> nat \<Rightarrow> pb_command list
   \<Rightarrow> 's Registry \<Rightarrow> ('k, 'o) Deps \<Rightarrow> 's Registry \<times> ('k, 'o) Deps" where
  "recv_loop sp env dispatcher ident serverToken token now arrives i [] r d = (r, d)"
| "recv_loop sp env dispatcher ident serverToken token now arrives i (m # ms) r d =
     (if \<not> dispatcher then recv_loop sp env dispatcher ident serverToken token now arrives (Suc i) ms r d
      else (case recv_command sp env ident now m d of (a, d1) \<Rightarrow>
        recv_loop sp env dispatcher ident serverToken token now arrives (Suc i) ms
          (if arrives i then snd (grpc_Ack serverToken (withAuth token) now (Some (toNativeAck a)) r) else r) d1))"

definition serve_poll ::
  "structpb \<Rightarrow> dispatch_env \<Rightarrow> bool \<Rightarrow> AgentIdentity \<Rightarrow> string \<Rightarrow> string \<Rightarrow> gotime \<Rightarrow> link_faults \<Rightarrow> 's Registry \<Rightarrow> ('k, 'o) Deps
   \<Rightarrow> 's Registry \<times> ('k, 'o) Deps" where
  "serve_poll sp env dispatcher ident serverToken token now lk r d =
     (case takeCommands now (ai_InstanceID ident) r of (cmds, r1) \<Rightarrow>
        recv_loop sp env dispatcher ident serverToken token now (lf_ack lk) 0 (take (lf_received lk) (send_loop sp (lf_send lk) 0 cmds)) r1 d)"

text \<open>How many commands of a poll the client executes.\<close>

fun sent_count :: "(nat \<Rightarrow> bool) \<Rightarrow> nat \<Rightarrow> nat \<Rightarrow> nat" where
  "sent_count ok i 0 = 0"
| "sent_count ok i (Suc n) = (if ok i then Suc (sent_count ok (Suc i) n) else 0)"

definition reached :: "bool \<Rightarrow> link_faults \<Rightarrow> nat \<Rightarrow> nat" where
  "reached dispatcher lk n = (if dispatcher then min (lf_received lk) (sent_count (lf_send lk) 0 n) else 0)"

lemma send_loop_sent: "send_loop sp ok i cs = map (toPBCommand sp) (take (sent_count ok i (length cs)) cs)"
  by (induction cs arbitrary: i) auto

lemma sent_count_all: "\<forall>i. ok i \<Longrightarrow> sent_count ok j n = n"
  by (induction n arbitrary: j) auto

lemma recv_loop_idle: "recv_loop sp env False ident serverToken token now arrives i ms r d = (r, d)"
  by (induction ms arbitrary: i) auto

text \<open>The specification: the dispatcher run on the commands themselves.\<close>

fun dispatch_all :: "dispatch_env \<Rightarrow> Command list \<Rightarrow> ('k, 'o) Deps \<Rightarrow> CommandAck list \<times> ('k, 'o) Deps" where
  "dispatch_all env [] d = ([], d)"
| "dispatch_all env (c # cs) d = (case Dispatch env c d of (a, d1) \<Rightarrow> (case dispatch_all env cs d1 of (as, d2) \<Rightarrow> (a # as, d2)))"

definition acked :: "'s Registry \<Rightarrow> string \<Rightarrow> CommandAck \<Rightarrow> bool" where
  "acked r aid a \<longleftrightarrow> (\<exists>k. map_of (rg_acks r) (ca_ID a) = Some k \<and> ca_ID k = ca_ID a \<and> ca_Success k = ca_Success a \<and> ca_Error k = ca_Error a \<and> ca_AgentID k = aid)"

lemma Dispatch_ack: "Dispatch env c d = (a, d1) \<Longrightarrow> ca_ID a = cm_ID c \<and> ca_AgentID a = [] \<and> ca_CompletedAt a = 0"
  by (auto simp: Dispatch_def Let_def split: prod.splits sum.splits)

lemma recv_step:
  assumes "authorise serverToken (withAuth token)" "sendable sp c" "Dispatch env c d = (a, d1)"
  shows "\<exists>k r1. recv_loop sp env True ident serverToken token now arrives i (toPBCommand sp c # ms) r d
      = recv_loop sp env True ident serverToken token now arrives (Suc i) ms (if arrives i then r1 else r) d1
    \<and> rg_acks r1 = AList.update (cm_ID c) k (rg_acks r) \<and> rg_commands r1 = rg_commands r
    \<and> ca_ID k = ca_ID a \<and> ca_Success k = ca_Success a \<and> ca_Error k = ca_Error a \<and> ca_AgentID k = ai_InstanceID ident"
proof -
  have i: "cm_ID c \<noteq> []" "ca_ID a = cm_ID c" "ca_AgentID a = []" using assms(2) Dispatch_ack [OF assms(3)] by (auto simp: sendable_def)
  let ?k = "toNativeAck (toPBAck sp (complete_ack now ident a))"
  have "ca_ID ?k = cm_ID c" "ca_Success ?k = ca_Success a" "ca_Error ?k = ca_Error a" "ca_AgentID ?k = ai_InstanceID ident"
    using i by (simp_all add: toNativeAck_def toPBAck_def complete_ack_def)
  then show ?thesis using i assms(1)
    by (intro exI [of _ ?k] exI [of _ "recordAck now ?k r"])
      (simp add: recv_command_def command_roundtrip [OF assms(2)] assms(3) grpc_Ack_def)
qed

definition outcome_of :: "'s Registry \<Rightarrow> 's Registry \<Rightarrow> string \<Rightarrow> bool \<Rightarrow> CommandAck \<Rightarrow> bool" where
  "outcome_of r r' aid arrived a \<longleftrightarrow> (if arrived then acked r' aid a else map_of (rg_acks r') (ca_ID a) = map_of (rg_acks r) (ca_ID a))"

lemma recv_all:
  assumes "authorise serverToken (withAuth token)"
  shows "list_all (sendable sp) cs \<Longrightarrow> distinct (map cm_ID cs) \<Longrightarrow> dispatch_all env cs d = (as, d2) \<Longrightarrow>
    \<exists>r'. recv_loop sp env True ident serverToken token now arrives i (map (toPBCommand sp) cs) r d = (r', d2)
      \<and> rg_commands r' = rg_commands r \<and> map ca_ID as = map cm_ID cs
      \<and> (\<forall>j < length cs. outcome_of r r' (ai_InstanceID ident) (arrives (i + j)) (as ! j))
      \<and> (\<forall>x. x \<notin> set (map cm_ID cs) \<longrightarrow> map_of (rg_acks r') x = map_of (rg_acks r) x)"
proof (induction cs arbitrary: d as r i)
  case (Cons c cs)
  let ?run = "recv_loop sp env True ident serverToken token now arrives"
  obtain a d1 where a: "Dispatch env c d = (a, d1)" by fastforce
  obtain as1 where s: "dispatch_all env cs d1 = (as1, d2)" "as = a # as1" using Cons.prems(3) a by (auto split: prod.splits)
  have c: "sendable sp c" using Cons.prems(1) by simp
  obtain k r1 where k: "?run i (map (toPBCommand sp) (c # cs)) r d = ?run (Suc i) (map (toPBCommand sp) cs) (if arrives i then r1 else r) d1"
    "rg_acks r1 = AList.update (cm_ID c) k (rg_acks r)" "rg_commands r1 = rg_commands r"
    "ca_ID k = ca_ID a" "ca_Success k = ca_Success a" "ca_Error k = ca_Error a" "ca_AgentID k = ai_InstanceID ident"
    using recv_step [OF assms c a, of ident now arrives i "map (toPBCommand sp) cs" r] by auto
  let ?r1 = "if arrives i then r1 else r"
  obtain r' where r': "?run (Suc i) (map (toPBCommand sp) cs) ?r1 d1 = (r', d2)" "rg_commands r' = rg_commands ?r1"
    "map ca_ID as1 = map cm_ID cs" "\<forall>j < length cs. outcome_of ?r1 r' (ai_InstanceID ident) (arrives (Suc i + j)) (as1 ! j)"
    "\<forall>x. x \<notin> set (map cm_ID cs) \<longrightarrow> map_of (rg_acks r') x = map_of (rg_acks ?r1) x"
    using Cons.IH [of d1 as1 "Suc i" ?r1] Cons.prems s(1) by auto
  have n: "cm_ID c \<notin> set (map cm_ID cs)" "ca_ID a = cm_ID c" using Cons.prems(2) Dispatch_ack [OF a] by auto
  have h: "outcome_of r r' (ai_InstanceID ident) (arrives i) a"
    using r'(5) n k by (auto simp: outcome_of_def acked_def update_conv')
  have t: "outcome_of r r' (ai_InstanceID ident) (arrives (Suc i + j)) (as1 ! j)" if "j < length cs" for j
  proof -
    have id: "ca_ID (as1 ! j) = cm_ID (cs ! j)" using r'(3) that by (metis nth_map length_map)
    then have "ca_ID (as1 ! j) \<noteq> cm_ID c" using n(1) that by (metis imageI list.set_map nth_mem)
    then show ?thesis using r'(4) that k(2) by (auto simp: outcome_of_def update_conv')
  qed
  have "outcome_of r r' (ai_InstanceID ident) (arrives (i + j)) (as ! j)" if "j < length (c # cs)" for j
    using h t [of "j - 1"] that s(2) by (cases j) auto
  moreover have "map_of (rg_acks r') x = map_of (rg_acks r) x" if "x \<notin> set (map cm_ID (c # cs))" for x
    using that r'(5) k(2) by (auto simp: update_conv')
  moreover have "rg_commands r' = rg_commands r" using r'(2) k(3) by simp
  ultimately show ?case using k(1) r'(1,3) n(2) s(2) by auto
qed simp

text \<open>
  C18. What becomes of queued commands. A poll of a connected agent's stream takes every command queued for it; the agent then executes exactly those
  that reach it, in order and unchanged by the conversions on the way, and whenever an acknowledgement arrives the control plane holds it
  with the success or the error of the execution and the id of the agent. When nothing fails, that is every queued command. When the server's
  \<open>Send\<close> fails, the stream breaks or the client has no dispatcher, the commands from that point on are lost: they are
  neither executed, nor queued any more, nor acknowledged; when only the acknowledgement fails, the command was executed and the
  control plane never learns it. Assumed: the agent's token is accepted, the commands have distinct ids, known kinds and payloads that protobuf carries unchanged.
\<close>

theorem commands_acknowledged:
  assumes "authorise serverToken (withAuth token)" "list_all (sendable sp) (queue_of (ai_InstanceID ident) r)"
    and "distinct (map cm_ID (queue_of (ai_InstanceID ident) r))"
    and "n = reached dispatcher lk (length (queue_of (ai_InstanceID ident) r))"
    and "dispatch_all env (take n (queue_of (ai_InstanceID ident) r)) d = (acks, d2)"
  shows "\<exists>r'. serve_poll sp env dispatcher ident serverToken token now lk r d = (r', d2) \<and> queue_of (ai_InstanceID ident) r' = []
    \<and> map ca_ID acks = map cm_ID (take n (queue_of (ai_InstanceID ident) r))
    \<and> (\<forall>i < length acks. if lf_ack lk i then acked r' (ai_InstanceID ident) (acks ! i)
         else map_of (rg_acks r') (ca_ID (acks ! i)) = map_of (rg_acks r) (ca_ID (acks ! i)))
    \<and> (\<forall>c \<in> set (drop n (queue_of (ai_InstanceID ident) r)). map_of (rg_acks r') (cm_ID c) = map_of (rg_acks r) (cm_ID c))
    \<and> (dispatcher \<and> (\<forall>i. lf_send lk i) \<and> length (queue_of (ai_InstanceID ident) r) \<le> lf_received lk
        \<longrightarrow> n = length (queue_of (ai_InstanceID ident) r))"
proof -
  let ?q = "queue_of (ai_InstanceID ident) r" and ?r = "snd (takeCommands now (ai_InstanceID ident) r)"
  let ?run = "recv_loop sp env dispatcher ident serverToken token now (lf_ack lk) 0 (take (lf_received lk) (send_loop sp (lf_send lk) 0 ?q)) ?r d"
  have t: "take n ?q @ drop n ?q = ?q" by simp
  have p: "list_all (sendable sp) (take n ?q)" "distinct (map cm_ID (take n ?q))"
    "\<forall>c \<in> set (drop n ?q). cm_ID c \<notin> set (map cm_ID (take n ?q))"
    using assms(2,3) by (metis t list_all_append, metis t distinct_append map_append, metis t distinct_append map_append disjoint_iff imageI list.set_map)
  have e: "rg_acks ?r = rg_acks r" "queue_of (ai_InstanceID ident) ?r = []"
    by (simp_all add: takeCommands_def queue_of_def delete_conv')
  obtain r' where r': "?run = (r', d2)" "rg_commands r' = rg_commands ?r" "map ca_ID acks = map cm_ID (take n ?q)"
    "\<forall>j < length (take n ?q). outcome_of ?r r' (ai_InstanceID ident) (lf_ack lk j) (acks ! j)"
    "\<forall>x. x \<notin> set (map cm_ID (take n ?q)) \<longrightarrow> map_of (rg_acks r') x = map_of (rg_acks ?r) x"
  proof (cases dispatcher)
    case True
    then have "take (lf_received lk) (send_loop sp (lf_send lk) 0 ?q) = map (toPBCommand sp) (take n ?q)"
      by (simp add: assms(4) reached_def send_loop_sent take_map min.commute)
    then show thesis using recv_all [OF assms(1) p(1,2) assms(5), of ident now "lf_ack lk" 0 ?r] that True by auto
  next
    case False
    then show thesis using that [of ?r] assms(4,5) by (simp add: reached_def recv_loop_idle)
  qed
  have l: "length acks = length (take n ?q)" using r'(3) by (metis length_map)
  have q: "queue_of (ai_InstanceID ident) r' = []" using r'(2) e(2) by (simp add: queue_of_def)
  have s: "serve_poll sp env dispatcher ident serverToken token now lk r d = (r', d2)"
    using r'(1) by (simp add: serve_poll_def takeCommands_def queue_of_def)
  have a: "if lf_ack lk i then acked r' (ai_InstanceID ident) (acks ! i)
      else map_of (rg_acks r') (ca_ID (acks ! i)) = map_of (rg_acks r) (ca_ID (acks ! i))" if "i < length acks" for i
    using r'(4) that l e(1) by (simp add: outcome_of_def)
  have "n = length ?q" if "dispatcher" "\<forall>i. lf_send lk i" "length ?q \<le> lf_received lk"
    using that by (simp add: assms(4) reached_def sent_count_all min_def)
  then show ?thesis using s q r'(3) a r'(5) p(3) e(1) by (intro exI [of _ r']) auto
qed

definition demo_identity :: AgentIdentity where
  "demo_identity = no_identity\<lparr>ai_InstanceID := ''h1''\<rparr>"

definition demo_structpb :: structpb where
  "demo_structpb = \<lparr>sb_json = Some, sb_typed = (\<lambda>pl. if list_ex (\<lambda>(k, v). case v of JArr _ \<Rightarrow> True | _ \<Rightarrow> False) pl then None else Some pl)\<rparr>"

definition demo_rotate :: Command where
  "demo_rotate = \<lparr>cm_ID = ''c1'', cm_Kind = CommandTokenRotate, cm_ContainerID = [], cm_Payload = [], cm_IssuedAt = 5\<rparr>"

theorem commands_acknowledged_witness:
  "\<forall>env. \<forall>d :: (unit, unit) Deps. \<exists>r'. serve_poll demo_structpb env True demo_identity ''t'' ''t'' 7
        \<lparr>lf_send = (\<lambda>i. i < 1), lf_received = 5, lf_ack = (\<lambda>_. True)\<rparr>
        (Enqueue 6 ''h1'' (demo_rotate\<lparr>cm_ID := ''c2''\<rparr>) (Enqueue 6 ''h1'' demo_rotate (NewRegistryWithStore (None :: (unit Store \<times> unit) option)))) d = (r', d)
     \<and> queue_of ''h1'' r' = [] \<and> (\<exists>a. acked r' ''h1'' a \<and> ca_ID a = ''c1'' \<and> \<not> ca_Success a) \<and> map_of (rg_acks r') ''c2'' = None"
proof (intro allI)
  fix env and d :: "(unit, unit) Deps"
  let ?r = "Enqueue 6 ''h1'' (demo_rotate\<lparr>cm_ID := ''c2''\<rparr>) (Enqueue 6 ''h1'' demo_rotate (NewRegistryWithStore (None :: (unit Store \<times> unit) option)))"
  let ?lk = "\<lparr>lf_send = (\<lambda>i. i < 1), lf_received = 5, lf_ack = (\<lambda>_. True)\<rparr>" and ?q = "[demo_rotate, demo_rotate\<lparr>cm_ID := ''c2''\<rparr>]"
  have q: "queue_of (ai_InstanceID demo_identity) ?r = ?q" "map_of (rg_acks ?r) ''c2'' = None"
    by (simp_all add: Enqueue_def NewRegistryWithStore_def hydrate_def mirror_def queue_of_def demo_identity_def no_identity_def update_conv')
  have a: "authorise ''t'' (withAuth ''t'')" by (simp add: authorise_def withAuth_def)
  have s: "list_all (sendable demo_structpb) ?q" "distinct (map cm_ID ?q)"
    by (simp_all add: sendable_def demo_rotate_def command_kinds_def)
  have n: "1 = reached True ?lk (length ?q)" by (simp add: reached_def)
  obtain a d' where d: "Dispatch env demo_rotate d = (a, d')" "ca_ID a = ''c1''" "\<not> ca_Success a" "d' = d"
    by (simp add: Dispatch_def run_command_def demo_rotate_def command_names)
  have "dispatch_all env (take 1 ?q) d = ([a], d)" using d by simp
  from commands_acknowledged [OF a s [folded q(1)] n [folded q(1)] this [folded q(1)], where now = 7] q d
  show "\<exists>r'. serve_poll demo_structpb env True demo_identity ''t'' ''t'' 7 ?lk ?r d = (r', d) \<and> queue_of ''h1'' r' = []
      \<and> (\<exists>a. acked r' ''h1'' a \<and> ca_ID a = ''c1'' \<and> \<not> ca_Success a) \<and> map_of (rg_acks r') ''c2'' = None"
    by (auto simp: demo_identity_def no_identity_def)
qed

section \<open>Results that do not come back\<close>

fun has_array :: "json \<Rightarrow> bool" where
  "has_array (JArr _) \<longleftrightarrow> True"
| "has_array (JObj kvs) \<longleftrightarrow> list_ex (\<lambda>kv. has_array (snd kv)) kvs"
| "has_array _ \<longleftrightarrow> False"

text \<open>The documented behaviour of \<open>structpb.NewValue\<close>: an array of a type other than \<open>[]any\<close> is an error.\<close>

definition refuses_typed_arrays :: "structpb \<Rightarrow> bool" where
  "refuses_typed_arrays sp \<longleftrightarrow> (\<forall>pl. list_ex (\<lambda>kv. has_array (snd kv)) pl \<longrightarrow> sb_typed sp pl = None)"

lemma approve_result:
  "autogenApprove env cfg cmd obs = (Inr (pl, ev), obs1) \<Longrightarrow> map_of pl ''snippet'' \<noteq> None \<and> list_ex (\<lambda>kv. has_array (snd kv)) pl"
  by (auto simp: autogenApprove_def Let_def split: if_splits prod.splits option.splits)

lemma stats_result:
  "collectStats env d = Inr pl \<Longrightarrow> dp_Traffic d \<noteq> None \<Longrightarrow> map_of pl ''containers'' \<noteq> None \<and> list_ex (\<lambda>kv. has_array (snd kv)) pl"
  by (auto simp: collectStats_def Let_def split: if_splits prod.splits option.splits sum.splits)

text \<open>
  C20. The results of approvals and statistics never come back. A proposal the agent has approved, and statistics it has collected with traffic
  counts, which the agent always has, are acknowledged as successes to the control plane, but without the label snippet, the policy text or the figures the agent computed: the
  conversion of the result fails and the failure is dropped.
\<close>

theorem results_lost:
  assumes "refuses_typed_arrays sp" "Dispatch env cmd d = (ack, d')" "ca_Success ack"
    and "cm_Kind cmd = CommandAutogenApprove \<or> cm_Kind cmd = CommandStatsCollect \<and> dp_Traffic d \<noteq> None"
  shows "ca_ResultPayload ack \<noteq> [] \<and> ca_Success (toNativeAck (toPBAck sp (complete_ack now ident ack)))
    \<and> ca_ResultPayload (toNativeAck (toPBAck sp (complete_ack now ident ack))) = []"
proof -
  have "list_ex (\<lambda>kv. has_array (snd kv)) (ca_ResultPayload ack)"
    using assms(4)
  proof
    assume k: "cm_Kind cmd = CommandAutogenApprove"
    have "run_command env cmd d = with_observer (autogenApprove env (dp_Config d) cmd) d" by (simp add: run_command_def k command_names)
    then show ?thesis using assms(2,3) approve_result
      by (fastforce simp: Dispatch_def Let_def with_observer_def split: prod.splits sum.splits option.splits)
  next
    assume k: "cm_Kind cmd = CommandStatsCollect \<and> dp_Traffic d \<noteq> None"
    have "run_command env cmd d = (collectStats env d, d)" using k by (simp add: run_command_def command_names)
    then show ?thesis using assms(2,3) stats_result [of env d] k by (auto simp: Dispatch_def Let_def split: sum.splits)
  qed
  then show ?thesis using assms(1,3) by (auto simp: toNativeAck_def toPBAck_def complete_ack_def refuses_typed_arrays_def)
qed

definition demo_stats_env :: dispatch_env where
  "demo_stats_env = \<lparr>de_world = demo_world\<lparr>w_containers := Inr []\<rparr>, de_now = 1, de_engine_text = (\<lambda>_. []), de_duration = (\<lambda>_. []), de_RFC3339 = (\<lambda>_. ''now''),
     de_itoa = (\<lambda>_. ''0''), de_print = (\<lambda>_. True)\<rparr>"

definition strict_structpb :: structpb where
  "strict_structpb = \<lparr>sb_json = Some, sb_typed = (\<lambda>pl. if list_ex (\<lambda>kv. has_array (snd kv)) pl then None else Some pl)\<rparr>"

theorem results_lost_witness:
  "\<forall>eng :: unit Engine. \<exists>ack d'. Dispatch demo_stats_env (demo_rotate\<lparr>cm_Kind := CommandStatsCollect\<rparr>)
       \<lparr>dp_Engine = eng, dp_Docker = True, dp_Config = None, dp_Traffic = Some (\<lambda>_. []), dp_Observer = (None :: unit Observer option), dp_Audit = None\<rparr> = (ack, d')
     \<and> map_of (ca_ResultPayload ack) ''at'' = Some (JStr ''now'') \<and> ca_ResultPayload (toNativeAck (toPBAck strict_structpb (complete_ack 7 demo_identity ack))) = []"
proof
  fix eng :: "unit Engine"
  let ?d = "\<lparr>dp_Engine = eng, dp_Docker = True, dp_Config = None, dp_Traffic = Some (\<lambda>_. []), dp_Observer = (None :: unit Observer option), dp_Audit = None\<rparr>"
  let ?c = "demo_rotate\<lparr>cm_Kind := CommandStatsCollect\<rparr>"
  obtain ack d' where d: "Dispatch demo_stats_env ?c ?d = (ack, d')" "ca_Success ack" "map_of (ca_ResultPayload ack) ''at'' = Some (JStr ''now'')"
    by (simp add: Dispatch_def run_command_def command_names collectStats_def demo_stats_env_def)
  have s: "refuses_typed_arrays strict_structpb" by (simp add: refuses_typed_arrays_def strict_structpb_def)
  from results_lost [OF s d(1,2), of 7 demo_identity] d
  show "\<exists>ack d'. Dispatch demo_stats_env ?c ?d = (ack, d') \<and> map_of (ca_ResultPayload ack) ''at'' = Some (JStr ''now'')
      \<and> ca_ResultPayload (toNativeAck (toPBAck strict_structpb (complete_ack 7 demo_identity ack))) = []"
    by auto
qed

section \<open>Snapshots\<close>

text \<open>How a container of Docker appears, for the configurations the engine has applied.\<close>

definition shown_as :: "(string \<times> ContainerConfig) list \<Rightarrow> ContainerInfo \<Rightarrow> ContainerState \<Rightarrow> bool" where
  "shown_as applied ctr c \<longleftrightarrow> cs_ID c = ci_ID ctr \<and> cs_Name c = ci_Name ctr \<and> cs_Status c = ci_Status ctr
     \<and> (case map_of applied (shortID (ci_ID ctr)) of
          None \<Rightarrow> cs_FirewallStatus c = ''disabled'' \<and> cs_RuleSetCount c = 0
        | Some cfg \<Rightarrow> cs_FirewallStatus c = ''active'' \<and> cs_DefaultPolicy c = DefaultPolicy cfg \<and> cs_RuleSetCount c = int (length (RuleSets cfg)))"

lemma int32_small: "0 \<le> n \<Longrightarrow> n < 2 ^ 31 \<Longrightarrow> int32 n = n"
  unfolding int32_def sint_sbintrunc' by (rule signed_take_bit_int_eq_self) simp_all

lemma container_state_shown:
  assumes "\<forall>cfg. map_of applied (shortID (ci_ID ctr)) = Some cfg \<longrightarrow> length (RuleSets cfg) < 2 ^ 31"
  shows "shown_as applied ctr ((container_state js applied ctr)\<lparr>cs_RuleSetCount := int32 (cs_RuleSetCount (container_state js applied ctr))\<rparr>)"
proof (cases "map_of applied (shortID (ci_ID ctr))")
  case None
  then show ?thesis by (simp add: shown_as_def container_state_def int32_small)
next
  case (Some cfg)
  have "int (length (RuleSets cfg)) < 2 ^ 31" using assms Some by (metis of_nat_less_iff of_nat_numeral of_nat_power)
  then show ?thesis using Some by (simp add: shown_as_def container_state_def int32_small split: option.splits)
qed

text \<open>What the store is asked to keep of a snapshot that was sent.\<close>

lemma snapshot_stored:
  assumes "SendSnapshot now ident True snap = Some ev" "rg_store r = Some (st, s)"
  shows "\<exists>s1 x. rg_store (handleEvent t ev r) = Some (st, snd (st_RecordSnapshot st t x s1)) \<and> s1 = snd (st_UpsertAgent st t (as_Agent x) s)
    \<and> as_Containers x = map (\<lambda>c. c\<lparr>cs_RuleSetCount := int32 (cs_RuleSetCount c)\<rparr>) (as_Containers snap) \<and> as_Traffic x = as_Traffic snap
    \<and> ai_InstanceID (as_Agent x) = ai_InstanceID ident \<and> as_At x = or_now now (as_At snap)"
proof -
  obtain k where k: "ev = EventSnapshot (Some k)" "ps_Agent k \<noteq> None" "as_Containers (toNativeSnapshot k) = map (\<lambda>c. c\<lparr>cs_RuleSetCount := int32 (cs_RuleSetCount c)\<rparr>) (as_Containers snap)"
    "as_Traffic (toNativeSnapshot k) = as_Traffic snap" "ai_InstanceID (as_Agent (toNativeSnapshot k)) = ai_InstanceID ident"
    "as_At (toNativeSnapshot k) = or_now now (as_At snap)"
    using assms(1) by (auto simp: SendSnapshot_def toPBSnapshot_def toNativeSnapshot_def toNativeIdentity_def as_time_def)
  have "rg_store (handleEvent t ev r) = Some (st, snd (st_RecordSnapshot st t (toNativeSnapshot k)
      (snd (st_UpsertAgent st t (as_Agent (toNativeSnapshot k)) s))))"
    using assms(2) k(1,2) by (auto simp: reg_RecordSnapshot_def edit_entry_def upsertAgent_def mirror_def Let_def split: option.splits)
  then show ?thesis using k by blast
qed

lemma newest_first_append:
  assumes "\<forall>y \<in> set xs. f y < f x"
  shows "newest_first f (xs @ [x]) = x # newest_first f xs"
proof -
  have "sort_key (\<lambda>x. - f x) (xs @ [x]) = x # sort_key (\<lambda>x. - f x) xs"
  proof (rule properties_for_sort_key)
    fix k assume "k \<in> set (x # sort_key (\<lambda>x. - f x) xs)"
    have "filter (\<lambda>y. - f k = - f y) (sort_key (\<lambda>x. - f x) xs) = filter (\<lambda>y. - f k = - f y) xs"
      using sort_key_stable [of "\<lambda>x. - f x" "- f k" xs] by (simp add: eq_commute)
    moreover have "filter (\<lambda>y. f x = f y) xs = []" using assms by (auto simp: filter_empty_conv)
    ultimately show "filter (\<lambda>y. - f k = - f y) (x # sort_key (\<lambda>x. - f x) xs) = filter (\<lambda>y. - f k = - f y) (xs @ [x])"
      by (cases "f k = f x") auto
  qed (use assms in \<open>auto simp: less_imp_le\<close>)
  then show ?thesis by (simp add: newest_first_def)
qed

lemma mem_LatestSnapshot_recorded:
  "st_LatestSnapshot (mem_Store sha256) (ai_InstanceID (as_Agent x)) (snd (st_RecordSnapshot (mem_Store sha256) t x m))
   = (Inr (Some x), snd (st_RecordSnapshot (mem_Store sha256) t x m))"
  by (simp add: mem_Store_def no_err_def mem_RecordSnapshot_def mem_LatestSnapshot_def Let_def update_conv')

lemma sql_LatestSnapshot_recorded:
  assumes "\<forall>n i. flt n i = None" "\<forall>y \<in> set (d_snapshots (snd ns)). sr_agent_id y = ai_InstanceID (as_Agent x) \<longrightarrow> sr_at y < or_now t (as_At x)"
  shows "fst (st_LatestSnapshot (sqlite_Store sha256 flt) (ai_InstanceID (as_Agent x))
     (snd (st_RecordSnapshot (sqlite_Store sha256 flt) t x (snd (st_UpsertAgent (sqlite_Store sha256 flt) t a ns))))) = Inr (Some x)"
proof -
  obtain n db where ns: "ns = (n, db)" by (cases ns)
  have "newest_first sr_at (filter (\<lambda>r. sr_agent_id r = ai_InstanceID (as_Agent x)) (d_snapshots db)
      @ [\<lparr>sr_id = i, sr_agent_id = ai_InstanceID (as_Agent x), sr_at = or_now t (as_At x), sr_payload = x\<rparr>])
    = \<lparr>sr_id = i, sr_agent_id = ai_InstanceID (as_Agent x), sr_at = or_now t (as_At x), sr_payload = x\<rparr>
      # newest_first sr_at (filter (\<lambda>r. sr_agent_id r = ai_InstanceID (as_Agent x)) (d_snapshots db))" for i
    by (rule newest_first_append) (use assms(2) in \<open>auto simp: ns\<close>)
  then show ?thesis using assms(1)
    by (simp add: ns sqlite_Store_def faulty_def faulty_read_def sql_UpsertAgent_def sql_RecordSnapshot_def sql_LatestSnapshot_def Let_def)
qed

text \<open>
  C19. What the control plane shows of an agent is true. After a snapshot of the agent's engine has been taken, sent and received, the latest snapshot that the
  control plane reads back for the agent's id, on either store, lists exactly the containers Docker had, in order, each as active if and only if the engine
  has rules applied for it, with the policy and the number of rule sets that are applied, and with the traffic of the last hour. The persistent store works without faults
  and holds no snapshot of this agent with the same or a later time of the agent's clock (it orders snapshots by that time).
\<close>

theorem snapshot_truthful:
  assumes "engine_Snapshot js w now e traffic ident = Inr snap" "w_containers w = Inr containers"
    and "list_all (\<lambda>(sid, cfg). length (RuleSets cfg) < 2 ^ 31) (GetApplied e)" "snapshot_tick now ident True (Inr snap) items = ev # rest"
    and "rg_store r = Some (mem_Store sha256, m)"
    and "rg_store q = Some (sqlite_Store sha256 flt, ns)" "\<forall>n i. flt n i = None"
    and "\<forall>y \<in> set (d_snapshots (snd ns)). sr_agent_id y = ai_InstanceID ident \<longrightarrow> sr_at y < or_now t (or_now now (as_At snap))"
  shows "\<exists>m' ns' s s'. rg_store (handleEvent t ev r) = Some (mem_Store sha256, m') \<and> rg_store (handleEvent t ev q) = Some (sqlite_Store sha256 flt, ns')
    \<and> fst (st_LatestSnapshot (mem_Store sha256) (ai_InstanceID ident) m') = Inr (Some s)
    \<and> fst (st_LatestSnapshot (sqlite_Store sha256 flt) (ai_InstanceID ident) ns') = Inr (Some s')
    \<and> list_all (\<lambda>x. list_all2 (shown_as (GetApplied e)) containers (as_Containers x)
        \<and> as_Traffic x = (case traffic of None \<Rightarrow> [] | Some ts \<Rightarrow> traffic_Last 60 ts)) [s, s']"
proof -
  have sn: "as_Containers snap = map (container_state js (GetApplied e)) containers" "as_Traffic snap = (case traffic of None \<Rightarrow> [] | Some ts \<Rightarrow> traffic_Last 60 ts)"
    using assms(1,2) by (auto simp: engine_Snapshot_def)
  have ev: "SendSnapshot now ident True snap = Some ev" using assms(4) by (auto simp: snapshot_tick_def SendSnapshot_def opt_list_def)
  have k: "\<forall>cfg. map_of (GetApplied e) i = Some cfg \<longrightarrow> length (RuleSets cfg) < 2 ^ 31" for i
    using assms(3) by (auto simp: list_all_iff dest!: map_of_SomeD)
  have sh: "list_all2 (shown_as (GetApplied e)) containers (as_Containers x)"
    if "as_Containers x = map (\<lambda>c. c\<lparr>cs_RuleSetCount := int32 (cs_RuleSetCount c)\<rparr>) (as_Containers snap)" for x :: AgentSnapshot
    unfolding that sn(1) using k by (auto simp: list_all2_conv_all_nth intro!: container_state_shown)
  obtain m1 x where m: "rg_store (handleEvent t ev r) = Some (mem_Store sha256, snd (st_RecordSnapshot (mem_Store sha256) t x m1))"
    "as_Containers x = map (\<lambda>c. c\<lparr>cs_RuleSetCount := int32 (cs_RuleSetCount c)\<rparr>) (as_Containers snap)" "as_Traffic x = as_Traffic snap"
    "ai_InstanceID (as_Agent x) = ai_InstanceID ident"
    using snapshot_stored [OF ev assms(5)] by blast
  obtain y where y: "rg_store (handleEvent t ev q) = Some (sqlite_Store sha256 flt, snd (st_RecordSnapshot (sqlite_Store sha256 flt) t y
      (snd (st_UpsertAgent (sqlite_Store sha256 flt) t (as_Agent y) ns))))"
    "as_Containers y = map (\<lambda>c. c\<lparr>cs_RuleSetCount := int32 (cs_RuleSetCount c)\<rparr>) (as_Containers snap)" "as_Traffic y = as_Traffic snap"
    "ai_InstanceID (as_Agent y) = ai_InstanceID ident" "as_At y = or_now now (as_At snap)"
    using snapshot_stored [OF ev assms(6)] by blast
  have "fst (st_LatestSnapshot (mem_Store sha256) (ai_InstanceID ident) (snd (st_RecordSnapshot (mem_Store sha256) t x m1))) = Inr (Some x)"
    using mem_LatestSnapshot_recorded [of sha256 x t m1] m(4) by simp
  moreover have "fst (st_LatestSnapshot (sqlite_Store sha256 flt) (ai_InstanceID ident) (snd (st_RecordSnapshot (sqlite_Store sha256 flt) t y
      (snd (st_UpsertAgent (sqlite_Store sha256 flt) t (as_Agent y) ns))))) = Inr (Some y)"
    using sql_LatestSnapshot_recorded [of flt ns y t sha256 "as_Agent y"] assms(7,8) y(4,5) by simp
  ultimately show ?thesis using m(1-3) y(1-3) sh sn(2) by auto
qed

theorem snapshot_truthful_witness:
  "\<forall>e :: unit Engine. \<exists>m' s. rg_store (handleEvent 9 (hd (snapshot_tick 5 demo_identity True
        (engine_Snapshot \<lparr>sj_ruleSets = (\<lambda>_. None), sj_hostRules = (\<lambda>_. None)\<rparr> (demo_world\<lparr>w_containers := Inr [demo_container]\<rparr>) 5
           (e\<lparr>e_applied := []\<rparr>) None demo_identity) []))
        (NewRegistryWithStore (Some (sqlite_Store (\<lambda>_. []) (\<lambda>_ _. None), (0, empty_db))))) = Some (sqlite_Store (\<lambda>_. []) (\<lambda>_ _. None), m')
     \<and> fst (st_LatestSnapshot (sqlite_Store (\<lambda>_. []) (\<lambda>_ _. None)) ''h1'' m') = Inr (Some s) \<and> map cs_FirewallStatus (as_Containers s) = [''disabled'']"
proof
  fix e :: "unit Engine"
  let ?e = "e\<lparr>e_applied := []\<rparr>" and ?js = "\<lparr>sj_ruleSets = (\<lambda>_. None), sj_hostRules = (\<lambda>_. None)\<rparr>" and ?w = "demo_world\<lparr>w_containers := Inr [demo_container]\<rparr>"
  let ?q = "NewRegistryWithStore (Some (sqlite_Store (\<lambda>_. []) (\<lambda>_ _. None), (0, empty_db)))" and ?r = "NewRegistryWithStore (Some (mem_Store (\<lambda>_. []), NewMemoryStore))"
  have c: "w_containers ?w = Inr [demo_container]" by simp
  obtain snap where sn: "engine_Snapshot ?js ?w 5 ?e None demo_identity = Inr snap" by (simp add: engine_Snapshot_def)
  have t: "snapshot_tick 5 demo_identity True (Inr snap) [] = [hd (snapshot_tick 5 demo_identity True (Inr snap) [])]"
    by (simp add: snapshot_tick_def SendSnapshot_def SendAutogenProposals_def opt_list_def)
  have a: "list_all (\<lambda>(sid, cfg). length (RuleSets cfg) < 2 ^ 31) (GetApplied ?e)" by (simp add: GetApplied_def)
  have i: "ai_InstanceID demo_identity = ''h1''" by (simp add: demo_identity_def no_identity_def)
  have r: "rg_store ?r = Some (mem_Store (\<lambda>_. []), NewMemoryStore)"
    by (simp add: NewRegistryWithStore_def hydrate_def mem_Store_def)
  have q: "rg_store ?q = Some (sqlite_Store (\<lambda>_. []) (\<lambda>_ _. None), (1, empty_db))"
    by (simp add: NewRegistryWithStore_def hydrate_def sqlite_Store_def faulty_read_def faulty_def sql_ListAgents_def empty_db_def)
  have d: "\<forall>y \<in> set (d_snapshots (snd (1, empty_db))). sr_agent_id y = ai_InstanceID demo_identity \<longrightarrow> sr_at y < or_now 9 (or_now 5 (as_At snap))"
    by (simp add: empty_db_def)
  from snapshot_truthful [OF sn c a t r q _ d]
  show "\<exists>m' s. rg_store (handleEvent 9 (hd (snapshot_tick 5 demo_identity True (engine_Snapshot ?js ?w 5 ?e None demo_identity) [])) ?q)
        = Some (sqlite_Store (\<lambda>_. []) (\<lambda>_ _. None), m')
     \<and> fst (st_LatestSnapshot (sqlite_Store (\<lambda>_. []) (\<lambda>_ _. None)) ''h1'' m') = Inr (Some s) \<and> map cs_FirewallStatus (as_Containers s) = [''disabled'']"
    unfolding sn i by (force simp: GetApplied_def shown_as_def list_all2_Cons1)
qed

section \<open>Delays between connections\<close>

lemma nextBackoff_bounds: "backoffMin \<le> b \<Longrightarrow> b \<le> backoffMax \<Longrightarrow> backoffMin \<le> nextBackoff b \<and> nextBackoff b \<le> backoffMax"
  by (auto simp: nextBackoff_def backoffMin_def backoffMax_def second_def)

text \<open>Delays after an error stay between a quarter of a second and 36 seconds; after a stream the server has ended there is none.\<close>

lemma reconnect_delays:
  assumes "list_all (\<lambda>(ended, off). \<bar>off\<bar> \<le> backoffMax div 5) os" "backoffMin \<le> b" "b \<le> backoffMax"
  shows "list_all2 (\<lambda>(ended, off) d. if ended then d = 0 else backoffMin \<le> d \<and> d \<le> 36 * second) os (reconnect_run os b)"
  using assms
proof (induction os b rule: reconnect_run.induct)
  case (2 ended off os b)
  have "backoffMin \<le> jitter off b" "jitter off b \<le> 36 * second"
    using 2 by (auto simp: jitter_def Let_def backoffMin_def backoffMax_def second_def)
  then show ?case using 2 nextBackoff_bounds [of b] by (auto simp: backoffMin_def backoffMax_def second_def)
qed simp

section \<open>Logged packets\<close>

lemma prefix_of_rule:
  "last (buildNflogRule proto port srcs [] action) = truncate_str LogPrefixMaxLen (filter safe_prefix_char (''FIREFIK '' @ action))"
  by (simp add: buildNflogRule_def Let_def)

text \<open>
  Packets logged by host rules are never seen. The reader takes a packet logged by a container rule with the default prefix, and knows whether it was dropped or
  accepted; but it skips every packet logged by a host rule with the default prefix, so these reach neither the log stream, nor the traffic counts, nor the learning.
\<close>

theorem host_logs_unseen:
  assumes "action \<in> set [''DROP'', ''ACCEPT'']" "strings_TrimSpace blank = []"
  shows "map_option le_Action (buildLogEntry gopacket (last (buildNflogRule proto port srcs [] action)) [] ts) = Some action
    \<and> nflog_hook env e (Some (last (hostNflog_args hproto ports peer blank action))) payload s = s"
proof -
  have p: "last (buildNflogRule proto port srcs [] action) = ''FIREFIK '' @ action" using assms(1)
    by (auto simp: prefix_of_rule safe_prefix_char_def truncate_str_def LogPrefixMaxLen_def)
  have 1: "map_option le_Action (buildLogEntry gopacket (last (buildNflogRule proto port srcs [] action)) [] ts) = Some action"
    unfolding p using assms(1) by (auto simp: buildLogEntry_def strings_Contains_def sublist_Cons_right)
  have h: "last (hostNflog_args hproto ports peer blank action) = ''firefik-host-'' @ action" using assms
    by (auto simp: hostNflog_args_def truncate_str_def LogPrefixMaxLen_def Let_def)
  have "\<not> strings_Contains (''firefik-host-'' @ action) ''FIREFIK''" using assms(1) by (auto simp: strings_Contains_def sublist_Cons_right)
  then have "nflog_hook env e (Some (last (hostNflog_args hproto ports peer blank action))) payload s = s"
    unfolding h by (simp add: nflog_hook_def buildLogEntry_def)
  with 1 show ?thesis ..
qed

definition no_layers :: packet_layers where
  "no_layers = \<lparr>ly_IPv4 = None, ly_IPv6 = None, ly_TCP = None, ly_UDP = None\<rparr>"

theorem host_logs_unseen_witness:
  "map_option le_Action (buildLogEntry (\<lambda>_ _. no_layers) (last (buildNflogRule ''tcp'' ''80'' [] [] ''DROP'')) [] ''now'') = Some ''DROP''
   \<and> (\<forall>e :: unit Engine. nflog_hook \<lparr>rv_now = 0, rv_minute = ''m'', rv_timestamp = ''now'', rv_gopacket = (\<lambda>_ _. no_layers), rv_marshal = (\<lambda>_. Some ''{}'')\<rparr>
        e (Some (last (hostNflog_args ''tcp'' [22] no_peer [] ''DROP''))) None \<lparr>rd_hub = NewHub, rd_traffic = NewTrafficStore, rd_observer = (None :: unit Observer option)\<rparr>
      = \<lparr>rd_hub = NewHub, rd_traffic = NewTrafficStore, rd_observer = None\<rparr>)"
proof -
  have b: "strings_TrimSpace [] = []" by (simp add: strings_TrimSpace_def)
  have "''DROP'' \<in> set [''DROP'', ''ACCEPT'']" by simp
  from host_logs_unseen [OF this b] show ?thesis by blast
qed

end
