(* ===== verification/Admin_Tools.thy ===== *)
theory Admin_Tools
  imports Engine_Properties Agent_Policies
begin

text \<open>
  The command line tool \<open>backend/cmd/firefik-admin\<close>: the commands that look at the chains of a host and remove them (\<open>inventory.go\<close>,
  \<open>status.go\<close>, \<open>check.go\<close>, \<open>drain.go\<close>, \<open>forcereset.go\<close>, \<open>reap.go\<close>), the ones that compare them with the running agent or explain a policy
  (\<open>diff.go\<close>, \<open>explain.go\<close>) and \<open>reconcile.go\<close>, which runs an engine of its own. A command gets its parsed flags, works on a kernel through a backend and
  returns an error or what it prints, with the kernel it leaves. The constructors of the backends, the terminal and the HTTP
  client are the record \<open>admin_env\<close>.
\<close>

section \<open>Flags, backends and the terminal (main.go)\<close>

record globalFlags =
  gf_chain :: string
  gf_parent :: string
  gf_backend :: string
  gf_output :: string

datatype admin_error =
    AdmRefuse string
  | AdmInit string string
  | AdmBackend string backend_error
  | AdmRemoveErrors nat
  | AdmNoTerminal
  | AdmAborted
  | AdmMissing string
  | AdmSuffix config_error
  | AdmNoLegacy string
  | AdmCall string string
  | AdmStatus nat
  | AdmDrift
  | AdmPath string
  | AdmEngine engine_error

record 'k admin_env =
  ae_detect :: string
  ae_newIPT :: "string \<Rightarrow> string \<Rightarrow> string + 'k Backend"
  ae_newNFT :: "string \<Rightarrow> string + 'k Backend"
  ae_stdin :: "string \<times> bool"

definition defaultChain :: string where "defaultChain = ''FIREFIK''"

definition defaultParent :: string where "defaultParent = ''DOCKER-USER''"

definition parseGlobals :: globalFlags where
  "parseGlobals = \<lparr>gf_chain = defaultChain, gf_parent = defaultParent, gf_backend = ''auto'', gf_output = ''text''\<rparr>"

definition backend_kind :: "'k admin_env \<Rightarrow> globalFlags \<Rightarrow> string" where
  "backend_kind env g = (if gf_backend g = ''auto'' then ae_detect env else gf_backend g)"

text \<open>A backend after its \<open>SetupChains\<close>, with the label of the error.\<close>

definition setup_backend :: "string \<Rightarrow> string \<Rightarrow> 'k Backend \<Rightarrow> 'k \<Rightarrow> (admin_error + 'k Backend \<times> string) \<times> 'k" where
  "setup_backend label kind b k =
     (case be_SetupChains b k of
        (Some e, k1) \<Rightarrow> (Inl (AdmBackend label e), k1)
      | (None, k1) \<Rightarrow> (Inr (b, kind), k1))"

definition resolveBackend :: "'k admin_env \<Rightarrow> globalFlags \<Rightarrow> bool \<Rightarrow> 'k \<Rightarrow> (admin_error + 'k Backend \<times> string) \<times> 'k" where
  "resolveBackend env g setup k =
     (let kind = backend_kind env g in
      if kind = ''nftables'' then
        (case ae_newNFT env (gf_chain g) of
           Inl e \<Rightarrow> (Inl (AdmInit ''init nftables'' e), k)
         | Inr b \<Rightarrow> if setup then setup_backend ''nftables setup'' kind b k else (Inr (b, kind), k))
      else
        (case ae_newIPT env (gf_chain g) (gf_parent g) of
           Inl e \<Rightarrow> (Inl (AdmInit ''init iptables'' e), k)
         | Inr b \<Rightarrow> if setup then setup_backend ''iptables setup'' kind b k else (Inr (b, kind), k)))"

definition isSystemChain :: "string \<Rightarrow> bool" where
  "isSystemChain chain \<longleftrightarrow>
     (let upper = strings_ToUpper chain in
      upper \<in> set [''INPUT'', ''OUTPUT'', ''FORWARD'', ''PREROUTING'', ''POSTROUTING'',
        ''DOCKER-USER'', ''DOCKER'', ''DOCKER-ISOLATION-STAGE-1'', ''DOCKER-ISOLATION-STAGE-2'']
      \<or> strings_HasPrefix upper ''DOCKER-'' \<and> \<not> strings_HasPrefix upper ''FIREFIK'')"

text \<open>The line typed, without its end, and whether the input ended with it.\<close>

definition promptDelete :: "string \<times> bool \<Rightarrow> admin_error option" where
  "promptDelete inp =
     (case inp of (ln, eof) \<Rightarrow>
        if eof \<and> strings_TrimSpace ln = [] then Some AdmNoTerminal
        else if strings_TrimSpace ln \<noteq> ''DELETE'' then Some AdmAborted else None)"

section \<open>Looking (inventory.go, status.go, check.go)\<close>

record inventoryReport =
  iv_Backend :: string
  iv_Chain :: string
  iv_Parent :: string
  iv_TrackedContainers :: nat
  iv_ContainerShortIDs :: "string list"

record statusReport =
  st_Backend :: string
  st_Chain :: string
  st_Parent :: string
  st_ContainerChains :: nat

record checkReport =
  ck_Backend :: string
  ck_Chain :: string
  ck_Parent :: string
  ck_BaseChainPresent :: bool
  ck_ParentJumpPresent :: bool
  ck_ContainerChainCount :: nat
  ck_Drift :: bool
  ck_Notes :: "string list"

text \<open>What the commands share: a backend, and the containers it has chains for.\<close>

definition with_ids :: "'k admin_env \<Rightarrow> globalFlags \<Rightarrow> bool \<Rightarrow> ('k Backend \<Rightarrow> string \<Rightarrow> string list \<Rightarrow> 'k \<Rightarrow> (admin_error + 'r) \<times> 'k)
    \<Rightarrow> 'k \<Rightarrow> (admin_error + 'r) \<times> 'k" where
  "with_ids env g setup f k =
     (case resolveBackend env g setup k of
        (Inl e, k1) \<Rightarrow> (Inl e, k1)
      | (Inr (b, kind), k1) \<Rightarrow>
          (case be_ListAppliedContainerIDs b k1 of
             Inl e \<Rightarrow> (Inl (AdmBackend ''enumerate chains'' e), k1)
           | Inr ids \<Rightarrow> f b kind ids k1))"

definition cmdInventory :: "'k admin_env \<Rightarrow> globalFlags \<Rightarrow> 'k \<Rightarrow> (admin_error + inventoryReport) \<times> 'k" where
  "cmdInventory env g =
     with_ids env g False (\<lambda>b kind ids k.
       (Inr \<lparr>iv_Backend = kind, iv_Chain = gf_chain g, iv_Parent = gf_parent g, iv_TrackedContainers = length ids,
             iv_ContainerShortIDs = ids\<rparr>, k))"

definition cmdStatus :: "'k admin_env \<Rightarrow> globalFlags \<Rightarrow> 'k \<Rightarrow> (admin_error + statusReport) \<times> 'k" where
  "cmdStatus env g =
     with_ids env g False (\<lambda>b kind ids k.
       (Inr \<lparr>st_Backend = kind, st_Chain = gf_chain g, st_Parent = gf_parent g, st_ContainerChains = length ids\<rparr>, k))"

text \<open>The second component of the result is the exit status.\<close>

definition cmdCheck :: "'k admin_env \<Rightarrow> globalFlags \<Rightarrow> 'k \<Rightarrow> (admin_error + checkReport \<times> nat) \<times> 'k" where
  "cmdCheck env g k =
     (case resolveBackend env g False k of
        (Inl e, k1) \<Rightarrow> (Inl e, k1)
      | (Inr (b, kind), k1) \<Rightarrow>
          (case be_Healthy b k1 of
             (Some e, _) \<Rightarrow> (Inl (AdmBackend ''health check'' e), k1)
           | (None, health) \<Rightarrow>
               (let drift = (\<not> hp_BaseChainPresent health \<or> \<not> hp_ParentJumpPresent health) in
                (Inr (\<lparr>ck_Backend = kind, ck_Chain = gf_chain g, ck_Parent = gf_parent g,
                       ck_BaseChainPresent = hp_BaseChainPresent health, ck_ParentJumpPresent = hp_ParentJumpPresent health,
                       ck_ContainerChainCount = hp_ContainerChainCount health, ck_Drift = drift, ck_Notes = hp_Notes health\<rparr>,
                      if drift then 2 else 0), k1))))"

section \<open>Removing (drain.go, forcereset.go, reap.go)\<close>

text \<open>Removal of the chains of some containers, one after the other; the number counts the failures.\<close>

fun remove_chains :: "'k Backend \<Rightarrow> string list \<Rightarrow> 'k \<Rightarrow> nat \<times> 'k" where
  "remove_chains b [] k = (0, k)"
| "remove_chains b (cid # cids) k =
     (case be_RemoveContainerChains b cid k of (err, k1) \<Rightarrow>
        (case remove_chains b cids k1 of (n, k2) \<Rightarrow> ((if err = None then n else Suc n), k2)))"

datatype admin_report =
    NothingToDo
  | Drained nat bool
  | ForceRemoved nat

definition confirm_delete :: "'k admin_env \<Rightarrow> bool \<Rightarrow> bool \<Rightarrow> admin_error option" where
  "confirm_delete env confirm yes = (if confirm \<or> yes then None else promptDelete (ae_stdin env))"

definition cmdDrain :: "'k admin_env \<Rightarrow> globalFlags \<Rightarrow> bool \<Rightarrow> bool \<Rightarrow> bool \<Rightarrow> 'k \<Rightarrow> (admin_error + admin_report) \<times> 'k" where
  "cmdDrain env g confirm yes keepParent k =
     (if isSystemChain (gf_chain g) then (Inl (AdmRefuse (gf_chain g)), k)
      else with_ids env g True (\<lambda>b kind ids k1.
        if ids = [] \<and> keepParent then (Inr NothingToDo, k1)
        else (case confirm_delete env confirm yes of
          Some e \<Rightarrow> (Inl e, k1)
        | None \<Rightarrow>
            (case remove_chains b ids k1 of (removeErrs, k2) \<Rightarrow>
               (case (if keepParent then (None, k2) else be_Cleanup b k2) of
                  (Some e, k3) \<Rightarrow> (Inl (AdmBackend ''base chain teardown'' e), k3)
                | (None, k3) \<Rightarrow>
                    if 0 < removeErrs then (Inl (AdmRemoveErrors removeErrs), k3)
                    else (Inr (Drained (length ids) keepParent), k3))))) k)"

definition cmdForceReset :: "'k admin_env \<Rightarrow> globalFlags \<Rightarrow> bool \<Rightarrow> bool \<Rightarrow> bool \<Rightarrow> 'k \<Rightarrow> (admin_error + admin_report) \<times> 'k" where
  "cmdForceReset env g confirm yes dangerousOK k =
     (if isSystemChain (gf_chain g) \<and> \<not> dangerousOK then (Inl (AdmRefuse (gf_chain g)), k)
      else with_ids env g True (\<lambda>b kind ids k1.
        if ids = [] then (Inr NothingToDo, k1)
        else (case confirm_delete env confirm yes of
          Some e \<Rightarrow> (Inl e, k1)
        | None \<Rightarrow> (case remove_chains b ids k1 of (_, k2) \<Rightarrow> (Inr (ForceRemoved (length ids)), k2)))) k)"

record reapReport =
  rp_Backend :: string
  rp_Chain :: string
  rp_Suffix :: string
  rp_LegacyChain :: string
  rp_DryRun :: bool
  rp_ContainerIDs :: "string list"
  rp_ChainsRemoved :: nat
  rp_WouldRemove :: nat

definition newBackendForChain :: "'k admin_env \<Rightarrow> globalFlags \<Rightarrow> string \<Rightarrow> 'k \<Rightarrow> (admin_error + 'k Backend \<times> string) \<times> 'k" where
  "newBackendForChain env g chain k =
     (let kind = backend_kind env g in
      if strings_ToLower kind = ''nftables'' then
        (case ae_newNFT env chain of
           Inl e \<Rightarrow> (Inl (AdmInit ''init nftables'' e), k)
         | Inr b \<Rightarrow> setup_backend ''nftables setup'' kind b k)
      else
        (case ae_newIPT env chain (gf_parent g) of
           Inl e \<Rightarrow> (Inl (AdmInit ''init iptables'' e), k)
         | Inr b \<Rightarrow> (Inr (b, kind), k)))"

definition reap_chain :: "globalFlags \<Rightarrow> string \<Rightarrow> bool \<Rightarrow> string \<Rightarrow> 'k Backend \<Rightarrow> string \<Rightarrow> 'k \<Rightarrow> (admin_error + reapReport) \<times> 'k" where
  "reap_chain g suf dryRun legacyChain b kind k =
     (case be_ListAppliedContainerIDs b k of
        Inl e \<Rightarrow> (Inl (AdmBackend ''enumerate chains'' e), k)
      | Inr ids \<Rightarrow>
          (let rep = \<lparr>rp_Backend = kind, rp_Chain = gf_chain g, rp_Suffix = suf, rp_LegacyChain = legacyChain, rp_DryRun = dryRun,
                      rp_ContainerIDs = ids, rp_ChainsRemoved = 0, rp_WouldRemove = 0\<rparr> in
           if dryRun then (Inr (rep\<lparr>rp_WouldRemove := length ids\<rparr>), k)
           else (case be_Cleanup b k of
              (Some e, k1) \<Rightarrow> (Inl (AdmBackend ''reap'' e), k1)
            | (None, k1) \<Rightarrow> (Inr (rep\<lparr>rp_ChainsRemoved := length ids\<rparr>), k1))))"

definition cmdReap :: "'k admin_env \<Rightarrow> globalFlags \<Rightarrow> string \<Rightarrow> bool \<Rightarrow> 'k \<Rightarrow> (admin_error + reapReport) \<times> 'k" where
  "cmdReap env g suf dryRun k =
     (if suf = [] then (Inl (AdmMissing ''--suffix''), k)
      else (case ValidateSuffix suf of
        Some e \<Rightarrow> (Inl (AdmSuffix e), k)
      | None \<Rightarrow>
          if isSystemChain (gf_chain g) \<or> isSystemChain (gf_chain g @ ''-'' @ suf) then (Inl (AdmRefuse (gf_chain g)), k)
          else (case DeriveLegacyChains (gf_chain g) (gf_chain g) [suf] of
             [] \<Rightarrow> (Inl (AdmNoLegacy suf), k)
           | legacyChain # _ \<Rightarrow>
               (case newBackendForChain env g legacyChain k of
                  (Inl e, k1) \<Rightarrow> (Inl e, k1)
                | (Inr (b, kind), k1) \<Rightarrow> reap_chain g suf dryRun legacyChain b kind k1))))"

section \<open>Comparing with the agent (diff.go)\<close>

record diffReport =
  df_Backend :: string
  df_Chain :: string
  df_ApiURL :: string
  df_OrphanIDs :: "string list"
  df_MissingIDs :: "string list"
  df_Drift :: bool

text \<open>An answer of the agent: its status and, when the body decodes, the \<open>containerID\<close> of every entry.\<close>

type_synonym rules_answer = "nat \<times> string list option"

definition fetchAPIContainerIDs :: "(string \<Rightarrow> string option \<Rightarrow> string + rules_answer) \<Rightarrow> string \<Rightarrow> string \<Rightarrow> admin_error + string list" where
  "fetchAPIContainerIDs client url token =
     (let auth = (if token \<noteq> [] then Some (''Bearer '' @ token) else None) in
      if strings_HasPrefix url ''unix://'' then Inl (AdmCall ''unix'' url)
      else (case client url auth of
         Inl e \<Rightarrow> Inl (AdmCall url e)
       | Inr (status, body) \<Rightarrow>
           if status \<noteq> 200 then Inl (AdmStatus status)
           else (case body of
              None \<Rightarrow> Inl (AdmCall ''decode JSON'' url)
            | Some entries \<Rightarrow> Inr (filter (\<lambda>cid. cid \<noteq> []) entries))))"

definition only_in :: "string list \<Rightarrow> string list \<Rightarrow> string list" where
  "only_in xs ys = sort (remdups (filter (\<lambda>x. x \<notin> set ys) xs))"

text \<open>The report is printed in any case; drift is an error of the command.\<close>

definition cmdDiff :: "'k admin_env \<Rightarrow> globalFlags \<Rightarrow> (string \<Rightarrow> string option \<Rightarrow> string + rules_answer) \<Rightarrow> string \<Rightarrow> string \<Rightarrow> string
    \<Rightarrow> 'k \<Rightarrow> (admin_error + diffReport \<times> admin_error option) \<times> 'k" where
  "cmdDiff env g client apiURL token envToken k =
     (case fetchAPIContainerIDs client apiURL (if token = [] then envToken else token) of
        Inl e \<Rightarrow> (Inl e, k)
      | Inr memIDs \<Rightarrow>
          with_ids env g False (\<lambda>b kind kernelIDs k1.
            (let orphans = only_in kernelIDs memIDs; missing = only_in memIDs kernelIDs;
                 drift = (orphans \<noteq> [] \<or> missing \<noteq> []) in
             (Inr (\<lparr>df_Backend = kind, df_Chain = gf_chain g, df_ApiURL = apiURL, df_OrphanIDs = orphans, df_MissingIDs = missing,
                    df_Drift = drift\<rparr>, if drift then Some AdmDrift else None), k1))) k)"

section \<open>Explaining a policy (explain.go)\<close>

record simulateRuleSet =
  sr_Name :: string
  sr_Ports :: "int list"
  sr_Protocol :: string
  sr_Allowlist :: "string list"
  sr_Blocklist :: "string list"
  sr_GeoAllow :: "string list"
  sr_GeoBlock :: "string list"
  sr_Log :: bool
  sr_LogPrefix :: string

record simulateResponse =
  sx_Policy :: string
  sx_Container :: string
  sx_DefaultPolicy :: string
  sx_RuleSets :: "simulateRuleSet list"
  sx_Warnings :: "string list"
  sx_Errors :: "string list"

record firstMatch =
  fm_Index :: nat
  fm_Name :: string
  fm_proto :: string
  fm_port :: int

text \<open>The answer of the agent as the tool decodes it.\<close>

definition decode_set :: "FirewallRuleSetDTO \<Rightarrow> simulateRuleSet" where
  "decode_set d =
     \<lparr>sr_Name = rd_Name d, sr_Ports = map uint (rd_Ports d), sr_Protocol = rd_Protocol d, sr_Allowlist = rd_Allowlist d,
      sr_Blocklist = rd_Blocklist d, sr_GeoAllow = rd_GeoAllow d, sr_GeoBlock = rd_GeoBlock d, sr_Log = rd_Log d, sr_LogPrefix = rd_LogPrefix d\<rparr>"

definition decode_simulate :: "PolicySimulateResponse \<Rightarrow> simulateResponse" where
  "decode_simulate r =
     \<lparr>sx_Policy = px_Policy r, sx_Container = px_Container r, sx_DefaultPolicy = px_DefaultPolicy r,
      sx_RuleSets = map decode_set (px_RuleSets r), sx_Warnings = px_Warnings r, sx_Errors = px_Errors r\<rparr>"

text \<open>\<open>fmt.Sscanf\<close> with the verb \<open>d\<close>: a sign, then as many digits as there are, what follows is ignored.\<close>

definition sscanf_d :: "string \<Rightarrow> int option" where
  "sscanf_d s =
     (let sign = (if s \<noteq> [] \<and> (hd s = CHR ''+'' \<or> hd s = CHR ''-'') then [hd s] else []);
          digits = takeWhile is_digit (drop (length sign) s)
      in if digits = [] then None else strconv_Atoi (sign @ digits))"

fun first_match :: "string \<Rightarrow> int \<Rightarrow> nat \<Rightarrow> simulateRuleSet list \<Rightarrow> firstMatch option" where
  "first_match proto dstPort i [] = None"
| "first_match proto dstPort i (rs # sets) =
     (if sr_Protocol rs \<noteq> [] \<and> strings_ToLower (sr_Protocol rs) \<noteq> proto then first_match proto dstPort (Suc i) sets
      else if sr_Ports rs \<noteq> [] \<and> dstPort \<notin> set (sr_Ports rs) then first_match proto dstPort (Suc i) sets
      else Some \<lparr>fm_Index = i, fm_Name = sr_Name rs, fm_proto = proto, fm_port = dstPort\<rparr>)"

definition firstMatchFromPacket :: "string \<Rightarrow> simulateRuleSet list \<Rightarrow> admin_error + firstMatch option" where
  "firstMatchFromPacket pkt sets =
     (let parts = strings_Fields pkt in
      if length parts < 4 then Inl (AdmMissing ''packet must look like: tcp 1.2.3.4:33221 -> :443'')
      else (let proto = strings_ToLower (parts ! 0); dst = parts ! 3 in
            if \<not> strings_HasPrefix dst '':'' then Inl (AdmMissing ''destination must be :PORT'')
            else (case sscanf_d (strings_TrimPrefix dst '':'') of
               None \<Rightarrow> Inl (AdmMissing ''bad dst port'')
             | Some dstPort \<Rightarrow> Inr (first_match proto dstPort 0 sets))))"

record explain_flags =
  ex_apiURL :: string
  ex_token :: string
  ex_policyName :: string
  ex_policyFile :: string
  ex_containerID :: string
  ex_packet :: string

text \<open>The client posts the container and, with a file, its text to a URL; it returns the status and the answer when it decodes. The result is the answer and the trace, an
  error of which is a warning only.\<close>

definition cmdExplain :: "(string \<Rightarrow> string + string) \<Rightarrow> (string \<Rightarrow> string option \<Rightarrow> string \<Rightarrow> string option \<Rightarrow> string + nat \<times> simulateResponse option)
    \<Rightarrow> string \<Rightarrow> explain_flags \<Rightarrow> admin_error + simulateResponse \<times> (admin_error + firstMatch option) option" where
  "cmdExplain readFile client envToken fl =
     (if ex_containerID fl = [] then Inl (AdmMissing ''--container'')
      else if ex_policyName fl = [] \<and> ex_policyFile fl = [] then Inl (AdmMissing ''--policy or --policy-file'')
      else (let authToken = (if ex_token fl = [] then envToken else ex_token fl);
                name = (if ex_policyName fl = [] then ''inline'' else ex_policyName fl);
                url = strings_TrimSuffix (ex_apiURL fl) ''/'' @ ''/api/policies/'' @ name @ ''/simulate'';
                auth = (if authToken \<noteq> [] then Some (''Bearer '' @ authToken) else None)
            in case (if ex_policyFile fl = [] then Inr None else map_sum id Some (readFile (ex_policyFile fl))) of
                 Inl e \<Rightarrow> Inl (AdmCall ''read policy file'' e)
               | Inr dsl \<Rightarrow>
                   (case client url auth (ex_containerID fl) dsl of
                      Inl e \<Rightarrow> Inl (AdmCall ''call simulate'' e)
                    | Inr (status, body) \<Rightarrow>
                        if status \<noteq> 200 then Inl (AdmStatus status)
                        else (case body of
                           None \<Rightarrow> Inl (AdmCall ''decode simulate response'' url)
                         | Some out \<Rightarrow> Inr (out, if ex_packet fl = [] then None
                                                else Some (firstMatchFromPacket (ex_packet fl) (sx_RuleSets out)))))))"

section \<open>An engine of its own (reconcile.go)\<close>

definition cmdReconcile :: "'k admin_env \<Rightarrow> globalFlags \<Rightarrow> string \<Rightarrow> Config \<Rightarrow> world \<Rightarrow> 'k \<Rightarrow> 'k \<Rightarrow> admin_error option \<times> 'k" where
  "cmdReconcile env g rulesFile cfg0 w k6 k =
     (case resolveBackend env g True k of
        (Inl e, k1) \<Rightarrow> (Some e, k1)
      | (Inr (b, _), k1) \<Rightarrow>
          (let cfg = cfg0\<lparr>c_ChainName := gf_chain g, c_ParentChain := gf_parent g, c_EffectiveChain := gf_chain g\<rparr>;
               cfg1 = (if rulesFile = [] then cfg else cfg\<lparr>c_ConfigFile := SafePath rulesFile\<rparr>)
           in if rulesFile \<noteq> [] \<and> c_ConfigFile cfg1 = [] then (Some (AdmPath rulesFile), k1)
              else (let e = snd (Rehydrate (NewEngine b cfg1 k1 k6)) in
                    case Reconcile w ''manual'' e of
                      (Some err, e') \<Rightarrow> (Some (AdmEngine err), e_kernel e')
                    | (None, e') \<Rightarrow> (None, e_kernel e'))))"

end
