(* ===== verification/Admin_Properties.thy ===== *)
theory Admin_Properties
  imports Admin_Tools
begin

text \<open>
  What the commands of \<open>firefik-admin\<close> do to the chains of a host, what they report of them, and what of that is true. The lemmas on
  removal rest on the contract of a backend, the frames on the interface of iptables.
\<close>

section \<open>Removal over a backend\<close>

context backend_contract
begin

lemma remove_chains_ids:
  "remove_chains be cids k = (n, k') \<Longrightarrow> \<forall>cid \<in> set cids. good cid \<Longrightarrow>
   ids k' \<subseteq> ids k \<and> (n = 0 \<longrightarrow> (\<forall>cid \<in> set cids. shortID cid \<notin> ids k'))"
proof (induction cids arbitrary: k n)
  case (Cons cid cids)
  obtain err k1 m where r: "be_RemoveContainerChains be cid k = (err, k1)" "remove_chains be cids k1 = (m, k')"
    "n = (if err = None then m else Suc m)"
    using Cons.prems(1) by (auto split: prod.splits)
  have g: "good cid" using Cons.prems(2) by simp
  have I: "ids k' \<subseteq> ids k1 \<and> (m = 0 \<longrightarrow> (\<forall>cid \<in> set cids. shortID cid \<notin> ids k'))"
    using Cons.IH [OF r(2)] Cons.prems(2) by simp
  have S: "ids k1 \<subseteq> ids k" using remove_ids [OF g r(1)] by blast
  have "shortID cid \<notin> ids k'" if "n = 0"
  proof -
    have "be_RemoveContainerChains be cid k = (None, k1)" using r(1,3) that by (cases err) auto
    then show ?thesis using remove_ok [OF g] I by blast
  qed
  then show ?case using I S r(3) by (auto split: if_splits)
qed simp

lemma listed_ids:
  "be_ListAppliedContainerIDs be k = Inr xs \<Longrightarrow> set xs = ids k \<and> (\<forall>cid \<in> set xs. good cid)"
  using list_ids ids_good by metis

end

lemma shortID_le12 [simp]: "length cid \<le> 12 \<Longrightarrow> shortID cid = cid"
  by (simp add: shortID_def ContainerIDShortLen_def)

section \<open>Frames of the iptables backend\<close>

context iptables_api
begin

lemma Insert_frame: "ipt_Insert ipt c 1 a k = (e, k') \<Longrightarrow> d \<noteq> c \<Longrightarrow> tbl k' d = tbl k d"
  using Insert by (cases e) fastforce+

lemma SetupChains_frame:
  assumes "SetupChains b ipt k = (e, k')" "d \<noteq> chainName b" "d \<noteq> parentChain b"
  shows "tbl k' d = tbl k d"
proof -
  obtain e1 k1 where 1: "ipt_NewChain ipt (chainName b) k = (e1, k1)" by fastforce
  have N: "tbl k1 d = tbl k d" using NewChain [OF 1] assms(2) by auto
  have I: "tbl k'' d = tbl k0 d" if "ipt_Insert ipt c 1 a k0 = (e0, k'')" "c = chainName b \<or> c = parentChain b" for c a k0 e0 k''
    using Insert_frame [OF that(1)] that(2) assms(2,3) by blast
  have M: "tbl k'' d = tbl k0 d"
    if "must l (ipt_Insert ipt c 1 a k0) (\<lambda>k3. (None, k3)) = (e0, k'')" "c = chainName b \<or> c = parentChain b" for l c a k0 e0 k''
    using that I by (cases "ipt_Insert ipt c 1 a k0") (auto simp: must_def split: option.splits)
  define ct where "ct = (\<lambda>k2. if stateful b then
      (case ipt_Exists ipt (chainName b) ctArgs k2 of
         Inr False \<Rightarrow> must ''insert conntrack'' (ipt_Insert ipt (chainName b) 1 ctArgs k2) (\<lambda>k3. (None, k3))
       | _ \<Rightarrow> (None, k2)) else (None, k2))"
  have C: "tbl k'' d = tbl k0 d" if "ct k0 = (e0, k'')" for k0 e0 k''
    using that M unfolding ct_def by (auto split: if_splits sum.splits bool.splits)
  have s: "(case ipt_Exists ipt (parentChain b) [''-j'', chainName b] k1 of
           Inl e \<Rightarrow> (Some (BackendError ''check jump rule'' e), k1)
         | Inr present \<Rightarrow>
             (if present then ct k1
              else must ''insert jump'' (ipt_Insert ipt (parentChain b) 1 [''-j'', chainName b] k1) ct)) = (e, k')"
    using assms(1) 1 unfolding SetupChains_def ct_def by (simp add: Let_def ignore_def)
  have "tbl k' d = tbl k1 d"
  proof (cases "ipt_Exists ipt (parentChain b) [''-j'', chainName b] k1")
    case (Inr present)
    obtain e2 k2 where 2: "ipt_Insert ipt (parentChain b) 1 [''-j'', chainName b] k1 = (e2, k2)" by fastforce
    have "tbl k2 d = tbl k1 d" using I [OF 2] by simp
    then show ?thesis using s Inr C [of _ e k'] 2 by (cases present; cases e2) (auto simp: must_def)
  qed (use s in simp)
  then show ?thesis using N by simp
qed

lemma Cleanup_frame:
  assumes "Cleanup b ipt k = (e, k')"
  shows "e = None" "d \<noteq> chainName b \<Longrightarrow> d \<noteq> parentChain b \<Longrightarrow> tbl k' d = tbl k d"
    "d \<noteq> chainName b \<Longrightarrow> d \<in> dom (tbl k') \<longleftrightarrow> d \<in> dom (tbl k)"
proof -
  obtain e1 k1 e2 k2 e3 where
    1: "ipt_Delete ipt (parentChain b) [''-j'', chainName b] k = (e1, k1)" and
    2: "ipt_ClearChain ipt (chainName b) k1 = (e2, k2)" and
    3: "ipt_DeleteChain ipt (chainName b) k2 = (e3, k')" and "e = None"
    using assms by (cases "ipt_Delete ipt (parentChain b) [''-j'', chainName b] k";
        cases "ipt_ClearChain ipt (chainName b) (snd (ipt_Delete ipt (parentChain b) [''-j'', chainName b] k))")
      (auto simp: Cleanup_def Let_def ignore_def prod_eq_iff)
  then show "e = None" by simp
  have D1: "tbl k1 d = tbl k d" if "d \<noteq> parentChain b"
    using Delete [OF 1] that by (auto split: if_splits)
  have D2: "d \<in> dom (tbl k1) \<longleftrightarrow> d \<in> dom (tbl k)"
    using Delete [OF 1] by (auto split: if_splits)
  have E: "tbl k' d = tbl k1 d" if "d \<noteq> chainName b"
    using ClearChain [OF 2] DeleteChain [OF 3] that by (auto split: if_splits)
  show "tbl k' d = tbl k d" if "d \<noteq> chainName b" "d \<noteq> parentChain b" using D1 E that by simp
  show "d \<in> dom (tbl k') \<longleftrightarrow> d \<in> dom (tbl k)" if "d \<noteq> chainName b" using D2 E [OF that] by (simp add: domIff)
qed

lemma Cleanup_ids:
  assumes "Cleanup b ipt k = (e, k')"
  shows "chain_ids b (tbl k') = chain_ids b (tbl k)"
proof (rule chain_ids_cong)
  fix d cid assume "chain_container_id (chainName b @ ''-'') d = Some cid"
  then have "d \<noteq> chainName b" using base_no_id [of "chainName b"] by auto
  then show "d \<in> dom (tbl k') \<longleftrightarrow> d \<in> dom (tbl k)" by (rule Cleanup_frame(3) [OF assms])
qed

lemma remove_chains_frame:
  assumes "short_base b" "d \<noteq> chainName b" "chain_container_id (chainName b @ ''-'') d = None"
  shows "remove_chains (iptables_Backend b ipt) cids k = (n, k') \<Longrightarrow> \<forall>cid \<in> set cids. valid_id cid \<Longrightarrow> tbl k' d = tbl k d"
proof (induction cids arbitrary: k n)
  case (Cons cid cids)
  obtain err k1 m where r: "RemoveContainerChains b ipt cid k = (err, k1)" "remove_chains (iptables_Backend b ipt) cids k1 = (m, k')"
    using Cons.prems(1) by (auto simp: iptables_Backend_def split: prod.splits)
  have "\<not> owned (containerChainName b cid) d" using owned_id [OF assms(1)] Cons.prems(2) assms(3) by simp
  then have "tbl k1 d = tbl k d" using RemoveContainerChains_frame(1) [OF r(1) assms(2)] by blast
  then show ?case using Cons.IH [OF r(2)] Cons.prems(2) by simp
qed simp

lemma iptables_backend_ops:
  "be_SetupChains (iptables_Backend b ipt) = SetupChains b ipt" "be_Cleanup (iptables_Backend b ipt) = Cleanup b ipt"
  by (simp_all add: iptables_Backend_def)

end

section \<open>Drain\<close>

definition ipt_env :: "(string \<Rightarrow> string \<Rightarrow> string + 'k Backend) \<Rightarrow> string \<times> bool \<Rightarrow> 'k admin_env" where
  "ipt_env mk input = \<lparr>ae_detect = ''iptables'', ae_newIPT = mk, ae_newNFT = (\<lambda>_. Inl ''netlink: no such device''), ae_stdin = input\<rparr>"

definition mem_backend :: "(args \<Rightarrow> args) \<Rightarrow> (mem \<Rightarrow> string \<Rightarrow> args \<Rightarrow> bool) \<Rightarrow> string \<Rightarrow> string \<Rightarrow> string + mem Backend" where
  "mem_backend norm accepts chn par = Inr (iptables_Backend \<lparr>chainName = chn, parentChain = par, stateful = True\<rparr> (mem_ipt norm accepts))"

definition flag_backend :: "globalFlags \<Rightarrow> IPTablesBackend" where
  "flag_backend g = \<lparr>chainName = gf_chain g, parentChain = gf_parent g, stateful = True\<rparr>"

lemma resolve_iptables:
  assumes "ae_newIPT env = mem_backend norm accepts" "backend_kind env g \<noteq> ''nftables''"
  shows "resolveBackend env g setup k =
     (if setup then setup_backend ''iptables setup'' (backend_kind env g) (iptables_Backend (flag_backend g) (mem_ipt norm accepts)) k
      else (Inr (iptables_Backend (flag_backend g) (mem_ipt norm accepts), backend_kind env g), k))"
  using assms by (simp add: resolveBackend_def mem_backend_def flag_backend_def Let_def)

lemma with_ids_setup:
  assumes "with_ids env g True f k = (Inr r, k')" "ae_newIPT env = mem_backend norm accepts" "backend_kind env g \<noteq> ''nftables''"
  obtains k1 xs where "SetupChains (flag_backend g) (mem_ipt norm accepts) k = (None, k1)"
    "be_ListAppliedContainerIDs (iptables_Backend (flag_backend g) (mem_ipt norm accepts)) k1 = Inr xs"
    "f (iptables_Backend (flag_backend g) (mem_ipt norm accepts)) (backend_kind env g) xs k1 = (Inr r, k')"
  using assms
  by (auto simp: with_ids_def resolve_iptables setup_backend_def mem.iptables_backend_ops split: prod.splits option.splits sum.splits)

lemma cmdDrain_steps:
  assumes "cmdDrain env g confirm yes keepParent k = (Inr rep, k')" "ae_newIPT env = mem_backend norm accepts"
    and "backend_kind env g \<noteq> ''nftables''"
  obtains k1 xs k2 where "\<not> isSystemChain (gf_chain g)" "SetupChains (flag_backend g) (mem_ipt norm accepts) k = (None, k1)"
    "be_ListAppliedContainerIDs (iptables_Backend (flag_backend g) (mem_ipt norm accepts)) k1 = Inr xs"
    "remove_chains (iptables_Backend (flag_backend g) (mem_ipt norm accepts)) xs k1 = (0, k2)"
    "k' = k2 \<or> Cleanup (flag_backend g) (mem_ipt norm accepts) k2 = (None, k')"
proof -
  let ?b = "iptables_Backend (flag_backend g) (mem_ipt norm accepts)"
  have sys: "\<not> isSystemChain (gf_chain g)" using assms(1) by (auto simp: cmdDrain_def split: if_splits)
  note w = assms(1) [unfolded cmdDrain_def if_not_P [OF sys]]
  obtain k1 xs where 1: "SetupChains (flag_backend g) (mem_ipt norm accepts) k = (None, k1)"
    "be_ListAppliedContainerIDs ?b k1 = Inr xs"
    and f: "(if xs = [] \<and> keepParent then (Inr NothingToDo, k1)
        else (case confirm_delete env confirm yes of
          Some e \<Rightarrow> (Inl e, k1)
        | None \<Rightarrow>
            (case remove_chains ?b xs k1 of (removeErrs, k2) \<Rightarrow>
               (case (if keepParent then (None, k2) else be_Cleanup ?b k2) of
                  (Some e, k3) \<Rightarrow> (Inl (AdmBackend ''base chain teardown'' e), k3)
                | (None, k3) \<Rightarrow>
                    if 0 < removeErrs then (Inl (AdmRemoveErrors removeErrs), k3)
                    else (Inr (Drained (length xs) keepParent), k3))))) = (Inr rep, k')"
    by (rule with_ids_setup [OF w assms(2,3)])
  obtain n k2 where r: "remove_chains ?b xs k1 = (n, k2)" by fastforce
  show thesis
  proof (cases "xs = [] \<and> keepParent")
    case True
    then show thesis using that [OF sys 1, of k1] f by simp
  next
    case False
    then have "n = 0" "k' = k2 \<or> Cleanup (flag_backend g) (mem_ipt norm accepts) k2 = (None, k')"
      using f r by (auto simp: mem.iptables_backend_ops split: option.splits prod.splits if_splits)
    then show thesis using that [OF sys 1] r by simp
  qed
qed

text \<open>
  C31. A drain that reports success has drained. On iptables, over any kernel and with or without the base chain kept, no chain of a container with an id of at most
  12 characters is left, and no chain is touched but those under the name of the chain drained, the chain itself and its parent; chains of the system are refused.
\<close>

theorem drain_complete:
  assumes "cmdDrain env g confirm yes keepParent k = (Inr rep, k')" "ae_newIPT env = mem_backend norm accepts"
    and "backend_kind env g \<noteq> ''nftables''" "length (gf_chain g) \<le> 14"
  shows "(\<forall>cid \<in> chain_ids (flag_backend g) (map_of k'). 12 < length cid) \<and> \<not> isSystemChain (gf_chain g)
    \<and> (d \<noteq> gf_chain g \<longrightarrow> d \<noteq> gf_parent g \<longrightarrow> chain_container_id (gf_chain g @ ''-'') d = None \<longrightarrow> map_of k' d = map_of k d)"
proof -
  let ?b = "flag_backend g"
  have sb: "short_base ?b" and fl: "chainName ?b = gf_chain g" "parentChain ?b = gf_parent g"
    using assms(4) by (simp_all add: short_base_def flag_backend_def)
  note con = mem.iptables_contract [OF sb, of norm accepts]
  obtain k1 xs k2 where d: "\<not> isSystemChain (gf_chain g)" "SetupChains ?b (mem_ipt norm accepts) k = (None, k1)"
    "be_ListAppliedContainerIDs (iptables_Backend ?b (mem_ipt norm accepts)) k1 = Inr xs"
    "remove_chains (iptables_Backend ?b (mem_ipt norm accepts)) xs k1 = (0, k2)"
    "k' = k2 \<or> Cleanup ?b (mem_ipt norm accepts) k2 = (None, k')"
    by (rule cmdDrain_steps [OF assms(1-3)])
  have L: "set xs = chain_ids ?b (map_of k1)" "\<forall>cid \<in> set xs. valid_id cid"
    using backend_contract.listed_ids [OF con d(3)] by simp_all
  have R: "chain_ids ?b (map_of k2) \<subseteq> set xs" "\<forall>cid \<in> set xs. shortID cid \<notin> chain_ids ?b (map_of k2)"
    using backend_contract.remove_chains_ids [OF con d(4) L(2)] L(1) by simp_all
  have "chain_ids ?b (map_of k') = chain_ids ?b (map_of k2)" using d(5) mem.Cleanup_ids by auto
  then have "12 < length cid" if "cid \<in> chain_ids ?b (map_of k')" for cid
    using R that shortID_le12 [of cid] by (metis not_le subsetD)
  moreover have "map_of k' d = map_of k d"
    if "d \<noteq> gf_chain g" "d \<noteq> gf_parent g" "chain_container_id (gf_chain g @ ''-'') d = None"
  proof -
    have "map_of k1 d = map_of k d" using mem.SetupChains_frame [OF d(2)] that fl by simp
    moreover have "map_of k2 d = map_of k1 d"
      using mem.remove_chains_frame [OF sb _ _ d(4) L(2), of d] that fl by simp
    moreover have "map_of k' d = map_of k2 d" using d(5) mem.Cleanup_frame(2) that fl by metis
    ultimately show ?thesis by simp
  qed
  ultimately show ?thesis using d(1) by blast
qed

definition small_flags :: globalFlags where
  "small_flags = \<lparr>gf_chain = ''F'', gf_parent = ''P'', gf_backend = ''auto'', gf_output = ''text''\<rparr>"

definition small_env :: "mem admin_env" where
  "small_env = ipt_env (mem_backend (\<lambda>a. a) (\<lambda>_ _ _. True)) ([], True)"

abbreviation (input) small_ipt :: "mem ipt" where "small_ipt \<equiv> mem_ipt (\<lambda>a. a) (\<lambda>_ _ _. True)"

definition small_kernel :: mem where
  "small_kernel = [(''P'', [[''-j'', ''F'']]), (''F'', [ctArgs]), (''F-a'', [])]"

lemmas mem_run_defs = mem_ipt_def mem_edit_def mem_put_def must_def ignore_def

lemma small_setup: "SetupChains (flag_backend small_flags) small_ipt small_kernel = (None, small_kernel)"
  by (simp add: SetupChains_def mem_run_defs flag_backend_def small_flags_def small_kernel_def)

lemma small_list: "ListAppliedContainerIDs (flag_backend small_flags) small_ipt small_kernel = Inr [''a'']"
  by (simp add: ListAppliedContainerIDs_def mem_ipt_def flag_backend_def small_flags_def small_kernel_def chain_container_id_def go_simps List.map_filter_def)

lemma small_remove:
  "RemoveContainerChains (flag_backend small_flags) small_ipt ''a'' small_kernel = (None, butlast small_kernel)"
  by (simp add: RemoveContainerChains_def mem_run_defs flag_backend_def small_flags_def small_kernel_def containerChainName_def truncate_str_def
     jump_fields_def ctArgs_def is_space_def ContainerIDShortLen_def iptablesMaxChainLen_def go_simps mem_referenced_def Let_def delete_chains.simps)

theorem drain_complete_witness:
  "\<exists>rep k'. cmdDrain small_env small_flags True False True small_kernel = (Inr rep, k') \<and> ''a'' \<notin> chain_ids (flag_backend small_flags) (map_of k')"
proof -
  have k: "backend_kind small_env small_flags = ''iptables''" "ae_newIPT small_env = mem_backend (\<lambda>a. a) (\<lambda>_ _ _. True)"
    by (simp_all add: backend_kind_def small_env_def small_flags_def ipt_env_def)
  have s: "\<not> isSystemChain (gf_chain small_flags)"
    by (simp add: isSystemChain_def small_flags_def go_simps char_of_def bit_Suc_0_iff)
  have r: "cmdDrain small_env small_flags True False True small_kernel = (Inr (Drained 1 True), butlast small_kernel)"
    using s k small_setup small_list small_remove
    by (simp add: cmdDrain_def with_ids_def resolve_iptables setup_backend_def confirm_delete_def iptables_Backend_def)
  then show ?thesis using drain_complete [OF r k(2)] k(1) by (force simp: small_flags_def)
qed

section \<open>Reap\<close>

context iptables_api
begin

lemma listed_exactly:
  assumes "ListAppliedContainerIDs b ipt k = Inr xs"
  shows "set xs = chain_ids b (tbl k)" "distinct xs"
proof -
  obtain chs where c: "ipt_ListChains ipt k = Inr chs" "xs = remdups (List.map_filter (chain_container_id (chainName b @ ''-'')) chs)"
    using assms by (auto simp: ListAppliedContainerIDs_def split: sum.splits)
  have "x \<in> set xs \<longleftrightarrow> (\<exists>d \<in> set chs. chain_container_id (chainName b @ ''-'') d = Some x)" for x
    unfolding c(2) set_remdups set_map_filter_iff by (rule refl)
  then show "set xs = chain_ids b (tbl k)" using ListChains [OF c(1)] by (auto simp only: chain_ids_def)
  show "distinct xs" using c(2) by simp
qed

end

text \<open>
  C32. A reap removes nothing it reports. On iptables, reaping the chains of an earlier deployment reports the containers with chains of that deployment as removed, but its
  teardown only deletes the base chain: every one of these containers has its chains in the kernel afterwards.
\<close>

theorem reap_leaves_chains:
  assumes "cmdReap env g suf False k = (Inr rep, k')" "ae_newIPT env = mem_backend norm accepts"
    and "strings_ToLower (backend_kind env g) \<noteq> ''nftables''"
  shows "rp_LegacyChain rep = gf_chain g @ ''-'' @ suf
    \<and> rp_ChainsRemoved rep = card (chain_ids (flag_backend (g\<lparr>gf_chain := gf_chain g @ ''-'' @ suf\<rparr>)) (map_of k))
    \<and> chain_ids (flag_backend (g\<lparr>gf_chain := gf_chain g @ ''-'' @ suf\<rparr>)) (map_of k')
      = chain_ids (flag_backend (g\<lparr>gf_chain := gf_chain g @ ''-'' @ suf\<rparr>)) (map_of k)"
proof -
  let ?l = "gf_chain g @ ''-'' @ suf"
  let ?b = "flag_backend (g\<lparr>gf_chain := ?l\<rparr>)"
  have suf: "suf \<noteq> []" and val: "ValidateSuffix suf = None" and sys: "\<not> (isSystemChain (gf_chain g) \<or> isSystemChain ?l)"
    using assms(1) by (auto simp: cmdReap_def split: if_splits option.splits)
  have leg: "DeriveLegacyChains (gf_chain g) (gf_chain g) [suf] = [?l]" using suf by (simp add: DeriveLegacyChains_def)
  have new: "newBackendForChain env g ?l k = (Inr (iptables_Backend ?b (mem_ipt norm accepts), backend_kind env g), k)"
    using assms(2,3) by (simp add: newBackendForChain_def mem_backend_def flag_backend_def Let_def)
  have r: "reap_chain g suf False ?l (iptables_Backend ?b (mem_ipt norm accepts)) (backend_kind env g) k = (Inr rep, k')"
    using assms(1) suf val sys leg new by (simp add: cmdReap_def)
  obtain xs where xs: "ListAppliedContainerIDs ?b (mem_ipt norm accepts) k = Inr xs"
    using r by (cases "ListAppliedContainerIDs ?b (mem_ipt norm accepts) k") (simp_all add: reap_chain_def iptables_Backend_def)
  obtain e where c: "Cleanup ?b (mem_ipt norm accepts) k = (e, k')"
    using r xs by (auto simp: reap_chain_def iptables_Backend_def Let_def split: prod.splits option.splits)
  have "e = None" by (rule mem.Cleanup_frame(1) [OF c])
  then have "rp_LegacyChain rep = ?l" "rp_ChainsRemoved rep = length xs"
    using r xs c by (auto simp: reap_chain_def iptables_Backend_def Let_def)
  then show ?thesis using mem.Cleanup_ids [OF c] mem.listed_exactly [OF xs] distinct_card [of xs] by simp
qed

definition small_legacy :: mem where
  "small_legacy = [(''P'', [[''-j'', ''F-1'']]), (''F-1'', []), (''F-1-a'', [])]"

theorem reap_leaves_chains_witness:
  "\<exists>rep k'. cmdReap small_env small_flags ''1'' False small_legacy = (Inr rep, k') \<and> rp_ChainsRemoved rep = 1
     \<and> ''a'' \<in> chain_ids (flag_backend (small_flags\<lparr>gf_chain := gf_chain small_flags @ ''-'' @ ''1''\<rparr>)) (map_of k')"
proof -
  let ?b = "flag_backend (small_flags\<lparr>gf_chain := gf_chain small_flags @ ''-'' @ ''1''\<rparr>)"
  have k: "backend_kind small_env small_flags = ''iptables''" "ae_newIPT small_env = mem_backend (\<lambda>a. a) (\<lambda>_ _ _. True)"
    by (simp_all add: backend_kind_def small_env_def small_flags_def ipt_env_def)
  have s: "\<not> isSystemChain (gf_chain small_flags)" "\<not> isSystemChain (gf_chain small_flags @ ''-'' @ ''1'')"
    by (simp_all add: isSystemChain_def small_flags_def go_simps char_of_def bit_Suc_0_iff)
  have l: "ListAppliedContainerIDs ?b small_ipt small_legacy = Inr [''a'']"
    by (simp add: ListAppliedContainerIDs_def mem_ipt_def flag_backend_def small_flags_def small_legacy_def chain_container_id_def go_simps List.map_filter_def)
  obtain e k' where c: "Cleanup ?b small_ipt small_legacy = (e, k')" by fastforce
  have "e = None" by (rule mem.Cleanup_frame(1) [OF c])
  then have "\<exists>rep. cmdReap small_env small_flags ''1'' False small_legacy = (Inr rep, k')"
    using s k l c
    by (simp add: cmdReap_def ValidateSuffix_def suffix_char_def DeriveLegacyChains_def newBackendForChain_def reap_chain_def iptables_Backend_def
      mem_backend_def flag_backend_def Let_def go_simps)
  then obtain rep where r: "cmdReap small_env small_flags ''1'' False small_legacy = (Inr rep, k')" by blast
  have "strings_ToLower (backend_kind small_env small_flags) \<noteq> ''nftables''" using k(1) by (simp add: go_simps char_of_def bit_Suc_0_iff)
  note R = reap_leaves_chains [OF r k(2) this]
  have "chain_ids ?b (map_of small_legacy) = {''a''}" using mem.listed_exactly(1) [OF l] by simp
  then have "rp_ChainsRemoved rep = 1" "''a'' \<in> chain_ids ?b (map_of k')" using R by simp_all
  then show ?thesis using r by blast
qed

section \<open>Diff and explain\<close>

definition small_engine :: "mem Engine" where
  "small_engine = NewEngine (iptables_Backend (flag_backend small_flags) small_ipt) demo_config small_kernel []"

lemma sorted_distinct_eq: "set xs = set ys \<Longrightarrow> distinct ys \<Longrightarrow> sort (remdups xs) = sort ys"
  by (metis distinct_remdups set_remdups sorted_list_of_set_sort_remdups distinct_remdups_id)

text \<open>
  The comparison from outside agrees with the agent's own. Against an agent that answers from its engine, on the same kernel and backend, the tool lists the same orphaned and
  the same missing containers, sorted, and fails exactly when the agent's own check finds drift.
\<close>

theorem diff_agrees:
  assumes "handleGetRules denv srv = (ApiJSON 200 (VRules entries), srv')"
    and "client apiURL (if token = [] then None else Some (''Bearer '' @ token)) = Inr (200, Some (map re_ContainerID entries))"
    and "\<not> strings_HasPrefix apiURL ''unix://''" "[] \<notin> fst ` set (e_applied (sv_engine srv))"
    and "resolveBackend env g False (e_kernel (sv_engine srv)) = (Inr (e_backend (sv_engine srv), kind), e_kernel (sv_engine srv))"
    and "CheckDrift (sv_engine srv) = Inr dr"
  shows "\<exists>rep err. cmdDiff env g client apiURL token [] (e_kernel (sv_engine srv)) = (Inr (rep, err), e_kernel (sv_engine srv))
    \<and> df_OrphanIDs rep = sort (OrphanIDs dr) \<and> df_MissingIDs rep = sort (MissingIDs dr) \<and> (err \<noteq> None \<longleftrightarrow> HasDrift dr)"
proof -
  let ?e = "sv_engine srv" let ?mem = "map fst (e_applied ?e)"
  have ent: "map re_ContainerID entries = ?mem"
    using assms(1) by (auto simp: handleGetRules_def GetApplied_def rule_entry_def comp_def Let_def split: sum.splits)
  have F: "fetchAPIContainerIDs client apiURL token = Inr ?mem"
    using assms(2-4) by (cases "token = []") (auto simp: fetchAPIContainerIDs_def ent filter_id_conv image_iff)
  obtain ids where ids: "be_ListAppliedContainerIDs (e_backend ?e) (e_kernel ?e) = Inr ids"
    using assms(6) by (auto simp: CheckDrift_def split: sum.splits)
  have dr: "dr = \<lparr>OrphanIDs = filter (\<lambda>cid. cid \<notin> set ?mem) (remdups ids), MissingIDs = filter (\<lambda>cid. cid \<notin> set ids) (remdups ?mem)\<rparr>"
    using assms(6) ids by (simp add: CheckDrift_def Let_def)
  have o: "only_in ids ?mem = sort (OrphanIDs dr)" "only_in ?mem ids = sort (MissingIDs dr)"
    unfolding only_in_def by (rule sorted_distinct_eq; simp add: dr)+
  have H: "HasDrift dr \<longleftrightarrow> sort (OrphanIDs dr) \<noteq> [] \<or> sort (MissingIDs dr) \<noteq> []"
    by (simp add: HasDrift_def) (metis length_0_conv length_sort)
  show ?thesis using F assms(5) ids o H by (auto simp: cmdDiff_def with_ids_def Let_def)
qed

definition small_srv :: "(mem, unit) api_server" where
  "small_srv = \<lparr>sv_cfg = demo_config, sv_engine = small_engine, sv_traffic = NewTrafficStore, sv_autogen = None, sv_audit = None, sv_policies = []\<rparr>"

definition small_denv :: dispatch_env where
  "small_denv = \<lparr>de_world = demo_world, de_now = 0, de_engine_text = (\<lambda>_. []), de_duration = (\<lambda>_. []), de_RFC3339 = (\<lambda>_. []),
     de_itoa = (\<lambda>_. []), de_print = (\<lambda>_. True)\<rparr>"

theorem diff_agrees_witness:
  "\<exists>rep err. cmdDiff small_env small_flags (\<lambda>_ _. Inr (200, Some [])) ''http://127.0.0.1/api/rules'' [] [] small_kernel = (Inr (rep, err), small_kernel)
     \<and> df_OrphanIDs rep = [''a''] \<and> err \<noteq> None"
proof -
  have k: "backend_kind small_env small_flags = ''iptables''" "ae_newIPT small_env = mem_backend (\<lambda>a. a) (\<lambda>_ _ _. True)"
    by (simp_all add: backend_kind_def small_env_def small_flags_def ipt_env_def)
  have e: "sv_engine small_srv = small_engine" "e_kernel small_engine = small_kernel" "e_applied small_engine = []"
    "e_backend small_engine = iptables_Backend (flag_backend small_flags) small_ipt"
    by (simp_all add: small_srv_def small_engine_def NewEngine_def)
  have g: "handleGetRules small_denv small_srv = (ApiJSON 200 (VRules []), small_srv)"
    by (simp add: handleGetRules_def small_denv_def demo_world_def e GetApplied_def)
  have d: "CheckDrift (sv_engine small_srv) = Inr \<lparr>OrphanIDs = [''a''], MissingIDs = []\<rparr>"
    using small_list by (simp add: CheckDrift_def e iptables_Backend_def)
  have "resolveBackend small_env small_flags False (e_kernel (sv_engine small_srv))
      = (Inr (e_backend (sv_engine small_srv), ''iptables''), e_kernel (sv_engine small_srv))"
    using k by (simp add: resolve_iptables e)
  from diff_agrees [OF g _ _ _ this d, of "\<lambda>_ _. Inr (200, Some [])" "''http://127.0.0.1/api/rules''" "[]"]
  obtain rep err where "cmdDiff small_env small_flags (\<lambda>_ _. Inr (200, Some [])) ''http://127.0.0.1/api/rules'' [] [] small_kernel
      = (Inr (rep, err), small_kernel)" "df_OrphanIDs rep = sort [''a'']" "err \<noteq> None \<longleftrightarrow> HasDrift \<lparr>OrphanIDs = [''a''], MissingIDs = []\<rparr>"
    by (auto simp: e go_simps)
  then show ?thesis by (auto simp: HasDrift_def)
qed

abbreviation shown_set :: "FirewallRuleSet \<Rightarrow> simulateRuleSet" where
  "shown_set rs \<equiv> decode_set (RuleSetToDTO rs)"

lemma shown_set_fields:
  "sr_Protocol (shown_set rs) = rs_proto rs" "sr_Ports (shown_set rs) = map uint (rs_Ports rs)" "sr_Name (shown_set rs) = rs_Name rs"
  by (simp_all add: decode_set_def RuleSetToDTO_def rs_proto_def)

lemma rs_proto_nonempty: "rs_proto rs \<noteq> []"
  by (simp add: rs_proto_def)

lemma uint_in_map: "uint x \<in> uint ` A \<longleftrightarrow> x \<in> A"
  by (auto dest: word_uint_eq_iff [THEN iffD2])

lemma first_match_None:
  "first_match (p_proto p) (uint (p_dport p)) i (map shown_set rss) = None \<Longrightarrow> \<forall>rs \<in> set rss. strings_ToLower (rs_proto rs) = rs_proto rs \<Longrightarrow>
   container_verdict p rss auto pol = policy_verdict pol"
proof (induction rss arbitrary: i)
  case (Cons rs rss)
  have "set_verdict p rs auto = None \<and> first_match (p_proto p) (uint (p_dport p)) (Suc i) (map shown_set rss) = None"
    using Cons.prems by (auto simp: shown_set_fields rs_proto_nonempty set_verdict_match uint_in_map split: if_splits)
  then show ?case using Cons.IH [of "Suc i"] Cons.prems(2) by simp
qed simp

lemma first_match_Some:
  "first_match (p_proto p) (uint (p_dport p)) i (map shown_set rss) = Some m \<Longrightarrow> \<forall>rs \<in> set rss. strings_ToLower (rs_proto rs) = rs_proto rs \<Longrightarrow>
   \<exists>j < length rss. fm_Index m = i + j \<and> fm_Name m = rs_Name (rss ! j)
     \<and> (rs_Ports (rss ! j) \<noteq> [] \<longrightarrow> effective_allowlist (rss ! j) auto \<noteq> [] \<longrightarrow> container_verdict p rss auto pol = match_verdict p (rss ! j) auto)"
proof (induction rss arbitrary: i)
  case (Cons rs rss)
  have low: "strings_ToLower (rs_proto rs) = rs_proto rs" using Cons.prems(2) by simp
  show ?case
  proof (cases "rs_proto rs = p_proto p \<and> (rs_Ports rs = [] \<or> p_dport p \<in> set (rs_Ports rs))")
    case True
    then have m: "fm_Index m = i" "fm_Name m = rs_Name rs"
      using Cons.prems(1) low by (auto simp: shown_set_fields rs_proto_nonempty uint_in_map)
    have "container_verdict p (rs # rss) auto pol = match_verdict p rs auto" if "rs_Ports rs \<noteq> []" "effective_allowlist rs auto \<noteq> []"
      using that True by (auto simp: set_verdict_match match_verdict_def Let_def)
    then show ?thesis using m by (intro exI [of _ 0]) simp
  next
    case False
    then have f: "first_match (p_proto p) (uint (p_dport p)) (Suc i) (map shown_set rss) = Some m" "set_verdict p rs auto = None"
      using Cons.prems(1) low by (auto simp: shown_set_fields rs_proto_nonempty uint_in_map set_verdict_match split: if_splits)
    obtain j where "j < length rss" "fm_Index m = Suc i + j" "fm_Name m = rs_Name (rss ! j)"
      "rs_Ports (rss ! j) \<noteq> [] \<longrightarrow> effective_allowlist (rss ! j) auto \<noteq> [] \<longrightarrow> container_verdict p rss auto pol = match_verdict p (rss ! j) auto"
      using Cons.IH [OF f(1)] Cons.prems(2) by auto
    then show ?thesis using f(2) by (intro exI [of _ "Suc j"]) simp
  qed
qed simp

text \<open>
  The explanation of a packet against the verdict of the kernel. For the rule sets the agent's simulation answers with, when the tool says that no rule set matches, the packet
  gets the default policy; and when it names a rule set that has ports and an allowlist, the packet gets exactly the verdict of that rule set.
\<close>

theorem explain_truthful:
  assumes "strings_Fields pkt = proto # source # arrow # (CHR '':'' # portText) # parts" "p_proto p = strings_ToLower proto"
    and "sscanf_d portText = Some (uint (p_dport p))" "\<forall>rs \<in> set rss. strings_ToLower (rs_proto rs) = rs_proto rs"
  shows "(firstMatchFromPacket pkt (map (\<lambda>rs. decode_set (RuleSetToDTO rs)) rss) = Inr None \<and> container_verdict p rss auto pol = policy_verdict pol)
    \<or> (\<exists>m. firstMatchFromPacket pkt (map (\<lambda>rs. decode_set (RuleSetToDTO rs)) rss) = Inr (Some m) \<and> fm_Index m < length rss
        \<and> (rs_Ports (rss ! fm_Index m) \<noteq> [] \<longrightarrow> effective_allowlist (rss ! fm_Index m) auto \<noteq> []
           \<longrightarrow> container_verdict p rss auto pol = match_verdict p (rss ! fm_Index m) auto))"
proof -
  have F: "firstMatchFromPacket pkt (map shown_set rss) = Inr (first_match (p_proto p) (uint (p_dport p)) 0 (map shown_set rss))"
    using assms(1-3) by (simp add: firstMatchFromPacket_def go_simps)
  show ?thesis
  proof (cases "first_match (p_proto p) (uint (p_dport p)) 0 (map shown_set rss)")
    case None
    then show ?thesis using F first_match_None [OF None assms(4)] by simp
  next
    case (Some m)
    then show ?thesis using F first_match_Some [OF Some assms(4), of auto pol] by auto
  qed
qed

theorem explain_truthful_witness:
  "container_verdict \<lparr>p_proto = ''tcp'', p_dport = 80, p_src = [192, 0, 2, 1], p_dst = [172, 17, 0, 2], p_established = False, p_under = \<lambda>_. True\<rparr>
       [(empty_ruleset ''web'')\<lparr>rs_Ports := [443]\<rparr>] [] ''DROP'' = Some Drop
   \<and> firstMatchFromPacket ''tcp a > :80'' [decode_set (RuleSetToDTO ((empty_ruleset ''web'')\<lparr>rs_Ports := [443]\<rparr>))] = Inr None"
proof -
  let ?p = "\<lparr>p_proto = ''tcp'', p_dport = 80, p_src = [192, 0, 2, 1], p_dst = [172, 17, 0, 2], p_established = False, p_under = \<lambda>_. True\<rparr>"
  let ?rs = "(empty_ruleset ''web'')\<lparr>rs_Ports := [443]\<rparr>"
  have f: "strings_Fields ''tcp a > :80'' = ''tcp'' # ''a'' # ''>'' # (CHR '':'' # ''80'') # []" by (simp add: is_space_def)
  have l: "strings_ToLower ''tcp'' = ''tcp''" by (simp add: go_simps char_of_def bit_Suc_0_iff)
  have d: "sscanf_d ''80'' = Some (uint (p_dport ?p))" by (simp add: sscanf_d_def is_digit_def go_simps)
  have p: "rs_proto ?rs = ''tcp''" by (simp add: rs_proto_def empty_ruleset_def)
  have n: "firstMatchFromPacket ''tcp a > :80'' [shown_set ?rs] = Inr None"
    using f l d by (simp add: firstMatchFromPacket_def go_simps shown_set_fields p Let_def)
  from explain_truthful [OF f _ d, of "[?rs]" "[]" "''DROP''"] l n
  have "container_verdict ?p [?rs] [] ''DROP'' = policy_verdict ''DROP''" by (simp add: p)
  then show ?thesis using n by (simp add: policy_verdict_def)
qed

end
