(* ===== verification/CP_Backup.thy ===== *)
theory CP_Backup
  imports Cert_Files Config_Rules
begin

text \<open>
  Backup and restore of the control plane (\<open>backend/cmd/firefik-server/backup.go\<close>). An archive is a list of names and contents;
  \<open>archive/tar\<close> with \<open>compress/gzip\<close>, SHA-256 and JSON are the record \<open>backup_lib\<close>. Files are a map from paths to contents, as for
  certificates, and every call may fail.
\<close>

section \<open>Data\<close>

type_synonym tar_entry = "string \<times> string"

record backupManifest =
  bm_Magic :: string
  bm_SchemaVersion :: int
  bm_CreatedAt :: gotime
  bm_DBPath :: string
  bm_CAPath :: string
  bm_DBSHA256 :: string

definition backupMagic :: string where "backupMagic = ''firefik-cp-backup''"

definition backupSchemaVersion :: int where "backupSchemaVersion = 1"

text \<open>\<open>bl_unpack\<close> gives the entries that can be read and the error met after them, if any; \<open>bl_walk\<close> the files below a directory, relative to it.\<close>

record backup_lib =
  bl_pack :: "tar_entry list \<Rightarrow> string"
  bl_unpack :: "string \<Rightarrow> string + tar_entry list \<times> string option"
  bl_sha256 :: "string \<Rightarrow> string"
  bl_marshal :: "backupManifest \<Rightarrow> string"
  bl_unmarshal :: "string \<Rightarrow> string + backupManifest"
  bl_walk :: "string \<Rightarrow> string + string list"

datatype backup_error =
    BkMissingFlag string
  | BkStat string
  | BkCreate string
  | BkRead string
  | BkArchive string
  | BkRename
  | BkNoManifest
  | BkManifest string
  | BkMagic string
  | BkSchema int
  | BkMkdir string
  | BkWrite string

definition path_Join :: "string \<Rightarrow> string \<Rightarrow> string" where
  "path_Join a b = (if a = [] \<and> b = [] then [] else path_Clean (if a = [] then b else if b = [] then a else a @ ''/'' @ b))"

section \<open>Backup\<close>

text \<open>Faults of a backup: the number of entries written before the archive fails, if it does, and the other calls. What a part
  file that cannot be removed holds after a failed entry is not followed: it is empty in the model.\<close>

record backup_faults =
  bf_create :: bool
  bf_entries :: "nat option"
  bf_close :: bool
  bf_rename :: bool
  bf_removable :: bool

definition writeFileToTar :: "backup_faults \<Rightarrow> files \<Rightarrow> string \<Rightarrow> string \<Rightarrow> tar_entry list \<Rightarrow> backup_error + tar_entry list" where
  "writeFileToTar flt fs srcPath name tw =
     (case fs srcPath of
        None \<Rightarrow> Inl (BkRead srcPath)
      | Some data \<Rightarrow> if bf_entries flt = Some (length tw) then Inl (BkArchive name) else Inr (tw @ [(name, data)]))"

fun write_walked :: "backup_faults \<Rightarrow> files \<Rightarrow> string \<Rightarrow> string \<Rightarrow> string list \<Rightarrow> tar_entry list \<Rightarrow> backup_error + tar_entry list" where
  "write_walked flt fs srcDir baseName [] tw = Inr tw"
| "write_walked flt fs srcDir baseName (rel # rels) tw =
     (case writeFileToTar flt fs (path_Join srcDir rel) (path_Join baseName rel) tw of
        Inl e \<Rightarrow> Inl e
      | Inr tw1 \<Rightarrow> write_walked flt fs srcDir baseName rels tw1)"

definition writeDirToTar :: "backup_lib \<Rightarrow> backup_faults \<Rightarrow> files \<Rightarrow> string \<Rightarrow> string \<Rightarrow> tar_entry list \<Rightarrow> backup_error + tar_entry list" where
  "writeDirToTar lib flt fs srcDir baseName tw =
     (case bl_walk lib srcDir of Inl _ \<Rightarrow> Inl (BkRead srcDir) | Inr rels \<Rightarrow> write_walked flt fs srcDir baseName rels tw)"

definition writeBytesToTar :: "backup_faults \<Rightarrow> string \<Rightarrow> string \<Rightarrow> tar_entry list \<Rightarrow> backup_error + tar_entry list" where
  "writeBytesToTar flt name data tw = (if bf_entries flt = Some (length tw) then Inl (BkArchive name) else Inr (tw @ [(name, data)]))"

text \<open>The entries of the archive.\<close>

definition backup_entries :: "backup_lib \<Rightarrow> backup_faults \<Rightarrow> string \<Rightarrow> string \<Rightarrow> gotime \<Rightarrow> files \<Rightarrow> backup_error + tar_entry list" where
  "backup_entries lib flt dbPath caStateDir now fs =
     (case writeFileToTar flt fs dbPath ''db/firefik.db'' [] of
        Inl e \<Rightarrow> Inl e
      | Inr tw \<Rightarrow>
          (case (if caStateDir \<noteq> [] then writeDirToTar lib flt fs caStateDir ''ca'' tw else Inr tw) of
             Inl e \<Rightarrow> Inl e
           | Inr tw1 \<Rightarrow>
               writeBytesToTar flt ''manifest.json''
                 (bl_marshal lib \<lparr>bm_Magic = backupMagic, bm_SchemaVersion = backupSchemaVersion, bm_CreatedAt = now, bm_DBPath = dbPath,
                    bm_CAPath = caStateDir, bm_DBSHA256 = bl_sha256 lib (the (fs dbPath))\<rparr>) tw1))"

definition runBackup :: "backup_lib \<Rightarrow> backup_faults \<Rightarrow> string \<Rightarrow> string \<Rightarrow> string \<Rightarrow> gotime \<Rightarrow> files \<Rightarrow> backup_error option \<times> files" where
  "runBackup lib flt dbPath caStateDir out now fs =
     (let tmp = out @ ''.part'' in
      if out = [] then (Some (BkMissingFlag ''--out''), fs)
      else if fs dbPath = None then (Some (BkStat dbPath), fs)
      else if bf_create flt then (Some (BkCreate tmp), fs)
      else (case backup_entries lib flt dbPath caStateDir now (fs(tmp \<mapsto> [])) of
              Inl e \<Rightarrow> (Some e, os_Remove_tmp (bf_removable flt) tmp (fs(tmp \<mapsto> [])))
            | Inr es \<Rightarrow>
                if bf_close flt then (Some (BkArchive tmp), os_Remove_tmp (bf_removable flt) tmp (fs(tmp \<mapsto> [])))
                else if bf_rename flt then (Some BkRename, os_Remove_tmp (bf_removable flt) tmp (fs(tmp \<mapsto> bl_pack lib es)))
                else (None, fs(out \<mapsto> bl_pack lib es, tmp := None))))"

section \<open>Restore\<close>

definition open_archive :: "backup_lib \<Rightarrow> string \<Rightarrow> files \<Rightarrow> backup_error + tar_entry list \<times> string option" where
  "open_archive lib srcPath fs =
     (case fs srcPath of
        None \<Rightarrow> Inl (BkRead srcPath)
      | Some data \<Rightarrow> (case bl_unpack lib data of Inl e \<Rightarrow> Inl (BkArchive e) | Inr es \<Rightarrow> Inr es))"

fun find_manifest :: "tar_entry list \<Rightarrow> string option" where
  "find_manifest [] = None"
| "find_manifest ((name, body) # es) = (if name \<noteq> ''manifest.json'' then find_manifest es else Some body)"

definition readManifest :: "backup_lib \<Rightarrow> string \<Rightarrow> files \<Rightarrow> backup_error + backupManifest" where
  "readManifest lib srcPath fs =
     (case open_archive lib srcPath fs of
        Inl e \<Rightarrow> Inl e
      | Inr (es, err) \<Rightarrow>
          (case find_manifest es of
             None \<Rightarrow> (case err of None \<Rightarrow> Inl BkNoManifest | Some e \<Rightarrow> Inl (BkArchive e))
           | Some body \<Rightarrow> (case bl_unmarshal lib body of Inl e \<Rightarrow> Inl (BkManifest e) | Inr mf \<Rightarrow> Inr mf)))"

definition writeStream :: "write_fault \<Rightarrow> bool \<Rightarrow> string \<Rightarrow> string \<Rightarrow> files \<Rightarrow> backup_error option \<times> files" where
  "writeStream flt removable data dest fs =
     (let tmp = dest @ ''.part'' in
      case flt of
        WfNone \<Rightarrow> (None, fs(dest \<mapsto> data, tmp := None))
      | WfOpen \<Rightarrow> (Some (BkWrite dest), fs)
      | WfWrite part \<Rightarrow> (Some (BkWrite dest), os_Remove_tmp removable tmp (fs(tmp \<mapsto> part)))
      | WfRename \<Rightarrow> (Some (BkWrite dest), fs(tmp \<mapsto> data))
      | _ \<Rightarrow> (Some (BkWrite dest), os_Remove_tmp removable tmp (fs(tmp \<mapsto> data))))"

text \<open>Faults of a restore: the paths for which no directory can be made, and the fault of the write to each path.\<close>

record restore_faults =
  rf_mkdir :: "string \<Rightarrow> bool"
  rf_write :: "string \<Rightarrow> write_fault"
  rf_removable :: bool

text \<open>The path an entry is written to.\<close>

definition entry_dest :: "string \<Rightarrow> string \<Rightarrow> string \<Rightarrow> string option" where
  "entry_dest dbDest caDest name =
     (if name = ''db/firefik.db'' then Some dbDest
      else if strings_HasPrefix name ''ca/'' \<and> caDest \<noteq> [] then Some (path_Join caDest (strings_TrimPrefix name ''ca/''))
      else None)"

fun extract_entries :: "restore_faults \<Rightarrow> string \<Rightarrow> string \<Rightarrow> tar_entry list \<Rightarrow> files \<Rightarrow> backup_error option \<times> files" where
  "extract_entries flt dbDest caDest [] fs = (None, fs)"
| "extract_entries flt dbDest caDest ((name, body) # es) fs =
     (case entry_dest dbDest caDest name of
        None \<Rightarrow> extract_entries flt dbDest caDest es fs
      | Some dest \<Rightarrow>
          if name \<noteq> ''db/firefik.db'' \<and> rf_mkdir flt dest then (Some (BkMkdir dest), fs)
          else (case writeStream (rf_write flt dest) (rf_removable flt) body dest fs of
             (Some e, fs1) \<Rightarrow> (Some e, fs1)
           | (None, fs1) \<Rightarrow> extract_entries flt dbDest caDest es fs1))"

definition extractBackup :: "backup_lib \<Rightarrow> restore_faults \<Rightarrow> string \<Rightarrow> string \<Rightarrow> string \<Rightarrow> files \<Rightarrow> backup_error option \<times> files" where
  "extractBackup lib flt srcPath dbDest caDest fs =
     (case open_archive lib srcPath fs of
        Inl e \<Rightarrow> (Some e, fs)
      | Inr (es, err) \<Rightarrow>
          (case extract_entries flt dbDest caDest es fs of
             (Some e, fs1) \<Rightarrow> (Some e, fs1)
           | (None, fs1) \<Rightarrow> (map_option BkArchive err, fs1)))"

definition runRestore :: "backup_lib \<Rightarrow> restore_faults \<Rightarrow> string \<Rightarrow> string \<Rightarrow> string \<Rightarrow> bool \<Rightarrow> files \<Rightarrow> backup_error option \<times> files" where
  "runRestore lib flt srcPath dbPath caStateDir dryRun fs =
     (if srcPath = [] then (Some (BkMissingFlag ''--from''), fs)
      else (case readManifest lib srcPath fs of
        Inl e \<Rightarrow> (Some e, fs)
      | Inr mf \<Rightarrow>
          if bm_Magic mf \<noteq> backupMagic then (Some (BkMagic (bm_Magic mf)), fs)
          else if backupSchemaVersion < bm_SchemaVersion mf then (Some (BkSchema (bm_SchemaVersion mf)), fs)
          else if dryRun then (None, fs)
          else if rf_mkdir flt dbPath then (Some (BkMkdir dbPath), fs)
          else if caStateDir \<noteq> [] \<and> rf_mkdir flt caStateDir then (Some (BkMkdir caStateDir), fs)
          else extractBackup lib flt srcPath dbPath caStateDir fs))"

end
