(* ===== verification/CP_Restore.thy ===== *)
theory CP_Restore
  imports CP_Backup
begin

text \<open>
  What backup and restore guarantee: a backup restores to the files it was made of, a restore that fails never leaves a file half written, and what a
  restore does not check.
\<close>

section \<open>Single files\<close>

definition is_part :: "string \<Rightarrow> bool" where
  "is_part p \<longleftrightarrow> (\<exists>q. p = q @ ''.part'')"

lemma writeStream_effect:
  assumes "writeStream flt removable data dest fs = (err, fs')" "p \<noteq> dest @ ''.part''"
  shows "fs' p = (if err = None \<and> p = dest then Some data else fs p)"
  using assms by (auto simp: writeStream_def os_Remove_tmp_def Let_def split: write_fault.splits if_splits)

lemma extract_entries_effect:
  "extract_entries flt dbDest caDest es fs = (err, fs') \<Longrightarrow> \<not> is_part p \<Longrightarrow>
   fs' p = fs p \<or> (\<exists>name body. (name, body) \<in> set es \<and> entry_dest dbDest caDest name = Some p \<and> fs' p = Some body)"
proof (induction flt dbDest caDest es fs rule: extract_entries.induct)
  case (2 flt dbDest caDest name body es fs)
  show ?case
  proof (cases "entry_dest dbDest caDest name")
    case None
    then show ?thesis using 2(1) [OF None] 2(3,4) by auto
  next
    case (Some dest)
    obtain werr fs1 where w: "writeStream (rf_write flt dest) (rf_removable flt) body dest fs = (werr, fs1)" by fastforce
    have p: "fs1 p = (if werr = None \<and> p = dest then Some body else fs p)"
      using writeStream_effect [OF w] 2(4) by (auto simp: is_part_def)
    consider "name \<noteq> ''db/firefik.db'' \<and> rf_mkdir flt dest" | e where "werr = Some e" "fs' = fs1"
      | "werr = None" "\<not> (name \<noteq> ''db/firefik.db'' \<and> rf_mkdir flt dest)" "extract_entries flt dbDest caDest es fs1 = (err, fs')"
      using 2(3) Some w by (cases werr) (auto split: if_splits)
    then show ?thesis
    proof cases
      case 1
      then show ?thesis using 2(3) Some by auto
    next
      case 2
      then show ?thesis using p by simp
    next
      case 3
      then show ?thesis using "2.IH"(2) [OF Some 3(2) w [symmetric] 3(1) 3(3) 2(4)] p Some by (auto split: if_splits)
    qed
  qed
qed simp

text \<open>
  C34. A restore never leaves a file half written. Whatever call fails, and whatever the archive holds, every file but the part files is afterwards what it was or the complete content of an
  entry that belongs there; and nothing at all changes when the manifest is not accepted or only a dry run was asked for.
\<close>

theorem restore_never_partial:
  assumes "runRestore lib flt srcPath dbPath caDir dryRun fs = (err, fs')" "\<not> is_part p"
  shows "fs' p = fs p \<or> (\<exists>es rerr mf name body. open_archive lib srcPath fs = Inr (es, rerr) \<and> readManifest lib srcPath fs = Inr mf
    \<and> bm_Magic mf = backupMagic \<and> bm_SchemaVersion mf \<le> backupSchemaVersion \<and> \<not> dryRun
    \<and> (name, body) \<in> set es \<and> entry_dest dbPath caDir name = Some p \<and> fs' p = Some body)"
proof (cases "fs' = fs")
  case False
  then obtain mf where m: "readManifest lib srcPath fs = Inr mf" "bm_Magic mf = backupMagic" "bm_SchemaVersion mf \<le> backupSchemaVersion"
    "\<not> dryRun" "extractBackup lib flt srcPath dbPath caDir fs = (err, fs')"
    using assms(1) by (auto simp: runRestore_def split: if_splits sum.splits)
  then obtain es rerr e where x: "open_archive lib srcPath fs = Inr (es, rerr)" "extract_entries flt dbPath caDir es fs = (e, fs')"
    using False by (auto simp: extractBackup_def split: sum.splits prod.splits option.splits)
  then show ?thesis using extract_entries_effect [OF x(2) assms(2)] m(1-4) by blast
qed simp

section \<open>Without faults\<close>

definition no_faults :: "restore_faults \<Rightarrow> bool" where
  "no_faults flt \<longleftrightarrow> (\<forall>p. \<not> rf_mkdir flt p \<and> rf_write flt p = WfNone)"

definition put_entry :: "string \<Rightarrow> string \<Rightarrow> tar_entry \<Rightarrow> files \<Rightarrow> files" where
  "put_entry dbDest caDest e fs =
     (case entry_dest dbDest caDest (fst e) of None \<Rightarrow> fs | Some d \<Rightarrow> fs(d \<mapsto> snd e, d @ ''.part'' := None))"

lemma extract_entries_clean: "no_faults flt \<Longrightarrow> extract_entries flt dbDest caDest es fs = (None, fold (put_entry dbDest caDest) es fs)"
  by (induction flt dbDest caDest es fs rule: extract_entries.induct)
    (auto simp: no_faults_def put_entry_def writeStream_def Let_def split: option.splits)

definition dests :: "string \<Rightarrow> string \<Rightarrow> tar_entry list \<Rightarrow> string list" where
  "dests dbDest caDest es = List.map_filter (\<lambda>e. entry_dest dbDest caDest (fst e)) es"

lemma dests_simps [simp]:
  "dests dbDest caDest [] = []"
  "dests dbDest caDest (e # es) = (case entry_dest dbDest caDest (fst e) of None \<Rightarrow> dests dbDest caDest es | Some d \<Rightarrow> d # dests dbDest caDest es)"
  by (simp_all add: dests_def map_filter_simps split: option.splits)

lemma put_entry_other:
  "p \<notin> set (dests dbDest caDest es) \<Longrightarrow> \<forall>d \<in> set (dests dbDest caDest es). p \<noteq> d @ ''.part'' \<Longrightarrow> fold (put_entry dbDest caDest) es fs p = fs p"
  by (induction es arbitrary: fs) (auto simp: put_entry_def split: option.splits)

lemma put_entries:
  assumes "distinct (dests dbDest caDest es)" "\<forall>d \<in> set (dests dbDest caDest es). \<forall>d' \<in> set (dests dbDest caDest es). d \<noteq> d' @ ''.part''"
    and "(name, body) \<in> set es" "entry_dest dbDest caDest name = Some d"
  shows "fold (put_entry dbDest caDest) es fs d = Some body"
proof -
  obtain xs ys where es: "es = xs @ (name, body) # ys" using assms(3) by (meson split_list)
  have app: "dests dbDest caDest (us @ vs) = dests dbDest caDest us @ dests dbDest caDest vs" for us vs
    by (induction us) (auto split: option.splits)
  have D: "dests dbDest caDest es = dests dbDest caDest xs @ d # dests dbDest caDest ys" using assms(4) by (simp add: es app)
  have "fold (put_entry dbDest caDest) ys (put_entry dbDest caDest (name, body) (fold (put_entry dbDest caDest) xs fs)) d
      = put_entry dbDest caDest (name, body) (fold (put_entry dbDest caDest) xs fs) d"
    using assms(1,2) unfolding D by (intro put_entry_other) auto
  then show ?thesis using assms(4) by (simp add: es put_entry_def)
qed

lemma runRestore_clean:
  assumes "no_faults flt" "srcPath \<noteq> []" "open_archive lib srcPath fs = Inr (es, None)" "find_manifest es = Some text"
    and "bl_unmarshal lib text = Inr mf" "bm_Magic mf = backupMagic" "bm_SchemaVersion mf \<le> backupSchemaVersion"
  shows "runRestore lib flt srcPath dbPath caDir False fs = (None, fold (put_entry dbPath caDir) es fs)"
  using assms by (simp add: runRestore_def readManifest_def extractBackup_def extract_entries_clean) (simp add: no_faults_def)

section \<open>Paths\<close>

definition plain_rel :: "string \<Rightarrow> bool" where
  "plain_rel rel \<longleftrightarrow> list_all (\<lambda>e. e \<noteq> [] \<and> e \<noteq> ''.'' \<and> e \<noteq> ''..'') (strings_Split rel CHR ''/'')"

lemma plain_rel_nonempty: "plain_rel rel \<Longrightarrow> rel \<noteq> []"
  by (auto simp: plain_rel_def)

lemma join_ca: "plain_rel rel \<Longrightarrow> path_Join ''ca'' rel = ''ca/'' @ rel"
proof -
  assume p: "plain_rel rel"
  have s: "strings_Split (''ca/'' @ rel) CHR ''/'' = ''ca'' # strings_Split rel CHR ''/''"
    using strings_Split_append [of "CHR ''/''" "''ca''" rel] by simp
  have j: "strings_Join (''ca'' # strings_Split rel CHR ''/'') ''/'' = ''ca/'' @ rel"
    using strings_Join_Split [of "''ca/'' @ rel" "CHR ''/''"] by (simp only: s)
  have "list_all (\<lambda>e. e \<noteq> [] \<and> e \<noteq> ''.'' \<and> e \<noteq> ''..'') (''ca'' # strings_Split rel CHR ''/'')"
    using p by (simp add: plain_rel_def)
  from clean_elems_plain [OF this, of False "[]"]
  have "path_Clean (''ca/'' @ rel) = ''ca/'' @ rel"
    unfolding path_Clean_def s using j by (simp add: s Let_def)
  then show ?thesis using plain_rel_nonempty [OF p] by (simp add: path_Join_def)
qed

lemma dest_ca: "caDir \<noteq> [] \<Longrightarrow> entry_dest dbDest caDir (''ca/'' @ rel) = Some (path_Join caDir rel)"
  by (simp add: entry_dest_def go_simps)

section \<open>From backup to restore\<close>

lemma write_walked_entries:
  "write_walked flt fs dir base rels tw = Inr es \<Longrightarrow>
   es = tw @ map (\<lambda>rel. (path_Join base rel, the (fs (path_Join dir rel)))) rels \<and> (\<forall>rel \<in> set rels. fs (path_Join dir rel) \<noteq> None)"
proof (induction rels arbitrary: tw)
  case (Cons rel rels)
  then obtain data where "fs (path_Join dir rel) = Some data" "write_walked flt fs dir base rels (tw @ [(path_Join base rel, data)]) = Inr es"
    by (auto simp: writeFileToTar_def split: option.splits if_splits)
  then show ?case using Cons.IH by fastforce
qed simp

lemma backup_entries_shape:
  assumes "backup_entries lib flt db ca now fs = Inr es" "ca \<noteq> []" "bl_walk lib ca = Inr rels"
  obtains mf where "es = (''db/firefik.db'', the (fs db)) # map (\<lambda>rel. (path_Join ''ca'' rel, the (fs (path_Join ca rel)))) rels
      @ [(''manifest.json'', bl_marshal lib mf)]" "bm_Magic mf = backupMagic" "bm_SchemaVersion mf = backupSchemaVersion"
    "fs db \<noteq> None" "\<forall>rel \<in> set rels. fs (path_Join ca rel) \<noteq> None"
proof -
  obtain d where d: "fs db = Some d" using assms(1) by (auto simp: backup_entries_def writeFileToTar_def split: option.splits)
  obtain tw where tw: "write_walked flt fs ca ''ca'' rels [(''db/firefik.db'', d)] = Inr tw"
    using assms d by (auto simp: backup_entries_def writeFileToTar_def writeDirToTar_def split: sum.splits if_splits)
  let ?mf = "\<lparr>bm_Magic = backupMagic, bm_SchemaVersion = backupSchemaVersion, bm_CreatedAt = now, bm_DBPath = db,
      bm_CAPath = ca, bm_DBSHA256 = bl_sha256 lib d\<rparr>"
  have "es = tw @ [(''manifest.json'', bl_marshal lib ?mf)]"
    using assms d tw by (auto simp: backup_entries_def writeFileToTar_def writeDirToTar_def writeBytesToTar_def split: if_splits)
  then show thesis using write_walked_entries [OF tw] d by (intro that [of ?mf]) auto
qed

lemma find_manifest_archive:
  assumes "list_all plain_rel rels"
  shows "find_manifest ((''db/firefik.db'', d) # map (\<lambda>rel. (path_Join ''ca'' rel, f rel)) rels @ [(''manifest.json'', m)]) = Some m"
proof -
  have "find_manifest (map (\<lambda>rel. (path_Join ''ca'' rel, f rel)) rels @ [(''manifest.json'', m)]) = Some m"
    using assms by (induction rels) (simp_all add: join_ca)
  then show ?thesis by simp
qed

lemma dests_archive:
  assumes "list_all plain_rel rels" "ca2 \<noteq> []"
  shows "dests db2 ca2 ((''db/firefik.db'', d) # map (\<lambda>rel. (path_Join ''ca'' rel, f rel)) rels @ [(''manifest.json'', m)])
    = db2 # map (path_Join ca2) rels"
proof -
  have "dests db2 ca2 (map (\<lambda>rel. (path_Join ''ca'' rel, f rel)) rels @ [(''manifest.json'', m)]) = map (path_Join ca2) rels"
    using assms(1)
  proof (induction rels)
    case Nil
    then show ?case by (simp add: entry_dest_def go_simps)
  next
    case (Cons rel rels)
    then show ?case using dest_ca [OF assms(2), of db2 rel] by (simp add: join_ca)
  qed
  then show ?thesis by (simp add: entry_dest_def)
qed

text \<open>
  C33. A backup restores. When a backup has been written and its archive is restored, perhaps on another host and to other paths, without a failing call, the database and every file of the
  certificate authority have the contents they had when the backup was made.
\<close>

theorem backup_restore_roundtrip:
  assumes "runBackup lib flt db ca out now fs = (None, fs1)" "ca \<noteq> []" "bl_walk lib ca = Inr rels" "list_all plain_rel rels"
    and "\<forall>es. bl_unpack lib (bl_pack lib es) = Inr (es, None)" "\<forall>mf. bl_unmarshal lib (bl_marshal lib mf) = Inr mf"
    and "out @ ''.part'' \<noteq> db" "\<forall>rel \<in> set rels. path_Join ca rel \<noteq> out @ ''.part''"
    and "no_faults rfl" "archive \<noteq> []" "gs archive = fs1 out" "ca2 \<noteq> []" "distinct (db2 # map (path_Join ca2) rels)"
    and "\<forall>d \<in> set (db2 # map (path_Join ca2) rels). \<forall>d' \<in> set (db2 # map (path_Join ca2) rels). d \<noteq> d' @ ''.part''"
  shows "\<exists>gs'. runRestore lib rfl archive db2 ca2 False gs = (None, gs') \<and> gs' db2 = fs db \<and> fs db \<noteq> None
    \<and> (\<forall>rel \<in> set rels. gs' (path_Join ca2 rel) = fs (path_Join ca rel))"
proof -
  let ?fs = "fs(out @ ''.part'' \<mapsto> [])"
  obtain es where es: "backup_entries lib flt db ca now ?fs = Inr es" "fs1 out = Some (bl_pack lib es)"
    using assms(1) by (auto simp: runBackup_def Let_def split: if_splits sum.splits)
  obtain mf where m: "es = (''db/firefik.db'', the (?fs db)) # map (\<lambda>rel. (path_Join ''ca'' rel, the (?fs (path_Join ca rel)))) rels
      @ [(''manifest.json'', bl_marshal lib mf)]" "bm_Magic mf = backupMagic" "bm_SchemaVersion mf = backupSchemaVersion"
      "?fs db \<noteq> None" "\<forall>rel \<in> set rels. ?fs (path_Join ca rel) \<noteq> None"
    by (rule backup_entries_shape [OF es(1) assms(2,3)])
  have a: "open_archive lib archive gs = Inr (es, None)" using assms(5,11) es(2) by (simp add: open_archive_def)
  have f: "find_manifest es = Some (bl_marshal lib mf)" unfolding m(1) by (rule find_manifest_archive [OF assms(4)])
  have r: "runRestore lib rfl archive db2 ca2 False gs = (None, fold (put_entry db2 ca2) es gs)"
    using runRestore_clean [OF assms(9,10) a f] assms(6) m(2,3) by simp
  have D: "dests db2 ca2 es = db2 # map (path_Join ca2) rels" unfolding m(1) by (rule dests_archive [OF assms(4,12)])
  note put = put_entries [of db2 ca2 es, unfolded D, OF assms(13,14)]
  have "fold (put_entry db2 ca2) es gs db2 = Some (the (?fs db))"
    by (rule put [of "''db/firefik.db''"]) (simp_all add: m(1) entry_dest_def)
  moreover have "fold (put_entry db2 ca2) es gs (path_Join ca2 rel) = fs (path_Join ca rel)" if rel: "rel \<in> set rels" for rel
  proof -
    have p: "path_Join ''ca'' rel = ''ca/'' @ rel" using assms(4) rel join_ca by (auto simp: list_all_iff)
    have "fold (put_entry db2 ca2) es gs (path_Join ca2 rel) = Some (the (?fs (path_Join ca rel)))"
      by (rule put [of "''ca/'' @ rel"], use rel p in \<open>force simp: m(1)\<close>) (rule dest_ca [OF assms(12)])
    then show ?thesis using m(5) rel assms(8) by auto
  qed
  ultimately show ?thesis using r m(4) assms(7) by auto
qed

section \<open>An archive format\<close>

text \<open>A concrete library: strings with a mark before every character and one at the end, archives and manifests as sequences of them.\<close>

fun enc_str :: "string \<Rightarrow> string" where
  "enc_str [] = ''0''"
| "enc_str (c # s) = CHR ''1'' # c # enc_str s"

fun dec_str :: "string \<Rightarrow> string \<times> string" where
  "dec_str [] = ([], [])"
| "dec_str (m # s) = (if m = CHR ''1'' then (case s of [] \<Rightarrow> ([], []) | c # r \<Rightarrow> (case dec_str r of (t, u) \<Rightarrow> (c # t, u))) else ([], s))"

lemma dec_enc [simp]: "dec_str (enc_str s @ t) = (s, t)"
  by (induction s) simp_all

lemma dec_enc_end [simp]: "dec_str (enc_str s) = (s, [])"
  using dec_enc [of s "[]"] by simp

fun demo_pack :: "tar_entry list \<Rightarrow> string" where
  "demo_pack [] = []"
| "demo_pack ((n, b) # es) = CHR ''1'' # enc_str n @ enc_str b @ demo_pack es"

fun demo_unpack :: "nat \<Rightarrow> string \<Rightarrow> tar_entry list" where
  "demo_unpack (Suc m) (x # s) = (case dec_str s of (n, t) \<Rightarrow> case dec_str t of (b, u) \<Rightarrow> (n, b) # demo_unpack m u)"
| "demo_unpack _ _ = []"

lemma demo_unpack_pack: "length es \<le> m \<Longrightarrow> demo_unpack m (demo_pack es) = es"
proof (induction es arbitrary: m rule: demo_pack.induct)
  case (2 n b es)
  then show ?case by (cases m) simp_all
qed simp

lemma demo_pack_length: "length es \<le> length (demo_pack es)"
  by (induction es rule: demo_pack.induct) simp_all

definition enc_int :: "int \<Rightarrow> string" where
  "enc_int i = enc_str ((if i < 0 then ''-'' else ''+'') @ replicate (nat \<bar>i\<bar>) CHR ''x'')"

definition dec_int :: "string \<Rightarrow> int" where
  "dec_int s = (if hd s = CHR ''-'' then - int (length s - 1) else int (length s - 1))"

definition demo_marshal :: "backupManifest \<Rightarrow> string" where
  "demo_marshal m = enc_str (bm_Magic m) @ enc_int (bm_SchemaVersion m) @ enc_int (bm_CreatedAt m) @ enc_str (bm_DBPath m)
     @ enc_str (bm_CAPath m) @ enc_str (bm_DBSHA256 m)"

definition demo_unmarshal :: "string \<Rightarrow> backupManifest" where
  "demo_unmarshal s =
     (case dec_str s of (magic, s1) \<Rightarrow> case dec_str s1 of (schema, s2) \<Rightarrow> case dec_str s2 of (created, s3) \<Rightarrow>
      case dec_str s3 of (db, s4) \<Rightarrow> case dec_str s4 of (ca, s5) \<Rightarrow> case dec_str s5 of (sha, _) \<Rightarrow>
      \<lparr>bm_Magic = magic, bm_SchemaVersion = dec_int schema, bm_CreatedAt = dec_int created, bm_DBPath = db, bm_CAPath = ca, bm_DBSHA256 = sha\<rparr>)"

lemma dec_int_enc: "dec_int ((if i < 0 then ''-'' else ''+'') @ replicate (nat \<bar>i\<bar>) CHR ''x'') = i"
  by (simp add: dec_int_def)

lemma demo_unmarshal_marshal: "demo_unmarshal (demo_marshal m) = m"
  by (simp add: demo_unmarshal_def demo_marshal_def enc_int_def dec_int_enc)

definition demo_lib :: "string list \<Rightarrow> backup_lib" where
  "demo_lib rels = \<lparr>bl_pack = demo_pack, bl_unpack = (\<lambda>s. Inr (demo_unpack (length s) s, None)), bl_sha256 = (\<lambda>s. s), bl_marshal = demo_marshal,
     bl_unmarshal = (\<lambda>s. Inr (demo_unmarshal s)), bl_walk = (\<lambda>_. Inr rels)\<rparr>"

lemma demo_lib_faithful:
  "bl_unpack (demo_lib rels) (bl_pack (demo_lib rels) es) = Inr (es, None)" "bl_unmarshal (demo_lib rels) (bl_marshal (demo_lib rels) mf) = Inr mf"
  "bl_walk (demo_lib rels) d = Inr rels"
  by (simp_all add: demo_lib_def demo_unpack_pack demo_pack_length demo_unmarshal_marshal)

definition good_backup :: backup_faults where
  "good_backup = \<lparr>bf_create = False, bf_entries = None, bf_close = False, bf_rename = False, bf_removable = True\<rparr>"

definition good_restore :: restore_faults where
  "good_restore = \<lparr>rf_mkdir = (\<lambda>_. False), rf_write = (\<lambda>_. WfNone), rf_removable = True\<rparr>"

lemma join_small: "path_Join ''c'' ''k'' = ''c/k''" "path_Join ''f'' ''k'' = ''f/k''"
  by (simp_all add: path_Join_def path_Clean_def)

theorem backup_restore_roundtrip_witness:
  "\<exists>fs1 gs'. runBackup (demo_lib [''k'']) good_backup ''d'' ''c'' ''o'' 0 [''d'' \<mapsto> ''data'', ''c/k'' \<mapsto> ''key''] = (None, fs1)
     \<and> runRestore (demo_lib [''k'']) good_restore ''a'' ''e'' ''f'' False [''a'' \<mapsto> the (fs1 ''o'')] = (None, gs')
     \<and> gs' ''e'' = Some ''data'' \<and> gs' ''f/k'' = Some ''key''"
proof -
  let ?fs = "[''d'' \<mapsto> ''data'', ''c/k'' \<mapsto> ''key'']"
  have "\<exists>fs1. runBackup (demo_lib [''k'']) good_backup ''d'' ''c'' ''o'' 0 ?fs = (None, fs1) \<and> fs1 ''o'' \<noteq> None"
    by (simp add: runBackup_def good_backup_def backup_entries_def writeFileToTar_def writeDirToTar_def writeBytesToTar_def demo_lib_faithful(3)
      join_small Let_def)
  then obtain fs1 where b: "runBackup (demo_lib [''k'']) good_backup ''d'' ''c'' ''o'' 0 ?fs = (None, fs1)" "fs1 ''o'' \<noteq> None" by blast
  have "\<exists>gs'. runRestore (demo_lib [''k'']) good_restore ''a'' ''e'' ''f'' False [''a'' \<mapsto> the (fs1 ''o'')] = (None, gs')
      \<and> gs' ''e'' = ?fs ''d'' \<and> ?fs ''d'' \<noteq> None \<and> (\<forall>rel \<in> set [''k'']. gs' (path_Join ''f'' rel) = ?fs (path_Join ''c'' rel))"
    by (rule backup_restore_roundtrip [OF b(1) _ demo_lib_faithful(3)])
      (use b(2) in \<open>simp_all add: demo_lib_faithful plain_rel_def no_faults_def good_restore_def join_small\<close>)
  then show ?thesis using b(1) by (auto simp: join_small)
qed

definition bad_restore :: restore_faults where
  "bad_restore = good_restore\<lparr>rf_write := (\<lambda>_. WfWrite ''da'')\<rparr>"

definition small_archive :: "tar_entry list" where
  "small_archive = [(''db/firefik.db'', ''data''), (''manifest.json'', demo_marshal \<lparr>bm_Magic = backupMagic, bm_SchemaVersion = 1, bm_CreatedAt = 0,
     bm_DBPath = ''d'', bm_CAPath = [], bm_DBSHA256 = ''data''\<rparr>)]"

theorem restore_never_partial_witness:
  "\<exists>err fs'. runRestore (demo_lib []) bad_restore ''a'' ''e'' [] False [''a'' \<mapsto> demo_pack small_archive, ''e'' \<mapsto> ''old''] = (err, fs')
     \<and> fs' ''e'' \<in> {Some ''old'', Some ''data''}"
proof -
  let ?fs = "[''a'' \<mapsto> demo_pack small_archive, ''e'' \<mapsto> ''old'']"
  obtain err fs' where r: "runRestore (demo_lib []) bad_restore ''a'' ''e'' [] False ?fs = (err, fs')" by fastforce
  have a: "open_archive (demo_lib []) ''a'' ?fs = Inr (small_archive, None)"
    by (simp add: open_archive_def demo_lib_def demo_unpack_pack demo_pack_length)
  have "\<not> is_part ''e''" by (simp add: is_part_def)
  from restore_never_partial [OF r this] have "fs' ''e'' \<in> {Some ''old'', Some ''data''}"
    unfolding a by (auto simp: small_archive_def entry_dest_def)
  then show ?thesis using r by blast
qed

section \<open>What a restore does not check\<close>

text \<open>The digest of the database in the manifest is never compared: a database that does not have it is installed.\<close>

lemma restore_ignores_digest:
  assumes "no_faults flt" "srcPath \<noteq> []" "open_archive lib srcPath fs = Inr ([(''db/firefik.db'', data), (''manifest.json'', m)], None)"
    and "bl_unmarshal lib m = Inr mf" "bm_Magic mf = backupMagic" "bm_SchemaVersion mf \<le> backupSchemaVersion"
    and "bm_DBSHA256 mf \<noteq> bl_sha256 lib data"
  shows "\<exists>fs'. runRestore lib flt srcPath dbPath caDir False fs = (None, fs') \<and> fs' dbPath = Some data"
  using runRestore_clean [OF assms(1-3) _ assms(4-6)] by (simp add: put_entry_def entry_dest_def go_simps)

text \<open>An entry of the archive may name a path outside the directory of the authority.\<close>

lemma entry_escapes: "entry_dest db ''/var/lib/ca'' ''ca/../../../etc/cron.d/x'' = Some ''/etc/cron.d/x''"
  by (simp add: entry_dest_def path_Join_def path_Clean_def go_simps)

end
