(* ===== verification/Geo_Update.thy ===== *)
theory Geo_Update
  imports CP_Backup Rules_Transform
begin

text \<open>
  The GeoIP database: its update from the network (\<open>backend/internal/geoip/updater.go\<close>), the networks of a country (\<open>lookup.go\<close>), and the
  stream of Docker's events with its delays (\<open>docker/events.go\<close>). The server of the database, the archive format and the parsing
  of a database are parameters; the database of the engine is replaced when a new one has been opened.
\<close>

section \<open>Sources\<close>

record SourceConfig =
  gs_Source :: string
  gs_LicenseKey :: string
  gs_DownloadURL :: string
  gs_Version :: string

definition p3terxDownloadURL :: string where
  "p3terxDownloadURL = ''https://github.com/P3TERX/GeoLite.mmdb/releases/latest/download/GeoLite2-Country.mmdb''"

datatype geo_update_error = GeoSource string | GeoRequest string | GeoStatus nat | GeoMkdir | GeoExtract | GeoWrite | GeoRename

definition geo_validate :: "SourceConfig \<Rightarrow> geo_update_error option" where
  "geo_validate s =
     (if gs_Source s = ''p3terx'' then None
      else if gs_Source s = ''maxmind'' then (if gs_LicenseKey s = [] then Some (GeoSource ''maxmind'') else None)
      else if gs_Source s = ''url'' then (if gs_DownloadURL s = [] then Some (GeoSource ''url'') else None)
      else Some (GeoSource (gs_Source s)))"

definition resolveDownloadURL :: "SourceConfig \<Rightarrow> geo_update_error + string \<times> bool" where
  "resolveDownloadURL s =
     (if gs_Source s = ''p3terx'' then Inr (p3terxDownloadURL, False)
      else if gs_Source s = ''maxmind'' then
        (if gs_LicenseKey s = [] then Inl (GeoSource ''maxmind'')
         else Inr (''https://download.maxmind.com/app/geoip_download?edition_id=GeoLite2-Country&license_key='' @ gs_LicenseKey s
                   @ ''&suffix=tar.gz'', True))
      else if gs_Source s = ''url'' then
        (if gs_DownloadURL s = [] then Inl (GeoSource ''url'')
         else Inr (gs_DownloadURL s, strings_HasSuffix (gs_DownloadURL s) ''.tar.gz'' \<or> strings_HasSuffix (gs_DownloadURL s) ''.tgz''))
      else Inl (GeoSource (gs_Source s)))"

section \<open>Download\<close>

record Updater =
  up_dbPath :: string
  up_source :: SourceConfig

record geo_reply =
  gr_Status :: nat
  gr_ETag :: string
  gr_Body :: string

text \<open>\<open>ge_client\<close> answers a request for a URL with the headers \<open>User-Agent\<close> and \<open>If-None-Match\<close>.\<close>

record 'db geo_env =
  ge_client :: "string \<Rightarrow> string \<Rightarrow> string option \<Rightarrow> string + geo_reply"
  ge_untar :: "string \<Rightarrow> string + tar_entry list \<times> string option"
  ge_open :: "string \<Rightarrow> 'db option"
  ge_mkdir_fails :: bool
  ge_write :: write_fault
  ge_removable :: bool
  ge_etag_fails :: bool

definition maxMMDBSize :: nat where "maxMMDBSize = 256 * 2 ^ 20"

definition etagPath :: "Updater \<Rightarrow> string" where
  "etagPath u = up_dbPath u @ ''.etag''"

definition loadETag :: "Updater \<Rightarrow> files \<Rightarrow> string" where
  "loadETag u fs = (case fs (etagPath u) of None \<Rightarrow> [] | Some data \<Rightarrow> strings_TrimSpace data)"

definition storeETag :: "bool \<Rightarrow> Updater \<Rightarrow> string \<Rightarrow> files \<Rightarrow> files" where
  "storeETag fails u etag fs =
     (if fails then fs else if etag = [] then fs(etagPath u := None) else fs(etagPath u \<mapsto> etag))"

definition userAgent :: "Updater \<Rightarrow> string" where
  "userAgent u = ''firefik/'' @ (if gs_Version (up_source u) = [] then ''dev'' else gs_Version (up_source u))"

text \<open>The bytes of the database in an archive: the first file with the right extension, if one comes before an error.\<close>

definition extractMMDB :: "(string \<Rightarrow> string + tar_entry list \<times> string option) \<Rightarrow> string \<Rightarrow> string option" where
  "extractMMDB untar body =
     (case untar body of
        Inl _ \<Rightarrow> None
      | Inr (es, _) \<Rightarrow> map_option snd (List.find (\<lambda>e. strings_HasSuffix (fst e) ''.mmdb'') es))"

text \<open>Writing the temporary file: whether it works, and the files then.\<close>

definition writeRawMMDB :: "write_fault \<Rightarrow> string \<Rightarrow> string \<Rightarrow> files \<Rightarrow> bool \<times> files" where
  "writeRawMMDB flt data destPath fs =
     (case flt of
        WfOpen \<Rightarrow> (False, fs)
      | WfWrite part \<Rightarrow> (False, fs(destPath \<mapsto> part))
      | WfClose \<Rightarrow> (False, fs(destPath \<mapsto> take maxMMDBSize data))
      | _ \<Rightarrow> (True, fs(destPath \<mapsto> take maxMMDBSize data)))"

definition download :: "'db geo_env \<Rightarrow> Updater \<Rightarrow> files \<Rightarrow> (geo_update_error + bool) \<times> files" where
  "download env u fs =
     (case resolveDownloadURL (up_source u) of
        Inl e \<Rightarrow> (Inl e, fs)
      | Inr (url, archived) \<Rightarrow>
          (case ge_client env url (userAgent u) (if loadETag u fs \<noteq> [] then Some (loadETag u fs) else None) of
             Inl e \<Rightarrow> (Inl (GeoRequest e), fs)
           | Inr resp \<Rightarrow>
               if gr_Status resp = 304 then (Inr False, fs)
               else if gr_Status resp \<noteq> 200 then (Inl (GeoStatus (gr_Status resp)), fs)
               else if ge_mkdir_fails env then (Inl GeoMkdir, fs)
               else
                 (let tmpFile = up_dbPath u @ ''.tmp'' in
                  case (if archived then extractMMDB (ge_untar env) (gr_Body resp) else Some (gr_Body resp)) of
                    None \<Rightarrow> (Inl GeoExtract, os_Remove_tmp (ge_removable env) tmpFile fs)
                  | Some data \<Rightarrow>
                      (case writeRawMMDB (ge_write env) data tmpFile fs of
                         (False, fs1) \<Rightarrow> (Inl GeoWrite, os_Remove_tmp (ge_removable env) tmpFile fs1)
                       | (True, fs1) \<Rightarrow>
                           if ge_write env = WfRename then (Inl GeoRename, os_Remove_tmp (ge_removable env) tmpFile fs1)
                           else (Inr True, storeETag (ge_etag_fails env) u (gr_ETag resp)
                                             (fs1(up_dbPath u := fs1 tmpFile, tmpFile := None)))))))"

text \<open>The state: the files and the database the engine uses.\<close>

definition reloadDB :: "'db geo_env \<Rightarrow> Updater \<Rightarrow> files \<times> 'db option \<Rightarrow> files \<times> 'db option" where
  "reloadDB env u st =
     (case st of (fs, cur) \<Rightarrow> (case Option.bind (fs (up_dbPath u)) (ge_open env) of None \<Rightarrow> (fs, cur) | Some db \<Rightarrow> (fs, Some db)))"

definition scheduled_update :: "'db geo_env \<Rightarrow> Updater \<Rightarrow> files \<times> 'db option \<Rightarrow> files \<times> 'db option" where
  "scheduled_update env u st =
     (case download env u (fst st) of
        (Inl _, fs) \<Rightarrow> (fs, snd st)
      | (Inr False, fs) \<Rightarrow> (fs, snd st)
      | (Inr True, fs) \<Rightarrow> reloadDB env u (fs, snd st))"

definition downloadIfMissing :: "'db geo_env \<Rightarrow> Updater \<Rightarrow> files \<times> 'db option \<Rightarrow> files \<times> 'db option" where
  "downloadIfMissing env u st = (if fst st (up_dbPath u) \<noteq> None then st else scheduled_update env u st)"

text \<open>\<open>Run\<close>: the environment of the first download and those of the updates the schedule starts.\<close>

definition geo_Run :: "'db geo_env \<Rightarrow> 'db geo_env list \<Rightarrow> Updater \<Rightarrow> files \<times> 'db option \<Rightarrow> files \<times> 'db option" where
  "geo_Run env envs u st =
     (if geo_validate (up_source u) \<noteq> None then st else fold (\<lambda>e. scheduled_update e u) envs (downloadIfMissing env u st))"

section \<open>Lookup\<close>

text \<open>A database iterates over networks with their country, \<open>None\<close> where the record cannot be decoded, and ends perhaps with an error.\<close>

definition CIDRsForCountries :: "((IPNet \<times> string) option list \<times> string option) option \<Rightarrow> string list \<Rightarrow> IPNet list \<times> string option" where
  "CIDRsForCountries db countries =
     (case db of
        None \<Rightarrow> ([], None)
      | Some (networks, err) \<Rightarrow>
          if countries = [] then ([], None)
          else (let want = map strings_ToUpper countries in
                (List.map_filter (\<lambda>r. case r of Some (network, code) \<Rightarrow> if code \<in> set want then Some network else None | None \<Rightarrow> None) networks, err)))"

section \<open>Events of Docker\<close>

definition watchedActions :: "string list" where
  "watchedActions = [''start'', ''stop'', ''die'', ''destroy'', ''rename'']"

datatype 'e stream_item = StreamMsg string 'e | StreamErr string | StreamClosed

text \<open>One connection: the events handed to the handler, and the error reported.\<close>

fun dispatchEvents :: "'e stream_item list \<Rightarrow> 'e list \<times> string option" where
  "dispatchEvents [] = ([], None)"
| "dispatchEvents (StreamMsg action ev # rest) =
     (case dispatchEvents rest of (evs, err) \<Rightarrow> ((if action \<in> set watchedActions then ev # evs else evs), err))"
| "dispatchEvents (StreamErr e # rest) = ([], Some e)"
| "dispatchEvents (StreamClosed # rest) = ([], None)"

definition nextEventDelay :: "duration \<Rightarrow> duration" where
  "nextEventDelay d = (if d < 30 * second then d * 2 else d)"

text \<open>The connections one after the other, each with the time it lasted: the events, and the delays waited.\<close>

fun watch_loop :: "duration \<Rightarrow> (duration \<times> 'e stream_item list) list \<Rightarrow> 'e list \<times> duration list" where
  "watch_loop delay [] = ([], [])"
| "watch_loop delay ((lasted, items) # conns) =
     (let delay1 = (if 30 * second \<le> lasted then second else delay) in
      case watch_loop (nextEventDelay delay1) conns of (evs, ds) \<Rightarrow> (fst (dispatchEvents items) @ evs, delay1 # ds))"

definition WatchEvents :: "(duration \<times> 'e stream_item list) list \<Rightarrow> 'e list \<times> duration list" where
  "WatchEvents conns = watch_loop second conns"

section \<open>What an update leaves\<close>

lemma writeRawMMDB_effect:
  "writeRawMMDB flt data dest fs = (ok, fs') \<Longrightarrow> (p \<noteq> dest \<longrightarrow> fs' p = fs p) \<and> (ok \<longrightarrow> fs' dest = Some (take maxMMDBSize data))"
  by (auto simp: writeRawMMDB_def split: write_fault.splits)

lemma os_Remove_tmp_other: "p \<noteq> tmp \<Longrightarrow> os_Remove_tmp r tmp fs p = fs p"
  by (simp add: os_Remove_tmp_def)

lemma storeETag_other: "p \<noteq> etagPath u \<Longrightarrow> storeETag fails u etag fs p = fs p"
  by (simp add: storeETag_def)

text \<open>
  The database on disk is never half written: whatever call of a download fails, the file is the old one, and when the download reports a change it is the body of the accepted answer, or
  of the member of its archive, cut at the maximal size.
\<close>

lemma geo_download_atomic:
  assumes "download env u fs = (r, fs')"
  shows "r \<noteq> Inr True \<Longrightarrow> fs' (up_dbPath u) = fs (up_dbPath u)"
    and "r = Inr True \<Longrightarrow> \<exists>url archived agent etag resp data. resolveDownloadURL (up_source u) = Inr (url, archived)
      \<and> ge_client env url agent etag = Inr resp \<and> gr_Status resp = 200
      \<and> (if archived then extractMMDB (ge_untar env) (gr_Body resp) else Some (gr_Body resp)) = Some data
      \<and> fs' (up_dbPath u) = Some (take maxMMDBSize data)"
proof -
  have ne: "up_dbPath u \<noteq> up_dbPath u @ ''.tmp''" "up_dbPath u \<noteq> etagPath u" by (simp_all add: etagPath_def)
  have W: "writeRawMMDB (ge_write env) data (up_dbPath u @ ''.tmp'') fs = (ok, fs1) \<Longrightarrow>
      fs1 (up_dbPath u) = fs (up_dbPath u) \<and> (ok \<longrightarrow> fs1 (up_dbPath u @ ''.tmp'') = Some (take maxMMDBSize data))" for data ok fs1
    using writeRawMMDB_effect [where p = "up_dbPath u"] ne(1) by metis
  show "fs' (up_dbPath u) = fs (up_dbPath u)" if "r \<noteq> Inr True"
    using assms that W ne(2)
    by (auto simp: download_def Let_def os_Remove_tmp_other split: sum.splits if_splits option.splits prod.splits bool.splits)
  assume t: "r = Inr True"
  obtain url archived where u: "resolveDownloadURL (up_source u) = Inr (url, archived)"
    using assms t by (auto simp: download_def split: sum.splits)
  obtain resp where c: "ge_client env url (userAgent u) (if loadETag u fs \<noteq> [] then Some (loadETag u fs) else None) = Inr resp" "gr_Status resp = 200"
    "\<not> ge_mkdir_fails env"
    using assms t u by (auto simp: download_def split: sum.splits if_splits)
  obtain data where d: "(if archived then extractMMDB (ge_untar env) (gr_Body resp) else Some (gr_Body resp)) = Some data"
    using assms t u c
    by (cases "if archived then extractMMDB (ge_untar env) (gr_Body resp) else Some (gr_Body resp)") (simp_all add: download_def Let_def)
  obtain ok fs1 where w: "writeRawMMDB (ge_write env) data (up_dbPath u @ ''.tmp'') fs = (ok, fs1)" by fastforce
  have "ok" "fs' (up_dbPath u) = fs1 (up_dbPath u @ ''.tmp'')"
    using assms t u c d w ne by (auto simp: download_def Let_def storeETag_other split: bool.splits if_splits)
  then have "fs' (up_dbPath u) = Some (take maxMMDBSize data)" using W [OF w] by simp
  then show "\<exists>url archived agent etag resp data. resolveDownloadURL (up_source u) = Inr (url, archived)
      \<and> ge_client env url agent etag = Inr resp \<and> gr_Status resp = 200
      \<and> (if archived then extractMMDB (ge_untar env) (gr_Body resp) else Some (gr_Body resp)) = Some data
      \<and> fs' (up_dbPath u) = Some (take maxMMDBSize data)"
    using u c(1,2) d by blast
qed

text \<open>
  C35. A bad database is kept. When an update brings bytes that do not open as a database, they replace the file, and their ETag is stored before they are examined; the agent keeps the
  database it has loaded, and from then on every update that finds the server's ETag unchanged leaves everything as it is: the bad file stays until the server has a new one.
\<close>

theorem bad_geo_db_stays:
  assumes "resolveDownloadURL (up_source u) = Inr (url, False)" "\<not> ge_mkdir_fails env" "ge_write env = WfNone" "\<not> ge_etag_fails env"
    and "ge_client env url (userAgent u) (if loadETag u fs \<noteq> [] then Some (loadETag u fs) else None) = Inr resp"
    and "gr_Status resp = 200" "gr_ETag resp \<noteq> []" "strings_TrimSpace (gr_ETag resp) = gr_ETag resp" "length (gr_Body resp) \<le> maxMMDBSize"
    and "ge_open env (gr_Body resp) = None"
    and "\<forall>e \<in> set later. \<exists>r. ge_client e url (userAgent u) (Some (gr_ETag resp)) = Inr r \<and> gr_Status r = 304"
  shows "\<exists>fs'. fold (\<lambda>e. scheduled_update e u) (env # later) (fs, cur) = (fs', cur) \<and> fs' (up_dbPath u) = Some (gr_Body resp)"
proof -
  let ?tmp = "up_dbPath u @ ''.tmp''"
  define fs1 where "fs1 = storeETag False u (gr_ETag resp) ((fs(?tmp \<mapsto> gr_Body resp))(up_dbPath u \<mapsto> gr_Body resp, ?tmp := None))"
  have d: "download env u fs = (Inr True, fs1)"
    using assms(1-6,9) by (simp add: download_def writeRawMMDB_def fs1_def Let_def)
  have f: "fs1 (up_dbPath u) = Some (gr_Body resp)" "loadETag u fs1 = gr_ETag resp"
    using assms(7,8) by (simp_all add: fs1_def storeETag_def loadETag_def etagPath_def)
  have s: "scheduled_update env u (fs, cur) = (fs1, cur)"
    using d f(1) assms(10) by (simp add: scheduled_update_def reloadDB_def)
  have "download e u fs1 = (Inr False, fs1)" if "e \<in> set later" for e
    using assms(1,7,11) that f(2) by (auto simp: download_def)
  then have "\<forall>e \<in> set later. scheduled_update e u (fs1, cur) = (fs1, cur)" by (simp add: scheduled_update_def)
  then have "fold (\<lambda>e. scheduled_update e u) later (fs1, cur) = (fs1, cur)" by (induction later) simp_all
  then show ?thesis using s f(1) by simp
qed

definition geo_demo :: "nat \<Rightarrow> unit geo_env" where
  "geo_demo status = \<lparr>ge_client = (\<lambda>_ _ _. Inr \<lparr>gr_Status = status, gr_ETag = ''t'', gr_Body = ''bad''\<rparr>), ge_untar = (\<lambda>_. Inl ''gzip''),
     ge_open = (\<lambda>_. None), ge_mkdir_fails = False, ge_write = WfNone, ge_removable = True, ge_etag_fails = False\<rparr>"

definition geo_updater :: Updater where
  "geo_updater = \<lparr>up_dbPath = ''/g'', up_source = \<lparr>gs_Source = ''p3terx'', gs_LicenseKey = [], gs_DownloadURL = [], gs_Version = []\<rparr>\<rparr>"

theorem bad_geo_db_stays_witness:
  "\<exists>fs'. fold (\<lambda>e. scheduled_update e geo_updater) [geo_demo 200, geo_demo 304, geo_demo 304] ([''/g'' \<mapsto> ''good''], Some ()) = (fs', Some ())
     \<and> fs' ''/g'' = Some ''bad''"
proof -
  let ?r = "\<lparr>gr_Status = 200, gr_ETag = ''t'', gr_Body = ''bad''\<rparr>"
  have u: "resolveDownloadURL (up_source geo_updater) = Inr (p3terxDownloadURL, False)" "up_dbPath geo_updater = ''/g''"
    by (simp_all add: geo_updater_def resolveDownloadURL_def)
  have "\<exists>fs'. fold (\<lambda>e. scheduled_update e geo_updater) (geo_demo 200 # [geo_demo 304, geo_demo 304]) ([''/g'' \<mapsto> ''good''], Some ()) = (fs', Some ())
     \<and> fs' (up_dbPath geo_updater) = Some (gr_Body ?r)"
    by (rule bad_geo_db_stays [OF u(1)]) (simp_all add: geo_demo_def strings_TrimSpace_def is_space_def maxMMDBSize_def)
  then show ?thesis by (simp add: u(2))
qed

section \<open>What the stream of events gives\<close>

text \<open>Delays stay between one and 32 seconds, and only the watched events before the end of each connection are handled, in order.\<close>

lemma watch_loop_delays:
  "delay \<in> (\<lambda>k. 2 ^ k * second) ` {..5} \<Longrightarrow> \<forall>d \<in> set (snd (watch_loop delay conns)). d \<in> (\<lambda>k. 2 ^ k * second) ` {..5}"
proof (induction delay conns rule: watch_loop.induct)
  case (2 delay lasted items conns)
  let ?d = "if 30 * second \<le> lasted then second else delay"
  have "second \<in> (\<lambda>k. 2 ^ k * second) ` {..5}" by (rule image_eqI [of _ _ 0]) simp_all
  then have d: "?d \<in> (\<lambda>k. 2 ^ k * second) ` {..5}" using 2(2) by simp
  then obtain k where k: "?d = 2 ^ k * second" "k \<le> 5" by auto
  have "nextEventDelay ?d \<in> (\<lambda>k. 2 ^ k * second) ` {..5}"
  proof (cases "k = 5")
    case True
    then show ?thesis using k by (intro image_eqI [of _ _ 5]) (simp_all add: nextEventDelay_def second_def)
  next
    case False
    then have "2 ^ k \<le> (2 ^ 4 :: int)" using k(2) by (intro power_increasing) auto
    then have "nextEventDelay ?d = 2 ^ Suc k * second" using k(1) by (simp add: nextEventDelay_def second_def)
    then show ?thesis using k(2) False by (intro image_eqI [of _ _ "Suc k"]) simp_all
  qed
  from 2(1) [OF refl this] show ?case using d by (auto simp: Let_def split: prod.splits)
qed simp

lemma dispatchEvents_spec:
  "fst (dispatchEvents items) = List.map_filter (\<lambda>i. case i of StreamMsg a ev \<Rightarrow> if a \<in> set watchedActions then Some ev else None | _ \<Rightarrow> None)
     (takeWhile (\<lambda>i. case i of StreamMsg _ _ \<Rightarrow> True | _ \<Rightarrow> False) items)"
  by (induction items rule: dispatchEvents.induct) (auto simp: map_filter_simps split: prod.splits)

end
