(* ===== verification/Engine_Reload.thy ===== *)
theory Engine_Reload
  imports Engine_Apply
begin

text \<open>
  What a reconciliation does with a container that Docker still lists but whose configuration no longer enables rules, as after its
  section was taken out of the rules file (\<open>backend/internal/rules/engine.go\<close>, \<open>Reconcile\<close>). The interface
  \<open>backend_others\<close> says what an operation on another container leaves alone; the iptables backend keeps it for the chains of
  the container and for the jumps to them.
\<close>

section \<open>What operations on other containers leave alone\<close>

locale backend_others =
  fixes be :: "'k Backend"
    and good :: "string \<Rightarrow> bool"
    and sid :: string
    and keeps :: "'k \<Rightarrow> 'k \<Rightarrow> bool"
  assumes keeps_refl: "keeps k k"
    and keeps_trans: "keeps k k1 \<Longrightarrow> keeps k1 k2 \<Longrightarrow> keeps k k2"
    and keeps_apply: "good cid \<Longrightarrow> shortID cid \<noteq> sid \<Longrightarrow>
      be_ApplyContainerRules be cid nm ips rss pol auto k = (err, k') \<Longrightarrow> keeps k k'"
    and keeps_remove: "good cid \<Longrightarrow> shortID cid \<noteq> sid \<Longrightarrow> be_RemoveContainerChains be cid k = (err, k') \<Longrightarrow> keeps k k'"
    and keeps_host: "be_ApplyHostRules be rules hpol k = (err, k') \<Longrightarrow> keeps k k'"
    and keeps_unhost: "be_RemoveHostChain be k = (err, k') \<Longrightarrow> keeps k k'"
    and good_short: "good cid \<Longrightarrow> good (shortID cid)"
begin

lemma pre_cleanup_keeps_other:
  assumes "pre_cleanup (shortID cid) nm e = (err, e')" "e_backend e = be" "good cid" "shortID cid \<noteq> sid"
  shows "keeps (e_kernel e) (e_kernel e')"
proof (cases "map_of (e_applied e) (shortID cid)")
  case None
  then show ?thesis using assms(1) keeps_refl by (simp add: pre_cleanup_def)
next
  case (Some c)
  obtain x k where r: "be_RemoveContainerChains be (shortID cid) (e_kernel e) = (x, k)" by fastforce
  have "e_kernel e' = k" using assms(1,2) Some r by (cases x) (auto simp: pre_cleanup_def ip6_cleanup_keeps(3))
  then show ?thesis using keeps_remove [OF good_short [OF assms(3)] _ r] assms(4) by simp
qed

lemma install4_keeps_other:
  assumes "install4 what ctr ips rss pol auto e = (err, e')" "e_backend e = be" "good (ci_ID ctr)" "shortID (ci_ID ctr) \<noteq> sid"
  shows "keeps (e_kernel e) (e_kernel e')"
proof (cases "ips = []")
  case True
  then show ?thesis using assms(1) keeps_refl by (simp add: install4_def)
next
  case False
  obtain x k where a: "be_ApplyContainerRules be (ci_ID ctr) (ci_Name ctr) ips rss pol auto (e_kernel e) = (x, k)" by fastforce
  have "e_kernel e' = k" using assms(1,2) False a by (cases x) (auto simp: install4_def)
  then show ?thesis using keeps_apply [OF assms(3,4) a] by simp
qed

lemma rollback4_keeps_other:
  assumes "e_backend e = be" "good (ci_ID ctr)" "shortID (ci_ID ctr) \<noteq> sid"
  shows "keeps (e_kernel e) (e_kernel (rollback4 ctr ips e))"
proof (cases "ips = []")
  case True
  then show ?thesis using keeps_refl by (simp add: rollback4_def)
next
  case False
  obtain x k where r: "be_RemoveContainerChains be (ci_ID ctr) (e_kernel e) = (x, k)" by fastforce
  have "e_kernel (rollback4 ctr ips e) = k" using assms(1) False r by (cases x) (simp_all add: rollback4_def log_error_def)
  then show ?thesis using keeps_remove [OF assms(2,3) r] by simp
qed

lemma install_rules_keeps_other:
  assumes "install_rules ctr ip4s ip6s rss pol auto e = (err, e')" "e_backend e = be" "good (ci_ID ctr)" "shortID (ci_ID ctr) \<noteq> sid"
  shows "keeps (e_kernel e) (e_kernel e')"
proof (cases "e_inetBackend e")
  case True
  then show ?thesis using assms install4_keeps_other by (simp add: install_rules_def)
next
  case False
  obtain x e1 where i: "install4 ''apply ipv4 rules'' ctr ip4s rss pol auto e = (x, e1)" by fastforce
  note I = install4_keeps_other [OF i assms(2-4)]
  have b1: "e_backend e1 = be" using install4_keeps [OF i] assms(2) by (simp add: engine_conf_def)
  show ?thesis
  proof (cases x)
    case (Some y)
    then have "e' = e1" using assms(1) False i by (simp add: install_rules_def)
    then show ?thesis using I by simp
  next
    case None
    then have j: "install6 ctr ip4s ip6s rss pol auto e1 = (err, e')" using assms(1) False i by (simp add: install_rules_def)
    have "keeps (e_kernel e1) (e_kernel e')"
      using j b1 assms(3,4) rollback4_keeps_other [of "e1\<lparr>e_kernel6 := k\<rparr>" ctr ip4s for k] keeps_refl
      by (auto simp: install6_def split: option.splits if_splits prod.splits)
    then show ?thesis using I keeps_trans by blast
  qed
qed

lemma applyContainerInner_keeps_other:
  assumes "applyContainerInner w ctr cfg sr e = (err, e')" "e_backend e = be" "good (ci_ID ctr)" "shortID (ci_ID ctr) \<noteq> sid"
  shows "keeps (e_kernel e) (e_kernel e')" "map_of (e_applied e') sid = map_of (e_applied e) sid"
proof -
  obtain ip4s ip6s where s: "split_ips (ci_Networks ctr) = (ip4s, ip6s)" by fastforce
  from assms(1) s show "keeps (e_kernel e) (e_kernel e')"
  proof (cases rule: applyContainerInner_cases)
    case (clean x)
    then show ?thesis using pre_cleanup_keeps_other assms(2-4) by blast
  next
    case (fail rss e1 x)
    have "e_backend e1 = be" using pre_cleanup_keeps [OF fail(1)] assms(2) by (simp add: engine_conf_def)
    with pre_cleanup_keeps_other [OF fail(1) assms(2-4)] install_rules_keeps_other [OF fail(2) _ assms(3,4)]
    show ?thesis using keeps_trans by blast
  next
    case (ok rss e1 e2)
    have "e_backend e1 = be" using pre_cleanup_keeps [OF ok(3)] assms(2) by (simp add: engine_conf_def)
    with pre_cleanup_keeps_other [OF ok(3) assms(2-4)] install_rules_keeps_other [OF ok(4) _ assms(3,4)]
    have "keeps (e_kernel e) (e_kernel e2)" using keeps_trans by blast
    then show ?thesis by (simp add: ok(6) record_applied_view)
  qed (use keeps_refl in simp_all)
  show "map_of (e_applied e') sid = map_of (e_applied e) sid"
    using applyContainerInner_books [OF assms(1)] assms(4) by (auto simp: engine_books_def update_conv')
qed

lemma removeChains_keeps_other:
  assumes "removeChains cid sr e = (err, e')" "e_backend e = be" "good cid" "shortID cid \<noteq> sid" "cid \<noteq> sid"
  shows "keeps (e_kernel e) (e_kernel e')" "map_of (e_applied e') sid = map_of (e_applied e) sid"
proof -
  obtain x k where r: "be_RemoveContainerChains be cid (e_kernel e) = (x, k)" by fastforce
  have "e_kernel e' = k" using assms(1,2) r
    by (cases x) (auto simp: removeChains_def audit_def dropContainerIPs_def ip6_cleanup_keeps(3) Let_def)
  then show "keeps (e_kernel e) (e_kernel e')" using keeps_remove [OF assms(3,4) r] by simp
  show "map_of (e_applied e') sid = map_of (e_applied e) sid"
    using removeChains_books [OF assms(1)] assms(5) by (auto simp: delete_conv' split: if_splits)
qed

lemma applyHostRules_keeps_other:
  assumes "applyHostRules rf e = (err, e')" "e_backend e = be"
  shows "keeps (e_kernel e) (e_kernel e')"
proof (cases "rf_HostRules rf = [] \<and> strings_TrimSpace (rf_HostDefault rf) = []")
  case True
  obtain x k where r: "be_RemoveHostChain be (e_kernel e) = (x, k)" by fastforce
  have "e_kernel e' = k" using assms True r by (auto simp: applyHostRules_def rememberHostRules_def Let_def split: option.splits)
  then show ?thesis using keeps_unhost [OF r] by simp
next
  case False
  let ?rules = "fst (convertHostRules (rf_HostRules rf))" and ?d = "NormaliseHostDefault (rf_HostDefault rf)"
  obtain x k where r: "be_ApplyHostRules be ?rules ?d (e_kernel e) = (x, k)" by fastforce
  have "e_kernel e' = k"
    using assms r unfolding applyHostRules_def if_not_P [OF False] Let_def rememberHostRules_def
    by (auto split: option.splits prod.splits)
  then show ?thesis using keeps_host [OF r] by simp
qed

lemma reconcile_containers_keeps:
  assumes "\<forall>c \<in> set ctrs. good (ci_ID c)"
    and "\<forall>c \<in> set ctrs. shortID (ci_ID c) = sid \<longrightarrow> \<not> Enable (container_config w fr ts ps c)"
  shows "e_backend e = be \<Longrightarrow> keeps (e_kernel e) (e_kernel (reconcile_containers w fr ts ps sr ctrs e))
    \<and> map_of (e_applied (reconcile_containers w fr ts ps sr ctrs e)) sid = map_of (e_applied e) sid
    \<and> e_backend (reconcile_containers w fr ts ps sr ctrs e) = be
    \<and> fst ` set (e_applied (reconcile_containers w fr ts ps sr ctrs e)) \<subseteq> fst ` set (e_applied e) \<union> (\<lambda>c. shortID (ci_ID c)) ` set ctrs"
  using assms
proof (induction ctrs arbitrary: e)
  case (Cons c ctrs)
  let ?cfg = "container_config w fr ts ps c"
  obtain err e1 where a: "applyContainerInner w c ?cfg sr e = (err, e1)" by fastforce
  define e2 where "e2 = (if Enable ?cfg then (case err of Some x \<Rightarrow> log_error (LogApplyFailed (ci_Name c) x) e1 | None \<Rightarrow> e1) else e)"
  have r: "reconcile_containers w fr ts ps sr (c # ctrs) e = reconcile_containers w fr ts ps sr ctrs e2"
    by (simp add: e2_def a Let_def split: option.split)
  have k: "keeps (e_kernel e) (e_kernel e2)" "map_of (e_applied e2) sid = map_of (e_applied e) sid"
    using applyContainerInner_keeps_other [OF a Cons.prems(1)] Cons.prems(2,3) keeps_refl by (auto simp: e2_def split: option.split)
  have "engine_conf e2 = engine_conf e" using applyContainerInner_conf [OF a] by (simp add: e2_def split: option.split)
  then have b: "e_backend e2 = be" using engine_conf_backend Cons.prems(1) by metis
  have f: "fst ` set (e_applied e2) \<subseteq> insert (shortID (ci_ID c)) (fst ` set (e_applied e))"
  proof -
    have "applied_ids e1 \<subseteq> insert (shortID (ci_ID c)) (applied_ids e)"
      using applyContainerInner_books [OF a] applied_ids_books applied_ids_update by blast
    moreover have "applied_ids e2 = applied_ids e1 \<or> applied_ids e2 = applied_ids e"
      by (simp add: e2_def applied_ids_def split: option.split)
    ultimately show ?thesis unfolding applied_ids_def by blast
  qed
  define e3 where "e3 = reconcile_containers w fr ts ps sr ctrs e2"
  note IH = Cons.IH [OF b, folded e3_def] Cons.prems(2,3)
  show ?case unfolding r e3_def [symmetric] using IH k f keeps_trans by (simp add: subset_iff) blast
qed (use keeps_refl in simp)

lemma remove_unseen_keeps:
  assumes "\<forall>cid \<in> set cids. good cid \<and> (shortID cid = sid \<or> cid = sid \<longrightarrow> cid \<in> seen)"
  shows "e_backend e = be \<Longrightarrow> keeps (e_kernel e) (e_kernel (remove_unseen sr seen cids e))
    \<and> map_of (e_applied (remove_unseen sr seen cids e)) sid = map_of (e_applied e) sid"
  using assms
proof (induction cids arbitrary: e)
  case (Cons cid cids)
  show ?case
  proof (cases "cid \<in> seen")
    case True
    then show ?thesis using Cons.IH [OF Cons.prems(1)] Cons.prems(2) by simp
  next
    case False
    obtain err e1 where a: "removeChains cid sr e = (err, e1)" by fastforce
    define e2 where "e2 = (case err of Some x \<Rightarrow> log_error (LogRemoveFailed cid x) e1 | None \<Rightarrow> e1)"
    have r: "remove_unseen sr seen (cid # cids) e = remove_unseen sr seen cids e2"
      using False by (simp add: e2_def a split: option.split)
    have g: "good cid" "shortID cid \<noteq> sid" "cid \<noteq> sid" using Cons.prems(2) False by auto
    have k: "keeps (e_kernel e) (e_kernel e2)" "map_of (e_applied e2) sid = map_of (e_applied e) sid"
      using removeChains_keeps_other [OF a Cons.prems(1) g] by (simp_all add: e2_def split: option.split)
    have "engine_conf e2 = engine_conf e" using removeChains_conf [OF a] by (simp add: e2_def split: option.split)
    then have b: "e_backend e2 = be" using engine_conf_backend Cons.prems(1) by metis
    show ?thesis unfolding r using Cons.IH [OF b] Cons.prems(2) k keeps_trans by simp
  qed
qed (use keeps_refl in simp)

lemma Reconcile_keeps_disabled:
  assumes "e_backend e = be" "w_containers w = Inr ctrs" "\<forall>c \<in> set ctrs. good (ci_ID c)"
    and "\<forall>cid \<in> fst ` set (e_applied e). good cid \<and> (shortID cid = sid \<or> cid = sid \<longrightarrow> cid \<in> (\<lambda>c. shortID (ci_ID c)) ` set ctrs)"
    and "\<forall>xs. set (w_range w xs) = set xs" "LoadRulesFile (w_readFile w) (w_unmarshal w) (c_ConfigFile (e_cfg e)) = Inr fr"
    and "\<forall>c \<in> set ctrs. shortID (ci_ID c) = sid \<longrightarrow> \<not> Enable (container_config w fr (e_templates e) (e_policies e) c)"
  shows "\<exists>e'. Reconcile w sr e = (None, e') \<and> keeps (e_kernel e) (e_kernel e') \<and> map_of (e_applied e') sid = map_of (e_applied e) sid"
proof -
  let ?sr = "if sr = [] then ''config-reload'' else sr"
  let ?S = "(\<lambda>c. shortID (ci_ID c)) ` set ctrs"
  define e1 where "e1 = audit (AuditReconcileStarted ?sr) e"
  have v1: "e_cfg e1 = e_cfg e" "e_backend e1 = be" "e_kernel e1 = e_kernel e" using assms(1) by (simp_all add: e1_def audit_def)
  obtain x e2 where h: "applyHostRules fr e1 = (x, e2)" by fastforce
  define e3 where "e3 = (case x of Some err \<Rightarrow> log_error (LogHostFailed err) e2 | None \<Rightarrow> e2)"
  define e4 where "e4 = reconcile_containers w fr (e_templates e3) (e_policies e3) ?sr ctrs e3"
  define e5 where "e5 = remove_unseen ?sr ?S (w_range w (map fst (e_applied e4))) e4"
  have R: "Reconcile w sr e = (None, e5)"
    using assms(2,6) h v1 unfolding Reconcile_def e1_def [symmetric] Let_def
    by (auto simp: e5_def e4_def e3_def image_comp split: option.splits)
  have c3: "engine_conf e3 = engine_conf e" "e_applied e3 = e_applied e"
    using applyHostRules_keeps [OF h] by (auto simp: e3_def e1_def engine_books_def split: option.split)
  have k3: "keeps (e_kernel e) (e_kernel e3)"
    using applyHostRules_keeps_other [OF h v1(2)] v1(3) by (simp add: e3_def split: option.split)
  have b3: "e_backend e3 = be" "e_templates e3 = e_templates e" "e_policies e3 = e_policies e"
    using c3(1) assms(1) by (simp_all add: engine_conf_def)
  have "\<forall>c \<in> set ctrs. shortID (ci_ID c) = sid \<longrightarrow> \<not> Enable (container_config w fr (e_templates e3) (e_policies e3) c)"
    using assms(7) b3 by simp
  note R4 = reconcile_containers_keeps [OF assms(3) this b3(1), of ?sr, folded e4_def]
  have gS: "\<forall>cid \<in> ?S. good cid" using assms(3) good_short by simp
  have "set (map fst (e_applied e4)) \<subseteq> fst ` set (e_applied e) \<union> ?S" using R4 c3(2) by simp
  then have "\<forall>cid \<in> set (w_range w (map fst (e_applied e4))). good cid \<and> (shortID cid = sid \<or> cid = sid \<longrightarrow> cid \<in> ?S)"
    using assms(4,5) gS by blast
  from remove_unseen_keeps [OF this, of e4 ?sr, folded e5_def] R4
  have "keeps (e_kernel e4) (e_kernel e5) \<and> map_of (e_applied e5) sid = map_of (e_applied e4) sid" by simp
  then show ?thesis using R R4 k3 keeps_trans c3(2) by (metis (no_types, lifting))
qed

end

section \<open>The iptables backend\<close>

text \<open>
  The rules of a chain that jump nowhere but to the chain of a given container: those the backend puts into the base chain for it,
  \<open>-d address -j chain\<close>, are such rules.
\<close>

definition own_jump :: "string \<Rightarrow> args \<Rightarrow> bool" where
  "own_jump main r \<longleftrightarrow> (\<forall>c. ruleJumpsTo r c \<longrightarrow> c = main)"

definition keeps_container :: "IPTablesBackend \<Rightarrow> string \<Rightarrow> table \<Rightarrow> table \<Rightarrow> bool" where
  "keeps_container b sid t t' \<longleftrightarrow>
     (\<forall>d. owned (containerChainName b sid) d \<longrightarrow> t' d = t d)
     \<and> map_option (filter (own_jump (containerChainName b sid))) (t' (chainName b))
       = map_option (filter (own_jump (containerChainName b sid))) (t (chainName b))"

lemma filter_remove_first:
  "(\<And>x. x \<in> set xs \<Longrightarrow> Q x \<Longrightarrow> \<not> P x) \<Longrightarrow> filter P (remove_first Q xs) = filter P xs"
  by (induction xs) auto

lemma own_jump_other: "ruleJumpsTo r c \<Longrightarrow> c \<noteq> main \<Longrightarrow> \<not> own_jump main r"
  by (auto simp: own_jump_def)

lemma own_jump_built: "p \<noteq> ''-j'' \<Longrightarrow> own_jump main [''-d'', p, ''-j'', main]"
  by (simp add: own_jump_def)

context iptables_api
begin

lemma append_jumps_own:
  assumes "\<forall>r c. ruleJumpsTo (norm r) c = ruleJumpsTo r c" "main' \<noteq> main"
  shows "append_jumps ipt base main' ps k = (e, k') \<Longrightarrow>
    map_option (filter (own_jump main)) (tbl k' base) = map_option (filter (own_jump main)) (tbl k base)"
proof (induction ps arbitrary: k)
  case (Cons p ps)
  obtain x k1 where u: "ipt_AppendUnique ipt base [''-d'', ip_String p, ''-j'', main'] k = (x, k1)" by fastforce
  have "\<not> own_jump main (norm [''-d'', ip_String p, ''-j'', main'])"
    using assms by (intro own_jump_other [of _ main']) simp_all
  then have 1: "map_option (filter (own_jump main)) (tbl k1 base) = map_option (filter (own_jump main)) (tbl k base)"
    using AppendUnique [OF u] by (auto simp: add_unique_def)
  have "k' = k1 \<or> append_jumps ipt base main' ps k1 = (e, k')"
    using Cons.prems u by (cases x) (auto simp: must_def)
  then show ?case using 1 Cons.IH [of k1] by auto
qed simp

lemma delete_jumps_own:
  assumes "\<forall>r c. ruleJumpsTo (norm r) c = ruleJumpsTo r c" "main' \<noteq> main" "chainName b \<noteq> ''-j''"
  shows "delete_jumps b ipt main' lns k = (errs, k') \<Longrightarrow>
    map_option (filter (own_jump main)) (tbl k' (chainName b)) = map_option (filter (own_jump main)) (tbl k (chainName b))"
proof (induction lns arbitrary: k errs)
  case (Cons l lns)
  show ?case
  proof (cases "jump_fields b main' l")
    case None
    then show ?thesis using Cons by simp
  next
    case (Some a)
    obtain x k1 where d: "ipt_Delete ipt (chainName b) a k = (x, k1)" by fastforce
    obtain es k2 where r: "delete_jumps b ipt main' lns k1 = (es, k2)" by fastforce
    have k': "k' = k2" using Cons.prems Some d r by simp
    have "ruleJumpsTo a main'"
      using Some assms(3)
      by (cases "strings_Fields l" rule: ruleJumpsTo.cases [of "(_, main')"]; cases "drop 2 (strings_Fields l)")
        (auto simp: jump_fields_def Let_def split: if_splits)
    then have "norm q = norm a \<Longrightarrow> \<not> own_jump main q" for q
      using assms(1,2) own_jump_other by metis
    then have "map_option (filter (own_jump main)) (tbl k1 (chainName b)) = map_option (filter (own_jump main)) (tbl k (chainName b))"
      using Delete [OF d] by (auto simp: filter_remove_first)
    then show ?thesis using Cons.IH [of k1 es] r k' by simp
  qed
qed simp

lemma keeps_container_apply:
  assumes "\<forall>r c. ruleJumpsTo (norm r) c = ruleJumpsTo r c" "short_base b" "valid_id cid" "valid_id sid"
    and "shortID cid \<noteq> shortID sid" "ApplyContainerRules b ipt cid ips rss pol auto k = (e, k')"
  shows "keeps_container b sid (tbl k) (tbl k')"
proof -
  let ?main = "containerChainName b cid" and ?own = "filter (own_jump (containerChainName b sid))"
  let ?names = "insert ?main ((\<lambda>rs. ruleSetChainName b cid (rs_Name rs)) ` set rss)"
  have n: "owned ?main n" if "n \<in> ?names" for n
    using that ruleSetChainName_prefix [OF assms(2), of cid] by (fastforce simp: owned_def strings_HasPrefix_def prefix_def)
  have bm: "chainName b \<notin> ?names"
    using n [of "chainName b"] owned_id [OF assms(2,3)] base_no_id [of "chainName b"] by auto
  have mm: "?main \<noteq> containerChainName b sid"
    using owned_id [OF assms(2,3), of ?main] owned_id [OF assms(2,4), of ?main] assms(5) by (auto simp: owned_def)
  have own: "tbl k' d = tbl k d" if "owned (containerChainName b sid) d" for d
  proof (rule ApplyContainerRules_frame(1) [OF assms(6)])
    have i: "chain_container_id (chainName b @ ''-'') d = Some (shortID sid)" using that owned_id [OF assms(2,4)] by simp
    then have "\<not> owned ?main d" "d \<noteq> chainName b"
      using owned_id [OF assms(2,3)] assms(5) base_no_id [of "chainName b"] by auto
    then show "d \<notin> insert (chainName b) ?names" using n by blast
  qed
  obtain e2 k2 where j: "append_jumps ipt (chainName b) ?main ips (prepare_main ipt ?main k) = (e2, k2)" by fastforce
  obtain e3 k3 where s: "apply_sets b ipt cid ?main auto rss k2 = (e3, k3)" by fastforce
  obtain e4 k4 where u: "ipt_AppendUnique ipt ?main [''-j'', pol] k3 = (e4, k4)" by fastforce
  have k': "k' = k2 \<or> k' = k3 \<or> k' = k4"
    using assms(6) j s u by (auto simp: ApplyContainerRules_def Let_def must_def split: option.splits)
  have "map_option ?own (tbl k2 (chainName b)) = map_option ?own (tbl k (chainName b))"
    using append_jumps_own [OF assms(1) mm j] bm by (simp add: prepare_main_tbl)
  moreover have "tbl k3 (chainName b) = tbl k2 (chainName b)" using apply_sets_frame [OF s] bm by auto
  moreover have "tbl k4 (chainName b) = tbl k3 (chainName b)" using AppendUnique_frame [OF u] bm by auto
  ultimately show ?thesis using own k' by (auto simp: keeps_container_def)
qed

lemma keeps_container_remove:
  assumes "\<forall>r c. ruleJumpsTo (norm r) c = ruleJumpsTo r c" "short_base b" "valid_id cid" "valid_id sid"
    and "shortID cid \<noteq> shortID sid" "chainName b \<noteq> ''-j''" "RemoveContainerChains b ipt cid k = (e, k')"
  shows "keeps_container b sid (tbl k) (tbl k')"
proof -
  let ?main = "containerChainName b cid"
  have mm: "?main \<noteq> containerChainName b sid"
    using owned_id [OF assms(2,3), of ?main] owned_id [OF assms(2,4), of ?main] assms(5) by (auto simp: owned_def)
  have own: "tbl k' d = tbl k d" if "owned (containerChainName b sid) d" for d
  proof (rule RemoveContainerChains_frame(1) [OF assms(7)])
    have i: "chain_container_id (chainName b @ ''-'') d = Some (shortID sid)" using that owned_id [OF assms(2,4)] by simp
    then show "d \<noteq> chainName b" "\<not> owned ?main d"
      using owned_id [OF assms(2,3)] assms(5) base_no_id [of "chainName b"] by auto
  qed
  obtain lns k1 e3 chs errs where x: "delete_jumps b ipt ?main lns k = (e3, k1)" "delete_chains ipt ?main chs k1 = (errs, k')"
    by (rule RemoveContainerChains_cases [OF assms(7)])
  have "\<not> owned ?main (chainName b)" using owned_id [OF assms(2,3)] base_no_id [of "chainName b"] by simp
  then have "tbl k' (chainName b) = tbl k1 (chainName b)" using delete_chains_frame [OF x(2)] by blast
  then show ?thesis using delete_jumps_own [OF assms(1) mm assms(6) x(1)] own by (simp add: keeps_container_def)
qed

lemma keeps_container_host:
  assumes "valid_id sid" "short_base b" "chainName b \<notin> {hostChainName, hostParentChain}"
    and "\<And>d. d \<noteq> hostChainName \<Longrightarrow> d \<noteq> hostParentChain \<Longrightarrow> t' d = t d"
  shows "keeps_container b sid t t'"
proof -
  have "t' d = t d" if "owned (containerChainName b sid) d" for d
    using that owned_id [OF assms(2,1), of d] no_dash_no_id [of d "chainName b"] host_no_dash by (intro assms(4)) auto
  then show ?thesis using assms(3,4) by (simp add: keeps_container_def)
qed

lemma iptables_others:
  assumes "\<forall>r c. ruleJumpsTo (norm r) c = ruleJumpsTo r c" "short_base b" "valid_id sid" "shortID sid = sid"
    and "chainName b \<notin> {hostChainName, hostParentChain, ''-j''}"
  shows "backend_others (iptables_Backend b ipt) valid_id sid (\<lambda>k k'. keeps_container b sid (tbl k) (tbl k'))"
proof (unfold_locales, goal_cases)
  case (3 cid nm ips rss pol auto k err k')
  then show ?case using keeps_container_apply [OF assms(1,2) _ assms(3)] assms(4) by (simp add: iptables_Backend_def)
next
  case (4 cid k err k')
  then show ?case using keeps_container_remove [OF assms(1,2) _ assms(3)] assms(4,5) by (simp add: iptables_Backend_def)
next
  case (5 rules hpol k err k')
  then have "ApplyHostRules b ipt rules hpol k = (err, k')" by (simp add: iptables_Backend_def)
  from ApplyHostRules_frame [OF this] show ?case using assms(5) by (intro keeps_container_host [OF assms(3,2)]) auto
next
  case (6 k err k')
  then have "RemoveHostChain b ipt k = (err, k')" by (simp add: iptables_Backend_def)
  from RemoveHostChain_frame [OF this] show ?case using assms(5) by (intro keeps_container_host [OF assms(3,2)]) auto
qed (auto simp: keeps_container_def valid_id_short)

end

interpretation ipt_others: backend_others "iptables_Backend demo_backend (mem_ipt (\<lambda>a. a) accepts)" valid_id "''0123456789ab''"
  "\<lambda>k k'. keeps_container demo_backend ''0123456789ab'' (map_of k) (map_of k')"
  by (rule mem.iptables_others)
    (simp_all add: short_base_def demo_backend_def valid_id_def shortID_def ContainerIDShortLen_def hostChainName_def hostParentChain_def)

section \<open>Rules taken out of the configuration\<close>

text \<open>
  C29. Rules taken out of the configuration stay in force. When the rules file loads and Docker lists its containers, a reconciliation,
  as after a change of the rules file, succeeds; and for a listed container whose configuration does not enable rules any more every
  chain of the container has exactly the rules it had, the rules of the base chain that jump to no other chain are the same in the
  same order, among them the jumps to the container's chain, and the container is still recorded as applied with what it had. The
  backend is iptables with a base chain of at most 14 characters that is not the host's chain, and no other record shares its short id; the kernel's form of a rule keeps its jumps.
\<close>

theorem disabled_container_keeps_chains:
  assumes "e_backend e = iptables_Backend b (mem_ipt norm accepts)" "length (chainName b) \<le> 14"
    and "chainName b \<notin> {hostChainName, hostParentChain, ''-j''}" "\<forall>r c. ruleJumpsTo (norm r) c = ruleJumpsTo r c"
    and "w_containers w = Inr ctrs" "\<forall>c \<in> set ctrs. valid_id (ci_ID c)" 
    and "\<forall>cid \<in> fst ` set (e_applied e). valid_id cid \<and> (shortID cid = shortID (ci_ID ctr) \<longrightarrow> cid = shortID (ci_ID ctr))"
    and "\<forall>xs. set (w_range w xs) = set xs" "LoadRulesFile (w_readFile w) (w_unmarshal w) (c_ConfigFile (e_cfg e)) = Inr fr" "ctr \<in> set ctrs"
    and "\<forall>c \<in> set ctrs. shortID (ci_ID c) = shortID (ci_ID ctr) \<longrightarrow> \<not> Enable (container_config w fr (e_templates e) (e_policies e) c)"
  shows "\<exists>e'. Reconcile w sr e = (None, e')
    \<and> (\<forall>d. owned (containerChainName b (ci_ID ctr)) d \<longrightarrow> map_of (e_kernel e') d = map_of (e_kernel e) d)
    \<and> map_option (filter (own_jump (containerChainName b (ci_ID ctr)))) (map_of (e_kernel e') (chainName b))
      = map_option (filter (own_jump (containerChainName b (ci_ID ctr)))) (map_of (e_kernel e) (chainName b))
    \<and> map_of (e_applied e') (shortID (ci_ID ctr)) = map_of (e_applied e) (shortID (ci_ID ctr))"
proof -
  have sb: "short_base b" using assms(2) by (simp add: short_base_def)
  have v: "valid_id (shortID (ci_ID ctr))" using assms(6,10) valid_id_short by blast
  have "shortID (ci_ID ctr) \<in> (\<lambda>c. shortID (ci_ID c)) ` set ctrs" using assms(10) by simp
  then have "\<forall>cid \<in> fst ` set (e_applied e). valid_id cid
      \<and> (shortID cid = shortID (ci_ID ctr) \<or> cid = shortID (ci_ID ctr) \<longrightarrow> cid \<in> (\<lambda>c. shortID (ci_ID c)) ` set ctrs)"
    using assms(7) by auto
  then show ?thesis
    using backend_others.Reconcile_keeps_disabled [OF mem.iptables_others [OF assms(4) sb v shortID_short assms(3)] assms(1,5,6) _ assms(8,9,11)]
    by (simp add: keeps_container_def containerChainName_shortID [OF sb])
qed

definition stale_kernel :: mem where
  "stale_kernel = [(''FIREFIK'', [[''-d'', ''172.17.0.2'', ''-j'', ''FIREFIK-0123456789ab'']]),
     (''FIREFIK-0123456789ab'', [[''-j'', ''FIREFIK-0123456789ab-web'']]),
     (''FIREFIK-0123456789ab-web'', [[''-p'', ''tcp'', ''--dport'', ''80'', ''-j'', ''DROP'']])]"

definition stale_engine :: "mem Engine" where
  "stale_engine = (NewEngine (iptables_Backend demo_backend (mem_ipt (\<lambda>a. a) (\<lambda>_ _ _. True))) demo_config stale_kernel [])
     \<lparr>e_applied := [(''0123456789ab'', bare_config)]\<rparr>"

definition one_container :: world where
  "one_container = demo_world\<lparr>w_containers := Inr [demo_container]\<rparr>"

theorem disabled_container_keeps_chains_witness:
  "\<exists>e'. Reconcile one_container ''config-reload'' stale_engine = (None, e')
     \<and> map_of (e_kernel e') ''FIREFIK-0123456789ab'' = Some [[''-j'', ''FIREFIK-0123456789ab-web'']]
     \<and> map_of (e_kernel e') ''FIREFIK-0123456789ab-web'' = Some [[''-p'', ''tcp'', ''--dport'', ''80'', ''-j'', ''DROP'']]
     \<and> (\<exists>rs. map_of (e_kernel e') ''FIREFIK'' = Some rs \<and> [''-d'', ''172.17.0.2'', ''-j'', ''FIREFIK-0123456789ab''] \<in> set rs)
     \<and> map_of (e_applied e') ''0123456789ab'' = Some bare_config"
proof -
  have c: "containerChainName demo_backend (ci_ID demo_container) = ''FIREFIK-0123456789ab''" "chainName demo_backend = ''FIREFIK''"
    "shortID (ci_ID demo_container) = ''0123456789ab''" "valid_id (ci_ID demo_container)"
    by (simp_all add: demo_container_def shortID_def ContainerIDShortLen_def valid_id_def containerChainName_def demo_backend_def
      truncate_str_def iptablesMaxChainLen_def)
  have L: "LoadRulesFile (w_readFile one_container) (w_unmarshal one_container) (c_ConfigFile (e_cfg stale_engine)) = Inr empty_rules_file"
    by (simp add: LoadRulesFile_def one_container_def demo_world_def)
  have dis: "\<not> Enable (container_config one_container empty_rules_file (e_templates stale_engine) (e_policies stale_engine) demo_container)"
    by (simp add: container_config_def MergeFileRules_def empty_rules_file_def ApplyTemplates_def ApplyPolicies_def demo_container_def
      ParseLabels_def raw_get_def Let_def split: prod.splits)
  have "\<exists>e'. Reconcile one_container ''config-reload'' stale_engine = (None, e')
    \<and> (\<forall>d. owned (containerChainName demo_backend (ci_ID demo_container)) d \<longrightarrow> map_of (e_kernel e') d = map_of (e_kernel stale_engine) d)
    \<and> map_option (filter (own_jump (containerChainName demo_backend (ci_ID demo_container)))) (map_of (e_kernel e') (chainName demo_backend))
      = map_option (filter (own_jump (containerChainName demo_backend (ci_ID demo_container)))) (map_of (e_kernel stale_engine) (chainName demo_backend))
    \<and> map_of (e_applied e') (shortID (ci_ID demo_container)) = map_of (e_applied stale_engine) (shortID (ci_ID demo_container))"
    by (rule disabled_container_keeps_chains [OF _ _ _ _ _ _ _ _ L, of _ "\<lambda>a. a" "\<lambda>_ _ _. True" "[demo_container]"])
      (use c dis in \<open>simp_all add: stale_engine_def NewEngine_def one_container_def demo_world_def hostChainName_def hostParentChain_def valid_id_def\<close>)
  then obtain e' where e': "Reconcile one_container ''config-reload'' stale_engine = (None, e')"
    "\<forall>d. owned ''FIREFIK-0123456789ab'' d \<longrightarrow> map_of (e_kernel e') d = map_of stale_kernel d"
    "map_option (filter (own_jump ''FIREFIK-0123456789ab'')) (map_of (e_kernel e') ''FIREFIK'')
      = Some [[''-d'', ''172.17.0.2'', ''-j'', ''FIREFIK-0123456789ab'']]"
    "map_of (e_applied e') ''0123456789ab'' = Some bare_config"
    unfolding c by (auto simp: stale_engine_def NewEngine_def stale_kernel_def own_jump_built)
  have o: "owned ''FIREFIK-0123456789ab'' ''FIREFIK-0123456789ab''" "owned ''FIREFIK-0123456789ab'' ''FIREFIK-0123456789ab-web''"
    by (simp_all add: owned_def go_simps)
  obtain rs where rs: "map_of (e_kernel e') ''FIREFIK'' = Some rs"
    "filter (own_jump ''FIREFIK-0123456789ab'') rs = [[''-d'', ''172.17.0.2'', ''-j'', ''FIREFIK-0123456789ab'']]"
    using e'(3) by (auto simp: map_option_eq_Some)
  have "[''-d'', ''172.17.0.2'', ''-j'', ''FIREFIK-0123456789ab''] \<in> set (filter (own_jump ''FIREFIK-0123456789ab'') rs)"
    unfolding rs(2) by (rule list.set_intros)
  then have "[''-d'', ''172.17.0.2'', ''-j'', ''FIREFIK-0123456789ab''] \<in> set rs" by (simp only: set_filter mem_Collect_eq)
  then show ?thesis using rs(1) e'(1,4) e'(2) [rule_format, OF o(1)] e'(2) [rule_format, OF o(2)] by (simp add: stale_kernel_def)
qed

end
