(* ===== verification/Engine_Siblings.thy ===== *)
theory Engine_Siblings
  imports Engine_Reload
begin

text \<open>
  Deployments side by side (\<open>FIREFIK_CHAIN_SUFFIX\<close>): the base chain of a deployment with a suffix has the form of a container's
  chain of the deployment without one. What the start of an agent without a suffix (\<open>Rehydrate\<close>, then \<open>Reconcile\<close>,
  \<open>backend/internal/rules/engine.go\<close>) does to the chains of the other.
\<close>

section \<open>What removing the chains of an id leaves\<close>

locale backend_wipe = backend_others be good sid keeps
  for be :: "'k Backend" and good :: "string \<Rightarrow> bool" and sid :: string and keeps :: "'k \<Rightarrow> 'k \<Rightarrow> bool" +
  fixes wiped :: "'k \<Rightarrow> bool"
  assumes wiped_keeps: "keeps k k' \<Longrightarrow> wiped k \<Longrightarrow> wiped k'"
    and wipe: "good cid \<Longrightarrow> shortID cid = sid \<Longrightarrow> be_RemoveContainerChains be cid k = (err, k') \<Longrightarrow> wiped k'"
begin

lemma removeChains_wipes:
  assumes "removeChains cid sr e = (err, e')" "e_backend e = be" "good cid"
  shows "wiped (e_kernel e) \<or> shortID cid = sid \<Longrightarrow> wiped (e_kernel e')"
proof -
  obtain x k where r: "be_RemoveContainerChains be cid (e_kernel e) = (x, k)" by fastforce
  have "e_kernel e' = k" using assms(1,2) r
    by (cases x) (auto simp: removeChains_def audit_def dropContainerIPs_def ip6_cleanup_keeps(3) Let_def)
  then show "wiped (e_kernel e) \<or> shortID cid = sid \<Longrightarrow> wiped (e_kernel e')"
    using wipe [OF assms(3) _ r] keeps_remove [OF assms(3) _ r] wiped_keeps by blast
qed

lemma remove_unseen_wipes:
  assumes "\<forall>cid \<in> set cids. good cid" "sid \<notin> seen" "shortID sid = sid"
  shows "e_backend e = be \<Longrightarrow> wiped (e_kernel e) \<or> sid \<in> set cids \<Longrightarrow> wiped (e_kernel (remove_unseen sr seen cids e))"
  using assms(1)
proof (induction cids arbitrary: e)
  case (Cons cid cids)
  show ?case
  proof (cases "cid \<in> seen")
    case True
    then show ?thesis using Cons.IH [OF Cons.prems(1)] Cons.prems(2,3) assms(2) by auto
  next
    case False
    obtain err e1 where a: "removeChains cid sr e = (err, e1)" by fastforce
    define e2 where "e2 = (case err of Some x \<Rightarrow> log_error (LogRemoveFailed cid x) e1 | None \<Rightarrow> e1)"
    have r: "remove_unseen sr seen (cid # cids) e = remove_unseen sr seen cids e2"
      using False by (simp add: e2_def a split: option.split)
    have "wiped (e_kernel e) \<or> shortID cid = sid \<Longrightarrow> wiped (e_kernel e2)"
      using removeChains_wipes [OF a Cons.prems(1)] Cons.prems(3) by (simp add: e2_def split: option.split)
    then have w: "wiped (e_kernel e2) \<or> sid \<in> set cids" using Cons.prems(2) assms(3) by auto
    have "engine_conf e2 = engine_conf e" using removeChains_conf [OF a] by (simp add: e2_def split: option.split)
    then have b: "e_backend e2 = be" using engine_conf_backend Cons.prems(1) by metis
    show ?thesis unfolding r using Cons.IH [OF b w] Cons.prems(3) by simp
  qed
qed simp

lemma Reconcile_wipes:
  assumes "e_backend e = be" "w_containers w = Inr ctrs" "\<forall>c \<in> set ctrs. good (ci_ID c)"
    and "\<forall>cid \<in> fst ` set (e_applied e). good cid" "\<forall>xs. set (w_range w xs) = set xs"
    and "LoadRulesFile (w_readFile w) (w_unmarshal w) (c_ConfigFile (e_cfg e)) = Inr fr"
    and "sid \<notin> (\<lambda>c. shortID (ci_ID c)) ` set ctrs" "shortID sid = sid" "wiped (e_kernel e) \<or> sid \<in> fst ` set (e_applied e)"
    and "Reconcile w sr e = (None, e')"
  shows "wiped (e_kernel e')"
proof -
  let ?sr = "if sr = [] then ''config-reload'' else sr"
  let ?S = "(\<lambda>c. shortID (ci_ID c)) ` set ctrs"
  define e1 where "e1 = audit (AuditReconcileStarted ?sr) e"
  have v1: "e_cfg e1 = e_cfg e" "e_backend e1 = be" "e_kernel e1 = e_kernel e" using assms(1) by (simp_all add: e1_def audit_def)
  obtain x e2 where h: "applyHostRules fr e1 = (x, e2)" by fastforce
  define e3 where "e3 = (case x of Some err \<Rightarrow> log_error (LogHostFailed err) e2 | None \<Rightarrow> e2)"
  define e4 where "e4 = reconcile_containers w fr (e_templates e3) (e_policies e3) ?sr ctrs e3"
  have e': "e' = remove_unseen ?sr ?S (w_range w (map fst (e_applied e4))) e4"
    using assms(2,6,10) h v1 unfolding Reconcile_def e1_def [symmetric] Let_def
    by (auto simp: e4_def e3_def image_comp split: option.splits)
  have c3: "engine_conf e3 = engine_conf e" "e_applied e3 = e_applied e"
    using applyHostRules_keeps [OF h] by (auto simp: e3_def e1_def engine_books_def split: option.split)
  have k3: "keeps (e_kernel e) (e_kernel e3)"
    using applyHostRules_keeps_other [OF h v1(2)] v1(3) by (simp add: e3_def split: option.split)
  have b3: "e_backend e3 = be" using c3(1) assms(1) by (simp add: engine_conf_def)
  have "\<forall>c \<in> set ctrs. shortID (ci_ID c) = sid \<longrightarrow> \<not> Enable (container_config w fr (e_templates e3) (e_policies e3) c)"
    using assms(7) by auto
  note R4 = reconcile_containers_keeps [OF assms(3) this b3, of ?sr, folded e4_def]
  have b4: "e_backend e4 = be" using R4 by simp
  have keys: "set (w_range w (map fst (e_applied e4))) = fst ` set (e_applied e4)" using assms(5) by simp
  have "\<forall>cid \<in> ?S. good cid" using assms(3) good_short by simp
  moreover have "fst ` set (e_applied e4) \<subseteq> fst ` set (e_applied e) \<union> ?S" using R4 c3(2) by simp
  ultimately have g: "\<forall>cid \<in> set (w_range w (map fst (e_applied e4))). good cid"
    unfolding keys using assms(4) by blast
  have "sid \<in> fst ` set (e_applied e4) \<longleftrightarrow> sid \<in> fst ` set (e_applied e)"
    using R4 c3(2) by (metis map_of_eq_None_iff)
  moreover have "wiped (e_kernel e) \<Longrightarrow> wiped (e_kernel e4)" using wiped_keeps k3 R4 by blast
  ultimately have "wiped (e_kernel e4) \<or> sid \<in> set (w_range w (map fst (e_applied e4)))" unfolding keys using assms(9) by auto
  then show ?thesis unfolding e' by (rule remove_unseen_wipes [OF g assms(7,8) b4])
qed

end

section \<open>The iptables backend\<close>

definition emptied :: "IPTablesBackend \<Rightarrow> string \<Rightarrow> table \<Rightarrow> bool" where
  "emptied b sid t \<longleftrightarrow> (\<forall>d. owned (containerChainName b sid) d \<longrightarrow> t d = None \<or> t d = Some [])"

definition in_service :: "string \<Rightarrow> args list \<Rightarrow> string \<Rightarrow> table \<Rightarrow> bool" where
  "in_service p rs main t \<longleftrightarrow> t p = Some rs \<and> t main \<noteq> None"

context iptables_api
begin

lemma delete_chains_emptied:
  "delete_chains ipt main chs k = (errs, k') \<Longrightarrow>
   (\<forall>c. owned main c \<and> (c \<in> set chs \<or> tbl k c = None \<or> tbl k c = Some []) \<longrightarrow> tbl k' c = None \<or> tbl k' c = Some [])"
proof (induction chs arbitrary: k errs)
  case (Cons c chs)
  show ?case
  proof (cases "owned main c")
    case False
    then have "delete_chains ipt main chs k = (errs, k')" using Cons.prems by (simp add: delete_chains_step)
    from Cons.IH [OF this] False show ?thesis by auto
  next
    case True
    obtain e1 k1 where c: "ipt_ClearChain ipt c k = (e1, k1)" by fastforce
    obtain e2 k2 where d: "ipt_DeleteChain ipt c k1 = (e2, k2)" by fastforce
    obtain es k3 where r: "delete_chains ipt main chs k2 = (es, k3)" by fastforce
    have k': "k' = k3" using Cons.prems True c d r by (simp add: delete_chains_step)
    have "tbl k2 c = None \<or> tbl k2 c = Some []" "\<forall>x. x \<noteq> c \<longrightarrow> tbl k2 x = tbl k x"
      using ClearChain [OF c] DeleteChain [OF d] by auto
    then have step: "c' \<in> set chs \<or> tbl k2 c' = None \<or> tbl k2 c' = Some []"
      if "c' \<in> set (c # chs) \<or> tbl k c' = None \<or> tbl k c' = Some []" for c'
      using that by (cases "c' = c") auto
    show ?thesis
    proof (intro allI impI)
      fix d' assume "owned main d' \<and> (d' \<in> set (c # chs) \<or> tbl k d' = None \<or> tbl k d' = Some [])"
      then show "tbl k' d' = None \<or> tbl k' d' = Some []"
        using spec [OF Cons.IH [OF r [folded k']], of d'] step [of d'] by (simp only: simp_thms)
    qed
  qed
qed simp

lemma RemoveContainerChains_emptied:
  assumes "RemoveContainerChains b ipt cid k = (e, k')" "\<forall>k. \<exists>chs. ipt_ListChains ipt k = Inr chs"
    and "owned (containerChainName b cid) d"
  shows "tbl k' d = None \<or> tbl k' d = Some []"
proof -
  let ?main = "containerChainName b cid"
  let ?lns = "case ipt_List ipt (chainName b) k of Inl e \<Rightarrow> [] | Inr rs \<Rightarrow> rs"
  obtain e3 k1 where dj: "delete_jumps b ipt ?main ?lns k = (e3, k1)" by fastforce
  obtain chs where l: "ipt_ListChains ipt k1 = Inr chs" using assms(2) by blast
  obtain errs k2 where c: "delete_chains ipt ?main chs k1 = (errs, k2)" by fastforce
  have "k' = k2" using assms(1) dj l c unfolding RemoveContainerChains_def Let_def by (auto split: sum.splits)
  moreover have "d \<in> set chs \<or> tbl k1 d = None" using ListChains [OF l] by (cases "tbl k1 d") auto
  ultimately show ?thesis using spec [OF delete_chains_emptied [OF c], of d] assms(3) by auto
qed

lemma delete_chains_referenced:
  assumes "jump_target r = c" "r \<in> set rs" "\<not> owned main p"
  shows "delete_chains ipt main chs k = (errs, k') \<Longrightarrow> tbl k p = Some rs \<Longrightarrow> tbl k c \<noteq> None \<Longrightarrow> tbl k' c \<noteq> None"
proof (induction chs arbitrary: k errs)
  case (Cons d chs)
  show ?case
  proof (cases "owned main d")
    case False
    then show ?thesis using Cons by (simp add: delete_chains_step)
  next
    case True
    obtain e1 k1 where 1: "ipt_ClearChain ipt d k = (e1, k1)" by fastforce
    obtain e2 k2 where 2: "ipt_DeleteChain ipt d k1 = (e2, k2)" by fastforce
    obtain es k3 where r: "delete_chains ipt main chs k2 = (es, k3)" by fastforce
    have k': "k' = k3" using Cons.prems True 1 2 r by (simp add: delete_chains_step)
    have pd: "p \<noteq> d" using True assms(3) by auto
    have p1: "tbl k1 p = Some rs" "tbl k1 c \<noteq> None" using ClearChain [OF 1] pd Cons.prems(2,3) by auto
    then have "referenced (tbl k1) c" using assms(1,2) unfolding referenced_def by blast
    then have "tbl k2 c \<noteq> None" "tbl k2 p = Some rs" using DeleteChain [OF 2] p1 pd by (auto split: if_splits)
    then show ?thesis using Cons.IH [of k2 es] r k' by simp
  qed
qed simp

lemma keeps_in_service:
  assumes "short_base b" "jump_target r = main" "r \<in> set rs" "main \<noteq> chainName b" "CHR ''-'' \<in> set main"
    and "p \<notin> {chainName b, hostChainName, hostParentChain}" "chain_container_id (chainName b @ ''-'') p = None"
  shows "backend_others (iptables_Backend b ipt) valid_id [] (\<lambda>k k'. in_service p rs main (tbl k) \<longrightarrow> in_service p rs main (tbl k'))"
proof (unfold_locales, goal_cases)
  case (3 cid nm ips rss pol auto k err k')
  have a: "ApplyContainerRules b ipt cid ips rss pol auto k = (err, k')" using 3(3) by (simp add: iptables_Backend_def)
  have n: "owned (containerChainName b cid) n" if "n \<in> insert (containerChainName b cid) ((\<lambda>rs. ruleSetChainName b cid (rs_Name rs)) ` set rss)" for n
    using that ruleSetChainName_prefix [OF assms(1), of cid] by (fastforce simp: owned_def strings_HasPrefix_def prefix_def)
  have "\<not> owned (containerChainName b cid) p" using owned_id [OF assms(1) 3(1)] assms(7) by simp
  then have "tbl k' p = tbl k p" using n assms(6) by (intro ApplyContainerRules_frame(1) [OF a]) auto
  moreover have "dom (tbl k) \<subseteq> dom (tbl k')" using ApplyContainerRules_frame(2) [OF a] by simp
  ultimately show ?case by (auto simp: in_service_def)
next
  case (4 cid k err k')
  have r: "RemoveContainerChains b ipt cid k = (err, k')" using 4(3) by (simp add: iptables_Backend_def)
  have np: "\<not> owned (containerChainName b cid) p" using owned_id [OF assms(1) 4(1)] assms(7) by simp
  obtain lns k1 e3 chs errs where x: "delete_jumps b ipt (containerChainName b cid) lns k = (e3, k1)"
    "delete_chains ipt (containerChainName b cid) chs k1 = (errs, k')" by (rule RemoveContainerChains_cases [OF r])
  have k1: "tbl k1 p = tbl k p" "tbl k1 main = tbl k main" using delete_jumps_frame [OF x(1)] assms(4,6) by auto
  have "tbl k' p = tbl k1 p" using delete_chains_frame [OF x(2)] np by simp
  then show ?case using delete_chains_referenced [OF assms(2,3) np x(2)] k1 by (simp add: in_service_def)
next
  case (5 rules hpol k err k')
  have "ApplyHostRules b ipt rules hpol k = (err, k')" using 5 by (simp add: iptables_Backend_def)
  moreover have "main \<noteq> hostChainName" "main \<noteq> hostParentChain" using assms(5) host_no_dash by auto
  ultimately show ?case using ApplyHostRules_frame assms(6) by (simp add: in_service_def)
next
  case (6 k err k')
  have "RemoveHostChain b ipt k = (err, k')" using 6 by (simp add: iptables_Backend_def)
  moreover have "main \<noteq> hostChainName" "main \<noteq> hostParentChain" using assms(5) host_no_dash by auto
  ultimately show ?case using RemoveHostChain_frame assms(6) by (simp add: in_service_def)
qed (auto simp: valid_id_short)

lemma iptables_wipe:
  assumes "\<forall>r c. ruleJumpsTo (norm r) c = ruleJumpsTo r c" "short_base b" "valid_id sid" "shortID sid = sid"
    and "chainName b \<notin> {hostChainName, hostParentChain, ''-j''}" "\<forall>k. \<exists>chs. ipt_ListChains ipt k = Inr chs"
  shows "backend_wipe (iptables_Backend b ipt) valid_id sid (\<lambda>k k'. keeps_container b sid (tbl k) (tbl k')) (\<lambda>k. emptied b sid (tbl k))"
proof (intro backend_wipe.intro [OF iptables_others [OF assms(1-5)]], unfold_locales, goal_cases)
  case (1 k k')
  then show ?case by (simp add: keeps_container_def emptied_def)
next
  case (2 cid k err k')
  then have r: "RemoveContainerChains b ipt cid k = (err, k')" by (simp add: iptables_Backend_def)
  have "containerChainName b cid = containerChainName b sid" using containerChainName_shortID [OF assms(2), of cid] 2(2) by simp
  then show ?case using RemoveContainerChains_emptied [OF r assms(6)] by (simp add: emptied_def)
qed

end

lemma mem_ListChains_total: "\<forall>k. \<exists>chs. ipt_ListChains (mem_ipt norm accepts) k = Inr chs"
  by (simp add: mem_ipt_def)

interpretation ipt_wipe: backend_wipe "iptables_Backend demo_backend (mem_ipt (\<lambda>a. a) accepts)" valid_id "''v2''"
  "\<lambda>k k'. keeps_container demo_backend ''v2'' (map_of k) (map_of k')" "\<lambda>k. emptied demo_backend ''v2'' (map_of k)"
  by (rule mem.iptables_wipe [OF _ _ _ _ _ mem_ListChains_total])
    (simp_all add: short_base_def demo_backend_def valid_id_def shortID_def ContainerIDShortLen_def hostChainName_def hostParentChain_def)

section \<open>A deployment beside this one\<close>

lemma Rehydrate_adopts:
  assumes "e_backend e = iptables_Backend b (mem_ipt norm accepts)" "short_base b" "e_applied e = []" "e_ip6backend e = None"
  obtains e1 where "Rehydrate e = (None, e1)" "e_backend e1 = e_backend e" "e_kernel e1 = e_kernel e" "e_cfg e1 = e_cfg e"
    "fst ` set (e_applied e1) = chain_ids b (map_of (e_kernel e))" "\<forall>cid \<in> fst ` set (e_applied e1). valid_id cid"
proof -
  note bc = mem.iptables_contract [OF assms(2), of norm accepts]
  obtain xs where xs: "be_ListAppliedContainerIDs (e_backend e) (e_kernel e) = Inr xs"
    using assms(1) by (simp add: iptables_Backend_def ListAppliedContainerIDs_def mem_ipt_def)
  then have "Rehydrate e = (None, e\<lparr>e_applied := adopt xs []\<rparr>)" using assms(3,4) by (simp add: Rehydrate_def)
  moreover have "set xs = chain_ids b (map_of (e_kernel e))" using backend_contract.list_ids [OF bc] xs assms(1) by simp
  moreover have "\<forall>cid \<in> chain_ids b (map_of (e_kernel e)). valid_id cid" using backend_contract.ids_good [OF bc] by blast
  ultimately show thesis by (intro that [of "e\<lparr>e_applied := adopt xs []\<rparr>"]) (simp_all add: adopt_keys)
qed

text \<open>
  C30. An agent takes a deployment beside it for a stale container and empties its firewall. On iptables, with a base chain of at most
  14 characters that is not the host's, an agent that starts (its rules file loads, Docker lists containers, none with the suffix as
  short id) succeeds; afterwards every chain of the deployment with a suffix of at most 12 characters without a dash, its base chain
  and the chains of its containers, is gone or has no rule. This holds also while that deployment is in service: where another
  chain, as the parent chain, jumps to its base chain, that jump stays as it was, and the base chain stays and is empty, so that
  the packets of its containers return unfiltered.
\<close>

theorem startup_removes_sibling:
  assumes "e_backend e = iptables_Backend b (mem_ipt norm accepts)" "length (chainName b) \<le> 14" "e_applied e = []" "e_ip6backend e = None"
    and "chainName b \<notin> {hostChainName, hostParentChain, ''-j''}" "\<forall>r c. ruleJumpsTo (norm r) c = ruleJumpsTo r c"
    and "w_containers w = Inr ctrs" "\<forall>c \<in> set ctrs. valid_id (ci_ID c)" "\<forall>xs. set (w_range w xs) = set xs"
    and "LoadRulesFile (w_readFile w) (w_unmarshal w) (c_ConfigFile (e_cfg e)) = Inr fr"
    and "suf \<noteq> []" "CHR ''-'' \<notin> set suf" "length suf \<le> 12" "suf \<notin> (\<lambda>c. shortID (ci_ID c)) ` set ctrs"
  shows "\<exists>e1 e2. Rehydrate e = (None, e1) \<and> Reconcile w sr e1 = (None, e2)
    \<and> (\<forall>d. d = chainName b @ ''-'' @ suf \<or> strings_HasPrefix d (chainName b @ ''-'' @ suf @ ''-'')
         \<longrightarrow> map_of (e_kernel e2) d = None \<or> map_of (e_kernel e2) d = Some [])
    \<and> (\<forall>p rs r. map_of (e_kernel e) p = Some rs \<and> r \<in> set rs \<and> jump_target r = chainName b @ ''-'' @ suf
         \<and> map_of (e_kernel e) (chainName b @ ''-'' @ suf) \<noteq> None
         \<and> p \<notin> {chainName b, hostChainName, hostParentChain} \<and> chain_container_id (chainName b @ ''-'') p = None
         \<longrightarrow> map_of (e_kernel e2) p = Some rs \<and> map_of (e_kernel e2) (chainName b @ ''-'' @ suf) = Some [])"
proof -
  have sb: "short_base b" using assms(2) by (simp add: short_base_def)
  have v: "valid_id suf" "shortID suf = suf" using assms(11-13) by (simp_all add: valid_id_def shortID_def ContainerIDShortLen_def)
  let ?main = "chainName b @ ''-'' @ suf"
  have m: "containerChainName b suf = ?main" using sb v(2) by (simp add: containerChainName_eq shortID_truncate)
  obtain e1 where e1: "Rehydrate e = (None, e1)" "e_backend e1 = e_backend e" "e_kernel e1 = e_kernel e" "e_cfg e1 = e_cfg e"
    "fst ` set (e_applied e1) = chain_ids b (map_of (e_kernel e))" "\<forall>cid \<in> fst ` set (e_applied e1). valid_id cid"
    by (rule Rehydrate_adopts [OF assms(1) sb assms(3,4)])
  have b1: "e_backend e1 = iptables_Backend b (mem_ipt norm accepts)" using e1(2) assms(1) by simp
  have L: "LoadRulesFile (w_readFile w) (w_unmarshal w) (c_ConfigFile (e_cfg e1)) = Inr fr" using e1(4) assms(10) by simp
  obtain e2 where e2: "Reconcile w sr e1 = (None, e2)" using L assms(7) by (auto simp: Reconcile_def Let_def audit_def)
  have "emptied b suf (map_of (e_kernel e1)) \<or> suf \<in> fst ` set (e_applied e1)"
    using owned_id [OF sb v(1)] v(2) by (auto simp: e1(3,5) emptied_def chain_ids_def)
  from backend_wipe.Reconcile_wipes [OF mem.iptables_wipe [OF assms(6) sb v assms(5) mem_ListChains_total] b1 assms(7,8) e1(6) assms(9) L assms(14) v(2) this e2]
  have W: "\<And>d. owned ?main d \<Longrightarrow> map_of (e_kernel e2) d = None \<or> map_of (e_kernel e2) d = Some []" by (simp add: emptied_def m)
  have P: "map_of (e_kernel e2) p = Some rs \<and> map_of (e_kernel e2) ?main = Some []"
    if "map_of (e_kernel e) p = Some rs" "r \<in> set rs" "jump_target r = ?main" "map_of (e_kernel e) ?main \<noteq> None"
      "p \<notin> {chainName b, hostChainName, hostParentChain}" "chain_container_id (chainName b @ ''-'') p = None" for p rs r
  proof -
    have "?main \<noteq> chainName b" "CHR ''-'' \<in> set ?main" by simp_all
    note bo = mem.keeps_in_service [OF sb that(3,2) this that(5,6), of norm accepts]
    have ne: "shortID c \<noteq> []" "c \<noteq> []" if "valid_id c" for c using that valid_id_short [of c] by (auto simp: valid_id_def)
    have "\<forall>cid \<in> fst ` set (e_applied e1). valid_id cid \<and> (shortID cid = [] \<or> cid = [] \<longrightarrow> cid \<in> (\<lambda>c. shortID (ci_ID c)) ` set ctrs)"
      using e1(6) ne by blast
    moreover have "\<forall>c \<in> set ctrs. shortID (ci_ID c) = [] \<longrightarrow> \<not> Enable (container_config w fr (e_templates e1) (e_policies e1) c)"
      using assms(8) ne by blast
    ultimately have "in_service p rs ?main (map_of (e_kernel e1)) \<longrightarrow> in_service p rs ?main (map_of (e_kernel e2))"
      using backend_others.Reconcile_keeps_disabled [OF bo b1 assms(7,8) _ assms(9) L, of sr] e2 by auto
    then have "in_service p rs ?main (map_of (e_kernel e2))" using that(1,4) e1(3) by (simp add: in_service_def)
    then show ?thesis using W [of ?main] by (auto simp: in_service_def owned_def)
  qed
  show ?thesis using e1(1) e2 W P by (intro exI [of _ e1] exI [of _ e2]) (auto simp: owned_def)
qed

definition sibling_kernel :: mem where
  "sibling_kernel = [(''DOCKER-USER'', [[''-j'', ''FIREFIK-v2''], [''-j'', ''FIREFIK'']]), (''FIREFIK'', []),
     (''FIREFIK-v2'', [[''-d'', ''172.17.0.2'', ''-j'', ''FIREFIK-v2-0123456789ab'']]),
     (''FIREFIK-v2-0123456789ab'', [[''-j'', ''DROP'']])]"

definition sibling_engine :: "mem Engine" where
  "sibling_engine = NewEngine (iptables_Backend demo_backend (mem_ipt (\<lambda>a. a) (\<lambda>_ _ _. True))) demo_config sibling_kernel []"

theorem startup_removes_sibling_witness:
  "\<exists>e1 e2. Rehydrate sibling_engine = (None, e1) \<and> Reconcile demo_world ''startup'' e1 = (None, e2)
     \<and> map_of (e_kernel e2) ''DOCKER-USER'' = Some [[''-j'', ''FIREFIK-v2''], [''-j'', ''FIREFIK'']]
     \<and> map_of (e_kernel e2) ''FIREFIK-v2'' = Some []
     \<and> (map_of (e_kernel e2) ''FIREFIK-v2-0123456789ab'' = None \<or> map_of (e_kernel e2) ''FIREFIK-v2-0123456789ab'' = Some [])"
proof -
  have fb: "chainName demo_backend = ''FIREFIK''" by (simp add: demo_backend_def)
  have L: "LoadRulesFile (w_readFile demo_world) (w_unmarshal demo_world) (c_ConfigFile (e_cfg sibling_engine)) = Inr empty_rules_file"
    by (simp add: LoadRulesFile_def demo_world_def)
  have s: "e_backend sibling_engine = iptables_Backend demo_backend (mem_ipt (\<lambda>a. a) (\<lambda>_ _ _. True))" "e_applied sibling_engine = []"
    "e_ip6backend sibling_engine = None" "e_kernel sibling_engine = sibling_kernel" "w_containers demo_world = Inr []"
    "\<forall>xs. set (w_range demo_world xs) = set xs"
    by (simp_all add: sibling_engine_def NewEngine_def demo_world_def)
  have h: "chainName demo_backend \<notin> {hostChainName, hostParentChain, ''-j''}" "length (chainName demo_backend) \<le> 14"
    by (simp_all add: fb hostChainName_def hostParentChain_def)
  have T: "\<exists>e1 e2. Rehydrate sibling_engine = (None, e1) \<and> Reconcile demo_world ''startup'' e1 = (None, e2)
    \<and> (\<forall>d. d = chainName demo_backend @ ''-'' @ ''v2'' \<or> strings_HasPrefix d (chainName demo_backend @ ''-'' @ ''v2'' @ ''-'')
         \<longrightarrow> map_of (e_kernel e2) d = None \<or> map_of (e_kernel e2) d = Some [])
    \<and> (\<forall>p rs r. map_of (e_kernel sibling_engine) p = Some rs \<and> r \<in> set rs \<and> jump_target r = chainName demo_backend @ ''-'' @ ''v2''
         \<and> map_of (e_kernel sibling_engine) (chainName demo_backend @ ''-'' @ ''v2'') \<noteq> None
         \<and> p \<notin> {chainName demo_backend, hostChainName, hostParentChain} \<and> chain_container_id (chainName demo_backend @ ''-'') p = None
         \<longrightarrow> map_of (e_kernel e2) p = Some rs \<and> map_of (e_kernel e2) (chainName demo_backend @ ''-'' @ ''v2'') = Some [])"
    by (rule startup_removes_sibling [OF s(1) h(2) s(2,3) h(1) _ s(5) _ s(6) L]) simp_all
  then obtain e1 e2 where r: "Rehydrate sibling_engine = (None, e1)" "Reconcile demo_world ''startup'' e1 = (None, e2)"
    and c: "\<forall>d. d = ''FIREFIK-v2'' \<or> strings_HasPrefix d ''FIREFIK-v2-'' \<longrightarrow> map_of (e_kernel e2) d = None \<or> map_of (e_kernel e2) d = Some []"
    and q: "\<forall>p rs r. map_of sibling_kernel p = Some rs \<and> r \<in> set rs \<and> jump_target r = ''FIREFIK-v2'' \<and> map_of sibling_kernel ''FIREFIK-v2'' \<noteq> None
         \<and> p \<notin> {''FIREFIK'', hostChainName, hostParentChain} \<and> chain_container_id ''FIREFIK-'' p = None
         \<longrightarrow> map_of (e_kernel e2) p = Some rs \<and> map_of (e_kernel e2) ''FIREFIK-v2'' = Some []"
    unfolding fb s(4) append.simps by (elim exE conjE) (rule that)
  have "map_of (e_kernel e2) ''DOCKER-USER'' = Some [[''-j'', ''FIREFIK-v2''], [''-j'', ''FIREFIK'']] \<and> map_of (e_kernel e2) ''FIREFIK-v2'' = Some []"
    by (rule q [rule_format, of _ _ "[''-j'', ''FIREFIK-v2'']"])
      (simp add: sibling_kernel_def hostChainName_def hostParentChain_def chain_container_id_def go_simps)
  then show ?thesis using r c [rule_format, of "''FIREFIK-v2-0123456789ab''"] by (simp add: go_simps)
qed

end
